(* ===== verification/Prelude.thy ===== *)
theory Prelude
  imports Main "HOL-Library.Word" "HOL-Library.Char_ord"
begin

text \<open>
  Shared vocabulary of the development: Python exceptions as values, the result type
  \<open>exn + 'a\<close> with its sequencing operations, decimal rendering of integers (\<open>str(n)\<close>),
  substring operations on strings, and association lists as insertion-ordered
  dictionaries.  Strings are lists of the bytes of their UTF-8 encoding.
\<close>

section \<open>Exceptions\<close>

text \<open>
  An exception value carries its class and the fixed part of its message; a
  \<open>{value!r}\<close> interpolated into a message is left out.  The structured errors of the
  runtime package keep their attributes.
\<close>

datatype exn =
    TypeError string
  | ValueError string
  | OverflowError string
  | KeyError string
  | RuntimeError string
  | Exception string
  | AttributeError string
  | StructError string
  | RuntimeValueDecodeError (decode_code: string) (decode_message: string) (decode_path: string)
  | RuntimePayloadError (payload_code: string) (payload_message: string) (payload_path: string)
  | RuntimeContinuityError (continuity_code: string) (continuity_generation: int) (continuity_sequence: int)
  | RuntimeEventQueueEmpty
  | RuntimeEventQueueClosed
  | RuntimeEventQueueResnapshotRequired (resnapshot_generation: int) (resnapshot_sequence: int)
      (resnapshot_reason: string)
  | ContractCompatibilityError (contract_installed: int) (contract_minimum: int) (contract_maximum: int)

text \<open>The class hierarchy the \<open>except\<close> clauses of the sources rely on.\<close>

fun is_value_error :: "exn \<Rightarrow> bool" where
  "is_value_error (ValueError _) = True"
| "is_value_error (RuntimeValueDecodeError _ _ _) = True"
| "is_value_error (RuntimePayloadError _ _ _) = True"
| "is_value_error _ = False"

fun is_type_error :: "exn \<Rightarrow> bool" where
  "is_type_error (TypeError _) = True"
| "is_type_error _ = False"

fun is_runtime_error :: "exn \<Rightarrow> bool" where
  "is_runtime_error (RuntimeError _) = True"
| "is_runtime_error (RuntimeContinuityError _ _ _) = True"
| "is_runtime_error RuntimeEventQueueClosed = True"
| "is_runtime_error (RuntimeEventQueueResnapshotRequired _ _ _) = True"
| "is_runtime_error (ContractCompatibilityError _ _ _) = True"
| "is_runtime_error _ = False"

text \<open>\<open>str(error)\<close>\<close>

fun exn_message :: "exn \<Rightarrow> string" where
  "exn_message (TypeError m) = m"
| "exn_message (ValueError m) = m"
| "exn_message (OverflowError m) = m"
| "exn_message (KeyError m) = m"
| "exn_message (RuntimeError m) = m"
| "exn_message (Exception m) = m"
| "exn_message (AttributeError m) = m"
| "exn_message (StructError m) = m"
| "exn_message (RuntimeValueDecodeError c m p) = c @ '' at '' @ p @ '': '' @ m"
| "exn_message (RuntimePayloadError c m p) = c @ '' at '' @ p @ '': '' @ m"
| "exn_message (RuntimeContinuityError c g s) = c"
| "exn_message RuntimeEventQueueEmpty = []"
| "exn_message RuntimeEventQueueClosed = ''event queue is closed''"
| "exn_message (RuntimeEventQueueResnapshotRequired g s r) = r"
| "exn_message (ContractCompatibilityError i a b) = ''incompatible WyrePlumber orchestration contract: ''"

section \<open>Results\<close>

named_theorems result_simps \<open>equations of the sequencing operations on results\<close>

definition rbind :: "'e + 'a \<Rightarrow> ('a \<Rightarrow> 'e + 'b) \<Rightarrow> 'e + 'b" where
  "rbind r f = (case r of Inl e \<Rightarrow> Inl e | Inr a \<Rightarrow> f a)"

lemma rbind_Inl [simp, result_simps]: "rbind (Inl e) f = Inl e"
  by (simp add: rbind_def)

lemma rbind_Inr [simp, result_simps]: "rbind (Inr a) f = f a"
  by (simp add: rbind_def)

lemma rbind_cong [fundef_cong]:
  "r = r' \<Longrightarrow> (\<And>a. r' = Inr a \<Longrightarrow> f a = g a) \<Longrightarrow> rbind r f = rbind r' g"
  by (cases r') (simp_all add: rbind_def)

lemma rbind_eq_Inr_iff: "rbind r f = Inr b \<longleftrightarrow> (\<exists>a. r = Inr a \<and> f a = Inr b)"
  by (cases r) simp_all

lemma rbind_eq_Inl_iff: "rbind r f = Inl e \<longleftrightarrow> r = Inl e \<or> (\<exists>a. r = Inr a \<and> f a = Inl e)"
  by (cases r) simp_all

lemma rbind_InrE:
  assumes "rbind r f = Inr b"
  obtains a where "r = Inr a" "f a = Inr b"
  using assms by (auto simp: rbind_eq_Inr_iff)

text \<open>\<open>if not condition: raise error\<close>\<close>

definition check :: "bool \<Rightarrow> 'e \<Rightarrow> 'e + unit" where
  "check c e = (if c then Inr () else Inl e)"

lemma check_simps [simp, result_simps]: "check True e = Inr ()" "check False e = Inl e"
  by (simp_all add: check_def)

lemma check_eq_Inr [simp]: "check c e = Inr u \<longleftrightarrow> c"
  by (simp add: check_def)

lemma check_eq_Inl [simp]: "check c e = Inl e' \<longleftrightarrow> \<not> c \<and> e' = e"
  by (auto simp: check_def)

text \<open>
  A comprehension \<open>tuple(f(item) for item in xs)\<close>: the items in order, stopping at the
  first exception.
\<close>

fun traverse :: "('a \<Rightarrow> 'e + 'b) \<Rightarrow> 'a list \<Rightarrow> 'e + 'b list" where
  "traverse f [] = Inr []"
| "traverse f (x # xs) = rbind (f x) (\<lambda>y. rbind (traverse f xs) (\<lambda>ys. Inr (y # ys)))"

lemma traverse_cong [fundef_cong]:
  "xs = ys \<Longrightarrow> (\<And>x. x \<in> set ys \<Longrightarrow> f x = g x) \<Longrightarrow> traverse f xs = traverse g ys"
  by (induction ys arbitrary: xs) auto

lemma traverse_Inr_iff:
  "traverse f xs = Inr ys \<longleftrightarrow> list_all2 (\<lambda>x y. f x = Inr y) xs ys"
  by (induction xs arbitrary: ys) (auto simp: rbind_eq_Inr_iff list_all2_Cons1)

lemma traverse_map_Inr: "(\<And>x. x \<in> set xs \<Longrightarrow> f (g x) = Inr (h x)) \<Longrightarrow>
  traverse f (map g xs) = Inr (map h xs)"
  by (induction xs) auto

lemma traverse_id: "(\<And>x. x \<in> set xs \<Longrightarrow> f x = Inr x) \<Longrightarrow> traverse f xs = Inr xs"
  by (induction xs) auto

lemma traverse_length: "traverse f xs = Inr ys \<Longrightarrow> length ys = length xs"
  by (auto simp: traverse_Inr_iff dest: list_all2_lengthD)

lemma traverse_set: "traverse f xs = Inr ys \<Longrightarrow> y \<in> set ys \<Longrightarrow> \<exists>x \<in> set xs. f x = Inr y"
  by (induction xs arbitrary: ys) (auto simp: rbind_eq_Inr_iff)

lemma traverse_fails: "x \<in> set xs \<Longrightarrow> f x = Inl e \<Longrightarrow> \<exists>e'. traverse f xs = Inl e'"
proof (induction xs)
  case (Cons a xs)
  then show ?case by (cases "f a"; cases "traverse f xs") auto
qed simp

text \<open>\<open>try: r except (TypeError, ValueError) as error: handler(error)\<close>\<close>

definition catching :: "(exn \<Rightarrow> bool) \<Rightarrow> exn + 'a \<Rightarrow> (exn \<Rightarrow> exn + 'a) \<Rightarrow> exn + 'a" where
  "catching p r h = (case r of Inl e \<Rightarrow> (if p e then h e else Inl e) | Inr a \<Rightarrow> Inr a)"

lemma catching_simps [simp, result_simps]:
  "catching p (Inr a) h = Inr a"
  "p e \<Longrightarrow> catching p (Inl e) h = h e"
  "\<not> p e \<Longrightarrow> catching p (Inl e) h = Inl e"
  by (simp_all add: catching_def)

lemma catching_Inr_iff:
  "catching p r h = Inr a \<longleftrightarrow> r = Inr a \<or> (\<exists>e. r = Inl e \<and> p e \<and> h e = Inr a)"
  by (cases r) (auto simp: catching_def)

abbreviation type_or_value_error :: "exn \<Rightarrow> bool" where
  "type_or_value_error e \<equiv> is_type_error e \<or> is_value_error e"

section \<open>Decimal rendering\<close>

definition digit_char :: "nat \<Rightarrow> char" where
  "digit_char d = char_of (48 + d)"

fun show_nat :: "nat \<Rightarrow> string" where
  "show_nat n = (if n < 10 then [digit_char n] else show_nat (n div 10) @ [digit_char (n mod 10)])"

declare show_nat.simps [simp del]

definition show_int :: "int \<Rightarrow> string" where
  "show_int i = (if i < 0 then ''-'' @ show_nat (nat (- i)) else show_nat (nat i))"

definition is_digit :: "char \<Rightarrow> bool" where
  "is_digit c \<longleftrightarrow> 48 \<le> (of_char c :: nat) \<and> (of_char c :: nat) \<le> 57"

definition digit_value :: "char \<Rightarrow> nat" where
  "digit_value c = of_char c - 48"

lemma of_digit_char: "d < 10 \<Longrightarrow> (of_char (digit_char d) :: nat) = 48 + d"
  by (simp add: digit_char_def of_char_of)

lemma is_digit_digit_char [simp]: "d < 10 \<Longrightarrow> is_digit (digit_char d)"
  by (simp add: is_digit_def of_digit_char)

lemma digit_value_digit_char [simp]: "d < 10 \<Longrightarrow> digit_value (digit_char d) = d"
  by (simp add: digit_value_def of_digit_char)

lemma show_nat_nonempty [simp]: "show_nat n \<noteq> []"
  by (subst show_nat.simps) simp

lemma show_nat_digits: "c \<in> set (show_nat n) \<Longrightarrow> is_digit c"
proof (induction n rule: show_nat.induct)
  case (1 n)
  then show ?case
    by (subst (asm) (2) show_nat.simps) (auto split: if_splits)
qed

text \<open>The value of a string of decimal digits, and that it inverts \<open>str(n)\<close>.\<close>

definition digits_value :: "string \<Rightarrow> nat" where
  "digits_value s = foldl (\<lambda>n c. 10 * n + digit_value c) 0 s"

lemma digits_value_snoc: "digits_value (s @ [c]) = 10 * digits_value s + digit_value c"
  by (simp add: digits_value_def)

lemma digits_value_show_nat [simp]: "digits_value (show_nat n) = n"
proof (induction n rule: show_nat.induct)
  case (1 n)
  show ?case
  proof (cases "n < 10")
    case True
    then show ?thesis by (subst show_nat.simps) (simp add: digits_value_def)
  next
    case False
    with 1 show ?thesis by (subst show_nat.simps) (simp add: digits_value_snoc)
  qed
qed

lemma show_nat_inject [simp]: "show_nat m = show_nat n \<longleftrightarrow> m = n"
  by (metis digits_value_show_nat)

lemma show_int_inject [simp]: "show_int i = show_int j \<longleftrightarrow> i = j"
proof
  have minus: "show_nat n \<noteq> CHR ''-'' # s" for n s
    using show_nat_digits [of "CHR ''-''" n] by (auto simp: is_digit_def)
  assume "show_int i = show_int j"
  then show "i = j"
    using minus minus [symmetric] by (auto simp: show_int_def split: if_splits)
qed simp

section \<open>Substrings\<close>

fun starts_with :: "string \<Rightarrow> string \<Rightarrow> bool" where
  "starts_with [] s = True"
| "starts_with (c # cs) [] = False"
| "starts_with (c # cs) (d # ds) = (c = d \<and> starts_with cs ds)"

fun str_contains :: "string \<Rightarrow> string \<Rightarrow> bool" where
  "str_contains p [] = (p = [])"
| "str_contains p (c # cs) = (starts_with p (c # cs) \<or> str_contains p cs)"

text \<open>\<open>s.replace(old, new)\<close> for a non-empty \<open>old\<close>: leftmost occurrences, not overlapping.\<close>

function str_replace :: "string \<Rightarrow> string \<Rightarrow> string \<Rightarrow> string" where
  "str_replace old new [] = []"
| "str_replace old new (c # cs) =
     (if old \<noteq> [] \<and> starts_with old (c # cs)
      then new @ str_replace old new (drop (length old) (c # cs))
      else c # str_replace old new cs)"
  by pat_completeness auto
termination
  by (relation "measure (\<lambda>(old, new, s). length s)") auto

lemma str_replace_absent: "\<not> str_contains old s \<Longrightarrow> str_replace old new s = s"
  by (induction old new s rule: str_replace.induct) auto

text \<open>\<open>s.lower()\<close> on the ASCII letters.\<close>

definition char_lower :: "char \<Rightarrow> char" where
  "char_lower c = (let n = (of_char c :: nat) in if 65 \<le> n \<and> n \<le> 90 then char_of (n + 32) else c)"

definition str_lower :: "string \<Rightarrow> string" where
  "str_lower s = map char_lower s"

section \<open>Association lists as dictionaries\<close>

text \<open>
  A Python dictionary keeps the order of first insertion; storing to a present key
  replaces the value in place.
\<close>

fun alist_set :: "'k \<Rightarrow> 'v \<Rightarrow> ('k \<times> 'v) list \<Rightarrow> ('k \<times> 'v) list" where
  "alist_set k v [] = [(k, v)]"
| "alist_set k v ((k', v') # xs) = (if k = k' then (k, v) # xs else (k', v') # alist_set k v xs)"

lemma map_of_alist_set [simp]: "map_of (alist_set k v xs) = (map_of xs)(k \<mapsto> v)"
  by (induction xs) (auto simp: fun_eq_iff)

lemma keys_alist_set: "set (map fst (alist_set k v xs)) = insert k (set (map fst xs))"
proof (induction xs)
  case (Cons p xs)
  then show ?case by (cases p) (cases "k = fst p"; simp add: insert_commute)
qed simp

lemma distinct_alist_set [simp]:
  "distinct (map fst xs) \<Longrightarrow> distinct (map fst (alist_set k v xs))"
proof (induction xs)
  case (Cons p xs)
  then show ?case
    using keys_alist_set [of k v xs] by (cases p) (cases "k = fst p"; simp del: set_map)
qed simp

lemma alist_set_fresh: "k \<notin> fst ` set xs \<Longrightarrow> alist_set k v xs = xs @ [(k, v)]"
  by (induction xs) auto

end
