(* ===== verification/Floats.thy ===== *)
theory Floats
  imports Prelude
begin

text \<open>
  Python's \<open>float\<close> as the 64-bit pattern of an IEEE binary64 number, with the operations
  the sources use: \<open>math.isfinite\<close>, \<open>float(int)\<close>, subtraction, \<open>abs\<close>, comparisons, and the
  narrowing to binary32 that \<open>struct.pack("<f", ...)\<close> performs.  A finite double is an
  integer multiple of \<open>2 ^ -1074\<close>; that integer (the \<open>units\<close> of the double) is its exact
  value, and every operation computes on units and rounds to nearest, ties to even.
\<close>

unbundle bit_operations_syntax

type_synonym pyfloat = "64 word"

section \<open>Fields of a binary64 pattern\<close>

definition f64_negative :: "pyfloat \<Rightarrow> bool" where
  "f64_negative w \<longleftrightarrow> 2 ^ 63 \<le> uint w"

definition f64_exponent :: "pyfloat \<Rightarrow> int" where
  "f64_exponent w = (uint w div 2 ^ 52) mod 2048"

definition f64_mantissa :: "pyfloat \<Rightarrow> int" where
  "f64_mantissa w = uint w mod 2 ^ 52"

text \<open>\<open>math.isfinite\<close> and \<open>x != x\<close>\<close>

definition isfinite :: "pyfloat \<Rightarrow> bool" where
  "isfinite w \<longleftrightarrow> f64_exponent w \<noteq> 2047"

definition isnan :: "pyfloat \<Rightarrow> bool" where
  "isnan w \<longleftrightarrow> f64_exponent w = 2047 \<and> f64_mantissa w \<noteq> 0"

text \<open>The pattern with the given fields.\<close>

definition f64_make :: "bool \<Rightarrow> int \<Rightarrow> int \<Rightarrow> pyfloat" where
  "f64_make neg e m = word_of_int ((if neg then 2 ^ 63 else 0) + e * 2 ^ 52 + m)"

text \<open>
  The exact value of a finite double as \<open>m * 2 ^ e\<close> units, with a signed significand \<open>m\<close>
  of at most 53 bits.  \<open>aligned\<close> brings two such values to a common exponent.
\<close>

definition significand :: "nat \<Rightarrow> int \<Rightarrow> int \<Rightarrow> int" where
  "significand p e m = (if e = 0 then m else 2 ^ p + m)"

definition scale :: "int \<Rightarrow> nat" where
  "scale e = nat (e - 1)"

definition f64_signed :: "pyfloat \<Rightarrow> int" where
  "f64_signed w =
     (let n = significand 52 (f64_exponent w) (f64_mantissa w)
      in if f64_negative w then - n else n)"

definition f64_scale :: "pyfloat \<Rightarrow> nat" where
  "f64_scale w = scale (f64_exponent w)"

definition f64_units :: "pyfloat \<Rightarrow> int" where
  "f64_units w = f64_signed w * 2 ^ f64_scale w"

definition aligned :: "pyfloat \<Rightarrow> pyfloat \<Rightarrow> int \<times> int \<times> nat" where
  "aligned a b =
     (let e = min (f64_scale a) (f64_scale b)
      in (f64_signed a * 2 ^ (f64_scale a - e), f64_signed b * 2 ^ (f64_scale b - e), e))"

lemma aligned_units:
  assumes "aligned a b = (x, y, e)"
  shows "f64_units a = x * 2 ^ e" "f64_units b = y * 2 ^ e"
  using assms
  by (auto simp: aligned_def f64_units_def Let_def algebra_simps simp flip: power_add)

section \<open>Rounding to nearest, ties to even\<close>

function bit_length :: "int \<Rightarrow> nat" where
  "bit_length n = (if n \<le> 0 then 0 else Suc (bit_length (n div 2)))"
  by pat_completeness auto
termination
  by (relation "measure nat") auto

declare bit_length.simps [simp del]

definition round_half_even :: "int \<Rightarrow> int \<Rightarrow> int" where
  "round_half_even n d =
     (let q = n div d; r = n mod d
      in if 2 * r < d \<or> (2 * r = d \<and> even q) then q else q + 1)"

text \<open>
  \<open>round_fields p k n\<close> rounds \<open>n * 2 ^ k\<close> units to a significand of \<open>p + 1\<close> bits: the
  result is the pair of exponent and mantissa fields of a format whose least positive
  number is one unit.  The exponent may lie beyond the format's range; the callers check.
\<close>

definition round_fields :: "nat \<Rightarrow> int \<Rightarrow> int \<Rightarrow> int \<times> int" where
  "round_fields p k n =
     (let s = max 0 (int (bit_length n) + k - int (p + 1));
          q = (if s \<le> k then n * 2 ^ nat (k - s) else round_half_even n (2 ^ nat (s - k)))
      in if q < 2 ^ p then (0, q)
         else if q < 2 ^ (p + 1) then (s + 1, q - 2 ^ p)
         else (s + 2, q div 2 - 2 ^ p))"

text \<open>A signed exact value \<open>n * 2 ^ k\<close> units as a double; overflow gives an infinity.\<close>

definition f64_infinity :: "bool \<Rightarrow> pyfloat" where
  "f64_infinity neg = f64_make neg 2047 0"

definition f64_nan :: pyfloat where
  "f64_nan = f64_make False 2047 (2 ^ 51)"

definition f64_round :: "bool \<Rightarrow> int \<Rightarrow> int \<Rightarrow> pyfloat" where
  "f64_round neg k n =
     (case round_fields 52 k n of (e, m) \<Rightarrow> if e < 2047 then f64_make neg e m else f64_infinity neg)"

section \<open>The operations of the sources\<close>

text \<open>\<open>float(i)\<close> for an integer: \<open>OverflowError\<close> beyond the range of doubles.\<close>

definition float_of_int :: "int \<Rightarrow> exn + pyfloat" where
  "float_of_int i =
     (case round_fields 52 1074 \<bar>i\<bar> of
        (e, m) \<Rightarrow> if e < 2047 then Inr (f64_make (i < 0) e m)
                  else Inl (OverflowError ''int too large to convert to float''))"

definition float_abs :: "pyfloat \<Rightarrow> pyfloat" where
  "float_abs w = f64_make False (f64_exponent w) (f64_mantissa w)"

text \<open>Subtraction; an exact zero difference is \<open>+0.0\<close> except for negative zero minus zero.\<close>

definition float_sub :: "pyfloat \<Rightarrow> pyfloat \<Rightarrow> pyfloat" where
  "float_sub a b =
     (if isnan a \<or> isnan b then f64_nan
      else if \<not> isfinite a then
        (if \<not> isfinite b \<and> f64_negative a = f64_negative b then f64_nan else a)
      else if \<not> isfinite b then f64_infinity (\<not> f64_negative b)
      else case aligned a b of
        (x, y, e) \<Rightarrow>
          if x = y then f64_make (f64_negative a \<and> \<not> f64_negative b \<and> x = 0) 0 0
          else f64_round (x < y) (int e) \<bar>x - y\<bar>)"

definition float_mul :: "pyfloat \<Rightarrow> pyfloat \<Rightarrow> pyfloat" where
  "float_mul a b =
     (let neg = (f64_negative a \<noteq> f64_negative b)
      in if isnan a \<or> isnan b then f64_nan
         else if \<not> isfinite a \<or> \<not> isfinite b then
           (if (isfinite a \<and> f64_signed a = 0) \<or> (isfinite b \<and> f64_signed b = 0) then f64_nan
            else f64_infinity neg)
         else f64_round neg (int (f64_scale a) + int (f64_scale b) - 1074)
                \<bar>f64_signed a * f64_signed b\<bar>)"

text \<open>Comparisons: infinities lie beyond every finite value; a NaN compares false.\<close>

definition float_le :: "pyfloat \<Rightarrow> pyfloat \<Rightarrow> bool" where
  "float_le a b \<longleftrightarrow>
     \<not> isnan a \<and> \<not> isnan b \<and>
     (if isfinite a \<and> isfinite b then (case aligned a b of (x, y, e) \<Rightarrow> x \<le> y)
      else if isfinite a then \<not> f64_negative b
      else f64_negative a \<or> (\<not> isfinite b \<and> \<not> f64_negative b))"

definition float_lt :: "pyfloat \<Rightarrow> pyfloat \<Rightarrow> bool" where
  "float_lt a b \<longleftrightarrow> \<not> isnan a \<and> \<not> isnan b \<and> \<not> float_le b a"

definition float_eq :: "pyfloat \<Rightarrow> pyfloat \<Rightarrow> bool" where
  "float_eq a b \<longleftrightarrow> float_le a b \<and> float_le b a"

lemma float_le_finite:
  "isfinite a \<Longrightarrow> isfinite b \<Longrightarrow> float_le a b \<longleftrightarrow> f64_units a \<le> f64_units b"
  using aligned_units [of a b]
  by (cases "aligned a b") (auto simp: float_le_def isnan_def isfinite_def)

text \<open>\<open>value < 0\<close>\<close>

definition float_is_negative :: "pyfloat \<Rightarrow> bool" where
  "float_is_negative w \<longleftrightarrow> float_lt w 0"

section \<open>binary32\<close>

text \<open>
  \<open>struct.pack("<f", x)\<close> rounds to binary32 and raises \<open>OverflowError\<close> when a finite value
  leaves its range; \<open>struct.unpack("<f", b)\<close> widens exactly.  One binary32 unit is
  \<open>2 ^ -149\<close>, that is \<open>2 ^ 925\<close> binary64 units.
\<close>

type_synonym float32 = "32 word"

definition f32_exponent :: "float32 \<Rightarrow> int" where
  "f32_exponent w = (uint w div 2 ^ 23) mod 256"

definition f32_mantissa :: "float32 \<Rightarrow> int" where
  "f32_mantissa w = uint w mod 2 ^ 23"

definition f32_negative :: "float32 \<Rightarrow> bool" where
  "f32_negative w \<longleftrightarrow> 2 ^ 31 \<le> uint w"

definition f32_make :: "bool \<Rightarrow> int \<Rightarrow> int \<Rightarrow> float32" where
  "f32_make neg e m = word_of_int ((if neg then 2 ^ 31 else 0) + e * 2 ^ 23 + m)"

definition f32_pack :: "pyfloat \<Rightarrow> exn + float32" where
  "f32_pack w =
     (if isnan w then
        Inr (f32_make (f64_negative w) 255 (f64_mantissa w div 2 ^ 29 mod 2 ^ 22 + 2 ^ 22))
      else if \<not> isfinite w then Inr (f32_make (f64_negative w) 255 0)
      else case round_fields 23 (int (f64_scale w) - 925) \<bar>f64_signed w\<bar> of
        (e, m) \<Rightarrow> if e < 255 then Inr (f32_make (f64_negative w) e m)
                  else Inl (OverflowError ''float too large to pack with f format''))"

definition f32_unpack :: "float32 \<Rightarrow> pyfloat" where
  "f32_unpack w =
     (if f32_exponent w = 255 then
        (if f32_mantissa w = 0 then f64_infinity (f32_negative w)
         else f64_make (f32_negative w) 2047 ((f32_mantissa w mod 2 ^ 22 + 2 ^ 22) * 2 ^ 29))
      else f64_round (f32_negative w) (int (scale (f32_exponent w)) + 925)
             (significand 23 (f32_exponent w) (f32_mantissa w)))"

text \<open>The definitions a closed computation on floats unfolds.\<close>

lemmas float_eval =
  float_le_def float_lt_def float_eq_def float_abs_def float_sub_def float_is_negative_def
  isnan_def isfinite_def f64_exponent_def f64_mantissa_def f64_negative_def f64_signed_def
  f64_scale_def scale_def significand_def aligned_def f64_make_def f64_round_def
  round_fields_def round_half_even_def bit_length.simps f64_infinity_def f64_nan_def
  float_of_int_def f32_pack_def f32_unpack_def f32_make_def f32_exponent_def f32_mantissa_def
  f32_negative_def

section \<open>Fields of made patterns\<close>

lemma uint_f64_make:
  assumes "0 \<le> e" "e < 2048" "0 \<le> m" "m < 2 ^ 52"
  shows "uint (f64_make neg e m) = (if neg then 2 ^ 63 else 0) + e * 2 ^ 52 + m"
proof -
  let ?n = "(if neg then 2 ^ 63 else 0) + e * 2 ^ 52 + m"
  have "0 \<le> ?n" "?n < 2 ^ 64" using assms by (cases neg; simp)+
  then have "uint (word_of_int ?n :: 64 word) = ?n"
    by (simp only: uint_word_of_int mod_pos_pos_trivial len_num1 len_bit0 len_bit1) simp
  then show ?thesis by (simp only: f64_make_def)
qed

lemma f64_make_fields:
  assumes "0 \<le> e" "e < 2048" "0 \<le> m" "m < 2 ^ 52"
  shows "f64_exponent (f64_make neg e m) = e" "f64_mantissa (f64_make neg e m) = m"
    "f64_negative (f64_make neg e m) = neg"
proof -
  let ?a = "(if neg then 2048 else 0) + e"
  have u: "uint (f64_make neg e m) = ?a * 2 ^ 52 + m"
    using uint_f64_make [OF assms, of neg] by simp
  have "(a * 2 ^ 52 + m) div 2 ^ 52 = a" "(a * 2 ^ 52 + m) mod 2 ^ 52 = m" for a :: int
    using assms by simp_all
  moreover have "?a mod 2048 = e" using assms by simp
  ultimately show "f64_exponent (f64_make neg e m) = e" "f64_mantissa (f64_make neg e m) = m"
    by (simp_all only: f64_exponent_def f64_mantissa_def u)
  show "f64_negative (f64_make neg e m) = neg"
    using assms uint_f64_make [OF assms, of neg] by (auto simp: f64_negative_def)
qed

lemma f64_make_normal:
  assumes "0 < e" "e < 2047" "0 \<le> m" "m < 2 ^ 52"
  shows "f64_signed (f64_make neg e m) = (if neg then - (2 ^ 52 + m) else 2 ^ 52 + m)"
    "f64_scale (f64_make neg e m) = nat (e - 1)" "isfinite (f64_make neg e m)"
    "\<not> isnan (f64_make neg e m)" "f64_negative (f64_make neg e m) = neg"
proof -
  note F = f64_make_fields [of e m neg]
  have E: "0 \<le> e" "e < 2048" "e \<noteq> 0" "e \<noteq> 2047" using assms by simp_all
  show "f64_signed (f64_make neg e m) = (if neg then - (2 ^ 52 + m) else 2 ^ 52 + m)"
    "f64_scale (f64_make neg e m) = nat (e - 1)" "isfinite (f64_make neg e m)"
    "\<not> isnan (f64_make neg e m)" "f64_negative (f64_make neg e m) = neg"
    using F E assms
    by (simp_all add: f64_signed_def f64_scale_def scale_def significand_def isfinite_def isnan_def)
qed

lemma f32_fields_bounds:
  "0 \<le> f32_exponent w" "f32_exponent w < 256" "0 \<le> f32_mantissa w" "f32_mantissa w < 2 ^ 23"
  by (simp_all add: f32_exponent_def f32_mantissa_def)

lemma f32_make_fields [simp]: "f32_make (f32_negative w) (f32_exponent w) (f32_mantissa w) = w"
proof -
  have u: "uint w < 2 ^ 32" "0 \<le> uint w" using uint_bounded [of w] by simp_all
  let ?q = "uint w div 2 ^ 23"
  have "\<And>q::int. 0 \<le> q \<Longrightarrow> q < 512 \<Longrightarrow> q mod 256 = (if q < 256 then q else q - 256)"
  proof -
    fix q :: int
    assume "0 \<le> q" "q < 512"
    then show "q mod 256 = (if q < 256 then q else q - 256)"
      using mod_add_self2 [of "q - 256" 256] mod_pos_pos_trivial [of "q - 256" 256] by simp
  qed
  moreover have "0 \<le> ?q" "?q < 512" using u by (simp_all add: pos_imp_zdiv_nonneg_iff)
  ultimately have "?q mod 256 = (if ?q < 256 then ?q else ?q - 256)" by blast
  moreover have "?q < 256 \<longleftrightarrow> \<not> 2 ^ 31 \<le> uint w" by auto
  ultimately have "(if f32_negative w then 2 ^ 31 else 0) + f32_exponent w * 2 ^ 23 = ?q * 2 ^ 23"
    by (auto simp: f32_negative_def f32_exponent_def algebra_simps)
  then have "(if f32_negative w then 2 ^ 31 else 0) + f32_exponent w * 2 ^ 23 + f32_mantissa w = uint w"
    by (simp add: f32_mantissa_def)
  then show ?thesis by (simp only: f32_make_def word_of_int_uint)
qed

section \<open>Narrowing inverts widening\<close>

lemma bit_length_bounds: "0 < n \<Longrightarrow> 2 ^ (bit_length n - 1) \<le> n \<and> n < 2 ^ bit_length n \<and> 0 < bit_length n"
proof (induction n rule: bit_length.induct)
  case (1 n)
  show ?case
  proof (cases "n div 2 = 0")
    case True
    with 1 have "n = 1" by auto
    then show ?thesis by (simp add: bit_length.simps)
  next
    case False
    with 1 have IH: "2 ^ (bit_length (n div 2) - 1) \<le> n div 2 \<and> n div 2 < 2 ^ bit_length (n div 2) \<and>
      0 < bit_length (n div 2)"
      by auto
    then obtain b where b: "bit_length (n div 2) = Suc b" by (cases "bit_length (n div 2)") auto
    then have "bit_length n = Suc (Suc b)" using 1 by (subst bit_length.simps) simp
    then show ?thesis using IH b by auto
  qed
qed

lemma bit_length_unique:
  assumes "2 ^ b \<le> n" "n < 2 ^ Suc b"
  shows "bit_length n = Suc b"
proof -
  from assms(1) have n: "0 < n" by (meson less_le_trans zero_less_numeral zero_less_power)
  note B = bit_length_bounds [OF n]
  from B assms have "(2::int) ^ (bit_length n - 1) < 2 ^ Suc b" "(2::int) ^ b < 2 ^ bit_length n"
    by linarith+
  then have "bit_length n - 1 < Suc b" "b < bit_length n"
    by (meson power_less_imp_less_exp one_less_numeral_iff semiring_norm(76))+
  with B show ?thesis by linarith
qed

lemma round_half_even_exact: "0 < d \<Longrightarrow> round_half_even (n * d) d = n"
  by (simp add: round_half_even_def Let_def)

text \<open>Rounding a value that already fits the significand is exact.\<close>

lemma round_fields_normalized:
  assumes n: "2 ^ b \<le> n" "n < 2 ^ Suc b" and b: "b \<le> 52" and k: "52 \<le> k"
  shows "round_fields 52 k n = (int b + k - 51, n * 2 ^ (52 - b) - 2 ^ 52)"
proof -
  have len: "bit_length n = Suc b" using n by (rule bit_length_unique)
  have split: "(2::int) ^ 52 = 2 ^ b * 2 ^ (52 - b)" "(2::int) ^ 53 = 2 ^ Suc b * 2 ^ (52 - b)"
    using b by (simp_all flip: power_add power_Suc)
  have "2 ^ b * 2 ^ (52 - b) \<le> n * 2 ^ (52 - b)" "n * 2 ^ (52 - b) < 2 ^ Suc b * 2 ^ (52 - b)"
    using n by simp_all
  then have q: "2 ^ 52 \<le> n * 2 ^ (52 - b)" "n * 2 ^ (52 - b) < 2 ^ 53"
    unfolding split .
  have s: "max 0 (int (bit_length n) + k - int (52 + 1)) = int b + k - 52"
    using k len by simp
  have "nat (k - (int b + k - 52)) = 52 - b" using b by simp
  then show ?thesis
    using q b unfolding round_fields_def Let_def s by simp
qed

lemma round_fields_narrow:
  assumes n: "0 \<le> n" "n < 2 ^ 24" and q: "2 ^ 52 \<le> n * 2 ^ (52 - b)" "n * 2 ^ (52 - b) < 2 ^ 53"
    and b: "b \<le> 23" and e: "0 \<le> e" and norm: "e = 0 \<or> b = 23"
  shows "round_fields 23 (int b + e - 52) (n * 2 ^ (52 - b)) =
    (if n < 2 ^ 23 then (0, n) else (e + 1, n - 2 ^ 23))"
proof -
  have len: "bit_length (n * 2 ^ (52 - b)) = 53"
    using bit_length_unique [of 52 "n * 2 ^ (52 - b)"] q by simp
  have s: "max 0 (int (bit_length (n * 2 ^ (52 - b))) + (int b + e - 52) - int (23 + 1)) = e"
    unfolding len using b e norm by auto
  have "nat (e - (int b + e - 52)) = 52 - b" using b by simp
  then show ?thesis
    using n b unfolding round_fields_def Let_def s by (simp add: round_half_even_exact)
qed

lemma f32_significand_zero:
  "significand 23 (f32_exponent w) (f32_mantissa w) = 0 \<longleftrightarrow> f32_exponent w = 0 \<and> f32_mantissa w = 0"
  using f32_fields_bounds [of w] by (auto simp: significand_def)

text \<open>
  Widening a finite binary32 number to a double and narrowing it again is the identity:
  the double keeps every bit that the narrower format has.
\<close>

lemma f32_pack_unpack:
  assumes fin: "f32_exponent w \<noteq> 255"
  shows "f32_pack (f32_unpack w) = Inr w"
proof -
  let ?neg = "f32_negative w" and ?e = "f32_exponent w" and ?m = "f32_mantissa w"
  let ?n = "significand 23 ?e ?m"
  note bounds = f32_fields_bounds [of w]
  show ?thesis
  proof (cases "?n = 0")
    case True
    then have z: "?e = 0" "?m = 0" by (simp_all add: f32_significand_zero)
    then have "f32_unpack w = f64_make ?neg 0 0"
      using fin by (simp add: f32_unpack_def f64_round_def round_fields_def significand_def
        scale_def bit_length.simps)
    then have "f32_pack (f32_unpack w) = Inr (f32_make ?neg 0 0)"
      by (simp add: f32_pack_def isnan_def isfinite_def f64_make_fields f64_signed_def
        f64_scale_def scale_def significand_def round_fields_def round_half_even_def bit_length.simps)
    then show ?thesis using f32_make_fields [of w] z by simp
  next
    case False
    with bounds have pos: "0 < ?n" and n24: "?n < 2 ^ 24" by (auto simp: significand_def)
    obtain b where len: "bit_length ?n = Suc b"
      using bit_length_bounds [OF pos] by (cases "bit_length ?n") auto
    have b: "2 ^ b \<le> ?n" "?n < 2 ^ Suc b" using bit_length_bounds [OF pos] len by auto
    then have "(2::int) ^ b < 2 ^ 24" using n24 by linarith
    then have b23: "b \<le> 23" using power_less_imp_less_exp [of "2::int" b 24] by simp
    have e0: "0 \<le> int (scale ?e)" by simp
    have norm: "int (scale ?e) = 0 \<or> b = 23"
    proof (cases "?e = 0")
      case False
      then have "2 ^ 23 \<le> ?n" using bounds by (simp add: significand_def)
      then have "(2::int) ^ 23 < 2 ^ Suc b" using b by linarith
      then have "23 < Suc b" using power_less_imp_less_exp [of "2::int" 23 "Suc b"] by simp
      with b23 show ?thesis by simp
    qed (simp add: scale_def)
    let ?k = "int (scale ?e) + 925"
    have rf: "round_fields 52 ?k ?n = (int b + ?k - 51, ?n * 2 ^ (52 - b) - 2 ^ 52)"
      using b b23 by (intro round_fields_normalized) auto
    have sc: "int (scale ?e) \<le> 254" using bounds by (simp add: scale_def)
    have q: "2 ^ 52 \<le> ?n * 2 ^ (52 - b)" "?n * 2 ^ (52 - b) < 2 ^ 53"
    proof -
      have "(2::int) ^ 52 = 2 ^ b * 2 ^ (52 - b)" "(2::int) ^ 53 = 2 ^ Suc b * 2 ^ (52 - b)"
        using b23 by (simp_all flip: power_add power_Suc)
      moreover have "2 ^ b * 2 ^ (52 - b) \<le> ?n * 2 ^ (52 - b)"
        "?n * 2 ^ (52 - b) < 2 ^ Suc b * 2 ^ (52 - b)"
        using b by simp_all
      ultimately show "2 ^ 52 \<le> ?n * 2 ^ (52 - b)" "?n * 2 ^ (52 - b) < 2 ^ 53" by linarith+
    qed
    let ?w = "f64_make ?neg (int b + ?k - 51) (?n * 2 ^ (52 - b) - 2 ^ 52)"
    have E: "0 \<le> int b + ?k - 51" "int b + ?k - 51 < 2047" using b23 sc by simp_all
    have M: "0 \<le> ?n * 2 ^ (52 - b) - 2 ^ 52" "?n * 2 ^ (52 - b) - 2 ^ 52 < 2 ^ 52"
      using q by simp_all
    have unp: "f32_unpack w = ?w"
      using fin E unfolding f32_unpack_def f64_round_def rf by simp
    have E0: "0 < int b + ?k - 51" by simp
    note F = f64_make_normal [OF E0 E(2) M, of ?neg]
    have sg: "\<bar>f64_signed ?w\<bar> = ?n * 2 ^ (52 - b)"
      unfolding F using q by (cases ?neg) simp_all
    have scw: "int (f64_scale ?w) - 925 = int b + int (scale ?e) - 52"
      unfolding F by simp
    have rn: "round_fields 23 (int (f64_scale ?w) - 925) \<bar>f64_signed ?w\<bar> =
        (if ?n < 2 ^ 23 then (0, ?n) else (int (scale ?e) + 1, ?n - 2 ^ 23))"
      unfolding sg scw by (rule round_fields_narrow) (use pos n24 q b23 e0 norm in auto)
    have res: "(if ?n < 2 ^ 23 then (0, ?n) else (int (scale ?e) + 1, ?n - 2 ^ 23)) = (?e, ?m)"
      using bounds by (auto simp: significand_def scale_def split: if_splits)
    show ?thesis
      unfolding unp f32_pack_def rn res unfolding F using F(3,4) fin bounds by simp
  qed
qed

section \<open>Single precision keeps the sign\<close>

lemma round_fields_bounds:
  assumes "0 \<le> n" "round_fields p k n = (e, m)"
  shows "0 \<le> e \<and> 0 \<le> m \<and> m < 2 ^ p"
proof -
  define s where "s = max 0 (int (bit_length n) + k - int (p + 1))"
  define q where "q = (if s \<le> k then n * 2 ^ nat (k - s) else round_half_even n (2 ^ nat (s - k)))"
  have f: "(e, m) = (if q < 2 ^ p then (0, q) else if q < 2 ^ (p + 1) then (s + 1, q - 2 ^ p) else (s + 2, q div 2 - 2 ^ p))"
    using assms(2) [symmetric] unfolding round_fields_def Let_def s_def q_def .
  have s: "0 \<le> s" "int (bit_length n) + k - s \<le> int (p + 1)" by (simp_all add: s_def)
  have n: "n < 2 ^ bit_length n" using assms(1) bit_length_bounds [of n] by (cases "n = 0") (auto simp: bit_length.simps)
  have q0: "0 \<le> q" using assms(1) by (simp add: q_def round_half_even_def Let_def pos_imp_zdiv_nonneg_iff)
  have "q \<le> 2 ^ (p + 1)"
  proof (cases "s \<le> k")
    case True
    have "n * 2 ^ nat (k - s) \<le> 2 ^ bit_length n * 2 ^ nat (k - s)" using n by (intro mult_right_mono) simp_all
    also have "\<dots> = (2::int) ^ (bit_length n + nat (k - s))" by (simp add: power_add)
    also have "\<dots> \<le> 2 ^ (p + 1)" using s(2) True by (intro power_increasing) auto
    finally show ?thesis using True by (simp add: q_def)
  next
    case False
    let ?d = "2 ^ nat (s - k) :: int"
    have "(2::int) ^ bit_length n \<le> 2 ^ (p + 1 + nat (s - k))" using s(2) False by (intro power_increasing) auto
    then have "n < 2 ^ (p + 1) * ?d" using n by (simp add: power_add)
    then have "n div ?d < 2 ^ (p + 1)"
    proof (rule contrapos_pp)
      assume "\<not> n div ?d < 2 ^ (p + 1)"
      then have "2 ^ (p + 1) * ?d \<le> n div ?d * ?d" by (intro mult_right_mono) simp_all
      also have "\<dots> \<le> n" by (simp add: minus_mod_eq_div_mult [symmetric])
      finally show "\<not> n < 2 ^ (p + 1) * ?d" by simp
    qed
    then show ?thesis using False by (auto simp: q_def round_half_even_def Let_def)
  qed
  then show ?thesis using f q0 s(1) by (auto split: if_splits)
qed

lemma uint_f32_make:
  assumes "0 \<le> e" "e < 255" "0 \<le> m" "m < 2 ^ 23"
  shows "uint (f32_make False e m) = e * 2 ^ 23 + m"
proof -
  have "0 \<le> e * 2 ^ 23 + m" "e * 2 ^ 23 + m < 2 ^ 32" using assms by simp_all
  then have "uint (word_of_int (e * 2 ^ 23 + m) :: 32 word) = e * 2 ^ 23 + m"
    by (simp only: uint_word_of_int mod_pos_pos_trivial len_num1 len_bit0 len_bit1) simp
  then show ?thesis by (simp only: f32_make_def if_False add_0_left)
qed

lemma f32_pack_positive:
  assumes "isfinite f" "\<not> f64_negative f" "f32_pack f = Inr w"
  shows "\<not> f32_negative w"
proof -
  obtain e m where r: "round_fields 23 (int (f64_scale f) - 925) \<bar>f64_signed f\<bar> = (e, m)" by fastforce
  then have w: "e < 255" "w = f32_make False e m"
    using assms by (auto simp: f32_pack_def isnan_def isfinite_def split: if_splits)
  have b: "0 \<le> e" "0 \<le> m" "m < 2 ^ 23" using round_fields_bounds [OF _ r] by simp_all
  then show ?thesis using w uint_f32_make [OF b(1) w(1) b(2,3)] by (simp add: f32_negative_def)
qed

lemma f64_round_positive: "0 \<le> n \<Longrightarrow> \<not> f64_negative (f64_round False k n)"
proof -
  assume n: "0 \<le> n"
  obtain e m where r: "round_fields 52 k n = (e, m)" by fastforce
  have "\<not> f64_negative (f64_infinity False)" by code_simp
  then show ?thesis
    using round_fields_bounds [OF n r] r f64_make_fields(3) [of e m False] by (simp add: f64_round_def)
qed

lemma f32_unpack_positive:
  assumes "\<not> f32_negative w" "isfinite (f32_unpack w)"
  shows "\<not> f64_negative (f32_unpack w)"
proof -
  have "f32_exponent w \<noteq> 255"
  proof
    assume e: "f32_exponent w = 255"
    let ?m = "(f32_mantissa w mod 2 ^ 22 + 2 ^ 22) * 2 ^ 29"
    have "0 \<le> f32_mantissa w mod 2 ^ 22" "f32_mantissa w mod 2 ^ 22 < 2 ^ 22" by simp_all
    then have "0 \<le> ?m" "?m < 2 ^ 52" by simp_all
    then have "f64_exponent (f64_make False 2047 ?m) = 2047" by (intro f64_make_fields(1)) simp_all
    moreover have "f64_exponent (f64_infinity False) = 2047" by code_simp
    ultimately show False using assms e by (simp add: f32_unpack_def isfinite_def split: if_splits)
  qed
  moreover have "0 \<le> significand 23 (f32_exponent w) (f32_mantissa w)"
    using f32_fields_bounds [of w] by (simp add: significand_def)
  ultimately show ?thesis using assms f64_round_positive by (simp add: f32_unpack_def)
qed

lemma f64_fields_bounds: "0 \<le> f64_exponent w" "0 \<le> f64_mantissa w"
  by (simp_all add: f64_exponent_def f64_mantissa_def)

lemma f64_positive_units: "\<not> f64_negative w \<Longrightarrow> 0 \<le> f64_units w"
  using f64_fields_bounds [of w] by (simp add: f64_units_def f64_signed_def significand_def Let_def)

lemma not_negative_iff: "isfinite w \<Longrightarrow> \<not> float_lt w 0 \<longleftrightarrow> 0 \<le> f64_units w"
proof -
  assume f: "isfinite w"
  have z: "isfinite 0" "f64_units 0 = 0" by code_simp+
  show ?thesis using f z float_le_finite [OF z(1) f] by (auto simp: float_lt_def isnan_def isfinite_def)
qed

lemma negative_zero:
  assumes "isfinite f" "f64_negative f" "0 \<le> f64_units f"
  shows "f64_signed f = 0 \<and> f64_scale f = 0"
proof -
  let ?n = "significand 52 (f64_exponent f) (f64_mantissa f)"
  have n: "0 \<le> ?n" "?n = 0 \<longleftrightarrow> f64_exponent f = 0 \<and> f64_mantissa f = 0"
    using f64_fields_bounds [of f] by (auto simp: significand_def)
  have "f64_units f = - ?n * 2 ^ f64_scale f" using assms(2) by (simp add: f64_units_def f64_signed_def Let_def)
  then have "?n = 0" using assms(3) n(1) by (simp add: mult_le_0_iff)
  then show ?thesis using n(2) by (simp add: f64_signed_def f64_scale_def scale_def Let_def)
qed

end
