(* ===== verification/Timestamps.thy ===== *)
theory Timestamps
  imports Prelude
begin

text \<open>
  The part of Python's \<open>datetime\<close> the sources use: aware datetimes as microsecond counts
  with a UTC offset, \<open>datetime.fromisoformat\<close> for calendar dates (the ISO week notation is
  left out), conversion to UTC and \<open>isoformat\<close>.  The main fact is that parsing a rendered
  timestamp gives back the instant it was rendered from.
\<close>

section \<open>The calendar\<close>

definition is_leap :: "int \<Rightarrow> bool" where
  "is_leap y \<longleftrightarrow> y mod 4 = 0 \<and> (y mod 100 \<noteq> 0 \<or> y mod 400 = 0)"

definition days_before_year :: "int \<Rightarrow> int" where
  "days_before_year y = (let z = y - 1 in z * 365 + z div 4 - z div 100 + z div 400)"

definition month_lengths :: "bool \<Rightarrow> int list" where
  "month_lengths leap = [31, if leap then 29 else 28, 31, 30, 31, 30, 31, 31, 30, 31, 30, 31]"

definition days_in_month :: "int \<Rightarrow> int \<Rightarrow> int" where
  "days_in_month y m = month_lengths (is_leap y) ! nat (m - 1)"

definition days_before_month :: "int \<Rightarrow> int \<Rightarrow> int" where
  "days_before_month y m = sum_list (take (nat (m - 1)) (month_lengths (is_leap y)))"

definition ymd2ord :: "int \<Rightarrow> int \<Rightarrow> int \<Rightarrow> int" where
  "ymd2ord y m d = days_before_year y + days_before_month y m + d"

fun split_month :: "int list \<Rightarrow> int \<Rightarrow> int \<Rightarrow> int \<times> int" where
  "split_month [] m n = (m, n)"
| "split_month (d # ds) m n =
     (if n < d \<or> ds = [] then (m, n) else split_month ds (m + 1) (n - d))"

definition ord2ymd :: "int \<Rightarrow> int \<times> int \<times> int" where
  "ord2ymd n =
     (let n0 = n - 1;
          n400 = n0 div 146097; r400 = n0 mod 146097;
          n100 = min 3 (r400 div 36524); r100 = r400 - n100 * 36524;
          n4 = r100 div 1461; r4 = r100 mod 1461;
          n1 = min 3 (r4 div 365); r1 = r4 - n1 * 365;
          year = n400 * 400 + n100 * 100 + n4 * 4 + n1 + 1
      in case split_month (month_lengths (is_leap year)) 1 r1 of
           (month, day0) \<Rightarrow> (year, month, day0 + 1))"

section \<open>Datetimes\<close>

text \<open>
  Local time in microseconds since 0001-01-01T00:00:00 and, for an aware datetime, the
  offset of local time from UTC in microseconds.
\<close>

datatype datetime = Datetime (local_us: int) (utc_offset: "int option")

definition us_per_day :: int where
  "us_per_day = 86400000000"

definition max_us :: int where
  "max_us = 3652059 * us_per_day"

definition utc_instant :: "datetime \<Rightarrow> int" where
  "utc_instant d = local_us d - (case utc_offset d of None \<Rightarrow> 0 | Some off \<Rightarrow> off)"

section \<open>Rendering\<close>

definition pad2 :: "int \<Rightarrow> string" where
  "pad2 n = [digit_char (nat (n div 10 mod 10)), digit_char (nat (n mod 10))]"

definition pad4 :: "int \<Rightarrow> string" where
  "pad4 n = pad2 (n div 100) @ pad2 (n mod 100)"

definition pad6 :: "int \<Rightarrow> string" where
  "pad6 n = pad2 (n div 10000) @ pad2 (n div 100 mod 100) @ pad2 (n mod 100)"

text \<open>\<open>isoformat()\<close> of the UTC datetime at instant \<open>u\<close>\<close>

definition isoformat_utc :: "int \<Rightarrow> string" where
  "isoformat_utc u =
     (let t = u mod us_per_day; us = t mod 1000000; s = t div 1000000
      in case ord2ymd (u div us_per_day + 1) of
           (y, m, d) \<Rightarrow>
             pad4 y @ ''-'' @ pad2 m @ ''-'' @ pad2 d @ ''T'' @
             pad2 (s div 3600) @ '':'' @ pad2 (s div 60 mod 60) @ '':'' @ pad2 (s mod 60) @
             (if us = 0 then [] else ''.'' @ pad6 us) @ ''+00:00'')"

definition render_utc :: "int \<Rightarrow> string" where
  "render_utc u = str_replace ''+00:00'' ''Z'' (isoformat_utc u)"

section \<open>Parsing\<close>

definition take_digits :: "nat \<Rightarrow> string \<Rightarrow> (int \<times> string) option" where
  "take_digits k s =
     (if length s < k \<or> \<not> list_all is_digit (take k s) then None
      else Some (int (digits_value (take k s)), drop k s))"

text \<open>\<open>HH[:?MM[:?SS[{.,}fff[fff]]]]\<close>, to the end of the string\<close>

definition parse_fraction :: "string \<Rightarrow> int option" where
  "parse_fraction s =
     (if s = [] \<or> \<not> list_all is_digit s then None
      else Some (int (digits_value (take 6 (s @ ''000000'')))))"

definition parse_seconds :: "string \<Rightarrow> (int \<times> int) option" where
  "parse_seconds s =
     (case take_digits 2 s of None \<Rightarrow> None
      | Some (ss, r) \<Rightarrow>
          (case r of [] \<Rightarrow> Some (ss, 0)
           | c # r' \<Rightarrow> if c = CHR ''.'' \<or> c = CHR '','' then map_option (Pair ss) (parse_fraction r') else None))"

definition parse_clock :: "string \<Rightarrow> (int \<times> int \<times> int \<times> int) option" where
  "parse_clock s =
     (case take_digits 2 s of None \<Rightarrow> None
      | Some (hh, r) \<Rightarrow>
          if r = [] then Some (hh, 0, 0, 0)
          else let sep = (hd r = CHR '':''); r1 = (if sep then tl r else r)
          in case take_digits 2 r1 of None \<Rightarrow> None
             | Some (mm, r2) \<Rightarrow>
                 if r2 = [] then Some (hh, mm, 0, 0)
                 else if sep \<and> hd r2 \<noteq> CHR '':'' then None
                 else map_option (\<lambda>(ss, us). (hh, mm, ss, us))
                        (parse_seconds (if sep then tl r2 else r2)))"

definition is_zone_char :: "char \<Rightarrow> bool" where
  "is_zone_char c \<longleftrightarrow> c = CHR ''+'' \<or> c = CHR ''-'' \<or> c = CHR ''Z''"

definition clock_us :: "int \<times> int \<times> int \<times> int \<Rightarrow> int" where
  "clock_us c = (case c of (hh, mm, ss, us) \<Rightarrow> ((hh * 60 + mm) * 60 + ss) * 1000000 + us)"

text \<open>The offset of the zone designator; \<open>timezone\<close> wants less than 24 hours.\<close>

definition parse_zone :: "string \<Rightarrow> int option" where
  "parse_zone z =
     (case z of [] \<Rightarrow> None
      | c # r \<Rightarrow>
          if c = CHR ''Z'' then (if r = [] then Some 0 else None)
          else if length r \<in> {0, 1, 3} then None
          else case parse_clock r of None \<Rightarrow> None
               | Some t \<Rightarrow>
                   if clock_us t < us_per_day
                   then Some (if c = CHR ''-'' then - clock_us t else clock_us t) else None)"

definition parse_date :: "string \<Rightarrow> (int \<times> int \<times> int) option" where
  "parse_date s =
     (case take_digits 4 s of None \<Rightarrow> None
      | Some (y, r) \<Rightarrow>
          let sep = (r \<noteq> [] \<and> hd r = CHR ''-''); r1 = (if sep then tl r else r)
          in case take_digits 2 r1 of None \<Rightarrow> None
             | Some (m, r2) \<Rightarrow>
                 if (r2 \<noteq> [] \<and> hd r2 = CHR ''-'') \<noteq> sep then None
                 else case take_digits 2 (if sep then tl r2 else r2) of
                        Some (d, []) \<Rightarrow>
                          if 1 \<le> y \<and> 1 \<le> m \<and> m \<le> 12 \<and> 1 \<le> d \<and> d \<le> days_in_month y m
                          then Some (y, m, d) else None
                      | _ \<Rightarrow> None)"

definition valid_clock :: "int \<times> int \<times> int \<times> int \<Rightarrow> bool" where
  "valid_clock c = (case c of (hh, mm, ss, us) \<Rightarrow> hh < 24 \<and> mm < 60 \<and> ss < 60)"

text \<open>\<open>datetime.fromisoformat\<close>; \<open>None\<close> is its \<open>ValueError\<close>.\<close>

definition fromisoformat :: "string \<Rightarrow> datetime option" where
  "fromisoformat s =
     (let at = (if 4 < length s \<and> s ! 4 = CHR ''-'' then 10 else 8)
      in case parse_date (take at s) of None \<Rightarrow> None
         | Some (y, m, d) \<Rightarrow>
             let midnight = (ymd2ord y m d - 1) * us_per_day; t = drop (at + 1) s
             in if length s \<le> at then Some (Datetime midnight None)
                else let clock = takeWhile (\<lambda>c. \<not> is_zone_char c) t;
                         zone = dropWhile (\<lambda>c. \<not> is_zone_char c) t
                in case parse_clock clock of None \<Rightarrow> None
                   | Some c \<Rightarrow>
                       if \<not> valid_clock c then None
                       else if zone = [] then Some (Datetime (midnight + clock_us c) None)
                       else map_option (\<lambda>off. Datetime (midnight + clock_us c) (Some off)) (parse_zone zone))"

definition parse_iso :: "string \<Rightarrow> datetime option" where
  "parse_iso s = fromisoformat (str_replace ''Z'' ''+00:00'' s)"

section \<open>The calendar round trip\<close>

lemma sum_split_month:
  assumes "split_month ds m n = (m', n')" "0 \<le> n" "n < sum_list ds" "ds \<noteq> []"
  shows "m \<le> m' \<and> m' < m + int (length ds) \<and> n = sum_list (take (nat (m' - m)) ds) + n' \<and>
    0 \<le> n' \<and> n' < ds ! nat (m' - m)"
  using assms
proof (induction ds m n rule: split_month.induct)
  case (2 d ds m n)
  show ?case
  proof (cases "n < d \<or> ds = []")
    case True
    with 2 show ?thesis by auto
  next
    case False
    with 2 have IH: "m + 1 \<le> m' \<and> m' < m + 1 + int (length ds) \<and>
        n - d = sum_list (take (nat (m' - (m + 1))) ds) + n' \<and> 0 \<le> n' \<and>
        n' < ds ! nat (m' - (m + 1))"
      by auto
    then have "nat (m' - m) = Suc (nat (m' - (m + 1)))" by linarith
    with IH show ?thesis by auto
  qed
qed simp

lemma succ_mod_zero:
  assumes "0 < k"
  shows "(z + 1) mod k = 0 \<longleftrightarrow> z mod k = k - (1::int)"
proof -
  have "(z + 1) mod k = (z mod k + 1) mod k" by (simp add: mod_simps)
  have B: "0 \<le> z mod k" "z mod k < k" using assms by simp_all
  show ?thesis
  proof (cases "z mod k + 1 = k")
    case False
    with B have "(z mod k + 1) mod k = z mod k + 1" by (intro mod_pos_pos_trivial) linarith+
    with False B \<open>(z + 1) mod k = (z mod k + 1) mod k\<close> show ?thesis by linarith
  qed (use \<open>(z + 1) mod k = (z mod k + 1) mod k\<close> in simp)
qed

text \<open>The fields of \<open>ord2ymd\<close>: a positive year, and a date whose ordinal is the argument.\<close>

lemma ord2ymd_sound:
  assumes n: "1 \<le> n" and eq: "ord2ymd n = (y, m, d)"
  shows "1 \<le> y" "1 \<le> m" "m \<le> 12" "1 \<le> d" "d \<le> days_in_month y m" "ymd2ord y m d = n"
    "n \<le> 3652059 \<Longrightarrow> y \<le> 9999"
proof -
  define n0 where "n0 = n - 1"
  define a where "a = n0 div 146097"
  define r where "r = n0 mod 146097"
  define b where "b = min 3 (r div 36524)"
  define r2 where "r2 = r - b * 36524"
  define c where "c = r2 div 1461"
  define r3 where "r3 = r2 mod 1461"
  define e where "e = min 3 (r3 div 365)"
  define r4 where "r4 = r3 - e * 365"
  define z where "z = 400 * a + 100 * b + 4 * c + e"
  have n0: "0 \<le> n0" "n0 = 146097 * a + r" using n by (simp_all add: n0_def a_def r_def)
  have a: "0 \<le> a" using n0(1) by (simp add: a_def pos_imp_zdiv_nonneg_iff)
  have r: "0 \<le> r" "r < 146097" by (simp_all add: r_def)
  have b: "0 \<le> b" "b \<le> 3" "0 \<le> r2" "r2 \<le> 36524" "b < 3 \<Longrightarrow> r2 < 36524"
    using r unfolding b_def r2_def by (auto simp: min_def pos_imp_zdiv_nonneg_iff)
  have c: "0 \<le> c" "c \<le> 24" "r2 = 1461 * c + r3" "0 \<le> r3" "r3 < 1461"
    using b unfolding c_def r3_def by (auto simp: pos_imp_zdiv_nonneg_iff)
  have e: "0 \<le> e" "e \<le> 3" "0 \<le> r4" "r4 \<le> 365" "e < 3 \<Longrightarrow> r4 < 365" "r3 = 365 * e + r4"
    using c unfolding e_def r4_def by (auto simp: min_def pos_imp_zdiv_nonneg_iff)
  have split: "z = 4 * (100 * a + 25 * b + c) + e" "z = 100 * (4 * a + b) + (4 * c + e)"
    "z = 400 * a + (100 * b + 4 * c + e)"
    by (simp_all add: z_def)
  have z4: "z div 4 = 100 * a + 25 * b + c" "z mod 4 = e"
    using e by (auto intro: int_div_pos_eq [OF split(1)] int_mod_pos_eq [OF split(1)])
  have z100: "z div 100 = 4 * a + b" "z mod 100 = 4 * c + e"
    using e c by (auto intro: int_div_pos_eq [OF split(2)] int_mod_pos_eq [OF split(2)])
  have z400: "z div 400 = a" "z mod 400 = 100 * b + 4 * c + e"
    using e c b by (auto intro: int_div_pos_eq [OF split(3)] int_mod_pos_eq [OF split(3)])
  have before: "days_before_year (z + 1) = 146097 * a + 36524 * b + 1461 * c + 365 * e"
    unfolding days_before_year_def Let_def using z4(1) z100(1) z400(1) by (simp add: z_def)
  have leap: "is_leap (z + 1) \<longleftrightarrow> e = 3 \<and> (c \<noteq> 24 \<or> b = 3)"
  proof -
    have "(z + 1) mod 4 = 0 \<longleftrightarrow> e = 3" "(z + 1) mod 100 = 0 \<longleftrightarrow> 4 * c + e = 99"
      "(z + 1) mod 400 = 0 \<longleftrightarrow> 100 * b + 4 * c + e = 399"
      by (simp_all add: succ_mod_zero z4 z100 z400)
    then show ?thesis using e c b unfolding is_leap_def by auto
  qed
  have total: "sum_list (month_lengths (is_leap (z + 1))) = (if is_leap (z + 1) then 366 else 365)"
    by (simp add: month_lengths_def)
  have bound: "r4 < sum_list (month_lengths (is_leap (z + 1)))"
  proof (cases "is_leap (z + 1)")
    case False
    then have "r4 < 365" using e c b unfolding leap by (cases "e = 3") auto
    with False show ?thesis unfolding total by simp
  qed (use total e in simp)
  obtain m0 d0 where sm: "split_month (month_lengths (is_leap (z + 1))) 1 r4 = (m0, d0)"
    by (cases "split_month (month_lengths (is_leap (z + 1))) 1 r4")
  have "ord2ymd n = (z + 1, m0, d0 + 1)"
    using sm unfolding ord2ymd_def Let_def
    by (simp add: n0_def [symmetric] a_def [symmetric] r_def [symmetric] b_def [symmetric]
      r2_def [symmetric] c_def [symmetric] r3_def [symmetric] e_def [symmetric] r4_def [symmetric]
      z_def algebra_simps)
  with eq have yz: "y = z + 1" "m = m0" "d = d0 + 1" by simp_all
  have S: "1 \<le> m0 \<and> m0 < 1 + int (length (month_lengths (is_leap (z + 1)))) \<and>
      r4 = sum_list (take (nat (m0 - 1)) (month_lengths (is_leap (z + 1)))) + d0 \<and>
      0 \<le> d0 \<and> d0 < month_lengths (is_leap (z + 1)) ! nat (m0 - 1)"
    using sm e(3) bound by (rule sum_split_month) (simp add: month_lengths_def)
  show "1 \<le> y" using yz a b c e by (simp add: z_def)
  show "1 \<le> m" "m \<le> 12" using S yz by (simp_all add: month_lengths_def)
  show "1 \<le> d" "d \<le> days_in_month y m" using S yz by (simp_all add: days_in_month_def)
  show "y \<le> 9999" if "n \<le> 3652059"
  proof (rule ccontr)
    assume "\<not> y \<le> 9999"
    then have z: "9999 \<le> 400 * a + (100 * b + 4 * c + e)" using yz by (simp add: z_def)
    have top: "146097 * a + 36524 * b + 1461 * c + 365 * e + r4 \<le> 3652058"
      using that n0 b c e by (simp add: n0_def r2_def)
    with b c e a z have "a \<le> 24" "24 \<le> a" by linarith+
    with z b c e have "a = 24" "b = 3" "c = 24" "e = 3" by linarith+
    with top e show False by simp
  qed
  show "ymd2ord y m d = n"
    using S yz before n0 b c e by (simp add: ymd2ord_def days_before_month_def n0_def r2_def)
qed

section \<open>Parsing a rendered timestamp\<close>

lemma pad2_digits: "c \<in> set (pad2 n) \<Longrightarrow> is_digit c"
  by (auto simp: pad2_def)

lemma pad_digits: "c \<in> set (pad4 n) \<Longrightarrow> is_digit c" "c \<in> set (pad6 n) \<Longrightarrow> is_digit c"
  by (auto simp: pad4_def pad6_def dest: pad2_digits)

lemma pad_length [simp]: "length (pad2 n) = 2" "length (pad4 n) = 4" "length (pad6 n) = 6"
  by (simp_all add: pad2_def pad4_def pad6_def)

lemma pad_nonempty [simp]: "pad2 n \<noteq> []" "pad4 n \<noteq> []" "pad6 n \<noteq> []"
  by (simp_all add: pad2_def pad4_def pad6_def)

lemma digits_value_pad2: "0 \<le> n \<Longrightarrow> n < 100 \<Longrightarrow> digits_value (pad2 n) = nat n"
proof -
  assume n: "0 \<le> n" "n < 100"
  then have d: "0 \<le> n div 10" "n div 10 < 10" by (simp_all add: pos_imp_zdiv_nonneg_iff)
  then have "int (digits_value (pad2 n)) = 10 * (n div 10) + n mod 10"
    using n by (simp add: pad2_def digits_value_def nat_less_iff)
  then show ?thesis by (simp add: nat_eq_iff)
qed

lemma digits_value_append2:
  "length t = 2 \<Longrightarrow> digits_value (s @ t) = 100 * digits_value s + digits_value t"
  by (cases t) (auto simp: digits_value_def length_Suc_conv numeral_2_eq_2)

lemma digits_value_pad4: "0 \<le> n \<Longrightarrow> n < 10000 \<Longrightarrow> digits_value (pad4 n) = nat n"
proof -
  assume n: "0 \<le> n" "n < 10000"
  then have "0 \<le> n div 100" "n div 100 < 100" by (simp_all add: pos_imp_zdiv_nonneg_iff)
  then have "int (digits_value (pad4 n)) = 100 * (n div 100) + n mod 100"
    by (simp add: pad4_def digits_value_append2 digits_value_pad2)
  then show ?thesis by (simp add: nat_eq_iff)
qed

lemma digits_value_pad6: "0 \<le> n \<Longrightarrow> n < 1000000 \<Longrightarrow> digits_value (pad6 n) = nat n"
proof -
  assume n: "0 \<le> n" "n < 1000000"
  then have "0 \<le> n div 10000" "n div 10000 < 100" by (simp_all add: pos_imp_zdiv_nonneg_iff)
  then have "int (digits_value (pad6 n)) = 100 * (100 * (n div 10000) + n div 100 mod 100) + n mod 100"
    by (simp add: pad6_def digits_value_append2 digits_value_pad2 flip: append_assoc)
  also have "n div 10000 = n div 100 div 100" by (simp add: div_mult2_eq [symmetric] zdiv_zmult2_eq [symmetric])
  also have "100 * (n div 100 div 100) + n div 100 mod 100 = n div 100" by simp
  finally show ?thesis by (simp add: nat_eq_iff)
qed

lemma take_digits_pad:
  "0 \<le> n \<Longrightarrow> n < 100 \<Longrightarrow> take_digits 2 (pad2 n @ r) = Some (n, r)"
  "0 \<le> n \<Longrightarrow> n < 10000 \<Longrightarrow> take_digits 4 (pad4 n @ r) = Some (n, r)"
  by (auto simp: take_digits_def list_all_iff digits_value_pad2 digits_value_pad4
    dest: pad2_digits pad_digits)

lemma str_replace_prefix:
  "c \<notin> set p \<Longrightarrow> str_replace (c # cs) new (p @ s) = p @ str_replace (c # cs) new s"
  by (induction p) auto

lemma is_digit_not [simp]:
  "\<not> is_digit CHR ''-''" "\<not> is_digit CHR ''+''" "\<not> is_digit CHR ''Z''" "\<not> is_digit CHR ''T''"
  "\<not> is_digit CHR '':''" "\<not> is_digit CHR ''.''" "\<not> is_digit CHR '',''"
  by (simp_all add: is_digit_def)

definition clock_string :: "int \<Rightarrow> int \<Rightarrow> int \<Rightarrow> int \<Rightarrow> string" where
  "clock_string hh mm ss us =
     pad2 hh @ '':'' @ pad2 mm @ '':'' @ pad2 ss @ (if us = 0 then [] else ''.'' @ pad6 us)"

lemma clock_string_chars: "c \<in> set (clock_string hh mm ss us) \<Longrightarrow> is_digit c \<or> c = CHR '':'' \<or> c = CHR ''.''"
  by (auto simp: clock_string_def split: if_splits dest: pad2_digits pad_digits)

lemma parse_clock_string:
  assumes "0 \<le> hh" "hh < 100" "0 \<le> mm" "mm < 100" "0 \<le> ss" "ss < 100" "0 \<le> us" "us < 1000000"
  shows "parse_clock (clock_string hh mm ss us) = Some (hh, mm, ss, us)"
proof -
  have "parse_fraction (pad6 us) = Some us"
    using assms by (auto simp: parse_fraction_def list_all_iff digits_value_pad6 dest: pad_digits)
  moreover have "take_digits 2 (pad2 ss) = Some (ss, [])"
    using take_digits_pad(1) [of ss "[]"] assms by simp
  ultimately have "parse_seconds (pad2 ss @ (if us = 0 then [] else ''.'' @ pad6 us)) = Some (ss, us)"
    using assms by (simp add: parse_seconds_def take_digits_pad)
  then show ?thesis
    using assms by (simp add: parse_clock_def clock_string_def take_digits_pad Let_def)
qed

text \<open>The fields a rendered instant is made of, and their ranges.\<close>

lemma isoformat_utc_fields:
  assumes u: "0 \<le> u" "u < max_us"
  obtains y m d hh mm ss us where
    "isoformat_utc u = pad4 y @ ''-'' @ pad2 m @ ''-'' @ pad2 d @ ''T'' @ clock_string hh mm ss us @ ''+00:00''"
    "1 \<le> y" "y \<le> 9999" "1 \<le> m" "m \<le> 12" "1 \<le> d" "d \<le> days_in_month y m"
    "0 \<le> hh" "hh < 24" "0 \<le> mm" "mm < 60" "0 \<le> ss" "ss < 60" "0 \<le> us" "us < 1000000"
    "(ymd2ord y m d - 1) * us_per_day + clock_us (hh, mm, ss, us) = u"
proof -
  obtain y m d where o: "ord2ymd (u div us_per_day + 1) = (y, m, d)" by (cases "ord2ymd (u div us_per_day + 1)")
  have n: "1 \<le> u div us_per_day + 1" "u div us_per_day + 1 \<le> 3652059"
    using u by (simp_all add: us_per_day_def max_us_def pos_imp_zdiv_nonneg_iff)
  note O = ord2ymd_sound [OF n(1) o]
  define t where "t = u mod us_per_day"
  define s where "s = t div 1000000"
  have t: "0 \<le> t" "t < us_per_day" by (simp_all add: t_def us_per_day_def)
  have s: "0 \<le> s" "s < 86400" using t by (simp_all add: s_def us_per_day_def pos_imp_zdiv_nonneg_iff)
  have hm: "s div 3600 = s div 60 div 60" by (simp add: zdiv_zmult2_eq [symmetric])
  have "s div 60 div 60 * 60 + s div 60 mod 60 = s div 60" "s div 60 * 60 + s mod 60 = s"
    by simp_all
  moreover have "s * 1000000 + t mod 1000000 = t" by (simp add: s_def)
  ultimately have clock: "clock_us (s div 3600, s div 60 mod 60, s mod 60, t mod 1000000) = t"
    unfolding clock_us_def hm prod.case by (simp only:)
  show ?thesis
  proof
    show "isoformat_utc u = pad4 y @ ''-'' @ pad2 m @ ''-'' @ pad2 d @ ''T'' @
        clock_string (s div 3600) (s div 60 mod 60) (s mod 60) (t mod 1000000) @ ''+00:00''"
      by (simp add: isoformat_utc_def Let_def o clock_string_def t_def s_def)
    show "(ymd2ord y m d - 1) * us_per_day +
        clock_us (s div 3600, s div 60 mod 60, s mod 60, t mod 1000000) = u"
      unfolding clock O(6) by (simp add: t_def)
  qed (use O n s in \<open>simp_all add: pos_imp_zdiv_nonneg_iff\<close>)
qed

lemma parse_date_string:
  assumes "1 \<le> y" "y \<le> 9999" "1 \<le> m" "m \<le> 12" "1 \<le> d" "d \<le> days_in_month y m"
  shows "parse_date (pad4 y @ ''-'' @ pad2 m @ ''-'' @ pad2 d) = Some (y, m, d)"
proof -
  have "nat (m - 1) < 12" using assms by simp
  then have "days_in_month y m \<in> set (month_lengths (is_leap y))"
    unfolding days_in_month_def by (intro nth_mem) (simp add: month_lengths_def)
  then have "days_in_month y m \<le> 31" by (auto simp: month_lengths_def split: if_splits)
  moreover have "take_digits 2 (pad2 d) = Some (d, [])" if "d < 100"
    using take_digits_pad(1) [of d "[]"] that assms by simp
  ultimately show ?thesis
    using assms by (simp add: parse_date_def take_digits_pad Let_def)
qed

lemma parse_render_utc:
  assumes u: "0 \<le> u" "u < max_us"
  shows "parse_iso (render_utc u) = Some (Datetime u (Some 0))"
proof -
  obtain y m d hh mm ss us where
    iso: "isoformat_utc u = pad4 y @ ''-'' @ pad2 m @ ''-'' @ pad2 d @ ''T'' @ clock_string hh mm ss us @ ''+00:00''"
    and date: "1 \<le> y" "y \<le> 9999" "1 \<le> m" "m \<le> 12" "1 \<le> d" "d \<le> days_in_month y m"
    and clock: "0 \<le> hh" "hh < 24" "0 \<le> mm" "mm < 60" "0 \<le> ss" "ss < 60" "0 \<le> us" "us < 1000000"
    and whole: "(ymd2ord y m d - 1) * us_per_day + clock_us (hh, mm, ss, us) = u"
    using u by (rule isoformat_utc_fields)
  let ?D = "pad4 y @ ''-'' @ pad2 m @ ''-'' @ pad2 d" and ?C = "clock_string hh mm ss us"
  let ?P = "?D @ ''T'' @ ?C"
  have chars: "CHR ''+'' \<notin> set ?P" "CHR ''Z'' \<notin> set ?P"
    by (auto dest: pad2_digits pad_digits clock_string_chars)
  have "render_utc u = str_replace ''+00:00'' ''Z'' (?P @ ''+00:00'')"
    unfolding render_utc_def iso by simp
  also have "\<dots> = ?P @ ''Z''" by (subst str_replace_prefix [OF chars(1)]) simp
  finally have "str_replace ''Z'' ''+00:00'' (render_utc u) = str_replace ''Z'' ''+00:00'' (?P @ ''Z'')"
    by (rule arg_cong)
  also have "\<dots> = ?P @ ''+00:00''" by (subst str_replace_prefix [OF chars(2)]) simp
  finally have s: "str_replace ''Z'' ''+00:00'' (render_utc u) = ?D @ CHR ''T'' # ?C @ ''+00:00''"
    by simp
  have at: "(if 4 < length (?D @ CHR ''T'' # ?C @ ''+00:00'') \<and>
      (?D @ CHR ''T'' # ?C @ ''+00:00'') ! 4 = CHR ''-'' then 10 else 8) = (10::nat)"
    by (simp add: nth_append)
  have "\<forall>c \<in> set ?C. \<not> is_zone_char c"
    by (auto simp: is_zone_char_def dest: clock_string_chars)
  then have zone: "takeWhile (\<lambda>c. \<not> is_zone_char c) (?C @ ''+00:00'') = ?C"
      "dropWhile (\<lambda>c. \<not> is_zone_char c) (?C @ ''+00:00'') = ''+00:00''"
    by (simp_all add: takeWhile_append dropWhile_append is_zone_char_def)
  have "parse_zone ''+00:00'' = Some 0"
    by (simp add: parse_zone_def parse_clock_def take_digits_def is_digit_def digits_value_def
      digit_value_def clock_us_def us_per_day_def Let_def numeral_2_eq_2)
  moreover have "parse_clock ?C = Some (hh, mm, ss, us)"
    using clock by (intro parse_clock_string) simp_all
  moreover have "valid_clock (hh, mm, ss, us)" using clock by (simp add: valid_clock_def)
  moreover have "parse_date (take 10 (?D @ CHR ''T'' # ?C @ ''+00:00'')) = Some (y, m, d)"
    using parse_date_string [OF date] by simp
  moreover have "drop 11 (?D @ CHR ''T'' # ?C @ ''+00:00'') = ?C @ ''+00:00''" by simp
  ultimately show ?thesis
    unfolding parse_iso_def s fromisoformat_def at Let_def using whole zone by simp
qed

end
