(* ===== verification/Immutable.thy ===== *)
theory Immutable
  imports Prelude Floats Timestamps
begin

text \<open>
  The universe of Python objects the runtime package handles, and the containers of
  \<open>src/src/wyreplumber/runtime/_immutable.py\<close>: \<open>FrozenDict\<close>, \<open>freeze_json\<close> and
  \<open>thaw_json\<close>.  The lemmas say that freezing yields an immutable JSON value, is
  idempotent, and is inverted by thawing followed by freezing.
\<close>

section \<open>Python objects\<close>

text \<open>
  \<open>PStrEnum\<close> is a member of a \<open>str\<close>-based \<open>Enum\<close> (class name and value), \<open>PIntEnum\<close>
  one of an \<open>int\<close>-based one (class, member name and value).  \<open>PDict\<close> is any mutable
  mapping, \<open>PList\<close> any sequence that is neither a tuple, a string nor bytes, \<open>PFrozen\<close> a
  \<open>FrozenDict\<close> with its items in insertion order.  \<open>PValue\<close> is an instance of a
  \<open>RuntimeValue\<close> dataclass: its \<open>VALUE_TYPE\<close> and its serialised fields in declaration
  order.  \<open>PSpaObject\<close> is a typed SPA object, a mutable mapping of its own: the name of its
  class, \<open>_object_type\<close>, \<open>_object_id\<close>, \<open>_object_name\<close>, \<open>_properties\<close>, \<open>property_flags\<close> and
  \<open>property_keys\<close>.  \<open>POther\<close> is any other object, by the name of its type.
\<close>

datatype pyval =
    PNone
  | PBool bool
  | PInt int
  | PFloat pyfloat
  | PStr string
  | PBytes "8 word list"
  | PTuple "pyval list"
  | PList "pyval list"
  | PDict "(pyval \<times> pyval) list"
  | PFrozen "(string \<times> pyval) list"
  | PStrEnum string string
  | PIntEnum string string int
  | PDatetime datetime
  | PValue string "(string \<times> pyval) list"
  | PSpaObject string int int "string option" "(pyval \<times> pyval) list" "(pyval \<times> pyval) list" "(pyval \<times> pyval) list"
  | POther string

type_synonym fields = "(string \<times> pyval) list"

text \<open>\<open>isinstance(value, str)\<close>, \<open>isinstance(value, int)\<close> with \<open>bool\<close> excluded, and so on.\<close>

fun as_str :: "pyval \<Rightarrow> string option" where
  "as_str (PStr s) = Some s"
| "as_str (PStrEnum c s) = Some s"
| "as_str _ = None"

fun as_int :: "pyval \<Rightarrow> int option" where
  "as_int (PInt i) = Some i"
| "as_int (PIntEnum c n i) = Some i"
| "as_int _ = None"

fun as_bool :: "pyval \<Rightarrow> bool option" where
  "as_bool (PBool b) = Some b"
| "as_bool _ = None"

text \<open>A \<open>Sequence\<close> that is not a string or bytes, and a \<open>Mapping\<close>.\<close>

fun as_seq :: "pyval \<Rightarrow> pyval list option" where
  "as_seq (PTuple xs) = Some xs"
| "as_seq (PList xs) = Some xs"
| "as_seq _ = None"

fun as_mapping :: "pyval \<Rightarrow> (pyval \<times> pyval) list option" where
  "as_mapping (PDict kvs) = Some kvs"
| "as_mapping (PFrozen items) = Some (map (\<lambda>(k, v). (PStr k, v)) items)"
| "as_mapping (PSpaObject c t i n props flags keys) = Some props"
| "as_mapping _ = None"

text \<open>\<open>bool(value)\<close>, for the conditions that test an object directly.\<close>

fun truthy :: "pyval \<Rightarrow> bool" where
  "truthy PNone = False"
| "truthy (PBool b) = b"
| "truthy (PInt i) = (i \<noteq> 0)"
| "truthy (PFloat f) = (\<not> float_eq f 0)"
| "truthy (PStr s) = (s \<noteq> [])"
| "truthy (PBytes b) = (b \<noteq> [])"
| "truthy (PTuple xs) = (xs \<noteq> [])"
| "truthy (PList xs) = (xs \<noteq> [])"
| "truthy (PDict kvs) = (kvs \<noteq> [])"
| "truthy (PFrozen kvs) = (kvs \<noteq> [])"
| "truthy (PStrEnum c s) = (s \<noteq> [])"
| "truthy (PIntEnum c n i) = (i \<noteq> 0)"
| "truthy (PSpaObject c t i n props flags keys) = (props \<noteq> [])"
| "truthy _ = True"

section \<open>Equality\<close>

text \<open>
  The numbers compare by value across \<open>bool\<close>, \<open>int\<close> and \<open>float\<close>: an integer equals a
  float when the float is finite and its exact value, an integer multiple of
  \<open>2 ^ -1074\<close>, is that integer.
\<close>

fun number_of :: "pyval \<Rightarrow> (int + pyfloat) option" where
  "number_of (PBool b) = Some (Inl (if b then 1 else 0))"
| "number_of (PInt i) = Some (Inl i)"
| "number_of (PIntEnum c n i) = Some (Inl i)"
| "number_of (PFloat f) = Some (Inr f)"
| "number_of _ = None"

fun int_eq_float :: "int \<Rightarrow> pyfloat \<Rightarrow> bool" where
  "int_eq_float i f = (isfinite f \<and> f64_units f = i * 2 ^ 1074)"

fun number_eq :: "int + pyfloat \<Rightarrow> int + pyfloat \<Rightarrow> bool" where
  "number_eq (Inl i) (Inl j) = (i = j)"
| "number_eq (Inl i) (Inr g) = int_eq_float i g"
| "number_eq (Inr f) (Inl j) = int_eq_float j f"
| "number_eq (Inr f) (Inr g) = float_eq f g"

text \<open>
  Lookup in a \<open>FrozenDict\<close>: the loop of \<open>__getitem__\<close> over the items.
\<close>

fun FrozenDict_getitem :: "(string \<times> 'v) list \<Rightarrow> string \<Rightarrow> exn + 'v" where
  "FrozenDict_getitem [] key = Inl (KeyError key)"
| "FrozenDict_getitem ((candidate, value) # items) key =
     (if candidate = key then Inr value else FrozenDict_getitem items key)"

lemma FrozenDict_getitem_map_of:
  "FrozenDict_getitem items key = (case map_of items key of None \<Rightarrow> Inl (KeyError key) | Some v \<Rightarrow> Inr v)"
  by (induction items key rule: FrozenDict_getitem.induct) auto

lemma pyval_size_member [termination_simp]: "x \<in> set xs \<Longrightarrow> size x < Suc (size_list size (xs :: pyval list))"
  by (induction xs) auto

lemma pyval_size_items [termination_simp]:
  "(k, v) \<in> set items \<Longrightarrow> size v < Suc (size_list (size_prod (\<lambda>_. 0) size) (items :: fields))"
  by (induction items) auto

lemma pyval_size_items' [termination_simp]:
  "(k, v) \<in> set items \<Longrightarrow> size v < Suc (size_list (size_prod f size) (items :: ('k \<times> pyval) list))"
  by (induction items) auto

lemma pyval_size_keys [termination_simp]:
  "(k, v) \<in> set items \<Longrightarrow> size k < Suc (size_list (size_prod size f) (items :: (pyval \<times> 'v) list))"
  by (induction items) auto

section \<open>Freezing and thawing\<close>

text \<open>
  \<open>freeze_json\<close> and the item loop of \<open>FrozenDict.__init__\<close> call each other.  The items of
  a mapping are frozen in order; a key that is not a string is rejected before its value is
  looked at.
\<close>

function freeze_json :: "pyval \<Rightarrow> exn + pyval" where
  "freeze_json (PStrEnum c s) = Inr (PStr s)"
| "freeze_json (PIntEnum c n i) = Inr (PInt i)"
| "freeze_json PNone = Inr PNone"
| "freeze_json (PBool b) = Inr (PBool b)"
| "freeze_json (PInt i) = Inr (PInt i)"
| "freeze_json (PStr s) = Inr (PStr s)"
| "freeze_json (PFloat f) =
     (if isfinite f then Inr (PFloat f) else Inl (ValueError ''JSON numbers must be finite''))"
| "freeze_json (PFrozen items) = Inr (PFrozen items)"
| "freeze_json (PDict kvs) =
     rbind (traverse (\<lambda>(key, value).
        (case as_str key of
           None \<Rightarrow> Inl (TypeError ''JSON object keys must be strings'')
         | Some k \<Rightarrow> rbind (freeze_json value) (\<lambda>v. Inr (k, v)))) kvs)
       (\<lambda>items. Inr (PFrozen items))"
| "freeze_json (PSpaObject c t i n props flags keys) =
     rbind (traverse (\<lambda>(key, value).
        (case as_str key of
           None \<Rightarrow> Inl (TypeError ''JSON object keys must be strings'')
         | Some k \<Rightarrow> rbind (freeze_json value) (\<lambda>v. Inr (k, v)))) props)
       (\<lambda>items. Inr (PFrozen items))"
| "freeze_json (PList xs) = rbind (traverse freeze_json xs) (\<lambda>ys. Inr (PTuple ys))"
| "freeze_json (PTuple xs) = rbind (traverse freeze_json xs) (\<lambda>ys. Inr (PTuple ys))"
| "freeze_json (PBytes b) = Inl (TypeError ''value is not JSON-compatible'')"
| "freeze_json (PDatetime d) = Inl (TypeError ''value is not JSON-compatible'')"
| "freeze_json (PValue t fs) = Inl (TypeError ''value is not JSON-compatible'')"
| "freeze_json (POther t) = Inl (TypeError ''value is not JSON-compatible'')"
  by pat_completeness auto
termination
  by (relation "measure size") (auto simp: termination_simp)

definition FrozenDict_init :: "pyval \<Rightarrow> exn + pyval" where
  "FrozenDict_init values =
     (case as_mapping values of
        None \<Rightarrow> if values = PNone then Inr (PFrozen [])
                else Inl (TypeError ''FrozenDict values must be a mapping'')
      | Some kvs \<Rightarrow> freeze_json (PDict kvs))"

function thaw_json :: "pyval \<Rightarrow> exn + pyval" where
  "thaw_json (PFrozen items) =
     rbind (traverse (\<lambda>(key, value). rbind (thaw_json value) (\<lambda>v. Inr (PStr key, v))) items)
       (\<lambda>kvs. Inr (PDict kvs))"
| "thaw_json (PTuple xs) = rbind (traverse thaw_json xs) (\<lambda>ys. Inr (PList ys))"
| "thaw_json PNone = Inr PNone"
| "thaw_json (PBool b) = Inr (PBool b)"
| "thaw_json (PInt i) = Inr (PInt i)"
| "thaw_json (PFloat f) = Inr (PFloat f)"
| "thaw_json (PStr s) = Inr (PStr s)"
| "thaw_json (PStrEnum c s) = Inr (PStrEnum c s)"
| "thaw_json (PIntEnum c n i) = Inr (PIntEnum c n i)"
| "thaw_json (PBytes b) = Inl (TypeError ''value is not frozen JSON'')"
| "thaw_json (PList xs) = Inl (TypeError ''value is not frozen JSON'')"
| "thaw_json (PDict kvs) = Inl (TypeError ''value is not frozen JSON'')"
| "thaw_json (PDatetime d) = Inl (TypeError ''value is not frozen JSON'')"
| "thaw_json (PValue t fs) = Inl (TypeError ''value is not frozen JSON'')"
| "thaw_json (PSpaObject c t i n props flags keys) = Inl (TypeError ''value is not frozen JSON'')"
| "thaw_json (POther t) = Inl (TypeError ''value is not frozen JSON'')"
  by pat_completeness auto
termination
  by (relation "measure size") (auto simp: termination_simp)

definition FrozenDict_to_dict :: "fields \<Rightarrow> exn + pyval" where
  "FrozenDict_to_dict items = thaw_json (PFrozen items)"

text \<open>
  The immutable JSON values \<open>freeze_json\<close> produces (the type \<open>FrozenJson\<close>), and the objects
  it may be given: the items of a dictionary have distinct keys, and a \<open>FrozenDict\<close> inside,
  which only \<open>__init__\<close> can have built, is one already; so are the attributes of an instance.
\<close>

fun frozen :: "pyval \<Rightarrow> bool" where
  "frozen PNone = True"
| "frozen (PBool b) = True"
| "frozen (PInt i) = True"
| "frozen (PFloat f) = isfinite f"
| "frozen (PStr s) = True"
| "frozen (PTuple xs) = list_all frozen xs"
| "frozen (PFrozen items) = (distinct (map fst items) \<and> list_all (\<lambda>(k, v). frozen v) items)"
| "frozen _ = False"

fun well_formed :: "pyval \<Rightarrow> bool" where
  "well_formed (PTuple xs) = list_all well_formed xs"
| "well_formed (PList xs) = list_all well_formed xs"
| "well_formed (PDict kvs) =
     (distinct (map (as_str o fst) (filter (\<lambda>kv. as_str (fst kv) \<noteq> None) kvs)) \<and>
      list_all (\<lambda>(k, v). well_formed v) kvs)"
| "well_formed (PSpaObject c t i n props flags keys) =
     (distinct (map (as_str o fst) (filter (\<lambda>kv. as_str (fst kv) \<noteq> None) props)) \<and>
      list_all (\<lambda>(k, v). well_formed v) props)"
| "well_formed (PFrozen items) = frozen (PFrozen items)"
| "well_formed (PValue t fs) = list_all (\<lambda>(k, v). well_formed v) fs"
| "well_formed _ = True"

lemma frozen_well_formed: "frozen v \<Longrightarrow> well_formed v"
  by (induction v rule: frozen.induct) (auto simp: list_all_iff)

lemma freeze_items_keys:
  assumes "traverse (\<lambda>(key, value).
      (case as_str key of None \<Rightarrow> Inl e | Some k \<Rightarrow> rbind (f value) (\<lambda>v. Inr (k, v)))) kvs = Inr items"
  shows "map (Some o fst) items = map (as_str o fst) kvs"
    and "filter (\<lambda>kv. as_str (fst kv) \<noteq> None) kvs = kvs"
  using assms by (induction kvs arbitrary: items)
    (auto simp: rbind_eq_Inr_iff split: option.splits)

lemma freeze_items_frozen:
  assumes t: "traverse (\<lambda>(key, value). (case as_str key of
           None \<Rightarrow> Inl (TypeError ''JSON object keys must be strings'')
         | Some k \<Rightarrow> rbind (f value) (\<lambda>v. Inr (k, v)))) kvs = Inr items"
    and d: "distinct (map (as_str o fst) (filter (\<lambda>kv. as_str (fst kv) \<noteq> None) kvs))"
    and f: "\<And>key v x. (key, v) \<in> set kvs \<Longrightarrow> f v = Inr x \<Longrightarrow> frozen x"
  shows "frozen (PFrozen items)"
proof -
  have "distinct (map (Some o fst) items)" using d freeze_items_keys [OF t] by simp
  then have "distinct (map fst items)" by (simp add: distinct_map inj_on_def)
  moreover have "frozen x" if "(k, x) \<in> set items" for k x
  proof -
    from traverse_set [OF t that] obtain key v where "(key, v) \<in> set kvs" "f v = Inr x"
      by (auto simp: rbind_eq_Inr_iff split: option.splits)
    then show ?thesis by (rule f)
  qed
  ultimately show ?thesis by (auto simp: list_all_iff)
qed

lemma freeze_json_frozen: "well_formed v \<Longrightarrow> freeze_json v = Inr w \<Longrightarrow> frozen w"
proof (induction v arbitrary: w rule: freeze_json.induct)
  case (9 kvs)
  from "9.prems"(2) obtain items where "w = PFrozen items"
      "traverse (\<lambda>(key, value). (case as_str key of
           None \<Rightarrow> Inl (TypeError ''JSON object keys must be strings'')
         | Some k \<Rightarrow> rbind (freeze_json value) (\<lambda>v. Inr (k, v)))) kvs = Inr items"
    by (auto elim: rbind_InrE)
  moreover have "frozen x" if "(key, v) \<in> set kvs" "freeze_json v = Inr x" for key v x
    using freeze_items_keys(2) [OF calculation(2)] 9 that by (fastforce simp: list_all_iff filter_id_conv)
  ultimately show ?case using freeze_items_frozen [of freeze_json kvs] "9.prems"(1) by simp
next
  case (10 c t i n props flags keys)
  from "10.prems"(2) obtain items where "w = PFrozen items"
      "traverse (\<lambda>(key, value). (case as_str key of
           None \<Rightarrow> Inl (TypeError ''JSON object keys must be strings'')
         | Some k \<Rightarrow> rbind (freeze_json value) (\<lambda>v. Inr (k, v)))) props = Inr items"
    by (auto elim: rbind_InrE)
  moreover have "frozen x" if "(key, v) \<in> set props" "freeze_json v = Inr x" for key v x
    using freeze_items_keys(2) [OF calculation(2)] 10 that by (fastforce simp: list_all_iff filter_id_conv)
  ultimately show ?case using freeze_items_frozen [of freeze_json props] "10.prems"(1) by simp
next
  case (11 xs)
  then show ?case by (fastforce simp: list_all_iff rbind_eq_Inr_iff dest: traverse_set)
next
  case (12 xs)
  then show ?case by (fastforce simp: list_all_iff rbind_eq_Inr_iff dest: traverse_set)
qed (auto split: if_splits)

lemma freeze_json_id [simp]: "frozen v \<Longrightarrow> freeze_json v = Inr v"
  by (induction v rule: frozen.induct) (simp_all add: list_all_iff traverse_id)

lemma freeze_dict_items:
  assumes "\<And>k v. (k, v) \<in> set items \<Longrightarrow> freeze_json (f v) = Inr (g v)"
  shows "freeze_json (PDict (map (\<lambda>(k, v). (PStr k, f v)) items)) = Inr (PFrozen (map (\<lambda>(k, v). (k, g v)) items))"
proof -
  have "traverse (\<lambda>(key, value). (case as_str key of
         None \<Rightarrow> Inl (TypeError ''JSON object keys must be strings'')
       | Some k \<Rightarrow> rbind (freeze_json value) (\<lambda>v. Inr (k, v)))) (map (\<lambda>(k, v). (PStr k, f v)) items)
     = Inr (map (\<lambda>(k, v). (k, g v)) items)"
    by (rule traverse_map_Inr) (use assms in force)
  then show ?thesis by simp
qed

text \<open>Thawing never fails on a frozen value, and freezing the result gives the value back.\<close>

lemma freeze_thaw: "frozen v \<Longrightarrow> \<exists>u. thaw_json v = Inr u \<and> freeze_json u = Inr v"
proof (induction v rule: frozen.induct)
  case (6 xs)
  then have "\<forall>x \<in> set xs. \<exists>u. thaw_json x = Inr u \<and> freeze_json u = Inr x" by (auto simp: list_all_iff)
  then obtain g where "\<forall>x \<in> set xs. thaw_json x = Inr (g x) \<and> freeze_json (g x) = Inr x" by metis
  then have "traverse thaw_json xs = Inr (map g xs)" "traverse freeze_json (map g xs) = Inr xs"
    using traverse_map_Inr [of xs thaw_json id g] traverse_map_Inr [of xs freeze_json g id] by auto
  then show ?case by simp
next
  case (7 items)
  then have "\<forall>x \<in> snd ` set items. \<exists>u. thaw_json x = Inr u \<and> freeze_json u = Inr x"
    by (fastforce simp: list_all_iff)
  then obtain g where g: "\<forall>x \<in> snd ` set items. thaw_json x = Inr (g x) \<and> freeze_json (g x) = Inr x" by metis
  let ?kvs = "map (\<lambda>(k, v). (PStr k, g v)) items"
  have "thaw_json (PFrozen items) = Inr (PDict ?kvs)"
    using g traverse_map_Inr [of items "\<lambda>(key, value). rbind (thaw_json value) (\<lambda>v. Inr (PStr key, v))" id
        "\<lambda>(k, v). (PStr k, g v)"] by (force simp: split_beta)
  moreover have "freeze_json (PDict ?kvs) = Inr (PFrozen (map (\<lambda>(k, v). (k, v)) items))"
    by (rule freeze_dict_items) (use g in force)
  ultimately show ?case by simp
qed simp_all

section \<open>Object equality\<close>

text \<open>
  \<open>a == b\<close>: numbers across their types, a string enumeration member with its value,
  mappings whatever the order of their items and whether frozen or not; a tuple never
  equals a list.  Two dataclass instances are equal when their classes and fields are.
\<close>

fun py_eq :: "pyval \<Rightarrow> pyval \<Rightarrow> bool" where
  "py_eq (PTuple xs) b = (case b of PTuple ys \<Rightarrow> list_all2 py_eq xs ys | _ \<Rightarrow> False)"
| "py_eq (PList xs) b = (case b of PList ys \<Rightarrow> list_all2 py_eq xs ys | _ \<Rightarrow> False)"
| "py_eq (PDict kvs) b =
     (case as_mapping b of
        None \<Rightarrow> False
      | Some kvs' \<Rightarrow> length kvs = length kvs' \<and>
          list_all (\<lambda>(k, v). case find (\<lambda>kv. py_eq k (fst kv)) kvs' of
            None \<Rightarrow> False | Some kv \<Rightarrow> py_eq v (snd kv)) kvs)"
| "py_eq (PFrozen items) b =
     (case as_mapping b of
        None \<Rightarrow> False
      | Some kvs' \<Rightarrow> length items = length kvs' \<and>
          list_all (\<lambda>(k, v). case find (\<lambda>kv. as_str (fst kv) = Some k) kvs' of
            None \<Rightarrow> False | Some kv \<Rightarrow> py_eq v (snd kv)) items)"
| "py_eq (PSpaObject c t i n props flags keys) b =
     (case as_mapping b of
        None \<Rightarrow> False
      | Some kvs' \<Rightarrow> length props = length kvs' \<and>
          list_all (\<lambda>(k, v). case find (\<lambda>kv. py_eq k (fst kv)) kvs' of
            None \<Rightarrow> False | Some kv \<Rightarrow> py_eq v (snd kv)) props)"
| "py_eq (PValue t fs) b =
     (case b of
        PValue t' fs' \<Rightarrow> t = t' \<and> list_all2 (\<lambda>(k, v) (k', v'). k = k' \<and> py_eq v v') fs fs'
      | _ \<Rightarrow> False)"
| "py_eq a b =
     (case (number_of a, number_of b) of
        (Some m, Some n) \<Rightarrow> number_eq m n
      | (None, None) \<Rightarrow>
          (case (as_str a, as_str b) of
             (Some s, Some t) \<Rightarrow> s = t
           | (None, None) \<Rightarrow> a = b
           | _ \<Rightarrow> False)
      | _ \<Rightarrow> False)"

section \<open>Properties\<close>

text \<open>
  C34. Whatever \<open>freeze_json\<close> accepts it turns into an immutable JSON value: thawing it
  succeeds, and freezing the thawed copy gives the same immutable value back.
\<close>

theorem freeze_json_roundtrip:
  assumes "well_formed v" "freeze_json v = Inr w"
  shows "frozen w \<and> (\<exists>u. thaw_json w = Inr u \<and> freeze_json u = Inr w)"
  using freeze_thaw [OF freeze_json_frozen [OF assms]] freeze_json_frozen [OF assms] by blast

definition sample_json :: pyval where
  "sample_json = PDict [(PStr ''levels'', PList [PInt 1, PBool True]), (PStrEnum ''Key'' ''name'', PDict [])]"

theorem freeze_json_roundtrip_witness:
  "\<exists>w u. freeze_json sample_json = Inr w \<and> thaw_json w = Inr u \<and> freeze_json u = Inr w"
proof -
  have "freeze_json sample_json = Inr (PFrozen [(''levels'', PTuple [PInt 1, PBool True]), (''name'', PFrozen [])])"
    "well_formed sample_json"
    by (simp_all add: sample_json_def)
  then show ?thesis using freeze_json_roundtrip by blast
qed

lemma traverse_lookup:
  assumes "traverse (\<lambda>(key, value).
      (case as_str key of None \<Rightarrow> Inl e | Some k \<Rightarrow> rbind (f value) (\<lambda>v. Inr (k, v)))) kvs = Inr items"
    and "distinct (map fst items)"
  shows "map_of items k = Some w \<longleftrightarrow> (\<exists>(key, v) \<in> set kvs. as_str key = Some k \<and> f v = Inr w)"
  using assms
proof (induction kvs arbitrary: items)
  case (Cons kv kvs)
  obtain key v where kv: "kv = (key, v)" by force
  from Cons.prems(1) obtain k' w' items' where i: "as_str key = Some k'" "f v = Inr w'" "items = (k', w') # items'"
      "traverse (\<lambda>(key, value). (case as_str key of None \<Rightarrow> Inl e
         | Some k \<Rightarrow> rbind (f value) (\<lambda>v. Inr (k, v)))) kvs = Inr items'"
    by (auto simp: kv rbind_eq_Inr_iff split: option.splits)
  have "map_of items' k = Some w \<longleftrightarrow> (\<exists>(key, v) \<in> set kvs. as_str key = Some k \<and> f v = Inr w)"
    using Cons.IH [OF i(4)] Cons.prems(2) i(3) by simp
  moreover have "k' \<notin> set (map fst items')" using Cons.prems(2) i(3) by simp
  ultimately show ?case
    using i by (auto simp: kv map_of_eq_None_iff) (metis map_of_SomeD fst_conv image_eqI)
qed simp

text \<open>
  A \<open>FrozenDict\<close> built from a dictionary answers a lookup with the frozen form of the
  item the dictionary has under that key, and with \<open>KeyError\<close> for a key it does not have.
\<close>

lemma FrozenDict_lookup:
  assumes "well_formed (PDict kvs)" "FrozenDict_init (PDict kvs) = Inr (PFrozen items)"
  shows "(FrozenDict_getitem items k = Inr w \<longleftrightarrow>
      (\<exists>(key, v) \<in> set kvs. as_str key = Some k \<and> freeze_json v = Inr w)) \<and>
    (FrozenDict_getitem items k = Inl (KeyError k) \<longleftrightarrow> Some k \<notin> as_str ` fst ` set kvs)"
proof (rule conjI)
  have f: "freeze_json (PDict kvs) = Inr (PFrozen items)" using assms(2) by (simp add: FrozenDict_init_def)
  then have t: "traverse (\<lambda>(key, value). (case as_str key of
           None \<Rightarrow> Inl (TypeError ''JSON object keys must be strings'')
         | Some k \<Rightarrow> rbind (freeze_json value) (\<lambda>v. Inr (k, v)))) kvs = Inr items"
    by (auto elim: rbind_InrE)
  have "distinct (map fst items)" using freeze_json_frozen [OF assms(1) f] by simp
  from traverse_lookup [OF t this, of k w, symmetric]
  show "FrozenDict_getitem items k = Inr w \<longleftrightarrow>
      (\<exists>(key, v) \<in> set kvs. as_str key = Some k \<and> freeze_json v = Inr w)"
    by (simp only: FrozenDict_getitem_map_of) (simp split: option.split)
  have "set (map (Some \<circ> fst) items) = set (map (as_str \<circ> fst) kvs)"
    by (simp only: freeze_items_keys(1) [OF t])
  then have keys: "Some ` set (map fst items) = as_str ` fst ` set kvs"
    by (simp only: set_map image_comp)
  have "map_of items k = None \<longleftrightarrow> Some k \<notin> Some ` set (map fst items)"
    by (simp only: map_of_eq_None_iff set_map inj_image_mem_iff [OF inj_Some])
  then have "map_of items k = None \<longleftrightarrow> Some k \<notin> as_str ` fst ` set kvs"
    by (simp only: keys)
  then show "FrozenDict_getitem items k = Inl (KeyError k) \<longleftrightarrow> Some k \<notin> as_str ` fst ` set kvs"
    by (cases "map_of items k") (simp_all add: FrozenDict_getitem_map_of)
qed

end
