(* ===== verification/Validation.thy ===== *)
theory Validation
  imports Immutable
begin

text \<open>
  The field validators at the end of \<open>src/src/wyreplumber/runtime/models.py\<close>, which the
  dataclasses call from \<open>__post_init__\<close>: each takes the object passed to the constructor
  and the field's name and returns the validated value at its type, or the exception.
  Beside them: the contract every string enumeration of the package satisfies, keyword
  arguments, and the effect of the JSON form of an enumeration member on a validator.
\<close>

named_theorems validator_simps \<open>when a validator succeeds, and with what\<close>
named_theorems val_ok \<open>what a validated value satisfies\<close>
named_theorems val_obj \<open>a validator accepts the object of a valid value\<close>
named_theorems plain_simps \<open>a validator sees an enumeration member as its value\<close>

section \<open>Scalars\<close>

definition val_integer :: "pyval \<Rightarrow> string \<Rightarrow> exn + int" where
  "val_integer value name =
     (case as_int value of
        None \<Rightarrow> Inl (TypeError (name @ '' must be an integer''))
      | Some i \<Rightarrow> Inr i)"

definition val_identifier :: "pyval \<Rightarrow> string \<Rightarrow> exn + int" where
  "val_identifier value name =
     rbind (val_integer value name) (\<lambda>result.
       if result < 0 then Inl (ValueError (name @ '' must be non-negative'')) else Inr result)"

definition val_required_string :: "pyval \<Rightarrow> string \<Rightarrow> bool \<Rightarrow> exn + string" where
  "val_required_string value name allow_empty =
     (case as_str value of
        None \<Rightarrow> Inl (TypeError (name @ '' must be a string''))
      | Some s \<Rightarrow>
          if \<not> allow_empty \<and> s = [] then Inl (ValueError (name @ '' must not be empty'')) else Inr s)"

text \<open>An identity is a non-empty string or a non-negative integer.\<close>

datatype identity = IntId int | StrId string

definition val_identity :: "pyval \<Rightarrow> string \<Rightarrow> exn + identity" where
  "val_identity value name =
     (if as_str value \<noteq> None
      then rbind (val_required_string value name False) (\<lambda>s. Inr (StrId s))
      else rbind (val_identifier value name) (\<lambda>i. Inr (IntId i)))"

fun identity_obj :: "identity \<Rightarrow> pyval" where
  "identity_obj (IntId i) = PInt i"
| "identity_obj (StrId s) = PStr s"

fun identity_ok :: "identity \<Rightarrow> bool" where
  "identity_ok (IntId i) = (0 \<le> i)"
| "identity_ok (StrId s) = (s \<noteq> [])"

text \<open>\<open>None\<close> or a validated value.\<close>

definition val_optional :: "(pyval \<Rightarrow> exn + 'a) \<Rightarrow> pyval \<Rightarrow> exn + 'a option" where
  "val_optional validate value =
     (if value = PNone then Inr None else rbind (validate value) (\<lambda>x. Inr (Some x)))"

definition val_optional_identifier :: "pyval \<Rightarrow> string \<Rightarrow> exn + int option" where
  "val_optional_identifier value name = val_optional (\<lambda>v. val_identifier v name) value"

definition val_optional_string :: "pyval \<Rightarrow> string \<Rightarrow> exn + string option" where
  "val_optional_string value name = val_optional (\<lambda>v. val_required_string v name True) value"

definition val_boolean :: "pyval \<Rightarrow> string \<Rightarrow> exn + bool" where
  "val_boolean value name =
     (case as_bool value of
        None \<Rightarrow> Inl (TypeError (name @ '' must be a boolean''))
      | Some b \<Rightarrow> Inr b)"

definition val_optional_boolean :: "pyval \<Rightarrow> string \<Rightarrow> exn + bool option" where
  "val_optional_boolean value name = val_optional (\<lambda>v. val_boolean v name) value"

text \<open>\<open>float(value)\<close> of a number that is not a boolean.\<close>

definition py_float :: "pyval \<Rightarrow> exn \<Rightarrow> exn + pyfloat" where
  "py_float value not_a_number =
     (case value of
        PFloat f \<Rightarrow> Inr f
      | _ \<Rightarrow> (case as_int value of None \<Rightarrow> Inl not_a_number | Some i \<Rightarrow> float_of_int i))"

text \<open>\<open>isinstance(value, (int, float))\<close> with booleans excluded.\<close>

definition is_number :: "pyval \<Rightarrow> bool" where
  "is_number v = (case v of PFloat f \<Rightarrow> True | _ \<Rightarrow> as_int v \<noteq> None)"

definition val_float :: "pyval \<Rightarrow> string \<Rightarrow> exn + pyfloat" where
  "val_float value name =
     rbind (py_float value (TypeError (name @ '' must be a number''))) (\<lambda>result.
     rbind (freeze_json (PFloat result)) (\<lambda>_.
     if float_lt result 0 then Inl (ValueError (name @ '' must be non-negative'')) else Inr result))"

definition val_optional_float :: "pyval \<Rightarrow> string \<Rightarrow> exn + pyfloat option" where
  "val_optional_float value name = val_optional (\<lambda>v. val_float v name) value"

section \<open>Sequences\<close>

definition val_items :: "(pyval \<Rightarrow> exn + 'a) \<Rightarrow> pyval \<Rightarrow> string \<Rightarrow> exn + 'a list" where
  "val_items validate value name =
     (case as_seq value of
        None \<Rightarrow> Inl (TypeError (name @ '' must be a sequence''))
      | Some items \<Rightarrow> traverse validate items)"

definition val_identifiers :: "pyval \<Rightarrow> string \<Rightarrow> exn + int list" where
  "val_identifiers value name = val_items (\<lambda>item. val_identifier item (name @ '' item'')) value name"

definition val_strings :: "pyval \<Rightarrow> string \<Rightarrow> exn + string list" where
  "val_strings value name = val_items (\<lambda>item. val_required_string item (name @ '' item'') False) value name"

definition val_floats :: "pyval \<Rightarrow> string \<Rightarrow> exn + pyfloat list" where
  "val_floats value name = val_items (\<lambda>item. val_float item (name @ '' item'')) value name"

text \<open>
  A sequence of instances of one class; \<open>inst\<close> is the \<open>isinstance\<close> test, returning
  the instance.
\<close>

definition val_runtime_values :: "(pyval \<Rightarrow> 'a option) \<Rightarrow> string \<Rightarrow> pyval \<Rightarrow> string \<Rightarrow> exn + 'a list" where
  "val_runtime_values inst expected value name =
     val_items (\<lambda>item. case inst item of
         None \<Rightarrow> Inl (TypeError (''every '' @ name @ '' item must be '' @ expected))
       | Some x \<Rightarrow> Inr x) value name"

text \<open>\<open>isinstance(value, Class)\<close>: an object of the class, whose attributes its constructor accepts.\<close>

definition instance_of :: "string \<Rightarrow> (fields \<Rightarrow> exn + 'a) \<Rightarrow> pyval \<Rightarrow> 'a option" where
  "instance_of value_type init value =
     (case value of
        PValue t fs \<Rightarrow>
          if t = value_type then (case init fs of Inl e \<Rightarrow> None | Inr x \<Rightarrow> Some x) else None
      | _ \<Rightarrow> None)"

definition val_instance :: "(pyval \<Rightarrow> 'a option) \<Rightarrow> string \<Rightarrow> pyval \<Rightarrow> string \<Rightarrow> exn + 'a" where
  "val_instance inst expected value name =
     (case inst value of
        None \<Rightarrow> Inl (TypeError (name @ '' must be a '' @ expected))
      | Some x \<Rightarrow> Inr x)"

definition val_optional_instance :: "(pyval \<Rightarrow> 'a option) \<Rightarrow> string \<Rightarrow> pyval \<Rightarrow> string \<Rightarrow> exn + 'a option" where
  "val_optional_instance inst expected value name =
     (if value = PNone then Inr None
      else case inst value of
        None \<Rightarrow> Inl (TypeError (name @ '' must be a '' @ expected @ '' or None''))
      | Some x \<Rightarrow> Inr (Some x))"

section \<open>Mappings and contract values\<close>

definition val_mapping :: "pyval \<Rightarrow> string \<Rightarrow> exn + fields" where
  "val_mapping value name =
     (case value of
        PFrozen items \<Rightarrow> Inr items
      | _ \<Rightarrow>
          if as_mapping value = None then Inl (TypeError (name @ '' must be a mapping''))
          else rbind (FrozenDict_init value) (\<lambda>d. case d of PFrozen items \<Rightarrow> Inr items | _ \<Rightarrow> Inr []))"

definition contract_value :: "pyval \<Rightarrow> exn + pyval" where
  "contract_value value = (case value of PValue t fs \<Rightarrow> Inr value | _ \<Rightarrow> freeze_json value)"

definition val_contract_values :: "pyval \<Rightarrow> string \<Rightarrow> exn + pyval list" where
  "val_contract_values value name = val_items contract_value value name"

text \<open>The result of the \<open>FrozenDict\<close> built by \<open>val_mapping\<close> is one.\<close>

lemma freeze_dict_PFrozen: "freeze_json (PDict kvs) = Inr w \<Longrightarrow> \<exists>items. w = PFrozen items"
  by (auto elim: rbind_InrE)

section \<open>Timestamps\<close>

text \<open>\<open>\<open>_timestamp\<close>: normalised to UTC and rendered with a \<open>Z\<close>.\<close>\<close>

definition to_utc :: "datetime \<Rightarrow> string \<Rightarrow> exn + int" where
  "to_utc parsed name =
     (case utc_offset parsed of
        None \<Rightarrow> Inl (ValueError (name @ '' must include a timezone''))
      | Some off \<Rightarrow>
          let u = utc_instant parsed in
          if 0 \<le> u \<and> u < max_us then Inr u else Inl (OverflowError ''date value out of range''))"

definition val_timestamp :: "pyval \<Rightarrow> exn + string" where
  "val_timestamp value =
     rbind
       (case value of
          PDatetime d \<Rightarrow> Inr d
        | _ \<Rightarrow>
            (case as_str value of
               None \<Rightarrow> Inl (TypeError ''captured_at must be a datetime or ISO 8601 string'')
             | Some s \<Rightarrow>
                 (case parse_iso s of
                    None \<Rightarrow> Inl (ValueError ''captured_at must be an ISO 8601 timestamp'')
                  | Some d \<Rightarrow> Inr d)))
       (\<lambda>parsed. rbind (to_utc parsed ''captured_at'') (\<lambda>u. Inr (render_utc u)))"

section \<open>Enumerations\<close>

definition enum_lookup :: "('e \<Rightarrow> string) \<Rightarrow> 'e list \<Rightarrow> string \<Rightarrow> 'e option" where
  "enum_lookup val members s = find (\<lambda>m. val m = s) members"

definition val_enum :: "('e \<Rightarrow> string) \<Rightarrow> 'e list \<Rightarrow> pyval \<Rightarrow> string \<Rightarrow> exn + 'e" where
  "val_enum val members value name =
     (case Option.bind (as_str value) (enum_lookup val members) of
        None \<Rightarrow> Inl (ValueError (name @ '' has invalid value''))
      | Some m \<Rightarrow> Inr m)"

locale str_enum =
  fixes val :: "'e \<Rightarrow> string"
    and members :: "'e list"
  assumes complete: "m \<in> set members"
    and distinct_values: "distinct (map val members)"
begin

lemma value_inject: "val m = val m' \<longleftrightarrow> m = m'"
  using distinct_values complete by (auto simp: distinct_map inj_on_def)

lemma lookup_value: "enum_lookup val members (val m) = Some m"
  using complete [of m] distinct_values
  by (auto simp: enum_lookup_def find_Some_iff in_set_conv_nth distinct_conv_nth value_inject)

lemma lookup_iff: "enum_lookup val members s = Some m \<longleftrightarrow> s = val m"
  using lookup_value by (auto simp: enum_lookup_def find_Some_iff)

lemma val_enum_iff:
  "val_enum val members v name = Inr m \<longleftrightarrow> as_str v = Some (val m)"
  by (auto simp: val_enum_def lookup_iff lookup_value value_inject split: option.splits bind_splits)

lemma val_enum_member: "val_enum val members (PStrEnum c (val m)) name = Inr m"
  by (simp add: val_enum_iff)

end

section \<open>Keyword arguments\<close>

text \<open>
  A call \<open>Class(**kw)\<close>: a missing argument without a default is a \<open>TypeError\<close>.
\<close>

definition kw_required :: "fields \<Rightarrow> string \<Rightarrow> exn + pyval" where
  "kw_required kw name =
     (case map_of kw name of
        None \<Rightarrow> Inl (TypeError (''missing required argument: '' @ name))
      | Some v \<Rightarrow> Inr v)"

definition kw_default :: "fields \<Rightarrow> string \<Rightarrow> pyval \<Rightarrow> pyval" where
  "kw_default kw name d = (case map_of kw name of None \<Rightarrow> d | Some v \<Rightarrow> v)"

lemma kw_simps:
  "kw_required ((k, v) # kw) n = (if n = k then Inr v else kw_required kw n)"
  "kw_default ((k, v) # kw) n d = (if n = k then v else kw_default kw n d)"
  by (simp_all add: kw_required_def kw_default_def)

definition kw_ok :: "fields \<Rightarrow> bool" where
  "kw_ok kw \<longleftrightarrow> list_all (\<lambda>(k, v). well_formed v) kw"

lemma kw_required_ok: "kw_required kw n = Inr v \<Longrightarrow> kw_ok kw \<Longrightarrow> well_formed v"
  by (auto simp: kw_required_def kw_ok_def list_all_iff split: option.splits dest: map_of_SomeD)

lemma kw_default_ok: "kw_ok kw \<Longrightarrow> well_formed d \<Longrightarrow> well_formed (kw_default kw n d)"
  by (auto simp: kw_default_def kw_ok_def list_all_iff split: option.splits dest: map_of_SomeD)

section \<open>Objects of validated values\<close>

fun opt_obj :: "('a \<Rightarrow> pyval) \<Rightarrow> 'a option \<Rightarrow> pyval" where
  "opt_obj obj None = PNone"
| "opt_obj obj (Some x) = obj x"

definition tuple_obj :: "('a \<Rightarrow> pyval) \<Rightarrow> 'a list \<Rightarrow> pyval" where
  "tuple_obj obj xs = PTuple (map obj xs)"

definition float_ok :: "pyfloat \<Rightarrow> bool" where
  "float_ok f \<longleftrightarrow> isfinite f \<and> \<not> float_lt f 0"

definition mapping_ok :: "fields \<Rightarrow> bool" where
  "mapping_ok items \<longleftrightarrow> frozen (PFrozen items)"

fun is_value :: "pyval \<Rightarrow> bool" where
  "is_value (PValue t fs) = True"
| "is_value _ = False"

definition contract_ok :: "pyval \<Rightarrow> bool" where
  "contract_ok v \<longleftrightarrow> is_value v \<or> frozen v"

definition timestamp_ok :: "string \<Rightarrow> bool" where
  "timestamp_ok s \<longleftrightarrow> val_timestamp (PStr s) = Inr s"

text \<open>An object that is a number is rejected by every other scalar test, and so on.\<close>

lemma as_str_Some: "as_str v = Some s \<longleftrightarrow> v = PStr s \<or> (\<exists>c. v = PStrEnum c s)"
  by (cases v) auto

lemma as_int_Some: "as_int v = Some i \<longleftrightarrow> v = PInt i \<or> (\<exists>c n. v = PIntEnum c n i)"
  by (cases v) auto

lemma val_integer_iff [validator_simps]: "val_integer v n = Inr i \<longleftrightarrow> as_int v = Some i"
  by (auto simp: val_integer_def split: option.splits)

lemma val_identifier_iff [validator_simps]:
  "val_identifier v n = Inr i \<longleftrightarrow> as_int v = Some i \<and> 0 \<le> i"
  by (cases "as_int v") (auto simp: val_identifier_def val_integer_def)

lemma val_required_string_iff [validator_simps]:
  "val_required_string v n e = Inr s \<longleftrightarrow> as_str v = Some s \<and> (e \<or> s \<noteq> [])"
  by (auto simp: val_required_string_def split: option.splits)

lemma val_boolean_iff [validator_simps]: "val_boolean v n = Inr b \<longleftrightarrow> v = PBool b"
  by (cases v) (auto simp: val_boolean_def)

lemma val_optional_iff [validator_simps]:
  "val_optional f v = Inr x \<longleftrightarrow>
     (case x of None \<Rightarrow> v = PNone | Some y \<Rightarrow> v \<noteq> PNone \<and> f v = Inr y)"
  by (auto simp: val_optional_def rbind_eq_Inr_iff split: option.splits)

lemma val_items_iff [validator_simps]:
  "val_items f v n = Inr ys \<longleftrightarrow> (\<exists>xs. as_seq v = Some xs \<and> traverse f xs = Inr ys)"
  by (auto simp: val_items_def split: option.splits)

text \<open>The invariants of validated values.\<close>

lemma val_identifier_ok [val_ok]: "val_identifier v n = Inr i \<Longrightarrow> 0 \<le> i"
  by (simp add: validator_simps)

lemma val_required_string_ok [val_ok]: "val_required_string v n False = Inr s \<Longrightarrow> s \<noteq> []"
  by (simp add: validator_simps)

lemma val_identity_ok [val_ok]: "val_identity v n = Inr x \<Longrightarrow> identity_ok x"
  by (auto simp: val_identity_def validator_simps rbind_eq_Inr_iff split: if_splits)

lemma val_optional_identifier_ok [val_ok]:
  "val_optional_identifier v n = Inr x \<Longrightarrow> pred_option (\<lambda>i. 0 \<le> i) x"
  by (auto simp: val_optional_identifier_def validator_simps split: option.splits)

lemma val_float_ok [val_ok]: "val_float v n = Inr f \<Longrightarrow> float_ok f"
  by (auto simp: val_float_def rbind_eq_Inr_iff float_ok_def split: if_splits)

lemma val_optional_float_ok [val_ok]: "val_optional_float v n = Inr x \<Longrightarrow> pred_option float_ok x"
  by (auto simp: val_optional_float_def validator_simps dest: val_ok split: option.splits)

lemma val_items_ok:
  "val_items f v n = Inr xs \<Longrightarrow> (\<And>v x. f v = Inr x \<Longrightarrow> P x) \<Longrightarrow> list_all P xs"
  by (auto simp: validator_simps list_all_iff dest!: traverse_set)

lemma as_seq_well_formed: "as_seq v = Some vs \<Longrightarrow> well_formed v \<Longrightarrow> x \<in> set vs \<Longrightarrow> well_formed x"
  by (cases v) (auto simp: list_all_iff)

lemma val_identifiers_ok [val_ok]: "val_identifiers v n = Inr xs \<Longrightarrow> list_all (\<lambda>i. 0 \<le> i) xs"
  unfolding val_identifiers_def by (erule val_items_ok) (rule val_ok)

lemma val_strings_ok [val_ok]: "val_strings v n = Inr xs \<Longrightarrow> list_all (\<lambda>s. s \<noteq> []) xs"
  unfolding val_strings_def by (erule val_items_ok) (rule val_ok)

lemma val_floats_ok [val_ok]: "val_floats v n = Inr xs \<Longrightarrow> list_all float_ok xs"
  unfolding val_floats_def by (erule val_items_ok) (rule val_ok)

lemma val_runtime_values_ok:
  assumes "val_runtime_values inst e v n = Inr xs" "well_formed v"
    and "\<And>v x. inst v = Some x \<Longrightarrow> well_formed v \<Longrightarrow> P x"
  shows "list_all P xs"
  using assms as_seq_well_formed [of v]
  by (auto simp: val_runtime_values_def validator_simps list_all_iff dest!: traverse_set
    split: option.splits)

lemma instance_of_ok:
  "instance_of t init v = Some x \<Longrightarrow> (\<And>kw. init kw = Inr x \<Longrightarrow> kw_ok kw \<Longrightarrow> P x) \<Longrightarrow> well_formed v \<Longrightarrow> P x"
  by (auto simp: instance_of_def kw_ok_def split: pyval.splits if_splits sum.splits)

lemma instance_of_obj: "init fs = Inr x \<Longrightarrow> instance_of t init (PValue t fs) = Some x"
  by (simp add: instance_of_def)

lemma val_instance_ok:
  "val_instance inst e v n = Inr x \<Longrightarrow> well_formed v \<Longrightarrow>
     (\<And>v x. inst v = Some x \<Longrightarrow> well_formed v \<Longrightarrow> P x) \<Longrightarrow> P x"
  by (auto simp: val_instance_def split: option.splits)

lemma val_optional_instance_ok:
  "val_optional_instance inst e v n = Inr x \<Longrightarrow> well_formed v \<Longrightarrow>
     (\<And>v x. inst v = Some x \<Longrightarrow> well_formed v \<Longrightarrow> P x) \<Longrightarrow> pred_option P x"
  by (cases x) (auto simp: val_optional_instance_def split: option.splits if_splits)

lemma val_timestamp_ok [val_ok]:
  assumes "val_timestamp v = Inr s"
  shows "timestamp_ok s"
proof -
  obtain d u where "to_utc d ''captured_at'' = Inr u" "s = render_utc u"
    using assms by (auto simp: val_timestamp_def rbind_eq_Inr_iff)
  then have "0 \<le> u" "u < max_us" "s = render_utc u"
    by (auto simp: to_utc_def Let_def split: option.splits if_splits)
  then show ?thesis
    using parse_render_utc [of u]
    by (simp add: timestamp_ok_def val_timestamp_def to_utc_def utc_instant_def)
qed

text \<open>
  A mapping argument is well formed when it is a dictionary with distinct keys or a
  \<open>FrozenDict\<close>; then the field is a frozen mapping.
\<close>

lemma frozen_items_ok:
  assumes "rbind (freeze_json (PDict kvs)) (\<lambda>d. case d of PFrozen items \<Rightarrow> Inr items | _ \<Rightarrow> Inr []) = Inr items"
    and "well_formed (PDict kvs)"
  shows "mapping_ok items"
proof -
  obtain w where w: "freeze_json (PDict kvs) = Inr w" "items = (case w of PFrozen i \<Rightarrow> i | _ \<Rightarrow> [])"
    using assms(1) by (auto elim!: rbind_InrE simp del: freeze_json.simps split: pyval.splits)
  with freeze_dict_PFrozen [OF w(1)] freeze_json_frozen [OF assms(2) w(1)] show ?thesis by (auto simp: mapping_ok_def)
qed

lemma val_mapping_ok [val_ok]: "val_mapping v n = Inr items \<Longrightarrow> well_formed v \<Longrightarrow> mapping_ok items"
proof (cases v)
  case (PDict kvs)
  assume v: "val_mapping v n = Inr items" "well_formed v"
  show ?thesis
    by (rule frozen_items_ok [of kvs]) (use v PDict in \<open>simp_all add: val_mapping_def FrozenDict_init_def del: freeze_json.simps\<close>)
next
  case (PSpaObject c t i m props flags keys)
  assume v: "val_mapping v n = Inr items" "well_formed v"
  show ?thesis
    by (rule frozen_items_ok [of props])
      (use v PSpaObject in \<open>simp_all add: val_mapping_def FrozenDict_init_def del: freeze_json.simps\<close>)
qed (auto simp: val_mapping_def mapping_ok_def)

lemma contract_value_ok [val_ok]: "contract_value v = Inr w \<Longrightarrow> well_formed v \<Longrightarrow> contract_ok w"
  using freeze_json_frozen [of v w] by (cases v) (auto simp: contract_value_def contract_ok_def)

lemma val_contract_values_ok [val_ok]:
  assumes "val_contract_values v n = Inr xs" "well_formed v"
  shows "list_all contract_ok xs"
  using assms as_seq_well_formed [of v]
  by (auto simp: val_contract_values_def validator_simps list_all_iff dest!: traverse_set intro: val_ok)

text \<open>An instant \<open>datetime.now(timezone.utc)\<close> may return.\<close>

definition clock_ok :: "datetime \<Rightarrow> bool" where
  "clock_ok now \<longleftrightarrow> utc_offset now \<noteq> None \<and> 0 \<le> utc_instant now \<and> utc_instant now < max_us"

lemma val_timestamp_clock: "clock_ok now \<Longrightarrow> \<exists>t. val_timestamp (PDatetime now) = Inr t \<and> timestamp_ok t"
proof -
  assume "clock_ok now"
  then have "val_timestamp (PDatetime now) = Inr (render_utc (utc_instant now))"
    by (auto simp: clock_ok_def val_timestamp_def to_utc_def Let_def)
  then show ?thesis using val_timestamp_ok by blast
qed

section \<open>Validating the object of a valid value\<close>

lemma val_identifier_obj [val_obj]: "0 \<le> i \<Longrightarrow> val_identifier (PInt i) n = Inr i"
  by (simp add: validator_simps)

lemma val_integer_obj [val_obj]: "val_integer (PInt i) n = Inr i"
  by (simp add: validator_simps)

lemma val_required_string_obj [val_obj]: "e \<or> s \<noteq> [] \<Longrightarrow> val_required_string (PStr s) n e = Inr s"
  by (simp add: validator_simps)

lemma val_identity_obj [val_obj]: "identity_ok x \<Longrightarrow> val_identity (identity_obj x) n = Inr x"
  by (cases x) (simp_all add: val_identity_def val_obj)

lemma val_boolean_obj [val_obj]: "val_boolean (PBool b) n = Inr b"
  by (simp add: validator_simps)

lemma val_optional_identifier_obj [val_obj]:
  "pred_option (\<lambda>i. 0 \<le> i) x \<Longrightarrow> val_optional_identifier (opt_obj PInt x) n = Inr x"
  by (cases x) (simp_all add: val_optional_identifier_def val_optional_def val_obj)

lemma val_optional_string_obj [val_obj]: "val_optional_string (opt_obj PStr x) n = Inr x"
  by (cases x) (simp_all add: val_optional_string_def val_optional_def val_obj)

lemma val_optional_boolean_obj [val_obj]: "val_optional_boolean (opt_obj PBool x) n = Inr x"
  by (cases x) (simp_all add: val_optional_boolean_def val_optional_def val_obj)

lemma val_float_obj [val_obj]: "float_ok f \<Longrightarrow> val_float (PFloat f) n = Inr f"
  by (simp add: val_float_def py_float_def float_ok_def)

lemma val_optional_float_obj [val_obj]:
  "pred_option float_ok x \<Longrightarrow> val_optional_float (opt_obj PFloat x) n = Inr x"
  by (cases x) (simp_all add: val_optional_float_def val_optional_def val_obj)

lemma val_items_obj:
  "list_all P xs \<Longrightarrow> (\<And>x. P x \<Longrightarrow> f (obj x) = Inr x) \<Longrightarrow> val_items f (tuple_obj obj xs) n = Inr xs"
  using traverse_map_Inr [of xs f obj id] by (auto simp: validator_simps tuple_obj_def list_all_iff)

lemma val_identifiers_obj [val_obj]:
  "list_all (\<lambda>i. 0 \<le> i) xs \<Longrightarrow> val_identifiers (tuple_obj PInt xs) n = Inr xs"
  unfolding val_identifiers_def by (erule val_items_obj) (simp add: val_obj)

lemma val_strings_obj [val_obj]:
  "list_all (\<lambda>s. s \<noteq> []) xs \<Longrightarrow> val_strings (tuple_obj PStr xs) n = Inr xs"
  unfolding val_strings_def by (erule val_items_obj) (simp add: val_obj)

lemma val_floats_obj [val_obj]: "list_all float_ok xs \<Longrightarrow> val_floats (tuple_obj PFloat xs) n = Inr xs"
  unfolding val_floats_def by (erule val_items_obj) (simp add: val_obj)

lemma val_runtime_values_obj:
  "list_all P xs \<Longrightarrow> (\<And>x. P x \<Longrightarrow> inst (obj x) = Some x) \<Longrightarrow>
     val_runtime_values inst e (tuple_obj obj xs) n = Inr xs"
  unfolding val_runtime_values_def by (erule val_items_obj) simp

lemma val_instance_obj: "inst v = Some x \<Longrightarrow> val_instance inst e v n = Inr x"
  by (simp add: val_instance_def)

lemma val_optional_instance_obj:
  "pred_option P x \<Longrightarrow> (\<And>x. P x \<Longrightarrow> inst (obj x) = Some x \<and> obj x \<noteq> PNone) \<Longrightarrow>
     val_optional_instance inst e (opt_obj obj x) n = Inr x"
  by (cases x) (simp_all add: val_optional_instance_def)

lemma val_mapping_obj [val_obj]: "val_mapping (PFrozen items) n = Inr items"
  by (simp add: val_mapping_def)

lemma contract_value_obj [val_obj]: "contract_ok v \<Longrightarrow> contract_value v = Inr v"
  using freeze_json_id [of v]
  by (cases v) (simp_all add: contract_value_def contract_ok_def del: freeze_json.simps)

lemma val_contract_values_obj [val_obj]:
  "list_all contract_ok xs \<Longrightarrow> val_contract_values (PTuple xs) n = Inr xs"
  by (auto simp: val_contract_values_def validator_simps list_all_iff val_obj intro!: traverse_id)

lemma val_timestamp_obj [val_obj]: "timestamp_ok s \<Longrightarrow> val_timestamp (PStr s) = Inr s"
  by (simp add: timestamp_ok_def)

section \<open>Enumeration members as their values\<close>

fun plain :: "pyval \<Rightarrow> pyval" where
  "plain (PStrEnum c s) = PStr s"
| "plain v = v"

lemma plain_views [plain_simps]:
  "as_str (plain v) = as_str v" "as_int (plain v) = as_int v" "as_bool (plain v) = as_bool v"
  "as_seq (plain v) = as_seq v" "plain v = PNone \<longleftrightarrow> v = PNone"
  "freeze_json (plain v) = freeze_json v"
  by (cases v; simp)+

lemma plain_idem [simp]: "plain (plain v) = plain v"
  by (cases v) simp_all

lemma plain_validators [plain_simps]:
  "val_integer (plain v) n = val_integer v n"
  "val_identifier (plain v) n = val_identifier v n"
  "val_required_string (plain v) n e = val_required_string v n e"
  "val_identity (plain v) n = val_identity v n"
  "val_optional_identifier (plain v) n = val_optional_identifier v n"
  "val_optional_string (plain v) n = val_optional_string v n"
  "val_boolean (plain v) n = val_boolean v n"
  "val_optional_boolean (plain v) n = val_optional_boolean v n"
  by (simp_all add: val_integer_def val_identifier_def val_required_string_def val_identity_def
    val_optional_identifier_def val_optional_string_def val_boolean_def val_optional_boolean_def
    val_optional_def plain_simps)

lemma plain_float [plain_simps]:
  "py_float (plain v) e = py_float v e"
  "val_float (plain v) n = val_float v n"
  "val_optional_float (plain v) n = val_optional_float v n"
proof -
  show p: "py_float (plain v) e = py_float v e" for e
    by (cases v) (simp_all add: py_float_def)
  then show "val_float (plain v) n = val_float v n" "val_optional_float (plain v) n = val_optional_float v n"
    by (simp_all add: val_float_def val_optional_float_def val_optional_def plain_simps)
qed

lemma plain_sequences [plain_simps]:
  "val_items f (plain v) n = val_items f v n"
  "val_identifiers (plain v) n = val_identifiers v n"
  "val_strings (plain v) n = val_strings v n"
  "val_floats (plain v) n = val_floats v n"
  "val_runtime_values inst e (plain v) n = val_runtime_values inst e v n"
  "val_contract_values (plain v) n = val_contract_values v n"
  by (simp_all add: val_items_def val_identifiers_def val_strings_def val_floats_def
    val_runtime_values_def val_contract_values_def plain_simps)

lemma plain_instances [plain_simps]:
  "instance_of t init (plain v) = instance_of t init v"
  "inst (plain v) = inst v \<Longrightarrow> val_instance inst e (plain v) n = val_instance inst e v n"
  "inst (plain v) = inst v \<Longrightarrow> val_optional_instance inst e (plain v) n = val_optional_instance inst e v n"
  by (cases v; simp add: instance_of_def) (simp_all add: val_instance_def val_optional_instance_def plain_simps)

lemma plain_others [plain_simps]:
  "val_mapping (plain v) n = val_mapping v n"
  "contract_value (plain v) = contract_value v"
  "val_timestamp (plain v) = val_timestamp v"
  "val_enum val members (plain v) n = val_enum val members v n"
  by (cases v; simp add: val_mapping_def contract_value_def val_timestamp_def val_enum_def)+

definition plain_fields :: "fields \<Rightarrow> fields" where
  "plain_fields fs = map (\<lambda>(k, v). (k, plain v)) fs"

lemma map_of_plain_fields: "map_of (plain_fields fs) k = map_option plain (map_of fs k)"
  by (simp add: plain_fields_def map_of_map)

lemma kw_required_plain [plain_simps]:
  "rbind (kw_required (plain_fields kw) n) f = rbind (kw_required kw n) (\<lambda>v. f (plain v))"
  by (simp add: kw_required_def map_of_plain_fields split: option.splits)

lemma kw_default_plain [plain_simps]:
  "plain d = d \<Longrightarrow> kw_default (plain_fields kw) n d = plain (kw_default kw n d)"
  by (simp add: kw_default_def map_of_plain_fields split: option.splits)

lemma val_enum_kw_default_plain [plain_simps]:
  "val_enum val members (kw_default (plain_fields kw) n d) m = val_enum val members (kw_default kw n d) m"
  by (simp add: kw_default_def map_of_plain_fields plain_simps split: option.splits)

section \<open>Properties\<close>

text \<open>
  A timestamp that is accepted is rendered in UTC without moving the instant it
  denotes, and the rendered form is a fixed point: it is accepted and rendered as itself.
\<close>

lemma timestamp_normalisation:
  assumes "val_timestamp (PDatetime d) = Inr s"
  shows "\<exists>d'. parse_iso s = Some d' \<and> utc_instant d' = utc_instant d \<and> val_timestamp (PStr s) = Inr s"
proof -
  obtain u where u: "to_utc d ''captured_at'' = Inr u" "s = render_utc u"
    using assms by (auto simp: val_timestamp_def rbind_eq_Inr_iff)
  then have "u = utc_instant d" "0 \<le> u" "u < max_us"
    by (auto simp: to_utc_def Let_def split: option.splits if_splits)
  then show ?thesis
    using parse_render_utc [of u] val_timestamp_ok [OF assms] u(2)
    by (auto simp: timestamp_ok_def utc_instant_def)
qed

end
