(* ===== verification/Models.thy ===== *)
theory Models
  imports Validation
begin

text \<open>
  The detached values of \<open>src/src/wyreplumber/runtime/models.py\<close> up to the snapshot: for
  each dataclass a record of its validated fields, \<open>mk_X\<close> for \<open>__post_init__\<close> (the fields
  validated in its order), \<open>init_X\<close> for the keyword constructor with the declared defaults,
  \<open>X_fields\<close> and \<open>X_obj\<close> for the instance as an object, and \<open>as_X\<close> for \<open>isinstance\<close>.
  \<open>X_ok\<close> is the type invariant: every constructed instance satisfies it, and an instance
  that satisfies it is a fixed point of its constructor.
\<close>

section \<open>Enumerations\<close>

datatype ConnectionState =
    CONNECTING
  | CONNECTED
  | DEGRADED
  | RECONNECTING
  | DISCONNECTED
  | STOPPED

fun connection_state_value :: "ConnectionState \<Rightarrow> string" where
  "connection_state_value CONNECTING = ''connecting''"
| "connection_state_value CONNECTED = ''connected''"
| "connection_state_value DEGRADED = ''degraded''"
| "connection_state_value RECONNECTING = ''reconnecting''"
| "connection_state_value DISCONNECTED = ''disconnected''"
| "connection_state_value STOPPED = ''stopped''"

definition connection_state_members :: "ConnectionState list" where
  "connection_state_members =
     [CONNECTING, CONNECTED, DEGRADED, RECONNECTING, DISCONNECTED, STOPPED]"

interpretation connection_state: str_enum connection_state_value connection_state_members
proof
  show "m \<in> set connection_state_members" for m by (cases m) (simp_all add: connection_state_members_def)
qed (simp add: connection_state_members_def)

lemmas connection_state_val_enum [val_obj] = connection_state.val_enum_member

datatype NodeState =
    NodeError
  | NodeCreating
  | NodeSuspended
  | NodeIdle
  | NodeRunning
  | NodeUnknown

fun node_state_value :: "NodeState \<Rightarrow> string" where
  "node_state_value NodeError = ''error''"
| "node_state_value NodeCreating = ''creating''"
| "node_state_value NodeSuspended = ''suspended''"
| "node_state_value NodeIdle = ''idle''"
| "node_state_value NodeRunning = ''running''"
| "node_state_value NodeUnknown = ''unknown''"

definition node_state_members :: "NodeState list" where
  "node_state_members =
     [NodeError, NodeCreating, NodeSuspended, NodeIdle, NodeRunning, NodeUnknown]"

interpretation node_state: str_enum node_state_value node_state_members
proof
  show "m \<in> set node_state_members" for m by (cases m) (simp_all add: node_state_members_def)
qed (simp add: node_state_members_def)

lemmas node_state_val_enum [val_obj] = node_state.val_enum_member

datatype PortDirection =
    INPUT
  | OUTPUT
  | DirectionUnknown

fun port_direction_value :: "PortDirection \<Rightarrow> string" where
  "port_direction_value INPUT = ''input''"
| "port_direction_value OUTPUT = ''output''"
| "port_direction_value DirectionUnknown = ''unknown''"

definition port_direction_members :: "PortDirection list" where
  "port_direction_members =
     [INPUT, OUTPUT, DirectionUnknown]"

interpretation port_direction: str_enum port_direction_value port_direction_members
proof
  show "m \<in> set port_direction_members" for m by (cases m) (simp_all add: port_direction_members_def)
qed (simp add: port_direction_members_def)

lemmas port_direction_val_enum [val_obj] = port_direction.val_enum_member

datatype Availability =
    AvailableYes
  | AvailableNo
  | AvailableUnknown

fun availability_value :: "Availability \<Rightarrow> string" where
  "availability_value AvailableYes = ''yes''"
| "availability_value AvailableNo = ''no''"
| "availability_value AvailableUnknown = ''unknown''"

definition availability_members :: "Availability list" where
  "availability_members =
     [AvailableYes, AvailableNo, AvailableUnknown]"

interpretation availability: str_enum availability_value availability_members
proof
  show "m \<in> set availability_members" for m by (cases m) (simp_all add: availability_members_def)
qed (simp add: availability_members_def)

lemmas availability_val_enum [val_obj] = availability.val_enum_member

section \<open>Parameter contents\<close>

record SpaIdValue =
  spaid_namespace :: "string"
  spaid_id :: "int"
  spaid_name :: "string option"

definition mk_SpaIdValue ::
    "pyval \<Rightarrow> pyval \<Rightarrow> pyval \<Rightarrow> exn + SpaIdValue" where
  "mk_SpaIdValue namespace ident name =
     rbind (val_required_string namespace ''namespace'' False) (\<lambda>namespace.
     rbind (val_identifier ident ''id'') (\<lambda>ident.
     rbind (val_optional_string name ''name'') (\<lambda>name.
     Inr \<lparr>spaid_namespace = namespace, spaid_id = ident, spaid_name = name\<rparr>)))"

definition SpaIdValue_fields :: "SpaIdValue \<Rightarrow> fields" where
  "SpaIdValue_fields x =
     [(''namespace'', PStr (spaid_namespace x)),
      (''id'', PInt (spaid_id x)),
      (''name'', opt_obj PStr (spaid_name x))]"

definition SpaIdValue_obj :: "SpaIdValue \<Rightarrow> pyval" where
  "SpaIdValue_obj x = PValue ''spa_id'' (SpaIdValue_fields x)"

definition init_SpaIdValue :: "fields \<Rightarrow> exn + SpaIdValue" where
  "init_SpaIdValue kw =
     rbind (kw_required kw ''namespace'') (\<lambda>namespace.
     rbind (kw_required kw ''id'') (\<lambda>ident.
     mk_SpaIdValue namespace ident (kw_default kw ''name'' PNone)))"

definition as_SpaIdValue :: "pyval \<Rightarrow> SpaIdValue option" where
  "as_SpaIdValue v = instance_of ''spa_id'' init_SpaIdValue v"

definition SpaIdValue_ok :: "SpaIdValue \<Rightarrow> bool" where
  "SpaIdValue_ok x \<longleftrightarrow>
     spaid_namespace x \<noteq> [] \<and> 0 \<le> spaid_id x"

lemma SpaIdValue_type_ok: "init_SpaIdValue kw = Inr x \<Longrightarrow> kw_ok kw \<Longrightarrow> SpaIdValue_ok x"
  unfolding init_SpaIdValue_def mk_SpaIdValue_def SpaIdValue_ok_def
  by (auto simp: validator_simps kw_default_ok elim!: rbind_InrE dest!: kw_required_ok intro: val_ok)

lemma init_SpaIdValue_obj: "SpaIdValue_ok x \<Longrightarrow> init_SpaIdValue (SpaIdValue_fields x) = Inr x"
  by (simp add: init_SpaIdValue_def mk_SpaIdValue_def SpaIdValue_fields_def SpaIdValue_ok_def kw_simps val_obj)

lemma init_SpaIdValue_plain [plain_simps]: "init_SpaIdValue (plain_fields kw) = init_SpaIdValue kw"
  by (simp add: init_SpaIdValue_def mk_SpaIdValue_def plain_simps)

lemma as_SpaIdValue_obj: "SpaIdValue_ok x \<Longrightarrow> as_SpaIdValue (SpaIdValue_obj x) = Some x"
  by (simp add: as_SpaIdValue_def SpaIdValue_obj_def instance_of_obj init_SpaIdValue_obj)

lemma as_SpaIdValue_ok: "as_SpaIdValue v = Some x \<Longrightarrow> well_formed v \<Longrightarrow> SpaIdValue_ok x"
  unfolding as_SpaIdValue_def by (erule instance_of_ok) (rule SpaIdValue_type_ok)

lemma as_SpaIdValue_plain [plain_simps]: "as_SpaIdValue (plain v) = as_SpaIdValue v"
  by (simp add: as_SpaIdValue_def plain_simps)

lemma vals_SpaIdValue_ok [val_ok]:
  "val_runtime_values as_SpaIdValue e v n = Inr xs \<Longrightarrow> well_formed v \<Longrightarrow> list_all SpaIdValue_ok xs"
  by (erule val_runtime_values_ok) (auto intro: as_SpaIdValue_ok)

lemma vals_SpaIdValue_obj [val_obj]:
  "list_all SpaIdValue_ok xs \<Longrightarrow> val_runtime_values as_SpaIdValue e (tuple_obj SpaIdValue_obj xs) n = Inr xs"
  by (erule val_runtime_values_obj) (rule as_SpaIdValue_obj)

record SpaChoiceValue =
  choice_kind :: "string"
  choice_default :: "pyval"
  choice_minimum :: "pyval"
  choice_maximum :: "pyval"
  choice_step :: "pyval"
  choice_alternatives :: "pyval list"
  choice_flags :: "int"
  choice_extra :: "fields"

definition mk_SpaChoiceValue ::
    "pyval \<Rightarrow> pyval \<Rightarrow> pyval \<Rightarrow> pyval \<Rightarrow> pyval \<Rightarrow> pyval \<Rightarrow> pyval \<Rightarrow> pyval \<Rightarrow> exn + SpaChoiceValue" where
  "mk_SpaChoiceValue kind default_value minimum maximum step alternatives flags extra =
     rbind (val_required_string kind ''kind'' False) (\<lambda>kind.
     rbind (contract_value default_value) (\<lambda>default_value.
     rbind (contract_value minimum) (\<lambda>minimum.
     rbind (contract_value maximum) (\<lambda>maximum.
     rbind (contract_value step) (\<lambda>step.
     rbind (val_contract_values alternatives ''alternatives'') (\<lambda>alternatives.
     rbind (val_identifier flags ''flags'') (\<lambda>flags.
     rbind (val_mapping extra ''extra'') (\<lambda>extra.
     Inr \<lparr>choice_kind = kind, choice_default = default_value, choice_minimum = minimum,
       choice_maximum = maximum, choice_step = step, choice_alternatives = alternatives,
       choice_flags = flags, choice_extra = extra\<rparr>))))))))"

definition SpaChoiceValue_fields :: "SpaChoiceValue \<Rightarrow> fields" where
  "SpaChoiceValue_fields x =
     [(''kind'', PStr (choice_kind x)),
      (''default'', (choice_default x)),
      (''minimum'', (choice_minimum x)),
      (''maximum'', (choice_maximum x)),
      (''step'', (choice_step x)),
      (''alternatives'', PTuple (choice_alternatives x)),
      (''flags'', PInt (choice_flags x)),
      (''extra'', PFrozen (choice_extra x))]"

definition SpaChoiceValue_obj :: "SpaChoiceValue \<Rightarrow> pyval" where
  "SpaChoiceValue_obj x = PValue ''spa_choice'' (SpaChoiceValue_fields x)"

definition init_SpaChoiceValue :: "fields \<Rightarrow> exn + SpaChoiceValue" where
  "init_SpaChoiceValue kw =
     rbind (kw_required kw ''kind'') (\<lambda>kind.
     mk_SpaChoiceValue kind (kw_default kw ''default'' PNone) (kw_default kw ''minimum'' PNone)
       (kw_default kw ''maximum'' PNone) (kw_default kw ''step'' PNone)
       (kw_default kw ''alternatives'' (PTuple [])) (kw_default kw ''flags'' (PInt 0))
       (kw_default kw ''extra'' (PFrozen [])))"

definition as_SpaChoiceValue :: "pyval \<Rightarrow> SpaChoiceValue option" where
  "as_SpaChoiceValue v = instance_of ''spa_choice'' init_SpaChoiceValue v"

definition SpaChoiceValue_ok :: "SpaChoiceValue \<Rightarrow> bool" where
  "SpaChoiceValue_ok x \<longleftrightarrow>
     choice_kind x \<noteq> [] \<and> contract_ok (choice_default x) \<and>
     contract_ok (choice_minimum x) \<and> contract_ok (choice_maximum x) \<and>
     contract_ok (choice_step x) \<and> list_all contract_ok (choice_alternatives x) \<and>
     0 \<le> choice_flags x \<and> mapping_ok (choice_extra x)"

lemma SpaChoiceValue_type_ok: "init_SpaChoiceValue kw = Inr x \<Longrightarrow> kw_ok kw \<Longrightarrow> SpaChoiceValue_ok x"
  unfolding init_SpaChoiceValue_def mk_SpaChoiceValue_def SpaChoiceValue_ok_def
  by (auto simp: validator_simps kw_default_ok elim!: rbind_InrE dest!: kw_required_ok intro: val_ok)

lemma init_SpaChoiceValue_obj: "SpaChoiceValue_ok x \<Longrightarrow> init_SpaChoiceValue (SpaChoiceValue_fields x) = Inr x"
  by (simp add: init_SpaChoiceValue_def mk_SpaChoiceValue_def SpaChoiceValue_fields_def SpaChoiceValue_ok_def kw_simps val_obj)

lemma init_SpaChoiceValue_plain [plain_simps]: "init_SpaChoiceValue (plain_fields kw) = init_SpaChoiceValue kw"
  by (simp add: init_SpaChoiceValue_def mk_SpaChoiceValue_def plain_simps)

lemma as_SpaChoiceValue_obj: "SpaChoiceValue_ok x \<Longrightarrow> as_SpaChoiceValue (SpaChoiceValue_obj x) = Some x"
  by (simp add: as_SpaChoiceValue_def SpaChoiceValue_obj_def instance_of_obj init_SpaChoiceValue_obj)

lemma as_SpaChoiceValue_ok: "as_SpaChoiceValue v = Some x \<Longrightarrow> well_formed v \<Longrightarrow> SpaChoiceValue_ok x"
  unfolding as_SpaChoiceValue_def by (erule instance_of_ok) (rule SpaChoiceValue_type_ok)

lemma as_SpaChoiceValue_plain [plain_simps]: "as_SpaChoiceValue (plain v) = as_SpaChoiceValue v"
  by (simp add: as_SpaChoiceValue_def plain_simps)

record AudioPropertiesValue =
  audio_volume :: "pyfloat option"
  audio_mute :: "bool option"
  audio_channel_volumes :: "pyfloat list"
  audio_channel_positions :: "SpaIdValue list"
  audio_monitor_mute :: "bool option"
  audio_monitor_volumes :: "pyfloat list"
  audio_soft_mute :: "bool option"
  audio_soft_volumes :: "pyfloat list"
  audio_extra :: "fields"

definition mk_AudioPropertiesValue ::
    "pyval \<Rightarrow> pyval \<Rightarrow> pyval \<Rightarrow> pyval \<Rightarrow> pyval \<Rightarrow> pyval \<Rightarrow> pyval \<Rightarrow> pyval \<Rightarrow> pyval \<Rightarrow> exn + AudioPropertiesValue" where
  "mk_AudioPropertiesValue volume mute channel_volumes channel_positions monitor_mute monitor_volumes soft_mute soft_volumes extra =
     rbind (val_optional_float volume ''volume'') (\<lambda>volume.
     rbind (val_optional_boolean mute ''mute'') (\<lambda>mute.
     rbind (val_floats channel_volumes ''channel_volumes'') (\<lambda>channel_volumes.
     rbind (val_runtime_values as_SpaIdValue ''SpaIdValue'' channel_positions ''channel_positions'') (\<lambda>channel_positions.
     rbind (val_optional_boolean monitor_mute ''monitor_mute'') (\<lambda>monitor_mute.
     rbind (val_floats monitor_volumes ''monitor_volumes'') (\<lambda>monitor_volumes.
     rbind (val_optional_boolean soft_mute ''soft_mute'') (\<lambda>soft_mute.
     rbind (val_floats soft_volumes ''soft_volumes'') (\<lambda>soft_volumes.
     rbind (val_mapping extra ''extra'') (\<lambda>extra.
     Inr \<lparr>audio_volume = volume, audio_mute = mute,
       audio_channel_volumes = channel_volumes,
       audio_channel_positions = channel_positions, audio_monitor_mute = monitor_mute,
       audio_monitor_volumes = monitor_volumes, audio_soft_mute = soft_mute,
       audio_soft_volumes = soft_volumes, audio_extra = extra\<rparr>)))))))))"

definition AudioPropertiesValue_fields :: "AudioPropertiesValue \<Rightarrow> fields" where
  "AudioPropertiesValue_fields x =
     [(''volume'', opt_obj PFloat (audio_volume x)),
      (''mute'', opt_obj PBool (audio_mute x)),
      (''channel_volumes'', tuple_obj PFloat (audio_channel_volumes x)),
      (''channel_positions'', tuple_obj SpaIdValue_obj (audio_channel_positions x)),
      (''monitor_mute'', opt_obj PBool (audio_monitor_mute x)),
      (''monitor_volumes'', tuple_obj PFloat (audio_monitor_volumes x)),
      (''soft_mute'', opt_obj PBool (audio_soft_mute x)),
      (''soft_volumes'', tuple_obj PFloat (audio_soft_volumes x)),
      (''extra'', PFrozen (audio_extra x))]"

definition AudioPropertiesValue_obj :: "AudioPropertiesValue \<Rightarrow> pyval" where
  "AudioPropertiesValue_obj x = PValue ''audio_properties'' (AudioPropertiesValue_fields x)"

definition init_AudioPropertiesValue :: "fields \<Rightarrow> exn + AudioPropertiesValue" where
  "init_AudioPropertiesValue kw =
     mk_AudioPropertiesValue (kw_default kw ''volume'' PNone) (kw_default kw ''mute'' PNone)
       (kw_default kw ''channel_volumes'' (PTuple []))
       (kw_default kw ''channel_positions'' (PTuple []))
       (kw_default kw ''monitor_mute'' PNone)
       (kw_default kw ''monitor_volumes'' (PTuple []))
       (kw_default kw ''soft_mute'' PNone)
       (kw_default kw ''soft_volumes'' (PTuple []))
       (kw_default kw ''extra'' (PFrozen []))"

definition as_AudioPropertiesValue :: "pyval \<Rightarrow> AudioPropertiesValue option" where
  "as_AudioPropertiesValue v = instance_of ''audio_properties'' init_AudioPropertiesValue v"

definition AudioPropertiesValue_ok :: "AudioPropertiesValue \<Rightarrow> bool" where
  "AudioPropertiesValue_ok x \<longleftrightarrow>
     pred_option float_ok (audio_volume x) \<and>
     list_all float_ok (audio_channel_volumes x) \<and>
     list_all SpaIdValue_ok (audio_channel_positions x) \<and>
     list_all float_ok (audio_monitor_volumes x) \<and>
     list_all float_ok (audio_soft_volumes x) \<and> mapping_ok (audio_extra x)"

lemma AudioPropertiesValue_type_ok: "init_AudioPropertiesValue kw = Inr x \<Longrightarrow> kw_ok kw \<Longrightarrow> AudioPropertiesValue_ok x"
  unfolding init_AudioPropertiesValue_def mk_AudioPropertiesValue_def AudioPropertiesValue_ok_def
  by (auto simp: validator_simps kw_default_ok elim!: rbind_InrE dest!: kw_required_ok intro: val_ok)

lemma init_AudioPropertiesValue_obj: "AudioPropertiesValue_ok x \<Longrightarrow> init_AudioPropertiesValue (AudioPropertiesValue_fields x) = Inr x"
  by (simp add: init_AudioPropertiesValue_def mk_AudioPropertiesValue_def AudioPropertiesValue_fields_def AudioPropertiesValue_ok_def kw_simps val_obj)

lemma init_AudioPropertiesValue_plain [plain_simps]: "init_AudioPropertiesValue (plain_fields kw) = init_AudioPropertiesValue kw"
  by (simp add: init_AudioPropertiesValue_def mk_AudioPropertiesValue_def plain_simps)

lemma as_AudioPropertiesValue_obj: "AudioPropertiesValue_ok x \<Longrightarrow> as_AudioPropertiesValue (AudioPropertiesValue_obj x) = Some x"
  by (simp add: as_AudioPropertiesValue_def AudioPropertiesValue_obj_def instance_of_obj init_AudioPropertiesValue_obj)

lemma as_AudioPropertiesValue_ok: "as_AudioPropertiesValue v = Some x \<Longrightarrow> well_formed v \<Longrightarrow> AudioPropertiesValue_ok x"
  unfolding as_AudioPropertiesValue_def by (erule instance_of_ok) (rule AudioPropertiesValue_type_ok)

text \<open>A format field holds an identifier or a choice; a count holds an integer or a choice.\<close>

datatype id_or_choice = SpaId SpaIdValue | IdChoice SpaChoiceValue

datatype int_or_choice = Exactly int | IntChoice SpaChoiceValue

definition val_id_or_choice :: "pyval \<Rightarrow> string \<Rightarrow> exn + id_or_choice option" where
  "val_id_or_choice value name =
     (if value = PNone then Inr None
      else case as_SpaIdValue value of
        Some x \<Rightarrow> Inr (Some (SpaId x))
      | None \<Rightarrow>
          (case as_SpaChoiceValue value of
             Some c \<Rightarrow> Inr (Some (IdChoice c))
           | None \<Rightarrow> Inl (TypeError (name @ '' must be a SpaIdValue, SpaChoiceValue, or None''))))"

definition val_int_or_choice :: "pyval \<Rightarrow> string \<Rightarrow> exn + int_or_choice option" where
  "val_int_or_choice value name =
     (case as_SpaChoiceValue value of
        Some c \<Rightarrow> Inr (Some (IntChoice c))
      | None \<Rightarrow>
          if value = PNone then Inr None
          else rbind (val_identifier value name) (\<lambda>i. Inr (Some (Exactly i))))"

fun id_or_choice_obj :: "id_or_choice \<Rightarrow> pyval" where
  "id_or_choice_obj (SpaId x) = SpaIdValue_obj x"
| "id_or_choice_obj (IdChoice c) = SpaChoiceValue_obj c"

fun int_or_choice_obj :: "int_or_choice \<Rightarrow> pyval" where
  "int_or_choice_obj (Exactly i) = PInt i"
| "int_or_choice_obj (IntChoice c) = SpaChoiceValue_obj c"

fun id_or_choice_ok :: "id_or_choice \<Rightarrow> bool" where
  "id_or_choice_ok (SpaId x) = SpaIdValue_ok x"
| "id_or_choice_ok (IdChoice c) = SpaChoiceValue_ok c"

fun int_or_choice_ok :: "int_or_choice \<Rightarrow> bool" where
  "int_or_choice_ok (Exactly i) = (0 \<le> i)"
| "int_or_choice_ok (IntChoice c) = SpaChoiceValue_ok c"

lemma val_id_or_choice_ok [val_ok]:
  "val_id_or_choice v n = Inr x \<Longrightarrow> well_formed v \<Longrightarrow> pred_option id_or_choice_ok x"
  using as_SpaIdValue_ok [of v] as_SpaChoiceValue_ok [of v]
  by (auto simp: val_id_or_choice_def split: if_splits option.splits)

lemma val_int_or_choice_ok [val_ok]:
  "val_int_or_choice v n = Inr x \<Longrightarrow> well_formed v \<Longrightarrow> pred_option int_or_choice_ok x"
  using as_SpaChoiceValue_ok [of v]
  by (auto simp: val_int_or_choice_def rbind_eq_Inr_iff validator_simps split: if_splits option.splits)

lemma other_class [simp]: "as_SpaIdValue (SpaChoiceValue_obj c) = None" "as_SpaChoiceValue (PInt i) = None"
    "as_SpaChoiceValue PNone = None"
  by (simp_all add: as_SpaIdValue_def as_SpaChoiceValue_def SpaChoiceValue_obj_def instance_of_def)

lemma val_id_or_choice_obj [val_obj]:
  "pred_option id_or_choice_ok x \<Longrightarrow> val_id_or_choice (opt_obj id_or_choice_obj x) n = Inr x"
  by (cases x; cases "the x")
    (simp_all add: val_id_or_choice_def as_SpaIdValue_obj as_SpaChoiceValue_obj,
     simp_all add: SpaIdValue_obj_def SpaChoiceValue_obj_def)

lemma val_int_or_choice_obj [val_obj]:
  "pred_option int_or_choice_ok x \<Longrightarrow> val_int_or_choice (opt_obj int_or_choice_obj x) n = Inr x"
  by (cases x; cases "the x") (simp_all add: val_int_or_choice_def as_SpaChoiceValue_obj val_obj)

lemma val_or_choice_plain [plain_simps]:
  "val_id_or_choice (plain v) n = val_id_or_choice v n"
  "val_int_or_choice (plain v) n = val_int_or_choice v n"
  by (simp_all add: val_id_or_choice_def val_int_or_choice_def plain_simps split: option.split)

record AudioFormatValue =
  format_media_type :: "id_or_choice option"
  format_media_subtype :: "id_or_choice option"
  format_sample_format :: "id_or_choice option"
  format_rate :: "int_or_choice option"
  format_channels :: "int_or_choice option"
  format_positions :: "SpaIdValue list"
  format_iec958_codec :: "id_or_choice option"
  format_extra :: "fields"

definition mk_AudioFormatValue ::
    "pyval \<Rightarrow> pyval \<Rightarrow> pyval \<Rightarrow> pyval \<Rightarrow> pyval \<Rightarrow> pyval \<Rightarrow> pyval \<Rightarrow> pyval \<Rightarrow> exn + AudioFormatValue" where
  "mk_AudioFormatValue media_type media_subtype sample_format rate channels positions iec958_codec extra =
     rbind (val_id_or_choice media_type ''media_type'') (\<lambda>media_type.
     rbind (val_id_or_choice media_subtype ''media_subtype'') (\<lambda>media_subtype.
     rbind (val_id_or_choice sample_format ''sample_format'') (\<lambda>sample_format.
     rbind (val_id_or_choice iec958_codec ''iec958_codec'') (\<lambda>iec958_codec.
     rbind (val_int_or_choice rate ''rate'') (\<lambda>rate.
     rbind (val_int_or_choice channels ''channels'') (\<lambda>channels.
     rbind (val_runtime_values as_SpaIdValue ''SpaIdValue'' positions ''positions'') (\<lambda>positions.
     rbind (val_mapping extra ''extra'') (\<lambda>extra.
     Inr \<lparr>format_media_type = media_type, format_media_subtype = media_subtype,
       format_sample_format = sample_format, format_rate = rate,
       format_channels = channels, format_positions = positions,
       format_iec958_codec = iec958_codec, format_extra = extra\<rparr>))))))))"

definition AudioFormatValue_fields :: "AudioFormatValue \<Rightarrow> fields" where
  "AudioFormatValue_fields x =
     [(''media_type'', opt_obj id_or_choice_obj (format_media_type x)),
      (''media_subtype'', opt_obj id_or_choice_obj (format_media_subtype x)),
      (''sample_format'', opt_obj id_or_choice_obj (format_sample_format x)),
      (''rate'', opt_obj int_or_choice_obj (format_rate x)),
      (''channels'', opt_obj int_or_choice_obj (format_channels x)),
      (''positions'', tuple_obj SpaIdValue_obj (format_positions x)),
      (''iec958_codec'', opt_obj id_or_choice_obj (format_iec958_codec x)),
      (''extra'', PFrozen (format_extra x))]"

definition AudioFormatValue_obj :: "AudioFormatValue \<Rightarrow> pyval" where
  "AudioFormatValue_obj x = PValue ''audio_format'' (AudioFormatValue_fields x)"

definition init_AudioFormatValue :: "fields \<Rightarrow> exn + AudioFormatValue" where
  "init_AudioFormatValue kw =
     mk_AudioFormatValue (kw_default kw ''media_type'' PNone) (kw_default kw ''media_subtype'' PNone)
       (kw_default kw ''sample_format'' PNone) (kw_default kw ''rate'' PNone)
       (kw_default kw ''channels'' PNone) (kw_default kw ''positions'' (PTuple []))
       (kw_default kw ''iec958_codec'' PNone) (kw_default kw ''extra'' (PFrozen []))"

definition as_AudioFormatValue :: "pyval \<Rightarrow> AudioFormatValue option" where
  "as_AudioFormatValue v = instance_of ''audio_format'' init_AudioFormatValue v"

definition AudioFormatValue_ok :: "AudioFormatValue \<Rightarrow> bool" where
  "AudioFormatValue_ok x \<longleftrightarrow>
     pred_option id_or_choice_ok (format_media_type x) \<and>
     pred_option id_or_choice_ok (format_media_subtype x) \<and>
     pred_option id_or_choice_ok (format_sample_format x) \<and>
     pred_option int_or_choice_ok (format_rate x) \<and>
     pred_option int_or_choice_ok (format_channels x) \<and>
     list_all SpaIdValue_ok (format_positions x) \<and>
     pred_option id_or_choice_ok (format_iec958_codec x) \<and> mapping_ok (format_extra x)"

lemma AudioFormatValue_type_ok: "init_AudioFormatValue kw = Inr x \<Longrightarrow> kw_ok kw \<Longrightarrow> AudioFormatValue_ok x"
  unfolding init_AudioFormatValue_def mk_AudioFormatValue_def AudioFormatValue_ok_def
  by (auto simp: validator_simps kw_default_ok elim!: rbind_InrE dest!: kw_required_ok intro: val_ok)

lemma init_AudioFormatValue_obj: "AudioFormatValue_ok x \<Longrightarrow> init_AudioFormatValue (AudioFormatValue_fields x) = Inr x"
  by (simp add: init_AudioFormatValue_def mk_AudioFormatValue_def AudioFormatValue_fields_def AudioFormatValue_ok_def kw_simps val_obj)

lemma init_AudioFormatValue_plain [plain_simps]: "init_AudioFormatValue (plain_fields kw) = init_AudioFormatValue kw"
  by (simp add: init_AudioFormatValue_def mk_AudioFormatValue_def plain_simps)

lemma as_AudioFormatValue_obj: "AudioFormatValue_ok x \<Longrightarrow> as_AudioFormatValue (AudioFormatValue_obj x) = Some x"
  by (simp add: as_AudioFormatValue_def AudioFormatValue_obj_def instance_of_obj init_AudioFormatValue_obj)

lemma as_AudioFormatValue_ok: "as_AudioFormatValue v = Some x \<Longrightarrow> well_formed v \<Longrightarrow> AudioFormatValue_ok x"
  unfolding as_AudioFormatValue_def by (erule instance_of_ok) (rule AudioFormatValue_type_ok)

section \<open>Connection and objects\<close>

record ConnectionHealthValue =
  health_state :: "ConnectionState"
  health_generation :: "int"
  health_reason :: "string option"
  health_details :: "fields"

definition mk_ConnectionHealthValue ::
    "pyval \<Rightarrow> pyval \<Rightarrow> pyval \<Rightarrow> pyval \<Rightarrow> exn + ConnectionHealthValue" where
  "mk_ConnectionHealthValue state generation reason details =
     rbind (val_enum connection_state_value connection_state_members state ''state'') (\<lambda>state.
     rbind (val_identifier generation ''generation'') (\<lambda>generation.
     rbind (val_optional_string reason ''reason'') (\<lambda>reason.
     rbind (val_mapping details ''details'') (\<lambda>details.
     Inr \<lparr>health_state = state, health_generation = generation, health_reason = reason,
       health_details = details\<rparr>))))"

definition ConnectionHealthValue_fields :: "ConnectionHealthValue \<Rightarrow> fields" where
  "ConnectionHealthValue_fields x =
     [(''state'', PStrEnum ''ConnectionState'' (connection_state_value (health_state x))),
      (''generation'', PInt (health_generation x)),
      (''reason'', opt_obj PStr (health_reason x)),
      (''details'', PFrozen (health_details x))]"

definition ConnectionHealthValue_obj :: "ConnectionHealthValue \<Rightarrow> pyval" where
  "ConnectionHealthValue_obj x = PValue ''connection_health'' (ConnectionHealthValue_fields x)"

definition init_ConnectionHealthValue :: "fields \<Rightarrow> exn + ConnectionHealthValue" where
  "init_ConnectionHealthValue kw =
     rbind (kw_required kw ''state'') (\<lambda>state.
     rbind (kw_required kw ''generation'') (\<lambda>generation.
     mk_ConnectionHealthValue state generation (kw_default kw ''reason'' PNone)
       (kw_default kw ''details'' (PFrozen []))))"

definition as_ConnectionHealthValue :: "pyval \<Rightarrow> ConnectionHealthValue option" where
  "as_ConnectionHealthValue v = instance_of ''connection_health'' init_ConnectionHealthValue v"

definition ConnectionHealthValue_ok :: "ConnectionHealthValue \<Rightarrow> bool" where
  "ConnectionHealthValue_ok x \<longleftrightarrow>
     0 \<le> health_generation x \<and> mapping_ok (health_details x)"

lemma ConnectionHealthValue_type_ok: "init_ConnectionHealthValue kw = Inr x \<Longrightarrow> kw_ok kw \<Longrightarrow> ConnectionHealthValue_ok x"
  unfolding init_ConnectionHealthValue_def mk_ConnectionHealthValue_def ConnectionHealthValue_ok_def
  by (auto simp: validator_simps kw_default_ok elim!: rbind_InrE dest!: kw_required_ok intro: val_ok)

lemma init_ConnectionHealthValue_obj: "ConnectionHealthValue_ok x \<Longrightarrow> init_ConnectionHealthValue (ConnectionHealthValue_fields x) = Inr x"
  by (simp add: init_ConnectionHealthValue_def mk_ConnectionHealthValue_def ConnectionHealthValue_fields_def ConnectionHealthValue_ok_def kw_simps val_obj)

lemma init_ConnectionHealthValue_plain [plain_simps]: "init_ConnectionHealthValue (plain_fields kw) = init_ConnectionHealthValue kw"
  by (simp add: init_ConnectionHealthValue_def mk_ConnectionHealthValue_def plain_simps)

lemma as_ConnectionHealthValue_obj: "ConnectionHealthValue_ok x \<Longrightarrow> as_ConnectionHealthValue (ConnectionHealthValue_obj x) = Some x"
  by (simp add: as_ConnectionHealthValue_def ConnectionHealthValue_obj_def instance_of_obj init_ConnectionHealthValue_obj)

lemma as_ConnectionHealthValue_ok: "as_ConnectionHealthValue v = Some x \<Longrightarrow> well_formed v \<Longrightarrow> ConnectionHealthValue_ok x"
  unfolding as_ConnectionHealthValue_def by (erule instance_of_ok) (rule ConnectionHealthValue_type_ok)

lemma as_ConnectionHealthValue_plain [plain_simps]: "as_ConnectionHealthValue (plain v) = as_ConnectionHealthValue v"
  by (simp add: as_ConnectionHealthValue_def plain_simps)

lemma val_ConnectionHealthValue_ok [val_ok]: "val_instance as_ConnectionHealthValue e v n = Inr x \<Longrightarrow> well_formed v \<Longrightarrow> ConnectionHealthValue_ok x"
  by (erule val_instance_ok) (auto intro: as_ConnectionHealthValue_ok)

lemma val_ConnectionHealthValue_obj [val_obj]: "ConnectionHealthValue_ok x \<Longrightarrow> val_instance as_ConnectionHealthValue e (ConnectionHealthValue_obj x) n = Inr x"
  by (rule val_instance_obj) (rule as_ConnectionHealthValue_obj)

record DeviceValue =
  dev_id :: "int"
  dev_name :: "string option"
  dev_description :: "string option"
  dev_media_class :: "string option"
  dev_properties :: "fields"
  dev_parameter_ids :: "string list"
  dev_profile_ids :: "int list"
  dev_route_ids :: "int list"

definition mk_DeviceValue ::
    "pyval \<Rightarrow> pyval \<Rightarrow> pyval \<Rightarrow> pyval \<Rightarrow> pyval \<Rightarrow> pyval \<Rightarrow> pyval \<Rightarrow> pyval \<Rightarrow> exn + DeviceValue" where
  "mk_DeviceValue ident name description media_class properties parameter_ids profile_ids route_ids =
     rbind (val_identifier ident ''id'') (\<lambda>ident.
     rbind (val_optional_string name ''name'') (\<lambda>name.
     rbind (val_optional_string description ''description'') (\<lambda>description.
     rbind (val_optional_string media_class ''media_class'') (\<lambda>media_class.
     rbind (val_mapping properties ''properties'') (\<lambda>properties.
     rbind (val_strings parameter_ids ''parameter_ids'') (\<lambda>parameter_ids.
     rbind (val_identifiers profile_ids ''profile_ids'') (\<lambda>profile_ids.
     rbind (val_identifiers route_ids ''route_ids'') (\<lambda>route_ids.
     Inr \<lparr>dev_id = ident, dev_name = name, dev_description = description,
       dev_media_class = media_class, dev_properties = properties,
       dev_parameter_ids = parameter_ids, dev_profile_ids = profile_ids,
       dev_route_ids = route_ids\<rparr>))))))))"

definition DeviceValue_fields :: "DeviceValue \<Rightarrow> fields" where
  "DeviceValue_fields x =
     [(''id'', PInt (dev_id x)),
      (''name'', opt_obj PStr (dev_name x)),
      (''description'', opt_obj PStr (dev_description x)),
      (''media_class'', opt_obj PStr (dev_media_class x)),
      (''properties'', PFrozen (dev_properties x)),
      (''parameter_ids'', tuple_obj PStr (dev_parameter_ids x)),
      (''profile_ids'', tuple_obj PInt (dev_profile_ids x)),
      (''route_ids'', tuple_obj PInt (dev_route_ids x))]"

definition DeviceValue_obj :: "DeviceValue \<Rightarrow> pyval" where
  "DeviceValue_obj x = PValue ''device'' (DeviceValue_fields x)"

definition init_DeviceValue :: "fields \<Rightarrow> exn + DeviceValue" where
  "init_DeviceValue kw =
     rbind (kw_required kw ''id'') (\<lambda>ident.
     mk_DeviceValue ident (kw_default kw ''name'' PNone) (kw_default kw ''description'' PNone)
       (kw_default kw ''media_class'' PNone)
       (kw_default kw ''properties'' (PFrozen []))
       (kw_default kw ''parameter_ids'' (PTuple []))
       (kw_default kw ''profile_ids'' (PTuple []))
       (kw_default kw ''route_ids'' (PTuple [])))"

definition as_DeviceValue :: "pyval \<Rightarrow> DeviceValue option" where
  "as_DeviceValue v = instance_of ''device'' init_DeviceValue v"

definition DeviceValue_ok :: "DeviceValue \<Rightarrow> bool" where
  "DeviceValue_ok x \<longleftrightarrow>
     0 \<le> dev_id x \<and> mapping_ok (dev_properties x) \<and>
     list_all (\<lambda>s. s \<noteq> []) (dev_parameter_ids x) \<and>
     list_all (\<lambda>i. 0 \<le> i) (dev_profile_ids x) \<and>
     list_all (\<lambda>i. 0 \<le> i) (dev_route_ids x)"

lemma DeviceValue_type_ok: "init_DeviceValue kw = Inr x \<Longrightarrow> kw_ok kw \<Longrightarrow> DeviceValue_ok x"
  unfolding init_DeviceValue_def mk_DeviceValue_def DeviceValue_ok_def
  by (auto simp: validator_simps kw_default_ok elim!: rbind_InrE dest!: kw_required_ok intro: val_ok)

lemma init_DeviceValue_obj: "DeviceValue_ok x \<Longrightarrow> init_DeviceValue (DeviceValue_fields x) = Inr x"
  by (simp add: init_DeviceValue_def mk_DeviceValue_def DeviceValue_fields_def DeviceValue_ok_def kw_simps val_obj)

lemma init_DeviceValue_plain [plain_simps]: "init_DeviceValue (plain_fields kw) = init_DeviceValue kw"
  by (simp add: init_DeviceValue_def mk_DeviceValue_def plain_simps)

lemma as_DeviceValue_obj: "DeviceValue_ok x \<Longrightarrow> as_DeviceValue (DeviceValue_obj x) = Some x"
  by (simp add: as_DeviceValue_def DeviceValue_obj_def instance_of_obj init_DeviceValue_obj)

lemma as_DeviceValue_ok: "as_DeviceValue v = Some x \<Longrightarrow> well_formed v \<Longrightarrow> DeviceValue_ok x"
  unfolding as_DeviceValue_def by (erule instance_of_ok) (rule DeviceValue_type_ok)

lemma as_DeviceValue_plain [plain_simps]: "as_DeviceValue (plain v) = as_DeviceValue v"
  by (simp add: as_DeviceValue_def plain_simps)

lemma vals_DeviceValue_ok [val_ok]:
  "val_runtime_values as_DeviceValue e v n = Inr xs \<Longrightarrow> well_formed v \<Longrightarrow> list_all DeviceValue_ok xs"
  by (erule val_runtime_values_ok) (auto intro: as_DeviceValue_ok)

lemma vals_DeviceValue_obj [val_obj]:
  "list_all DeviceValue_ok xs \<Longrightarrow> val_runtime_values as_DeviceValue e (tuple_obj DeviceValue_obj xs) n = Inr xs"
  by (erule val_runtime_values_obj) (rule as_DeviceValue_obj)

record NodeValue =
  nd_id :: "int"
  nd_device_id :: "int option"
  nd_name :: "string option"
  nd_description :: "string option"
  nd_media_class :: "string option"
  nd_state :: "NodeState"
  nd_error :: "string option"
  nd_input_port_ids :: "int list"
  nd_output_port_ids :: "int list"
  nd_properties :: "fields"
  nd_parameter_ids :: "string list"

definition mk_NodeValue ::
    "pyval \<Rightarrow> pyval \<Rightarrow> pyval \<Rightarrow> pyval \<Rightarrow> pyval \<Rightarrow> pyval \<Rightarrow> pyval \<Rightarrow> pyval \<Rightarrow> pyval \<Rightarrow> pyval \<Rightarrow> pyval \<Rightarrow> exn + NodeValue" where
  "mk_NodeValue ident device_id name description media_class state error input_port_ids output_port_ids properties parameter_ids =
     rbind (val_identifier ident ''id'') (\<lambda>ident.
     rbind (val_optional_identifier device_id ''device_id'') (\<lambda>device_id.
     rbind (val_optional_string name ''name'') (\<lambda>name.
     rbind (val_optional_string description ''description'') (\<lambda>description.
     rbind (val_optional_string media_class ''media_class'') (\<lambda>media_class.
     rbind (val_optional_string error ''error'') (\<lambda>error.
     rbind (val_enum node_state_value node_state_members state ''state'') (\<lambda>state.
     rbind (val_identifiers input_port_ids ''input_port_ids'') (\<lambda>input_port_ids.
     rbind (val_identifiers output_port_ids ''output_port_ids'') (\<lambda>output_port_ids.
     rbind (val_mapping properties ''properties'') (\<lambda>properties.
     rbind (val_strings parameter_ids ''parameter_ids'') (\<lambda>parameter_ids.
     Inr \<lparr>nd_id = ident, nd_device_id = device_id, nd_name = name,
       nd_description = description, nd_media_class = media_class, nd_state = state,
       nd_error = error, nd_input_port_ids = input_port_ids,
       nd_output_port_ids = output_port_ids, nd_properties = properties,
       nd_parameter_ids = parameter_ids\<rparr>)))))))))))"

definition NodeValue_fields :: "NodeValue \<Rightarrow> fields" where
  "NodeValue_fields x =
     [(''id'', PInt (nd_id x)),
      (''device_id'', opt_obj PInt (nd_device_id x)),
      (''name'', opt_obj PStr (nd_name x)),
      (''description'', opt_obj PStr (nd_description x)),
      (''media_class'', opt_obj PStr (nd_media_class x)),
      (''state'', PStrEnum ''NodeState'' (node_state_value (nd_state x))),
      (''error'', opt_obj PStr (nd_error x)),
      (''input_port_ids'', tuple_obj PInt (nd_input_port_ids x)),
      (''output_port_ids'', tuple_obj PInt (nd_output_port_ids x)),
      (''properties'', PFrozen (nd_properties x)),
      (''parameter_ids'', tuple_obj PStr (nd_parameter_ids x))]"

definition NodeValue_obj :: "NodeValue \<Rightarrow> pyval" where
  "NodeValue_obj x = PValue ''node'' (NodeValue_fields x)"

definition init_NodeValue :: "fields \<Rightarrow> exn + NodeValue" where
  "init_NodeValue kw =
     rbind (kw_required kw ''id'') (\<lambda>ident.
     mk_NodeValue ident (kw_default kw ''device_id'' PNone) (kw_default kw ''name'' PNone)
       (kw_default kw ''description'' PNone) (kw_default kw ''media_class'' PNone)
       (kw_default kw ''state'' (PStrEnum ''NodeState'' ''unknown''))
       (kw_default kw ''error'' PNone) (kw_default kw ''input_port_ids'' (PTuple []))
       (kw_default kw ''output_port_ids'' (PTuple []))
       (kw_default kw ''properties'' (PFrozen []))
       (kw_default kw ''parameter_ids'' (PTuple [])))"

definition as_NodeValue :: "pyval \<Rightarrow> NodeValue option" where
  "as_NodeValue v = instance_of ''node'' init_NodeValue v"

definition NodeValue_ok :: "NodeValue \<Rightarrow> bool" where
  "NodeValue_ok x \<longleftrightarrow>
     0 \<le> nd_id x \<and> pred_option (\<lambda>i. 0 \<le> i) (nd_device_id x) \<and>
     list_all (\<lambda>i. 0 \<le> i) (nd_input_port_ids x) \<and>
     list_all (\<lambda>i. 0 \<le> i) (nd_output_port_ids x) \<and>
     mapping_ok (nd_properties x) \<and>
     list_all (\<lambda>s. s \<noteq> []) (nd_parameter_ids x)"

lemma NodeValue_type_ok: "init_NodeValue kw = Inr x \<Longrightarrow> kw_ok kw \<Longrightarrow> NodeValue_ok x"
  unfolding init_NodeValue_def mk_NodeValue_def NodeValue_ok_def
  by (auto simp: validator_simps kw_default_ok elim!: rbind_InrE dest!: kw_required_ok intro: val_ok)

lemma init_NodeValue_obj: "NodeValue_ok x \<Longrightarrow> init_NodeValue (NodeValue_fields x) = Inr x"
  by (simp add: init_NodeValue_def mk_NodeValue_def NodeValue_fields_def NodeValue_ok_def kw_simps val_obj)

lemma init_NodeValue_plain [plain_simps]: "init_NodeValue (plain_fields kw) = init_NodeValue kw"
  by (simp add: init_NodeValue_def mk_NodeValue_def plain_simps)

lemma as_NodeValue_obj: "NodeValue_ok x \<Longrightarrow> as_NodeValue (NodeValue_obj x) = Some x"
  by (simp add: as_NodeValue_def NodeValue_obj_def instance_of_obj init_NodeValue_obj)

lemma as_NodeValue_ok: "as_NodeValue v = Some x \<Longrightarrow> well_formed v \<Longrightarrow> NodeValue_ok x"
  unfolding as_NodeValue_def by (erule instance_of_ok) (rule NodeValue_type_ok)

lemma as_NodeValue_plain [plain_simps]: "as_NodeValue (plain v) = as_NodeValue v"
  by (simp add: as_NodeValue_def plain_simps)

lemma vals_NodeValue_ok [val_ok]:
  "val_runtime_values as_NodeValue e v n = Inr xs \<Longrightarrow> well_formed v \<Longrightarrow> list_all NodeValue_ok xs"
  by (erule val_runtime_values_ok) (auto intro: as_NodeValue_ok)

lemma vals_NodeValue_obj [val_obj]:
  "list_all NodeValue_ok xs \<Longrightarrow> val_runtime_values as_NodeValue e (tuple_obj NodeValue_obj xs) n = Inr xs"
  by (erule val_runtime_values_obj) (rule as_NodeValue_obj)

record PortValue =
  pt_id :: "int"
  pt_node_id :: "int"
  pt_direction :: "PortDirection"
  pt_name :: "string option"
  pt_channel :: "string option"
  pt_properties :: "fields"
  pt_parameter_ids :: "string list"

definition mk_PortValue ::
    "pyval \<Rightarrow> pyval \<Rightarrow> pyval \<Rightarrow> pyval \<Rightarrow> pyval \<Rightarrow> pyval \<Rightarrow> pyval \<Rightarrow> exn + PortValue" where
  "mk_PortValue ident node_id direction name channel properties parameter_ids =
     rbind (val_identifier ident ''id'') (\<lambda>ident.
     rbind (val_identifier node_id ''node_id'') (\<lambda>node_id.
     rbind (val_enum port_direction_value port_direction_members direction ''direction'') (\<lambda>direction.
     rbind (val_optional_string name ''name'') (\<lambda>name.
     rbind (val_optional_string channel ''channel'') (\<lambda>channel.
     rbind (val_mapping properties ''properties'') (\<lambda>properties.
     rbind (val_strings parameter_ids ''parameter_ids'') (\<lambda>parameter_ids.
     Inr \<lparr>pt_id = ident, pt_node_id = node_id, pt_direction = direction, pt_name = name,
       pt_channel = channel, pt_properties = properties,
       pt_parameter_ids = parameter_ids\<rparr>)))))))"

definition PortValue_fields :: "PortValue \<Rightarrow> fields" where
  "PortValue_fields x =
     [(''id'', PInt (pt_id x)),
      (''node_id'', PInt (pt_node_id x)),
      (''direction'', PStrEnum ''PortDirection'' (port_direction_value (pt_direction x))),
      (''name'', opt_obj PStr (pt_name x)),
      (''channel'', opt_obj PStr (pt_channel x)),
      (''properties'', PFrozen (pt_properties x)),
      (''parameter_ids'', tuple_obj PStr (pt_parameter_ids x))]"

definition PortValue_obj :: "PortValue \<Rightarrow> pyval" where
  "PortValue_obj x = PValue ''port'' (PortValue_fields x)"

definition init_PortValue :: "fields \<Rightarrow> exn + PortValue" where
  "init_PortValue kw =
     rbind (kw_required kw ''id'') (\<lambda>ident.
     rbind (kw_required kw ''node_id'') (\<lambda>node_id.
     rbind (kw_required kw ''direction'') (\<lambda>direction.
     mk_PortValue ident node_id direction (kw_default kw ''name'' PNone)
       (kw_default kw ''channel'' PNone) (kw_default kw ''properties'' (PFrozen []))
       (kw_default kw ''parameter_ids'' (PTuple [])))))"

definition as_PortValue :: "pyval \<Rightarrow> PortValue option" where
  "as_PortValue v = instance_of ''port'' init_PortValue v"

definition PortValue_ok :: "PortValue \<Rightarrow> bool" where
  "PortValue_ok x \<longleftrightarrow>
     0 \<le> pt_id x \<and> 0 \<le> pt_node_id x \<and> mapping_ok (pt_properties x) \<and>
     list_all (\<lambda>s. s \<noteq> []) (pt_parameter_ids x)"

lemma PortValue_type_ok: "init_PortValue kw = Inr x \<Longrightarrow> kw_ok kw \<Longrightarrow> PortValue_ok x"
  unfolding init_PortValue_def mk_PortValue_def PortValue_ok_def
  by (auto simp: validator_simps kw_default_ok elim!: rbind_InrE dest!: kw_required_ok intro: val_ok)

lemma init_PortValue_obj: "PortValue_ok x \<Longrightarrow> init_PortValue (PortValue_fields x) = Inr x"
  by (simp add: init_PortValue_def mk_PortValue_def PortValue_fields_def PortValue_ok_def kw_simps val_obj)

lemma init_PortValue_plain [plain_simps]: "init_PortValue (plain_fields kw) = init_PortValue kw"
  by (simp add: init_PortValue_def mk_PortValue_def plain_simps)

lemma as_PortValue_obj: "PortValue_ok x \<Longrightarrow> as_PortValue (PortValue_obj x) = Some x"
  by (simp add: as_PortValue_def PortValue_obj_def instance_of_obj init_PortValue_obj)

lemma as_PortValue_ok: "as_PortValue v = Some x \<Longrightarrow> well_formed v \<Longrightarrow> PortValue_ok x"
  unfolding as_PortValue_def by (erule instance_of_ok) (rule PortValue_type_ok)

lemma as_PortValue_plain [plain_simps]: "as_PortValue (plain v) = as_PortValue v"
  by (simp add: as_PortValue_def plain_simps)

lemma vals_PortValue_ok [val_ok]:
  "val_runtime_values as_PortValue e v n = Inr xs \<Longrightarrow> well_formed v \<Longrightarrow> list_all PortValue_ok xs"
  by (erule val_runtime_values_ok) (auto intro: as_PortValue_ok)

lemma vals_PortValue_obj [val_obj]:
  "list_all PortValue_ok xs \<Longrightarrow> val_runtime_values as_PortValue e (tuple_obj PortValue_obj xs) n = Inr xs"
  by (erule val_runtime_values_obj) (rule as_PortValue_obj)

record LinkValue =
  lk_id :: "int"
  lk_output_node_id :: "int"
  lk_output_port_id :: "int"
  lk_input_node_id :: "int"
  lk_input_port_id :: "int"
  lk_state :: "string option"
  lk_owner :: "string option"
  lk_desired_id :: "string option"
  lk_properties :: "fields"

definition mk_LinkValue ::
    "pyval \<Rightarrow> pyval \<Rightarrow> pyval \<Rightarrow> pyval \<Rightarrow> pyval \<Rightarrow> pyval \<Rightarrow> pyval \<Rightarrow> pyval \<Rightarrow> pyval \<Rightarrow> exn + LinkValue" where
  "mk_LinkValue ident output_node_id output_port_id input_node_id input_port_id state owner desired_id properties =
     rbind (val_identifier ident ''id'') (\<lambda>ident.
     rbind (val_identifier output_node_id ''output_node_id'') (\<lambda>output_node_id.
     rbind (val_identifier output_port_id ''output_port_id'') (\<lambda>output_port_id.
     rbind (val_identifier input_node_id ''input_node_id'') (\<lambda>input_node_id.
     rbind (val_identifier input_port_id ''input_port_id'') (\<lambda>input_port_id.
     rbind (val_optional_string state ''state'') (\<lambda>state.
     rbind (val_optional_string owner ''owner'') (\<lambda>owner.
     rbind (val_optional_string desired_id ''desired_id'') (\<lambda>desired_id.
     rbind (val_mapping properties ''properties'') (\<lambda>properties.
     Inr \<lparr>lk_id = ident, lk_output_node_id = output_node_id,
       lk_output_port_id = output_port_id, lk_input_node_id = input_node_id,
       lk_input_port_id = input_port_id, lk_state = state, lk_owner = owner,
       lk_desired_id = desired_id, lk_properties = properties\<rparr>)))))))))"

definition LinkValue_fields :: "LinkValue \<Rightarrow> fields" where
  "LinkValue_fields x =
     [(''id'', PInt (lk_id x)),
      (''output_node_id'', PInt (lk_output_node_id x)),
      (''output_port_id'', PInt (lk_output_port_id x)),
      (''input_node_id'', PInt (lk_input_node_id x)),
      (''input_port_id'', PInt (lk_input_port_id x)),
      (''state'', opt_obj PStr (lk_state x)),
      (''owner'', opt_obj PStr (lk_owner x)),
      (''desired_id'', opt_obj PStr (lk_desired_id x)),
      (''properties'', PFrozen (lk_properties x))]"

definition LinkValue_obj :: "LinkValue \<Rightarrow> pyval" where
  "LinkValue_obj x = PValue ''link'' (LinkValue_fields x)"

definition init_LinkValue :: "fields \<Rightarrow> exn + LinkValue" where
  "init_LinkValue kw =
     rbind (kw_required kw ''id'') (\<lambda>ident.
     rbind (kw_required kw ''output_node_id'') (\<lambda>output_node_id.
     rbind (kw_required kw ''output_port_id'') (\<lambda>output_port_id.
     rbind (kw_required kw ''input_node_id'') (\<lambda>input_node_id.
     rbind (kw_required kw ''input_port_id'') (\<lambda>input_port_id.
     mk_LinkValue ident output_node_id output_port_id input_node_id input_port_id
       (kw_default kw ''state'' PNone) (kw_default kw ''owner'' PNone)
       (kw_default kw ''desired_id'' PNone)
       (kw_default kw ''properties'' (PFrozen [])))))))"

definition as_LinkValue :: "pyval \<Rightarrow> LinkValue option" where
  "as_LinkValue v = instance_of ''link'' init_LinkValue v"

definition LinkValue_ok :: "LinkValue \<Rightarrow> bool" where
  "LinkValue_ok x \<longleftrightarrow>
     0 \<le> lk_id x \<and> 0 \<le> lk_output_node_id x \<and> 0 \<le> lk_output_port_id x \<and>
     0 \<le> lk_input_node_id x \<and> 0 \<le> lk_input_port_id x \<and>
     mapping_ok (lk_properties x)"

lemma LinkValue_type_ok: "init_LinkValue kw = Inr x \<Longrightarrow> kw_ok kw \<Longrightarrow> LinkValue_ok x"
  unfolding init_LinkValue_def mk_LinkValue_def LinkValue_ok_def
  by (auto simp: validator_simps kw_default_ok elim!: rbind_InrE dest!: kw_required_ok intro: val_ok)

lemma init_LinkValue_obj: "LinkValue_ok x \<Longrightarrow> init_LinkValue (LinkValue_fields x) = Inr x"
  by (simp add: init_LinkValue_def mk_LinkValue_def LinkValue_fields_def LinkValue_ok_def kw_simps val_obj)

lemma init_LinkValue_plain [plain_simps]: "init_LinkValue (plain_fields kw) = init_LinkValue kw"
  by (simp add: init_LinkValue_def mk_LinkValue_def plain_simps)

lemma as_LinkValue_obj: "LinkValue_ok x \<Longrightarrow> as_LinkValue (LinkValue_obj x) = Some x"
  by (simp add: as_LinkValue_def LinkValue_obj_def instance_of_obj init_LinkValue_obj)

lemma as_LinkValue_ok: "as_LinkValue v = Some x \<Longrightarrow> well_formed v \<Longrightarrow> LinkValue_ok x"
  unfolding as_LinkValue_def by (erule instance_of_ok) (rule LinkValue_type_ok)

lemma as_LinkValue_plain [plain_simps]: "as_LinkValue (plain v) = as_LinkValue v"
  by (simp add: as_LinkValue_def plain_simps)

lemma vals_LinkValue_ok [val_ok]:
  "val_runtime_values as_LinkValue e v n = Inr xs \<Longrightarrow> well_formed v \<Longrightarrow> list_all LinkValue_ok xs"
  by (erule val_runtime_values_ok) (auto intro: as_LinkValue_ok)

lemma vals_LinkValue_obj [val_obj]:
  "list_all LinkValue_ok xs \<Longrightarrow> val_runtime_values as_LinkValue e (tuple_obj LinkValue_obj xs) n = Inr xs"
  by (erule val_runtime_values_obj) (rule as_LinkValue_obj)

section \<open>Metadata, parameters, profiles and routes\<close>

record MetadataEntryValue =
  entry_subject :: "int"
  entry_key :: "string"
  entry_type_name :: "string option"
  entry_value :: "string option"

definition mk_MetadataEntryValue ::
    "pyval \<Rightarrow> pyval \<Rightarrow> pyval \<Rightarrow> pyval \<Rightarrow> exn + MetadataEntryValue" where
  "mk_MetadataEntryValue subject key type_name value =
     rbind (val_identifier subject ''subject'') (\<lambda>subject.
     rbind (val_required_string key ''key'' False) (\<lambda>key.
     rbind (val_optional_string type_name ''type_name'') (\<lambda>type_name.
     rbind (val_optional_string value ''value'') (\<lambda>value.
     Inr \<lparr>entry_subject = subject, entry_key = key, entry_type_name = type_name,
       entry_value = value\<rparr>))))"

definition MetadataEntryValue_fields :: "MetadataEntryValue \<Rightarrow> fields" where
  "MetadataEntryValue_fields x =
     [(''subject'', PInt (entry_subject x)),
      (''key'', PStr (entry_key x)),
      (''type_name'', opt_obj PStr (entry_type_name x)),
      (''value'', opt_obj PStr (entry_value x))]"

definition MetadataEntryValue_obj :: "MetadataEntryValue \<Rightarrow> pyval" where
  "MetadataEntryValue_obj x = PValue ''metadata_entry'' (MetadataEntryValue_fields x)"

definition init_MetadataEntryValue :: "fields \<Rightarrow> exn + MetadataEntryValue" where
  "init_MetadataEntryValue kw =
     rbind (kw_required kw ''subject'') (\<lambda>subject.
     rbind (kw_required kw ''key'') (\<lambda>key.
     rbind (kw_required kw ''type_name'') (\<lambda>type_name.
     rbind (kw_required kw ''value'') (\<lambda>value.
     mk_MetadataEntryValue subject key type_name value))))"

definition as_MetadataEntryValue :: "pyval \<Rightarrow> MetadataEntryValue option" where
  "as_MetadataEntryValue v = instance_of ''metadata_entry'' init_MetadataEntryValue v"

definition MetadataEntryValue_ok :: "MetadataEntryValue \<Rightarrow> bool" where
  "MetadataEntryValue_ok x \<longleftrightarrow>
     0 \<le> entry_subject x \<and> entry_key x \<noteq> []"

lemma MetadataEntryValue_type_ok: "init_MetadataEntryValue kw = Inr x \<Longrightarrow> kw_ok kw \<Longrightarrow> MetadataEntryValue_ok x"
  unfolding init_MetadataEntryValue_def mk_MetadataEntryValue_def MetadataEntryValue_ok_def
  by (auto simp: validator_simps kw_default_ok elim!: rbind_InrE dest!: kw_required_ok intro: val_ok)

lemma init_MetadataEntryValue_obj: "MetadataEntryValue_ok x \<Longrightarrow> init_MetadataEntryValue (MetadataEntryValue_fields x) = Inr x"
  by (simp add: init_MetadataEntryValue_def mk_MetadataEntryValue_def MetadataEntryValue_fields_def MetadataEntryValue_ok_def kw_simps val_obj)

lemma init_MetadataEntryValue_plain [plain_simps]: "init_MetadataEntryValue (plain_fields kw) = init_MetadataEntryValue kw"
  by (simp add: init_MetadataEntryValue_def mk_MetadataEntryValue_def plain_simps)

lemma as_MetadataEntryValue_obj: "MetadataEntryValue_ok x \<Longrightarrow> as_MetadataEntryValue (MetadataEntryValue_obj x) = Some x"
  by (simp add: as_MetadataEntryValue_def MetadataEntryValue_obj_def instance_of_obj init_MetadataEntryValue_obj)

lemma as_MetadataEntryValue_ok: "as_MetadataEntryValue v = Some x \<Longrightarrow> well_formed v \<Longrightarrow> MetadataEntryValue_ok x"
  unfolding as_MetadataEntryValue_def by (erule instance_of_ok) (rule MetadataEntryValue_type_ok)

lemma as_MetadataEntryValue_plain [plain_simps]: "as_MetadataEntryValue (plain v) = as_MetadataEntryValue v"
  by (simp add: as_MetadataEntryValue_def plain_simps)

lemma vals_MetadataEntryValue_ok [val_ok]:
  "val_runtime_values as_MetadataEntryValue e v n = Inr xs \<Longrightarrow> well_formed v \<Longrightarrow> list_all MetadataEntryValue_ok xs"
  by (erule val_runtime_values_ok) (auto intro: as_MetadataEntryValue_ok)

lemma vals_MetadataEntryValue_obj [val_obj]:
  "list_all MetadataEntryValue_ok xs \<Longrightarrow> val_runtime_values as_MetadataEntryValue e (tuple_obj MetadataEntryValue_obj xs) n = Inr xs"
  by (erule val_runtime_values_obj) (rule as_MetadataEntryValue_obj)

record MetadataValue =
  md_id :: "int"
  md_name :: "string option"
  md_properties :: "fields"
  md_entries :: "MetadataEntryValue list"

definition mk_MetadataValue ::
    "pyval \<Rightarrow> pyval \<Rightarrow> pyval \<Rightarrow> pyval \<Rightarrow> exn + MetadataValue" where
  "mk_MetadataValue ident name properties entries =
     rbind (val_identifier ident ''id'') (\<lambda>ident.
     rbind (val_optional_string name ''name'') (\<lambda>name.
     rbind (val_mapping properties ''properties'') (\<lambda>properties.
     rbind (val_runtime_values as_MetadataEntryValue ''MetadataEntryValue'' entries ''entries'') (\<lambda>entries.
     Inr \<lparr>md_id = ident, md_name = name, md_properties = properties, md_entries = entries\<rparr>))))"

definition MetadataValue_fields :: "MetadataValue \<Rightarrow> fields" where
  "MetadataValue_fields x =
     [(''id'', PInt (md_id x)),
      (''name'', opt_obj PStr (md_name x)),
      (''properties'', PFrozen (md_properties x)),
      (''entries'', tuple_obj MetadataEntryValue_obj (md_entries x))]"

definition MetadataValue_obj :: "MetadataValue \<Rightarrow> pyval" where
  "MetadataValue_obj x = PValue ''metadata'' (MetadataValue_fields x)"

definition init_MetadataValue :: "fields \<Rightarrow> exn + MetadataValue" where
  "init_MetadataValue kw =
     rbind (kw_required kw ''id'') (\<lambda>ident.
     mk_MetadataValue ident (kw_default kw ''name'' PNone)
       (kw_default kw ''properties'' (PFrozen []))
       (kw_default kw ''entries'' (PTuple [])))"

definition as_MetadataValue :: "pyval \<Rightarrow> MetadataValue option" where
  "as_MetadataValue v = instance_of ''metadata'' init_MetadataValue v"

definition MetadataValue_ok :: "MetadataValue \<Rightarrow> bool" where
  "MetadataValue_ok x \<longleftrightarrow>
     0 \<le> md_id x \<and> mapping_ok (md_properties x) \<and>
     list_all MetadataEntryValue_ok (md_entries x)"

lemma MetadataValue_type_ok: "init_MetadataValue kw = Inr x \<Longrightarrow> kw_ok kw \<Longrightarrow> MetadataValue_ok x"
  unfolding init_MetadataValue_def mk_MetadataValue_def MetadataValue_ok_def
  by (auto simp: validator_simps kw_default_ok elim!: rbind_InrE dest!: kw_required_ok intro: val_ok)

lemma init_MetadataValue_obj: "MetadataValue_ok x \<Longrightarrow> init_MetadataValue (MetadataValue_fields x) = Inr x"
  by (simp add: init_MetadataValue_def mk_MetadataValue_def MetadataValue_fields_def MetadataValue_ok_def kw_simps val_obj)

lemma init_MetadataValue_plain [plain_simps]: "init_MetadataValue (plain_fields kw) = init_MetadataValue kw"
  by (simp add: init_MetadataValue_def mk_MetadataValue_def plain_simps)

lemma as_MetadataValue_obj: "MetadataValue_ok x \<Longrightarrow> as_MetadataValue (MetadataValue_obj x) = Some x"
  by (simp add: as_MetadataValue_def MetadataValue_obj_def instance_of_obj init_MetadataValue_obj)

lemma as_MetadataValue_ok: "as_MetadataValue v = Some x \<Longrightarrow> well_formed v \<Longrightarrow> MetadataValue_ok x"
  unfolding as_MetadataValue_def by (erule instance_of_ok) (rule MetadataValue_type_ok)

lemma as_MetadataValue_plain [plain_simps]: "as_MetadataValue (plain v) = as_MetadataValue v"
  by (simp add: as_MetadataValue_def plain_simps)

lemma vals_MetadataValue_ok [val_ok]:
  "val_runtime_values as_MetadataValue e v n = Inr xs \<Longrightarrow> well_formed v \<Longrightarrow> list_all MetadataValue_ok xs"
  by (erule val_runtime_values_ok) (auto intro: as_MetadataValue_ok)

lemma vals_MetadataValue_obj [val_obj]:
  "list_all MetadataValue_ok xs \<Longrightarrow> val_runtime_values as_MetadataValue e (tuple_obj MetadataValue_obj xs) n = Inr xs"
  by (erule val_runtime_values_obj) (rule as_MetadataValue_obj)

record ParameterValue =
  param_owner_type :: "string"
  param_owner_id :: "int"
  param_id :: "string"
  param_permissions :: "string"
  param_values :: "pyval list"
  param_properties :: "fields"

definition mk_ParameterValue ::
    "pyval \<Rightarrow> pyval \<Rightarrow> pyval \<Rightarrow> pyval \<Rightarrow> pyval \<Rightarrow> pyval \<Rightarrow> exn + ParameterValue" where
  "mk_ParameterValue owner_type owner_id ident permissions values properties =
     rbind (val_required_string owner_type ''owner_type'' False) (\<lambda>owner_type.
     rbind (val_identifier owner_id ''owner_id'') (\<lambda>owner_id.
     rbind (val_required_string ident ''id'' False) (\<lambda>ident.
     rbind (val_required_string permissions ''permissions'' True) (\<lambda>permissions.
     rbind (val_contract_values values ''values'') (\<lambda>values.
     rbind (val_mapping properties ''properties'') (\<lambda>properties.
     Inr \<lparr>param_owner_type = owner_type, param_owner_id = owner_id, param_id = ident,
       param_permissions = permissions, param_values = values,
       param_properties = properties\<rparr>))))))"

definition ParameterValue_fields :: "ParameterValue \<Rightarrow> fields" where
  "ParameterValue_fields x =
     [(''owner_type'', PStr (param_owner_type x)),
      (''owner_id'', PInt (param_owner_id x)),
      (''id'', PStr (param_id x)),
      (''permissions'', PStr (param_permissions x)),
      (''values'', PTuple (param_values x)),
      (''properties'', PFrozen (param_properties x))]"

definition ParameterValue_obj :: "ParameterValue \<Rightarrow> pyval" where
  "ParameterValue_obj x = PValue ''parameter'' (ParameterValue_fields x)"

definition init_ParameterValue :: "fields \<Rightarrow> exn + ParameterValue" where
  "init_ParameterValue kw =
     rbind (kw_required kw ''owner_type'') (\<lambda>owner_type.
     rbind (kw_required kw ''owner_id'') (\<lambda>owner_id.
     rbind (kw_required kw ''id'') (\<lambda>ident.
     rbind (kw_required kw ''permissions'') (\<lambda>permissions.
     mk_ParameterValue owner_type owner_id ident permissions (kw_default kw ''values'' (PTuple []))
       (kw_default kw ''properties'' (PFrozen []))))))"

definition as_ParameterValue :: "pyval \<Rightarrow> ParameterValue option" where
  "as_ParameterValue v = instance_of ''parameter'' init_ParameterValue v"

definition ParameterValue_ok :: "ParameterValue \<Rightarrow> bool" where
  "ParameterValue_ok x \<longleftrightarrow>
     param_owner_type x \<noteq> [] \<and> 0 \<le> param_owner_id x \<and>
     param_id x \<noteq> [] \<and> list_all contract_ok (param_values x) \<and>
     mapping_ok (param_properties x)"

lemma ParameterValue_type_ok: "init_ParameterValue kw = Inr x \<Longrightarrow> kw_ok kw \<Longrightarrow> ParameterValue_ok x"
  unfolding init_ParameterValue_def mk_ParameterValue_def ParameterValue_ok_def
  by (auto simp: validator_simps kw_default_ok elim!: rbind_InrE dest!: kw_required_ok intro: val_ok)

lemma init_ParameterValue_obj: "ParameterValue_ok x \<Longrightarrow> init_ParameterValue (ParameterValue_fields x) = Inr x"
  by (simp add: init_ParameterValue_def mk_ParameterValue_def ParameterValue_fields_def ParameterValue_ok_def kw_simps val_obj)

lemma init_ParameterValue_plain [plain_simps]: "init_ParameterValue (plain_fields kw) = init_ParameterValue kw"
  by (simp add: init_ParameterValue_def mk_ParameterValue_def plain_simps)

lemma as_ParameterValue_obj: "ParameterValue_ok x \<Longrightarrow> as_ParameterValue (ParameterValue_obj x) = Some x"
  by (simp add: as_ParameterValue_def ParameterValue_obj_def instance_of_obj init_ParameterValue_obj)

lemma as_ParameterValue_ok: "as_ParameterValue v = Some x \<Longrightarrow> well_formed v \<Longrightarrow> ParameterValue_ok x"
  unfolding as_ParameterValue_def by (erule instance_of_ok) (rule ParameterValue_type_ok)

lemma as_ParameterValue_plain [plain_simps]: "as_ParameterValue (plain v) = as_ParameterValue v"
  by (simp add: as_ParameterValue_def plain_simps)

lemma vals_ParameterValue_ok [val_ok]:
  "val_runtime_values as_ParameterValue e v n = Inr xs \<Longrightarrow> well_formed v \<Longrightarrow> list_all ParameterValue_ok xs"
  by (erule val_runtime_values_ok) (auto intro: as_ParameterValue_ok)

lemma vals_ParameterValue_obj [val_obj]:
  "list_all ParameterValue_ok xs \<Longrightarrow> val_runtime_values as_ParameterValue e (tuple_obj ParameterValue_obj xs) n = Inr xs"
  by (erule val_runtime_values_obj) (rule as_ParameterValue_obj)

record ProfileValue =
  pf_device_id :: "int"
  pf_index :: "int"
  pf_name :: "string"
  pf_description :: "string option"
  pf_priority :: "int"
  pf_available :: "Availability"
  pf_active :: "bool"
  pf_classes :: "string list"
  pf_properties :: "fields"

definition mk_ProfileValue ::
    "pyval \<Rightarrow> pyval \<Rightarrow> pyval \<Rightarrow> pyval \<Rightarrow> pyval \<Rightarrow> pyval \<Rightarrow> pyval \<Rightarrow> pyval \<Rightarrow> pyval \<Rightarrow> exn + ProfileValue" where
  "mk_ProfileValue device_id index name description priority available active classes properties =
     rbind (val_identifier device_id ''device_id'') (\<lambda>device_id.
     rbind (val_identifier index ''index'') (\<lambda>index.
     rbind (val_required_string name ''name'' False) (\<lambda>name.
     rbind (val_optional_string description ''description'') (\<lambda>description.
     rbind (val_integer priority ''priority'') (\<lambda>priority.
     rbind (val_enum availability_value availability_members available ''available'') (\<lambda>available.
     rbind (val_boolean active ''active'') (\<lambda>active.
     rbind (val_strings classes ''classes'') (\<lambda>classes.
     rbind (val_mapping properties ''properties'') (\<lambda>properties.
     Inr \<lparr>pf_device_id = device_id, pf_index = index, pf_name = name,
       pf_description = description, pf_priority = priority, pf_available = available,
       pf_active = active, pf_classes = classes, pf_properties = properties\<rparr>)))))))))"

definition ProfileValue_fields :: "ProfileValue \<Rightarrow> fields" where
  "ProfileValue_fields x =
     [(''device_id'', PInt (pf_device_id x)),
      (''index'', PInt (pf_index x)),
      (''name'', PStr (pf_name x)),
      (''description'', opt_obj PStr (pf_description x)),
      (''priority'', PInt (pf_priority x)),
      (''available'', PStrEnum ''Availability'' (availability_value (pf_available x))),
      (''active'', PBool (pf_active x)),
      (''classes'', tuple_obj PStr (pf_classes x)),
      (''properties'', PFrozen (pf_properties x))]"

definition ProfileValue_obj :: "ProfileValue \<Rightarrow> pyval" where
  "ProfileValue_obj x = PValue ''profile'' (ProfileValue_fields x)"

definition init_ProfileValue :: "fields \<Rightarrow> exn + ProfileValue" where
  "init_ProfileValue kw =
     rbind (kw_required kw ''device_id'') (\<lambda>device_id.
     rbind (kw_required kw ''index'') (\<lambda>index.
     rbind (kw_required kw ''name'') (\<lambda>name.
     mk_ProfileValue device_id index name (kw_default kw ''description'' PNone)
       (kw_default kw ''priority'' (PInt 0))
       (kw_default kw ''available'' (PStrEnum ''Availability'' ''unknown''))
       (kw_default kw ''active'' (PBool False))
       (kw_default kw ''classes'' (PTuple []))
       (kw_default kw ''properties'' (PFrozen [])))))"

definition as_ProfileValue :: "pyval \<Rightarrow> ProfileValue option" where
  "as_ProfileValue v = instance_of ''profile'' init_ProfileValue v"

definition ProfileValue_ok :: "ProfileValue \<Rightarrow> bool" where
  "ProfileValue_ok x \<longleftrightarrow>
     0 \<le> pf_device_id x \<and> 0 \<le> pf_index x \<and> pf_name x \<noteq> [] \<and>
     list_all (\<lambda>s. s \<noteq> []) (pf_classes x) \<and>
     mapping_ok (pf_properties x)"

lemma ProfileValue_type_ok: "init_ProfileValue kw = Inr x \<Longrightarrow> kw_ok kw \<Longrightarrow> ProfileValue_ok x"
  unfolding init_ProfileValue_def mk_ProfileValue_def ProfileValue_ok_def
  by (auto simp: validator_simps kw_default_ok elim!: rbind_InrE dest!: kw_required_ok intro: val_ok)

lemma init_ProfileValue_obj: "ProfileValue_ok x \<Longrightarrow> init_ProfileValue (ProfileValue_fields x) = Inr x"
  by (simp add: init_ProfileValue_def mk_ProfileValue_def ProfileValue_fields_def ProfileValue_ok_def kw_simps val_obj)

lemma init_ProfileValue_plain [plain_simps]: "init_ProfileValue (plain_fields kw) = init_ProfileValue kw"
  by (simp add: init_ProfileValue_def mk_ProfileValue_def plain_simps)

lemma as_ProfileValue_obj: "ProfileValue_ok x \<Longrightarrow> as_ProfileValue (ProfileValue_obj x) = Some x"
  by (simp add: as_ProfileValue_def ProfileValue_obj_def instance_of_obj init_ProfileValue_obj)

lemma as_ProfileValue_ok: "as_ProfileValue v = Some x \<Longrightarrow> well_formed v \<Longrightarrow> ProfileValue_ok x"
  unfolding as_ProfileValue_def by (erule instance_of_ok) (rule ProfileValue_type_ok)

lemma as_ProfileValue_plain [plain_simps]: "as_ProfileValue (plain v) = as_ProfileValue v"
  by (simp add: as_ProfileValue_def plain_simps)

lemma vals_ProfileValue_ok [val_ok]:
  "val_runtime_values as_ProfileValue e v n = Inr xs \<Longrightarrow> well_formed v \<Longrightarrow> list_all ProfileValue_ok xs"
  by (erule val_runtime_values_ok) (auto intro: as_ProfileValue_ok)

lemma vals_ProfileValue_obj [val_obj]:
  "list_all ProfileValue_ok xs \<Longrightarrow> val_runtime_values as_ProfileValue e (tuple_obj ProfileValue_obj xs) n = Inr xs"
  by (erule val_runtime_values_obj) (rule as_ProfileValue_obj)

record RouteValue =
  rt_device_id :: "int"
  rt_index :: "int"
  rt_direction :: "PortDirection"
  rt_name :: "string"
  rt_description :: "string option"
  rt_priority :: "int"
  rt_available :: "Availability"
  rt_active :: "bool"
  rt_profile_ids :: "int list"
  rt_volume :: "pyfloat option"
  rt_mute :: "bool option"
  rt_channel_volumes :: "pyfloat list"
  rt_channel_positions :: "SpaIdValue list"
  rt_properties :: "fields"

definition mk_RouteValue ::
    "pyval \<Rightarrow> pyval \<Rightarrow> pyval \<Rightarrow> pyval \<Rightarrow> pyval \<Rightarrow> pyval \<Rightarrow> pyval \<Rightarrow> pyval \<Rightarrow> pyval \<Rightarrow> pyval \<Rightarrow> pyval \<Rightarrow> pyval \<Rightarrow> pyval \<Rightarrow> pyval \<Rightarrow> exn + RouteValue" where
  "mk_RouteValue device_id index direction name description priority available active profile_ids volume mute channel_volumes channel_positions properties =
     rbind (val_identifier device_id ''device_id'') (\<lambda>device_id.
     rbind (val_identifier index ''index'') (\<lambda>index.
     rbind (val_enum port_direction_value port_direction_members direction ''direction'') (\<lambda>direction.
     rbind (val_required_string name ''name'' False) (\<lambda>name.
     rbind (val_optional_string description ''description'') (\<lambda>description.
     rbind (val_integer priority ''priority'') (\<lambda>priority.
     rbind (val_enum availability_value availability_members available ''available'') (\<lambda>available.
     rbind (val_boolean active ''active'') (\<lambda>active.
     rbind (val_identifiers profile_ids ''profile_ids'') (\<lambda>profile_ids.
     rbind (val_optional_float volume ''volume'') (\<lambda>volume.
     rbind (val_optional_boolean mute ''mute'') (\<lambda>mute.
     rbind (val_floats channel_volumes ''channel_volumes'') (\<lambda>channel_volumes.
     rbind (val_runtime_values as_SpaIdValue ''SpaIdValue'' channel_positions ''channel_positions'') (\<lambda>channel_positions.
     rbind (val_mapping properties ''properties'') (\<lambda>properties.
     Inr \<lparr>rt_device_id = device_id, rt_index = index, rt_direction = direction,
       rt_name = name, rt_description = description, rt_priority = priority,
       rt_available = available, rt_active = active, rt_profile_ids = profile_ids,
       rt_volume = volume, rt_mute = mute, rt_channel_volumes = channel_volumes,
       rt_channel_positions = channel_positions, rt_properties = properties\<rparr>))))))))))))))"

definition RouteValue_fields :: "RouteValue \<Rightarrow> fields" where
  "RouteValue_fields x =
     [(''device_id'', PInt (rt_device_id x)),
      (''index'', PInt (rt_index x)),
      (''direction'', PStrEnum ''PortDirection'' (port_direction_value (rt_direction x))),
      (''name'', PStr (rt_name x)),
      (''description'', opt_obj PStr (rt_description x)),
      (''priority'', PInt (rt_priority x)),
      (''available'', PStrEnum ''Availability'' (availability_value (rt_available x))),
      (''active'', PBool (rt_active x)),
      (''profile_ids'', tuple_obj PInt (rt_profile_ids x)),
      (''volume'', opt_obj PFloat (rt_volume x)),
      (''mute'', opt_obj PBool (rt_mute x)),
      (''channel_volumes'', tuple_obj PFloat (rt_channel_volumes x)),
      (''channel_positions'', tuple_obj SpaIdValue_obj (rt_channel_positions x)),
      (''properties'', PFrozen (rt_properties x))]"

definition RouteValue_obj :: "RouteValue \<Rightarrow> pyval" where
  "RouteValue_obj x = PValue ''route'' (RouteValue_fields x)"

definition init_RouteValue :: "fields \<Rightarrow> exn + RouteValue" where
  "init_RouteValue kw =
     rbind (kw_required kw ''device_id'') (\<lambda>device_id.
     rbind (kw_required kw ''index'') (\<lambda>index.
     rbind (kw_required kw ''direction'') (\<lambda>direction.
     rbind (kw_required kw ''name'') (\<lambda>name.
     mk_RouteValue device_id index direction name (kw_default kw ''description'' PNone)
       (kw_default kw ''priority'' (PInt 0))
       (kw_default kw ''available'' (PStrEnum ''Availability'' ''unknown''))
       (kw_default kw ''active'' (PBool False))
       (kw_default kw ''profile_ids'' (PTuple [])) (kw_default kw ''volume'' PNone)
       (kw_default kw ''mute'' PNone) (kw_default kw ''channel_volumes'' (PTuple []))
       (kw_default kw ''channel_positions'' (PTuple []))
       (kw_default kw ''properties'' (PFrozen []))))))"

definition as_RouteValue :: "pyval \<Rightarrow> RouteValue option" where
  "as_RouteValue v = instance_of ''route'' init_RouteValue v"

definition RouteValue_ok :: "RouteValue \<Rightarrow> bool" where
  "RouteValue_ok x \<longleftrightarrow>
     0 \<le> rt_device_id x \<and> 0 \<le> rt_index x \<and> rt_name x \<noteq> [] \<and>
     list_all (\<lambda>i. 0 \<le> i) (rt_profile_ids x) \<and>
     pred_option float_ok (rt_volume x) \<and> list_all float_ok (rt_channel_volumes x) \<and>
     list_all SpaIdValue_ok (rt_channel_positions x) \<and> mapping_ok (rt_properties x)"

lemma RouteValue_type_ok: "init_RouteValue kw = Inr x \<Longrightarrow> kw_ok kw \<Longrightarrow> RouteValue_ok x"
  unfolding init_RouteValue_def mk_RouteValue_def RouteValue_ok_def
  by (auto simp: validator_simps kw_default_ok elim!: rbind_InrE dest!: kw_required_ok intro: val_ok)

lemma init_RouteValue_obj: "RouteValue_ok x \<Longrightarrow> init_RouteValue (RouteValue_fields x) = Inr x"
  by (simp add: init_RouteValue_def mk_RouteValue_def RouteValue_fields_def RouteValue_ok_def kw_simps val_obj)

lemma init_RouteValue_plain [plain_simps]: "init_RouteValue (plain_fields kw) = init_RouteValue kw"
  by (simp add: init_RouteValue_def mk_RouteValue_def plain_simps)

lemma as_RouteValue_obj: "RouteValue_ok x \<Longrightarrow> as_RouteValue (RouteValue_obj x) = Some x"
  by (simp add: as_RouteValue_def RouteValue_obj_def instance_of_obj init_RouteValue_obj)

lemma as_RouteValue_ok: "as_RouteValue v = Some x \<Longrightarrow> well_formed v \<Longrightarrow> RouteValue_ok x"
  unfolding as_RouteValue_def by (erule instance_of_ok) (rule RouteValue_type_ok)

lemma as_RouteValue_plain [plain_simps]: "as_RouteValue (plain v) = as_RouteValue v"
  by (simp add: as_RouteValue_def plain_simps)

lemma vals_RouteValue_ok [val_ok]:
  "val_runtime_values as_RouteValue e v n = Inr xs \<Longrightarrow> well_formed v \<Longrightarrow> list_all RouteValue_ok xs"
  by (erule val_runtime_values_ok) (auto intro: as_RouteValue_ok)

lemma vals_RouteValue_obj [val_obj]:
  "list_all RouteValue_ok xs \<Longrightarrow> val_runtime_values as_RouteValue e (tuple_obj RouteValue_obj xs) n = Inr xs"
  by (erule val_runtime_values_obj) (rule as_RouteValue_obj)

section \<open>Defaults and unresolved relationships\<close>

record DefaultTargetValue =
  dt_media_class :: "string"
  dt_configured_name :: "string option"
  dt_resolved_node_id :: "int option"

definition mk_DefaultTargetValue ::
    "pyval \<Rightarrow> pyval \<Rightarrow> pyval \<Rightarrow> exn + DefaultTargetValue" where
  "mk_DefaultTargetValue media_class configured_name resolved_node_id =
     rbind (val_required_string media_class ''media_class'' False) (\<lambda>media_class.
     rbind (val_optional_string configured_name ''configured_name'') (\<lambda>configured_name.
     rbind (val_optional_identifier resolved_node_id ''resolved_node_id'') (\<lambda>resolved_node_id.
     Inr \<lparr>dt_media_class = media_class, dt_configured_name = configured_name,
       dt_resolved_node_id = resolved_node_id\<rparr>)))"

definition DefaultTargetValue_fields :: "DefaultTargetValue \<Rightarrow> fields" where
  "DefaultTargetValue_fields x =
     [(''media_class'', PStr (dt_media_class x)),
      (''configured_name'', opt_obj PStr (dt_configured_name x)),
      (''resolved_node_id'', opt_obj PInt (dt_resolved_node_id x))]"

definition DefaultTargetValue_obj :: "DefaultTargetValue \<Rightarrow> pyval" where
  "DefaultTargetValue_obj x = PValue ''default_target'' (DefaultTargetValue_fields x)"

definition init_DefaultTargetValue :: "fields \<Rightarrow> exn + DefaultTargetValue" where
  "init_DefaultTargetValue kw =
     rbind (kw_required kw ''media_class'') (\<lambda>media_class.
     mk_DefaultTargetValue media_class (kw_default kw ''configured_name'' PNone)
       (kw_default kw ''resolved_node_id'' PNone))"

definition as_DefaultTargetValue :: "pyval \<Rightarrow> DefaultTargetValue option" where
  "as_DefaultTargetValue v = instance_of ''default_target'' init_DefaultTargetValue v"

definition DefaultTargetValue_ok :: "DefaultTargetValue \<Rightarrow> bool" where
  "DefaultTargetValue_ok x \<longleftrightarrow>
     dt_media_class x \<noteq> [] \<and>
     pred_option (\<lambda>i. 0 \<le> i) (dt_resolved_node_id x)"

lemma DefaultTargetValue_type_ok: "init_DefaultTargetValue kw = Inr x \<Longrightarrow> kw_ok kw \<Longrightarrow> DefaultTargetValue_ok x"
  unfolding init_DefaultTargetValue_def mk_DefaultTargetValue_def DefaultTargetValue_ok_def
  by (auto simp: validator_simps kw_default_ok elim!: rbind_InrE dest!: kw_required_ok intro: val_ok)

lemma init_DefaultTargetValue_obj: "DefaultTargetValue_ok x \<Longrightarrow> init_DefaultTargetValue (DefaultTargetValue_fields x) = Inr x"
  by (simp add: init_DefaultTargetValue_def mk_DefaultTargetValue_def DefaultTargetValue_fields_def DefaultTargetValue_ok_def kw_simps val_obj)

lemma init_DefaultTargetValue_plain [plain_simps]: "init_DefaultTargetValue (plain_fields kw) = init_DefaultTargetValue kw"
  by (simp add: init_DefaultTargetValue_def mk_DefaultTargetValue_def plain_simps)

lemma as_DefaultTargetValue_obj: "DefaultTargetValue_ok x \<Longrightarrow> as_DefaultTargetValue (DefaultTargetValue_obj x) = Some x"
  by (simp add: as_DefaultTargetValue_def DefaultTargetValue_obj_def instance_of_obj init_DefaultTargetValue_obj)

lemma as_DefaultTargetValue_ok: "as_DefaultTargetValue v = Some x \<Longrightarrow> well_formed v \<Longrightarrow> DefaultTargetValue_ok x"
  unfolding as_DefaultTargetValue_def by (erule instance_of_ok) (rule DefaultTargetValue_type_ok)

lemma as_DefaultTargetValue_plain [plain_simps]: "as_DefaultTargetValue (plain v) = as_DefaultTargetValue v"
  by (simp add: as_DefaultTargetValue_def plain_simps)

lemma optval_DefaultTargetValue_ok [val_ok]:
  "val_optional_instance as_DefaultTargetValue e v n = Inr x \<Longrightarrow> well_formed v \<Longrightarrow> pred_option DefaultTargetValue_ok x"
  by (erule val_optional_instance_ok) (auto intro: as_DefaultTargetValue_ok)

lemma optval_DefaultTargetValue_obj [val_obj]:
  "pred_option DefaultTargetValue_ok x \<Longrightarrow> val_optional_instance as_DefaultTargetValue e (opt_obj DefaultTargetValue_obj x) n = Inr x"
  by (erule val_optional_instance_obj) (simp add: as_DefaultTargetValue_obj, simp add: DefaultTargetValue_obj_def)

record DefaultsValue =
  dflt_metadata_id :: "int option"
  dflt_audio_sink :: "DefaultTargetValue option"
  dflt_audio_source :: "DefaultTargetValue option"
  dflt_video_source :: "DefaultTargetValue option"
  dflt_extra :: "fields"

definition mk_DefaultsValue ::
    "pyval \<Rightarrow> pyval \<Rightarrow> pyval \<Rightarrow> pyval \<Rightarrow> pyval \<Rightarrow> exn + DefaultsValue" where
  "mk_DefaultsValue metadata_id audio_sink audio_source video_source extra =
     rbind (val_optional_identifier metadata_id ''metadata_id'') (\<lambda>metadata_id.
     rbind (val_optional_instance as_DefaultTargetValue ''DefaultTargetValue'' audio_sink ''audio_sink'') (\<lambda>audio_sink.
     rbind (val_optional_instance as_DefaultTargetValue ''DefaultTargetValue'' audio_source ''audio_source'') (\<lambda>audio_source.
     rbind (val_optional_instance as_DefaultTargetValue ''DefaultTargetValue'' video_source ''video_source'') (\<lambda>video_source.
     rbind (val_mapping extra ''extra'') (\<lambda>extra.
     Inr \<lparr>dflt_metadata_id = metadata_id, dflt_audio_sink = audio_sink,
       dflt_audio_source = audio_source, dflt_video_source = video_source,
       dflt_extra = extra\<rparr>)))))"

definition DefaultsValue_fields :: "DefaultsValue \<Rightarrow> fields" where
  "DefaultsValue_fields x =
     [(''metadata_id'', opt_obj PInt (dflt_metadata_id x)),
      (''audio_sink'', opt_obj DefaultTargetValue_obj (dflt_audio_sink x)),
      (''audio_source'', opt_obj DefaultTargetValue_obj (dflt_audio_source x)),
      (''video_source'', opt_obj DefaultTargetValue_obj (dflt_video_source x)),
      (''extra'', PFrozen (dflt_extra x))]"

definition DefaultsValue_obj :: "DefaultsValue \<Rightarrow> pyval" where
  "DefaultsValue_obj x = PValue ''defaults'' (DefaultsValue_fields x)"

definition init_DefaultsValue :: "fields \<Rightarrow> exn + DefaultsValue" where
  "init_DefaultsValue kw =
     mk_DefaultsValue (kw_default kw ''metadata_id'' PNone) (kw_default kw ''audio_sink'' PNone)
       (kw_default kw ''audio_source'' PNone) (kw_default kw ''video_source'' PNone)
       (kw_default kw ''extra'' (PFrozen []))"

definition as_DefaultsValue :: "pyval \<Rightarrow> DefaultsValue option" where
  "as_DefaultsValue v = instance_of ''defaults'' init_DefaultsValue v"

definition DefaultsValue_ok :: "DefaultsValue \<Rightarrow> bool" where
  "DefaultsValue_ok x \<longleftrightarrow>
     pred_option (\<lambda>i. 0 \<le> i) (dflt_metadata_id x) \<and>
     pred_option DefaultTargetValue_ok (dflt_audio_sink x) \<and>
     pred_option DefaultTargetValue_ok (dflt_audio_source x) \<and>
     pred_option DefaultTargetValue_ok (dflt_video_source x) \<and>
     mapping_ok (dflt_extra x)"

lemma DefaultsValue_type_ok: "init_DefaultsValue kw = Inr x \<Longrightarrow> kw_ok kw \<Longrightarrow> DefaultsValue_ok x"
  unfolding init_DefaultsValue_def mk_DefaultsValue_def DefaultsValue_ok_def
  by (auto simp: validator_simps kw_default_ok elim!: rbind_InrE dest!: kw_required_ok intro: val_ok)

lemma init_DefaultsValue_obj: "DefaultsValue_ok x \<Longrightarrow> init_DefaultsValue (DefaultsValue_fields x) = Inr x"
  by (simp add: init_DefaultsValue_def mk_DefaultsValue_def DefaultsValue_fields_def DefaultsValue_ok_def kw_simps val_obj)

lemma init_DefaultsValue_plain [plain_simps]: "init_DefaultsValue (plain_fields kw) = init_DefaultsValue kw"
  by (simp add: init_DefaultsValue_def mk_DefaultsValue_def plain_simps)

lemma as_DefaultsValue_obj: "DefaultsValue_ok x \<Longrightarrow> as_DefaultsValue (DefaultsValue_obj x) = Some x"
  by (simp add: as_DefaultsValue_def DefaultsValue_obj_def instance_of_obj init_DefaultsValue_obj)

lemma as_DefaultsValue_ok: "as_DefaultsValue v = Some x \<Longrightarrow> well_formed v \<Longrightarrow> DefaultsValue_ok x"
  unfolding as_DefaultsValue_def by (erule instance_of_ok) (rule DefaultsValue_type_ok)

lemma as_DefaultsValue_plain [plain_simps]: "as_DefaultsValue (plain v) = as_DefaultsValue v"
  by (simp add: as_DefaultsValue_def plain_simps)

lemma val_DefaultsValue_ok [val_ok]: "val_instance as_DefaultsValue e v n = Inr x \<Longrightarrow> well_formed v \<Longrightarrow> DefaultsValue_ok x"
  by (erule val_instance_ok) (auto intro: as_DefaultsValue_ok)

lemma val_DefaultsValue_obj [val_obj]: "DefaultsValue_ok x \<Longrightarrow> val_instance as_DefaultsValue e (DefaultsValue_obj x) n = Inr x"
  by (rule val_instance_obj) (rule as_DefaultsValue_obj)

record UnresolvedRelationshipValue =
  unres_source_type :: "string"
  unres_source_id :: "identity"
  unres_relation :: "string"
  unres_target_type :: "string"
  unres_target_id :: "identity"
  unres_reason :: "string"

definition mk_UnresolvedRelationshipValue ::
    "pyval \<Rightarrow> pyval \<Rightarrow> pyval \<Rightarrow> pyval \<Rightarrow> pyval \<Rightarrow> pyval \<Rightarrow> exn + UnresolvedRelationshipValue" where
  "mk_UnresolvedRelationshipValue source_type source_id relation target_type target_id reason =
     rbind (val_required_string source_type ''source_type'' False) (\<lambda>source_type.
     rbind (val_identity source_id ''source_id'') (\<lambda>source_id.
     rbind (val_required_string relation ''relation'' False) (\<lambda>relation.
     rbind (val_required_string target_type ''target_type'' False) (\<lambda>target_type.
     rbind (val_identity target_id ''target_id'') (\<lambda>target_id.
     rbind (val_required_string reason ''reason'' False) (\<lambda>reason.
     Inr \<lparr>unres_source_type = source_type, unres_source_id = source_id,
       unres_relation = relation, unres_target_type = target_type,
       unres_target_id = target_id, unres_reason = reason\<rparr>))))))"

definition UnresolvedRelationshipValue_fields :: "UnresolvedRelationshipValue \<Rightarrow> fields" where
  "UnresolvedRelationshipValue_fields x =
     [(''source_type'', PStr (unres_source_type x)),
      (''source_id'', identity_obj (unres_source_id x)),
      (''relation'', PStr (unres_relation x)),
      (''target_type'', PStr (unres_target_type x)),
      (''target_id'', identity_obj (unres_target_id x)),
      (''reason'', PStr (unres_reason x))]"

definition UnresolvedRelationshipValue_obj :: "UnresolvedRelationshipValue \<Rightarrow> pyval" where
  "UnresolvedRelationshipValue_obj x = PValue ''unresolved_relationship'' (UnresolvedRelationshipValue_fields x)"

definition init_UnresolvedRelationshipValue :: "fields \<Rightarrow> exn + UnresolvedRelationshipValue" where
  "init_UnresolvedRelationshipValue kw =
     rbind (kw_required kw ''source_type'') (\<lambda>source_type.
     rbind (kw_required kw ''source_id'') (\<lambda>source_id.
     rbind (kw_required kw ''relation'') (\<lambda>relation.
     rbind (kw_required kw ''target_type'') (\<lambda>target_type.
     rbind (kw_required kw ''target_id'') (\<lambda>target_id.
     rbind (kw_required kw ''reason'') (\<lambda>reason.
     mk_UnresolvedRelationshipValue source_type source_id relation target_type target_id reason))))))"

definition as_UnresolvedRelationshipValue :: "pyval \<Rightarrow> UnresolvedRelationshipValue option" where
  "as_UnresolvedRelationshipValue v = instance_of ''unresolved_relationship'' init_UnresolvedRelationshipValue v"

definition UnresolvedRelationshipValue_ok :: "UnresolvedRelationshipValue \<Rightarrow> bool" where
  "UnresolvedRelationshipValue_ok x \<longleftrightarrow>
     unres_source_type x \<noteq> [] \<and> identity_ok (unres_source_id x) \<and>
     unres_relation x \<noteq> [] \<and> unres_target_type x \<noteq> [] \<and>
     identity_ok (unres_target_id x) \<and> unres_reason x \<noteq> []"

lemma UnresolvedRelationshipValue_type_ok: "init_UnresolvedRelationshipValue kw = Inr x \<Longrightarrow> kw_ok kw \<Longrightarrow> UnresolvedRelationshipValue_ok x"
  unfolding init_UnresolvedRelationshipValue_def mk_UnresolvedRelationshipValue_def UnresolvedRelationshipValue_ok_def
  by (auto simp: validator_simps kw_default_ok elim!: rbind_InrE dest!: kw_required_ok intro: val_ok)

lemma init_UnresolvedRelationshipValue_obj: "UnresolvedRelationshipValue_ok x \<Longrightarrow> init_UnresolvedRelationshipValue (UnresolvedRelationshipValue_fields x) = Inr x"
  by (simp add: init_UnresolvedRelationshipValue_def mk_UnresolvedRelationshipValue_def UnresolvedRelationshipValue_fields_def UnresolvedRelationshipValue_ok_def kw_simps val_obj)

lemma init_UnresolvedRelationshipValue_plain [plain_simps]: "init_UnresolvedRelationshipValue (plain_fields kw) = init_UnresolvedRelationshipValue kw"
  by (simp add: init_UnresolvedRelationshipValue_def mk_UnresolvedRelationshipValue_def plain_simps)

lemma as_UnresolvedRelationshipValue_obj: "UnresolvedRelationshipValue_ok x \<Longrightarrow> as_UnresolvedRelationshipValue (UnresolvedRelationshipValue_obj x) = Some x"
  by (simp add: as_UnresolvedRelationshipValue_def UnresolvedRelationshipValue_obj_def instance_of_obj init_UnresolvedRelationshipValue_obj)

lemma as_UnresolvedRelationshipValue_ok: "as_UnresolvedRelationshipValue v = Some x \<Longrightarrow> well_formed v \<Longrightarrow> UnresolvedRelationshipValue_ok x"
  unfolding as_UnresolvedRelationshipValue_def by (erule instance_of_ok) (rule UnresolvedRelationshipValue_type_ok)

lemma as_UnresolvedRelationshipValue_plain [plain_simps]: "as_UnresolvedRelationshipValue (plain v) = as_UnresolvedRelationshipValue v"
  by (simp add: as_UnresolvedRelationshipValue_def plain_simps)

lemma vals_UnresolvedRelationshipValue_ok [val_ok]:
  "val_runtime_values as_UnresolvedRelationshipValue e v n = Inr xs \<Longrightarrow> well_formed v \<Longrightarrow> list_all UnresolvedRelationshipValue_ok xs"
  by (erule val_runtime_values_ok) (auto intro: as_UnresolvedRelationshipValue_ok)

lemma vals_UnresolvedRelationshipValue_obj [val_obj]:
  "list_all UnresolvedRelationshipValue_ok xs \<Longrightarrow> val_runtime_values as_UnresolvedRelationshipValue e (tuple_obj UnresolvedRelationshipValue_obj xs) n = Inr xs"
  by (erule val_runtime_values_obj) (rule as_UnresolvedRelationshipValue_obj)

end
