(* ===== verification/Snapshots.thy ===== *)
theory Snapshots
  imports Models
begin

text \<open>
  \<open>RuntimeSnapshot\<close> of \<open>src/src/wyreplumber/runtime/models.py\<close>: the identity indexes, the
  search for relationships that do not resolve inside the snapshot, the constructor and
  \<open>capture\<close>.  The lemmas give the contract of an index (as a locale, interpreted for each
  of the eight collections), the type invariant of a constructed snapshot, and the
  declarative meaning of \<open>is_coherent\<close>.
\<close>

section \<open>Identity indexes\<close>

fun unique_index_loop :: "('v \<Rightarrow> 'k) \<Rightarrow> string \<Rightarrow> 'v list \<Rightarrow> ('k \<times> 'v) list \<Rightarrow> exn + ('k \<times> 'v) list" where
  "unique_index_loop key name [] result = Inr result"
| "unique_index_loop key name (value # values) result =
     (let item_key = key value in
      if item_key \<in> set (map fst result) then Inl (ValueError (''duplicate '' @ name))
      else unique_index_loop key name values (alist_set item_key value result))"

definition unique_index :: "'v list \<Rightarrow> ('v \<Rightarrow> 'k) \<Rightarrow> string \<Rightarrow> exn + ('k \<times> 'v) list" where
  "unique_index values key name = unique_index_loop key name values []"

lemma unique_index_loop_eq:
  "unique_index_loop key name vs result =
     (if distinct (map key vs) \<and> set (map key vs) \<inter> set (map fst result) = {}
      then Inr (result @ map (\<lambda>v. (key v, v)) vs) else Inl (ValueError (''duplicate '' @ name)))"
proof (induction vs arbitrary: result)
  case (Cons v vs)
  show ?case
  proof (cases "key v \<in> set (map fst result)")
    case False
    then have "alist_set (key v) v result = result @ [(key v, v)]" by (simp add: alist_set_fresh)
    with False Cons.IH [of "result @ [(key v, v)]"] show ?thesis by (auto simp: Let_def)
  qed (auto simp: Let_def)
qed simp

lemma unique_index_eq:
  "unique_index vs key name =
     (if distinct (map key vs) then Inr (map (\<lambda>v. (key v, v)) vs)
      else Inl (ValueError (''duplicate '' @ name)))"
  by (simp add: unique_index_def unique_index_loop_eq)

text \<open>\<open>key in mapping\<close>\<close>

definition has_key :: "('k \<times> 'v) list \<Rightarrow> 'k \<Rightarrow> bool" where
  "has_key index k \<longleftrightarrow> k \<in> set (map fst index)"

text \<open>What the snapshot relies on when it looks an identity up.\<close>

locale keyed_index =
  fixes key :: "'v \<Rightarrow> 'k"
    and build :: "'v list \<Rightarrow> exn + ('k \<times> 'v) list"
  assumes build_accepts: "distinct (map key vs) \<Longrightarrow> \<exists>index. build vs = Inr index"
    and build_distinct: "build vs = Inr index \<Longrightarrow> distinct (map key vs)"
    and build_items: "build vs = Inr index \<Longrightarrow> index = map (\<lambda>v. (key v, v)) vs"
begin

lemma accepts_iff: "(\<exists>index. build vs = Inr index) \<longleftrightarrow> distinct (map key vs)"
  using build_accepts build_distinct by blast

lemma keys: "build vs = Inr index \<Longrightarrow> set (map fst index) = key ` set vs"
  by (drule build_items) force

lemma has_iff: "build vs = Inr index \<Longrightarrow> has_key index k \<longleftrightarrow> (\<exists>v \<in> set vs. key v = k)"
  using keys [of vs index] by (auto simp: has_key_def image_iff)

lemma lookup_iff:
  assumes "build vs = Inr index"
  shows "map_of index k = Some v \<longleftrightarrow> v \<in> set vs \<and> key v = k"
proof -
  have "distinct (map fst index)" and i: "index = map (\<lambda>v. (key v, v)) vs"
    using build_distinct [OF assms] build_items [OF assms] by (simp_all add: o_def)
  then show ?thesis by (auto simp: map_of_eq_Some_iff)
qed

lemma absent_iff: "build vs = Inr index \<Longrightarrow> map_of index k = None \<longleftrightarrow> k \<notin> key ` set vs"
  using keys [of vs index] by (simp add: map_of_eq_None_iff)

end

definition parameter_key :: "ParameterValue \<Rightarrow> string \<times> int \<times> string" where
  "parameter_key p = (param_owner_type p, param_owner_id p, param_id p)"

definition profile_key :: "ProfileValue \<Rightarrow> int \<times> int" where
  "profile_key p = (pf_device_id p, pf_index p)"

definition route_key :: "RouteValue \<Rightarrow> int \<times> int" where
  "route_key r = (rt_device_id r, rt_index r)"

lemma unique_index_law: "keyed_index key (\<lambda>vs. unique_index vs key name)"
  by unfold_locales (auto simp: unique_index_eq split: if_splits)

interpretation device_index: keyed_index dev_id "\<lambda>vs. unique_index vs dev_id ''device id''"
  by (rule unique_index_law)
interpretation node_index: keyed_index nd_id "\<lambda>vs. unique_index vs nd_id ''node id''"
  by (rule unique_index_law)
interpretation port_index: keyed_index pt_id "\<lambda>vs. unique_index vs pt_id ''port id''"
  by (rule unique_index_law)
interpretation link_index: keyed_index lk_id "\<lambda>vs. unique_index vs lk_id ''link id''"
  by (rule unique_index_law)
interpretation metadata_index: keyed_index md_id "\<lambda>vs. unique_index vs md_id ''metadata id''"
  by (rule unique_index_law)
interpretation parameter_index: keyed_index parameter_key "\<lambda>vs. unique_index vs parameter_key ''parameter key''"
  by (rule unique_index_law)
interpretation profile_index: keyed_index profile_key "\<lambda>vs. unique_index vs profile_key ''profile key''"
  by (rule unique_index_law)
interpretation route_index: keyed_index route_key "\<lambda>vs. unique_index vs route_key ''route key''"
  by (rule unique_index_law)

section \<open>The snapshot\<close>

text \<open>The serialised fields, then the indexes \<open>__post_init__\<close> derives from them.\<close>

record RuntimeSnapshot =
  snap_generation :: int
  snap_sequence :: int
  snap_captured_at :: string
  snap_health :: ConnectionHealthValue
  snap_devices :: "DeviceValue list"
  snap_nodes :: "NodeValue list"
  snap_ports :: "PortValue list"
  snap_links :: "LinkValue list"
  snap_metadata :: "MetadataValue list"
  snap_parameters :: "ParameterValue list"
  snap_profiles :: "ProfileValue list"
  snap_routes :: "RouteValue list"
  snap_defaults :: DefaultsValue
  snap_unresolved_relationships :: "UnresolvedRelationshipValue list"
  devices_by_id :: "(int \<times> DeviceValue) list"
  nodes_by_id :: "(int \<times> NodeValue) list"
  ports_by_id :: "(int \<times> PortValue) list"
  links_by_id :: "(int \<times> LinkValue) list"
  metadata_by_id :: "(int \<times> MetadataValue) list"
  parameters_by_key :: "((string \<times> int \<times> string) \<times> ParameterValue) list"
  profiles_by_key :: "((int \<times> int) \<times> ProfileValue) list"
  routes_by_key :: "((int \<times> int) \<times> RouteValue) list"

section \<open>Unresolved relationships\<close>

definition missing :: "string \<Rightarrow> identity \<Rightarrow> string \<Rightarrow> string \<Rightarrow> identity \<Rightarrow> string \<Rightarrow> UnresolvedRelationshipValue" where
  "missing source_type source_id relation target_type target_id reason =
     \<lparr>unres_source_type = source_type, unres_source_id = source_id, unres_relation = relation,
       unres_target_type = target_type, unres_target_id = target_id, unres_reason = reason\<rparr>"

abbreviation absent :: string where
  "absent \<equiv> ''target is absent from this snapshot''"

definition unless :: "bool \<Rightarrow> 'a \<Rightarrow> 'a list" where
  "unless c x = (if c then [] else [x])"

lemma unless_Nil [simp]: "unless c x = [] \<longleftrightarrow> c"
  by (simp add: unless_def)

lemma set_unless [simp]: "y \<in> set (unless c x) \<longleftrightarrow> \<not> c \<and> y = x"
  by (auto simp: unless_def)

definition unresolved_parameters :: "RuntimeSnapshot \<Rightarrow> string \<Rightarrow> int \<Rightarrow> string list \<Rightarrow> UnresolvedRelationshipValue list" where
  "unresolved_parameters s owner_type owner_id parameter_ids =
     concat (map (\<lambda>parameter_id.
       unless (has_key (parameters_by_key s) (owner_type, owner_id, parameter_id))
         (missing owner_type (IntId owner_id) ''parameter'' ''parameter'' (StrId parameter_id) absent))
       parameter_ids)"

definition unresolved_device :: "RuntimeSnapshot \<Rightarrow> DeviceValue \<Rightarrow> UnresolvedRelationshipValue list" where
  "unresolved_device s d =
     unresolved_parameters s ''device'' (dev_id d) (dev_parameter_ids d) @
     concat (map (\<lambda>profile_id.
       unless (has_key (profiles_by_key s) (dev_id d, profile_id))
         (missing ''device'' (IntId (dev_id d)) ''profile'' ''profile'' (IntId profile_id) absent))
       (dev_profile_ids d)) @
     concat (map (\<lambda>route_id.
       unless (has_key (routes_by_key s) (dev_id d, route_id))
         (missing ''device'' (IntId (dev_id d)) ''route'' ''route'' (IntId route_id) absent))
       (dev_route_ids d))"

definition unresolved_port_relation ::
    "RuntimeSnapshot \<Rightarrow> NodeValue \<Rightarrow> int \<times> PortDirection \<times> string \<Rightarrow> UnresolvedRelationshipValue list" where
  "unresolved_port_relation s n entry =
     (case entry of (port_id, direction, relation) \<Rightarrow>
        (case map_of (ports_by_id s) port_id of
           None \<Rightarrow> [missing ''node'' (IntId (nd_id n)) relation ''port'' (IntId port_id) absent]
         | Some port \<Rightarrow>
             if pt_node_id port \<noteq> nd_id n \<or> pt_direction port \<noteq> direction
             then [missing ''node'' (IntId (nd_id n)) relation ''port'' (IntId port_id)
                     ''port ownership or direction does not match the relationship'']
             else []))"

definition unresolved_node :: "RuntimeSnapshot \<Rightarrow> NodeValue \<Rightarrow> UnresolvedRelationshipValue list" where
  "unresolved_node s n =
     (case nd_device_id n of
        None \<Rightarrow> []
      | Some device_id \<Rightarrow>
          unless (has_key (devices_by_id s) device_id)
            (missing ''node'' (IntId (nd_id n)) ''device'' ''device'' (IntId device_id) absent)) @
     unresolved_parameters s ''node'' (nd_id n) (nd_parameter_ids n) @
     concat (map (unresolved_port_relation s n)
       (map (\<lambda>port_id. (port_id, INPUT, ''input_port'')) (nd_input_port_ids n) @
        map (\<lambda>port_id. (port_id, OUTPUT, ''output_port'')) (nd_output_port_ids n)))"

definition unresolved_port :: "RuntimeSnapshot \<Rightarrow> PortValue \<Rightarrow> UnresolvedRelationshipValue list" where
  "unresolved_port s p =
     unless (has_key (nodes_by_id s) (pt_node_id p))
       (missing ''port'' (IntId (pt_id p)) ''node'' ''node'' (IntId (pt_node_id p)) absent) @
     unresolved_parameters s ''port'' (pt_id p) (pt_parameter_ids p)"

definition unresolved_link :: "RuntimeSnapshot \<Rightarrow> LinkValue \<Rightarrow> UnresolvedRelationshipValue list" where
  "unresolved_link s l =
     unless (has_key (nodes_by_id s) (lk_output_node_id l))
       (missing ''link'' (IntId (lk_id l)) ''output_node'' ''node'' (IntId (lk_output_node_id l)) absent) @
     unless (has_key (nodes_by_id s) (lk_input_node_id l))
       (missing ''link'' (IntId (lk_id l)) ''input_node'' ''node'' (IntId (lk_input_node_id l)) absent) @
     unless (has_key (ports_by_id s) (lk_output_port_id l))
       (missing ''link'' (IntId (lk_id l)) ''output_port'' ''port'' (IntId (lk_output_port_id l)) absent) @
     unless (has_key (ports_by_id s) (lk_input_port_id l))
       (missing ''link'' (IntId (lk_id l)) ''input_port'' ''port'' (IntId (lk_input_port_id l)) absent) @
     (case map_of (ports_by_id s) (lk_output_port_id l) of
        None \<Rightarrow> []
      | Some output_port \<Rightarrow>
          unless (\<not> (pt_node_id output_port \<noteq> lk_output_node_id l \<or> pt_direction output_port \<noteq> OUTPUT))
            (missing ''link'' (IntId (lk_id l)) ''output_endpoint'' ''port'' (IntId (lk_output_port_id l))
              ''output port does not belong to the output node or has the wrong direction'')) @
     (case map_of (ports_by_id s) (lk_input_port_id l) of
        None \<Rightarrow> []
      | Some input_port \<Rightarrow>
          unless (\<not> (pt_node_id input_port \<noteq> lk_input_node_id l \<or> pt_direction input_port \<noteq> INPUT))
            (missing ''link'' (IntId (lk_id l)) ''input_endpoint'' ''port'' (IntId (lk_input_port_id l))
              ''input port does not belong to the input node or has the wrong direction''))"

definition unresolved_profile :: "RuntimeSnapshot \<Rightarrow> ProfileValue \<Rightarrow> UnresolvedRelationshipValue list" where
  "unresolved_profile s p =
     unless (has_key (devices_by_id s) (pf_device_id p))
       (missing ''profile'' (IntId (pf_index p)) ''device'' ''device'' (IntId (pf_device_id p)) absent)"

definition unresolved_route :: "RuntimeSnapshot \<Rightarrow> RouteValue \<Rightarrow> UnresolvedRelationshipValue list" where
  "unresolved_route s r =
     unless (has_key (devices_by_id s) (rt_device_id r))
       (missing ''route'' (IntId (rt_index r)) ''device'' ''device'' (IntId (rt_device_id r)) absent) @
     concat (map (\<lambda>profile_id.
       unless (has_key (profiles_by_key s) (rt_device_id r, profile_id))
         (missing ''route'' (IntId (rt_index r)) ''profile'' ''profile'' (IntId profile_id) absent))
       (rt_profile_ids r))"

text \<open>The owner indexes by owner type; \<open>None\<close> is an unsupported type.\<close>

definition owner_index :: "RuntimeSnapshot \<Rightarrow> string \<Rightarrow> (int \<Rightarrow> bool) option" where
  "owner_index s owner_type =
     map_of [(''device'', has_key (devices_by_id s)), (''node'', has_key (nodes_by_id s)),
       (''port'', has_key (ports_by_id s)), (''link'', has_key (links_by_id s)),
       (''metadata'', has_key (metadata_by_id s))] owner_type"

definition parameter_source :: "ParameterValue \<Rightarrow> identity" where
  "parameter_source p = StrId (param_owner_type p @ '':'' @ show_int (param_owner_id p) @ '':'' @ param_id p)"

definition unresolved_parameter :: "RuntimeSnapshot \<Rightarrow> ParameterValue \<Rightarrow> UnresolvedRelationshipValue list" where
  "unresolved_parameter s p =
     (case owner_index s (param_owner_type p) of
        None \<Rightarrow> [missing ''parameter'' (parameter_source p) ''owner'' (param_owner_type p)
                   (IntId (param_owner_id p)) ''owner type is unsupported by this snapshot contract'']
      | Some owned \<Rightarrow>
          unless (owned (param_owner_id p))
            (missing ''parameter'' (parameter_source p) ''owner'' (param_owner_type p)
              (IntId (param_owner_id p)) absent))"

definition unresolved_default :: "RuntimeSnapshot \<Rightarrow> string \<Rightarrow> DefaultTargetValue option \<Rightarrow> UnresolvedRelationshipValue list" where
  "unresolved_default s name target =
     (case Option.bind target dt_resolved_node_id of
        None \<Rightarrow> []
      | Some node_id \<Rightarrow>
          unless (has_key (nodes_by_id s) node_id)
            (missing ''defaults'' (StrId name) ''resolved_node'' ''node'' (IntId node_id) absent))"

definition unresolved_defaults :: "RuntimeSnapshot \<Rightarrow> UnresolvedRelationshipValue list" where
  "unresolved_defaults s =
     unresolved_default s ''audio_sink'' (dflt_audio_sink (snap_defaults s)) @
     unresolved_default s ''audio_source'' (dflt_audio_source (snap_defaults s)) @
     unresolved_default s ''video_source'' (dflt_video_source (snap_defaults s)) @
     (case dflt_metadata_id (snap_defaults s) of
        None \<Rightarrow> []
      | Some metadata_id \<Rightarrow>
          unless (has_key (metadata_by_id s) metadata_id)
            (missing ''defaults'' (StrId ''defaults'') ''metadata'' ''metadata'' (IntId metadata_id) absent))"

definition find_unresolved_relationships :: "RuntimeSnapshot \<Rightarrow> UnresolvedRelationshipValue list" where
  "find_unresolved_relationships s =
     concat (map (unresolved_device s) (snap_devices s)) @
     concat (map (unresolved_node s) (snap_nodes s)) @
     concat (map (unresolved_port s) (snap_ports s)) @
     concat (map (unresolved_link s) (snap_links s)) @
     concat (map (unresolved_profile s) (snap_profiles s)) @
     concat (map (unresolved_route s) (snap_routes s)) @
     concat (map (unresolved_parameter s) (snap_parameters s)) @
     unresolved_defaults s"

definition is_coherent :: "RuntimeSnapshot \<Rightarrow> bool" where
  "is_coherent s \<longleftrightarrow> snap_unresolved_relationships s = []"

section \<open>Construction\<close>

definition mk_RuntimeSnapshot ::
    "pyval \<Rightarrow> pyval \<Rightarrow> pyval \<Rightarrow> pyval \<Rightarrow> pyval \<Rightarrow> pyval \<Rightarrow> pyval \<Rightarrow> pyval \<Rightarrow>
     pyval \<Rightarrow> pyval \<Rightarrow> pyval \<Rightarrow> pyval \<Rightarrow> pyval \<Rightarrow> pyval \<Rightarrow> exn + RuntimeSnapshot" where
  "mk_RuntimeSnapshot generation sequence captured_at health devices nodes ports links metadata
       parameters profiles routes defaults unresolved_relationships =
     rbind (val_identifier generation ''generation'') (\<lambda>generation.
     rbind (val_identifier sequence ''sequence'') (\<lambda>sequence.
     rbind (val_timestamp captured_at) (\<lambda>captured_at.
     rbind (val_instance as_ConnectionHealthValue ''ConnectionHealthValue'' health ''health'') (\<lambda>health.
     rbind (check (health_generation health = generation)
              (ValueError ''health generation must match snapshot generation'')) (\<lambda>_.
     rbind (val_runtime_values as_DeviceValue ''DeviceValue'' devices ''devices'') (\<lambda>devices.
     rbind (val_runtime_values as_NodeValue ''NodeValue'' nodes ''nodes'') (\<lambda>nodes.
     rbind (val_runtime_values as_PortValue ''PortValue'' ports ''ports'') (\<lambda>ports.
     rbind (val_runtime_values as_LinkValue ''LinkValue'' links ''links'') (\<lambda>links.
     rbind (val_runtime_values as_MetadataValue ''MetadataValue'' metadata ''metadata'') (\<lambda>metadata.
     rbind (val_runtime_values as_ParameterValue ''ParameterValue'' parameters ''parameters'') (\<lambda>parameters.
     rbind (val_runtime_values as_ProfileValue ''ProfileValue'' profiles ''profiles'') (\<lambda>profiles.
     rbind (val_runtime_values as_RouteValue ''RouteValue'' routes ''routes'') (\<lambda>routes.
     rbind (val_instance as_DefaultsValue ''DefaultsValue'' defaults ''defaults'') (\<lambda>defaults.
     rbind (val_runtime_values as_UnresolvedRelationshipValue ''UnresolvedRelationshipValue''
              unresolved_relationships ''unresolved_relationships'') (\<lambda>supplied_unresolved.
     rbind (unique_index devices dev_id ''device id'') (\<lambda>device_index.
     rbind (unique_index nodes nd_id ''node id'') (\<lambda>node_index.
     rbind (unique_index ports pt_id ''port id'') (\<lambda>port_index.
     rbind (unique_index links lk_id ''link id'') (\<lambda>link_index.
     rbind (unique_index metadata md_id ''metadata id'') (\<lambda>metadata_index.
     rbind (unique_index parameters parameter_key ''parameter key'') (\<lambda>parameter_index.
     rbind (unique_index profiles profile_key ''profile key'') (\<lambda>profile_index.
     rbind (unique_index routes route_key ''route key'') (\<lambda>route_index.
     let snapshot =
       \<lparr>snap_generation = generation, snap_sequence = sequence, snap_captured_at = captured_at,
         snap_health = health,
         snap_devices = devices, snap_nodes = nodes, snap_ports = ports, 
         snap_links = links, snap_metadata = metadata, snap_parameters = parameters, 
         snap_profiles = profiles, snap_routes = routes, snap_defaults = defaults,
         snap_unresolved_relationships = supplied_unresolved, 
         devices_by_id = device_index, nodes_by_id = node_index, ports_by_id = port_index, 
         links_by_id = link_index, metadata_by_id = metadata_index, parameters_by_key = parameter_index, 
         profiles_by_key = profile_index, routes_by_key = route_index\<rparr>;
       computed_unresolved = find_unresolved_relationships snapshot
     in if supplied_unresolved \<noteq> [] \<and> supplied_unresolved \<noteq> computed_unresolved
        then Inl (ValueError ''serialized unresolved relationships do not match snapshot contents'')
        else Inr (snapshot\<lparr>snap_unresolved_relationships := computed_unresolved\<rparr>))))))))))))))))))))))))"

definition RuntimeSnapshot_fields :: "RuntimeSnapshot \<Rightarrow> fields" where
  "RuntimeSnapshot_fields s =
     [(''generation'', PInt (snap_generation s)),
      (''sequence'', PInt (snap_sequence s)),
      (''captured_at'', PStr (snap_captured_at s)),
      (''health'', ConnectionHealthValue_obj (snap_health s)),
      (''devices'', tuple_obj DeviceValue_obj (snap_devices s)),
      (''nodes'', tuple_obj NodeValue_obj (snap_nodes s)),
      (''ports'', tuple_obj PortValue_obj (snap_ports s)),
      (''links'', tuple_obj LinkValue_obj (snap_links s)),
      (''metadata'', tuple_obj MetadataValue_obj (snap_metadata s)),
      (''parameters'', tuple_obj ParameterValue_obj (snap_parameters s)),
      (''profiles'', tuple_obj ProfileValue_obj (snap_profiles s)),
      (''routes'', tuple_obj RouteValue_obj (snap_routes s)),
      (''defaults'', DefaultsValue_obj (snap_defaults s)),
      (''unresolved_relationships'', tuple_obj UnresolvedRelationshipValue_obj (snap_unresolved_relationships s))]"

definition RuntimeSnapshot_obj :: "RuntimeSnapshot \<Rightarrow> pyval" where
  "RuntimeSnapshot_obj s = PValue ''runtime_snapshot'' (RuntimeSnapshot_fields s)"

text \<open>\<open>DefaultsValue()\<close>, the default of the field \<open>defaults\<close>.\<close>

definition no_defaults :: DefaultsValue where
  "no_defaults = \<lparr>dflt_metadata_id = None, dflt_audio_sink = None, dflt_audio_source = None,
     dflt_video_source = None, dflt_extra = []\<rparr>"

definition init_RuntimeSnapshot :: "fields \<Rightarrow> exn + RuntimeSnapshot" where
  "init_RuntimeSnapshot kw =
     rbind (kw_required kw ''generation'') (\<lambda>generation.
     rbind (kw_required kw ''sequence'') (\<lambda>sequence.
     rbind (kw_required kw ''captured_at'') (\<lambda>captured_at.
     rbind (kw_required kw ''health'') (\<lambda>health.
     mk_RuntimeSnapshot generation sequence captured_at health
       (kw_default kw ''devices'' (PTuple [])) (kw_default kw ''nodes'' (PTuple []))
       (kw_default kw ''ports'' (PTuple [])) (kw_default kw ''links'' (PTuple []))
       (kw_default kw ''metadata'' (PTuple [])) (kw_default kw ''parameters'' (PTuple []))
       (kw_default kw ''profiles'' (PTuple [])) (kw_default kw ''routes'' (PTuple []))
       (kw_default kw ''defaults'' (DefaultsValue_obj no_defaults))
       (kw_default kw ''unresolved_relationships'' (PTuple []))))))"

text \<open>\<open>RuntimeSnapshot.capture\<close>; \<open>now\<close> is the clock's reading.\<close>

definition capture_snapshot :: "datetime \<Rightarrow> fields \<Rightarrow> exn + RuntimeSnapshot" where
  "capture_snapshot now kw =
     (let captured_at = kw_default kw ''captured_at'' PNone;
          timestamp = (if truthy captured_at then captured_at else PDatetime now)
      in rbind (val_timestamp timestamp) (\<lambda>t.
         init_RuntimeSnapshot (alist_set ''captured_at'' (PStr t) kw)))"

definition as_RuntimeSnapshot :: "pyval \<Rightarrow> RuntimeSnapshot option" where
  "as_RuntimeSnapshot v = instance_of ''runtime_snapshot'' init_RuntimeSnapshot v"

section \<open>The type invariant\<close>

text \<open>The indexes of a snapshot are those of its collections.\<close>

definition indexed :: "RuntimeSnapshot \<Rightarrow> bool" where
  "indexed s \<longleftrightarrow>
     unique_index (snap_devices s) dev_id ''device id'' = Inr (devices_by_id s) \<and>
     unique_index (snap_nodes s) nd_id ''node id'' = Inr (nodes_by_id s) \<and>
     unique_index (snap_ports s) pt_id ''port id'' = Inr (ports_by_id s) \<and>
     unique_index (snap_links s) lk_id ''link id'' = Inr (links_by_id s) \<and>
     unique_index (snap_metadata s) md_id ''metadata id'' = Inr (metadata_by_id s) \<and>
     unique_index (snap_parameters s) parameter_key ''parameter key'' = Inr (parameters_by_key s) \<and>
     unique_index (snap_profiles s) profile_key ''profile key'' = Inr (profiles_by_key s) \<and>
     unique_index (snap_routes s) route_key ''route key'' = Inr (routes_by_key s)"

definition RuntimeSnapshot_ok :: "RuntimeSnapshot \<Rightarrow> bool" where
  "RuntimeSnapshot_ok s \<longleftrightarrow>
     0 \<le> snap_generation s \<and> 0 \<le> snap_sequence s \<and> timestamp_ok (snap_captured_at s) \<and>
     ConnectionHealthValue_ok (snap_health s) \<and> health_generation (snap_health s) = snap_generation s \<and>
     list_all DeviceValue_ok (snap_devices s) \<and>
     list_all NodeValue_ok (snap_nodes s) \<and>
     list_all PortValue_ok (snap_ports s) \<and>
     list_all LinkValue_ok (snap_links s) \<and>
     list_all MetadataValue_ok (snap_metadata s) \<and>
     list_all ParameterValue_ok (snap_parameters s) \<and>
     list_all ProfileValue_ok (snap_profiles s) \<and>
     list_all RouteValue_ok (snap_routes s) \<and>
     DefaultsValue_ok (snap_defaults s) \<and> indexed s \<and>
     list_all UnresolvedRelationshipValue_ok (snap_unresolved_relationships s) \<and>
     snap_unresolved_relationships s = find_unresolved_relationships s"

text \<open>Indexes answer for membership in the collections.\<close>

lemma indexed_lookup:
  assumes "indexed s"
  shows
    "has_key (devices_by_id s) k0 \<longleftrightarrow> (\<exists>v \<in> set (snap_devices s). dev_id v = k0)"
    and
    "has_key (nodes_by_id s) k1 \<longleftrightarrow> (\<exists>v \<in> set (snap_nodes s). nd_id v = k1)"
    and
    "has_key (ports_by_id s) k2 \<longleftrightarrow> (\<exists>v \<in> set (snap_ports s). pt_id v = k2)"
    and
    "has_key (links_by_id s) k3 \<longleftrightarrow> (\<exists>v \<in> set (snap_links s). lk_id v = k3)"
    and
    "has_key (metadata_by_id s) k4 \<longleftrightarrow> (\<exists>v \<in> set (snap_metadata s). md_id v = k4)"
    and
    "has_key (parameters_by_key s) k5 \<longleftrightarrow> (\<exists>v \<in> set (snap_parameters s). parameter_key v = k5)"
    and
    "has_key (profiles_by_key s) k6 \<longleftrightarrow> (\<exists>v \<in> set (snap_profiles s). profile_key v = k6)"
    and
    "has_key (routes_by_key s) k7 \<longleftrightarrow> (\<exists>v \<in> set (snap_routes s). route_key v = k7)"
  using assms unfolding indexed_def
  by (simp_all add: device_index.has_iff node_index.has_iff port_index.has_iff link_index.has_iff metadata_index.has_iff parameter_index.has_iff profile_index.has_iff route_index.has_iff)

lemma indexed_port:
  "indexed s \<Longrightarrow> map_of (ports_by_id s) i = Some p \<longleftrightarrow> p \<in> set (snap_ports s) \<and> pt_id p = i"
  "indexed s \<Longrightarrow> map_of (ports_by_id s) i = None \<longleftrightarrow> (\<forall>p \<in> set (snap_ports s). pt_id p \<noteq> i)"
  by (auto simp: indexed_def port_index.lookup_iff port_index.absent_iff)

section \<open>Coherence\<close>

text \<open>
  What a coherent snapshot promises, stated on its collections alone: every identity a value
  mentions is the identity of a value of the right kind in the same snapshot, and a port
  named by a node or a link belongs to that node and has that direction.
\<close>

definition has_parameter :: "RuntimeSnapshot \<Rightarrow> string \<Rightarrow> int \<Rightarrow> string \<Rightarrow> bool" where
  "has_parameter s t i p \<longleftrightarrow> (\<exists>q \<in> set (snap_parameters s). parameter_key q = (t, i, p))"

definition has_profile :: "RuntimeSnapshot \<Rightarrow> int \<Rightarrow> int \<Rightarrow> bool" where
  "has_profile s d i \<longleftrightarrow> (\<exists>p \<in> set (snap_profiles s). profile_key p = (d, i))"

definition has_route :: "RuntimeSnapshot \<Rightarrow> int \<Rightarrow> int \<Rightarrow> bool" where
  "has_route s d i \<longleftrightarrow> (\<exists>r \<in> set (snap_routes s). route_key r = (d, i))"

definition has_device :: "RuntimeSnapshot \<Rightarrow> int \<Rightarrow> bool" where
  "has_device s i \<longleftrightarrow> (\<exists>d \<in> set (snap_devices s). dev_id d = i)"

definition has_node :: "RuntimeSnapshot \<Rightarrow> int \<Rightarrow> bool" where
  "has_node s i \<longleftrightarrow> (\<exists>n \<in> set (snap_nodes s). nd_id n = i)"

definition has_metadata :: "RuntimeSnapshot \<Rightarrow> int \<Rightarrow> bool" where
  "has_metadata s i \<longleftrightarrow> (\<exists>m \<in> set (snap_metadata s). md_id m = i)"

definition owns_port :: "RuntimeSnapshot \<Rightarrow> int \<Rightarrow> int \<Rightarrow> PortDirection \<Rightarrow> bool" where
  "owns_port s n i dir \<longleftrightarrow>
     (\<exists>p \<in> set (snap_ports s). pt_id p = i \<and> pt_node_id p = n \<and> pt_direction p = dir)"

definition has_owner :: "RuntimeSnapshot \<Rightarrow> string \<Rightarrow> int \<Rightarrow> bool" where
  "has_owner s t i \<longleftrightarrow>
     (t = ''device'' \<and> has_device s i) \<or> (t = ''node'' \<and> has_node s i) \<or>
     (t = ''port'' \<and> (\<exists>p \<in> set (snap_ports s). pt_id p = i)) \<or>
     (t = ''link'' \<and> (\<exists>l \<in> set (snap_links s). lk_id l = i)) \<or>
     (t = ''metadata'' \<and> has_metadata s i)"

definition relationships_resolve :: "RuntimeSnapshot \<Rightarrow> bool" where
  "relationships_resolve s \<longleftrightarrow>
     (\<forall>d \<in> set (snap_devices s).
        (\<forall>p \<in> set (dev_parameter_ids d). has_parameter s ''device'' (dev_id d) p) \<and>
        (\<forall>i \<in> set (dev_profile_ids d). has_profile s (dev_id d) i) \<and>
        (\<forall>i \<in> set (dev_route_ids d). has_route s (dev_id d) i)) \<and>
     (\<forall>n \<in> set (snap_nodes s).
        (\<forall>i. nd_device_id n = Some i \<longrightarrow> has_device s i) \<and>
        (\<forall>p \<in> set (nd_parameter_ids n). has_parameter s ''node'' (nd_id n) p) \<and>
        (\<forall>i \<in> set (nd_input_port_ids n). owns_port s (nd_id n) i INPUT) \<and>
        (\<forall>i \<in> set (nd_output_port_ids n). owns_port s (nd_id n) i OUTPUT)) \<and>
     (\<forall>p \<in> set (snap_ports s).
        has_node s (pt_node_id p) \<and>
        (\<forall>q \<in> set (pt_parameter_ids p). has_parameter s ''port'' (pt_id p) q)) \<and>
     (\<forall>l \<in> set (snap_links s).
        has_node s (lk_output_node_id l) \<and> has_node s (lk_input_node_id l) \<and>
        owns_port s (lk_output_node_id l) (lk_output_port_id l) OUTPUT \<and>
        owns_port s (lk_input_node_id l) (lk_input_port_id l) INPUT) \<and>
     (\<forall>p \<in> set (snap_profiles s). has_device s (pf_device_id p)) \<and>
     (\<forall>r \<in> set (snap_routes s).
        has_device s (rt_device_id r) \<and>
        (\<forall>i \<in> set (rt_profile_ids r). has_profile s (rt_device_id r) i)) \<and>
     (\<forall>q \<in> set (snap_parameters s). has_owner s (param_owner_type q) (param_owner_id q)) \<and>
     (\<forall>t \<in> {dflt_audio_sink (snap_defaults s), dflt_audio_source (snap_defaults s),
             dflt_video_source (snap_defaults s)}.
        \<forall>i. Option.bind t dt_resolved_node_id = Some i \<longrightarrow> has_node s i) \<and>
     (\<forall>i. dflt_metadata_id (snap_defaults s) = Some i \<longrightarrow> has_metadata s i)"

text \<open>Each kind of value reports nothing exactly when its relationships resolve.\<close>

lemma indexed_has:
  assumes "indexed s"
  shows "has_key (devices_by_id s) = has_device s" "has_key (nodes_by_id s) = has_node s"
    "has_key (metadata_by_id s) = has_metadata s"
    "has_key (parameters_by_key s) (t, i, p) = has_parameter s t i p"
    "has_key (profiles_by_key s) (i, j) = has_profile s i j"
    "has_key (routes_by_key s) (i, j) = has_route s i j"
  using indexed_lookup [OF assms]
  by (auto simp: fun_eq_iff has_device_def has_node_def has_metadata_def has_parameter_def
    has_profile_def has_route_def)

lemma owns_port_lookup:
  assumes "indexed s"
  shows "owns_port s n i dir \<longleftrightarrow>
    (\<exists>p. map_of (ports_by_id s) i = Some p \<and> pt_node_id p = n \<and> pt_direction p = dir)"
  using indexed_port [OF assms] by (auto simp: owns_port_def)

lemma port_key_lookup: "has_key index i \<longleftrightarrow> (\<exists>p. map_of index i = Some p)"
  by (auto simp: has_key_def simp flip: domIff dom_map_of_conv_image_fst)

lemma unresolved_parameters_Nil:
  "indexed s \<Longrightarrow> unresolved_parameters s t i ps = [] \<longleftrightarrow> (\<forall>p \<in> set ps. has_parameter s t i p)"
  by (simp add: unresolved_parameters_def indexed_has)

lemma unresolved_device_Nil:
  "indexed s \<Longrightarrow> unresolved_device s d = [] \<longleftrightarrow>
     (\<forall>p \<in> set (dev_parameter_ids d). has_parameter s ''device'' (dev_id d) p) \<and>
     (\<forall>i \<in> set (dev_profile_ids d). has_profile s (dev_id d) i) \<and>
     (\<forall>i \<in> set (dev_route_ids d). has_route s (dev_id d) i)"
  by (simp add: unresolved_device_def unresolved_parameters_Nil indexed_has)

lemma unresolved_port_relation_Nil:
  "indexed s \<Longrightarrow> unresolved_port_relation s n (i, dir, rel) = [] \<longleftrightarrow> owns_port s (nd_id n) i dir"
  by (simp add: unresolved_port_relation_def owns_port_lookup split: option.split)

lemma unresolved_node_Nil:
  "indexed s \<Longrightarrow> unresolved_node s n = [] \<longleftrightarrow>
     (\<forall>i. nd_device_id n = Some i \<longrightarrow> has_device s i) \<and>
     (\<forall>p \<in> set (nd_parameter_ids n). has_parameter s ''node'' (nd_id n) p) \<and>
     (\<forall>i \<in> set (nd_input_port_ids n). owns_port s (nd_id n) i INPUT) \<and>
     (\<forall>i \<in> set (nd_output_port_ids n). owns_port s (nd_id n) i OUTPUT)"
  by (simp add: unresolved_node_def unresolved_parameters_Nil unresolved_port_relation_Nil indexed_has
    ball_Un split: option.split)

lemma unresolved_link_Nil:
  assumes "indexed s"
  shows "unresolved_link s l = [] \<longleftrightarrow>
     has_node s (lk_output_node_id l) \<and> has_node s (lk_input_node_id l) \<and>
     owns_port s (lk_output_node_id l) (lk_output_port_id l) OUTPUT \<and>
     owns_port s (lk_input_node_id l) (lk_input_port_id l) INPUT"
  using assms
  by (auto simp: unresolved_link_def indexed_has port_key_lookup owns_port_lookup split: option.split)

lemma owner_index_Some:
  assumes "indexed s"
  shows "(case owner_index s t of None \<Rightarrow> False | Some owned \<Rightarrow> owned i) \<longleftrightarrow> has_owner s t i"
  using indexed_lookup [OF assms]
  by (simp add: owner_index_def has_owner_def has_device_def has_node_def has_metadata_def)

lemma unresolved_parameter_Nil:
  "indexed s \<Longrightarrow> unresolved_parameter s q = [] \<longleftrightarrow> has_owner s (param_owner_type q) (param_owner_id q)"
  by (simp add: unresolved_parameter_def flip: owner_index_Some split: option.split)

lemma unresolved_defaults_Nil:
  "indexed s \<Longrightarrow> unresolved_defaults s = [] \<longleftrightarrow>
     (\<forall>t \<in> {dflt_audio_sink (snap_defaults s), dflt_audio_source (snap_defaults s),
             dflt_video_source (snap_defaults s)}.
        \<forall>i. Option.bind t dt_resolved_node_id = Some i \<longrightarrow> has_node s i) \<and>
     (\<forall>i. dflt_metadata_id (snap_defaults s) = Some i \<longrightarrow> has_metadata s i)"
  by (auto simp: unresolved_defaults_def unresolved_default_def indexed_has split: option.splits)

lemma find_unresolved_Nil:
  assumes "indexed s"
  shows "find_unresolved_relationships s = [] \<longleftrightarrow> relationships_resolve s"
  using assms
  by (simp add: find_unresolved_relationships_def relationships_resolve_def unresolved_device_Nil
    unresolved_node_Nil unresolved_port_def unresolved_parameters_Nil unresolved_link_Nil
    unresolved_profile_def unresolved_route_def unresolved_parameter_Nil unresolved_defaults_Nil
    indexed_has cong: conj_cong)

section \<open>Constructed snapshots\<close>

text \<open>
  The values \<open>missing\<close> reports satisfy the checks of their own constructor, so building them
  cannot fail.
\<close>

lemma missing_ok:
  "st \<noteq> [] \<Longrightarrow> identity_ok i \<Longrightarrow> rel \<noteq> [] \<Longrightarrow> tt \<noteq> [] \<Longrightarrow> identity_ok j \<Longrightarrow> why \<noteq> [] \<Longrightarrow>
     UnresolvedRelationshipValue_ok (missing st i rel tt j why)"
  by (simp add: missing_def UnresolvedRelationshipValue_ok_def)

lemma unresolved_parameters_ok:
  "st \<noteq> [] \<Longrightarrow> 0 \<le> i \<Longrightarrow> list_all (\<lambda>p. p \<noteq> []) ps \<Longrightarrow> u \<in> set (unresolved_parameters s st i ps) \<Longrightarrow>
     UnresolvedRelationshipValue_ok u"
  by (auto simp: unresolved_parameters_def list_all_iff intro!: missing_ok)

lemma unresolved_device_ok:
  "DeviceValue_ok d \<Longrightarrow> u \<in> set (unresolved_device s d) \<Longrightarrow> UnresolvedRelationshipValue_ok u"
  by (auto simp: unresolved_device_def DeviceValue_ok_def list_all_iff intro!: missing_ok
    elim: unresolved_parameters_ok [rotated 3])

lemma unresolved_node_ok:
  "NodeValue_ok n \<Longrightarrow> u \<in> set (unresolved_node s n) \<Longrightarrow> UnresolvedRelationshipValue_ok u"
  by (auto simp: unresolved_node_def NodeValue_ok_def list_all_iff unresolved_port_relation_def
    intro!: missing_ok dest!: sym [of "Some _"] elim: unresolved_parameters_ok [rotated 3]
    split: option.splits if_splits)

lemma unresolved_port_ok:
  "PortValue_ok p \<Longrightarrow> u \<in> set (unresolved_port s p) \<Longrightarrow> UnresolvedRelationshipValue_ok u"
  by (auto simp: unresolved_port_def PortValue_ok_def list_all_iff intro!: missing_ok
    elim: unresolved_parameters_ok [rotated 3])

lemma unresolved_link_ok:
  "LinkValue_ok l \<Longrightarrow> u \<in> set (unresolved_link s l) \<Longrightarrow> UnresolvedRelationshipValue_ok u"
  by (auto simp: unresolved_link_def LinkValue_ok_def intro!: missing_ok split: option.splits)

lemma unresolved_profile_ok:
  "ProfileValue_ok p \<Longrightarrow> u \<in> set (unresolved_profile s p) \<Longrightarrow> UnresolvedRelationshipValue_ok u"
  by (auto simp: unresolved_profile_def ProfileValue_ok_def intro!: missing_ok)

lemma unresolved_route_ok:
  "RouteValue_ok r \<Longrightarrow> u \<in> set (unresolved_route s r) \<Longrightarrow> UnresolvedRelationshipValue_ok u"
  by (auto simp: unresolved_route_def RouteValue_ok_def list_all_iff intro!: missing_ok)

lemma unresolved_parameter_ok:
  "ParameterValue_ok q \<Longrightarrow> u \<in> set (unresolved_parameter s q) \<Longrightarrow> UnresolvedRelationshipValue_ok u"
  by (auto simp: unresolved_parameter_def ParameterValue_ok_def parameter_source_def intro!: missing_ok
    split: option.splits)

lemma unresolved_default_ok:
  "pred_option DefaultTargetValue_ok t \<Longrightarrow> name \<noteq> [] \<Longrightarrow> u \<in> set (unresolved_default s name t) \<Longrightarrow>
     UnresolvedRelationshipValue_ok u"
  by (cases t) (auto simp: unresolved_default_def DefaultTargetValue_ok_def intro!: missing_ok
    dest!: sym [of "Some _"] split: option.splits)

lemma unresolved_defaults_ok:
  "DefaultsValue_ok (snap_defaults s) \<Longrightarrow> u \<in> set (unresolved_defaults s) \<Longrightarrow> UnresolvedRelationshipValue_ok u"
  by (auto simp: unresolved_defaults_def DefaultsValue_ok_def intro!: missing_ok
    dest!: sym [of "Some _"] elim!: unresolved_default_ok [rotated 2] split: option.splits)

lemma find_unresolved_ok:
  assumes "list_all DeviceValue_ok (snap_devices s)" "list_all NodeValue_ok (snap_nodes s)"
    "list_all PortValue_ok (snap_ports s)" "list_all LinkValue_ok (snap_links s)"
    "list_all ParameterValue_ok (snap_parameters s)" "list_all ProfileValue_ok (snap_profiles s)"
    "list_all RouteValue_ok (snap_routes s)" "DefaultsValue_ok (snap_defaults s)"
  shows "list_all UnresolvedRelationshipValue_ok (find_unresolved_relationships s)"
  using assms unfolding list_all_iff
  by (auto simp: find_unresolved_relationships_def
    dest: unresolved_device_ok unresolved_node_ok unresolved_port_ok unresolved_link_ok
      unresolved_profile_ok unresolved_route_ok unresolved_parameter_ok unresolved_defaults_ok)

text \<open>The search reads the collections and the indexes, not its own earlier result.\<close>

lemma find_unresolved_update [simp]:
  "find_unresolved_relationships (s\<lparr>snap_unresolved_relationships := u\<rparr>) = find_unresolved_relationships s"
proof -
  have p: "unresolved_parameters (s\<lparr>snap_unresolved_relationships := u\<rparr>) = unresolved_parameters s"
    by (simp add: unresolved_parameters_def fun_eq_iff)
  have r: "unresolved_port_relation (s\<lparr>snap_unresolved_relationships := u\<rparr>) = unresolved_port_relation s"
    by (simp add: unresolved_port_relation_def fun_eq_iff)
  have o: "owner_index (s\<lparr>snap_unresolved_relationships := u\<rparr>) = owner_index s"
    by (simp add: owner_index_def fun_eq_iff)
  have "unresolved_device (s\<lparr>snap_unresolved_relationships := u\<rparr>) = unresolved_device s"
    "unresolved_node (s\<lparr>snap_unresolved_relationships := u\<rparr>) = unresolved_node s"
    "unresolved_port (s\<lparr>snap_unresolved_relationships := u\<rparr>) = unresolved_port s"
    "unresolved_link (s\<lparr>snap_unresolved_relationships := u\<rparr>) = unresolved_link s"
    "unresolved_profile (s\<lparr>snap_unresolved_relationships := u\<rparr>) = unresolved_profile s"
    "unresolved_route (s\<lparr>snap_unresolved_relationships := u\<rparr>) = unresolved_route s"
    "unresolved_parameter (s\<lparr>snap_unresolved_relationships := u\<rparr>) = unresolved_parameter s"
    "unresolved_default (s\<lparr>snap_unresolved_relationships := u\<rparr>) = unresolved_default s"
    by (simp_all add: fun_eq_iff unresolved_device_def unresolved_node_def unresolved_port_def
      unresolved_link_def unresolved_profile_def unresolved_route_def unresolved_parameter_def
      unresolved_default_def p r o cong: option.case_cong)
  then show ?thesis
    by (simp add: find_unresolved_relationships_def unresolved_defaults_def cong: option.case_cong)
qed

lemma no_defaults_ok: "DefaultsValue_ok no_defaults"
  by (simp add: no_defaults_def DefaultsValue_ok_def mapping_ok_def)

lemma well_formed_no_defaults: "well_formed (DefaultsValue_obj no_defaults)"
  by (simp add: no_defaults_def DefaultsValue_obj_def DefaultsValue_fields_def)

lemma RuntimeSnapshot_okI:
  assumes "0 \<le> snap_generation s" "0 \<le> snap_sequence s" "timestamp_ok (snap_captured_at s)"
    "ConnectionHealthValue_ok (snap_health s)" "health_generation (snap_health s) = snap_generation s"
    "list_all DeviceValue_ok (snap_devices s)" "list_all NodeValue_ok (snap_nodes s)"
    "list_all PortValue_ok (snap_ports s)" "list_all LinkValue_ok (snap_links s)"
    "list_all MetadataValue_ok (snap_metadata s)" "list_all ParameterValue_ok (snap_parameters s)"
    "list_all ProfileValue_ok (snap_profiles s)" "list_all RouteValue_ok (snap_routes s)"
    "DefaultsValue_ok (snap_defaults s)" "indexed s"
  shows "RuntimeSnapshot_ok (s\<lparr>snap_unresolved_relationships := find_unresolved_relationships s\<rparr>)"
  using assms find_unresolved_ok [of s] by (simp add: RuntimeSnapshot_ok_def indexed_def)

lemma mk_RuntimeSnapshot_ok:
  assumes "mk_RuntimeSnapshot g q t h ds ns ps ls ms qs fs rs df us = Inr s"
    and "list_all well_formed [h, ds, ns, ps, ls, ms, qs, fs, rs, df, us]"
  shows "RuntimeSnapshot_ok s"
  using assms unfolding mk_RuntimeSnapshot_def
  apply (elim rbind_InrE)
  apply (simp only: Let_def sum.inject sum.distinct split: if_splits)
  apply (drule sym, hypsubst, rule RuntimeSnapshot_okI)
  apply (auto simp: indexed_def validator_simps intro: val_ok)
  done

lemma RuntimeSnapshot_type_ok: "init_RuntimeSnapshot kw = Inr s \<Longrightarrow> kw_ok kw \<Longrightarrow> RuntimeSnapshot_ok s"
  unfolding init_RuntimeSnapshot_def
  by (auto elim!: rbind_InrE mk_RuntimeSnapshot_ok dest!: kw_required_ok
    simp: kw_default_ok well_formed_no_defaults)

lemma init_RuntimeSnapshot_obj:
  assumes "RuntimeSnapshot_ok s"
  shows "init_RuntimeSnapshot (RuntimeSnapshot_fields s) = Inr s"
proof -
  have call: "init_RuntimeSnapshot (RuntimeSnapshot_fields s) =
      mk_RuntimeSnapshot (PInt (snap_generation s)) (PInt (snap_sequence s)) (PStr (snap_captured_at s))
        (ConnectionHealthValue_obj (snap_health s)) (tuple_obj DeviceValue_obj (snap_devices s))
        (tuple_obj NodeValue_obj (snap_nodes s)) (tuple_obj PortValue_obj (snap_ports s))
        (tuple_obj LinkValue_obj (snap_links s)) (tuple_obj MetadataValue_obj (snap_metadata s))
        (tuple_obj ParameterValue_obj (snap_parameters s)) (tuple_obj ProfileValue_obj (snap_profiles s))
        (tuple_obj RouteValue_obj (snap_routes s)) (DefaultsValue_obj (snap_defaults s))
        (tuple_obj UnresolvedRelationshipValue_obj (snap_unresolved_relationships s))"
    by (simp add: init_RuntimeSnapshot_def RuntimeSnapshot_fields_def kw_simps)
  have eq: "\<lparr>snap_generation = snap_generation s, snap_sequence = snap_sequence s,
      snap_captured_at = snap_captured_at s, snap_health = snap_health s,
      snap_devices = snap_devices s, snap_nodes = snap_nodes s,
      snap_ports = snap_ports s, snap_links = snap_links s,
      snap_metadata = snap_metadata s, snap_parameters = snap_parameters s,
      snap_profiles = snap_profiles s, snap_routes = snap_routes s,
      snap_defaults = snap_defaults s, snap_unresolved_relationships = u,
      devices_by_id = devices_by_id s, nodes_by_id = nodes_by_id s,
      ports_by_id = ports_by_id s, links_by_id = links_by_id s,
      metadata_by_id = metadata_by_id s, parameters_by_key = parameters_by_key s,
      profiles_by_key = profiles_by_key s, routes_by_key = routes_by_key s\<rparr>
      = s\<lparr>snap_unresolved_relationships := u\<rparr>" for u
    by (cases s) simp
  have same: "s\<lparr>snap_unresolved_relationships := find_unresolved_relationships s\<rparr> = s"
    using assms by (cases s) (simp add: RuntimeSnapshot_ok_def)
  have us: "val_runtime_values as_UnresolvedRelationshipValue ''UnresolvedRelationshipValue''
      (tuple_obj UnresolvedRelationshipValue_obj (find_unresolved_relationships s))
      ''unresolved_relationships'' = Inr (find_unresolved_relationships s)"
    using assms by (intro vals_UnresolvedRelationshipValue_obj) (auto simp: RuntimeSnapshot_ok_def)
  have "snap_unresolved_relationships s = find_unresolved_relationships s"
    using assms by (auto simp: RuntimeSnapshot_ok_def)
  then show ?thesis
    using assms
    by (simp add: call mk_RuntimeSnapshot_def RuntimeSnapshot_ok_def indexed_def val_obj us Let_def eq same
      find_unresolved_update)
qed

lemma init_RuntimeSnapshot_plain [plain_simps]: "init_RuntimeSnapshot (plain_fields kw) = init_RuntimeSnapshot kw"
proof -
  have d: "plain (DefaultsValue_obj no_defaults) = DefaultsValue_obj no_defaults"
    by (simp add: DefaultsValue_obj_def)
  show ?thesis by (simp add: init_RuntimeSnapshot_def mk_RuntimeSnapshot_def plain_simps d)
qed

lemma as_RuntimeSnapshot_obj: "RuntimeSnapshot_ok s \<Longrightarrow> as_RuntimeSnapshot (RuntimeSnapshot_obj s) = Some s"
  by (simp add: as_RuntimeSnapshot_def RuntimeSnapshot_obj_def instance_of_obj init_RuntimeSnapshot_obj)

lemma as_RuntimeSnapshot_ok: "as_RuntimeSnapshot v = Some s \<Longrightarrow> well_formed v \<Longrightarrow> RuntimeSnapshot_ok s"
  unfolding as_RuntimeSnapshot_def by (erule instance_of_ok) (rule RuntimeSnapshot_type_ok)

text \<open>A snapshot is coherent exactly when every relationship in it resolves.\<close>

lemma is_coherent_iff: "RuntimeSnapshot_ok s \<Longrightarrow> is_coherent s \<longleftrightarrow> relationships_resolve s"
  by (simp add: is_coherent_def RuntimeSnapshot_ok_def find_unresolved_Nil)

section \<open>An example\<close>

text \<open>
  A playback node 1 with output port 11 linked, by the given links, to a sink node 2 with
  input port 12, at the sequence number \<open>n\<close> of generation 1.
\<close>

definition sample_node :: "int \<Rightarrow> int list \<Rightarrow> int list \<Rightarrow> NodeValue" where
  "sample_node i inputs outputs =
     \<lparr>nd_id = i, nd_device_id = None, nd_name = None, nd_description = None, nd_media_class = None,
       nd_state = NodeIdle, nd_error = None, nd_input_port_ids = inputs, nd_output_port_ids = outputs,
       nd_properties = [], nd_parameter_ids = []\<rparr>"

definition sample_port :: "int \<Rightarrow> int \<Rightarrow> PortDirection \<Rightarrow> PortValue" where
  "sample_port i node direction =
     \<lparr>pt_id = i, pt_node_id = node, pt_direction = direction, pt_name = None, pt_channel = None,
       pt_properties = [], pt_parameter_ids = []\<rparr>"

definition sample_link :: "int \<Rightarrow> LinkValue" where
  "sample_link i =
     \<lparr>lk_id = i, lk_output_node_id = 1, lk_output_port_id = 11, lk_input_node_id = 2, lk_input_port_id = 12,
       lk_state = None, lk_owner = Some ''session'', lk_desired_id = Some ''music'', lk_properties = []\<rparr>"

definition sample_snapshot :: "int \<Rightarrow> LinkValue list \<Rightarrow> RuntimeSnapshot" where
  "sample_snapshot n links =
     (let nodes = [sample_node 1 [] [11], sample_node 2 [12] []];
          ports = [sample_port 11 1 OUTPUT, sample_port 12 2 INPUT];
          s = \<lparr>snap_generation = 1, snap_sequence = n, snap_captured_at = render_utc 0,
            snap_health = \<lparr>health_state = CONNECTED, health_generation = 1, health_reason = None, health_details = []\<rparr>,
            snap_devices = [], snap_nodes = nodes, snap_ports = ports, snap_links = links, snap_metadata = [],
            snap_parameters = [], snap_profiles = [], snap_routes = [], snap_defaults = no_defaults,
            snap_unresolved_relationships = [],
            devices_by_id = [], nodes_by_id = map (\<lambda>v. (nd_id v, v)) nodes,
            ports_by_id = map (\<lambda>v. (pt_id v, v)) ports, links_by_id = map (\<lambda>v. (lk_id v, v)) links,
            metadata_by_id = [], parameters_by_key = [], profiles_by_key = [], routes_by_key = []\<rparr>
      in s\<lparr>snap_unresolved_relationships := find_unresolved_relationships s\<rparr>)"

lemma timestamp_ok_sample [simp]: "timestamp_ok (render_utc 0)"
  using parse_render_utc [of 0]
  by (simp add: timestamp_ok_def val_timestamp_def to_utc_def utc_instant_def max_us_def us_per_day_def)

lemma sample_snapshot_ok:
  assumes "0 \<le> n" "distinct (map lk_id links)" "list_all LinkValue_ok links"
  shows "RuntimeSnapshot_ok (sample_snapshot n links)"
  unfolding sample_snapshot_def Let_def
  by (rule RuntimeSnapshot_okI)
    (use assms in \<open>simp_all add: indexed_def unique_index_eq sample_node_def sample_port_def no_defaults_ok
      NodeValue_ok_def PortValue_ok_def ConnectionHealthValue_ok_def mapping_ok_def\<close>)

lemma sample_link_ok [simp]: "0 \<le> i \<Longrightarrow> LinkValue_ok (sample_link i)"
  by (simp add: sample_link_def LinkValue_ok_def mapping_ok_def)

lemma sample_snapshot_simps [simp]:
  "snap_generation (sample_snapshot n links) = 1" "snap_sequence (sample_snapshot n links) = n"
  "snap_links (sample_snapshot n links) = links" "snap_captured_at (sample_snapshot n links) = render_utc 0"
  by (simp_all add: sample_snapshot_def Let_def)

lemma sample_link_id: "lk_id (sample_link i) = i"
  by (simp add: sample_link_def)

lemma sample_snapshot_links_ok [simp]:
  "0 \<le> n \<Longrightarrow> RuntimeSnapshot_ok (sample_snapshot n [])"
  "0 \<le> n \<Longrightarrow> 0 \<le> i \<Longrightarrow> RuntimeSnapshot_ok (sample_snapshot n [sample_link i])"
  "0 \<le> n \<Longrightarrow> 0 \<le> i \<Longrightarrow> 0 \<le> j \<Longrightarrow> i \<noteq> j \<Longrightarrow> RuntimeSnapshot_ok (sample_snapshot n [sample_link i, sample_link j])"
  by (rule sample_snapshot_ok; simp add: sample_link_id)+

section \<open>Properties\<close>

text \<open>
  C28. A snapshot reports itself coherent exactly when every relationship between its
  values resolves inside it: all parameters, profiles, routes, ports, nodes, devices and
  defaults that are named exist, and the ports of nodes and links have the owner and the
  direction they are used with.
\<close>

theorem coherent_iff_resolved: "RuntimeSnapshot_ok s \<Longrightarrow> is_coherent s \<longleftrightarrow> relationships_resolve s"
  by (rule is_coherent_iff)

theorem coherent_iff_resolved_witness:
  "is_coherent (sample_snapshot 5 [sample_link 7]) \<longleftrightarrow> relationships_resolve (sample_snapshot 5 [sample_link 7])"
  by (rule coherent_iff_resolved, rule sample_snapshot_ok) simp_all

text \<open>
  C29. The constructor only produces well-typed snapshots: non-negative positions, a
  health of the same generation, valid values in every collection, indexes that are those of
  the collections, and the unresolved relationships that the search finds.  Rebuilding a
  snapshot from its own fields gives the same snapshot.
\<close>

theorem snapshot_constructor:
  assumes "kw_ok kw" "init_RuntimeSnapshot kw = Inr s"
  shows "RuntimeSnapshot_ok s \<and> init_RuntimeSnapshot (RuntimeSnapshot_fields s) = Inr s"
  using RuntimeSnapshot_type_ok [OF assms(2,1)] init_RuntimeSnapshot_obj by blast

theorem snapshot_constructor_witness:
  "\<exists>s. init_RuntimeSnapshot [(''generation'', PInt 1), (''sequence'', PInt 2), (''captured_at'', PStr (render_utc 0)),
       (''health'', PValue ''connection_health'' [(''state'', PStr ''connected''), (''generation'', PInt 1)])] = Inr s \<and>
     init_RuntimeSnapshot (RuntimeSnapshot_fields s) = Inr s"
proof -
  let ?kw = "[(''generation'', PInt 1), (''sequence'', PInt 2), (''captured_at'', PStr (render_utc 0)),
       (''health'', PValue ''connection_health'' [(''state'', PStr ''connected''), (''generation'', PInt 1)])]"
  have "as_ConnectionHealthValue (PValue ''connection_health'' [(''state'', PStr ''connected''), (''generation'', PInt 1)]) =
      Some \<lparr>health_state = CONNECTED, health_generation = 1, health_reason = None, health_details = []\<rparr>"
    by (simp add: as_ConnectionHealthValue_def instance_of_def init_ConnectionHealthValue_def
      mk_ConnectionHealthValue_def kw_simps val_enum_def enum_lookup_def connection_state_members_def
      kw_default_def val_optional_string_def val_optional_def val_mapping_def val_identifier_def val_integer_def)
  moreover have "as_DefaultsValue (DefaultsValue_obj no_defaults) = Some no_defaults"
    by (rule as_DefaultsValue_obj) (rule no_defaults_ok)
  moreover have "val_timestamp (PStr (render_utc 0)) = Inr (render_utc 0)"
    using timestamp_ok_sample by (simp add: timestamp_ok_def)
  ultimately have "\<exists>s. init_RuntimeSnapshot ?kw = Inr s"
    by (simp add: init_RuntimeSnapshot_def mk_RuntimeSnapshot_def kw_simps kw_default_def val_identifier_def
      val_integer_def val_instance_def val_runtime_values_def val_items_def unique_index_eq Let_def)
  then obtain s where s: "init_RuntimeSnapshot ?kw = Inr s" by blast
  have "kw_ok ?kw" by (simp add: kw_ok_def)
  from snapshot_constructor [OF this s] s show ?thesis by blast
qed

text \<open>
  Looking an identity up in the indexes of a snapshot finds the one value of the collection that
  has it, and finds nothing exactly when no value has it.
\<close>

lemma identity_lookup:
  assumes "RuntimeSnapshot_ok s"
  shows "(map_of (nodes_by_id s) i = Some n \<longleftrightarrow> n \<in> set (snap_nodes s) \<and> nd_id n = i) \<and>
    (map_of (nodes_by_id s) i = None \<longleftrightarrow> i \<notin> nd_id ` set (snap_nodes s)) \<and>
    (map_of (profiles_by_key s) (d, j) = Some p \<longleftrightarrow>
       p \<in> set (snap_profiles s) \<and> pf_device_id p = d \<and> pf_index p = j) \<and>
    (map_of (parameters_by_key s) (t, i, k) = Some q \<longleftrightarrow>
       q \<in> set (snap_parameters s) \<and> param_owner_type q = t \<and> param_owner_id q = i \<and> param_id q = k)"
proof -
  have i: "indexed s" using assms by (simp add: RuntimeSnapshot_ok_def)
  then show ?thesis
    by (auto simp: indexed_def node_index.lookup_iff node_index.absent_iff profile_index.lookup_iff
      parameter_index.lookup_iff profile_key_def parameter_key_def)
qed

end
