(* ===== verification/Serialization.thy ===== *)
theory Serialization
  imports Snapshots
begin

text \<open>
  The versioned JSON contract of \<open>src/src/wyreplumber/runtime/models.py\<close>:
  \<open>RuntimeValue.to_dict\<close> with \<open>_serialize\<close>, and \<open>runtime_value_from_dict\<close> with
  \<open>_deserialize\<close>, over the table \<open>_VALUE_TYPES\<close> of registered classes.  The locale
  \<open>value_registry\<close> states what the two rely on in a registered class and proves that
  decoding inverts encoding.
\<close>

section \<open>The class table\<close>

text \<open>
  What \<open>dataclasses.fields\<close> and the constructor of a registered class provide: the names of
  the serialised fields and the keyword constructor.
\<close>

record value_class =
  class_fields :: "string list"
  class_init :: "fields \<Rightarrow> exn + pyval"

type_synonym registry = "(string \<times> value_class) list"

definition constructor :: "(fields \<Rightarrow> exn + 'a) \<Rightarrow> ('a \<Rightarrow> pyval) \<Rightarrow> fields \<Rightarrow> exn + pyval" where
  "constructor init obj kw = rbind (init kw) (\<lambda>x. Inr (obj x))"

text \<open>
  The fields whose metadata says \<open>omit_none\<close>: the tolerance of a confirmation predicate is
  the only one.
\<close>

definition omit_none :: "string \<Rightarrow> string list" where
  "omit_none value_type = (if value_type = ''confirmation_predicate'' then [''tolerance''] else [])"

definition omitted :: "string \<Rightarrow> string \<times> pyval \<Rightarrow> bool" where
  "omitted value_type item \<longleftrightarrow> fst item \<in> set (omit_none value_type) \<and> snd item = PNone"

section \<open>Encoding\<close>

text \<open>\<open>_serialize\<close>; on an instance it is \<open>to_dict\<close>.\<close>

function serialize :: "pyval \<Rightarrow> exn + pyval" where
  "serialize (PValue t fs) =
     rbind (traverse (\<lambda>(k, v). rbind (serialize v) (\<lambda>s. Inr (PStr k, s)))
              (filter (\<lambda>item. \<not> omitted t item) fs))
       (\<lambda>kvs. Inr (PDict ((PStr ''schema_version'', PInt 1) # (PStr ''value_type'', PStr t) # kvs)))"
| "serialize (PStrEnum c s) = Inr (PStr s)"
| "serialize (PIntEnum c n i) = Inr (PInt i)"
| "serialize (PFrozen items) = FrozenDict_to_dict items"
| "serialize (PTuple xs) = rbind (traverse serialize xs) (\<lambda>ys. Inr (PList ys))"
| "serialize PNone = Inr PNone"
| "serialize (PBool b) = Inr (PBool b)"
| "serialize (PInt i) = Inr (PInt i)"
| "serialize (PFloat f) = Inr (PFloat f)"
| "serialize (PStr s) = Inr (PStr s)"
| "serialize (PBytes b) = Inl (TypeError ''cannot serialize runtime field'')"
| "serialize (PList xs) = Inl (TypeError ''cannot serialize runtime field'')"
| "serialize (PDict kvs) = Inl (TypeError ''cannot serialize runtime field'')"
| "serialize (PDatetime d) = Inl (TypeError ''cannot serialize runtime field'')"
| "serialize (PSpaObject c t i n props flags keys) = Inl (TypeError ''cannot serialize runtime field'')"
| "serialize (POther t) = Inl (TypeError ''cannot serialize runtime field'')"
  by pat_completeness auto
termination
  by (relation "measure size") (auto simp: termination_simp)

section \<open>Decoding\<close>

definition dict_get :: "(pyval \<times> pyval) list \<Rightarrow> string \<Rightarrow> pyval option" where
  "dict_get kvs k = map_option snd (find (\<lambda>kv. as_str (fst kv) = Some k) kvs)"

definition dict_key_text :: "pyval \<Rightarrow> string" where
  "dict_key_text key = (case as_str key of Some s \<Rightarrow> s | None \<Rightarrow> (case as_int key of Some i \<Rightarrow> show_int i | None \<Rightarrow> ''None''))"

text \<open>The checks of \<open>runtime_value_from_dict\<close> before the fields: the class and its arguments.\<close>

definition envelope_class :: "registry \<Rightarrow> (pyval \<times> pyval) list \<Rightarrow> exn + value_class" where
  "envelope_class reg kvs =
     (let schema_version = (case dict_get kvs ''schema_version'' of None \<Rightarrow> PNone | Some v \<Rightarrow> v);
          value_type = (case dict_get kvs ''value_type'' of None \<Rightarrow> PNone | Some v \<Rightarrow> v)
      in if \<not> py_eq schema_version (PInt 1) \<or> as_bool schema_version \<noteq> None
         then Inl (RuntimeValueDecodeError ''unsupported_schema_version'' ''expected 1'' ''$.schema_version'')
         else case Option.bind (as_str value_type) (map_of reg) of
           None \<Rightarrow> Inl (RuntimeValueDecodeError ''unsupported_value_type'' ''unknown runtime value type'' ''$.value_type'')
         | Some C \<Rightarrow> Inr C)"

definition envelope_items :: "(pyval \<times> pyval) list \<Rightarrow> (pyval \<times> pyval) list" where
  "envelope_items kvs =
     filter (\<lambda>kv. as_str (fst kv) \<noteq> Some ''schema_version'' \<and> as_str (fst kv) \<noteq> Some ''value_type'') kvs"

text \<open>
  Unknown field names are joined into the message, which fails with a \<open>TypeError\<close> when one
  of them is not a string.
\<close>

definition known_names :: "value_class \<Rightarrow> (pyval \<times> pyval) list \<Rightarrow> exn + unit" where
  "known_names C items =
     (let unknown = filter (\<lambda>kv. case as_str (fst kv) of None \<Rightarrow> True | Some n \<Rightarrow> n \<notin> set (class_fields C)) items
      in if unknown = [] then Inr ()
         else if list_all (\<lambda>kv. as_str (fst kv) \<noteq> None) unknown
         then Inl (RuntimeValueDecodeError ''unknown_fields'' ''unknown field(s)'' ''$'')
         else Inl (TypeError ''expected str instance''))"

fun is_decode_error :: "exn \<Rightarrow> bool" where
  "is_decode_error (RuntimeValueDecodeError _ _ _) = True"
| "is_decode_error _ = False"

definition construct :: "value_class \<Rightarrow> fields \<Rightarrow> exn + pyval" where
  "construct C payload =
     catching (\<lambda>e. type_or_value_error e \<and> \<not> is_decode_error e) (class_init C payload)
       (\<lambda>e. Inl (RuntimeValueDecodeError ''invalid_value'' (exn_message e) ''$''))"

definition indexed_items :: "'a list \<Rightarrow> (nat \<times> 'a) list" where
  "indexed_items xs = zip [0..<length xs] xs"

lemma as_mapping_size: "as_mapping x = Some kvs \<Longrightarrow> (k, v) \<in> set kvs \<Longrightarrow> size v < size x"
  by (cases x) (auto dest: pyval_size_items' [where f = size] pyval_size_items)

lemma envelope_items_subset: "p \<in> set (envelope_items kvs) \<Longrightarrow> p \<in> set kvs"
  by (simp add: envelope_items_def)

lemma indexed_items_size: "(i, x) \<in> set (indexed_items xs) \<Longrightarrow> size x < Suc (size_list size (xs :: pyval list))"
  by (auto simp: indexed_items_def dest!: set_zip_rightD pyval_size_member)

text \<open>
  Python builds the payload by iterating a set of names; here the fields are decoded in the
  order of the mapping, which only matters for which of several errors is reported.
\<close>

function (sequential)
  runtime_value_from_dict :: "registry \<Rightarrow> pyval \<Rightarrow> exn + pyval" and
  deserialize :: "registry \<Rightarrow> pyval \<Rightarrow> string \<Rightarrow> exn + pyval" where
  "runtime_value_from_dict reg value =
     (case as_mapping value of
        None \<Rightarrow> Inl (RuntimeValueDecodeError ''invalid_envelope'' ''runtime value must be an object'' ''$'')
      | Some kvs \<Rightarrow>
          rbind (envelope_class reg kvs) (\<lambda>C.
          rbind (known_names C (envelope_items kvs)) (\<lambda>_.
          rbind (traverse (\<lambda>(key, item).
                   let name = dict_key_text key in
                   rbind (deserialize reg item (''$.'' @ name)) (\<lambda>v. Inr (name, v)))
                 (envelope_items kvs)) (\<lambda>payload.
          construct C payload))))"
| "deserialize reg value path =
     (case as_mapping value of
        Some kvs \<Rightarrow>
          if dict_get kvs ''schema_version'' \<noteq> None \<and> dict_get kvs ''value_type'' \<noteq> None
          then catching is_decode_error (runtime_value_from_dict reg value)
                 (\<lambda>e. Inl (RuntimeValueDecodeError (decode_code e) (decode_message e) path))
          else catching type_or_value_error
                 (rbind (traverse (\<lambda>(key, item).
                           rbind (deserialize reg item (path @ ''.'' @ dict_key_text key)) (\<lambda>v. Inr (key, v))) kvs)
                    (\<lambda>items. FrozenDict_init (PDict items)))
                 (\<lambda>e. Inl (RuntimeValueDecodeError ''invalid_json_value'' (exn_message e) path))
      | None \<Rightarrow>
          (case value of
             PList xs \<Rightarrow>
               rbind (traverse (\<lambda>(index, item).
                        deserialize reg item (path @ ''['' @ show_nat index @ '']'')) (indexed_items xs))
                 (\<lambda>ys. Inr (PTuple ys))
           | _ \<Rightarrow>
               catching type_or_value_error (freeze_json value)
                 (\<lambda>e. Inl (RuntimeValueDecodeError ''invalid_json_value'' (exn_message e) path))))"
  by pat_completeness auto
termination
proof (relation "measure (\<lambda>x. case x of Inl (reg, v) \<Rightarrow> 2 * size v | Inr (reg, v, p) \<Rightarrow> 2 * size v + 1)")
  show "wf (measure (\<lambda>x. case x of Inl (reg :: registry, v) \<Rightarrow> 2 * size (v :: pyval)
      | Inr (reg :: registry, v :: pyval, p :: string) \<Rightarrow> 2 * size v + 1))"
    by simp
qed (auto simp: Suc_double_not_eq_double dest!: envelope_items_subset dest: as_mapping_size indexed_items_size)

declare runtime_value_from_dict.simps [simp del] deserialize.simps [simp del]

text \<open>\<open>RuntimeValue.from_dict\<close> of a class: the decoded value must be an instance of it.\<close>

definition value_type_of :: "pyval \<Rightarrow> string" where
  "value_type_of v = (case v of PValue t fs \<Rightarrow> t | _ \<Rightarrow> [])"

definition from_dict :: "registry \<Rightarrow> string \<Rightarrow> pyval \<Rightarrow> exn + pyval" where
  "from_dict reg value_type value =
     rbind (runtime_value_from_dict reg value) (\<lambda>decoded.
       if value_type_of decoded \<noteq> value_type
       then Inl (RuntimeValueDecodeError ''unexpected_value_type'' (''expected '' @ value_type) ''$'')
       else Inr decoded)"

section \<open>Decoding inverts encoding\<close>

text \<open>
  A frozen mapping whose keys include both \<open>schema_version\<close> and \<open>value_type\<close> encodes to an
  object that decodes as the envelope of a runtime value; \<open>envelope_free\<close> excludes it.
\<close>

fun envelope_free :: "pyval \<Rightarrow> bool" where
  "envelope_free (PTuple xs) = list_all envelope_free xs"
| "envelope_free (PFrozen items) =
     (\<not> (''schema_version'' \<in> set (map fst items) \<and> ''value_type'' \<in> set (map fst items)) \<and>
      list_all (\<lambda>(k, v). envelope_free v) items)"
| "envelope_free _ = True"

text \<open>
  The values an instance is made of: instances that are fixed points of their constructor,
  all the way down, frozen mappings that are not mistaken for an envelope, tuples of them and
  scalars.  A field may hold an enumeration member, an element of a tuple may not.
\<close>

fun genuine :: "registry \<Rightarrow> pyval \<Rightarrow> bool" where
  "genuine reg (PValue t fs) =
     ((case map_of reg t of None \<Rightarrow> False | Some C \<Rightarrow> class_init C fs = Inr (PValue t fs)) \<and>
      list_all (\<lambda>(k, v). genuine reg v) fs)"
| "genuine reg (PTuple xs) = list_all (\<lambda>x. plain x = x \<and> genuine reg x) xs"
| "genuine reg (PFrozen items) = (frozen (PFrozen items) \<and> envelope_free (PFrozen items))"
| "genuine reg (PFloat f) = isfinite f"
| "genuine reg PNone = True"
| "genuine reg (PBool b) = True"
| "genuine reg (PInt i) = True"
| "genuine reg (PStr s) = True"
| "genuine reg (PStrEnum c s) = True"
| "genuine reg _ = False"

lemma traverse_indexed:
  assumes "\<And>i x. x \<in> set xs \<Longrightarrow> f (i, g x) = Inr (h x)"
  shows "traverse f (indexed_items (map g xs)) = Inr (map h xs)"
  using assms by (auto simp: traverse_Inr_iff indexed_items_def list_all2_conv_all_nth)

lemma dict_get_items: "dict_get (map (\<lambda>(k, v). (PStr k, f v)) items) n = map_option f (map_of items n)"
  by (induction items) (auto simp: dict_get_def)

lemma map_of_None_iff: "map_of items n = None \<longleftrightarrow> n \<notin> set (map fst items)"
  by (simp add: map_of_eq_None_iff)

lemma deserialize_tuple:
  assumes "\<And>x p. x \<in> set xs \<Longrightarrow> deserialize reg (g x) p = Inr (h x)"
  shows "deserialize reg (PList (map g xs)) path = Inr (PTuple (map h xs))"
proof -
  have "traverse (\<lambda>(index, item). deserialize reg item (path @ ''['' @ show_nat index @ '']''))
      (indexed_items (map g xs)) = Inr (map h xs)"
    by (rule traverse_indexed) (use assms in auto)
  then show ?thesis by (simp add: deserialize.simps)
qed

lemma frozen_item: "frozen (PFrozen items) \<Longrightarrow> (k, v) \<in> set items \<Longrightarrow> frozen v"
  by (auto simp: list_all_iff)

lemma deserialize_mapping:
  assumes "frozen (PFrozen items)"
    and "\<And>k v p. (k, v) \<in> set items \<Longrightarrow> deserialize reg (g v) p = Inr v"
    and "\<not> (''schema_version'' \<in> set (map fst items) \<and> ''value_type'' \<in> set (map fst items))"
  shows "deserialize reg (PDict (map (\<lambda>(k, v). (PStr k, g v)) items)) path = Inr (PFrozen items)"
proof -
  have "traverse (\<lambda>(key, item). rbind (deserialize reg item (path @ ''.'' @ dict_key_text key)) (\<lambda>v. Inr (key, v)))
      (map (\<lambda>(k, v). (PStr k, g v)) items) = Inr (map (\<lambda>(k, v). (PStr k, v)) items)"
    by (rule traverse_map_Inr) (use assms(2) in force)
  moreover have "freeze_json (PDict (map (\<lambda>(k, v). (PStr k, v)) items)) = Inr (PFrozen (map (\<lambda>(k, v). (k, v)) items))"
    by (rule freeze_dict_items) (use assms(1) frozen_item freeze_json_id in blast)
  ultimately show ?thesis
    using assms(3)
    by (auto simp: deserialize.simps dict_get_items map_of_None_iff FrozenDict_init_def
      simp del: freeze_json.simps)
qed

lemma deserialize_thaw:
  "frozen v \<Longrightarrow> envelope_free v \<Longrightarrow> \<exists>u. thaw_json v = Inr u \<and> (\<forall>p. deserialize reg u p = Inr v)"
proof (induction v rule: frozen.induct)
  case (6 xs)
  then have "\<forall>x \<in> set xs. \<exists>u. thaw_json x = Inr u \<and> (\<forall>p. deserialize reg u p = Inr x)"
    by (auto simp: list_all_iff)
  then obtain g where g: "\<And>x. x \<in> set xs \<Longrightarrow> thaw_json x = Inr (g x) \<and> (\<forall>p. deserialize reg (g x) p = Inr x)"
    by metis
  have "traverse thaw_json (map id xs) = Inr (map g xs)" by (rule traverse_map_Inr) (simp add: g)
  moreover have "deserialize reg (PList (map g xs)) p = Inr (PTuple (map id xs))" for p
    by (rule deserialize_tuple) (simp add: g)
  ultimately show ?case by simp
next
  case (7 items)
  then have "\<forall>x \<in> snd ` set items. \<exists>u. thaw_json x = Inr u \<and> (\<forall>p. deserialize reg u p = Inr x)"
    by (fastforce simp: list_all_iff)
  then obtain g where g: "\<And>x. x \<in> snd ` set items \<Longrightarrow> thaw_json x = Inr (g x) \<and> (\<forall>p. deserialize reg (g x) p = Inr x)"
    by metis
  have "traverse (\<lambda>(key, value). rbind (thaw_json value) (\<lambda>v. Inr (PStr key, v))) (map id items) =
      Inr (map (\<lambda>(k, v). (PStr k, g v)) items)"
    by (rule traverse_map_Inr) (use g in force)
  moreover have "deserialize reg (PDict (map (\<lambda>(k, v). (PStr k, g v)) items)) p = Inr (PFrozen items)" for p
    using g "7.prems" by (intro deserialize_mapping) (simp, force, simp)
  ultimately show ?case by simp
qed (simp_all add: deserialize.simps)

text \<open>What encoding and decoding rely on in the registered classes.\<close>

locale value_registry =
  fixes reg :: registry
  assumes plain_arguments: "map_of reg t = Some C \<Longrightarrow> class_init C (plain_fields kw) = class_init C kw"
    and omitted_arguments: "map_of reg t = Some C \<Longrightarrow> distinct (map fst kw) \<Longrightarrow>
      class_init C (filter (\<lambda>item. \<not> omitted t item) kw) = class_init C kw"
    and instances: "map_of reg t = Some C \<Longrightarrow> class_init C kw = Inr v \<Longrightarrow>
      \<exists>fs. v = PValue t fs \<and> map fst fs = class_fields C"
    and field_names: "map_of reg t = Some C \<Longrightarrow> distinct (class_fields C) \<and>
      ''schema_version'' \<notin> set (class_fields C) \<and> ''value_type'' \<notin> set (class_fields C)"
begin

lemma decode_instance:
  assumes C: "map_of reg t = Some C" "class_init C fs = Inr (PValue t fs)"
    and fields: "\<And>k v. (k, v) \<in> set fs \<Longrightarrow> serialize v = Inr (g v) \<and> (\<forall>p. deserialize reg (g v) p = Inr (plain v))"
  shows "\<exists>kvs. serialize (PValue t fs) = Inr (PDict kvs) \<and>
    runtime_value_from_dict reg (PDict kvs) = Inr (PValue t fs) \<and>
    dict_get kvs ''schema_version'' \<noteq> None \<and> dict_get kvs ''value_type'' \<noteq> None"
proof -
  let ?kept = "filter (\<lambda>item. \<not> omitted t item) fs"
  let ?kvs = "map (\<lambda>(k, v). (PStr k, g v)) ?kept"
  let ?head = "[(PStr ''schema_version'', PInt 1), (PStr ''value_type'', PStr t)]"
  have names: "map fst fs = class_fields C"
    using instances [OF C] by auto
  then have d: "distinct (map fst fs)" "''schema_version'' \<notin> fst ` set fs" "''value_type'' \<notin> fst ` set fs"
    using field_names [OF C(1)] by (simp_all flip: set_map)
  have "traverse (\<lambda>(k, v). rbind (serialize v) (\<lambda>s. Inr (PStr k, s))) (map id ?kept) = Inr ?kvs"
    by (rule traverse_map_Inr) (use fields in force)
  then have ser: "serialize (PValue t fs) = Inr (PDict (?head @ ?kvs))" by simp
  have items: "envelope_items (?head @ ?kvs) = ?kvs"
    using d(2,3) by (force simp: envelope_items_def filter_id_conv)
  have cls: "envelope_class reg (?head @ ?kvs) = Inr C"
    using C(1) by (simp add: envelope_class_def dict_get_def)
  have "k \<in> set (class_fields C)" if "(k, v) \<in> set fs" for k v
    unfolding names [symmetric] using that by force
  then have known: "known_names C ?kvs = Inr ()"
    by (auto simp: known_names_def Let_def filter_empty_conv)
  have "traverse (\<lambda>(key, item). let name = dict_key_text key in
        rbind (deserialize reg item (''$.'' @ name)) (\<lambda>v. Inr (name, v))) ?kvs
      = Inr (map (\<lambda>(k, v). (k, plain v)) ?kept)"
    by (rule traverse_map_Inr) (use fields in \<open>force simp: dict_key_text_def\<close>)
  then have "runtime_value_from_dict reg (PDict (?head @ ?kvs)) = construct C (plain_fields ?kept)"
    unfolding runtime_value_from_dict.simps [of reg "PDict (?head @ ?kvs)"] as_mapping.simps option.case
      cls rbind_Inr items known plain_fields_def by simp
  also have "\<dots> = Inr (PValue t fs)"
    unfolding construct_def plain_arguments [OF C(1)] omitted_arguments [OF C(1) d(1)] C(2) by simp
  finally show ?thesis using ser by (auto simp: dict_get_def)
qed

lemma encode_decode:
  "genuine reg v \<Longrightarrow> \<exists>s. serialize v = Inr s \<and> (\<forall>p. deserialize reg s p = Inr (plain v))"
proof (induction v rule: measure_induct_rule [of size])
  case (less v)
  show ?case
  proof (cases v)
    case (PValue t fs)
    then obtain C where C: "map_of reg t = Some C" "class_init C fs = Inr (PValue t fs)"
      using less.prems by (auto split: option.splits)
    have "\<forall>x \<in> snd ` set fs. \<exists>s. serialize x = Inr s \<and> (\<forall>p. deserialize reg s p = Inr (plain x))"
      using less PValue pyval_size_items [of _ _ fs] by (fastforce simp: list_all_iff)
    then obtain g where "\<forall>x \<in> snd ` set fs. serialize x = Inr (g x) \<and> (\<forall>p. deserialize reg (g x) p = Inr (plain x))"
      by metis
    then obtain kvs where "serialize v = Inr (PDict kvs)" "runtime_value_from_dict reg (PDict kvs) = Inr v"
        "dict_get kvs ''schema_version'' \<noteq> None" "dict_get kvs ''value_type'' \<noteq> None"
      using decode_instance [OF C, of g] PValue by force
    then show ?thesis using PValue by (auto simp: deserialize.simps)
  next
    case (PTuple xs)
    have "\<forall>x \<in> set xs. \<exists>s. serialize x = Inr s \<and> (\<forall>p. deserialize reg s p = Inr x)"
      using less PTuple pyval_size_member [of _ xs] by (fastforce simp: list_all_iff)
    then obtain g where g: "\<And>x. x \<in> set xs \<Longrightarrow> serialize x = Inr (g x) \<and> (\<forall>p. deserialize reg (g x) p = Inr x)"
      by metis
    have "traverse serialize (map id xs) = Inr (map g xs)" by (rule traverse_map_Inr) (simp add: g)
    moreover have "deserialize reg (PList (map g xs)) p = Inr (PTuple (map id xs))" for p
      by (rule deserialize_tuple) (simp add: g)
    ultimately show ?thesis using PTuple by simp
  next
    case (PFrozen items)
    then show ?thesis
      using deserialize_thaw [of v reg] less.prems by (simp add: FrozenDict_to_dict_def)
  qed (use less.prems in \<open>simp_all add: deserialize.simps\<close>)
qed

theorem roundtrip:
  assumes "genuine reg (PValue t fs)"
  shows "\<exists>d. serialize (PValue t fs) = Inr d \<and> runtime_value_from_dict reg d = Inr (PValue t fs)
    \<and> from_dict reg t d = Inr (PValue t fs)"
proof -
  obtain C where C: "map_of reg t = Some C" "class_init C fs = Inr (PValue t fs)"
    using assms by (auto split: option.splits)
  have "\<forall>x \<in> snd ` set fs. \<exists>s. serialize x = Inr s \<and> (\<forall>p. deserialize reg s p = Inr (plain x))"
    using assms encode_decode by (fastforce simp: list_all_iff)
  then obtain g where "\<forall>x \<in> snd ` set fs. serialize x = Inr (g x) \<and> (\<forall>p. deserialize reg (g x) p = Inr (plain x))"
    by metis
  then show ?thesis
    using decode_instance [OF C, of g] by (force simp: from_dict_def value_type_of_def)
qed

end

end
