(* ===== verification/Events.thy ===== *)
theory Events
  imports Serialization
begin

text \<open>
  \<open>src/src/wyreplumber/runtime/events.py\<close>: the event value and the continuity check that a
  consumer makes before it applies an event to its projection.  A position is the connection
  generation and the sequence number of the last state the consumer has.
\<close>

section \<open>Enumerations\<close>

datatype RuntimeEventKind =
    OBJECT_ADDED
  | OBJECT_REMOVED
  | OBJECT_CHANGED
  | PARAMETER_CHANGED
  | METADATA_CHANGED
  | DEFAULT_CHANGED
  | CONNECTION_CHANGED
  | DISCONTINUITY
  | RESNAPSHOT_REQUIRED

fun event_kind_value :: "RuntimeEventKind \<Rightarrow> string" where
  "event_kind_value OBJECT_ADDED = ''object_added''"
| "event_kind_value OBJECT_REMOVED = ''object_removed''"
| "event_kind_value OBJECT_CHANGED = ''object_changed''"
| "event_kind_value PARAMETER_CHANGED = ''parameter_changed''"
| "event_kind_value METADATA_CHANGED = ''metadata_changed''"
| "event_kind_value DEFAULT_CHANGED = ''default_changed''"
| "event_kind_value CONNECTION_CHANGED = ''connection_changed''"
| "event_kind_value DISCONTINUITY = ''discontinuity''"
| "event_kind_value RESNAPSHOT_REQUIRED = ''resnapshot_required''"

definition event_kind_members :: "RuntimeEventKind list" where
  "event_kind_members =
     [OBJECT_ADDED, OBJECT_REMOVED, OBJECT_CHANGED, PARAMETER_CHANGED, METADATA_CHANGED, DEFAULT_CHANGED, CONNECTION_CHANGED, DISCONTINUITY, RESNAPSHOT_REQUIRED]"

interpretation event_kind: str_enum event_kind_value event_kind_members
proof
  show "m \<in> set event_kind_members" for m by (cases m) (simp_all add: event_kind_members_def)
qed (simp add: event_kind_members_def)

lemmas event_kind_val_enum [val_obj] = event_kind.val_enum_member

datatype RuntimeObjectKind =
    KDevice
  | KNode
  | KPort
  | KLink
  | KMetadata
  | KParameter
  | KProfile
  | KRoute
  | KDefaults
  | KConnection
  | KRuntime

fun object_kind_value :: "RuntimeObjectKind \<Rightarrow> string" where
  "object_kind_value KDevice = ''device''"
| "object_kind_value KNode = ''node''"
| "object_kind_value KPort = ''port''"
| "object_kind_value KLink = ''link''"
| "object_kind_value KMetadata = ''metadata''"
| "object_kind_value KParameter = ''parameter''"
| "object_kind_value KProfile = ''profile''"
| "object_kind_value KRoute = ''route''"
| "object_kind_value KDefaults = ''defaults''"
| "object_kind_value KConnection = ''connection''"
| "object_kind_value KRuntime = ''runtime''"

definition object_kind_members :: "RuntimeObjectKind list" where
  "object_kind_members =
     [KDevice, KNode, KPort, KLink, KMetadata, KParameter, KProfile, KRoute, KDefaults, KConnection, KRuntime]"

interpretation object_kind: str_enum object_kind_value object_kind_members
proof
  show "m \<in> set object_kind_members" for m by (cases m) (simp_all add: object_kind_members_def)
qed (simp add: object_kind_members_def)

lemmas object_kind_val_enum [val_obj] = object_kind.val_enum_member

section \<open>The event value\<close>

record RuntimeEvent =
  ev_generation :: "int"
  ev_sequence :: "int"
  ev_occurred_at :: "string"
  ev_kind :: "RuntimeEventKind"
  ev_object_kind :: "RuntimeObjectKind"
  ev_object_id :: "identity"
  ev_current :: "pyval"
  ev_previous :: "pyval"
  ev_requires_resnapshot :: "bool"
  ev_reason :: "string option"

definition mk_RuntimeEvent ::
    "pyval \<Rightarrow> pyval \<Rightarrow> pyval \<Rightarrow> pyval \<Rightarrow> pyval \<Rightarrow> pyval \<Rightarrow> pyval \<Rightarrow> pyval \<Rightarrow> pyval \<Rightarrow> pyval \<Rightarrow> exn + RuntimeEvent" where
  "mk_RuntimeEvent generation sequence occurred_at kind object_kind object_id current previous requires_resnapshot reason =
     rbind (val_identifier generation ''generation'') (\<lambda>generation.
     rbind (val_identifier sequence ''sequence'') (\<lambda>sequence.
     rbind (val_timestamp occurred_at) (\<lambda>occurred_at.
     rbind (val_enum event_kind_value event_kind_members kind ''kind'') (\<lambda>kind.
     rbind (val_enum object_kind_value object_kind_members object_kind ''object_kind'') (\<lambda>object_kind.
     rbind (val_identity object_id ''object_id'') (\<lambda>object_id.
     rbind (contract_value current) (\<lambda>current.
     rbind (contract_value previous) (\<lambda>previous.
     rbind (val_boolean requires_resnapshot ''requires_resnapshot'') (\<lambda>requires_resnapshot.
     rbind (val_optional_string reason ''reason'') (\<lambda>reason.
     rbind (check (kind \<in> {DISCONTINUITY, RESNAPSHOT_REQUIRED} \<longrightarrow> requires_resnapshot)
              (ValueError (event_kind_value kind @ '' must require a new snapshot''))) (\<lambda>_.
     rbind (check (\<not> (kind = OBJECT_ADDED \<and> current = PNone))
              (ValueError ''object_added must include current state'')) (\<lambda>_.
     rbind (check (\<not> (kind = OBJECT_REMOVED \<and> previous = PNone))
              (ValueError ''object_removed must include previous state'')) (\<lambda>_.
     Inr \<lparr>ev_generation = generation, ev_sequence = sequence, ev_occurred_at = occurred_at,
       ev_kind = kind, ev_object_kind = object_kind, ev_object_id = object_id,
       ev_current = current, ev_previous = previous,
       ev_requires_resnapshot = requires_resnapshot, ev_reason = reason\<rparr>)))))))))))))"

definition RuntimeEvent_fields :: "RuntimeEvent \<Rightarrow> fields" where
  "RuntimeEvent_fields x =
     [(''generation'', PInt (ev_generation x)),
      (''sequence'', PInt (ev_sequence x)),
      (''occurred_at'', PStr (ev_occurred_at x)),
      (''kind'', PStrEnum ''RuntimeEventKind'' (event_kind_value (ev_kind x))),
      (''object_kind'', PStrEnum ''RuntimeObjectKind'' (object_kind_value (ev_object_kind x))),
      (''object_id'', identity_obj (ev_object_id x)),
      (''current'', (ev_current x)),
      (''previous'', (ev_previous x)),
      (''requires_resnapshot'', PBool (ev_requires_resnapshot x)),
      (''reason'', opt_obj PStr (ev_reason x))]"

definition RuntimeEvent_obj :: "RuntimeEvent \<Rightarrow> pyval" where
  "RuntimeEvent_obj x = PValue ''runtime_event'' (RuntimeEvent_fields x)"

definition init_RuntimeEvent :: "fields \<Rightarrow> exn + RuntimeEvent" where
  "init_RuntimeEvent kw =
     rbind (kw_required kw ''generation'') (\<lambda>generation.
     rbind (kw_required kw ''sequence'') (\<lambda>sequence.
     rbind (kw_required kw ''occurred_at'') (\<lambda>occurred_at.
     rbind (kw_required kw ''kind'') (\<lambda>kind.
     rbind (kw_required kw ''object_kind'') (\<lambda>object_kind.
     rbind (kw_required kw ''object_id'') (\<lambda>object_id.
     mk_RuntimeEvent generation sequence occurred_at kind object_kind object_id
       (kw_default kw ''current'' PNone) (kw_default kw ''previous'' PNone)
       (kw_default kw ''requires_resnapshot'' (PBool False))
       (kw_default kw ''reason'' PNone)))))))"

definition as_RuntimeEvent :: "pyval \<Rightarrow> RuntimeEvent option" where
  "as_RuntimeEvent v = instance_of ''runtime_event'' init_RuntimeEvent v"

definition RuntimeEvent_ok :: "RuntimeEvent \<Rightarrow> bool" where
  "RuntimeEvent_ok x \<longleftrightarrow>
     0 \<le> ev_generation x \<and> 0 \<le> ev_sequence x \<and>
     timestamp_ok (ev_occurred_at x) \<and> identity_ok (ev_object_id x) \<and>
     contract_ok (ev_current x) \<and> contract_ok (ev_previous x) \<and>
     (ev_kind x \<in> {DISCONTINUITY, RESNAPSHOT_REQUIRED} \<longrightarrow> ev_requires_resnapshot x) \<and>
     \<not> (ev_kind x = OBJECT_ADDED \<and> ev_current x = PNone) \<and>
     \<not> (ev_kind x = OBJECT_REMOVED \<and> ev_previous x = PNone)"

lemma RuntimeEvent_type_ok: "init_RuntimeEvent kw = Inr x \<Longrightarrow> kw_ok kw \<Longrightarrow> RuntimeEvent_ok x"
  unfolding init_RuntimeEvent_def mk_RuntimeEvent_def RuntimeEvent_ok_def
  by (auto simp: validator_simps kw_default_ok elim!: rbind_InrE dest!: kw_required_ok intro: val_ok)

lemma init_RuntimeEvent_obj: "RuntimeEvent_ok x \<Longrightarrow> init_RuntimeEvent (RuntimeEvent_fields x) = Inr x"
  by (simp add: init_RuntimeEvent_def mk_RuntimeEvent_def RuntimeEvent_fields_def RuntimeEvent_ok_def kw_simps val_obj)

lemma init_RuntimeEvent_plain [plain_simps]: "init_RuntimeEvent (plain_fields kw) = init_RuntimeEvent kw"
  by (simp add: init_RuntimeEvent_def mk_RuntimeEvent_def plain_simps)

lemma as_RuntimeEvent_obj: "RuntimeEvent_ok x \<Longrightarrow> as_RuntimeEvent (RuntimeEvent_obj x) = Some x"
  by (simp add: as_RuntimeEvent_def RuntimeEvent_obj_def instance_of_obj init_RuntimeEvent_obj)

lemma as_RuntimeEvent_ok: "as_RuntimeEvent v = Some x \<Longrightarrow> well_formed v \<Longrightarrow> RuntimeEvent_ok x"
  unfolding as_RuntimeEvent_def by (erule instance_of_ok) (rule RuntimeEvent_type_ok)

text \<open>\<open>RuntimeEvent.discontinuity\<close>; its arguments are evaluated before the constructor runs.\<close>

definition discontinuity :: "pyval \<Rightarrow> pyval \<Rightarrow> pyval \<Rightarrow> pyval \<Rightarrow> exn + RuntimeEvent" where
  "discontinuity generation sequence occurred_at reason =
     rbind (val_required_string reason ''reason'' False) (\<lambda>reason.
     mk_RuntimeEvent generation sequence occurred_at
       (PStrEnum ''RuntimeEventKind'' (event_kind_value DISCONTINUITY))
       (PStrEnum ''RuntimeObjectKind'' (object_kind_value KRuntime))
       (PStr ''runtime'') PNone PNone (PBool True) (PStr reason))"

section \<open>Continuity\<close>

definition require_event_continuity :: "RuntimeEvent \<Rightarrow> pyval \<Rightarrow> pyval \<Rightarrow> exn + RuntimeEvent" where
  "require_event_continuity event generation sequence =
     rbind (val_identifier generation ''generation'') (\<lambda>generation.
     rbind (val_identifier sequence ''sequence'') (\<lambda>sequence.
     if ev_generation event \<noteq> generation
     then Inl (RuntimeContinuityError ''generation_changed'' generation (sequence + 1))
     else if ev_sequence event \<noteq> sequence + 1
     then Inl (RuntimeContinuityError ''sequence_gap'' generation (sequence + 1))
     else if ev_requires_resnapshot event
     then Inl (RuntimeContinuityError ''resnapshot_required'' generation (sequence + 1))
     else Inr event))"

text \<open>An event that may be applied to a projection at \<open>(generation, sequence)\<close>.\<close>

definition follows :: "RuntimeEvent \<Rightarrow> int \<times> int \<Rightarrow> bool" where
  "follows e pos \<longleftrightarrow>
     ev_generation e = fst pos \<and> ev_sequence e = snd pos + 1 \<and> \<not> ev_requires_resnapshot e"

lemma require_event_continuity_iff:
  "0 \<le> g \<Longrightarrow> 0 \<le> q \<Longrightarrow>
     require_event_continuity e (PInt g) (PInt q) = Inr e' \<longleftrightarrow> e' = e \<and> follows e (g, q)"
  by (auto simp: require_event_continuity_def follows_def val_obj)

definition position :: "RuntimeEvent \<Rightarrow> int \<times> int" where
  "position e = (ev_generation e, ev_sequence e)"

text \<open>
  What the stream of a queue and the projection of a client share: a step from a position
  accepts only an event that follows it and moves to that event's position.  Accepting a list
  of events one after another then means that they are the next events of one generation,
  numbered without a gap.
\<close>

fun consecutive :: "int \<times> int \<Rightarrow> RuntimeEvent list \<Rightarrow> bool" where
  "consecutive pos [] = True"
| "consecutive pos (e # es) = (follows e pos \<and> consecutive (position e) es)"

lemma consecutive_append:
  "consecutive pos (xs @ ys) \<longleftrightarrow>
     consecutive pos xs \<and> consecutive (if xs = [] then pos else position (last xs)) ys"
  by (induction xs arbitrary: pos) auto

lemma consecutive_snoc:
  "consecutive pos (xs @ [e]) \<longleftrightarrow>
     consecutive pos xs \<and> follows e (if xs = [] then pos else position (last xs))"
  by (simp add: consecutive_append)

lemma consecutive_nth:
  "consecutive (g, q) es \<Longrightarrow> i < length es \<Longrightarrow>
     ev_generation (es ! i) = g \<and> ev_sequence (es ! i) = q + 1 + int i \<and> \<not> ev_requires_resnapshot (es ! i)"
proof (induction es arbitrary: q i)
  case (Cons e es)
  then show ?case by (cases i) (auto simp: follows_def position_def)
qed simp

lemma consecutive_last:
  "consecutive (g, q) es \<Longrightarrow> (if es = [] then (g, q) else position (last es)) = (g, q + int (length es))"
  using consecutive_nth [of g q es "length es - 1"]
  by (cases "length es") (auto simp: position_def last_conv_nth)

locale continuity =
  fixes pos :: "'s \<Rightarrow> int \<times> int"
    and accept :: "'s \<Rightarrow> RuntimeEvent \<Rightarrow> 's option"
  assumes accept_follows: "accept s e = Some s' \<Longrightarrow> follows e (pos s)"
    and accept_position: "accept s e = Some s' \<Longrightarrow> pos s' = position e"
begin

lemma accept_step: "accept s e = Some s' \<Longrightarrow> follows e (pos s) \<and> pos s' = position e"
  using accept_follows accept_position by blast

fun accept_all :: "'s \<Rightarrow> RuntimeEvent list \<Rightarrow> 's option" where
  "accept_all s [] = Some s"
| "accept_all s (e # es) = (case accept s e of None \<Rightarrow> None | Some s' \<Rightarrow> accept_all s' es)"

lemma accept_all_consecutive: "accept_all s es = Some s' \<Longrightarrow> consecutive (pos s) es"
proof (induction es arbitrary: s)
  case (Cons e es)
  then obtain s1 where "accept s e = Some s1" "accept_all s1 es = Some s'" by (auto split: option.splits)
  with Cons.IH [of s1] show ?case using accept_step [of s e s1] by simp
qed simp

lemma accept_all_position:
  "accept_all s es = Some s' \<Longrightarrow> pos s' = (fst (pos s), snd (pos s) + int (length es))"
  by (induction es arbitrary: s)
    (auto simp: follows_def position_def split: option.splits dest!: accept_step)

end

section \<open>An example\<close>

definition sample_event :: "int \<Rightarrow> RuntimeEvent" where
  "sample_event n =
     \<lparr>ev_generation = 1, ev_sequence = n, ev_occurred_at = render_utc 0, ev_kind = OBJECT_CHANGED,
       ev_object_kind = KNode, ev_object_id = IntId 1, ev_current = PInt n, ev_previous = PNone,
       ev_requires_resnapshot = False, ev_reason = None\<rparr>"

definition sample_now :: datetime where
  "sample_now = Datetime 0 (Some 0)"

lemma clock_ok_sample [simp]: "clock_ok sample_now"
  by (simp add: sample_now_def clock_ok_def utc_instant_def max_us_def us_per_day_def)

lemma sample_event_ok [simp]: "0 \<le> n \<Longrightarrow> RuntimeEvent_ok (sample_event n)"
  by (simp add: sample_event_def RuntimeEvent_ok_def contract_ok_def)

lemma sample_event_position [simp]: "position (sample_event n) = (1, n)"
  by (simp add: sample_event_def position_def)

lemma follows_sample [simp]: "follows (sample_event n) pos \<longleftrightarrow> pos = (1, n - 1)"
  by (cases pos) (auto simp: sample_event_def follows_def)

lemma sample_event_simps [simp]:
  "ev_generation (sample_event n) = 1" "ev_sequence (sample_event n) = n"
  "ev_requires_resnapshot (sample_event n) = False" "ev_kind (sample_event n) = OBJECT_CHANGED"
  "ev_object_kind (sample_event n) = KNode" "ev_object_id (sample_event n) = IntId 1"
  "ev_current (sample_event n) = PInt n"
  by (simp_all add: sample_event_def)

section \<open>Properties\<close>

text \<open>
  The continuity check a consumer makes lets exactly the next event of its generation through,
  unless the event itself asks for a snapshot; every other event is refused with the reason
  (generation first, then sequence, then the request) and the position that was expected.
\<close>

lemma continuity_check:
  assumes "0 \<le> g" "0 \<le> n"
  shows "require_event_continuity e (PInt g) (PInt n) =
    (if follows e (g, n) then Inr e
     else Inl (RuntimeContinuityError
       (if ev_generation e \<noteq> g then ''generation_changed''
        else if ev_sequence e \<noteq> n + 1 then ''sequence_gap'' else ''resnapshot_required'') g (n + 1)))"
  using assms by (auto simp: require_event_continuity_def follows_def val_obj)

end
