(* ===== verification/Mutations.thy ===== *)
theory Mutations
  imports Events
begin

text \<open>
  The request and outcome values at the start of \<open>src/src/wyreplumber/runtime/controls.py\<close>:
  targets, confirmation predicates and their evaluation, requests with their deadline,
  failures, confirmations, outcomes and dispatch tickets, with \<open>MutationRequest.create\<close> and
  the decoding of the native ticket payload.  Instants are UTC microseconds.
\<close>

section \<open>Enumerations\<close>

datatype MutationOperation =
    SET_PARAMETER
  | SET_NODE_MIXER
  | SET_METADATA
  | CLEAR_METADATA
  | SELECT_PROFILE
  | SELECT_ROUTE
  | CREATE_LINK
  | REMOVE_LINK

fun operation_value :: "MutationOperation \<Rightarrow> string" where
  "operation_value SET_PARAMETER = ''set_parameter''"
| "operation_value SET_NODE_MIXER = ''set_node_mixer''"
| "operation_value SET_METADATA = ''set_metadata''"
| "operation_value CLEAR_METADATA = ''clear_metadata''"
| "operation_value SELECT_PROFILE = ''select_profile''"
| "operation_value SELECT_ROUTE = ''select_route''"
| "operation_value CREATE_LINK = ''create_link''"
| "operation_value REMOVE_LINK = ''remove_link''"

definition operation_members :: "MutationOperation list" where
  "operation_members =
     [SET_PARAMETER, SET_NODE_MIXER, SET_METADATA, CLEAR_METADATA, SELECT_PROFILE, SELECT_ROUTE, CREATE_LINK, REMOVE_LINK]"

interpretation operation: str_enum operation_value operation_members
proof
  show "m \<in> set operation_members" for m by (cases m) (simp_all add: operation_members_def)
qed (simp add: operation_members_def)

lemmas operation_val_enum [val_obj] = operation.val_enum_member

datatype ConfirmationOperator =
    EQUALS
  | APPROXIMATELY_EQUALS
  | PRESENT
  | ABSENT

fun operator_value :: "ConfirmationOperator \<Rightarrow> string" where
  "operator_value EQUALS = ''equals''"
| "operator_value APPROXIMATELY_EQUALS = ''approximately_equals''"
| "operator_value PRESENT = ''present''"
| "operator_value ABSENT = ''absent''"

definition operator_members :: "ConfirmationOperator list" where
  "operator_members =
     [EQUALS, APPROXIMATELY_EQUALS, PRESENT, ABSENT]"

interpretation operator: str_enum operator_value operator_members
proof
  show "m \<in> set operator_members" for m by (cases m) (simp_all add: operator_members_def)
qed (simp add: operator_members_def)

lemmas operator_val_enum [val_obj] = operator.val_enum_member

datatype MutationStatus =
    CONFIRMED
  | REJECTED
  | FAILED
  | TIMED_OUT
  | CANCELLED

fun status_value :: "MutationStatus \<Rightarrow> string" where
  "status_value CONFIRMED = ''confirmed''"
| "status_value REJECTED = ''rejected''"
| "status_value FAILED = ''failed''"
| "status_value TIMED_OUT = ''timed_out''"
| "status_value CANCELLED = ''cancelled''"

definition status_members :: "MutationStatus list" where
  "status_members =
     [CONFIRMED, REJECTED, FAILED, TIMED_OUT, CANCELLED]"

interpretation status: str_enum status_value status_members
proof
  show "m \<in> set status_members" for m by (cases m) (simp_all add: status_members_def)
qed (simp add: status_members_def)

lemmas status_val_enum [val_obj] = status.val_enum_member

datatype MutationDispatchDisposition =
    TicketReady
  | TicketRejected
  | TicketFailed
  | TicketCancelled

fun disposition_value :: "MutationDispatchDisposition \<Rightarrow> string" where
  "disposition_value TicketReady = ''ready''"
| "disposition_value TicketRejected = ''rejected''"
| "disposition_value TicketFailed = ''failed''"
| "disposition_value TicketCancelled = ''cancelled''"

definition disposition_members :: "MutationDispatchDisposition list" where
  "disposition_members =
     [TicketReady, TicketRejected, TicketFailed, TicketCancelled]"

interpretation disposition: str_enum disposition_value disposition_members
proof
  show "m \<in> set disposition_members" for m by (cases m) (simp_all add: disposition_members_def)
qed (simp add: disposition_members_def)

lemmas disposition_val_enum [val_obj] = disposition.val_enum_member

datatype MutationFailurePhase =
    VALIDATION
  | PRECONDITION
  | EXECUTION
  | CONFIRMATION
  | DEADLINE
  | CANCELLATION

fun phase_value :: "MutationFailurePhase \<Rightarrow> string" where
  "phase_value VALIDATION = ''validation''"
| "phase_value PRECONDITION = ''precondition''"
| "phase_value EXECUTION = ''execution''"
| "phase_value CONFIRMATION = ''confirmation''"
| "phase_value DEADLINE = ''deadline''"
| "phase_value CANCELLATION = ''cancellation''"

definition phase_members :: "MutationFailurePhase list" where
  "phase_members =
     [VALIDATION, PRECONDITION, EXECUTION, CONFIRMATION, DEADLINE, CANCELLATION]"

interpretation phase: str_enum phase_value phase_members
proof
  show "m \<in> set phase_members" for m by (cases m) (simp_all add: phase_members_def)
qed (simp add: phase_members_def)

lemmas phase_val_enum [val_obj] = phase.val_enum_member

datatype MutationFailureCode =
    INVALID_REQUEST
  | UNSUPPORTED_OPERATION
  | STALE_GENERATION
  | STALE_SEQUENCE
  | TARGET_NOT_FOUND
  | TARGET_IDENTITY_CHANGED
  | TARGET_UNAVAILABLE
  | NOT_WRITABLE
  | OWNERSHIP_CONFLICT
  | NATIVE_REJECTED
  | CONFIRMATION_TIMEOUT
  | DEADLINE_EXPIRED
  | GENERATION_LOST
  | RUNTIME_STOPPED
  | CALLER_CANCELLED
  | INTERNAL_ERROR

fun code_value :: "MutationFailureCode \<Rightarrow> string" where
  "code_value INVALID_REQUEST = ''invalid_request''"
| "code_value UNSUPPORTED_OPERATION = ''unsupported_operation''"
| "code_value STALE_GENERATION = ''stale_generation''"
| "code_value STALE_SEQUENCE = ''stale_sequence''"
| "code_value TARGET_NOT_FOUND = ''target_not_found''"
| "code_value TARGET_IDENTITY_CHANGED = ''target_identity_changed''"
| "code_value TARGET_UNAVAILABLE = ''target_unavailable''"
| "code_value NOT_WRITABLE = ''not_writable''"
| "code_value OWNERSHIP_CONFLICT = ''ownership_conflict''"
| "code_value NATIVE_REJECTED = ''native_rejected''"
| "code_value CONFIRMATION_TIMEOUT = ''confirmation_timeout''"
| "code_value DEADLINE_EXPIRED = ''deadline_expired''"
| "code_value GENERATION_LOST = ''generation_lost''"
| "code_value RUNTIME_STOPPED = ''runtime_stopped''"
| "code_value CALLER_CANCELLED = ''caller_cancelled''"
| "code_value INTERNAL_ERROR = ''internal_error''"

definition code_members :: "MutationFailureCode list" where
  "code_members =
     [INVALID_REQUEST, UNSUPPORTED_OPERATION, STALE_GENERATION, STALE_SEQUENCE, TARGET_NOT_FOUND, TARGET_IDENTITY_CHANGED, TARGET_UNAVAILABLE, NOT_WRITABLE, OWNERSHIP_CONFLICT, NATIVE_REJECTED, CONFIRMATION_TIMEOUT, DEADLINE_EXPIRED, GENERATION_LOST, RUNTIME_STOPPED, CALLER_CANCELLED, INTERNAL_ERROR]"

interpretation code: str_enum code_value code_members
proof
  show "m \<in> set code_members" for m by (cases m) (simp_all add: code_members_def)
qed (simp add: code_members_def)

lemmas code_val_enum [val_obj] = code.val_enum_member

fun failure_codes_by_phase :: "MutationFailurePhase \<Rightarrow> MutationFailureCode list" where
  "failure_codes_by_phase VALIDATION = [INVALID_REQUEST, UNSUPPORTED_OPERATION]"
| "failure_codes_by_phase PRECONDITION =
     [STALE_GENERATION, STALE_SEQUENCE, TARGET_NOT_FOUND, TARGET_IDENTITY_CHANGED, TARGET_UNAVAILABLE,
      NOT_WRITABLE, OWNERSHIP_CONFLICT]"
| "failure_codes_by_phase EXECUTION = [NATIVE_REJECTED, INTERNAL_ERROR]"
| "failure_codes_by_phase CONFIRMATION = [CONFIRMATION_TIMEOUT]"
| "failure_codes_by_phase DEADLINE = [DEADLINE_EXPIRED]"
| "failure_codes_by_phase CANCELLATION = [GENERATION_LOST, RUNTIME_STOPPED, CALLER_CANCELLED]"

text \<open>An enumeration converted under a \<open>try\<close> that words the error differently.\<close>

definition classified :: "('e \<Rightarrow> string) \<Rightarrow> 'e list \<Rightarrow> pyval \<Rightarrow> string \<Rightarrow> exn + 'e" where
  "classified val members value message =
     catching is_value_error (val_enum val members value []) (\<lambda>_. Inl (ValueError message))"

lemma classified_obj [val_obj]:
  "val_enum val members v [] = Inr m \<Longrightarrow> classified val members v message = Inr m"
  by (simp add: classified_def)

lemma classified_plain [plain_simps]:
  "classified val members (plain v) message = classified val members v message"
  by (simp add: classified_def plain_simps)

section \<open>Timestamps\<close>

text \<open>\<open>_named_timestamp\<close> and \<open>_parse_timestamp\<close>; the parsed datetime is its UTC instant.\<close>

fun renamed :: "string \<Rightarrow> exn \<Rightarrow> exn" where
  "renamed name (TypeError m) = TypeError (str_replace ''captured_at'' name m)"
| "renamed name (ValueError m) = ValueError (str_replace ''captured_at'' name m)"
| "renamed name e = e"

definition val_named_timestamp :: "pyval \<Rightarrow> string \<Rightarrow> exn + string" where
  "val_named_timestamp value name =
     catching type_or_value_error (val_timestamp value) (\<lambda>e. Inl (renamed name e))"

definition parse_timestamp :: "pyval \<Rightarrow> exn + int" where
  "parse_timestamp value =
     rbind (val_named_timestamp value ''timestamp'') (\<lambda>normalized.
       case parse_iso normalized of
         None \<Rightarrow> Inl (ValueError ''Invalid isoformat string'')
       | Some d \<Rightarrow> Inr (utc_instant d))"

lemma val_named_timestamp_ok [val_ok]: "val_named_timestamp v n = Inr s \<Longrightarrow> timestamp_ok s"
  by (auto simp: val_named_timestamp_def catching_Inr_iff intro: val_ok)

lemma val_named_timestamp_obj [val_obj]: "timestamp_ok s \<Longrightarrow> val_named_timestamp (PStr s) n = Inr s"
  by (simp add: val_named_timestamp_def val_obj)

lemma val_named_timestamp_plain [plain_simps]: "val_named_timestamp (plain v) n = val_named_timestamp v n"
  by (simp add: val_named_timestamp_def plain_simps)

text \<open>The instant a stored timestamp denotes.\<close>

definition instant :: "string \<Rightarrow> int" where
  "instant s = (case parse_iso s of None \<Rightarrow> 0 | Some d \<Rightarrow> utc_instant d)"

lemma timestamp_ok_render: "timestamp_ok s \<Longrightarrow> \<exists>u. 0 \<le> u \<and> u < max_us \<and> s = render_utc u"
  by (auto simp: timestamp_ok_def val_timestamp_def to_utc_def Let_def rbind_eq_Inr_iff
    split: option.splits if_splits)

lemma instant_render [simp]: "0 \<le> u \<Longrightarrow> u < max_us \<Longrightarrow> instant (render_utc u) = u"
  by (simp add: instant_def parse_render_utc utc_instant_def)

lemma parse_timestamp_stored: "timestamp_ok s \<Longrightarrow> parse_timestamp (PStr s) = Inr (instant s)"
  using timestamp_ok_render [of s]
  by (auto simp: parse_timestamp_def val_obj parse_render_utc instant_def)

text \<open>\<open>if _parse_timestamp(deadline) < _parse_timestamp(requested)\<close>\<close>

definition deadline_follows :: "string \<Rightarrow> string \<Rightarrow> exn + unit" where
  "deadline_follows deadline_at requested_at =
     rbind (parse_timestamp (PStr deadline_at)) (\<lambda>deadline.
     rbind (parse_timestamp (PStr requested_at)) (\<lambda>requested.
     check (\<not> deadline < requested) (ValueError ''deadline_at must not precede requested_at'')))"

lemma deadline_follows_iff:
  "timestamp_ok d \<Longrightarrow> timestamp_ok r \<Longrightarrow> deadline_follows d r = Inr u \<longleftrightarrow> instant r \<le> instant d"
  by (auto simp: deadline_follows_def parse_timestamp_stored)

lemma deadline_follows_ok [val_ok]:
  "deadline_follows d r = Inr u \<Longrightarrow> val_named_timestamp v n = Inr d \<Longrightarrow>
     val_named_timestamp w m = Inr r \<Longrightarrow> instant r \<le> instant d"
  using deadline_follows_iff val_named_timestamp_ok by blast

lemma deadline_follows_obj [val_obj]:
  "instant r \<le> instant d \<Longrightarrow> timestamp_ok d \<Longrightarrow> timestamp_ok r \<Longrightarrow> deadline_follows d r = Inr ()"
  by (simp add: deadline_follows_iff)

section \<open>Targets\<close>

record MutationTargetValue =
  tg_object_kind :: "RuntimeObjectKind"
  tg_object_id :: "identity"
  tg_selector :: "fields"

definition mk_MutationTargetValue ::
    "pyval \<Rightarrow> pyval \<Rightarrow> pyval \<Rightarrow> exn + MutationTargetValue" where
  "mk_MutationTargetValue object_kind object_id selector =
     rbind (val_enum object_kind_value object_kind_members object_kind ''object_kind'') (\<lambda>object_kind.
     rbind (check (object_kind \<notin> {KConnection, KRuntime})
              (ValueError (object_kind_value object_kind @ '' is not a mutable runtime target''))) (\<lambda>_.
     rbind (val_identity object_id ''object_id'') (\<lambda>object_id.
     rbind (val_mapping selector ''selector'') (\<lambda>selector.
     Inr \<lparr>tg_object_kind = object_kind, tg_object_id = object_id, tg_selector = selector\<rparr>))))"

definition MutationTargetValue_fields :: "MutationTargetValue \<Rightarrow> fields" where
  "MutationTargetValue_fields x =
     [(''object_kind'', PStrEnum ''RuntimeObjectKind'' (object_kind_value (tg_object_kind x))),
      (''object_id'', identity_obj (tg_object_id x)),
      (''selector'', PFrozen (tg_selector x))]"

definition MutationTargetValue_obj :: "MutationTargetValue \<Rightarrow> pyval" where
  "MutationTargetValue_obj x = PValue ''mutation_target'' (MutationTargetValue_fields x)"

definition init_MutationTargetValue :: "fields \<Rightarrow> exn + MutationTargetValue" where
  "init_MutationTargetValue kw =
     rbind (kw_required kw ''object_kind'') (\<lambda>object_kind.
     rbind (kw_required kw ''object_id'') (\<lambda>object_id.
     mk_MutationTargetValue object_kind object_id (kw_default kw ''selector'' (PFrozen []))))"

definition as_MutationTargetValue :: "pyval \<Rightarrow> MutationTargetValue option" where
  "as_MutationTargetValue v = instance_of ''mutation_target'' init_MutationTargetValue v"

definition MutationTargetValue_ok :: "MutationTargetValue \<Rightarrow> bool" where
  "MutationTargetValue_ok x \<longleftrightarrow>
     identity_ok (tg_object_id x) \<and> mapping_ok (tg_selector x) \<and>
     tg_object_kind x \<notin> {KConnection, KRuntime}"

lemma MutationTargetValue_type_ok: "init_MutationTargetValue kw = Inr x \<Longrightarrow> kw_ok kw \<Longrightarrow> MutationTargetValue_ok x"
  unfolding init_MutationTargetValue_def mk_MutationTargetValue_def MutationTargetValue_ok_def
  by (auto simp: validator_simps kw_default_ok elim!: rbind_InrE dest!: kw_required_ok intro: val_ok)

lemma init_MutationTargetValue_obj: "MutationTargetValue_ok x \<Longrightarrow> init_MutationTargetValue (MutationTargetValue_fields x) = Inr x"
  by (simp add: init_MutationTargetValue_def mk_MutationTargetValue_def MutationTargetValue_fields_def MutationTargetValue_ok_def kw_simps val_obj)

lemma init_MutationTargetValue_plain [plain_simps]: "init_MutationTargetValue (plain_fields kw) = init_MutationTargetValue kw"
  by (simp add: init_MutationTargetValue_def mk_MutationTargetValue_def plain_simps)

lemma as_MutationTargetValue_obj: "MutationTargetValue_ok x \<Longrightarrow> as_MutationTargetValue (MutationTargetValue_obj x) = Some x"
  by (simp add: as_MutationTargetValue_def MutationTargetValue_obj_def instance_of_obj init_MutationTargetValue_obj)

lemma as_MutationTargetValue_ok: "as_MutationTargetValue v = Some x \<Longrightarrow> well_formed v \<Longrightarrow> MutationTargetValue_ok x"
  unfolding as_MutationTargetValue_def by (erule instance_of_ok) (rule MutationTargetValue_type_ok)

lemma as_MutationTargetValue_plain [plain_simps]: "as_MutationTargetValue (plain v) = as_MutationTargetValue v"
  by (simp add: as_MutationTargetValue_def plain_simps)

lemma val_MutationTargetValue_ok [val_ok]: "val_instance as_MutationTargetValue e v n = Inr x \<Longrightarrow> well_formed v \<Longrightarrow> MutationTargetValue_ok x"
  by (erule val_instance_ok) (auto intro: as_MutationTargetValue_ok)

lemma val_MutationTargetValue_obj [val_obj]: "MutationTargetValue_ok x \<Longrightarrow> val_instance as_MutationTargetValue e (MutationTargetValue_obj x) n = Inr x"
  by (rule val_instance_obj) (rule as_MutationTargetValue_obj)

section \<open>Confirmation predicates\<close>

definition val_path :: "pyval \<Rightarrow> exn + identity list" where
  "val_path path =
     (case as_seq path of
        None \<Rightarrow> Inl (TypeError ''path must be a sequence of field names and indexes'')
      | Some components \<Rightarrow> traverse (\<lambda>component. val_identity component ''path component'') components)"

text \<open>
  The check of \<open>tolerance\<close> at the end of \<open>__post_init__\<close>: approximate equality requires
  numbers, the other operators no tolerance.
\<close>

definition val_tolerance :: "ConfirmationOperator \<Rightarrow> pyval \<Rightarrow> pyval \<Rightarrow> exn + pyfloat option" where
  "val_tolerance operator expected tolerance =
     (if operator = APPROXIMATELY_EQUALS
      then rbind (check (is_number expected)
                    (TypeError ''approximately_equals expected must be a number'')) (\<lambda>_.
           rbind (check (is_number tolerance)
                    (TypeError ''approximately_equals tolerance must be a number'')) (\<lambda>_.
           rbind (py_float tolerance (TypeError ''approximately_equals tolerance must be a number'')) (\<lambda>t.
           rbind (check (isfinite t \<and> \<not> float_lt t 0)
                    (ValueError ''approximately_equals tolerance must be finite and non-negative'')) (\<lambda>_.
           Inr (Some t)))))
      else if tolerance \<noteq> PNone
      then Inl (ValueError ''tolerance is only valid for approximately_equals predicates'')
      else Inr None)"

definition tolerance_ok :: "ConfirmationOperator \<Rightarrow> pyval \<Rightarrow> pyfloat option \<Rightarrow> bool" where
  "tolerance_ok operator expected tolerance \<longleftrightarrow>
     (if operator = APPROXIMATELY_EQUALS
      then is_number expected \<and> tolerance \<noteq> None \<and> float_ok (the tolerance) else tolerance = None)"

lemma val_path_ok [val_ok]: "val_path v = Inr p \<Longrightarrow> list_all identity_ok p"
  by (auto simp: val_path_def list_all_iff split: option.splits dest!: traverse_set intro: val_ok)

lemma val_path_obj [val_obj]: "list_all identity_ok p \<Longrightarrow> val_path (tuple_obj identity_obj p) = Inr p"
  using traverse_map_Inr [of p "\<lambda>component. val_identity component ''path component''" identity_obj id]
  by (simp add: val_path_def tuple_obj_def list_all_iff val_obj)

lemma val_path_plain [plain_simps]: "val_path (plain v) = val_path v"
  by (simp add: val_path_def plain_simps)

lemma val_tolerance_ok [val_ok]: "val_tolerance p e v = Inr t \<Longrightarrow> tolerance_ok p e t"
  by (auto simp: val_tolerance_def tolerance_ok_def float_ok_def elim!: rbind_InrE split: if_splits)

lemma val_tolerance_obj [val_obj]: "tolerance_ok p e t \<Longrightarrow> val_tolerance p e (opt_obj PFloat t) = Inr t"
  by (cases t) (auto simp: val_tolerance_def tolerance_ok_def float_ok_def is_number_def py_float_def split: if_splits)

lemma val_tolerance_plain [plain_simps]: "val_tolerance p e (plain v) = val_tolerance p e v"
proof -
  have "is_number (plain v) = is_number v" by (cases v) (simp_all add: is_number_def)
  then show ?thesis by (simp add: val_tolerance_def plain_simps)
qed

record ConfirmationPredicateValue =
  cp_target :: "MutationTargetValue"
  cp_operator :: "ConfirmationOperator"
  cp_path :: "identity list"
  cp_expected :: "pyval"
  cp_tolerance :: "pyfloat option"

definition mk_ConfirmationPredicateValue ::
    "pyval \<Rightarrow> pyval \<Rightarrow> pyval \<Rightarrow> pyval \<Rightarrow> pyval \<Rightarrow> exn + ConfirmationPredicateValue" where
  "mk_ConfirmationPredicateValue target operator path expected tolerance =
     rbind (val_instance as_MutationTargetValue ''MutationTargetValue'' target ''target'') (\<lambda>target.
     rbind (val_enum operator_value operator_members operator ''operator'') (\<lambda>operator.
     rbind (val_path path) (\<lambda>path.
     rbind (contract_value expected) (\<lambda>expected.
     rbind (check (\<not> (operator \<in> {PRESENT, ABSENT} \<and> expected \<noteq> PNone))
              (ValueError (operator_value operator @ '' predicates must not set expected''))) (\<lambda>_.
     rbind (val_tolerance operator expected tolerance) (\<lambda>tolerance.
     Inr \<lparr>cp_target = target, cp_operator = operator, cp_path = path,
       cp_expected = expected, cp_tolerance = tolerance\<rparr>))))))"

definition ConfirmationPredicateValue_fields :: "ConfirmationPredicateValue \<Rightarrow> fields" where
  "ConfirmationPredicateValue_fields x =
     [(''target'', MutationTargetValue_obj (cp_target x)),
      (''operator'', PStrEnum ''ConfirmationOperator'' (operator_value (cp_operator x))),
      (''path'', tuple_obj identity_obj (cp_path x)),
      (''expected'', (cp_expected x)),
      (''tolerance'', opt_obj PFloat (cp_tolerance x))]"

definition ConfirmationPredicateValue_obj :: "ConfirmationPredicateValue \<Rightarrow> pyval" where
  "ConfirmationPredicateValue_obj x = PValue ''confirmation_predicate'' (ConfirmationPredicateValue_fields x)"

definition init_ConfirmationPredicateValue :: "fields \<Rightarrow> exn + ConfirmationPredicateValue" where
  "init_ConfirmationPredicateValue kw =
     rbind (kw_required kw ''target'') (\<lambda>target.
     rbind (kw_required kw ''operator'') (\<lambda>operator.
     mk_ConfirmationPredicateValue target operator (kw_default kw ''path'' (PTuple []))
       (kw_default kw ''expected'' PNone) (kw_default kw ''tolerance'' PNone)))"

definition as_ConfirmationPredicateValue :: "pyval \<Rightarrow> ConfirmationPredicateValue option" where
  "as_ConfirmationPredicateValue v = instance_of ''confirmation_predicate'' init_ConfirmationPredicateValue v"

definition ConfirmationPredicateValue_ok :: "ConfirmationPredicateValue \<Rightarrow> bool" where
  "ConfirmationPredicateValue_ok x \<longleftrightarrow>
     MutationTargetValue_ok (cp_target x) \<and> list_all identity_ok (cp_path x) \<and>
     contract_ok (cp_expected x) \<and>
     \<not> (cp_operator x \<in> {PRESENT, ABSENT} \<and> cp_expected x \<noteq> PNone) \<and>
     tolerance_ok (cp_operator x) (cp_expected x) (cp_tolerance x)"

lemma ConfirmationPredicateValue_type_ok: "init_ConfirmationPredicateValue kw = Inr x \<Longrightarrow> kw_ok kw \<Longrightarrow> ConfirmationPredicateValue_ok x"
  unfolding init_ConfirmationPredicateValue_def mk_ConfirmationPredicateValue_def ConfirmationPredicateValue_ok_def
  by (auto simp: validator_simps kw_default_ok elim!: rbind_InrE dest!: kw_required_ok intro: val_ok)

lemma init_ConfirmationPredicateValue_obj: "ConfirmationPredicateValue_ok x \<Longrightarrow> init_ConfirmationPredicateValue (ConfirmationPredicateValue_fields x) = Inr x"
  by (simp add: init_ConfirmationPredicateValue_def mk_ConfirmationPredicateValue_def ConfirmationPredicateValue_fields_def ConfirmationPredicateValue_ok_def kw_simps val_obj)

lemma init_ConfirmationPredicateValue_plain [plain_simps]: "init_ConfirmationPredicateValue (plain_fields kw) = init_ConfirmationPredicateValue kw"
  by (simp add: init_ConfirmationPredicateValue_def mk_ConfirmationPredicateValue_def plain_simps)

lemma as_ConfirmationPredicateValue_obj: "ConfirmationPredicateValue_ok x \<Longrightarrow> as_ConfirmationPredicateValue (ConfirmationPredicateValue_obj x) = Some x"
  by (simp add: as_ConfirmationPredicateValue_def ConfirmationPredicateValue_obj_def instance_of_obj init_ConfirmationPredicateValue_obj)

lemma as_ConfirmationPredicateValue_ok: "as_ConfirmationPredicateValue v = Some x \<Longrightarrow> well_formed v \<Longrightarrow> ConfirmationPredicateValue_ok x"
  unfolding as_ConfirmationPredicateValue_def by (erule instance_of_ok) (rule ConfirmationPredicateValue_type_ok)

lemma as_ConfirmationPredicateValue_plain [plain_simps]: "as_ConfirmationPredicateValue (plain v) = as_ConfirmationPredicateValue v"
  by (simp add: as_ConfirmationPredicateValue_def plain_simps)

lemma vals_ConfirmationPredicateValue_ok [val_ok]:
  "val_runtime_values as_ConfirmationPredicateValue e v n = Inr xs \<Longrightarrow> well_formed v \<Longrightarrow> list_all ConfirmationPredicateValue_ok xs"
  by (erule val_runtime_values_ok) (auto intro: as_ConfirmationPredicateValue_ok)

lemma vals_ConfirmationPredicateValue_obj [val_obj]:
  "list_all ConfirmationPredicateValue_ok xs \<Longrightarrow> val_runtime_values as_ConfirmationPredicateValue e (tuple_obj ConfirmationPredicateValue_obj xs) n = Inr xs"
  by (erule val_runtime_values_obj) (rule as_ConfirmationPredicateValue_obj)

lemma val_ConfirmationPredicateValue_ok [val_ok]: "val_instance as_ConfirmationPredicateValue e v n = Inr x \<Longrightarrow> well_formed v \<Longrightarrow> ConfirmationPredicateValue_ok x"
  by (erule val_instance_ok) (auto intro: as_ConfirmationPredicateValue_ok)

lemma val_ConfirmationPredicateValue_obj [val_obj]: "ConfirmationPredicateValue_ok x \<Longrightarrow> val_instance as_ConfirmationPredicateValue e (ConfirmationPredicateValue_obj x) n = Inr x"
  by (rule val_instance_obj) (rule as_ConfirmationPredicateValue_obj)

text \<open>\<open>_resolve_path\<close>, \<open>_comparable\<close> and \<open>matches\<close>.\<close>

fun resolve_path :: "pyval \<Rightarrow> identity list \<Rightarrow> pyval option" where
  "resolve_path current [] = Some current"
| "resolve_path current (StrId component # path) =
     (case Option.bind (as_mapping current) (\<lambda>kvs. dict_get kvs component) of
        None \<Rightarrow> None
      | Some v \<Rightarrow> resolve_path v path)"
| "resolve_path current (IntId component # path) =
     (case as_seq current of
        None \<Rightarrow> None
      | Some xs \<Rightarrow>
          if int (length xs) \<le> component then None else resolve_path (xs ! nat component) path)"

definition comparable :: "pyval \<Rightarrow> exn + pyval" where
  "comparable value =
     (case value of
        PValue t fs \<Rightarrow> rbind (serialize value) freeze_json
      | _ \<Rightarrow> freeze_json value)"

definition predicate_matches :: "ConfirmationPredicateValue \<Rightarrow> pyval \<Rightarrow> exn + bool" where
  "predicate_matches p observation =
     rbind (case observation of PValue t fs \<Rightarrow> serialize observation | _ \<Rightarrow> Inr observation) (\<lambda>value.
     let found = resolve_path value (cp_path p) in
     if cp_operator p = PRESENT then Inr (found \<noteq> None \<and> found \<noteq> Some PNone)
     else if cp_operator p = ABSENT then Inr (found = None \<or> found = Some PNone)
     else case found of
       None \<Rightarrow> Inr False
     | Some v \<Rightarrow>
         if cp_operator p = APPROXIMATELY_EQUALS
         then if \<not> is_number v then Inr False
              else rbind (py_float v (TypeError [])) (\<lambda>observed.
                   rbind (py_float (cp_expected p) (TypeError [])) (\<lambda>expected.
                   Inr (float_le (float_abs (float_sub observed expected)) (the (cp_tolerance p)))))
         else rbind (comparable v) (\<lambda>observed.
              rbind (comparable (cp_expected p)) (\<lambda>expected.
              Inr (py_eq observed expected))))"

section \<open>Requests\<close>

record MutationRequest =
  rq_request_id :: "string"
  rq_expected_generation :: "int"
  rq_operation :: "MutationOperation"
  rq_target :: "MutationTargetValue"
  rq_requested_at :: "string"
  rq_deadline_at :: "string"
  rq_expected_sequence :: "int option"
  rq_payload :: "fields"
  rq_confirmation_predicates :: "ConfirmationPredicateValue list"

definition mk_MutationRequest ::
    "pyval \<Rightarrow> pyval \<Rightarrow> pyval \<Rightarrow> pyval \<Rightarrow> pyval \<Rightarrow> pyval \<Rightarrow> pyval \<Rightarrow> pyval \<Rightarrow> pyval \<Rightarrow> exn + MutationRequest" where
  "mk_MutationRequest request_id expected_generation operation target requested_at deadline_at expected_sequence payload confirmation_predicates =
     rbind (val_required_string request_id ''request_id'' False) (\<lambda>request_id.
     rbind (val_identifier expected_generation ''expected_generation'') (\<lambda>expected_generation.
     rbind (val_optional_identifier expected_sequence ''expected_sequence'') (\<lambda>expected_sequence.
     rbind (val_enum operation_value operation_members operation ''operation'') (\<lambda>operation.
     rbind (val_instance as_MutationTargetValue ''MutationTargetValue'' target ''target'') (\<lambda>target.
     rbind (val_named_timestamp requested_at ''requested_at'') (\<lambda>requested_at.
     rbind (val_named_timestamp deadline_at ''deadline_at'') (\<lambda>deadline_at.
     rbind (deadline_follows deadline_at requested_at) (\<lambda>_.
     rbind (val_mapping payload ''payload'') (\<lambda>payload.
     rbind (val_runtime_values as_ConfirmationPredicateValue ''ConfirmationPredicateValue'' confirmation_predicates ''confirmation_predicates'') (\<lambda>confirmation_predicates.
     rbind (check (confirmation_predicates \<noteq> [])
              (ValueError ''confirmation_predicates must contain at least one predicate'')) (\<lambda>_.
     Inr \<lparr>rq_request_id = request_id, rq_expected_generation = expected_generation,
       rq_operation = operation, rq_target = target, rq_requested_at = requested_at,
       rq_deadline_at = deadline_at, rq_expected_sequence = expected_sequence,
       rq_payload = payload, rq_confirmation_predicates = confirmation_predicates\<rparr>)))))))))))"

definition MutationRequest_fields :: "MutationRequest \<Rightarrow> fields" where
  "MutationRequest_fields x =
     [(''request_id'', PStr (rq_request_id x)),
      (''expected_generation'', PInt (rq_expected_generation x)),
      (''operation'', PStrEnum ''MutationOperation'' (operation_value (rq_operation x))),
      (''target'', MutationTargetValue_obj (rq_target x)),
      (''requested_at'', PStr (rq_requested_at x)),
      (''deadline_at'', PStr (rq_deadline_at x)),
      (''expected_sequence'', opt_obj PInt (rq_expected_sequence x)),
      (''payload'', PFrozen (rq_payload x)),
      (''confirmation_predicates'', tuple_obj ConfirmationPredicateValue_obj (rq_confirmation_predicates x))]"

definition MutationRequest_obj :: "MutationRequest \<Rightarrow> pyval" where
  "MutationRequest_obj x = PValue ''mutation_request'' (MutationRequest_fields x)"

definition init_MutationRequest :: "fields \<Rightarrow> exn + MutationRequest" where
  "init_MutationRequest kw =
     rbind (kw_required kw ''request_id'') (\<lambda>request_id.
     rbind (kw_required kw ''expected_generation'') (\<lambda>expected_generation.
     rbind (kw_required kw ''operation'') (\<lambda>operation.
     rbind (kw_required kw ''target'') (\<lambda>target.
     rbind (kw_required kw ''requested_at'') (\<lambda>requested_at.
     rbind (kw_required kw ''deadline_at'') (\<lambda>deadline_at.
     mk_MutationRequest request_id expected_generation operation target requested_at deadline_at
       (kw_default kw ''expected_sequence'' PNone)
       (kw_default kw ''payload'' (PFrozen []))
       (kw_default kw ''confirmation_predicates'' (PTuple []))))))))"

definition as_MutationRequest :: "pyval \<Rightarrow> MutationRequest option" where
  "as_MutationRequest v = instance_of ''mutation_request'' init_MutationRequest v"

definition MutationRequest_ok :: "MutationRequest \<Rightarrow> bool" where
  "MutationRequest_ok x \<longleftrightarrow>
     rq_request_id x \<noteq> [] \<and> 0 \<le> rq_expected_generation x \<and>
     MutationTargetValue_ok (rq_target x) \<and> timestamp_ok (rq_requested_at x) \<and>
     timestamp_ok (rq_deadline_at x) \<and>
     pred_option (\<lambda>i. 0 \<le> i) (rq_expected_sequence x) \<and>
     mapping_ok (rq_payload x) \<and>
     list_all ConfirmationPredicateValue_ok (rq_confirmation_predicates x) \<and>
     instant (rq_requested_at x) \<le> instant (rq_deadline_at x) \<and>
     rq_confirmation_predicates x \<noteq> []"

lemma MutationRequest_type_ok: "init_MutationRequest kw = Inr x \<Longrightarrow> kw_ok kw \<Longrightarrow> MutationRequest_ok x"
  unfolding init_MutationRequest_def mk_MutationRequest_def MutationRequest_ok_def
  by (auto simp: validator_simps kw_default_ok elim!: rbind_InrE dest!: kw_required_ok intro: val_ok)

lemma init_MutationRequest_obj: "MutationRequest_ok x \<Longrightarrow> init_MutationRequest (MutationRequest_fields x) = Inr x"
  by (simp add: init_MutationRequest_def mk_MutationRequest_def MutationRequest_fields_def MutationRequest_ok_def kw_simps val_obj)

lemma init_MutationRequest_plain [plain_simps]: "init_MutationRequest (plain_fields kw) = init_MutationRequest kw"
  by (simp add: init_MutationRequest_def mk_MutationRequest_def plain_simps)

lemma as_MutationRequest_obj: "MutationRequest_ok x \<Longrightarrow> as_MutationRequest (MutationRequest_obj x) = Some x"
  by (simp add: as_MutationRequest_def MutationRequest_obj_def instance_of_obj init_MutationRequest_obj)

lemma as_MutationRequest_ok: "as_MutationRequest v = Some x \<Longrightarrow> well_formed v \<Longrightarrow> MutationRequest_ok x"
  unfolding as_MutationRequest_def by (erule instance_of_ok) (rule MutationRequest_type_ok)

lemma as_MutationRequest_plain [plain_simps]: "as_MutationRequest (plain v) = as_MutationRequest v"
  by (simp add: as_MutationRequest_def plain_simps)

section \<open>Failures and confirmations\<close>

record MutationFailureValue =
  fl_phase :: "MutationFailurePhase"
  fl_code :: "MutationFailureCode"
  fl_message :: "string"
  fl_retryable :: "bool"
  fl_details :: "fields"

definition mk_MutationFailureValue ::
    "pyval \<Rightarrow> pyval \<Rightarrow> pyval \<Rightarrow> pyval \<Rightarrow> pyval \<Rightarrow> exn + MutationFailureValue" where
  "mk_MutationFailureValue phase code message retryable details =
     rbind (classified phase_value phase_members phase
              ''invalid mutation failure classification'') (\<lambda>phase.
     rbind (classified code_value code_members code
              ''invalid mutation failure classification'') (\<lambda>code.
     rbind (check (code \<in> set (failure_codes_by_phase phase))
              (ValueError ''failure code is invalid for phase'')) (\<lambda>_.
     rbind (val_required_string message ''message'' False) (\<lambda>message.
     rbind (val_boolean retryable ''retryable'') (\<lambda>retryable.
     rbind (val_mapping details ''details'') (\<lambda>details.
     Inr \<lparr>fl_phase = phase, fl_code = code, fl_message = message, fl_retryable = retryable,
       fl_details = details\<rparr>))))))"

definition MutationFailureValue_fields :: "MutationFailureValue \<Rightarrow> fields" where
  "MutationFailureValue_fields x =
     [(''phase'', PStrEnum ''MutationFailurePhase'' (phase_value (fl_phase x))),
      (''code'', PStrEnum ''MutationFailureCode'' (code_value (fl_code x))),
      (''message'', PStr (fl_message x)),
      (''retryable'', PBool (fl_retryable x)),
      (''details'', PFrozen (fl_details x))]"

definition MutationFailureValue_obj :: "MutationFailureValue \<Rightarrow> pyval" where
  "MutationFailureValue_obj x = PValue ''mutation_failure'' (MutationFailureValue_fields x)"

definition init_MutationFailureValue :: "fields \<Rightarrow> exn + MutationFailureValue" where
  "init_MutationFailureValue kw =
     rbind (kw_required kw ''phase'') (\<lambda>phase.
     rbind (kw_required kw ''code'') (\<lambda>code.
     rbind (kw_required kw ''message'') (\<lambda>message.
     mk_MutationFailureValue phase code message (kw_default kw ''retryable'' (PBool False))
       (kw_default kw ''details'' (PFrozen [])))))"

definition as_MutationFailureValue :: "pyval \<Rightarrow> MutationFailureValue option" where
  "as_MutationFailureValue v = instance_of ''mutation_failure'' init_MutationFailureValue v"

definition MutationFailureValue_ok :: "MutationFailureValue \<Rightarrow> bool" where
  "MutationFailureValue_ok x \<longleftrightarrow>
     fl_message x \<noteq> [] \<and> mapping_ok (fl_details x) \<and>
     fl_code x \<in> set (failure_codes_by_phase (fl_phase x))"

lemma MutationFailureValue_type_ok: "init_MutationFailureValue kw = Inr x \<Longrightarrow> kw_ok kw \<Longrightarrow> MutationFailureValue_ok x"
  unfolding init_MutationFailureValue_def mk_MutationFailureValue_def MutationFailureValue_ok_def
  by (auto simp: validator_simps kw_default_ok elim!: rbind_InrE dest!: kw_required_ok intro: val_ok)

lemma init_MutationFailureValue_obj: "MutationFailureValue_ok x \<Longrightarrow> init_MutationFailureValue (MutationFailureValue_fields x) = Inr x"
  by (simp add: init_MutationFailureValue_def mk_MutationFailureValue_def MutationFailureValue_fields_def MutationFailureValue_ok_def kw_simps val_obj)

lemma init_MutationFailureValue_plain [plain_simps]: "init_MutationFailureValue (plain_fields kw) = init_MutationFailureValue kw"
  by (simp add: init_MutationFailureValue_def mk_MutationFailureValue_def plain_simps)

lemma as_MutationFailureValue_obj: "MutationFailureValue_ok x \<Longrightarrow> as_MutationFailureValue (MutationFailureValue_obj x) = Some x"
  by (simp add: as_MutationFailureValue_def MutationFailureValue_obj_def instance_of_obj init_MutationFailureValue_obj)

lemma as_MutationFailureValue_ok: "as_MutationFailureValue v = Some x \<Longrightarrow> well_formed v \<Longrightarrow> MutationFailureValue_ok x"
  unfolding as_MutationFailureValue_def by (erule instance_of_ok) (rule MutationFailureValue_type_ok)

lemma as_MutationFailureValue_plain [plain_simps]: "as_MutationFailureValue (plain v) = as_MutationFailureValue v"
  by (simp add: as_MutationFailureValue_def plain_simps)

lemma optval_MutationFailureValue_ok [val_ok]:
  "val_optional_instance as_MutationFailureValue e v n = Inr x \<Longrightarrow> well_formed v \<Longrightarrow> pred_option MutationFailureValue_ok x"
  by (erule val_optional_instance_ok) (auto intro: as_MutationFailureValue_ok)

lemma optval_MutationFailureValue_obj [val_obj]:
  "pred_option MutationFailureValue_ok x \<Longrightarrow> val_optional_instance as_MutationFailureValue e (opt_obj MutationFailureValue_obj x) n = Inr x"
  by (erule val_optional_instance_obj) (simp add: as_MutationFailureValue_obj, simp add: MutationFailureValue_obj_def)

record MutationConfirmationValue =
  cf_generation :: "int"
  cf_sequence :: "int"
  cf_observed_at :: "string"
  cf_predicate :: "ConfirmationPredicateValue"
  cf_observation :: "pyval"

definition mk_MutationConfirmationValue ::
    "pyval \<Rightarrow> pyval \<Rightarrow> pyval \<Rightarrow> pyval \<Rightarrow> pyval \<Rightarrow> exn + MutationConfirmationValue" where
  "mk_MutationConfirmationValue generation sequence observed_at predicate observation =
     rbind (val_identifier generation ''generation'') (\<lambda>generation.
     rbind (val_identifier sequence ''sequence'') (\<lambda>sequence.
     rbind (val_named_timestamp observed_at ''observed_at'') (\<lambda>observed_at.
     rbind (val_instance as_ConfirmationPredicateValue ''ConfirmationPredicateValue'' predicate ''predicate'') (\<lambda>predicate.
     rbind (contract_value observation) (\<lambda>observation.
     rbind (predicate_matches predicate observation) (\<lambda>satisfied.
     rbind (check (satisfied)
              (ValueError ''observation does not satisfy the confirmation predicate'')) (\<lambda>_.
     Inr \<lparr>cf_generation = generation, cf_sequence = sequence, cf_observed_at = observed_at,
       cf_predicate = predicate, cf_observation = observation\<rparr>)))))))"

definition MutationConfirmationValue_fields :: "MutationConfirmationValue \<Rightarrow> fields" where
  "MutationConfirmationValue_fields x =
     [(''generation'', PInt (cf_generation x)),
      (''sequence'', PInt (cf_sequence x)),
      (''observed_at'', PStr (cf_observed_at x)),
      (''predicate'', ConfirmationPredicateValue_obj (cf_predicate x)),
      (''observation'', (cf_observation x))]"

definition MutationConfirmationValue_obj :: "MutationConfirmationValue \<Rightarrow> pyval" where
  "MutationConfirmationValue_obj x = PValue ''mutation_confirmation'' (MutationConfirmationValue_fields x)"

definition init_MutationConfirmationValue :: "fields \<Rightarrow> exn + MutationConfirmationValue" where
  "init_MutationConfirmationValue kw =
     rbind (kw_required kw ''generation'') (\<lambda>generation.
     rbind (kw_required kw ''sequence'') (\<lambda>sequence.
     rbind (kw_required kw ''observed_at'') (\<lambda>observed_at.
     rbind (kw_required kw ''predicate'') (\<lambda>predicate.
     rbind (kw_required kw ''observation'') (\<lambda>observation.
     mk_MutationConfirmationValue generation sequence observed_at predicate observation)))))"

definition as_MutationConfirmationValue :: "pyval \<Rightarrow> MutationConfirmationValue option" where
  "as_MutationConfirmationValue v = instance_of ''mutation_confirmation'' init_MutationConfirmationValue v"

definition MutationConfirmationValue_ok :: "MutationConfirmationValue \<Rightarrow> bool" where
  "MutationConfirmationValue_ok x \<longleftrightarrow>
     0 \<le> cf_generation x \<and> 0 \<le> cf_sequence x \<and>
     timestamp_ok (cf_observed_at x) \<and> ConfirmationPredicateValue_ok (cf_predicate x) \<and>
     contract_ok (cf_observation x) \<and>
     predicate_matches (cf_predicate x) (cf_observation x) = Inr True"

lemma MutationConfirmationValue_type_ok: "init_MutationConfirmationValue kw = Inr x \<Longrightarrow> kw_ok kw \<Longrightarrow> MutationConfirmationValue_ok x"
  unfolding init_MutationConfirmationValue_def mk_MutationConfirmationValue_def MutationConfirmationValue_ok_def
  by (auto simp: validator_simps kw_default_ok elim!: rbind_InrE dest!: kw_required_ok intro: val_ok)

lemma init_MutationConfirmationValue_obj: "MutationConfirmationValue_ok x \<Longrightarrow> init_MutationConfirmationValue (MutationConfirmationValue_fields x) = Inr x"
  by (simp add: init_MutationConfirmationValue_def mk_MutationConfirmationValue_def MutationConfirmationValue_fields_def MutationConfirmationValue_ok_def kw_simps val_obj)

lemma init_MutationConfirmationValue_plain [plain_simps]: "init_MutationConfirmationValue (plain_fields kw) = init_MutationConfirmationValue kw"
  by (simp add: init_MutationConfirmationValue_def mk_MutationConfirmationValue_def plain_simps)

lemma as_MutationConfirmationValue_obj: "MutationConfirmationValue_ok x \<Longrightarrow> as_MutationConfirmationValue (MutationConfirmationValue_obj x) = Some x"
  by (simp add: as_MutationConfirmationValue_def MutationConfirmationValue_obj_def instance_of_obj init_MutationConfirmationValue_obj)

lemma as_MutationConfirmationValue_ok: "as_MutationConfirmationValue v = Some x \<Longrightarrow> well_formed v \<Longrightarrow> MutationConfirmationValue_ok x"
  unfolding as_MutationConfirmationValue_def by (erule instance_of_ok) (rule MutationConfirmationValue_type_ok)

lemma as_MutationConfirmationValue_plain [plain_simps]: "as_MutationConfirmationValue (plain v) = as_MutationConfirmationValue v"
  by (simp add: as_MutationConfirmationValue_def plain_simps)

lemma vals_MutationConfirmationValue_ok [val_ok]:
  "val_runtime_values as_MutationConfirmationValue e v n = Inr xs \<Longrightarrow> well_formed v \<Longrightarrow> list_all MutationConfirmationValue_ok xs"
  by (erule val_runtime_values_ok) (auto intro: as_MutationConfirmationValue_ok)

lemma vals_MutationConfirmationValue_obj [val_obj]:
  "list_all MutationConfirmationValue_ok xs \<Longrightarrow> val_runtime_values as_MutationConfirmationValue e (tuple_obj MutationConfirmationValue_obj xs) n = Inr xs"
  by (erule val_runtime_values_obj) (rule as_MutationConfirmationValue_obj)

section \<open>Outcomes\<close>

fun codes_by_status :: "MutationStatus \<Rightarrow> MutationFailureCode list" where
  "codes_by_status REJECTED = failure_codes_by_phase VALIDATION @ failure_codes_by_phase PRECONDITION"
| "codes_by_status FAILED = failure_codes_by_phase EXECUTION"
| "codes_by_status TIMED_OUT = [CONFIRMATION_TIMEOUT, DEADLINE_EXPIRED]"
| "codes_by_status CANCELLED = failure_codes_by_phase CANCELLATION"
| "codes_by_status CONFIRMED = []"

text \<open>The consistency of status, confirmations and failure, in the order of the checks.\<close>

definition outcome_consistent :: "MutationStatus \<Rightarrow> MutationConfirmationValue list \<Rightarrow> MutationFailureValue option \<Rightarrow> exn + unit" where
  "outcome_consistent status confirmations failure =
     (if status = CONFIRMED
      then if failure \<noteq> None then Inl (ValueError ''confirmed outcomes must not include a failure'')
           else if confirmations = [] then Inl (ValueError ''confirmed outcomes must include confirming observations'')
           else Inr ()
      else case failure of
        None \<Rightarrow> Inl (ValueError ''unsuccessful outcomes must include a structured failure'')
      | Some f \<Rightarrow>
          if fl_code f \<notin> set (codes_by_status status)
          then Inl (ValueError (status_value status @ '' outcome has incompatible failure code''))
          else Inr ())"

record MutationOutcome =
  oc_request_id :: "string"
  oc_generation :: "int"
  oc_operation :: "MutationOperation"
  oc_status :: "MutationStatus"
  oc_completed_at :: "string"
  oc_confirmations :: "MutationConfirmationValue list"
  oc_failure :: "MutationFailureValue option"

definition mk_MutationOutcome ::
    "pyval \<Rightarrow> pyval \<Rightarrow> pyval \<Rightarrow> pyval \<Rightarrow> pyval \<Rightarrow> pyval \<Rightarrow> pyval \<Rightarrow> exn + MutationOutcome" where
  "mk_MutationOutcome request_id generation operation status completed_at confirmations failure =
     rbind (val_required_string request_id ''request_id'' False) (\<lambda>request_id.
     rbind (val_identifier generation ''generation'') (\<lambda>generation.
     rbind (classified operation_value operation_members operation
              ''invalid mutation outcome classification'') (\<lambda>operation.
     rbind (classified status_value status_members status
              ''invalid mutation outcome classification'') (\<lambda>status.
     rbind (val_named_timestamp completed_at ''completed_at'') (\<lambda>completed_at.
     rbind (val_runtime_values as_MutationConfirmationValue ''MutationConfirmationValue'' confirmations ''confirmations'') (\<lambda>confirmations.
     rbind (check (list_all (\<lambda>item. cf_generation item = generation) confirmations)
              (ValueError ''confirmation generation must match outcome generation'')) (\<lambda>_.
     rbind (val_optional_instance as_MutationFailureValue ''MutationFailureValue'' failure ''failure'') (\<lambda>failure.
     rbind (outcome_consistent status confirmations failure) (\<lambda>_.
     Inr \<lparr>oc_request_id = request_id, oc_generation = generation, oc_operation = operation,
       oc_status = status, oc_completed_at = completed_at,
       oc_confirmations = confirmations, oc_failure = failure\<rparr>)))))))))"

definition MutationOutcome_fields :: "MutationOutcome \<Rightarrow> fields" where
  "MutationOutcome_fields x =
     [(''request_id'', PStr (oc_request_id x)),
      (''generation'', PInt (oc_generation x)),
      (''operation'', PStrEnum ''MutationOperation'' (operation_value (oc_operation x))),
      (''status'', PStrEnum ''MutationStatus'' (status_value (oc_status x))),
      (''completed_at'', PStr (oc_completed_at x)),
      (''confirmations'', tuple_obj MutationConfirmationValue_obj (oc_confirmations x)),
      (''failure'', opt_obj MutationFailureValue_obj (oc_failure x))]"

definition MutationOutcome_obj :: "MutationOutcome \<Rightarrow> pyval" where
  "MutationOutcome_obj x = PValue ''mutation_outcome'' (MutationOutcome_fields x)"

definition init_MutationOutcome :: "fields \<Rightarrow> exn + MutationOutcome" where
  "init_MutationOutcome kw =
     rbind (kw_required kw ''request_id'') (\<lambda>request_id.
     rbind (kw_required kw ''generation'') (\<lambda>generation.
     rbind (kw_required kw ''operation'') (\<lambda>operation.
     rbind (kw_required kw ''status'') (\<lambda>status.
     rbind (kw_required kw ''completed_at'') (\<lambda>completed_at.
     mk_MutationOutcome request_id generation operation status completed_at
       (kw_default kw ''confirmations'' (PTuple [])) (kw_default kw ''failure'' PNone))))))"

definition as_MutationOutcome :: "pyval \<Rightarrow> MutationOutcome option" where
  "as_MutationOutcome v = instance_of ''mutation_outcome'' init_MutationOutcome v"

definition MutationOutcome_ok :: "MutationOutcome \<Rightarrow> bool" where
  "MutationOutcome_ok x \<longleftrightarrow>
     oc_request_id x \<noteq> [] \<and> 0 \<le> oc_generation x \<and>
     timestamp_ok (oc_completed_at x) \<and>
     list_all MutationConfirmationValue_ok (oc_confirmations x) \<and>
     pred_option MutationFailureValue_ok (oc_failure x) \<and>
     list_all (\<lambda>item. cf_generation item = oc_generation x) (oc_confirmations x) \<and>
     outcome_consistent (oc_status x) (oc_confirmations x) (oc_failure x) = Inr ()"

lemma MutationOutcome_type_ok: "init_MutationOutcome kw = Inr x \<Longrightarrow> kw_ok kw \<Longrightarrow> MutationOutcome_ok x"
  unfolding init_MutationOutcome_def mk_MutationOutcome_def MutationOutcome_ok_def
  by (auto simp: validator_simps kw_default_ok elim!: rbind_InrE dest!: kw_required_ok intro: val_ok)

lemma init_MutationOutcome_obj: "MutationOutcome_ok x \<Longrightarrow> init_MutationOutcome (MutationOutcome_fields x) = Inr x"
  by (simp add: init_MutationOutcome_def mk_MutationOutcome_def MutationOutcome_fields_def MutationOutcome_ok_def kw_simps val_obj)

lemma init_MutationOutcome_plain [plain_simps]: "init_MutationOutcome (plain_fields kw) = init_MutationOutcome kw"
  by (simp add: init_MutationOutcome_def mk_MutationOutcome_def plain_simps)

lemma as_MutationOutcome_obj: "MutationOutcome_ok x \<Longrightarrow> as_MutationOutcome (MutationOutcome_obj x) = Some x"
  by (simp add: as_MutationOutcome_def MutationOutcome_obj_def instance_of_obj init_MutationOutcome_obj)

lemma as_MutationOutcome_ok: "as_MutationOutcome v = Some x \<Longrightarrow> well_formed v \<Longrightarrow> MutationOutcome_ok x"
  unfolding as_MutationOutcome_def by (erule instance_of_ok) (rule MutationOutcome_type_ok)

definition succeeded :: "MutationOutcome \<Rightarrow> bool" where
  "succeeded x \<longleftrightarrow> oc_status x = CONFIRMED"

section \<open>Dispatch tickets\<close>

definition val_failure_code :: "pyval \<Rightarrow> exn + MutationFailureCode option" where
  "val_failure_code value = val_optional (\<lambda>v. val_enum code_value code_members v ''failure_code'') value"

lemma val_failure_code_obj [val_obj]:
  "val_failure_code (opt_obj (\<lambda>c. PStrEnum cls (code_value c)) x) = Inr x"
  by (cases x) (simp_all add: val_failure_code_def val_optional_def code.val_enum_member)

lemma val_failure_code_plain [plain_simps]: "val_failure_code (plain v) = val_failure_code v"
  by (simp add: val_failure_code_def val_optional_def plain_simps)

definition ticket_consistent :: "MutationDispatchDisposition \<Rightarrow> int \<Rightarrow> MutationFailureCode option \<Rightarrow> exn + unit" where
  "ticket_consistent disposition dispatch_order failure_code =
     (if disposition = TicketReady
      then if failure_code \<noteq> None
           then Inl (ValueError ''ready dispatch tickets must not include a failure code'')
           else if dispatch_order = 0
           then Inl (ValueError ''ready dispatch tickets must have a positive dispatch order'')
           else Inr ()
      else case failure_code of
        None \<Rightarrow> Inl (ValueError ''non-ready dispatch tickets must include a failure code'')
      | Some code \<Rightarrow>
          if disposition = TicketRejected \<and>
             code \<notin> {UNSUPPORTED_OPERATION, STALE_GENERATION, STALE_SEQUENCE, TARGET_NOT_FOUND,
                      TARGET_IDENTITY_CHANGED, TARGET_UNAVAILABLE, NOT_WRITABLE, OWNERSHIP_CONFLICT}
          then Inl (ValueError ''rejected dispatch tickets require a validation or precondition code'')
          else if disposition = TicketFailed \<and> code \<notin> {NATIVE_REJECTED, INTERNAL_ERROR}
          then Inl (ValueError ''failed dispatch tickets require an execution failure code'')
          else if disposition = TicketCancelled \<and> code \<notin> {GENERATION_LOST, RUNTIME_STOPPED}
          then Inl (ValueError ''cancelled dispatch tickets require a lifecycle cancellation code'')
          else Inr ())"

record MutationDispatchTicketValue =
  tk_request_id :: "string"
  tk_operation :: "MutationOperation"
  tk_dispatch_order :: "int"
  tk_disposition :: "MutationDispatchDisposition"
  tk_expected_generation :: "int"
  tk_observed_generation :: "int"
  tk_observed_sequence :: "int"
  tk_expected_sequence :: "int option"
  tk_failure_code :: "MutationFailureCode option"

definition mk_MutationDispatchTicketValue ::
    "pyval \<Rightarrow> pyval \<Rightarrow> pyval \<Rightarrow> pyval \<Rightarrow> pyval \<Rightarrow> pyval \<Rightarrow> pyval \<Rightarrow> pyval \<Rightarrow> pyval \<Rightarrow> exn + MutationDispatchTicketValue" where
  "mk_MutationDispatchTicketValue request_id operation dispatch_order disposition expected_generation observed_generation observed_sequence expected_sequence failure_code =
     rbind (val_required_string request_id ''request_id'' False) (\<lambda>request_id.
     rbind (classified operation_value operation_members operation
              ''invalid mutation dispatch classification'') (\<lambda>operation.
     rbind (classified disposition_value disposition_members disposition
              ''invalid mutation dispatch classification'') (\<lambda>disposition.
     rbind (val_identifier dispatch_order ''dispatch_order'') (\<lambda>dispatch_order.
     rbind (val_identifier expected_generation ''expected_generation'') (\<lambda>expected_generation.
     rbind (val_optional_identifier expected_sequence ''expected_sequence'') (\<lambda>expected_sequence.
     rbind (val_identifier observed_generation ''observed_generation'') (\<lambda>observed_generation.
     rbind (val_identifier observed_sequence ''observed_sequence'') (\<lambda>observed_sequence.
     rbind (val_failure_code failure_code) (\<lambda>failure_code.
     rbind (ticket_consistent disposition dispatch_order failure_code) (\<lambda>_.
     Inr \<lparr>tk_request_id = request_id, tk_operation = operation,
       tk_dispatch_order = dispatch_order, tk_disposition = disposition,
       tk_expected_generation = expected_generation,
       tk_observed_generation = observed_generation,
       tk_observed_sequence = observed_sequence,
       tk_expected_sequence = expected_sequence, tk_failure_code = failure_code\<rparr>))))))))))"

definition MutationDispatchTicketValue_fields :: "MutationDispatchTicketValue \<Rightarrow> fields" where
  "MutationDispatchTicketValue_fields x =
     [(''request_id'', PStr (tk_request_id x)),
      (''operation'', PStrEnum ''MutationOperation'' (operation_value (tk_operation x))),
      (''dispatch_order'', PInt (tk_dispatch_order x)),
      (''disposition'', PStrEnum ''MutationDispatchDisposition'' (disposition_value (tk_disposition x))),
      (''expected_generation'', PInt (tk_expected_generation x)),
      (''observed_generation'', PInt (tk_observed_generation x)),
      (''observed_sequence'', PInt (tk_observed_sequence x)),
      (''expected_sequence'', opt_obj PInt (tk_expected_sequence x)),
      (''failure_code'', opt_obj (\<lambda>c. PStrEnum ''MutationFailureCode'' (code_value c)) (tk_failure_code x))]"

definition MutationDispatchTicketValue_obj :: "MutationDispatchTicketValue \<Rightarrow> pyval" where
  "MutationDispatchTicketValue_obj x = PValue ''mutation_dispatch_ticket'' (MutationDispatchTicketValue_fields x)"

definition init_MutationDispatchTicketValue :: "fields \<Rightarrow> exn + MutationDispatchTicketValue" where
  "init_MutationDispatchTicketValue kw =
     rbind (kw_required kw ''request_id'') (\<lambda>request_id.
     rbind (kw_required kw ''operation'') (\<lambda>operation.
     rbind (kw_required kw ''dispatch_order'') (\<lambda>dispatch_order.
     rbind (kw_required kw ''disposition'') (\<lambda>disposition.
     rbind (kw_required kw ''expected_generation'') (\<lambda>expected_generation.
     rbind (kw_required kw ''observed_generation'') (\<lambda>observed_generation.
     rbind (kw_required kw ''observed_sequence'') (\<lambda>observed_sequence.
     mk_MutationDispatchTicketValue request_id operation dispatch_order disposition expected_generation
       observed_generation observed_sequence
       (kw_default kw ''expected_sequence'' PNone)
       (kw_default kw ''failure_code'' PNone))))))))"

definition as_MutationDispatchTicketValue :: "pyval \<Rightarrow> MutationDispatchTicketValue option" where
  "as_MutationDispatchTicketValue v = instance_of ''mutation_dispatch_ticket'' init_MutationDispatchTicketValue v"

definition MutationDispatchTicketValue_ok :: "MutationDispatchTicketValue \<Rightarrow> bool" where
  "MutationDispatchTicketValue_ok x \<longleftrightarrow>
     tk_request_id x \<noteq> [] \<and> 0 \<le> tk_dispatch_order x \<and>
     0 \<le> tk_expected_generation x \<and> 0 \<le> tk_observed_generation x \<and>
     0 \<le> tk_observed_sequence x \<and>
     pred_option (\<lambda>i. 0 \<le> i) (tk_expected_sequence x) \<and>
     ticket_consistent (tk_disposition x) (tk_dispatch_order x) (tk_failure_code x) = Inr ()"

lemma MutationDispatchTicketValue_type_ok: "init_MutationDispatchTicketValue kw = Inr x \<Longrightarrow> kw_ok kw \<Longrightarrow> MutationDispatchTicketValue_ok x"
  unfolding init_MutationDispatchTicketValue_def mk_MutationDispatchTicketValue_def MutationDispatchTicketValue_ok_def
  by (auto simp: validator_simps kw_default_ok elim!: rbind_InrE dest!: kw_required_ok intro: val_ok)

lemma init_MutationDispatchTicketValue_obj: "MutationDispatchTicketValue_ok x \<Longrightarrow> init_MutationDispatchTicketValue (MutationDispatchTicketValue_fields x) = Inr x"
  by (simp add: init_MutationDispatchTicketValue_def mk_MutationDispatchTicketValue_def MutationDispatchTicketValue_fields_def MutationDispatchTicketValue_ok_def kw_simps val_obj)

lemma init_MutationDispatchTicketValue_plain [plain_simps]: "init_MutationDispatchTicketValue (plain_fields kw) = init_MutationDispatchTicketValue kw"
  by (simp add: init_MutationDispatchTicketValue_def mk_MutationDispatchTicketValue_def plain_simps)

lemma as_MutationDispatchTicketValue_obj: "MutationDispatchTicketValue_ok x \<Longrightarrow> as_MutationDispatchTicketValue (MutationDispatchTicketValue_obj x) = Some x"
  by (simp add: as_MutationDispatchTicketValue_def MutationDispatchTicketValue_obj_def instance_of_obj init_MutationDispatchTicketValue_obj)

lemma as_MutationDispatchTicketValue_ok: "as_MutationDispatchTicketValue v = Some x \<Longrightarrow> well_formed v \<Longrightarrow> MutationDispatchTicketValue_ok x"
  unfolding as_MutationDispatchTicketValue_def by (erule instance_of_ok) (rule MutationDispatchTicketValue_type_ok)

section \<open>An example\<close>

text \<open>The managed link of the session manager's playback session.\<close>

definition sample_target :: MutationTargetValue where
  "sample_target =
     \<lparr>tg_object_kind = KLink, tg_object_id = StrId ''music'',
       tg_selector = [(''owner'', PStr ''session''), (''desired_id'', PStr ''music'')]\<rparr>"

definition sample_predicate :: "ConfirmationOperator \<Rightarrow> ConfirmationPredicateValue" where
  "sample_predicate operator =
     \<lparr>cp_target = sample_target, cp_operator = operator, cp_path = [], cp_expected = PNone, cp_tolerance = None\<rparr>"

section \<open>Properties\<close>

text \<open>
  Outcomes that contradict themselves cannot be constructed: a successful outcome carries no failure
  and at least one confirmation, each of the outcome's generation and with an observation
  that satisfies its predicate; any other outcome carries a failure whose code belongs to both
  its status and its phase.
\<close>

lemma outcome_constructor:
  assumes "kw_ok kw" "init_MutationOutcome kw = Inr x"
  shows "if succeeded x
    then oc_failure x = None \<and> oc_confirmations x \<noteq> [] \<and>
      (\<forall>c \<in> set (oc_confirmations x). cf_generation c = oc_generation x \<and>
         predicate_matches (cf_predicate c) (cf_observation c) = Inr True)
    else \<exists>f. oc_failure x = Some f \<and> fl_code f \<in> set (codes_by_status (oc_status x)) \<and>
      fl_code f \<in> set (failure_codes_by_phase (fl_phase f))"
  using MutationOutcome_type_ok [OF assms(2,1)]
  by (auto simp: succeeded_def MutationOutcome_ok_def outcome_consistent_def list_all_iff
    MutationConfirmationValue_ok_def MutationFailureValue_ok_def split: if_splits option.splits)

text \<open>
  Presence and absence are complementary: on an observation that can be encoded exactly one
  of the predicates \<open>present\<close> and \<open>absent\<close> holds of a path, and neither raises; a path into a
  missing field or beyond the end of a sequence counts as absent.
\<close>

lemma presence_complement:
  assumes "(case observation of PValue t fs \<Rightarrow> serialize observation | _ \<Rightarrow> Inr observation) = Inr v"
  shows "\<exists>b. predicate_matches (p\<lparr>cp_operator := PRESENT\<rparr>) observation = Inr b \<and>
    predicate_matches (p\<lparr>cp_operator := ABSENT\<rparr>) observation = Inr (\<not> b) \<and>
    b = (case resolve_path v (cp_path p) of None \<Rightarrow> False | Some found \<Rightarrow> found \<noteq> PNone)"
  using assms by (auto simp: predicate_matches_def Let_def split: option.split)

text \<open>Equality with itself: reflexive on the frozen values, which hold no NaN.\<close>

lemma find_key:
  "distinct (map fst items) \<Longrightarrow> (k, v) \<in> set items \<Longrightarrow>
     find (\<lambda>kv. as_str (fst kv) = Some k) (map (\<lambda>(k, v). (PStr k, v)) items) = Some (PStr k, v)"
  by (induction items) force+

lemma py_eq_refl: "frozen v \<Longrightarrow> py_eq v v"
proof (induction v rule: frozen.induct)
  case (4 f)
  then show ?case by (simp add: float_eq_def float_le_finite)
next
  case (6 xs)
  then show ?case by (auto simp: list_all_iff intro: list.rel_refl_strong)
next
  case (7 items)
  then show ?case by (auto simp: list_all_iff find_key split: prod.split)
qed simp_all

text \<open>
  An \<open>equals\<close> predicate holds of an observation in which the expected value is found at the
  path: comparison is reflexive on JSON values, numbers and nested mappings included.
\<close>

lemma equals_observed:
  assumes "frozen observation" "resolve_path observation (cp_path p) = Some (cp_expected p)" "frozen (cp_expected p)"
    and "cp_operator p = EQUALS"
  shows "predicate_matches p observation = Inr True"
proof -
  have "comparable (cp_expected p) = Inr (cp_expected p)"
    using assms(3) freeze_json_id [OF assms(3)] by (cases "cp_expected p") (simp_all add: comparable_def del: freeze_json.simps)
  moreover have "(case observation of PValue t fs \<Rightarrow> serialize observation | _ \<Rightarrow> Inr observation) = Inr observation"
    using assms(1) by (cases observation) simp_all
  ultimately show ?thesis using assms py_eq_refl by (simp add: predicate_matches_def Let_def)
qed

end
