(* ===== verification/Registry.thy ===== *)
theory Registry
  imports Mutations
begin

text \<open>
  The table \<open>_VALUE_TYPES\<close> as \<open>RuntimeValue.__init_subclass__\<close> fills it when the runtime
  package is imported: the twenty-six value classes of \<open>models.py\<close>, \<open>events.py\<close> and
  \<open>controls.py\<close>, each with its serialised field names and its constructor.  The table
  satisfies the contract of the locale \<open>value_registry\<close>.
\<close>

section \<open>The registered classes\<close>

definition SpaIdValue_class :: value_class where
  "SpaIdValue_class = \<lparr>class_fields = [''namespace'', ''id'', ''name''],
     class_init = constructor init_SpaIdValue SpaIdValue_obj\<rparr>"

definition SpaChoiceValue_class :: value_class where
  "SpaChoiceValue_class = \<lparr>class_fields = [''kind'', ''default'', ''minimum'', ''maximum'', ''step'', ''alternatives'',
      ''flags'', ''extra''],
     class_init = constructor init_SpaChoiceValue SpaChoiceValue_obj\<rparr>"

definition AudioPropertiesValue_class :: value_class where
  "AudioPropertiesValue_class = \<lparr>class_fields = [''volume'', ''mute'', ''channel_volumes'', ''channel_positions'', ''monitor_mute'',
      ''monitor_volumes'', ''soft_mute'', ''soft_volumes'', ''extra''],
     class_init = constructor init_AudioPropertiesValue AudioPropertiesValue_obj\<rparr>"

definition AudioFormatValue_class :: value_class where
  "AudioFormatValue_class = \<lparr>class_fields = [''media_type'', ''media_subtype'', ''sample_format'', ''rate'', ''channels'',
      ''positions'', ''iec958_codec'', ''extra''],
     class_init = constructor init_AudioFormatValue AudioFormatValue_obj\<rparr>"

definition ConnectionHealthValue_class :: value_class where
  "ConnectionHealthValue_class = \<lparr>class_fields = [''state'', ''generation'', ''reason'', ''details''],
     class_init = constructor init_ConnectionHealthValue ConnectionHealthValue_obj\<rparr>"

definition DeviceValue_class :: value_class where
  "DeviceValue_class = \<lparr>class_fields = [''id'', ''name'', ''description'', ''media_class'', ''properties'',
      ''parameter_ids'', ''profile_ids'', ''route_ids''],
     class_init = constructor init_DeviceValue DeviceValue_obj\<rparr>"

definition NodeValue_class :: value_class where
  "NodeValue_class = \<lparr>class_fields = [''id'', ''device_id'', ''name'', ''description'', ''media_class'', ''state'',
      ''error'', ''input_port_ids'', ''output_port_ids'', ''properties'',
      ''parameter_ids''],
     class_init = constructor init_NodeValue NodeValue_obj\<rparr>"

definition PortValue_class :: value_class where
  "PortValue_class = \<lparr>class_fields = [''id'', ''node_id'', ''direction'', ''name'', ''channel'', ''properties'',
      ''parameter_ids''],
     class_init = constructor init_PortValue PortValue_obj\<rparr>"

definition LinkValue_class :: value_class where
  "LinkValue_class = \<lparr>class_fields = [''id'', ''output_node_id'', ''output_port_id'', ''input_node_id'',
      ''input_port_id'', ''state'', ''owner'', ''desired_id'', ''properties''],
     class_init = constructor init_LinkValue LinkValue_obj\<rparr>"

definition MetadataEntryValue_class :: value_class where
  "MetadataEntryValue_class = \<lparr>class_fields = [''subject'', ''key'', ''type_name'', ''value''],
     class_init = constructor init_MetadataEntryValue MetadataEntryValue_obj\<rparr>"

definition MetadataValue_class :: value_class where
  "MetadataValue_class = \<lparr>class_fields = [''id'', ''name'', ''properties'', ''entries''],
     class_init = constructor init_MetadataValue MetadataValue_obj\<rparr>"

definition ParameterValue_class :: value_class where
  "ParameterValue_class = \<lparr>class_fields = [''owner_type'', ''owner_id'', ''id'', ''permissions'', ''values'', ''properties''],
     class_init = constructor init_ParameterValue ParameterValue_obj\<rparr>"

definition ProfileValue_class :: value_class where
  "ProfileValue_class = \<lparr>class_fields = [''device_id'', ''index'', ''name'', ''description'', ''priority'', ''available'',
      ''active'', ''classes'', ''properties''],
     class_init = constructor init_ProfileValue ProfileValue_obj\<rparr>"

definition RouteValue_class :: value_class where
  "RouteValue_class = \<lparr>class_fields = [''device_id'', ''index'', ''direction'', ''name'', ''description'', ''priority'',
      ''available'', ''active'', ''profile_ids'', ''volume'', ''mute'',
      ''channel_volumes'', ''channel_positions'', ''properties''],
     class_init = constructor init_RouteValue RouteValue_obj\<rparr>"

definition DefaultTargetValue_class :: value_class where
  "DefaultTargetValue_class = \<lparr>class_fields = [''media_class'', ''configured_name'', ''resolved_node_id''],
     class_init = constructor init_DefaultTargetValue DefaultTargetValue_obj\<rparr>"

definition DefaultsValue_class :: value_class where
  "DefaultsValue_class = \<lparr>class_fields = [''metadata_id'', ''audio_sink'', ''audio_source'', ''video_source'', ''extra''],
     class_init = constructor init_DefaultsValue DefaultsValue_obj\<rparr>"

definition UnresolvedRelationshipValue_class :: value_class where
  "UnresolvedRelationshipValue_class = \<lparr>class_fields = [''source_type'', ''source_id'', ''relation'', ''target_type'', ''target_id'',
      ''reason''],
     class_init = constructor init_UnresolvedRelationshipValue UnresolvedRelationshipValue_obj\<rparr>"

definition RuntimeSnapshot_class :: value_class where
  "RuntimeSnapshot_class = \<lparr>class_fields = [''generation'', ''sequence'', ''captured_at'', ''health'', ''devices'', ''nodes'',
      ''ports'', ''links'', ''metadata'', ''parameters'', ''profiles'', ''routes'',
      ''defaults'', ''unresolved_relationships''],
     class_init = constructor init_RuntimeSnapshot RuntimeSnapshot_obj\<rparr>"

definition RuntimeEvent_class :: value_class where
  "RuntimeEvent_class = \<lparr>class_fields = [''generation'', ''sequence'', ''occurred_at'', ''kind'', ''object_kind'',
      ''object_id'', ''current'', ''previous'', ''requires_resnapshot'', ''reason''],
     class_init = constructor init_RuntimeEvent RuntimeEvent_obj\<rparr>"

definition MutationTargetValue_class :: value_class where
  "MutationTargetValue_class = \<lparr>class_fields = [''object_kind'', ''object_id'', ''selector''],
     class_init = constructor init_MutationTargetValue MutationTargetValue_obj\<rparr>"

definition ConfirmationPredicateValue_class :: value_class where
  "ConfirmationPredicateValue_class = \<lparr>class_fields = [''target'', ''operator'', ''path'', ''expected'', ''tolerance''],
     class_init = constructor init_ConfirmationPredicateValue ConfirmationPredicateValue_obj\<rparr>"

definition MutationRequest_class :: value_class where
  "MutationRequest_class = \<lparr>class_fields = [''request_id'', ''expected_generation'', ''operation'', ''target'',
      ''requested_at'', ''deadline_at'', ''expected_sequence'', ''payload'',
      ''confirmation_predicates''],
     class_init = constructor init_MutationRequest MutationRequest_obj\<rparr>"

definition MutationFailureValue_class :: value_class where
  "MutationFailureValue_class = \<lparr>class_fields = [''phase'', ''code'', ''message'', ''retryable'', ''details''],
     class_init = constructor init_MutationFailureValue MutationFailureValue_obj\<rparr>"

definition MutationConfirmationValue_class :: value_class where
  "MutationConfirmationValue_class = \<lparr>class_fields = [''generation'', ''sequence'', ''observed_at'', ''predicate'', ''observation''],
     class_init = constructor init_MutationConfirmationValue MutationConfirmationValue_obj\<rparr>"

definition MutationOutcome_class :: value_class where
  "MutationOutcome_class = \<lparr>class_fields = [''request_id'', ''generation'', ''operation'', ''status'', ''completed_at'',
      ''confirmations'', ''failure''],
     class_init = constructor init_MutationOutcome MutationOutcome_obj\<rparr>"

definition MutationDispatchTicketValue_class :: value_class where
  "MutationDispatchTicketValue_class = \<lparr>class_fields = [''request_id'', ''operation'', ''dispatch_order'', ''disposition'',
      ''expected_generation'', ''observed_generation'', ''observed_sequence'',
      ''expected_sequence'', ''failure_code''],
     class_init = constructor init_MutationDispatchTicketValue MutationDispatchTicketValue_obj\<rparr>"

definition value_types :: registry where
  "value_types =
     [(''spa_id'', SpaIdValue_class),
      (''spa_choice'', SpaChoiceValue_class),
      (''audio_properties'', AudioPropertiesValue_class),
      (''audio_format'', AudioFormatValue_class),
      (''connection_health'', ConnectionHealthValue_class),
      (''device'', DeviceValue_class),
      (''node'', NodeValue_class),
      (''port'', PortValue_class),
      (''link'', LinkValue_class),
      (''metadata_entry'', MetadataEntryValue_class),
      (''metadata'', MetadataValue_class),
      (''parameter'', ParameterValue_class),
      (''profile'', ProfileValue_class),
      (''route'', RouteValue_class),
      (''default_target'', DefaultTargetValue_class),
      (''defaults'', DefaultsValue_class),
      (''unresolved_relationship'', UnresolvedRelationshipValue_class),
      (''runtime_snapshot'', RuntimeSnapshot_class),
      (''runtime_event'', RuntimeEvent_class),
      (''mutation_target'', MutationTargetValue_class),
      (''confirmation_predicate'', ConfirmationPredicateValue_class),
      (''mutation_request'', MutationRequest_class),
      (''mutation_failure'', MutationFailureValue_class),
      (''mutation_confirmation'', MutationConfirmationValue_class),
      (''mutation_outcome'', MutationOutcome_class),
      (''mutation_dispatch_ticket'', MutationDispatchTicketValue_class)]"

section \<open>The classes satisfy the registry's contract\<close>

definition class_law :: "string \<Rightarrow> value_class \<Rightarrow> bool" where
  "class_law t C \<longleftrightarrow>
     (\<forall>kw. class_init C (plain_fields kw) = class_init C kw) \<and>
     (\<forall>kw. distinct (map fst kw) \<longrightarrow> class_init C (filter (\<lambda>item. \<not> omitted t item) kw) = class_init C kw) \<and>
     (\<forall>kw v. class_init C kw = Inr v \<longrightarrow> (\<exists>fs. v = PValue t fs \<and> map fst fs = class_fields C)) \<and>
     distinct (class_fields C) \<and> ''schema_version'' \<notin> set (class_fields C) \<and>
     ''value_type'' \<notin> set (class_fields C)"

text \<open>A class without \<open>omit_none\<close> fields needs its constructor to see enumeration members as values.\<close>

lemma class_lawI:
  assumes "C = \<lparr>class_fields = names, class_init = constructor init obj\<rparr>"
    and "\<And>kw. init (plain_fields kw) = init kw"
    and "\<And>kw. distinct (map fst kw) \<Longrightarrow> init (filter (\<lambda>item. \<not> omitted t item) kw) = init kw"
    and "\<And>x. \<exists>fs. obj x = PValue t fs \<and> map fst fs = names"
    and "distinct names" "''schema_version'' \<notin> set names" "''value_type'' \<notin> set names"
  shows "class_law t C"
  using assms by (auto simp: class_law_def constructor_def rbind_eq_Inr_iff)

lemma nothing_omitted: "t \<noteq> ''confirmation_predicate'' \<Longrightarrow> filter (\<lambda>item. \<not> omitted t item) kw = kw"
  by (simp add: omitted_def omit_none_def)

lemma kw_filter:
  "n \<noteq> ''tolerance'' \<Longrightarrow> kw_required (filter (\<lambda>item. \<not> omitted ''confirmation_predicate'' item) kw) n = kw_required kw n"
  "n \<noteq> ''tolerance'' \<Longrightarrow> kw_default (filter (\<lambda>item. \<not> omitted ''confirmation_predicate'' item) kw) n d = kw_default kw n d"
  by (induction kw) (auto simp: omitted_def omit_none_def kw_simps)

lemma kw_filter_tolerance:
  "distinct (map fst kw) \<Longrightarrow>
     kw_default (filter (\<lambda>item. \<not> omitted ''confirmation_predicate'' item) kw) ''tolerance'' PNone =
     kw_default kw ''tolerance'' PNone"
proof (induction kw)
  case (Cons item kw)
  obtain n v where item: "item = (n, v)" by force
  have "kw_default kw ''tolerance'' PNone = PNone" if "n = ''tolerance''"
    using Cons.prems that by (auto simp: item kw_default_def map_of_eq_None_iff split: option.splits dest: map_of_SomeD)
      (metis fst_conv image_eqI map_of_SomeD)
  with Cons show ?case by (auto simp: item omitted_def omit_none_def kw_simps)
qed (simp add: kw_default_def)

lemma init_ConfirmationPredicateValue_filter:
  "distinct (map fst kw) \<Longrightarrow>
     init_ConfirmationPredicateValue (filter (\<lambda>item. \<not> omitted ''confirmation_predicate'' item) kw) =
     init_ConfirmationPredicateValue kw"
  by (simp add: init_ConfirmationPredicateValue_def kw_filter kw_filter_tolerance)

lemma SpaIdValue_law: "class_law ''spa_id'' SpaIdValue_class"
  by (rule class_lawI [OF SpaIdValue_class_def])
    (simp_all add: nothing_omitted init_SpaIdValue_plain SpaIdValue_obj_def SpaIdValue_fields_def)

lemma SpaChoiceValue_law: "class_law ''spa_choice'' SpaChoiceValue_class"
  by (rule class_lawI [OF SpaChoiceValue_class_def])
    (simp_all add: nothing_omitted init_SpaChoiceValue_plain SpaChoiceValue_obj_def SpaChoiceValue_fields_def)

lemma AudioPropertiesValue_law: "class_law ''audio_properties'' AudioPropertiesValue_class"
  by (rule class_lawI [OF AudioPropertiesValue_class_def])
    (simp_all add: nothing_omitted init_AudioPropertiesValue_plain AudioPropertiesValue_obj_def AudioPropertiesValue_fields_def)

lemma AudioFormatValue_law: "class_law ''audio_format'' AudioFormatValue_class"
  by (rule class_lawI [OF AudioFormatValue_class_def])
    (simp_all add: nothing_omitted init_AudioFormatValue_plain AudioFormatValue_obj_def AudioFormatValue_fields_def)

lemma ConnectionHealthValue_law: "class_law ''connection_health'' ConnectionHealthValue_class"
  by (rule class_lawI [OF ConnectionHealthValue_class_def])
    (simp_all add: nothing_omitted init_ConnectionHealthValue_plain ConnectionHealthValue_obj_def ConnectionHealthValue_fields_def)

lemma DeviceValue_law: "class_law ''device'' DeviceValue_class"
  by (rule class_lawI [OF DeviceValue_class_def])
    (simp_all add: nothing_omitted init_DeviceValue_plain DeviceValue_obj_def DeviceValue_fields_def)

lemma NodeValue_law: "class_law ''node'' NodeValue_class"
  by (rule class_lawI [OF NodeValue_class_def])
    (simp_all add: nothing_omitted init_NodeValue_plain NodeValue_obj_def NodeValue_fields_def)

lemma PortValue_law: "class_law ''port'' PortValue_class"
  by (rule class_lawI [OF PortValue_class_def])
    (simp_all add: nothing_omitted init_PortValue_plain PortValue_obj_def PortValue_fields_def)

lemma LinkValue_law: "class_law ''link'' LinkValue_class"
  by (rule class_lawI [OF LinkValue_class_def])
    (simp_all add: nothing_omitted init_LinkValue_plain LinkValue_obj_def LinkValue_fields_def)

lemma MetadataEntryValue_law: "class_law ''metadata_entry'' MetadataEntryValue_class"
  by (rule class_lawI [OF MetadataEntryValue_class_def])
    (simp_all add: nothing_omitted init_MetadataEntryValue_plain MetadataEntryValue_obj_def MetadataEntryValue_fields_def)

lemma MetadataValue_law: "class_law ''metadata'' MetadataValue_class"
  by (rule class_lawI [OF MetadataValue_class_def])
    (simp_all add: nothing_omitted init_MetadataValue_plain MetadataValue_obj_def MetadataValue_fields_def)

lemma ParameterValue_law: "class_law ''parameter'' ParameterValue_class"
  by (rule class_lawI [OF ParameterValue_class_def])
    (simp_all add: nothing_omitted init_ParameterValue_plain ParameterValue_obj_def ParameterValue_fields_def)

lemma ProfileValue_law: "class_law ''profile'' ProfileValue_class"
  by (rule class_lawI [OF ProfileValue_class_def])
    (simp_all add: nothing_omitted init_ProfileValue_plain ProfileValue_obj_def ProfileValue_fields_def)

lemma RouteValue_law: "class_law ''route'' RouteValue_class"
  by (rule class_lawI [OF RouteValue_class_def])
    (simp_all add: nothing_omitted init_RouteValue_plain RouteValue_obj_def RouteValue_fields_def)

lemma DefaultTargetValue_law: "class_law ''default_target'' DefaultTargetValue_class"
  by (rule class_lawI [OF DefaultTargetValue_class_def])
    (simp_all add: nothing_omitted init_DefaultTargetValue_plain DefaultTargetValue_obj_def DefaultTargetValue_fields_def)

lemma DefaultsValue_law: "class_law ''defaults'' DefaultsValue_class"
  by (rule class_lawI [OF DefaultsValue_class_def])
    (simp_all add: nothing_omitted init_DefaultsValue_plain DefaultsValue_obj_def DefaultsValue_fields_def)

lemma UnresolvedRelationshipValue_law: "class_law ''unresolved_relationship'' UnresolvedRelationshipValue_class"
  by (rule class_lawI [OF UnresolvedRelationshipValue_class_def])
    (simp_all add: nothing_omitted init_UnresolvedRelationshipValue_plain UnresolvedRelationshipValue_obj_def UnresolvedRelationshipValue_fields_def)

lemma RuntimeSnapshot_law: "class_law ''runtime_snapshot'' RuntimeSnapshot_class"
  by (rule class_lawI [OF RuntimeSnapshot_class_def])
    (simp_all add: nothing_omitted init_RuntimeSnapshot_plain RuntimeSnapshot_obj_def RuntimeSnapshot_fields_def)

lemma RuntimeEvent_law: "class_law ''runtime_event'' RuntimeEvent_class"
  by (rule class_lawI [OF RuntimeEvent_class_def])
    (simp_all add: nothing_omitted init_RuntimeEvent_plain RuntimeEvent_obj_def RuntimeEvent_fields_def)

lemma MutationTargetValue_law: "class_law ''mutation_target'' MutationTargetValue_class"
  by (rule class_lawI [OF MutationTargetValue_class_def])
    (simp_all add: nothing_omitted init_MutationTargetValue_plain MutationTargetValue_obj_def MutationTargetValue_fields_def)

lemma ConfirmationPredicateValue_law: "class_law ''confirmation_predicate'' ConfirmationPredicateValue_class"
  by (rule class_lawI [OF ConfirmationPredicateValue_class_def])
    (simp_all add: init_ConfirmationPredicateValue_filter init_ConfirmationPredicateValue_plain ConfirmationPredicateValue_obj_def ConfirmationPredicateValue_fields_def)

lemma MutationRequest_law: "class_law ''mutation_request'' MutationRequest_class"
  by (rule class_lawI [OF MutationRequest_class_def])
    (simp_all add: nothing_omitted init_MutationRequest_plain MutationRequest_obj_def MutationRequest_fields_def)

lemma MutationFailureValue_law: "class_law ''mutation_failure'' MutationFailureValue_class"
  by (rule class_lawI [OF MutationFailureValue_class_def])
    (simp_all add: nothing_omitted init_MutationFailureValue_plain MutationFailureValue_obj_def MutationFailureValue_fields_def)

lemma MutationConfirmationValue_law: "class_law ''mutation_confirmation'' MutationConfirmationValue_class"
  by (rule class_lawI [OF MutationConfirmationValue_class_def])
    (simp_all add: nothing_omitted init_MutationConfirmationValue_plain MutationConfirmationValue_obj_def MutationConfirmationValue_fields_def)

lemma MutationOutcome_law: "class_law ''mutation_outcome'' MutationOutcome_class"
  by (rule class_lawI [OF MutationOutcome_class_def])
    (simp_all add: nothing_omitted init_MutationOutcome_plain MutationOutcome_obj_def MutationOutcome_fields_def)

lemma MutationDispatchTicketValue_law: "class_law ''mutation_dispatch_ticket'' MutationDispatchTicketValue_class"
  by (rule class_lawI [OF MutationDispatchTicketValue_class_def])
    (simp_all add: nothing_omitted init_MutationDispatchTicketValue_plain MutationDispatchTicketValue_obj_def MutationDispatchTicketValue_fields_def)

lemmas class_laws =
  SpaIdValue_law
  SpaChoiceValue_law
  AudioPropertiesValue_law
  AudioFormatValue_law
  ConnectionHealthValue_law
  DeviceValue_law
  NodeValue_law
  PortValue_law
  LinkValue_law
  MetadataEntryValue_law
  MetadataValue_law
  ParameterValue_law
  ProfileValue_law
  RouteValue_law
  DefaultTargetValue_law
  DefaultsValue_law
  UnresolvedRelationshipValue_law
  RuntimeSnapshot_law
  RuntimeEvent_law
  MutationTargetValue_law
  ConfirmationPredicateValue_law
  MutationRequest_law
  MutationFailureValue_law
  MutationConfirmationValue_law
  MutationOutcome_law
  MutationDispatchTicketValue_law

lemma registered_law: "map_of value_types t = Some C \<Longrightarrow> class_law t C"
proof -
  have "list_all (\<lambda>(t, C). class_law t C) value_types"
    by (simp only: value_types_def list.pred_inject prod.case class_laws simp_thms)
  then show "map_of value_types t = Some C \<Longrightarrow> class_law t C"
    by (auto simp: list_all_iff dest!: map_of_SomeD)
qed

interpretation registry: value_registry value_types
  by unfold_locales (use registered_law in \<open>auto simp: class_law_def\<close>)

section \<open>Constructed instances\<close>

text \<open>
  A class revalidates when the fields of an instance it constructed, given back to its
  constructor, construct the same instance.
\<close>

definition revalidates :: "value_class \<Rightarrow> bool" where
  "revalidates C \<longleftrightarrow>
     (\<forall>kw t fs. kw_ok kw \<longrightarrow> class_init C kw = Inr (PValue t fs) \<longrightarrow> class_init C fs = Inr (PValue t fs))"

lemma revalidatesI:
  assumes "C = \<lparr>class_fields = names, class_init = constructor init obj\<rparr>"
    and "\<And>kw x. init kw = Inr x \<Longrightarrow> kw_ok kw \<Longrightarrow> ok x"
    and "\<And>x. ok x \<Longrightarrow> init (flds x) = Inr x"
    and "\<And>x. obj x = PValue t (flds x)"
  shows "revalidates C"
  unfolding revalidates_def
proof (intro allI impI)
  fix kw t' fs
  assume "kw_ok kw" "class_init C kw = Inr (PValue t' fs)"
  then obtain x where x: "init kw = Inr x" "obj x = PValue t' fs"
    by (auto simp: assms(1) constructor_def rbind_eq_Inr_iff)
  then have "fs = flds x" using assms(4) [of x] by simp
  then have "init fs = Inr x" using assms(3) [OF assms(2) [OF x(1) \<open>kw_ok kw\<close>]] by simp
  then show "class_init C fs = Inr (PValue t' fs)"
    using x(2) by (simp add: assms(1) constructor_def)
qed

lemmas class_revalidates =
  revalidatesI [OF SpaIdValue_class_def SpaIdValue_type_ok init_SpaIdValue_obj SpaIdValue_obj_def]
  revalidatesI [OF SpaChoiceValue_class_def SpaChoiceValue_type_ok init_SpaChoiceValue_obj SpaChoiceValue_obj_def]
  revalidatesI [OF AudioPropertiesValue_class_def AudioPropertiesValue_type_ok init_AudioPropertiesValue_obj AudioPropertiesValue_obj_def]
  revalidatesI [OF AudioFormatValue_class_def AudioFormatValue_type_ok init_AudioFormatValue_obj AudioFormatValue_obj_def]
  revalidatesI [OF ConnectionHealthValue_class_def ConnectionHealthValue_type_ok init_ConnectionHealthValue_obj ConnectionHealthValue_obj_def]
  revalidatesI [OF DeviceValue_class_def DeviceValue_type_ok init_DeviceValue_obj DeviceValue_obj_def]
  revalidatesI [OF NodeValue_class_def NodeValue_type_ok init_NodeValue_obj NodeValue_obj_def]
  revalidatesI [OF PortValue_class_def PortValue_type_ok init_PortValue_obj PortValue_obj_def]
  revalidatesI [OF LinkValue_class_def LinkValue_type_ok init_LinkValue_obj LinkValue_obj_def]
  revalidatesI [OF MetadataEntryValue_class_def MetadataEntryValue_type_ok init_MetadataEntryValue_obj MetadataEntryValue_obj_def]
  revalidatesI [OF MetadataValue_class_def MetadataValue_type_ok init_MetadataValue_obj MetadataValue_obj_def]
  revalidatesI [OF ParameterValue_class_def ParameterValue_type_ok init_ParameterValue_obj ParameterValue_obj_def]
  revalidatesI [OF ProfileValue_class_def ProfileValue_type_ok init_ProfileValue_obj ProfileValue_obj_def]
  revalidatesI [OF RouteValue_class_def RouteValue_type_ok init_RouteValue_obj RouteValue_obj_def]
  revalidatesI [OF DefaultTargetValue_class_def DefaultTargetValue_type_ok init_DefaultTargetValue_obj DefaultTargetValue_obj_def]
  revalidatesI [OF DefaultsValue_class_def DefaultsValue_type_ok init_DefaultsValue_obj DefaultsValue_obj_def]
  revalidatesI [OF UnresolvedRelationshipValue_class_def UnresolvedRelationshipValue_type_ok init_UnresolvedRelationshipValue_obj UnresolvedRelationshipValue_obj_def]
  revalidatesI [OF RuntimeSnapshot_class_def RuntimeSnapshot_type_ok init_RuntimeSnapshot_obj RuntimeSnapshot_obj_def]
  revalidatesI [OF RuntimeEvent_class_def RuntimeEvent_type_ok init_RuntimeEvent_obj RuntimeEvent_obj_def]
  revalidatesI [OF MutationTargetValue_class_def MutationTargetValue_type_ok init_MutationTargetValue_obj MutationTargetValue_obj_def]
  revalidatesI [OF ConfirmationPredicateValue_class_def ConfirmationPredicateValue_type_ok init_ConfirmationPredicateValue_obj ConfirmationPredicateValue_obj_def]
  revalidatesI [OF MutationRequest_class_def MutationRequest_type_ok init_MutationRequest_obj MutationRequest_obj_def]
  revalidatesI [OF MutationFailureValue_class_def MutationFailureValue_type_ok init_MutationFailureValue_obj MutationFailureValue_obj_def]
  revalidatesI [OF MutationConfirmationValue_class_def MutationConfirmationValue_type_ok init_MutationConfirmationValue_obj MutationConfirmationValue_obj_def]
  revalidatesI [OF MutationOutcome_class_def MutationOutcome_type_ok init_MutationOutcome_obj MutationOutcome_obj_def]
  revalidatesI [OF MutationDispatchTicketValue_class_def MutationDispatchTicketValue_type_ok init_MutationDispatchTicketValue_obj MutationDispatchTicketValue_obj_def]

lemma registered_revalidates: "map_of value_types t = Some C \<Longrightarrow> revalidates C"
proof -
  have "list_all (\<lambda>(t, C). revalidates C) value_types"
    by (simp only: value_types_def list.pred_inject prod.case class_revalidates simp_thms)
  then show "map_of value_types t = Some C \<Longrightarrow> revalidates C"
    by (auto simp: list_all_iff dest!: map_of_SomeD)
qed

lemma genuine_constructed:
  assumes "map_of value_types t = Some C" "kw_ok kw" "class_init C kw = Inr v"
    and "\<And>fs. v = PValue t fs \<Longrightarrow> list_all (\<lambda>(k, w). genuine value_types w) fs"
  shows "genuine value_types v"
proof -
  obtain fs where v: "v = PValue t fs"
    using registered_law [OF assms(1)] assms(3) unfolding class_law_def by blast
  have "class_init C fs = Inr (PValue t fs)"
    using registered_revalidates [OF assms(1)] assms(2,3) unfolding v revalidates_def by blast
  then show ?thesis using assms(1) assms(4) [OF v] by (simp add: v)
qed

section \<open>Properties\<close>

text \<open>
  For each of the twenty-six value classes: an instance belongs to its class, has exactly
  its fields, and passes its own validation unchanged when it is rebuilt from them.
\<close>

lemma constructor_idempotent:
  assumes "map_of value_types t = Some C" "kw_ok kw" "class_init C kw = Inr v"
  shows "\<exists>fs. v = PValue t fs \<and> map fst fs = class_fields C \<and> class_init C fs = Inr v"
proof -
  obtain fs where v: "v = PValue t fs" "map fst fs = class_fields C"
    using registered_law [OF assms(1)] assms(3) unfolding class_law_def by blast
  moreover have "class_init C fs = Inr (PValue t fs)"
    using registered_revalidates [OF assms(1)] assms(2,3) unfolding v(1) revalidates_def by blast
  ultimately show ?thesis by blast
qed

text \<open>
  C27. An instance of any of the twenty-six value classes, all of whose attributes are genuine values (nested
  instances that passed validation, frozen mappings that do not spell an envelope, tuples,
  enumeration members and finite scalars), is restored exactly from the dictionary that
  \<open>to_dict\<close> makes of it, both by \<open>runtime_value_from_dict\<close> and by the class's own \<open>from_dict\<close>.
\<close>

theorem dict_roundtrip:
  assumes "map_of value_types t = Some C" "kw_ok kw" "class_init C kw = Inr (PValue t fs)"
    and "list_all (\<lambda>(k, v). genuine value_types v) fs"
  shows "\<exists>d. serialize (PValue t fs) = Inr d \<and> runtime_value_from_dict value_types d = Inr (PValue t fs) \<and>
    from_dict value_types t d = Inr (PValue t fs)"
  using registry.roundtrip [of t fs] genuine_constructed [OF assms(1,2,3)] assms(4) by blast

lemma sample_link_genuine: "list_all (\<lambda>(k, v). genuine value_types v) (LinkValue_fields (sample_link 7))"
  by (simp add: LinkValue_fields_def sample_link_def)

theorem dict_roundtrip_witness:
  "\<exists>d. serialize (LinkValue_obj (sample_link 7)) = Inr d \<and>
     runtime_value_from_dict value_types d = Inr (LinkValue_obj (sample_link 7)) \<and>
     from_dict value_types ''link'' d = Inr (LinkValue_obj (sample_link 7))"
proof -
  let ?fs = "LinkValue_fields (sample_link 7)"
  have c: "map_of value_types ''link'' = Some LinkValue_class" by (simp add: value_types_def)
  have "kw_ok ?fs" by (simp add: kw_ok_def LinkValue_fields_def sample_link_def)
  moreover have "class_init LinkValue_class ?fs = Inr (PValue ''link'' ?fs)"
    using init_LinkValue_obj [of "sample_link 7"] by (simp add: LinkValue_class_def constructor_def LinkValue_obj_def)
  ultimately show ?thesis
    using dict_roundtrip [OF c _ _ sample_link_genuine, of ?fs] unfolding LinkValue_obj_def by blast
qed

definition envelope_properties :: fields where
  "envelope_properties = [(''schema_version'', PStr ''3''), (''value_type'', PStr ''stream'')]"

definition envelope_link :: LinkValue where
  "envelope_link = (sample_link 7)\<lparr>lk_properties := envelope_properties\<rparr>"

text \<open>
  The exception to the round trip: a value whose frozen mapping has both the keys
  \<open>schema_version\<close> and \<open>value_type\<close> is valid and is encoded, but the mapping is read back as
  the envelope of a runtime value, and decoding fails or yields something else.
\<close>

lemma envelope_mapping_not_restored:
  "LinkValue_ok envelope_link \<and>
   (\<exists>d e. serialize (LinkValue_obj envelope_link) = Inr d \<and> runtime_value_from_dict value_types d = Inl e)"
proof
  show "LinkValue_ok envelope_link"
    using sample_link_ok [of 7]
    by (simp add: envelope_link_def envelope_properties_def LinkValue_ok_def mapping_ok_def)
  let ?bad = "PDict [(PStr ''schema_version'', PStr ''3''), (PStr ''value_type'', PStr ''stream'')]"
  obtain kvs where d: "serialize (LinkValue_obj envelope_link) = Inr (PDict kvs)"
      "envelope_class value_types kvs = Inr LinkValue_class" "(PStr ''properties'', ?bad) \<in> set (envelope_items kvs)"
      "known_names LinkValue_class (envelope_items kvs) = Inr ()"
    by (simp add: LinkValue_obj_def LinkValue_fields_def envelope_link_def envelope_properties_def sample_link_def
      omitted_def omit_none_def FrozenDict_to_dict_def envelope_class_def dict_get_def envelope_items_def
      known_names_def LinkValue_class_def value_types_def)
  have "deserialize value_types ?bad p =
      Inl (RuntimeValueDecodeError ''unsupported_schema_version'' ''expected 1'' p)" for p
    by (simp add: deserialize.simps runtime_value_from_dict.simps dict_get_def envelope_class_def Let_def)
  then have "\<exists>e. traverse (\<lambda>(key, item). let name = dict_key_text key in
      rbind (deserialize value_types item (''$.'' @ name)) (\<lambda>v. Inr (name, v))) (envelope_items kvs) = Inl e"
    by (intro traverse_fails [OF d(3)]) simp
  then have "\<exists>e. runtime_value_from_dict value_types (PDict kvs) = Inl e"
    using d(2,4) by (auto simp: runtime_value_from_dict.simps)
  then show "\<exists>d e. serialize (LinkValue_obj envelope_link) = Inr d \<and> runtime_value_from_dict value_types d = Inl e"
    using d(1) by blast
qed

end
