(* ===== verification/Controls.thy ===== *)
theory Controls
  imports Registry
begin

text \<open>
  The execution of a confirmed mutation in \<open>src/src/wyreplumber/runtime/controls.py\<close>: request
  creation and expiry, the native dispatch and its ticket, observations of a snapshot, and
  \<open>_execute_confirmed_mutation\<close> with its polling loop.  The native connection, the clocks
  and \<open>uuid4\<close> are an environment the definitions take as an argument; every call to it is
  logged.  Nothing is assumed of the environment except where a theorem names the
  hypothesis.
\<close>

section \<open>The environment\<close>

record 'w runtime =
  env_clock :: "'w \<Rightarrow> datetime \<times> 'w"
  env_uuid :: "'w \<Rightarrow> string \<times> 'w"
  env_capture :: "'w \<Rightarrow> (exn + RuntimeSnapshot) \<times> 'w"
  env_dispatch :: "pyval \<Rightarrow> 'w \<Rightarrow> (exn + pyval) \<times> 'w"
  env_sleep :: "'w \<Rightarrow> 'w"

text \<open>The calls that reach the connection, with their results, and the sleeps between them.\<close>

datatype call = Captured "exn + RuntimeSnapshot" | Dispatched pyval "exn + pyval" | Slept

record 'w world =
  env_state :: 'w
  calls :: "call list"

type_synonym ('w, 'a) action = "'w world \<Rightarrow> (exn + 'a) \<times> 'w world"

definition areturn :: "'a \<Rightarrow> ('w, 'a) action" where
  "areturn a w = (Inr a, w)"

definition alift :: "exn + 'a \<Rightarrow> ('w, 'a) action" where
  "alift r w = (r, w)"

definition abind :: "('w, 'a) action \<Rightarrow> ('a \<Rightarrow> ('w, 'b) action) \<Rightarrow> ('w, 'b) action" where
  "abind m f w = (case m w of (Inl e, w') \<Rightarrow> (Inl e, w') | (Inr a, w') \<Rightarrow> f a w')"

text \<open>\<open>datetime.now(timezone.utc)\<close>, \<open>str(uuid4())\<close>, \<open>sleep(0.01)\<close> and the two native calls.\<close>

definition utc_now :: "'w runtime \<Rightarrow> ('w, datetime) action" where
  "utc_now env w = (case env_clock env (env_state w) of (d, s) \<Rightarrow> (Inr d, w\<lparr>env_state := s\<rparr>))"

definition uuid4 :: "'w runtime \<Rightarrow> ('w, string) action" where
  "uuid4 env w = (case env_uuid env (env_state w) of (u, s) \<Rightarrow> (Inr u, w\<lparr>env_state := s\<rparr>))"

definition sleep :: "'w runtime \<Rightarrow> 'w world \<Rightarrow> 'w world" where
  "sleep env w = w\<lparr>env_state := env_sleep env (env_state w), calls := calls w @ [Slept]\<rparr>"

definition capture_snapshot_call :: "'w runtime \<Rightarrow> ('w, RuntimeSnapshot) action" where
  "capture_snapshot_call env w =
     (case env_capture env (env_state w) of
        (r, s) \<Rightarrow> (r, w\<lparr>env_state := s, calls := calls w @ [Captured r]\<rparr>))"

definition dispatch_call :: "'w runtime \<Rightarrow> pyval \<Rightarrow> ('w, pyval) action" where
  "dispatch_call env payload w =
     (case env_dispatch env payload (env_state w) of
        (r, s) \<Rightarrow> (r, w\<lparr>env_state := s, calls := calls w @ [Dispatched payload r]\<rparr>))"

section \<open>Creating a request\<close>

definition us_per_second :: int where
  "us_per_second = 1000000"

text \<open>
  \<open>timedelta(seconds=t)\<close> for a finite \<open>t \<ge> 0\<close>: the whole seconds exactly, the fraction through
  a rounded multiplication by \<open>1e6\<close>, and the sum rounded to microseconds, ties to even.
\<close>

definition timedelta_us :: "pyfloat \<Rightarrow> exn + int" where
  "timedelta_us t =
     (let units = f64_units t; one = 2 ^ 1074;
          seconds = units div one;
          fraction = f64_units (float_mul (f64_round False 1074 us_per_second) (f64_round False 0 (units mod one)));
          us = round_half_even (seconds * us_per_second * one + fraction) one
      in if us < 1000000000 * us_per_day then Inr us
         else Inl (OverflowError ''days is out of range for a timedelta''))"

definition add_timedelta :: "int \<Rightarrow> int \<Rightarrow> exn + datetime" where
  "add_timedelta start us =
     (if start + us < max_us then Inr (Datetime (start + us) (Some 0))
      else Inl (OverflowError ''date value out of range''))"

definition create_request ::
    "'w runtime \<Rightarrow> pyval \<Rightarrow> pyval \<Rightarrow> pyval \<Rightarrow> pyval \<Rightarrow> pyval \<Rightarrow> pyval \<Rightarrow> pyval \<Rightarrow> pyval \<Rightarrow> pyval \<Rightarrow>
     ('w, MutationRequest) action" where
  "create_request env expected_generation operation target confirmation_predicates timeout
       expected_sequence payload request_id now =
     abind (alift (rbind (check (is_number timeout) (TypeError ''timeout must be a number'')) (\<lambda>_.
              rbind (py_float timeout (TypeError ''timeout must be a number'')) (\<lambda>timeout_value.
              rbind (check (isfinite timeout_value \<and> \<not> float_lt timeout_value 0)
                       (ValueError ''timeout must be finite and non-negative'')) (\<lambda>_.
              Inr timeout_value))))) (\<lambda>timeout_value.
     abind (if truthy now then areturn now
            else abind (utc_now env) (\<lambda>d. areturn (PDatetime d))) (\<lambda>now.
     abind (alift (rbind (parse_timestamp now) (\<lambda>requested.
              rbind (timedelta_us timeout_value) (\<lambda>us.
              rbind (add_timedelta requested us) (\<lambda>deadline.
              Inr (PDatetime (Datetime requested (Some 0)), PDatetime deadline)))))) (\<lambda>(requested, deadline).
     abind (if truthy request_id then areturn request_id
            else abind (uuid4 env) (\<lambda>u. areturn (PStr u))) (\<lambda>request_id.
     alift (rbind (case as_seq confirmation_predicates of
                     None \<Rightarrow> Inl (TypeError ''object is not iterable'')
                   | Some items \<Rightarrow> Inr (PTuple items)) (\<lambda>confirmation_predicates.
            mk_MutationRequest request_id expected_generation operation target requested deadline
              expected_sequence (if truthy payload then payload else PDict []) confirmation_predicates))))))"

definition is_expired :: "'w runtime \<Rightarrow> MutationRequest \<Rightarrow> pyval \<Rightarrow> ('w, bool) action" where
  "is_expired env request at =
     abind (if truthy at then areturn at else abind (utc_now env) (\<lambda>d. areturn (PDatetime d))) (\<lambda>at.
     alift (rbind (parse_timestamp at) (\<lambda>observed.
            rbind (parse_timestamp (PStr (rq_deadline_at request))) (\<lambda>deadline.
            Inr (deadline \<le> observed)))))"

section \<open>Native dispatch\<close>

definition ticket_fields :: "string list" where
  "ticket_fields =
     [''payload_version'', ''request_id'', ''operation'', ''dispatch_order'', ''disposition'',
      ''expected_generation'', ''expected_sequence'', ''observed_generation'', ''observed_sequence'',
      ''failure_code'']"

definition dict_item :: "(pyval \<times> pyval) list \<Rightarrow> string \<Rightarrow> pyval" where
  "dict_item kvs name = (case dict_get kvs name of None \<Rightarrow> PNone | Some v \<Rightarrow> v)"

text \<open>
  The keys of a native payload against the required ones; the names of unknown keys are
  joined into the message, which fails when one of them is not a string.
\<close>

definition exact_keys :: "string list \<Rightarrow> (pyval \<times> pyval) list \<Rightarrow> exn \<Rightarrow> exn \<Rightarrow> exn + unit" where
  "exact_keys required kvs missing_error unknown_error =
     (let extra = filter (\<lambda>kv. case as_str (fst kv) of None \<Rightarrow> True | Some n \<Rightarrow> n \<notin> set required) kvs
      in if list_ex (\<lambda>name. dict_get kvs name = None) required then Inl missing_error
         else if extra = [] then Inr ()
         else if list_all (\<lambda>kv. as_str (fst kv) \<noteq> None) extra then Inl unknown_error
         else Inl (TypeError ''expected str instance''))"

definition mutation_dispatch_ticket_from_payload :: "pyval \<Rightarrow> exn + MutationDispatchTicketValue" where
  "mutation_dispatch_ticket_from_payload payload =
     (case as_mapping payload of
        None \<Rightarrow> Inl (TypeError ''native mutation dispatch payload must be a mapping'')
      | Some kvs \<Rightarrow>
          rbind (exact_keys ticket_fields kvs
                   (ValueError ''native mutation dispatch payload is missing: '')
                   (ValueError ''native mutation dispatch payload has unknown fields: '')) (\<lambda>_.
          rbind (check (py_eq (dict_item kvs ''payload_version'') (PInt 1) \<and>
                        as_bool (dict_item kvs ''payload_version'') = None)
                   (ValueError ''unsupported native mutation dispatch payload version '')) (\<lambda>_.
          mk_MutationDispatchTicketValue (dict_item kvs ''request_id'') (dict_item kvs ''operation'')
            (dict_item kvs ''dispatch_order'') (dict_item kvs ''disposition'')
            (dict_item kvs ''expected_generation'') (dict_item kvs ''observed_generation'')
            (dict_item kvs ''observed_sequence'') (dict_item kvs ''expected_sequence'')
            (dict_item kvs ''failure_code''))))"

definition dispatch_runtime_mutation :: "'w runtime \<Rightarrow> MutationRequest \<Rightarrow> ('w, MutationDispatchTicketValue) action" where
  "dispatch_runtime_mutation env request =
     abind (alift (serialize (MutationRequest_obj request))) (\<lambda>payload.
     abind (dispatch_call env payload) (\<lambda>ticket.
     alift (mutation_dispatch_ticket_from_payload ticket)))"

section \<open>Observing a snapshot\<close>

text \<open>\<open>isinstance(value, int)\<close>, which a boolean satisfies.\<close>

definition int_or_bool :: "pyval \<Rightarrow> int option" where
  "int_or_bool v = (case v of PBool b \<Rightarrow> Some (if b then 1 else 0) | _ \<Rightarrow> as_int v)"

definition selector :: "MutationTargetValue \<Rightarrow> string \<Rightarrow> pyval" where
  "selector target name = (case map_of (tg_selector target) name of None \<Rightarrow> PNone | Some v \<Rightarrow> v)"

fun object_int :: "identity \<Rightarrow> int option" where
  "object_int (IntId i) = Some i"
| "object_int (StrId s) = None"

definition managed_links :: "RuntimeSnapshot \<Rightarrow> string \<Rightarrow> string \<Rightarrow> LinkValue list" where
  "managed_links s owner desired_id =
     filter (\<lambda>l. lk_owner l = Some owner \<and> lk_desired_id l = Some desired_id) (snap_links s)"

definition get_obj :: "('v \<Rightarrow> pyval) \<Rightarrow> ('k \<times> 'v) list \<Rightarrow> 'k \<Rightarrow> pyval" where
  "get_obj obj index k = (case map_of index k of None \<Rightarrow> PNone | Some v \<Rightarrow> obj v)"

text \<open>
  \<open>_snapshot_observation\<close>: the selector decides what is looked up, in this order; a value
  that is absent is observed as \<open>None\<close>.
\<close>

definition both :: "'a option \<Rightarrow> 'b option \<Rightarrow> ('a \<times> 'b) option" where
  "both x y = (case x of None \<Rightarrow> None | Some a \<Rightarrow> map_option (Pair a) y)"

definition latest_entry :: "RuntimeSnapshot \<Rightarrow> int \<Rightarrow> int \<Rightarrow> string \<Rightarrow> pyval" where
  "latest_entry s metadata_id subject key =
     (case map_of (metadata_by_id s) metadata_id of
        None \<Rightarrow> PNone
      | Some m \<Rightarrow>
          (case find (\<lambda>e. entry_subject e = subject \<and> entry_key e = key) (rev (md_entries m)) of
             None \<Rightarrow> PNone
           | Some e \<Rightarrow> MetadataEntryValue_obj e))"

definition object_of_kind :: "RuntimeSnapshot \<Rightarrow> RuntimeObjectKind \<Rightarrow> int \<Rightarrow> pyval" where
  "object_of_kind s kind i =
     (case kind of
        KDevice \<Rightarrow> get_obj DeviceValue_obj (devices_by_id s) i
      | KNode \<Rightarrow> get_obj NodeValue_obj (nodes_by_id s) i
      | KPort \<Rightarrow> get_obj PortValue_obj (ports_by_id s) i
      | KLink \<Rightarrow> get_obj LinkValue_obj (links_by_id s) i
      | KMetadata \<Rightarrow> get_obj MetadataValue_obj (metadata_by_id s) i
      | _ \<Rightarrow> PNone)"

definition snapshot_observation :: "RuntimeSnapshot \<Rightarrow> MutationTargetValue \<Rightarrow> pyval" where
  "snapshot_observation s target =
     (let kind = tg_object_kind target; object_id = object_int (tg_object_id target) in
      case (if kind = KLink then both (as_str (selector target ''owner'')) (as_str (selector target ''desired_id''))
            else None) of
        Some (owner, desired_id) \<Rightarrow>
          (case managed_links s owner desired_id of [l] \<Rightarrow> LinkValue_obj l | _ \<Rightarrow> PNone)
      | None \<Rightarrow>
      case both (int_or_bool (selector target ''profile_index'')) object_id of
        Some (index, device) \<Rightarrow> get_obj ProfileValue_obj (profiles_by_key s) (device, index)
      | None \<Rightarrow>
      case both (int_or_bool (selector target ''route_index'')) object_id of
        Some (index, device) \<Rightarrow> get_obj RouteValue_obj (routes_by_key s) (device, index)
      | None \<Rightarrow>
      case both (as_str (selector target ''parameter_id'')) object_id of
        Some (parameter, owner) \<Rightarrow>
          get_obj ParameterValue_obj (parameters_by_key s) (object_kind_value kind, owner, parameter)
      | None \<Rightarrow>
      case as_str (selector target ''defaults_field'') of
        Some name \<Rightarrow> get_obj id (DefaultsValue_fields (snap_defaults s)) name
      | None \<Rightarrow>
      case (if kind = KMetadata
            then both object_id (both (as_int (selector target ''subject'')) (as_str (selector target ''key'')))
            else None) of
        Some (metadata_id, subject, key) \<Rightarrow> latest_entry s metadata_id subject key
      | None \<Rightarrow>
      case object_id of None \<Rightarrow> PNone | Some i \<Rightarrow> object_of_kind s kind i)"

definition confirmation_of ::
    "RuntimeSnapshot \<Rightarrow> ConfirmationPredicateValue \<Rightarrow> pyval \<Rightarrow> exn + MutationConfirmationValue" where
  "confirmation_of s predicate observation =
     mk_MutationConfirmationValue (PInt (snap_generation s)) (PInt (snap_sequence s))
       (PStr (snap_captured_at s)) (ConfirmationPredicateValue_obj predicate) observation"

fun confirmations_from_snapshot ::
    "RuntimeSnapshot \<Rightarrow> ConfirmationPredicateValue list \<Rightarrow> exn + MutationConfirmationValue list" where
  "confirmations_from_snapshot s [] = Inr []"
| "confirmations_from_snapshot s (predicate # predicates) =
     (let observation = snapshot_observation s (cp_target predicate) in
      rbind (predicate_matches predicate observation) (\<lambda>matched.
      if matched
      then rbind (confirmation_of s predicate observation) (\<lambda>c.
           rbind (confirmations_from_snapshot s predicates) (\<lambda>cs. Inr (c # cs)))
      else confirmations_from_snapshot s predicates))"

section \<open>Outcomes\<close>

definition failure_outcome ::
    "'w runtime \<Rightarrow> MutationRequest \<Rightarrow> MutationStatus \<Rightarrow> MutationFailurePhase \<Rightarrow> MutationFailureCode \<Rightarrow> string \<Rightarrow>
     bool \<Rightarrow> pyval \<Rightarrow> MutationConfirmationValue list \<Rightarrow> ('w, MutationOutcome) action" where
  "failure_outcome env request status phase code message retryable details confirmations =
     abind (utc_now env) (\<lambda>now.
     alift (rbind (mk_MutationFailureValue (PStrEnum ''MutationFailurePhase'' (phase_value phase))
                     (PStrEnum ''MutationFailureCode'' (code_value code)) (PStr message)
                     (PBool retryable) details) (\<lambda>failure.
            mk_MutationOutcome (PStr (rq_request_id request)) (PInt (rq_expected_generation request))
              (PStrEnum ''MutationOperation'' (operation_value (rq_operation request)))
              (PStrEnum ''MutationStatus'' (status_value status)) (PDatetime now)
              (tuple_obj MutationConfirmationValue_obj confirmations) (MutationFailureValue_obj failure))))"

definition confirmed_outcome ::
    "MutationRequest \<Rightarrow> RuntimeSnapshot \<Rightarrow> MutationConfirmationValue list \<Rightarrow> exn + MutationOutcome" where
  "confirmed_outcome request s confirmations =
     mk_MutationOutcome (PStr (rq_request_id request)) (PInt (rq_expected_generation request))
       (PStrEnum ''MutationOperation'' (operation_value (rq_operation request)))
       (PStrEnum ''MutationStatus'' (status_value CONFIRMED)) (PStr (snap_captured_at s))
       (tuple_obj MutationConfirmationValue_obj confirmations) PNone"

definition runtime_unavailable_outcome ::
    "'w runtime \<Rightarrow> MutationRequest \<Rightarrow> exn \<Rightarrow> MutationConfirmationValue list \<Rightarrow> ('w, MutationOutcome) action" where
  "runtime_unavailable_outcome env request error confirmations =
     (let message = exn_message error;
          stopped = (str_contains ''stopped'' (str_lower message) \<or> str_contains ''not ready'' (str_lower message))
      in failure_outcome env request
           (if stopped then CANCELLED else FAILED) (if stopped then CANCELLATION else EXECUTION)
           (if stopped then RUNTIME_STOPPED else INTERNAL_ERROR) message False (PDict []) confirmations)"

definition ticket_status ::
    "MutationDispatchTicketValue \<Rightarrow> MutationStatus \<times> MutationFailurePhase \<times> MutationFailureCode" where
  "ticket_status ticket =
     (let code = (case tk_failure_code ticket of None \<Rightarrow> INTERNAL_ERROR | Some c \<Rightarrow> c) in
      if tk_disposition ticket = TicketCancelled then (CANCELLED, CANCELLATION, code)
      else if tk_disposition ticket = TicketFailed then (FAILED, EXECUTION, code)
      else if code = UNSUPPORTED_OPERATION then (REJECTED, VALIDATION, code)
      else (REJECTED, PRECONDITION, code))"

definition ticket_failure_outcome ::
    "'w runtime \<Rightarrow> MutationRequest \<Rightarrow> MutationDispatchTicketValue \<Rightarrow> ('w, MutationOutcome) action" where
  "ticket_failure_outcome env request ticket =
     (case ticket_status ticket of (status, phase, code) \<Rightarrow>
        failure_outcome env request status phase code
          (''native mutation dispatch returned '' @ code_value code) (code = GENERATION_LOST)
          (PDict [(PStr ''dispatch_order'', PInt (tk_dispatch_order ticket)),
                  (PStr ''observed_generation'', PInt (tk_observed_generation ticket)),
                  (PStr ''observed_sequence'', PInt (tk_observed_sequence ticket))]) [])"

section \<open>Confirmed execution\<close>

text \<open>
  One turn of the polling loop: it returns or raises, or the loop sleeps and goes round with
  the confirmations just observed.  A capture that raises a \<open>RuntimeError\<close> becomes an outcome,
  any other exception escapes.
\<close>

datatype turn = Finished "exn + MutationOutcome" | Unconfirmed "MutationConfirmationValue list"

definition finish :: "(exn + MutationOutcome) \<times> 'w world \<Rightarrow> turn \<times> 'w world" where
  "finish r = (Finished (fst r), snd r)"

definition confirmation_turn ::
    "'w runtime \<Rightarrow> MutationRequest \<Rightarrow> MutationConfirmationValue list \<Rightarrow> 'w world \<Rightarrow> turn \<times> 'w world" where
  "confirmation_turn env request confirmations w =
     (case is_expired env request PNone w of
        (Inl e, w1) \<Rightarrow> (Finished (Inl e), w1)
      | (Inr True, w1) \<Rightarrow>
          finish (failure_outcome env request TIMED_OUT CONFIRMATION CONFIRMATION_TIMEOUT
                    ''native mutation was accepted but state was not confirmed'' False (PDict []) confirmations w1)
      | (Inr False, w1) \<Rightarrow>
          (case capture_snapshot_call env w1 of
             (Inl e, w2) \<Rightarrow>
               if is_runtime_error e then finish (runtime_unavailable_outcome env request e confirmations w2)
               else (Finished (Inl e), w2)
           | (Inr snapshot, w2) \<Rightarrow>
               if snap_generation snapshot \<noteq> rq_expected_generation request
               then finish (failure_outcome env request CANCELLED CANCELLATION GENERATION_LOST
                              ''connection generation changed before confirmation'' False
                              (PDict [(PStr ''observed_generation'', PInt (snap_generation snapshot))])
                              confirmations w2)
               else (case confirmations_from_snapshot snapshot (rq_confirmation_predicates request) of
                       Inl e \<Rightarrow> (Finished (Inl e), w2)
                     | Inr observed \<Rightarrow>
                         if length observed = length (rq_confirmation_predicates request)
                         then (Finished (confirmed_outcome request snapshot observed), w2)
                         else (Unconfirmed observed, w2))))"

text \<open>The polling loop; \<open>None\<close> would be an execution that never returns.\<close>

partial_function (option) confirmation_loop ::
    "'w runtime \<Rightarrow> MutationRequest \<Rightarrow> MutationConfirmationValue list \<Rightarrow> 'w world \<Rightarrow>
     ((exn + MutationOutcome) \<times> 'w world) option" where
  "confirmation_loop env request confirmations w =
     (case confirmation_turn env request confirmations w of
        (Finished r, w') \<Rightarrow> Some (r, w')
      | (Unconfirmed observed, w') \<Rightarrow> confirmation_loop env request observed (sleep env w'))"

text \<open>\<open>dataclasses.replace(request, expected_sequence=...)\<close> runs the constructor again.\<close>

definition with_sequence :: "MutationRequest \<Rightarrow> int \<Rightarrow> exn + MutationRequest" where
  "with_sequence request n =
     init_MutationRequest (alist_set ''expected_sequence'' (PInt n) (MutationRequest_fields request))"

definition dispatch_and_confirm ::
    "'w runtime \<Rightarrow> MutationRequest \<Rightarrow> 'w world \<Rightarrow> ((exn + MutationOutcome) \<times> 'w world) option" where
  "dispatch_and_confirm env request w =
     (case dispatch_runtime_mutation env request w of
        (Inl e, w1) \<Rightarrow> Some (Inl e, w1)
      | (Inr ticket, w1) \<Rightarrow>
          if tk_disposition ticket \<noteq> TicketReady then Some (ticket_failure_outcome env request ticket w1)
          else confirmation_loop env request [] w1)"

definition check_preflight ::
    "'w runtime \<Rightarrow> MutationRequest \<Rightarrow> RuntimeSnapshot \<Rightarrow> 'w world \<Rightarrow> ((exn + MutationOutcome) \<times> 'w world) option" where
  "check_preflight env request preflight w =
     (if snap_generation preflight \<noteq> rq_expected_generation request
      then Some (failure_outcome env request REJECTED PRECONDITION STALE_GENERATION
                   (''expected generation '' @ show_int (rq_expected_generation request) @ '', observed '' @
                    show_int (snap_generation preflight)) False
                   (PDict [(PStr ''observed_generation'', PInt (snap_generation preflight))]) [] w)
      else if rq_expected_sequence request \<noteq> None \<and>
              snap_sequence preflight \<noteq> the (rq_expected_sequence request) + 1
      then Some (failure_outcome env request REJECTED PRECONDITION STALE_SEQUENCE
                   (''expected projection sequence '' @ show_int (the (rq_expected_sequence request)) @
                    '', preflight captured sequence '' @ show_int (snap_sequence preflight)) False
                   (PDict [(PStr ''observed_sequence'', PInt (snap_sequence preflight))]) [] w)
      else
        (case confirmations_from_snapshot preflight (rq_confirmation_predicates request) of
           Inl e \<Rightarrow> Some (Inl e, w)
         | Inr confirmations \<Rightarrow>
             if length confirmations = length (rq_confirmation_predicates request)
             then Some (confirmed_outcome request preflight confirmations, w)
             else (case is_expired env request PNone w of
                (Inl e, w1) \<Rightarrow> Some (Inl e, w1)
              | (Inr True, w1) \<Rightarrow>
                  Some (failure_outcome env request TIMED_OUT DEADLINE DEADLINE_EXPIRED
                          ''mutation deadline expired during runtime preflight'' False (PDict []) confirmations w1)
              | (Inr False, w1) \<Rightarrow>
                  (case (if rq_expected_sequence request \<noteq> None
                         then with_sequence request (snap_sequence preflight) else Inr request) of
                     Inl e \<Rightarrow> Some (Inl e, w1)
                   | Inr dispatched_request \<Rightarrow> dispatch_and_confirm env dispatched_request w1))))"

definition execute_confirmed_mutation ::
    "'w runtime \<Rightarrow> MutationRequest \<Rightarrow> RuntimeSnapshot option \<Rightarrow> 'w world \<Rightarrow>
     ((exn + MutationOutcome) \<times> 'w world) option" where
  "execute_confirmed_mutation env request preflight w =
     (case is_expired env request PNone w of
        (Inl e, w1) \<Rightarrow> Some (Inl e, w1)
      | (Inr True, w1) \<Rightarrow>
          Some (failure_outcome env request TIMED_OUT DEADLINE DEADLINE_EXPIRED
                  ''mutation deadline expired before runtime preflight'' False (PDict []) [] w1)
      | (Inr False, w1) \<Rightarrow>
          (case preflight of
             Some snapshot \<Rightarrow> check_preflight env request snapshot w1
           | None \<Rightarrow>
               (case capture_snapshot_call env w1 of
                  (Inl e, w2) \<Rightarrow>
                    if is_runtime_error e then Some (runtime_unavailable_outcome env request e [] w2)
                    else Some (Inl e, w2)
                | (Inr snapshot, w2) \<Rightarrow> check_preflight env request snapshot w2)))"

section \<open>Confirmations\<close>

lemma mk_MutationConfirmationValue_fields:
  assumes "mk_MutationConfirmationValue (PInt g) (PInt n) t (ConfirmationPredicateValue_obj p) obs = Inr c"
    and "ConfirmationPredicateValue_ok p"
  shows "cf_generation c = g" "cf_sequence c = n" "cf_predicate c = p" "0 \<le> g" "0 \<le> n"
    "predicate_matches p (cf_observation c) = Inr True" "contract_value obs = Inr (cf_observation c)"
  using assms
  by (auto simp: mk_MutationConfirmationValue_def validator_simps val_ConfirmationPredicateValue_obj
    elim!: rbind_InrE)

lemma confirmations_sound:
  assumes "confirmations_from_snapshot s ps = Inr cs" "list_all ConfirmationPredicateValue_ok ps"
  shows "length cs \<le> length ps \<and> list_all (\<lambda>c. cf_generation c = snap_generation s) cs \<and>
    (length cs = length ps \<longrightarrow> map cf_predicate cs = ps) \<and>
    (length cs = length ps \<longleftrightarrow>
       list_all (\<lambda>p. predicate_matches p (snapshot_observation s (cp_target p)) = Inr True) ps)"
  using assms
proof (induction ps arbitrary: cs)
  case (Cons p ps)
  show ?case
  proof (cases "predicate_matches p (snapshot_observation s (cp_target p)) = Inr True")
    case True
    with Cons.prems(1) obtain c cs' where c: "confirmation_of s p (snapshot_observation s (cp_target p)) = Inr c"
        "confirmations_from_snapshot s ps = Inr cs'" "cs = c # cs'"
      by (auto simp: Let_def elim!: rbind_InrE)
    have "cf_generation c = snap_generation s" "cf_predicate c = p"
      using c(1) Cons.prems(2) mk_MutationConfirmationValue_fields unfolding confirmation_of_def by auto
    then show ?thesis using Cons.IH [OF c(2)] Cons.prems(2) True unfolding c(3) by simp
  next
    case False
    with Cons.prems(1) have "confirmations_from_snapshot s ps = Inr cs"
      by (auto simp: Let_def elim!: rbind_InrE split: if_splits)
    from Cons.IH [OF this] Cons.prems(2) False show ?thesis by simp
  qed
qed simp

text \<open>Every predicate of the request holds of the snapshot, which is of the request's generation.\<close>

definition observed_in :: "MutationRequest \<Rightarrow> RuntimeSnapshot \<Rightarrow> bool" where
  "observed_in request s \<longleftrightarrow>
     snap_generation s = rq_expected_generation request \<and>
     list_all (\<lambda>p. predicate_matches p (snapshot_observation s (cp_target p)) = Inr True)
       (rq_confirmation_predicates request)"

section \<open>Outcomes answer the request\<close>

definition answers :: "MutationRequest \<Rightarrow> MutationOutcome \<Rightarrow> bool" where
  "answers request x \<longleftrightarrow>
     oc_request_id x = rq_request_id request \<and> oc_generation x = rq_expected_generation request \<and>
     oc_operation x = rq_operation request"

lemma classified_iff:
  "str_enum val members \<Longrightarrow> classified val members (PStrEnum c (val m)) message = Inr m' \<longleftrightarrow> m' = m"
  by (auto simp: classified_def str_enum.val_enum_member)

lemma mk_MutationOutcome_fields:
  assumes "mk_MutationOutcome (PStr i) (PInt g) (PStrEnum c (operation_value p)) (PStrEnum c' (status_value st))
      t cs f = Inr x"
  shows "oc_request_id x = i" "oc_generation x = g" "oc_operation x = p" "oc_status x = st"
    "val_runtime_values as_MutationConfirmationValue ''MutationConfirmationValue'' cs ''confirmations'' =
       Inr (oc_confirmations x)"
    "val_optional_instance as_MutationFailureValue ''MutationFailureValue'' f ''failure'' = Inr (oc_failure x)"
    "outcome_consistent (oc_status x) (oc_confirmations x) (oc_failure x) = Inr ()"
  using assms
  by (auto simp: mk_MutationOutcome_def validator_simps
    classified_iff [OF operation.str_enum_axioms] classified_iff [OF status.str_enum_axioms]
    elim!: rbind_InrE)

lemma failure_outcome_calls: "calls (snd (failure_outcome env rq st ph c m rt d cs w)) = calls w"
  by (auto simp: failure_outcome_def abind_def alift_def utc_now_def split: prod.split sum.split)

lemma failure_outcome_answers:
  assumes "failure_outcome env rq st ph c m rt d cs w = (Inr x, w')"
  shows "answers rq x \<and> oc_status x = st"
proof -
  have "\<exists>t f. mk_MutationOutcome (PStr (rq_request_id rq)) (PInt (rq_expected_generation rq))
      (PStrEnum ''MutationOperation'' (operation_value (rq_operation rq)))
      (PStrEnum ''MutationStatus'' (status_value st)) t (tuple_obj MutationConfirmationValue_obj cs) f = Inr x"
    using assms
    by (auto simp: failure_outcome_def abind_def alift_def utc_now_def split: prod.splits sum.splits elim!: rbind_InrE)
  then show ?thesis using mk_MutationOutcome_fields by (auto simp: answers_def)
qed

lemma confirmed_outcome_answers:
  assumes "confirmed_outcome rq s cs = Inr x"
  shows "answers rq x \<and> oc_status x = CONFIRMED"
  using mk_MutationOutcome_fields [OF assms [unfolded confirmed_outcome_def]] by (simp add: answers_def)

lemma runtime_unavailable_answers:
  assumes "runtime_unavailable_outcome env rq e cs w = (Inr x, w')"
  shows "answers rq x \<and> oc_status x \<noteq> CONFIRMED"
  using failure_outcome_answers [OF assms [unfolded runtime_unavailable_outcome_def Let_def]] by auto

lemma runtime_unavailable_calls: "calls (snd (runtime_unavailable_outcome env rq e cs w)) = calls w"
  by (simp add: runtime_unavailable_outcome_def Let_def failure_outcome_calls)

lemma ticket_failure_answers:
  assumes "ticket_failure_outcome env rq tk w = (Inr x, w')"
  shows "answers rq x \<and> oc_status x \<noteq> CONFIRMED"
  using assms unfolding ticket_failure_outcome_def ticket_status_def Let_def
  by (auto split: if_splits dest!: failure_outcome_answers)

lemma ticket_failure_calls: "calls (snd (ticket_failure_outcome env rq tk w)) = calls w"
  by (simp add: ticket_failure_outcome_def failure_outcome_calls split: prod.split)

lemma is_expired_calls: "calls (snd (is_expired env rq at w)) = calls w"
  by (auto simp: is_expired_def abind_def alift_def areturn_def utc_now_def split: prod.split sum.split)

lemma capture_calls: "capture_snapshot_call env w = (r, w') \<Longrightarrow> calls w' = calls w @ [Captured r]"
  by (auto simp: capture_snapshot_call_def split: prod.splits)

lemmas unlogged = failure_outcome_calls runtime_unavailable_calls ticket_failure_calls is_expired_calls

section \<open>The polling loop\<close>

text \<open>
  What a returned result of the loop guarantees, and of the calls it made: no further
  dispatch, and a confirmed outcome rests on the last snapshot captured.
\<close>

definition no_dispatch :: "call list \<Rightarrow> bool" where
  "no_dispatch cs \<longleftrightarrow> (\<forall>payload r. Dispatched payload r \<notin> set cs)"

definition sound_result :: "MutationRequest \<Rightarrow> exn + MutationOutcome \<Rightarrow> call list \<Rightarrow> bool" where
  "sound_result rq r cs \<longleftrightarrow>
     (\<forall>x. r = Inr x \<longrightarrow> answers rq x \<and>
        (oc_status x = CONFIRMED \<longrightarrow> (\<exists>s. cs \<noteq> [] \<and> last cs = Captured (Inr s) \<and> observed_in rq s)))"

lemma no_dispatch_simps [simp]:
  "no_dispatch []" "no_dispatch (Captured r # cs) = no_dispatch cs" "no_dispatch (Slept # cs) = no_dispatch cs"
  "no_dispatch (cs @ ds) \<longleftrightarrow> no_dispatch cs \<and> no_dispatch ds" "\<not> no_dispatch (Dispatched p q # cs)"
  by (auto simp: no_dispatch_def)

lemma finish_eq: "finish r = (t, w) \<longleftrightarrow> t = Finished (fst r) \<and> w = snd r"
  by (auto simp: finish_def)

text \<open>The three ways a turn ends: without success, confirmed, or to be repeated.\<close>

definition unsuccessful :: "MutationRequest \<Rightarrow> exn + MutationOutcome \<Rightarrow> bool" where
  "unsuccessful rq r \<longleftrightarrow> (\<forall>x. r = Inr x \<longrightarrow> answers rq x \<and> oc_status x \<noteq> CONFIRMED)"

lemma unsuccessful_Inl [simp]: "unsuccessful rq (Inl e)"
  by (simp add: unsuccessful_def)

lemma unsuccessful_failure: "st \<noteq> CONFIRMED \<Longrightarrow> unsuccessful rq (fst (failure_outcome env rq st ph c m rt d cs w))"
  using failure_outcome_answers [of env rq st ph c m rt d cs w] unfolding unsuccessful_def
  by (cases "failure_outcome env rq st ph c m rt d cs w") auto

lemma unsuccessful_unavailable: "unsuccessful rq (fst (runtime_unavailable_outcome env rq e cs w))"
  using runtime_unavailable_answers [of env rq e cs w] unfolding unsuccessful_def
  by (cases "runtime_unavailable_outcome env rq e cs w") auto

lemma unsuccessful_ticket: "unsuccessful rq (fst (ticket_failure_outcome env rq tk w))"
  using ticket_failure_answers [of env rq tk w] unfolding unsuccessful_def
  by (cases "ticket_failure_outcome env rq tk w") auto

lemma failure_outcome_result:
  "failure_outcome env rq st ph c m rt d cs w = (r, w') \<Longrightarrow> st \<noteq> CONFIRMED \<Longrightarrow>
     unsuccessful rq r \<and> calls w' = calls w"
  using unsuccessful_failure [of st rq env ph c m rt d cs w] failure_outcome_calls [of env rq st ph c m rt d cs w]
  by simp

lemma runtime_unavailable_result:
  "runtime_unavailable_outcome env rq e cs w = (r, w') \<Longrightarrow> unsuccessful rq r \<and> calls w' = calls w"
  using unsuccessful_unavailable [of rq env e cs w] runtime_unavailable_calls [of env rq e cs w] by simp

lemma ticket_failure_result:
  "ticket_failure_outcome env rq tk w = (r, w') \<Longrightarrow> unsuccessful rq r \<and> calls w' = calls w"
  using unsuccessful_ticket [of rq env tk w] ticket_failure_calls [of env rq tk w] by simp

lemmas unsuccessful_results = unsuccessful_failure unsuccessful_unavailable unsuccessful_ticket

lemma confirmation_turn_cases:
  assumes "confirmation_turn env rq cs w = (t, w')"
  obtains
    (failed) r log where "t = Finished r" "unsuccessful rq r" "calls w' = calls w @ log" "no_dispatch log"
  | (confirmed) s observed where "t = Finished (confirmed_outcome rq s observed)"
      "calls w' = calls w @ [Captured (Inr s)]" "snap_generation s = rq_expected_generation rq"
      "confirmations_from_snapshot s (rq_confirmation_predicates rq) = Inr observed"
      "length observed = length (rq_confirmation_predicates rq)"
  | (unconfirmed) s observed where "t = Unconfirmed observed"
      "calls w' = calls w @ [Captured (Inr s)]" "snap_generation s = rq_expected_generation rq"
      "confirmations_from_snapshot s (rq_confirmation_predicates rq) = Inr observed"
      "length observed \<noteq> length (rq_confirmation_predicates rq)"
proof -
  obtain x w1 where x: "is_expired env rq PNone w = (x, w1)" by force
  have w1: "calls w1 = calls w" using is_expired_calls [of env rq PNone w] x by simp
  show ?thesis
  proof (cases "x = Inr False")
    case False
    then have "\<exists>r. t = Finished r \<and> unsuccessful rq r \<and> calls w' = calls w"
      using assms x w1 by (cases x)
        (auto simp: confirmation_turn_def finish_eq unlogged unsuccessful_results)
    then show ?thesis using failed [of _ "[]"] by auto
  next
    case True
    obtain y w2 where y: "capture_snapshot_call env w1 = (y, w2)" by force
    have w2: "calls w2 = calls w @ [Captured y]" using capture_calls [OF y] w1 by simp
    show ?thesis
    proof (cases y)
      case (Inl e)
      then have "\<exists>r. t = Finished r \<and> unsuccessful rq r \<and> calls w' = calls w @ [Captured y]"
        using assms x y True w2
        by (auto simp: confirmation_turn_def finish_eq unlogged unsuccessful_results split: if_splits)
      then show ?thesis using failed [of _ "[Captured y]"] by auto
    next
      case (Inr s)
      show ?thesis
      proof (cases "snap_generation s = rq_expected_generation rq \<and>
          (\<exists>observed. confirmations_from_snapshot s (rq_confirmation_predicates rq) = Inr observed)")
        case False
        then have "\<exists>r. t = Finished r \<and> unsuccessful rq r \<and> calls w' = calls w @ [Captured y]"
          using assms x y True w2 Inr
          by (auto simp: confirmation_turn_def finish_eq unlogged unsuccessful_results split: if_splits sum.splits)
        then show ?thesis using failed [of _ "[Captured y]"] by auto
      next
        case G: True
        then obtain observed where o: "confirmations_from_snapshot s (rq_confirmation_predicates rq) = Inr observed"
          by blast
        show ?thesis
          using assms x y True w2 Inr G o confirmed [of s observed] unconfirmed [of observed s]
          by (auto simp: confirmation_turn_def split: if_splits)
      qed
    qed
  qed
qed

lemma observed_inI:
  assumes "MutationRequest_ok rq" "snap_generation s = rq_expected_generation rq"
    and "confirmations_from_snapshot s (rq_confirmation_predicates rq) = Inr observed"
    and "length observed = length (rq_confirmation_predicates rq)"
  shows "observed_in rq s"
  using confirmations_sound [OF assms(3)] assms by (simp add: observed_in_def MutationRequest_ok_def)

lemma confirmation_loop_sound:
  assumes "confirmation_loop env rq cs w = Some (r, w')" "MutationRequest_ok rq"
  shows "\<exists>log. calls w' = calls w @ log \<and> no_dispatch log \<and> sound_result rq r log"
proof -
  let ?P = "\<lambda>env rq cs w y. MutationRequest_ok rq \<longrightarrow>
    (\<exists>log. calls (snd y) = calls w @ log \<and> no_dispatch log \<and> sound_result rq (fst y) log)"
  have "?P env rq cs w (r, w')"
  proof (rule confirmation_loop.raw_induct [OF _ assms(1), of ?P], intro impI, goal_cases)
    case (1 loop env rq cs w y)
    obtain t w1 where t: "confirmation_turn env rq cs w = (t, w1)" by force
    from t show ?case
    proof (cases rule: confirmation_turn_cases)
      case (failed r log)
      with 1(2) t show ?thesis by (auto simp: sound_result_def unsuccessful_def)
    next
      case (confirmed s observed)
      have "observed_in rq s" using observed_inI 1(3) confirmed by blast
      with confirmed 1(2) t show ?thesis
        by (auto simp: sound_result_def dest: confirmed_outcome_answers)
    next
      case (unconfirmed s observed)
      with 1(2) t have "loop env rq observed (sleep env w1) = Some y" by simp
      from 1(1) [OF this] 1(3) obtain log where
        log: "calls (snd y) = calls (sleep env w1) @ log" "no_dispatch log" "sound_result rq (fst y) log"
        by blast
      show ?thesis
        by (rule exI [of _ "[Captured (Inr s), Slept] @ log"])
          (use log unconfirmed(2) in \<open>auto simp: sleep_def sound_result_def\<close>)
    qed
  qed
  with assms(2) show ?thesis by simp
qed

section \<open>The whole execution\<close>

lemma MutationRequest_fields_sequence:
  "MutationRequest_fields (rq\<lparr>rq_expected_sequence := Some n\<rparr>) =
     alist_set ''expected_sequence'' (PInt n) (MutationRequest_fields rq)"
  by (simp add: MutationRequest_fields_def)

lemma with_sequence_eq:
  "MutationRequest_ok rq \<Longrightarrow> 0 \<le> n \<Longrightarrow> with_sequence rq n = Inr (rq\<lparr>rq_expected_sequence := Some n\<rparr>)"
  using init_MutationRequest_obj [of "rq\<lparr>rq_expected_sequence := Some n\<rparr>"]
  by (simp add: with_sequence_def MutationRequest_fields_sequence MutationRequest_ok_def)

text \<open>The request that reaches the native dispatcher: the preflight sequence is its precondition.\<close>

definition dispatched_request :: "MutationRequest \<Rightarrow> RuntimeSnapshot \<Rightarrow> MutationRequest" where
  "dispatched_request rq s =
     (case rq_expected_sequence rq of
        None \<Rightarrow> rq
      | Some n \<Rightarrow> rq\<lparr>rq_expected_sequence := Some (snap_sequence s)\<rparr>)"

lemma dispatched_request_simps [simp]:
  "answers (dispatched_request rq s) x = answers rq x"
  "observed_in (dispatched_request rq s) s' = observed_in rq s'"
  "sound_result (dispatched_request rq s) r cs = sound_result rq r cs"
  "unsuccessful (dispatched_request rq s) r = unsuccessful rq r"
  by (simp_all add: dispatched_request_def answers_def observed_in_def sound_result_def unsuccessful_def
    split: option.split)

lemma dispatched_request_deadline: "rq_deadline_at (dispatched_request rq s) = rq_deadline_at rq"
  by (simp add: dispatched_request_def split: option.split)

lemma dispatched_request_ok:
  "MutationRequest_ok rq \<Longrightarrow> 0 \<le> snap_sequence s \<Longrightarrow> MutationRequest_ok (dispatched_request rq s)"
  by (auto simp: dispatched_request_def MutationRequest_ok_def split: option.split)

text \<open>The snapshot the dispatch is allowed from.\<close>

definition dispatchable :: "MutationRequest \<Rightarrow> RuntimeSnapshot \<Rightarrow> bool" where
  "dispatchable rq s \<longleftrightarrow>
     snap_generation s = rq_expected_generation rq \<and>
     (\<forall>n. rq_expected_sequence rq = Some n \<longrightarrow> snap_sequence s = n + 1) \<and> \<not> observed_in rq s"

lemma dispatch_and_confirm_sound:
  assumes "dispatch_and_confirm env rq w = Some (r, w')" "MutationRequest_ok rq"
  shows "(calls w' = calls w \<and> unsuccessful rq r) \<or>
    (\<exists>payload q log. calls w' = calls w @ Dispatched payload q # log \<and> no_dispatch log \<and>
       serialize (MutationRequest_obj rq) = Inr payload \<and> sound_result rq r log)"
proof (cases "serialize (MutationRequest_obj rq)")
  case (Inl e)
  with assms(1) show ?thesis
    by (auto simp: dispatch_and_confirm_def dispatch_runtime_mutation_def abind_def alift_def)
next
  case (Inr payload)
  obtain q w1 where q: "dispatch_call env payload w = (q, w1)" by force
  have w1: "calls w1 = calls w @ [Dispatched payload q]"
    using q by (auto simp: dispatch_call_def split: prod.splits)
  let ?t = "rbind q mutation_dispatch_ticket_from_payload"
  have d: "dispatch_runtime_mutation env rq w = (?t, w1)"
    using Inr q by (cases q) (simp_all add: dispatch_runtime_mutation_def abind_def alift_def)
  show ?thesis
  proof (cases "\<exists>tk. ?t = Inr tk \<and> tk_disposition tk = TicketReady")
    case True
    then have "confirmation_loop env rq [] w1 = Some (r, w')"
      using assms(1) d by (auto simp: dispatch_and_confirm_def)
    from confirmation_loop_sound [OF this assms(2)] show ?thesis using w1 Inr by auto
  next
    case False
    then have "unsuccessful rq r \<and> calls w' = calls w1"
      using assms(1) d
      by (auto simp: dispatch_and_confirm_def split: sum.splits dest!: ticket_failure_result)
    then show ?thesis using w1 Inr by (auto simp: sound_result_def unsuccessful_def)
  qed
qed

text \<open>
  The guarantee of an execution from its preflight snapshot \<open>s\<close>: either nothing is dispatched,
  and a confirmed outcome rests on the preflight itself; or the one dispatch is allowed by the
  preflight and carries its sequence, and a confirmed outcome rests on the last capture.
\<close>

definition execution_sound ::
    "MutationRequest \<Rightarrow> RuntimeSnapshot \<Rightarrow> exn + MutationOutcome \<Rightarrow> call list \<Rightarrow> bool" where
  "execution_sound rq s r log \<longleftrightarrow>
     (log = [] \<and> (\<forall>x. r = Inr x \<longrightarrow> answers rq x \<and> (oc_status x = CONFIRMED \<longrightarrow> observed_in rq s))) \<or>
     (\<exists>payload q rest. log = Dispatched payload q # rest \<and> no_dispatch rest \<and> dispatchable rq s \<and>
        serialize (MutationRequest_obj (dispatched_request rq s)) = Inr payload \<and> sound_result rq r rest)"

lemma execution_sound_unsuccessful: "unsuccessful rq r \<Longrightarrow> execution_sound rq s r []"
  by (auto simp: execution_sound_def unsuccessful_def)

lemma check_preflight_stale:
  assumes "check_preflight env rq s w = Some (r, w')"
    and "\<not> (snap_generation s = rq_expected_generation rq \<and>
      (\<forall>n. rq_expected_sequence rq = Some n \<longrightarrow> snap_sequence s = n + 1))"
  shows "unsuccessful rq r \<and> calls w' = calls w"
  using assms by (auto simp: check_preflight_def dest!: failure_outcome_result split: if_splits)

lemma check_preflight_sound:
  assumes ex: "check_preflight env rq s w = Some (r, w')"
    and ok: "MutationRequest_ok rq" and seq: "0 \<le> snap_sequence s"
  shows "\<exists>log. calls w' = calls w @ log \<and> execution_sound rq s r log"
proof (cases "snap_generation s = rq_expected_generation rq \<and>
    (\<forall>n. rq_expected_sequence rq = Some n \<longrightarrow> snap_sequence s = n + 1)")
  case False
  then show ?thesis using check_preflight_stale [OF ex] execution_sound_unsuccessful by fastforce
next
  case fresh: True
  then have fresh': "\<not> (rq_expected_sequence rq \<noteq> None \<and> snap_sequence s \<noteq> the (rq_expected_sequence rq) + 1)"
    by (cases "rq_expected_sequence rq") auto
  show ?thesis
  proof (cases "confirmations_from_snapshot s (rq_confirmation_predicates rq)")
    case (Inl e)
    then show ?thesis
      using ex fresh fresh' by (auto simp: check_preflight_def intro!: execution_sound_unsuccessful)
  next
    case (Inr cs)
    show ?thesis
    proof (cases "length cs = length (rq_confirmation_predicates rq)")
      case True
      then have "r = confirmed_outcome rq s cs \<and> w' = w"
        using ex fresh fresh' Inr by (auto simp: check_preflight_def)
      then show ?thesis
        using observed_inI [OF ok _ Inr True] fresh
        by (cases r) (auto simp: execution_sound_def dest: confirmed_outcome_answers)
    next
      case unmet: False
      have not_observed: "\<not> observed_in rq s"
        using confirmations_sound [OF Inr] ok unmet by (simp add: observed_in_def MutationRequest_ok_def)
      obtain x w1 where x: "is_expired env rq PNone w = (x, w1)" by force
      have w1: "calls w1 = calls w" using is_expired_calls [of env rq PNone w] x by simp
      have dr: "(if rq_expected_sequence rq \<noteq> None then with_sequence rq (snap_sequence s) else Inr rq)
          = Inr (dispatched_request rq s)"
        using with_sequence_eq [OF ok seq] by (auto simp: dispatched_request_def split: option.split)
      show ?thesis
      proof (cases "x = Inr False")
        case False
        then have "unsuccessful rq r \<and> calls w' = calls w"
          using ex fresh fresh' Inr unmet x w1
          by (cases x) (auto simp: check_preflight_def dest!: failure_outcome_result)
        then show ?thesis using execution_sound_unsuccessful by fastforce
      next
        case True
        then have "dispatch_and_confirm env (dispatched_request rq s) w1 = Some (r, w')"
          using ex fresh fresh' Inr unmet x dr by (simp add: check_preflight_def del: not_None_eq)
        from dispatch_and_confirm_sound [OF this dispatched_request_ok [OF ok seq]] show ?thesis
          using w1 fresh not_observed
          by (auto simp: execution_sound_def dispatchable_def unsuccessful_def)
      qed
    qed
  qed
qed

lemma execute_sound:
  assumes ex: "execute_confirmed_mutation env rq preflight w = Some (r, w')"
    and ok: "MutationRequest_ok rq"
    and snapshots: "\<And>s. preflight = Some s \<or> (\<exists>w. fst (capture_snapshot_call env w) = Inr s) \<Longrightarrow> 0 \<le> snap_sequence s"
  shows "\<exists>log. calls w' = calls w @ log \<and>
    ((unsuccessful rq r \<and> no_dispatch log) \<or>
     (\<exists>s rest. (preflight = Some s \<and> log = rest \<or> preflight = None \<and> log = Captured (Inr s) # rest) \<and>
        0 \<le> snap_sequence s \<and> execution_sound rq s r rest))"
proof -
  obtain x w1 where x: "is_expired env rq PNone w = (x, w1)" by force
  have w1: "calls w1 = calls w" using is_expired_calls [of env rq PNone w] x by simp
  show ?thesis
  proof (cases "x = Inr False")
    case False
    then have "unsuccessful rq r \<and> calls w' = calls w"
      using ex x w1 by (cases x) (auto simp: execute_confirmed_mutation_def dest!: failure_outcome_result)
    then show ?thesis by auto
  next
    case True
    show ?thesis
    proof (cases preflight)
      case (Some s)
      then have "check_preflight env rq s w1 = Some (r, w')"
        using ex x True by (simp add: execute_confirmed_mutation_def)
      from check_preflight_sound [OF this ok snapshots] Some w1 snapshots [of s] show ?thesis by auto
    next
      case None
      obtain y w2 where y: "capture_snapshot_call env w1 = (y, w2)" by force
      have w2: "calls w2 = calls w @ [Captured y]" using capture_calls [OF y] w1 by simp
      show ?thesis
      proof (cases y)
        case (Inl e)
        then have "unsuccessful rq r \<and> calls w' = calls w @ [Captured y]"
          using ex x True None y w2
          by (auto simp: execute_confirmed_mutation_def dest!: runtime_unavailable_result split: if_splits)
        then show ?thesis by (intro exI [of _ "[Captured y]"]) simp
      next
        case (Inr s)
        then have "check_preflight env rq s w2 = Some (r, w')"
          using ex x True None y by (simp add: execute_confirmed_mutation_def)
        moreover have seq: "0 \<le> snap_sequence s"
          using snapshots [of s] y Inr by (metis fst_conv)
        ultimately obtain log where "calls w' = calls w2 @ log" "execution_sound rq s r log"
          using check_preflight_sound [OF _ ok] by blast
        then show ?thesis
          using w2 Inr None seq by (intro exI [of _ "Captured (Inr s) # log"]) auto
      qed
    qed
  qed
qed

section \<open>Termination\<close>

text \<open>
  What the loop needs of the clock to end: it reads valid instants, no call moves it back, and
  \<open>sleep(0.01)\<close> moves it forward by at least a microsecond as long as it is before \<open>limit\<close>.
\<close>

definition env_time :: "'w runtime \<Rightarrow> 'w \<Rightarrow> int" where
  "env_time env s = utc_instant (fst (env_clock env s))"

definition clock_advances :: "'w runtime \<Rightarrow> int \<Rightarrow> bool" where
  "clock_advances env limit \<longleftrightarrow>
     (\<forall>s. clock_ok (fst (env_clock env s)) \<and>
        env_time env s \<le> env_time env (snd (env_clock env s)) \<and>
        env_time env s \<le> env_time env (snd (env_capture env s)) \<and>
        env_time env s \<le> env_time env (env_sleep env s) \<and>
        (env_time env s < limit \<longrightarrow> env_time env s < env_time env (env_sleep env s)))"

lemma parse_timestamp_clock: "clock_ok d \<Longrightarrow> parse_timestamp (PDatetime d) = Inr (utc_instant d)"
  by (auto simp: clock_ok_def parse_timestamp_def val_named_timestamp_def val_timestamp_def to_utc_def Let_def
    parse_render_utc utc_instant_def)

lemma is_expired_clock:
  assumes "clock_ok (fst (env_clock env (env_state w)))" "MutationRequest_ok rq"
  shows "is_expired env rq PNone w =
    (Inr (instant (rq_deadline_at rq) \<le> env_time env (env_state w)), w\<lparr>env_state := snd (env_clock env (env_state w))\<rparr>)"
  using assms
  by (cases "env_clock env (env_state w)") (simp add: is_expired_def abind_def alift_def areturn_def utc_now_def parse_timestamp_clock
    parse_timestamp_stored MutationRequest_ok_def env_time_def)

lemma confirmation_turn_progress:
  assumes "confirmation_turn env rq cs w = (Unconfirmed observed, w')" "clock_advances env (instant (rq_deadline_at rq))" "MutationRequest_ok rq"
  shows "env_time env (env_state w) \<le> env_time env (env_state w') \<and>
    env_time env (env_state w) < instant (rq_deadline_at rq)"
proof -
  define w1 where "w1 = w\<lparr>env_state := snd (env_clock env (env_state w))\<rparr>"
  have x: "is_expired env rq PNone w = (Inr (instant (rq_deadline_at rq) \<le> env_time env (env_state w)), w1)"
    using is_expired_clock assms(2,3) by (auto simp: clock_advances_def w1_def)
  have alive: "\<not> instant (rq_deadline_at rq) \<le> env_time env (env_state w)"
    using assms(1) x by (auto simp: confirmation_turn_def finish_def)
  have "w' = snd (capture_snapshot_call env w1)"
    using assms(1) x alive
    by (auto simp: confirmation_turn_def finish_def split: prod.splits sum.splits if_splits)
  then have "env_state w' = snd (env_capture env (snd (env_clock env (env_state w))))"
    by (simp add: capture_snapshot_call_def w1_def split: prod.split)
  moreover have "env_time env (env_state w) \<le> env_time env (snd (env_clock env (env_state w)))"
    "env_time env (snd (env_clock env (env_state w))) \<le>
       env_time env (snd (env_capture env (snd (env_clock env (env_state w)))))"
    using assms(2) by (simp_all add: clock_advances_def)
  ultimately show ?thesis using alive by simp
qed

lemma confirmation_loop_returns:
  assumes "clock_advances env (instant (rq_deadline_at rq))" "MutationRequest_ok rq"
  shows "\<exists>r w'. confirmation_loop env rq cs w = Some (r, w')"
proof (induction "nat (instant (rq_deadline_at rq) - env_time env (env_state w))" arbitrary: cs w rule: less_induct)
  case less
  obtain t w1 where t: "confirmation_turn env rq cs w = (t, w1)" by force
  show ?case
  proof (cases t)
    case (Finished r)
    then show ?thesis using t by (simp add: confirmation_loop.simps)
  next
    case (Unconfirmed observed)
    have "env_time env (env_state w) \<le> env_time env (env_state w1)"
      "env_time env (env_state w) < instant (rq_deadline_at rq)"
      using confirmation_turn_progress t Unconfirmed assms by blast+
    moreover have "env_time env (env_state w1) \<le> env_time env (env_state (sleep env w1))"
      "env_time env (env_state w1) < instant (rq_deadline_at rq) \<longrightarrow>
         env_time env (env_state w1) < env_time env (env_state (sleep env w1))"
      using assms(1) by (simp_all add: clock_advances_def sleep_def)
    ultimately have "nat (instant (rq_deadline_at rq) - env_time env (env_state (sleep env w1))) <
        nat (instant (rq_deadline_at rq) - env_time env (env_state w))"
      by linarith
    from less [OF this] show ?thesis using t Unconfirmed by (simp add: confirmation_loop.simps [of env rq cs w])
  qed
qed

lemma execute_returns:
  assumes "clock_advances env (instant (rq_deadline_at rq))" "MutationRequest_ok rq"
    and "\<And>s. preflight = Some s \<or> (\<exists>w. fst (capture_snapshot_call env w) = Inr s) \<Longrightarrow> 0 \<le> snap_sequence s"
  shows "\<exists>r w'. execute_confirmed_mutation env rq preflight w = Some (r, w')"
proof -
  have loop: "\<exists>y. confirmation_loop env (dispatched_request rq s) [] w = Some y" if "0 \<le> snap_sequence s" for s w
    using confirmation_loop_returns [OF _ dispatched_request_ok [OF assms(2) that]] assms(1)
    by (simp add: dispatched_request_deadline)
  have pre: "\<exists>y. check_preflight env rq s w = Some y" if "0 \<le> snap_sequence s" for s w
  proof -
    have "(if rq_expected_sequence rq \<noteq> None then with_sequence rq (snap_sequence s) else Inr rq)
        = Inr (dispatched_request rq s)"
      using with_sequence_eq [OF assms(2) that] by (auto simp: dispatched_request_def split: option.split)
    then show ?thesis
      using loop [OF that]
      by (auto simp: check_preflight_def dispatch_and_confirm_def split: sum.split prod.split bool.split
        simp del: not_None_eq)
  qed
  show ?thesis
  proof (cases "is_expired env rq PNone w")
    case (Pair x w1)
    show ?thesis
    proof (cases "x = Inr False \<and> preflight = None")
      case True
      obtain y w2 where y: "capture_snapshot_call env w1 = (y, w2)" by force
      show ?thesis
      proof (cases y)
        case (Inr s)
        have "0 \<le> snap_sequence s" using assms(3) [of s] y Inr by (metis fst_conv)
        from pre [OF this, of w2] show ?thesis
          using Pair True y Inr by (auto simp: execute_confirmed_mutation_def)
      qed (use Pair True y in \<open>auto simp: execute_confirmed_mutation_def\<close>)
    next
      case False
      then show ?thesis
        using Pair pre [OF assms(3)]
        by (cases x; cases preflight) (auto simp: execute_confirmed_mutation_def split: bool.split)
    qed
  qed
qed

section \<open>A satisfied request is confirmed\<close>

lemma get_obj_contract:
  "(\<And>v. v \<in> snd ` set index \<Longrightarrow> contract_ok (obj v)) \<Longrightarrow> contract_ok (get_obj obj index k)"
  by (auto simp: get_obj_def contract_ok_def split: option.split dest: map_of_SomeD)
    (metis imageI map_of_SomeD snd_conv)

lemma contract_ok_objects [simp]:
  "contract_ok (LinkValue_obj l)" "contract_ok (ProfileValue_obj p)" "contract_ok (RouteValue_obj r)"
  "contract_ok (ParameterValue_obj q)" "contract_ok (MetadataEntryValue_obj e)" "contract_ok (DeviceValue_obj d)"
  "contract_ok (NodeValue_obj n)" "contract_ok (PortValue_obj t)" "contract_ok (MetadataValue_obj m)"
  "contract_ok PNone"
  by (simp_all add: contract_ok_def LinkValue_obj_def ProfileValue_obj_def RouteValue_obj_def
    ParameterValue_obj_def MetadataEntryValue_obj_def DeviceValue_obj_def NodeValue_obj_def PortValue_obj_def
    MetadataValue_obj_def)

lemma contract_ok_defaults:
  assumes "DefaultsValue_ok d" "v \<in> snd ` set (DefaultsValue_fields d)"
  shows "contract_ok v"
proof -
  have target: "contract_ok (opt_obj DefaultTargetValue_obj t)" for t
    by (cases t) (simp_all add: contract_ok_def DefaultTargetValue_obj_def)
  have ident: "contract_ok (opt_obj PInt t)" for t
    by (cases t) (simp_all add: contract_ok_def)
  show ?thesis
    using assms target ident by (auto simp: DefaultsValue_fields_def DefaultsValue_ok_def mapping_ok_def contract_ok_def)
qed

lemma snapshot_observation_contract: "RuntimeSnapshot_ok s \<Longrightarrow> contract_ok (snapshot_observation s target)"
proof -
  assume "RuntimeSnapshot_ok s"
  then have "DefaultsValue_ok (snap_defaults s)" by (simp add: RuntimeSnapshot_ok_def)
  note dc = contract_ok_defaults [OF this]
  have d: "contract_ok (get_obj id (DefaultsValue_fields (snap_defaults s)) name)" for name
    by (rule get_obj_contract) (simp only: id_apply dc)
  have g: "(\<And>v. contract_ok (obj v)) \<Longrightarrow> contract_ok (get_obj obj index k)" for obj :: "'v \<Rightarrow> pyval" and index :: "('k \<times> 'v) list" and k
    by (simp add: get_obj_contract)
  have l: "contract_ok (latest_entry s i j k)" for i j k
    by (simp add: latest_entry_def split: option.split)
  have o: "contract_ok (object_of_kind s kind i)" for kind i
    by (simp add: object_of_kind_def get_obj_contract split: RuntimeObjectKind.split)
  have m: "contract_ok (case ls of [x] \<Rightarrow> LinkValue_obj x | _ \<Rightarrow> PNone)" for ls
    by (simp split: list.split)
  show ?thesis
    by (simp add: snapshot_observation_def Let_def d l o m get_obj_contract split: option.split prod.split)
qed

lemma confirmation_of_total:
  assumes "RuntimeSnapshot_ok s" "ConfirmationPredicateValue_ok p"
    and "predicate_matches p (snapshot_observation s (cp_target p)) = Inr True"
  shows "\<exists>c. confirmation_of s p (snapshot_observation s (cp_target p)) = Inr c \<and> MutationConfirmationValue_ok c"
  using assms snapshot_observation_contract [OF assms(1), of "cp_target p"]
  by (simp add: confirmation_of_def mk_MutationConfirmationValue_def val_obj RuntimeSnapshot_ok_def
    MutationConfirmationValue_ok_def)

lemma confirmations_total:
  assumes "RuntimeSnapshot_ok s" "list_all ConfirmationPredicateValue_ok ps"
    and "list_all (\<lambda>p. predicate_matches p (snapshot_observation s (cp_target p)) = Inr True) ps"
  shows "\<exists>cs. confirmations_from_snapshot s ps = Inr cs \<and> length cs = length ps \<and>
    list_all MutationConfirmationValue_ok cs"
  using assms(2,3)
proof (induction ps)
  case (Cons p ps)
  then show ?case using confirmation_of_total [OF assms(1), of p] by (auto simp: Let_def)
qed simp

lemma classified_operation [val_obj]:
  "classified operation_value operation_members (PStrEnum c (operation_value m)) e = Inr m"
  by (simp add: classified_iff [OF operation.str_enum_axioms])

lemma classified_status [val_obj]:
  "classified status_value status_members (PStrEnum c (status_value m)) e = Inr m"
  by (simp add: classified_iff [OF status.str_enum_axioms])

lemma confirmed_outcome_total:
  assumes "MutationRequest_ok rq" "RuntimeSnapshot_ok s" "list_all MutationConfirmationValue_ok cs" "cs \<noteq> []"
    and "list_all (\<lambda>c. cf_generation c = rq_expected_generation rq) cs"
  shows "\<exists>x. confirmed_outcome rq s cs = Inr x \<and> oc_status x = CONFIRMED \<and> oc_confirmations x = cs \<and>
    oc_completed_at x = snap_captured_at s \<and> answers rq x"
  using assms
  by (simp add: confirmed_outcome_def mk_MutationOutcome_def val_obj MutationRequest_ok_def RuntimeSnapshot_ok_def
    val_optional_instance_def outcome_consistent_def answers_def del: status_value.simps)

lemma satisfied_confirmed:
  assumes "MutationRequest_ok rq" "RuntimeSnapshot_ok s" "observed_in rq s"
  shows "\<exists>cs x. confirmations_from_snapshot s (rq_confirmation_predicates rq) = Inr cs \<and>
    length cs = length (rq_confirmation_predicates rq) \<and> confirmed_outcome rq s cs = Inr x \<and>
    oc_status x = CONFIRMED \<and> oc_confirmations x = cs \<and> map cf_predicate cs = rq_confirmation_predicates rq \<and>
    oc_completed_at x = snap_captured_at s \<and> answers rq x"
proof -
  have ps: "list_all ConfirmationPredicateValue_ok (rq_confirmation_predicates rq)"
      "rq_confirmation_predicates rq \<noteq> []"
    using assms(1) by (simp_all add: MutationRequest_ok_def)
  obtain cs where cs: "confirmations_from_snapshot s (rq_confirmation_predicates rq) = Inr cs"
      "length cs = length (rq_confirmation_predicates rq)" "list_all MutationConfirmationValue_ok cs"
    using confirmations_total [OF assms(2) ps(1)] assms(3) by (auto simp: observed_in_def)
  moreover have "cs \<noteq> []" using cs(2) ps(2) by auto
  ultimately show ?thesis
    using confirmed_outcome_total [OF assms(1,2) cs(3)] confirmations_sound [OF cs(1) ps(1)] assms(3)
    by (auto simp: observed_in_def)
qed

end
