(* ===== verification/Execution.thy ===== *)
theory Execution
  imports Controls
begin

text \<open>
  What a confirmed mutation guarantees, from the model of
  \<open>src/src/wyreplumber/runtime/controls.py\<close> in \<open>Controls\<close>: every failure path constructs an
  outcome, every execution ends and only what its native calls raise leaves it, and the properties of dispatch, confirmation,
  preconditions, deadlines and tickets.
\<close>

section \<open>Failures always become outcomes\<close>

definition reads_clock :: "'w runtime \<Rightarrow> bool" where
  "reads_clock env \<longleftrightarrow> (\<forall>s. clock_ok (fst (env_clock env s)))"

definition confirmations_ok :: "MutationRequest \<Rightarrow> MutationConfirmationValue list \<Rightarrow> bool" where
  "confirmations_ok rq cs \<longleftrightarrow>
     list_all MutationConfirmationValue_ok cs \<and> list_all (\<lambda>c. cf_generation c = rq_expected_generation rq) cs"

lemma confirmations_ok_Nil [simp]: "confirmations_ok rq []"
  by (simp add: confirmations_ok_def)

lemma classified_phase [val_obj]:
  "classified phase_value phase_members (PStrEnum c (phase_value m)) e = Inr m"
  by (simp add: classified_iff [OF phase.str_enum_axioms])

lemma classified_code [val_obj]:
  "classified code_value code_members (PStrEnum c (code_value m)) e = Inr m"
  by (simp add: classified_iff [OF code.str_enum_axioms])

lemma val_named_timestamp_clock: "clock_ok d \<Longrightarrow> \<exists>t. val_named_timestamp (PDatetime d) n = Inr t"
  using val_timestamp_clock by (fastforce simp: val_named_timestamp_def)

lemma codes_of_status: "c \<in> set (codes_by_status st) \<Longrightarrow> st \<noteq> CONFIRMED"
  by (cases st) simp_all

lemma failure_outcome_total:
  assumes "reads_clock env" "MutationRequest_ok rq" "confirmations_ok rq cs"
    and "code \<in> set (failure_codes_by_phase phase)" "code \<in> set (codes_by_status st)" "m \<noteq> []"
    and "val_mapping details ''details'' = Inr items" "well_formed details"
  shows "\<exists>x w'. failure_outcome env rq st phase code m retryable details cs w = (Inr x, w') \<and>
    answers rq x \<and> oc_status x = st \<and> oc_confirmations x = cs \<and> calls w' = calls w \<and>
    oc_failure x = Some \<lparr>fl_phase = phase, fl_code = code, fl_message = m, fl_retryable = retryable, fl_details = items\<rparr>"
proof -
  let ?f = "\<lparr>fl_phase = phase, fl_code = code, fl_message = m, fl_retryable = retryable, fl_details = items\<rparr>"
  obtain d s where now: "env_clock env (env_state w) = (d, s)" by force
  then have "clock_ok d" using assms(1) by (auto simp: reads_clock_def dest: spec [of _ "env_state w"])
  then obtain t where t: "val_named_timestamp (PDatetime d) ''completed_at'' = Inr t"
    using val_named_timestamp_clock by blast
  have f: "mk_MutationFailureValue (PStrEnum ''MutationFailurePhase'' (phase_value phase))
      (PStrEnum ''MutationFailureCode'' (code_value code)) (PStr m) (PBool retryable) details = Inr ?f"
    using assms by (simp add: mk_MutationFailureValue_def val_obj)
  have "mapping_ok items" using assms(7,8) by (rule val_mapping_ok)
  then have "MutationFailureValue_ok ?f" using assms by (simp add: MutationFailureValue_ok_def)
  then have opt: "val_optional_instance as_MutationFailureValue ''MutationFailureValue'' (MutationFailureValue_obj ?f)
      ''failure'' = Inr (Some ?f)"
    using optval_MutationFailureValue_obj [of "Some ?f"] by simp
  have "outcome_consistent st cs (Some ?f) = Inr ()"
    using assms(5) codes_of_status [OF assms(5)] by (simp add: outcome_consistent_def)
  then show ?thesis
    using assms(2,3) t f opt
    by (simp add: failure_outcome_def abind_def alift_def utc_now_def now mk_MutationOutcome_def val_obj
      MutationRequest_ok_def confirmations_ok_def answers_def del: operation_value.simps status_value.simps)
qed

lemma runtime_unavailable_total:
  assumes "reads_clock env" "MutationRequest_ok rq" "confirmations_ok rq cs" "exn_message e \<noteq> []"
  shows "\<exists>x w'. runtime_unavailable_outcome env rq e cs w = (Inr x, w') \<and> answers rq x \<and> oc_confirmations x = cs \<and>
    oc_failure x = Some
      (if str_contains ''stopped'' (str_lower (exn_message e)) \<or> str_contains ''not ready'' (str_lower (exn_message e))
       then \<lparr>fl_phase = CANCELLATION, fl_code = RUNTIME_STOPPED, fl_message = exn_message e, fl_retryable = False,
              fl_details = []\<rparr>
       else \<lparr>fl_phase = EXECUTION, fl_code = INTERNAL_ERROR, fl_message = exn_message e, fl_retryable = False,
              fl_details = []\<rparr>)"
proof -
  have d: "val_mapping (PDict []) ''details'' = Inr []" by (simp add: val_mapping_def FrozenDict_init_def)
  show ?thesis
    using failure_outcome_total [OF assms(1-3) _ _ assms(4) d, of RUNTIME_STOPPED CANCELLATION CANCELLED False w]
      failure_outcome_total [OF assms(1-3) _ _ assms(4) d, of INTERNAL_ERROR EXECUTION FAILED False w]
    by (auto simp: runtime_unavailable_outcome_def Let_def)
qed

text \<open>The status a ticket maps to admits its failure code, and so does the phase.\<close>

lemma ticket_status_consistent:
  assumes "MutationDispatchTicketValue_ok tk" "tk_disposition tk \<noteq> TicketReady" "ticket_status tk = (st, phase, code)"
  shows "code \<in> set (failure_codes_by_phase phase)" "code \<in> set (codes_by_status st)"
    "tk_failure_code tk = Some code"
  using assms
  by (cases "tk_disposition tk"; cases "tk_failure_code tk";
    auto simp: MutationDispatchTicketValue_ok_def ticket_consistent_def ticket_status_def Let_def split: if_splits)+

lemma ticket_failure_total:
  assumes "reads_clock env" "MutationRequest_ok rq" "MutationDispatchTicketValue_ok tk" "tk_disposition tk \<noteq> TicketReady"
  shows "\<exists>x w' f. ticket_failure_outcome env rq tk w = (Inr x, w') \<and> answers rq x \<and>
    oc_status x = fst (ticket_status tk) \<and> oc_failure x = Some f \<and> Some (fl_code f) = tk_failure_code tk \<and>
    fl_phase f = fst (snd (ticket_status tk)) \<and> fl_retryable f = (fl_code f = GENERATION_LOST)"
proof -
  obtain st phase code where t: "ticket_status tk = (st, phase, code)" by (cases "ticket_status tk") auto
  note c = ticket_status_consistent [OF assms(3,4) t]
  have d: "val_mapping (PDict [(PStr ''dispatch_order'', PInt (tk_dispatch_order tk)),
      (PStr ''observed_generation'', PInt (tk_observed_generation tk)),
      (PStr ''observed_sequence'', PInt (tk_observed_sequence tk))]) ''details'' =
    Inr [(''dispatch_order'', PInt (tk_dispatch_order tk)), (''observed_generation'', PInt (tk_observed_generation tk)),
      (''observed_sequence'', PInt (tk_observed_sequence tk))]"
    by (simp add: val_mapping_def FrozenDict_init_def)
  show ?thesis
    using failure_outcome_total [OF assms(1,2) confirmations_ok_Nil c(1,2) _ d,
      of "''native mutation dispatch returned '' @ code_value code" "code = GENERATION_LOST" w] c(3)
    by (auto simp: ticket_failure_outcome_def t)
qed

section \<open>Every execution ends\<close>

text \<open>
  Nothing is assumed of the native connection but that the snapshots it captures are
  instances of their class.  A capture, a dispatch, a ticket or a predicate may fail in any way:
  \<open>escape_cause\<close> says which exception leaves the execution because of a call.  A capture that
  raises a \<open>RuntimeError\<close> is turned into an outcome, whose failure must have a message.
\<close>

fun escape_cause :: "MutationRequest \<Rightarrow> call \<Rightarrow> exn \<Rightarrow> bool" where
  "escape_cause rq (Captured (Inl raised)) e =
     (if is_runtime_error raised then exn_message raised = [] \<and> e = ValueError ''message must not be empty''
      else e = raised)"
| "escape_cause rq (Captured (Inr s)) e = (confirmations_from_snapshot s (rq_confirmation_predicates rq) = Inl e)"
| "escape_cause rq (Dispatched payload (Inl raised)) e = (e = raised)"
| "escape_cause rq (Dispatched payload (Inr ticket)) e = (mutation_dispatch_ticket_from_payload ticket = Inl e)"
| "escape_cause rq Slept e = False"

text \<open>The results in the log are those of the native calls.\<close>

fun native_call :: "'w runtime \<Rightarrow> call \<Rightarrow> bool" where
  "native_call env (Captured r) = (\<exists>v. r = fst (env_capture env v))"
| "native_call env (Dispatched payload r) = (\<exists>v. r = fst (env_dispatch env payload v))"
| "native_call env Slept = True"

declare native_call.simps(1,2) [simp del]

text \<open>
  A result is settled by the calls that led to it: an outcome answers the request, an exception
  is the one the last call explains, or, without a call, the given preflight.
\<close>

definition settled ::
    "'w runtime \<Rightarrow> MutationRequest \<Rightarrow> RuntimeSnapshot option \<Rightarrow> exn + MutationOutcome \<Rightarrow> call list \<Rightarrow> bool" where
  "settled env rq preflight r log \<longleftrightarrow>
     (\<forall>c \<in> set log. native_call env c) \<and>
     (case r of
        Inr x \<Rightarrow> answers rq x
      | Inl e \<Rightarrow>
          if log = [] then \<exists>s. preflight = Some s \<and> confirmations_from_snapshot s (rq_confirmation_predicates rq) = Inl e
          else escape_cause rq (last log) e)"

definition valid_captures :: "'w runtime \<Rightarrow> bool" where
  "valid_captures env \<longleftrightarrow> (\<forall>v s. fst (env_capture env v) = Inr s \<longrightarrow> RuntimeSnapshot_ok s)"

definition evaluable :: "MutationRequest \<Rightarrow> RuntimeSnapshot \<Rightarrow> bool" where
  "evaluable rq s \<longleftrightarrow>
     RuntimeSnapshot_ok s \<and> (\<exists>cs. confirmations_from_snapshot s (rq_confirmation_predicates rq) = Inr cs)"

lemma settled_outcome [simp]: "settled env rq p (Inr x) [] = answers rq x"
  by (simp add: settled_def)

lemma settled_append:
  "settled env rq None r log \<Longrightarrow> \<forall>c \<in> set pre. native_call env c \<Longrightarrow> settled env rq p r (pre @ log)"
  by (auto simp: settled_def split: sum.splits if_splits)

lemma settled_captured:
  "settled env rq (Some s) r log \<Longrightarrow> native_call env (Captured (Inr s)) \<Longrightarrow> settled env rq p r (Captured (Inr s) # log)"
  by (auto simp: settled_def split: sum.splits if_splits)

lemma dispatched_request_predicates [simp]:
  "rq_confirmation_predicates (dispatched_request rq s) = rq_confirmation_predicates rq"
  by (simp add: dispatched_request_def split: option.split)

lemma escape_cause_dispatched [simp]: "escape_cause (dispatched_request rq s) c e = escape_cause rq c e"
  by (cases "(rq, c, e)" rule: escape_cause.cases) simp_all

lemma settled_dispatched [simp]: "settled env (dispatched_request rq s) p r log = settled env rq p r log"
  by (simp add: settled_def split: sum.split)

lemma native_captured: "capture_snapshot_call env w = (y, w') \<Longrightarrow> native_call env (Captured y)"
  by (simp add: capture_snapshot_call_def native_call.simps split: prod.splits) (metis fst_conv)

lemma native_dispatched: "dispatch_call env payload w = (q, w') \<Longrightarrow> native_call env (Dispatched payload q)"
  by (simp add: dispatch_call_def native_call.simps split: prod.splits) (metis fst_conv)

lemma capture_call_ok: "valid_captures env \<Longrightarrow> capture_snapshot_call env w = (Inr s, w') \<Longrightarrow> RuntimeSnapshot_ok s"
  by (auto simp: valid_captures_def capture_snapshot_call_def split: prod.splits) (metis fst_conv)

lemma clock_advances_reads: "clock_advances env limit \<Longrightarrow> reads_clock env"
  by (simp add: clock_advances_def reads_clock_def)

lemma decoded_ticket_ok:
  "mutation_dispatch_ticket_from_payload v = Inr tk \<Longrightarrow> MutationDispatchTicketValue_ok tk"
  by (auto simp: mutation_dispatch_ticket_from_payload_def mk_MutationDispatchTicketValue_def
    MutationDispatchTicketValue_ok_def validator_simps elim!: rbind_InrE intro: val_ok split: option.splits)

lemma confirmations_valid:
  assumes "RuntimeSnapshot_ok s" "confirmations_from_snapshot s ps = Inr cs" "list_all ConfirmationPredicateValue_ok ps"
  shows "list_all MutationConfirmationValue_ok cs"
  using assms(2,3)
proof (induction ps arbitrary: cs)
  case (Cons p ps)
  show ?case
  proof (cases "predicate_matches p (snapshot_observation s (cp_target p)) = Inr True")
    case True
    from confirmation_of_total [OF assms(1) _ True] Cons.prems(2)
    obtain c where c: "confirmation_of s p (snapshot_observation s (cp_target p)) = Inr c" "MutationConfirmationValue_ok c"
      by auto
    with Cons.prems True show ?thesis by (auto simp: Let_def elim!: rbind_InrE intro: Cons.IH)
  next
    case False
    with Cons.prems(1) have "confirmations_from_snapshot s ps = Inr cs"
      by (auto simp: Let_def elim!: rbind_InrE split: if_splits)
    then show ?thesis using Cons by simp
  qed
qed simp

text \<open>A turn of the loop keeps its confirmations valid, and ends, if it ends, in an outcome.\<close>

lemma evaluable_confirmations:
  assumes "evaluable rq s" "MutationRequest_ok rq" "snap_generation s = rq_expected_generation rq"
    and "confirmations_from_snapshot s (rq_confirmation_predicates rq) = Inr cs"
  shows "confirmations_ok rq cs"
  using confirmations_sound [OF assms(4)] confirmations_valid [OF _ assms(4)] assms
  by (auto simp: confirmations_ok_def evaluable_def MutationRequest_ok_def)

lemma confirmed_total:
  assumes "evaluable rq s" "MutationRequest_ok rq" "snap_generation s = rq_expected_generation rq"
    and "confirmations_from_snapshot s (rq_confirmation_predicates rq) = Inr cs"
    and "length cs = length (rq_confirmation_predicates rq)"
  shows "\<exists>x. confirmed_outcome rq s cs = Inr x"
proof -
  have "cs \<noteq> []" using assms(2,5) by (auto simp: MutationRequest_ok_def)
  then show ?thesis
    using confirmed_outcome_total [OF assms(2)] evaluable_confirmations [OF assms(1-4)] assms(1)
    by (fastforce simp: confirmations_ok_def evaluable_def)
qed

lemma details_generation: "val_mapping (PDict [(PStr ''observed_generation'', PInt g)]) n = Inr [(''observed_generation'', PInt g)]"
  by (simp add: val_mapping_def FrozenDict_init_def)

lemma details_sequence: "val_mapping (PDict [(PStr ''observed_sequence'', PInt g)]) n = Inr [(''observed_sequence'', PInt g)]"
  by (simp add: val_mapping_def FrozenDict_init_def)

lemma details_empty: "val_mapping (PDict []) n = Inr []"
  by (simp add: val_mapping_def FrozenDict_init_def)

text \<open>An unavailable runtime ends the execution, in an outcome unless there is nothing to say.\<close>

lemma runtime_unavailable_empty:
  assumes "exn_message e = []"
  shows "fst (runtime_unavailable_outcome env rq e cs w) = Inl (ValueError ''message must not be empty'')"
proof -
  have "\<not> str_contains ''stopped'' (str_lower [])" "\<not> str_contains ''not ready'' (str_lower [])"
    by (simp_all add: str_lower_def)
  moreover have "mk_MutationFailureValue (PStrEnum ''MutationFailurePhase'' (phase_value EXECUTION))
      (PStrEnum ''MutationFailureCode'' (code_value INTERNAL_ERROR)) (PStr []) (PBool False) (PDict []) =
      Inl (ValueError ''message must not be empty'')"
    by (simp add: mk_MutationFailureValue_def val_obj val_required_string_def del: phase_value.simps code_value.simps)
  ultimately show ?thesis
    by (simp add: runtime_unavailable_outcome_def assms failure_outcome_def abind_def alift_def utc_now_def
      split: prod.split del: phase_value.simps code_value.simps)
qed

lemma unavailable_settled:
  assumes "reads_clock env" "MutationRequest_ok rq" "confirmations_ok rq cs"
    and "is_runtime_error e" "native_call env (Captured (Inl e))"
  shows "settled env rq None (fst (runtime_unavailable_outcome env rq e cs w)) [Captured (Inl e)]"
proof (cases "exn_message e = []")
  case True
  then show ?thesis using assms(4,5) by (simp add: settled_def runtime_unavailable_empty)
next
  case False
  then show ?thesis
    using runtime_unavailable_total [OF assms(1-3), of e w] assms(5) by (auto simp: settled_def)
qed

lemma confirmation_turn_settled:
  assumes "reads_clock env" "valid_captures env" "MutationRequest_ok rq" "confirmations_ok rq cs"
    and "confirmation_turn env rq cs w = (t, w')"
  shows "\<exists>log. calls w' = calls w @ log \<and>
    (case t of
       Finished r \<Rightarrow> settled env rq None r log
     | Unconfirmed cs' \<Rightarrow> confirmations_ok rq cs' \<and> (\<forall>c \<in> set log. native_call env c))"
proof -
  note fail = failure_outcome_total [OF assms(1,3,4)]
  have ck: "clock_ok (fst (env_clock env (env_state w)))" using assms(1) by (simp add: reads_clock_def)
  obtain b w1 where x: "is_expired env rq PNone w = (Inr b, w1)" and w1: "calls w1 = calls w"
    using is_expired_clock [OF ck assms(3)] by auto
  show ?thesis
  proof (cases b)
    case True
    then show ?thesis
      using fail [of CONFIRMATION_TIMEOUT CONFIRMATION TIMED_OUT
          "''native mutation was accepted but state was not confirmed''" "PDict []" "[]" False w1] assms(5) x w1
      by (auto simp: confirmation_turn_def finish_eq details_empty)
  next
    case False
    obtain y w2 where y: "capture_snapshot_call env w1 = (y, w2)" by force
    have w2: "calls w2 = calls w @ [Captured y]" using capture_calls [OF y] w1 by simp
    note n = native_captured [OF y]
    show ?thesis
    proof (cases y)
      case (Inl e)
      show ?thesis
      proof (cases "is_runtime_error e")
        case True
        then show ?thesis
          using unavailable_settled [OF assms(1,3,4) True, of w2] n assms(5) x y Inl False w2
          by (intro exI [of _ "[Captured y]"]) (auto simp: confirmation_turn_def finish_eq unlogged)
      next
        case other: False
        then show ?thesis
          using n assms(5) x y Inl False w2
          by (intro exI [of _ "[Captured y]"]) (auto simp: confirmation_turn_def settled_def)
      qed
    next
      case (Inr s)
      then have ok: "RuntimeSnapshot_ok s" using capture_call_ok [OF assms(2)] y by simp
      show ?thesis
      proof (cases "snap_generation s = rq_expected_generation rq")
        case True
        show ?thesis
        proof (cases "confirmations_from_snapshot s (rq_confirmation_predicates rq)")
          case failed: (Inl e)
          then show ?thesis
            using n assms(5) x y Inr False w2 True
            by (intro exI [of _ "[Captured y]"]) (auto simp: confirmation_turn_def settled_def)
        next
          case o: (Inr obs)
          have e: "evaluable rq s" using ok o by (simp add: evaluable_def)
          have conf: "settled env rq None (confirmed_outcome rq s obs) [Captured y]"
            if "length obs = length (rq_confirmation_predicates rq)"
            using confirmed_total [OF e assms(3) True o that] n by (auto simp: settled_def dest: confirmed_outcome_answers)
          show ?thesis
            using n assms(5) x y Inr False w2 True o conf evaluable_confirmations [OF e assms(3) True o]
            by (intro exI [of _ "[Captured y]"]) (auto simp: confirmation_turn_def split: if_splits)
        qed
      next
        case other: False
        then show ?thesis
          using fail [of GENERATION_LOST CANCELLATION CANCELLED
              "''connection generation changed before confirmation''"
              "PDict [(PStr ''observed_generation'', PInt (snap_generation s))]" _ False w2] n assms(5) x y Inr False w2
          by (intro exI [of _ "[Captured y]"])
            (auto simp: confirmation_turn_def finish_eq details_generation settled_def)
      qed
    qed
  qed
qed

lemma confirmation_loop_settled:
  fixes env :: "'w runtime"
  assumes "confirmation_loop env rq cs w = Some (r, w')" "reads_clock env" "valid_captures env" "MutationRequest_ok rq"
    and "confirmations_ok rq cs"
  shows "\<exists>log. calls w' = calls w @ log \<and> settled env rq None r log"
proof -
  let ?P = "\<lambda>(env :: 'w runtime) rq cs (w :: 'w world) (y :: (exn + MutationOutcome) \<times> 'w world).
    reads_clock env \<longrightarrow> valid_captures env \<longrightarrow> MutationRequest_ok rq \<longrightarrow> confirmations_ok rq cs \<longrightarrow>
    (\<exists>log. calls (snd y) = calls w @ log \<and> settled env rq None (fst y) log)"
  have "?P env rq cs w (r, w')"
  proof (rule confirmation_loop.raw_induct [OF _ assms(1), where P = ?P], intro impI, goal_cases)
    case (1 loop env rq cs w y)
    obtain t w1 where t: "confirmation_turn env rq cs w = (t, w1)" by force
    from confirmation_turn_settled [OF 1(3,4,5,6) t] obtain log where log: "calls w1 = calls w @ log"
      "case t of Finished r \<Rightarrow> settled env rq None r log
       | Unconfirmed cs' \<Rightarrow> confirmations_ok rq cs' \<and> (\<forall>c \<in> set log. native_call env c)" by blast
    show ?case
    proof (cases t)
      case (Finished r')
      then show ?thesis using 1(2) t log by auto
    next
      case (Unconfirmed cs')
      then have "loop env rq cs' (sleep env w1) = Some y" using 1(2) t by simp
      from 1(1) [OF this] 1(3-5) log(2) Unconfirmed obtain log' where
        l: "calls (snd y) = calls (sleep env w1) @ log'" "settled env rq None (fst y) log'" by auto
      have "\<forall>c \<in> set (log @ [Slept]). native_call env c"
        using log(2) Unconfirmed by auto
      from settled_append [OF l(2) this] show ?thesis
        using l(1) log(1) by (intro exI [of _ "(log @ [Slept]) @ log'"]) (simp add: sleep_def)
    qed
  qed
  with assms show ?thesis by simp
qed
text \<open>The request's sequence does not decide whether it can be serialised.\<close>

lemma serialize_sequence:
  assumes "serialize (MutationRequest_obj rq) = Inr d"
  shows "\<exists>d. serialize (MutationRequest_obj (rq\<lparr>rq_expected_sequence := Some n\<rparr>)) = Inr d"
  using assms
  by (auto simp: MutationRequest_obj_def MutationRequest_fields_def omitted_def omit_none_def rbind_eq_Inr_iff
    simp del: FrozenDict_to_dict_def)

lemma serialize_dispatched:
  "serialize (MutationRequest_obj rq) = Inr d \<Longrightarrow> \<exists>d. serialize (MutationRequest_obj (dispatched_request rq s)) = Inr d"
  using serialize_sequence by (auto simp: dispatched_request_def split: option.split)

lemma dispatch_and_confirm_settled:
  assumes "dispatch_and_confirm env rq w = Some (r, w')" "reads_clock env" "valid_captures env" "MutationRequest_ok rq"
    and "serialize (MutationRequest_obj rq) = Inr payload"
  shows "\<exists>log. calls w' = calls w @ log \<and> settled env rq None r log"
proof -
  obtain q w1 where q: "dispatch_call env payload w = (q, w1)" by force
  have w1: "calls w1 = calls w @ [Dispatched payload q]" using q by (auto simp: dispatch_call_def split: prod.splits)
  note n = native_dispatched [OF q]
  have d: "dispatch_runtime_mutation env rq w = (rbind q mutation_dispatch_ticket_from_payload, w1)"
    using assms(5) q by (cases q) (simp_all add: dispatch_runtime_mutation_def abind_def alift_def)
  show ?thesis
  proof (cases "rbind q mutation_dispatch_ticket_from_payload")
    case (Inl e)
    then show ?thesis
      using assms(1) d w1 n
      by (intro exI [of _ "[Dispatched payload q]"]) (cases q; auto simp: dispatch_and_confirm_def settled_def)
  next
    case (Inr tk)
    then have ok: "MutationDispatchTicketValue_ok tk" by (auto elim!: rbind_InrE dest: decoded_ticket_ok)
    show ?thesis
    proof (cases "tk_disposition tk = TicketReady")
      case True
      then have "confirmation_loop env rq [] w1 = Some (r, w')" using assms(1) d Inr by (simp add: dispatch_and_confirm_def)
      from confirmation_loop_settled [OF this assms(2-4)] obtain log where
        "calls w' = calls w1 @ log" "settled env rq None r log" by auto
      then show ?thesis
        using w1 n settled_append [of env rq r log "[Dispatched payload q]" None]
        by (intro exI [of _ "[Dispatched payload q] @ log"]) simp
    next
      case False
      then show ?thesis
        using assms(1) d Inr w1 n ticket_failure_total [OF assms(2,4) ok False, of w1] ticket_failure_calls [of env rq tk w1]
        by (intro exI [of _ "[Dispatched payload q]"]) (auto simp: dispatch_and_confirm_def settled_def)
    qed
  qed
qed

lemma check_preflight_settled:
  assumes ex: "check_preflight env rq s w = Some (r, w')" and clock: "reads_clock env" and caps: "valid_captures env"
    and ok: "MutationRequest_ok rq" and ser: "serialize (MutationRequest_obj rq) = Inr d" and s: "RuntimeSnapshot_ok s"
  shows "\<exists>log. calls w' = calls w @ log \<and> settled env rq (Some s) r log"
proof -
  note fail = failure_outcome_total [OF clock ok]
  have seq: "0 \<le> snap_sequence s" using s by (simp add: RuntimeSnapshot_ok_def)
  consider "snap_generation s \<noteq> rq_expected_generation rq"
    | n where "snap_generation s = rq_expected_generation rq" "rq_expected_sequence rq = Some n" "snap_sequence s \<noteq> n + 1"
    | "snap_generation s = rq_expected_generation rq"
        "\<not> (rq_expected_sequence rq \<noteq> None \<and> snap_sequence s \<noteq> the (rq_expected_sequence rq) + 1)"
    by (cases "rq_expected_sequence rq") auto
  then show ?thesis
  proof cases
    case 1
    then show ?thesis
      using fail [OF confirmations_ok_Nil, of STALE_GENERATION PRECONDITION REJECTED
          "''expected generation '' @ show_int (rq_expected_generation rq) @ '', observed '' @ show_int (snap_generation s)"
          "PDict [(PStr ''observed_generation'', PInt (snap_generation s))]" _ False w] ex
      by (auto simp: check_preflight_def details_generation)
  next
    case (2 n)
    then show ?thesis
      using fail [OF confirmations_ok_Nil, of STALE_SEQUENCE PRECONDITION REJECTED
          "''expected projection sequence '' @ show_int n @ '', preflight captured sequence '' @ show_int (snap_sequence s)"
          "PDict [(PStr ''observed_sequence'', PInt (snap_sequence s))]" _ False w] ex
      by (auto simp: check_preflight_def details_sequence)
  next
    case 3
    show ?thesis
    proof (cases "confirmations_from_snapshot s (rq_confirmation_predicates rq)")
      case (Inl e)
      then show ?thesis using ex 3 by (auto simp: check_preflight_def settled_def simp del: not_None_eq)
    next
      case o: (Inr obs)
      have ev: "evaluable rq s" using s o by (simp add: evaluable_def)
      note cs = evaluable_confirmations [OF ev ok 3(1) o]
      show ?thesis
      proof (cases "length obs = length (rq_confirmation_predicates rq)")
        case True
        then show ?thesis
          using ex 3 o confirmed_total [OF ev ok 3(1) o]
          by (auto simp: check_preflight_def simp del: not_None_eq dest: confirmed_outcome_answers)
      next
        case unmet: False
        have ck: "clock_ok (fst (env_clock env (env_state w)))" using clock by (simp add: reads_clock_def)
        obtain b w1 where x: "is_expired env rq PNone w = (Inr b, w1)" and w1: "calls w1 = calls w"
          using is_expired_clock [OF ck ok] by auto
        have dr: "(if rq_expected_sequence rq \<noteq> None then with_sequence rq (snap_sequence s) else Inr rq)
            = Inr (dispatched_request rq s)"
          using with_sequence_eq [OF ok seq] by (auto simp: dispatched_request_def split: option.split)
        show ?thesis
        proof (cases b)
          case True
          then show ?thesis
            using fail [OF cs, of DEADLINE_EXPIRED DEADLINE TIMED_OUT
                "''mutation deadline expired during runtime preflight''" "PDict []" "[]" False w1] ex 3 o x unmet w1
            by (auto simp: check_preflight_def details_empty)
        next
          case False
          then have "dispatch_and_confirm env (dispatched_request rq s) w1 = Some (r, w')"
            using ex 3 o x unmet dr by (simp add: check_preflight_def del: not_None_eq)
          moreover obtain payload where "serialize (MutationRequest_obj (dispatched_request rq s)) = Inr payload"
            using serialize_dispatched [OF ser] by blast
          ultimately obtain log where "calls w' = calls w1 @ log" "settled env rq None r log"
            using dispatch_and_confirm_settled [of env "dispatched_request rq s" w1 r w'] clock caps
              dispatched_request_ok [OF ok seq] by auto
          then show ?thesis using w1 settled_append [of env rq r log "[]" "Some s"] by (intro exI [of _ log]) simp
        qed
      qed
    qed
  qed
qed

lemma execute_settled:
  assumes ex: "execute_confirmed_mutation env rq preflight w = Some (r, w')"
    and clock: "reads_clock env" and caps: "valid_captures env"
    and ok: "MutationRequest_ok rq" and ser: "serialize (MutationRequest_obj rq) = Inr d"
    and s: "\<And>s. preflight = Some s \<Longrightarrow> RuntimeSnapshot_ok s"
  shows "\<exists>log. calls w' = calls w @ log \<and> settled env rq preflight r log"
proof -
  note fail = failure_outcome_total [OF clock ok confirmations_ok_Nil]
  have ck: "clock_ok (fst (env_clock env (env_state w)))" using clock by (simp add: reads_clock_def)
  obtain b w1 where x: "is_expired env rq PNone w = (Inr b, w1)" and w1: "calls w1 = calls w"
    using is_expired_clock [OF ck ok] by auto
  show ?thesis
  proof (cases b)
    case True
    then show ?thesis
      using fail [of DEADLINE_EXPIRED DEADLINE TIMED_OUT
          "''mutation deadline expired before runtime preflight''" "PDict []" "[]" False w1] ex x w1
      by (auto simp: execute_confirmed_mutation_def details_empty)
  next
    case alive: False
    show ?thesis
    proof (cases preflight)
      case (Some s)
      then show ?thesis
        using ex x alive w1 check_preflight_settled [OF _ clock caps ok ser, of s w1] assms(6)
        by (simp add: execute_confirmed_mutation_def)
    next
      case None
      obtain y w2 where y: "capture_snapshot_call env w1 = (y, w2)" by force
      have w2: "calls w2 = calls w @ [Captured y]" using capture_calls [OF y] w1 by simp
      note n = native_captured [OF y]
      show ?thesis
      proof (cases y)
        case (Inl e)
        show ?thesis
        proof (cases "is_runtime_error e")
          case True
          then show ?thesis
            using unavailable_settled [OF clock ok confirmations_ok_Nil True, of w2] n ex x alive None y Inl w2
              runtime_unavailable_calls [of env rq e "[]" w2]
            by (intro exI [of _ "[Captured y]"]) (auto simp: execute_confirmed_mutation_def)
        next
          case False
          then show ?thesis
            using n ex x alive None y Inl w2
            by (intro exI [of _ "[Captured y]"]) (auto simp: execute_confirmed_mutation_def settled_def)
        qed
      next
        case (Inr s)
        then have "check_preflight env rq s w2 = Some (r, w')" "RuntimeSnapshot_ok s"
          using ex x alive None y capture_call_ok [OF caps] by (auto simp: execute_confirmed_mutation_def)
        from check_preflight_settled [OF this(1) clock caps ok ser this(2)] obtain log where
          "calls w' = calls w2 @ log" "settled env rq (Some s) r log" by blast
        then show ?thesis
          using w2 Inr n settled_captured [of env rq s r log preflight]
          by (intro exI [of _ "Captured (Inr s) # log"]) simp
      qed
    qed
  qed
qed

section \<open>An example\<close>

text \<open>
  A request to create the link the example of snapshots is about, and a runtime in which it
  appears once it was dispatched.  The state is the time in microseconds and whether the
  dispatch happened; time stops at the last instant a datetime can denote.
\<close>

definition sample_request :: "ConfirmationOperator \<Rightarrow> MutationRequest" where
  "sample_request operator =
     \<lparr>rq_request_id = ''r1'', rq_expected_generation = 1, rq_operation = CREATE_LINK, rq_target = sample_target,
       rq_requested_at = render_utc 0, rq_deadline_at = render_utc 1000000, rq_expected_sequence = Some 5,
       rq_payload = [], rq_confirmation_predicates = [sample_predicate operator]\<rparr>"

definition sample_ticket :: pyval where
  "sample_ticket = PDict
     [(PStr ''payload_version'', PInt 1), (PStr ''request_id'', PStr ''r1''), (PStr ''operation'', PStr ''create_link''),
      (PStr ''dispatch_order'', PInt 1), (PStr ''disposition'', PStr ''ready''), (PStr ''expected_generation'', PInt 1),
      (PStr ''expected_sequence'', PInt 6), (PStr ''observed_generation'', PInt 1), (PStr ''observed_sequence'', PInt 6),
      (PStr ''failure_code'', PNone)]"

definition sample_env :: "(nat \<times> bool) runtime" where
  "sample_env =
     \<lparr>env_clock = (\<lambda>s. (Datetime (min (int (fst s)) (max_us - 1)) (Some 0), s)),
       env_uuid = (\<lambda>s. (''uuid'', s)),
       env_capture = (\<lambda>s. (Inr (sample_snapshot 6 (if snd s then [sample_link 7] else [])), s)),
       env_dispatch = (\<lambda>payload s. (Inr sample_ticket, (fst s, True))),
       env_sleep = (\<lambda>s. (fst s + 10000, snd s))\<rparr>"

definition sample_world :: "(nat \<times> bool) world" where
  "sample_world = \<lparr>env_state = (0, False), calls = []\<rparr>"

lemma timestamp_ok_second [simp]: "timestamp_ok (render_utc 1000000)"
  using parse_render_utc [of 1000000]
  by (simp add: timestamp_ok_def val_timestamp_def to_utc_def utc_instant_def max_us_def us_per_day_def)

lemma sample_instants [simp]: "instant (render_utc 0) = 0" "instant (render_utc 1000000) = 1000000"
  by (simp_all add: max_us_def us_per_day_def)

lemma sample_request_ok [simp]:
  "operator \<in> {PRESENT, ABSENT} \<Longrightarrow> MutationRequest_ok (sample_request operator)"
  by (auto simp: sample_request_def MutationRequest_ok_def sample_target_def MutationTargetValue_ok_def mapping_ok_def
    sample_predicate_def ConfirmationPredicateValue_ok_def contract_ok_def tolerance_ok_def)

lemma sample_request_simps [simp]:
  "rq_confirmation_predicates (sample_request operator) = [sample_predicate operator]"
  "rq_expected_generation (sample_request operator) = 1" "rq_expected_sequence (sample_request operator) = Some 5"
  "rq_deadline_at (sample_request operator) = render_utc 1000000"
  "cp_target (sample_predicate operator) = sample_target"
  by (simp_all add: sample_request_def sample_predicate_def)

text \<open>The target is observed as the only link that carries the managed identity.\<close>

lemma sample_observation:
  "snapshot_observation (sample_snapshot n links) sample_target =
     (case managed_links (sample_snapshot n links) ''session'' ''music'' of [l] \<Rightarrow> LinkValue_obj l | _ \<Rightarrow> PNone)"
  by (simp add: snapshot_observation_def sample_target_def selector_def both_def)

lemma sample_managed [simp]:
  "managed_links (sample_snapshot n (map sample_link is)) ''session'' ''music'' = map sample_link is"
  by (simp add: managed_links_def filter_id_conv sample_link_def)

lemma serialize_sample_link: "\<exists>kvs. serialize (LinkValue_obj (sample_link i)) = Inr (PDict kvs)"
  by (simp add: LinkValue_obj_def LinkValue_fields_def sample_link_def omitted_def omit_none_def FrozenDict_to_dict_def)

lemma sample_matches:
  "predicate_matches (sample_predicate PRESENT) (LinkValue_obj (sample_link i)) = Inr True"
  "predicate_matches (sample_predicate PRESENT) PNone = Inr False"
  "predicate_matches (sample_predicate ABSENT) PNone = Inr True"
proof -
  obtain kvs where "serialize (LinkValue_obj (sample_link i)) = Inr (PDict kvs)" using serialize_sample_link by blast
  moreover have "\<exists>fs. LinkValue_obj (sample_link i) = PValue ''link'' fs" by (simp add: LinkValue_obj_def)
  ultimately show "predicate_matches (sample_predicate PRESENT) (LinkValue_obj (sample_link i)) = Inr True"
    by (auto simp: predicate_matches_def sample_predicate_def)
qed (simp_all add: predicate_matches_def sample_predicate_def)

lemma sample_observed: "observed_in (sample_request PRESENT) (sample_snapshot 6 [sample_link 7])"
  using sample_observation [of 6 "[sample_link 7]"] sample_managed [of 6 "[7]"] sample_matches(1) [of 7]
  by (simp add: observed_in_def)

lemma sample_evaluable:
  "evaluable (sample_request PRESENT) (sample_snapshot 6 [])"
  "evaluable (sample_request PRESENT) (sample_snapshot 6 [sample_link 7])"
proof -
  show "evaluable (sample_request PRESENT) (sample_snapshot 6 [])"
    using sample_observation [of 6 "[]"] sample_managed [of 6 "[]"]
    by (simp add: evaluable_def sample_matches)
  show "evaluable (sample_request PRESENT) (sample_snapshot 6 [sample_link 7])"
    using satisfied_confirmed [OF _ _ sample_observed] by (auto simp: evaluable_def)
qed

lemma sample_ticket_ready:
  "\<exists>tk. mutation_dispatch_ticket_from_payload sample_ticket = Inr tk \<and> tk_disposition tk = TicketReady"
  by (simp add: sample_ticket_def mutation_dispatch_ticket_from_payload_def exact_keys_def ticket_fields_def dict_get_def
    dict_item_def mk_MutationDispatchTicketValue_def val_required_string_def classified_def val_enum_def enum_lookup_def
    operation_members_def disposition_members_def val_identifier_def val_integer_def val_optional_identifier_def
    val_optional_def val_failure_code_def ticket_consistent_def Let_def)

lemma sample_clock: "clock_advances sample_env (instant (rq_deadline_at (sample_request operator)))"
  by (auto simp: clock_advances_def sample_env_def env_time_def clock_ok_def utc_instant_def max_us_def us_per_day_def min_def)

lemma sample_captures: "valid_captures sample_env"
  by (simp add: valid_captures_def sample_env_def)

lemmas sample_reads_clock = clock_advances_reads [OF sample_clock]

lemma sample_serialized: "\<exists>d. serialize (MutationRequest_obj (sample_request operator)) = Inr d"
  by (simp add: MutationRequest_obj_def MutationRequest_fields_def sample_request_def sample_target_def sample_predicate_def
    MutationTargetValue_obj_def MutationTargetValue_fields_def ConfirmationPredicateValue_obj_def
    ConfirmationPredicateValue_fields_def tuple_obj_def omitted_def omit_none_def FrozenDict_to_dict_def)

text \<open>In this runtime no call fails, so an execution ends in an outcome.\<close>

lemma sample_no_escape:
  assumes "native_call sample_env c"
  shows "\<not> escape_cause (sample_request PRESENT) c e"
proof -
  obtain tk where "mutation_dispatch_ticket_from_payload sample_ticket = Inr tk" using sample_ticket_ready by blast
  then show ?thesis
    using assms sample_evaluable
    by (cases "(sample_request PRESENT, c, e)" rule: escape_cause.cases)
      (auto simp: native_call.simps sample_env_def evaluable_def split: if_splits)
qed

lemma sample_ends:
  "\<exists>x w'. execute_confirmed_mutation sample_env (sample_request PRESENT) None sample_world = Some (Inr x, w')"
proof -
  have caps: "RuntimeSnapshot_ok s" if "fst (capture_snapshot_call sample_env w) = Inr s" for w s
    using capture_call_ok [OF sample_captures] that by (metis prod.collapse)
  obtain r w' where ex: "execute_confirmed_mutation sample_env (sample_request PRESENT) None sample_world = Some (r, w')"
    using execute_returns [OF sample_clock, of PRESENT None sample_world] caps by (auto simp: RuntimeSnapshot_ok_def)
  obtain d where "serialize (MutationRequest_obj (sample_request PRESENT)) = Inr d" using sample_serialized by blast
  from execute_settled [OF ex sample_reads_clock sample_captures _ this] obtain log where
    "settled sample_env (sample_request PRESENT) None r log" by auto
  then show ?thesis
    using ex sample_no_escape by (cases r) (auto simp: settled_def split: if_splits)
qed

section \<open>Properties\<close>

text \<open>The payloads dispatched by a sequence of calls.\<close>

fun dispatches :: "call list \<Rightarrow> pyval list" where
  "dispatches [] = []"
| "dispatches (Dispatched payload r # cs) = payload # dispatches cs"
| "dispatches (c # cs) = dispatches cs"

lemma dispatches_none: "no_dispatch cs \<Longrightarrow> dispatches cs = []"
  by (induction cs rule: dispatches.induct) simp_all

lemma execute_guarantee:
  assumes "execute_confirmed_mutation env rq preflight w = Some (r, w')" "MutationRequest_ok rq"
    and "\<forall>s. preflight = Some s \<longrightarrow> RuntimeSnapshot_ok s"
    and "\<forall>v s. fst (env_capture env v) = Inr s \<longrightarrow> RuntimeSnapshot_ok s"
  shows "\<exists>log. calls w' = calls w @ log \<and>
    ((unsuccessful rq r \<and> no_dispatch log) \<or>
     (\<exists>s rest. (preflight = Some s \<and> log = rest \<or> preflight = None \<and> log = Captured (Inr s) # rest) \<and>
        0 \<le> snap_sequence s \<and> execution_sound rq s r rest))"
proof (rule execute_sound [OF assms(1,2)])
  fix s
  assume s: "preflight = Some s \<or> (\<exists>w. fst (capture_snapshot_call env w) = Inr s)"
  have "fst (capture_snapshot_call env w) = fst (env_capture env (env_state w))" for w
    by (simp add: capture_snapshot_call_def split: prod.split)
  then have "RuntimeSnapshot_ok s" using s assms(3,4) by auto
  then show "0 \<le> snap_sequence s" by (simp add: RuntimeSnapshot_ok_def)
qed

lemma dispatched_from:
  assumes "execute_confirmed_mutation env rq preflight w = Some (r, w')" "MutationRequest_ok rq"
    and "\<forall>s. preflight = Some s \<longrightarrow> RuntimeSnapshot_ok s"
    and "\<forall>v s. fst (env_capture env v) = Inr s \<longrightarrow> RuntimeSnapshot_ok s"
    and "calls w' = calls w @ log" "payload \<in> set (dispatches log)"
  shows "\<exists>s. dispatchable rq s \<and> 0 \<le> snap_sequence s \<and>
    serialize (MutationRequest_obj (dispatched_request rq s)) = Inr payload"
  using execute_guarantee [OF assms(1-4)] assms(5,6)
  by (auto simp: execution_sound_def dispatches_none)

text \<open>
  C2. An execution dispatches its mutation at most once.  It does so only from a preflight
  snapshot, the one given or the first one it captured, that is of the expected generation
  and, when a sequence is expected, is the very next capture, and in which the request is not
  satisfied yet; the native payload is the serialised request with the preflight's sequence
  as its precondition.
\<close>

theorem dispatch_at_most_once:
  assumes "execute_confirmed_mutation env rq preflight w = Some (r, w')" "MutationRequest_ok rq"
    and "\<forall>s. preflight = Some s \<longrightarrow> RuntimeSnapshot_ok s"
    and "\<forall>v s. fst (env_capture env v) = Inr s \<longrightarrow> RuntimeSnapshot_ok s"
  shows "\<exists>log. calls w' = calls w @ log \<and>
    (dispatches log = [] \<or>
     (\<exists>s payload. dispatches log = [payload] \<and> (case preflight of Some p \<Rightarrow> s = p | None \<Rightarrow> hd log = Captured (Inr s)) \<and>
        dispatchable rq s \<and> serialize (MutationRequest_obj (dispatched_request rq s)) = Inr payload))"
proof -
  from execute_guarantee [OF assms] obtain log where log: "calls w' = calls w @ log"
    and or: "(unsuccessful rq r \<and> no_dispatch log) \<or>
     (\<exists>s rest. (preflight = Some s \<and> log = rest \<or> preflight = None \<and> log = Captured (Inr s) # rest) \<and>
        0 \<le> snap_sequence s \<and> execution_sound rq s r rest)"
    by blast
  from or show ?thesis
    by (intro exI [of _ log] conjI log)
      (auto simp: execution_sound_def dispatches_none)
qed

theorem dispatch_at_most_once_witness:
  "\<exists>r w' log. execute_confirmed_mutation sample_env (sample_request PRESENT) None sample_world = Some (r, w') \<and>
     calls w' = calls sample_world @ log \<and> length (dispatches log) \<le> 1"
proof -
  have caps: "\<forall>v s. fst (env_capture sample_env v) = Inr s \<longrightarrow> RuntimeSnapshot_ok s"
    using sample_captures by (simp add: valid_captures_def)
  obtain x w' where ex: "execute_confirmed_mutation sample_env (sample_request PRESENT) None sample_world = Some (Inr x, w')"
    using sample_ends by blast
  from dispatch_at_most_once [OF ex _ _ caps] ex show ?thesis by fastforce
qed

text \<open>
  C3. An outcome is confirmed only by observation: every predicate of the request holds in a
  snapshot of the expected generation, which is the last snapshot the execution captured, or
  the preflight snapshot it was given when it made no call at all.  The outcome answers the
  request: it has its identifier, generation and operation.
\<close>

theorem confirmed_is_observed:
  assumes "execute_confirmed_mutation env rq preflight w = Some (Inr x, w')" "MutationRequest_ok rq"
    and "\<forall>s. preflight = Some s \<longrightarrow> RuntimeSnapshot_ok s"
    and "\<forall>v s. fst (env_capture env v) = Inr s \<longrightarrow> RuntimeSnapshot_ok s"
  shows "answers rq x \<and>
    (succeeded x \<longrightarrow> (\<exists>log s. calls w' = calls w @ log \<and> observed_in rq s \<and>
       (if log = [] then preflight = Some s else last log = Captured (Inr s))))"
proof -
  from execute_guarantee [OF assms] obtain log where log: "calls w' = calls w @ log"
    and or: "(unsuccessful rq (Inr x) \<and> no_dispatch log) \<or>
     (\<exists>s rest. (preflight = Some s \<and> log = rest \<or> preflight = None \<and> log = Captured (Inr s) # rest) \<and>
        0 \<le> snap_sequence s \<and> execution_sound rq s (Inr x) rest)"
    by blast
  have "answers rq x" using or by (auto simp: unsuccessful_def execution_sound_def sound_result_def)
  moreover have "\<exists>s. observed_in rq s \<and> (if log = [] then preflight = Some s else last log = Captured (Inr s))"
    if "succeeded x"
    using or that by (auto simp: unsuccessful_def execution_sound_def sound_result_def succeeded_def)
  ultimately show ?thesis using log by blast
qed

text \<open>
  C4. Every execution ends, whatever the native connection does: the polling loop returns because
  the clock moves past the deadline.  It ends in an outcome that answers the request, unless its
  last call explains the exception that leaves it: a capture raised something other than a
  \<open>RuntimeError\<close> or one without a message, the dispatch raised or returned no valid ticket, or a
  predicate cannot be evaluated in the snapshot just captured (or in the given preflight, when no
  call was made).  No other failure escapes: a stale precondition, an expired deadline, a refused
  dispatch, an unavailable runtime and a lost generation all become outcomes.
\<close>

theorem execution_total:
  assumes "clock_advances env (instant (rq_deadline_at rq))" "\<forall>v s. fst (env_capture env v) = Inr s \<longrightarrow> RuntimeSnapshot_ok s"
    and "MutationRequest_ok rq" "serialize (MutationRequest_obj rq) = Inr d"
    and "\<forall>s. preflight = Some s \<longrightarrow> RuntimeSnapshot_ok s"
  shows "\<exists>r w' log. execute_confirmed_mutation env rq preflight w = Some (r, w') \<and> calls w' = calls w @ log \<and>
    (\<forall>c \<in> set log. native_call env c) \<and>
    (case r of
       Inr x \<Rightarrow> answers rq x
     | Inl e \<Rightarrow>
         if log = [] then \<exists>s. preflight = Some s \<and> confirmations_from_snapshot s (rq_confirmation_predicates rq) = Inl e
         else escape_cause rq (last log) e)"
proof -
  have caps: "valid_captures env" using assms(2) by (simp add: valid_captures_def)
  have "0 \<le> snap_sequence s" if "preflight = Some s \<or> (\<exists>w. fst (capture_snapshot_call env w) = Inr s)" for s
    using that capture_call_ok [OF caps] assms(5) by (metis RuntimeSnapshot_ok_def prod.collapse)
  from execute_returns [OF assms(1,3) this, of preflight w] obtain r w'
    where ex: "execute_confirmed_mutation env rq preflight w = Some (r, w')" by blast
  from execute_settled [OF ex clock_advances_reads [OF assms(1)] caps assms(3,4)] assms(5) ex show ?thesis
    unfolding settled_def by blast
qed

theorem execution_total_witness:
  "\<exists>x w'. execute_confirmed_mutation sample_env (sample_request PRESENT) None sample_world = Some (Inr x, w') \<and>
     answers (sample_request PRESENT) x"
proof -
  obtain d where d: "serialize (MutationRequest_obj (sample_request PRESENT)) = Inr d" using sample_serialized by blast
  have caps: "\<forall>v s. fst (env_capture sample_env v) = Inr s \<longrightarrow> RuntimeSnapshot_ok s"
    using sample_captures by (simp add: valid_captures_def)
  have "MutationRequest_ok (sample_request PRESENT)" by simp
  from execution_total [OF sample_clock caps this d, of None sample_world] sample_ends show ?thesis by auto
qed

lemma execute_given:
  assumes "reads_clock env" "MutationRequest_ok rq" "env_time env (env_state w) < instant (rq_deadline_at rq)"
  shows "\<exists>w1. calls w1 = calls w \<and> execute_confirmed_mutation env rq (Some s) w = check_preflight env rq s w1"
  by (rule exI [of _ "w\<lparr>env_state := snd (env_clock env (env_state w))\<rparr>"])
    (use is_expired_clock [of env w rq] assms in \<open>simp add: execute_confirmed_mutation_def reads_clock_def\<close>)

lemma satisfied_execute:
  assumes "reads_clock env" "MutationRequest_ok rq" "env_time env (env_state w) < instant (rq_deadline_at rq)"
    and "RuntimeSnapshot_ok s" "observed_in rq s" "\<And>n. rq_expected_sequence rq = Some n \<Longrightarrow> snap_sequence s = n + 1"
  shows "\<exists>x w'. execute_confirmed_mutation env rq (Some s) w = Some (Inr x, w') \<and> calls w' = calls w \<and>
    succeeded x \<and> map cf_predicate (oc_confirmations x) = rq_confirmation_predicates rq \<and>
    oc_completed_at x = snap_captured_at s"
proof -
  obtain w1 where w1: "calls w1 = calls w" "execute_confirmed_mutation env rq (Some s) w = check_preflight env rq s w1"
    using execute_given [OF assms(1-3)] by blast
  obtain cs x where "confirmations_from_snapshot s (rq_confirmation_predicates rq) = Inr cs"
    "length cs = length (rq_confirmation_predicates rq)" "confirmed_outcome rq s cs = Inr x" "oc_status x = CONFIRMED"
    "oc_confirmations x = cs" "map cf_predicate cs = rq_confirmation_predicates rq" "oc_completed_at x = snap_captured_at s"
    using satisfied_confirmed [OF assms(2,4,5)] by blast
  moreover have "snap_generation s = rq_expected_generation rq" using assms(5) by (simp add: observed_in_def)
  moreover have "\<not> (rq_expected_sequence rq \<noteq> None \<and> snap_sequence s \<noteq> the (rq_expected_sequence rq) + 1)"
    using assms(6) by (cases "rq_expected_sequence rq") auto
  ultimately show ?thesis using w1 by (auto simp: check_preflight_def succeeded_def simp del: not_None_eq)
qed

theorem confirmed_is_observed_witness:
  "\<exists>x w'. execute_confirmed_mutation sample_env (sample_request PRESENT)
       (Some (sample_snapshot 6 [sample_link 7])) sample_world = Some (Inr x, w') \<and> succeeded x \<and>
     answers (sample_request PRESENT) x"
proof -
  let ?s = "sample_snapshot 6 [sample_link 7]"
  have ok: "RuntimeSnapshot_ok ?s" by simp
  have rq: "MutationRequest_ok (sample_request PRESENT)" by simp
  have alive: "env_time sample_env (env_state sample_world) < instant (rq_deadline_at (sample_request PRESENT))"
    by (simp add: env_time_def sample_env_def sample_world_def utc_instant_def max_us_def us_per_day_def)
  have caps: "\<forall>v s. fst (env_capture sample_env v) = Inr s \<longrightarrow> RuntimeSnapshot_ok s"
    using sample_captures by (simp add: valid_captures_def)
  obtain x w' where x: "execute_confirmed_mutation sample_env (sample_request PRESENT) (Some ?s) sample_world = Some (Inr x, w')"
      "succeeded x"
    using satisfied_execute [OF sample_reads_clock rq alive ok sample_observed] by auto
  from confirmed_is_observed [OF x(1) rq _ caps] ok x show ?thesis by auto
qed

text \<open>
  A request that already holds in its preflight snapshot is confirmed from that snapshot
  without touching the connection: no capture, no dispatch.  The outcome confirms the
  request's predicates in their order, at the time the snapshot was captured.
\<close>

lemma satisfied_preflight_confirmed:
  assumes "reads_clock env" "MutationRequest_ok rq" "env_time env (env_state w) < instant (rq_deadline_at rq)"
    and "RuntimeSnapshot_ok s" "observed_in rq s" "\<And>n. rq_expected_sequence rq = Some n \<Longrightarrow> snap_sequence s = n + 1"
  shows "\<exists>x w'. execute_confirmed_mutation env rq (Some s) w = Some (Inr x, w') \<and> calls w' = calls w \<and>
    succeeded x \<and> map cf_predicate (oc_confirmations x) = rq_confirmation_predicates rq \<and>
    oc_completed_at x = snap_captured_at s"
  using satisfied_execute [OF assms] .

lemma sample_alive: "env_time sample_env (env_state sample_world) < instant (rq_deadline_at (sample_request operator))"
  by (simp add: env_time_def sample_env_def sample_world_def utc_instant_def max_us_def us_per_day_def)

text \<open>
  C30. A preflight snapshot of another generation, or one that is not the capture right after
  the sequence the caller projected, rejects the request with the matching code before
  anything is dispatched.
\<close>

theorem stale_preflight_rejected:
  assumes "reads_clock env" "MutationRequest_ok rq" "env_time env (env_state w) < instant (rq_deadline_at rq)"
    and "snap_generation s \<noteq> rq_expected_generation rq \<or>
      (\<exists>n. rq_expected_sequence rq = Some n \<and> snap_sequence s \<noteq> n + 1)"
  shows "\<exists>x f w'. execute_confirmed_mutation env rq (Some s) w = Some (Inr x, w') \<and> calls w' = calls w \<and>
    oc_status x = REJECTED \<and> oc_failure x = Some f \<and> fl_phase f = PRECONDITION \<and> \<not> fl_retryable f \<and>
    fl_code f = (if snap_generation s \<noteq> rq_expected_generation rq then STALE_GENERATION else STALE_SEQUENCE)"
proof -
  obtain w1 where w1: "calls w1 = calls w" "execute_confirmed_mutation env rq (Some s) w = check_preflight env rq s w1"
    using execute_given [OF assms(1-3)] by blast
  note fail = failure_outcome_total [OF assms(1,2) confirmations_ok_Nil]
  show ?thesis
  proof (cases "snap_generation s = rq_expected_generation rq")
    case False
    then show ?thesis
      using w1 fail [of STALE_GENERATION PRECONDITION REJECTED
          "''expected generation '' @ show_int (rq_expected_generation rq) @ '', observed '' @ show_int (snap_generation s)"
          "PDict [(PStr ''observed_generation'', PInt (snap_generation s))]" _ False w1]
      by (auto simp: check_preflight_def details_generation)
  next
    case True
    with assms(4) obtain n where "rq_expected_sequence rq = Some n" "snap_sequence s \<noteq> n + 1" by blast
    with True show ?thesis
      using w1 fail [of STALE_SEQUENCE PRECONDITION REJECTED
          "''expected projection sequence '' @ show_int n @ '', preflight captured sequence '' @ show_int (snap_sequence s)"
          "PDict [(PStr ''observed_sequence'', PInt (snap_sequence s))]" _ False w1]
      by (auto simp: check_preflight_def details_sequence)
  qed
qed

theorem stale_preflight_rejected_witness:
  "\<exists>x f w'. execute_confirmed_mutation sample_env (sample_request PRESENT)
       (Some (sample_snapshot 9 [])) sample_world = Some (Inr x, w') \<and> calls w' = [] \<and>
     oc_failure x = Some f \<and> fl_code f = STALE_SEQUENCE"
  using stale_preflight_rejected [OF sample_reads_clock _ sample_alive, of PRESENT "sample_snapshot 9 []"]
  by (auto simp: sample_world_def)

text \<open>
  A request whose deadline has passed when the execution starts times out without any call
  to the connection.
\<close>

lemma expired_request_times_out:
  assumes "reads_clock env" "MutationRequest_ok rq" "instant (rq_deadline_at rq) \<le> env_time env (env_state w)"
  shows "\<exists>x f w'. execute_confirmed_mutation env rq preflight w = Some (Inr x, w') \<and> calls w' = calls w \<and>
    oc_status x = TIMED_OUT \<and> oc_failure x = Some f \<and> fl_code f = DEADLINE_EXPIRED"
  using is_expired_clock [of env w rq] assms
    failure_outcome_total [OF assms(1,2) confirmations_ok_Nil, of DEADLINE_EXPIRED DEADLINE TIMED_OUT
      "''mutation deadline expired before runtime preflight''" "PDict []" "[]" False
      "w\<lparr>env_state := snd (env_clock env (env_state w))\<rparr>"]
  by (auto simp: execute_confirmed_mutation_def reads_clock_def details_empty)

text \<open>
  C31. A ticket that is not ready always becomes an outcome, with the ticket's own failure code:
  cancelled tickets cancel, failed tickets fail, and rejected ones reject, as a validation
  failure when the operation is unsupported and as a precondition failure otherwise.  Only a
  lost generation may be retried.
\<close>

theorem refused_dispatch_reported:
  assumes "reads_clock env" "MutationRequest_ok rq" "mutation_dispatch_ticket_from_payload v = Inr tk"
    and "tk_disposition tk \<noteq> TicketReady"
  shows "\<exists>x f w'. ticket_failure_outcome env rq tk w = (Inr x, w') \<and> answers rq x \<and> oc_failure x = Some f \<and>
    Some (fl_code f) = tk_failure_code tk \<and> fl_retryable f = (fl_code f = GENERATION_LOST) \<and>
    oc_status x = (case tk_disposition tk of TicketCancelled \<Rightarrow> CANCELLED | TicketFailed \<Rightarrow> FAILED | _ \<Rightarrow> REJECTED) \<and>
    fl_phase f = (case tk_disposition tk of TicketCancelled \<Rightarrow> CANCELLATION | TicketFailed \<Rightarrow> EXECUTION
      | _ \<Rightarrow> if fl_code f = UNSUPPORTED_OPERATION then VALIDATION else PRECONDITION)"
proof -
  from ticket_failure_total [OF assms(1,2) decoded_ticket_ok [OF assms(3)] assms(4), of w]
  obtain x w' f where "ticket_failure_outcome env rq tk w = (Inr x, w')" "answers rq x"
    "oc_status x = fst (ticket_status tk)" "oc_failure x = Some f" "Some (fl_code f) = tk_failure_code tk"
    "fl_phase f = fst (snd (ticket_status tk))" "fl_retryable f = (fl_code f = GENERATION_LOST)"
    by blast
  then show ?thesis
    by (intro exI [of _ x] exI [of _ f] exI [of _ w'])
      (cases "tk_disposition tk"; cases "tk_failure_code tk"; simp add: ticket_status_def Let_def assms(4))
qed

definition refused_ticket :: pyval where
  "refused_ticket = PDict
     [(PStr ''payload_version'', PInt 1), (PStr ''request_id'', PStr ''r1''), (PStr ''operation'', PStr ''create_link''),
      (PStr ''dispatch_order'', PInt 0), (PStr ''disposition'', PStr ''rejected''), (PStr ''expected_generation'', PInt 1),
      (PStr ''expected_sequence'', PInt 6), (PStr ''observed_generation'', PInt 1), (PStr ''observed_sequence'', PInt 8),
      (PStr ''failure_code'', PStr ''stale_sequence'')]"

theorem refused_dispatch_reported_witness:
  "\<exists>tk x f w'. mutation_dispatch_ticket_from_payload refused_ticket = Inr tk \<and>
     ticket_failure_outcome sample_env (sample_request PRESENT) tk sample_world = (Inr x, w') \<and>
     oc_failure x = Some f \<and> fl_code f = STALE_SEQUENCE"
proof -
  have "\<exists>tk. mutation_dispatch_ticket_from_payload refused_ticket = Inr tk \<and> tk_disposition tk = TicketRejected \<and>
      tk_failure_code tk = Some STALE_SEQUENCE"
    by (simp add: refused_ticket_def mutation_dispatch_ticket_from_payload_def exact_keys_def ticket_fields_def dict_get_def
      dict_item_def mk_MutationDispatchTicketValue_def val_required_string_def classified_def val_enum_def enum_lookup_def
      operation_members_def disposition_members_def code_members_def val_identifier_def val_integer_def
      val_optional_identifier_def val_optional_def val_failure_code_def ticket_consistent_def Let_def)
  then obtain tk where tk: "mutation_dispatch_ticket_from_payload refused_ticket = Inr tk"
      "tk_disposition tk \<noteq> TicketReady" "tk_failure_code tk = Some STALE_SEQUENCE"
    by auto
  from refused_dispatch_reported [OF sample_reads_clock _ tk(1,2), of "sample_request PRESENT" sample_world]
  show ?thesis using tk by fastforce
qed

text \<open>
  A capture that fails with a \<open>RuntimeError\<close> while the mutation is unconfirmed ends the
  execution at once: a runtime that says it has stopped or is not ready cancels the request,
  any other failure is an internal error; the confirmations gathered so far are kept.
\<close>

lemma stopped_runtime_cancels:
  assumes "reads_clock env" "MutationRequest_ok rq" "confirmations_ok rq cs"
    and "env_time env (env_state w) < instant (rq_deadline_at rq)"
    and "fst (env_capture env (snd (env_clock env (env_state w)))) = Inl (RuntimeError m)" "m \<noteq> []"
  shows "\<exists>x f w'. confirmation_loop env rq cs w = Some (Inr x, w') \<and> oc_confirmations x = cs \<and> oc_failure x = Some f \<and>
    fl_message f = m \<and>
    fl_code f = (if str_contains ''stopped'' (str_lower m) \<or> str_contains ''not ready'' (str_lower m)
      then RUNTIME_STOPPED else INTERNAL_ERROR)"
proof -
  define w1 where "w1 = w\<lparr>env_state := snd (env_clock env (env_state w))\<rparr>"
  have x: "is_expired env rq PNone w = (Inr False, w1)"
    using is_expired_clock [of env w rq] assms by (auto simp: reads_clock_def w1_def)
  obtain w2 where y: "capture_snapshot_call env w1 = (Inl (RuntimeError m), w2)"
    using assms(5) by (cases "env_capture env (env_state w1)") (auto simp: capture_snapshot_call_def w1_def)
  show ?thesis
    using runtime_unavailable_total [OF assms(1-3), of "RuntimeError m" w2] assms(6) x y
    by (auto simp: confirmation_loop.simps confirmation_turn_def finish_def split: if_splits)
qed

text \<open>
  C37. Two links that carry the same managed identity are observed as no link at all: a
  predicate that requires the link to be absent holds in such a snapshot, although both links
  are there.
\<close>

theorem duplicates_observed_absent:
  assumes "2 \<le> length (managed_links s owner desired)" "tg_object_kind (cp_target p) = KLink"
    and "selector (cp_target p) ''owner'' = PStr owner" "selector (cp_target p) ''desired_id'' = PStr desired"
    and "cp_operator p = ABSENT" "cp_path p = []"
  shows "predicate_matches p (snapshot_observation s (cp_target p)) = Inr True \<and> snap_links s \<noteq> []"
proof -
  obtain l1 l2 ls where m: "managed_links s owner desired = l1 # l2 # ls"
    using assms(1) by (auto simp: numeral_2_eq_2 Suc_le_length_iff)
  then have "l1 \<in> set (snap_links s)"
    by (metis list.set_intros(1) managed_links_def filter_is_subset subsetD)
  moreover have "snapshot_observation s (cp_target p) = PNone"
    using assms m by (simp add: snapshot_observation_def both_def)
  ultimately show ?thesis using assms by (auto simp: predicate_matches_def)
qed

theorem duplicates_observed_absent_witness:
  "RuntimeSnapshot_ok (sample_snapshot 6 [sample_link 7, sample_link 8]) \<and>
   predicate_matches (sample_predicate ABSENT)
     (snapshot_observation (sample_snapshot 6 [sample_link 7, sample_link 8]) sample_target) = Inr True"
  using duplicates_observed_absent [of "sample_snapshot 6 [sample_link 7, sample_link 8]" "''session''" "''music''"
      "sample_predicate ABSENT"] sample_managed [of 6 "[7, 8]"]
  by (simp add: sample_predicate_def sample_target_def selector_def)








lemma named_instant: "val_named_timestamp (PDatetime d) n = Inr s \<Longrightarrow> instant s = utc_instant d \<and> timestamp_ok s"
  by (frule val_named_timestamp_ok) (auto simp: val_named_timestamp_def catching_Inr_iff val_timestamp_def to_utc_def rbind_eq_Inr_iff Let_def
    split: option.splits if_splits)

lemma created_request:
  assumes "mk_MutationRequest i g op tgt (PDatetime (Datetime u (Some 0))) (PDatetime (Datetime d (Some 0))) seq pl preds = Inr rq"
    and "well_formed tgt" "well_formed pl" "well_formed preds"
  shows "MutationRequest_ok rq \<and> instant (rq_requested_at rq) = u \<and> instant (rq_deadline_at rq) = d"
  using assms unfolding mk_MutationRequest_def MutationRequest_ok_def
  by (auto simp: validator_simps elim!: rbind_InrE intro: val_ok dest!: named_instant simp: utc_instant_def deadline_follows_iff)

text \<open>
  C33. A created request is valid and its deadline lies exactly the timeout after the request time, to the
  microsecond: the timeout is a finite, non-negative number of seconds, rounded to
  microseconds once.  Creating a request does not touch the connection.
\<close>

theorem request_creation:
  assumes "create_request env g op tgt preds timeout seq payload request_id now w = (Inr rq, w')"
    and "well_formed tgt" "well_formed payload" "well_formed preds"
  shows "MutationRequest_ok rq \<and> calls w' = calls w \<and>
    (\<exists>f us. py_float timeout (TypeError ''timeout must be a number'') = Inr f \<and> isfinite f \<and> \<not> float_lt f 0 \<and>
       timedelta_us f = Inr us \<and> instant (rq_deadline_at rq) = instant (rq_requested_at rq) + us)"
proof -
  have "well_formed (PTuple items)" if "as_seq preds = Some items" for items
    using that assms(4) by (cases preds) auto
  moreover have "well_formed (if truthy payload then payload else PDict [])" using assms(3) by simp
  ultimately show ?thesis
    using assms(1,2)
    by (auto simp: create_request_def abind_def alift_def areturn_def utc_now_def uuid4_def add_timedelta_def
      split: prod.splits sum.splits if_splits option.splits elim!: rbind_InrE dest!: created_request)
qed

lemma sample_timeout:
  "isfinite (0 :: pyfloat)" "\<not> float_lt (0 :: pyfloat) 0" "timedelta_us (0 :: pyfloat) = Inr 0"
  by code_simp+

theorem request_creation_witness:
  "\<exists>rq w'. create_request sample_env (PInt 1) (PStr ''create_link'') (MutationTargetValue_obj sample_target)
       (PList [ConfirmationPredicateValue_obj (sample_predicate PRESENT)]) (PFloat 0) PNone PNone (PStr ''r1'')
       (PDatetime sample_now) sample_world = (Inr rq, w') \<and>
     instant (rq_deadline_at rq) = instant (rq_requested_at rq) \<and> calls w' = []"
proof -
  let ?tgt = "MutationTargetValue_obj sample_target" and ?p = "ConfirmationPredicateValue_obj (sample_predicate PRESENT)"
  have tgt: "as_MutationTargetValue ?tgt = Some sample_target"
    by (rule as_MutationTargetValue_obj) (simp add: sample_target_def MutationTargetValue_ok_def mapping_ok_def)
  have "list_all ConfirmationPredicateValue_ok [sample_predicate PRESENT]"
    using sample_request_ok [of PRESENT] by (simp add: MutationRequest_ok_def)
  from vals_ConfirmationPredicateValue_obj [OF this]
  have preds: "val_runtime_values as_ConfirmationPredicateValue e (PTuple [?p]) n = Inr [sample_predicate PRESENT]" for e n
    by (simp add: tuple_obj_def)
  have now: "val_named_timestamp (PDatetime (Datetime 0 (Some 0))) n = Inr (render_utc 0)" for n
    by (simp add: val_named_timestamp_def val_timestamp_def to_utc_def utc_instant_def max_us_def us_per_day_def)
  have parse: "parse_timestamp (PDatetime sample_now) = Inr 0"
    using parse_timestamp_clock [OF clock_ok_sample] by (simp add: sample_now_def utc_instant_def)
  have follows: "deadline_follows (render_utc 0) (render_utc 0) = Inr ()"
    by (rule deadline_follows_obj) simp_all
  have "\<exists>rq w'. create_request sample_env (PInt 1) (PStr ''create_link'') ?tgt (PList [?p]) (PFloat 0) PNone PNone
      (PStr ''r1'') (PDatetime sample_now) sample_world = (Inr rq, w')"
    using tgt preds now parse follows
    by (simp add: create_request_def abind_def alift_def areturn_def is_number_def py_float_def sample_timeout
      add_timedelta_def max_us_def us_per_day_def mk_MutationRequest_def val_required_string_def val_identifier_def
      val_integer_def val_optional_identifier_def val_optional_def val_enum_def enum_lookup_def operation_members_def
      val_instance_def val_mapping_def FrozenDict_init_def)
  then obtain rq w' where rq: "create_request sample_env (PInt 1) (PStr ''create_link'') ?tgt (PList [?p]) (PFloat 0) PNone PNone
      (PStr ''r1'') (PDatetime sample_now) sample_world = (Inr rq, w')" by blast
  have "well_formed ?tgt" "well_formed (PList [?p])"
    by (simp_all add: MutationTargetValue_obj_def MutationTargetValue_fields_def sample_target_def
      ConfirmationPredicateValue_obj_def ConfirmationPredicateValue_fields_def sample_predicate_def tuple_obj_def)
  then show ?thesis
    using request_creation [OF rq] rq sample_timeout by (fastforce simp: py_float_def sample_world_def)
qed

end
