(* ===== verification/Requests.thy ===== *)
theory Requests
  imports Execution
begin

text \<open>
  What the mutations of \<open>src/src/wyreplumber/runtime/controls.py\<close> share: a control validates,
  captures a preflight snapshot when it needs one, builds one request and executes it.  The
  lemmas carry the guarantees of an execution over to the control, and say what a satisfied
  predicate tells of the observed object.
\<close>

section \<open>Composing a control\<close>

type_synonym 'w control = "'w world \<Rightarrow> ((exn + MutationOutcome) \<times> 'w world) option"

definition obind :: "('w, 'a) action \<Rightarrow> ('a \<Rightarrow> 'w control) \<Rightarrow> 'w control" where
  "obind m f w = (case m w of (Inl e, w') \<Rightarrow> Some (Inl e, w') | (Inr a, w') \<Rightarrow> f a w')"

lemma obind_Some_Inr:
  "obind m f w = Some (Inr x, w') \<longleftrightarrow> (\<exists>a w1. m w = (Inr a, w1) \<and> f a w1 = Some (Inr x, w'))"
  by (auto simp: obind_def split: prod.split sum.split)

lemma obind_Some:
  "obind m f w = Some (r, w') \<longleftrightarrow>
     (\<exists>e. m w = (Inl e, w') \<and> r = Inl e) \<or> (\<exists>a w1. m w = (Inr a, w1) \<and> f a w1 = Some (r, w'))"
  by (auto simp: obind_def split: prod.split sum.split)

text \<open>The statements every control ends with: create the request, execute it.\<close>

definition submit ::
    "'w runtime \<Rightarrow> pyval \<Rightarrow> MutationOperation \<Rightarrow> MutationTargetValue \<Rightarrow> pyval \<Rightarrow> pyval \<Rightarrow> pyval \<Rightarrow> pyval \<Rightarrow> pyval \<Rightarrow>
     RuntimeSnapshot option \<Rightarrow> 'w control" where
  "submit env expected_generation operation target predicates timeout expected_sequence payload request_id preflight =
     obind (create_request env expected_generation (PStrEnum ''MutationOperation'' (operation_value operation))
              (MutationTargetValue_obj target) predicates timeout expected_sequence payload request_id PNone)
       (\<lambda>request. execute_confirmed_mutation env request preflight)"

definition object_kind_obj :: "RuntimeObjectKind \<Rightarrow> pyval" where
  "object_kind_obj kind = PStrEnum ''RuntimeObjectKind'' (object_kind_value kind)"

text \<open>The predicates the controls write: a value at a path, and the absence of the target.\<close>

definition equals_predicate :: "MutationTargetValue \<Rightarrow> pyval list \<Rightarrow> pyval \<Rightarrow> exn + ConfirmationPredicateValue" where
  "equals_predicate target path expected =
     mk_ConfirmationPredicateValue (MutationTargetValue_obj target)
       (PStrEnum ''ConfirmationOperator'' (operator_value EQUALS)) (PTuple path) expected PNone"

definition absent_predicate :: "MutationTargetValue \<Rightarrow> exn + ConfirmationPredicateValue" where
  "absent_predicate target =
     mk_ConfirmationPredicateValue (MutationTargetValue_obj target)
       (PStrEnum ''ConfirmationOperator'' (operator_value ABSENT)) (PTuple []) PNone PNone"

definition predicate_tuple :: "(exn + ConfirmationPredicateValue) list \<Rightarrow> exn + pyval" where
  "predicate_tuple ps = rbind (traverse id ps) (\<lambda>ps. Inr (tuple_obj ConfirmationPredicateValue_obj ps))"

text \<open>\<open>tuple(confirmation_predicates or default)\<close>\<close>

definition predicates_or :: "pyval \<Rightarrow> exn + pyval \<Rightarrow> exn + pyval" where
  "predicates_or given default_predicates =
     (if truthy given
      then (case as_seq given of
              None \<Rightarrow> Inl (TypeError ''object is not iterable'')
            | Some items \<Rightarrow> Inr (PTuple items))
      else default_predicates)"

definition pipewire_identifier :: "pyval \<Rightarrow> string \<Rightarrow> exn + int" where
  "pipewire_identifier value name =
     rbind (val_identifier value name) (\<lambda>result.
       if result > 4294967295 then Inl (ValueError (name @ '' exceeds the PipeWire ID range'')) else Inr result)"


section \<open>The request that is submitted\<close>

lemma traverse_id_Inr: "traverse id rs = Inr ps \<longleftrightarrow> rs = map Inr ps"
  by (induction rs arbitrary: ps) (auto simp: rbind_eq_Inr_iff Cons_eq_map_conv)

lemma predicate_tuple_Inr:
  "predicate_tuple rs = Inr v \<longleftrightarrow> (\<exists>ps. rs = map Inr ps \<and> v = tuple_obj ConfirmationPredicateValue_obj ps)"
  by (auto simp: predicate_tuple_def rbind_eq_Inr_iff traverse_id_Inr)

lemma create_request_fields:
  assumes "create_request env g (PStrEnum c (operation_value op)) (MutationTargetValue_obj t)
      (tuple_obj ConfirmationPredicateValue_obj ps) timeout seq payload rid now w = (Inr rq, w')"
    and "MutationTargetValue_ok t" "list_all ConfirmationPredicateValue_ok ps" "well_formed payload"
  shows "MutationRequest_ok rq \<and> calls w' = calls w \<and> rq_target rq = t \<and> rq_operation rq = op \<and>
    rq_confirmation_predicates rq = ps \<and>
    val_mapping (if truthy payload then payload else PDict []) ''payload'' = Inr (rq_payload rq) \<and>
    as_int g = Some (rq_expected_generation rq)"
proof -
  have w: "well_formed (if truthy payload then payload else PDict [])" using assms(4) by simp
  have "val_runtime_values as_ConfirmationPredicateValue e (tuple_obj ConfirmationPredicateValue_obj ps) n = Inr ps" for e n
    using assms(3) by (rule vals_ConfirmationPredicateValue_obj)
  then have preds: "val_runtime_values as_ConfirmationPredicateValue e (PTuple (map ConfirmationPredicateValue_obj ps)) n = Inr ps" for e n
    by (simp add: tuple_obj_def)
  have tgt: "val_instance as_MutationTargetValue e (MutationTargetValue_obj t) n = Inr t" for e n
    using assms(2) by (rule val_MutationTargetValue_obj)
  have op: "val_enum operation_value operation_members (PStrEnum c (operation_value op)) n = Inr op" for n
    by (rule operation.val_enum_member)
  have *: "MutationRequest_ok rq \<and> rq_target rq = t \<and> rq_operation rq = op \<and> rq_confirmation_predicates rq = ps \<and>
      val_mapping pl ''payload'' = Inr (rq_payload rq) \<and> as_int g = Some (rq_expected_generation rq)"
    if "mk_MutationRequest i g (PStrEnum c (operation_value op)) (MutationTargetValue_obj t) (PDatetime (Datetime u (Some 0)))
        (PDatetime (Datetime d (Some 0))) seq pl (PTuple (map ConfirmationPredicateValue_obj ps)) = Inr rq" "well_formed pl"
    for i u d pl
    using that assms(2,3) unfolding mk_MutationRequest_def MutationRequest_ok_def tgt op preds
    by (auto simp: validator_simps elim!: rbind_InrE intro: val_ok dest!: named_instant simp: utc_instant_def deadline_follows_iff)
  show ?thesis
    using assms(1) w
    by (auto simp: create_request_def abind_def alift_def areturn_def utc_now_def uuid4_def add_timedelta_def tuple_obj_def
      split: prod.splits sum.splits if_splits option.splits elim!: rbind_InrE dest!: *)
qed

text \<open>The predicates a control builds.\<close>

lemma equals_predicate_fields:
  assumes "equals_predicate t path e = Inr p" "MutationTargetValue_ok t" "well_formed e"
  shows "ConfirmationPredicateValue_ok p \<and> cp_target p = t \<and> cp_operator p = EQUALS \<and>
    val_path (PTuple path) = Inr (cp_path p) \<and> contract_value e = Inr (cp_expected p)"
proof -
  have tgt: "val_instance as_MutationTargetValue n (MutationTargetValue_obj t) m = Inr t" for n m
    using assms(2) by (rule val_MutationTargetValue_obj)
  have op: "val_enum operator_value operator_members (PStrEnum c (operator_value x)) n = Inr x" for c x n
    by (rule operator.val_enum_member)
  show ?thesis
    using assms unfolding equals_predicate_def mk_ConfirmationPredicateValue_def tgt op ConfirmationPredicateValue_ok_def
    by (auto elim!: rbind_InrE intro: val_ok simp del: operator_value.simps)
qed

lemma absent_predicate_fields:
  assumes "absent_predicate t = Inr p" "MutationTargetValue_ok t"
  shows "ConfirmationPredicateValue_ok p \<and> cp_target p = t \<and> cp_operator p = ABSENT \<and> cp_path p = []"
proof -
  have tgt: "val_instance as_MutationTargetValue n (MutationTargetValue_obj t) m = Inr t" for n m
    using assms(2) by (rule val_MutationTargetValue_obj)
  have op: "val_enum operator_value operator_members (PStrEnum c (operator_value x)) n = Inr x" for c x n
    by (rule operator.val_enum_member)
  show ?thesis
    using assms unfolding absent_predicate_def mk_ConfirmationPredicateValue_def tgt op ConfirmationPredicateValue_ok_def
    by (auto elim!: rbind_InrE intro: val_ok simp: val_path_def val_tolerance_def contract_value_def simp del: operator_value.simps split: if_splits)
qed

text \<open>What they are for a named field and a scalar.\<close>

definition field_equals :: "MutationTargetValue \<Rightarrow> string \<Rightarrow> pyval \<Rightarrow> ConfirmationPredicateValue" where
  "field_equals t name e =
     \<lparr>cp_target = t, cp_operator = EQUALS, cp_path = [StrId name], cp_expected = e, cp_tolerance = None\<rparr>"

lemma equals_predicate_field:
  assumes "MutationTargetValue_ok t" "name \<noteq> []" "contract_value e = Inr e'"
  shows "equals_predicate t [PStr name] e = Inr (field_equals t name e')"
proof -
  have tgt: "val_instance as_MutationTargetValue n (MutationTargetValue_obj t) m = Inr t" for n m
    using assms(1) by (rule val_MutationTargetValue_obj)
  have op: "val_enum operator_value operator_members (PStrEnum c (operator_value x)) n = Inr x" for c x n
    by (rule operator.val_enum_member)
  show ?thesis
    using assms unfolding equals_predicate_def mk_ConfirmationPredicateValue_def tgt op
    by (simp add: val_path_def val_identity_def val_required_string_def val_tolerance_def field_equals_def
      del: operator_value.simps)
qed

lemma field_equals_simps [simp]:
  "cp_target (field_equals t name e) = t" "cp_operator (field_equals t name e) = EQUALS"
  "cp_path (field_equals t name e) = [StrId name]" "cp_expected (field_equals t name e) = e"
  by (simp_all add: field_equals_def)

lemma field_equals_ok [simp]:
  "MutationTargetValue_ok t \<Longrightarrow> name \<noteq> [] \<Longrightarrow> contract_ok e \<Longrightarrow> ConfirmationPredicateValue_ok (field_equals t name e)"
  by (simp add: field_equals_def ConfirmationPredicateValue_ok_def tolerance_ok_def)

text \<open>
  What an execution from a given preflight snapshot guarantees, and with it a control that
  submits a request: the request has the control's target, predicates and payload.
\<close>

lemma executed_given:
  assumes "execute_confirmed_mutation env rq (Some s) w = Some (r, w')" "MutationRequest_ok rq"
    and "RuntimeSnapshot_ok s" "\<forall>v s. fst (env_capture env v) = Inr s \<longrightarrow> RuntimeSnapshot_ok s"
  shows "\<exists>log. calls w' = calls w @ log \<and> ((unsuccessful rq r \<and> no_dispatch log) \<or> execution_sound rq s r log)"
proof -
  have "\<forall>s'. Some s = Some s' \<longrightarrow> RuntimeSnapshot_ok s'" using assms(3) by simp
  from execute_guarantee [OF assms(1,2) this assms(4)] show ?thesis by auto
qed

lemma submit_given:
  assumes "submit env g op t (tuple_obj ConfirmationPredicateValue_obj ps) timeout seq payload rid (Some s) w = Some (Inr x, w')"
    and "MutationTargetValue_ok t" "list_all ConfirmationPredicateValue_ok ps" "well_formed payload"
    and "RuntimeSnapshot_ok s" "\<forall>v s. fst (env_capture env v) = Inr s \<longrightarrow> RuntimeSnapshot_ok s"
  shows "\<exists>rq log. MutationRequest_ok rq \<and> rq_target rq = t \<and> rq_operation rq = op \<and>
    rq_confirmation_predicates rq = ps \<and>
    val_mapping (if truthy payload then payload else PDict []) ''payload'' = Inr (rq_payload rq) \<and>
    as_int g = Some (rq_expected_generation rq) \<and> calls w' = calls w @ log \<and>
    ((unsuccessful rq (Inr x) \<and> no_dispatch log) \<or> execution_sound rq s (Inr x) log)"
proof -
  from assms(1) obtain rq w1 where rq: "create_request env g (PStrEnum ''MutationOperation'' (operation_value op))
      (MutationTargetValue_obj t) (tuple_obj ConfirmationPredicateValue_obj ps) timeout seq payload rid PNone w = (Inr rq, w1)"
      "execute_confirmed_mutation env rq (Some s) w1 = Some (Inr x, w')"
    by (auto simp: submit_def obind_Some_Inr)
  note f = create_request_fields [OF rq(1) assms(2-4)]
  with executed_given [OF rq(2) _ assms(5,6)] show ?thesis by auto
qed

text \<open>A confirmed outcome rests on the last snapshot captured, the preflight snapshot included.\<close>

lemma given_confirmed:
  assumes "(unsuccessful rq (Inr x) \<and> no_dispatch log) \<or> execution_sound rq s (Inr x) log" "succeeded x"
  shows "\<exists>s'. last (Captured (Inr s) # log) = Captured (Inr s') \<and> observed_in rq s'"
  using assms by (auto simp: unsuccessful_def execution_sound_def sound_result_def succeeded_def)

text \<open>What is dispatched is allowed by the preflight snapshot.\<close>

lemma given_dispatched:
  assumes "(unsuccessful rq (Inr x) \<and> no_dispatch log) \<or> execution_sound rq s (Inr x) log" "payload \<in> set (dispatches log)"
  shows "dispatches log = [payload] \<and> dispatchable rq s \<and>
    serialize (MutationRequest_obj (dispatched_request rq s)) = Inr payload"
  using assms by (auto simp: execution_sound_def dispatches_none)

text \<open>A capture that succeeds is logged, and its snapshot is valid when every capture is.\<close>

lemma captured_ok:
  assumes "capture_snapshot_call env w = (Inr s, w')" "\<forall>v s. fst (env_capture env v) = Inr s \<longrightarrow> RuntimeSnapshot_ok s"
  shows "RuntimeSnapshot_ok s \<and> calls w' = calls w @ [Captured (Inr s)]"
proof -
  have "fst (env_capture env (env_state w)) = Inr s"
    using assms(1) by (auto simp: capture_snapshot_call_def split: prod.splits)
  then show ?thesis using assms(2) capture_calls [OF assms(1)] by blast
qed

section \<open>What a satisfied predicate tells\<close>

lemma serialized_field:
  assumes "traverse (\<lambda>(k, v). rbind (serialize v) (\<lambda>s. Inr (PStr k, s))) fs = Inr kvs"
  shows "dict_get kvs n = Some s \<longleftrightarrow> (\<exists>v. map_of fs n = Some v \<and> serialize v = Inr s)"
  using assms by (induction fs arbitrary: kvs) (auto simp: dict_get_def rbind_eq_Inr_iff)

text \<open>An \<open>equals\<close> predicate on one field of an instance compares the encoding of that field.\<close>

lemma equals_field:
  assumes "predicate_matches p observation = Inr True" "cp_operator p = EQUALS" "cp_path p = [StrId n]"
    and "observation = PNone \<or> (\<exists>t fs. observation = PValue t fs)" "n \<noteq> ''schema_version''" "n \<noteq> ''value_type''"
  shows "\<exists>t fs v s a b. observation = PValue t fs \<and> map_of (filter (\<lambda>item. \<not> omitted t item) fs) n = Some v \<and>
    serialize v = Inr s \<and> comparable s = Inr a \<and> comparable (cp_expected p) = Inr b \<and> py_eq a b"
proof -
  from assms(1-4) obtain t fs where o: "observation = PValue t fs"
    by (auto simp: predicate_matches_def)
  from assms(1) o obtain kvs where kvs: "traverse (\<lambda>(k, v). rbind (serialize v) (\<lambda>s. Inr (PStr k, s)))
      (filter (\<lambda>item. \<not> omitted t item) fs) = Inr kvs"
    by (auto simp: predicate_matches_def rbind_eq_Inr_iff)
  then have enc: "serialize observation = Inr (PDict ((PStr ''schema_version'', PInt 1) # (PStr ''value_type'', PStr t) # kvs))"
    by (simp add: o)
  have "dict_get ((PStr ''schema_version'', PInt 1) # (PStr ''value_type'', PStr t) # kvs) n = dict_get kvs n"
    using assms(5,6) by (auto simp: dict_get_def)
  then obtain s where "dict_get kvs n = Some s" "\<exists>a b. comparable s = Inr a \<and> comparable (cp_expected p) = Inr b \<and> py_eq a b"
    using assms(1-3) enc o unfolding predicate_matches_def
    by (auto simp: rbind_eq_Inr_iff Let_def split: option.splits simp del: serialize.simps)
  then show ?thesis using o serialized_field [OF kvs] by auto
qed

section \<open>A control whose effect is observed already\<close>

text \<open>A runtime whose clock stands still and that always captures the same snapshot.\<close>

definition still_env :: "RuntimeSnapshot \<Rightarrow> unit runtime" where
  "still_env s =
     \<lparr>env_clock = (\<lambda>u. (sample_now, u)), env_uuid = (\<lambda>u. (''uuid'', u)), env_capture = (\<lambda>u. (Inr s, u)),
       env_dispatch = (\<lambda>payload u. (Inl (RuntimeError ''not ready''), u)), env_sleep = (\<lambda>u. u)\<rparr>"

definition still_world :: "call list \<Rightarrow> unit world" where
  "still_world cs = \<lparr>env_state = (), calls = cs\<rparr>"

text \<open>One second, as a float.\<close>

definition one_second :: pyval where
  "one_second = PFloat 4607182418800017408"

lemma one_second_timeout:
  "isfinite 4607182418800017408" "\<not> float_lt 4607182418800017408 0" "timedelta_us 4607182418800017408 = Inr 1000000"
  by code_simp+

lemma still_simps:
  "env_clock (still_env s) u = (sample_now, u)" "env_capture (still_env s) u = (Inr s, u)"
  "utc_now (still_env s) w = (Inr sample_now, w)"
  "capture_snapshot_call (still_env s) (still_world cs) = (Inr s, still_world (cs @ [Captured (Inr s)]))"
  "calls (still_world cs) = cs" "reads_clock (still_env s)" "env_time (still_env s) u = 0"
  using clock_ok_sample
  by (simp_all add: still_env_def utc_now_def capture_snapshot_call_def still_world_def reads_clock_def env_time_def
    sample_now_def utc_instant_def)

lemma create_request_still:
  assumes "MutationTargetValue_ok t" "list_all ConfirmationPredicateValue_ok ps" "ps \<noteq> []" "well_formed payload"
    and "val_mapping (if truthy payload then payload else PDict []) ''payload'' = Inr pl" "0 \<le> g"
  shows "create_request (still_env s) (PInt g) (PStrEnum c (operation_value op)) (MutationTargetValue_obj t)
      (tuple_obj ConfirmationPredicateValue_obj ps) one_second PNone payload (PStr ''r1'') PNone w =
    (Inr \<lparr>rq_request_id = ''r1'', rq_expected_generation = g, rq_operation = op, rq_target = t,
       rq_requested_at = render_utc 0, rq_deadline_at = render_utc 1000000, rq_expected_sequence = None,
       rq_payload = pl, rq_confirmation_predicates = ps\<rparr>, w)"
proof -
  have "val_runtime_values as_ConfirmationPredicateValue e (tuple_obj ConfirmationPredicateValue_obj ps) n = Inr ps" for e n
    using assms(2) by (rule vals_ConfirmationPredicateValue_obj)
  then have preds: "val_runtime_values as_ConfirmationPredicateValue e (PTuple (map ConfirmationPredicateValue_obj ps)) n = Inr ps" for e n
    by (simp add: tuple_obj_def)
  have tgt: "val_instance as_MutationTargetValue e (MutationTargetValue_obj t) n = Inr t" for e n
    using assms(1) by (rule val_MutationTargetValue_obj)
  have op: "val_enum operation_value operation_members (PStrEnum c (operation_value op)) n = Inr op" for n
    by (rule operation.val_enum_member)
  have stamp: "val_named_timestamp (PDatetime (Datetime u (Some 0))) n = Inr (render_utc u)" if "0 \<le> u" "u < max_us" for u n
    using that by (simp add: val_named_timestamp_def val_timestamp_def to_utc_def utc_instant_def)
  have parse: "parse_timestamp (PDatetime sample_now) = Inr 0"
    using parse_timestamp_clock [OF clock_ok_sample] by (simp add: sample_now_def utc_instant_def)
  have follows: "deadline_follows (render_utc 1000000) (render_utc 0) = Inr ()"
    by (rule deadline_follows_obj) simp_all
  have req: "mk_MutationRequest (PStr ''r1'') (PInt g) (PStrEnum c (operation_value op)) (MutationTargetValue_obj t)
      (PDatetime (Datetime 0 (Some 0))) (PDatetime (Datetime 1000000 (Some 0))) PNone
      (if truthy payload then payload else PDict []) (PTuple (map ConfirmationPredicateValue_obj ps)) =
    Inr \<lparr>rq_request_id = ''r1'', rq_expected_generation = g, rq_operation = op, rq_target = t,
       rq_requested_at = render_utc 0, rq_deadline_at = render_utc 1000000, rq_expected_sequence = None,
       rq_payload = pl, rq_confirmation_predicates = ps\<rparr>"
    using assms(3,5,6) preds tgt op follows stamp [of 0] stamp [of 1000000]
    by (simp add: mk_MutationRequest_def val_obj val_optional_identifier_def val_optional_def max_us_def us_per_day_def
      del: operation_value.simps)
  show ?thesis
    using req one_second_timeout parse
    by (simp add: create_request_def abind_def alift_def areturn_def is_number_def py_float_def one_second_def still_simps
      add_timedelta_def max_us_def us_per_day_def tuple_obj_def del: operation_value.simps)
qed

lemma submit_satisfied:
  assumes "MutationTargetValue_ok t" "list_all ConfirmationPredicateValue_ok ps" "ps \<noteq> []" "well_formed payload"
    and "val_mapping (if truthy payload then payload else PDict []) ''payload'' = Inr pl"
    and "RuntimeSnapshot_ok s"
    and "list_all (\<lambda>p. predicate_matches p (snapshot_observation s (cp_target p)) = Inr True) ps"
  shows "\<exists>x w'. submit (still_env s) (PInt (snap_generation s)) op t (tuple_obj ConfirmationPredicateValue_obj ps) one_second
      PNone payload (PStr ''r1'') (Some s) w = Some (Inr x, w') \<and> succeeded x \<and> calls w' = calls w"
proof -
  let ?rq = "\<lparr>rq_request_id = ''r1'', rq_expected_generation = snap_generation s, rq_operation = op, rq_target = t,
       rq_requested_at = render_utc 0, rq_deadline_at = render_utc 1000000, rq_expected_sequence = None,
       rq_payload = pl, rq_confirmation_predicates = ps\<rparr>"
  have g: "0 \<le> snap_generation s" using assms(6) by (simp add: RuntimeSnapshot_ok_def)
  note create = create_request_still [OF assms(1-5) g, of s "''MutationOperation''" op w]
  have ok: "MutationRequest_ok ?rq"
    using create_request_fields [OF create assms(1,2,4)] by simp
  have "\<exists>x w'. execute_confirmed_mutation (still_env s) ?rq (Some s) w = Some (Inr x, w') \<and> calls w' = calls w \<and> succeeded x"
    using satisfied_execute [of "still_env s" ?rq w s] ok assms(6,7) by (auto simp: still_simps observed_in_def)
  then show ?thesis using create by (auto simp: submit_def obind_def)
qed

end
