(* ===== verification/Json.thy ===== *)
theory Json
  imports Prelude
begin

text \<open>
  The part of Python's \<open>json\<close> module the runtime package uses.  Strings are kept as UTF-8;
  \<open>json.dumps\<close> escapes every character outside printable ASCII by its code point, as one or,
  beyond the basic plane, two UTF-16 units.
\<close>

section \<open>Code points\<close>

text \<open>The continuation byte that carries the six lowest bits of \<open>n\<close>.\<close>

definition continuation :: "nat \<Rightarrow> char" where
  "continuation n = char_of (128 + n mod 64)"

definition utf8_char :: "nat \<Rightarrow> string" where
  "utf8_char n =
     (if n < 128 then [char_of n]
      else if n < 2048 then [char_of (192 + n div 64), continuation n]
      else if n < 65536 then [char_of (224 + n div 4096), continuation (n div 64), continuation n]
      else [char_of (240 + n div 262144), continuation (n div 4096), continuation (n div 64), continuation n])"

definition utf8_encode :: "nat list \<Rightarrow> string" where
  "utf8_encode points = concat (map utf8_char points)"

definition payload_bits :: "char \<Rightarrow> nat" where
  "payload_bits c = of_char c mod 64"

text \<open>The inverse on well-formed strings; a byte that starts no sequence stands for itself.\<close>

fun utf8_decode :: "string \<Rightarrow> nat list" where
  "utf8_decode [] = []"
| "utf8_decode (c # cs) =
     (let b = of_char c :: nat in
      if b < 192 then b # utf8_decode cs
      else if b < 224 then
        (case cs of c1 # rest \<Rightarrow> ((b - 192) * 64 + payload_bits c1) # utf8_decode rest | _ \<Rightarrow> [b])
      else if b < 240 then
        (case cs of c1 # c2 # rest \<Rightarrow>
           ((b - 224) * 4096 + payload_bits c1 * 64 + payload_bits c2) # utf8_decode rest | _ \<Rightarrow> [b])
      else
        (case cs of c1 # c2 # c3 # rest \<Rightarrow>
           ((b - 240) * 262144 + payload_bits c1 * 4096 + payload_bits c2 * 64 + payload_bits c3) # utf8_decode rest
         | _ \<Rightarrow> [b]))"

definition code_point :: "nat \<Rightarrow> bool" where
  "code_point n \<longleftrightarrow> n < 1114112"

definition scalar_value :: "nat \<Rightarrow> bool" where
  "scalar_value n \<longleftrightarrow> code_point n \<and> \<not> (55296 \<le> n \<and> n < 57344)"

lemma of_char_small [simp]: "n < 256 \<Longrightarrow> of_char (char_of n :: char) = (n :: nat)"
  by simp

lemma payload_bits_continuation [simp]: "payload_bits (continuation n) = n mod 64"
proof -
  have "128 + n mod 64 < 256" using mod_less_divisor [of 64 n] by linarith
  then have "of_char (continuation n) = 128 + n mod 64" by (simp add: continuation_def)
  moreover have "(128 + n mod 64) mod 64 = n mod 64" using mod_mult_self1 [of "n mod 64" 2 64] by (simp add: add.commute)
  ultimately show ?thesis by (simp add: payload_bits_def)
qed

text \<open>A number from its digits to the base 64.\<close>

lemma base64_digits:
  "n div 4096 * 4096 + n div 64 mod 64 * 64 + n mod 64 = (n :: nat)"
  "n div 262144 * 262144 + n div 4096 mod 64 * 4096 + n div 64 mod 64 * 64 + n mod 64 = n"
proof -
  have q: "n div 4096 = n div 64 div 64" "n div 262144 = n div 64 div 64 div 64"
    by (simp_all add: div_mult2_eq [symmetric])
  have *: "m div 64 * 64 + m mod 64 = m" for m :: nat by simp
  from * [of n] * [of "n div 64"] * [of "n div 64 div 64"] show
    "n div 4096 * 4096 + n div 64 mod 64 * 64 + n mod 64 = n"
    "n div 262144 * 262144 + n div 4096 mod 64 * 4096 + n div 64 mod 64 * 64 + n mod 64 = n"
    unfolding q by linarith+
qed

lemma utf8_decode_char:
  assumes "code_point n"
  shows "utf8_decode (utf8_char n @ s) = n # utf8_decode s"
proof -
  consider "n < 128" | "128 \<le> n" "n < 2048" | "2048 \<le> n" "n < 65536" | "65536 \<le> n" by linarith
  then show ?thesis
  proof cases
    case 1
    then show ?thesis by (simp add: utf8_char_def)
  next
    case 2
    then have "192 + n div 64 < 256" "n div 64 < 32" by auto
    with 2 show ?thesis by (simp add: utf8_char_def Let_def)
  next
    case 3
    then have "224 + n div 4096 < 256" "n div 4096 < 16" by auto
    with 3 show ?thesis using base64_digits(1) [of n] by (simp add: utf8_char_def Let_def)
  next
    case 4
    then have "240 + n div 262144 < 256" "n div 262144 < 8" using assms by (auto simp: code_point_def)
    with 4 show ?thesis using base64_digits(2) [of n] by (simp add: utf8_char_def Let_def)
  qed
qed

lemma utf8_decode_encode: "list_all code_point ps \<Longrightarrow> utf8_decode (utf8_encode ps) = ps"
  by (induction ps) (simp_all add: utf8_encode_def utf8_decode_char)

section \<open>Encoding\<close>

definition hex_char :: "nat \<Rightarrow> char" where
  "hex_char d = char_of (if d < 10 then 48 + d else 87 + d)"

text \<open>\<open>\u\<close> followed by four hexadecimal digits.\<close>

definition unicode_escape :: "nat \<Rightarrow> string" where
  "unicode_escape n =
     [CHR 0x5C, CHR ''u'', hex_char (n div 4096 mod 16), hex_char (n div 256 mod 16), hex_char (n div 16 mod 16),
      hex_char (n mod 16)]"

definition json_escape :: "nat \<Rightarrow> string" where
  "json_escape n =
     (if n = 34 then [CHR 0x5C, CHR 0x22]
      else if n = 92 then [CHR 0x5C, CHR 0x5C]
      else if n = 10 then [CHR 0x5C, CHR ''n'']
      else if n = 13 then [CHR 0x5C, CHR ''r'']
      else if n = 9 then [CHR 0x5C, CHR ''t'']
      else if n = 12 then [CHR 0x5C, CHR ''f'']
      else if n = 8 then [CHR 0x5C, CHR ''b'']
      else if 32 \<le> n \<and> n < 127 then [char_of n]
      else if n < 65536 then unicode_escape n
      else unicode_escape (55296 + (n - 65536) div 1024) @ unicode_escape (56320 + (n - 65536) mod 1024))"

definition json_string :: "string \<Rightarrow> string" where
  "json_string s = CHR 0x22 # concat (map json_escape (utf8_decode s)) @ [CHR 0x22]"

section \<open>Digits\<close>

text \<open>The first of each run of ten decimal digits (category \<open>Nd\<close>) of Unicode 15.\<close>

definition decimal_zeros :: "nat list" where
  "decimal_zeros =
     [48, 1632, 1776, 1984, 2406, 2534, 2662, 2790, 2918, 3046, 3174, 3302, 3430, 3558, 3664, 3792, 3872, 4160, 4240,
      6112, 6160, 6470, 6608, 6784, 6800, 6992, 7088, 7232, 7248, 42528, 43216, 43264, 43472, 43504, 43600, 44016,
      65296, 66720, 68912, 69734, 69872, 69942, 70096, 70384, 70736, 70864, 71248, 71360, 71472, 71904, 72016, 72784,
      73040, 73120, 73552, 92768, 92864, 93008, 120782, 120792, 120802, 120812, 120822, 123200, 123632, 124144,
      125264, 130032]"

end
