(* ===== verification/MetadataControls.thy ===== *)
theory MetadataControls
  imports Requests Json
begin

text \<open>
  The metadata mutations of \<open>src/src/wyreplumber/runtime/controls.py\<close>: setting and clearing one
  metadata entry, the configured default nodes, and the explicit target of a stream.  Each
  validates its arguments, builds one request and hands it to \<open>_execute_confirmed_mutation\<close>.
\<close>

section \<open>Metadata targets\<close>

definition metadata_target :: "pyval \<Rightarrow> pyval \<Rightarrow> pyval \<Rightarrow> exn + MutationTargetValue" where
  "metadata_target metadata_id subject key =
     rbind (pipewire_identifier metadata_id ''metadata_id'') (\<lambda>_.
     rbind (pipewire_identifier subject ''subject'') (\<lambda>_.
     rbind (val_required_string key ''key'' False) (\<lambda>_.
     mk_MutationTargetValue (object_kind_obj KMetadata) metadata_id
       (PDict [(PStr ''subject'', subject), (PStr ''key'', key)]))))"

section \<open>One metadata entry\<close>

definition set_runtime_metadata ::
    "'w runtime \<Rightarrow> pyval \<Rightarrow> pyval \<Rightarrow> pyval \<Rightarrow> pyval \<Rightarrow> pyval \<Rightarrow> pyval \<Rightarrow> pyval \<Rightarrow> pyval \<Rightarrow> pyval \<Rightarrow> pyval \<Rightarrow> 'w control" where
  "set_runtime_metadata env metadata_id subject key value expected_generation type_name confirmation_predicates
       expected_sequence timeout request_id =
     obind (alift
       (rbind (metadata_target metadata_id subject key) (\<lambda>target.
        rbind (val_required_string value ''value'' True) (\<lambda>_.
        rbind (if type_name = PNone then Inr []
               else val_required_string type_name ''type_name'' False) (\<lambda>_.
        rbind (predicates_or confirmation_predicates
                 (predicate_tuple [equals_predicate target [PStr ''value''] value,
                    equals_predicate target [PStr ''type_name''] type_name])) (\<lambda>predicates.
        Inr (target, predicates)))))))
     (\<lambda>(target, predicates).
        submit env expected_generation SET_METADATA target predicates timeout expected_sequence
          (PDict [(PStr ''type_name'', type_name), (PStr ''value'', value)]) request_id None)"

definition clear_runtime_metadata ::
    "'w runtime \<Rightarrow> pyval \<Rightarrow> pyval \<Rightarrow> pyval \<Rightarrow> pyval \<Rightarrow> pyval \<Rightarrow> pyval \<Rightarrow> pyval \<Rightarrow> pyval \<Rightarrow> 'w control" where
  "clear_runtime_metadata env metadata_id subject key expected_generation confirmation_predicates
       expected_sequence timeout request_id =
     obind (alift
       (rbind (metadata_target metadata_id subject key) (\<lambda>target.
        rbind (predicates_or confirmation_predicates (predicate_tuple [absent_predicate target])) (\<lambda>predicates.
        Inr (target, predicates)))))
     (\<lambda>(target, predicates).
        submit env expected_generation CLEAR_METADATA target predicates timeout expected_sequence
          (PDict []) request_id None)"

section \<open>Configured defaults\<close>

text \<open>The media classes that have a default, with the field of \<open>DefaultsValue\<close> and the metadata key.\<close>

definition default_node_metadata :: "(string \<times> string \<times> string) list" where
  "default_node_metadata =
     [(''Audio/Sink'', ''audio_sink'', ''default.configured.audio.sink''),
      (''Audio/Source'', ''audio_source'', ''default.configured.audio.source''),
      (''Video/Source'', ''video_source'', ''default.configured.video.source'')]"

definition default_metadata :: "RuntimeSnapshot \<Rightarrow> exn + MetadataValue" where
  "default_metadata s =
     (case find (\<lambda>m. md_name m = Some ''default'') (snap_metadata s) of
        Some m \<Rightarrow> Inr m
      | None \<Rightarrow>
          (case Option.bind (dflt_metadata_id (snap_defaults s)) (map_of (metadata_by_id s)) of
             Some m \<Rightarrow> Inr m
           | None \<Rightarrow> Inl (ValueError ''the current runtime does not expose default metadata'')))"

text \<open>\<open>node.name or node.properties.get("node.name")\<close>, when it is a non-empty string.\<close>

definition property_item :: "fields \<Rightarrow> string \<Rightarrow> pyval" where
  "property_item properties name = (case map_of properties name of None \<Rightarrow> PNone | Some v \<Rightarrow> v)"

definition exposed_name :: "NodeValue \<Rightarrow> string option" where
  "exposed_name node =
     (case nd_name node of
        Some (c # cs) \<Rightarrow> Some (c # cs)
      | _ \<Rightarrow> (case as_str (property_item (nd_properties node) ''node.name'') of
                Some (c # cs) \<Rightarrow> Some (c # cs)
              | _ \<Rightarrow> None))"

text \<open>\<open>json.dumps({"name": node_name}, separators=(",", ":"))\<close>\<close>

definition encoded_name :: "string \<Rightarrow> string" where
  "encoded_name node_name = ''{'' @ json_string ''name'' @ '':'' @ json_string node_name @ ''}''"

text \<open>\<open>media_class or node.media_class\<close>\<close>

definition selected_class :: "NodeValue \<Rightarrow> string option \<Rightarrow> string option" where
  "selected_class node media_class = (case media_class of Some (c # cs) \<Rightarrow> Some (c # cs) | _ \<Rightarrow> nd_media_class node)"

definition default_node_request ::
    "RuntimeSnapshot \<Rightarrow> int \<Rightarrow> string option \<Rightarrow> exn + MutationTargetValue \<times> string \<times> pyval" where
  "default_node_request preflight node_id media_class =
     (case map_of (nodes_by_id preflight) node_id of
        None \<Rightarrow> Inl (ValueError (''node_id '' @ show_int node_id @ '' is not present in the current runtime''))
      | Some node \<Rightarrow>
          (case Option.bind (selected_class node media_class) (map_of default_node_metadata) of
             None \<Rightarrow> Inl (ValueError ''default node media_class must be Audio/Sink, Audio/Source, or Video/Source'')
           | Some (defaults_field, key) \<Rightarrow>
               if nd_media_class node \<noteq> selected_class node media_class
               then Inl (ValueError (''node '' @ show_int node_id @ '' has media class ''))
               else (case exposed_name node of
                 None \<Rightarrow> Inl (ValueError (''node '' @ show_int node_id @ '' does not expose a non-empty node.name''))
               | Some node_name \<Rightarrow>
                   rbind (default_metadata preflight) (\<lambda>metadata.
                   rbind (metadata_target (PInt (md_id metadata)) (PInt 0) (PStr key)) (\<lambda>target.
                   rbind (mk_MutationTargetValue (object_kind_obj KMetadata) (PInt (md_id metadata))
                            (PDict [(PStr ''defaults_field'', PStr defaults_field)])) (\<lambda>observed_default.
                   rbind (predicate_tuple
                            [equals_predicate target [PStr ''value''] (PStr (encoded_name node_name)),
                             equals_predicate target [PStr ''type_name''] (PStr ''Spa:String:JSON''),
                             equals_predicate observed_default [PStr ''resolved_node_id''] (PInt node_id)]) (\<lambda>predicates.
                   Inr (target, encoded_name node_name, predicates))))))))"

definition set_default_node ::
    "'w runtime \<Rightarrow> pyval \<Rightarrow> pyval \<Rightarrow> string option \<Rightarrow> pyval \<Rightarrow> pyval \<Rightarrow> pyval \<Rightarrow> 'w control" where
  "set_default_node env node_id expected_generation media_class expected_sequence timeout request_id =
     obind (alift (pipewire_identifier node_id ''node_id'')) (\<lambda>node_id.
     obind (capture_snapshot_call env) (\<lambda>preflight.
     obind (alift (default_node_request preflight node_id media_class)) (\<lambda>(target, encoded, predicates).
     submit env expected_generation SET_METADATA target predicates timeout expected_sequence
       (PDict [(PStr ''type_name'', PStr ''Spa:String:JSON''), (PStr ''value'', PStr encoded)]) request_id
       (Some preflight))))"

text \<open>Clearing an entry that the preflight snapshot locates.\<close>

definition clear_entry ::
    "'w runtime \<Rightarrow> RuntimeSnapshot \<Rightarrow> pyval \<Rightarrow> pyval \<Rightarrow> pyval \<Rightarrow> pyval \<Rightarrow> pyval \<Rightarrow> pyval \<Rightarrow> 'w control" where
  "clear_entry env preflight subject key expected_generation expected_sequence timeout request_id =
     obind (alift
       (rbind (default_metadata preflight) (\<lambda>metadata.
        rbind (metadata_target (PInt (md_id metadata)) subject key) (\<lambda>target.
        rbind (predicate_tuple [absent_predicate target]) (\<lambda>predicates.
        Inr (target, predicates))))))
     (\<lambda>(target, predicates).
        submit env expected_generation CLEAR_METADATA target predicates timeout expected_sequence
          (PDict []) request_id (Some preflight))"

definition clear_default_node ::
    "'w runtime \<Rightarrow> string \<Rightarrow> pyval \<Rightarrow> pyval \<Rightarrow> pyval \<Rightarrow> pyval \<Rightarrow> 'w control" where
  "clear_default_node env media_class expected_generation expected_sequence timeout request_id =
     (case map_of default_node_metadata media_class of
        None \<Rightarrow> (\<lambda>w. Some (Inl (ValueError ''media_class must be Audio/Sink, Audio/Source, or Video/Source''), w))
      | Some (defaults_field, key) \<Rightarrow>
          obind (capture_snapshot_call env) (\<lambda>preflight.
          clear_entry env preflight (PInt 0) (PStr key) expected_generation expected_sequence timeout request_id))"

section \<open>Stream targets\<close>

definition isdecimal :: "string \<Rightarrow> bool" where
  "isdecimal s \<longleftrightarrow>
     s \<noteq> [] \<and> list_all (\<lambda>n. list_ex (\<lambda>zero. zero \<le> n \<and> n < zero + 10) decimal_zeros) (utf8_decode s)"

definition stream_target_identity :: "NodeValue \<Rightarrow> exn + string \<times> string" where
  "stream_target_identity node =
     (let serial = property_item (nd_properties node) ''object.serial'';
          named = (case exposed_name node of
                     Some name \<Rightarrow> Inr (name, ''Spa:String'')
                   | None \<Rightarrow> Inl (ValueError
                       (''node '' @ show_int (nd_id node) @ '' exposes neither object.serial nor node.name'')))
      in case as_int serial of
           Some n \<Rightarrow> if 0 \<le> n then Inr (show_int n, ''Spa:Id'') else named
         | None \<Rightarrow>
             (case as_str serial of
                Some digits \<Rightarrow> if isdecimal digits then Inr (digits, ''Spa:Id'') else named
              | None \<Rightarrow> named))"

text \<open>The stream a target is set or cleared for: a present node of a \<open>Stream/\<close> media class.\<close>

definition current_stream :: "RuntimeSnapshot \<Rightarrow> int \<Rightarrow> exn + NodeValue" where
  "current_stream preflight stream_node_id =
     (case map_of (nodes_by_id preflight) stream_node_id of
        None \<Rightarrow> Inl (ValueError (''stream_node_id '' @ show_int stream_node_id @ '' is not present in the current runtime''))
      | Some stream \<Rightarrow>
          if starts_with ''Stream/'' (case nd_media_class stream of None \<Rightarrow> [] | Some c \<Rightarrow> c) then Inr stream
          else Inl (ValueError (''node '' @ show_int stream_node_id @ '' is not a stream node'')))"

definition stream_target_request ::
    "RuntimeSnapshot \<Rightarrow> int \<Rightarrow> int \<Rightarrow> exn + MutationTargetValue \<times> string \<times> string \<times> pyval" where
  "stream_target_request preflight stream_node_id target_node_id =
     rbind (current_stream preflight stream_node_id) (\<lambda>_.
     case map_of (nodes_by_id preflight) target_node_id of
       None \<Rightarrow> Inl (ValueError (''target_node_id '' @ show_int target_node_id @ '' is not present in the current runtime''))
     | Some target_node \<Rightarrow>
         rbind (stream_target_identity target_node) (\<lambda>(target_value, type_name).
         rbind (default_metadata preflight) (\<lambda>metadata.
         rbind (metadata_target (PInt (md_id metadata)) (PInt stream_node_id) (PStr ''target.object'')) (\<lambda>target.
         rbind (predicate_tuple
                  [equals_predicate target [PStr ''value''] (PStr target_value),
                   equals_predicate target [PStr ''type_name''] (PStr type_name)]) (\<lambda>predicates.
         Inr (target, target_value, type_name, predicates))))))"

definition set_stream_target ::
    "'w runtime \<Rightarrow> pyval \<Rightarrow> pyval \<Rightarrow> pyval \<Rightarrow> pyval \<Rightarrow> pyval \<Rightarrow> pyval \<Rightarrow> 'w control" where
  "set_stream_target env stream_node_id target_node_id expected_generation expected_sequence timeout request_id =
     obind (alift (pipewire_identifier stream_node_id ''stream_node_id'')) (\<lambda>stream_node_id.
     obind (alift (pipewire_identifier target_node_id ''target_node_id'')) (\<lambda>target_node_id.
     obind (capture_snapshot_call env) (\<lambda>preflight.
     obind (alift (stream_target_request preflight stream_node_id target_node_id))
       (\<lambda>(target, target_value, type_name, predicates).
     submit env expected_generation SET_METADATA target predicates timeout expected_sequence
       (PDict [(PStr ''type_name'', PStr type_name), (PStr ''value'', PStr target_value)]) request_id
       (Some preflight)))))"

definition clear_stream_target ::
    "'w runtime \<Rightarrow> pyval \<Rightarrow> pyval \<Rightarrow> pyval \<Rightarrow> pyval \<Rightarrow> pyval \<Rightarrow> 'w control" where
  "clear_stream_target env stream_node_id expected_generation expected_sequence timeout request_id =
     obind (alift (pipewire_identifier stream_node_id ''stream_node_id'')) (\<lambda>stream_node_id.
     obind (capture_snapshot_call env) (\<lambda>preflight.
     obind (alift (current_stream preflight stream_node_id)) (\<lambda>_.
     clear_entry env preflight (PInt stream_node_id) (PStr ''target.object'') expected_generation expected_sequence
       timeout request_id)))"

section \<open>A confirmed default\<close>

lemma pipewire_identifier_iff:
  "pipewire_identifier v n = Inr i \<longleftrightarrow> as_int v = Some i \<and> 0 \<le> i \<and> i \<le> 4294967295"
  by (cases "as_int v") (auto simp: pipewire_identifier_def val_identifier_def val_integer_def)

lemma metadata_target_fields:
  assumes "metadata_target (PInt i) (PInt j) (PStr k) = Inr t"
  shows "t = \<lparr>tg_object_kind = KMetadata, tg_object_id = IntId i, tg_selector = [(''subject'', PInt j), (''key'', PStr k)]\<rparr>"
    and "MutationTargetValue_ok t"
  using assms
  by (auto simp: metadata_target_def mk_MutationTargetValue_def object_kind_obj_def
    object_kind.val_enum_member val_identity_def validator_simps val_mapping_def FrozenDict_init_def
    MutationTargetValue_ok_def mapping_ok_def pipewire_identifier_iff simp del: object_kind_value.simps elim!: rbind_InrE)

lemma defaults_target_fields:
  assumes "mk_MutationTargetValue (object_kind_obj KMetadata) (PInt i) (PDict [(PStr ''defaults_field'', PStr f)]) = Inr t"
  shows "t = \<lparr>tg_object_kind = KMetadata, tg_object_id = IntId i, tg_selector = [(''defaults_field'', PStr f)]\<rparr>"
    and "MutationTargetValue_ok t"
  using assms
  by (auto simp: mk_MutationTargetValue_def object_kind_obj_def object_kind.val_enum_member
    val_identity_def validator_simps val_mapping_def FrozenDict_init_def MutationTargetValue_ok_def mapping_ok_def
    simp del: object_kind_value.simps elim!: rbind_InrE)

lemma val_path_name: "c \<noteq> [] \<Longrightarrow> val_path (PTuple [PStr c]) = Inr [StrId c]"
  by (simp add: val_path_def val_identity_def val_required_string_def)

text \<open>The default a snapshot reports in a field of its defaults.\<close>

definition default_target :: "RuntimeSnapshot \<Rightarrow> string \<Rightarrow> DefaultTargetValue option" where
  "default_target s defaults_field =
     (case map_of [(''audio_sink'', dflt_audio_sink), (''audio_source'', dflt_audio_source),
         (''video_source'', dflt_video_source)] defaults_field of
        None \<Rightarrow> None
      | Some get \<Rightarrow> get (snap_defaults s))"

lemma default_node_metadata_fields:
  assumes "map_of default_node_metadata c = Some (f, k)"
  shows "f \<in> {''audio_sink'', ''audio_source'', ''video_source''}"
  using assms by (auto simp: default_node_metadata_def split: if_splits)

lemma observed_default:
  assumes "f \<in> {''audio_sink'', ''audio_source'', ''video_source''}"
  shows "snapshot_observation s \<lparr>tg_object_kind = KMetadata, tg_object_id = i, tg_selector = [(''defaults_field'', PStr f)]\<rparr> =
    opt_obj DefaultTargetValue_obj (default_target s f)"
  using assms
  by (auto simp: snapshot_observation_def selector_def both_def int_or_bool_def get_obj_def DefaultsValue_fields_def
    default_target_def Let_def)

lemma resolved_default:
  assumes "predicate_matches p (opt_obj DefaultTargetValue_obj d) = Inr True"
    and "cp_operator p = EQUALS" "cp_path p = [StrId ''resolved_node_id'']" "cp_expected p = PInt i"
  shows "Option.bind d dt_resolved_node_id = Some i"
proof -
  have "opt_obj DefaultTargetValue_obj d = PNone \<or> (\<exists>t fs. opt_obj DefaultTargetValue_obj d = PValue t fs)"
    by (cases d) (simp_all add: DefaultTargetValue_obj_def)
  from equals_field [OF assms(1-3) this] assms(4) show ?thesis
    by (cases d; cases "dt_resolved_node_id (the d)")
      (auto simp: DefaultTargetValue_obj_def DefaultTargetValue_fields_def omitted_def omit_none_def comparable_def)
qed

lemma default_node_request_fields:
  assumes "default_node_request s i mc = Inr (t, enc, v)"
  obtains node c f k name p1 p2 p3 where "map_of (nodes_by_id s) i = Some node" "nd_media_class node = Some c"
    "map_of default_node_metadata c = Some (f, k)" "exposed_name node = Some name" "enc = encoded_name name"
    "MutationTargetValue_ok t" "v = tuple_obj ConfirmationPredicateValue_obj [p1, p2, p3]"
    "list_all ConfirmationPredicateValue_ok [p1, p2, p3]"
    "tg_object_kind (cp_target p3) = KMetadata" "tg_selector (cp_target p3) = [(''defaults_field'', PStr f)]"
    "cp_operator p3 = EQUALS" "cp_path p3 = [StrId ''resolved_node_id'']" "cp_expected p3 = PInt i"
proof -
  from assms obtain node where node: "map_of (nodes_by_id s) i = Some node"
    by (auto simp: default_node_request_def split: option.splits)
  with assms obtain f k where fk: "Option.bind (selected_class node mc) (map_of default_node_metadata) = Some (f, k)"
      "nd_media_class node = selected_class node mc"
    by (auto simp: default_node_request_def split: option.splits if_splits)
  then obtain c where c: "nd_media_class node = Some c" "map_of default_node_metadata c = Some (f, k)"
    by (auto simp: bind_eq_Some_conv)
  from assms node fk obtain name where name: "exposed_name node = Some name"
    by (auto simp: default_node_request_def split: option.splits)
  have enc: "enc = encoded_name name"
    using assms node fk name by (auto simp: default_node_request_def elim!: rbind_InrE)
  from assms node fk name have "\<exists>(m :: MetadataValue) t3. metadata_target (PInt (md_id m)) (PInt 0) (PStr k) = Inr t \<and>
      mk_MutationTargetValue (object_kind_obj KMetadata) (PInt (md_id m)) (PDict [(PStr ''defaults_field'', PStr f)]) = Inr t3 \<and>
      predicate_tuple [equals_predicate t [PStr ''value''] (PStr (encoded_name name)),
        equals_predicate t [PStr ''type_name''] (PStr ''Spa:String:JSON''),
        equals_predicate t3 [PStr ''resolved_node_id''] (PInt i)] = Inr v"
    by (clarsimp simp: default_node_request_def rbind_eq_Inr_iff) blast
  then obtain m :: MetadataValue and t3 where t: "metadata_target (PInt (md_id m)) (PInt 0) (PStr k) = Inr t"
    and t3: "mk_MutationTargetValue (object_kind_obj KMetadata) (PInt (md_id m)) (PDict [(PStr ''defaults_field'', PStr f)]) = Inr t3"
    and v: "predicate_tuple [equals_predicate t [PStr ''value''] (PStr (encoded_name name)),
       equals_predicate t [PStr ''type_name''] (PStr ''Spa:String:JSON''),
       equals_predicate t3 [PStr ''resolved_node_id''] (PInt i)] = Inr v"
    by blast
  from v obtain p1 p2 p3 where p: "equals_predicate t [PStr ''value''] (PStr (encoded_name name)) = Inr p1"
      "equals_predicate t [PStr ''type_name''] (PStr ''Spa:String:JSON'') = Inr p2"
      "equals_predicate t3 [PStr ''resolved_node_id''] (PInt i) = Inr p3"
      "v = tuple_obj ConfirmationPredicateValue_obj [p1, p2, p3]"
    by (auto simp: predicate_tuple_Inr Cons_eq_map_conv)
  note tt = metadata_target_fields [OF t] and tt3 = defaults_target_fields [OF t3]
  show ?thesis
    using that [OF node c name enc tt(2) p(4)] equals_predicate_fields [OF p(1) tt(2)] equals_predicate_fields [OF p(2) tt(2)]
      equals_predicate_fields [OF p(3) tt3(2)] tt3(1)
    by (simp add: val_path_name contract_value_def)
qed

text \<open>
  C14. Setting a default node succeeds only when it has been observed: the node was in the
  preflight snapshot, of a media class that has a default, and in the last snapshot captured
  that class's default resolves to this node.
\<close>

theorem default_node_confirmed:
  assumes "set_default_node env (PInt i) g media_class seq timeout rid w = Some (Inr x, w')"
    and "\<forall>v s. fst (env_capture env v) = Inr s \<longrightarrow> RuntimeSnapshot_ok s"
  shows "\<exists>s log node c f k. calls w' = calls w @ Captured (Inr s) # log \<and>
    map_of (nodes_by_id s) i = Some node \<and> nd_media_class node = Some c \<and>
    map_of default_node_metadata c = Some (f, k) \<and>
    (succeeded x \<longrightarrow> (\<exists>s'. last (Captured (Inr s) # log) = Captured (Inr s') \<and>
       Option.bind (default_target s' f) dt_resolved_node_id = Some i))"
proof -
  from assms(1) obtain s w1 t enc v where s: "capture_snapshot_call env w = (Inr s, w1)"
      and r: "default_node_request s i media_class = Inr (t, enc, v)"
      and x: "submit env g SET_METADATA t v timeout seq
        (PDict [(PStr ''type_name'', PStr ''Spa:String:JSON''), (PStr ''value'', PStr enc)]) rid (Some s) w1 = Some (Inr x, w')"
    by (auto simp: set_default_node_def obind_Some_Inr alift_def pipewire_identifier_iff)
  note c = captured_ok [OF s assms(2)]
  from r obtain node c f k name p1 p2 p3 where n: "map_of (nodes_by_id s) i = Some node" "nd_media_class node = Some c"
      "map_of default_node_metadata c = Some (f, k)" and t: "MutationTargetValue_ok t"
      and v: "v = tuple_obj ConfirmationPredicateValue_obj [p1, p2, p3]" "list_all ConfirmationPredicateValue_ok [p1, p2, p3]"
      and p3: "tg_object_kind (cp_target p3) = KMetadata" "tg_selector (cp_target p3) = [(''defaults_field'', PStr f)]"
        "cp_operator p3 = EQUALS" "cp_path p3 = [StrId ''resolved_node_id'']" "cp_expected p3 = PInt i"
    by (rule default_node_request_fields)
  have f: "f \<in> {''audio_sink'', ''audio_source'', ''video_source''}"
    using n(3) by (rule default_node_metadata_fields)
  have wf: "well_formed (PDict [(PStr ''type_name'', PStr ''Spa:String:JSON''), (PStr ''value'', PStr enc)])" by simp
  obtain rq log where rq: "rq_confirmation_predicates rq = [p1, p2, p3]" "calls w' = calls w1 @ log"
      "(unsuccessful rq (Inr x) \<and> no_dispatch log) \<or> execution_sound rq s (Inr x) log"
    using submit_given [OF x [unfolded v(1)] t v(2) wf conjunct1 [OF c] assms(2)] by blast
  have "Option.bind (default_target s' f) dt_resolved_node_id = Some i" if "observed_in rq s'" for s'
  proof (rule resolved_default)
    have "cp_target p3 = \<lparr>tg_object_kind = KMetadata, tg_object_id = tg_object_id (cp_target p3), tg_selector = [(''defaults_field'', PStr f)]\<rparr>"
      using p3(1,2) by simp
    then have "snapshot_observation s' (cp_target p3) = opt_obj DefaultTargetValue_obj (default_target s' f)"
      using observed_default [OF f] by metis
    then show "predicate_matches p3 (opt_obj DefaultTargetValue_obj (default_target s' f)) = Inr True"
      using that rq(1) by (simp add: observed_in_def)
  qed (use p3 in simp_all)
  moreover have "\<exists>s'. last (Captured (Inr s) # log) = Captured (Inr s') \<and> observed_in rq s'" if "succeeded x"
    using given_confirmed [OF rq(3) that] .
  ultimately show ?thesis
    using n c rq(2) by (intro exI [of _ s] exI [of _ log] exI [of _ node] exI [of _ c] exI [of _ f] exI [of _ k]) auto
qed

text \<open>A runtime in which the device \<open>dac\<close> is the default sink, as configured.\<close>

definition default_snapshot :: RuntimeSnapshot where
  "default_snapshot =
     (let nodes = [(sample_node 10 [] [])\<lparr>nd_name := Some ''dac'', nd_media_class := Some ''Audio/Sink''\<rparr>];
          entry = \<lparr>entry_subject = 0, entry_key = ''default.configured.audio.sink'', entry_type_name = Some ''Spa:String:JSON'',
            entry_value = Some (encoded_name ''dac'')\<rparr>;
          metadata = [\<lparr>md_id = 30, md_name = Some ''default'', md_properties = [], md_entries = [entry]\<rparr>];
          target = \<lparr>dt_media_class = ''Audio/Sink'', dt_configured_name = Some ''dac'', dt_resolved_node_id = Some 10\<rparr>;
          s = (sample_snapshot 6 [])\<lparr>snap_nodes := nodes, nodes_by_id := map (\<lambda>v. (nd_id v, v)) nodes, snap_ports := [],
            ports_by_id := [], snap_metadata := metadata, metadata_by_id := map (\<lambda>v. (md_id v, v)) metadata,
            snap_defaults := no_defaults\<lparr>dflt_audio_sink := Some target\<rparr>\<rparr>
      in s\<lparr>snap_unresolved_relationships := find_unresolved_relationships s\<rparr>)"

lemma default_snapshot_ok: "RuntimeSnapshot_ok default_snapshot"
  unfolding default_snapshot_def Let_def
  by (rule RuntimeSnapshot_okI)
    (simp_all add: sample_snapshot_def indexed_def unique_index_eq sample_node_def no_defaults_def DefaultsValue_ok_def
      DefaultTargetValue_ok_def NodeValue_ok_def MetadataValue_ok_def MetadataEntryValue_ok_def ConnectionHealthValue_ok_def
      mapping_ok_def Let_def)

lemma metadata_target_eq:
  assumes "0 \<le> i" "i \<le> 4294967295" "0 \<le> j" "j \<le> 4294967295" "k \<noteq> []"
  shows "metadata_target (PInt i) (PInt j) (PStr k) =
    Inr \<lparr>tg_object_kind = KMetadata, tg_object_id = IntId i, tg_selector = [(''subject'', PInt j), (''key'', PStr k)]\<rparr>"
proof -
  have "pipewire_identifier (PInt i) n = Inr i" "pipewire_identifier (PInt j) n = Inr j" for n
    using assms by (simp_all add: pipewire_identifier_iff)
  then show ?thesis
    using assms
    by (simp add: metadata_target_def mk_MutationTargetValue_def object_kind_obj_def object_kind.val_enum_member
      val_identity_def val_identifier_def val_integer_def val_required_string_def val_mapping_def FrozenDict_init_def
      del: object_kind_value.simps)
qed

lemma defaults_target_eq:
  assumes "0 \<le> i"
  shows "mk_MutationTargetValue (object_kind_obj KMetadata) (PInt i) (PDict [(PStr ''defaults_field'', PStr f)]) =
    Inr \<lparr>tg_object_kind = KMetadata, tg_object_id = IntId i, tg_selector = [(''defaults_field'', PStr f)]\<rparr>"
  using assms
  by (simp add: mk_MutationTargetValue_def object_kind_obj_def object_kind.val_enum_member
    val_identity_def val_identifier_def val_integer_def val_mapping_def FrozenDict_init_def del: object_kind_value.simps)

definition default_predicates :: "ConfirmationPredicateValue list" where
  "default_predicates =
     (let t = \<lparr>tg_object_kind = KMetadata, tg_object_id = IntId 30,
            tg_selector = [(''subject'', PInt 0), (''key'', PStr ''default.configured.audio.sink'')]\<rparr>;
          d = \<lparr>tg_object_kind = KMetadata, tg_object_id = IntId 30, tg_selector = [(''defaults_field'', PStr ''audio_sink'')]\<rparr>
      in [field_equals t ''value'' (PStr (encoded_name ''dac'')), field_equals t ''type_name'' (PStr ''Spa:String:JSON''),
          field_equals d ''resolved_node_id'' (PInt 10)])"

lemma default_predicates_ok: "list_all ConfirmationPredicateValue_ok default_predicates"
  by (simp add: default_predicates_def Let_def MutationTargetValue_ok_def mapping_ok_def contract_ok_def)

lemma default_predicates_observed:
  "list_all (\<lambda>p. predicate_matches p (snapshot_observation default_snapshot (cp_target p)) = Inr True) default_predicates"
  by code_simp

lemma default_snapshot_request:
  "default_node_request default_snapshot 10 None =
     Inr (cp_target (hd default_predicates), encoded_name ''dac'', tuple_obj ConfirmationPredicateValue_obj default_predicates)"
proof -
  have m: "default_metadata default_snapshot = Inr (hd (snap_metadata default_snapshot))" "md_id (hd (snap_metadata default_snapshot)) = 30"
    by (simp_all add: default_metadata_def default_snapshot_def Let_def)
  obtain node where n: "map_of (nodes_by_id default_snapshot) 10 = Some node" "nd_media_class node = Some ''Audio/Sink''"
      "nd_name node = Some ''dac''"
    by (simp add: default_snapshot_def sample_node_def Let_def)
  then have n': "exposed_name node = Some ''dac''" "selected_class node None = Some ''Audio/Sink''"
    by (simp_all add: exposed_name_def selected_class_def)
  show ?thesis
    unfolding default_node_request_def n(1)
    by (simp add: n n' m metadata_target_eq defaults_target_eq equals_predicate_field MutationTargetValue_ok_def mapping_ok_def
      contract_value_def default_node_metadata_def predicate_tuple_def default_predicates_def Let_def)
qed

theorem default_node_confirmed_witness:
  "\<exists>x w'. set_default_node (still_env default_snapshot) (PInt 10) (PInt 1) None PNone one_second (PStr ''r1'') (still_world []) =
       Some (Inr x, w') \<and> succeeded x \<and>
     Option.bind (default_target default_snapshot ''audio_sink'') dt_resolved_node_id = Some 10"
proof -
  let ?payload = "PDict [(PStr ''type_name'', PStr ''Spa:String:JSON''), (PStr ''value'', PStr (encoded_name ''dac''))]"
  have t: "MutationTargetValue_ok (cp_target (hd default_predicates))"
    using default_predicates_ok by (simp add: default_predicates_def Let_def ConfirmationPredicateValue_ok_def)
  have g: "snap_generation default_snapshot = 1" by (simp add: default_snapshot_def Let_def)
  have pl: "val_mapping (if truthy ?payload then ?payload else PDict []) ''payload'' =
      Inr [(''type_name'', PStr ''Spa:String:JSON''), (''value'', PStr (encoded_name ''dac''))]"
    by (simp add: val_mapping_def FrozenDict_init_def)
  obtain x w' where x: "submit (still_env default_snapshot) (PInt 1) SET_METADATA (cp_target (hd default_predicates))
      (tuple_obj ConfirmationPredicateValue_obj default_predicates) one_second PNone ?payload (PStr ''r1'')
      (Some default_snapshot) (still_world [Captured (Inr default_snapshot)]) = Some (Inr x, w')" "succeeded x"
      "calls w' = [Captured (Inr default_snapshot)]"
    using submit_satisfied [OF t default_predicates_ok _ _ pl default_snapshot_ok default_predicates_observed,
        of SET_METADATA "still_world [Captured (Inr default_snapshot)]"] g
    by (auto simp: default_predicates_def Let_def still_simps)
  have run: "set_default_node (still_env default_snapshot) (PInt 10) (PInt 1) None PNone one_second (PStr ''r1'') (still_world []) =
      Some (Inr x, w')"
    using x(1)
    by (simp add: set_default_node_def obind_def alift_def still_simps default_snapshot_request
      pipewire_identifier_def val_identifier_def val_integer_def)
  have caps: "\<forall>v s. fst (env_capture (still_env default_snapshot) v) = Inr s \<longrightarrow> RuntimeSnapshot_ok s"
    using default_snapshot_ok by (simp add: still_simps)
  from default_node_confirmed [OF run caps] x run show ?thesis
    by (auto simp: still_simps default_node_metadata_def default_snapshot_def Let_def sample_node_def split: if_splits)
qed

end
