(* ===== verification/ManagedLinks.thy ===== *)
theory ManagedLinks
  imports Requests
begin

text \<open>
  Managed links of \<open>src/src/wyreplumber/runtime/controls.py\<close>: \<open>create_managed_link\<close> and
  \<open>remove_managed_link\<close>.  A link is identified by its owner and desired identifier; creating
  never adopts a link that exists without that identity, and removing touches only the one
  link that carries it.
\<close>

section \<open>Endpoints and properties\<close>

record link_endpoints =
  ep_output_node_id :: int
  ep_output_port_id :: int
  ep_input_node_id :: int
  ep_input_port_id :: int

definition endpoint_items :: "link_endpoints \<Rightarrow> (string \<times> int) list" where
  "endpoint_items e =
     [(''output_node_id'', ep_output_node_id e), (''output_port_id'', ep_output_port_id e),
      (''input_node_id'', ep_input_node_id e), (''input_port_id'', ep_input_port_id e)]"

definition reserved_link_properties :: "string list" where
  "reserved_link_properties =
     [''link.output.node'', ''link.output.port'', ''link.input.node'', ''link.input.port'', ''object.linger'',
      ''open-cinema.owner'', ''open-cinema.desired-id'']"

fun link_property_items :: "(pyval \<times> pyval) list \<Rightarrow> fields \<Rightarrow> exn + fields" where
  "link_property_items [] result = Inr result"
| "link_property_items ((key, value) # items) result =
     rbind (val_required_string key ''link property name'' False) (\<lambda>name.
     rbind (check (name \<notin> set reserved_link_properties) (ValueError ''link property is managed by the dispatcher'')) (\<lambda>_.
     rbind (check (as_str value \<noteq> None) (TypeError ''link property values must be strings'')) (\<lambda>_.
     link_property_items items (alist_set name value result))))"

definition validated_link_properties :: "pyval \<Rightarrow> exn + fields" where
  "validated_link_properties properties =
     (if properties = PNone then Inr []
      else case as_mapping properties of
        None \<Rightarrow> Inl (TypeError ''properties must be a mapping'')
      | Some items \<Rightarrow> link_property_items items [])"

text \<open>\<open>all(getattr(link, name) == value for name, value in endpoints.items())\<close>\<close>

definition link_has_endpoints :: "LinkValue \<Rightarrow> link_endpoints \<Rightarrow> bool" where
  "link_has_endpoints link endpoints =
     list_all (\<lambda>(name, value). map_of (LinkValue_fields link) name = Some (PInt value)) (endpoint_items endpoints)"

lemma link_has_endpoints_iff:
  "link_has_endpoints l e \<longleftrightarrow>
     lk_output_node_id l = ep_output_node_id e \<and> lk_output_port_id l = ep_output_port_id e \<and>
     lk_input_node_id l = ep_input_node_id e \<and> lk_input_port_id l = ep_input_port_id e"
  by (simp add: link_has_endpoints_def endpoint_items_def LinkValue_fields_def)

section \<open>Rejections\<close>

definition preflight_is_stale :: "MutationRequest \<Rightarrow> RuntimeSnapshot \<Rightarrow> bool" where
  "preflight_is_stale request s \<longleftrightarrow>
     snap_generation s \<noteq> rq_expected_generation request \<or>
     (rq_expected_sequence request \<noteq> None \<and> snap_sequence s \<noteq> the (rq_expected_sequence request) + 1)"

definition selection_failure ::
    "'w runtime \<Rightarrow> MutationRequest \<Rightarrow> MutationFailureCode \<Rightarrow> string \<Rightarrow> pyval \<Rightarrow> ('w, MutationOutcome) action" where
  "selection_failure env request code message details =
     failure_outcome env request REJECTED PRECONDITION code message False details []"

definition link_ownership_conflict ::
    "'w runtime \<Rightarrow> MutationRequest \<Rightarrow> string \<Rightarrow> LinkValue list \<Rightarrow> ('w, MutationOutcome) action" where
  "link_ownership_conflict env request message links =
     selection_failure env request OWNERSHIP_CONFLICT message
       (PDict [(PStr ''conflicting_links'',
          PList (map (\<lambda>link. PDict
            [(PStr ''id'', PInt (lk_id link)), (PStr ''owner'', opt_obj PStr (lk_owner link)),
             (PStr ''desired_id'', opt_obj PStr (lk_desired_id link))]) links))])"

text \<open>The code and message of a rejected endpoint; \<open>None\<close> lets the request pass.\<close>

definition endpoint_problem :: "RuntimeSnapshot \<Rightarrow> link_endpoints \<Rightarrow> (MutationFailureCode \<times> string) option" where
  "endpoint_problem s e =
     (case (map_of (nodes_by_id s) (ep_output_node_id e), map_of (nodes_by_id s) (ep_input_node_id e),
            map_of (ports_by_id s) (ep_output_port_id e), map_of (ports_by_id s) (ep_input_port_id e)) of
        (Some output_node, Some input_node, Some output_port, Some input_port) \<Rightarrow>
          if pt_node_id output_port \<noteq> nd_id output_node \<or> pt_node_id input_port \<noteq> nd_id input_node \<or>
             port_direction_value (pt_direction output_port) \<noteq> ''output'' \<or>
             port_direction_value (pt_direction input_port) \<noteq> ''input''
          then Some (TARGET_IDENTITY_CHANGED, ''a port no longer belongs to the requested node and direction'')
          else None
      | _ \<Rightarrow> Some (TARGET_NOT_FOUND, ''one or more requested link endpoints are absent''))"

definition validate_link_endpoints ::
    "'w runtime \<Rightarrow> MutationRequest \<Rightarrow> RuntimeSnapshot \<Rightarrow> link_endpoints \<Rightarrow> ('w, MutationOutcome option) action" where
  "validate_link_endpoints env request s e =
     (case endpoint_problem s e of
        None \<Rightarrow> areturn None
      | Some (code, message) \<Rightarrow>
          abind (selection_failure env request code message (PDict [])) (\<lambda>x. areturn (Some x)))"

section \<open>Creating a link\<close>

definition link_endpoints_of :: "pyval \<Rightarrow> pyval \<Rightarrow> pyval \<Rightarrow> pyval \<Rightarrow> exn + link_endpoints" where
  "link_endpoints_of output_node_id output_port_id input_node_id input_port_id =
     rbind (pipewire_identifier output_node_id ''output_node_id'') (\<lambda>output_node.
     rbind (pipewire_identifier output_port_id ''output_port_id'') (\<lambda>output_port.
     rbind (pipewire_identifier input_node_id ''input_node_id'') (\<lambda>input_node.
     rbind (pipewire_identifier input_port_id ''input_port_id'') (\<lambda>input_port.
     Inr \<lparr>ep_output_node_id = output_node, ep_output_port_id = output_port, ep_input_node_id = input_node,
       ep_input_port_id = input_port\<rparr>))))"

definition passive_properties :: "pyval \<Rightarrow> pyval \<Rightarrow> exn + fields" where
  "passive_properties passive properties =
     (case as_bool passive of
        None \<Rightarrow> Inl (TypeError ''passive must be a boolean'')
      | Some p \<Rightarrow>
          rbind (validated_link_properties properties) (\<lambda>link_properties.
          if ''link.passive'' \<in> fst ` set link_properties
          then Inl (ValueError ''link.passive must be supplied through the passive argument'')
          else Inr (if p then alist_set ''link.passive'' (PStr ''true'') link_properties else link_properties)))"

definition link_target :: "pyval \<Rightarrow> pyval \<Rightarrow> (string \<times> int) list \<Rightarrow> exn + MutationTargetValue" where
  "link_target owner desired_id items =
     mk_MutationTargetValue (object_kind_obj KLink) desired_id
       (PDict ((PStr ''owner'', owner) # (PStr ''desired_id'', desired_id) #
               map (\<lambda>(name, value). (PStr name, PInt value)) items))"

definition create_link_request ::
    "pyval \<Rightarrow> pyval \<Rightarrow> pyval \<Rightarrow> pyval \<Rightarrow> pyval \<Rightarrow> pyval \<Rightarrow> pyval \<Rightarrow> pyval \<Rightarrow>
     exn + (string \<times> string) \<times> link_endpoints \<times> MutationTargetValue \<times> pyval \<times> pyval" where
  "create_link_request owner desired_id output_node_id output_port_id input_node_id input_port_id passive properties =
     rbind (val_required_string owner ''owner'' False) (\<lambda>owner_name.
     rbind (val_required_string desired_id ''desired_id'' False) (\<lambda>desired_name.
     rbind (link_endpoints_of output_node_id output_port_id input_node_id input_port_id) (\<lambda>endpoints.
     rbind (passive_properties passive properties) (\<lambda>link_properties.
     rbind (link_target owner desired_id (endpoint_items endpoints)) (\<lambda>target.
     rbind (predicate_tuple (map (\<lambda>(name, value). equals_predicate target [PStr name] (PInt value))
              (endpoint_items endpoints))) (\<lambda>predicates.
     Inr ((owner_name, desired_name), endpoints, target, predicates,
       PDict [(PStr ''properties'', PDict (map (\<lambda>(k, v). (PStr k, v)) link_properties))])))))))"

text \<open>What follows the capture: the preflight snapshot decides whether the link may be created.\<close>

definition create_link_from ::
    "'w runtime \<Rightarrow> MutationRequest \<Rightarrow> string \<times> string \<Rightarrow> link_endpoints \<Rightarrow> RuntimeSnapshot \<Rightarrow> 'w control" where
  "create_link_from env request identity endpoints preflight w =
     (if preflight_is_stale request preflight
      then execute_confirmed_mutation env request (Some preflight) w
      else obind (validate_link_endpoints env request preflight endpoints) (\<lambda>endpoint_failure w.
        case endpoint_failure of
          Some x \<Rightarrow> Some (Inr x, w)
        | None \<Rightarrow>
            (let same_identity = managed_links preflight (fst identity) (snd identity) in
             if length same_identity > 1
             then Some (link_ownership_conflict env request
                    ''multiple links already claim the same managed identity'' same_identity w)
             else if same_identity \<noteq> []
             then (if link_has_endpoints (hd same_identity) endpoints
                   then execute_confirmed_mutation env request (Some preflight) w
                   else Some (link_ownership_conflict env request
                          ''the managed identity already belongs to different endpoints'' same_identity w))
             else (let same_topology = filter (\<lambda>link. link_has_endpoints link endpoints) (snap_links preflight) in
                   if same_topology \<noteq> []
                   then Some (link_ownership_conflict env request
                          ''the requested topology already exists without this managed identity'' same_topology w)
                   else execute_confirmed_mutation env request (Some preflight) w))) w)"

definition create_managed_link ::
    "'w runtime \<Rightarrow> pyval \<Rightarrow> pyval \<Rightarrow> pyval \<Rightarrow> pyval \<Rightarrow> pyval \<Rightarrow> pyval \<Rightarrow> pyval \<Rightarrow> pyval \<Rightarrow> pyval \<Rightarrow> pyval \<Rightarrow> pyval \<Rightarrow> pyval \<Rightarrow>
     'w control" where
  "create_managed_link env owner desired_id output_node_id output_port_id input_node_id input_port_id
       expected_generation expected_sequence passive properties timeout request_id =
     obind (alift (create_link_request owner desired_id output_node_id output_port_id input_node_id input_port_id
              passive properties)) (\<lambda>(identity, endpoints, target, predicates, payload).
     obind (create_request env expected_generation
              (PStrEnum ''MutationOperation'' (operation_value CREATE_LINK)) (MutationTargetValue_obj target)
              predicates timeout expected_sequence payload request_id PNone) (\<lambda>request.
     obind (capture_snapshot_call env) (\<lambda>preflight.
     create_link_from env request identity endpoints preflight)))"

section \<open>Removing a link\<close>

definition remove_link_from ::
    "'w runtime \<Rightarrow> MutationRequest \<Rightarrow> LinkValue list \<Rightarrow> RuntimeSnapshot \<Rightarrow> 'w control" where
  "remove_link_from env request matches preflight w =
     (if preflight_is_stale request preflight
      then execute_confirmed_mutation env request (Some preflight) w
      else if length matches > 1
      then Some (link_ownership_conflict env request
             ''multiple links claim the managed identity; none were removed'' matches w)
      else execute_confirmed_mutation env request (Some preflight) w)"

definition remove_managed_link ::
    "'w runtime \<Rightarrow> pyval \<Rightarrow> pyval \<Rightarrow> pyval \<Rightarrow> pyval \<Rightarrow> pyval \<Rightarrow> pyval \<Rightarrow> 'w control" where
  "remove_managed_link env owner desired_id expected_generation expected_sequence timeout request_id =
     obind (alift (rbind (val_required_string owner ''owner'' False) (\<lambda>owner_name.
                   rbind (val_required_string desired_id ''desired_id'' False) (\<lambda>desired_name.
                   Inr (owner_name, desired_name))))) (\<lambda>(owner_name, desired_name).
     obind (capture_snapshot_call env) (\<lambda>preflight.
     let matches = managed_links preflight owner_name desired_name;
         link_id = (if length matches = 1 then lk_id (hd matches) else 0)
     in obind (alift (rbind (link_target owner desired_id []) (\<lambda>target.
                      rbind (predicate_tuple [absent_predicate target]) (\<lambda>predicates.
                      Inr (target, predicates))))) (\<lambda>(target, predicates).
        obind (create_request env expected_generation
                 (PStrEnum ''MutationOperation'' (operation_value REMOVE_LINK)) (MutationTargetValue_obj target)
                 predicates timeout expected_sequence (PDict [(PStr ''link_id'', PInt link_id)]) request_id PNone)
          (\<lambda>request. remove_link_from env request matches preflight))))"


section \<open>The request for a link\<close>

definition link_request_target :: "string \<Rightarrow> string \<Rightarrow> (string \<times> int) list \<Rightarrow> MutationTargetValue" where
  "link_request_target owner desired_id items =
     \<lparr>tg_object_kind = KLink, tg_object_id = StrId desired_id,
      tg_selector = (''owner'', PStr owner) # (''desired_id'', PStr desired_id) # map (\<lambda>(n, v). (n, PInt v)) items\<rparr>"

lemma freeze_items: "traverse (\<lambda>(key, value). case as_str key of None \<Rightarrow> Inl e | Some k \<Rightarrow> rbind (freeze_json value) (\<lambda>v. Inr (k, v)))
    (map (\<lambda>(name, value). (PStr name, PInt value)) items) = Inr (map (\<lambda>(n, v). (n, PInt v)) items)"
  by (induction items) auto

lemma link_target_eq:
  "desired \<noteq> [] \<Longrightarrow> link_target (PStr owner) (PStr desired) items = Inr (link_request_target owner desired items)"
  by (simp add: link_target_def mk_MutationTargetValue_def object_kind_obj_def object_kind.val_enum_member val_identity_def
    val_required_string_def val_mapping_def FrozenDict_init_def link_request_target_def freeze_items
    del: object_kind_value.simps)

lemma frozen_link_items:
  "distinct (map fst items) \<Longrightarrow> set (map fst items) \<inter> {''owner'', ''desired_id''} = {} \<Longrightarrow>
     mapping_ok ((''owner'', PStr a) # (''desired_id'', PStr b) # map (\<lambda>(n, v). (n, PInt v)) items)"
  by (auto simp: mapping_ok_def list_all_iff comp_def case_prod_unfold)

lemma link_request_target_ok:
  "desired \<noteq> [] \<Longrightarrow> MutationTargetValue_ok (link_request_target owner desired (endpoint_items e))"
  "desired \<noteq> [] \<Longrightarrow> MutationTargetValue_ok (link_request_target owner desired [])"
  by (simp_all add: link_request_target_def MutationTargetValue_ok_def endpoint_items_def mapping_ok_def)

lemma link_observation:
  "snapshot_observation s (link_request_target owner desired items) =
     (case managed_links s owner desired of [l] \<Rightarrow> LinkValue_obj l | _ \<Rightarrow> PNone)"
  by (simp add: snapshot_observation_def link_request_target_def selector_def both_def Let_def)

text \<open>An endpoint predicate holds of an observed link exactly when it has that endpoint.\<close>

definition endpoint_predicates :: "string \<Rightarrow> string \<Rightarrow> link_endpoints \<Rightarrow> ConfirmationPredicateValue list" where
  "endpoint_predicates owner desired e =
     map (\<lambda>(name, value). field_equals (link_request_target owner desired (endpoint_items e)) name (PInt value)) (endpoint_items e)"

lemma endpoint_predicates_ok: "desired \<noteq> [] \<Longrightarrow> list_all ConfirmationPredicateValue_ok (endpoint_predicates owner desired e)"
  using link_request_target_ok(1) [of desired owner e]
  by (simp add: endpoint_predicates_def endpoint_items_def contract_ok_def)

lemma endpoint_predicates_tuple:
  assumes "desired \<noteq> []"
  shows "predicate_tuple (map (\<lambda>(name, value). equals_predicate (link_request_target owner desired (endpoint_items e)) [PStr name] (PInt value))
      (endpoint_items e)) = Inr (tuple_obj ConfirmationPredicateValue_obj (endpoint_predicates owner desired e))"
proof -
  have "equals_predicate (link_request_target owner desired (endpoint_items e)) [PStr n] (PInt v) =
      Inr (field_equals (link_request_target owner desired (endpoint_items e)) n (PInt v))" if "n \<noteq> []" for n v
    using equals_predicate_field [OF link_request_target_ok(1) [OF assms] that] by (simp add: contract_value_def)
  then show ?thesis by (simp add: predicate_tuple_def endpoint_predicates_def endpoint_items_def)
qed

lemma serialize_link:
  assumes "LinkValue_ok l"
  shows "\<exists>d. serialize (PFrozen (lk_properties l)) = Inr d"
  using freeze_thaw [of "PFrozen (lk_properties l)"] assms
  by (auto simp: LinkValue_ok_def mapping_ok_def FrozenDict_to_dict_def)

lemma link_field_matches:
  assumes "LinkValue_ok l" "(n, v) \<in> set (endpoint_items e)"
  shows "predicate_matches (field_equals t n (PInt i)) (LinkValue_obj l) = Inr (map_of (LinkValue_fields l) n = Some (PInt i))"
proof -
  obtain d where d: "serialize (PFrozen (lk_properties l)) = Inr d" using serialize_link [OF assms(1)] by blast
  have n: "n \<in> {''output_node_id'', ''output_port_id'', ''input_node_id'', ''input_port_id''}"
    using assms(2) by (auto simp: endpoint_items_def)
  have s: "serialize (opt_obj PStr x) = Inr (opt_obj PStr x)" for x by (cases x) simp_all
  from n d show ?thesis
    by (auto simp: predicate_matches_def LinkValue_obj_def LinkValue_fields_def omitted_def omit_none_def dict_get_def s
      comparable_def Let_def simp del: serialize.simps(4) opt_obj.simps)
qed

lemma endpoints_observed:
  assumes "RuntimeSnapshot_ok s"
  shows "list_all (\<lambda>p. predicate_matches p (snapshot_observation s (cp_target p)) = Inr True) (endpoint_predicates owner desired e) \<longleftrightarrow>
    (\<exists>l. managed_links s owner desired = [l] \<and> link_has_endpoints l e)"
proof (cases "\<exists>l. managed_links s owner desired = [l]")
  case True
  then obtain l where l: "managed_links s owner desired = [l]" by blast
  then have "l \<in> set (snap_links s)" by (metis filter_is_subset list.set_intros(1) managed_links_def subsetD)
  then have "LinkValue_ok l" using assms by (auto simp: RuntimeSnapshot_ok_def list_all_iff)
  note m = link_field_matches [OF this]
  show ?thesis
    using l m by (auto simp: endpoint_predicates_def list_all_iff link_observation link_has_endpoints_def case_prod_unfold)
next
  case False
  then have "(case managed_links s owner desired of [l] \<Rightarrow> LinkValue_obj l | _ \<Rightarrow> PNone) = PNone"
    by (auto split: list.split)
  with False show ?thesis
    by (simp add: endpoint_predicates_def endpoint_items_def link_observation predicate_matches_def)
qed

section \<open>What creating and removing guarantee\<close>

lemma create_link_request_eq:
  assumes "create_link_request (PStr owner) (PStr desired) o_n o_p i_n i_p passive properties = Inr (identity, e, t, v, payload)"
  shows "identity = (owner, desired)" "desired \<noteq> []" "t = link_request_target owner desired (endpoint_items e)"
    "v = tuple_obj ConfirmationPredicateValue_obj (endpoint_predicates owner desired e)"
    "\<exists>items. payload = PDict [(PStr ''properties'', PDict (map (\<lambda>(k, v). (PStr k, v)) items))] \<and>
       passive_properties passive properties = Inr items"
  using assms
  by (auto simp: create_link_request_def val_required_string_def link_target_eq endpoint_predicates_tuple
    split: if_splits elim!: rbind_InrE)

lemma link_conflict_result:
  assumes "link_ownership_conflict env rq m ls w = (r, w')"
  shows "unsuccessful rq r \<and> calls w' = calls w"
  using assms by (auto simp: link_ownership_conflict_def selection_failure_def dest: failure_outcome_result)

lemma validate_endpoints_cases:
  assumes "validate_link_endpoints env rq s e w = (r, w')"
  shows "calls w' = calls w \<and> (r = Inr None \<longleftrightarrow> endpoint_problem s e = None) \<and>
    (\<forall>x. r = Inr (Some x) \<longrightarrow> unsuccessful rq (Inr x))"
proof (cases "endpoint_problem s e")
  case None
  then show ?thesis using assms by (auto simp: validate_link_endpoints_def areturn_def)
next
  case (Some p)
  obtain code m where p: "p = (code, m)" by force
  obtain q w1 where q: "failure_outcome env rq REJECTED PRECONDITION code m False (PDict []) [] w = (q, w1)" by force
  have "unsuccessful rq q \<and> calls w1 = calls w" using failure_outcome_result [OF q] by simp
  then show ?thesis
    using assms Some p q
    by (cases q) (auto simp: validate_link_endpoints_def selection_failure_def abind_def areturn_def)
qed

text \<open>The three ways the preflight snapshot lets the execution go on; anything else is a rejection.\<close>

lemma create_link_from_cases:
  assumes "create_link_from env rq (owner, desired) e s w = Some (r, w')"
  obtains (rejected) "unsuccessful rq r" "calls w' = calls w"
  | (executed) w1 where "execute_confirmed_mutation env rq (Some s) w1 = Some (r, w')" "calls w1 = calls w"
      "preflight_is_stale rq s \<or> endpoint_problem s e = None \<and>
        ((\<exists>l. managed_links s owner desired = [l] \<and> link_has_endpoints l e) \<or>
         managed_links s owner desired = [] \<and> (\<forall>l \<in> set (snap_links s). \<not> link_has_endpoints l e))"
proof (cases "preflight_is_stale rq s")
  case True
  then show ?thesis using assms executed [of w] by (auto simp: create_link_from_def)
next
  case fresh: False
  obtain q w1 where q: "validate_link_endpoints env rq s e w = (q, w1)" by force
  note v = validate_endpoints_cases [OF q]
  let ?same = "managed_links s owner desired"
  show ?thesis
  proof (cases "q = Inr None")
    case False
    then have "unsuccessful rq r \<and> calls w' = calls w"
      using assms fresh q v by (auto simp: create_link_from_def obind_def split: sum.splits option.splits)
    then show ?thesis using rejected by blast
  next
    case True
    then have p: "endpoint_problem s e = None" "calls w1 = calls w" using v by auto
    consider "length ?same > 1" | l where "?same = [l]" | "?same = []"
      by (cases ?same; cases "tl ?same") auto
    then show ?thesis
    proof cases
      case 1
      then have "Some (link_ownership_conflict env rq ''multiple links already claim the same managed identity'' ?same w1) = Some (r, w')"
        using assms fresh q True by (simp add: create_link_from_def obind_def Let_def)
      then show ?thesis using link_conflict_result p(2) rejected by (metis option.inject)
    next
      case (2 l)
      show ?thesis
      proof (cases "link_has_endpoints l e")
        case has: True
        then show ?thesis
          using assms fresh q True 2 p executed [of w1] by (simp add: create_link_from_def obind_def Let_def)
      next
        case False
        then have "Some (link_ownership_conflict env rq ''the managed identity already belongs to different endpoints'' ?same w1) = Some (r, w')"
          using assms fresh q True 2 by (simp add: create_link_from_def obind_def Let_def)
        then show ?thesis using link_conflict_result p(2) rejected by (metis option.inject)
      qed
    next
      case 3
      let ?topology = "filter (\<lambda>link. link_has_endpoints link e) (snap_links s)"
      show ?thesis
      proof (cases "?topology = []")
        case none: True
        then have "\<forall>l \<in> set (snap_links s). \<not> link_has_endpoints l e" by (simp add: filter_empty_conv)
        then show ?thesis
          using assms fresh q True 3 p none executed [of w1] by (simp add: create_link_from_def obind_def Let_def)
      next
        case False
        then have "Some (link_ownership_conflict env rq ''the requested topology already exists without this managed identity'' ?topology w1) = Some (r, w')"
          using assms fresh q True 3 by (simp add: create_link_from_def obind_def Let_def)
        then show ?thesis using link_conflict_result p(2) rejected by (metis option.inject)
      qed
    qed
  qed
qed

text \<open>A request that an observation satisfies, or whose preflight is stale, is not dispatched.\<close>

lemma dispatchable_fresh: "dispatchable rq s \<Longrightarrow> \<not> preflight_is_stale rq s \<and> \<not> observed_in rq s"
  by (cases "rq_expected_sequence rq") (auto simp: dispatchable_def preflight_is_stale_def)

lemma well_formed_string: "as_str v \<noteq> None \<Longrightarrow> well_formed v"
  by (cases v) auto

lemma alist_set_item: "x \<in> set (alist_set k v xs) \<Longrightarrow> snd x = v \<or> x \<in> set xs"
  by (induction xs) (auto split: if_splits)

definition property_items :: "fields \<Rightarrow> bool" where
  "property_items xs \<longleftrightarrow> distinct (map fst xs) \<and> (\<forall>v \<in> snd ` set xs. well_formed v)"

lemma property_items_set: "property_items xs \<Longrightarrow> well_formed v \<Longrightarrow> property_items (alist_set k v xs)"
  using alist_set_item [of _ k v xs] by (fastforce simp: property_items_def)

lemma link_property_items_ok:
  "link_property_items kvs acc = Inr result \<Longrightarrow> property_items acc \<Longrightarrow> property_items result"
proof (induction kvs acc rule: link_property_items.induct)
  case (2 key v kvs acc)
  from 2(2) obtain name where name: "val_required_string key ''link property name'' False = Inr name"
      "name \<notin> set reserved_link_properties" "as_str v \<noteq> None" "link_property_items kvs (alist_set name v acc) = Inr result"
    by (auto elim!: rbind_InrE)
  have "property_items (alist_set name v acc)"
    using property_items_set [OF 2(3) well_formed_string [OF name(3)]] .
  with 2(1) name show ?case by simp
qed simp

lemma passive_properties_ok: "passive_properties passive properties = Inr xs \<Longrightarrow> property_items xs"
proof -
  assume p: "passive_properties passive properties = Inr xs"
  have e: "property_items []" by (simp add: property_items_def)
  have v: "property_items ys" if "validated_link_properties properties = Inr ys" for ys
    using that link_property_items_ok [OF _ e] e
    by (auto simp: validated_link_properties_def split: if_splits option.splits)
  from p obtain ys where "validated_link_properties properties = Inr ys"
      "xs = alist_set ''link.passive'' (PStr ''true'') ys \<or> xs = ys"
    by (auto simp: passive_properties_def split: option.splits if_splits elim!: rbind_InrE)
  then show ?thesis using v property_items_set [of ys "PStr ''true''"] by auto
qed

lemma link_payload_ok:
  assumes "passive_properties passive properties = Inr xs"
  shows "well_formed (PDict [(PStr ''properties'', PDict (map (\<lambda>(k, v). (PStr k, v)) xs))])"
proof -
  have f: "filter (\<lambda>kv. as_str (fst kv) \<noteq> None) (map (\<lambda>(k, v). (PStr k, v)) xs) = map (\<lambda>(k, v). (PStr k, v)) xs"
    by (simp add: filter_id_conv case_prod_unfold)
  have m: "map (as_str \<circ> fst) (map (\<lambda>(k, v). (PStr k, v)) xs) = map Some (map fst xs)"
    by (simp add: case_prod_unfold)
  have "distinct (map Some (map fst xs))" "\<forall>v \<in> snd ` set xs. well_formed v"
    using passive_properties_ok [OF assms] by (simp_all add: property_items_def distinct_map inj_on_def del: map_map)
  then have "well_formed (PDict (map (\<lambda>(k, v). (PStr k, v)) xs))"
    unfolding well_formed.simps f m by (auto simp: list_all_iff)
  then show ?thesis by simp
qed

text \<open>The endpoints of a link that satisfies the predicates; every capture of the loop counts.\<close>

lemma link_field_observed:
  assumes "predicate_matches (field_equals t n (PInt i)) (LinkValue_obj l) = Inr True" "(n, v) \<in> set (endpoint_items e)"
  shows "map_of (LinkValue_fields l) n = Some (PInt i)"
proof -
  have n: "n \<in> {''output_node_id'', ''output_port_id'', ''input_node_id'', ''input_port_id''}"
    using assms(2) by (auto simp: endpoint_items_def)
  have o: "LinkValue_obj l = PNone \<or> (\<exists>t fs. LinkValue_obj l = PValue t fs)" by (simp add: LinkValue_obj_def)
  have ne: "n \<noteq> ''schema_version''" "n \<noteq> ''value_type''" using n by auto
  obtain v' s a b where m: "map_of (filter (\<lambda>item. \<not> omitted ''link'' item) (LinkValue_fields l)) n = Some v'"
      and c: "serialize v' = Inr s" "comparable s = Inr a" "comparable (PInt i) = Inr b" "py_eq a b"
    using equals_field [OF assms(1) _ _ o ne] by (auto simp: LinkValue_obj_def)
  from n m obtain j where j: "map_of (LinkValue_fields l) n = Some (PInt j)" "v' = PInt j"
    by (auto simp: LinkValue_fields_def omitted_def omit_none_def)
  with c show ?thesis by (auto simp: comparable_def)
qed

lemma endpoints_seen:
  assumes "list_all (\<lambda>p. predicate_matches p (snapshot_observation s (cp_target p)) = Inr True) (endpoint_predicates owner desired e)"
  shows "\<exists>l. managed_links s owner desired = [l] \<and> link_has_endpoints l e"
proof (cases "\<exists>l. managed_links s owner desired = [l]")
  case True
  then obtain l where l: "managed_links s owner desired = [l]" by blast
  have "map_of (LinkValue_fields l) n = Some (PInt v)" if "(n, v) \<in> set (endpoint_items e)" for n v
  proof -
    let ?p = "field_equals (link_request_target owner desired (endpoint_items e)) n (PInt v)"
    have "?p \<in> set (endpoint_predicates owner desired e)"
      using that by (force simp: endpoint_predicates_def)
    with assms have "predicate_matches ?p (snapshot_observation s (cp_target ?p)) = Inr True"
      unfolding list_all_iff by blast
    then have "predicate_matches ?p (LinkValue_obj l) = Inr True" by (simp add: link_observation l)
    from link_field_observed [OF this that] show ?thesis .
  qed
  then show ?thesis using l by (auto simp: link_has_endpoints_def list_all_iff)
next
  case False
  then have "(case managed_links s owner desired of [l] \<Rightarrow> LinkValue_obj l | _ \<Rightarrow> PNone) = PNone"
    by (auto split: list.split)
  with assms show ?thesis
    by (simp add: endpoint_predicates_def endpoint_items_def link_observation predicate_matches_def)
qed

lemma endpoint_problem_None:
  assumes "endpoint_problem s e = None" "RuntimeSnapshot_ok s"
  shows "owns_port s (ep_output_node_id e) (ep_output_port_id e) OUTPUT \<and>
    owns_port s (ep_input_node_id e) (ep_input_port_id e) INPUT"
proof -
  have i: "indexed s" using assms(2) by (simp add: RuntimeSnapshot_ok_def)
  have n: "nd_id m = k" if "map_of (nodes_by_id s) k = Some m" for k m
  proof -
    from i have "unique_index (snap_nodes s) nd_id ''node id'' = Inr (nodes_by_id s)" by (simp add: indexed_def)
    from node_index.lookup_iff [OF this] that show ?thesis by simp
  qed
  have d: "port_direction_value dir = ''output'' \<Longrightarrow> dir = OUTPUT" "port_direction_value dir = ''input'' \<Longrightarrow> dir = INPUT" for dir
    by (cases dir; simp)+
  from assms(1) obtain a b p q where "map_of (nodes_by_id s) (ep_output_node_id e) = Some a"
      "map_of (nodes_by_id s) (ep_input_node_id e) = Some b" "map_of (ports_by_id s) (ep_output_port_id e) = Some p"
      "map_of (ports_by_id s) (ep_input_port_id e) = Some q" "pt_node_id p = nd_id a" "pt_node_id q = nd_id b"
      "port_direction_value (pt_direction p) = ''output''" "port_direction_value (pt_direction q) = ''input''"
    by (auto simp: endpoint_problem_def split: option.splits if_splits)
  then show ?thesis using n d by (auto simp: owns_port_def indexed_port [OF i])
qed

text \<open>
  C8. Creating a managed link never adopts or duplicates one.  A dispatch happens at most once, and
  only when the preflight snapshot has both ports on the requested nodes with the right
  directions, no link of this identity and no link between these endpoints; and the request
  is confirmed only when the last snapshot captured has exactly one link of this identity,
  with exactly the requested endpoints.
\<close>

theorem created_link_exclusive:
  assumes "create_managed_link env (PStr owner) (PStr desired) output_node output_port input_node input_port g seq passive
      properties timeout rid w = Some (Inr x, w')"
    and "\<forall>v s. fst (env_capture env v) = Inr s \<longrightarrow> RuntimeSnapshot_ok s"
  shows "\<exists>s log e. link_endpoints_of output_node output_port input_node input_port = Inr e \<and>
    calls w' = calls w @ Captured (Inr s) # log \<and> length (dispatches log) \<le> 1 \<and>
    (dispatches log \<noteq> [] \<longrightarrow>
       owns_port s (ep_output_node_id e) (ep_output_port_id e) OUTPUT \<and>
       owns_port s (ep_input_node_id e) (ep_input_port_id e) INPUT \<and>
       managed_links s owner desired = [] \<and> (\<forall>l \<in> set (snap_links s). \<not> link_has_endpoints l e)) \<and>
    (succeeded x \<longrightarrow> (\<exists>s' l. last (Captured (Inr s) # log) = Captured (Inr s') \<and>
       managed_links s' owner desired = [l] \<and> link_has_endpoints l e))"
proof -
  from assms(1) obtain identity e t v payload where
      r: "create_link_request (PStr owner) (PStr desired) output_node output_port input_node input_port passive properties =
        Inr (identity, e, t, v, payload)"
    by (auto simp: create_managed_link_def obind_Some_Inr alift_def)
  note eq = create_link_request_eq [OF r]
  have e: "link_endpoints_of output_node output_port input_node input_port = Inr e"
    using r by (auto simp: create_link_request_def elim!: rbind_InrE)
  from assms(1) r obtain rq w1 s w2 where
      rq: "create_request env g (PStrEnum ''MutationOperation'' (operation_value CREATE_LINK)) (MutationTargetValue_obj t)
        v timeout seq payload rid PNone w = (Inr rq, w1)"
      and s: "capture_snapshot_call env w1 = (Inr s, w2)"
      and x: "create_link_from env rq (owner, desired) e s w2 = Some (Inr x, w')"
    using eq(1) by (auto simp: create_managed_link_def obind_Some_Inr alift_def)
  from eq(5) have wf: "well_formed payload" using link_payload_ok by auto
  note f = create_request_fields [OF rq [unfolded eq(4)] _ endpoint_predicates_ok [OF eq(2)] wf]
  have rq_ok: "MutationRequest_ok rq" "calls w1 = calls w" "rq_confirmation_predicates rq = endpoint_predicates owner desired e"
    using f eq(3) link_request_target_ok(1) [OF eq(2)] by auto
  note c = captured_ok [OF s assms(2)]
  from x show ?thesis
  proof (cases rule: create_link_from_cases)
    case rejected
    then show ?thesis
      using e c rq_ok(2) by (intro exI [of _ s] exI [of _ "[]"] exI [of _ e]) (auto simp: unsuccessful_def succeeded_def)
  next
    case (executed w3)
    obtain log where log: "calls w' = calls w3 @ log"
        "(unsuccessful rq (Inr x) \<and> no_dispatch log) \<or> execution_sound rq s (Inr x) log"
      using executed_given [OF executed(1) rq_ok(1) conjunct1 [OF c] assms(2)] by blast
    have seen: "\<exists>l. managed_links s' owner desired = [l] \<and> link_has_endpoints l e" if "observed_in rq s'" for s'
      using endpoints_seen [of s' owner desired e] rq_ok(3) that by (simp add: observed_in_def)
    have conf: "\<exists>s' l. last (Captured (Inr s) # log) = Captured (Inr s') \<and>
        managed_links s' owner desired = [l] \<and> link_has_endpoints l e" if "succeeded x"
      using given_confirmed [OF log(2) that] seen by blast
    have disp: "length (dispatches log) \<le> 1 \<and> (dispatches log \<noteq> [] \<longrightarrow> dispatchable rq s)"
      using given_dispatched [OF log(2)] by (cases "dispatches log") auto
    have "managed_links s owner desired = [] \<and> (\<forall>l \<in> set (snap_links s). \<not> link_has_endpoints l e) \<and> endpoint_problem s e = None"
      if "dispatchable rq s"
      using executed(3) dispatchable_fresh [OF that] endpoints_observed [of s owner desired e] c rq_ok(3) that
      by (auto simp: observed_in_def dispatchable_def)
    then have "dispatches log \<noteq> [] \<longrightarrow> owns_port s (ep_output_node_id e) (ep_output_port_id e) OUTPUT \<and>
       owns_port s (ep_input_node_id e) (ep_input_port_id e) INPUT \<and>
       managed_links s owner desired = [] \<and> (\<forall>l \<in> set (snap_links s). \<not> link_has_endpoints l e)"
      using disp endpoint_problem_None conjunct1 [OF c] by blast
    then show ?thesis
      using e c rq_ok(2) executed(2) log(1) conf disp
      by (intro exI [of _ s] exI [of _ log] exI [of _ e]) simp
  qed
qed

text \<open>The link of the sample snapshot, asked for again.\<close>

definition sample_endpoints :: link_endpoints where
  "sample_endpoints = \<lparr>ep_output_node_id = 1, ep_output_port_id = 11, ep_input_node_id = 2, ep_input_port_id = 12\<rparr>"

lemma sample_endpoints_eq: "link_endpoints_of (PInt 1) (PInt 11) (PInt 2) (PInt 12) = Inr sample_endpoints"
  by (simp add: link_endpoints_of_def pipewire_identifier_def val_identifier_def val_integer_def sample_endpoints_def)

lemma sample_link_run:
  "\<exists>x w'. create_managed_link (still_env (sample_snapshot 6 [sample_link 7])) (PStr ''session'') (PStr ''music'')
       (PInt 1) (PInt 11) (PInt 2) (PInt 12) (PInt 1) PNone (PBool False) PNone one_second (PStr ''r1'') (still_world []) =
     Some (Inr x, w') \<and> succeeded x \<and> calls w' = [Captured (Inr (sample_snapshot 6 [sample_link 7]))]"
proof -
  let ?s = "sample_snapshot 6 [sample_link 7]"
  let ?ps = "endpoint_predicates ''session'' ''music'' sample_endpoints"
  let ?t = "link_request_target ''session'' ''music'' (endpoint_items sample_endpoints)"
  let ?payload = "PDict [(PStr ''properties'', PDict [])]"
  let ?rq = "\<lparr>rq_request_id = ''r1'', rq_expected_generation = 1, rq_operation = CREATE_LINK, rq_target = ?t,
       rq_requested_at = render_utc 0, rq_deadline_at = render_utc 1000000, rq_expected_sequence = None,
       rq_payload = [(''properties'', PFrozen [])], rq_confirmation_predicates = ?ps\<rparr>"
  have r: "create_link_request (PStr ''session'') (PStr ''music'') (PInt 1) (PInt 11) (PInt 2) (PInt 12) (PBool False) PNone =
      Inr ((''session'', ''music''), sample_endpoints, ?t, tuple_obj ConfirmationPredicateValue_obj ?ps, ?payload)"
    by (simp add: create_link_request_def val_required_string_def sample_endpoints_eq passive_properties_def
      validated_link_properties_def link_target_eq endpoint_predicates_tuple)
  have pl: "val_mapping (if truthy ?payload then ?payload else PDict []) ''payload'' = Inr [(''properties'', PFrozen [])]"
    by (simp add: val_mapping_def FrozenDict_init_def)
  have wf: "well_formed ?payload" by simp
  have t: "MutationTargetValue_ok ?t" by (rule link_request_target_ok(1)) simp
  have ps: "list_all ConfirmationPredicateValue_ok ?ps" by (rule endpoint_predicates_ok) simp
  have ne: "?ps \<noteq> []" by (simp add: endpoint_predicates_def endpoint_items_def)
  note create = create_request_still [OF t ps ne wf pl, of 1 "?s" "''MutationOperation''" CREATE_LINK "still_world []"]
  have ok: "MutationRequest_ok ?rq"
    using create_request_fields [OF create t ps wf] by simp
  have m: "managed_links ?s ''session'' ''music'' = [sample_link 7]" using sample_managed [of 6 "[7]"] by simp
  have has: "link_has_endpoints (sample_link 7) sample_endpoints"
    by (simp add: link_has_endpoints_iff sample_link_def sample_endpoints_def)
  have obs: "observed_in ?rq ?s"
    using endpoints_observed [of ?s "''session''" "''music''" sample_endpoints] m has by (simp add: observed_in_def)
  have fine: "endpoint_problem ?s sample_endpoints = None"
    by (simp add: endpoint_problem_def sample_endpoints_def sample_snapshot_def sample_node_def sample_port_def Let_def)
  have fresh: "\<not> preflight_is_stale ?rq ?s" by (simp add: preflight_is_stale_def)
  obtain x w' where x: "execute_confirmed_mutation (still_env ?s) ?rq (Some ?s) (still_world [Captured (Inr ?s)]) = Some (Inr x, w')"
      "calls w' = [Captured (Inr ?s)]" "succeeded x"
    using satisfied_execute [of "still_env ?s" ?rq "still_world [Captured (Inr ?s)]" ?s] ok obs
    by (auto simp: still_simps)
  have "create_link_from (still_env ?s) ?rq (''session'', ''music'') sample_endpoints ?s (still_world [Captured (Inr ?s)]) = Some (Inr x, w')"
    using x(1) fresh fine m has
    by (simp add: create_link_from_def validate_link_endpoints_def areturn_def obind_def Let_def del: sample_managed)
  then show ?thesis
    using x r create
    by (intro exI [of _ x] exI [of _ w']) (simp add: create_managed_link_def obind_def alift_def still_simps)
qed

theorem created_link_exclusive_witness:
  "\<exists>x w' s e l. create_managed_link (still_env (sample_snapshot 6 [sample_link 7])) (PStr ''session'') (PStr ''music'')
       (PInt 1) (PInt 11) (PInt 2) (PInt 12) (PInt 1) PNone (PBool False) PNone one_second (PStr ''r1'') (still_world []) =
     Some (Inr x, w') \<and> calls w' = [Captured (Inr s)] \<and> managed_links s ''session'' ''music'' = [l] \<and> link_has_endpoints l e"
proof -
  obtain x w' where run: "create_managed_link (still_env (sample_snapshot 6 [sample_link 7])) (PStr ''session'') (PStr ''music'')
       (PInt 1) (PInt 11) (PInt 2) (PInt 12) (PInt 1) PNone (PBool False) PNone one_second (PStr ''r1'') (still_world []) =
     Some (Inr x, w')" "succeeded x" "calls w' = [Captured (Inr (sample_snapshot 6 [sample_link 7]))]"
    using sample_link_run by blast
  have caps: "\<forall>v s. fst (env_capture (still_env (sample_snapshot 6 [sample_link 7])) v) = Inr s \<longrightarrow> RuntimeSnapshot_ok s"
    by (simp add: still_simps)
  obtain s log e where "calls w' = calls (still_world []) @ Captured (Inr s) # log"
      "\<exists>s' l. last (Captured (Inr s) # log) = Captured (Inr s') \<and> managed_links s' ''session'' ''music'' = [l] \<and> link_has_endpoints l e"
    using created_link_exclusive [OF run(1) caps] run(2) by blast
  then show ?thesis using run by (auto simp: still_simps)
qed

text \<open>A stale preflight snapshot is reported, not acted on.\<close>

lemma stale_executed:
  assumes "execute_confirmed_mutation env rq (Some s) w = Some (r, w')" "preflight_is_stale rq s"
  shows "unsuccessful rq r \<and> calls w' = calls w"
proof -
  obtain b w1 where b: "is_expired env rq PNone w = (b, w1)" by force
  have w1: "calls w1 = calls w" using is_expired_calls [of env rq PNone w] b by simp
  show ?thesis
  proof (cases "b = Inr False")
    case True
    then have "check_preflight env rq s w1 = Some (r, w')"
      using assms(1) b by (simp add: execute_confirmed_mutation_def)
    then show ?thesis using check_preflight_stale assms(2) w1 by (fastforce simp: preflight_is_stale_def)
  next
    case False
    then show ?thesis
      using assms(1) b w1 by (cases b) (auto simp: execute_confirmed_mutation_def dest!: failure_outcome_result)
  qed
qed

lemma absent_predicate_link:
  assumes "desired \<noteq> []"
  shows "absent_predicate (link_request_target owner desired []) =
    Inr \<lparr>cp_target = link_request_target owner desired [], cp_operator = ABSENT, cp_path = [], cp_expected = PNone, cp_tolerance = None\<rparr>"
proof -
  have tgt: "val_instance as_MutationTargetValue n (MutationTargetValue_obj (link_request_target owner desired [])) m =
      Inr (link_request_target owner desired [])" for n m
    using link_request_target_ok(2) [OF assms] by (rule val_MutationTargetValue_obj)
  have op: "val_enum operator_value operator_members (PStrEnum c (operator_value x)) n = Inr x" for c x n
    by (rule operator.val_enum_member)
  show ?thesis
    unfolding absent_predicate_def mk_ConfirmationPredicateValue_def tgt op
    by (simp add: val_path_def val_tolerance_def contract_value_def del: operator_value.simps)
qed

definition removal_predicate :: "string \<Rightarrow> string \<Rightarrow> ConfirmationPredicateValue" where
  "removal_predicate owner desired =
     \<lparr>cp_target = link_request_target owner desired [], cp_operator = ABSENT, cp_path = [], cp_expected = PNone, cp_tolerance = None\<rparr>"

lemma removal_predicate_ok: "desired \<noteq> [] \<Longrightarrow> ConfirmationPredicateValue_ok (removal_predicate owner desired)"
  using link_request_target_ok(2) [of desired owner]
  by (simp add: removal_predicate_def ConfirmationPredicateValue_ok_def contract_ok_def tolerance_ok_def)

lemma removal_observed:
  "length (managed_links s owner desired) \<noteq> 1 \<Longrightarrow>
     predicate_matches (removal_predicate owner desired) (snapshot_observation s (link_request_target owner desired [])) = Inr True"
  by (cases "managed_links s owner desired"; cases "tl (managed_links s owner desired)")
    (auto simp: link_observation removal_predicate_def predicate_matches_def)

text \<open>
  C13. Removing a managed link dispatches at most once, and only when exactly one link of the
  preflight snapshot carries the identity: the dispatched request removes that link by its
  identifier.  When several links claim the identity none is removed and the request fails.
\<close>

theorem removed_link_only:
  assumes "remove_managed_link env (PStr owner) (PStr desired) g seq timeout rid w = Some (Inr x, w')"
    and "\<forall>v s. fst (env_capture env v) = Inr s \<longrightarrow> RuntimeSnapshot_ok s"
  shows "\<exists>s log. calls w' = calls w @ Captured (Inr s) # log \<and> length (dispatches log) \<le> 1 \<and>
    (\<forall>payload \<in> set (dispatches log). \<exists>l rq. managed_links s owner desired = [l] \<and>
       serialize (MutationRequest_obj rq) = Inr payload \<and> rq_operation rq = REMOVE_LINK \<and>
       rq_payload rq = [(''link_id'', PInt (lk_id l))]) \<and>
    (2 \<le> length (managed_links s owner desired) \<longrightarrow> dispatches log = [] \<and> \<not> succeeded x)"
proof -
  from assms(1) obtain s w1 where s: "capture_snapshot_call env w = (Inr s, w1)" and d: "desired \<noteq> []"
    by (auto simp: remove_managed_link_def obind_Some_Inr alift_def val_required_string_def split: if_splits elim!: rbind_InrE)
  let ?matches = "managed_links s owner desired"
  let ?id = "if length ?matches = 1 then lk_id (hd ?matches) else 0"
  let ?t = "link_request_target owner desired []"
  have t: "link_target (PStr owner) (PStr desired) [] = Inr ?t" using link_target_eq [OF d] by simp
  have p: "predicate_tuple [absent_predicate ?t] = Inr (tuple_obj ConfirmationPredicateValue_obj [removal_predicate owner desired])"
    by (simp add: predicate_tuple_def absent_predicate_link [OF d] removal_predicate_def)
  from assms(1) s obtain rq w2 where
      rq: "create_request env g (PStrEnum ''MutationOperation'' (operation_value REMOVE_LINK)) (MutationTargetValue_obj ?t)
        (tuple_obj ConfirmationPredicateValue_obj [removal_predicate owner desired]) timeout seq
        (PDict [(PStr ''link_id'', PInt ?id)]) rid PNone w1 = (Inr rq, w2)"
      and x: "remove_link_from env rq ?matches s w2 = Some (Inr x, w')"
    using t p
    by (auto simp: remove_managed_link_def obind_Some_Inr alift_def Let_def val_required_string_def simp del: operation_value.simps
      split: if_splits elim!: rbind_InrE)
  have preds: "list_all ConfirmationPredicateValue_ok [removal_predicate owner desired]" using removal_predicate_ok [OF d] by simp
  have f: "MutationRequest_ok rq" "calls w2 = calls w1" "rq_operation rq = REMOVE_LINK"
      "rq_confirmation_predicates rq = [removal_predicate owner desired]" "rq_payload rq = [(''link_id'', PInt ?id)]"
    using create_request_fields [OF rq link_request_target_ok(2) [OF d] preds]
    by (simp_all add: val_mapping_def FrozenDict_init_def)
  note c = captured_ok [OF s assms(2)]
  consider (failed) "unsuccessful rq (Inr x)" "calls w' = calls w2"
    | (executed) "execute_confirmed_mutation env rq (Some s) w2 = Some (Inr x, w')" "\<not> preflight_is_stale rq s" "length ?matches \<le> 1"
    using x stale_executed [of env rq s w2 "Inr x" w'] link_conflict_result [of env rq _ ?matches w2 "Inr x" w']
    by (fastforce simp: remove_link_from_def split: if_splits)
  then show ?thesis
  proof cases
    case failed
    then show ?thesis
      using c f(2) by (intro exI [of _ s] exI [of _ "[]"]) (auto simp: unsuccessful_def succeeded_def)
  next
    case executed
    obtain log where log: "calls w' = calls w2 @ log"
        "(unsuccessful rq (Inr x) \<and> no_dispatch log) \<or> execution_sound rq s (Inr x) log"
      using executed_given [OF executed(1) f(1) conjunct1 [OF c] assms(2)] by blast
    have one: "\<exists>l. ?matches = [l]" if "dispatchable rq s"
    proof (rule ccontr)
      assume "\<nexists>l. ?matches = [l]"
      then have "length ?matches \<noteq> 1" by (auto simp: length_Suc_conv)
      then have "observed_in rq s"
        using removal_observed f(4) that by (simp add: observed_in_def dispatchable_def removal_predicate_def)
      then show False using that by (simp add: dispatchable_def)
    qed
    have "\<exists>l r. ?matches = [l] \<and> serialize (MutationRequest_obj r) = Inr payload \<and> rq_operation r = REMOVE_LINK \<and>
        rq_payload r = [(''link_id'', PInt (lk_id l))]" if "payload \<in> set (dispatches log)" for payload
    proof -
      note g = given_dispatched [OF log(2) that]
      obtain l where "?matches = [l]" using one g by blast
      then show ?thesis
        using g f(3,5)
        by (intro exI [of _ l] exI [of _ "dispatched_request rq s"]) (simp add: dispatched_request_def split: option.split)
    qed
    moreover have "length (dispatches log) \<le> 1" using given_dispatched [OF log(2)] by (cases "dispatches log") auto
    ultimately show ?thesis
      using c f(2) log(1) executed(3) by (intro exI [of _ s] exI [of _ log]) auto
  qed
qed

text \<open>Two links claim the identity, and neither is removed.\<close>

theorem removed_link_only_witness:
  "\<exists>x w'. remove_managed_link (still_env (sample_snapshot 6 [sample_link 7, sample_link 8])) (PStr ''session'') (PStr ''music'')
       (PInt 1) PNone one_second (PStr ''r1'') (still_world []) = Some (Inr x, w') \<and> \<not> succeeded x \<and> dispatches (calls w') = []"
proof -
  let ?s = "sample_snapshot 6 [sample_link 7, sample_link 8]"
  let ?p = "removal_predicate ''session'' ''music''"
  let ?t = "link_request_target ''session'' ''music'' []"
  let ?payload = "PDict [(PStr ''link_id'', PInt 0)]"
  have m: "managed_links ?s ''session'' ''music'' = [sample_link 7, sample_link 8]" using sample_managed [of 6 "[7, 8]"] by simp
  have t: "MutationTargetValue_ok ?t" by (rule link_request_target_ok(2)) simp
  have ps: "list_all ConfirmationPredicateValue_ok [?p]" using removal_predicate_ok by simp
  have pl: "val_mapping (if truthy ?payload then ?payload else PDict []) ''payload'' = Inr [(''link_id'', PInt 0)]"
    by (simp add: val_mapping_def FrozenDict_init_def)
  have wf: "well_formed ?payload" by simp
  have ne: "[?p] \<noteq> []" by simp
  note create = create_request_still [OF t ps ne wf pl, of 1 ?s "''MutationOperation''" REMOVE_LINK "still_world [Captured (Inr ?s)]"]
  let ?rq = "\<lparr>rq_request_id = ''r1'', rq_expected_generation = 1, rq_operation = REMOVE_LINK, rq_target = ?t,
       rq_requested_at = render_utc 0, rq_deadline_at = render_utc 1000000, rq_expected_sequence = None,
       rq_payload = [(''link_id'', PInt 0)], rq_confirmation_predicates = [?p]\<rparr>"
  have ok: "MutationRequest_ok ?rq" using create_request_fields [OF create t ps wf] by simp
  let ?details = "PDict [(PStr ''conflicting_links'', PList (map (\<lambda>link. PDict
      [(PStr ''id'', PInt (lk_id link)), (PStr ''owner'', opt_obj PStr (lk_owner link)),
       (PStr ''desired_id'', opt_obj PStr (lk_desired_id link))]) [sample_link 7, sample_link 8]))]"
  have d: "\<exists>items. val_mapping ?details ''details'' = Inr items" "well_formed ?details"
    by (simp_all add: val_mapping_def FrozenDict_init_def sample_link_def)
  then obtain items where items: "val_mapping ?details ''details'' = Inr items" by blast
  obtain x w' where x: "link_ownership_conflict (still_env ?s) ?rq ''multiple links claim the managed identity; none were removed''
      [sample_link 7, sample_link 8] (still_world [Captured (Inr ?s)]) = (Inr x, w')"
    using failure_outcome_total [OF still_simps(6) [of ?s] ok confirmations_ok_Nil _ _ _ items d(2), where code = OWNERSHIP_CONFLICT
        and phase = PRECONDITION and st = REJECTED and m = "''multiple links claim the managed identity; none were removed''"
        and retryable = False and w = "still_world [Captured (Inr ?s)]"]
    by (auto simp: link_ownership_conflict_def selection_failure_def)
  have run: "remove_managed_link (still_env ?s) (PStr ''session'') (PStr ''music'') (PInt 1) PNone one_second (PStr ''r1'') (still_world []) =
      Some (Inr x, w')"
    using create x
    by (simp add: remove_managed_link_def obind_def alift_def val_required_string_def still_simps m Let_def link_target_eq
      predicate_tuple_def absent_predicate_link removal_predicate_def remove_link_from_def preflight_is_stale_def
      del: operation_value.simps sample_managed)
  have caps: "\<forall>v s. fst (env_capture (still_env ?s) v) = Inr s \<longrightarrow> RuntimeSnapshot_ok s"
    by (simp add: still_simps)
  have "calls w' = [Captured (Inr ?s)]" using link_conflict_result [OF x] by (simp add: still_simps)
  moreover obtain s log where "calls w' = calls (still_world []) @ Captured (Inr s) # log"
      "2 \<le> length (managed_links s ''session'' ''music'') \<longrightarrow> dispatches log = [] \<and> \<not> succeeded x"
    using removed_link_only [OF run caps] by blast
  ultimately show ?thesis using run m by (auto simp: still_simps)
qed

end
