(* ===== verification/EventQueue.thy ===== *)
theory EventQueue
  imports Events
begin

text \<open>
  \<open>RuntimeEventQueue\<close> of \<open>src/src/wyreplumber/runtime/queue.py\<close>: the bounded queue between
  the native producer and a consumer.  Every method body between \<open>with self._condition\<close> and
  its release, or the next \<open>wait\<close>, is one atomic operation on the record of the queue; a
  method returns the new state together with its result, so that the state an exception
  leaves behind is kept.  The threads are a step relation on the queue, the consumer and a
  history of what it was given, and the invariants are proved over the reachable states.
\<close>

section \<open>State and constructor\<close>

record RuntimeEventQueue =
  q_capacity :: int
  q_events :: "RuntimeEvent list"
  q_generation :: int
  q_sequence :: int
  q_closed :: bool
  q_resnapshot_required :: bool
  q_discontinuity_reason :: "string option"

definition init_queue :: "pyval \<Rightarrow> pyval \<Rightarrow> pyval \<Rightarrow> exn + RuntimeEventQueue" where
  "init_queue capacity generation sequence =
     rbind (val_integer capacity ''capacity'') (\<lambda>capacity.
     rbind (check (\<not> capacity < 1) (ValueError ''capacity must be at least one'')) (\<lambda>_.
     rbind (val_identifier generation ''generation'') (\<lambda>generation.
     rbind (val_identifier sequence ''sequence'') (\<lambda>sequence.
     Inr \<lparr>q_capacity = capacity, q_events = [], q_generation = generation, q_sequence = sequence,
       q_closed = False, q_resnapshot_required = False, q_discontinuity_reason = None\<rparr>))))"

definition queue_position :: "RuntimeEventQueue \<Rightarrow> int \<times> int" where
  "queue_position q = (q_generation q, q_sequence q)"

definition qsize :: "RuntimeEventQueue \<Rightarrow> nat" where
  "qsize q = length (q_events q)"

section \<open>Publication\<close>

text \<open>
  \<open>_invalidate\<close>: the pending deltas are replaced by one discontinuity at the position of the
  event that broke continuity.  \<open>now\<close> is the reading of the UTC clock.
\<close>

definition invalidate :: "datetime \<Rightarrow> RuntimeEvent \<Rightarrow> string \<Rightarrow> RuntimeEventQueue \<Rightarrow> RuntimeEventQueue \<times> (exn + unit)" where
  "invalidate now event reason q =
     (let q1 = q\<lparr>q_events := [], q_generation := ev_generation event, q_sequence := ev_sequence event,
                 q_resnapshot_required := True, q_discontinuity_reason := Some reason\<rparr>
      in case discontinuity (PInt (ev_generation event)) (PInt (ev_sequence event)) (PDatetime now) (PStr reason) of
           Inl e \<Rightarrow> (q1, Inl e)
         | Inr d \<Rightarrow> (q1\<lparr>q_events := q_events q1 @ [d]\<rparr>, Inr ()))"

definition accepted :: "RuntimeEventQueue \<times> (exn + unit) \<Rightarrow> RuntimeEventQueue \<times> (exn + bool)" where
  "accepted r = (fst r, rbind (snd r) (\<lambda>_. Inr True))"

definition publish_event :: "datetime \<Rightarrow> RuntimeEvent \<Rightarrow> RuntimeEventQueue \<Rightarrow> RuntimeEventQueue \<times> (exn + bool)" where
  "publish_event now event q =
     (if q_closed q \<or> q_resnapshot_required q then (q, Inr False)
      else if ev_generation event \<noteq> q_generation q
      then accepted (invalidate now event
             (''connection generation changed from '' @ show_int (q_generation q) @
              '' to '' @ show_int (ev_generation event)) q)
      else let expected_sequence = q_sequence q + 1 in
      if ev_sequence event \<noteq> expected_sequence
      then accepted (invalidate now event
             (''expected event sequence '' @ show_int expected_sequence @
              '', received '' @ show_int (ev_sequence event)) q)
      else if ev_requires_resnapshot event
      then (q\<lparr>q_events := [event], q_generation := ev_generation event, q_sequence := ev_sequence event,
              q_resnapshot_required := True,
              q_discontinuity_reason :=
                Some (case ev_reason event of
                        Some r \<Rightarrow> if r \<noteq> [] then r else ''event requires a new snapshot''
                      | None \<Rightarrow> ''event requires a new snapshot'')\<rparr>, Inr True)
      else if q_capacity q \<le> int (length (q_events q))
      then accepted (invalidate now event
             (''event queue capacity '' @ show_int (q_capacity q) @ '' exceeded'') q)
      else (q\<lparr>q_events := q_events q @ [event], q_sequence := ev_sequence event\<rparr>, Inr True))"

definition publish :: "datetime \<Rightarrow> pyval \<Rightarrow> RuntimeEventQueue \<Rightarrow> RuntimeEventQueue \<times> (exn + bool)" where
  "publish now event q =
     (case as_RuntimeEvent event of
        None \<Rightarrow> (q, Inl (TypeError ''event must be a RuntimeEvent''))
      | Some e \<Rightarrow> publish_event now e q)"

section \<open>Reading\<close>

definition float_add :: "pyfloat \<Rightarrow> pyfloat \<Rightarrow> pyfloat" where
  "float_add a b = float_sub a (f64_make (\<not> f64_negative b) (f64_exponent b) (f64_mantissa b))"

definition number_negative :: "pyval \<Rightarrow> bool" where
  "number_negative v =
     (case v of PFloat f \<Rightarrow> float_lt f 0
      | _ \<Rightarrow> (case as_int v of Some i \<Rightarrow> i < 0 | None \<Rightarrow> False))"

text \<open>The argument checks of \<open>get\<close> and its deadline; \<open>start\<close> is the reading of \<open>monotonic()\<close>.\<close>

definition get_deadline :: "pyfloat \<Rightarrow> pyval \<Rightarrow> pyval \<Rightarrow> exn + bool \<times> pyfloat option" where
  "get_deadline start block timeout =
     rbind (val_boolean block ''block'') (\<lambda>block.
     rbind (check (\<not> (\<not> block \<and> timeout \<noteq> PNone))
              (ValueError ''timeout cannot be used with a non-blocking read'')) (\<lambda>_.
     if timeout = PNone then Inr (block, None)
     else rbind (check (is_number timeout)
                   (TypeError ''timeout must be a number or None'')) (\<lambda>_.
          rbind (check (\<not> number_negative timeout) (ValueError ''timeout must be non-negative'')) (\<lambda>_.
          rbind (py_float timeout (TypeError ''timeout must be a number or None'')) (\<lambda>seconds.
          Inr (block, Some (float_add start seconds)))))))"

datatype get_result = Got RuntimeEvent | Raised exn | Waits "pyfloat option"

text \<open>One turn of the loop in \<open>get\<close>, up to the return, the exception or the next \<open>wait\<close>.\<close>

definition get_turn :: "bool \<Rightarrow> pyfloat option \<Rightarrow> pyfloat \<Rightarrow> RuntimeEventQueue \<Rightarrow> RuntimeEventQueue \<times> get_result" where
  "get_turn block deadline now q =
     (case q_events q of
        event # rest \<Rightarrow> (q\<lparr>q_events := rest\<rparr>, Got event)
      | [] \<Rightarrow>
          if q_closed q then (q, Raised RuntimeEventQueueClosed)
          else if q_resnapshot_required q
          then (q, Raised (RuntimeEventQueueResnapshotRequired (q_generation q) (q_sequence q)
                  (case q_discontinuity_reason q of
                     Some r \<Rightarrow> if r \<noteq> [] then r else ''incremental continuity was lost''
                   | None \<Rightarrow> ''incremental continuity was lost'')))
          else if \<not> block then (q, Raised RuntimeEventQueueEmpty)
          else (case deadline of
                  None \<Rightarrow> (q, Waits None)
                | Some d \<Rightarrow>
                    let remaining = float_sub d now in
                    if float_le remaining 0 then (q, Raised RuntimeEventQueueEmpty)
                    else (q, Waits (Some remaining))))"

definition get_nowait :: "RuntimeEventQueue \<Rightarrow> RuntimeEventQueue \<times> get_result" where
  "get_nowait q = get_turn False None 0 q"

section \<open>Reset and close\<close>

definition reset :: "pyval \<Rightarrow> pyval \<Rightarrow> RuntimeEventQueue \<Rightarrow> RuntimeEventQueue \<times> (exn + unit)" where
  "reset generation sequence q =
     (case rbind (val_identifier generation ''generation'') (\<lambda>g.
           rbind (val_identifier sequence ''sequence'') (\<lambda>s. Inr (g, s))) of
        Inl e \<Rightarrow> (q, Inl e)
      | Inr (g, s) \<Rightarrow>
          if q_closed q then (q, Inl RuntimeEventQueueClosed)
          else (q\<lparr>q_events := [], q_generation := g, q_sequence := s, q_resnapshot_required := False,
                  q_discontinuity_reason := None\<rparr>, Inr ()))"

definition close_queue :: "RuntimeEventQueue \<Rightarrow> RuntimeEventQueue" where
  "close_queue q = q\<lparr>q_closed := True\<rparr>"

section \<open>The state invariant\<close>

text \<open>
  The pending events never exceed the capacity.  While increments can be delivered they are
  the events that lead, without a gap, to the position of the queue; once continuity is lost
  only the event that announces it can be pending.
\<close>

definition queue_ok :: "RuntimeEventQueue \<Rightarrow> bool" where
  "queue_ok q \<longleftrightarrow>
     1 \<le> q_capacity q \<and> 0 \<le> q_generation q \<and> 0 \<le> q_sequence q \<and>
     int (length (q_events q)) \<le> q_capacity q \<and> list_all RuntimeEvent_ok (q_events q) \<and>
     (q_resnapshot_required q \<longrightarrow> q_discontinuity_reason q \<notin> {None, Some []}) \<and>
     (if q_resnapshot_required q
      then q_events q = [] \<or>
           (\<exists>d. q_events q = [d] \<and> ev_requires_resnapshot d \<and> position d = queue_position q)
      else consecutive (q_generation q, q_sequence q - int (length (q_events q))) (q_events q))"

lemma discontinuity_ok:
  assumes "0 \<le> g" "0 \<le> n" "clock_ok now" "reason \<noteq> []"
  shows "\<exists>d. discontinuity (PInt g) (PInt n) (PDatetime now) (PStr reason) = Inr d \<and>
    RuntimeEvent_ok d \<and> position d = (g, n) \<and> ev_requires_resnapshot d \<and>
    ev_kind d = DISCONTINUITY \<and> ev_reason d = Some reason"
proof -
  obtain t where t: "val_timestamp (PDatetime now) = Inr t" "timestamp_ok t"
    using val_timestamp_clock [OF assms(3)] by blast
  have "val_optional_string (PStr reason) ''reason'' = Inr (Some reason)"
    using val_optional_string_obj [of "Some reason"] by simp
  moreover have "val_identity (PStr ''runtime'') ''object_id'' = Inr (StrId ''runtime'')"
    using val_identity_obj [of "StrId ''runtime''"] by simp
  moreover have "val_enum event_kind_value event_kind_members (PStrEnum ''RuntimeEventKind'' ''discontinuity'') ''kind''
      = Inr DISCONTINUITY"
    using event_kind.val_enum_member [where m = DISCONTINUITY] by simp
  moreover have "val_enum object_kind_value object_kind_members (PStrEnum ''RuntimeObjectKind'' ''runtime'') ''object_kind''
      = Inr KRuntime"
    using object_kind.val_enum_member [where m = KRuntime] by simp
  ultimately show ?thesis
    using assms t
    by (simp add: discontinuity_def mk_RuntimeEvent_def val_obj RuntimeEvent_ok_def position_def contract_ok_def
      contract_value_def)
qed

lemma RuntimeEvent_ok_position: "RuntimeEvent_ok e \<Longrightarrow> 0 \<le> ev_generation e \<and> 0 \<le> ev_sequence e"
  by (simp add: RuntimeEvent_ok_def)

text \<open>What \<open>_invalidate\<close> leaves in the queue.\<close>

lemma invalidate_result:
  assumes "RuntimeEvent_ok e" "clock_ok now" "reason \<noteq> []"
  obtains d where "invalidate now e reason q =
      (q\<lparr>q_events := [d], q_generation := ev_generation e, q_sequence := ev_sequence e,
         q_resnapshot_required := True, q_discontinuity_reason := Some reason\<rparr>, Inr ())"
    "RuntimeEvent_ok d" "position d = position e" "ev_requires_resnapshot d" "ev_kind d = DISCONTINUITY"
    "ev_reason d = Some reason"
proof -
  obtain d where d: "discontinuity (PInt (ev_generation e)) (PInt (ev_sequence e)) (PDatetime now) (PStr reason) = Inr d"
    "RuntimeEvent_ok d" "position d = (ev_generation e, ev_sequence e)" "ev_requires_resnapshot d"
    "ev_kind d = DISCONTINUITY" "ev_reason d = Some reason"
    using discontinuity_ok [of "ev_generation e" "ev_sequence e" now reason] RuntimeEvent_ok_position assms by blast
  show ?thesis
    by (rule that [of d]) (use d in \<open>simp_all add: invalidate_def position_def\<close>)
qed

text \<open>
  Publication has four outcomes: rejection, a pending delta, an event that itself asks for a
  snapshot, and the discontinuity that replaces everything pending.
\<close>

definition appended :: "RuntimeEvent \<Rightarrow> RuntimeEventQueue \<Rightarrow> RuntimeEventQueue" where
  "appended e q = q\<lparr>q_events := q_events q @ [e], q_sequence := ev_sequence e\<rparr>"

definition lost :: "RuntimeEvent \<Rightarrow> RuntimeEvent \<Rightarrow> RuntimeEventQueue \<Rightarrow> RuntimeEventQueue \<Rightarrow> bool" where
  "lost e d q q' \<longleftrightarrow>
     q_events q' = [d] \<and> position d = position e \<and> queue_position q' = position e \<and>
     ev_requires_resnapshot d \<and> RuntimeEvent_ok d \<and> q_resnapshot_required q' \<and>
     q_discontinuity_reason q' \<notin> {None, Some []} \<and>
     q_capacity q' = q_capacity q \<and> q_closed q' = q_closed q"

lemma publish_event_cases:
  assumes "RuntimeEvent_ok e" "clock_ok now"
  obtains
    (rejected) "publish_event now e q = (q, Inr False)" "q_closed q \<or> q_resnapshot_required q"
  | (pending) "publish_event now e q = (appended e q, Inr True)" "\<not> q_closed q" "\<not> q_resnapshot_required q"
      "follows e (queue_position q)" "int (length (q_events q)) < q_capacity q"
  | (lost) d q' where "publish_event now e q = (q', Inr True)" "lost e d q q'"
      "\<not> q_closed q" "\<not> q_resnapshot_required q"
      "\<not> follows e (queue_position q) \<or> q_capacity q \<le> int (length (q_events q))"
proof (cases "q_closed q \<or> q_resnapshot_required q")
  case True
  then show ?thesis by (intro rejected) (simp_all add: publish_event_def)
next
  case open_queue: False
  have inval: ?thesis if "publish_event now e q = accepted (invalidate now e reason q)" "reason \<noteq> []"
      "\<not> follows e (queue_position q) \<or> q_capacity q \<le> int (length (q_events q))" for reason
    by (rule invalidate_result [OF assms that(2), of q])
      (use that open_queue in \<open>auto intro!: lost simp: accepted_def lost_def queue_position_def position_def\<close>)
  note defs = publish_event_def Let_def follows_def queue_position_def
  consider "ev_generation e \<noteq> q_generation q"
    | "ev_generation e = q_generation q" "ev_sequence e \<noteq> q_sequence q + 1"
    | "ev_generation e = q_generation q" "ev_sequence e = q_sequence q + 1" "ev_requires_resnapshot e"
    | "follows e (queue_position q)" "q_capacity q \<le> int (length (q_events q))"
    | "follows e (queue_position q)" "\<not> q_capacity q \<le> int (length (q_events q))"
    by (auto simp: follows_def queue_position_def)
  then show ?thesis
  proof cases
    case 1
    with open_queue show ?thesis by (intro inval, simp add: defs, simp, simp add: defs)
  next
    case 2
    with open_queue show ?thesis by (intro inval, simp add: defs, simp, simp add: defs)
  next
    case 3
    show ?thesis
      by (rule lost [where d = e])
        (use 3 open_queue assms in \<open>auto simp: defs lost_def position_def split: option.splits if_splits\<close>)
  next
    case 4
    with open_queue show ?thesis by (intro inval, simp add: defs, simp, simp add: defs)
  next
    case 5
    then show ?thesis
      using open_queue
      by (intro pending) (auto simp: defs appended_def)
  qed
qed

lemma init_queue_ok: "init_queue c g n = Inr q \<Longrightarrow> queue_ok q"
  by (auto simp: init_queue_def queue_ok_def validator_simps elim!: rbind_InrE)

lemma publish_event_ok:
  assumes "queue_ok q" "RuntimeEvent_ok e" "clock_ok now"
  shows "queue_ok (fst (publish_event now e q)) \<and> (\<exists>b. snd (publish_event now e q) = Inr b)"
  using assms(2,3)
proof (cases rule: publish_event_cases [of e now q])
  case rejected
  then show ?thesis using assms(1) by auto
next
  case pending
  let ?g = "q_generation q" and ?n = "q_sequence q - int (length (q_events q))"
  have "consecutive (?g, ?n) (q_events q)" using assms(1) pending by (simp add: queue_ok_def)
  then have "consecutive (?g, ?n) (q_events q @ [e])"
    using consecutive_last [of ?g ?n "q_events q"] pending
    unfolding consecutive_snoc by (simp add: queue_position_def)
  then show ?thesis
    using assms pending by (auto simp: queue_ok_def appended_def follows_def queue_position_def)
next
  case (lost d q')
  then show ?thesis
    using assms RuntimeEvent_ok_position [OF assms(2)]
    by (auto simp: queue_ok_def lost_def queue_position_def position_def)
qed

lemma get_turn_ok: "queue_ok q \<Longrightarrow> queue_ok (fst (get_turn block deadline now q))"
  by (cases "q_events q")
    (auto simp: get_turn_def queue_ok_def Let_def position_def follows_def queue_position_def add.commute
      split: option.split if_splits)

lemma reset_PInt:
  "reset (PInt g) (PInt n) q = (q', Inr ()) \<longleftrightarrow>
     0 \<le> g \<and> 0 \<le> n \<and> \<not> q_closed q \<and>
     q' = q\<lparr>q_events := [], q_generation := g, q_sequence := n, q_resnapshot_required := False,
            q_discontinuity_reason := None\<rparr>"
  by (cases "g < 0"; cases "n < 0") (auto simp: reset_def val_identifier_def val_integer_def)

lemma reset_ok: "queue_ok q \<Longrightarrow> queue_ok (fst (reset g n q))"
  by (auto simp: reset_def queue_ok_def validator_simps rbind_eq_Inr_iff split: sum.split)

lemma close_queue_ok: "queue_ok q \<Longrightarrow> queue_ok (close_queue q)"
  by (auto simp: close_queue_def queue_ok_def queue_position_def)

section \<open>The queue as a continuity-preserving stream\<close>

text \<open>Publication that leaves increments deliverable accepts exactly the next event.\<close>

definition queue_accept :: "RuntimeEventQueue \<Rightarrow> RuntimeEvent \<Rightarrow> RuntimeEventQueue option" where
  "queue_accept q e =
     (if \<not> q_closed q \<and> \<not> q_resnapshot_required q \<and> follows e (queue_position q) \<and>
         int (length (q_events q)) < q_capacity q
      then Some (appended e q) else None)"

lemma queue_accept_publish:
  assumes "RuntimeEvent_ok e" "clock_ok now"
  shows "queue_accept q e = Some q' \<longleftrightarrow>
    publish_event now e q = (q', Inr True) \<and> \<not> q_resnapshot_required q'"
  using assms
proof (cases rule: publish_event_cases [of e now q])
  case rejected
  then show ?thesis by (auto simp: queue_accept_def)
next
  case pending
  then show ?thesis by (auto simp: queue_accept_def appended_def)
next
  case (lost d q'')
  then show ?thesis by (auto simp: queue_accept_def lost_def)
qed

interpretation queue_stream: continuity queue_position queue_accept
  by unfold_locales
    (auto simp: queue_accept_def appended_def queue_position_def position_def follows_def split: if_splits)

section \<open>Threads\<close>

text \<open>
  The producer and any number of consumers run under the lock of the condition variable, so
  an execution is a sequence of atomic operations: publications, turns of the reading loop
  (the first one and those after a wake-up, spurious or not), resets and closing.  \<open>base\<close> is
  the snapshot position the stream was last established from and \<open>delivered\<close> what the
  consumers have been given since.
\<close>

record system =
  sys_queue :: RuntimeEventQueue
  base :: "int \<times> int"
  delivered :: "RuntimeEvent list"

inductive queue_step :: "system \<Rightarrow> system \<Rightarrow> bool" where
  Publish: "RuntimeEvent_ok e \<Longrightarrow> clock_ok now \<Longrightarrow> publish_event now e (sys_queue s) = (q', r) \<Longrightarrow>
    queue_step s (s\<lparr>sys_queue := q'\<rparr>)"
| Deliver: "get_turn block deadline now (sys_queue s) = (q', Got e) \<Longrightarrow>
    queue_step s (s\<lparr>sys_queue := q', delivered := delivered s @ [e]\<rparr>)"
| Idle: "get_turn block deadline now (sys_queue s) = (q', r) \<Longrightarrow> \<forall>e. r \<noteq> Got e \<Longrightarrow>
    queue_step s (s\<lparr>sys_queue := q'\<rparr>)"
| Reset: "reset (PInt g) (PInt n) (sys_queue s) = (q', Inr ()) \<Longrightarrow>
    queue_step s (s\<lparr>sys_queue := q', base := (g, n), delivered := []\<rparr>)"
| Close: "queue_step s (s\<lparr>sys_queue := close_queue (sys_queue s)\<rparr>)"

inductive queue_reachable :: "system \<Rightarrow> bool" where
  Start: "init_queue c (PInt g) (PInt n) = Inr q \<Longrightarrow>
    queue_reachable \<lparr>sys_queue = q, base = (g, n), delivered = []\<rparr>"
| Step: "queue_reachable s \<Longrightarrow> queue_step s s' \<Longrightarrow> queue_reachable s'"

inductive_cases queue_stepE: "queue_step s s'"

text \<open>
  The history of a stream: what was delivered and what is pending are consecutive events from
  the base, followed by nothing while increments can be delivered, and otherwise by the one
  event that asks for a snapshot.
\<close>

definition history_ok :: "system \<Rightarrow> bool" where
  "history_ok s \<longleftrightarrow>
     (\<exists>run tail. delivered s @ q_events (sys_queue s) = run @ tail \<and> consecutive (base s) run \<and>
        (if q_resnapshot_required (sys_queue s)
         then \<exists>d. tail = [d] \<and> ev_requires_resnapshot d \<and> position d = queue_position (sys_queue s)
         else tail = [] \<and>
              queue_position (sys_queue s) = (fst (base s), snd (base s) + int (length run))))"

lemma consecutive_prefix: "consecutive pos (xs @ ys) \<Longrightarrow> consecutive pos xs"
  by (simp add: consecutive_append)

lemma consecutive_plain: "consecutive pos es \<Longrightarrow> e \<in> set es \<Longrightarrow> \<not> ev_requires_resnapshot e"
  by (induction pos es rule: consecutive.induct) (auto simp: follows_def)

lemma history_delivered:
  assumes "history_ok s"
  obtains run where "consecutive (base s) run" "delivered s = run"
    | run d where "consecutive (base s) run" "delivered s = run @ [d]" "ev_requires_resnapshot d"
        "q_resnapshot_required (sys_queue s)" "q_events (sys_queue s) = []"
proof -
  obtain run tail where h: "delivered s @ q_events (sys_queue s) = run @ tail" "consecutive (base s) run"
    and t: "tail = [] \<or> (\<exists>d. tail = [d] \<and> ev_requires_resnapshot d \<and> q_resnapshot_required (sys_queue s))"
    using assms by (auto simp: history_ok_def split: if_splits)
  show ?thesis
  proof (cases "length (delivered s) \<le> length run")
    case True
    then have "\<exists>us. run = delivered s @ us" using h(1) by (auto simp: append_eq_append_conv2)
    then show ?thesis using h(2) that(1) consecutive_prefix by blast
  next
    case False
    then obtain us where us: "delivered s = run @ us" "tail = us @ q_events (sys_queue s)" "us \<noteq> []"
      using h(1) by (auto simp: append_eq_append_conv2)
    then obtain d where "tail = [d]" "us = [d]" "q_events (sys_queue s) = []" "ev_requires_resnapshot d"
        "q_resnapshot_required (sys_queue s)"
      using t by (cases us) auto
    then show ?thesis using that(2) h(2) us(1) by simp
  qed
qed

lemma get_turn_got:
  "get_turn block deadline now q = (q', Got e) \<Longrightarrow> \<exists>rest. q_events q = e # rest \<and> q' = q\<lparr>q_events := rest\<rparr>"
  by (cases "q_events q") (auto simp: get_turn_def Let_def split: option.splits if_splits)

lemma get_turn_other:
  "get_turn block deadline now q = (q', r) \<Longrightarrow> \<forall>e. r \<noteq> Got e \<Longrightarrow> q' = q \<and> q_events q = []"
  by (cases "q_events q") (auto simp: get_turn_def Let_def split: option.splits if_splits)

lemma history_publish:
  assumes h: "history_ok s" and e: "RuntimeEvent_ok e" "clock_ok now"
    and p: "publish_event now e (sys_queue s) = (q', r)"
  shows "history_ok (s\<lparr>sys_queue := q'\<rparr>)"
  using e
proof (cases rule: publish_event_cases [of e now "sys_queue s"])
  case rejected
  then show ?thesis using h p by simp
next
  case pending
  then obtain run where run: "delivered s @ q_events (sys_queue s) = run" "consecutive (base s) run"
      "queue_position (sys_queue s) = (fst (base s), snd (base s) + int (length run))"
    using h by (auto simp: history_ok_def)
  have "(if run = [] then base s else position (last run)) = queue_position (sys_queue s)"
    using run consecutive_last [of "fst (base s)" "snd (base s)" run] by (cases "run = []") simp_all
  then have "consecutive (base s) (run @ [e])"
    using run(2) pending(4) unfolding consecutive_snoc by simp
  moreover have "q' = appended e (sys_queue s)" using p pending(1) by simp
  moreover have "position e = (fst (base s), snd (base s) + int (length (run @ [e])))"
    using pending(4) run(3) by (simp add: follows_def position_def)
  ultimately show ?thesis
    using run pending unfolding history_ok_def
    by (intro exI [of _ "run @ [e]"] exI [of _ "[]"])
      (simp add: appended_def queue_position_def position_def follows_def)
next
  case (lost d q'')
  then have "q'' = q'" using p by simp
  obtain run where run: "delivered s @ q_events (sys_queue s) = run" "consecutive (base s) run"
    using h lost by (auto simp: history_ok_def)
  then have "consecutive (base s) (delivered s)" using consecutive_prefix by blast
  then show ?thesis
    using lost \<open>q'' = q'\<close> unfolding history_ok_def
    by (intro exI [of _ "delivered s"] exI [of _ "[d]"]) (simp add: lost_def)
qed

lemma history_same:
  assumes "history_ok s" "delivered s' @ q_events (sys_queue s') = delivered s @ q_events (sys_queue s)"
    "base s' = base s" "q_resnapshot_required (sys_queue s') = q_resnapshot_required (sys_queue s)"
    "queue_position (sys_queue s') = queue_position (sys_queue s)"
  shows "history_ok s'"
  using assms unfolding history_ok_def by (simp only:)

lemma history_step: "history_ok s \<Longrightarrow> queue_step s s' \<Longrightarrow> history_ok s'"
proof (erule queue_stepE, goal_cases)
  case (1 e now q' r)
  then show ?case using history_publish by simp
next
  case (2 block deadline now q' e)
  then obtain rest where "q_events (sys_queue s) = e # rest" "q' = (sys_queue s)\<lparr>q_events := rest\<rparr>"
    using get_turn_got by blast
  with 2(2) show ?case by (intro history_same [OF 2(1)]) (simp_all add: queue_position_def)
next
  case (3 block deadline now q' r)
  then show ?case using get_turn_other [OF 3(3)] by simp
next
  case (4 g n q')
  then show ?case by (simp add: reset_PInt history_ok_def queue_position_def)
next
  case 5
  from 5(2) show ?case
    by (intro history_same [OF 5(1)]) (simp_all add: close_queue_def queue_position_def)
qed

lemma reachable_history: "queue_reachable s \<Longrightarrow> history_ok s"
proof (induction rule: queue_reachable.induct)
  case (Start c g n q)
  then have "q_events q = [] \<and> \<not> q_resnapshot_required q \<and> queue_position q = (g, n)"
    by (auto simp: init_queue_def queue_position_def validator_simps elim!: rbind_InrE)
  then show ?case by (simp add: history_ok_def)
qed (rule history_step)

lemma reachable_queue_ok: "queue_reachable s \<Longrightarrow> queue_ok (sys_queue s)"
proof (induction rule: queue_reachable.induct)
  case (Step s s')
  from Step(2) show ?case
  proof (rule queue_stepE, goal_cases)
    case (1 e now q' r)
    then show ?case using publish_event_ok [OF Step(3), of e now] by simp
  next
    case (2 block deadline now q' e)
    then show ?case using get_turn_ok [OF Step(3), of block deadline now] by simp
  next
    case (3 block deadline now q' r)
    then show ?case using get_turn_ok [OF Step(3), of block deadline now] by simp
  next
    case (4 g n q')
    then show ?case using reset_ok [OF Step(3), of "PInt g" "PInt n"] by simp
  next
    case 5
    then show ?case using close_queue_ok [OF Step(3)] by simp
  qed
qed (use init_queue_ok in simp)

section \<open>An example\<close>

text \<open>A queue of capacity two that was started at position five of generation one.\<close>

definition sample_queue :: "RuntimeEvent list \<Rightarrow> RuntimeEventQueue" where
  "sample_queue events =
     \<lparr>q_capacity = 2, q_events = events, q_generation = 1, q_sequence = 5 + int (length events), q_closed = False,
       q_resnapshot_required = False, q_discontinuity_reason = None\<rparr>"

lemma sample_queue_init: "init_queue (PInt 2) (PInt 1) (PInt 5) = Inr (sample_queue [])"
  by (simp add: init_queue_def val_integer_def val_identifier_def sample_queue_def)

text \<open>A run: event six is published and delivered, seven follows, and then nine arrives.\<close>

definition sample_system :: "RuntimeEvent list \<Rightarrow> RuntimeEventQueue \<Rightarrow> system" where
  "sample_system given q = \<lparr>sys_queue = q, base = (1, 5), delivered = given\<rparr>"

lemma publish_sample:
  "publish_event sample_now (sample_event 6) (sample_queue []) = (sample_queue [sample_event 6], Inr True)"
  by (simp add: publish_event_def sample_queue_def sample_event_def)

lemma sample_published: "queue_reachable (sample_system [] (sample_queue [sample_event 6]))"
proof -
  have start: "queue_reachable (sample_system [] (sample_queue []))"
    using queue_reachable.Start [OF sample_queue_init] by (simp add: sample_system_def)
  have "queue_step (sample_system [] (sample_queue [])) (sample_system [] (sample_queue [])
      \<lparr>sys_queue := sample_queue [sample_event 6]\<rparr>)"
    by (rule queue_step.Publish [where e = "sample_event 6" and now = sample_now])
      (simp_all add: publish_sample sample_system_def)
  with start show ?thesis using queue_reachable.Step by (fastforce simp: sample_system_def)
qed

lemma sample_delivered:
  "queue_reachable (sample_system [sample_event 6] ((sample_queue [sample_event 6])\<lparr>q_events := []\<rparr>))"
proof -
  have "queue_step (sample_system [] (sample_queue [sample_event 6]))
      (sample_system [] (sample_queue [sample_event 6])
        \<lparr>sys_queue := (sample_queue [sample_event 6])\<lparr>q_events := []\<rparr>, delivered := [] @ [sample_event 6]\<rparr>)"
    using queue_step.Deliver [where s = "sample_system [] (sample_queue [sample_event 6])" and e = "sample_event 6"
      and block = False and deadline = None and now = 0 and q' = "(sample_queue [sample_event 6])\<lparr>q_events := []\<rparr>"]
    by (simp add: sample_system_def get_turn_def sample_queue_def)
  with sample_published show ?thesis
    using queue_reachable.Step by (fastforce simp: sample_system_def)
qed

section \<open>Properties\<close>

text \<open>
  C21. Whatever the interleaving of publications, reads, wake-ups, resets and closing: the events
  handed to consumers since the stream was last established are the next events of the
  snapshot's generation, numbered without a gap from the snapshot's sequence, up to at most
  one last event, and that one demands a new snapshot; once it has been handed out the queue
  holds nothing more.
\<close>

theorem delivered_gapless:
  assumes "queue_reachable s"
  shows "\<exists>run tail. delivered s = run @ tail \<and>
    (\<forall>i < length run. ev_generation (run ! i) = fst (base s) \<and>
       ev_sequence (run ! i) = snd (base s) + 1 + int i \<and> \<not> ev_requires_resnapshot (run ! i)) \<and>
    (tail = [] \<or> (\<exists>d. tail = [d] \<and> ev_requires_resnapshot d \<and>
       q_resnapshot_required (sys_queue s) \<and> q_events (sys_queue s) = []))"
  using reachable_history [OF assms]
proof (cases rule: history_delivered)
  case (1 run)
  then show ?thesis
    using consecutive_nth [of "fst (base s)" "snd (base s)" run] by (intro exI [of _ run] exI [of _ "[]"]) simp
next
  case (2 run d)
  then show ?thesis
    using consecutive_nth [of "fst (base s)" "snd (base s)" run] by (intro exI [of _ run] exI [of _ "[d]"]) simp
qed

theorem delivered_gapless_witness:
  "\<exists>run tail. delivered (sample_system [sample_event 6] ((sample_queue [sample_event 6])\<lparr>q_events := []\<rparr>)) = run @ tail \<and>
     (\<forall>i < length run. ev_sequence (run ! i) = 6 + int i) \<and> length tail \<le> 1"
  using delivered_gapless [OF sample_delivered]
proof (elim exE conjE, goal_cases)
  case (1 run tail)
  then show ?case by (intro exI [of _ run] exI [of _ tail]) (auto simp: sample_system_def)
qed

text \<open>
  C23. In every reachable state the queue is within its capacity, and what is pending is consistent
  with its position: while increments can be delivered the pending events lead without a gap
  to the position; once a snapshot is required at most the announcement is pending.
\<close>

theorem queue_state:
  assumes "queue_reachable s"
  shows "int (qsize (sys_queue s)) \<le> q_capacity (sys_queue s) \<and>
    (if q_resnapshot_required (sys_queue s)
     then qsize (sys_queue s) \<le> 1 \<and> (\<forall>d \<in> set (q_events (sys_queue s)). ev_requires_resnapshot d \<and>
            position d = queue_position (sys_queue s))
     else consecutive (q_generation (sys_queue s), q_sequence (sys_queue s) - int (qsize (sys_queue s)))
            (q_events (sys_queue s)))"
  using reachable_queue_ok [OF assms] by (auto simp: queue_ok_def qsize_def)

theorem queue_state_witness:
  "consecutive (1, 5) (q_events (sample_queue [sample_event 6])) \<and> qsize (sample_queue [sample_event 6]) \<le> 2"
  using queue_state [OF sample_published] by (simp add: sample_system_def sample_queue_def qsize_def)

text \<open>
  What publishing a valid event does, exactly: a closed queue, or one that lost continuity,
  ignores it and answers false; the next event is appended when there is room; and an event
  of another generation, one out of sequence, one that asks for a snapshot or one that finds
  the queue full replaces everything pending by a single event at its position that demands
  a new snapshot.  Publication never raises.
\<close>

lemma publication_outcome:
  assumes "RuntimeEvent_ok e" "clock_ok now"
  shows "\<exists>q'. publish_event now e q = (q', Inr (\<not> (q_closed q \<or> q_resnapshot_required q))) \<and>
    (if q_closed q \<or> q_resnapshot_required q then q' = q
     else if follows e (queue_position q) \<and> int (qsize q) < q_capacity q then q' = appended e q
     else \<exists>d. lost e d q q')"
  using assms
proof (cases rule: publish_event_cases [of e now q])
  case (lost d q')
  then show ?thesis by (auto simp: qsize_def)
qed (auto simp: qsize_def)

primrec read_events :: "nat \<Rightarrow> RuntimeEventQueue \<Rightarrow> RuntimeEvent list \<times> get_result \<times> RuntimeEventQueue" where
  "read_events 0 q = ([], snd (get_nowait q), fst (get_nowait q))"
| "read_events (Suc n) q =
     (case get_nowait q of
        (q', Got e) \<Rightarrow> (case read_events n q' of (es, r, q'') \<Rightarrow> (e # es, r, q''))
      | (q', r) \<Rightarrow> ([], r, q'))"

text \<open>
  Reading hands out what is pending in the order of publication, also after closing and after a
  loss of continuity; only then does a read raise: closed before lost before empty, and the
  loss reports the position and the reason of the discontinuity.
\<close>

lemma reading_order:
  assumes "queue_ok q"
  shows "read_events (qsize q) q =
    (q_events q,
     Raised (if q_closed q then RuntimeEventQueueClosed
             else if q_resnapshot_required q
             then RuntimeEventQueueResnapshotRequired (q_generation q) (q_sequence q) (the (q_discontinuity_reason q))
             else RuntimeEventQueueEmpty),
     q\<lparr>q_events := []\<rparr>)"
proof -
  have "q_resnapshot_required p \<longrightarrow> q_discontinuity_reason p \<notin> {None, Some []} \<Longrightarrow> q_events p = es \<Longrightarrow>
    read_events (length es) p =
    (es, Raised (if q_closed p then RuntimeEventQueueClosed
             else if q_resnapshot_required p
             then RuntimeEventQueueResnapshotRequired (q_generation p) (q_sequence p) (the (q_discontinuity_reason p))
             else RuntimeEventQueueEmpty), p\<lparr>q_events := []\<rparr>)" for es p
    by (induction es arbitrary: p) (auto simp: get_nowait_def get_turn_def split: option.split)
  then show ?thesis using assms by (simp add: qsize_def queue_ok_def)
qed

text \<open>
  After continuity was lost only \<open>reset\<close> makes increments deliverable again: on an open queue it
  empties the queue at the snapshot's position, so that the event after the snapshot is
  accepted next; a closed queue stays as it is and raises.
\<close>

lemma reset_reopens:
  assumes "0 \<le> g" "0 \<le> n" "queue_ok q" "\<not> q_closed q"
    and "RuntimeEvent_ok e" "clock_ok now" "position e = (g, n + 1)" "\<not> ev_requires_resnapshot e"
  shows "\<exists>q'. reset (PInt g) (PInt n) q = (q', Inr ()) \<and> q_events q' = [] \<and> queue_position q' = (g, n) \<and>
    publish_event now e q' = (appended e q', Inr True)"
proof -
  define q' where "q' = q\<lparr>q_events := [], q_generation := g, q_sequence := n, q_resnapshot_required := False,
            q_discontinuity_reason := None\<rparr>"
  have "reset (PInt g) (PInt n) q = (q', Inr ())" using assms by (simp add: reset_PInt q'_def)
  moreover have "queue_accept q' e = Some (appended e q')"
    using assms by (simp add: queue_accept_def q'_def queue_position_def follows_def position_def queue_ok_def)
  ultimately show ?thesis
    using queue_accept_publish [OF assms(5,6)] by (auto simp: q'_def queue_position_def)
qed

end
