(* ===== verification/Contract.thy ===== *)
theory Contract
  imports Validation
begin

text \<open>
  \<open>src/src/wyreplumber/runtime/contract.py\<close>: the published contract metadata and the check of
  a consumer's version range.
\<close>

record OrchestrationContractInfo =
  contract_version :: int
  contract_schema_version :: int
  contract_api_family :: string
  contract_stability :: string

definition orchestration_contract :: OrchestrationContractInfo where
  "orchestration_contract =
     \<lparr>contract_version = 1, contract_schema_version = 1, contract_api_family = ''0.5'',
       contract_stability = ''development''\<rparr>"

definition OrchestrationContractInfo_to_dict :: "OrchestrationContractInfo \<Rightarrow> pyval" where
  "OrchestrationContractInfo_to_dict c =
     PDict [(PStr ''version'', PInt (contract_version c)),
       (PStr ''runtime_value_schema_version'', PInt (contract_schema_version c)),
       (PStr ''wireplumber_api_family'', PStr (contract_api_family c)),
       (PStr ''stability'', PStr (contract_stability c))]"

definition require_orchestration_contract :: "pyval \<Rightarrow> pyval \<Rightarrow> exn + OrchestrationContractInfo" where
  "require_orchestration_contract minimum maximum =
     (case as_int minimum of
        None \<Rightarrow> Inl (ValueError ''minimum contract version must be a positive integer'')
      | Some low \<Rightarrow>
          if low < 1 then Inl (ValueError ''minimum contract version must be a positive integer'')
          else (case (if maximum = PNone then Some low else as_int maximum) of
            None \<Rightarrow> Inl (ValueError ''maximum contract version must be an integer not below minimum'')
          | Some high \<Rightarrow>
              if high < low
              then Inl (ValueError ''maximum contract version must be an integer not below minimum'')
              else if \<not> (low \<le> contract_version orchestration_contract \<and>
                        contract_version orchestration_contract \<le> high)
              then Inl (ContractCompatibilityError (contract_version orchestration_contract) low high)
              else Inr orchestration_contract))"

section \<open>Properties\<close>

text \<open>
  A range of positive versions is accepted exactly when version one, the contract
  of this release, lies in it; a well-formed range that excludes it is reported with the
  supported version and the range.
\<close>

lemma require_contract_iff:
  assumes "1 \<le> low" "low \<le> high"
  shows "require_orchestration_contract (PInt low) (PInt high) =
    (if low = 1 then Inr orchestration_contract else Inl (ContractCompatibilityError 1 low high))"
  using assms by (simp add: require_orchestration_contract_def orchestration_contract_def)

end
