(* ===== verification/Projection.thy ===== *)
theory Projection
  imports EventQueue Controls Contract
begin

text \<open>
  The consumer of \<open>src/examples/runtime_orchestration.py\<close>: a projection of the runtime objects
  built from a snapshot and advanced by events, and the client that captures a new snapshot
  when continuity is lost.  The lemmas say what an applied event changes, that a projection
  accepts exactly the events that follow its position, that the stream of a
  \<open>RuntimeEventQueue\<close> is accepted up to the event that announces a loss, and what a new snapshot
  and the client hold of the events that were drained and received.
\<close>

section \<open>The projection\<close>

record RuntimeProjection =
  pj_generation :: int
  pj_sequence :: int
  pj_objects :: "((RuntimeObjectKind \<times> identity) \<times> pyval) list"

definition projection_position :: "RuntimeProjection \<Rightarrow> int \<times> int" where
  "projection_position p = (pj_generation p, pj_sequence p)"

definition put_objects ::
    "RuntimeObjectKind \<Rightarrow> ('v \<Rightarrow> identity) \<Rightarrow> ('v \<Rightarrow> pyval) \<Rightarrow> 'v list \<Rightarrow>
     ((RuntimeObjectKind \<times> identity) \<times> pyval) list \<Rightarrow> ((RuntimeObjectKind \<times> identity) \<times> pyval) list" where
  "put_objects kind identity obj values objects =
     fold (\<lambda>v. alist_set (kind, identity v) (obj v)) values objects"

definition projection_from_snapshot :: "RuntimeSnapshot \<Rightarrow> RuntimeProjection" where
  "projection_from_snapshot s =
     (let o1 = put_objects KDevice (\<lambda>v. IntId (dev_id v)) DeviceValue_obj (snap_devices s) [];
          o2 = put_objects KNode (\<lambda>v. IntId (nd_id v)) NodeValue_obj (snap_nodes s) o1;
          o3 = put_objects KPort (\<lambda>v. IntId (pt_id v)) PortValue_obj (snap_ports s) o2;
          o4 = put_objects KLink (\<lambda>v. IntId (lk_id v)) LinkValue_obj (snap_links s) o3;
          o5 = put_objects KMetadata (\<lambda>v. IntId (md_id v)) MetadataValue_obj (snap_metadata s) o4;
          o6 = put_objects KParameter parameter_source ParameterValue_obj (snap_parameters s) o5;
          o7 = put_objects KProfile
                 (\<lambda>v. StrId (show_int (pf_device_id v) @ '':'' @ show_int (pf_index v)))
                 ProfileValue_obj (snap_profiles s) o6;
          o8 = put_objects KRoute
                 (\<lambda>v. StrId (show_int (rt_device_id v) @ '':'' @ show_int (rt_index v)))
                 RouteValue_obj (snap_routes s) o7;
          o9 = alist_set (KDefaults, StrId ''defaults'') (DefaultsValue_obj (snap_defaults s)) o8
      in \<lparr>pj_generation = snap_generation s, pj_sequence = snap_sequence s,
           pj_objects = alist_set (KConnection, StrId ''connection'')
                          (ConnectionHealthValue_obj (snap_health s)) o9\<rparr>)"

definition projection_apply :: "RuntimeEvent \<Rightarrow> RuntimeProjection \<Rightarrow> exn + RuntimeProjection" where
  "projection_apply event p =
     rbind (require_event_continuity event (PInt (pj_generation p)) (PInt (pj_sequence p))) (\<lambda>_.
     let key = (ev_object_kind event, ev_object_id event);
         objects =
           (if ev_kind event = OBJECT_REMOVED then filter (\<lambda>item. fst item \<noteq> key) (pj_objects p)
            else if ev_current event \<noteq> PNone then alist_set key (ev_current event) (pj_objects p)
            else pj_objects p)
     in Inr (p\<lparr>pj_objects := objects, pj_sequence := ev_sequence event\<rparr>))"

section \<open>The client\<close>

record 'w client_runtime = "'w runtime" +
  env_drain :: "'w \<Rightarrow> (exn + RuntimeEvent list) \<times> 'w"
  env_next :: "'w \<Rightarrow> (exn + RuntimeEvent option) \<times> 'w"

text \<open>The fold over the drained events: those the snapshot already contains are skipped.\<close>

fun fold_events :: "RuntimeEvent list \<Rightarrow> RuntimeProjection \<Rightarrow> exn + RuntimeProjection" where
  "fold_events [] p = Inr p"
| "fold_events (event # events) p =
     (if ev_generation event = pj_generation p \<and> ev_sequence event \<le> pj_sequence p
      then fold_events events p
      else rbind (projection_apply event p) (fold_events events))"

fun is_continuity_error :: "exn \<Rightarrow> bool" where
  "is_continuity_error (RuntimeContinuityError _ _ _) = True"
| "is_continuity_error _ = False"

text \<open>One turn of \<open>resnapshot\<close>: the new snapshot and projection, an exception, or another turn.\<close>

datatype resnapshot_turn = Ready RuntimeSnapshot RuntimeProjection | Escapes exn | Retry

definition resnapshot_once :: "'w client_runtime \<Rightarrow> 'w \<Rightarrow> resnapshot_turn \<times> 'w" where
  "resnapshot_once env w =
     (case env_capture env w of
        (Inl e, w1) \<Rightarrow> (Escapes e, w1)
      | (Inr snapshot, w1) \<Rightarrow>
          (case env_drain env w1 of
             (Inl e, w2) \<Rightarrow> (if is_continuity_error e then Retry else Escapes e, w2)
           | (Inr events, w2) \<Rightarrow>
               (case fold_events events (projection_from_snapshot snapshot) of
                  Inl e \<Rightarrow> (if is_continuity_error e then Retry else Escapes e, w2)
                | Inr p \<Rightarrow> (Ready snapshot p, w2))))"

partial_function (option) resnapshot :: "'w client_runtime \<Rightarrow> 'w \<Rightarrow> ((exn + RuntimeSnapshot \<times> RuntimeProjection) \<times> 'w) option" where
  "resnapshot env w =
     (case resnapshot_once env w of
        (Ready s p, w') \<Rightarrow> Some (Inr (s, p), w')
      | (Escapes e, w') \<Rightarrow> Some (Inl e, w')
      | (Retry, w') \<Rightarrow> resnapshot env w')"

record client =
  client_snapshot :: RuntimeSnapshot
  client_projection :: RuntimeProjection

text \<open>\<open>project_next_event\<close>: false when no event arrived; a lost continuity replaces the projection.\<close>

definition project_next_event ::
    "'w client_runtime \<Rightarrow> client \<Rightarrow> 'w \<Rightarrow> ((exn + bool) \<times> client \<times> 'w) option" where
  "project_next_event env c w =
     (case env_next env w of
        (Inl e, w1) \<Rightarrow> Some (Inl e, c, w1)
      | (Inr None, w1) \<Rightarrow> Some (Inr False, c, w1)
      | (Inr (Some event), w1) \<Rightarrow>
          (case projection_apply event (client_projection c) of
             Inr p \<Rightarrow> Some (Inr True, c\<lparr>client_projection := p\<rparr>, w1)
           | Inl e \<Rightarrow>
               if is_continuity_error e
               then (case resnapshot env w1 of
                       None \<Rightarrow> None
                     | Some (Inl e', w2) \<Rightarrow> Some (Inl e', c, w2)
                     | Some (Inr (s, p), w2) \<Rightarrow> Some (Inr True, \<lparr>client_snapshot = s, client_projection = p\<rparr>, w2))
               else Some (Inl e, c, w1)))"

section \<open>Applying events\<close>

definition projection_ok :: "RuntimeProjection \<Rightarrow> bool" where
  "projection_ok p \<longleftrightarrow> 0 \<le> pj_generation p \<and> 0 \<le> pj_sequence p \<and> distinct (map fst (pj_objects p))"

text \<open>The projection as a map from object identities, and what an event does to it.\<close>

definition objects_map :: "RuntimeProjection \<Rightarrow> RuntimeObjectKind \<times> identity \<Rightarrow> pyval option" where
  "objects_map p = map_of (pj_objects p)"

definition event_effect :: "RuntimeEvent \<Rightarrow> (RuntimeObjectKind \<times> identity \<Rightarrow> pyval option) \<Rightarrow>
    RuntimeObjectKind \<times> identity \<Rightarrow> pyval option" where
  "event_effect e m =
     (if ev_kind e = OBJECT_REMOVED then m((ev_object_kind e, ev_object_id e) := None)
      else if ev_current e \<noteq> PNone then m((ev_object_kind e, ev_object_id e) \<mapsto> ev_current e) else m)"

lemma map_of_filter_key: "map_of (filter (\<lambda>item. fst item \<noteq> k) xs) = (map_of xs)(k := None)"
  by (induction xs) (auto simp: fun_eq_iff)

lemma projection_apply_iff:
  assumes "projection_ok p"
  shows "projection_apply e p = Inr p' \<longleftrightarrow>
    follows e (projection_position p) \<and>
    p' = p\<lparr>pj_objects :=
             (if ev_kind e = OBJECT_REMOVED
              then filter (\<lambda>item. fst item \<noteq> (ev_object_kind e, ev_object_id e)) (pj_objects p)
              else if ev_current e \<noteq> PNone
              then alist_set (ev_object_kind e, ev_object_id e) (ev_current e) (pj_objects p)
              else pj_objects p),
           pj_sequence := ev_sequence e\<rparr>"
  using require_event_continuity_iff [of "pj_generation p" "pj_sequence p" e] assms
  by (auto simp: projection_apply_def projection_position_def projection_ok_def Let_def rbind_eq_Inr_iff)

lemma projection_apply_effect:
  assumes "projection_ok p" "projection_apply e p = Inr p'"
  shows "objects_map p' = event_effect e (objects_map p)" "projection_ok p'"
    "projection_position p' = position e" "follows e (projection_position p)"
proof -
  have p': "follows e (projection_position p)"
    "p' = p\<lparr>pj_objects :=
             (if ev_kind e = OBJECT_REMOVED
              then filter (\<lambda>item. fst item \<noteq> (ev_object_kind e, ev_object_id e)) (pj_objects p)
              else if ev_current e \<noteq> PNone
              then alist_set (ev_object_kind e, ev_object_id e) (ev_current e) (pj_objects p)
              else pj_objects p),
           pj_sequence := ev_sequence e\<rparr>"
    using projection_apply_iff [OF assms(1)] assms(2) by blast+
  then show "objects_map p' = event_effect e (objects_map p)"
    by (simp add: objects_map_def event_effect_def map_of_filter_key)
  show "projection_ok p'"
    using p' assms(1) by (auto simp: projection_ok_def follows_def projection_position_def distinct_map_filter)
  show "projection_position p' = position e" "follows e (projection_position p)"
    using p' by (auto simp: projection_position_def position_def follows_def)
qed

lemma projection_apply_refused:
  "projection_ok p \<Longrightarrow> \<not> follows e (projection_position p) \<Longrightarrow>
     \<exists>reason. projection_apply e p = Inl (RuntimeContinuityError reason (pj_generation p) (pj_sequence p + 1))"
  by (auto simp: projection_apply_def require_event_continuity_def projection_ok_def val_obj follows_def projection_position_def)

definition projection_accept :: "RuntimeProjection \<Rightarrow> RuntimeEvent \<Rightarrow> RuntimeProjection option" where
  "projection_accept p e = (case projection_apply e p of Inl _ \<Rightarrow> None | Inr p' \<Rightarrow> Some p')"

lemma projection_accept_Some [simp]: "projection_accept p e = Some p' \<longleftrightarrow> projection_apply e p = Inr p'"
  by (auto simp: projection_accept_def split: sum.split)

lemma projection_apply_position:
  assumes "projection_apply e p = Inr p'"
  shows "follows e (projection_position p)" "projection_position p' = position e"
  using assms
  by (auto simp: projection_apply_def require_event_continuity_def validator_simps Let_def follows_def
    projection_position_def position_def elim!: rbind_InrE split: if_splits)

interpretation projection_stream: continuity projection_position projection_accept
  by unfold_locales (auto simp: projection_accept_def dest: projection_apply_position split: sum.splits)

lemma projection_accept_iff:
  "projection_ok p \<Longrightarrow> (\<exists>p'. projection_accept p e = Some p') \<longleftrightarrow> follows e (projection_position p)"
  using projection_apply_iff [of p e] by (auto simp: projection_accept_def split: sum.split) (metis sum.exhaust)

lemma distinct_put_objects:
  "distinct (map fst objects) \<Longrightarrow> distinct (map fst (put_objects kind ident obj vs objects))"
  unfolding put_objects_def by (induction vs arbitrary: objects) auto

lemma projection_from_snapshot_ok:
  "RuntimeSnapshot_ok s \<Longrightarrow> projection_ok (projection_from_snapshot s) \<and>
     projection_position (projection_from_snapshot s) = (snap_generation s, snap_sequence s)"
  by (simp add: projection_from_snapshot_def projection_ok_def projection_position_def Let_def
    RuntimeSnapshot_ok_def distinct_put_objects)

text \<open>
  A list of events applied in turn: the run is consecutive, the map is the fold of the single
  effects, and a consecutive list is accepted whole.
\<close>

lemma accept_all_effect:
  "projection_ok p \<Longrightarrow> projection_stream.accept_all p es = Some p' \<Longrightarrow>
     projection_ok p' \<and> objects_map p' = fold event_effect es (objects_map p)"
proof (induction es arbitrary: p)
  case (Cons e es)
  then obtain p1 where "projection_apply e p = Inr p1" "projection_stream.accept_all p1 es = Some p'"
    by (auto split: option.splits)
  with Cons.IH [of p1] projection_apply_effect [OF Cons.prems(1)] show ?case by simp
qed simp

lemma accept_all_total:
  "projection_ok p \<Longrightarrow> consecutive (projection_position p) es \<Longrightarrow> \<exists>p'. projection_stream.accept_all p es = Some p'"
proof (induction es arbitrary: p)
  case (Cons e es)
  then obtain p1 where p1: "projection_apply e p = Inr p1"
    using projection_apply_iff [OF Cons.prems(1)] by auto
  from projection_apply_effect [OF Cons.prems(1) p1] Cons
  have "\<exists>p'. projection_stream.accept_all p1 es = Some p'" by simp
  then show ?case using p1 projection_accept_Some [of p e p1] by (simp del: projection_accept_Some)
qed simp

text \<open>
  The drained events that the fold applies, from a position on: it leaves out those at or before
  the position it has reached in the same generation.
\<close>

fun fresh :: "int \<times> int \<Rightarrow> RuntimeEvent list \<Rightarrow> RuntimeEvent list" where
  "fresh pos [] = []"
| "fresh pos (e # es) =
     (if ev_generation e = fst pos \<and> ev_sequence e \<le> snd pos then fresh pos es else e # fresh (position e) es)"

lemma fold_events_fresh:
  "projection_stream.accept_all p (fresh (projection_position p) es) = Some p' \<Longrightarrow> fold_events es p = Inr p'"
proof (induction es arbitrary: p)
  case (Cons e es)
  show ?case
  proof (cases "ev_generation e = pj_generation p \<and> ev_sequence e \<le> pj_sequence p")
    case True
    then show ?thesis using Cons by (simp add: projection_position_def)
  next
    case False
    then obtain p1 where p1: "projection_apply e p = Inr p1"
        "projection_stream.accept_all p1 (fresh (position e) es) = Some p'"
      using Cons.prems by (auto simp: projection_position_def split: option.splits)
    have "projection_position p1 = position e" by (rule projection_apply_position(2) [OF p1(1)])
    then have "fold_events es p1 = Inr p'" using Cons.IH [of p1] p1(2) by simp
    then show ?thesis using False p1(1) by auto
  qed
qed simp

lemma fold_events_refused:
  "projection_ok p \<Longrightarrow> projection_stream.accept_all p (fresh (projection_position p) es) = None \<Longrightarrow>
     \<exists>e. fold_events es p = Inl e \<and> is_continuity_error e"
proof (induction es arbitrary: p)
  case (Cons e es)
  show ?case
  proof (cases "ev_generation e = pj_generation p \<and> ev_sequence e \<le> pj_sequence p")
    case True
    then show ?thesis using Cons.IH [OF Cons.prems(1)] Cons.prems(2) by (simp add: projection_position_def)
  next
    case False
    show ?thesis
    proof (cases "projection_apply e p")
      case (Inl err)
      then have "is_continuity_error err"
        using projection_apply_refused [OF Cons.prems(1), of e] projection_apply_iff [OF Cons.prems(1), of e] by fastforce
      then show ?thesis using Inl False by auto
    next
      case (Inr p1)
      note eff = projection_apply_effect [OF Cons.prems(1) Inr]
      have "projection_accept p e = Some p1" "fresh (projection_position p) (e # es) = e # fresh (projection_position p1) es"
        using Inr False eff(3) by (auto simp: projection_position_def)
      then have "projection_stream.accept_all p1 (fresh (projection_position p1) es) = None"
        using Cons.prems(2) by (simp del: projection_accept_Some fresh.simps)
      then show ?thesis using Cons.IH [OF eff(2)] False Inr by auto
    qed
  qed
qed simp

text \<open>When the applied events are consecutive, no drained event is lost: all are of the generation
  and at or before the position reached.\<close>

lemma fresh_subset: "set (fresh pos es) \<subseteq> set es"
  by (induction pos es rule: fresh.induct) auto

lemma fresh_covers:
  "consecutive pos (fresh pos es) \<Longrightarrow>
     \<forall>e \<in> set es. ev_generation e = fst pos \<and> ev_sequence e \<le> snd pos + int (length (fresh pos es))"
proof (induction pos es rule: fresh.induct)
  case (2 pos e es)
  show ?case
  proof (cases "ev_generation e = fst pos \<and> ev_sequence e \<le> snd pos")
    case True
    then have "fresh pos (e # es) = fresh pos es" by simp
    then show ?thesis using 2(1) [OF True] 2(3) True by force
  next
    case False
    then have f: "fresh pos (e # es) = e # fresh (position e) es" by auto
    then have e: "follows e pos" "consecutive (position e) (fresh (position e) es)" using 2(3) by simp_all
    then show ?thesis using 2(2) [OF False e(2)] unfolding f by (auto simp: follows_def position_def)
  qed
qed simp

lemma fresh_filter:
  "consecutive pos (fresh pos es) \<Longrightarrow> distinct (map ev_sequence es) \<Longrightarrow>
     fresh pos es = filter (\<lambda>e. snd pos < ev_sequence e) es"
proof (induction pos es rule: fresh.induct)
  case (2 pos e es)
  show ?case
  proof (cases "ev_generation e = fst pos \<and> ev_sequence e \<le> snd pos")
    case False
    then have e: "follows e pos" "consecutive (position e) (fresh (position e) es)" using 2(3) by auto
    have "filter (\<lambda>x. snd (position e) < ev_sequence x) es = filter (\<lambda>x. snd pos < ev_sequence x) es"
      by (rule filter_cong) (use 2(4) e(1) in \<open>force simp: follows_def position_def\<close>)+
    then show ?thesis using 2(2) [OF False e(2)] 2(4) False e(1) by (simp add: follows_def)
  qed (use 2 in auto)
qed simp

lemma fold_events_accepted:
  "projection_ok p \<Longrightarrow> projection_stream.accept_all p es = Some p' \<Longrightarrow> fold_events es p = Inr p'"
proof (induction es arbitrary: p)
  case (Cons e es)
  then obtain p1 where p1: "projection_apply e p = Inr p1" "projection_stream.accept_all p1 es = Some p'"
    by (auto split: option.splits)
  note eff = projection_apply_effect [OF Cons.prems(1) p1(1)]
  have "\<not> (ev_generation e = pj_generation p \<and> ev_sequence e \<le> pj_sequence p)"
    using eff(4) by (auto simp: follows_def projection_position_def)
  then show ?case using p1 Cons.IH [OF eff(2) p1(2)] by auto
qed simp

section \<open>A new snapshot\<close>

text \<open>
  A turn of \<open>resnapshot\<close> that loses continuity: the drain says so, or what it returns does not
  continue the snapshot captured before.
\<close>

definition snapshot_position :: "RuntimeSnapshot \<Rightarrow> int \<times> int" where
  "snapshot_position s = (snap_generation s, snap_sequence s)"

definition continuity_lost :: "'w client_runtime \<Rightarrow> 'w \<Rightarrow> 'w \<Rightarrow> bool" where
  "continuity_lost env w w' \<longleftrightarrow>
     (\<exists>s v. env_capture env w = (Inr s, v) \<and>
        ((\<exists>e. env_drain env v = (Inl e, w') \<and> is_continuity_error e) \<or>
         (\<exists>events. env_drain env v = (Inr events, w') \<and>
            \<not> consecutive (snapshot_position s) (fresh (snapshot_position s) events))))"

text \<open>The projection is the snapshot with exactly the given events applied, one after the other.\<close>

definition projects :: "RuntimeSnapshot \<Rightarrow> RuntimeEvent list \<Rightarrow> RuntimeProjection \<Rightarrow> bool" where
  "projects s run p \<longleftrightarrow>
     RuntimeSnapshot_ok s \<and> projection_ok p \<and> consecutive (snapshot_position s) run \<and>
     projection_position p = (snap_generation s, snap_sequence s + int (length run)) \<and>
     objects_map p = fold event_effect run (objects_map (projection_from_snapshot s))"

lemma from_snapshot_position:
  "RuntimeSnapshot_ok s \<Longrightarrow> projection_position (projection_from_snapshot s) = snapshot_position s"
  using projection_from_snapshot_ok by (simp add: snapshot_position_def)

lemma accept_all_projects:
  assumes "RuntimeSnapshot_ok s" "projection_stream.accept_all (projection_from_snapshot s) run = Some p"
  shows "projects s run p"
  using assms projection_from_snapshot_ok [OF assms(1)]
    projection_stream.accept_all_consecutive [OF assms(2)] projection_stream.accept_all_position [OF assms(2)]
    accept_all_effect [OF _ assms(2)]
  by (simp add: projects_def snapshot_position_def)

lemma resnapshot_turn:
  assumes "\<forall>w s. fst (env_capture env w) = Inr s \<longrightarrow> RuntimeSnapshot_ok s" "resnapshot_once env w = (t, w')"
  shows "case t of
      Ready s p \<Rightarrow> (\<exists>v events. env_capture env w = (Inr s, v) \<and> env_drain env v = (Inr events, w') \<and>
        projects s (fresh (snapshot_position s) events) p)
    | Escapes e \<Rightarrow> True
    | Retry \<Rightarrow> continuity_lost env w w'"
proof (cases "env_capture env w")
  case (Pair x v)
  show ?thesis
  proof (cases x)
    case (Inr s)
    then have ok: "RuntimeSnapshot_ok s" using assms(1) Pair by (metis fst_conv)
    note pos = projection_from_snapshot_ok [OF ok] from_snapshot_position [OF ok]
    let ?p = "projection_from_snapshot s"
    obtain y w2 where y: "env_drain env v = (y, w2)" by force
    show ?thesis
    proof (cases y)
      case (Inl e)
      then show ?thesis using assms(2) Pair Inr y
        by (auto simp: resnapshot_once_def continuity_lost_def split: if_splits)
    next
      case events: (Inr events)
      show ?thesis
      proof (cases "projection_stream.accept_all ?p (fresh (projection_position ?p) events)")
        case None
        then have "\<not> consecutive (snapshot_position s) (fresh (snapshot_position s) events)"
          using accept_all_total [of ?p "fresh (snapshot_position s) events"] pos by auto
        then show ?thesis
          using fold_events_refused [OF _ None] assms(2) Pair Inr y events pos
          by (auto simp: resnapshot_once_def continuity_lost_def)
      next
        case (Some p)
        then have "fold_events events ?p = Inr p" by (rule fold_events_fresh)
        then show ?thesis
          using assms(2) Pair Inr y events accept_all_projects [OF ok] Some pos by (auto simp: resnapshot_once_def)
      qed
    qed
  qed (use assms(2) Pair in \<open>auto simp: resnapshot_once_def\<close>)
qed

text \<open>
  A returned \<open>resnapshot\<close> made some turns that lost continuity, and then one that did not: its
  snapshot is the one captured there, and its projection applies what was drained right after.
\<close>

lemma resnapshot_projects:
  fixes env :: "'w client_runtime"
  assumes "resnapshot env w = Some (Inr (s, p), w')"
    and "\<forall>w s. fst (env_capture env w) = Inr s \<longrightarrow> RuntimeSnapshot_ok s"
  shows "\<exists>start v events. (continuity_lost env)\<^sup>*\<^sup>* w start \<and> env_capture env start = (Inr s, v) \<and>
    env_drain env v = (Inr events, w') \<and> projects s (fresh (snapshot_position s) events) p"
proof -
  let ?P = "\<lambda>(env :: 'w client_runtime) (w :: 'w) (y :: (exn + RuntimeSnapshot \<times> RuntimeProjection) \<times> 'w).
    (\<forall>w s. fst (env_capture env w) = Inr s \<longrightarrow> RuntimeSnapshot_ok s) \<longrightarrow>
    (\<forall>s p w'. y = (Inr (s, p), w') \<longrightarrow> (\<exists>start v events. (continuity_lost env)\<^sup>*\<^sup>* w start \<and> env_capture env start = (Inr s, v) \<and>
       env_drain env v = (Inr events, w') \<and> projects s (fresh (snapshot_position s) events) p))"
  have "?P env w (Inr (s, p), w')"
  proof (rule resnapshot.raw_induct [OF _ assms(1), where P = ?P], intro impI allI, goal_cases)
    case (1 loop env w y s p w')
    obtain t w1 where t: "resnapshot_once env w = (t, w1)" by force
    note turn = resnapshot_turn [OF 1(3) t]
    show ?case
    proof (cases t)
      case (Ready s' p')
      then have "s' = s" "p' = p" "w1 = w'" using 1(2,4) t by auto
      then show ?thesis using turn Ready by auto
    next
      case (Escapes e)
      then show ?thesis using 1(2,4) t by auto
    next
      case Retry
      then have "loop env w1 = Some y" "continuity_lost env w w1" using 1(2) t turn by auto
      moreover from 1(1) [OF this(1)] 1(3,4) obtain start v events where "(continuity_lost env)\<^sup>*\<^sup>* w1 start"
          "env_capture env start = (Inr s, v)" "env_drain env v = (Inr events, w')"
          "projects s (fresh (snapshot_position s) events) p" by auto
      ultimately show ?thesis using converse_rtranclp_into_rtranclp [of "continuity_lost env"] by blast
    qed
  qed
  with assms(2) show ?thesis by blast
qed

section \<open>From the queue to the projection\<close>

text \<open>
  A consumer that starts a projection at the base of a queue and applies what it is given
  follows the stream without a gap: every delivered event is applied, except the one that
  announces the loss of continuity, which the projection refuses.
\<close>

lemma delivered_applied:
  assumes "queue_reachable s" "projection_ok p" "projection_position p = base s"
  obtains p' where "projection_stream.accept_all p (delivered s) = Some p'"
    | run d p' where "delivered s = run @ [d]" "projection_stream.accept_all p run = Some p'"
        "ev_requires_resnapshot d" "projection_accept p' d = None"
  using reachable_history [OF assms(1)]
proof (cases rule: history_delivered)
  case (1 run)
  then show ?thesis using accept_all_total [OF assms(2), of run] assms(3) that(1) by auto
next
  case (2 run d)
  then obtain p' where p': "projection_stream.accept_all p run = Some p'"
    using accept_all_total [OF assms(2), of run] assms(3) by auto
  then have "projection_accept p' d = None"
    using projection_accept_iff accept_all_effect [OF assms(2) p'] 2(3)
    by (metis follows_def not_None_eq)
  then show ?thesis using that(2) 2 p' by blast
qed

section \<open>The client's invariant\<close>

lemma projects_step:
  assumes "projects s run p" "projection_apply e p = Inr p'"
  shows "projects s (run @ [e]) p'"
proof -
  have ok: "projection_ok p" using assms(1) by (simp add: projects_def)
  note eff = projection_apply_effect [OF ok assms(2)]
  show ?thesis
    using assms(1) eff consecutive_last [of "snap_generation s" "snap_sequence s" run]
    by (simp add: projects_def consecutive_snoc snapshot_position_def) (simp add: follows_def position_def)
qed

lemma snapshot_projects: "RuntimeSnapshot_ok s \<Longrightarrow> projects s [] (projection_from_snapshot s)"
  using projection_from_snapshot_ok [of s] by (simp add: projects_def)

section \<open>An example\<close>

text \<open>A client of a runtime whose next captures and drains are fixed.\<close>

definition sample_client :: "unit client_runtime" where
  "sample_client =
     \<lparr>env_clock = (\<lambda>s. (sample_now, s)), env_uuid = (\<lambda>s. (''uuid'', s)),
       env_capture = (\<lambda>s. (Inr (sample_snapshot 6 []), s)), env_dispatch = (\<lambda>payload s. (Inl (RuntimeError ''unused''), s)),
       env_sleep = (\<lambda>s. s), env_drain = (\<lambda>s. (Inr [sample_event 6, sample_event 7], s)),
       env_next = (\<lambda>s. (Inr (Some (sample_event 9)), s))\<rparr>"

lemma sample_client_captures: "\<forall>w s. fst (env_capture sample_client w) = Inr s \<longrightarrow> RuntimeSnapshot_ok s"
  by (simp add: sample_client_def)

lemma sample_projection:
  "projection_ok (projection_from_snapshot (sample_snapshot 6 []))"
  "projection_position (projection_from_snapshot (sample_snapshot 6 [])) = (1, 6)"
  using projection_from_snapshot_ok [of "sample_snapshot 6 []"] by simp_all

lemma sample_resnapshot:
  "\<exists>p. projection_apply (sample_event 7) (projection_from_snapshot (sample_snapshot 6 [])) = Inr p \<and>
     resnapshot sample_client () = Some (Inr (sample_snapshot 6 [], p), ())"
proof -
  let ?p = "projection_from_snapshot (sample_snapshot 6 [])"
  obtain p where p: "projection_apply (sample_event 7) ?p = Inr p"
    using projection_apply_iff [OF sample_projection(1), of "sample_event 7"] sample_projection(2) by auto
  have "pj_generation ?p = 1" "pj_sequence ?p = 6"
    using sample_projection(2) by (simp_all add: projection_position_def)
  then have "fold_events [sample_event 6, sample_event 7] ?p = Inr p" using p by simp
  then show ?thesis using p
    by (simp add: resnapshot.simps resnapshot_once_def sample_client_def del: fold_events.simps)
qed

section \<open>Properties\<close>

text \<open>
  C24. A projection applies exactly the event that follows its position.  The event then updates
  the map of objects at its own identity only: a removal forgets the object, an event with
  current state replaces it, any other event leaves the objects alone; and the projection
  moves to the event's position.  Every other event is refused with a continuity error.
\<close>

theorem event_application:
  assumes "projection_ok p"
  shows "if follows e (projection_position p)
    then \<exists>p'. projection_apply e p = Inr p' \<and> projection_ok p' \<and> projection_position p' = position e \<and>
      objects_map p' = event_effect e (objects_map p)
    else \<exists>reason. projection_apply e p =
      Inl (RuntimeContinuityError reason (pj_generation p) (pj_sequence p + 1))"
proof (cases "follows e (projection_position p)")
  case True
  then obtain p' where "projection_apply e p = Inr p'" using projection_apply_iff [OF assms] by blast
  with True show ?thesis using projection_apply_effect [OF assms] by auto
next
  case False
  then show ?thesis using projection_apply_refused [OF assms] by simp
qed

theorem event_application_witness:
  "\<exists>p'. projection_apply (sample_event 7) (projection_from_snapshot (sample_snapshot 6 [])) = Inr p' \<and>
     objects_map p' (KNode, IntId 1) = Some (PInt 7)"
  using event_application [OF sample_projection(1), of "sample_event 7"] sample_projection(2)
  by (auto simp: event_effect_def)

text \<open>
  C25. Taking a new snapshot is consistent whenever it returns.  Some turns were given up because
  continuity was lost in them; in the last one the snapshot was captured and the events were
  drained right after it.  The projection is that snapshot with a consecutive run of the drained
  events applied, and no drained event is lost: each is of the snapshot's generation and at or
  before the position reached, and as long as no two have the same sequence the applied ones are
  exactly those the snapshot does not contain.
\<close>

theorem snapshot_projection:
  assumes "resnapshot env w = Some (Inr (s, p), w')"
    and "\<forall>w s. fst (env_capture env w) = Inr s \<longrightarrow> RuntimeSnapshot_ok s"
  shows "\<exists>start captured events run. (continuity_lost env)\<^sup>*\<^sup>* w start \<and> env_capture env start = (Inr s, captured) \<and>
    env_drain env captured = (Inr events, w') \<and> projection_ok p \<and> set run \<subseteq> set events \<and>
    (\<forall>e \<in> set events. ev_generation e = snap_generation s \<and> ev_sequence e \<le> pj_sequence p) \<and>
    (distinct (map ev_sequence events) \<longrightarrow> run = filter (\<lambda>e. snap_sequence s < ev_sequence e) events) \<and>
    consecutive (snap_generation s, snap_sequence s) run \<and>
    projection_position p = (snap_generation s, snap_sequence s + int (length run)) \<and>
    objects_map p = fold event_effect run (objects_map (projection_from_snapshot s))"
proof -
  obtain start v events where e: "(continuity_lost env)\<^sup>*\<^sup>* w start" "env_capture env start = (Inr s, v)"
      "env_drain env v = (Inr events, w')" "projects s (fresh (snapshot_position s) events) p"
    using resnapshot_projects [OF assms] by blast
  let ?run = "fresh (snapshot_position s) events"
  have c: "consecutive (snapshot_position s) ?run" using e(4) by (simp add: projects_def)
  show ?thesis
    using e fresh_subset [of "snapshot_position s" events] fresh_covers [OF c] fresh_filter [OF c]
    by (intro exI [of _ start] exI [of _ v] exI [of _ events] exI [of _ ?run])
      (auto simp: projects_def snapshot_position_def projection_position_def)
qed

theorem snapshot_projection_witness:
  "\<exists>p w' events run. resnapshot sample_client () = Some (Inr (sample_snapshot 6 [], p), w') \<and>
     events = [sample_event 6, sample_event 7] \<and> run = filter (\<lambda>e. 6 < ev_sequence e) events \<and>
     projection_position p = (1, 6 + int (length run)) \<and>
     objects_map p = fold event_effect run (objects_map (projection_from_snapshot (sample_snapshot 6 [])))"
proof -
  obtain p where p: "resnapshot sample_client () = Some (Inr (sample_snapshot 6 [], p), ())"
    using sample_resnapshot by blast
  have drain: "env_drain sample_client w = (Inr [sample_event 6, sample_event 7], w)" for w
    by (simp add: sample_client_def)
  show ?thesis using snapshot_projection [OF p sample_client_captures] p by (force simp: drain)
qed

text \<open>
  C26. What the client holds is accounted for by what it received.  If its projection is its
  snapshot with the events \<open>run\<close> applied, then after \<open>project_next_event\<close> it is the same snapshot with
  \<open>run\<close> and the received event applied, when that event follows; nothing has changed when no event
  arrived or the runtime raised; and after an event that does not follow, the client holds a newly
  captured snapshot with the events drained right after it applied, or, if that failed, what it
  held before.
\<close>

theorem client_invariant:
  assumes "project_next_event env c w = Some (r, c', w')" "projects (client_snapshot c) run (client_projection c)"
    and "\<forall>w s. fst (env_capture env w) = Inr s \<longrightarrow> RuntimeSnapshot_ok s"
  shows "case env_next env w of
      (Inl e, v) \<Rightarrow> r = Inl e \<and> c' = c \<and> w' = v
    | (Inr None, v) \<Rightarrow> r = Inr False \<and> c' = c \<and> w' = v
    | (Inr (Some e), v) \<Rightarrow>
        if follows e (projection_position (client_projection c))
        then r = Inr True \<and> w' = v \<and> client_snapshot c' = client_snapshot c \<and>
          projects (client_snapshot c') (run @ [e]) (client_projection c')
        else (\<exists>failure. r = Inl failure \<and> c' = c \<and> resnapshot env v = Some (Inl failure, w')) \<or>
          (r = Inr True \<and> (\<exists>start captured events. (continuity_lost env)\<^sup>*\<^sup>* v start \<and>
             env_capture env start = (Inr (client_snapshot c'), captured) \<and> env_drain env captured = (Inr events, w') \<and>
             projects (client_snapshot c') (fresh (snapshot_position (client_snapshot c')) events) (client_projection c')))"
proof (cases "env_next env w")
  case (Pair x v)
  have ok: "projection_ok (client_projection c)" using assms(2) by (simp add: projects_def)
  show ?thesis
  proof (cases "\<exists>e. x = Inr (Some e)")
    case False
    then show ?thesis using assms(1) Pair by (auto simp: project_next_event_def split: sum.splits option.splits)
  next
    case True
    then obtain e where x: "x = Inr (Some e)" by blast
    show ?thesis
    proof (cases "follows e (projection_position (client_projection c))")
      case True
      then obtain p where "projection_apply e (client_projection c) = Inr p" using projection_apply_iff [OF ok] by blast
      then show ?thesis
        using assms(1) Pair x True projects_step [OF assms(2)] by (auto simp: project_next_event_def)
    next
      case False
      then obtain reason where "projection_apply e (client_projection c) =
          Inl (RuntimeContinuityError reason (pj_generation (client_projection c)) (pj_sequence (client_projection c) + 1))"
        using projection_apply_refused [OF ok] by blast
      then show ?thesis
        using assms(1) Pair x False resnapshot_projects [OF _ assms(3)]
        by (fastforce simp: project_next_event_def split: option.splits prod.splits sum.splits)
    qed
  qed
qed

theorem client_invariant_witness:
  "\<exists>c' w'. project_next_event sample_client
       \<lparr>client_snapshot = sample_snapshot 5 [], client_projection = projection_from_snapshot (sample_snapshot 5 [])\<rparr> () =
         Some (Inr True, c', w') \<and>
     client_snapshot c' = sample_snapshot 6 [] \<and>
     projects (client_snapshot c') (fresh (1, 6) [sample_event 6, sample_event 7]) (client_projection c')"
proof -
  let ?s = "sample_snapshot 5 []"
  let ?c = "\<lparr>client_snapshot = ?s, client_projection = projection_from_snapshot ?s\<rparr>"
  have ok: "projection_ok (projection_from_snapshot ?s)" "projection_position (projection_from_snapshot ?s) = (1, 5)"
    using projection_from_snapshot_ok [of ?s] by simp_all
  then have "require_event_continuity (sample_event 9) (PInt (pj_generation (projection_from_snapshot ?s)))
      (PInt (pj_sequence (projection_from_snapshot ?s))) = Inl (RuntimeContinuityError ''sequence_gap'' 1 6)"
    by (simp add: require_event_continuity_def projection_position_def val_obj)
  then have refused: "projection_apply (sample_event 9) (projection_from_snapshot ?s) =
      Inl (RuntimeContinuityError ''sequence_gap'' 1 6)"
    by (simp add: projection_apply_def)
  obtain p where "resnapshot sample_client () = Some (Inr (sample_snapshot 6 [], p), ())"
    using sample_resnapshot by blast
  then have run: "project_next_event sample_client ?c () =
      Some (Inr True, \<lparr>client_snapshot = sample_snapshot 6 [], client_projection = p\<rparr>, ())"
    using refused by (simp add: project_next_event_def sample_client_def)
  have native: "env_capture sample_client v = (Inr (sample_snapshot 6 []), v)"
    "env_drain sample_client v = (Inr [sample_event 6, sample_event 7], v)" "env_next sample_client v = (Inr (Some (sample_event 9)), v)" for v
    by (simp_all add: sample_client_def)
  have start: "projects (client_snapshot ?c) [] (client_projection ?c)" using snapshot_projects [of ?s] by simp
  have "\<not> follows (sample_event 9) (1, 5)" by (simp add: follows_def)
  with client_invariant [OF run start sample_client_captures] run ok show ?thesis
    by (simp add: native snapshot_position_def)
qed

end
