(* ===== verification/SpaTables.thy ===== *)
theory SpaTables
  imports Immutable
begin

text \<open>
  The tables of \<open>src/src/wyreplumber/_spa_pod_types.py\<close>: the SPA constants, the enumerations, the
  property specifications of each object, and the typed object classes.  Constants are given
  by their value, sums computed; those the Python code never uses are left out.
\<close>

section \<open>Constants\<close>


text \<open>Pod types\<close>

abbreviation (input) SPA_TYPE_None :: int where "SPA_TYPE_None \<equiv> 1"
abbreviation (input) SPA_TYPE_Bool :: int where "SPA_TYPE_Bool \<equiv> 2"
abbreviation (input) SPA_TYPE_Id :: int where "SPA_TYPE_Id \<equiv> 3"
abbreviation (input) SPA_TYPE_Int :: int where "SPA_TYPE_Int \<equiv> 4"
abbreviation (input) SPA_TYPE_Long :: int where "SPA_TYPE_Long \<equiv> 5"
abbreviation (input) SPA_TYPE_Float :: int where "SPA_TYPE_Float \<equiv> 6"
abbreviation (input) SPA_TYPE_Double :: int where "SPA_TYPE_Double \<equiv> 7"
abbreviation (input) SPA_TYPE_String :: int where "SPA_TYPE_String \<equiv> 8"
abbreviation (input) SPA_TYPE_Bytes :: int where "SPA_TYPE_Bytes \<equiv> 9"
abbreviation (input) SPA_TYPE_Rectangle :: int where "SPA_TYPE_Rectangle \<equiv> 10"
abbreviation (input) SPA_TYPE_Fraction :: int where "SPA_TYPE_Fraction \<equiv> 11"
abbreviation (input) SPA_TYPE_Bitmap :: int where "SPA_TYPE_Bitmap \<equiv> 12"
abbreviation (input) SPA_TYPE_Array :: int where "SPA_TYPE_Array \<equiv> 13"
abbreviation (input) SPA_TYPE_Struct :: int where "SPA_TYPE_Struct \<equiv> 14"
abbreviation (input) SPA_TYPE_Object :: int where "SPA_TYPE_Object \<equiv> 15"
abbreviation (input) SPA_TYPE_Sequence :: int where "SPA_TYPE_Sequence \<equiv> 16"
abbreviation (input) SPA_TYPE_Pointer :: int where "SPA_TYPE_Pointer \<equiv> 17"
abbreviation (input) SPA_TYPE_Fd :: int where "SPA_TYPE_Fd \<equiv> 18"
abbreviation (input) SPA_TYPE_Choice :: int where "SPA_TYPE_Choice \<equiv> 19"
abbreviation (input) SPA_TYPE_Pod :: int where "SPA_TYPE_Pod \<equiv> 20"

text \<open>Choice types\<close>

abbreviation (input) SPA_CHOICE_None :: int where "SPA_CHOICE_None \<equiv> 0"
abbreviation (input) SPA_CHOICE_Range :: int where "SPA_CHOICE_Range \<equiv> 1"
abbreviation (input) SPA_CHOICE_Step :: int where "SPA_CHOICE_Step \<equiv> 2"
abbreviation (input) SPA_CHOICE_Enum :: int where "SPA_CHOICE_Enum \<equiv> 3"
abbreviation (input) SPA_CHOICE_Flags :: int where "SPA_CHOICE_Flags \<equiv> 4"

text \<open>Object types\<close>

abbreviation (input) SPA_TYPE_OBJECT_PropInfo :: int where "SPA_TYPE_OBJECT_PropInfo \<equiv> 262145"
abbreviation (input) SPA_TYPE_OBJECT_Props :: int where "SPA_TYPE_OBJECT_Props \<equiv> 262146"
abbreviation (input) SPA_TYPE_OBJECT_Format :: int where "SPA_TYPE_OBJECT_Format \<equiv> 262147"
abbreviation (input) SPA_TYPE_OBJECT_ParamBuffers :: int where "SPA_TYPE_OBJECT_ParamBuffers \<equiv> 262148"
abbreviation (input) SPA_TYPE_OBJECT_ParamMeta :: int where "SPA_TYPE_OBJECT_ParamMeta \<equiv> 262149"
abbreviation (input) SPA_TYPE_OBJECT_ParamIO :: int where "SPA_TYPE_OBJECT_ParamIO \<equiv> 262150"
abbreviation (input) SPA_TYPE_OBJECT_ParamProfile :: int where "SPA_TYPE_OBJECT_ParamProfile \<equiv> 262151"
abbreviation (input) SPA_TYPE_OBJECT_ParamPortConfig :: int where "SPA_TYPE_OBJECT_ParamPortConfig \<equiv> 262152"
abbreviation (input) SPA_TYPE_OBJECT_ParamRoute :: int where "SPA_TYPE_OBJECT_ParamRoute \<equiv> 262153"
abbreviation (input) SPA_TYPE_OBJECT_Profiler :: int where "SPA_TYPE_OBJECT_Profiler \<equiv> 262154"
abbreviation (input) SPA_TYPE_OBJECT_ParamLatency :: int where "SPA_TYPE_OBJECT_ParamLatency \<equiv> 262155"
abbreviation (input) SPA_TYPE_OBJECT_ParamProcessLatency :: int where "SPA_TYPE_OBJECT_ParamProcessLatency \<equiv> 262156"
abbreviation (input) SPA_TYPE_OBJECT_ParamTag :: int where "SPA_TYPE_OBJECT_ParamTag \<equiv> 262157"
abbreviation (input) SPA_TYPE_OBJECT_ParamDict :: int where "SPA_TYPE_OBJECT_ParamDict \<equiv> 262158"
abbreviation (input) SPA_TYPE_OBJECT_PeerParam :: int where "SPA_TYPE_OBJECT_PeerParam \<equiv> 262159"

text \<open>Directions\<close>

abbreviation (input) SPA_DIRECTION_INPUT :: int where "SPA_DIRECTION_INPUT \<equiv> 0"
abbreviation (input) SPA_DIRECTION_OUTPUT :: int where "SPA_DIRECTION_OUTPUT \<equiv> 1"

text \<open>Parameters\<close>

abbreviation (input) SPA_PARAM_Invalid :: int where "SPA_PARAM_Invalid \<equiv> 0"
abbreviation (input) SPA_PARAM_PropInfo :: int where "SPA_PARAM_PropInfo \<equiv> 1"
abbreviation (input) SPA_PARAM_Props :: int where "SPA_PARAM_Props \<equiv> 2"
abbreviation (input) SPA_PARAM_EnumFormat :: int where "SPA_PARAM_EnumFormat \<equiv> 3"
abbreviation (input) SPA_PARAM_Format :: int where "SPA_PARAM_Format \<equiv> 4"
abbreviation (input) SPA_PARAM_Buffers :: int where "SPA_PARAM_Buffers \<equiv> 5"
abbreviation (input) SPA_PARAM_Meta :: int where "SPA_PARAM_Meta \<equiv> 6"
abbreviation (input) SPA_PARAM_IO :: int where "SPA_PARAM_IO \<equiv> 7"
abbreviation (input) SPA_PARAM_EnumProfile :: int where "SPA_PARAM_EnumProfile \<equiv> 8"
abbreviation (input) SPA_PARAM_Profile :: int where "SPA_PARAM_Profile \<equiv> 9"
abbreviation (input) SPA_PARAM_EnumPortConfig :: int where "SPA_PARAM_EnumPortConfig \<equiv> 10"
abbreviation (input) SPA_PARAM_PortConfig :: int where "SPA_PARAM_PortConfig \<equiv> 11"
abbreviation (input) SPA_PARAM_EnumRoute :: int where "SPA_PARAM_EnumRoute \<equiv> 12"
abbreviation (input) SPA_PARAM_Route :: int where "SPA_PARAM_Route \<equiv> 13"
abbreviation (input) SPA_PARAM_Latency :: int where "SPA_PARAM_Latency \<equiv> 15"
abbreviation (input) SPA_PARAM_ProcessLatency :: int where "SPA_PARAM_ProcessLatency \<equiv> 16"
abbreviation (input) SPA_PARAM_Tag :: int where "SPA_PARAM_Tag \<equiv> 17"
abbreviation (input) SPA_PARAM_PeerEnumFormat :: int where "SPA_PARAM_PeerEnumFormat \<equiv> 18"
abbreviation (input) SPA_PARAM_Capability :: int where "SPA_PARAM_Capability \<equiv> 19"
abbreviation (input) SPA_PARAM_PeerCapability :: int where "SPA_PARAM_PeerCapability \<equiv> 20"

text \<open>Media types\<close>

abbreviation (input) SPA_MEDIA_TYPE_unknown :: int where "SPA_MEDIA_TYPE_unknown \<equiv> 0"
abbreviation (input) SPA_MEDIA_TYPE_audio :: int where "SPA_MEDIA_TYPE_audio \<equiv> 1"
abbreviation (input) SPA_MEDIA_TYPE_video :: int where "SPA_MEDIA_TYPE_video \<equiv> 2"
abbreviation (input) SPA_MEDIA_TYPE_image :: int where "SPA_MEDIA_TYPE_image \<equiv> 3"
abbreviation (input) SPA_MEDIA_TYPE_binary :: int where "SPA_MEDIA_TYPE_binary \<equiv> 4"
abbreviation (input) SPA_MEDIA_TYPE_stream :: int where "SPA_MEDIA_TYPE_stream \<equiv> 5"
abbreviation (input) SPA_MEDIA_TYPE_application :: int where "SPA_MEDIA_TYPE_application \<equiv> 6"

text \<open>Media subtypes\<close>

abbreviation (input) SPA_MEDIA_SUBTYPE_unknown :: int where "SPA_MEDIA_SUBTYPE_unknown \<equiv> 0"
abbreviation (input) SPA_MEDIA_SUBTYPE_raw :: int where "SPA_MEDIA_SUBTYPE_raw \<equiv> 1"
abbreviation (input) SPA_MEDIA_SUBTYPE_dsp :: int where "SPA_MEDIA_SUBTYPE_dsp \<equiv> 2"
abbreviation (input) SPA_MEDIA_SUBTYPE_iec958 :: int where "SPA_MEDIA_SUBTYPE_iec958 \<equiv> 3"
abbreviation (input) SPA_MEDIA_SUBTYPE_dsd :: int where "SPA_MEDIA_SUBTYPE_dsd \<equiv> 4"
abbreviation (input) SPA_MEDIA_SUBTYPE_mp3 :: int where "SPA_MEDIA_SUBTYPE_mp3 \<equiv> 5"
abbreviation (input) SPA_MEDIA_SUBTYPE_aac :: int where "SPA_MEDIA_SUBTYPE_aac \<equiv> 6"
abbreviation (input) SPA_MEDIA_SUBTYPE_vorbis :: int where "SPA_MEDIA_SUBTYPE_vorbis \<equiv> 7"
abbreviation (input) SPA_MEDIA_SUBTYPE_wma :: int where "SPA_MEDIA_SUBTYPE_wma \<equiv> 8"
abbreviation (input) SPA_MEDIA_SUBTYPE_ra :: int where "SPA_MEDIA_SUBTYPE_ra \<equiv> 9"
abbreviation (input) SPA_MEDIA_SUBTYPE_sbc :: int where "SPA_MEDIA_SUBTYPE_sbc \<equiv> 10"
abbreviation (input) SPA_MEDIA_SUBTYPE_adpcm :: int where "SPA_MEDIA_SUBTYPE_adpcm \<equiv> 11"
abbreviation (input) SPA_MEDIA_SUBTYPE_g723 :: int where "SPA_MEDIA_SUBTYPE_g723 \<equiv> 12"
abbreviation (input) SPA_MEDIA_SUBTYPE_g726 :: int where "SPA_MEDIA_SUBTYPE_g726 \<equiv> 13"
abbreviation (input) SPA_MEDIA_SUBTYPE_g729 :: int where "SPA_MEDIA_SUBTYPE_g729 \<equiv> 14"
abbreviation (input) SPA_MEDIA_SUBTYPE_amr :: int where "SPA_MEDIA_SUBTYPE_amr \<equiv> 15"
abbreviation (input) SPA_MEDIA_SUBTYPE_gsm :: int where "SPA_MEDIA_SUBTYPE_gsm \<equiv> 16"
abbreviation (input) SPA_MEDIA_SUBTYPE_alac :: int where "SPA_MEDIA_SUBTYPE_alac \<equiv> 17"
abbreviation (input) SPA_MEDIA_SUBTYPE_flac :: int where "SPA_MEDIA_SUBTYPE_flac \<equiv> 18"
abbreviation (input) SPA_MEDIA_SUBTYPE_ape :: int where "SPA_MEDIA_SUBTYPE_ape \<equiv> 19"
abbreviation (input) SPA_MEDIA_SUBTYPE_opus :: int where "SPA_MEDIA_SUBTYPE_opus \<equiv> 20"
abbreviation (input) SPA_MEDIA_SUBTYPE_midi :: int where "SPA_MEDIA_SUBTYPE_midi \<equiv> 21"
abbreviation (input) SPA_MEDIA_SUBTYPE_control :: int where "SPA_MEDIA_SUBTYPE_control \<equiv> 22"
abbreviation (input) SPA_MEDIA_SUBTYPE_mpegts :: int where "SPA_MEDIA_SUBTYPE_mpegts \<equiv> 23"
abbreviation (input) SPA_MEDIA_SUBTYPE_h264 :: int where "SPA_MEDIA_SUBTYPE_h264 \<equiv> 24"
abbreviation (input) SPA_MEDIA_SUBTYPE_mjpg :: int where "SPA_MEDIA_SUBTYPE_mjpg \<equiv> 25"
abbreviation (input) SPA_MEDIA_SUBTYPE_dv :: int where "SPA_MEDIA_SUBTYPE_dv \<equiv> 26"
abbreviation (input) SPA_MEDIA_SUBTYPE_mpeg1 :: int where "SPA_MEDIA_SUBTYPE_mpeg1 \<equiv> 27"
abbreviation (input) SPA_MEDIA_SUBTYPE_mpeg2 :: int where "SPA_MEDIA_SUBTYPE_mpeg2 \<equiv> 28"
abbreviation (input) SPA_MEDIA_SUBTYPE_mpeg4 :: int where "SPA_MEDIA_SUBTYPE_mpeg4 \<equiv> 29"
abbreviation (input) SPA_MEDIA_SUBTYPE_xvid :: int where "SPA_MEDIA_SUBTYPE_xvid \<equiv> 30"
abbreviation (input) SPA_MEDIA_SUBTYPE_vc1 :: int where "SPA_MEDIA_SUBTYPE_vc1 \<equiv> 31"
abbreviation (input) SPA_MEDIA_SUBTYPE_vp8 :: int where "SPA_MEDIA_SUBTYPE_vp8 \<equiv> 32"
abbreviation (input) SPA_MEDIA_SUBTYPE_vp9 :: int where "SPA_MEDIA_SUBTYPE_vp9 \<equiv> 33"
abbreviation (input) SPA_MEDIA_SUBTYPE_bayer :: int where "SPA_MEDIA_SUBTYPE_bayer \<equiv> 34"
abbreviation (input) SPA_MEDIA_SUBTYPE_jpeg :: int where "SPA_MEDIA_SUBTYPE_jpeg \<equiv> 35"
abbreviation (input) SPA_MEDIA_SUBTYPE_svg :: int where "SPA_MEDIA_SUBTYPE_svg \<equiv> 36"
abbreviation (input) SPA_MEDIA_SUBTYPE_rar :: int where "SPA_MEDIA_SUBTYPE_rar \<equiv> 37"
abbreviation (input) SPA_MEDIA_SUBTYPE_swf :: int where "SPA_MEDIA_SUBTYPE_swf \<equiv> 38"
abbreviation (input) SPA_MEDIA_SUBTYPE_binhex :: int where "SPA_MEDIA_SUBTYPE_binhex \<equiv> 39"
abbreviation (input) SPA_MEDIA_SUBTYPE_font_ttf :: int where "SPA_MEDIA_SUBTYPE_font_ttf \<equiv> 40"
abbreviation (input) SPA_MEDIA_SUBTYPE_font_type1 :: int where "SPA_MEDIA_SUBTYPE_font_type1 \<equiv> 41"
abbreviation (input) SPA_MEDIA_SUBTYPE_archive :: int where "SPA_MEDIA_SUBTYPE_archive \<equiv> 42"
abbreviation (input) SPA_MEDIA_SUBTYPE_3gpp :: int where "SPA_MEDIA_SUBTYPE_3gpp \<equiv> 43"
abbreviation (input) SPA_MEDIA_SUBTYPE_quicktime :: int where "SPA_MEDIA_SUBTYPE_quicktime \<equiv> 44"
abbreviation (input) SPA_MEDIA_SUBTYPE_webm :: int where "SPA_MEDIA_SUBTYPE_webm \<equiv> 45"
abbreviation (input) SPA_MEDIA_SUBTYPE_riff :: int where "SPA_MEDIA_SUBTYPE_riff \<equiv> 46"
abbreviation (input) SPA_MEDIA_SUBTYPE_smil :: int where "SPA_MEDIA_SUBTYPE_smil \<equiv> 47"
abbreviation (input) SPA_MEDIA_SUBTYPE_wm :: int where "SPA_MEDIA_SUBTYPE_wm \<equiv> 48"
abbreviation (input) SPA_MEDIA_SUBTYPE_h265 :: int where "SPA_MEDIA_SUBTYPE_h265 \<equiv> 49"
abbreviation (input) SPA_MEDIA_SUBTYPE_av1 :: int where "SPA_MEDIA_SUBTYPE_av1 \<equiv> 50"
abbreviation (input) SPA_MEDIA_SUBTYPE_transport :: int where "SPA_MEDIA_SUBTYPE_transport \<equiv> 51"
abbreviation (input) SPA_MEDIA_SUBTYPE_json :: int where "SPA_MEDIA_SUBTYPE_json \<equiv> 52"

text \<open>Port configuration modes\<close>

abbreviation (input) SPA_PARAM_PORT_CONFIG_MODE_none :: int where "SPA_PARAM_PORT_CONFIG_MODE_none \<equiv> 0"
abbreviation (input) SPA_PARAM_PORT_CONFIG_MODE_passthrough :: int where "SPA_PARAM_PORT_CONFIG_MODE_passthrough \<equiv> 1"
abbreviation (input) SPA_PARAM_PORT_CONFIG_MODE_convert :: int where "SPA_PARAM_PORT_CONFIG_MODE_convert \<equiv> 2"
abbreviation (input) SPA_PARAM_PORT_CONFIG_MODE_dsp :: int where "SPA_PARAM_PORT_CONFIG_MODE_dsp \<equiv> 3"

text \<open>Availability\<close>

abbreviation (input) SPA_PARAM_AVAILABILITY_unknown :: int where "SPA_PARAM_AVAILABILITY_unknown \<equiv> 0"
abbreviation (input) SPA_PARAM_AVAILABILITY_no :: int where "SPA_PARAM_AVAILABILITY_no \<equiv> 1"
abbreviation (input) SPA_PARAM_AVAILABILITY_yes :: int where "SPA_PARAM_AVAILABILITY_yes \<equiv> 2"

text \<open>Bit orders\<close>

abbreviation (input) SPA_PARAM_BITORDER_unknown :: int where "SPA_PARAM_BITORDER_unknown \<equiv> 0"
abbreviation (input) SPA_PARAM_BITORDER_msb :: int where "SPA_PARAM_BITORDER_msb \<equiv> 1"
abbreviation (input) SPA_PARAM_BITORDER_lsb :: int where "SPA_PARAM_BITORDER_lsb \<equiv> 2"

text \<open>Keys of PropInfo\<close>

abbreviation (input) SPA_PROP_INFO_id :: int where "SPA_PROP_INFO_id \<equiv> 1"
abbreviation (input) SPA_PROP_INFO_name :: int where "SPA_PROP_INFO_name \<equiv> 2"
abbreviation (input) SPA_PROP_INFO_type :: int where "SPA_PROP_INFO_type \<equiv> 3"
abbreviation (input) SPA_PROP_INFO_labels :: int where "SPA_PROP_INFO_labels \<equiv> 4"
abbreviation (input) SPA_PROP_INFO_container :: int where "SPA_PROP_INFO_container \<equiv> 5"
abbreviation (input) SPA_PROP_INFO_params :: int where "SPA_PROP_INFO_params \<equiv> 6"
abbreviation (input) SPA_PROP_INFO_description :: int where "SPA_PROP_INFO_description \<equiv> 7"

text \<open>Keys of Props\<close>

abbreviation (input) SPA_PROP_unknown :: int where "SPA_PROP_unknown \<equiv> 1"
abbreviation (input) SPA_PROP_device :: int where "SPA_PROP_device \<equiv> 257"
abbreviation (input) SPA_PROP_deviceName :: int where "SPA_PROP_deviceName \<equiv> 258"
abbreviation (input) SPA_PROP_deviceFd :: int where "SPA_PROP_deviceFd \<equiv> 259"
abbreviation (input) SPA_PROP_card :: int where "SPA_PROP_card \<equiv> 260"
abbreviation (input) SPA_PROP_cardName :: int where "SPA_PROP_cardName \<equiv> 261"
abbreviation (input) SPA_PROP_minLatency :: int where "SPA_PROP_minLatency \<equiv> 262"
abbreviation (input) SPA_PROP_maxLatency :: int where "SPA_PROP_maxLatency \<equiv> 263"
abbreviation (input) SPA_PROP_periods :: int where "SPA_PROP_periods \<equiv> 264"
abbreviation (input) SPA_PROP_periodSize :: int where "SPA_PROP_periodSize \<equiv> 265"
abbreviation (input) SPA_PROP_periodEvent :: int where "SPA_PROP_periodEvent \<equiv> 266"
abbreviation (input) SPA_PROP_live :: int where "SPA_PROP_live \<equiv> 267"
abbreviation (input) SPA_PROP_rate :: int where "SPA_PROP_rate \<equiv> 268"
abbreviation (input) SPA_PROP_quality :: int where "SPA_PROP_quality \<equiv> 269"
abbreviation (input) SPA_PROP_bluetoothAudioCodec :: int where "SPA_PROP_bluetoothAudioCodec \<equiv> 270"
abbreviation (input) SPA_PROP_bluetoothOffloadActive :: int where "SPA_PROP_bluetoothOffloadActive \<equiv> 271"
abbreviation (input) SPA_PROP_clockId :: int where "SPA_PROP_clockId \<equiv> 273"
abbreviation (input) SPA_PROP_clockName :: int where "SPA_PROP_clockName \<equiv> 274"
abbreviation (input) SPA_PROP_clockQuantumLimit :: int where "SPA_PROP_clockQuantumLimit \<equiv> 275"
abbreviation (input) SPA_PROP_clockMinQuantum :: int where "SPA_PROP_clockMinQuantum \<equiv> 276"
abbreviation (input) SPA_PROP_clockMaxQuantum :: int where "SPA_PROP_clockMaxQuantum \<equiv> 277"
abbreviation (input) SPA_PROP_clockRate :: int where "SPA_PROP_clockRate \<equiv> 278"
abbreviation (input) SPA_PROP_clockAllowedRates :: int where "SPA_PROP_clockAllowedRates \<equiv> 279"
abbreviation (input) SPA_PROP_clockForceRates :: int where "SPA_PROP_clockForceRates \<equiv> 280"
abbreviation (input) SPA_PROP_waveType :: int where "SPA_PROP_waveType \<equiv> 65537"
abbreviation (input) SPA_PROP_frequency :: int where "SPA_PROP_frequency \<equiv> 65538"
abbreviation (input) SPA_PROP_volume :: int where "SPA_PROP_volume \<equiv> 65539"
abbreviation (input) SPA_PROP_mute :: int where "SPA_PROP_mute \<equiv> 65540"
abbreviation (input) SPA_PROP_patternType :: int where "SPA_PROP_patternType \<equiv> 65541"
abbreviation (input) SPA_PROP_ditherType :: int where "SPA_PROP_ditherType \<equiv> 65542"
abbreviation (input) SPA_PROP_truncate :: int where "SPA_PROP_truncate \<equiv> 65543"
abbreviation (input) SPA_PROP_channelVolumes :: int where "SPA_PROP_channelVolumes \<equiv> 65544"
abbreviation (input) SPA_PROP_volumeBase :: int where "SPA_PROP_volumeBase \<equiv> 65545"
abbreviation (input) SPA_PROP_volumeStep :: int where "SPA_PROP_volumeStep \<equiv> 65546"
abbreviation (input) SPA_PROP_channelMap :: int where "SPA_PROP_channelMap \<equiv> 65547"
abbreviation (input) SPA_PROP_monitorMute :: int where "SPA_PROP_monitorMute \<equiv> 65548"
abbreviation (input) SPA_PROP_monitorVolumes :: int where "SPA_PROP_monitorVolumes \<equiv> 65549"
abbreviation (input) SPA_PROP_latencyOffsetNsec :: int where "SPA_PROP_latencyOffsetNsec \<equiv> 65550"
abbreviation (input) SPA_PROP_softMute :: int where "SPA_PROP_softMute \<equiv> 65551"
abbreviation (input) SPA_PROP_softVolumes :: int where "SPA_PROP_softVolumes \<equiv> 65552"
abbreviation (input) SPA_PROP_iec958Codecs :: int where "SPA_PROP_iec958Codecs \<equiv> 65553"
abbreviation (input) SPA_PROP_volumeRampSamples :: int where "SPA_PROP_volumeRampSamples \<equiv> 65554"
abbreviation (input) SPA_PROP_volumeRampStepSamples :: int where "SPA_PROP_volumeRampStepSamples \<equiv> 65555"
abbreviation (input) SPA_PROP_volumeRampTime :: int where "SPA_PROP_volumeRampTime \<equiv> 65556"
abbreviation (input) SPA_PROP_volumeRampStepTime :: int where "SPA_PROP_volumeRampStepTime \<equiv> 65557"
abbreviation (input) SPA_PROP_volumeRampScale :: int where "SPA_PROP_volumeRampScale \<equiv> 65558"
abbreviation (input) SPA_PROP_brightness :: int where "SPA_PROP_brightness \<equiv> 131073"
abbreviation (input) SPA_PROP_contrast :: int where "SPA_PROP_contrast \<equiv> 131074"
abbreviation (input) SPA_PROP_saturation :: int where "SPA_PROP_saturation \<equiv> 131075"
abbreviation (input) SPA_PROP_hue :: int where "SPA_PROP_hue \<equiv> 131076"
abbreviation (input) SPA_PROP_gamma :: int where "SPA_PROP_gamma \<equiv> 131077"
abbreviation (input) SPA_PROP_exposure :: int where "SPA_PROP_exposure \<equiv> 131078"
abbreviation (input) SPA_PROP_gain :: int where "SPA_PROP_gain \<equiv> 131079"
abbreviation (input) SPA_PROP_sharpness :: int where "SPA_PROP_sharpness \<equiv> 131080"
abbreviation (input) SPA_PROP_params :: int where "SPA_PROP_params \<equiv> 524289"

text \<open>Keys of Format\<close>

abbreviation (input) SPA_FORMAT_mediaType :: int where "SPA_FORMAT_mediaType \<equiv> 1"
abbreviation (input) SPA_FORMAT_mediaSubtype :: int where "SPA_FORMAT_mediaSubtype \<equiv> 2"
abbreviation (input) SPA_FORMAT_AUDIO_format :: int where "SPA_FORMAT_AUDIO_format \<equiv> 65537"
abbreviation (input) SPA_FORMAT_AUDIO_flags :: int where "SPA_FORMAT_AUDIO_flags \<equiv> 65538"
abbreviation (input) SPA_FORMAT_AUDIO_rate :: int where "SPA_FORMAT_AUDIO_rate \<equiv> 65539"
abbreviation (input) SPA_FORMAT_AUDIO_channels :: int where "SPA_FORMAT_AUDIO_channels \<equiv> 65540"
abbreviation (input) SPA_FORMAT_AUDIO_position :: int where "SPA_FORMAT_AUDIO_position \<equiv> 65541"
abbreviation (input) SPA_FORMAT_AUDIO_iec958Codec :: int where "SPA_FORMAT_AUDIO_iec958Codec \<equiv> 65542"
abbreviation (input) SPA_FORMAT_AUDIO_bitorder :: int where "SPA_FORMAT_AUDIO_bitorder \<equiv> 65543"
abbreviation (input) SPA_FORMAT_AUDIO_interleave :: int where "SPA_FORMAT_AUDIO_interleave \<equiv> 65544"
abbreviation (input) SPA_FORMAT_AUDIO_bitrate :: int where "SPA_FORMAT_AUDIO_bitrate \<equiv> 65545"
abbreviation (input) SPA_FORMAT_AUDIO_blockAlign :: int where "SPA_FORMAT_AUDIO_blockAlign \<equiv> 65546"
abbreviation (input) SPA_FORMAT_AUDIO_AAC_streamFormat :: int where "SPA_FORMAT_AUDIO_AAC_streamFormat \<equiv> 65547"
abbreviation (input) SPA_FORMAT_AUDIO_WMA_profile :: int where "SPA_FORMAT_AUDIO_WMA_profile \<equiv> 65548"
abbreviation (input) SPA_FORMAT_AUDIO_AMR_bandMode :: int where "SPA_FORMAT_AUDIO_AMR_bandMode \<equiv> 65549"
abbreviation (input) SPA_FORMAT_AUDIO_MP3_channelMode :: int where "SPA_FORMAT_AUDIO_MP3_channelMode \<equiv> 65550"
abbreviation (input) SPA_FORMAT_AUDIO_DTS_extType :: int where "SPA_FORMAT_AUDIO_DTS_extType \<equiv> 65551"
abbreviation (input) SPA_FORMAT_VIDEO_format :: int where "SPA_FORMAT_VIDEO_format \<equiv> 131073"
abbreviation (input) SPA_FORMAT_VIDEO_modifier :: int where "SPA_FORMAT_VIDEO_modifier \<equiv> 131074"
abbreviation (input) SPA_FORMAT_VIDEO_size :: int where "SPA_FORMAT_VIDEO_size \<equiv> 131075"
abbreviation (input) SPA_FORMAT_VIDEO_framerate :: int where "SPA_FORMAT_VIDEO_framerate \<equiv> 131076"
abbreviation (input) SPA_FORMAT_VIDEO_maxFramerate :: int where "SPA_FORMAT_VIDEO_maxFramerate \<equiv> 131077"
abbreviation (input) SPA_FORMAT_VIDEO_views :: int where "SPA_FORMAT_VIDEO_views \<equiv> 131078"
abbreviation (input) SPA_FORMAT_VIDEO_interlaceMode :: int where "SPA_FORMAT_VIDEO_interlaceMode \<equiv> 131079"
abbreviation (input) SPA_FORMAT_VIDEO_pixelAspectRatio :: int where "SPA_FORMAT_VIDEO_pixelAspectRatio \<equiv> 131080"
abbreviation (input) SPA_FORMAT_VIDEO_multiviewMode :: int where "SPA_FORMAT_VIDEO_multiviewMode \<equiv> 131081"
abbreviation (input) SPA_FORMAT_VIDEO_multiviewFlags :: int where "SPA_FORMAT_VIDEO_multiviewFlags \<equiv> 131082"
abbreviation (input) SPA_FORMAT_VIDEO_chromaSite :: int where "SPA_FORMAT_VIDEO_chromaSite \<equiv> 131083"
abbreviation (input) SPA_FORMAT_VIDEO_colorRange :: int where "SPA_FORMAT_VIDEO_colorRange \<equiv> 131084"
abbreviation (input) SPA_FORMAT_VIDEO_colorMatrix :: int where "SPA_FORMAT_VIDEO_colorMatrix \<equiv> 131085"
abbreviation (input) SPA_FORMAT_VIDEO_transferFunction :: int where "SPA_FORMAT_VIDEO_transferFunction \<equiv> 131086"
abbreviation (input) SPA_FORMAT_VIDEO_colorPrimaries :: int where "SPA_FORMAT_VIDEO_colorPrimaries \<equiv> 131087"
abbreviation (input) SPA_FORMAT_VIDEO_profile :: int where "SPA_FORMAT_VIDEO_profile \<equiv> 131088"
abbreviation (input) SPA_FORMAT_VIDEO_level :: int where "SPA_FORMAT_VIDEO_level \<equiv> 131089"
abbreviation (input) SPA_FORMAT_VIDEO_H264_streamFormat :: int where "SPA_FORMAT_VIDEO_H264_streamFormat \<equiv> 131090"
abbreviation (input) SPA_FORMAT_VIDEO_H264_alignment :: int where "SPA_FORMAT_VIDEO_H264_alignment \<equiv> 131091"
abbreviation (input) SPA_FORMAT_VIDEO_H265_streamFormat :: int where "SPA_FORMAT_VIDEO_H265_streamFormat \<equiv> 131092"
abbreviation (input) SPA_FORMAT_VIDEO_H265_alignment :: int where "SPA_FORMAT_VIDEO_H265_alignment \<equiv> 131093"
abbreviation (input) SPA_FORMAT_VIDEO_deviceId :: int where "SPA_FORMAT_VIDEO_deviceId \<equiv> 131094"
abbreviation (input) SPA_FORMAT_CONTROL_types :: int where "SPA_FORMAT_CONTROL_types \<equiv> 393217"

text \<open>Keys of the other objects\<close>

abbreviation (input) SPA_PARAM_BUFFERS_buffers :: int where "SPA_PARAM_BUFFERS_buffers \<equiv> 1"
abbreviation (input) SPA_PARAM_BUFFERS_blocks :: int where "SPA_PARAM_BUFFERS_blocks \<equiv> 2"
abbreviation (input) SPA_PARAM_BUFFERS_size :: int where "SPA_PARAM_BUFFERS_size \<equiv> 3"
abbreviation (input) SPA_PARAM_BUFFERS_stride :: int where "SPA_PARAM_BUFFERS_stride \<equiv> 4"
abbreviation (input) SPA_PARAM_BUFFERS_align :: int where "SPA_PARAM_BUFFERS_align \<equiv> 5"
abbreviation (input) SPA_PARAM_BUFFERS_dataType :: int where "SPA_PARAM_BUFFERS_dataType \<equiv> 6"
abbreviation (input) SPA_PARAM_BUFFERS_metaType :: int where "SPA_PARAM_BUFFERS_metaType \<equiv> 7"
abbreviation (input) SPA_PARAM_META_type :: int where "SPA_PARAM_META_type \<equiv> 1"
abbreviation (input) SPA_PARAM_META_size :: int where "SPA_PARAM_META_size \<equiv> 2"
abbreviation (input) SPA_PARAM_META_features :: int where "SPA_PARAM_META_features \<equiv> 3"
abbreviation (input) SPA_PARAM_IO_id :: int where "SPA_PARAM_IO_id \<equiv> 1"
abbreviation (input) SPA_PARAM_IO_size :: int where "SPA_PARAM_IO_size \<equiv> 2"
abbreviation (input) SPA_PARAM_PROFILE_index :: int where "SPA_PARAM_PROFILE_index \<equiv> 1"
abbreviation (input) SPA_PARAM_PROFILE_name :: int where "SPA_PARAM_PROFILE_name \<equiv> 2"
abbreviation (input) SPA_PARAM_PROFILE_description :: int where "SPA_PARAM_PROFILE_description \<equiv> 3"
abbreviation (input) SPA_PARAM_PROFILE_priority :: int where "SPA_PARAM_PROFILE_priority \<equiv> 4"
abbreviation (input) SPA_PARAM_PROFILE_available :: int where "SPA_PARAM_PROFILE_available \<equiv> 5"
abbreviation (input) SPA_PARAM_PROFILE_info :: int where "SPA_PARAM_PROFILE_info \<equiv> 6"
abbreviation (input) SPA_PARAM_PROFILE_classes :: int where "SPA_PARAM_PROFILE_classes \<equiv> 7"
abbreviation (input) SPA_PARAM_PROFILE_save :: int where "SPA_PARAM_PROFILE_save \<equiv> 8"
abbreviation (input) SPA_PARAM_PORT_CONFIG_direction :: int where "SPA_PARAM_PORT_CONFIG_direction \<equiv> 1"
abbreviation (input) SPA_PARAM_PORT_CONFIG_mode :: int where "SPA_PARAM_PORT_CONFIG_mode \<equiv> 2"
abbreviation (input) SPA_PARAM_PORT_CONFIG_monitor :: int where "SPA_PARAM_PORT_CONFIG_monitor \<equiv> 3"
abbreviation (input) SPA_PARAM_PORT_CONFIG_control :: int where "SPA_PARAM_PORT_CONFIG_control \<equiv> 4"
abbreviation (input) SPA_PARAM_PORT_CONFIG_format :: int where "SPA_PARAM_PORT_CONFIG_format \<equiv> 5"
abbreviation (input) SPA_PARAM_ROUTE_index :: int where "SPA_PARAM_ROUTE_index \<equiv> 1"
abbreviation (input) SPA_PARAM_ROUTE_direction :: int where "SPA_PARAM_ROUTE_direction \<equiv> 2"
abbreviation (input) SPA_PARAM_ROUTE_device :: int where "SPA_PARAM_ROUTE_device \<equiv> 3"
abbreviation (input) SPA_PARAM_ROUTE_name :: int where "SPA_PARAM_ROUTE_name \<equiv> 4"
abbreviation (input) SPA_PARAM_ROUTE_description :: int where "SPA_PARAM_ROUTE_description \<equiv> 5"
abbreviation (input) SPA_PARAM_ROUTE_priority :: int where "SPA_PARAM_ROUTE_priority \<equiv> 6"
abbreviation (input) SPA_PARAM_ROUTE_available :: int where "SPA_PARAM_ROUTE_available \<equiv> 7"
abbreviation (input) SPA_PARAM_ROUTE_info :: int where "SPA_PARAM_ROUTE_info \<equiv> 8"
abbreviation (input) SPA_PARAM_ROUTE_profiles :: int where "SPA_PARAM_ROUTE_profiles \<equiv> 9"
abbreviation (input) SPA_PARAM_ROUTE_props :: int where "SPA_PARAM_ROUTE_props \<equiv> 10"
abbreviation (input) SPA_PARAM_ROUTE_devices :: int where "SPA_PARAM_ROUTE_devices \<equiv> 11"
abbreviation (input) SPA_PARAM_ROUTE_profile :: int where "SPA_PARAM_ROUTE_profile \<equiv> 12"
abbreviation (input) SPA_PARAM_ROUTE_save :: int where "SPA_PARAM_ROUTE_save \<equiv> 13"
abbreviation (input) SPA_PARAM_LATENCY_direction :: int where "SPA_PARAM_LATENCY_direction \<equiv> 1"
abbreviation (input) SPA_PARAM_LATENCY_minQuantum :: int where "SPA_PARAM_LATENCY_minQuantum \<equiv> 2"
abbreviation (input) SPA_PARAM_LATENCY_maxQuantum :: int where "SPA_PARAM_LATENCY_maxQuantum \<equiv> 3"
abbreviation (input) SPA_PARAM_LATENCY_minRate :: int where "SPA_PARAM_LATENCY_minRate \<equiv> 4"
abbreviation (input) SPA_PARAM_LATENCY_maxRate :: int where "SPA_PARAM_LATENCY_maxRate \<equiv> 5"
abbreviation (input) SPA_PARAM_LATENCY_minNs :: int where "SPA_PARAM_LATENCY_minNs \<equiv> 6"
abbreviation (input) SPA_PARAM_LATENCY_maxNs :: int where "SPA_PARAM_LATENCY_maxNs \<equiv> 7"
abbreviation (input) SPA_PARAM_PROCESS_LATENCY_quantum :: int where "SPA_PARAM_PROCESS_LATENCY_quantum \<equiv> 1"
abbreviation (input) SPA_PARAM_PROCESS_LATENCY_rate :: int where "SPA_PARAM_PROCESS_LATENCY_rate \<equiv> 2"
abbreviation (input) SPA_PARAM_PROCESS_LATENCY_ns :: int where "SPA_PARAM_PROCESS_LATENCY_ns \<equiv> 3"
abbreviation (input) SPA_PARAM_TAG_direction :: int where "SPA_PARAM_TAG_direction \<equiv> 1"
abbreviation (input) SPA_PARAM_TAG_info :: int where "SPA_PARAM_TAG_info \<equiv> 2"
abbreviation (input) SPA_PARAM_DICT_info :: int where "SPA_PARAM_DICT_info \<equiv> 1"

section \<open>Enumerations\<close>

text \<open>
  An \<open>IntEnum\<close>: its name and its members in order; a later member with the value of an
  earlier one is an alias of it.
\<close>

type_synonym int_enum = "string \<times> (string \<times> int) list"

definition SpaDirection :: int_enum where
  "SpaDirection = (''SpaDirection'',
     [(''INPUT'', 0), (''OUTPUT'', 1)])"

definition SpaMediaType :: int_enum where
  "SpaMediaType = (''SpaMediaType'',
     [(''UNKNOWN'', 0), (''AUDIO'', 1), (''VIDEO'', 2), (''IMAGE'', 3), (''BINARY'', 4), (''STREAM'', 5),
      (''APPLICATION'', 6)])"

definition SpaMediaSubtype :: int_enum where
  "SpaMediaSubtype = (''SpaMediaSubtype'',
     [(''UNKNOWN'', 0), (''RAW'', 1), (''DSP'', 2), (''IEC958'', 3), (''DSD'', 4), (''START_AUDIO'', 65536),
      (''MP3'', 65537), (''AAC'', 65538), (''VORBIS'', 65539), (''WMA'', 65540), (''RA'', 65541), (''SBC'', 65542),
      (''ADPCM'', 65543), (''G723'', 65544), (''G726'', 65545), (''G729'', 65546), (''AMR'', 65547), (''GSM'', 65548),
      (''ALAC'', 65549), (''FLAC'', 65550), (''APE'', 65551), (''OPUS'', 65552), (''AC3'', 65553), (''EAC3'', 65554),
      (''TRUEHD'', 65555), (''DTS'', 65556), (''MPEGH'', 65557), (''START_VIDEO'', 131072), (''H264'', 131073),
      (''MJPG'', 131074), (''DV'', 131075), (''MPEGTS'', 131076), (''H263'', 131077), (''MPEG1'', 131078),
      (''MPEG2'', 131079), (''MPEG4'', 131080), (''XVID'', 131081), (''VC1'', 131082), (''VP8'', 131083),
      (''VP9'', 131084), (''BAYER'', 131085), (''H265'', 131086), (''START_IMAGE'', 196608), (''JPEG'', 196609),
      (''START_BINARY'', 262144), (''START_STREAM'', 327680), (''MIDI'', 327681), (''START_APPLICATION'', 393216),
      (''CONTROL'', 393217)])"

definition SpaParamAvailability :: int_enum where
  "SpaParamAvailability = (''SpaParamAvailability'',
     [(''UNKNOWN'', 0), (''NO'', 1), (''YES'', 2)])"

definition SpaParamBitorder :: int_enum where
  "SpaParamBitorder = (''SpaParamBitorder'',
     [(''UNKNOWN'', 0), (''MSB'', 1), (''LSB'', 2)])"

definition SpaParamPortConfigMode :: int_enum where
  "SpaParamPortConfigMode = (''SpaParamPortConfigMode'',
     [(''NONE'', 0), (''PASSTHROUGH'', 1), (''CONVERT'', 2), (''DSP'', 3)])"

definition SpaAudioFormat :: int_enum where
  "SpaAudioFormat = (''SpaAudioFormat'',
     [(''UNKNOWN'', 0), (''ENCODED'', 1), (''START_INTERLEAVED'', 256), (''S8'', 257), (''U8'', 258),
      (''S16_LE'', 259), (''S16_BE'', 260), (''U16_LE'', 261), (''U16_BE'', 262), (''S24_32_LE'', 263),
      (''S24_32_BE'', 264), (''U24_32_LE'', 265), (''U24_32_BE'', 266), (''S32_LE'', 267), (''S32_BE'', 268),
      (''U32_LE'', 269), (''U32_BE'', 270), (''S24_LE'', 271), (''S24_BE'', 272), (''U24_LE'', 273),
      (''U24_BE'', 274), (''S20_LE'', 275), (''S20_BE'', 276), (''U20_LE'', 277), (''U20_BE'', 278),
      (''S18_LE'', 279), (''S18_BE'', 280), (''U18_LE'', 281), (''U18_BE'', 282), (''F32_LE'', 283),
      (''F32_BE'', 284), (''F64_LE'', 285), (''F64_BE'', 286), (''ULAW'', 287), (''ALAW'', 288),
      (''START_PLANAR'', 512), (''U8P'', 513), (''S16P'', 514), (''S24_32P'', 515), (''S32P'', 516), (''S24P'', 517),
      (''F32P'', 518), (''F64P'', 519), (''S8P'', 520), (''START_OTHER'', 1024), (''DSP_S32'', 515),
      (''DSP_F32'', 518), (''DSP_F64'', 519)])"

definition SpaAudioChannel :: int_enum where
  "SpaAudioChannel = (''SpaAudioChannel'',
     [(''UNKNOWN'', 0), (''NA'', 1), (''MONO'', 2), (''FL'', 3), (''FR'', 4), (''FC'', 5), (''LFE'', 6), (''SL'', 7),
      (''SR'', 8), (''FLC'', 9), (''FRC'', 10), (''RC'', 11), (''RL'', 12), (''RR'', 13), (''TC'', 14), (''TFL'', 15),
      (''TFC'', 16), (''TFR'', 17), (''TRL'', 18), (''TRC'', 19), (''TRR'', 20), (''RLC'', 21), (''RRC'', 22),
      (''FLW'', 23), (''FRW'', 24), (''LFE2'', 25), (''FLH'', 26), (''FCH'', 27), (''FRH'', 28), (''TFLC'', 29),
      (''TFRC'', 30), (''TSL'', 31), (''TSR'', 32), (''LLFE'', 33), (''RLFE'', 34), (''BC'', 35), (''BLC'', 36),
      (''BRC'', 37), (''START_AUX'', 4096), (''AUX0'', 4096)])"

definition SpaAudioIec958Codec :: int_enum where
  "SpaAudioIec958Codec = (''SpaAudioIec958Codec'',
     [(''UNKNOWN'', 0), (''PCM'', 1), (''DTS'', 2), (''AC3'', 3), (''MPEG'', 4), (''MPEG2_AAC'', 5), (''EAC3'', 6),
      (''TRUEHD'', 7), (''DTSHD'', 8)])"

definition SpaAudioAACStreamFormat :: int_enum where
  "SpaAudioAACStreamFormat = (''SpaAudioAACStreamFormat'',
     [(''UNKNOWN'', 0), (''RAW'', 1), (''MP2ADTS'', 2), (''MP4ADTS'', 3), (''MP4LOAS'', 4), (''MP4LATM'', 5),
      (''ADIF'', 6), (''MP4FF'', 7), (''CUSTOM'', 65536)])"

definition SpaAudioWMAProfile :: int_enum where
  "SpaAudioWMAProfile = (''SpaAudioWMAProfile'',
     [(''UNKNOWN'', 0), (''WMA7'', 1), (''WMA8'', 2), (''WMA9'', 3), (''WMA10'', 4), (''WMA9_PRO'', 5),
      (''WMA9_LOSSLESS'', 6), (''WMA10_LOSSLESS'', 7), (''CUSTOM'', 65536)])"

definition SpaAudioAMRBandMode :: int_enum where
  "SpaAudioAMRBandMode = (''SpaAudioAMRBandMode'',
     [(''UNKNOWN'', 0), (''NB'', 1), (''WB'', 2)])"

definition SpaAudioMP3ChannelMode :: int_enum where
  "SpaAudioMP3ChannelMode = (''SpaAudioMP3ChannelMode'',
     [(''UNKNOWN'', 0), (''MONO'', 1), (''STEREO'', 2), (''JOINTSTEREO'', 3), (''DUAL'', 4)])"

definition SpaAudioDTSExtType :: int_enum where
  "SpaAudioDTSExtType = (''SpaAudioDTSExtType'',
     [(''UNKNOWN'', 0), (''NONE'', 1), (''HD_HRA'', 2), (''HD_MA'', 3)])"

definition SpaAudioVolumeRampScale :: int_enum where
  "SpaAudioVolumeRampScale = (''SpaAudioVolumeRampScale'',
     [(''INVALID'', 0), (''LINEAR'', 1), (''CUBIC'', 2)])"

definition SpaBluetoothAudioCodec :: int_enum where
  "SpaBluetoothAudioCodec = (''SpaBluetoothAudioCodec'',
     [(''START'', 0), (''SBC'', 1), (''SBC_XQ'', 2), (''MPEG'', 3), (''AAC'', 4), (''AAC_ELD'', 5), (''APTX'', 6),
      (''APTX_HD'', 7), (''LDAC'', 8), (''APTX_LL'', 9), (''APTX_LL_DUPLEX'', 10), (''FASTSTREAM'', 11),
      (''FASTSTREAM_DUPLEX'', 12), (''LC3PLUS_HR'', 13), (''OPUS_05'', 14), (''OPUS_05_51'', 15),
      (''OPUS_05_71'', 16), (''OPUS_05_DUPLEX'', 17), (''OPUS_05_PRO'', 18), (''OPUS_G'', 19), (''CVSD'', 256),
      (''MSBC'', 257), (''LC3_SWB'', 258), (''LC3_A127'', 259), (''LC3'', 512), (''G722'', 768)])"

text \<open>\<open>cls(value)\<close>, which raises \<open>ValueError\<close> when no member has the value.\<close>

definition enum_member :: "int_enum \<Rightarrow> int \<Rightarrow> pyval option" where
  "enum_member cls value =
     map_option (\<lambda>(name, v). PIntEnum (fst cls) name v) (find (\<lambda>(name, v). v = value) (snd cls))"

lemma enum_member_value: "enum_member cls i = Some v \<Longrightarrow> as_int v = Some i"
  by (auto simp: enum_member_def find_Some_iff)

section \<open>Property specifications\<close>

datatype PropertySpec = PropertySpec (spec_key: int) (spec_name: string) (spec_pod_type: "int option")
  (spec_shape: "string option") (spec_enum_cls: "int_enum option")

definition PROP_INFO_SPECS :: "PropertySpec list" where
  "PROP_INFO_SPECS =
     [PropertySpec SPA_PROP_INFO_id ''id'' (Some SPA_TYPE_Id) None None,
      PropertySpec SPA_PROP_INFO_name ''name'' (Some SPA_TYPE_String) None None,
      PropertySpec SPA_PROP_INFO_type ''type'' None None None,
      PropertySpec SPA_PROP_INFO_labels ''labels'' (Some SPA_TYPE_Struct) (Some ''labels'') None,
      PropertySpec SPA_PROP_INFO_container ''container'' (Some SPA_TYPE_Id) None None,
      PropertySpec SPA_PROP_INFO_params ''params'' (Some SPA_TYPE_Bool) None None,
      PropertySpec SPA_PROP_INFO_description ''description'' (Some SPA_TYPE_String) None None]"

definition PROPS_SPECS :: "PropertySpec list" where
  "PROPS_SPECS =
     [PropertySpec SPA_PROP_unknown ''unknown'' None None None,
      PropertySpec SPA_PROP_device ''device'' (Some SPA_TYPE_String) None None,
      PropertySpec SPA_PROP_deviceName ''deviceName'' (Some SPA_TYPE_String) None None,
      PropertySpec SPA_PROP_deviceFd ''deviceFd'' (Some SPA_TYPE_Fd) None None,
      PropertySpec SPA_PROP_card ''card'' (Some SPA_TYPE_String) None None,
      PropertySpec SPA_PROP_cardName ''cardName'' (Some SPA_TYPE_String) None None,
      PropertySpec SPA_PROP_minLatency ''minLatency'' (Some SPA_TYPE_Int) None None,
      PropertySpec SPA_PROP_maxLatency ''maxLatency'' (Some SPA_TYPE_Int) None None,
      PropertySpec SPA_PROP_periods ''periods'' (Some SPA_TYPE_Int) None None,
      PropertySpec SPA_PROP_periodSize ''periodSize'' (Some SPA_TYPE_Int) None None,
      PropertySpec SPA_PROP_periodEvent ''periodEvent'' (Some SPA_TYPE_Bool) None None,
      PropertySpec SPA_PROP_live ''live'' (Some SPA_TYPE_Bool) None None,
      PropertySpec SPA_PROP_rate ''rate'' (Some SPA_TYPE_Int) None None,
      PropertySpec SPA_PROP_quality ''quality'' (Some SPA_TYPE_Int) None None,
      PropertySpec SPA_PROP_bluetoothAudioCodec ''bluetoothAudioCodec'' (Some SPA_TYPE_Id) None (Some SpaBluetoothAudioCodec),
      PropertySpec SPA_PROP_bluetoothOffloadActive ''bluetoothOffloadActive'' (Some SPA_TYPE_Bool) None None,
      PropertySpec SPA_PROP_params ''params'' (Some SPA_TYPE_Struct) (Some ''params'') None,
      PropertySpec SPA_PROP_clockId ''clockId'' (Some SPA_TYPE_Int) None None,
      PropertySpec SPA_PROP_clockName ''clockName'' (Some SPA_TYPE_String) None None,
      PropertySpec SPA_PROP_clockQuantumLimit ''clockQuantumLimit'' (Some SPA_TYPE_Int) None None,
      PropertySpec SPA_PROP_clockMinQuantum ''clockMinQuantum'' (Some SPA_TYPE_Int) None None,
      PropertySpec SPA_PROP_clockMaxQuantum ''clockMaxQuantum'' (Some SPA_TYPE_Int) None None,
      PropertySpec SPA_PROP_clockRate ''clockRate'' (Some SPA_TYPE_Int) None None,
      PropertySpec SPA_PROP_clockAllowedRates ''clockAllowedRates'' (Some SPA_TYPE_Array) (Some ''array_int'') None,
      PropertySpec SPA_PROP_clockForceRates ''clockForceRates'' (Some SPA_TYPE_Array) (Some ''array_int'') None,
      PropertySpec SPA_PROP_waveType ''waveType'' (Some SPA_TYPE_Id) None None,
      PropertySpec SPA_PROP_frequency ''frequency'' (Some SPA_TYPE_Float) None None,
      PropertySpec SPA_PROP_volume ''volume'' (Some SPA_TYPE_Float) None None,
      PropertySpec SPA_PROP_mute ''mute'' (Some SPA_TYPE_Bool) None None,
      PropertySpec SPA_PROP_patternType ''patternType'' (Some SPA_TYPE_Id) None None,
      PropertySpec SPA_PROP_ditherType ''ditherType'' (Some SPA_TYPE_Id) None None,
      PropertySpec SPA_PROP_truncate ''truncate'' (Some SPA_TYPE_Bool) None None,
      PropertySpec SPA_PROP_channelVolumes ''channelVolumes'' (Some SPA_TYPE_Array) (Some ''array_float'') None,
      PropertySpec SPA_PROP_volumeBase ''volumeBase'' (Some SPA_TYPE_Float) None None,
      PropertySpec SPA_PROP_volumeStep ''volumeStep'' (Some SPA_TYPE_Float) None None,
      PropertySpec SPA_PROP_channelMap ''channelMap'' (Some SPA_TYPE_Array) (Some ''array_id'') (Some SpaAudioChannel),
      PropertySpec SPA_PROP_monitorMute ''monitorMute'' (Some SPA_TYPE_Bool) None None,
      PropertySpec SPA_PROP_monitorVolumes ''monitorVolumes'' (Some SPA_TYPE_Array) (Some ''array_float'') None,
      PropertySpec SPA_PROP_latencyOffsetNsec ''latencyOffsetNsec'' (Some SPA_TYPE_Long) None None,
      PropertySpec SPA_PROP_softMute ''softMute'' (Some SPA_TYPE_Bool) None None,
      PropertySpec SPA_PROP_softVolumes ''softVolumes'' (Some SPA_TYPE_Array) (Some ''array_float'') None,
      PropertySpec SPA_PROP_iec958Codecs ''iec958Codecs'' (Some SPA_TYPE_Array) (Some ''array_id'') (Some SpaAudioIec958Codec),
      PropertySpec SPA_PROP_volumeRampSamples ''volumeRampSamples'' (Some SPA_TYPE_Int) None None,
      PropertySpec SPA_PROP_volumeRampStepSamples ''volumeRampStepSamples'' (Some SPA_TYPE_Int) None None,
      PropertySpec SPA_PROP_volumeRampTime ''volumeRampTime'' (Some SPA_TYPE_Int) None None,
      PropertySpec SPA_PROP_volumeRampStepTime ''volumeRampStepTime'' (Some SPA_TYPE_Int) None None,
      PropertySpec SPA_PROP_volumeRampScale ''volumeRampScale'' (Some SPA_TYPE_Id) None (Some SpaAudioVolumeRampScale),
      PropertySpec SPA_PROP_brightness ''brightness'' (Some SPA_TYPE_Float) None None,
      PropertySpec SPA_PROP_contrast ''contrast'' (Some SPA_TYPE_Float) None None,
      PropertySpec SPA_PROP_saturation ''saturation'' (Some SPA_TYPE_Float) None None,
      PropertySpec SPA_PROP_hue ''hue'' (Some SPA_TYPE_Float) None None,
      PropertySpec SPA_PROP_gamma ''gamma'' (Some SPA_TYPE_Float) None None,
      PropertySpec SPA_PROP_exposure ''exposure'' (Some SPA_TYPE_Float) None None,
      PropertySpec SPA_PROP_gain ''gain'' (Some SPA_TYPE_Float) None None,
      PropertySpec SPA_PROP_sharpness ''sharpness'' (Some SPA_TYPE_Float) None None]"

definition FORMAT_SPECS :: "PropertySpec list" where
  "FORMAT_SPECS =
     [PropertySpec SPA_FORMAT_mediaType ''mediaType'' (Some SPA_TYPE_Id) None (Some SpaMediaType),
      PropertySpec SPA_FORMAT_mediaSubtype ''mediaSubtype'' (Some SPA_TYPE_Id) None (Some SpaMediaSubtype),
      PropertySpec SPA_FORMAT_AUDIO_format ''audio_format'' (Some SPA_TYPE_Id) None (Some SpaAudioFormat),
      PropertySpec SPA_FORMAT_AUDIO_flags ''audio_flags'' (Some SPA_TYPE_Int) None None,
      PropertySpec SPA_FORMAT_AUDIO_rate ''audio_rate'' (Some SPA_TYPE_Int) None None,
      PropertySpec SPA_FORMAT_AUDIO_channels ''audio_channels'' (Some SPA_TYPE_Int) None None,
      PropertySpec SPA_FORMAT_AUDIO_position ''audio_position'' (Some SPA_TYPE_Array) (Some ''array_id'') (Some SpaAudioChannel),
      PropertySpec SPA_FORMAT_AUDIO_iec958Codec ''audio_iec958Codec'' (Some SPA_TYPE_Id) None (Some SpaAudioIec958Codec),
      PropertySpec SPA_FORMAT_AUDIO_bitorder ''audio_bitorder'' (Some SPA_TYPE_Id) None (Some SpaParamBitorder),
      PropertySpec SPA_FORMAT_AUDIO_interleave ''audio_interleave'' (Some SPA_TYPE_Int) None None,
      PropertySpec SPA_FORMAT_AUDIO_bitrate ''audio_bitrate'' (Some SPA_TYPE_Int) None None,
      PropertySpec SPA_FORMAT_AUDIO_blockAlign ''audio_blockAlign'' (Some SPA_TYPE_Int) None None,
      PropertySpec SPA_FORMAT_AUDIO_AAC_streamFormat ''audio_AAC_streamFormat'' (Some SPA_TYPE_Id) None (Some SpaAudioAACStreamFormat),
      PropertySpec SPA_FORMAT_AUDIO_WMA_profile ''audio_WMA_profile'' (Some SPA_TYPE_Id) None (Some SpaAudioWMAProfile),
      PropertySpec SPA_FORMAT_AUDIO_AMR_bandMode ''audio_AMR_bandMode'' (Some SPA_TYPE_Id) None (Some SpaAudioAMRBandMode),
      PropertySpec SPA_FORMAT_AUDIO_MP3_channelMode ''audio_MP3_channelMode'' (Some SPA_TYPE_Id) None (Some SpaAudioMP3ChannelMode),
      PropertySpec SPA_FORMAT_AUDIO_DTS_extType ''audio_DTS_extType'' (Some SPA_TYPE_Id) None (Some SpaAudioDTSExtType),
      PropertySpec SPA_FORMAT_VIDEO_format ''video_format'' (Some SPA_TYPE_Id) None None,
      PropertySpec SPA_FORMAT_VIDEO_modifier ''video_modifier'' (Some SPA_TYPE_Long) None None,
      PropertySpec SPA_FORMAT_VIDEO_size ''video_size'' (Some SPA_TYPE_Rectangle) None None,
      PropertySpec SPA_FORMAT_VIDEO_framerate ''video_framerate'' (Some SPA_TYPE_Fraction) None None,
      PropertySpec SPA_FORMAT_VIDEO_maxFramerate ''video_maxFramerate'' (Some SPA_TYPE_Fraction) None None,
      PropertySpec SPA_FORMAT_VIDEO_views ''video_views'' (Some SPA_TYPE_Int) None None,
      PropertySpec SPA_FORMAT_VIDEO_interlaceMode ''video_interlaceMode'' (Some SPA_TYPE_Id) None None,
      PropertySpec SPA_FORMAT_VIDEO_pixelAspectRatio ''video_pixelAspectRatio'' (Some SPA_TYPE_Fraction) None None,
      PropertySpec SPA_FORMAT_VIDEO_multiviewMode ''video_multiviewMode'' (Some SPA_TYPE_Id) None None,
      PropertySpec SPA_FORMAT_VIDEO_multiviewFlags ''video_multiviewFlags'' (Some SPA_TYPE_Id) None None,
      PropertySpec SPA_FORMAT_VIDEO_chromaSite ''video_chromaSite'' (Some SPA_TYPE_Id) None None,
      PropertySpec SPA_FORMAT_VIDEO_colorRange ''video_colorRange'' (Some SPA_TYPE_Id) None None,
      PropertySpec SPA_FORMAT_VIDEO_colorMatrix ''video_colorMatrix'' (Some SPA_TYPE_Id) None None,
      PropertySpec SPA_FORMAT_VIDEO_transferFunction ''video_transferFunction'' (Some SPA_TYPE_Id) None None,
      PropertySpec SPA_FORMAT_VIDEO_colorPrimaries ''video_colorPrimaries'' (Some SPA_TYPE_Id) None None,
      PropertySpec SPA_FORMAT_VIDEO_profile ''video_profile'' (Some SPA_TYPE_Int) None None,
      PropertySpec SPA_FORMAT_VIDEO_level ''video_level'' (Some SPA_TYPE_Int) None None,
      PropertySpec SPA_FORMAT_VIDEO_H264_streamFormat ''video_H264_streamFormat'' (Some SPA_TYPE_Id) None None,
      PropertySpec SPA_FORMAT_VIDEO_H264_alignment ''video_H264_alignment'' (Some SPA_TYPE_Id) None None,
      PropertySpec SPA_FORMAT_VIDEO_H265_streamFormat ''video_H265_streamFormat'' (Some SPA_TYPE_Id) None None,
      PropertySpec SPA_FORMAT_VIDEO_H265_alignment ''video_H265_alignment'' (Some SPA_TYPE_Id) None None,
      PropertySpec SPA_FORMAT_VIDEO_deviceId ''video_deviceId'' (Some SPA_TYPE_Bytes) None None,
      PropertySpec SPA_FORMAT_CONTROL_types ''control_types'' (Some SPA_TYPE_Choice) None None]"

definition BUFFERS_SPECS :: "PropertySpec list" where
  "BUFFERS_SPECS =
     [PropertySpec SPA_PARAM_BUFFERS_buffers ''buffers'' (Some SPA_TYPE_Int) None None,
      PropertySpec SPA_PARAM_BUFFERS_blocks ''blocks'' (Some SPA_TYPE_Int) None None,
      PropertySpec SPA_PARAM_BUFFERS_size ''size'' (Some SPA_TYPE_Int) None None,
      PropertySpec SPA_PARAM_BUFFERS_stride ''stride'' (Some SPA_TYPE_Int) None None,
      PropertySpec SPA_PARAM_BUFFERS_align ''align'' (Some SPA_TYPE_Int) None None,
      PropertySpec SPA_PARAM_BUFFERS_dataType ''dataType'' (Some SPA_TYPE_Choice) None None,
      PropertySpec SPA_PARAM_BUFFERS_metaType ''metaType'' (Some SPA_TYPE_Int) None None]"

definition META_SPECS :: "PropertySpec list" where
  "META_SPECS =
     [PropertySpec SPA_PARAM_META_type ''type'' (Some SPA_TYPE_Id) None None,
      PropertySpec SPA_PARAM_META_size ''size'' (Some SPA_TYPE_Int) None None,
      PropertySpec SPA_PARAM_META_features ''features'' (Some SPA_TYPE_Int) None None]"

definition IO_SPECS :: "PropertySpec list" where
  "IO_SPECS =
     [PropertySpec SPA_PARAM_IO_id ''id'' (Some SPA_TYPE_Id) None None,
      PropertySpec SPA_PARAM_IO_size ''size'' (Some SPA_TYPE_Int) None None]"

definition PROFILE_SPECS :: "PropertySpec list" where
  "PROFILE_SPECS =
     [PropertySpec SPA_PARAM_PROFILE_index ''index'' (Some SPA_TYPE_Int) None None,
      PropertySpec SPA_PARAM_PROFILE_name ''name'' (Some SPA_TYPE_String) None None,
      PropertySpec SPA_PARAM_PROFILE_description ''description'' (Some SPA_TYPE_String) None None,
      PropertySpec SPA_PARAM_PROFILE_priority ''priority'' (Some SPA_TYPE_Int) None None,
      PropertySpec SPA_PARAM_PROFILE_available ''available'' (Some SPA_TYPE_Id) None (Some SpaParamAvailability),
      PropertySpec SPA_PARAM_PROFILE_info ''info'' (Some SPA_TYPE_Struct) (Some ''dict_info'') None,
      PropertySpec SPA_PARAM_PROFILE_classes ''classes'' (Some SPA_TYPE_Struct) (Some ''profile_classes'') None,
      PropertySpec SPA_PARAM_PROFILE_save ''save'' (Some SPA_TYPE_Bool) None None]"

definition PORT_CONFIG_SPECS :: "PropertySpec list" where
  "PORT_CONFIG_SPECS =
     [PropertySpec SPA_PARAM_PORT_CONFIG_direction ''direction'' (Some SPA_TYPE_Id) None (Some SpaDirection),
      PropertySpec SPA_PARAM_PORT_CONFIG_mode ''mode'' (Some SPA_TYPE_Id) None (Some SpaParamPortConfigMode),
      PropertySpec SPA_PARAM_PORT_CONFIG_monitor ''monitor'' (Some SPA_TYPE_Bool) None None,
      PropertySpec SPA_PARAM_PORT_CONFIG_control ''control'' (Some SPA_TYPE_Bool) None None,
      PropertySpec SPA_PARAM_PORT_CONFIG_format ''format'' (Some SPA_TYPE_Object) (Some ''object_format'') None]"

definition ROUTE_SPECS :: "PropertySpec list" where
  "ROUTE_SPECS =
     [PropertySpec SPA_PARAM_ROUTE_index ''index'' (Some SPA_TYPE_Int) None None,
      PropertySpec SPA_PARAM_ROUTE_direction ''direction'' (Some SPA_TYPE_Id) None (Some SpaDirection),
      PropertySpec SPA_PARAM_ROUTE_device ''device'' (Some SPA_TYPE_Int) None None,
      PropertySpec SPA_PARAM_ROUTE_name ''name'' (Some SPA_TYPE_String) None None,
      PropertySpec SPA_PARAM_ROUTE_description ''description'' (Some SPA_TYPE_String) None None,
      PropertySpec SPA_PARAM_ROUTE_priority ''priority'' (Some SPA_TYPE_Int) None None,
      PropertySpec SPA_PARAM_ROUTE_available ''available'' (Some SPA_TYPE_Id) None (Some SpaParamAvailability),
      PropertySpec SPA_PARAM_ROUTE_info ''info'' (Some SPA_TYPE_Struct) (Some ''dict_info'') None,
      PropertySpec SPA_PARAM_ROUTE_profiles ''profiles'' (Some SPA_TYPE_Array) (Some ''array_int'') None,
      PropertySpec SPA_PARAM_ROUTE_props ''props'' (Some SPA_TYPE_Object) (Some ''object_props'') None,
      PropertySpec SPA_PARAM_ROUTE_devices ''devices'' (Some SPA_TYPE_Array) (Some ''array_int'') None,
      PropertySpec SPA_PARAM_ROUTE_profile ''profile'' (Some SPA_TYPE_Int) None None,
      PropertySpec SPA_PARAM_ROUTE_save ''save'' (Some SPA_TYPE_Bool) None None]"

definition LATENCY_SPECS :: "PropertySpec list" where
  "LATENCY_SPECS =
     [PropertySpec SPA_PARAM_LATENCY_direction ''direction'' (Some SPA_TYPE_Id) None (Some SpaDirection),
      PropertySpec SPA_PARAM_LATENCY_minQuantum ''minQuantum'' (Some SPA_TYPE_Float) None None,
      PropertySpec SPA_PARAM_LATENCY_maxQuantum ''maxQuantum'' (Some SPA_TYPE_Float) None None,
      PropertySpec SPA_PARAM_LATENCY_minRate ''minRate'' (Some SPA_TYPE_Int) None None,
      PropertySpec SPA_PARAM_LATENCY_maxRate ''maxRate'' (Some SPA_TYPE_Int) None None,
      PropertySpec SPA_PARAM_LATENCY_minNs ''minNs'' (Some SPA_TYPE_Long) None None,
      PropertySpec SPA_PARAM_LATENCY_maxNs ''maxNs'' (Some SPA_TYPE_Long) None None]"

definition PROCESS_LATENCY_SPECS :: "PropertySpec list" where
  "PROCESS_LATENCY_SPECS =
     [PropertySpec SPA_PARAM_PROCESS_LATENCY_quantum ''quantum'' (Some SPA_TYPE_Float) None None,
      PropertySpec SPA_PARAM_PROCESS_LATENCY_rate ''rate'' (Some SPA_TYPE_Int) None None,
      PropertySpec SPA_PARAM_PROCESS_LATENCY_ns ''ns'' (Some SPA_TYPE_Long) None None]"

definition TAG_SPECS :: "PropertySpec list" where
  "TAG_SPECS =
     [PropertySpec SPA_PARAM_TAG_direction ''direction'' (Some SPA_TYPE_Id) None (Some SpaDirection),
      PropertySpec SPA_PARAM_TAG_info ''info'' (Some SPA_TYPE_Struct) (Some ''dict_info'') None]"

definition PARAM_DICT_SPECS :: "PropertySpec list" where
  "PARAM_DICT_SPECS =
     [PropertySpec SPA_PARAM_DICT_info ''info'' (Some SPA_TYPE_Struct) (Some ''dict_info'') None]"

section \<open>Objects\<close>

definition OBJECT_ID_TO_NAME :: "(int \<times> string) list" where
  "OBJECT_ID_TO_NAME =
     [(SPA_PARAM_PropInfo, ''PropInfo''), (SPA_PARAM_Props, ''Props''), (SPA_PARAM_EnumFormat, ''Format''),
      (SPA_PARAM_Format, ''Format''), (SPA_PARAM_Buffers, ''Buffers''), (SPA_PARAM_Meta, ''Meta''),
      (SPA_PARAM_IO, ''IO''), (SPA_PARAM_EnumProfile, ''Profile''), (SPA_PARAM_Profile, ''Profile''),
      (SPA_PARAM_EnumPortConfig, ''PortConfig''), (SPA_PARAM_PortConfig, ''PortConfig''),
      (SPA_PARAM_EnumRoute, ''Route''), (SPA_PARAM_Route, ''Route''), (SPA_PARAM_Latency, ''Latency''),
      (SPA_PARAM_ProcessLatency, ''ProcessLatency''), (SPA_PARAM_Tag, ''Tag''),
      (SPA_PARAM_Capability, ''Capability''), (SPA_PARAM_PeerEnumFormat, ''PeerEnumFormat''),
      (SPA_PARAM_PeerCapability, ''PeerCapability'')]"

definition OBJECT_ID_TO_TYPE :: "(int \<times> int) list" where
  "OBJECT_ID_TO_TYPE =
     [(SPA_PARAM_PropInfo, SPA_TYPE_OBJECT_PropInfo), (SPA_PARAM_Props, SPA_TYPE_OBJECT_Props),
      (SPA_PARAM_EnumFormat, SPA_TYPE_OBJECT_Format), (SPA_PARAM_Format, SPA_TYPE_OBJECT_Format),
      (SPA_PARAM_Buffers, SPA_TYPE_OBJECT_ParamBuffers), (SPA_PARAM_Meta, SPA_TYPE_OBJECT_ParamMeta),
      (SPA_PARAM_IO, SPA_TYPE_OBJECT_ParamIO), (SPA_PARAM_EnumProfile, SPA_TYPE_OBJECT_ParamProfile),
      (SPA_PARAM_Profile, SPA_TYPE_OBJECT_ParamProfile), (SPA_PARAM_EnumPortConfig, SPA_TYPE_OBJECT_ParamPortConfig),
      (SPA_PARAM_PortConfig, SPA_TYPE_OBJECT_ParamPortConfig), (SPA_PARAM_EnumRoute, SPA_TYPE_OBJECT_ParamRoute),
      (SPA_PARAM_Route, SPA_TYPE_OBJECT_ParamRoute), (SPA_PARAM_Latency, SPA_TYPE_OBJECT_ParamLatency),
      (SPA_PARAM_ProcessLatency, SPA_TYPE_OBJECT_ParamProcessLatency), (SPA_PARAM_Tag, SPA_TYPE_OBJECT_ParamTag),
      (SPA_PARAM_Capability, SPA_TYPE_OBJECT_ParamDict), (SPA_PARAM_PeerEnumFormat, SPA_TYPE_OBJECT_PeerParam),
      (SPA_PARAM_PeerCapability, SPA_TYPE_OBJECT_PeerParam)]"

definition OBJECT_PROPERTY_SPECS :: "(int \<times> PropertySpec list) list" where
  "OBJECT_PROPERTY_SPECS =
     [(SPA_PARAM_PropInfo, PROP_INFO_SPECS), (SPA_PARAM_Props, PROPS_SPECS), (SPA_PARAM_EnumFormat, FORMAT_SPECS),
      (SPA_PARAM_Format, FORMAT_SPECS), (SPA_PARAM_Buffers, BUFFERS_SPECS), (SPA_PARAM_Meta, META_SPECS),
      (SPA_PARAM_IO, IO_SPECS), (SPA_PARAM_EnumProfile, PROFILE_SPECS), (SPA_PARAM_Profile, PROFILE_SPECS),
      (SPA_PARAM_EnumPortConfig, PORT_CONFIG_SPECS), (SPA_PARAM_PortConfig, PORT_CONFIG_SPECS),
      (SPA_PARAM_EnumRoute, ROUTE_SPECS), (SPA_PARAM_Route, ROUTE_SPECS), (SPA_PARAM_Latency, LATENCY_SPECS),
      (SPA_PARAM_ProcessLatency, PROCESS_LATENCY_SPECS), (SPA_PARAM_Tag, TAG_SPECS),
      (SPA_PARAM_Capability, PARAM_DICT_SPECS)]"

definition object_param_name :: "int \<Rightarrow> string option" where
  "object_param_name object_id = map_of OBJECT_ID_TO_NAME object_id"

definition object_type_for_id :: "int \<Rightarrow> int option" where
  "object_type_for_id object_id = map_of OBJECT_ID_TO_TYPE object_id"

text \<open>The two dictionaries of \<open>_make_property_table\<close>, a later specification hiding an earlier one.\<close>

definition by_key :: "PropertySpec list \<Rightarrow> int \<Rightarrow> PropertySpec option" where
  "by_key specs key = find (\<lambda>spec. spec_key spec = key) (rev specs)"

definition by_name :: "PropertySpec list \<Rightarrow> string \<Rightarrow> PropertySpec option" where
  "by_name specs name = find (\<lambda>spec. spec_name spec = name) (rev specs)"

definition specs_for_id :: "int \<Rightarrow> PropertySpec list" where
  "specs_for_id object_id = (case map_of OBJECT_PROPERTY_SPECS object_id of None \<Rightarrow> [] | Some specs \<Rightarrow> specs)"

definition property_spec_by_key :: "int \<Rightarrow> int \<Rightarrow> PropertySpec option" where
  "property_spec_by_key object_id prop_key = by_key (specs_for_id object_id) prop_key"

definition property_spec_by_name :: "int \<Rightarrow> string \<Rightarrow> PropertySpec option" where
  "property_spec_by_name object_id name = by_name (specs_for_id object_id) name"

text \<open>
  What \<open>_create_object_class\<close> puts into a class: its name, \<open>SPA_OBJECT_TYPE\<close>, \<open>SPA_OBJECT_ID\<close>,
  \<open>SPA_OBJECT_NAME\<close>, and the specifications behind \<open>_property_specs_by_key\<close> and
  \<open>_property_specs_by_name\<close>.
\<close>

record spa_object_class =
  class_name :: string
  class_object_type :: int
  class_object_id :: int
  class_object_name :: "string option"
  class_specs :: "PropertySpec list"

definition create_object_class :: "string \<Rightarrow> int \<Rightarrow> int \<Rightarrow> spa_object_class" where
  "create_object_class name object_type object_id =
     \<lparr>class_name = name, class_object_type = object_type, class_object_id = object_id,
       class_object_name = map_of OBJECT_ID_TO_NAME object_id, class_specs = specs_for_id object_id\<rparr>"

definition SpaPropInfo :: spa_object_class where
  "SpaPropInfo = create_object_class ''SpaPropInfo'' SPA_TYPE_OBJECT_PropInfo SPA_PARAM_PropInfo"

definition SpaProps :: spa_object_class where
  "SpaProps = create_object_class ''SpaProps'' SPA_TYPE_OBJECT_Props SPA_PARAM_Props"

definition SpaFormat :: spa_object_class where
  "SpaFormat = create_object_class ''SpaFormat'' SPA_TYPE_OBJECT_Format SPA_PARAM_Format"

definition SpaParamBuffers :: spa_object_class where
  "SpaParamBuffers = create_object_class ''SpaParamBuffers'' SPA_TYPE_OBJECT_ParamBuffers SPA_PARAM_Buffers"

definition SpaParamMeta :: spa_object_class where
  "SpaParamMeta = create_object_class ''SpaParamMeta'' SPA_TYPE_OBJECT_ParamMeta SPA_PARAM_Meta"

definition SpaParamIO :: spa_object_class where
  "SpaParamIO = create_object_class ''SpaParamIO'' SPA_TYPE_OBJECT_ParamIO SPA_PARAM_IO"

definition SpaParamProfile :: spa_object_class where
  "SpaParamProfile = create_object_class ''SpaParamProfile'' SPA_TYPE_OBJECT_ParamProfile SPA_PARAM_Profile"

definition SpaParamPortConfig :: spa_object_class where
  "SpaParamPortConfig = create_object_class ''SpaParamPortConfig'' SPA_TYPE_OBJECT_ParamPortConfig SPA_PARAM_PortConfig"

definition SpaParamRoute :: spa_object_class where
  "SpaParamRoute = create_object_class ''SpaParamRoute'' SPA_TYPE_OBJECT_ParamRoute SPA_PARAM_Route"

definition SpaParamLatency :: spa_object_class where
  "SpaParamLatency = create_object_class ''SpaParamLatency'' SPA_TYPE_OBJECT_ParamLatency SPA_PARAM_Latency"

definition SpaParamProcessLatency :: spa_object_class where
  "SpaParamProcessLatency = create_object_class ''SpaParamProcessLatency'' SPA_TYPE_OBJECT_ParamProcessLatency SPA_PARAM_ProcessLatency"

definition SpaParamTag :: spa_object_class where
  "SpaParamTag = create_object_class ''SpaParamTag'' SPA_TYPE_OBJECT_ParamTag SPA_PARAM_Tag"

definition SpaParamDict :: spa_object_class where
  "SpaParamDict = create_object_class ''SpaParamDict'' SPA_TYPE_OBJECT_ParamDict SPA_PARAM_Capability"

definition OBJECT_CLASSES_BY_ID :: "(int \<times> spa_object_class) list" where
  "OBJECT_CLASSES_BY_ID =
     [(SPA_PARAM_PropInfo, SpaPropInfo), (SPA_PARAM_Props, SpaProps), (SPA_PARAM_EnumFormat, SpaFormat),
      (SPA_PARAM_Format, SpaFormat), (SPA_PARAM_Buffers, SpaParamBuffers), (SPA_PARAM_Meta, SpaParamMeta),
      (SPA_PARAM_IO, SpaParamIO), (SPA_PARAM_EnumProfile, SpaParamProfile), (SPA_PARAM_Profile, SpaParamProfile),
      (SPA_PARAM_EnumPortConfig, SpaParamPortConfig), (SPA_PARAM_PortConfig, SpaParamPortConfig),
      (SPA_PARAM_EnumRoute, SpaParamRoute), (SPA_PARAM_Route, SpaParamRoute), (SPA_PARAM_Latency, SpaParamLatency),
      (SPA_PARAM_ProcessLatency, SpaParamProcessLatency), (SPA_PARAM_Tag, SpaParamTag),
      (SPA_PARAM_Capability, SpaParamDict)]"

end
