(* ===== verification/Conversions.thy ===== *)
theory Conversions
  imports Immutable Json
begin

text \<open>
  The conversions of Python's built-in types that the pod code applies to whatever a caller
  passes: \<open>int(x)\<close>, \<open>float(x)\<close>, \<open>bytes(x)\<close>, \<open>list(x)\<close>, \<open>str(x)\<close>, and dictionaries whose keys are any
  objects.  Text is read as Python reads it: decimal digits of every script, white space
  around the number, single underscores between digits.
\<close>

section \<open>Integers and sequences\<close>

text \<open>\<open>isinstance(value, int)\<close>, Booleans included.\<close>

fun int_like :: "pyval \<Rightarrow> int option" where
  "int_like (PBool b) = Some (if b then 1 else 0)"
| "int_like (PInt i) = Some i"
| "int_like (PIntEnum c n i) = Some i"
| "int_like _ = None"

definition characters :: "string \<Rightarrow> pyval list" where
  "characters s = map (\<lambda>n. PStr (utf8_char n)) (utf8_decode s)"

definition byte_values :: "8 word list \<Rightarrow> pyval list" where
  "byte_values b = map (\<lambda>x. PInt (uint x)) b"

text \<open>The items of a \<open>Sequence\<close>, strings and bytes included.\<close>

fun sequence_items :: "pyval \<Rightarrow> pyval list option" where
  "sequence_items (PTuple xs) = Some xs"
| "sequence_items (PList xs) = Some xs"
| "sequence_items (PStr s) = Some (characters s)"
| "sequence_items (PStrEnum c s) = Some (characters s)"
| "sequence_items (PBytes b) = Some (byte_values b)"
| "sequence_items _ = None"

text \<open>\<open>list(value)\<close>: a mapping gives its keys.\<close>

definition to_list :: "pyval \<Rightarrow> exn + pyval list" where
  "to_list value =
     (case sequence_items value of
        Some xs \<Rightarrow> Inr xs
      | None \<Rightarrow> (case as_mapping value of
                  Some kvs \<Rightarrow> Inr (map fst kvs)
                | None \<Rightarrow> Inl (TypeError ''object is not iterable'')))"

section \<open>Numbers written as text\<close>

text \<open>White space beyond ASCII; the value of a decimal digit of any script.\<close>

definition wide_space :: "nat \<Rightarrow> bool" where
  "wide_space n \<longleftrightarrow>
     n \<in> {133, 160, 5760, 8232, 8233, 8239, 8287, 12288} \<or> (8192 \<le> n \<and> n \<le> 8202)"

definition decimal_digit :: "nat \<Rightarrow> nat option" where
  "decimal_digit n = map_option (\<lambda>zero. n - zero) (find (\<lambda>zero. zero \<le> n \<and> n < zero + 10) decimal_zeros)"

text \<open>The ASCII form in which a number is parsed: spaces and digits are replaced.\<close>

definition ascii_form :: "nat list \<Rightarrow> nat list" where
  "ascii_form =
     map (\<lambda>n. if n < 127 then n else if wide_space n then 32
              else (case decimal_digit n of Some d \<Rightarrow> 48 + d | None \<Rightarrow> 63))"

definition ascii_space :: "nat \<Rightarrow> bool" where
  "ascii_space n \<longleftrightarrow> n = 32 \<or> (9 \<le> n \<and> n \<le> 13)"

definition strip_spaces :: "nat list \<Rightarrow> nat list" where
  "strip_spaces s = rev (dropWhile ascii_space (rev (dropWhile ascii_space s)))"

definition ascii_digit :: "nat \<Rightarrow> bool" where
  "ascii_digit n \<longleftrightarrow> 48 \<le> n \<and> n \<le> 57"

text \<open>An underscore must stand between two digits; \<open>after_digit\<close> tells what came before.\<close>

fun drop_underscores :: "bool \<Rightarrow> nat list \<Rightarrow> nat list option" where
  "drop_underscores after_digit [] = Some []"
| "drop_underscores after_digit (c # cs) =
     (if c = 95
      then (if after_digit \<and> cs \<noteq> [] \<and> ascii_digit (hd cs) then drop_underscores False cs else None)
      else map_option ((#) c) (drop_underscores (ascii_digit c) cs))"

definition split_sign :: "nat list \<Rightarrow> bool \<times> nat list" where
  "split_sign s = (case s of c # cs \<Rightarrow> if c = 45 then (True, cs) else if c = 43 then (False, cs) else (False, s)
                   | [] \<Rightarrow> (False, s))"

definition decimal_value :: "nat list \<Rightarrow> int" where
  "decimal_value ds = foldl (\<lambda>n d. 10 * n + (int d - 48)) 0 ds"

definition int_of_text :: "nat list \<Rightarrow> exn + int" where
  "int_of_text s =
     (case drop_underscores False (strip_spaces s) of
        None \<Rightarrow> Inl (ValueError ''invalid literal for int() with base 10'')
      | Some t \<Rightarrow>
          (case split_sign t of (neg, ds) \<Rightarrow>
             if ds = [] \<or> \<not> list_all ascii_digit ds then Inl (ValueError ''invalid literal for int() with base 10'')
             else if length ds > 4300 then Inl (ValueError ''Exceeds the limit (4300 digits) for integer string conversion'')
             else Inr (if neg then - decimal_value ds else decimal_value ds)))"

text \<open>
  The double nearest to \<open>m * 10 ^ e\<close>.  A negative power is computed in eighths of the least
  unit, the last of them recording whether the division left a remainder.
\<close>

definition float_of_decimal :: "bool \<Rightarrow> int \<Rightarrow> int \<Rightarrow> pyfloat" where
  "float_of_decimal neg m e =
     (if 0 \<le> e then f64_round neg 1074 (m * 10 ^ nat e)
      else let d = 10 ^ nat (- e); n = m * 2 ^ 1077; q = n div d
           in f64_round neg (- 3) (if n mod d = 0 \<or> odd q then q else q + 1))"

definition letters :: "string \<Rightarrow> nat list" where
  "letters s = map of_char s"

definition lower_ascii :: "nat list \<Rightarrow> nat list" where
  "lower_ascii = map (\<lambda>n. if 65 \<le> n \<and> n \<le> 90 then n + 32 else n)"

text \<open>The exponent part: nothing, or \<open>e\<close> with an optional sign and at least one digit.\<close>

definition exponent_of_text :: "nat list \<Rightarrow> int option" where
  "exponent_of_text s =
     (case s of
        [] \<Rightarrow> Some 0
      | c # cs \<Rightarrow>
          if c = 101 \<or> c = 69 then
            (case split_sign cs of (neg, ds) \<Rightarrow>
               if ds \<noteq> [] \<and> list_all ascii_digit ds
               then Some (if neg then - decimal_value ds else decimal_value ds) else None)
          else None)"

definition unsigned_float :: "bool \<Rightarrow> nat list \<Rightarrow> pyfloat option" where
  "unsigned_float neg s =
     (if lower_ascii s = letters ''inf'' \<or> lower_ascii s = letters ''infinity'' then Some (f64_infinity neg)
      else if lower_ascii s = letters ''nan'' then Some (f64_make neg 2047 (2 ^ 51))
      else let whole = takeWhile ascii_digit s;
               rest = dropWhile ascii_digit s;
               point = (rest \<noteq> [] \<and> hd rest = 46);
               fraction = (if point then takeWhile ascii_digit (tl rest) else []);
               tail = (if point then dropWhile ascii_digit (tl rest) else rest)
           in if whole @ fraction = [] then None
              else map_option (\<lambda>e. float_of_decimal neg (decimal_value (whole @ fraction)) (e - int (length fraction)))
                     (exponent_of_text tail))"

definition float_of_text :: "nat list \<Rightarrow> exn + pyfloat" where
  "float_of_text s =
     (case Option.bind (drop_underscores False (strip_spaces s))
             (\<lambda>t. case split_sign t of (neg, u) \<Rightarrow> unsigned_float neg u) of
        Some f \<Rightarrow> Inr f
      | None \<Rightarrow> Inl (ValueError ''could not convert string to float''))"

section \<open>Conversions\<close>

text \<open>\<open>int(value)\<close>: a float is truncated towards zero.\<close>

definition int_of_float :: "pyfloat \<Rightarrow> exn + int" where
  "int_of_float f =
     (if isnan f then Inl (ValueError ''cannot convert float NaN to integer'')
      else if \<not> isfinite f then Inl (OverflowError ''cannot convert float infinity to integer'')
      else Inr (sgn (f64_units f) * (\<bar>f64_units f\<bar> div 2 ^ 1074)))"

fun to_int :: "pyval \<Rightarrow> exn + int" where
  "to_int (PBool b) = Inr (if b then 1 else 0)"
| "to_int (PInt i) = Inr i"
| "to_int (PIntEnum c n i) = Inr i"
| "to_int (PFloat f) = int_of_float f"
| "to_int (PStr s) = int_of_text (ascii_form (utf8_decode s))"
| "to_int (PStrEnum c s) = int_of_text (ascii_form (utf8_decode s))"
| "to_int (PBytes b) = int_of_text (map unat b)"
| "to_int _ = Inl (TypeError ''int() argument must be a string, a bytes-like object or a real number'')"

lemma to_int_like: "int_like v = Some i \<Longrightarrow> to_int v = Inr i"
  by (cases v) auto

text \<open>\<open>float(value)\<close>\<close>

fun to_float :: "pyval \<Rightarrow> exn + pyfloat" where
  "to_float (PFloat f) = Inr f"
| "to_float (PBool b) = float_of_int (if b then 1 else 0)"
| "to_float (PInt i) = float_of_int i"
| "to_float (PIntEnum c n i) = float_of_int i"
| "to_float (PStr s) = float_of_text (ascii_form (utf8_decode s))"
| "to_float (PStrEnum c s) = float_of_text (ascii_form (utf8_decode s))"
| "to_float (PBytes b) = float_of_text (map unat b)"
| "to_float _ = Inl (TypeError ''float() argument must be a string or a real number'')"

text \<open>\<open>bytes(value)\<close>: an integer gives that many zero bytes, an iterable its items.\<close>

definition byte_of :: "pyval \<Rightarrow> exn + 8 word" where
  "byte_of item =
     (case int_like item of
        None \<Rightarrow> Inl (TypeError ''object cannot be interpreted as an integer'')
      | Some i \<Rightarrow> if 0 \<le> i \<and> i < 256 then Inr (word_of_int i)
                  else Inl (ValueError ''bytes must be in range(0, 256)''))"

definition to_bytes :: "pyval \<Rightarrow> exn + 8 word list" where
  "to_bytes value =
     (case value of
        PBytes b \<Rightarrow> Inr b
      | PStr s \<Rightarrow> Inl (TypeError ''string argument without an encoding'')
      | PStrEnum c s \<Rightarrow> Inl (TypeError ''string argument without an encoding'')
      | _ \<Rightarrow>
          (case int_like value of
             Some n \<Rightarrow> if n < 0 then Inl (ValueError ''negative count'') else Inr (replicate (nat n) 0)
           | None \<Rightarrow> rbind (to_list value) (traverse byte_of)))"

text \<open>
  \<open>str(value)\<close>.  The text of objects other than strings, integers, Booleans and \<open>None\<close> is
  what their classes define: the parameter \<open>text_of\<close>.
\<close>

fun to_str :: "(pyval \<Rightarrow> string) \<Rightarrow> pyval \<Rightarrow> string" where
  "to_str text_of (PStr s) = s"
| "to_str text_of (PInt i) = show_int i"
| "to_str text_of (PIntEnum c n i) = show_int i"
| "to_str text_of (PBool b) = (if b then ''True'' else ''False'')"
| "to_str text_of PNone = ''None''"
| "to_str text_of v = text_of v"

section \<open>Base 64\<close>

text \<open>\<open>base64.b64encode\<close>: three bytes become four letters of the alphabet, padded with \<open>=\<close>.\<close>

definition base64_letter :: "nat \<Rightarrow> char" where
  "base64_letter n =
     (if n < 26 then char_of (65 + n) else if n < 52 then char_of (71 + n) else if n < 62 then char_of (n - 4)
      else if n = 62 then CHR 0x2B else CHR 0x2F)"

fun base64_encode :: "nat list \<Rightarrow> string" where
  "base64_encode (a # b # c # rest) =
     base64_letter (a div 4) # base64_letter (a mod 4 * 16 + b div 16) # base64_letter (b mod 16 * 4 + c div 64) #
     base64_letter (c mod 64) # base64_encode rest"
| "base64_encode [a, b] =
     [base64_letter (a div 4), base64_letter (a mod 4 * 16 + b div 16), base64_letter (b mod 16 * 4), CHR ''='']"
| "base64_encode [a] = [base64_letter (a div 4), base64_letter (a mod 4 * 16), CHR ''='', CHR ''='']"
| "base64_encode [] = []"

definition b64encode :: "8 word list \<Rightarrow> string" where
  "b64encode data = base64_encode (map unat data)"

section \<open>Dictionaries with any keys\<close>

definition pydict_get :: "(pyval \<times> 'v) list \<Rightarrow> pyval \<Rightarrow> 'v option" where
  "pydict_get kvs key = map_option snd (find (\<lambda>kv. py_eq key (fst kv)) kvs)"

text \<open>\<open>d[key] = value\<close> keeps the place and the key object of an item that is there.\<close>

fun pydict_set :: "(pyval \<times> 'v) list \<Rightarrow> pyval \<Rightarrow> 'v \<Rightarrow> (pyval \<times> 'v) list" where
  "pydict_set [] key value = [(key, value)]"
| "pydict_set ((k, v) # kvs) key value =
     (if py_eq key k then (k, value) # kvs else (k, v) # pydict_set kvs key value)"

definition pydict_setdefault :: "(pyval \<times> 'v) list \<Rightarrow> pyval \<Rightarrow> 'v \<Rightarrow> (pyval \<times> 'v) list" where
  "pydict_setdefault kvs key value = (if pydict_get kvs key = None then kvs @ [(key, value)] else kvs)"

definition pydict_del :: "(pyval \<times> 'v) list \<Rightarrow> pyval \<Rightarrow> (pyval \<times> 'v) list" where
  "pydict_del kvs key = filter (\<lambda>kv. \<not> py_eq key (fst kv)) kvs"

lemma py_eq_scalars [simp]:
  "py_eq (PStr a) (PStr b) = (a = b)" "py_eq (PInt i) (PInt j) = (i = j)"
  "\<not> py_eq (PStr a) (PInt i)" "\<not> py_eq (PInt i) (PStr a)"
  by simp_all

lemma pydict_get_Nil [simp]: "pydict_get [] key = None"
  by (simp add: pydict_get_def)

lemma pydict_get_Cons [simp]:
  "pydict_get ((k, v) # kvs) key = (if py_eq key k then Some v else pydict_get kvs key)"
  by (simp add: pydict_get_def)

section \<open>Decoding text\<close>

text \<open>
  \<open>data.decode("utf-8", errors="replace")\<close> on byte values: each longest prefix of a sequence that
  cannot be completed, and each byte that starts none, becomes \<open>U+FFFD\<close>.
\<close>

definition continuation_byte :: "nat \<Rightarrow> bool" where
  "continuation_byte b \<longleftrightarrow> 128 \<le> b \<and> b < 192"

definition continuations :: "nat \<Rightarrow> nat" where
  "continuations b =
     (if 194 \<le> b \<and> b < 224 then 1 else if 224 \<le> b \<and> b < 240 then 2 else if 240 \<le> b \<and> b < 245 then 3 else 0)"

text \<open>The first continuation excludes overlong forms, surrogates and values past \<open>U+10FFFF\<close>.\<close>

definition follows_lead :: "nat \<Rightarrow> nat \<Rightarrow> bool" where
  "follows_lead lead b \<longleftrightarrow>
     continuation_byte b \<and> (lead = 224 \<longrightarrow> 160 \<le> b) \<and> (lead = 237 \<longrightarrow> b < 160) \<and>
     (lead = 240 \<longrightarrow> 144 \<le> b) \<and> (lead = 244 \<longrightarrow> b < 144)"

definition sequence_prefix :: "nat \<Rightarrow> nat list \<Rightarrow> nat" where
  "sequence_prefix lead bs =
     (if continuations lead = 0 \<or> bs = [] \<or> \<not> follows_lead lead (hd bs) then 0
      else Suc (length (takeWhile continuation_byte (take (continuations lead - 1) (tl bs)))))"

definition replacement :: "nat list" where
  "replacement = [239, 191, 189]"

function decode_replace :: "nat list \<Rightarrow> nat list" where
  "decode_replace [] = []"
| "decode_replace (b # bs) =
     (if b < 128 then b # decode_replace bs
      else let k = sequence_prefix b bs
           in if 0 < k \<and> k = continuations b then b # take k bs @ decode_replace (drop k bs)
              else replacement @ decode_replace (drop k bs))"
  by pat_completeness auto
termination
  by (relation "measure length") auto

lemma decode_replace_ascii: "list_all (\<lambda>b. b < 128) bs \<Longrightarrow> decode_replace bs = bs"
  by (induction bs) simp_all

text \<open>The text of a Python string that holds no surrogate is decoded as it was encoded.\<close>

definition utf8_text :: "string \<Rightarrow> bool" where
  "utf8_text s \<longleftrightarrow> (\<exists>ps. list_all scalar_value ps \<and> s = utf8_encode ps)"

lemma decode_replace_char:
  assumes "scalar_value n"
  shows "decode_replace (map of_char (utf8_char n) @ bs) = map of_char (utf8_char n) @ decode_replace bs"
proof -
  have c: "of_char (continuation m) = 128 + m mod 64" for m :: nat
  proof -
    have "128 + m mod 64 < 256" using mod_less_divisor [of 64 m] by linarith
    then show ?thesis by (simp add: continuation_def)
  qed
  have cb: "continuation_byte (128 + m mod 64)" for m
    using mod_less_divisor [of 64 m] by (simp add: continuation_byte_def)
  consider "n < 128" | "128 \<le> n" "n < 2048" | "2048 \<le> n" "n < 65536" | "65536 \<le> n" by linarith
  then show ?thesis
  proof cases
    case 1
    then show ?thesis by (simp add: utf8_char_def)
  next
    case 2
    then have d: "2 \<le> n div 64" "n div 64 < 32" by auto
    then have "192 + n div 64 < 256" "continuations (192 + n div 64) = 1" "follows_lead (192 + n div 64) (128 + n mod 64)"
      using cb [of n] by (auto simp: continuations_def follows_lead_def)
    with 2 show ?thesis by (simp add: utf8_char_def sequence_prefix_def c Let_def)
  next
    case 3
    then have d: "n div 4096 < 16" by auto
    have q: "n div 64 = n div 4096 * 64 + n div 64 mod 64"
      using div_mult2_eq [of n 64 64] by simp
    have "224 + n div 4096 < 256" "continuations (224 + n div 4096) = 2"
      using d by (auto simp: continuations_def)
    moreover have "follows_lead (224 + n div 4096) (128 + n div 64 mod 64)"
      using cb [of "n div 64"] 3 q assms d by (auto simp: follows_lead_def scalar_value_def code_point_def)
    ultimately show ?thesis using 3 cb [of n] by (simp add: utf8_char_def sequence_prefix_def c Let_def)
  next
    case 4
    then have d: "n div 262144 < 5" using assms by (auto simp: scalar_value_def code_point_def)
    have q: "n div 4096 = n div 262144 * 64 + n div 4096 mod 64"
      using div_mult2_eq [of n 4096 64] by simp
    have "240 + n div 262144 < 256" "continuations (240 + n div 262144) = 3"
      using d by (auto simp: continuations_def)
    moreover have "follows_lead (240 + n div 262144) (128 + n div 4096 mod 64)"
      using cb [of "n div 4096"] 4 q assms d by (auto simp: follows_lead_def scalar_value_def code_point_def)
    ultimately show ?thesis using 4 cb [of n] cb [of "n div 64"]
      by (simp add: utf8_char_def sequence_prefix_def c Let_def)
  qed
qed

lemma decode_replace_text: "utf8_text s \<Longrightarrow> decode_replace (map of_char s) = map of_char s"
proof -
  have "decode_replace (map of_char (utf8_encode ps)) = map of_char (utf8_encode ps)" if "list_all scalar_value ps" for ps
    using that decode_replace_char
    by (induction ps) (simp_all add: utf8_encode_def)
  then show "utf8_text s \<Longrightarrow> decode_replace (map of_char s) = map of_char s" by (auto simp: utf8_text_def)
qed

end
