(* ===== verification/SpaObjects.thy ===== *)
theory SpaObjects
  imports SpaTables Conversions
begin

text \<open>
  The class \<open>SpaPodObject\<close> of \<open>src/src/wyreplumber/_spa_pod_types.py\<close>: a mapping from property
  names, or numeric keys without a name, to values, which can be read and written by name, by
  numeric key and by attribute.  Its methods take the state and return it updated, or the
  exception they raise.
\<close>

record SpaPodObject =
  so_class :: spa_object_class
  so_object_type :: int
  so_object_id :: int
  so_object_name :: "string option"
  so_properties :: "(pyval \<times> pyval) list"
  so_property_flags :: "(pyval \<times> pyval) list"
  so_property_keys :: "(pyval \<times> pyval) list"

definition spa_object :: "SpaPodObject \<Rightarrow> pyval" where
  "spa_object ob =
     PSpaObject (class_name (so_class ob)) (so_object_type ob) (so_object_id ob) (so_object_name ob)
       (so_properties ob) (so_property_flags ob) (so_property_keys ob)"

text \<open>The base class, whose instances have no specifications of their own.\<close>

definition base_class :: spa_object_class where
  "base_class =
     \<lparr>class_name = ''SpaPodObject'', class_object_type = SPA_TYPE_Object, class_object_id = SPA_PARAM_Invalid,
       class_object_name = None, class_specs = []\<rparr>"

definition object_classes :: "spa_object_class list" where
  "object_classes = base_class # remdups (map snd OBJECT_CLASSES_BY_ID)"

definition class_of_name :: "string \<Rightarrow> spa_object_class option" where
  "class_of_name name = find (\<lambda>c. class_name c = name) object_classes"

fun as_spa_object :: "pyval \<Rightarrow> SpaPodObject option" where
  "as_spa_object (PSpaObject name t i n props flags keys) =
     map_option (\<lambda>c. \<lparr>so_class = c, so_object_type = t, so_object_id = i, so_object_name = n, so_properties = props,
       so_property_flags = flags, so_property_keys = keys\<rparr>) (class_of_name name)"
| "as_spa_object _ = None"

section \<open>Keys\<close>

text \<open>\<open>_key_to_storage\<close>: the key under which a property is kept; it records the numeric key of a name.\<close>

definition key_to_storage :: "SpaPodObject \<Rightarrow> pyval \<Rightarrow> exn + pyval \<times> SpaPodObject" where
  "key_to_storage ob key =
     (let record = (\<lambda>spec numeric. (PStr (spec_name spec),
            ob\<lparr>so_property_keys := pydict_setdefault (so_property_keys ob) (PStr (spec_name spec)) numeric\<rparr>))
      in case int_like key of
           Some i \<Rightarrow> (case by_key (class_specs (so_class ob)) i of
                        Some spec \<Rightarrow> Inr (record spec key)
                      | None \<Rightarrow> Inr (key, ob))
         | None \<Rightarrow> (case as_str key of
                      Some s \<Rightarrow> (case by_name (class_specs (so_class ob)) s of
                                   Some spec \<Rightarrow> Inr (record spec (PInt (spec_key spec)))
                                 | None \<Rightarrow> Inr (key, ob))
                    | None \<Rightarrow> Inl (KeyError ''key'')))"

text \<open>\<open>_resolve_existing_key\<close>: a key that is there as it is, or by the name it stands for.\<close>

definition resolve_existing_key :: "SpaPodObject \<Rightarrow> pyval \<Rightarrow> exn + pyval" where
  "resolve_existing_key ob key =
     (let present = (\<lambda>spec. case spec of
            Some sp \<Rightarrow> if pydict_get (so_properties ob) (PStr (spec_name sp)) \<noteq> None then PStr (spec_name sp) else key
          | None \<Rightarrow> key)
      in if pydict_get (so_properties ob) key \<noteq> None then Inr key
         else case int_like key of
           Some i \<Rightarrow> Inr (present (by_key (class_specs (so_class ob)) i))
         | None \<Rightarrow> (case as_str key of
                      Some s \<Rightarrow> Inr (present (by_name (class_specs (so_class ob)) s))
                    | None \<Rightarrow> Inl (KeyError ''key'')))"

section \<open>The mapping methods\<close>

definition spa_getitem :: "SpaPodObject \<Rightarrow> pyval \<Rightarrow> exn + pyval" where
  "spa_getitem ob key =
     rbind (resolve_existing_key ob key) (\<lambda>storage_key.
       case pydict_get (so_properties ob) storage_key of
         Some value \<Rightarrow> Inr value
       | None \<Rightarrow> Inl (KeyError ''key''))"

definition spa_get :: "SpaPodObject \<Rightarrow> pyval \<Rightarrow> pyval \<Rightarrow> pyval" where
  "spa_get ob key default_value = (case spa_getitem ob key of Inr value \<Rightarrow> value | Inl _ \<Rightarrow> default_value)"

definition spa_setitem :: "SpaPodObject \<Rightarrow> pyval \<Rightarrow> pyval \<Rightarrow> exn + SpaPodObject" where
  "spa_setitem ob key value =
     rbind (key_to_storage ob key) (\<lambda>(storage_key, ob1).
     let ob2 = ob1\<lparr>so_properties := pydict_set (so_properties ob1) storage_key value\<rparr>
     in if pydict_get (so_property_flags ob2) storage_key \<noteq> None then Inr ob2
        else let named = (case as_str storage_key of
                            Some s \<Rightarrow> by_name (class_specs (so_class ob2)) s \<noteq> None
                          | None \<Rightarrow> False);
                 flag_key = (if named then storage_key else key);
                 flag = (case pydict_get (so_property_flags ob2) flag_key of Some v \<Rightarrow> v | None \<Rightarrow> PInt 0)
             in rbind (to_int flag) (\<lambda>n.
                Inr (ob2\<lparr>so_property_flags := pydict_set (so_property_flags ob2) storage_key (PInt n)\<rparr>)))"

definition spa_delitem :: "SpaPodObject \<Rightarrow> pyval \<Rightarrow> exn + SpaPodObject" where
  "spa_delitem ob key =
     rbind (resolve_existing_key ob key) (\<lambda>storage_key.
       if pydict_get (so_properties ob) storage_key = None then Inl (KeyError ''key'')
       else let ob1 = ob\<lparr>so_properties := pydict_del (so_properties ob) storage_key,
                  so_property_flags := pydict_del (so_property_flags ob) storage_key\<rparr>
            in Inr (if as_str storage_key \<noteq> None
                    then ob1\<lparr>so_property_keys := pydict_del (so_property_keys ob1) storage_key\<rparr> else ob1))"

text \<open>\<open>as_pod_mapping\<close>\<close>

definition as_pod_mapping :: "SpaPodObject \<Rightarrow> pyval" where
  "as_pod_mapping ob = PDict
     [(PStr ''_pod_type'', PInt SPA_TYPE_Object), (PStr ''_object_type'', PInt (so_object_type ob)),
      (PStr ''_object_id'', PInt (so_object_id ob)), (PStr ''object_type'', PInt (so_object_type ob)),
      (PStr ''object_id'', PInt (so_object_id ob)), (PStr ''properties'', PDict (so_properties ob)),
      (PStr ''property_flags'', PDict (so_property_flags ob)), (PStr ''property_keys'', PDict (so_property_keys ob))]"

section \<open>Construction\<close>

text \<open>
  \<open>__init__\<close> of a class: \<open>properties\<close>, \<open>property_flags\<close> and \<open>property_keys\<close> are mappings or \<open>None\<close>,
  and the keyword arguments override the properties of the same name.
\<close>

fun set_items :: "SpaPodObject \<Rightarrow> (pyval \<times> pyval) list \<Rightarrow> exn + SpaPodObject" where
  "set_items ob [] = Inr ob"
| "set_items ob ((key, value) # items) = rbind (spa_setitem ob key value) (\<lambda>ob1. set_items ob1 items)"

definition given_items :: "(pyval \<times> pyval) list option \<Rightarrow> (pyval \<times> pyval) list" where
  "given_items m = (case m of None \<Rightarrow> [] | Some items \<Rightarrow> items)"

definition spa_init ::
    "spa_object_class \<Rightarrow> (pyval \<times> pyval) list option \<Rightarrow> (pyval \<times> pyval) list option \<Rightarrow> (pyval \<times> pyval) list option \<Rightarrow>
     pyval option \<Rightarrow> pyval option \<Rightarrow> string option \<Rightarrow> fields \<Rightarrow> exn + SpaPodObject" where
  "spa_init cls properties property_flags property_keys object_type object_id object_name kwargs =
     rbind (case object_type of None \<Rightarrow> Inr (class_object_type cls) | Some t \<Rightarrow> to_int t) (\<lambda>t.
     rbind (case object_id of None \<Rightarrow> Inr (class_object_id cls) | Some i \<Rightarrow> to_int i) (\<lambda>i.
     let ob = \<lparr>so_class = cls, so_object_type = t, so_object_id = i,
                so_object_name = (case object_name of None \<Rightarrow> class_object_name cls | Some n \<Rightarrow> Some n),
                so_properties = [], so_property_flags = given_items property_flags,
                so_property_keys = given_items property_keys\<rparr>;
         merged = foldl (\<lambda>items (name, value). pydict_set items (PStr name) value) (given_items properties) kwargs
     in set_items ob merged))"

section \<open>What the methods guarantee\<close>

text \<open>
  The invariant of an instance: every property has flags, and no property is kept under the
  numeric key of a name.
\<close>

definition storage_key :: "spa_object_class \<Rightarrow> pyval \<Rightarrow> bool" where
  "storage_key cls key \<longleftrightarrow>
     (case int_like key of Some i \<Rightarrow> by_key (class_specs cls) i = None | None \<Rightarrow> as_str key \<noteq> None)"

definition spa_object_ok :: "SpaPodObject \<Rightarrow> bool" where
  "spa_object_ok ob \<longleftrightarrow>
     list_all (\<lambda>(key, v). storage_key (so_class ob) key \<and> pydict_get (so_property_flags ob) key \<noteq> None) (so_properties ob)"

end
