(* ===== verification/SpaShapes.thy ===== *)
theory SpaShapes
  imports SpaObjects Serialization
begin

text \<open>
  How \<open>src/src/wyreplumber/spa_pod.py\<close> presents the properties of an object: the conversions
  between generic pods and the shapes the property specifications name (dictionaries of
  information, parameters, labels, profile classes, arrays, enumerations), in both directions.
\<close>

section \<open>Generic pods\<close>

text \<open>\<open>value.get("_pod_type") == t\<close> for a mapping, and \<open>list(value.get("values", []))\<close>.\<close>

definition is_pod_mapping :: "pyval \<Rightarrow> int \<Rightarrow> (pyval \<times> pyval) list option" where
  "is_pod_mapping value t =
     (case as_mapping value of
        None \<Rightarrow> None
      | Some kvs \<Rightarrow> (case dict_get kvs ''_pod_type'' of
                      Some v \<Rightarrow> if py_eq v (PInt t) then Some kvs else None
                    | None \<Rightarrow> None))"

definition pod_mapping :: "int \<Rightarrow> fields \<Rightarrow> pyval" where
  "pod_mapping t items = PDict ((PStr ''_pod_type'', PInt t) # map (\<lambda>(k, v). (PStr k, v)) items)"

definition get_or :: "(pyval \<times> pyval) list \<Rightarrow> string \<Rightarrow> pyval \<Rightarrow> pyval" where
  "get_or kvs k d = (case dict_get kvs k of Some v \<Rightarrow> v | None \<Rightarrow> d)"

definition get_values :: "(pyval \<times> pyval) list \<Rightarrow> exn + pyval list" where
  "get_values kvs = to_list (get_or kvs ''values'' (PList []))"

text \<open>\<open>_array_to_values\<close>: the items converted, or the value itself when it is no array pod.\<close>

definition array_to_values :: "(pyval \<Rightarrow> exn + pyval) \<Rightarrow> pyval \<Rightarrow> exn + pyval option" where
  "array_to_values convert value =
     (case is_pod_mapping value SPA_TYPE_Array of
        None \<Rightarrow> Inr None
      | Some kvs \<Rightarrow> rbind (get_values kvs) (\<lambda>xs. rbind (traverse convert xs) (\<lambda>ys. Inr (Some (PList ys)))))"

definition convert_int :: "pyval \<Rightarrow> exn + pyval" where
  "convert_int v = rbind (to_int v) (\<lambda>i. Inr (PInt i))"

definition convert_float :: "pyval \<Rightarrow> exn + pyval" where
  "convert_float v = rbind (to_float v) (\<lambda>f. Inr (PFloat f))"

section \<open>Enumerations\<close>

text \<open>\<open>_coerce_enum_member\<close>\<close>

definition coerce_enum_member :: "int_enum \<Rightarrow> pyval \<Rightarrow> pyval" where
  "coerce_enum_member cls value =
     (if (case value of PIntEnum c n i \<Rightarrow> c = fst cls | _ \<Rightarrow> False) then value
      else case Option.bind (int_like value) (enum_member cls) of Some m \<Rightarrow> m | None \<Rightarrow> value)"

text \<open>The keys of a choice that hold one value, and those that hold several.\<close>

definition single_keys :: "string list" where
  "single_keys = [''value'', ''default'', ''min'', ''max'', ''step'']"

definition several_keys :: "string list" where
  "several_keys = [''alternatives'', ''flags_values'']"

text \<open>
  A copy of a choice with \<open>f\<close> applied to its values, in the order of the statements: the
  list of values, then the single keys that are present, then the keys with several values.
\<close>

definition map_item :: "(pyval \<Rightarrow> exn + pyval) \<Rightarrow> string \<Rightarrow> (pyval \<times> pyval) list \<Rightarrow> exn + (pyval \<times> pyval) list" where
  "map_item f k kvs =
     (case dict_get kvs k of
        None \<Rightarrow> Inr kvs
      | Some v \<Rightarrow> rbind (f v) (\<lambda>w. Inr (pydict_set kvs (PStr k) w)))"

definition map_list :: "(pyval \<Rightarrow> exn + pyval) \<Rightarrow> pyval \<Rightarrow> exn + pyval" where
  "map_list f v = rbind (to_list v) (\<lambda>xs. rbind (traverse f xs) (\<lambda>ys. Inr (PList ys)))"

fun map_items :: "(pyval \<Rightarrow> exn + pyval) \<Rightarrow> string list \<Rightarrow> (pyval \<times> pyval) list \<Rightarrow> exn + (pyval \<times> pyval) list" where
  "map_items f [] kvs = Inr kvs"
| "map_items f (k # ks) kvs = rbind (map_item f k kvs) (\<lambda>kvs1. map_items f ks kvs1)"

definition map_choice :: "(pyval \<Rightarrow> exn + pyval) \<Rightarrow> (pyval \<times> pyval) list \<Rightarrow> exn + pyval" where
  "map_choice f kvs =
     rbind (map_item (map_list f) ''values'' kvs) (\<lambda>kvs1.
     rbind (map_items f single_keys kvs1) (\<lambda>kvs2.
     rbind (map_items (map_list f) several_keys kvs2) (\<lambda>kvs3.
     Inr (PDict kvs3))))"

definition coerce_enum_property_value :: "int_enum \<Rightarrow> pyval \<Rightarrow> exn + pyval" where
  "coerce_enum_property_value cls value =
     (case is_pod_mapping value SPA_TYPE_Choice of
        None \<Rightarrow> Inr (coerce_enum_member cls value)
      | Some kvs \<Rightarrow> map_choice (\<lambda>v. Inr (coerce_enum_member cls v)) kvs)"

section \<open>Arrays\<close>

definition specialize_array :: "(pyval \<Rightarrow> exn + pyval) \<Rightarrow> int_enum option \<Rightarrow> pyval \<Rightarrow> exn + pyval" where
  "specialize_array convert enum_cls candidate =
     rbind (array_to_values convert candidate) (\<lambda>result.
       case result of
         None \<Rightarrow> Inr candidate
       | Some values \<Rightarrow> (case enum_cls of
                           None \<Rightarrow> Inr values
                         | Some cls \<Rightarrow> map_list (\<lambda>item. Inr (coerce_enum_member cls item)) values))"

definition specialize_array_property :: "(pyval \<Rightarrow> exn + pyval) \<Rightarrow> int_enum option \<Rightarrow> pyval \<Rightarrow> exn + pyval" where
  "specialize_array_property convert enum_cls value =
     (case is_pod_mapping value SPA_TYPE_Choice of
        None \<Rightarrow> specialize_array convert enum_cls value
      | Some kvs \<Rightarrow> map_choice (specialize_array convert enum_cls) kvs)"

section \<open>Dictionaries of information and parameters\<close>

text \<open>Consecutive pairs of a list of even length.\<close>

fun pairs :: "'a list \<Rightarrow> ('a \<times> 'a) list" where
  "pairs (x # y # zs) = (x, y) # pairs zs"
| "pairs _ = []"

text \<open>A dictionary built item by item: a later value replaces an earlier one under the same key.\<close>

definition dict_of :: "(pyval \<times> pyval) list \<Rightarrow> pyval" where
  "dict_of items = PDict (foldl (\<lambda>d (k, v). pydict_set d k v) [] items)"

definition struct_to_dict_info :: "pyval \<Rightarrow> exn + pyval" where
  "struct_to_dict_info value =
     (case is_pod_mapping value SPA_TYPE_Struct of
        None \<Rightarrow> Inr value
      | Some kvs \<Rightarrow>
          rbind (get_values kvs) (\<lambda>items.
            case items of
              [] \<Rightarrow> Inr value
            | count # values \<Rightarrow>
                (case int_like count of
                   None \<Rightarrow> Inr value
                 | Some n \<Rightarrow>
                     if int (length values) \<noteq> n * 2 \<or> \<not> list_all (\<lambda>v. as_str v \<noteq> None) values then Inr value
                     else Inr (dict_of (pairs values)))))"

text \<open>A struct pod of the given items.\<close>

definition struct_pod :: "pyval list \<Rightarrow> pyval" where
  "struct_pod items = pod_mapping SPA_TYPE_Struct [(''values'', PList items)]"

definition dict_info_to_struct :: "(pyval \<Rightarrow> string) \<Rightarrow> pyval \<Rightarrow> pyval" where
  "dict_info_to_struct text_of value =
     (if is_pod_mapping value SPA_TYPE_Struct \<noteq> None then value
      else case as_mapping value of
        None \<Rightarrow> value
      | Some kvs \<Rightarrow>
          struct_pod (PInt (int (length kvs)) #
            concat (map (\<lambda>(k, v). [PStr (to_str text_of k), PStr (to_str text_of v)]) kvs)))"

definition struct_to_params :: "pyval \<Rightarrow> exn + pyval" where
  "struct_to_params value =
     (case is_pod_mapping value SPA_TYPE_Struct of
        None \<Rightarrow> Inr value
      | Some kvs \<Rightarrow>
          rbind (get_values kvs) (\<lambda>items.
            if odd (length items) \<or> \<not> list_all (\<lambda>(k, v). as_str k \<noteq> None) (pairs items) then Inr value
            else Inr (dict_of (pairs items))))"

definition params_to_struct :: "(pyval \<Rightarrow> string) \<Rightarrow> pyval \<Rightarrow> pyval" where
  "params_to_struct text_of value =
     (if is_pod_mapping value SPA_TYPE_Struct \<noteq> None then value
      else case as_mapping value of
        None \<Rightarrow> value
      | Some kvs \<Rightarrow> struct_pod (concat (map (\<lambda>(k, v). [PStr (to_str text_of k), v]) kvs)))"

section \<open>Labels\<close>

definition struct_to_labels :: "pyval \<Rightarrow> exn + pyval" where
  "struct_to_labels value =
     (case is_pod_mapping value SPA_TYPE_Struct of
        None \<Rightarrow> Inr value
      | Some kvs \<Rightarrow>
          rbind (get_values kvs) (\<lambda>items.
            if odd (length items) \<or> \<not> list_all (\<lambda>(v, l). as_str l \<noteq> None) (pairs items) then Inr value
            else Inr (PList (map (\<lambda>(v, l). PDict [(PStr ''value'', v), (PStr ''label'', l)]) (pairs items)))))"

text \<open>One entry: a mapping with a value and a label, or any sequence of two items.\<close>

definition label_items :: "pyval \<Rightarrow> pyval list option" where
  "label_items entry =
     (case as_mapping entry of
        Some kvs \<Rightarrow> Some [get_or kvs ''value'' PNone, get_or kvs ''label'' PNone]
      | None \<Rightarrow> (case sequence_items entry of
                  Some [a, b] \<Rightarrow> Some [a, b]
                | _ \<Rightarrow> None))"

definition labels_to_struct :: "pyval \<Rightarrow> pyval" where
  "labels_to_struct value =
     (if is_pod_mapping value SPA_TYPE_Struct \<noteq> None then value
      else case as_seq value of
        None \<Rightarrow> value
      | Some entries \<Rightarrow>
          if list_all (\<lambda>e. label_items e \<noteq> None) entries
          then struct_pod (concat (map (\<lambda>e. case label_items e of Some xs \<Rightarrow> xs | None \<Rightarrow> []) entries))
          else value)"

section \<open>Profile classes\<close>

text \<open>One class entry of the wire form, which is rejected (\<open>None\<close>) when it has another layout.\<close>

definition profile_class :: "pyval \<Rightarrow> exn + pyval option" where
  "profile_class item =
     (case is_pod_mapping item SPA_TYPE_Struct of
        None \<Rightarrow> Inr None
      | Some kvs \<Rightarrow>
          rbind (get_values kvs) (\<lambda>entry.
            case entry of
              [name, count, prop, devices] \<Rightarrow>
                if as_str name = None \<or> int_like count = None \<or> as_str prop = None then Inr None
                else rbind (array_to_values convert_int devices) (\<lambda>indexes.
                  let values = (case indexes of Some ys \<Rightarrow> ys | None \<Rightarrow> devices)
                  in case values of
                       PList ys \<Rightarrow> Inr (Some (PDict [(PStr ''class'', name), (PStr ''count'', count), (PStr ''property'', prop),
                         (PStr ''devices'', values)]))
                     | _ \<Rightarrow> Inr None)
            | _ \<Rightarrow> Inr None))"

text \<open>The entries in order; the first that is rejected leaves the whole value as it was.\<close>

fun profile_class_list :: "pyval list \<Rightarrow> exn + pyval list option" where
  "profile_class_list [] = Inr (Some [])"
| "profile_class_list (item # items) =
     rbind (profile_class item) (\<lambda>c.
       case c of
         None \<Rightarrow> Inr None
       | Some v \<Rightarrow> rbind (profile_class_list items) (\<lambda>rest. Inr (map_option ((#) v) rest)))"

definition struct_to_profile_classes :: "pyval \<Rightarrow> exn + pyval" where
  "struct_to_profile_classes value =
     (case is_pod_mapping value SPA_TYPE_Struct of
        None \<Rightarrow> Inr value
      | Some kvs \<Rightarrow>
          rbind (get_values kvs) (\<lambda>items.
            case items of
              [] \<Rightarrow> Inr value
            | first # rest \<Rightarrow>
                (let nested = (case as_int first of
                                 Some count \<Rightarrow> if int (length rest) = count then Some rest else None
                               | None \<Rightarrow> Some items)
                 in case nested of
                      None \<Rightarrow> Inr value
                    | Some entries \<Rightarrow>
                        rbind (profile_class_list entries) (\<lambda>classes.
                          Inr (case classes of Some cs \<Rightarrow> PList cs | None \<Rightarrow> value)))))"

definition profile_class_struct :: "(pyval \<Rightarrow> string) \<Rightarrow> (pyval \<times> pyval) list \<Rightarrow> exn + pyval" where
  "profile_class_struct text_of entry =
     rbind (to_int (get_or entry ''count'' (PInt 0))) (\<lambda>count.
     rbind (to_list (get_or entry ''devices'' (PList []))) (\<lambda>devices.
     Inr (struct_pod [PStr (to_str text_of (get_or entry ''class'' PNone)), PInt count,
            PStr (to_str text_of (get_or entry ''property'' PNone)),
            pod_mapping SPA_TYPE_Array [(''child_type'', PInt SPA_TYPE_Int), (''values'', PList devices)]])))"

fun profile_class_structs :: "(pyval \<Rightarrow> string) \<Rightarrow> pyval list \<Rightarrow> exn + pyval list option" where
  "profile_class_structs text_of [] = Inr (Some [])"
| "profile_class_structs text_of (entry # entries) =
     (case as_mapping entry of
        None \<Rightarrow> Inr None
      | Some kvs \<Rightarrow>
          rbind (profile_class_struct text_of kvs) (\<lambda>s.
          rbind (profile_class_structs text_of entries) (\<lambda>rest. Inr (map_option ((#) s) rest))))"

definition profile_classes_to_struct :: "(pyval \<Rightarrow> string) \<Rightarrow> pyval \<Rightarrow> exn + pyval" where
  "profile_classes_to_struct text_of value =
     (if is_pod_mapping value SPA_TYPE_Struct \<noteq> None then Inr value
      else case as_seq value of
        None \<Rightarrow> Inr value
      | Some entries \<Rightarrow>
          rbind (profile_class_structs text_of entries) (\<lambda>items.
            Inr (case items of
                   Some xs \<Rightarrow> struct_pod (PInt (int (length entries)) # xs)
                 | None \<Rightarrow> value)))"

section \<open>Nested objects\<close>

definition ensure_object_value :: "pyval \<Rightarrow> int \<Rightarrow> int \<Rightarrow> exn + pyval" where
  "ensure_object_value value object_type object_id =
     (case value of
        PSpaObject _ _ _ _ _ _ _ \<Rightarrow> Inr value
      | _ \<Rightarrow>
          (case as_mapping value of
             None \<Rightarrow> Inr value
           | Some kvs \<Rightarrow>
               if list_ex (\<lambda>k. dict_get kvs k \<noteq> None) [''object_type'', ''_object_type'', ''object_id'', ''_object_id'']
               then Inr value
               else case map_of OBJECT_CLASSES_BY_ID object_id of
                 Some cls \<Rightarrow>
                   rbind (spa_init cls (Some kvs) None None (Some (PInt object_type)) (Some (PInt object_id)) None [])
                     (\<lambda>ob. Inr (spa_object ob))
               | None \<Rightarrow>
                   Inr (PDict [(PStr ''_pod_type'', PInt SPA_TYPE_Object), (PStr ''_object_type'', PInt object_type),
                     (PStr ''_object_id'', PInt object_id), (PStr ''object_type'', PInt object_type),
                     (PStr ''object_id'', PInt object_id), (PStr ''properties'', PDict kvs),
                     (PStr ''property_flags'', PDict []), (PStr ''property_keys'', PDict [])])))"

section \<open>Shapes of properties\<close>

text \<open>\<open>_specialize_property_value\<close>: from the generic pod to the shape of the property.\<close>

definition specialize_property_value :: "int \<Rightarrow> int \<Rightarrow> pyval \<Rightarrow> exn + pyval" where
  "specialize_property_value object_id prop_key value =
     (case property_spec_by_key object_id prop_key of
        None \<Rightarrow> Inr value
      | Some spec \<Rightarrow>
          (let shape = spec_shape spec
           in if shape = Some ''dict_info'' then struct_to_dict_info value
              else if shape = Some ''params'' then struct_to_params value
              else if shape = Some ''labels'' then struct_to_labels value
              else if shape = Some ''profile_classes'' then struct_to_profile_classes value
              else if shape = Some ''array_int'' then specialize_array_property convert_int None value
              else if shape = Some ''array_float'' then specialize_array_property convert_float None value
              else if shape = Some ''array_id'' then specialize_array_property convert_int (spec_enum_cls spec) value
              else case spec_enum_cls spec of
                     Some cls \<Rightarrow> coerce_enum_property_value cls value
                   | None \<Rightarrow> Inr value))"

text \<open>The array pod a list of items is written as.\<close>

definition array_pod :: "int \<Rightarrow> pyval \<Rightarrow> exn + pyval" where
  "array_pod child_type value =
     rbind (to_list value) (\<lambda>xs.
     Inr (pod_mapping SPA_TYPE_Array [(''child_type'', PInt child_type), (''values'', PList xs)]))"

text \<open>A choice gets the child type of the property when it has none.\<close>

definition typed_choice :: "PropertySpec \<Rightarrow> (pyval \<times> pyval) list \<Rightarrow> pyval" where
  "typed_choice spec kvs =
     PDict (case spec_pod_type spec of
              Some t \<Rightarrow> pydict_setdefault kvs (PStr ''child_type'') (PInt t)
            | None \<Rightarrow> if spec_enum_cls spec \<noteq> None
                      then pydict_setdefault kvs (PStr ''child_type'') (PInt SPA_TYPE_Id) else kvs)"

text \<open>\<open>_prepare_property_value\<close>: from the shape of the property back to a generic pod.\<close>

definition prepare_property_value :: "(pyval \<Rightarrow> string) \<Rightarrow> int \<Rightarrow> int \<Rightarrow> pyval \<Rightarrow> exn + pyval" where
  "prepare_property_value text_of object_id prop_key value =
     (case property_spec_by_key object_id prop_key of
        None \<Rightarrow> Inr value
      | Some spec \<Rightarrow>
          (case is_pod_mapping value SPA_TYPE_Choice of
             Some kvs \<Rightarrow> Inr (typed_choice spec kvs)
           | None \<Rightarrow>
               (let shape = spec_shape spec
                in if shape = Some ''dict_info'' then Inr (dict_info_to_struct text_of value)
                   else if shape = Some ''params'' then Inr (params_to_struct text_of value)
                   else if shape = Some ''labels'' then Inr (labels_to_struct value)
                   else if shape = Some ''profile_classes'' then profile_classes_to_struct text_of value
                   else if shape = Some ''array_int'' then array_pod SPA_TYPE_Int value
                   else if shape = Some ''array_float'' then array_pod SPA_TYPE_Float value
                   else if shape = Some ''array_id'' then array_pod SPA_TYPE_Id value
                   else if shape = Some ''object_props'' then ensure_object_value value SPA_TYPE_OBJECT_Props SPA_PARAM_Props
                   else if shape = Some ''object_format'' then ensure_object_value value SPA_TYPE_OBJECT_Format SPA_PARAM_Format
                   else Inr value)))"

end
