(* ===== verification/SpaBytes.thy ===== *)
theory SpaBytes
  imports Immutable
begin

text \<open>
  Little-endian fields and the framing of pods: what \<open>struct.pack\<close> and \<open>struct.unpack_from\<close> do
  for the formats the pod code uses, and \<open>_align\<close>, \<open>_parse_pod_header\<close>, \<open>_ensure_available\<close>
  and \<open>_pack_pod\<close> of \<open>src/src/wyreplumber/_spa_pod_types.py\<close>.  Packing a value that its
  field cannot hold, or unpacking beyond the end of the data, raises \<open>struct.error\<close>.
\<close>

type_synonym bytes = "8 word list"

named_theorems pod_simps \<open>what reading finds where something was packed\<close>

section \<open>Fields\<close>

fun le_bytes :: "nat \<Rightarrow> nat \<Rightarrow> bytes" where
  "le_bytes 0 n = []"
| "le_bytes (Suc k) n = word_of_nat n # le_bytes k (n div 256)"

fun le_value :: "bytes \<Rightarrow> nat" where
  "le_value [] = 0"
| "le_value (b # bs) = unat b + 256 * le_value bs"

lemma length_le_bytes [simp]: "length (le_bytes k n) = k"
  by (induction k n rule: le_bytes.induct) simp_all

lemma le_value_le_bytes: "le_value (le_bytes k n) = n mod 256 ^ k"
proof (induction k n rule: le_bytes.induct)
  case (2 k n)
  have "unat (word_of_nat n :: 8 word) = n mod 256" by (simp add: unat_of_nat)
  then show ?case using 2 mod_mult2_eq [of n 256 "256 ^ k"] by simp
qed simp

lemma le_value_bound: "le_value bs < 256 ^ length bs"
proof (induction bs)
  case (Cons b bs)
  have "unat b < 256" using unsigned_less [of b] by simp
  with Cons show ?case by simp
qed simp

lemma le_bytes_le_value: "le_bytes (length bs) (le_value bs) = bs"
proof (induction bs)
  case (Cons b bs)
  have "unat b < 256" using unsigned_less [of b] by simp
  then have "(unat b + 256 * le_value bs) div 256 = le_value bs" by simp
  moreover have "(word_of_nat (unat b + 256 * le_value bs) :: 8 word) = b + 256 * word_of_nat (le_value bs)" by simp
  moreover have "b + (256 :: 8 word) * word_of_nat (le_value bs) = b"
  proof -
    have z: "(256 :: 8 word) = 0" by simp
    show ?thesis unfolding z by simp
  qed
  ultimately show ?case using Cons by simp
qed simp

definition pack_unsigned :: "nat \<Rightarrow> int \<Rightarrow> exn + bytes" where
  "pack_unsigned k i =
     (if 0 \<le> i \<and> i < 256 ^ k then Inr (le_bytes k (nat i)) else Inl (StructError ''argument out of range''))"

definition pack_signed :: "nat \<Rightarrow> int \<Rightarrow> exn + bytes" where
  "pack_signed k i =
     (if - (256 ^ k) \<le> 2 * i \<and> 2 * i < 256 ^ k then Inr (le_bytes k (nat (i mod 256 ^ k)))
      else Inl (StructError ''argument out of range''))"

text \<open>The formats \<open>I\<close>, \<open>Q\<close>, \<open>i\<close>, \<open>q\<close>, \<open>f\<close> and \<open>d\<close>.\<close>

definition pack_u32 :: "int \<Rightarrow> exn + bytes" where "pack_u32 = pack_unsigned 4"
definition pack_u64 :: "int \<Rightarrow> exn + bytes" where "pack_u64 = pack_unsigned 8"
definition pack_i32 :: "int \<Rightarrow> exn + bytes" where "pack_i32 = pack_signed 4"
definition pack_i64 :: "int \<Rightarrow> exn + bytes" where "pack_i64 = pack_signed 8"

definition pack_f32 :: "pyfloat \<Rightarrow> exn + bytes" where
  "pack_f32 f = rbind (f32_pack f) (\<lambda>w. Inr (le_bytes 4 (unat w)))"

definition pack_f64 :: "pyfloat \<Rightarrow> exn + bytes" where
  "pack_f64 f = Inr (le_bytes 8 (unat f))"

text \<open>\<open>struct.pack("<II", a, b)\<close>\<close>

definition pack_pair :: "int \<Rightarrow> int \<Rightarrow> exn + bytes" where
  "pack_pair a b = rbind (pack_u32 a) (\<lambda>x. rbind (pack_u32 b) (\<lambda>y. Inr (x @ y)))"

definition slice :: "bytes \<Rightarrow> nat \<Rightarrow> nat \<Rightarrow> bytes" where
  "slice data start count = take count (drop start data)"

definition unpack_field :: "nat \<Rightarrow> bytes \<Rightarrow> nat \<Rightarrow> exn + nat" where
  "unpack_field k data offset =
     (if offset + k \<le> length data then Inr (le_value (slice data offset k))
      else Inl (StructError ''unpack_from requires a larger buffer''))"

definition to_signed :: "nat \<Rightarrow> nat \<Rightarrow> int" where
  "to_signed k n = (if 2 * n < 256 ^ k then int n else int n - 256 ^ k)"

definition unpack_u32 :: "bytes \<Rightarrow> nat \<Rightarrow> exn + int" where
  "unpack_u32 data offset = rbind (unpack_field 4 data offset) (\<lambda>n. Inr (int n))"

definition unpack_u64 :: "bytes \<Rightarrow> nat \<Rightarrow> exn + int" where
  "unpack_u64 data offset = rbind (unpack_field 8 data offset) (\<lambda>n. Inr (int n))"

definition unpack_i32 :: "bytes \<Rightarrow> nat \<Rightarrow> exn + int" where
  "unpack_i32 data offset = rbind (unpack_field 4 data offset) (\<lambda>n. Inr (to_signed 4 n))"

definition unpack_i64 :: "bytes \<Rightarrow> nat \<Rightarrow> exn + int" where
  "unpack_i64 data offset = rbind (unpack_field 8 data offset) (\<lambda>n. Inr (to_signed 8 n))"

definition unpack_f32 :: "bytes \<Rightarrow> nat \<Rightarrow> exn + pyfloat" where
  "unpack_f32 data offset = rbind (unpack_field 4 data offset) (\<lambda>n. Inr (f32_unpack (word_of_nat n)))"

definition unpack_f64 :: "bytes \<Rightarrow> nat \<Rightarrow> exn + pyfloat" where
  "unpack_f64 data offset = rbind (unpack_field 8 data offset) (\<lambda>n. Inr (word_of_nat n))"

text \<open>\<open>struct.unpack_from("<II", data, offset)\<close>: both fields must be there.\<close>

definition unpack_pair :: "bytes \<Rightarrow> nat \<Rightarrow> exn + int \<times> int" where
  "unpack_pair data offset =
     (if offset + 8 \<le> length data
      then Inr (int (le_value (slice data offset 4)), int (le_value (slice data (offset + 4) 4)))
      else Inl (StructError ''unpack_from requires a larger buffer''))"

section \<open>Reading what was packed\<close>

lemma slice_at [pod_simps]: "i = length pre \<Longrightarrow> n = length x \<Longrightarrow> slice (pre @ x @ post) i n = x"
  by (simp add: slice_def)

lemma slice_within: "length pre = i \<Longrightarrow> slice (pre @ x) i n = slice x 0 n"
  by (simp add: slice_def)

lemma length_slice: "length (slice data i n) = min n (length data - i)"
  by (simp add: slice_def)

lemma unpack_field_at:
  assumes "length x = k"
  shows "unpack_field k (pre @ x @ post) (length pre) = Inr (le_value x)"
  using assms by (simp add: unpack_field_def slice_at)

lemma pack_unsigned_Inr: "pack_unsigned k i = Inr x \<longleftrightarrow> 0 \<le> i \<and> i < 256 ^ k \<and> x = le_bytes k (nat i)"
  by (auto simp: pack_unsigned_def)

lemma pack_unsigned_value:
  assumes "pack_unsigned k i = Inr x"
  shows "length x = k" "int (le_value x) = i"
proof -
  have i: "0 \<le> i" "i < 256 ^ k" "x = le_bytes k (nat i)" using assms by (simp_all add: pack_unsigned_Inr)
  then have "nat i < nat (256 ^ k)" by simp
  then have "nat i < 256 ^ k" by (simp add: nat_power_eq)
  then show "length x = k" "int (le_value x) = i" using i by (simp_all add: le_value_le_bytes)
qed

lemma pack_signed_value:
  assumes "pack_signed k i = Inr x"
  shows "length x = k" "to_signed k (le_value x) = i"
proof -
  let ?m = "256 ^ k :: int"
  have i: "- ?m \<le> 2 * i" "2 * i < ?m" "x = le_bytes k (nat (i mod ?m))"
    using assms by (auto simp: pack_signed_def split: if_splits)
  have m: "0 < ?m" by simp
  have r: "i mod ?m = (if 0 \<le> i then i else i + ?m)"
    using i mod_pos_pos_trivial [of i ?m] mod_pos_pos_trivial [of "i + ?m" ?m] by auto
  have b: "0 \<le> i mod ?m" "i mod ?m < ?m" using m by simp_all
  then have "nat (i mod ?m) < 256 ^ k" by (metis nat_less_iff of_nat_numeral of_nat_power)
  then have v: "int (le_value x) = i mod ?m" using i(3) b by (simp add: le_value_le_bytes)
  have "2 * le_value x < 256 ^ k \<longleftrightarrow> 2 * int (le_value x) < ?m"
    by (metis of_nat_less_iff of_nat_mult of_nat_numeral of_nat_power)
  then show "to_signed k (le_value x) = i"
    using v r i by (auto simp: to_signed_def split: if_splits)
  show "length x = k" using i(3) by simp
qed

lemma unpack_packed [pod_simps]:
  "pack_u32 i = Inr x \<Longrightarrow> j = length pre \<Longrightarrow> unpack_u32 (pre @ x @ post) j = Inr i"
  "pack_u64 i = Inr x \<Longrightarrow> j = length pre \<Longrightarrow> unpack_u64 (pre @ x @ post) j = Inr i"
  "pack_i32 i = Inr x \<Longrightarrow> j = length pre \<Longrightarrow> unpack_i32 (pre @ x @ post) j = Inr i"
  "pack_i64 i = Inr x \<Longrightarrow> j = length pre \<Longrightarrow> unpack_i64 (pre @ x @ post) j = Inr i"
  by (simp_all add: unpack_u32_def unpack_u64_def unpack_i32_def unpack_i64_def pack_u32_def pack_u64_def
    pack_i32_def pack_i64_def unpack_field_at pack_unsigned_value pack_signed_value)

lemma length_packed [pod_simps]:
  "pack_u32 i = Inr x \<Longrightarrow> length x = 4" "pack_u64 i = Inr x \<Longrightarrow> length x = 8"
  "pack_i32 i = Inr x \<Longrightarrow> length x = 4" "pack_i64 i = Inr x \<Longrightarrow> length x = 8"
  by (simp_all add: pack_u32_def pack_u64_def pack_i32_def pack_i64_def pack_unsigned_value pack_signed_value)

lemma pack_f64_value:
  assumes "pack_f64 f = Inr x"
  shows "length x = 8" "unpack_f64 (pre @ x @ post) (length pre) = Inr f"
proof -
  have x: "x = le_bytes 8 (unat f)" using assms by (simp add: pack_f64_def)
  have "unat f < 256 ^ 8" using unsigned_less [of f] by simp
  then show "unpack_f64 (pre @ x @ post) (length pre) = Inr f"
    using x by (simp add: unpack_f64_def unpack_field_at le_value_le_bytes)
  show "length x = 8" using x by simp
qed

text \<open>A single-precision field reads back as the narrowed value.\<close>

lemma pack_f32_value:
  assumes "pack_f32 f = Inr x"
  shows "length x = 4" "\<exists>w. f32_pack f = Inr w \<and> unpack_f32 (pre @ x @ post) (length pre) = Inr (f32_unpack w)"
proof -
  obtain w where w: "f32_pack f = Inr w" "x = le_bytes 4 (unat w)"
    using assms by (auto simp: pack_f32_def elim: rbind_InrE)
  have "unat w < 256 ^ 4" using unsigned_less [of w] by simp
  then have "unpack_f32 (pre @ x @ post) (length pre) = Inr (f32_unpack w)"
    using w by (simp add: unpack_f32_def unpack_field_at le_value_le_bytes)
  with w show "length x = 4" "\<exists>w. f32_pack f = Inr w \<and> unpack_f32 (pre @ x @ post) (length pre) = Inr (f32_unpack w)"
    by auto
qed

lemma pack_pair_Inr:
  "pack_pair a b = Inr z \<longleftrightarrow> (\<exists>x y. pack_u32 a = Inr x \<and> pack_u32 b = Inr y \<and> z = x @ y)"
  by (auto simp: pack_pair_def rbind_eq_Inr_iff)

lemma pack_pair_value:
  assumes "pack_pair a b = Inr z"
  shows "length z = 8" "unpack_pair (pre @ z @ post) (length pre) = Inr (a, b)" "0 \<le> a" "a < 2 ^ 32" "0 \<le> b" "b < 2 ^ 32"
proof -
  obtain x y where xy: "pack_unsigned 4 a = Inr x" "pack_unsigned 4 b = Inr y" "z = x @ y"
    using assms by (auto simp: pack_pair_Inr pack_u32_def)
  note vx = pack_unsigned_value [OF xy(1)] and vy = pack_unsigned_value [OF xy(2)]
  have "slice (pre @ z @ post) (length pre) 4 = x" using xy vx by (simp add: slice_def)
  moreover have "slice (pre @ z @ post) (length pre + 4) 4 = y" using xy vx vy by (simp add: slice_def)
  ultimately show "unpack_pair (pre @ z @ post) (length pre) = Inr (a, b)" "length z = 8"
    using xy vx vy by (simp_all add: unpack_pair_def)
  show "0 \<le> a" "a < 2 ^ 32" "0 \<le> b" "b < 2 ^ 32" using xy by (simp_all add: pack_unsigned_Inr)
qed

section \<open>Framing\<close>

text \<open>\<open>_align\<close>, to eight bytes as every caller does.\<close>

definition align :: "nat \<Rightarrow> nat" where
  "align value = nat ((int value + 8 - 1) AND NOT (8 - 1))"

lemma align_eq: "align n = (n + 7) div 8 * 8"
proof -
  let ?a = "int n + 7"
  have "?a AND NOT (mask 3) = push_bit 3 (drop_bit 3 ?a)"
    by (rule bit_eqI) (auto simp: bit_simps)
  moreover have "(mask 3 :: int) = 7" by (simp add: mask_eq_exp_minus_1)
  moreover have "push_bit 3 (drop_bit 3 ?a) = ?a div 8 * 8" by (simp add: push_bit_eq_mult drop_bit_eq_div)
  ultimately have "?a AND NOT 7 = ?a div 8 * 8" by (simp only:)
  moreover have "int n + 8 - 1 = ?a" "(8 :: int) - 1 = 7" by simp_all
  ultimately have "align n = nat (?a div 8 * 8)" unfolding align_def by (simp only:)
  moreover have "int ((n + 7) div 8 * 8) = ?a div 8 * 8" by (simp add: zdiv_int)
  ultimately show ?thesis by (metis nat_int)
qed

lemma align_bounds: "n \<le> align n" "align n < n + 8" "align n mod 8 = 0"
proof -
  have "(n + 7) div 8 * 8 + (n + 7) mod 8 = n + 7" "(n + 7) mod 8 < 8" by simp_all
  then show "n \<le> align n" "align n < n + 8" unfolding align_eq by linarith+
  show "align n mod 8 = 0" unfolding align_eq by (rule mod_mult_self2_is_0)
qed

definition parse_pod_header :: "bytes \<Rightarrow> nat \<Rightarrow> exn + nat \<times> int" where
  "parse_pod_header data offset =
     (if length data < offset + 8 then Inl (ValueError ''Data too short for SPA pod header'')
      else rbind (unpack_pair data offset) (\<lambda>(size, pod_type). Inr (nat size, pod_type)))"

definition ensure_available :: "bytes \<Rightarrow> nat \<Rightarrow> nat \<Rightarrow> exn + unit" where
  "ensure_available data offset count =
     check (offset + count \<le> length data) (ValueError ''Data too short for SPA pod body'')"

definition pack_pod :: "int \<Rightarrow> bytes \<Rightarrow> exn + bytes" where
  "pack_pod pod_type body =
     (let padding = align (8 + length body) - (8 + length body)
      in rbind (pack_pair (int (length body)) pod_type) (\<lambda>header. Inr (header @ body @ replicate padding 0)))"

text \<open>
  A packed pod is framed: its length is a multiple of eight, its header declares the length of
  its body, and the body follows the header, wherever the pod stands in the data.
\<close>

lemma pack_pod_framed:
  assumes "pack_pod t body = Inr bs"
  shows "length bs = align (8 + length body)" "\<exists>header padding. bs = header @ body @ padding \<and> length header = 8"
    and "parse_pod_header (pre @ bs @ post) (length pre) = Inr (length body, t)"
    and "slice (pre @ bs @ post) (length pre + 8) (length body) = body"
    and "length body < 2 ^ 32"
proof -
  obtain header where h: "pack_pair (int (length body)) t = Inr header"
      "bs = header @ body @ replicate (align (8 + length body) - (8 + length body)) 0"
    using assms by (auto simp: pack_pod_def Let_def elim: rbind_InrE)
  note v = pack_pair_value [OF h(1)]
  show l: "length bs = align (8 + length body)" using h(2) v(1) align_bounds(1) [of "8 + length body"] by simp
  show "\<exists>header padding. bs = header @ body @ padding \<and> length header = 8" using h(2) v(1) by blast
  have "pre @ bs @ post = pre @ header @ (body @ replicate (align (8 + length body) - (8 + length body)) 0 @ post)"
    using h(2) by simp
  then have "unpack_pair (pre @ bs @ post) (length pre) = Inr (int (length body), t)" using v(2) by metis
  moreover have "8 \<le> length bs" using l align_bounds(1) [of "8 + length body"] by simp
  ultimately show "parse_pod_header (pre @ bs @ post) (length pre) = Inr (length body, t)"
    by (simp add: parse_pod_header_def)
  show "slice (pre @ bs @ post) (length pre + 8) (length body) = body"
    using h(2) v(1) by (simp add: slice_def)
  show "length body < 2 ^ 32" using v(4) by (simp add: zless_nat_eq_int_zless [symmetric])
qed

text \<open>The size a header declares, the measure of the recursion of the parser.\<close>

definition declared_size :: "bytes \<Rightarrow> nat \<Rightarrow> nat" where
  "declared_size data offset = (case parse_pod_header data offset of Inl _ \<Rightarrow> 0 | Inr (count, _) \<Rightarrow> count)"

lemma declared_size_header [simp]: "parse_pod_header data offset = Inr (n, t) \<Longrightarrow> declared_size data offset = n"
  by (simp add: declared_size_def)

lemma declared_size_packed:
  assumes "pack_pair (int n) t = Inr header"
  shows "declared_size (header @ body) 0 = n"
  using pack_pair_value(1) [OF assms] pack_pair_value(2) [OF assms, of "[]" body]
  by (simp add: declared_size_def parse_pod_header_def)

end
