(* ===== verification/SpaParse.thy ===== *)
theory SpaParse
  imports SpaShapes SpaBytes
begin

text \<open>
  \<open>parse_spa_pod\<close> of \<open>src/src/wyreplumber/spa_pod.py\<close> and the containers it reads.  Each container
  is a loop over the children it holds, with the parser of a child as its argument; the
  declared size of a child is smaller than that of its container, so the parser terminates on
  every input.
\<close>

type_synonym parser = "bytes \<Rightarrow> nat \<Rightarrow> exn + pyval"

section \<open>Loops over children\<close>

text \<open>
  A \<open>while\<close> loop that collects items: a turn at an offset either ends the loop or yields an item
  and the offset of the next turn, which lies further on and not past \<open>stop\<close>.
\<close>

function collect :: "nat \<Rightarrow> (nat \<Rightarrow> exn + ('v \<times> nat) option) \<Rightarrow> nat \<Rightarrow> exn + 'v list" where
  "collect stop turn current =
     rbind (turn current) (\<lambda>r.
       case r of
         None \<Rightarrow> Inr []
       | Some (v, following) \<Rightarrow>
           if current < following \<and> following \<le> stop
           then rbind (collect stop turn following) (\<lambda>vs. Inr (v # vs))
           else Inr [v])"
  by pat_completeness auto
termination
  by (relation "measure (\<lambda>(stop, turn, current). stop - current)") auto

declare collect.simps [simp del]

lemma collect_cong:
  assumes "\<And>i. c \<le> i \<Longrightarrow> f i = g i"
  shows "collect stop f c = collect stop g c"
  using assms
proof (induction stop f c rule: collect.induct)
  case (1 stop f c)
  have "f c = g c" using "1.prems" by simp
  moreover have "collect stop f c' = collect stop g c'" if "f c = Inr (Some (v, c'))" "c < c'" "c' \<le> stop" for v c'
    using "1.IH" [OF that(1) refl refl] that "1.prems" by simp
  ultimately show ?case
    by (subst (1 2) collect.simps) (auto simp: rbind_def split: sum.split option.split)
qed

text \<open>Items of one size, without headers: each gets the header of the child type and is parsed on its own.\<close>

definition packed_turn :: "parser \<Rightarrow> nat \<Rightarrow> int \<Rightarrow> bytes \<Rightarrow> nat \<Rightarrow> nat \<Rightarrow> exn + (pyval \<times> nat) option" where
  "packed_turn parse child_size child_type data stop current =
     (if current + child_size \<le> stop
      then rbind (pack_pair (int child_size) child_type) (\<lambda>header.
           rbind (parse (header @ slice data current child_size) 0) (\<lambda>v.
           Inr (Some (v, current + child_size))))
      else Inr None)"

lemma packed_turn_cong:
  assumes "\<And>d. declared_size d 0 = n \<Longrightarrow> c + n \<le> e \<Longrightarrow> f d 0 = g d 0"
  shows "packed_turn f n t data e c = packed_turn g n t data e c"
proof -
  have "f (h @ slice data c n) 0 = g (h @ slice data c n) 0" if "c + n \<le> e" "pack_pair (int n) t = Inr h" for h
    using assms that declared_size_packed [OF that(2)] by simp
  then show ?thesis by (auto simp: packed_turn_def intro!: rbind_cong)
qed

text \<open>Pods one after the other, each padded to eight bytes; one that does not fit ends the loop.\<close>

definition struct_turn :: "parser \<Rightarrow> bytes \<Rightarrow> nat \<Rightarrow> nat \<Rightarrow> exn + (pyval \<times> nat) option" where
  "struct_turn parse data stop current =
     (if current + 8 \<le> stop
      then rbind (parse_pod_header data current) (\<lambda>(pod_size, _).
           let total_size = align (8 + pod_size)
           in if current + total_size > stop then Inr None
              else rbind (parse data current) (\<lambda>v. Inr (Some (v, current + total_size))))
      else Inr None)"

text \<open>Controls of a sequence: an offset, a type, and a pod.\<close>

definition control_turn :: "parser \<Rightarrow> bytes \<Rightarrow> nat \<Rightarrow> nat \<Rightarrow> exn + (pyval \<times> nat) option" where
  "control_turn parse data stop current =
     (if current + 16 \<le> stop
      then rbind (unpack_pair data current) (\<lambda>(control_offset, control_type).
           rbind (parse_pod_header data (current + 8)) (\<lambda>(pod_size, _).
           let total_size = align (8 + pod_size)
           in if current + 8 + total_size > stop then Inr None
              else rbind (parse data (current + 8)) (\<lambda>v.
                Inr (Some (PDict [(PStr ''offset'', PInt control_offset), (PStr ''type'', PInt control_type),
                  (PStr ''value'', v)], current + 8 + total_size)))))
      else Inr None)"

text \<open>
  Properties of an object: a key, flags, and a pod.  A key with a specification is replaced by
  its name and the value is brought into the shape of the property.
\<close>

definition property_turn ::
    "parser \<Rightarrow> int \<Rightarrow> bytes \<Rightarrow> nat \<Rightarrow> nat \<Rightarrow> exn + ((int \<times> int \<times> pyval) \<times> nat) option" where
  "property_turn parse object_id data stop current =
     (if current + 16 \<le> stop
      then rbind (unpack_pair data current) (\<lambda>(prop_key, flags).
           rbind (parse_pod_header data (current + 8)) (\<lambda>(pod_size, _).
           let total_size = align (8 + pod_size)
           in if current + 8 + total_size > stop then Inr None
              else rbind (parse data (current + 8)) (\<lambda>v.
                   rbind (if property_spec_by_key object_id prop_key \<noteq> None
                          then specialize_property_value object_id prop_key v else Inr v) (\<lambda>w.
                   Inr (Some ((prop_key, flags, w), current + 8 + total_size))))))
      else Inr None)"

text \<open>A turn only parses a child that ends where the container ends, or before.\<close>

lemma struct_turn_cong:
  assumes "\<And>n t. parse_pod_header data c = Inr (n, t) \<Longrightarrow> c + align (8 + n) \<le> e \<Longrightarrow> f data c = g data c"
  shows "struct_turn f data e c = struct_turn g data e c"
  using assms by (cases "parse_pod_header data c") (auto simp: struct_turn_def Let_def)

lemma control_turn_cong:
  assumes "\<And>n t. parse_pod_header data (c + 8) = Inr (n, t) \<Longrightarrow> c + 8 + align (8 + n) \<le> e \<Longrightarrow> f data (c + 8) = g data (c + 8)"
  shows "control_turn f data e c = control_turn g data e c"
  using assms by (cases "parse_pod_header data (c + 8)"; cases "unpack_pair data c") (auto simp: control_turn_def Let_def)

lemma property_turn_cong:
  assumes "\<And>n t. parse_pod_header data (c + 8) = Inr (n, t) \<Longrightarrow> c + 8 + align (8 + n) \<le> e \<Longrightarrow> f data (c + 8) = g data (c + 8)"
  shows "property_turn f i data e c = property_turn g i data e c"
  using assms by (cases "parse_pod_header data (c + 8)"; cases "unpack_pair data c") (auto simp: property_turn_def Let_def)

section \<open>Containers\<close>

definition parse_array :: "parser \<Rightarrow> bytes \<Rightarrow> nat \<Rightarrow> nat \<Rightarrow> exn + pyval" where
  "parse_array parse data offset count =
     (if count < 8
      then Inr (pod_mapping SPA_TYPE_Array [(''child_size'', PInt 0), (''child_type'', PInt SPA_TYPE_None), (''values'', PList [])])
      else rbind (unpack_pair data offset) (\<lambda>(child_size, child_type).
           rbind (if child_size = 0 then Inr []
                  else collect (offset + count) (packed_turn parse (nat child_size) child_type data (offset + count)) (offset + 8))
             (\<lambda>values.
           Inr (pod_mapping SPA_TYPE_Array [(''child_size'', PInt child_size), (''child_type'', PInt child_type),
             (''values'', PList values)]))))"

definition parse_struct :: "parser \<Rightarrow> bytes \<Rightarrow> nat \<Rightarrow> nat \<Rightarrow> exn + pyval" where
  "parse_struct parse data offset count =
     rbind (collect (offset + count) (struct_turn parse data (offset + count)) offset) (\<lambda>values.
     Inr (pod_mapping SPA_TYPE_Struct [(''values'', PList values)]))"

text \<open>The entries a choice has beside its values, by its type.\<close>

definition choice_entries :: "int \<Rightarrow> pyval list \<Rightarrow> fields" where
  "choice_entries choice_type values =
     (if choice_type = SPA_CHOICE_Range \<and> length values \<ge> 3
      then [(''default'', values ! 0), (''min'', values ! 1), (''max'', values ! 2)]
      else if choice_type = SPA_CHOICE_Step \<and> length values \<ge> 4
      then [(''default'', values ! 0), (''min'', values ! 1), (''max'', values ! 2), (''step'', values ! 3)]
      else if choice_type = SPA_CHOICE_Enum \<and> values \<noteq> []
      then [(''default'', hd values), (''alternatives'', PList (tl values))]
      else if choice_type = SPA_CHOICE_Flags \<and> values \<noteq> []
      then [(''default'', hd values), (''flags_values'', PList (tl values))]
      else if choice_type = SPA_CHOICE_None \<and> values \<noteq> []
      then [(''value'', hd values)]
      else [])"

definition parse_choice :: "parser \<Rightarrow> bytes \<Rightarrow> nat \<Rightarrow> nat \<Rightarrow> exn + pyval" where
  "parse_choice parse data offset count =
     (if count < 16
      then Inr (pod_mapping SPA_TYPE_Choice [(''choice_type'', PInt SPA_CHOICE_None), (''flags'', PInt 0), (''child_size'', PInt 0),
             (''child_type'', PInt SPA_TYPE_None), (''values'', PList [])])
      else rbind (unpack_pair data offset) (\<lambda>(choice_type, flags).
           rbind (unpack_pair data (offset + 8)) (\<lambda>(child_size, child_type).
           rbind (if child_size > 0
                  then collect (offset + count) (packed_turn parse (nat child_size) child_type data (offset + count)) (offset + 16)
                  else Inr [])
             (\<lambda>values.
           Inr (pod_mapping SPA_TYPE_Choice ([(''choice_type'', PInt choice_type), (''flags'', PInt flags),
             (''child_size'', PInt child_size), (''child_type'', PInt child_type), (''values'', PList values)] @
             choice_entries choice_type values))))))"

definition parse_sequence :: "parser \<Rightarrow> bytes \<Rightarrow> nat \<Rightarrow> nat \<Rightarrow> exn + pyval" where
  "parse_sequence parse data offset count =
     (if count < 8 then Inr (pod_mapping SPA_TYPE_Sequence [(''unit'', PInt 0), (''controls'', PList [])])
      else rbind (unpack_u32 data offset) (\<lambda>unit.
           rbind (collect (offset + count) (control_turn parse data (offset + count)) (offset + 8)) (\<lambda>controls.
           Inr (pod_mapping SPA_TYPE_Sequence [(''unit'', PInt unit), (''controls'', PList controls)]))))"

definition parse_pointer :: "bytes \<Rightarrow> nat \<Rightarrow> nat \<Rightarrow> exn + pyval" where
  "parse_pointer data offset count =
     (if count < 8 then Inr (pod_mapping SPA_TYPE_Pointer [(''pointer_type'', PInt 0), (''value'', PInt 0)])
      else rbind (unpack_u32 data offset) (\<lambda>pointer_type.
           rbind (if count \<ge> 16 then unpack_u64 data (offset + 8)
                  else if count \<ge> 12 then unpack_u32 data (offset + 8)
                  else Inr 0) (\<lambda>pointer_value.
           Inr (pod_mapping SPA_TYPE_Pointer [(''pointer_type'', PInt pointer_type), (''value'', PInt pointer_value)]))))"

definition parse_embedded_pod :: "parser \<Rightarrow> bytes \<Rightarrow> nat \<Rightarrow> nat \<Rightarrow> exn + pyval" where
  "parse_embedded_pod parse data offset count =
     (if count < 8 then Inr (pod_mapping SPA_TYPE_Pod [(''pod'', PNone)])
      else rbind (parse_pod_header data offset) (\<lambda>(pod_size, _).
           if align (8 + pod_size) > count then Inl (ValueError ''Embedded SPA pod exceeds container size'')
           else rbind (parse data offset) (\<lambda>v. Inr (pod_mapping SPA_TYPE_Pod [(''pod'', v)]))))"

section \<open>Objects\<close>

text \<open>The key of a property in the dictionaries of an object: its name when it has one.\<close>

definition property_key :: "int \<Rightarrow> int \<Rightarrow> pyval" where
  "property_key object_id prop_key =
     (case property_spec_by_key object_id prop_key of
        Some spec \<Rightarrow> PStr (spec_name spec)
      | None \<Rightarrow> PInt prop_key)"

definition property_dicts ::
    "int \<Rightarrow> (int \<times> int \<times> pyval) list \<Rightarrow> (pyval \<times> pyval) list \<times> (pyval \<times> pyval) list \<times> (pyval \<times> pyval) list" where
  "property_dicts object_id =
     foldl (\<lambda>(props, flags, keys) (prop_key, flag, v).
        let key = property_key object_id prop_key
        in (pydict_set props key v, pydict_set flags key (PInt flag),
            if property_spec_by_key object_id prop_key \<noteq> None then pydict_set keys key (PInt prop_key) else keys))
       ([], [], [])"

definition object_result ::
    "int \<Rightarrow> int \<Rightarrow> (pyval \<times> pyval) list \<Rightarrow> (pyval \<times> pyval) list \<Rightarrow> (pyval \<times> pyval) list \<Rightarrow> exn + pyval" where
  "object_result object_type object_id props flags keys =
     (case map_of OBJECT_CLASSES_BY_ID object_id of
        Some cls \<Rightarrow>
          rbind (spa_init cls (Some props) (Some flags) (Some keys) (Some (PInt object_type)) (Some (PInt object_id))
                   (object_param_name object_id) []) (\<lambda>ob. Inr (spa_object ob))
      | None \<Rightarrow>
          Inr (pod_mapping SPA_TYPE_Object ([(''_object_type'', PInt object_type), (''_object_id'', PInt object_id),
            (''object_type'', PInt object_type), (''object_id'', PInt object_id), (''properties'', PDict props),
            (''property_flags'', PDict flags), (''property_keys'', PDict keys)] @
            (case object_param_name object_id of None \<Rightarrow> [] | Some name \<Rightarrow> [(''object_name'', PStr name)]))))"

definition parse_object :: "parser \<Rightarrow> bytes \<Rightarrow> nat \<Rightarrow> nat \<Rightarrow> exn + pyval" where
  "parse_object parse data offset count =
     (if count < 8
      then Inr (pod_mapping SPA_TYPE_Object [(''_object_type'', PInt 0), (''_object_id'', PInt 0), (''object_type'', PInt 0),
             (''object_id'', PInt 0), (''properties'', PDict []), (''property_flags'', PDict []), (''property_keys'', PDict [])])
      else rbind (unpack_pair data offset) (\<lambda>(object_type, object_id).
           rbind (collect (offset + count) (property_turn parse object_id data (offset + count)) (offset + 8)) (\<lambda>items.
           case property_dicts object_id items of
             (props, flags, keys) \<Rightarrow> object_result object_type object_id props flags keys)))"

section \<open>The parser\<close>

text \<open>A container parses only children whose declared size is smaller than its own.\<close>

lemma child_smaller:
  assumes "parse_pod_header data i = Inr (n, t)" "i + align (8 + n) \<le> offset + count" "offset \<le> i"
  shows "declared_size data i < count"
  using assms align_bounds(1) [of "8 + n"] by simp

lemma parse_array_cong [fundef_cong]:
  assumes "data = data'" "offset = offset'" "count = count'" "\<And>d i. declared_size d i < count' \<Longrightarrow> f d i = g d i"
  shows "parse_array f data offset count = parse_array g data' offset' count'"
proof -
  have "collect (offset + count) (packed_turn f n t data (offset + count)) (offset + 8) =
      collect (offset + count) (packed_turn g n t data (offset + count)) (offset + 8)" for n t
    by (rule collect_cong, rule packed_turn_cong) (use assms in simp)
  then show ?thesis using assms by (simp add: parse_array_def split_def cong: if_cong)
qed

lemma parse_choice_cong [fundef_cong]:
  assumes "data = data'" "offset = offset'" "count = count'" "\<And>d i. declared_size d i < count' \<Longrightarrow> f d i = g d i"
  shows "parse_choice f data offset count = parse_choice g data' offset' count'"
proof -
  have "collect (offset + count) (packed_turn f n t data (offset + count)) (offset + 16) =
      collect (offset + count) (packed_turn g n t data (offset + count)) (offset + 16)" for n t
    by (rule collect_cong, rule packed_turn_cong) (use assms in simp)
  then show ?thesis using assms by (simp add: parse_choice_def split_def cong: if_cong)
qed

lemma parse_struct_cong [fundef_cong]:
  assumes "data = data'" "offset = offset'" "count = count'" "\<And>d i. declared_size d i < count' \<Longrightarrow> f d i = g d i"
  shows "parse_struct f data offset count = parse_struct g data' offset' count'"
proof -
  have "collect (offset + count) (struct_turn f data (offset + count)) offset =
      collect (offset + count) (struct_turn g data (offset + count)) offset"
    by (rule collect_cong, rule struct_turn_cong) (use assms child_smaller [of data _ _ _ offset count] in auto)
  then show ?thesis using assms by (simp add: parse_struct_def split_def cong: if_cong)
qed

lemma parse_sequence_cong [fundef_cong]:
  assumes "data = data'" "offset = offset'" "count = count'" "\<And>d i. declared_size d i < count' \<Longrightarrow> f d i = g d i"
  shows "parse_sequence f data offset count = parse_sequence g data' offset' count'"
proof -
  have "collect (offset + count) (control_turn f data (offset + count)) (offset + 8) =
      collect (offset + count) (control_turn g data (offset + count)) (offset + 8)"
    by (rule collect_cong, rule control_turn_cong) (use assms child_smaller [of data _ _ _ offset count] in auto)
  then show ?thesis using assms by (simp add: parse_sequence_def split_def cong: if_cong)
qed

lemma parse_object_cong [fundef_cong]:
  assumes "data = data'" "offset = offset'" "count = count'" "\<And>d i. declared_size d i < count' \<Longrightarrow> f d i = g d i"
  shows "parse_object f data offset count = parse_object g data' offset' count'"
proof -
  have "collect (offset + count) (property_turn f i data (offset + count)) (offset + 8) =
      collect (offset + count) (property_turn g i data (offset + count)) (offset + 8)" for i
    by (rule collect_cong, rule property_turn_cong) (use assms child_smaller [of data _ _ _ offset count] in auto)
  then show ?thesis using assms by (simp add: parse_object_def split_def cong: if_cong)
qed

lemma parse_embedded_pod_cong [fundef_cong]:
  assumes "data = data'" "offset = offset'" "count = count'" "\<And>d i. declared_size d i < count' \<Longrightarrow> f d i = g d i"
  shows "parse_embedded_pod f data offset count = parse_embedded_pod g data' offset' count'"
proof -
  have "f data offset = g data offset" if "parse_pod_header data offset = Inr (n, t)" "align (8 + n) \<le> count" for n t
    using assms child_smaller [of data offset n t offset count] that by simp
  then show ?thesis
    using assms(1-3) by (cases "parse_pod_header data offset") (auto simp: parse_embedded_pod_def)
qed

definition parse_string :: "bytes \<Rightarrow> pyval" where
  "parse_string body = PStr (map char_of (decode_replace (map unat (takeWhile (\<lambda>b. b \<noteq> 0) body))))"

text \<open>The pods without children; \<open>None\<close> for the types of containers.\<close>

definition parse_leaf :: "int \<Rightarrow> bytes \<Rightarrow> nat \<Rightarrow> nat \<Rightarrow> (exn + pyval) option" where
  "parse_leaf pod_type data offset count =
     (if pod_type = SPA_TYPE_None then Some (Inr PNone)
      else if pod_type = SPA_TYPE_Bool then Some (rbind (unpack_i32 data offset) (\<lambda>i. Inr (PBool (i \<noteq> 0))))
      else if pod_type = SPA_TYPE_Id then Some (rbind (unpack_u32 data offset) (\<lambda>i. Inr (PInt i)))
      else if pod_type = SPA_TYPE_Int then Some (rbind (unpack_i32 data offset) (\<lambda>i. Inr (PInt i)))
      else if pod_type = SPA_TYPE_Long then Some (rbind (unpack_i64 data offset) (\<lambda>i. Inr (PInt i)))
      else if pod_type = SPA_TYPE_Float then Some (rbind (unpack_f32 data offset) (\<lambda>f. Inr (PFloat f)))
      else if pod_type = SPA_TYPE_Double then Some (rbind (unpack_f64 data offset) (\<lambda>f. Inr (PFloat f)))
      else if pod_type = SPA_TYPE_String then Some (Inr (parse_string (slice data offset count)))
      else if pod_type = SPA_TYPE_Bytes then Some (Inr (PBytes (slice data offset count)))
      else if pod_type = SPA_TYPE_Rectangle then
        Some (rbind (unpack_pair data offset) (\<lambda>(width, height).
          Inr (pod_mapping SPA_TYPE_Rectangle [(''width'', PInt width), (''height'', PInt height)])))
      else if pod_type = SPA_TYPE_Fraction then
        Some (rbind (unpack_pair data offset) (\<lambda>(num, denom).
          Inr (pod_mapping SPA_TYPE_Fraction [(''num'', PInt num), (''denom'', PInt denom)])))
      else if pod_type = SPA_TYPE_Bitmap then
        Some (Inr (pod_mapping SPA_TYPE_Bitmap [(''data'', PBytes (slice data offset count))]))
      else if pod_type = SPA_TYPE_Pointer then Some (parse_pointer data offset count)
      else if pod_type = SPA_TYPE_Fd then Some (rbind (unpack_i64 data offset) (\<lambda>i. Inr (PInt i)))
      else if SPA_TYPE_None \<le> pod_type \<and> pod_type \<le> SPA_TYPE_Pod then None
      else Some (Inr (pod_mapping pod_type [(''_type'', PInt pod_type), (''_size'', PInt (int count)),
             (''_data'', PBytes (slice data offset count))])))"

function parse_spa_pod :: "bytes \<Rightarrow> nat \<Rightarrow> exn + pyval" where
  "parse_spa_pod data offset =
     rbind (parse_pod_header data offset) (\<lambda>(count, pod_type).
     rbind (ensure_available data (offset + 8) count) (\<lambda>_.
       case parse_leaf pod_type data (offset + 8) count of
         Some result \<Rightarrow> result
       | None \<Rightarrow>
           if pod_type = SPA_TYPE_Array then parse_array parse_spa_pod data (offset + 8) count
           else if pod_type = SPA_TYPE_Struct then parse_struct parse_spa_pod data (offset + 8) count
           else if pod_type = SPA_TYPE_Object then parse_object parse_spa_pod data (offset + 8) count
           else if pod_type = SPA_TYPE_Sequence then parse_sequence parse_spa_pod data (offset + 8) count
           else if pod_type = SPA_TYPE_Choice then parse_choice parse_spa_pod data (offset + 8) count
           else parse_embedded_pod parse_spa_pod data (offset + 8) count))"
  by pat_completeness auto
termination
  by (relation "measure (\<lambda>(data, offset). declared_size data offset)") auto

declare parse_spa_pod.simps [simp del]

end
