(* ===== verification/SpaBuild.thy ===== *)
theory SpaBuild
  imports SpaParse
begin

text \<open>
  \<open>build_spa_pod\<close> of \<open>src/src/wyreplumber/spa_pod.py\<close> and the containers it writes.  A container is
  built with the builder of its children as an argument.  The recursion is bounded by \<open>limit\<close>,
  the number of nested pods the interpreter's recursion limit allows; a deeper value raises
  \<open>RecursionError\<close>, which is a \<open>RuntimeError\<close>.
\<close>

type_synonym builder = "pyval \<Rightarrow> int option \<Rightarrow> exn + bytes"

section \<open>Types\<close>

text \<open>\<open>_explicit_pod_type\<close>\<close>

definition explicit_pod_type :: "pyval \<Rightarrow> int option" where
  "explicit_pod_type value =
     (case as_mapping value of
        None \<Rightarrow> None
      | Some kvs \<Rightarrow>
          (case Option.bind (dict_get kvs ''_pod_type'') int_like of
             Some t \<Rightarrow> Some t
           | None \<Rightarrow> Option.bind (dict_get kvs ''pod_type'') int_like))"

text \<open>What the entries of a mapping without an explicit type say of it.\<close>

definition mapping_type :: "(pyval \<times> pyval) list \<Rightarrow> int option" where
  "mapping_type kvs =
     (let has = (\<lambda>k. dict_get kvs k \<noteq> None)
      in if has ''width'' \<and> has ''height'' then Some SPA_TYPE_Rectangle
         else if has ''num'' \<and> has ''denom'' then Some SPA_TYPE_Fraction
         else if has ''choice_type'' then Some SPA_TYPE_Choice
         else if has ''controls'' then Some SPA_TYPE_Sequence
         else if has ''pointer_type'' then Some SPA_TYPE_Pointer
         else if has ''object_type'' \<or> has ''_object_type'' \<or> has ''object_id'' \<or> has ''_object_id'' \<or> has ''properties''
         then Some SPA_TYPE_Object
         else if has ''pod'' then Some SPA_TYPE_Pod
         else if has ''values'' \<and> has ''child_type'' then Some SPA_TYPE_Array
         else if has ''values'' then Some SPA_TYPE_Struct
         else None)"

definition infer_spa_type :: "pyval \<Rightarrow> exn + int" where
  "infer_spa_type value =
     (case explicit_pod_type value of
        Some t \<Rightarrow> Inr t
      | None \<Rightarrow>
          (case value of
             PSpaObject _ _ _ _ _ _ _ \<Rightarrow> Inr SPA_TYPE_Object
           | PNone \<Rightarrow> Inr SPA_TYPE_None
           | PBool _ \<Rightarrow> Inr SPA_TYPE_Bool
           | PIntEnum _ _ _ \<Rightarrow> Inr SPA_TYPE_Id
           | PInt i \<Rightarrow> Inr (if - 2147483648 \<le> i \<and> i \<le> 2147483647 then SPA_TYPE_Int else SPA_TYPE_Long)
           | PFloat _ \<Rightarrow> Inr SPA_TYPE_Float
           | PStr _ \<Rightarrow> Inr SPA_TYPE_String
           | PStrEnum _ _ \<Rightarrow> Inr SPA_TYPE_String
           | PBytes _ \<Rightarrow> Inr SPA_TYPE_Bytes
           | PTuple _ \<Rightarrow> Inr SPA_TYPE_Struct
           | PList _ \<Rightarrow> Inr SPA_TYPE_Struct
           | _ \<Rightarrow>
               (case Option.bind (as_mapping value) mapping_type of
                  Some t \<Rightarrow> Inr t
                | None \<Rightarrow> Inl (ValueError ''Cannot infer SPA type for value''))))"

section \<open>Leaves\<close>

text \<open>
  \<open>_rectangle_parts\<close> and \<open>_fraction_parts\<close>: two entries of a mapping, or a sequence of two items.
\<close>

definition pair_parts :: "string \<Rightarrow> string \<Rightarrow> exn \<Rightarrow> pyval \<Rightarrow> exn + int \<times> int" where
  "pair_parts first second wrong value =
     (case as_mapping value of
        Some kvs \<Rightarrow>
          (case dict_get kvs first of
             None \<Rightarrow> Inl (KeyError first)
           | Some a \<Rightarrow> rbind (to_int a) (\<lambda>x.
               case dict_get kvs second of
                 None \<Rightarrow> Inl (KeyError second)
               | Some b \<Rightarrow> rbind (to_int b) (\<lambda>y. Inr (x, y))))
      | None \<Rightarrow>
          (case sequence_items value of
             Some [a, b] \<Rightarrow> rbind (to_int a) (\<lambda>x. rbind (to_int b) (\<lambda>y. Inr (x, y)))
           | _ \<Rightarrow> Inl wrong))"

definition rectangle_parts :: "pyval \<Rightarrow> exn + int \<times> int" where
  "rectangle_parts = pair_parts ''width'' ''height''
     (ValueError (''Rectangle pod expects {'' @ [CHR 0x27] @ ''width'' @ [CHR 0x27] @ '', '' @ [CHR 0x27] @ ''height'' @
        [CHR 0x27] @ ''} or a 2-item sequence''))"

definition fraction_parts :: "pyval \<Rightarrow> exn + int \<times> int" where
  "fraction_parts = pair_parts ''num'' ''denom''
     (ValueError (''Fraction pod expects {'' @ [CHR 0x27] @ ''num'' @ [CHR 0x27] @ '', '' @ [CHR 0x27] @ ''denom'' @
        [CHR 0x27] @ ''} or a 2-item sequence''))"

definition build_pointer_pod :: "pyval \<Rightarrow> exn + bytes" where
  "build_pointer_pod value =
     (case as_mapping value of
        None \<Rightarrow> Inl (ValueError ''Pointer pods require a mapping'')
      | Some kvs \<Rightarrow>
          rbind (to_int (get_or kvs ''pointer_type'' (PInt 0))) (\<lambda>pointer_type.
          rbind (to_int (get_or kvs ''value'' (PInt 0))) (\<lambda>pointer_value.
          rbind (pack_pair pointer_type 0) (\<lambda>a. rbind (pack_u64 pointer_value) (\<lambda>b.
          pack_pod SPA_TYPE_Pointer (a @ b))))))"

text \<open>\<open>body = value.get("data") if isinstance(value, Mapping) else value\<close>\<close>

definition bitmap_body :: "pyval \<Rightarrow> exn + bytes" where
  "bitmap_body value =
     to_bytes (case as_mapping value of Some kvs \<Rightarrow> get_or kvs ''data'' PNone | None \<Rightarrow> value)"

text \<open>The pods without children; \<open>None\<close> for the types of containers.\<close>

definition build_leaf :: "(pyval \<Rightarrow> string) \<Rightarrow> pyval \<Rightarrow> int \<Rightarrow> (exn + bytes) option" where
  "build_leaf text_of value pod_type =
     (if pod_type = SPA_TYPE_None then Some (pack_pod SPA_TYPE_None [])
      else if pod_type = SPA_TYPE_Bool then
        Some (rbind (pack_i32 (if truthy value then 1 else 0)) (pack_pod SPA_TYPE_Bool))
      else if pod_type = SPA_TYPE_Id then Some (rbind (to_int value) (\<lambda>i. rbind (pack_u32 i) (pack_pod SPA_TYPE_Id)))
      else if pod_type = SPA_TYPE_Int then Some (rbind (to_int value) (\<lambda>i. rbind (pack_i32 i) (pack_pod SPA_TYPE_Int)))
      else if pod_type = SPA_TYPE_Long then Some (rbind (to_int value) (\<lambda>i. rbind (pack_i64 i) (pack_pod SPA_TYPE_Long)))
      else if pod_type = SPA_TYPE_Float then Some (rbind (to_float value) (\<lambda>f. rbind (pack_f32 f) (pack_pod SPA_TYPE_Float)))
      else if pod_type = SPA_TYPE_Double then Some (rbind (to_float value) (\<lambda>f. rbind (pack_f64 f) (pack_pod SPA_TYPE_Double)))
      else if pod_type = SPA_TYPE_String then
        Some (pack_pod SPA_TYPE_String (map word_of_nat (letters (to_str text_of value)) @ [0]))
      else if pod_type = SPA_TYPE_Bytes then Some (rbind (to_bytes value) (pack_pod SPA_TYPE_Bytes))
      else if pod_type = SPA_TYPE_Rectangle then
        Some (rbind (rectangle_parts value) (\<lambda>(width, height). rbind (pack_pair width height) (pack_pod SPA_TYPE_Rectangle)))
      else if pod_type = SPA_TYPE_Fraction then
        Some (rbind (fraction_parts value) (\<lambda>(num, denom). rbind (pack_pair num denom) (pack_pod SPA_TYPE_Fraction)))
      else if pod_type = SPA_TYPE_Bitmap then Some (rbind (bitmap_body value) (pack_pod SPA_TYPE_Bitmap))
      else if pod_type = SPA_TYPE_Pointer then Some (build_pointer_pod value)
      else if pod_type = SPA_TYPE_Fd then Some (rbind (to_int value) (\<lambda>i. rbind (pack_i64 i) (pack_pod SPA_TYPE_Fd)))
      else if SPA_TYPE_None \<le> pod_type \<and> pod_type \<le> SPA_TYPE_Pod then None
      else Some (Inl (ValueError (''Unsupported SPA type for building: '' @ show_int pod_type))))"

section \<open>Items of one size\<close>

text \<open>
  The loop over the items of an array or a choice: every item is built with the child type
  and has to have it, and the first item decides the size when none is given.  The child type
  and size are the objects the mapping holds, compared as Python compares them; a child type
  that equals none of the known ones is refused when an item is built with it.
\<close>

definition known_type :: "pyval \<Rightarrow> int" where
  "known_type v = (case find (\<lambda>t. py_eq v (PInt t)) (map int [1..<21]) of Some t \<Rightarrow> t | None \<Rightarrow> 0)"

fun item_bodies :: "builder \<Rightarrow> string \<Rightarrow> pyval \<Rightarrow> pyval \<Rightarrow> pyval list \<Rightarrow> exn + bytes \<times> pyval" where
  "item_bodies build what child_type child_size [] = Inr ([], child_size)"
| "item_bodies build what child_type child_size (item # items) =
     rbind (build item (Some (known_type child_type))) (\<lambda>pod.
     rbind (parse_pod_header pod 0) (\<lambda>(item_size, item_type).
       if \<not> py_eq (PInt item_type) child_type then Inl (ValueError (what @ '' must all use the same child type''))
       else if child_size \<noteq> PNone \<and> \<not> py_eq child_size (PInt (int item_size))
       then Inl (ValueError (what @ '' must all use the same child size''))
       else rbind (item_bodies build what child_type
                     (if child_size = PNone then PInt (int item_size) else child_size) items)
              (\<lambda>(bodies, final_size). Inr (slice pod 8 item_size @ bodies, final_size))))"

text \<open>The child type: the one given, or the type inferred from the first value.\<close>

definition child_type_of :: "pyval \<Rightarrow> pyval list \<Rightarrow> exn \<Rightarrow> exn + pyval" where
  "child_type_of given values refused =
     (if given \<noteq> PNone then Inr given
      else case values of
        [] \<Rightarrow> Inl refused
      | v # _ \<Rightarrow> rbind (infer_spa_type v) (\<lambda>t. Inr (PInt t)))"

definition items_with_type :: "builder \<Rightarrow> string \<Rightarrow> pyval \<Rightarrow> pyval \<Rightarrow> pyval list \<Rightarrow> exn + bytes \<times> int \<times> int" where
  "items_with_type build what child_type child_size values =
     rbind (item_bodies build what child_type child_size values) (\<lambda>(bodies, final_size).
     rbind (to_int (if final_size = PNone then PInt 0 else final_size)) (\<lambda>n.
     rbind (to_int child_type) (\<lambda>t.
     Inr (bodies, n, t))))"

section \<open>Containers\<close>

text \<open>The items of an array, and the child type and size that are given.\<close>

definition array_parts :: "pyval \<Rightarrow> exn + pyval list \<times> pyval \<times> pyval" where
  "array_parts value =
     (case as_mapping value of
        Some kvs \<Rightarrow> rbind (get_values kvs) (\<lambda>values. Inr (values, get_or kvs ''child_type'' PNone, get_or kvs ''child_size'' PNone))
      | None \<Rightarrow> rbind (to_list value) (\<lambda>values. Inr (values, PNone, PNone)))"

definition empty_array :: exn where
  "empty_array = ValueError (''Array pods require '' @ [CHR 0x27] @ ''child_type'' @ [CHR 0x27] @ '' when empty'')"

definition build_array_pod :: "builder \<Rightarrow> pyval \<Rightarrow> exn + bytes" where
  "build_array_pod build value =
     rbind (array_parts value) (\<lambda>(values, given_type, given_size).
     rbind (child_type_of given_type values empty_array) (\<lambda>child_type.
     rbind (items_with_type build ''Array items'' child_type given_size values) (\<lambda>(bodies, child_size, child_type).
     rbind (pack_pair child_size child_type) (\<lambda>header.
     pack_pod SPA_TYPE_Array (header @ bodies)))))"

fun struct_body :: "builder \<Rightarrow> pyval list \<Rightarrow> exn + bytes" where
  "struct_body build [] = Inr []"
| "struct_body build (item # items) =
     rbind (build item None) (\<lambda>pod. rbind (struct_body build items) (\<lambda>rest. Inr (pod @ rest)))"

definition struct_values :: "pyval \<Rightarrow> exn + pyval list" where
  "struct_values value = (case as_mapping value of Some kvs \<Rightarrow> get_values kvs | None \<Rightarrow> to_list value)"

definition build_struct_pod :: "builder \<Rightarrow> pyval \<Rightarrow> exn + bytes" where
  "build_struct_pod build value =
     rbind (struct_values value) (\<lambda>values. rbind (struct_body build values) (pack_pod SPA_TYPE_Struct))"

text \<open>The values of a choice: a single \<open>value\<close> stands for a list that is missing or empty.\<close>

definition choice_values :: "(pyval \<times> pyval) list \<Rightarrow> exn + pyval list" where
  "choice_values kvs =
     rbind (get_values kvs) (\<lambda>given.
     Inr (case dict_get kvs ''value'' of Some v \<Rightarrow> if given = [] then [v] else given | None \<Rightarrow> given))"

definition empty_choice :: exn where
  "empty_choice = ValueError (''Choice pods require '' @ [CHR 0x27] @ ''child_type'' @ [CHR 0x27] @ '' when empty'')"

definition build_choice_pod :: "builder \<Rightarrow> pyval \<Rightarrow> exn + bytes" where
  "build_choice_pod build value =
     (case as_mapping value of
        None \<Rightarrow> Inl (ValueError ''Choice pods require a mapping with choice metadata'')
      | Some kvs \<Rightarrow>
          rbind (choice_values kvs) (\<lambda>values.
          rbind (to_int (get_or kvs ''choice_type'' (PInt SPA_CHOICE_None))) (\<lambda>choice_type.
          rbind (to_int (get_or kvs ''flags'' (PInt 0))) (\<lambda>flags.
          rbind (child_type_of (get_or kvs ''child_type'' PNone) values empty_choice) (\<lambda>child_type.
          rbind (items_with_type build ''Choice values'' child_type (get_or kvs ''child_size'' PNone) values)
            (\<lambda>(bodies, child_size, child_type).
          rbind (pack_pair choice_type flags) (\<lambda>a.
          rbind (pack_pair child_size child_type) (\<lambda>b.
          pack_pod SPA_TYPE_Choice (a @ b @ bodies)))))))))"

fun control_bodies :: "builder \<Rightarrow> pyval list \<Rightarrow> exn + bytes" where
  "control_bodies build [] = Inr []"
| "control_bodies build (control # controls) =
     (case as_mapping control of
        None \<Rightarrow> Inl (ValueError ''Sequence control entries must be mappings'')
      | Some kvs \<Rightarrow>
          rbind (build (get_or kvs ''value'' PNone) None) (\<lambda>pod.
          rbind (to_int (get_or kvs ''offset'' (PInt 0))) (\<lambda>at.
          rbind (to_int (get_or kvs ''type'' (PInt 0))) (\<lambda>t.
          rbind (pack_pair at t) (\<lambda>header.
          rbind (control_bodies build controls) (\<lambda>rest. Inr (header @ pod @ rest)))))))"

definition build_sequence_pod :: "builder \<Rightarrow> pyval \<Rightarrow> exn + bytes" where
  "build_sequence_pod build value =
     (case as_mapping value of
        None \<Rightarrow> Inl (ValueError ''Sequence pods require a mapping'')
      | Some kvs \<Rightarrow>
          rbind (to_int (get_or kvs ''unit'' (PInt 0))) (\<lambda>unit.
            case sequence_items (get_or kvs ''controls'' (PList [])) of
              None \<Rightarrow> Inl (ValueError (''Sequence pods require a '' @ [CHR 0x27] @ ''controls'' @ [CHR 0x27] @ '' sequence''))
            | Some controls \<Rightarrow>
                rbind (pack_pair unit 0) (\<lambda>header.
                rbind (control_bodies build controls) (\<lambda>rest.
                pack_pod SPA_TYPE_Sequence (header @ rest)))))"

definition embedded_value :: "pyval \<Rightarrow> pyval" where
  "embedded_value value = (case as_mapping value of Some kvs \<Rightarrow> get_or kvs ''pod'' PNone | None \<Rightarrow> value)"

definition build_embedded_pod :: "builder \<Rightarrow> pyval \<Rightarrow> exn + bytes" where
  "build_embedded_pod build value =
     rbind (case embedded_value value of PBytes b \<Rightarrow> Inr b | embedded \<Rightarrow> build embedded None) (\<lambda>pod.
     rbind (parse_pod_header pod 0) (\<lambda>(pod_size, _).
     pack_pod SPA_TYPE_Pod (slice pod 0 (align (8 + pod_size)))))"

section \<open>Objects\<close>

text \<open>One property: its numeric key, its specification, and the key of its flags.\<close>

definition property_identity ::
    "(pyval \<Rightarrow> string) \<Rightarrow> int \<Rightarrow> (pyval \<times> pyval) list \<Rightarrow> pyval \<Rightarrow> exn + pyval \<times> PropertySpec option" where
  "property_identity text_of object_id keys key =
     (case int_like key of
        Some i \<Rightarrow> Inr (key, property_spec_by_key object_id i)
      | None \<Rightarrow>
          (let spec = property_spec_by_name object_id (to_str text_of key)
           in case (pydict_get keys key, spec) of
                (Some k, _) \<Rightarrow>
                  if k \<noteq> PNone then Inr (k, spec)
                  else (case spec of
                          Some sp \<Rightarrow> Inr (PInt (spec_key sp), spec)
                        | None \<Rightarrow> Inl (ValueError ''Unknown SPA object property''))
              | (None, Some sp) \<Rightarrow> Inr (PInt (spec_key sp), spec)
              | (None, None) \<Rightarrow> Inl (ValueError ''Unknown SPA object property'')))"

fun property_bodies ::
    "builder \<Rightarrow> (pyval \<Rightarrow> string) \<Rightarrow> int \<Rightarrow> (pyval \<times> pyval) list \<Rightarrow> (pyval \<times> pyval) list \<Rightarrow> (pyval \<times> pyval) list \<Rightarrow> exn + bytes" where
  "property_bodies build text_of object_id flags keys [] = Inr []"
| "property_bodies build text_of object_id flags keys ((key, raw_value) # properties) =
     rbind (property_identity text_of object_id keys key) (\<lambda>(given_key, spec).
     rbind (to_int given_key) (\<lambda>prop_key.
     rbind (prepare_property_value text_of object_id prop_key raw_value) (\<lambda>prepared.
     let nested_type = (case explicit_pod_type prepared of
                          Some t \<Rightarrow> Some t
                        | None \<Rightarrow> Option.bind spec spec_pod_type)
     in rbind (build prepared nested_type) (\<lambda>pod.
        rbind (to_int (case pydict_get flags key of Some f \<Rightarrow> f | None \<Rightarrow> PInt 0)) (\<lambda>flag.
        rbind (pack_pair prop_key flag) (\<lambda>header.
        rbind (property_bodies build text_of object_id flags keys properties) (\<lambda>rest.
        Inr (header @ pod @ rest))))))))"

text \<open>The parts of an object pod: from an instance, or from the entries of a mapping.\<close>

definition items_or_none :: "pyval \<Rightarrow> (pyval \<times> pyval) list" where
  "items_or_none value = (case as_mapping value of Some kvs \<Rightarrow> kvs | None \<Rightarrow> [])"

definition object_parts ::
    "pyval \<Rightarrow> exn + pyval \<times> pyval \<times> pyval \<times> (pyval \<times> pyval) list \<times> (pyval \<times> pyval) list" where
  "object_parts value =
     (case value of
        PSpaObject _ t i _ props flags keys \<Rightarrow> Inr (PInt t, PInt i, PDict props, flags, keys)
      | _ \<Rightarrow>
          (case as_mapping value of
             None \<Rightarrow> Inl (ValueError ''Object pods require a mapping'')
           | Some kvs \<Rightarrow>
               Inr (get_or kvs ''object_type'' (get_or kvs ''_object_type'' PNone),
                 get_or kvs ''object_id'' (get_or kvs ''_object_id'' PNone),
                 get_or kvs ''properties'' (PDict []),
                 items_or_none (get_or kvs ''property_flags'' (PDict [])),
                 items_or_none (get_or kvs ''property_keys'' (PDict [])))))"

definition actual_object_type :: "pyval \<Rightarrow> pyval \<Rightarrow> exn + pyval" where
  "actual_object_type given_type given_id =
     (if given_type = PNone
      then rbind (to_int given_id) (\<lambda>i.
           case object_type_for_id i of
             None \<Rightarrow> Inl (ValueError (''Object pod requires '' @ [CHR 0x27] @ ''object_type'' @ [CHR 0x27]))
           | Some t \<Rightarrow> Inr (PInt t))
      else Inr given_type)"

definition build_object_pod :: "builder \<Rightarrow> (pyval \<Rightarrow> string) \<Rightarrow> pyval \<Rightarrow> exn + bytes" where
  "build_object_pod build text_of value =
     rbind (object_parts value) (\<lambda>(given_type, given_id, properties, flags, keys).
       if given_id = PNone
       then Inl (ValueError (''Object pod requires '' @ [CHR 0x27] @ ''object_id'' @ [CHR 0x27]))
       else rbind (actual_object_type given_type given_id) (\<lambda>actual_type.
            case as_mapping properties of
              None \<Rightarrow> Inl (ValueError (''Object pod '' @ [CHR 0x27] @ ''properties'' @ [CHR 0x27] @ '' must be a mapping''))
            | Some items \<Rightarrow>
                rbind (to_int actual_type) (\<lambda>object_type.
                rbind (to_int given_id) (\<lambda>object_id.
                rbind (pack_pair object_type object_id) (\<lambda>header.
                rbind (property_bodies build text_of object_id flags keys items) (\<lambda>rest.
                pack_pod SPA_TYPE_Object (header @ rest)))))))"

section \<open>The builder\<close>

fun build_spa_pod :: "nat \<Rightarrow> (pyval \<Rightarrow> string) \<Rightarrow> builder" where
  "build_spa_pod 0 text_of value given_type = Inl (RuntimeError ''maximum recursion depth exceeded'')"
| "build_spa_pod (Suc limit) text_of value given_type =
     rbind (case given_type of Some t \<Rightarrow> Inr t | None \<Rightarrow> infer_spa_type value) (\<lambda>pod_type.
       let build = build_spa_pod limit text_of
       in case build_leaf text_of value pod_type of
            Some result \<Rightarrow> result
          | None \<Rightarrow>
              if pod_type = SPA_TYPE_Array then build_array_pod build value
              else if pod_type = SPA_TYPE_Struct then build_struct_pod build value
              else if pod_type = SPA_TYPE_Object then build_object_pod build text_of value
              else if pod_type = SPA_TYPE_Sequence then build_sequence_pod build value
              else if pod_type = SPA_TYPE_Choice then build_choice_pod build value
              else build_embedded_pod build value)"

declare build_spa_pod.simps [simp del]

text \<open>\<open>parse_spa_pod_dict\<close> and \<open>build_spa_pod_dict\<close>, on the raw form \<open>{type, size, data}\<close> of the native layer.\<close>

definition parse_spa_pod_dict :: "pyval \<Rightarrow> pyval" where
  "parse_spa_pod_dict pod_dict =
     (case pod_dict of
        PDict kvs \<Rightarrow>
          (case dict_get kvs ''data'' of
             Some (PBytes data) \<Rightarrow> (case parse_spa_pod data 0 of Inr v \<Rightarrow> v | Inl _ \<Rightarrow> pod_dict)
           | _ \<Rightarrow> pod_dict)
      | _ \<Rightarrow> pod_dict)"

definition build_spa_pod_dict :: "nat \<Rightarrow> (pyval \<Rightarrow> string) \<Rightarrow> pyval \<Rightarrow> int option \<Rightarrow> exn + pyval" where
  "build_spa_pod_dict limit text_of value pod_type =
     rbind (build_spa_pod limit text_of value pod_type) (\<lambda>data.
     rbind (parse_pod_header data 0) (\<lambda>(count, spa_type).
     Inr (PDict [(PStr ''type'', PInt spa_type), (PStr ''size'', PInt (int count)), (PStr ''data'', PBytes data)])))"

end
