(* ===== verification/SpaFramed.thy ===== *)
theory SpaFramed
  imports SpaBuild
begin

text \<open>
  What it means that a pod is framed and that a body reads as a value wherever it stands in the
  data, and the pods without children: each leaf is built from a body that reads as the leaf.
\<close>

section \<open>Every built pod is framed\<close>

text \<open>A pod: the header that declares its body, the body, and the padding to eight bytes.\<close>

definition framed :: "int \<Rightarrow> bytes \<Rightarrow> bytes \<Rightarrow> bool" where
  "framed t body pod \<longleftrightarrow> pack_pod t body = Inr pod"

lemma framed_parts:
  assumes "framed t body pod"
  shows "\<exists>h p. pod = h @ body @ p \<and> pack_pair (int (length body)) t = Inr h \<and> length h = 8 \<and>
    length (h @ body @ p) = align (8 + length body)"
proof -
  obtain h where h: "pack_pair (int (length body)) t = Inr h"
      "pod = h @ body @ replicate (align (8 + length body) - (8 + length body)) 0"
    using assms by (auto simp: framed_def pack_pod_def Let_def elim: rbind_InrE)
  moreover have "length h = 8" by (rule pack_pair_value(1) [OF h(1)])
  ultimately show ?thesis using align_bounds(1) [of "8 + length body"] by auto
qed

lemma build_leaf_framed:
  assumes "build_leaf text_of v t = Some (Inr pod)"
  shows "\<exists>body. framed t body pod"
  using assms
  by (auto simp: build_leaf_def framed_def build_pointer_pod_def split: if_splits option.splits elim!: rbind_InrE)

lemma build_framed:
  assumes "build_spa_pod limit text_of v given_type = Inr pod"
  shows "\<exists>t body. framed t body pod \<and> (case given_type of Some t' \<Rightarrow> t = t' | None \<Rightarrow> infer_spa_type v = Inr t)"
proof (cases limit)
  case (Suc l)
  with assms obtain t where t: "(case given_type of Some t \<Rightarrow> Inr t | None \<Rightarrow> infer_spa_type v) = Inr t"
      and b: "(case build_leaf text_of v t of
            Some result \<Rightarrow> result
          | None \<Rightarrow>
              if t = SPA_TYPE_Array then build_array_pod (build_spa_pod l text_of) v
              else if t = SPA_TYPE_Struct then build_struct_pod (build_spa_pod l text_of) v
              else if t = SPA_TYPE_Object then build_object_pod (build_spa_pod l text_of) text_of v
              else if t = SPA_TYPE_Sequence then build_sequence_pod (build_spa_pod l text_of) v
              else if t = SPA_TYPE_Choice then build_choice_pod (build_spa_pod l text_of) v
              else build_embedded_pod (build_spa_pod l text_of) v) = Inr pod"
    by (auto simp: build_spa_pod.simps Let_def elim!: rbind_InrE)
  have "\<exists>body. framed t body pod"
  proof (cases "build_leaf text_of v t")
    case None
    then have leafless: "t = SPA_TYPE_Array \<or> t = SPA_TYPE_Struct \<or> t = SPA_TYPE_Object \<or> t = SPA_TYPE_Sequence \<or>
        t = SPA_TYPE_Choice \<or> t = SPA_TYPE_Pod"
      by (simp add: build_leaf_def split: if_splits) presburger
    with b None show ?thesis
      by (auto simp: framed_def build_array_pod_def build_struct_pod_def build_object_pod_def build_sequence_pod_def
        build_choice_pod_def build_embedded_pod_def Let_def split: option.splits if_splits prod.splits elim!: rbind_InrE) blast+
  next
    case (Some r)
    then show ?thesis using b build_leaf_framed by simp
  qed
  then show ?thesis using t by (cases given_type) auto
qed (use assms in \<open>simp add: build_spa_pod.simps\<close>)

section \<open>Reading a pod\<close>

text \<open>The body parses to the value after a header that declares it, whatever surrounds the pod.\<close>

definition reads :: "int \<Rightarrow> pyval \<Rightarrow> bytes \<Rightarrow> bool" where
  "reads t v body \<longleftrightarrow>
     (\<forall>h pre post. pack_pair (int (length body)) t = Inr h \<longrightarrow> parse_spa_pod (pre @ h @ body @ post) (length pre) = Inr v)"

lemma parse_at:
  assumes "pack_pair (int (length body)) t = Inr h"
  shows "parse_spa_pod (pre @ h @ body @ post) (length pre) =
    (let data = pre @ h @ body @ post; offset = length pre + 8; count = length body
     in case parse_leaf t data offset count of
          Some result \<Rightarrow> result
        | None \<Rightarrow>
            if t = SPA_TYPE_Array then parse_array parse_spa_pod data offset count
            else if t = SPA_TYPE_Struct then parse_struct parse_spa_pod data offset count
            else if t = SPA_TYPE_Object then parse_object parse_spa_pod data offset count
            else if t = SPA_TYPE_Sequence then parse_sequence parse_spa_pod data offset count
            else if t = SPA_TYPE_Choice then parse_choice parse_spa_pod data offset count
            else parse_embedded_pod parse_spa_pod data offset count)"
proof -
  have h: "length h = 8" by (rule pack_pair_value(1) [OF assms])
  then have "parse_pod_header (pre @ h @ body @ post) (length pre) = Inr (length body, t)"
    using pack_pair_value(2) [OF assms, of pre "body @ post"] by (simp add: parse_pod_header_def)
  then show ?thesis
    using h by (subst parse_spa_pod.simps) (simp add: ensure_available_def Let_def)
qed

text \<open>The body of a pod inside the data: what the fields and slices of it are.\<close>

lemma reads_leafI:
  assumes "\<And>pre post. parse_leaf t (pre @ body @ post) (length pre) (length body) = Some (Inr v)"
  shows "reads t v body"
  unfolding reads_def
proof (intro allI impI)
  fix h pre post
  assume h: "pack_pair (int (length body)) t = Inr h"
  have "length (pre @ h) = length pre + 8" using pack_pair_value(1) [OF h] by simp
  then have "parse_leaf t (pre @ h @ body @ post) (length pre + 8) (length body) = Some (Inr v)"
    using assms [of "pre @ h" post] by (metis append.assoc)
  then show "parse_spa_pod (pre @ h @ body @ post) (length pre) = Inr v"
    by (simp add: parse_at [OF h] Let_def)
qed

lemma reads_containerI:
  assumes "\<And>pre post data count. data = pre @ body @ post \<Longrightarrow> count = length body \<Longrightarrow>
      (if t = SPA_TYPE_Array then parse_array parse_spa_pod data (length pre) count
       else if t = SPA_TYPE_Struct then parse_struct parse_spa_pod data (length pre) count
       else if t = SPA_TYPE_Object then parse_object parse_spa_pod data (length pre) count
       else if t = SPA_TYPE_Sequence then parse_sequence parse_spa_pod data (length pre) count
       else if t = SPA_TYPE_Choice then parse_choice parse_spa_pod data (length pre) count
       else parse_embedded_pod parse_spa_pod data (length pre) count) = Inr v"
    and "t \<in> {SPA_TYPE_Array, SPA_TYPE_Struct, SPA_TYPE_Object, SPA_TYPE_Sequence, SPA_TYPE_Choice, SPA_TYPE_Pod}"
  shows "reads t v body"
  unfolding reads_def
proof (intro allI impI)
  fix h pre post
  assume h: "pack_pair (int (length body)) t = Inr h"
  have l: "length (pre @ h) = length pre + 8" using pack_pair_value(1) [OF h] by simp
  have "parse_leaf t data i n = None" for data i n using assms(2) by (auto simp: parse_leaf_def)
  then show "parse_spa_pod (pre @ h @ body @ post) (length pre) = Inr v"
    using assms(1) [of "pre @ h @ body @ post" "pre @ h" post "length body"] l
    by (simp only: parse_at [OF h] Let_def option.case append.assoc)
qed

text \<open>
  What a builder does for a value of a type that needs \<open>k\<close> bytes: below the size a header can
  declare, it builds a pod of that size that reads as \<open>seen\<close>.
\<close>

definition good :: "builder \<Rightarrow> int option \<Rightarrow> int \<Rightarrow> pyval \<Rightarrow> pyval \<Rightarrow> nat \<Rightarrow> bool" where
  "good build given_type t v seen k \<longleftrightarrow>
     (k < 4294967296 \<longrightarrow>
        (\<exists>pod body. build v given_type = Inr pod \<and> framed t body pod \<and> length body = k \<and> reads t seen body))"

definition in_u32 :: "int \<Rightarrow> bool" where "in_u32 i \<longleftrightarrow> 0 \<le> i \<and> i < 4294967296"
definition in_i32 :: "int \<Rightarrow> bool" where "in_i32 i \<longleftrightarrow> - 2147483648 \<le> i \<and> i \<le> 2147483647"
definition in_i64 :: "int \<Rightarrow> bool" where "in_i64 i \<longleftrightarrow> - 9223372036854775808 \<le> i \<and> i \<le> 9223372036854775807"

lemma packed_fields:
  "in_u32 i \<Longrightarrow> \<exists>x. pack_u32 i = Inr x" "in_i32 i \<Longrightarrow> \<exists>x. pack_i32 i = Inr x" "in_i64 i \<Longrightarrow> \<exists>x. pack_i64 i = Inr x"
  by (simp_all add: in_u32_def in_i32_def in_i64_def pack_u32_def pack_i32_def pack_i64_def pack_unsigned_def pack_signed_def)

lemma packed_pair: "in_u32 a \<Longrightarrow> in_u32 b \<Longrightarrow> \<exists>x. pack_pair a b = Inr x"
  using packed_fields(1) [of a] packed_fields(1) [of b] by (auto simp: pack_pair_def)

text \<open>The types that SPA defines.\<close>

definition spa_type :: "int \<Rightarrow> bool" where
  "spa_type t \<longleftrightarrow> SPA_TYPE_None \<le> t \<and> t \<le> SPA_TYPE_Pod"

lemma pod_packed:
  assumes "spa_type t" "length body < 4294967296"
  shows "\<exists>pod. pack_pod t body = Inr pod"
proof -
  have "in_u32 (int (length body))" "in_u32 t" using assms by (auto simp: in_u32_def spa_type_def)
  then show ?thesis using packed_pair [of "int (length body)" t] by (auto simp: pack_pod_def Let_def)
qed

text \<open>A pod that is followed by others starts with a header, and the next one starts where it ends.\<close>

lemma framed_at:
  assumes "framed t body pod" "reads t v body"
  shows "parse_pod_header (pre @ pod @ post) (length pre) = Inr (length body, t)"
    "align (8 + length body) = length pod" "parse_spa_pod (pre @ pod @ post) (length pre) = Inr v" "8 \<le> length pod"
proof -
  note f = pack_pod_framed [OF assms(1) [unfolded framed_def]]
  show "parse_pod_header (pre @ pod @ post) (length pre) = Inr (length body, t)" by (rule f(3))
  show "align (8 + length body) = length pod" using f(1) by simp
  then show "8 \<le> length pod" using align_bounds(1) [of "8 + length body"] by simp
  obtain h p where "pod = h @ body @ p" "pack_pair (int (length body)) t = Inr h"
    using framed_parts [OF assms(1)] by blast
  then show "parse_spa_pod (pre @ pod @ post) (length pre) = Inr v"
    using assms(2) by (simp add: reads_def)
qed

section \<open>Leaves\<close>

lemma field_at:
  assumes "pack_pair a b = Inr z"
  shows "unpack_pair (pre @ z @ post) (length pre) = Inr (a, b)" "length z = 8"
  using pack_pair_value(1,2) [OF assms] by simp_all

lemma string_body:
  assumes "utf8_text s" "CHR 0x00 \<notin> set s"
  shows "parse_string (map word_of_nat (letters s) @ [0]) = PStr s"
proof -
  have u: "unat (word_of_nat (of_char c) :: 8 word) = of_char c" for c :: char
  proof -
    have "(of_char c :: nat) < 256" by simp
    then show ?thesis by (simp add: unat_of_nat)
  qed
  have z: "(word_of_nat (of_char c) :: 8 word) = 0 \<longleftrightarrow> c = CHR 0x00" for c :: char
  proof
    assume "(word_of_nat (of_char c) :: 8 word) = 0"
    then have "(of_char c :: nat) = 0" using u [of c] by simp
    then have "c = char_of (0 :: nat)" by (metis char_of_char)
    then show "c = CHR 0x00" by (simp add: char_of_def)
  qed simp
  have "takeWhile (\<lambda>b. b \<noteq> 0) (map word_of_nat (letters s) @ [0]) = map (word_of_nat :: nat \<Rightarrow> 8 word) (letters s)"
    using assms(2) z by (simp add: takeWhile_append letters_def)
  then have "parse_string (map word_of_nat (letters s) @ [0]) = PStr (map char_of (decode_replace (map of_char s)))"
    by (simp add: parse_string_def letters_def u comp_def)
  then show ?thesis using decode_replace_text [OF assms(1)] by (simp add: comp_def)
qed

text \<open>
  The leaves: what a value is seen as after it was written as a pod of the type, and the bytes it
  takes.  A double is rounded to single precision where it is written as one.
\<close>

inductive pod_leaf :: "int \<Rightarrow> pyval \<Rightarrow> pyval \<Rightarrow> nat \<Rightarrow> bool" where
  leaf_none: "pod_leaf SPA_TYPE_None v PNone 0"
| leaf_bool: "pod_leaf SPA_TYPE_Bool v (PBool (truthy v)) 4"
| leaf_id: "to_int v = Inr i \<Longrightarrow> in_u32 i \<Longrightarrow> pod_leaf SPA_TYPE_Id v (PInt i) 4"
| leaf_int: "to_int v = Inr i \<Longrightarrow> in_i32 i \<Longrightarrow> pod_leaf SPA_TYPE_Int v (PInt i) 4"
| leaf_long: "to_int v = Inr i \<Longrightarrow> in_i64 i \<Longrightarrow> pod_leaf SPA_TYPE_Long v (PInt i) 8"
| leaf_fd: "to_int v = Inr i \<Longrightarrow> in_i64 i \<Longrightarrow> pod_leaf SPA_TYPE_Fd v (PInt i) 8"
| leaf_float: "to_float v = Inr f \<Longrightarrow> f32_pack f = Inr w \<Longrightarrow> pod_leaf SPA_TYPE_Float v (PFloat (f32_unpack w)) 4"
| leaf_double: "to_float v = Inr f \<Longrightarrow> pod_leaf SPA_TYPE_Double v (PFloat f) 8"
| leaf_string: "utf8_text s \<Longrightarrow> CHR 0x00 \<notin> set s \<Longrightarrow> pod_leaf SPA_TYPE_String (PStr s) (PStr s) (length s + 1)"
| leaf_bytes: "to_bytes v = Inr b \<Longrightarrow> pod_leaf SPA_TYPE_Bytes v (PBytes b) (length b)"
| leaf_rectangle: "rectangle_parts v = Inr (w, h) \<Longrightarrow> in_u32 w \<Longrightarrow> in_u32 h \<Longrightarrow>
     pod_leaf SPA_TYPE_Rectangle v (pod_mapping SPA_TYPE_Rectangle [(''width'', PInt w), (''height'', PInt h)]) 8"
| leaf_fraction: "fraction_parts v = Inr (n, d) \<Longrightarrow> in_u32 n \<Longrightarrow> in_u32 d \<Longrightarrow>
     pod_leaf SPA_TYPE_Fraction v (pod_mapping SPA_TYPE_Fraction [(''num'', PInt n), (''denom'', PInt d)]) 8"
| leaf_bitmap: "bitmap_body v = Inr b \<Longrightarrow>
     pod_leaf SPA_TYPE_Bitmap v (pod_mapping SPA_TYPE_Bitmap [(''data'', PBytes b)]) (length b)"
| leaf_pointer: "as_mapping v = Some kvs \<Longrightarrow> to_int (get_or kvs ''pointer_type'' (PInt 0)) = Inr p \<Longrightarrow> in_u32 p \<Longrightarrow>
     to_int (get_or kvs ''value'' (PInt 0)) = Inr a \<Longrightarrow> 0 \<le> a \<Longrightarrow> a < 18446744073709551616 \<Longrightarrow>
     pod_leaf SPA_TYPE_Pointer v (pod_mapping SPA_TYPE_Pointer [(''pointer_type'', PInt p), (''value'', PInt a)]) 16"

text \<open>A leaf is built from its body, which reads as the leaf.\<close>

definition leaf_body :: "(pyval \<Rightarrow> string) \<Rightarrow> int \<Rightarrow> pyval \<Rightarrow> pyval \<Rightarrow> bytes \<Rightarrow> bool" where
  "leaf_body text_of t v seen body \<longleftrightarrow> build_leaf text_of v t = Some (pack_pod t body) \<and> reads t seen body"

lemma leaf_number:
  "to_int v = Inr i \<Longrightarrow> pack_u32 i = Inr x \<Longrightarrow> leaf_body text_of SPA_TYPE_Id v (PInt i) x"
  "to_int v = Inr i \<Longrightarrow> pack_i32 i = Inr x \<Longrightarrow> leaf_body text_of SPA_TYPE_Int v (PInt i) x"
  "to_int v = Inr i \<Longrightarrow> pack_i64 i = Inr x \<Longrightarrow> leaf_body text_of SPA_TYPE_Long v (PInt i) x"
  "to_int v = Inr i \<Longrightarrow> pack_i64 i = Inr x \<Longrightarrow> leaf_body text_of SPA_TYPE_Fd v (PInt i) x"
  by (auto simp: leaf_body_def build_leaf_def parse_leaf_def pod_simps intro!: reads_leafI)

lemma leaf_flag: "pack_i32 (if truthy v then 1 else 0) = Inr x \<Longrightarrow> leaf_body text_of SPA_TYPE_Bool v (PBool (truthy v)) x"
  using unpack_packed(3) [of "if truthy v then 1 else 0" x]
  by (auto simp: leaf_body_def build_leaf_def parse_leaf_def intro!: reads_leafI)

lemma leaf_real:
  "to_float v = Inr f \<Longrightarrow> f32_pack f = Inr w \<Longrightarrow> pack_f32 f = Inr x \<Longrightarrow> leaf_body text_of SPA_TYPE_Float v (PFloat (f32_unpack w)) x"
  "to_float v = Inr f \<Longrightarrow> pack_f64 f = Inr x \<Longrightarrow> leaf_body text_of SPA_TYPE_Double v (PFloat f) x"
  using pack_f32_value(2) [of f x] pack_f64_value(2) [of f x]
  by (auto simp: leaf_body_def build_leaf_def parse_leaf_def intro!: reads_leafI)

lemma leaf_block:
  "utf8_text s \<Longrightarrow> CHR 0x00 \<notin> set s \<Longrightarrow> leaf_body text_of SPA_TYPE_String (PStr s) (PStr s) (map word_of_nat (letters s) @ [0])"
  "to_bytes v = Inr b \<Longrightarrow> leaf_body text_of SPA_TYPE_Bytes v (PBytes b) b"
  "bitmap_body v = Inr b \<Longrightarrow> leaf_body text_of SPA_TYPE_Bitmap v (pod_mapping SPA_TYPE_Bitmap [(''data'', PBytes b)]) b"
  using string_body [of s]
  by (auto simp: leaf_body_def build_leaf_def parse_leaf_def slice_at simp del: append.simps append_assoc intro!: reads_leafI)

lemma leaf_pair:
  "rectangle_parts v = Inr (a, b) \<Longrightarrow> pack_pair a b = Inr x \<Longrightarrow>
     leaf_body text_of SPA_TYPE_Rectangle v (pod_mapping SPA_TYPE_Rectangle [(''width'', PInt a), (''height'', PInt b)]) x"
  "fraction_parts v = Inr (a, b) \<Longrightarrow> pack_pair a b = Inr x \<Longrightarrow>
     leaf_body text_of SPA_TYPE_Fraction v (pod_mapping SPA_TYPE_Fraction [(''num'', PInt a), (''denom'', PInt b)]) x"
  by (auto simp: leaf_body_def build_leaf_def parse_leaf_def field_at(1) intro!: reads_leafI)

lemma leaf_address:
  assumes "as_mapping v = Some kvs" "to_int (get_or kvs ''pointer_type'' (PInt 0)) = Inr p"
    and "to_int (get_or kvs ''value'' (PInt 0)) = Inr a" "pack_pair p 0 = Inr x" "pack_u64 a = Inr y"
  shows "leaf_body text_of SPA_TYPE_Pointer v (pod_mapping SPA_TYPE_Pointer [(''pointer_type'', PInt p), (''value'', PInt a)]) (x @ y)"
proof -
  obtain x1 x2 where xx: "pack_u32 p = Inr x1" "x = x1 @ x2" using assms(4) by (auto simp: pack_pair_Inr)
  have "parse_leaf SPA_TYPE_Pointer (pre @ (x @ y) @ post) (length pre) (length (x @ y)) =
      Some (Inr (pod_mapping SPA_TYPE_Pointer [(''pointer_type'', PInt p), (''value'', PInt a)]))" for pre post
  proof -
    have "unpack_u32 (pre @ (x @ y) @ post) (length pre) = Inr p"
      using unpack_packed(1) [OF xx(1), of "length pre" pre "x2 @ y @ post"] xx by simp
    moreover have "unpack_u64 (pre @ (x @ y) @ post) (length pre + 8) = Inr a"
      using unpack_packed(2) [OF assms(5), of "length pre + 8" "pre @ x" post] pack_pair_value(1) [OF assms(4)] by simp
    ultimately show ?thesis
      using pack_pair_value(1) [OF assms(4)] length_packed(2) [OF assms(5)] by (simp add: parse_leaf_def parse_pointer_def)
  qed
  then show ?thesis
    using assms by (auto simp: leaf_body_def build_leaf_def build_pointer_pod_def intro!: reads_leafI)
qed

lemma pod_leaf_body:
  assumes "pod_leaf t v seen k"
  shows "spa_type t \<and> (\<exists>body. leaf_body text_of t v seen body \<and> length body = k)"
  using assms
proof cases
  case leaf_none
  then show ?thesis
    by (auto simp: spa_type_def leaf_body_def build_leaf_def parse_leaf_def intro!: reads_leafI)
next
  case leaf_bool
  have "in_i32 (if truthy v then 1 else 0)" by (simp add: in_i32_def)
  then obtain x where x: "pack_i32 (if truthy v then 1 else 0) = Inr x" using packed_fields(2) by blast
  then show ?thesis using leaf_bool leaf_flag [OF x] length_packed(3) [OF x] by (auto simp: spa_type_def)
next
  case (leaf_float f w)
  then obtain x where "pack_f32 f = Inr x" by (auto simp: pack_f32_def)
  then show ?thesis using leaf_float leaf_real(1) pack_f32_value(1) by (fastforce simp: spa_type_def)
next
  case (leaf_double f)
  obtain x where "pack_f64 f = Inr x" by (auto simp: pack_f64_def)
  then show ?thesis using leaf_double leaf_real(2) pack_f64_value(1) by (fastforce simp: spa_type_def)
next
  case (leaf_pointer kvs p a)
  then obtain x where x: "pack_pair p 0 = Inr x" using packed_pair [of p 0] by (auto simp: in_u32_def)
  obtain y where y: "pack_u64 a = Inr y" using leaf_pointer by (auto simp: pack_u64_def pack_unsigned_def)
  have "length (x @ y) = 16" using pack_pair_value(1) [OF x] length_packed(2) [OF y] by simp
  then show ?thesis
    using leaf_pointer leaf_address [OF leaf_pointer(4,5,7) x y] by (auto simp: spa_type_def intro!: exI [of _ "x @ y"])
next
  case (leaf_id i)
  then obtain x where x: "pack_u32 i = Inr x" using packed_fields(1) by blast
  show ?thesis using leaf_id leaf_number(1) [OF leaf_id(4) x] length_packed(1) [OF x] by (auto simp: spa_type_def)
next
  case (leaf_int i)
  then obtain x where x: "pack_i32 i = Inr x" using packed_fields(2) by blast
  show ?thesis using leaf_int leaf_number(2) [OF leaf_int(4) x] length_packed(3) [OF x] by (auto simp: spa_type_def)
next
  case (leaf_long i)
  then obtain x where x: "pack_i64 i = Inr x" using packed_fields(3) by blast
  show ?thesis using leaf_long leaf_number(3) [OF leaf_long(4) x] length_packed(4) [OF x] by (auto simp: spa_type_def)
next
  case (leaf_fd i)
  then obtain x where x: "pack_i64 i = Inr x" using packed_fields(3) by blast
  show ?thesis using leaf_fd leaf_number(4) [OF leaf_fd(4) x] length_packed(4) [OF x] by (auto simp: spa_type_def)
next
  case (leaf_rectangle w h)
  then obtain x where x: "pack_pair w h = Inr x" using packed_pair by blast
  show ?thesis using leaf_rectangle leaf_pair(1) [OF leaf_rectangle(4) x] pack_pair_value(1) [OF x] by (auto simp: spa_type_def)
next
  case (leaf_fraction n d)
  then obtain x where x: "pack_pair n d = Inr x" using packed_pair by blast
  show ?thesis using leaf_fraction leaf_pair(2) [OF leaf_fraction(4) x] pack_pair_value(1) [OF x] by (auto simp: spa_type_def)
next
  case (leaf_string s)
  show ?thesis using leaf_string leaf_block(1) [OF leaf_string(5,6)] by (fastforce simp: spa_type_def letters_def)
next
  case (leaf_bytes b)
  show ?thesis using leaf_bytes leaf_block(2) [OF leaf_bytes(4)] by (auto simp: spa_type_def)
next
  case (leaf_bitmap b)
  show ?thesis using leaf_bitmap leaf_block(3) [OF leaf_bitmap(4)] by (auto simp: spa_type_def)
qed

text \<open>The builder does what the leaf says.\<close>

lemma pod_leaf_good:
  assumes "pod_leaf t v seen k"
  shows "good (build_spa_pod (Suc l) text_of) (Some t) t v seen k"
proof -
  obtain body where b: "spa_type t" "leaf_body text_of t v seen body" "length body = k"
    using pod_leaf_body [OF assms] by blast
  then have "build_spa_pod (Suc l) text_of v (Some t) = pack_pod t body"
    by (simp add: build_spa_pod.simps leaf_body_def)
  then show ?thesis
    using b pod_packed [of t body] by (auto simp: good_def framed_def leaf_body_def)
qed

end
