(* ===== verification/SpaRoundtrip.thy ===== *)
theory SpaRoundtrip
  imports SpaFramed
begin

text \<open>
  Building a pod and parsing it.  \<open>renders\<close> says, without any bytes, what a Python value is seen as
  after it was written as a pod of some type and read again; the builder writes, and the parser
  reads, what it says, wherever the pod stands in the data.
\<close>

section \<open>Children in a row\<close>

text \<open>The pieces of a body, each with the item that a turn of a loop finds in it.\<close>

lemma collect_pieces:
  assumes turn: "\<And>before piece item after. (piece, item) \<in> set pieces \<Longrightarrow> data = before @ piece @ after \<Longrightarrow>
      length before + length piece \<le> stop \<Longrightarrow>
      turn (length before) = Inr (Some (item, length before + length piece)) \<and> piece \<noteq> []"
    and "turn stop = Inr None"
    and "data = pre @ concat (map fst pieces) @ post" "stop = length pre + length (concat (map fst pieces))"
  shows "collect stop turn (length pre) = Inr (map snd pieces)"
  using assms
proof (induction pieces arbitrary: pre)
  case Nil
  then show ?case by (subst collect.simps) simp
next
  case (Cons pi pieces)
  obtain piece item where pi: "pi = (piece, item)" by (cases pi)
  have t: "turn (length pre) = Inr (Some (item, length pre + length piece))" "piece \<noteq> []"
    using Cons.prems(1) [of piece item pre "concat (map fst pieces) @ post"] Cons.prems(3,4) pi by auto
  have "collect stop turn (length (pre @ piece)) = Inr (map snd pieces)"
    by (rule Cons.IH) (use Cons.prems pi in auto)
  then show ?case
    using t pi Cons.prems(4) by (subst collect.simps) simp
qed

text \<open>A piece that is a pod.\<close>

definition pod_piece :: "bytes \<times> pyval \<Rightarrow> bool" where
  "pod_piece = (\<lambda>(pod, seen). \<exists>t body. framed t body pod \<and> reads t seen body)"

lemma struct_turn_piece:
  assumes "pod_piece (pod, seen)" "length before + length pod \<le> stop"
  shows "struct_turn parse_spa_pod (before @ pod @ after) stop (length before) = Inr (Some (seen, length before + length pod))"
    "pod \<noteq> []"
proof -
  obtain t body where p: "framed t body pod" "reads t seen body" using assms(1) by (auto simp: pod_piece_def)
  note f = framed_at [OF p]
  show "pod \<noteq> []" using f(4) by auto
  show "struct_turn parse_spa_pod (before @ pod @ after) stop (length before) = Inr (Some (seen, length before + length pod))"
    using f(1) [of before after] f(3) [of before after] f(2,4) assms(2) by (simp add: struct_turn_def Let_def)
qed

lemma control_turn_piece:
  assumes "pod_piece (pod, seen)" "pack_pair at kind = Inr header" "length before + length (header @ pod) \<le> stop"
  shows "control_turn parse_spa_pod (before @ (header @ pod) @ after) stop (length before) =
    Inr (Some (PDict [(PStr ''offset'', PInt at), (PStr ''type'', PInt kind), (PStr ''value'', seen)],
      length before + length (header @ pod)))"
proof -
  obtain t body where p: "framed t body pod" "reads t seen body" using assms(1) by (auto simp: pod_piece_def)
  note f = framed_at [OF p] and h = pack_pair_value [OF assms(2)]
  show ?thesis
    using f(1) [of "before @ header" after] f(3) [of "before @ header" after] f(2,4) h(1) h(2) [of before "pod @ after"] assms(3)
    by (simp add: control_turn_def Let_def)
qed

lemma property_turn_piece:
  assumes "pod_piece (pod, seen)" "pack_pair key flag = Inr header" "length before + length (header @ pod) \<le> stop"
    and "(if property_spec_by_key i key \<noteq> None then specialize_property_value i key seen else Inr seen) = Inr w"
  shows "property_turn parse_spa_pod i (before @ (header @ pod) @ after) stop (length before) =
    Inr (Some ((key, flag, w), length before + length (header @ pod)))"
proof -
  obtain t body where p: "framed t body pod" "reads t seen body" using assms(1) by (auto simp: pod_piece_def)
  note f = framed_at [OF p] and h = pack_pair_value [OF assms(2)]
  show ?thesis
    using f(1) [of "before @ header" after] f(3) [of "before @ header" after] f(2,4) h(1) h(2) [of before "pod @ after"] assms(3,4)
    by (simp add: property_turn_def Let_def)
qed

text \<open>Items of one size and type.\<close>

definition packed_piece :: "int \<Rightarrow> nat \<Rightarrow> bytes \<times> pyval \<Rightarrow> bool" where
  "packed_piece t m = (\<lambda>(body, seen). length body = m \<and> reads t seen body)"

lemma packed_turn_piece:
  assumes "packed_piece t m (body, seen)" "pack_pair (int m) t = Inr header" "length before + length body \<le> stop"
  shows "packed_turn parse_spa_pod m t (before @ body @ after) stop (length before) = Inr (Some (seen, length before + length body))"
proof -
  have b: "length body = m" "reads t seen body" using assms(1) by (simp_all add: packed_piece_def)
  then have "parse_spa_pod (header @ body) 0 = Inr seen"
    using b(2) [unfolded reads_def, rule_format, of header "[]" "[]"] assms(2) by simp
  then show ?thesis
    using assms(2,3) b(1) by (simp add: packed_turn_def slice_at)
qed

lemma concat_packed_length:
  "list_all (packed_piece t m) pieces \<Longrightarrow> length (concat (map fst pieces)) = length pieces * m"
  by (induction pieces) (auto simp: packed_piece_def)

lemma collect_packed:
  assumes "list_all (packed_piece t m) pieces" "0 < m" "pack_pair (int m) t = Inr header"
    and "stop = length pre + length (concat (map fst pieces))"
  shows "collect stop (packed_turn parse_spa_pod m t (pre @ concat (map fst pieces) @ post) stop) (length pre) =
    Inr (map snd pieces)"
proof (rule collect_pieces [OF _ _ refl assms(4)])
  show "packed_turn parse_spa_pod m t (pre @ concat (map fst pieces) @ post) stop stop = Inr None"
    using assms(2) by (simp add: packed_turn_def)
  fix before piece item after
  assume i: "(piece, item) \<in> set pieces" and d: "pre @ concat (map fst pieces) @ post = before @ piece @ after"
    and l: "length before + length piece \<le> stop"
  have p: "packed_piece t m (piece, item)" using assms(1) i by (auto simp: list_all_iff)
  then have "piece \<noteq> []" using assms(2) by (auto simp: packed_piece_def)
  with packed_turn_piece [OF p assms(3) l] d
  show "packed_turn parse_spa_pod m t (pre @ concat (map fst pieces) @ post) stop (length before) =
      Inr (Some (item, length before + length piece)) \<and> piece \<noteq> []" by simp
qed

section \<open>Structs and sequences\<close>

text \<open>The bytes of pods in a row, each given with what it is seen as and the size of its body.\<close>

definition row_size :: "(pyval \<times> nat) list \<Rightarrow> nat" where
  "row_size row = sum_list (map (\<lambda>z. align (8 + snd z)) row)"

lemma row_size_simps [simp]: "row_size [] = 0" "row_size (z # row) = align (8 + snd z) + row_size row"
  by (simp_all add: row_size_def)

lemma good_pod:
  assumes "good build given_type t v seen k" "align (8 + k) + rest < 4294967296"
  shows "\<exists>pod. build v given_type = Inr pod \<and> pod_piece (pod, seen) \<and> length pod = align (8 + k)"
proof -
  have "k < 4294967296" using assms(2) align_bounds(1) [of "8 + k"] by simp
  then obtain pod body where "build v given_type = Inr pod" "framed t body pod" "length body = k" "reads t seen body"
    using assms(1) by (auto simp: good_def)
  then show ?thesis using framed_at(2) [of t body pod seen] by (auto simp: pod_piece_def)
qed

lemma struct_body_good:
  assumes "list_all2 (\<lambda>x z. \<exists>t. good build None t x (fst z) (snd z)) xs row" "row_size row < 4294967296"
  shows "\<exists>pieces. struct_body build xs = Inr (concat (map fst pieces)) \<and> map snd pieces = map fst row \<and>
    list_all pod_piece pieces \<and> length (concat (map fst pieces)) = row_size row"
  using assms
proof (induction xs row rule: list_all2_induct)
  case Nil
  then show ?case by (intro exI [of _ "[]"]) simp
next
  case (Cons x xs z row)
  obtain pod where pod: "build x None = Inr pod" "pod_piece (pod, fst z)" "length pod = align (8 + snd z)"
    using Cons.hyps(1) Cons.prems good_pod by fastforce
  obtain pieces where "struct_body build xs = Inr (concat (map fst pieces))" "map snd pieces = map fst row"
      "list_all pod_piece pieces" "length (concat (map fst pieces)) = row_size row"
    using Cons.IH Cons.prems by auto
  with pod show ?case by (intro exI [of _ "(pod, fst z) # pieces"]) simp
qed

lemma struct_reads:
  assumes "list_all pod_piece pieces"
  shows "reads SPA_TYPE_Struct (struct_pod (map snd pieces)) (concat (map fst pieces))"
proof (rule reads_containerI)
  fix pre post data count
  assume d: "data = pre @ concat (map fst pieces) @ post" "count = length (concat (map fst pieces))"
  let ?stop = "length pre + count"
  have "collect ?stop (struct_turn parse_spa_pod data ?stop) (length pre) = Inr (map snd pieces)"
  proof (rule collect_pieces [OF _ _ d(1)])
    fix before piece item after
    assume "(piece, item) \<in> set pieces" "data = before @ piece @ after" "length before + length piece \<le> ?stop"
    then show "struct_turn parse_spa_pod data ?stop (length before) = Inr (Some (item, length before + length piece)) \<and> piece \<noteq> []"
      using assms struct_turn_piece(1) [of piece item before ?stop after]
        struct_turn_piece(2) [of piece item before ?stop] by (auto simp: list_all_iff)
  qed (use d in \<open>simp_all add: struct_turn_def\<close>)
  then show "(if SPA_TYPE_Struct = SPA_TYPE_Array then parse_array parse_spa_pod data (length pre) count
       else if SPA_TYPE_Struct = SPA_TYPE_Struct then parse_struct parse_spa_pod data (length pre) count
       else if SPA_TYPE_Struct = SPA_TYPE_Object then parse_object parse_spa_pod data (length pre) count
       else if SPA_TYPE_Struct = SPA_TYPE_Sequence then parse_sequence parse_spa_pod data (length pre) count
       else if SPA_TYPE_Struct = SPA_TYPE_Choice then parse_choice parse_spa_pod data (length pre) count
       else parse_embedded_pod parse_spa_pod data (length pre) count) = Inr (struct_pod (map snd pieces))"
    by (simp add: parse_struct_def struct_pod_def)
qed simp

lemma good_container:
  assumes "k < 4294967296 \<Longrightarrow> \<exists>body. build v given_type = pack_pod t body \<and> reads t seen body \<and> length body = k" "spa_type t"
  shows "good build given_type t v seen k"
  using assms pod_packed [of t] by (fastforce simp: good_def framed_def)

section \<open>Arrays and choices\<close>

lemma known_type_of: "spa_type t \<Longrightarrow> known_type (PInt t) = t"
proof -
  assume "spa_type t"
  then have "t \<in> set (map int [1..<21])" by (auto simp: spa_type_def image_iff intro!: bexI [of _ "nat t"])
  moreover have "find (\<lambda>u. py_eq (PInt t) (PInt u)) xs = Some t" if "t \<in> set xs" for xs
    using that by (induction xs) auto
  ultimately show ?thesis by (simp add: known_type_def)
qed

lemma item_bodies_good:
  assumes "list_all2 (\<lambda>x y. good build (Some t) t x y m) xs ys" "spa_type t" "m < 4294967296"
    and "given_size = PNone \<or> given_size = PInt (int m)"
  shows "\<exists>pieces. item_bodies build what (PInt t) given_size xs =
      Inr (concat (map fst pieces), if xs = [] then given_size else PInt (int m)) \<and>
    map snd pieces = ys \<and> list_all (packed_piece t m) pieces"
  using assms(1,4)
proof (induction xs ys arbitrary: given_size rule: list_all2_induct)
  case Nil
  then show ?case by (intro exI [of _ "[]"]) simp
next
  case (Cons x xs y ys)
  obtain pod body where pod: "build x (Some t) = Inr pod" "framed t body pod" "length body = m" "reads t y body"
    using Cons.hyps(1) assms(3) by (auto simp: good_def)
  have h: "parse_pod_header pod 0 = Inr (m, t)" using framed_at(1) [OF pod(2,4), of "[]" "[]"] pod(3) by simp
  have b: "slice pod 8 m = body"
    using pack_pod_framed(4) [OF pod(2) [unfolded framed_def], of "[]" "[]"] pod(3) by simp
  obtain pieces where p: "item_bodies build what (PInt t) (PInt (int m)) xs = Inr (concat (map fst pieces), PInt (int m))"
      "map snd pieces = ys" "list_all (packed_piece t m) pieces"
    using Cons.IH [of "PInt (int m)"] by auto
  have "packed_piece t m (body, y)" using pod by (simp add: packed_piece_def)
  then show ?case
    using pod(1) h b p Cons.prems
    by (intro exI [of _ "(body, y) # pieces"]) (auto simp: known_type_of [OF assms(2)])
qed

lemma items_with_type_good:
  assumes "list_all2 (\<lambda>x y. good build (Some t) t x y m) xs ys" "spa_type t" "m < 4294967296"
    and "given_size = PInt (int m) \<or> given_size = PNone \<and> (xs = [] \<longrightarrow> m = 0)"
  shows "\<exists>pieces. items_with_type build what (PInt t) given_size xs = Inr (concat (map fst pieces), int m, t) \<and>
    map snd pieces = ys \<and> list_all (packed_piece t m) pieces"
proof -
  obtain pieces where "item_bodies build what (PInt t) given_size xs =
        Inr (concat (map fst pieces), if xs = [] then given_size else PInt (int m))"
      "map snd pieces = ys" "list_all (packed_piece t m) pieces"
    using item_bodies_good [OF assms(1-3), of given_size what] assms(4) by blast
  then show ?thesis
    using assms(4) by (intro exI [of _ pieces]) (auto simp: items_with_type_def split: if_splits)
qed

lemma container_type_cases:
  "(if SPA_TYPE_Array = SPA_TYPE_Array then a else b) = a"
  "(if SPA_TYPE_Choice = SPA_TYPE_Array then a else if SPA_TYPE_Choice = SPA_TYPE_Struct then b
    else if SPA_TYPE_Choice = SPA_TYPE_Object then c else if SPA_TYPE_Choice = SPA_TYPE_Sequence then d
    else if SPA_TYPE_Choice = SPA_TYPE_Choice then e else f) = e"
  by simp_all

lemma array_reads:
  assumes "list_all (packed_piece t m) pieces" "pack_pair (int m) t = Inr header" "pieces \<noteq> [] \<longrightarrow> 0 < m"
  shows "reads SPA_TYPE_Array
    (pod_mapping SPA_TYPE_Array [(''child_size'', PInt (int m)), (''child_type'', PInt t), (''values'', PList (map snd pieces))])
    (header @ concat (map fst pieces))"
proof (rule reads_containerI, unfold container_type_cases)
  fix pre post data count
  assume d: "data = pre @ (header @ concat (map fst pieces)) @ post" "count = length (header @ concat (map fst pieces))"
  note h = pack_pair_value [OF assms(2)]
  have "collect (length pre + count) (packed_turn parse_spa_pod m t data (length pre + count)) (length (pre @ header)) =
      Inr (map snd pieces)" if "0 < m"
    using collect_packed [OF assms(1) that assms(2), of "length pre + count" "pre @ header" post] d by simp
  moreover have "m = 0 \<Longrightarrow> map snd pieces = []" using assms(3) by auto
  ultimately show "parse_array parse_spa_pod data (length pre) count = Inr
      (pod_mapping SPA_TYPE_Array [(''child_size'', PInt (int m)), (''child_type'', PInt t), (''values'', PList (map snd pieces))])"
    using h(1) h(2) [of pre "concat (map fst pieces) @ post"] d by (auto simp: parse_array_def)
qed simp

text \<open>A choice as it is read.\<close>

definition choice_pod :: "int \<Rightarrow> int \<Rightarrow> int \<Rightarrow> int \<Rightarrow> pyval list \<Rightarrow> pyval" where
  "choice_pod choice_type flags child_size child_type values =
     pod_mapping SPA_TYPE_Choice ([(''choice_type'', PInt choice_type), (''flags'', PInt flags),
       (''child_size'', PInt child_size), (''child_type'', PInt child_type), (''values'', PList values)] @
       choice_entries choice_type values)"

definition array_value :: "int \<Rightarrow> int \<Rightarrow> pyval list \<Rightarrow> pyval" where
  "array_value child_size child_type values =
     pod_mapping SPA_TYPE_Array [(''child_size'', PInt child_size), (''child_type'', PInt child_type), (''values'', PList values)]"

lemma choice_reads:
  assumes "list_all (packed_piece t m) pieces" "pack_pair (int m) t = Inr header" "pieces \<noteq> [] \<longrightarrow> 0 < m"
    and "pack_pair choice_type flags = Inr start"
  shows "reads SPA_TYPE_Choice (choice_pod choice_type flags (int m) t (map snd pieces)) (start @ header @ concat (map fst pieces))"
proof (rule reads_containerI, unfold container_type_cases)
  fix pre post data count
  assume d: "data = pre @ (start @ header @ concat (map fst pieces)) @ post"
    "count = length (start @ header @ concat (map fst pieces))"
  note h = pack_pair_value [OF assms(2)] and s = pack_pair_value [OF assms(4)]
  have "collect (length pre + count) (packed_turn parse_spa_pod m t data (length pre + count)) (length (pre @ start @ header)) =
      Inr (map snd pieces)" if "0 < m"
    using collect_packed [OF assms(1) that assms(2), of "length pre + count" "pre @ start @ header" post] d by simp
  moreover have "m = 0 \<Longrightarrow> map snd pieces = []" using assms(3) by auto
  ultimately show "parse_choice parse_spa_pod data (length pre) count =
      Inr (choice_pod choice_type flags (int m) t (map snd pieces))"
    using h(1) h(2) [of "pre @ start" "concat (map fst pieces) @ post"] s(1) s(2) [of pre "header @ concat (map fst pieces) @ post"] d
    by (auto simp: parse_choice_def choice_pod_def)
qed simp

section \<open>Sequences, objects and embedded pods\<close>

text \<open>A piece that is a header of two numbers and a pod.\<close>

definition headed_piece :: "int \<Rightarrow> int \<Rightarrow> pyval \<Rightarrow> bytes \<Rightarrow> bool" where
  "headed_piece a b seen piece \<longleftrightarrow>
     (\<exists>header pod. piece = header @ pod \<and> pack_pair a b = Inr header \<and> pod_piece (pod, seen))"

lemma good_headed:
  assumes "good build given_type t v seen k" "align (8 + k) + rest < 4294967296" "in_u32 a" "in_u32 b"
  shows "\<exists>header pod. build v given_type = Inr pod \<and> pack_pair a b = Inr header \<and> headed_piece a b seen (header @ pod) \<and>
    length (header @ pod) = 8 + align (8 + k)"
proof -
  obtain pod where "build v given_type = Inr pod" "pod_piece (pod, seen)" "length pod = align (8 + k)"
    using good_pod [OF assms(1,2)] by blast
  moreover obtain header where "pack_pair a b = Inr header" using packed_pair [OF assms(3,4)] by blast
  ultimately show ?thesis using pack_pair_value(1) by (fastforce simp: headed_piece_def)
qed

text \<open>A control of a sequence, as it is given and as it is seen.\<close>

record seen_control =
  sc_at :: int
  sc_kind :: int
  sc_value :: pyval
  sc_size :: nat

definition control_value :: "seen_control \<Rightarrow> pyval" where
  "control_value c = PDict [(PStr ''offset'', PInt (sc_at c)), (PStr ''type'', PInt (sc_kind c)), (PStr ''value'', sc_value c)]"

definition controls_size :: "seen_control list \<Rightarrow> nat" where
  "controls_size cs = sum_list (map (\<lambda>c. 8 + align (8 + sc_size c)) cs)"

lemma controls_size_simps [simp]:
  "controls_size [] = 0" "controls_size (c # cs) = 8 + align (8 + sc_size c) + controls_size cs"
  by (simp_all add: controls_size_def)

definition control_given :: "pyval \<Rightarrow> seen_control \<Rightarrow> pyval \<Rightarrow> bool" where
  "control_given control c v \<longleftrightarrow>
     (\<exists>kvs. as_mapping control = Some kvs \<and> get_or kvs ''value'' PNone = v \<and>
        to_int (get_or kvs ''offset'' (PInt 0)) = Inr (sc_at c) \<and> in_u32 (sc_at c) \<and>
        to_int (get_or kvs ''type'' (PInt 0)) = Inr (sc_kind c) \<and> in_u32 (sc_kind c))"

definition control_piece :: "bytes \<times> seen_control \<Rightarrow> bool" where
  "control_piece = (\<lambda>(piece, c). headed_piece (sc_at c) (sc_kind c) (sc_value c) piece)"

lemma control_bodies_good:
  assumes "list_all2 (\<lambda>x c. \<exists>v t. control_given x c v \<and> good build None t v (sc_value c) (sc_size c)) xs cs"
    and "controls_size cs < 4294967296"
  shows "\<exists>pieces. control_bodies build xs = Inr (concat (map fst pieces)) \<and> map snd pieces = cs \<and>
    list_all control_piece pieces \<and> length (concat (map fst pieces)) = controls_size cs"
  using assms
proof (induction xs cs rule: list_all2_induct)
  case Nil
  then show ?case by (intro exI [of _ "[]"]) simp
next
  case (Cons x xs c cs)
  obtain v t where v: "control_given x c v" "good build None t v (sc_value c) (sc_size c)" using Cons.hyps(1) by blast
  then obtain header pod where pod: "build v None = Inr pod" "pack_pair (sc_at c) (sc_kind c) = Inr header"
      "control_piece (header @ pod, c)" "length (header @ pod) = 8 + align (8 + sc_size c)"
    using good_headed [OF v(2), of 0 "sc_at c" "sc_kind c"] Cons.prems by (auto simp: control_given_def control_piece_def)
  obtain pieces where "control_bodies build xs = Inr (concat (map fst pieces))" "map snd pieces = cs"
      "list_all control_piece pieces" "length (concat (map fst pieces)) = controls_size cs"
    using Cons.IH Cons.prems by auto
  with pod v(1) show ?case
    by (intro exI [of _ "(header @ pod, c) # pieces"]) (auto simp: control_given_def)
qed

lemma collect_headed:
  assumes piece: "\<And>piece item before after. (piece, item) \<in> set pieces \<Longrightarrow> length before + length piece \<le> stop \<Longrightarrow>
      turn (before @ piece @ after) (length before) = Inr (Some (item, length before + length piece)) \<and> piece \<noteq> []"
    and "\<And>data. turn data stop = Inr None"
    and "data = pre @ concat (map fst pieces) @ post" "stop = length pre + length (concat (map fst pieces))"
  shows "collect stop (turn data) (length pre) = Inr (map snd pieces)"
  by (rule collect_pieces [where turn = "turn data", OF _ assms(2) assms(3) assms(4)]) (use piece in auto)

lemma headed_piece_nonempty: "headed_piece a b seen piece \<Longrightarrow> piece \<noteq> []"
  using pack_pair_value(1) by (fastforce simp: headed_piece_def)

lemma sequence_reads:
  assumes "list_all control_piece pieces" "pack_pair unit 0 = Inr header"
  shows "reads SPA_TYPE_Sequence
    (pod_mapping SPA_TYPE_Sequence [(''unit'', PInt unit), (''controls'', PList (map (control_value \<circ> snd) pieces))])
    (header @ concat (map fst pieces))"
proof (rule reads_containerI)
  fix pre post data count
  assume d: "data = pre @ (header @ concat (map fst pieces)) @ post" "count = length (header @ concat (map fst pieces))"
  note h = pack_pair_value [OF assms(2)]
  let ?stop = "length pre + count"
  let ?pieces = "map (\<lambda>(piece, c). (piece, control_value c)) pieces"
  have fst: "map fst ?pieces = map fst pieces" by (induction pieces) auto
  have snd: "map snd ?pieces = map (control_value \<circ> snd) pieces" by (induction pieces) auto
  have items: "collect ?stop (control_turn parse_spa_pod data ?stop) (length (pre @ header)) = Inr (map snd ?pieces)"
  proof (rule collect_headed [where turn = "\<lambda>data. control_turn parse_spa_pod data ?stop" and post = post])
    fix piece item and before after :: bytes
    assume i: "(piece, item) \<in> set ?pieces" and l: "length before + length piece \<le> ?stop"
    then obtain c where c: "item = control_value c" "headed_piece (sc_at c) (sc_kind c) (sc_value c) piece"
      using assms(1) by (auto simp: list_all_iff control_piece_def)
    then obtain start pod where p: "piece = start @ pod" "pack_pair (sc_at c) (sc_kind c) = Inr start" "pod_piece (pod, sc_value c)"
      by (auto simp: headed_piece_def)
    have "length before + length (start @ pod) \<le> ?stop" using l p(1) by simp
    from control_turn_piece [OF p(3,2) this, of after] p(1) c headed_piece_nonempty [OF c(2)]
    show "control_turn parse_spa_pod (before @ piece @ after) ?stop (length before) =
        Inr (Some (item, length before + length piece)) \<and> piece \<noteq> []" by (simp add: control_value_def)
  qed (simp_all only: fst, use d in \<open>simp_all add: control_turn_def\<close>)
  obtain x1 x2 where "pack_u32 unit = Inr x1" "header = x1 @ x2" using assms(2) by (auto simp: pack_pair_Inr)
  then have "unpack_u32 data (length pre) = Inr unit"
    using d(1) unpack_packed(1) [of unit x1 "length pre" pre "x2 @ concat (map fst pieces) @ post"] by simp
  then have "parse_sequence parse_spa_pod data (length pre) count = Inr
      (pod_mapping SPA_TYPE_Sequence [(''unit'', PInt unit), (''controls'', PList (map (control_value \<circ> snd) pieces))])"
    using h(1) d items [unfolded snd] by (simp add: parse_sequence_def)
  then show "(if SPA_TYPE_Sequence = SPA_TYPE_Array then parse_array parse_spa_pod data (length pre) count
       else if SPA_TYPE_Sequence = SPA_TYPE_Struct then parse_struct parse_spa_pod data (length pre) count
       else if SPA_TYPE_Sequence = SPA_TYPE_Object then parse_object parse_spa_pod data (length pre) count
       else if SPA_TYPE_Sequence = SPA_TYPE_Sequence then parse_sequence parse_spa_pod data (length pre) count
       else if SPA_TYPE_Sequence = SPA_TYPE_Choice then parse_choice parse_spa_pod data (length pre) count
       else parse_embedded_pod parse_spa_pod data (length pre) count) = Inr
      (pod_mapping SPA_TYPE_Sequence [(''unit'', PInt unit), (''controls'', PList (map (control_value \<circ> snd) pieces))])"
    by simp
qed simp

text \<open>A property of an object: its key and flags, the value it has in the object, and the size of its pod.\<close>

record seen_property =
  sp_key :: int
  sp_flags :: int
  sp_value :: pyval
  sp_size :: nat

definition properties_size :: "seen_property list \<Rightarrow> nat" where
  "properties_size ps = sum_list (map (\<lambda>p. 8 + align (8 + sp_size p)) ps)"

lemma properties_size_simps [simp]:
  "properties_size [] = 0" "properties_size (p # ps) = 8 + align (8 + sp_size p) + properties_size ps"
  by (simp_all add: properties_size_def)

definition property_entry :: "seen_property \<Rightarrow> int \<times> int \<times> pyval" where
  "property_entry p = (sp_key p, sp_flags p, sp_value p)"

text \<open>What a property that is read from a pod becomes.\<close>

definition shaped :: "int \<Rightarrow> int \<Rightarrow> pyval \<Rightarrow> exn + pyval" where
  "shaped i key seen = (if property_spec_by_key i key \<noteq> None then specialize_property_value i key seen else Inr seen)"

text \<open>A property as it is given: what is built for it, and the type it is built with, if one is known.\<close>

definition property_given ::
    "(pyval \<Rightarrow> string) \<Rightarrow> int \<Rightarrow> (pyval \<times> pyval) list \<Rightarrow> (pyval \<times> pyval) list \<Rightarrow> pyval \<times> pyval \<Rightarrow> seen_property \<Rightarrow>
     pyval \<Rightarrow> int option \<Rightarrow> bool" where
  "property_given text_of i flags keys = (\<lambda>(key, raw_value) p prepared nested_type.
     \<exists>given_key spec. property_identity text_of i keys key = Inr (given_key, spec) \<and>
       to_int given_key = Inr (sp_key p) \<and> in_u32 (sp_key p) \<and>
       prepare_property_value text_of i (sp_key p) raw_value = Inr prepared \<and>
       nested_type = (case explicit_pod_type prepared of Some t \<Rightarrow> Some t | None \<Rightarrow> Option.bind spec spec_pod_type) \<and>
       to_int (case pydict_get flags key of Some f \<Rightarrow> f | None \<Rightarrow> PInt 0) = Inr (sp_flags p) \<and> in_u32 (sp_flags p))"

definition property_piece :: "int \<Rightarrow> bytes \<times> seen_property \<Rightarrow> bool" where
  "property_piece i = (\<lambda>(piece, p).
     \<exists>seen. headed_piece (sp_key p) (sp_flags p) seen piece \<and> shaped i (sp_key p) seen = Inr (sp_value p))"

lemma property_bodies_good:
  assumes "list_all2 (\<lambda>x p. \<exists>prepared nested_type t seen. property_given text_of i flags keys x p prepared nested_type \<and>
        good build nested_type t prepared seen (sp_size p) \<and> shaped i (sp_key p) seen = Inr (sp_value p)) xs ps"
    and "properties_size ps < 4294967296"
  shows "\<exists>pieces. property_bodies build text_of i flags keys xs = Inr (concat (map fst pieces)) \<and> map snd pieces = ps \<and>
    list_all (property_piece i) pieces \<and> length (concat (map fst pieces)) = properties_size ps"
  using assms
proof (induction xs ps rule: list_all2_induct)
  case Nil
  then show ?case by (intro exI [of _ "[]"]) simp
next
  case (Cons x xs p ps)
  obtain key raw_value where x: "x = (key, raw_value)" by (cases x)
  obtain prepared nested_type t seen where v: "property_given text_of i flags keys x p prepared nested_type"
      "good build nested_type t prepared seen (sp_size p)" "shaped i (sp_key p) seen = Inr (sp_value p)"
    using Cons.hyps(1) by blast
  then obtain header pod where pod: "build prepared nested_type = Inr pod" "pack_pair (sp_key p) (sp_flags p) = Inr header"
      "headed_piece (sp_key p) (sp_flags p) seen (header @ pod)" "length (header @ pod) = 8 + align (8 + sp_size p)"
    using good_headed [OF v(2), of 0 "sp_key p" "sp_flags p"] Cons.prems x by (auto simp: property_given_def)
  obtain pieces where "property_bodies build text_of i flags keys xs = Inr (concat (map fst pieces))" "map snd pieces = ps"
      "list_all (property_piece i) pieces" "length (concat (map fst pieces)) = properties_size ps"
    using Cons.IH Cons.prems by auto
  moreover have "property_piece i (header @ pod, p)" using pod(3) v(3) by (auto simp: property_piece_def)
  ultimately show ?case
    using pod v(1) x
    by (intro exI [of _ "(header @ pod, p) # pieces"]) (auto simp: property_given_def Let_def)
qed

lemma object_reads:
  assumes "list_all (property_piece i) pieces" "pack_pair t i = Inr header"
    and "case property_dicts i (map (property_entry \<circ> snd) pieces) of
      (props, flags, keys) \<Rightarrow> object_result t i props flags keys = Inr seen"
  shows "reads SPA_TYPE_Object seen (header @ concat (map fst pieces))"
proof (rule reads_containerI)
  fix pre post data count
  assume d: "data = pre @ (header @ concat (map fst pieces)) @ post" "count = length (header @ concat (map fst pieces))"
  note h = pack_pair_value [OF assms(2)]
  let ?stop = "length pre + count"
  let ?pieces = "map (\<lambda>(piece, p). (piece, property_entry p)) pieces"
  have fst: "map fst ?pieces = map fst pieces" by (induction pieces) auto
  have snd: "map snd ?pieces = map (property_entry \<circ> snd) pieces" by (induction pieces) auto
  have items: "collect ?stop (property_turn parse_spa_pod i data ?stop) (length (pre @ header)) = Inr (map snd ?pieces)"
  proof (rule collect_headed [where turn = "\<lambda>data. property_turn parse_spa_pod i data ?stop" and post = post])
    fix piece item and before after :: bytes
    assume n: "(piece, item) \<in> set ?pieces" and l: "length before + length piece \<le> ?stop"
    then obtain p seen where c: "item = property_entry p" "headed_piece (sp_key p) (sp_flags p) seen piece"
        "shaped i (sp_key p) seen = Inr (sp_value p)"
      using assms(1) by (auto simp: list_all_iff property_piece_def)
    then obtain start pod where p: "piece = start @ pod" "pack_pair (sp_key p) (sp_flags p) = Inr start" "pod_piece (pod, seen)"
      by (auto simp: headed_piece_def)
    have "length before + length (start @ pod) \<le> ?stop" using l p(1) by simp
    from property_turn_piece [OF p(3,2) this c(3) [unfolded shaped_def], of after] p(1) c headed_piece_nonempty [OF c(2)]
    show "property_turn parse_spa_pod i (before @ piece @ after) ?stop (length before) =
        Inr (Some (item, length before + length piece)) \<and> piece \<noteq> []" by (simp add: property_entry_def)
  qed (simp_all only: fst, use d in \<open>simp_all add: property_turn_def\<close>)
  obtain props flags keys where "property_dicts i (map (property_entry \<circ> snd) pieces) = (props, flags, keys)"
      "object_result t i props flags keys = Inr seen"
    using assms(3) by (auto split: prod.splits)
  then have "parse_object parse_spa_pod data (length pre) count = Inr seen"
    using h(1) h(2) [of pre "concat (map fst pieces) @ post"] d items [unfolded snd] by (simp add: parse_object_def)
  then show "(if SPA_TYPE_Object = SPA_TYPE_Array then parse_array parse_spa_pod data (length pre) count
       else if SPA_TYPE_Object = SPA_TYPE_Struct then parse_struct parse_spa_pod data (length pre) count
       else if SPA_TYPE_Object = SPA_TYPE_Object then parse_object parse_spa_pod data (length pre) count
       else if SPA_TYPE_Object = SPA_TYPE_Sequence then parse_sequence parse_spa_pod data (length pre) count
       else if SPA_TYPE_Object = SPA_TYPE_Choice then parse_choice parse_spa_pod data (length pre) count
       else parse_embedded_pod parse_spa_pod data (length pre) count) = Inr seen"
    by simp
qed simp

lemma embedded_reads:
  assumes "pod_piece (pod, seen)"
  shows "reads SPA_TYPE_Pod (pod_mapping SPA_TYPE_Pod [(''pod'', seen)]) pod"
proof (rule reads_containerI)
  fix pre post data count
  assume d: "data = pre @ pod @ post" "count = length pod"
  obtain t body where "framed t body pod" "reads t seen body" using assms by (auto simp: pod_piece_def)
  note f = framed_at [OF this]
  have "parse_embedded_pod parse_spa_pod data (length pre) count = Inr (pod_mapping SPA_TYPE_Pod [(''pod'', seen)])"
    using d f(1) [of pre post] f(2) f(3) [of pre post] f(4) by (simp add: parse_embedded_pod_def)
  then show "(if SPA_TYPE_Pod = SPA_TYPE_Array then parse_array parse_spa_pod data (length pre) count
       else if SPA_TYPE_Pod = SPA_TYPE_Struct then parse_struct parse_spa_pod data (length pre) count
       else if SPA_TYPE_Pod = SPA_TYPE_Object then parse_object parse_spa_pod data (length pre) count
       else if SPA_TYPE_Pod = SPA_TYPE_Sequence then parse_sequence parse_spa_pod data (length pre) count
       else if SPA_TYPE_Pod = SPA_TYPE_Choice then parse_choice parse_spa_pod data (length pre) count
       else parse_embedded_pod parse_spa_pod data (length pre) count) = Inr (pod_mapping SPA_TYPE_Pod [(''pod'', seen)])"
    by simp
qed simp

section \<open>What a value is seen as\<close>

text \<open>
  \<open>renders text_of n t v seen k\<close>: the value \<open>v\<close>, written as a pod of type \<open>t\<close> with children
  nested at most \<open>n\<close> deep, takes \<open>k\<close> bytes and is read again as \<open>seen\<close>.
\<close>

definition item_size :: "pyval \<Rightarrow> pyval list \<Rightarrow> nat \<Rightarrow> bool" where
  "item_size given_size xs m \<longleftrightarrow>
     (given_size = PInt (int m) \<or> given_size = PNone \<and> (xs = [] \<longrightarrow> m = 0)) \<and> (xs \<noteq> [] \<longrightarrow> 0 < m) \<and> m < 4294967296"

definition choice_given :: "(pyval \<times> pyval) list \<Rightarrow> pyval list \<Rightarrow> int \<Rightarrow> int \<Rightarrow> int \<Rightarrow> bool" where
  "choice_given kvs xs choice_type flags t \<longleftrightarrow>
     choice_values kvs = Inr xs \<and>
     to_int (get_or kvs ''choice_type'' (PInt SPA_CHOICE_None)) = Inr choice_type \<and> in_u32 choice_type \<and>
     to_int (get_or kvs ''flags'' (PInt 0)) = Inr flags \<and> in_u32 flags \<and>
     child_type_of (get_or kvs ''child_type'' PNone) xs empty_choice = Inr (PInt t) \<and> spa_type t"

definition object_given ::
    "pyval \<Rightarrow> int \<Rightarrow> int \<Rightarrow> (pyval \<times> pyval) list \<Rightarrow> (pyval \<times> pyval) list \<Rightarrow> (pyval \<times> pyval) list \<Rightarrow> bool" where
  "object_given v object_type object_id items flags keys \<longleftrightarrow>
     (\<exists>given_type given_id properties actual_type.
        object_parts v = Inr (given_type, given_id, properties, flags, keys) \<and> given_id \<noteq> PNone \<and>
        actual_object_type given_type given_id = Inr actual_type \<and> as_mapping properties = Some items \<and>
        to_int actual_type = Inr object_type \<and> in_u32 object_type \<and> to_int given_id = Inr object_id \<and> in_u32 object_id)"

inductive renders :: "(pyval \<Rightarrow> string) \<Rightarrow> nat \<Rightarrow> int \<Rightarrow> pyval \<Rightarrow> pyval \<Rightarrow> nat \<Rightarrow> bool" for text_of where
  leaf: "pod_leaf t v seen k \<Longrightarrow> renders text_of n t v seen k"
| struct: "struct_values v = Inr xs \<Longrightarrow>
     list_all2 (\<lambda>x z. \<exists>t. infer_spa_type x = Inr t \<and> renders text_of n t x (fst z) (snd z)) xs row \<Longrightarrow>
     renders text_of (Suc n) SPA_TYPE_Struct v (struct_pod (map fst row)) (row_size row)"
| array: "array_parts v = Inr (xs, given_type, given_size) \<Longrightarrow>
     child_type_of given_type xs empty_array = Inr (PInt t) \<Longrightarrow> spa_type t \<Longrightarrow> item_size given_size xs m \<Longrightarrow>
     list_all2 (\<lambda>x y. renders text_of n t x y m) xs ys \<Longrightarrow>
     renders text_of (Suc n) SPA_TYPE_Array v (array_value (int m) t ys) (8 + length xs * m)"
| choice: "as_mapping v = Some kvs \<Longrightarrow> choice_given kvs xs choice_type flags t \<Longrightarrow>
     item_size (get_or kvs ''child_size'' PNone) xs m \<Longrightarrow> list_all2 (\<lambda>x y. renders text_of n t x y m) xs ys \<Longrightarrow>
     renders text_of (Suc n) SPA_TYPE_Choice v (choice_pod choice_type flags (int m) t ys) (16 + length xs * m)"
| sequence: "as_mapping v = Some kvs \<Longrightarrow> to_int (get_or kvs ''unit'' (PInt 0)) = Inr unit \<Longrightarrow> in_u32 unit \<Longrightarrow>
     sequence_items (get_or kvs ''controls'' (PList [])) = Some xs \<Longrightarrow>
     list_all2 (\<lambda>x c. \<exists>w t. control_given x c w \<and> infer_spa_type w = Inr t \<and> renders text_of n t w (sc_value c) (sc_size c)) xs cs \<Longrightarrow>
     renders text_of (Suc n) SPA_TYPE_Sequence v
       (pod_mapping SPA_TYPE_Sequence [(''unit'', PInt unit), (''controls'', PList (map control_value cs))]) (8 + controls_size cs)"
| embedded: "embedded_value v = w \<Longrightarrow> (\<forall>b. w \<noteq> PBytes b) \<Longrightarrow> infer_spa_type w = Inr t \<Longrightarrow> renders text_of n t w seen k \<Longrightarrow>
     renders text_of (Suc n) SPA_TYPE_Pod v (pod_mapping SPA_TYPE_Pod [(''pod'', seen)]) (align (8 + k))"
| object: "object_given v object_type object_id items flags keys \<Longrightarrow>
     list_all2 (\<lambda>x p. \<exists>prepared nested_type t w. property_given text_of object_id flags keys x p prepared nested_type \<and>
         (case nested_type of Some t' \<Rightarrow> t = t' | None \<Rightarrow> infer_spa_type prepared = Inr t) \<and>
         renders text_of n t prepared w (sp_size p) \<and> shaped object_id (sp_key p) w = Inr (sp_value p)) items ps \<Longrightarrow>
     (case property_dicts object_id (map property_entry ps) of
        (props, flags', keys') \<Rightarrow> object_result object_type object_id props flags' keys' = Inr seen) \<Longrightarrow>
     renders text_of (Suc n) SPA_TYPE_Object v seen (8 + properties_size ps)"

text \<open>The type a pod is built with: the one that is given, or the one of the value.\<close>

definition built_as :: "int option \<Rightarrow> pyval \<Rightarrow> int \<Rightarrow> bool" where
  "built_as given_type v t \<longleftrightarrow> (case given_type of Some t' \<Rightarrow> t = t' | None \<Rightarrow> infer_spa_type v = Inr t)"

lemma built_as_simps: "built_as None v t \<longleftrightarrow> infer_spa_type v = Inr t" "built_as (Some t') v t \<longleftrightarrow> t = t'"
  by (simp_all add: built_as_def)

lemma build_built_as: "built_as given_type v t \<Longrightarrow> build_spa_pod (Suc l) text_of v given_type = build_spa_pod (Suc l) text_of v (Some t)"
  by (auto simp: built_as_def build_spa_pod.simps split: option.splits)

lemma good_built_as:
  "good (build_spa_pod (Suc l) text_of) (Some t) t v seen k \<Longrightarrow> built_as given_type v t \<Longrightarrow>
     good (build_spa_pod (Suc l) text_of) given_type t v seen k"
  by (simp add: good_def build_built_as)

lemma build_container:
  "build_spa_pod (Suc l) text_of v (Some SPA_TYPE_Array) = build_array_pod (build_spa_pod l text_of) v"
  "build_spa_pod (Suc l) text_of v (Some SPA_TYPE_Struct) = build_struct_pod (build_spa_pod l text_of) v"
  "build_spa_pod (Suc l) text_of v (Some SPA_TYPE_Object) = build_object_pod (build_spa_pod l text_of) text_of v"
  "build_spa_pod (Suc l) text_of v (Some SPA_TYPE_Sequence) = build_sequence_pod (build_spa_pod l text_of) v"
  "build_spa_pod (Suc l) text_of v (Some SPA_TYPE_Choice) = build_choice_pod (build_spa_pod l text_of) v"
  "build_spa_pod (Suc l) text_of v (Some SPA_TYPE_Pod) = build_embedded_pod (build_spa_pod l text_of) v"
  by (simp_all add: build_spa_pod.simps build_leaf_def Let_def)

lemma spa_types: "spa_type SPA_TYPE_Array" "spa_type SPA_TYPE_Struct" "spa_type SPA_TYPE_Object" "spa_type SPA_TYPE_Sequence"
    "spa_type SPA_TYPE_Choice" "spa_type SPA_TYPE_Pod"
  by (simp_all add: spa_type_def)

text \<open>The containers, built with a builder that is good for their children.\<close>

lemma struct_good:
  assumes "struct_values v = Inr xs" "list_all2 (\<lambda>x z. \<exists>t. good (build_spa_pod l text_of) None t x (fst z) (snd z)) xs row"
  shows "good (build_spa_pod (Suc l) text_of) (Some SPA_TYPE_Struct) SPA_TYPE_Struct v (struct_pod (map fst row)) (row_size row)"
proof (rule good_container [OF _ spa_types(2)])
  assume "row_size row < 4294967296"
  then obtain pieces where p: "struct_body (build_spa_pod l text_of) xs = Inr (concat (map fst pieces))"
      "map snd pieces = map fst row" "list_all pod_piece pieces" "length (concat (map fst pieces)) = row_size row"
    using struct_body_good [OF assms(2)] by blast
  then show "\<exists>body. build_spa_pod (Suc l) text_of v (Some SPA_TYPE_Struct) = pack_pod SPA_TYPE_Struct body \<and>
      reads SPA_TYPE_Struct (struct_pod (map fst row)) body \<and> length body = row_size row"
    using struct_reads [OF p(3)] assms(1)
    by (intro exI [of _ "concat (map fst pieces)"]) (simp add: build_container build_struct_pod_def)
qed

lemma array_good:
  assumes "array_parts v = Inr (xs, given_type, given_size)" "child_type_of given_type xs empty_array = Inr (PInt t)"
    and "spa_type t" "item_size given_size xs m" "list_all2 (\<lambda>x y. good (build_spa_pod l text_of) (Some t) t x y m) xs ys"
  shows "good (build_spa_pod (Suc l) text_of) (Some SPA_TYPE_Array) SPA_TYPE_Array v (array_value (int m) t ys) (8 + length xs * m)"
proof (rule good_container [OF _ spa_types(1)])
  obtain pieces where p: "items_with_type (build_spa_pod l text_of) ''Array items'' (PInt t) given_size xs =
        Inr (concat (map fst pieces), int m, t)" "map snd pieces = ys" "list_all (packed_piece t m) pieces"
    using items_with_type_good [OF assms(5,3), of given_size "''Array items''"] assms(4) by (auto simp: item_size_def)
  obtain header where h: "pack_pair (int m) t = Inr header"
    using packed_pair [of "int m" t] assms(3,4) by (auto simp: in_u32_def item_size_def spa_type_def)
  have l: "length pieces = length xs" "pieces \<noteq> [] \<longrightarrow> 0 < m"
    using p(2) list_all2_lengthD [OF assms(5)] assms(4) by (auto simp: item_size_def)
  show "\<exists>body. build_spa_pod (Suc l) text_of v (Some SPA_TYPE_Array) = pack_pod SPA_TYPE_Array body \<and>
      reads SPA_TYPE_Array (array_value (int m) t ys) body \<and> length body = 8 + length xs * m"
    using array_reads [OF p(3) h l(2)] p h l(1) pack_pair_value(1) [OF h] concat_packed_length [OF p(3)] assms(1,2)
    by (intro exI [of _ "header @ concat (map fst pieces)"]) (simp add: build_container build_array_pod_def array_value_def)
qed

lemma choice_good:
  assumes "as_mapping v = Some kvs" "choice_given kvs xs choice_type flags t"
    and "item_size (get_or kvs ''child_size'' PNone) xs m" "list_all2 (\<lambda>x y. good (build_spa_pod l text_of) (Some t) t x y m) xs ys"
  shows "good (build_spa_pod (Suc l) text_of) (Some SPA_TYPE_Choice) SPA_TYPE_Choice v
    (choice_pod choice_type flags (int m) t ys) (16 + length xs * m)"
proof (rule good_container [OF _ spa_types(5)])
  have t: "spa_type t" using assms(2) by (simp add: choice_given_def)
  obtain pieces where p: "items_with_type (build_spa_pod l text_of) ''Choice values'' (PInt t) (get_or kvs ''child_size'' PNone) xs =
        Inr (concat (map fst pieces), int m, t)" "map snd pieces = ys" "list_all (packed_piece t m) pieces"
    using items_with_type_good [OF assms(4) t, of "get_or kvs ''child_size'' PNone" "''Choice values''"] assms(3)
    by (auto simp: item_size_def)
  obtain header where h: "pack_pair (int m) t = Inr header"
    using packed_pair [of "int m" t] assms(3) t by (auto simp: in_u32_def item_size_def spa_type_def)
  obtain start where s: "pack_pair choice_type flags = Inr start"
    using packed_pair assms(2) by (auto simp: choice_given_def)
  have l: "length pieces = length xs" "pieces \<noteq> [] \<longrightarrow> 0 < m"
    using p(2) list_all2_lengthD [OF assms(4)] assms(3) by (auto simp: item_size_def)
  show "\<exists>body. build_spa_pod (Suc l) text_of v (Some SPA_TYPE_Choice) = pack_pod SPA_TYPE_Choice body \<and>
      reads SPA_TYPE_Choice (choice_pod choice_type flags (int m) t ys) body \<and> length body = 16 + length xs * m"
    using choice_reads [OF p(3) h l(2) s] p h s l(1) pack_pair_value(1) [OF h] pack_pair_value(1) [OF s]
      concat_packed_length [OF p(3)] assms(1,2)
    by (intro exI [of _ "start @ header @ concat (map fst pieces)"])
      (simp add: build_container build_choice_pod_def choice_given_def)
qed

lemma sequence_good:
  assumes "as_mapping v = Some kvs" "to_int (get_or kvs ''unit'' (PInt 0)) = Inr unit" "in_u32 unit"
    and "sequence_items (get_or kvs ''controls'' (PList [])) = Some xs"
    and "list_all2 (\<lambda>x c. \<exists>w t. control_given x c w \<and> good (build_spa_pod l text_of) None t w (sc_value c) (sc_size c)) xs cs"
  shows "good (build_spa_pod (Suc l) text_of) (Some SPA_TYPE_Sequence) SPA_TYPE_Sequence v
    (pod_mapping SPA_TYPE_Sequence [(''unit'', PInt unit), (''controls'', PList (map control_value cs))]) (8 + controls_size cs)"
proof (rule good_container [OF _ spa_types(4)])
  assume "8 + controls_size cs < 4294967296"
  then obtain pieces where p: "control_bodies (build_spa_pod l text_of) xs = Inr (concat (map fst pieces))"
      "map snd pieces = cs" "list_all control_piece pieces" "length (concat (map fst pieces)) = controls_size cs"
    using control_bodies_good [OF assms(5)] by auto
  obtain header where h: "pack_pair unit 0 = Inr header" using packed_pair [OF assms(3), of 0] by (auto simp: in_u32_def)
  have "map (control_value \<circ> snd) pieces = map control_value cs" using p(2) by auto
  then show "\<exists>body. build_spa_pod (Suc l) text_of v (Some SPA_TYPE_Sequence) = pack_pod SPA_TYPE_Sequence body \<and>
      reads SPA_TYPE_Sequence (pod_mapping SPA_TYPE_Sequence [(''unit'', PInt unit), (''controls'', PList (map control_value cs))]) body \<and>
      length body = 8 + controls_size cs"
    using sequence_reads [OF p(3) h] p(1,4) h pack_pair_value(1) [OF h] assms(1,2,4)
    by (intro exI [of _ "header @ concat (map fst pieces)"]) (simp add: build_container build_sequence_pod_def)
qed

lemma embedded_good:
  assumes "embedded_value v = w" "\<forall>b. w \<noteq> PBytes b" "good (build_spa_pod l text_of) None t w seen k"
  shows "good (build_spa_pod (Suc l) text_of) (Some SPA_TYPE_Pod) SPA_TYPE_Pod v
    (pod_mapping SPA_TYPE_Pod [(''pod'', seen)]) (align (8 + k))"
proof (rule good_container [OF _ spa_types(6)])
  assume "align (8 + k) < 4294967296"
  then have "k < 4294967296" using align_bounds(1) [of "8 + k"] by simp
  then obtain pod body where p: "build_spa_pod l text_of w None = Inr pod" "framed t body pod" "length body = k" "reads t seen body"
    using assms(3) by (auto simp: good_def)
  note f = framed_at [OF p(2,4)]
  have h: "parse_pod_header pod 0 = Inr (k, t)" using f(1) [of "[]" "[]"] p(3) by simp
  have s: "slice pod 0 (align (8 + k)) = pod" using f(2) p(3) by (simp add: slice_def)
  have r: "reads SPA_TYPE_Pod (pod_mapping SPA_TYPE_Pod [(''pod'', seen)]) pod"
    by (rule embedded_reads) (use p in \<open>auto simp: pod_piece_def\<close>)
  have "(case w of PBytes b \<Rightarrow> Inr b | e \<Rightarrow> build_spa_pod l text_of e None) = Inr pod"
    using assms(2) p(1) by (cases w) auto
  then show "\<exists>body. build_spa_pod (Suc l) text_of v (Some SPA_TYPE_Pod) = pack_pod SPA_TYPE_Pod body \<and>
      reads SPA_TYPE_Pod (pod_mapping SPA_TYPE_Pod [(''pod'', seen)]) body \<and> length body = align (8 + k)"
    using assms(1) h s r f(2) p(3)
    by (intro exI [of _ pod]) (simp add: build_container build_embedded_pod_def)
qed

lemma object_good:
  assumes "object_given v object_type object_id items flags keys"
    and "list_all2 (\<lambda>x p. \<exists>prepared nested_type t w. property_given text_of object_id flags keys x p prepared nested_type \<and>
         good (build_spa_pod l text_of) nested_type t prepared w (sp_size p) \<and> shaped object_id (sp_key p) w = Inr (sp_value p)) items ps"
    and "case property_dicts object_id (map property_entry ps) of
        (props, flags', keys') \<Rightarrow> object_result object_type object_id props flags' keys' = Inr seen"
  shows "good (build_spa_pod (Suc l) text_of) (Some SPA_TYPE_Object) SPA_TYPE_Object v seen (8 + properties_size ps)"
proof (rule good_container [OF _ spa_types(3)])
  assume "8 + properties_size ps < 4294967296"
  then obtain pieces where p: "property_bodies (build_spa_pod l text_of) text_of object_id flags keys items =
        Inr (concat (map fst pieces))" "map snd pieces = ps" "list_all (property_piece object_id) pieces"
      "length (concat (map fst pieces)) = properties_size ps"
    using property_bodies_good [OF assms(2)] by auto
  obtain header where h: "pack_pair object_type object_id = Inr header"
    using packed_pair assms(1) by (auto simp: object_given_def)
  have "map (property_entry \<circ> snd) pieces = map property_entry ps" using p(2) by auto
  then have "reads SPA_TYPE_Object seen (header @ concat (map fst pieces))"
    using object_reads [OF p(3) h] assms(3) by simp
  then show "\<exists>body. build_spa_pod (Suc l) text_of v (Some SPA_TYPE_Object) = pack_pod SPA_TYPE_Object body \<and>
      reads SPA_TYPE_Object seen body \<and> length body = 8 + properties_size ps"
    using p(1,4) h pack_pair_value(1) [OF h] assms(1)
    by (intro exI [of _ "header @ concat (map fst pieces)"])
      (auto simp: build_container build_object_pod_def object_given_def)
qed

text \<open>The builder does what \<open>renders\<close> says.\<close>

lemma renders_good:
  assumes "renders text_of n t v seen k" "n < limit" "built_as given_type v t"
  shows "good (build_spa_pod limit text_of) given_type t v seen k"
  using assms
proof (induction arbitrary: limit given_type rule: renders.induct)
  case (leaf t v seen k n)
  then show ?case using pod_leaf_good good_built_as by (cases limit) auto
next
  case (struct v xs n row)
  then obtain l where l: "limit = Suc l" "n < l" by (cases limit) auto
  have "list_all2 (\<lambda>x z. \<exists>t. good (build_spa_pod l text_of) None t x (fst z) (snd z)) xs row"
    by (rule list_all2_mono [OF struct.IH]) (use l(2) built_as_simps in blast)
  with struct show ?case unfolding l(1) by - (rule good_built_as [OF struct_good]; assumption)
next
  case (array v xs given_type' given_size t m n ys)
  then obtain l where l: "limit = Suc l" "n < l" by (cases limit) auto
  have "list_all2 (\<lambda>x y. good (build_spa_pod l text_of) (Some t) t x y m) xs ys"
    by (rule list_all2_mono [OF array.IH]) (use l(2) in \<open>auto simp: built_as_def\<close>)
  with array show ?case unfolding l(1) by - (rule good_built_as [OF array_good]; assumption)
next
  case (choice v kvs xs choice_type flags t m n ys)
  then obtain l where l: "limit = Suc l" "n < l" by (cases limit) auto
  have "list_all2 (\<lambda>x y. good (build_spa_pod l text_of) (Some t) t x y m) xs ys"
    by (rule list_all2_mono [OF choice.IH]) (use l(2) in \<open>auto simp: built_as_def\<close>)
  with choice show ?case unfolding l(1) by - (rule good_built_as [OF choice_good]; assumption)
next
  case (sequence v kvs unit xs n cs)
  then obtain l where l: "limit = Suc l" "n < l" by (cases limit) auto
  have "list_all2 (\<lambda>x c. \<exists>w t. control_given x c w \<and> good (build_spa_pod l text_of) None t w (sc_value c) (sc_size c)) xs cs"
    by (rule list_all2_mono [OF sequence.IH]) (use l(2) built_as_simps in blast)
  with sequence show ?case unfolding l(1) by - (rule good_built_as [OF sequence_good]; assumption)
next
  case (embedded v w t n seen k)
  then obtain l where l: "limit = Suc l" "n < l" by (cases limit) auto
  have "good (build_spa_pod l text_of) None t w seen k" using embedded l(2) by (auto simp: built_as_def)
  with embedded show ?case unfolding l(1) by - (rule good_built_as [OF embedded_good]; assumption)
next
  case (object v object_type object_id items flags keys n ps seen)
  then obtain l where l: "limit = Suc l" "n < l" by (cases limit) auto
  have "list_all2 (\<lambda>x p. \<exists>prepared nested_type t w. property_given text_of object_id flags keys x p prepared nested_type \<and>
         good (build_spa_pod l text_of) nested_type t prepared w (sp_size p) \<and> shaped object_id (sp_key p) w = Inr (sp_value p)) items ps"
    by (rule list_all2_mono [OF object.IH]) (use l(2) in \<open>fastforce simp: built_as_def\<close>)
  with object show ?case unfolding l(1) by - (rule good_built_as [OF object_good]; assumption)
qed

text \<open>
  C6. A Python value that can be written as an SPA pod is written as one that is read back as what
  the value stands for: \<open>build_spa_pod\<close> succeeds, the pod is as long as it declares, padded to
  eight bytes, and \<open>parse_spa_pod\<close> finds the same value in it wherever the pod stands in the data.\<close>

theorem spa_roundtrip:
  assumes "renders text_of n t v seen k" "n < limit" "built_as given_type v t" "k < 4294967296"
  shows "\<exists>pod. build_spa_pod limit text_of v given_type = Inr pod \<and> length pod = align (8 + k) \<and>
    parse_pod_header pod 0 = Inr (k, t) \<and> parse_spa_pod (pre @ pod @ post) (length pre) = Inr seen"
proof -
  obtain pod body where p: "build_spa_pod limit text_of v given_type = Inr pod" "framed t body pod" "length body = k" "reads t seen body"
    using renders_good [OF assms(1-3)] assms(4) by (auto simp: good_def)
  then show ?thesis
    using framed_at [OF p(2,4)] framed_at(1) [OF p(2,4), of "[]" "[]"] by auto
qed

definition sample_struct :: pyval where
  "sample_struct = PTuple [PInt 7, PStr ''on'', PList [PBool True]]"

lemma sample_struct_renders:
  "renders text_of 2 SPA_TYPE_Struct sample_struct (struct_pod [PInt 7, PStr ''on'', struct_pod [PBool True]]) 56"
proof -
  have int: "pod_leaf SPA_TYPE_Int (PInt 7) (PInt 7) 4" by (rule leaf_int) (simp_all add: in_i32_def)
  have "utf8_text ''on''" unfolding utf8_text_def by (rule exI [of _ "[111, 110]"]) (simp add: scalar_value_def code_point_def utf8_encode_def utf8_char_def char_of_def bit_iff_odd)
  then have on: "pod_leaf SPA_TYPE_String (PStr ''on'') (PStr ''on'') 3" using leaf_string [of "''on''"] by (simp add: numeral_3_eq_3)
  have flag: "pod_leaf SPA_TYPE_Bool (PBool True) (PBool True) 4" using leaf_bool [of "PBool True"] by simp
  have inner: "renders text_of (Suc 0) SPA_TYPE_Struct (PList [PBool True]) (struct_pod (map fst [(PBool True, 4 :: nat)])) (row_size [(PBool True, 4)])"
    by (rule renders.struct) (use flag in \<open>auto simp: struct_values_def to_list_def infer_spa_type_def explicit_pod_type_def intro: renders.leaf\<close>)
  let ?row = "[(PInt 7, 4), (PStr ''on'', 3), (struct_pod [PBool True], row_size [(PBool True, 4)])]"
  have "renders text_of (Suc (Suc 0)) SPA_TYPE_Struct sample_struct (struct_pod (map fst ?row)) (row_size ?row)"
    by (rule renders.struct)
      (use int on inner in \<open>auto simp: sample_struct_def struct_values_def to_list_def infer_spa_type_def explicit_pod_type_def intro: renders.leaf\<close>)
  moreover have "row_size ?row = 56" by (simp add: align_def)
  ultimately show ?thesis by (simp add: numeral_2_eq_2)
qed

theorem spa_roundtrip_witness:
  "\<exists>pod. build_spa_pod 3 (\<lambda>_. '''') sample_struct None = Inr pod \<and> length pod = 64 \<and>
     parse_spa_pod pod 0 = Inr (struct_pod [PInt 7, PStr ''on'', struct_pod [PBool True]])"
  using spa_roundtrip [OF sample_struct_renders, of 3 None "\<lambda>_. ''''" "[]" "[]"]
  by (auto simp: built_as_def sample_struct_def infer_spa_type_def explicit_pod_type_def align_def)

end
