(* ===== verification/SpaTyped.thy ===== *)
theory SpaTyped
  imports SpaRoundtrip
begin

text \<open>
  Objects with a class of their own: the tables of their properties are one-to-one, so that a
  property is the same under its name and under its number; and an object whose properties can
  each be written and read again is written and read again as a whole.
\<close>

section \<open>The tables\<close>

text \<open>No two entries share a name or a number, and no property is taken for the type of a pod.\<close>

definition table_ok :: "PropertySpec list \<Rightarrow> bool" where
  "table_ok specs \<longleftrightarrow>
     distinct (map spec_name specs) \<and> distinct (map spec_key specs) \<and>
     list_all (\<lambda>sp. spec_name sp \<noteq> ''_pod_type'' \<and> spec_name sp \<noteq> ''pod_type'' \<and> in_u32 (spec_key sp)) specs"

lemma tables_ok:
  "table_ok PROP_INFO_SPECS" "table_ok PROPS_SPECS" "table_ok FORMAT_SPECS" "table_ok BUFFERS_SPECS" "table_ok META_SPECS"
  "table_ok IO_SPECS" "table_ok PROFILE_SPECS" "table_ok PORT_CONFIG_SPECS" "table_ok ROUTE_SPECS" "table_ok LATENCY_SPECS"
  "table_ok PROCESS_LATENCY_SPECS" "table_ok TAG_SPECS" "table_ok PARAM_DICT_SPECS" "table_ok []"
  by (simp_all add: table_ok_def in_u32_def PROP_INFO_SPECS_def PROPS_SPECS_def FORMAT_SPECS_def BUFFERS_SPECS_def
    META_SPECS_def IO_SPECS_def PROFILE_SPECS_def PORT_CONFIG_SPECS_def ROUTE_SPECS_def LATENCY_SPECS_def
    PROCESS_LATENCY_SPECS_def TAG_SPECS_def PARAM_DICT_SPECS_def)

lemma specs_for_id_ok: "table_ok (specs_for_id i)"
  using tables_ok by (auto simp: specs_for_id_def OBJECT_PROPERTY_SPECS_def split: option.split)

lemma find_SomeD: "find P xs = Some x \<Longrightarrow> x \<in> set xs \<and> P x"
  by (induction xs) (auto split: if_splits)

lemma find_distinct:
  assumes "distinct (map f xs)"
  shows "find (\<lambda>x. f x = k) (rev xs) = Some x \<longleftrightarrow> x \<in> set xs \<and> f x = k"
proof
  assume "find (\<lambda>x. f x = k) (rev xs) = Some x"
  from find_SomeD [OF this] show "x \<in> set xs \<and> f x = k" by simp
next
  assume x: "x \<in> set xs \<and> f x = k"
  then obtain y where y: "find (\<lambda>x. f x = k) (rev xs) = Some y"
    by (cases "find (\<lambda>x. f x = k) (rev xs)") (auto simp: find_None_iff)
  from find_SomeD [OF this] have "y \<in> set xs" "f y = k" by simp_all
  with x assms have "y = x" by (auto simp: distinct_map dest: inj_onD)
  with y show "find (\<lambda>x. f x = k) (rev xs) = Some x" by simp
qed

lemma by_key_Some: "table_ok specs \<Longrightarrow> by_key specs k = Some sp \<longleftrightarrow> sp \<in> set specs \<and> spec_key sp = k"
  by (simp add: by_key_def table_ok_def find_distinct)

lemma by_name_Some: "table_ok specs \<Longrightarrow> by_name specs n = Some sp \<longleftrightarrow> sp \<in> set specs \<and> spec_name sp = n"
  by (simp add: by_name_def table_ok_def find_distinct)

text \<open>The property tables are one-to-one: for every object id, the specification found under a
  number is found under its name, and the one found under a name is found under its number.\<close>

lemma property_tables_one_to_one:
  "(property_spec_by_key i k = Some sp \<longleftrightarrow> property_spec_by_name i (spec_name sp) = Some sp \<and> spec_key sp = k) \<and>
   (property_spec_by_name i n = Some sp \<longleftrightarrow> property_spec_by_key i (spec_key sp) = Some sp \<and> spec_name sp = n)"
  using specs_for_id_ok [of i] by (auto simp: property_spec_by_key_def property_spec_by_name_def by_key_Some by_name_Some)

lemma spec_by_key_name:
  "property_spec_by_key i k = Some sp \<Longrightarrow> property_spec_by_name i (spec_name sp) = Some sp \<and> spec_key sp = k"
  using specs_for_id_ok [of i] by (auto simp: property_spec_by_key_def property_spec_by_name_def by_key_Some by_name_Some)

lemma spec_name_not_type:
  "property_spec_by_key i k = Some sp \<Longrightarrow> spec_name sp \<noteq> ''_pod_type'' \<and> spec_name sp \<noteq> ''pod_type''"
  using specs_for_id_ok [of i] by (auto simp: property_spec_by_key_def by_key_Some table_ok_def list_all_iff)

lemma class_specs_for_id: "map_of OBJECT_CLASSES_BY_ID i = Some cls \<Longrightarrow> class_specs cls = specs_for_id i"
  by (auto simp: OBJECT_CLASSES_BY_ID_def specs_for_id_def OBJECT_PROPERTY_SPECS_def create_object_class_def
    SpaPropInfo_def SpaProps_def SpaFormat_def SpaParamBuffers_def SpaParamMeta_def SpaParamIO_def SpaParamProfile_def
    SpaParamPortConfig_def SpaParamRoute_def SpaParamLatency_def SpaParamProcessLatency_def SpaParamTag_def SpaParamDict_def
    split: if_splits)

section \<open>Objects with a class\<close>

text \<open>Properties under the keys they have in an object.\<close>

definition keyed :: "int \<Rightarrow> (seen_property \<Rightarrow> 'v) \<Rightarrow> seen_property list \<Rightarrow> (pyval \<times> 'v) list" where
  "keyed i f = map (\<lambda>p. (property_key i (sp_key p), f p))"

definition has_spec :: "int \<Rightarrow> seen_property \<Rightarrow> bool" where
  "has_spec i p \<longleftrightarrow> property_spec_by_key i (sp_key p) \<noteq> None"

lemma keyed_simps [simp]: "keyed i f [] = []" "keyed i f (p # ps) = (property_key i (sp_key p), f p) # keyed i f ps"
    "keyed i f (ps @ qs) = keyed i f ps @ keyed i f qs"
  by (simp_all add: keyed_def)

text \<open>The instance of a class with these properties, its flags and its keys.\<close>

definition typed_object :: "spa_object_class \<Rightarrow> int \<Rightarrow> int \<Rightarrow> seen_property list \<Rightarrow> pyval" where
  "typed_object cls t i ps =
     PSpaObject (class_name cls) t i (case object_param_name i of None \<Rightarrow> class_object_name cls | Some n \<Rightarrow> Some n)
       (keyed i sp_value ps) (keyed i (PInt \<circ> sp_flags) ps) (keyed i (PInt \<circ> sp_key) (filter (has_spec i) ps))"

lemma property_key_cases:
  obtains (named) sp where "property_spec_by_key i k = Some sp" "property_key i k = PStr (spec_name sp)"
    "property_spec_by_name i (spec_name sp) = Some sp"
  | (plain) "property_spec_by_key i k = None" "property_key i k = PInt k"
  using spec_by_key_name by (cases "property_spec_by_key i k") (auto simp: property_key_def)

lemma property_key_eq: "py_eq (property_key i a) (property_key i b) \<longleftrightarrow> a = b"
proof
  assume e: "py_eq (property_key i a) (property_key i b)"
  show "a = b"
  proof (cases rule: property_key_cases [of i a])
    case a: (named sp)
    show ?thesis
    proof (cases rule: property_key_cases [of i b])
      case b: (named sp')
      have n: "spec_name sp = spec_name sp'" using e unfolding a(2) b(2) by simp
      have "Some sp = Some sp'" using a(3) b(3) unfolding n by metis
      then show ?thesis using spec_by_key_name [OF a(1)] spec_by_key_name [OF b(1)] by simp
    next
      case plain
      then show ?thesis using e unfolding a(2) by simp
    qed
  next
    case a: plain
    show ?thesis
    proof (cases rule: property_key_cases [of i b])
      case (named sp')
      then show ?thesis using e unfolding a(2) by simp
    next
      case plain
      then show ?thesis using e unfolding a(2) by simp
    qed
  qed
next
  assume "a = b"
  then show "py_eq (property_key i a) (property_key i b)" by (simp add: property_key_def split: option.split)
qed

lemma pydict_set_new: "pydict_get kvs k = None \<Longrightarrow> pydict_set kvs k v = kvs @ [(k, v)]"
  by (induction kvs) (auto split: if_splits)

lemma keyed_get:
  "pydict_get (keyed i f ps) (property_key i k) = map_option f (find (\<lambda>p. k = sp_key p) ps)"
  by (induction ps) (auto simp: property_key_eq)

lemma keyed_get_in:
  assumes "distinct (map sp_key ps)" "p \<in> set ps"
  shows "pydict_get (keyed i f ps) (property_key i (sp_key p)) = Some (f p)"
  using assms
proof (induction ps)
  case (Cons q ps)
  have "sp_key p \<noteq> sp_key q" if "p \<in> set ps"
    using imageI [OF that, of sp_key] Cons.prems(1) by auto
  then show ?case using Cons by (auto simp: property_key_eq)
qed simp

lemma keyed_get_new: "k \<notin> sp_key ` set ps \<Longrightarrow> pydict_get (keyed i f ps) (property_key i k) = None"
  by (induction ps) (auto simp: property_key_eq)

lemma property_dicts_keyed:
  assumes "distinct (map sp_key ps)"
  shows "property_dicts i (map property_entry ps) =
    (keyed i sp_value ps, keyed i (PInt \<circ> sp_flags) ps, keyed i (PInt \<circ> sp_key) (filter (has_spec i) ps))"
  using assms
proof (induction ps rule: rev_induct)
  case Nil
  then show ?case by (simp add: property_dicts_def)
next
  case (snoc p ps)
  have new: "sp_key p \<notin> sp_key ` set ps" "sp_key p \<notin> sp_key ` set (filter (has_spec i) ps)" using snoc.prems by auto
  have "property_dicts i (map property_entry (ps @ [p])) =
      (case property_dicts i (map property_entry ps) of (props, flags, keys) \<Rightarrow>
        let key = property_key i (sp_key p)
        in (pydict_set props key (sp_value p), pydict_set flags key (PInt (sp_flags p)),
            if property_spec_by_key i (sp_key p) \<noteq> None then pydict_set keys key (PInt (sp_key p)) else keys))"
    by (simp add: property_dicts_def property_entry_def split: prod.split)
  then show ?case
    using snoc new by (simp add: pydict_set_new [OF keyed_get_new] has_spec_def Let_def)
qed

text \<open>Constructing an instance from the dictionaries that were read changes nothing in them.\<close>

lemma key_to_storage_keyed:
  assumes "class_specs (so_class ob) = specs_for_id i" "has_spec i p \<longrightarrow> pydict_get (so_property_keys ob) (property_key i (sp_key p)) \<noteq> None"
  shows "key_to_storage ob (property_key i (sp_key p)) = Inr (property_key i (sp_key p), ob)"
proof (cases rule: property_key_cases [of i "sp_key p"])
  case (named sp)
  then show ?thesis
    using assms by (simp add: key_to_storage_def has_spec_def property_spec_by_name_def pydict_setdefault_def Let_def)
next
  case plain
  then show ?thesis using assms(1) by (simp add: key_to_storage_def property_spec_by_key_def Let_def)
qed

lemma set_items_keyed:
  assumes "class_specs (so_class ob) = specs_for_id i" "distinct (map sp_key (ps @ qs))"
    and "so_properties ob = keyed i sp_value ps"
    and "so_property_flags ob = keyed i (PInt \<circ> sp_flags) (ps @ qs)"
    and "so_property_keys ob = keyed i (PInt \<circ> sp_key) (filter (has_spec i) (ps @ qs))"
  shows "set_items ob (keyed i sp_value qs) = Inr (ob\<lparr>so_properties := keyed i sp_value (ps @ qs)\<rparr>)"
  using assms
proof (induction qs arbitrary: ob ps)
  case Nil
  then show ?case by simp
next
  case (Cons q qs)
  have k: "key_to_storage ob (property_key i (sp_key q)) = Inr (property_key i (sp_key q), ob)"
  proof (rule key_to_storage_keyed [OF Cons.prems(1)], rule impI)
    assume "has_spec i q"
    then have m: "q \<in> set (filter (has_spec i) (ps @ q # qs))" by simp
    have d: "distinct (map sp_key (filter (has_spec i) (ps @ q # qs)))" by (rule distinct_map_filter [OF Cons.prems(2)])
    show "pydict_get (so_property_keys ob) (property_key i (sp_key q)) \<noteq> None"
      unfolding Cons.prems(5) keyed_get_in [OF d m] by (rule option.distinct)
  qed
  have f: "pydict_get (so_property_flags ob) (property_key i (sp_key q)) \<noteq> None"
    unfolding Cons.prems(4) by (subst keyed_get_in [OF Cons.prems(2)]) simp_all
  have "sp_key q \<notin> sp_key ` set ps" using Cons.prems(2) by auto
  then have "spa_setitem ob (property_key i (sp_key q)) (sp_value q) =
      Inr (ob\<lparr>so_properties := keyed i sp_value (ps @ [q])\<rparr>)"
    using k f Cons.prems(3) by (simp add: spa_setitem_def pydict_set_new [OF keyed_get_new])
  then show ?case
    using Cons.IH [of "ob\<lparr>so_properties := keyed i sp_value (ps @ [q])\<rparr>" "ps @ [q]"] Cons.prems by simp
qed

lemma object_result_typed:
  assumes "map_of OBJECT_CLASSES_BY_ID i = Some cls" "distinct (map sp_key ps)"
  shows "object_result t i (keyed i sp_value ps) (keyed i (PInt \<circ> sp_flags) ps) (keyed i (PInt \<circ> sp_key) (filter (has_spec i) ps)) =
    Inr (typed_object cls t i ps)"
proof -
  have "spa_init cls (Some (keyed i sp_value ps)) (Some (keyed i (PInt \<circ> sp_flags) ps))
      (Some (keyed i (PInt \<circ> sp_key) (filter (has_spec i) ps))) (Some (PInt t)) (Some (PInt i)) (object_param_name i) [] =
    Inr \<lparr>so_class = cls, so_object_type = t, so_object_id = i,
      so_object_name = (case object_param_name i of None \<Rightarrow> class_object_name cls | Some n \<Rightarrow> Some n),
      so_properties = keyed i sp_value ps, so_property_flags = keyed i (PInt \<circ> sp_flags) ps,
      so_property_keys = keyed i (PInt \<circ> sp_key) (filter (has_spec i) ps)\<rparr>"
    using assms(2) class_specs_for_id [OF assms(1)] set_items_keyed [where ps = "[]" and qs = ps]
    by (simp add: spa_init_def given_items_def)
  then show ?thesis by (simp add: object_result_def assms(1) spa_object_def typed_object_def)
qed

section \<open>Round trip of an object\<close>

text \<open>
  What becomes of a property: what is prepared for it is written as a pod, and that pod is
  brought into the shape of the property.  A property that becomes itself is stable.
\<close>

definition becomes :: "(pyval \<Rightarrow> string) \<Rightarrow> nat \<Rightarrow> int \<Rightarrow> seen_property \<Rightarrow> seen_property \<Rightarrow> bool" where
  "becomes text_of n i p q \<longleftrightarrow>
     sp_key q = sp_key p \<and> sp_flags q = sp_flags p \<and> in_u32 (sp_key p) \<and> in_u32 (sp_flags p) \<and>
     (\<exists>prepared t w. prepare_property_value text_of i (sp_key p) (sp_value p) = Inr prepared \<and>
        built_as (case explicit_pod_type prepared of Some t' \<Rightarrow> Some t'
                  | None \<Rightarrow> Option.bind (property_spec_by_key i (sp_key p)) spec_pod_type) prepared t \<and>
        renders text_of n t prepared w (sp_size q) \<and> shaped i (sp_key p) w = Inr (sp_value q))"

definition stable :: "(pyval \<Rightarrow> string) \<Rightarrow> nat \<Rightarrow> int \<Rightarrow> seen_property \<Rightarrow> bool" where
  "stable text_of n i p \<longleftrightarrow> becomes text_of n i p p"

lemma property_identity_keyed:
  assumes "distinct (map sp_key ps)" "p \<in> set ps"
  shows "property_identity text_of i (keyed i (PInt \<circ> sp_key) (filter (has_spec i) ps)) (property_key i (sp_key p)) =
    Inr (PInt (sp_key p), property_spec_by_key i (sp_key p))"
proof (cases rule: property_key_cases [of i "sp_key p"])
  case (named sp)
  have m: "p \<in> set (filter (has_spec i) ps)" using assms(2) named(1) by (simp add: has_spec_def)
  have g: "pydict_get (keyed i (PInt \<circ> sp_key) (filter (has_spec i) ps)) (PStr (spec_name sp)) = Some (PInt (sp_key p))"
    using keyed_get_in [OF distinct_map_filter [OF assms(1)] m, of i "PInt \<circ> sp_key"] by (simp add: named(2))
  show ?thesis unfolding named(2) using g named(1,3) by (simp add: property_identity_def Let_def)
next
  case plain
  then show ?thesis by (simp add: property_identity_def)
qed

lemma no_explicit_type:
  "explicit_pod_type (PSpaObject c t i n (keyed i f ps) flags keys) = None"
proof -
  have "dict_get (keyed i f ps) k = None" if "k \<in> {''_pod_type'', ''pod_type''}" for k
  proof (induction ps)
    case (Cons p ps)
    have "as_str (property_key i (sp_key p)) \<noteq> Some k"
      using spec_name_not_type [of i "sp_key p"] that by (auto simp: property_key_def split: option.split)
    then show ?case using Cons by (simp add: dict_get_def)
  qed (simp add: dict_get_def)
  then show ?thesis by (simp add: explicit_pod_type_def)
qed

lemma typed_object_type: "built_as None (typed_object cls t i ps) SPA_TYPE_Object"
  by (simp add: built_as_def infer_spa_type_def typed_object_def no_explicit_type)

lemma typed_object_renders:
  assumes "map_of OBJECT_CLASSES_BY_ID i = Some cls" "in_u32 t" "in_u32 i" "distinct (map sp_key ps)"
    and "list_all2 (becomes text_of n i) ps qs"
  shows "renders text_of (Suc n) SPA_TYPE_Object (typed_object cls t i ps) (typed_object cls t i qs) (8 + properties_size qs)"
proof (rule renders.object)
  let ?flags = "keyed i (PInt \<circ> sp_flags) ps" and ?keys = "keyed i (PInt \<circ> sp_key) (filter (has_spec i) ps)"
  show "object_given (typed_object cls t i ps) t i (keyed i sp_value ps) ?flags ?keys"
    using assms(2,3) by (simp add: object_given_def typed_object_def object_parts_def actual_object_type_def)
  have "list_all2 (\<lambda>p q. sp_key p = sp_key q) ps qs"
    by (rule list_all2_mono [OF assms(5)]) (simp add: becomes_def)
  then have "map sp_key qs = map sp_key ps" by (induction ps qs rule: list_all2_induct) auto
  then have "distinct (map sp_key qs)" using assms(4) by simp
  then show "case property_dicts i (map property_entry qs) of
      (props, flags', keys') \<Rightarrow> object_result t i props flags' keys' = Inr (typed_object cls t i qs)"
    using object_result_typed [OF assms(1)] by (simp add: property_dicts_keyed)
  have "\<exists>prepared nested_type t w. property_given text_of i ?flags ?keys (property_key i (sp_key p), sp_value p) q prepared nested_type \<and>
      (case nested_type of Some t' \<Rightarrow> t = t' | None \<Rightarrow> infer_spa_type prepared = Inr t) \<and>
      renders text_of n t prepared w (sp_size q) \<and> shaped i (sp_key q) w = Inr (sp_value q)"
    if p: "p \<in> set ps" "becomes text_of n i p q" for p q
  proof -
    have "pydict_get ?flags (property_key i (sp_key p)) = Some (PInt (sp_flags p))"
      using keyed_get_in [OF assms(4) p(1), of i "PInt \<circ> sp_flags"] by simp
    then show ?thesis
      using p(2) property_identity_keyed [OF assms(4) p(1), of text_of i]
      by (auto simp: becomes_def property_given_def built_as_def)
  qed
  then show "list_all2 (\<lambda>x q. \<exists>prepared nested_type t w. property_given text_of i ?flags ?keys x q prepared nested_type \<and>
      (case nested_type of Some t' \<Rightarrow> t = t' | None \<Rightarrow> infer_spa_type prepared = Inr t) \<and>
      renders text_of n t prepared w (sp_size q) \<and> shaped i (sp_key q) w = Inr (sp_value q)) (keyed i sp_value ps) qs"
    using assms(5) by (auto simp: keyed_def list.rel_map list_all2_conv_all_nth)
qed

text \<open>Built and parsed, an object becomes the object of what its properties become.\<close>

lemma typed_object_parsed:
  assumes "map_of OBJECT_CLASSES_BY_ID i = Some cls" "in_u32 t" "in_u32 i" "distinct (map sp_key ps)"
    and "list_all2 (becomes text_of n i) ps qs" "Suc n < limit" "8 + properties_size qs < 4294967296"
  shows "\<exists>pod. build_spa_pod limit text_of (typed_object cls t i ps) None = Inr pod \<and>
    parse_spa_pod (pre @ pod @ post) (length pre) = Inr (typed_object cls t i qs)"
proof -
  obtain pod body where "build_spa_pod limit text_of (typed_object cls t i ps) None = Inr pod"
      "framed SPA_TYPE_Object body pod" "reads SPA_TYPE_Object (typed_object cls t i qs) body"
    using renders_good [OF typed_object_renders [OF assms(1-5)] assms(6) typed_object_type] assms(7) by (auto simp: good_def)
  then show ?thesis using framed_at(3) by blast
qed

text \<open>
  C7. An instance of an SPA object class, such as \<open>SpaProps\<close> or \<open>SpaParamRoute\<close>, is written to a pod
  from which \<open>parse_spa_pod\<close> constructs the same instance: the same class, type and id, the same
  properties under the same names, in order, and the same flags and numeric keys.\<close>

theorem spa_object_roundtrip:
  assumes "map_of OBJECT_CLASSES_BY_ID i = Some cls" "in_u32 t" "in_u32 i" "distinct (map sp_key ps)"
    and "list_all (stable text_of n i) ps" "Suc n < limit" "8 + properties_size ps < 4294967296"
  shows "\<exists>pod. build_spa_pod limit text_of (typed_object cls t i ps) None = Inr pod \<and>
    parse_spa_pod (pre @ pod @ post) (length pre) = Inr (typed_object cls t i ps)"
proof (rule typed_object_parsed [OF assms(1-4) _ assms(6,7)])
  show "list_all2 (becomes text_of n i) ps ps"
    using assms(5) by (auto simp: stable_def list_all_iff intro!: list.rel_refl_strong)
qed

text \<open>Two properties of different shapes: a flag, and volumes that single precision holds exactly.\<close>

definition half :: pyfloat where "half = 0x3FE0000000000000"
lemma half_single: "f32_pack half = Inr 0x3F000000" "f32_unpack 0x3F000000 = half"
  by code_simp+

definition sample_props :: "seen_property list" where
  "sample_props =
     [\<lparr>sp_key = SPA_PROP_mute, sp_flags = 0, sp_value = PBool True, sp_size = 4\<rparr>,
      \<lparr>sp_key = SPA_PROP_channelVolumes, sp_flags = 0, sp_value = PList [PFloat half, PFloat half], sp_size = 16\<rparr>]"

lemma props_spec:
  "property_spec_by_key SPA_PARAM_Props SPA_PROP_mute = Some (PropertySpec SPA_PROP_mute ''mute'' (Some SPA_TYPE_Bool) None None)"
  "property_spec_by_key SPA_PARAM_Props SPA_PROP_channelVolumes =
     Some (PropertySpec SPA_PROP_channelVolumes ''channelVolumes'' (Some SPA_TYPE_Array) (Some ''array_float'') None)"
  using specs_for_id_ok [of SPA_PARAM_Props]
  by (simp_all add: property_spec_by_key_def by_key_Some) (simp_all add: specs_for_id_def OBJECT_PROPERTY_SPECS_def PROPS_SPECS_def)

lemma stable_mute: "stable text_of (Suc 0) SPA_PARAM_Props \<lparr>sp_key = SPA_PROP_mute, sp_flags = 0, sp_value = PBool b, sp_size = 4\<rparr>"
proof -
  have "renders text_of (Suc 0) SPA_TYPE_Bool (PBool b) (PBool b) 4"
    using leaf_bool [of "PBool b"] by (auto intro: renders.leaf)
  then show ?thesis
    by (auto simp: stable_def becomes_def in_u32_def prepare_property_value_def props_spec is_pod_mapping_def explicit_pod_type_def
      built_as_def shaped_def specialize_property_value_def Let_def)
qed

lemma stable_volumes:
  assumes "\<forall>v \<in> set vs. \<exists>w. f32_pack v = Inr w \<and> f32_unpack w = v" "vs \<noteq> []"
  shows "stable text_of (Suc 0) SPA_PARAM_Props
    \<lparr>sp_key = SPA_PROP_channelVolumes, sp_flags = 0, sp_value = PList (map PFloat vs), sp_size = 8 + length vs * 4\<rparr>"
proof -
  let ?pod = "pod_mapping SPA_TYPE_Array [(''child_type'', PInt SPA_TYPE_Float), (''values'', PList (map PFloat vs))]"
  have "pod_leaf SPA_TYPE_Float (PFloat v) (PFloat v) 4" if "v \<in> set vs" for v
    using assms that leaf_float [of "PFloat v" v] by fastforce
  then have "list_all2 (\<lambda>x y. renders text_of 0 SPA_TYPE_Float x y 4) (map PFloat vs) (map PFloat vs)"
    by (auto simp: list.rel_map intro!: list.rel_refl_strong renders.leaf)
  then have r: "renders text_of (Suc 0) SPA_TYPE_Array ?pod (array_value (int 4) SPA_TYPE_Float (map PFloat vs))
      (8 + length (map PFloat vs) * 4)"
    by (rule renders.array [of _ _ "PInt SPA_TYPE_Float" PNone, rotated -1])
      (simp_all add: array_parts_def pod_mapping_def get_values_def get_or_def dict_get_def to_list_def child_type_of_def
        spa_type_def item_size_def assms(2))
  have c: "traverse convert_float (map PFloat vs) = Inr (map PFloat vs)"
    using traverse_map_Inr [of vs convert_float PFloat PFloat] by (simp add: convert_float_def)
  then have "specialize_property_value SPA_PARAM_Props SPA_PROP_channelVolumes (array_value (int 4) SPA_TYPE_Float (map PFloat vs))
      = Inr (PList (map PFloat vs))"
    by (simp add: specialize_property_value_def props_spec specialize_array_property_def specialize_array_def is_pod_mapping_def
      array_value_def pod_mapping_def dict_get_def array_to_values_def get_values_def get_or_def to_list_def Let_def)
  moreover have "explicit_pod_type ?pod = Some SPA_TYPE_Array"
    by (simp add: explicit_pod_type_def pod_mapping_def dict_get_def)
  ultimately show ?thesis
    using r by (auto simp: stable_def becomes_def in_u32_def prepare_property_value_def props_spec is_pod_mapping_def Let_def array_pod_def
      to_list_def shaped_def built_as_def)
qed

lemma sample_props_stable: "list_all (stable text_of (Suc 0) SPA_PARAM_Props) sample_props"
  using stable_mute [of text_of True] stable_volumes [of "[half, half]" text_of] half_single by (auto simp: sample_props_def)

theorem spa_object_roundtrip_witness:
  "\<exists>pod. build_spa_pod 3 (\<lambda>_. '''') (typed_object SpaProps SPA_TYPE_OBJECT_Props SPA_PARAM_Props sample_props) None = Inr pod \<and>
     parse_spa_pod pod 0 = Inr (typed_object SpaProps SPA_TYPE_OBJECT_Props SPA_PARAM_Props sample_props)"
proof -
  have "map_of OBJECT_CLASSES_BY_ID SPA_PARAM_Props = Some SpaProps" by (simp add: OBJECT_CLASSES_BY_ID_def)
  from spa_object_roundtrip [OF this _ _ _ sample_props_stable, of SPA_TYPE_OBJECT_Props 3 "\<lambda>_. ''''" "[]" "[]"]
  show ?thesis by (simp add: sample_props_def in_u32_def align_def)
qed

end
