(* ===== verification/SpaAccess.thy ===== *)
theory SpaAccess
  imports SpaTyped
begin

text \<open>
  What the mapping methods of \<open>SpaPodObject\<close> guarantee: the invariant of an instance, and that a
  property is read where it was written, under its name and under its number.
\<close>

section \<open>Keys\<close>

text \<open>The keys an instance accepts: integers and strings, which Python compares by value.\<close>

definition usable :: "pyval \<Rightarrow> bool" where
  "usable key \<longleftrightarrow> int_like key \<noteq> None \<or> as_str key \<noteq> None"

lemma usable_storage: "storage_key cls key \<Longrightarrow> usable key"
  by (auto simp: storage_key_def usable_def split: option.splits)

lemma usable_PStr [simp]: "usable (PStr s)"
  by (simp add: usable_def)

lemma py_eq_int_like: "int_like key = Some i \<Longrightarrow> py_eq key x \<longleftrightarrow> (case number_of x of Some n \<Rightarrow> number_eq (Inl i) n | None \<Rightarrow> False)"
  by (cases key) (auto split: option.splits)

lemma py_eq_as_str: "as_str key = Some s \<Longrightarrow> py_eq key x \<longleftrightarrow> as_str x = Some s"
  by (cases key; cases x) (auto split: option.splits)

lemma int_like_number: "int_like key = Some i \<Longrightarrow> number_of key = Some (Inl i)"
  by (cases key) auto

lemma int_like_not_str: "int_like key = Some i \<Longrightarrow> as_str key = None"
  by (cases key) auto

lemma number_not_str: "number_of x = Some n \<Longrightarrow> as_str x = None"
  by (cases x) auto

lemma usable_cases:
  assumes "usable key"
  obtains (int) i where "int_like key = Some i" | (str) s where "as_str key = Some s" "int_like key = None"
  using assms by (cases "int_like key") (auto simp: usable_def)

lemma usable_refl: "usable key \<Longrightarrow> py_eq key key"
  by (erule usable_cases) (auto simp: py_eq_int_like int_like_number py_eq_as_str)

lemma usable_trans:
  assumes "usable a" "usable b" "py_eq a b"
  shows "py_eq a x \<longleftrightarrow> py_eq b x"
  using assms
  by (elim usable_cases)
    (auto simp: py_eq_int_like py_eq_as_str int_like_number int_like_not_str dest: number_not_str split: option.splits)

lemma usable_same:
  assumes "usable a" "usable b" "py_eq a x" "py_eq b x"
  shows "py_eq a b"
proof -
  have "i = j" if "number_of x = Some n" "number_eq (Inl i) n" "number_eq (Inl j) n" for i j n
    using that by (cases n) auto
  then show ?thesis
    using assms by (elim usable_cases)
      (auto simp: py_eq_int_like py_eq_as_str int_like_number int_like_not_str dest: number_not_str split: option.splits)
qed

lemma usable_sym: "usable a \<Longrightarrow> usable b \<Longrightarrow> py_eq a b \<longleftrightarrow> py_eq b a"
  using usable_trans [of a b a] usable_trans [of b a b] usable_refl [of a] usable_refl [of b] by blast

section \<open>Dictionaries\<close>

lemma pydict_get_eq: "usable a \<Longrightarrow> usable b \<Longrightarrow> py_eq a b \<Longrightarrow> pydict_get kvs a = pydict_get kvs b"
proof -
  assume "usable a" "usable b" "py_eq a b"
  then have "(\<lambda>kv. py_eq a (fst kv)) = (\<lambda>kv :: pyval \<times> 'a. py_eq b (fst kv))" using usable_trans by blast
  then show ?thesis by (simp add: pydict_get_def)
qed

lemma pydict_get_set:
  assumes "usable a" "usable b"
  shows "pydict_get (pydict_set kvs a v) b = (if py_eq a b then Some v else pydict_get kvs b)"
proof (induction kvs)
  case Nil
  then show ?case using usable_sym [OF assms] by simp
next
  case (Cons kv kvs)
  have "py_eq b x \<longleftrightarrow> py_eq a b" if "py_eq a x" for x
    using usable_same [OF assms that] usable_trans [OF assms] that by blast
  then show ?case using Cons usable_trans [OF assms] by (cases kv) auto
qed

lemma pydict_get_del:
  assumes "usable a" "usable b"
  shows "pydict_get (pydict_del kvs a) b = (if py_eq a b then None else pydict_get kvs b)"
proof (induction kvs)
  case Nil
  then show ?case by (simp add: pydict_del_def)
next
  case (Cons kv kvs)
  have "py_eq b x \<longleftrightarrow> py_eq a b" if "py_eq a x" for x
    using usable_same [OF assms that] usable_trans [OF assms] that by blast
  then show ?case using Cons usable_trans [OF assms] by (cases kv) (auto simp: pydict_del_def)
qed

lemma pydict_get_key:
  assumes "pydict_get kvs key = Some v"
  shows "\<exists>k. (k, v) \<in> set kvs \<and> py_eq key k"
proof -
  obtain kv where "find (\<lambda>kv. py_eq key (fst kv)) kvs = Some kv" "v = snd kv"
    using assms by (auto simp: pydict_get_def)
  with find_SomeD [OF this(1)] show ?thesis by (cases kv) auto
qed

lemma pydict_set_keys: "(k, w) \<in> set (pydict_set kvs key v) \<Longrightarrow> k = key \<or> k \<in> fst ` set kvs"
  by (induction kvs) (force split: if_splits)+

lemma pydict_del_keys: "(k, w) \<in> set (pydict_del kvs key) \<Longrightarrow> (k, w) \<in> set kvs \<and> \<not> py_eq key k"
  by (auto simp: pydict_del_def)

section \<open>The invariant\<close>

text \<open>The key under which a property is kept.\<close>

definition storage_of :: "spa_object_class \<Rightarrow> pyval \<Rightarrow> pyval" where
  "storage_of cls key =
     (case (case int_like key of Some i \<Rightarrow> by_key (class_specs cls) i
            | None \<Rightarrow> Option.bind (as_str key) (by_name (class_specs cls))) of
        Some sp \<Rightarrow> PStr (spec_name sp)
      | None \<Rightarrow> key)"

lemma by_name_name: "by_name specs s = Some sp \<Longrightarrow> spec_name sp = s"
  unfolding by_name_def by (drule find_SomeD) simp

lemma storage_of_usable: "usable key \<Longrightarrow> usable (storage_of cls key)"
  by (auto simp: storage_of_def split: option.splits)

lemma storage_of_storage: "usable key \<Longrightarrow> storage_key cls (storage_of cls key)"
  by (erule usable_cases) (auto simp: storage_of_def storage_key_def split: option.splits)

lemma storage_of_str: "as_str key = Some s \<Longrightarrow> int_like key = None \<Longrightarrow> as_str (storage_of cls key) = Some s"
  by (auto simp: storage_of_def by_name_name split: option.splits)

lemma key_to_storage_Inr:
  assumes "key_to_storage ob key = Inr (sk, ob1)"
  shows "usable key" "sk = storage_of (so_class ob) key" "so_class ob1 = so_class ob"
    "so_properties ob1 = so_properties ob" "so_property_flags ob1 = so_property_flags ob"
  using assms by (auto simp: key_to_storage_def Let_def storage_of_def usable_def by_name_name split: option.splits)

text \<open>What \<open>spa_setitem\<close> does to the properties and their flags.\<close>

lemma spa_setitem_Inr:
  assumes "spa_setitem ob key v = Inr ob'"
  shows "usable key" "so_class ob' = so_class ob"
    "so_properties ob' = pydict_set (so_properties ob) (storage_of (so_class ob) key) v"
    "\<exists>n. so_property_flags ob' = (if pydict_get (so_property_flags ob) (storage_of (so_class ob) key) \<noteq> None
       then so_property_flags ob else pydict_set (so_property_flags ob) (storage_of (so_class ob) key) n)"
proof -
  obtain sk ob1 where s: "key_to_storage ob key = Inr (sk, ob1)"
    using assms by (auto simp: spa_setitem_def elim: rbind_InrE)
  note k = key_to_storage_Inr [OF s]
  show "usable key" by (rule k(1))
  show "so_class ob' = so_class ob"
    "so_properties ob' = pydict_set (so_properties ob) (storage_of (so_class ob) key) v"
    "\<exists>n. so_property_flags ob' = (if pydict_get (so_property_flags ob) (storage_of (so_class ob) key) \<noteq> None
       then so_property_flags ob else pydict_set (so_property_flags ob) (storage_of (so_class ob) key) n)"
    using assms s k by (auto simp: spa_setitem_def Let_def elim!: rbind_InrE split: if_splits)
qed

lemma spa_object_okD:
  assumes "spa_object_ok ob" "(k, v) \<in> set (so_properties ob)"
  shows "storage_key (so_class ob) k" "pydict_get (so_property_flags ob) k \<noteq> None"
  using assms by (auto simp: spa_object_ok_def list_all_iff)

lemma spa_setitem_ok:
  assumes "spa_object_ok ob" "spa_setitem ob key v = Inr ob'"
  shows "spa_object_ok ob'"
proof -
  note s = spa_setitem_Inr [OF assms(2)]
  let ?sk = "storage_of (so_class ob) key"
  have u: "usable ?sk" using storage_of_usable [OF s(1)] .
  have "storage_key (so_class ob) k \<and> pydict_get (so_property_flags ob') k \<noteq> None"
    if "(k, w) \<in> set (so_properties ob')" for k w
  proof -
    have k: "k = ?sk \<or> (\<exists>w. (k, w) \<in> set (so_properties ob))" using that s(3) pydict_set_keys by fastforce
    then have "storage_key (so_class ob) k"
      using storage_of_storage [OF s(1)] spa_object_okD(1) [OF assms(1)] by auto
    moreover have "pydict_get (so_property_flags ob') ?sk \<noteq> None"
      using s(4) u usable_refl by (auto simp: pydict_get_set)
    moreover have "pydict_get (so_property_flags ob') k \<noteq> None" if "(k, w) \<in> set (so_properties ob)" for w
      using s(4) u usable_storage [OF spa_object_okD(1) [OF assms(1) that]] spa_object_okD(2) [OF assms(1) that]
      by (auto simp: pydict_get_set)
    ultimately show ?thesis using k by auto
  qed
  then show ?thesis using s(2) by (auto simp: spa_object_ok_def list_all_iff)
qed

lemma set_items_ok: "spa_object_ok ob \<Longrightarrow> set_items ob items = Inr ob' \<Longrightarrow> spa_object_ok ob'"
proof (induction items arbitrary: ob)
  case (Cons kv items)
  obtain key v where "kv = (key, v)" by (cases kv)
  with Cons.prems obtain ob1 where "spa_setitem ob key v = Inr ob1" "set_items ob1 items = Inr ob'"
    by (auto elim: rbind_InrE)
  with Cons spa_setitem_ok show ?case by blast
qed simp

lemma spa_init_ok:
  assumes "spa_init cls properties property_flags property_keys object_type object_id object_name kwargs = Inr ob"
  shows "spa_object_ok ob"
proof -
  obtain ob0 items where "so_properties ob0 = []" "set_items ob0 items = Inr ob"
    using assms by (force simp: spa_init_def Let_def elim!: rbind_InrE)
  then show ?thesis using set_items_ok [of ob0 items ob] by (simp add: spa_object_ok_def)
qed

lemma spa_delitem_Inr:
  assumes "spa_delitem ob key = Inr ob'"
  shows "\<exists>rk. resolve_existing_key ob key = Inr rk \<and> pydict_get (so_properties ob) rk \<noteq> None \<and> so_class ob' = so_class ob \<and>
    so_properties ob' = pydict_del (so_properties ob) rk \<and> so_property_flags ob' = pydict_del (so_property_flags ob) rk"
  using assms by (auto simp: spa_delitem_def Let_def elim!: rbind_InrE split: if_splits)

text \<open>In an instance that satisfies the invariant, a key is found under its storage key.\<close>

lemma storage_of_present:
  assumes "spa_object_ok ob" "usable key" "pydict_get (so_properties ob) key \<noteq> None"
  shows "py_eq (storage_of (so_class ob) key) key"
proof -
  obtain k v where k: "(k, v) \<in> set (so_properties ob)" "py_eq key k" using assms(3) pydict_get_key by fastforce
  have sk: "storage_key (so_class ob) k" by (rule spa_object_okD(1) [OF assms(1) k(1)])
  show ?thesis
    using assms(2)
  proof (cases rule: usable_cases)
    case (int i)
    then have "int_like k = Some i"
      using k(2) usable_storage [OF sk] by (auto simp: py_eq_int_like int_like_number usable_def dest: number_not_str split: option.splits)
    then have "by_key (class_specs (so_class ob)) i = None" using sk by (simp add: storage_key_def)
    then show ?thesis using int usable_refl [OF assms(2)] by (simp add: storage_of_def)
  next
    case (str s)
    then show ?thesis using storage_of_str [OF str] by (simp add: py_eq_as_str)
  qed
qed

lemma resolve_existing:
  assumes "spa_object_ok ob" "usable key"
  shows "\<exists>rk. resolve_existing_key ob key = Inr rk \<and> usable rk \<and>
    pydict_get (so_properties ob) rk = pydict_get (so_properties ob) (storage_of (so_class ob) key) \<and>
    (pydict_get (so_properties ob) rk \<noteq> None \<longrightarrow> py_eq (storage_of (so_class ob) key) rk)"
proof (cases "pydict_get (so_properties ob) key")
  case None
  have "\<exists>rk. resolve_existing_key ob key = Inr rk \<and> usable rk \<and>
      (rk = storage_of (so_class ob) key \<or>
       rk = key \<and> pydict_get (so_properties ob) (storage_of (so_class ob) key) = None)"
    using assms(2) None
    by (elim usable_cases) (auto simp: resolve_existing_key_def Let_def storage_of_def usable_def split: option.splits)
  then show ?thesis using None usable_refl by fastforce
next
  case (Some v)
  have e: "py_eq (storage_of (so_class ob) key) key" using storage_of_present [OF assms] Some by simp
  then have "pydict_get (so_properties ob) (storage_of (so_class ob) key) = Some v"
    using pydict_get_eq [OF storage_of_usable [OF assms(2)] assms(2) e] Some by metis
  then show ?thesis using Some e assms(2) by (simp add: resolve_existing_key_def)
qed

text \<open>Reading and deleting, in terms of the storage key.\<close>

lemma spa_getitem_storage:
  assumes "spa_object_ok ob" "usable key"
  shows "spa_getitem ob key =
    (case pydict_get (so_properties ob) (storage_of (so_class ob) key) of
       Some v \<Rightarrow> Inr v
     | None \<Rightarrow> Inl (KeyError ''key''))"
  using resolve_existing [OF assms] by (auto simp: spa_getitem_def split: option.splits)

lemma spa_delitem_ok:
  assumes "spa_object_ok ob" "spa_delitem ob key = Inr ob'" "usable key"
  shows "spa_object_ok ob'"
proof -
  obtain rk where r: "resolve_existing_key ob key = Inr rk" "so_class ob' = so_class ob"
      "so_properties ob' = pydict_del (so_properties ob) rk" "so_property_flags ob' = pydict_del (so_property_flags ob) rk"
    using spa_delitem_Inr [OF assms(2)] by blast
  then have u: "usable rk" using resolve_existing [OF assms(1,3)] by auto
  have "storage_key (so_class ob) k \<and> pydict_get (so_property_flags ob') k \<noteq> None"
    if "(k, w) \<in> set (so_properties ob')" for k w
  proof -
    have k: "(k, w) \<in> set (so_properties ob)" "\<not> py_eq rk k" using that r(3) by (auto dest: pydict_del_keys)
    then show ?thesis
      using spa_object_okD [OF assms(1) k(1)] usable_storage r(4) by (auto simp: pydict_get_del [OF u])
  qed
  then show ?thesis using r(2) by (auto simp: spa_object_ok_def list_all_iff)
qed

section \<open>Reading what was written\<close>

text \<open>The instances a program can hold: constructed, and then written and deleted from by keys that Python accepts.\<close>

inductive spa_instance :: "SpaPodObject \<Rightarrow> bool" where
  init: "spa_init cls properties property_flags property_keys object_type object_id object_name kwargs = Inr ob \<Longrightarrow> spa_instance ob"
| setitem: "spa_instance ob \<Longrightarrow> spa_setitem ob key v = Inr ob' \<Longrightarrow> spa_instance ob'"
| delitem: "spa_instance ob \<Longrightarrow> usable key \<Longrightarrow> spa_delitem ob key = Inr ob' \<Longrightarrow> spa_instance ob'"

lemma spa_instance_ok: "spa_instance ob \<Longrightarrow> spa_object_ok ob"
  by (induction rule: spa_instance.induct) (auto intro: spa_init_ok spa_setitem_ok spa_delitem_ok)

lemma getitem_after_setitem:
  assumes "spa_object_ok ob" "spa_setitem ob key v = Inr ob'" "usable other"
  shows "spa_getitem ob' other =
    (if py_eq (storage_of (so_class ob) key) (storage_of (so_class ob) other) then Inr v else spa_getitem ob other)"
proof -
  note s = spa_setitem_Inr [OF assms(2)]
  show ?thesis
    using s(2,3) spa_getitem_storage [OF assms(1,3)] spa_getitem_storage [OF spa_setitem_ok [OF assms(1,2)] assms(3)]
    by (simp add: pydict_get_set [OF storage_of_usable [OF s(1)] storage_of_usable [OF assms(3)]])
qed

lemma getitem_after_delitem:
  assumes "spa_object_ok ob" "spa_delitem ob key = Inr ob'" "usable key" "usable other"
  shows "spa_getitem ob' other =
    (if py_eq (storage_of (so_class ob) key) (storage_of (so_class ob) other) then Inl (KeyError ''key'') else spa_getitem ob other)"
proof -
  let ?sk = "storage_of (so_class ob) key" and ?so = "storage_of (so_class ob) other"
  obtain rk where r: "resolve_existing_key ob key = Inr rk" "pydict_get (so_properties ob) rk \<noteq> None" "so_class ob' = so_class ob"
      "so_properties ob' = pydict_del (so_properties ob) rk"
    using spa_delitem_Inr [OF assms(2)] by blast
  then have u: "usable rk" "py_eq ?sk rk" using resolve_existing [OF assms(1,3)] by auto
  have "py_eq rk ?so \<longleftrightarrow> py_eq ?sk ?so" using usable_trans [OF storage_of_usable [OF assms(3)] u] by simp
  then show ?thesis
    using r(3,4) spa_getitem_storage [OF assms(1,4)] spa_getitem_storage [OF spa_delitem_ok [OF assms(1,2,3)] assms(4)]
    by (simp add: pydict_get_del [OF u(1) storage_of_usable [OF assms(4)]])
qed

lemma class_table_ok: "cls \<in> snd ` set OBJECT_CLASSES_BY_ID \<Longrightarrow> table_ok (class_specs cls)"
proof -
  assume "cls \<in> snd ` set OBJECT_CLASSES_BY_ID"
  moreover have "distinct (map fst OBJECT_CLASSES_BY_ID)" by (simp add: OBJECT_CLASSES_BY_ID_def)
  ultimately obtain i where "map_of OBJECT_CLASSES_BY_ID i = Some cls" by (force simp: map_of_is_SomeI)
  then show ?thesis using class_specs_for_id specs_for_id_ok by metis
qed

lemma storage_of_named:
  assumes "table_ok (class_specs cls)" "sp \<in> set (class_specs cls)"
  shows "storage_of cls (PInt (spec_key sp)) = PStr (spec_name sp)" "storage_of cls (PStr (spec_name sp)) = PStr (spec_name sp)"
proof -
  have "by_key (class_specs cls) (spec_key sp) = Some sp" "by_name (class_specs cls) (spec_name sp) = Some sp"
    using assms by (simp_all add: by_key_Some by_name_Some)
  then show "storage_of cls (PInt (spec_key sp)) = PStr (spec_name sp)" "storage_of cls (PStr (spec_name sp)) = PStr (spec_name sp)"
    by (simp_all add: storage_of_def)
qed

text \<open>Writing a property of the class and deleting one that is there succeed, under the name and under the number.\<close>

lemma spa_setitem_named:
  assumes "table_ok (class_specs (so_class ob))" "sp \<in> set (class_specs (so_class ob))"
    and "key \<in> {PStr (spec_name sp), PInt (spec_key sp)}"
  shows "\<exists>written. spa_setitem ob key v = Inr written"
proof -
  have n: "by_key (class_specs (so_class ob)) (spec_key sp) = Some sp" "by_name (class_specs (so_class ob)) (spec_name sp) = Some sp"
    using assms(1,2) by (simp_all add: by_key_Some by_name_Some)
  then obtain keys where "key_to_storage ob key = Inr (PStr (spec_name sp), ob\<lparr>so_property_keys := keys\<rparr>)"
    using assms(3) by (auto simp: key_to_storage_def)
  then show ?thesis using n by (simp add: spa_setitem_def Let_def)
qed

lemma spa_delitem_present:
  assumes "spa_object_ok ob" "usable key" "pydict_get (so_properties ob) (storage_of (so_class ob) key) \<noteq> None"
  shows "\<exists>deleted. spa_delitem ob key = Inr deleted"
  using resolve_existing [OF assms(1,2)] assms(3) by (auto simp: spa_delitem_def Let_def)

text \<open>
  C35. An SPA object behaves as a mapping in which a property has two keys, its name and its number.
  A property of the class can always be written under either; it is then read under both and can be
  deleted under either, whichever it was written under; once deleted it is missing under both, for
  reading and for deleting again.  Every other property keeps its value throughout.  This holds in
  every state an instance can reach.\<close>

theorem spa_read_after_write:
  assumes "spa_instance ob" "so_class ob \<in> snd ` set OBJECT_CLASSES_BY_ID" "sp \<in> set (class_specs (so_class ob))"
    and "key \<in> {PStr (spec_name sp), PInt (spec_key sp)}" "again \<in> {PStr (spec_name sp), PInt (spec_key sp)}"
  shows "\<exists>written deleted. spa_setitem ob key v = Inr written \<and> spa_delitem written again = Inr deleted \<and>
    (\<forall>k \<in> {PStr (spec_name sp), PInt (spec_key sp)}.
       spa_getitem written k = Inr v \<and> spa_getitem deleted k = Inl (KeyError ''key'') \<and>
       spa_delitem deleted k = Inl (KeyError ''key'')) \<and>
    (\<forall>other. usable other \<longrightarrow> \<not> py_eq (PStr (spec_name sp)) (storage_of (so_class ob) other) \<longrightarrow>
       spa_getitem written other = spa_getitem ob other \<and> spa_getitem deleted other = spa_getitem ob other)"
proof -
  note ok = spa_instance_ok [OF assms(1)] and t = class_table_ok [OF assms(2)]
  note s = storage_of_named [OF t assms(3)]
  have k: "usable k \<and> storage_of (so_class ob) k = PStr (spec_name sp)" if "k \<in> {PStr (spec_name sp), PInt (spec_key sp)}" for k
    using that s by (auto simp: usable_def)
  obtain written where w: "spa_setitem ob key v = Inr written" using spa_setitem_named [OF t assms(3,4)] by blast
  note c = spa_setitem_Inr(2) [OF w] and wok = spa_setitem_ok [OF ok w]
  have read: "spa_getitem written k = Inr v" if "k \<in> {PStr (spec_name sp), PInt (spec_key sp)}" for k
    using getitem_after_setitem [OF ok w] k [OF that] k [OF assms(4)] by simp
  have "pydict_get (so_properties written) (storage_of (so_class written) again) \<noteq> None"
    using read [OF assms(5)] spa_getitem_storage [OF wok, of again] k [OF assms(5)] by (auto split: option.splits)
  then obtain deleted where d: "spa_delitem written again = Inr deleted"
    using spa_delitem_present [OF wok] k [OF assms(5)] by blast
  note dok = spa_delitem_ok [OF wok d] and after = getitem_after_delitem [OF wok d]
  have gone: "spa_getitem deleted k = Inl (KeyError ''key'') \<and> spa_delitem deleted k = Inl (KeyError ''key'')"
    if m: "k \<in> {PStr (spec_name sp), PInt (spec_key sp)}" for k
  proof -
    have g: "spa_getitem deleted k = Inl (KeyError ''key'')"
      using after [of k] k [OF m] k [OF assms(5)] c by simp
    obtain rk where "resolve_existing_key deleted k = Inr rk"
      using resolve_existing [OF dok, of k] k [OF m] k [OF assms(5)] by blast
    then show ?thesis using g by (auto simp: spa_getitem_def spa_delitem_def split: option.splits)
  qed
  show ?thesis
    using w d read gone getitem_after_setitem [OF ok w] after k [OF assms(4)] k [OF assms(5)] c
    by (intro exI [of _ written] exI [of _ deleted]) auto
qed

text \<open>A volume, written under its number and read under its name.\<close>

definition volume_spec :: PropertySpec where
  "volume_spec = PropertySpec SPA_PROP_volume ''volume'' (Some SPA_TYPE_Float) None None"

definition empty_props :: SpaPodObject where
  "empty_props =
     \<lparr>so_class = SpaProps, so_object_type = SPA_TYPE_OBJECT_Props, so_object_id = SPA_PARAM_Props,
       so_object_name = Some ''Props'', so_properties = [], so_property_flags = [], so_property_keys = []\<rparr>"

lemma props_specs: "class_specs SpaProps = specs_for_id SPA_PARAM_Props"
  by (simp add: SpaProps_def create_object_class_def)

lemma volume_spec_in: "volume_spec \<in> set (class_specs SpaProps)"
  by (simp add: props_specs volume_spec_def specs_for_id_def OBJECT_PROPERTY_SPECS_def PROPS_SPECS_def)

lemma empty_props_init: "spa_init SpaProps None None None None None None [] = Inr empty_props"
  by (simp add: spa_init_def SpaProps_def create_object_class_def empty_props_def given_items_def OBJECT_ID_TO_NAME_def)

theorem spa_read_after_write_witness:
  "\<exists>written deleted. spa_setitem empty_props (PInt SPA_PROP_volume) (PInt 1) = Inr written \<and>
     spa_getitem written (PStr ''volume'') = Inr (PInt 1) \<and>
     spa_delitem written (PStr ''volume'') = Inr deleted \<and>
     spa_getitem deleted (PInt SPA_PROP_volume) = Inl (KeyError ''key'')"
proof -
  have "SpaProps \<in> snd ` set OBJECT_CLASSES_BY_ID" by (simp add: OBJECT_CLASSES_BY_ID_def)
  then have c: "so_class empty_props \<in> snd ` set OBJECT_CLASSES_BY_ID" by (simp add: empty_props_def)
  have v: "volume_spec \<in> set (class_specs (so_class empty_props))" using volume_spec_in by (simp add: empty_props_def)
  have k: "PInt SPA_PROP_volume \<in> {PStr (spec_name volume_spec), PInt (spec_key volume_spec)}"
    "PStr ''volume'' \<in> {PStr (spec_name volume_spec), PInt (spec_key volume_spec)}" by (simp_all add: volume_spec_def)
  from spa_read_after_write [OF spa_instance.init [OF empty_props_init] c v k, of "PInt 1"] show ?thesis
    by (auto simp: volume_spec_def)
qed

end
