(* ===== verification/ParameterControls.thy ===== *)
theory ParameterControls
  imports ManagedLinks SpaAccess
begin

text \<open>
  The controls of \<open>src/src/wyreplumber/runtime/controls.py\<close> that write SPA parameters or the
  mixer: \<open>set_runtime_parameter\<close>, the audio properties and the mixer of a node, and the selection
  of a device profile and a device route.  \<open>limit\<close> and \<open>text_of\<close> are those of \<open>build_spa_pod\<close>.
  An argument that may be left out (\<open>_UNSET\<close>) is an option.  The text of a failure leaves out the
  quoted \<open>repr\<close> of a profile's or a route's name.
\<close>

section \<open>Values\<close>

definition non_negative_finite :: "pyval \<Rightarrow> string \<Rightarrow> exn + pyfloat" where
  "non_negative_finite value name =
     (if \<not> is_number value then Inl (TypeError (name @ '' must be a number''))
      else rbind (py_float value (TypeError (name @ '' must be a number''))) (\<lambda>result.
           if \<not> isfinite result \<or> float_lt result 0 then Inl (ValueError (name @ '' must be finite and non-negative''))
           else Inr result))"

definition float32 :: "pyfloat \<Rightarrow> exn + pyfloat" where
  "float32 value = rbind (pack_f32 value) (\<lambda>b. unpack_f32 b 0)"

definition raw_pod_data :: "pyval \<Rightarrow> exn + bytes" where
  "raw_pod_data data = (case data of PBytes b \<Rightarrow> Inr b | _ \<Rightarrow> Inl (TypeError ''raw SPA pod data must be bytes-like''))"

definition parameter_pod_bytes :: "nat \<Rightarrow> (pyval \<Rightarrow> string) \<Rightarrow> pyval \<Rightarrow> pyval \<Rightarrow> exn + bytes" where
  "parameter_pod_bytes limit text_of value pod_type =
     rbind (if pod_type = PNone then Inr None else rbind (val_identifier pod_type ''pod_type'') (\<lambda>t. Inr (Some t))) (\<lambda>given_type.
     rbind (case Option.bind (as_mapping value) (\<lambda>kvs. dict_get kvs ''data'') of
              Some data \<Rightarrow> raw_pod_data data
            | None \<Rightarrow> (case value of PBytes b \<Rightarrow> Inr b | _ \<Rightarrow> build_spa_pod limit text_of value given_type)) (\<lambda>raw.
     if length raw < 8 then Inl (ValueError ''raw SPA pod is smaller than its header'')
     else rbind (unpack_pair raw 0) (\<lambda>(size, _).
          if int (length raw) < 8 + size then Inl (ValueError ''raw SPA pod data is shorter than its declared size'')
          else Inr raw)))"

section \<open>Setting a parameter\<close>

definition parameter_target :: "RuntimeObjectKind \<Rightarrow> pyval \<Rightarrow> pyval \<Rightarrow> exn + MutationTargetValue" where
  "parameter_target kind object_id parameter_id =
     mk_MutationTargetValue (object_kind_obj kind) object_id (PDict [(PStr ''parameter_id'', parameter_id)])"

definition pod_payload :: "pyval \<Rightarrow> bytes \<Rightarrow> pyval" where
  "pod_payload flags raw_pod = PDict [(PStr ''flags'', flags), (PStr ''pod_base64'', PStr (b64encode raw_pod))]"

text \<open>The validation of the arguments, in the order of the code.\<close>

definition parameter_request ::
    "nat \<Rightarrow> (pyval \<Rightarrow> string) \<Rightarrow> pyval \<Rightarrow> pyval \<Rightarrow> pyval \<Rightarrow> pyval \<Rightarrow> pyval \<Rightarrow> pyval \<Rightarrow> pyval \<Rightarrow>
     exn + MutationTargetValue \<times> pyval \<times> pyval" where
  "parameter_request limit text_of target_kind target_id parameter_id value confirmation_predicates flags pod_type =
     rbind (val_enum object_kind_value object_kind_members target_kind ''target_kind'') (\<lambda>kind.
     rbind (check (kind \<in> {KDevice, KNode, KPort}) (ValueError ''parameter targets must be a device, node, or port'')) (\<lambda>_.
     rbind (val_identifier target_id ''target_id'') (\<lambda>_.
     rbind (val_required_string parameter_id ''parameter_id'' False) (\<lambda>_.
     case as_int flags of
       None \<Rightarrow> Inl (TypeError ''flags must be an integer'')
     | Some n \<Rightarrow>
         rbind (check (0 \<le> n \<and> n \<le> 4294967295) (ValueError ''flags must be between 0 and 4294967295'')) (\<lambda>_.
         rbind (to_list confirmation_predicates) (\<lambda>predicates.
         rbind (parameter_pod_bytes limit text_of value pod_type) (\<lambda>raw_pod.
         rbind (parameter_target kind target_id parameter_id) (\<lambda>target.
         Inr (target, PTuple predicates, pod_payload flags raw_pod)))))))))"

definition set_runtime_parameter ::
    "'w runtime \<Rightarrow> nat \<Rightarrow> (pyval \<Rightarrow> string) \<Rightarrow> pyval \<Rightarrow> pyval \<Rightarrow> pyval \<Rightarrow> pyval \<Rightarrow> pyval \<Rightarrow> pyval \<Rightarrow> pyval \<Rightarrow> pyval \<Rightarrow> pyval \<Rightarrow>
     pyval \<Rightarrow> pyval \<Rightarrow> 'w control" where
  "set_runtime_parameter env limit text_of expected_generation target_kind target_id parameter_id value
       confirmation_predicates expected_sequence timeout flags pod_type request_id =
     obind (alift (parameter_request limit text_of target_kind target_id parameter_id value confirmation_predicates
              flags pod_type)) (\<lambda>(target, predicates, payload).
     submit env expected_generation SET_PARAMETER target predicates timeout expected_sequence payload request_id None)"

section \<open>Audio properties\<close>

text \<open>The properties that are given, and what their confirmation expects in single precision.\<close>

definition volume_fields :: "pyval \<Rightarrow> exn + fields \<times> fields" where
  "volume_fields value =
     rbind (non_negative_finite value ''volume'') (\<lambda>volume.
     rbind (float32 volume) (\<lambda>expected.
     Inr ([(''volume'', PFloat volume)], [(''volume'', PFloat expected)])))"

definition mute_fields :: "pyval \<Rightarrow> exn + fields \<times> fields" where
  "mute_fields value =
     (case value of
        PBool _ \<Rightarrow> Inr ([(''mute'', value)], [(''mute'', value)])
      | _ \<Rightarrow> Inl (TypeError ''mute must be a boolean''))"

definition channel_volume_fields :: "pyval \<Rightarrow> exn + fields \<times> fields" where
  "channel_volume_fields value =
     (case as_seq value of
        None \<Rightarrow> Inl (TypeError ''channel_volumes must be a sequence'')
      | Some items \<Rightarrow>
          rbind (traverse (\<lambda>item. non_negative_finite item ''channel_volumes item'') items) (\<lambda>values.
          if values = [] then Inl (ValueError ''channel_volumes must not be empty'')
          else rbind (traverse float32 values) (\<lambda>expected.
               Inr ([(''channelVolumes'', PTuple (map PFloat values))],
                 [(''channel_volumes'', PTuple (map PFloat expected))]))))"

definition given_fields :: "(pyval \<Rightarrow> exn + fields \<times> fields) \<Rightarrow> pyval option \<Rightarrow> exn + fields \<times> fields" where
  "given_fields validated given = (case given of None \<Rightarrow> Inr ([], []) | Some value \<Rightarrow> validated value)"

definition audio_fields :: "pyval option \<Rightarrow> pyval option \<Rightarrow> pyval option \<Rightarrow> exn + fields \<times> fields" where
  "audio_fields volume mute channel_volumes =
     rbind (given_fields volume_fields volume) (\<lambda>(properties1, expected1).
     rbind (given_fields mute_fields mute) (\<lambda>(properties2, expected2).
     rbind (given_fields channel_volume_fields channel_volumes) (\<lambda>(properties3, expected3).
     Inr (properties1 @ properties2 @ properties3, expected1 @ expected2 @ expected3))))"

text \<open>\<open>spa_pod.SpaProps(**properties)\<close> and the other classes, constructed with keyword arguments.\<close>

definition construct_spa :: "spa_object_class \<Rightarrow> fields \<Rightarrow> exn + pyval" where
  "construct_spa cls kwargs =
     rbind (spa_init cls None None None None None None kwargs) (\<lambda>ob. Inr (spa_object ob))"

definition audio_request ::
    "pyval \<Rightarrow> pyval option \<Rightarrow> pyval option \<Rightarrow> pyval option \<Rightarrow> exn + pyval \<times> pyval" where
  "audio_request node_id volume mute channel_volumes =
     (if volume = None \<and> mute = None \<and> channel_volumes = None
      then Inl (ValueError ''at least one audio property must be supplied'')
      else rbind (audio_fields volume mute channel_volumes) (\<lambda>(properties, expected).
           rbind (parameter_target KNode node_id (PStr ''Props'')) (\<lambda>target.
           rbind (predicate_tuple (map (\<lambda>(name, value). equals_predicate target [PStr ''values'', PInt 0, PStr name] value)
                    expected)) (\<lambda>predicates.
           rbind (construct_spa SpaProps properties) (\<lambda>value.
           Inr (value, predicates))))))"

definition set_node_audio_properties ::
    "'w runtime \<Rightarrow> nat \<Rightarrow> (pyval \<Rightarrow> string) \<Rightarrow> pyval \<Rightarrow> pyval \<Rightarrow> pyval \<Rightarrow> pyval option \<Rightarrow> pyval option \<Rightarrow> pyval option \<Rightarrow>
     pyval \<Rightarrow> pyval \<Rightarrow> 'w control" where
  "set_node_audio_properties env limit text_of node_id expected_generation expected_sequence volume mute channel_volumes
       timeout request_id =
     obind (alift (audio_request node_id volume mute channel_volumes)) (\<lambda>(value, predicates).
     set_runtime_parameter env limit text_of expected_generation (object_kind_obj KNode) node_id (PStr ''Props'') value
       predicates expected_sequence timeout (PInt 0) PNone request_id)"

section \<open>The mixer of a node\<close>

text \<open>\<open>0.005\<close>, the tolerance of an effective volume.\<close>

definition mixer_tolerance :: pyval where
  "mixer_tolerance = PFloat 0x3F747AE147AE147B"

definition mixer_target :: "pyval \<Rightarrow> exn + MutationTargetValue" where
  "mixer_target node_id =
     mk_MutationTargetValue (object_kind_obj KNode) node_id
       (PDict [(PStr ''parameter_id'', PStr ''Mixer''), (PStr ''control'', PStr ''mixer'')])"

definition mixer_volume :: "MutationTargetValue \<Rightarrow> pyval \<Rightarrow> exn + fields \<times> ConfirmationPredicateValue list" where
  "mixer_volume target value =
     rbind (non_negative_finite value ''volume'') (\<lambda>volume.
     rbind (mk_ConfirmationPredicateValue (MutationTargetValue_obj target)
              (PStrEnum ''ConfirmationOperator'' (operator_value APPROXIMATELY_EQUALS))
              (PTuple [PStr ''values'', PInt 0, PStr ''volume'']) (PFloat volume) mixer_tolerance) (\<lambda>predicate.
     Inr ([(''volume'', PFloat volume)], [predicate])))"

definition mixer_mute :: "MutationTargetValue \<Rightarrow> pyval \<Rightarrow> exn + fields \<times> ConfirmationPredicateValue list" where
  "mixer_mute target value =
     (case value of
        PBool _ \<Rightarrow>
          rbind (equals_predicate target [PStr ''values'', PInt 0, PStr ''mute''] value) (\<lambda>predicate.
          Inr ([(''mute'', value)], [predicate]))
      | _ \<Rightarrow> Inl (TypeError ''mute must be a boolean''))"

definition mixer_given ::
    "(pyval \<Rightarrow> exn + fields \<times> ConfirmationPredicateValue list) \<Rightarrow> pyval option \<Rightarrow> exn + fields \<times> ConfirmationPredicateValue list" where
  "mixer_given validated given = (case given of None \<Rightarrow> Inr ([], []) | Some value \<Rightarrow> validated value)"

definition mixer_request ::
    "pyval \<Rightarrow> pyval option \<Rightarrow> pyval option \<Rightarrow> exn + MutationTargetValue \<times> pyval \<times> pyval" where
  "mixer_request node_id volume mute =
     (if volume = None \<and> mute = None then Inl (ValueError ''volume or mute must be supplied'')
      else rbind (pipewire_identifier node_id ''node_id'') (\<lambda>_.
           rbind (mixer_target node_id) (\<lambda>target.
           rbind (mixer_given (mixer_volume target) volume) (\<lambda>(payload1, predicates1).
           rbind (mixer_given (mixer_mute target) mute) (\<lambda>(payload2, predicates2).
           Inr (target, tuple_obj ConfirmationPredicateValue_obj (predicates1 @ predicates2),
             PDict (map (\<lambda>(k, v). (PStr k, v)) (payload1 @ payload2))))))))"

definition set_node_mixer ::
    "'w runtime \<Rightarrow> pyval \<Rightarrow> pyval \<Rightarrow> pyval \<Rightarrow> pyval option \<Rightarrow> pyval option \<Rightarrow> pyval \<Rightarrow> pyval \<Rightarrow> 'w control" where
  "set_node_mixer env node_id expected_generation expected_sequence volume mute timeout request_id =
     obind (alift (mixer_request node_id volume mute)) (\<lambda>(target, predicates, payload).
     submit env expected_generation SET_NODE_MIXER target predicates timeout expected_sequence payload request_id None)"

definition set_node_volume ::
    "'w runtime \<Rightarrow> pyval \<Rightarrow> pyval \<Rightarrow> pyval \<Rightarrow> pyval \<Rightarrow> pyval \<Rightarrow> pyval \<Rightarrow> 'w control" where
  "set_node_volume env node_id volume expected_generation expected_sequence timeout request_id =
     set_node_mixer env node_id expected_generation expected_sequence (Some volume) None timeout request_id"

definition set_node_mute ::
    "'w runtime \<Rightarrow> pyval \<Rightarrow> pyval \<Rightarrow> pyval \<Rightarrow> pyval \<Rightarrow> pyval \<Rightarrow> pyval \<Rightarrow> 'w control" where
  "set_node_mute env node_id mute expected_generation expected_sequence timeout request_id =
     set_node_mixer env node_id expected_generation expected_sequence None (Some mute) timeout request_id"

section \<open>Selecting a profile\<close>

definition parameter_selection_request ::
    "'w runtime \<Rightarrow> nat \<Rightarrow> (pyval \<Rightarrow> string) \<Rightarrow> MutationOperation \<Rightarrow> string \<Rightarrow> int \<Rightarrow> pyval \<Rightarrow> pyval \<Rightarrow> pyval \<Rightarrow> pyval \<Rightarrow>
     pyval \<Rightarrow> pyval \<Rightarrow> ('w, MutationRequest) action" where
  "parameter_selection_request env limit text_of operation parameter_id device_id value expected_generation expected_sequence
       predicates timeout request_id =
     abind (alift (rbind (parameter_pod_bytes limit text_of value PNone) (\<lambda>raw_pod.
                   rbind (parameter_target KDevice (PInt device_id) (PStr parameter_id)) (\<lambda>target.
                   Inr (target, pod_payload (PInt 0) raw_pod))))) (\<lambda>(target, payload).
     create_request env expected_generation (PStrEnum ''MutationOperation'' (operation_value operation))
       (MutationTargetValue_obj target) predicates timeout expected_sequence payload request_id PNone)"

text \<open>The target whose observation is the profile or the route of an index.\<close>

definition index_target :: "string \<Rightarrow> int \<Rightarrow> int \<Rightarrow> exn + MutationTargetValue" where
  "index_target field device_id index =
     mk_MutationTargetValue (object_kind_obj KDevice) (PInt device_id) (PDict [(PStr field, PInt index)])"

definition profile_request :: "pyval \<Rightarrow> exn + ProfileValue \<times> pyval \<times> pyval" where
  "profile_request given =
     rbind (case as_ProfileValue given of
              None \<Rightarrow> Inl (TypeError ''profile must be a detached ProfileValue'')
            | Some profile \<Rightarrow> Inr profile) (\<lambda>profile.
     rbind (pipewire_identifier (PInt (pf_device_id profile)) ''profile.device_id'') (\<lambda>_.
     rbind (pipewire_identifier (PInt (pf_index profile)) ''profile.index'') (\<lambda>_.
     rbind (index_target ''profile_index'' (pf_device_id profile) (pf_index profile)) (\<lambda>target.
     rbind (construct_spa SpaParamProfile [(''index'', PInt (pf_index profile))]) (\<lambda>value.
     rbind (predicate_tuple
              [equals_predicate target [PStr ''active''] (PBool True),
               equals_predicate target [PStr ''name''] (PStr (pf_name profile))]) (\<lambda>predicates.
     Inr (profile, value, predicates)))))))"

definition changed_identity :: "string \<Rightarrow> string \<Rightarrow> pyval" where
  "changed_identity expected observed = PDict [(PStr ''expected_name'', PStr expected), (PStr ''observed_name'', PStr observed)]"

text \<open>Nothing to do, or nothing that can be done: the checks that both selections end with.\<close>

definition unless_unavailable ::
    "'w runtime \<Rightarrow> MutationRequest \<Rightarrow> RuntimeSnapshot \<Rightarrow> Availability \<Rightarrow> string \<Rightarrow> 'w control \<Rightarrow> 'w control" where
  "unless_unavailable env request preflight available message otherwise =
     obind (alift (confirmations_from_snapshot preflight (rq_confirmation_predicates request))) (\<lambda>confirmations w.
       if length confirmations = length (rq_confirmation_predicates request)
       then execute_confirmed_mutation env request (Some preflight) w
       else if available = AvailableNo then Some (selection_failure env request TARGET_UNAVAILABLE message (PDict []) w)
       else otherwise w)"

definition select_profile_from :: "'w runtime \<Rightarrow> MutationRequest \<Rightarrow> ProfileValue \<Rightarrow> RuntimeSnapshot \<Rightarrow> 'w control" where
  "select_profile_from env request profile preflight w =
     (if preflight_is_stale request preflight then execute_confirmed_mutation env request (Some preflight) w
      else if map_of (devices_by_id preflight) (pf_device_id profile) = None
      then Some (selection_failure env request TARGET_NOT_FOUND (''device '' @ show_int (pf_device_id profile) @ '' is not present in the current runtime'') (PDict []) w)
      else case map_of (profiles_by_key preflight) (pf_device_id profile, pf_index profile) of
        None \<Rightarrow> Some (selection_failure env request TARGET_NOT_FOUND (''profile '' @ show_int (pf_index profile) @ '' is not enumerated for device '' @
               show_int (pf_device_id profile)) (PDict []) w)
      | Some current \<Rightarrow>
          if pf_name current \<noteq> pf_name profile
          then Some (selection_failure env request TARGET_IDENTITY_CHANGED ''the profile index now identifies a different profile''
                 (changed_identity (pf_name profile) (pf_name current)) w)
          else unless_unavailable env request preflight (pf_available current) ''profile is currently unavailable''
                 (execute_confirmed_mutation env request (Some preflight)) w)"

definition select_device_profile ::
    "'w runtime \<Rightarrow> nat \<Rightarrow> (pyval \<Rightarrow> string) \<Rightarrow> pyval \<Rightarrow> pyval \<Rightarrow> pyval \<Rightarrow> pyval \<Rightarrow> pyval \<Rightarrow> 'w control" where
  "select_device_profile env limit text_of profile expected_generation expected_sequence timeout request_id =
     obind (alift (profile_request profile)) (\<lambda>(profile, value, predicates).
     obind (parameter_selection_request env limit text_of SELECT_PROFILE ''Profile'' (pf_device_id profile) value
              expected_generation expected_sequence predicates timeout request_id) (\<lambda>request.
     obind (capture_snapshot_call env) (\<lambda>preflight.
     select_profile_from env request profile preflight)))"

section \<open>Selecting a route\<close>

definition route_spa_device :: "RouteValue \<Rightarrow> exn + int" where
  "route_spa_device route =
     (case map_of (rt_properties route) ''spa_device_index'' of
        Some value \<Rightarrow>
          if value = PNone then Inl (ValueError ''route does not expose its SPA device identity'')
          else pipewire_identifier value ''route SPA device identity''
      | None \<Rightarrow> Inl (ValueError ''route does not expose its SPA device identity''))"

definition route_pod_value :: "RouteValue \<Rightarrow> int \<Rightarrow> bool \<Rightarrow> fields \<Rightarrow> exn + pyval" where
  "route_pod_value route spa_device save properties =
     rbind (if properties = [] then Inr []
            else rbind (construct_spa SpaProps properties) (\<lambda>props. Inr [(''props'', props)])) (\<lambda>props_field.
     construct_spa SpaParamRoute
       ([(''index'', PInt (rt_index route)), (''device'', PInt spa_device), (''save'', PBool save)] @ props_field))"

definition route_request ::
    "pyval \<Rightarrow> pyval option \<Rightarrow> pyval option \<Rightarrow> pyval option \<Rightarrow> pyval \<Rightarrow> exn + RouteValue \<times> int \<times> pyval \<times> pyval" where
  "route_request given volume mute channel_volumes save =
     rbind (case as_RouteValue given of
              None \<Rightarrow> Inl (TypeError ''route must be a detached RouteValue'')
            | Some route \<Rightarrow> Inr route) (\<lambda>route.
     rbind (pipewire_identifier (PInt (rt_device_id route)) ''route.device_id'') (\<lambda>_.
     rbind (pipewire_identifier (PInt (rt_index route)) ''route.index'') (\<lambda>_.
     rbind (case save of PBool b \<Rightarrow> Inr b | _ \<Rightarrow> Inl (TypeError ''save must be a boolean'')) (\<lambda>saved.
     rbind (audio_fields volume mute channel_volumes) (\<lambda>(properties, expected).
     rbind (route_spa_device route) (\<lambda>spa_device.
     rbind (route_pod_value route spa_device saved properties) (\<lambda>value.
     rbind (index_target ''route_index'' (rt_device_id route) (rt_index route)) (\<lambda>target.
     rbind (predicate_tuple
              ([equals_predicate target [PStr ''active''] (PBool True),
                equals_predicate target [PStr ''name''] (PStr (rt_name route))] @
               map (\<lambda>(name, v). equals_predicate target [PStr name] v) expected)) (\<lambda>predicates.
     Inr (route, spa_device, value, predicates))))))))))"

definition active_profile_ids :: "RuntimeSnapshot \<Rightarrow> int \<Rightarrow> int list" where
  "active_profile_ids s device_id = map pf_index (filter (\<lambda>p. pf_device_id p = device_id \<and> pf_active p) (snap_profiles s))"

definition same_route :: "RouteValue \<Rightarrow> int \<Rightarrow> RouteValue \<Rightarrow> exn + bool" where
  "same_route route spa_device current =
     (if rt_name current \<noteq> rt_name route \<or> rt_direction current \<noteq> rt_direction route then Inr False
      else rbind (route_spa_device current) (\<lambda>d. Inr (d = spa_device)))"

definition select_route_from ::
    "'w runtime \<Rightarrow> MutationRequest \<Rightarrow> RouteValue \<Rightarrow> int \<Rightarrow> RuntimeSnapshot \<Rightarrow> 'w control" where
  "select_route_from env request route spa_device preflight w =
     (if preflight_is_stale request preflight then execute_confirmed_mutation env request (Some preflight) w
      else if map_of (devices_by_id preflight) (rt_device_id route) = None
      then Some (selection_failure env request TARGET_NOT_FOUND (''device '' @ show_int (rt_device_id route) @ '' is not present in the current runtime'') (PDict []) w)
      else case map_of (routes_by_key preflight) (rt_device_id route, rt_index route) of
        None \<Rightarrow> Some (selection_failure env request TARGET_NOT_FOUND (''route '' @ show_int (rt_index route) @ '' is not enumerated for device '' @
               show_int (rt_device_id route)) (PDict []) w)
      | Some current \<Rightarrow>
          obind (alift (same_route route spa_device current)) (\<lambda>same.
            if \<not> same
            then (\<lambda>w. Some (selection_failure env request TARGET_IDENTITY_CHANGED ''the route index now identifies a different route''
                   (changed_identity (rt_name route) (rt_name current)) w))
            else unless_unavailable env request preflight (rt_available current) ''route is currently unavailable''
                   (let active = active_profile_ids preflight (rt_device_id route)
                    in if rt_profile_ids current \<noteq> [] \<and> active \<noteq> [] \<and> set active \<inter> set (rt_profile_ids current) = {}
                       then (\<lambda>w. Some (selection_failure env request TARGET_UNAVAILABLE
                              ''route is not valid for the active device profile''
                              (PDict [(PStr ''active_profile_ids'', PList (map PInt (sort (remdups active))))]) w))
                       else execute_confirmed_mutation env request (Some preflight))) w)"

definition select_device_route ::
    "'w runtime \<Rightarrow> nat \<Rightarrow> (pyval \<Rightarrow> string) \<Rightarrow> pyval \<Rightarrow> pyval \<Rightarrow> pyval \<Rightarrow> pyval option \<Rightarrow> pyval option \<Rightarrow> pyval option \<Rightarrow> pyval \<Rightarrow>
     pyval \<Rightarrow> pyval \<Rightarrow> 'w control" where
  "select_device_route env limit text_of route expected_generation expected_sequence volume mute channel_volumes save
       timeout request_id =
     obind (alift (route_request route volume mute channel_volumes save)) (\<lambda>(route, spa_device, value, predicates).
     obind (parameter_selection_request env limit text_of SELECT_ROUTE ''Route'' (rt_device_id route) value
              expected_generation expected_sequence predicates timeout request_id) (\<lambda>request.
     obind (capture_snapshot_call env) (\<lambda>preflight.
     select_route_from env request route spa_device preflight)))"

end
