(* ===== verification/SpaConstruct.thy ===== *)
theory SpaConstruct
  imports SpaAccess ParameterControls
begin

text \<open>
  Objects that are constructed with keyword arguments, as the controls do, and what is read from
  the pods built of them.
\<close>

section \<open>Keyword arguments\<close>

definition property_name :: "int \<Rightarrow> seen_property \<Rightarrow> string" where
  "property_name i p = (case property_spec_by_key i (sp_key p) of Some sp \<Rightarrow> spec_name sp | None \<Rightarrow> [])"

definition keyword_fields :: "int \<Rightarrow> seen_property list \<Rightarrow> fields" where
  "keyword_fields i = map (\<lambda>p. (property_name i p, sp_value p))"

lemma property_name_key: "has_spec i p \<Longrightarrow> property_key i (sp_key p) = PStr (property_name i p)"
  by (auto simp: has_spec_def property_key_def property_name_def)

lemma setitem_keyword:
  assumes "class_specs (so_class ob) = specs_for_id i" "has_spec i q" "sp_flags q = 0" "sp_key q \<notin> sp_key ` set ps"
    and "so_properties ob = keyed i sp_value ps" "so_property_flags ob = keyed i (PInt \<circ> sp_flags) ps"
    and "so_property_keys ob = keyed i (PInt \<circ> sp_key) ps"
  shows "spa_setitem ob (PStr (property_name i q)) (sp_value q) =
    Inr (ob\<lparr>so_properties := keyed i sp_value (ps @ [q]), so_property_flags := keyed i (PInt \<circ> sp_flags) (ps @ [q]),
      so_property_keys := keyed i (PInt \<circ> sp_key) (ps @ [q])\<rparr>)"
proof -
  obtain sp where sp: "property_spec_by_key i (sp_key q) = Some sp" using assms(2) by (auto simp: has_spec_def)
  then have n: "property_name i q = spec_name sp" "property_spec_by_name i (spec_name sp) = Some sp" "spec_key sp = sp_key q"
    "property_key i (sp_key q) = PStr (spec_name sp)"
    using spec_by_key_name [OF sp] by (simp_all add: property_name_def property_key_def)
  have new: "pydict_get (keyed i f ps) (PStr (spec_name sp)) = None" for f :: "seen_property \<Rightarrow> pyval"
    using keyed_get_new [OF assms(4), of i f] by (simp add: n(4))
  show ?thesis
    using assms(1,3,5-7) n new pydict_set_new [OF new]
    by (simp add: spa_setitem_def key_to_storage_def property_spec_by_name_def pydict_setdefault_def Let_def comp_def)
qed

lemma set_keywords:
  assumes "class_specs (so_class ob) = specs_for_id i" "distinct (map sp_key (ps @ qs))"
    and "list_all (\<lambda>q. has_spec i q \<and> sp_flags q = 0) qs"
    and "so_properties ob = keyed i sp_value ps" "so_property_flags ob = keyed i (PInt \<circ> sp_flags) ps"
    and "so_property_keys ob = keyed i (PInt \<circ> sp_key) ps"
  shows "set_items ob (keyed i sp_value qs) =
    Inr (ob\<lparr>so_properties := keyed i sp_value (ps @ qs), so_property_flags := keyed i (PInt \<circ> sp_flags) (ps @ qs),
      so_property_keys := keyed i (PInt \<circ> sp_key) (ps @ qs)\<rparr>)"
  using assms
proof (induction qs arbitrary: ob ps)
  case Nil
  then show ?case by simp
next
  case (Cons q qs)
  let ?ob = "ob\<lparr>so_properties := keyed i sp_value (ps @ [q]), so_property_flags := keyed i (PInt \<circ> sp_flags) (ps @ [q]),
      so_property_keys := keyed i (PInt \<circ> sp_key) (ps @ [q])\<rparr>"
  have "sp_key q \<notin> sp_key ` set ps" using Cons.prems(2) by auto
  then have "spa_setitem ob (PStr (property_name i q)) (sp_value q) = Inr ?ob"
    using Cons.prems by (intro setitem_keyword) (simp_all add: comp_def)
  moreover have "property_key i (sp_key q) = PStr (property_name i q)" using Cons.prems(3) by (simp add: property_name_key)
  ultimately show ?case
    using Cons.IH [of ?ob "ps @ [q]"] Cons.prems by (simp add: comp_def)
qed

lemma merged_keywords:
  assumes "distinct (map sp_key (ps @ qs))" "list_all (has_spec i) qs"
  shows "foldl (\<lambda>items (name, value). pydict_set items (PStr name) value) (keyed i sp_value ps) (keyword_fields i qs) =
    keyed i sp_value (ps @ qs)"
  using assms
proof (induction qs arbitrary: ps)
  case (Cons q qs)
  have "sp_key q \<notin> sp_key ` set ps" using Cons.prems(1) by auto
  then have "pydict_get (keyed i sp_value ps) (property_key i (sp_key q)) = None" by (rule keyed_get_new)
  moreover have k: "property_key i (sp_key q) = PStr (property_name i q)" using Cons.prems(2) by (simp add: property_name_key)
  ultimately have "pydict_set (keyed i sp_value ps) (PStr (property_name i q)) (sp_value q) = keyed i sp_value (ps @ [q])"
    by (simp add: pydict_set_new)
  then show ?case using Cons.IH [of "ps @ [q]"] Cons.prems by (simp add: keyword_fields_def)
qed (simp add: keyword_fields_def)

text \<open>The instance a class constructs from keyword arguments that name its properties.\<close>

lemma construct_spa_keywords:
  assumes "map_of OBJECT_CLASSES_BY_ID i = Some cls" "class_object_id cls = i" "class_object_name cls = object_param_name i"
    and "distinct (map sp_key ps)" "list_all (\<lambda>p. has_spec i p \<and> sp_flags p = 0) ps"
  shows "construct_spa cls (keyword_fields i ps) = Inr (typed_object cls (class_object_type cls) i ps)"
proof -
  have spec: "list_all (has_spec i) ps" using assms(5) by (simp add: list_all_iff)
  have merged: "foldl (\<lambda>items (name, value). pydict_set items (PStr name) value) [] (keyword_fields i ps) = keyed i sp_value ps"
    using merged_keywords [of "[]" ps i] assms(4) spec by simp
  have all: "filter (has_spec i) ps = ps" using spec by (simp add: list_all_iff)
  show ?thesis
    using set_keywords [where ps = "[]" and qs = ps and i = i] class_specs_for_id [OF assms(1)] assms(2-5) merged all
    by (simp add: construct_spa_def spa_init_def given_items_def spa_object_def typed_object_def option.case_eq_if)
qed

section \<open>Building the pod of a parameter\<close>

lemma framed_raw:
  assumes "framed t body pod"
  shows "8 \<le> length pod" "unpack_pair pod 0 = Inr (int (length body), t)" "8 + length body \<le> length pod"
proof -
  obtain h p where h: "pod = h @ body @ p" "pack_pair (int (length body)) t = Inr h" "length h = 8"
    using framed_parts [OF assms] by blast
  show "8 \<le> length pod" "8 + length body \<le> length pod" using h by simp_all
  show "unpack_pair pod 0 = Inr (int (length body), t)"
    using pack_pair_value(2) [OF h(2), of "[]" "body @ p"] h(1) by simp
qed

text \<open>The pod of an instance that has no property \<open>data\<close>, as it is written and read.\<close>

lemma typed_pod_bytes:
  assumes "map_of OBJECT_CLASSES_BY_ID i = Some cls" "in_u32 t" "in_u32 i" "distinct (map sp_key ps)"
    and "list_all2 (becomes text_of n i) ps qs" "Suc n < limit" "8 + properties_size qs < 4294967296"
    and "dict_get (keyed i sp_value ps) ''data'' = None"
  shows "\<exists>raw. parameter_pod_bytes limit text_of (typed_object cls t i ps) PNone = Inr raw \<and>
    parse_spa_pod raw 0 = Inr (typed_object cls t i qs)"
proof -
  obtain pod body where p: "build_spa_pod limit text_of (typed_object cls t i ps) None = Inr pod"
      "framed SPA_TYPE_Object body pod" "reads SPA_TYPE_Object (typed_object cls t i qs) body"
    using renders_good [OF typed_object_renders [OF assms(1-5)] assms(6) typed_object_type] assms(7) by (auto simp: good_def)
  have "parse_spa_pod pod 0 = Inr (typed_object cls t i qs)" using framed_at(3) [OF p(2,3), of "[]" "[]"] by simp
  moreover have "parameter_pod_bytes limit text_of (typed_object cls t i ps) PNone = Inr pod"
    using framed_raw [OF p(2)] p(1) assms(8) by (simp add: parameter_pod_bytes_def typed_object_def)
  ultimately show ?thesis by blast
qed

section \<open>Audio properties\<close>

text \<open>The name of a property in the pod, by the name its confirmation uses.\<close>

definition audio_key :: "string \<Rightarrow> string" where
  "audio_key name = (if name = ''channel_volumes'' then ''channelVolumes'' else name)"

definition as_list_value :: "pyval \<Rightarrow> pyval" where
  "as_list_value v = (case v of PTuple xs \<Rightarrow> PList xs | _ \<Rightarrow> v)"

definition audio_property :: "int \<Rightarrow> pyval \<Rightarrow> nat \<Rightarrow> seen_property" where
  "audio_property key v n = \<lparr>sp_key = key, sp_flags = 0, sp_value = v, sp_size = n\<rparr>"

lemma audio_property_simps [simp]:
  "sp_key (audio_property k v n) = k" "sp_flags (audio_property k v n) = 0" "sp_value (audio_property k v n) = v"
  "sp_size (audio_property k v n) = n"
  by (simp_all add: audio_property_def)

lemma volume_property_spec:
  "property_spec_by_key SPA_PARAM_Props SPA_PROP_volume = Some (PropertySpec SPA_PROP_volume ''volume'' (Some SPA_TYPE_Float) None None)"
  using specs_for_id_ok [of SPA_PARAM_Props]
  by (simp add: property_spec_by_key_def by_key_Some) (simp add: specs_for_id_def OBJECT_PROPERTY_SPECS_def PROPS_SPECS_def)

lemma float32_Inr: "float32 v = Inr e \<Longrightarrow> \<exists>w. f32_pack v = Inr w \<and> e = f32_unpack w"
  using pack_f32_value(2) [of v _ "[]" "[]"] by (fastforce simp: float32_def pack_f32_def elim!: rbind_InrE)

lemma becomes_volume:
  assumes "float32 v = Inr e"
  shows "becomes text_of (Suc 0) SPA_PARAM_Props (audio_property SPA_PROP_volume (PFloat v) 4) (audio_property SPA_PROP_volume (PFloat e) 4)"
proof -
  obtain w where "f32_pack v = Inr w" "e = f32_unpack w" using float32_Inr [OF assms] by blast
  then have "renders text_of (Suc 0) SPA_TYPE_Float (PFloat v) (PFloat e) 4"
    using leaf_float [of "PFloat v" v w] by (auto intro: renders.leaf)
  then show ?thesis
    by (auto simp: becomes_def in_u32_def prepare_property_value_def volume_property_spec is_pod_mapping_def explicit_pod_type_def
      built_as_def shaped_def specialize_property_value_def Let_def)
qed

lemma becomes_mute:
  "becomes text_of (Suc 0) SPA_PARAM_Props (audio_property SPA_PROP_mute (PBool b) 4) (audio_property SPA_PROP_mute (PBool b) 4)"
  using stable_mute [of text_of b] by (simp add: stable_def audio_property_def)

lemma becomes_volumes:
  assumes "traverse float32 vs = Inr es" "vs \<noteq> []"
  shows "becomes text_of (Suc 0) SPA_PARAM_Props (audio_property SPA_PROP_channelVolumes (PTuple (map PFloat vs)) 0)
    (audio_property SPA_PROP_channelVolumes (PList (map PFloat es)) (8 + length vs * 4))"
proof -
  let ?pod = "pod_mapping SPA_TYPE_Array [(''child_type'', PInt SPA_TYPE_Float), (''values'', PList (map PFloat vs))]"
  have "list_all2 (\<lambda>v e. float32 v = Inr e) vs es" using assms(1) by (simp add: traverse_Inr_iff)
  then have "list_all2 (\<lambda>v e. renders text_of 0 SPA_TYPE_Float (PFloat v) (PFloat e) 4) vs es"
    by (rule list_all2_mono) (use float32_Inr leaf_float in \<open>fastforce intro: renders.leaf\<close>)
  then have "list_all2 (\<lambda>x y. renders text_of 0 SPA_TYPE_Float x y 4) (map PFloat vs) (map PFloat es)"
    by (simp add: list.rel_map)
  then have r: "renders text_of (Suc 0) SPA_TYPE_Array ?pod (array_value (int 4) SPA_TYPE_Float (map PFloat es))
      (8 + length (map PFloat vs) * 4)"
    by (rule renders.array [of _ _ "PInt SPA_TYPE_Float" PNone, rotated -1])
      (simp_all add: array_parts_def pod_mapping_def get_values_def get_or_def dict_get_def to_list_def child_type_of_def
        spa_type_def item_size_def assms(2))
  have "traverse convert_float (map PFloat es) = Inr (map PFloat es)"
    using traverse_map_Inr [of es convert_float PFloat PFloat] by (simp add: convert_float_def)
  then have "specialize_property_value SPA_PARAM_Props SPA_PROP_channelVolumes (array_value (int 4) SPA_TYPE_Float (map PFloat es))
      = Inr (PList (map PFloat es))"
    by (simp add: specialize_property_value_def props_spec specialize_array_property_def specialize_array_def is_pod_mapping_def
      array_value_def pod_mapping_def dict_get_def array_to_values_def get_values_def get_or_def to_list_def Let_def)
  moreover have "explicit_pod_type ?pod = Some SPA_TYPE_Array"
    by (simp add: explicit_pod_type_def pod_mapping_def dict_get_def)
  ultimately show ?thesis
    using r by (auto simp: becomes_def in_u32_def prepare_property_value_def props_spec is_pod_mapping_def Let_def array_pod_def
      to_list_def shaped_def built_as_def)
qed

text \<open>
  One argument of the audio controls: at most one property, which becomes what its confirmation
  expects.
\<close>

definition audio_part ::
    "(pyval \<Rightarrow> string) \<Rightarrow> int \<Rightarrow> nat \<Rightarrow> fields \<Rightarrow> fields \<Rightarrow> seen_property list \<Rightarrow> seen_property list \<Rightarrow> bool" where
  "audio_part text_of key bound properties expected ps qs \<longleftrightarrow>
     properties = keyword_fields SPA_PARAM_Props ps \<and>
     keyed SPA_PARAM_Props sp_value qs = map (\<lambda>(n, v). (PStr (audio_key n), as_list_value v)) expected \<and>
     distinct (map sp_key ps) \<and> sp_key ` set ps \<subseteq> {key} \<and>
     list_all (\<lambda>p. has_spec SPA_PARAM_Props p \<and> sp_flags p = 0 \<and> property_name SPA_PARAM_Props p \<noteq> ''data'') ps \<and>
     list_all2 (becomes text_of (Suc 0) SPA_PARAM_Props) ps qs \<and> properties_size qs \<le> bound"

lemma audio_part_Nil: "audio_part text_of key bound [] [] [] []"
  by (simp add: audio_part_def keyword_fields_def)

lemma audio_part_volume:
  assumes "given_fields volume_fields volume = Inr (properties, expected)"
  shows "\<exists>ps qs. audio_part text_of SPA_PROP_volume 24 properties expected ps qs"
proof (cases volume)
  case None
  then show ?thesis using assms by (auto simp: given_fields_def intro!: exI [of _ "[]"] audio_part_Nil)
next
  case (Some raw_value)
  then obtain v e where v: "properties = [(''volume'', PFloat v)]" "expected = [(''volume'', PFloat e)]" "float32 v = Inr e"
    using assms by (auto simp: given_fields_def volume_fields_def elim!: rbind_InrE)
  let ?p = "audio_property SPA_PROP_volume (PFloat v) 4" and ?q = "audio_property SPA_PROP_volume (PFloat e) 4"
  have "audio_part text_of SPA_PROP_volume 24 properties expected [?p] [?q]"
    using becomes_volume [OF v(3), of text_of] v(1,2)
    by (simp add: audio_part_def keyword_fields_def property_name_def volume_property_spec has_spec_def property_key_def
      audio_key_def as_list_value_def align_def)
  then show ?thesis by blast
qed

lemma audio_part_mute:
  assumes "given_fields mute_fields mute = Inr (properties, expected)"
  shows "\<exists>ps qs. audio_part text_of SPA_PROP_mute 24 properties expected ps qs"
proof (cases mute)
  case None
  then show ?thesis using assms by (auto simp: given_fields_def intro!: exI [of _ "[]"] audio_part_Nil)
next
  case (Some raw_value)
  then obtain b where v: "properties = [(''mute'', PBool b)]" "expected = [(''mute'', PBool b)]"
    using assms by (auto simp: given_fields_def mute_fields_def split: pyval.splits)
  let ?p = "audio_property SPA_PROP_mute (PBool b) 4"
  have "audio_part text_of SPA_PROP_mute 24 properties expected [?p] [?p]"
    using becomes_mute [of text_of b] v
    by (simp add: audio_part_def keyword_fields_def property_name_def props_spec has_spec_def property_key_def
      audio_key_def as_list_value_def align_def)
  then show ?thesis by blast
qed

lemma audio_part_volumes:
  assumes "given_fields channel_volume_fields channel_volumes = Inr (properties, expected)"
    and "\<forall>v xs. channel_volumes = Some v \<longrightarrow> as_seq v = Some xs \<longrightarrow> length xs < 1000000000"
  shows "\<exists>ps qs. audio_part text_of SPA_PROP_channelVolumes 4100000000 properties expected ps qs"
proof (cases channel_volumes)
  case None
  then show ?thesis using assms(1) by (auto simp: given_fields_def intro!: exI [of _ "[]"] audio_part_Nil)
next
  case (Some raw_value)
  then obtain xs vs es where v: "properties = [(''channelVolumes'', PTuple (map PFloat vs))]"
      "expected = [(''channel_volumes'', PTuple (map PFloat es))]" "traverse float32 vs = Inr es" "vs \<noteq> []"
      "as_seq raw_value = Some xs" "traverse (\<lambda>item. non_negative_finite item ''channel_volumes item'') xs = Inr vs"
    using assms(1) by (auto simp: given_fields_def channel_volume_fields_def elim!: rbind_InrE split: option.splits if_splits)
  have "length vs < 1000000000" using assms(2) Some v(5) traverse_length [OF v(6)] by auto
  then have l: "8 + align (8 + (8 + length vs * 4)) \<le> 4100000000" using align_bounds [of "8 + (8 + length vs * 4)"] by simp
  let ?p = "audio_property SPA_PROP_channelVolumes (PTuple (map PFloat vs)) 0"
  let ?q = "audio_property SPA_PROP_channelVolumes (PList (map PFloat es)) (8 + length vs * 4)"
  have "audio_part text_of SPA_PROP_channelVolumes 4100000000 properties expected [?p] [?q]"
    using becomes_volumes [OF v(3,4), of text_of] v(1,2) l
    by (simp add: audio_part_def keyword_fields_def property_name_def props_spec has_spec_def property_key_def
      audio_key_def as_list_value_def)
  then show ?thesis by blast
qed

lemma audio_fields_become:
  assumes "audio_fields volume mute channel_volumes = Inr (properties, expected)"
    and "\<forall>v xs. channel_volumes = Some v \<longrightarrow> as_seq v = Some xs \<longrightarrow> length xs < 1000000000"
  shows "\<exists>ps qs. properties = keyword_fields SPA_PARAM_Props ps \<and>
    keyed SPA_PARAM_Props sp_value qs = map (\<lambda>(n, v). (PStr (audio_key n), as_list_value v)) expected \<and>
    distinct (map sp_key ps) \<and> list_all (\<lambda>p. has_spec SPA_PARAM_Props p \<and> sp_flags p = 0) ps \<and>
    list_all2 (becomes text_of (Suc 0) SPA_PARAM_Props) ps qs \<and> properties_size qs \<le> 4100000048 \<and>
    dict_get (keyed SPA_PARAM_Props sp_value ps) ''data'' = None"
proof -
  obtain p1 e1 p2 e2 p3 e3 where f: "given_fields volume_fields volume = Inr (p1, e1)" "given_fields mute_fields mute = Inr (p2, e2)"
      "given_fields channel_volume_fields channel_volumes = Inr (p3, e3)" "properties = p1 @ p2 @ p3" "expected = e1 @ e2 @ e3"
    using assms(1) by (auto simp: audio_fields_def elim!: rbind_InrE)
  obtain ps1 qs1 where a1: "audio_part text_of SPA_PROP_volume 24 p1 e1 ps1 qs1" using audio_part_volume [OF f(1)] by blast
  obtain ps2 qs2 where a2: "audio_part text_of SPA_PROP_mute 24 p2 e2 ps2 qs2" using audio_part_mute [OF f(2)] by blast
  obtain ps3 qs3 where a3: "audio_part text_of SPA_PROP_channelVolumes 4100000000 p3 e3 ps3 qs3"
    using audio_part_volumes [OF f(3) assms(2)] by blast
  have none: "dict_get (keyed SPA_PARAM_Props sp_value ps) ''data'' = None"
    if "list_all (\<lambda>p. has_spec SPA_PARAM_Props p \<and> sp_flags p = 0 \<and> property_name SPA_PARAM_Props p \<noteq> ''data'') ps" for ps
    using that by (induction ps) (auto simp: dict_get_def property_name_key)
  have k: "sp_key ` set ps1 \<subseteq> {SPA_PROP_volume}" "sp_key ` set ps2 \<subseteq> {SPA_PROP_mute}" "sp_key ` set ps3 \<subseteq> {SPA_PROP_channelVolumes}"
    using a1 a2 a3 by (simp_all add: audio_part_def)
  then have "sp_key ` set ps1 \<inter> (sp_key ` set ps2 \<union> sp_key ` set ps3) = {}" "sp_key ` set ps2 \<inter> sp_key ` set ps3 = {}"
    by force+
  then have "distinct (map sp_key (ps1 @ ps2 @ ps3))"
    using a1 a2 a3 by (simp add: audio_part_def image_Un)
  moreover have "list_all2 (becomes text_of (Suc 0) SPA_PARAM_Props) (ps1 @ ps2 @ ps3) (qs1 @ qs2 @ qs3)"
    using a1 a2 a3 by (auto simp: audio_part_def intro!: list_all2_appendI)
  moreover have "properties_size (qs1 @ qs2 @ qs3) \<le> 4100000048"
    using a1 a2 a3 by (simp add: audio_part_def properties_size_def)
  moreover have "dict_get (keyed SPA_PARAM_Props sp_value (ps1 @ ps2 @ ps3)) ''data'' = None"
    by (rule none) (use a1 a2 a3 in \<open>simp add: audio_part_def\<close>)
  ultimately show ?thesis
    using a1 a2 a3 f(4,5)
    by (intro exI [of _ "ps1 @ ps2 @ ps3"] exI [of _ "qs1 @ qs2 @ qs3"])
      (auto simp: audio_part_def keyword_fields_def list_all_iff)
qed

lemma audio_names:
  assumes "audio_fields volume mute channel_volumes = Inr (properties, expected)"
  shows "fst ` set properties \<subseteq> {''volume'', ''mute'', ''channelVolumes''}"
proof -
  obtain p1 e1 p2 e2 p3 e3 where f: "given_fields volume_fields volume = Inr (p1, e1)" "given_fields mute_fields mute = Inr (p2, e2)"
      "given_fields channel_volume_fields channel_volumes = Inr (p3, e3)" "properties = p1 @ p2 @ p3"
    using assms by (auto simp: audio_fields_def elim!: rbind_InrE)
  have "fst ` set p1 \<subseteq> {''volume''}" "fst ` set p2 \<subseteq> {''mute''}" "fst ` set p3 \<subseteq> {''channelVolumes''}"
    using f(1-3) by (auto simp: given_fields_def volume_fields_def mute_fields_def channel_volume_fields_def
      split: option.splits pyval.splits if_splits elim!: rbind_InrE)
  then show ?thesis using f(4) by auto
qed

lemma keyed_keywords_none:
  "list_all (\<lambda>p. has_spec i p \<and> sp_flags p = 0) ps \<Longrightarrow> k \<notin> fst ` set (keyword_fields i ps) \<Longrightarrow>
     dict_get (keyed i sp_value ps) k = None"
  by (induction ps) (auto simp: dict_get_def property_name_key keyword_fields_def)

definition props_object :: "seen_property list \<Rightarrow> pyval" where
  "props_object = typed_object SpaProps SPA_TYPE_OBJECT_Props SPA_PARAM_Props"

lemma props_class:
  "map_of OBJECT_CLASSES_BY_ID SPA_PARAM_Props = Some SpaProps" "class_object_id SpaProps = SPA_PARAM_Props"
  "class_object_name SpaProps = object_param_name SPA_PARAM_Props" "class_object_type SpaProps = SPA_TYPE_OBJECT_Props"
  by (simp_all add: OBJECT_CLASSES_BY_ID_def SpaProps_def create_object_class_def object_param_name_def)

text \<open>The object of the audio properties, as it is built and as it is read.\<close>

lemma audio_props_object:
  assumes "audio_fields volume mute channel_volumes = Inr (properties, expected)"
    and "\<forall>v xs. channel_volumes = Some v \<longrightarrow> as_seq v = Some xs \<longrightarrow> length xs < 1000000000"
  obtains ps qs where "properties = keyword_fields SPA_PARAM_Props ps"
    "construct_spa SpaProps properties = Inr (props_object ps)"
    "distinct (map sp_key ps)" "list_all2 (becomes text_of (Suc 0) SPA_PARAM_Props) ps qs"
    "renders text_of (Suc (Suc 0)) SPA_TYPE_Object (props_object ps) (props_object qs) (8 + properties_size qs)"
    "keyed SPA_PARAM_Props sp_value qs = map (\<lambda>(n, v). (PStr (audio_key n), as_list_value v)) expected"
    "properties_size qs \<le> 4100000048"
    "\<And>k. k \<notin> {''volume'', ''mute'', ''channelVolumes''} \<Longrightarrow> dict_get (keyed SPA_PARAM_Props sp_value ps) k = None"
proof -
  obtain ps qs where a: "properties = keyword_fields SPA_PARAM_Props ps"
      "keyed SPA_PARAM_Props sp_value qs = map (\<lambda>(n, v). (PStr (audio_key n), as_list_value v)) expected"
      "distinct (map sp_key ps)" "list_all (\<lambda>p. has_spec SPA_PARAM_Props p \<and> sp_flags p = 0) ps"
      "list_all2 (becomes text_of (Suc 0) SPA_PARAM_Props) ps qs" "properties_size qs \<le> 4100000048"
    using audio_fields_become [OF assms] by blast
  have "dict_get (keyed SPA_PARAM_Props sp_value ps) k = None" if "k \<notin> {''volume'', ''mute'', ''channelVolumes''}" for k
    using keyed_keywords_none [OF a(4)] audio_names [OF assms(1)] a(1) that by blast
  moreover have "construct_spa SpaProps properties = Inr (props_object ps)"
    using construct_spa_keywords [OF props_class(1-3) a(3,4)] a(1) props_class(4) by (simp add: props_object_def)
  moreover have "renders text_of (Suc (Suc 0)) SPA_TYPE_Object (props_object ps) (props_object qs) (8 + properties_size qs)"
    unfolding props_object_def by (rule typed_object_renders [OF props_class(1) _ _ a(3,5)]) (simp_all add: in_u32_def)
  ultimately show thesis using that a by blast
qed

lemma typed_object_spa:
  obtains ob where "typed_object cls t i ps = spa_object ob" "so_class ob = cls" "so_properties ob = keyed i sp_value ps"
proof -
  let ?ob = "\<lparr>so_class = cls, so_object_type = t, so_object_id = i,
      so_object_name = (case object_param_name i of None \<Rightarrow> class_object_name cls | Some n \<Rightarrow> Some n),
      so_properties = keyed i sp_value ps, so_property_flags = keyed i (PInt \<circ> sp_flags) ps,
      so_property_keys = keyed i (PInt \<circ> sp_key) (filter (has_spec i) ps)\<rparr>"
  show thesis by (rule that [of ?ob]) (simp_all add: typed_object_def spa_object_def)
qed

text \<open>The pod of the audio controls, and what its confirmation expects.\<close>

lemma audio_request_pod:
  assumes "audio_request node_id volume mute channel_volumes = Inr (value, predicates)" "2 < limit"
    and "\<forall>v xs. channel_volumes = Some v \<longrightarrow> as_seq v = Some xs \<longrightarrow> length xs < 1000000000"
  shows "\<exists>raw ob expected target properties. parameter_pod_bytes limit text_of value PNone = Inr raw \<and>
    parse_spa_pod raw 0 = Inr (spa_object ob) \<and> so_class ob = SpaProps \<and>
    audio_fields volume mute channel_volumes = Inr (properties, expected) \<and>
    so_properties ob = map (\<lambda>(n, v). (PStr (audio_key n), as_list_value v)) expected \<and>
    parameter_target KNode node_id (PStr ''Props'') = Inr target \<and>
    predicate_tuple (map (\<lambda>(n, v). equals_predicate target [PStr ''values'', PInt 0, PStr n] v) expected) = Inr predicates"
proof -
  obtain properties expected target where r: "audio_fields volume mute channel_volumes = Inr (properties, expected)"
      "parameter_target KNode node_id (PStr ''Props'') = Inr target"
      "predicate_tuple (map (\<lambda>(n, v). equals_predicate target [PStr ''values'', PInt 0, PStr n] v) expected) = Inr predicates"
      "construct_spa SpaProps properties = Inr value"
    using assms(1) by (auto simp: audio_request_def split: if_splits elim!: rbind_InrE)
  obtain ps qs where a: "construct_spa SpaProps properties = Inr (props_object ps)" "distinct (map sp_key ps)"
      "list_all2 (becomes text_of (Suc 0) SPA_PARAM_Props) ps qs"
      "keyed SPA_PARAM_Props sp_value qs = map (\<lambda>(n, v). (PStr (audio_key n), as_list_value v)) expected"
      "properties_size qs \<le> 4100000048"
      "\<And>k. k \<notin> {''volume'', ''mute'', ''channelVolumes''} \<Longrightarrow> dict_get (keyed SPA_PARAM_Props sp_value ps) k = None"
    using audio_props_object [OF r(1) assms(3)] by blast
  have v: "value = props_object ps" using a(1) r(4) by simp
  have "\<exists>raw. parameter_pod_bytes limit text_of value PNone = Inr raw \<and> parse_spa_pod raw 0 = Inr (props_object qs)"
    unfolding v props_object_def by (rule typed_pod_bytes [OF props_class(1) _ _ a(2,3)])
      (use assms(2) a(5,6) in \<open>simp_all add: in_u32_def\<close>)
  then obtain raw where raw: "parameter_pod_bytes limit text_of value PNone = Inr raw" "parse_spa_pod raw 0 = Inr (props_object qs)"
    by blast
  obtain ob where "props_object qs = spa_object ob" "so_class ob = SpaProps" "so_properties ob = keyed SPA_PARAM_Props sp_value qs"
    unfolding props_object_def by (rule typed_object_spa)
  then show ?thesis using raw r a(4) by auto
qed

text \<open>
  C9. What the audio controls write is what they wait for: the SPA pod sent to a node is read as a
  \<open>SpaProps\<close> instance whose properties are exactly the values, in single precision, that the
  confirmation predicates expect of the node's \<open>Props\<close> parameter.\<close>

theorem audio_pod_expected:
  assumes "audio_request node_id volume mute channel_volumes = Inr (value, predicates)" "2 < limit"
    and "\<forall>v xs. channel_volumes = Some v \<longrightarrow> as_seq v = Some xs \<longrightarrow> length xs < 1000000000"
  shows "\<exists>raw ob expected target properties. parameter_pod_bytes limit text_of value PNone = Inr raw \<and>
    parse_spa_pod raw 0 = Inr (spa_object ob) \<and> so_class ob = SpaProps \<and>
    audio_fields volume mute channel_volumes = Inr (properties, expected) \<and>
    so_properties ob = map (\<lambda>(n, v). (PStr (audio_key n), as_list_value v)) expected \<and>
    parameter_target KNode node_id (PStr ''Props'') = Inr target \<and>
    predicate_tuple (map (\<lambda>(n, v). equals_predicate target [PStr ''values'', PInt 0, PStr n] v) expected) = Inr predicates"
  using audio_request_pod [OF assms] .

lemma half_fields:
  "non_negative_finite (PFloat half) n = Inr half" "float32 half = Inr half" "isfinite half"
proof -
  have h: "isfinite half" "\<not> float_lt half 0" unfolding half_def by code_simp+
  obtain b where b: "pack_f32 half = Inr b" using half_single by (simp add: pack_f32_def)
  show "float32 half = Inr half" using pack_f32_value(2) [OF b, of "[]" "[]"] b half_single by (simp add: float32_def)
  show "non_negative_finite (PFloat half) n = Inr half" "isfinite half"
    using h by (simp_all add: non_negative_finite_def is_number_def py_float_def)
qed

text \<open>A node is unmuted and set to half volume on both channels.\<close>

definition half_volumes :: "pyval option" where
  "half_volumes = Some (PTuple [PFloat half, PFloat half])"

lemma half_request:
  obtains v predicates where
    "audio_request (PInt 10) None (Some (PBool False)) half_volumes = Inr (v, predicates)"
    "audio_fields None (Some (PBool False)) half_volumes =
      Inr ([(''mute'', PBool False), (''channelVolumes'', PTuple [PFloat half, PFloat half])],
        [(''mute'', PBool False), (''channel_volumes'', PTuple [PFloat half, PFloat half])])"
    "\<forall>v xs. half_volumes = Some v \<longrightarrow> as_seq v = Some xs \<longrightarrow> length xs < 1000000000"
proof -
  let ?expected = "[(''mute'', PBool False), (''channel_volumes'', PTuple [PFloat half, PFloat half])]"
  let ?t = "\<lparr>tg_object_kind = KNode, tg_object_id = IntId 10, tg_selector = [(''parameter_id'', PStr ''Props'')]\<rparr>"
  have f: "audio_fields None (Some (PBool False)) half_volumes =
      Inr ([(''mute'', PBool False), (''channelVolumes'', PTuple [PFloat half, PFloat half])], ?expected)"
    by (simp add: half_volumes_def audio_fields_def given_fields_def mute_fields_def channel_volume_fields_def half_fields)
  obtain v where v: "construct_spa SpaProps [(''mute'', PBool False), (''channelVolumes'', PTuple [PFloat half, PFloat half])] = Inr v"
    by (rule audio_props_object [OF f]) (auto simp: half_volumes_def)
  have t: "parameter_target KNode (PInt 10) (PStr ''Props'') = Inr ?t"
    by (simp add: parameter_target_def mk_MutationTargetValue_def object_kind_obj_def object_kind.val_enum_member
      val_identity_def val_identifier_def val_integer_def val_mapping_def FrozenDict_init_def del: object_kind_value.simps)
  have p: "\<exists>p. equals_predicate ?t [PStr ''values'', PInt 0, PStr n] e = Inr p" if "n \<noteq> []" "contract_value e = Inr e'" for n e e'
  proof -
    have "val_instance as_MutationTargetValue n (MutationTargetValue_obj ?t) m = Inr ?t" for n m
      by (rule val_MutationTargetValue_obj) (simp add: MutationTargetValue_ok_def mapping_ok_def)
    then show ?thesis
      using that by (simp add: equals_predicate_def mk_ConfirmationPredicateValue_def operator.val_enum_member val_path_def
        val_identity_def val_identifier_def val_integer_def val_required_string_def val_tolerance_def del: operator_value.simps)
  qed
  have c: "contract_value (PBool False) = Inr (PBool False)"
    "contract_value (PTuple [PFloat half, PFloat half]) = Inr (PTuple [PFloat half, PFloat half])"
    by (simp_all add: contract_value_def half_fields)
  obtain predicates where "predicate_tuple (map (\<lambda>(n, v). equals_predicate ?t [PStr ''values'', PInt 0, PStr n] v) ?expected) = Inr predicates"
    using p [OF _ c(1), of "''mute''"] p [OF _ c(2), of "''channel_volumes''"] by (auto simp: predicate_tuple_def)
  then have r: "audio_request (PInt 10) None (Some (PBool False)) half_volumes = Inr (v, predicates)"
    using f v t by (simp add: audio_request_def)
  then show thesis using that f by (simp add: half_volumes_def)
qed

theorem audio_pod_expected_witness:
  "\<exists>v predicates raw ob. audio_request (PInt 10) None (Some (PBool False)) half_volumes = Inr (v, predicates) \<and>
     parameter_pod_bytes 3 (\<lambda>v. []) v PNone = Inr raw \<and> parse_spa_pod raw 0 = Inr (spa_object ob) \<and>
     so_properties ob = [(PStr ''mute'', PBool False), (PStr ''channelVolumes'', PList [PFloat half, PFloat half])]"
proof -
  obtain v predicates where r: "audio_request (PInt 10) None (Some (PBool False)) half_volumes = Inr (v, predicates)"
      and f: "audio_fields None (Some (PBool False)) half_volumes =
        Inr ([(''mute'', PBool False), (''channelVolumes'', PTuple [PFloat half, PFloat half])],
          [(''mute'', PBool False), (''channel_volumes'', PTuple [PFloat half, PFloat half])])"
      and l: "\<forall>v xs. half_volumes = Some v \<longrightarrow> as_seq v = Some xs \<longrightarrow> length xs < 1000000000"
    by (rule half_request)
  show ?thesis
    using audio_pod_expected [OF r _ l, of 3 "\<lambda>v. []"] r f by (fastforce simp: audio_key_def as_list_value_def)
qed

end
