(* ===== verification/SelectionSafety.thy ===== *)
theory SelectionSafety
  imports SpaConstruct
begin

text \<open>
  What the selection of a profile or a route guarantees: nothing is dispatched unless the device
  still has what the caller saw under the index, and a confirmed selection was observed.
\<close>

section \<open>Targets and predicates\<close>

definition indexed_target :: "string \<Rightarrow> int \<Rightarrow> int \<Rightarrow> MutationTargetValue" where
  "indexed_target field device_id index =
     \<lparr>tg_object_kind = KDevice, tg_object_id = IntId device_id, tg_selector = [(field, PInt index)]\<rparr>"

lemma index_target_Inr:
  assumes "index_target field device_id index = Inr t"
  shows "t = indexed_target field device_id index"
  using assms
  by (auto simp: index_target_def mk_MutationTargetValue_def object_kind_obj_def object_kind.val_enum_member val_identity_def
    val_identifier_def val_integer_def val_mapping_def FrozenDict_init_def indexed_target_def
    simp del: object_kind_value.simps split: if_splits elim!: rbind_InrE)

lemma indexed_target_ok: "0 \<le> device_id \<Longrightarrow> MutationTargetValue_ok (indexed_target field device_id index)"
  by (simp add: indexed_target_def MutationTargetValue_ok_def mapping_ok_def)

lemma indexed_target_Inr: "0 \<le> d \<Longrightarrow> index_target field d index = Inr (indexed_target field d index)"
  by (simp add: index_target_def mk_MutationTargetValue_def object_kind_obj_def object_kind.val_enum_member val_identity_def
    val_identifier_def val_integer_def val_mapping_def FrozenDict_init_def indexed_target_def
    del: object_kind_value.simps)

lemma observed_profile:
  "snapshot_observation s (indexed_target ''profile_index'' d i) = get_obj ProfileValue_obj (profiles_by_key s) (d, i)"
  by (simp add: snapshot_observation_def indexed_target_def selector_def both_def int_or_bool_def Let_def)

lemma observed_route:
  "snapshot_observation s (indexed_target ''route_index'' d i) = get_obj RouteValue_obj (routes_by_key s) (d, i)"
  by (simp add: snapshot_observation_def indexed_target_def selector_def both_def int_or_bool_def Let_def)

text \<open>What a satisfied predicate says of the field of a value found in an index.\<close>

lemma field_observed:
  assumes "predicate_matches (field_equals t n e) (get_obj (\<lambda>x. PValue c (fields_of x)) index key) = Inr True"
    and "n \<noteq> ''schema_version''" "n \<noteq> ''value_type''"
  shows "\<exists>x v a b s. map_of index key = Some x \<and> map_of (filter (\<lambda>item. \<not> omitted c item) (fields_of x)) n = Some v \<and>
    serialize v = Inr s \<and> comparable s = Inr a \<and> comparable e = Inr b \<and> py_eq a b"
proof -
  have o: "get_obj (\<lambda>x. PValue c (fields_of x)) index key = PNone \<or>
      (\<exists>t fs. get_obj (\<lambda>x. PValue c (fields_of x)) index key = PValue t fs)"
    by (simp add: get_obj_def split: option.split)
  obtain t' fs v s a b where "get_obj (\<lambda>x. PValue c (fields_of x)) index key = PValue t' fs"
      "map_of (filter (\<lambda>item. \<not> omitted t' item) fs) n = Some v" "serialize v = Inr s" "comparable s = Inr a"
      "comparable e = Inr b" "py_eq a b"
    using equals_field [OF assms(1) _ _ o assms(2,3)] by auto
  then show ?thesis by (auto simp: get_obj_def split: option.splits)
qed

lemma comparable_scalar [simp]:
  "comparable (PBool b) = Inr (PBool b)" "comparable (PStr s) = Inr (PStr s)"
  by (simp_all add: comparable_def)

section \<open>The request of a selection\<close>

lemma parameter_selection_fields:
  assumes "parameter_selection_request env limit text_of op parameter_id d value g seq
      (tuple_obj ConfirmationPredicateValue_obj ps) timeout rid w = (Inr rq, w')"
    and "list_all ConfirmationPredicateValue_ok ps"
  shows "MutationRequest_ok rq \<and> calls w' = calls w \<and> rq_confirmation_predicates rq = ps \<and> rq_operation rq = op \<and>
    (\<exists>raw_pod. parameter_pod_bytes limit text_of value PNone = Inr raw_pod \<and>
       rq_payload rq = [(''flags'', PInt 0), (''pod_base64'', PStr (b64encode raw_pod))])"
proof -
  obtain raw_pod t where r: "parameter_pod_bytes limit text_of value PNone = Inr raw_pod"
      and t: "parameter_target KDevice (PInt d) (PStr parameter_id) = Inr t"
      and c: "create_request env g (PStrEnum ''MutationOperation'' (operation_value op)) (MutationTargetValue_obj t)
        (tuple_obj ConfirmationPredicateValue_obj ps) timeout seq (pod_payload (PInt 0) raw_pod) rid PNone w = (Inr rq, w')"
    using assms(1) by (auto simp: parameter_selection_request_def abind_def alift_def elim!: rbind_InrE split: prod.splits sum.splits)
  have "MutationTargetValue_ok t"
    using t unfolding parameter_target_def mk_MutationTargetValue_def MutationTargetValue_ok_def
    by (auto elim!: rbind_InrE intro: val_ok)
  moreover have "well_formed (pod_payload (PInt 0) raw_pod)" by (simp add: pod_payload_def)
  moreover have "val_mapping (if truthy (pod_payload (PInt 0) raw_pod) then pod_payload (PInt 0) raw_pod else PDict []) ''payload'' =
      Inr [(''flags'', PInt 0), (''pod_base64'', PStr (b64encode raw_pod))]"
    by (simp add: pod_payload_def val_mapping_def FrozenDict_init_def)
  ultimately show ?thesis
    using create_request_fields [OF c _ assms(2)] r by auto
qed

section \<open>The decision\<close>

lemma selection_failure_result:
  "selection_failure env rq c m d w = (r, w') \<Longrightarrow> unsuccessful rq r \<and> calls w' = calls w"
  by (auto simp: selection_failure_def dest: failure_outcome_result)

lemma confirmations_all:
  assumes "confirmations_from_snapshot s ps = Inr cs" "length cs = length ps"
  shows "list_all (\<lambda>p. predicate_matches p (snapshot_observation s (cp_target p)) = Inr True) ps"
proof -
  have "length cs \<le> length ps" if "confirmations_from_snapshot s ps = Inr cs" for ps cs
    using that by (induction ps arbitrary: cs) (fastforce simp: Let_def elim!: rbind_InrE split: if_splits)+
  then show ?thesis
    using assms
  proof (induction ps arbitrary: cs)
    case (Cons p ps)
    obtain m where m: "predicate_matches p (snapshot_observation s (cp_target p)) = Inr m"
      using Cons.prems(2) by (auto simp: Let_def elim: rbind_InrE)
    show ?case
    proof (cases m)
      case True
      then show ?thesis using m Cons.prems Cons.IH by (auto simp: Let_def elim!: rbind_InrE)
    next
      case False
      then have "confirmations_from_snapshot s ps = Inr cs" using m Cons.prems(2) by (simp add: Let_def)
      then have "length cs \<le> length ps" using Cons.prems(1) by blast
      then show ?thesis using Cons.prems(3) by simp
    qed
  qed simp
qed

text \<open>The end of a selection: it does nothing, confirms what is observed, or goes on.\<close>

lemma unless_unavailable_cases:
  assumes "unless_unavailable env rq s available m otherwise w = Some (r, w')"
  obtains (error) e where "r = Inl e" "calls w' = calls w"
  | (observed) "execute_confirmed_mutation env rq (Some s) w = Some (r, w')"
      "list_all (\<lambda>p. predicate_matches p (snapshot_observation s (cp_target p)) = Inr True) (rq_confirmation_predicates rq)"
  | (rejected) "unsuccessful rq r" "calls w' = calls w"
  | (proceeds) "otherwise w = Some (r, w')" "available \<noteq> AvailableNo"
proof (cases "confirmations_from_snapshot s (rq_confirmation_predicates rq)")
  case (Inl e)
  then show ?thesis using assms error by (auto simp: unless_unavailable_def obind_def alift_def)
next
  case (Inr cs)
  show ?thesis
  proof (cases "length cs = length (rq_confirmation_predicates rq)")
    case True
    then show ?thesis
      using assms Inr observed confirmations_all [OF Inr True] by (simp add: unless_unavailable_def obind_def alift_def)
  next
    case False
    then show ?thesis
      using assms Inr rejected proceeds selection_failure_result
      by (fastforce simp: unless_unavailable_def obind_def alift_def split: if_splits)
  qed
qed

text \<open>An outcome of a selection from the preflight snapshot: rejected, or executed under a condition.\<close>

definition selected :: "'w runtime \<Rightarrow> MutationRequest \<Rightarrow> RuntimeSnapshot \<Rightarrow> bool \<Rightarrow> MutationOutcome \<Rightarrow> 'w world \<Rightarrow> 'w world \<Rightarrow> bool" where
  "selected env rq s allowed x w w' \<longleftrightarrow>
     (unsuccessful rq (Inr x) \<and> calls w' = calls w) \<or>
     (execute_confirmed_mutation env rq (Some s) w = Some (Inr x, w') \<and>
       (preflight_is_stale rq s \<or>
        list_all (\<lambda>p. predicate_matches p (snapshot_observation s (cp_target p)) = Inr True) (rq_confirmation_predicates rq) \<or>
        allowed))"

lemma selected_result:
  assumes "selected env rq s allowed x w w'" "MutationRequest_ok rq" "RuntimeSnapshot_ok s"
    and "\<forall>v s. fst (env_capture env v) = Inr s \<longrightarrow> RuntimeSnapshot_ok s"
  shows "\<exists>log. calls w' = calls w @ log \<and> length (dispatches log) \<le> 1 \<and>
    (\<forall>payload \<in> set (dispatches log). allowed \<and> serialize (MutationRequest_obj (dispatched_request rq s)) = Inr payload) \<and>
    (succeeded x \<longrightarrow> (\<exists>s'. last (Captured (Inr s) # log) = Captured (Inr s') \<and> observed_in rq s'))"
proof (cases "unsuccessful rq (Inr x) \<and> calls w' = calls w")
  case True
  then show ?thesis by (intro exI [of _ "[]"]) (auto simp: unsuccessful_def succeeded_def)
next
  case False
  then have run: "execute_confirmed_mutation env rq (Some s) w = Some (Inr x, w')"
      and c: "preflight_is_stale rq s \<or>
        list_all (\<lambda>p. predicate_matches p (snapshot_observation s (cp_target p)) = Inr True) (rq_confirmation_predicates rq) \<or> allowed"
    using assms(1) by (auto simp: selected_def)
  obtain log where log: "calls w' = calls w @ log"
      "(unsuccessful rq (Inr x) \<and> no_dispatch log) \<or> execution_sound rq s (Inr x) log"
    using executed_given [OF run assms(2-4)] by blast
  have d: "length (dispatches log) \<le> 1 \<and> (\<forall>payload \<in> set (dispatches log). dispatchable rq s \<and>
      serialize (MutationRequest_obj (dispatched_request rq s)) = Inr payload)"
    using given_dispatched [OF log(2)] by (cases "dispatches log") auto
  have "allowed" if "dispatchable rq s"
    using c dispatchable_fresh [OF that] by (auto simp: observed_in_def preflight_is_stale_def)
  then show ?thesis using log(1) d given_confirmed [OF log(2)] by blast
qed

section \<open>Profiles\<close>

text \<open>The device has the profile the caller means, under its index, and it can be used.\<close>

definition profile_offered :: "RuntimeSnapshot \<Rightarrow> ProfileValue \<Rightarrow> bool" where
  "profile_offered s profile \<longleftrightarrow>
     map_of (devices_by_id s) (pf_device_id profile) \<noteq> None \<and>
     (\<exists>current. map_of (profiles_by_key s) (pf_device_id profile, pf_index profile) = Some current \<and>
        pf_name current = pf_name profile \<and> pf_available current \<noteq> AvailableNo)"

definition profile_active :: "RuntimeSnapshot \<Rightarrow> ProfileValue \<Rightarrow> bool" where
  "profile_active s profile \<longleftrightarrow>
     (\<exists>current. map_of (profiles_by_key s) (pf_device_id profile, pf_index profile) = Some current \<and>
        pf_name current = pf_name profile \<and> pf_active current)"

lemma select_profile_selected:
  assumes "select_profile_from env rq profile s w = Some (Inr x, w')"
  shows "selected env rq s (profile_offered s profile) x w w'"
proof (cases "preflight_is_stale rq s")
  case True
  then show ?thesis using assms by (simp add: select_profile_from_def selected_def)
next
  case fresh: False
  show ?thesis
  proof (cases "map_of (devices_by_id s) (pf_device_id profile) = None \<or>
      (case map_of (profiles_by_key s) (pf_device_id profile, pf_index profile) of
         None \<Rightarrow> True | Some current \<Rightarrow> pf_name current \<noteq> pf_name profile)")
    case True
    then show ?thesis
      using assms fresh selection_failure_result
      by (fastforce simp: select_profile_from_def selected_def split: option.splits if_splits)
  next
    case False
    then obtain current where c: "map_of (profiles_by_key s) (pf_device_id profile, pf_index profile) = Some current"
        "map_of (devices_by_id s) (pf_device_id profile) \<noteq> None" "pf_name current = pf_name profile"
      by (auto split: option.splits)
    then have "unless_unavailable env rq s (pf_available current) ''profile is currently unavailable''
        (execute_confirmed_mutation env rq (Some s)) w = Some (Inr x, w')"
      using assms fresh by (auto simp: select_profile_from_def)
    then show ?thesis
      by (cases rule: unless_unavailable_cases) (use c in \<open>auto simp: selected_def profile_offered_def\<close>)
  qed
qed

definition profile_predicates :: "ProfileValue \<Rightarrow> ConfirmationPredicateValue list" where
  "profile_predicates profile =
     (let t = indexed_target ''profile_index'' (pf_device_id profile) (pf_index profile)
      in [field_equals t ''active'' (PBool True), field_equals t ''name'' (PStr (pf_name profile))])"

lemma profile_request_Inr:
  assumes "profile_request (ProfileValue_obj profile) = Inr (p, value, v)" "ProfileValue_ok profile"
  shows "p = profile \<and> v = tuple_obj ConfirmationPredicateValue_obj (profile_predicates profile) \<and>
    list_all ConfirmationPredicateValue_ok (profile_predicates profile) \<and>
    construct_spa SpaParamProfile [(''index'', PInt (pf_index profile))] = Inr value"
proof -
  have d: "0 \<le> pf_device_id profile" using assms(2) by (simp add: ProfileValue_ok_def)
  note ok = indexed_target_ok [OF d, of "''profile_index''" "pf_index profile"]
  have "predicate_tuple
      [equals_predicate (indexed_target ''profile_index'' (pf_device_id profile) (pf_index profile)) [PStr ''active''] (PBool True),
       equals_predicate (indexed_target ''profile_index'' (pf_device_id profile) (pf_index profile)) [PStr ''name''] (PStr (pf_name profile))] =
      Inr (tuple_obj ConfirmationPredicateValue_obj (profile_predicates profile))"
    using equals_predicate_field [OF ok] by (simp add: predicate_tuple_def profile_predicates_def contract_value_def Let_def)
  moreover have "list_all ConfirmationPredicateValue_ok (profile_predicates profile)"
    using ok by (simp add: profile_predicates_def Let_def contract_ok_def)
  ultimately show ?thesis
    using assms(1) as_ProfileValue_obj [OF assms(2)] by (auto simp: profile_request_def dest!: index_target_Inr elim!: rbind_InrE)
qed

lemma profile_observed:
  assumes "list_all (\<lambda>p. predicate_matches p (snapshot_observation s (cp_target p)) = Inr True) (profile_predicates profile)"
  shows "profile_active s profile"
proof -
  let ?obs = "get_obj ProfileValue_obj (profiles_by_key s) (pf_device_id profile, pf_index profile)"
  have m: "predicate_matches (field_equals (indexed_target ''profile_index'' (pf_device_id profile) (pf_index profile)) ''active'' (PBool True)) ?obs = Inr True"
    "predicate_matches (field_equals (indexed_target ''profile_index'' (pf_device_id profile) (pf_index profile)) ''name'' (PStr (pf_name profile))) ?obs = Inr True"
    using assms by (simp_all add: profile_predicates_def Let_def observed_profile)
  from field_observed [OF m(1) [unfolded ProfileValue_obj_def]] obtain c where
      c: "map_of (profiles_by_key s) (pf_device_id profile, pf_index profile) = Some c" "pf_active c"
    by (auto simp: ProfileValue_fields_def omitted_def omit_none_def split: if_splits)
  from field_observed [OF m(2) [unfolded ProfileValue_obj_def]] c(1) have "pf_name c = pf_name profile"
    by (auto simp: ProfileValue_fields_def omitted_def omit_none_def split: if_splits)
  then show ?thesis using c by (auto simp: profile_active_def)
qed

text \<open>The pod that a selection sends, and what it is read as.\<close>

definition carries_pod :: "MutationRequest \<Rightarrow> pyval \<Rightarrow> bool" where
  "carries_pod rq seen \<longleftrightarrow>
     (\<exists>raw. rq_payload rq = [(''flags'', PInt 0), (''pod_base64'', PStr (b64encode raw))] \<and> parse_spa_pod raw 0 = Inr seen)"

definition profile_properties :: "ProfileValue \<Rightarrow> seen_property list" where
  "profile_properties profile = [audio_property SPA_PARAM_PROFILE_index (PInt (pf_index profile)) 4]"

lemma profile_spec:
  "property_spec_by_key SPA_PARAM_Profile SPA_PARAM_PROFILE_index =
     Some (PropertySpec SPA_PARAM_PROFILE_index ''index'' (Some SPA_TYPE_Int) None None)"
  using specs_for_id_ok [of SPA_PARAM_Profile]
  by (simp add: property_spec_by_key_def by_key_Some) (simp add: specs_for_id_def OBJECT_PROPERTY_SPECS_def PROFILE_SPECS_def)

lemma profile_class:
  "map_of OBJECT_CLASSES_BY_ID SPA_PARAM_Profile = Some SpaParamProfile" "class_object_id SpaParamProfile = SPA_PARAM_Profile"
  "class_object_name SpaParamProfile = object_param_name SPA_PARAM_Profile"
  "class_object_type SpaParamProfile = SPA_TYPE_OBJECT_ParamProfile"
  by (simp_all add: OBJECT_CLASSES_BY_ID_def SpaParamProfile_def create_object_class_def object_param_name_def)

lemma profile_pod:
  assumes "construct_spa SpaParamProfile [(''index'', PInt (pf_index profile))] = Inr value" "0 \<le> pf_index profile"
    and "pf_index profile \<le> 2147483647" "2 < limit"
  shows "\<exists>raw. parameter_pod_bytes limit text_of value PNone = Inr raw \<and>
    parse_spa_pod raw 0 = Inr (typed_object SpaParamProfile SPA_TYPE_OBJECT_ParamProfile SPA_PARAM_Profile (profile_properties profile))"
proof -
  let ?ps = "profile_properties profile"
  have spec: "list_all (\<lambda>p. has_spec SPA_PARAM_Profile p \<and> sp_flags p = 0) ?ps"
    by (simp add: profile_properties_def has_spec_def profile_spec)
  have "keyword_fields SPA_PARAM_Profile ?ps = [(''index'', PInt (pf_index profile))]"
    by (simp add: profile_properties_def keyword_fields_def property_name_def profile_spec)
  then have v: "value = typed_object SpaParamProfile SPA_TYPE_OBJECT_ParamProfile SPA_PARAM_Profile ?ps"
    using construct_spa_keywords [OF profile_class(1-3) _ spec] assms(1) profile_class(4) by (simp add: profile_properties_def)
  have "renders text_of (Suc 0) SPA_TYPE_Int (PInt (pf_index profile)) (PInt (pf_index profile)) 4"
    using assms(2,3) by (intro renders.leaf leaf_int) (simp_all add: in_i32_def)
  then have b: "list_all2 (becomes text_of (Suc 0) SPA_PARAM_Profile) ?ps ?ps"
    by (auto simp: profile_properties_def becomes_def in_u32_def prepare_property_value_def profile_spec is_pod_mapping_def
      explicit_pod_type_def built_as_def shaped_def specialize_property_value_def Let_def)
  show ?thesis
    unfolding v by (rule typed_pod_bytes [OF profile_class(1) _ _ _ b])
      (use assms(4) in \<open>simp_all add: profile_properties_def in_u32_def align_def dict_get_def property_key_def profile_spec\<close>)
qed

text \<open>
  C12. Selecting a profile sends at most one request, and only when the preflight snapshot has the
  device and, under the index, a profile of this name that is not unavailable; the request
  carries a pod that is read as \<open>SpaParamProfile\<close> with this index.  The selection is confirmed
  only when the last snapshot captured shows the profile of this name active under the index.\<close>

theorem selected_profile:
  assumes "select_device_profile env limit text_of (ProfileValue_obj profile) g seq timeout rid w = Some (Inr x, w')"
    and "ProfileValue_ok profile" "pf_index profile \<le> 2147483647" "2 < limit"
    and "\<forall>v s. fst (env_capture env v) = Inr s \<longrightarrow> RuntimeSnapshot_ok s"
  shows "\<exists>s log. calls w' = calls w @ Captured (Inr s) # log \<and> length (dispatches log) \<le> 1 \<and>
    (\<forall>payload \<in> set (dispatches log). profile_offered s profile \<and>
       (\<exists>rq. serialize (MutationRequest_obj (dispatched_request rq s)) = Inr payload \<and> rq_operation rq = SELECT_PROFILE \<and>
          carries_pod rq (typed_object SpaParamProfile SPA_TYPE_OBJECT_ParamProfile SPA_PARAM_Profile (profile_properties profile)))) \<and>
    (succeeded x \<longrightarrow> (\<exists>s'. last (Captured (Inr s) # log) = Captured (Inr s') \<and> profile_active s' profile))"
proof -
  obtain p obj v rq w1 s w2 where r: "profile_request (ProfileValue_obj profile) = Inr (p, obj, v)"
      and rq: "parameter_selection_request env limit text_of SELECT_PROFILE ''Profile'' (pf_device_id p) obj g seq v timeout rid w = (Inr rq, w1)"
      and s: "capture_snapshot_call env w1 = (Inr s, w2)"
      and x: "select_profile_from env rq p s w2 = Some (Inr x, w')"
    using assms(1) by (auto simp: select_device_profile_def obind_Some_Inr alift_def)
  note pr = profile_request_Inr [OF r assms(2)]
  have f: "MutationRequest_ok rq" "calls w1 = calls w" "rq_confirmation_predicates rq = profile_predicates profile"
      "rq_operation rq = SELECT_PROFILE"
      "\<exists>raw. parameter_pod_bytes limit text_of obj PNone = Inr raw \<and>
         rq_payload rq = [(''flags'', PInt 0), (''pod_base64'', PStr (b64encode raw))]"
    using parameter_selection_fields [OF rq [unfolded conjunct1 [OF conjunct2 [OF pr]]]] pr by auto
  note c = captured_ok [OF s assms(5)]
  have "selected env rq s (profile_offered s profile) x w2 w'" using select_profile_selected x pr by blast
  then obtain log where log: "calls w' = calls w2 @ log" "length (dispatches log) \<le> 1"
      "\<forall>payload \<in> set (dispatches log). profile_offered s profile \<and> serialize (MutationRequest_obj (dispatched_request rq s)) = Inr payload"
      "succeeded x \<longrightarrow> (\<exists>s'. last (Captured (Inr s) # log) = Captured (Inr s') \<and> observed_in rq s')"
    using selected_result [OF _ f(1) conjunct1 [OF c] assms(5)] by blast
  have "carries_pod rq (typed_object SpaParamProfile SPA_TYPE_OBJECT_ParamProfile SPA_PARAM_Profile (profile_properties profile))"
    using f(5) profile_pod [of profile obj limit text_of] pr assms(2-4) by (auto simp: carries_pod_def ProfileValue_ok_def)
  moreover have "profile_active s' profile" if "observed_in rq s'" for s'
    using that f(3) by (intro profile_observed) (simp add: observed_in_def)
  ultimately show ?thesis
    using log c f(2,4) by (intro exI [of _ s] exI [of _ log]) fastforce
qed

section \<open>A device whose selection is active already\<close>

definition selection_profile :: ProfileValue where
  "selection_profile =
     \<lparr>pf_device_id = 5, pf_index = 1, pf_name = ''pro'', pf_description = None, pf_priority = 0, pf_available = AvailableYes,
       pf_active = True, pf_classes = [], pf_properties = []\<rparr>"

definition selection_route :: RouteValue where
  "selection_route =
     \<lparr>rt_device_id = 5, rt_index = 2, rt_direction = OUTPUT, rt_name = ''hdmi'', rt_description = None, rt_priority = 0,
       rt_available = AvailableYes, rt_active = True, rt_profile_ids = [1], rt_volume = Some half, rt_mute = Some False,
       rt_channel_volumes = [], rt_channel_positions = [], rt_properties = [(''spa_device_index'', PInt 0)]\<rparr>"

definition selection_snapshot :: RuntimeSnapshot where
  "selection_snapshot =
     (let devices = [\<lparr>dev_id = 5, dev_name = Some ''card'', dev_description = None, dev_media_class = None, dev_properties = [],
            dev_parameter_ids = [], dev_profile_ids = [1], dev_route_ids = [2]\<rparr>];
          s = (sample_snapshot 6 [])\<lparr>snap_devices := devices, devices_by_id := map (\<lambda>v. (dev_id v, v)) devices,
            snap_nodes := [], nodes_by_id := [], snap_ports := [], ports_by_id := [],
            snap_profiles := [selection_profile], profiles_by_key := [((5, 1), selection_profile)],
            snap_routes := [selection_route], routes_by_key := [((5, 2), selection_route)]\<rparr>
      in s\<lparr>snap_unresolved_relationships := find_unresolved_relationships s\<rparr>)"

lemma selection_values_ok: "ProfileValue_ok selection_profile" "RouteValue_ok selection_route"
proof -
  have "float_ok half" unfolding half_def by code_simp
  then show "ProfileValue_ok selection_profile" "RouteValue_ok selection_route"
    by (simp_all add: selection_profile_def selection_route_def ProfileValue_ok_def RouteValue_ok_def mapping_ok_def)
qed

lemma selection_snapshot_ok: "RuntimeSnapshot_ok selection_snapshot"
  unfolding selection_snapshot_def Let_def
  by (rule RuntimeSnapshot_okI)
    (use selection_values_ok in \<open>simp_all add: sample_snapshot_def indexed_def unique_index_eq DefaultsValue_ok_def DeviceValue_ok_def
      ConnectionHealthValue_ok_def no_defaults_def mapping_ok_def Let_def selection_profile_def selection_route_def
      profile_key_def route_key_def\<close>)

lemma parameter_selection_still:
  assumes "parameter_pod_bytes limit text_of obj PNone = Inr raw" "0 \<le> d" "parameter_id \<noteq> []"
    and "list_all ConfirmationPredicateValue_ok ps" "ps \<noteq> []" "0 \<le> g"
  shows "\<exists>rq. parameter_selection_request (still_env s) limit text_of op parameter_id d obj (PInt g) PNone
      (tuple_obj ConfirmationPredicateValue_obj ps) one_second (PStr ''r1'') w = (Inr rq, w) \<and>
    rq_expected_generation rq = g \<and> rq_expected_sequence rq = None \<and> rq_deadline_at rq = render_utc 1000000 \<and>
    rq_confirmation_predicates rq = ps \<and> MutationRequest_ok rq"
proof -
  let ?t = "\<lparr>tg_object_kind = KDevice, tg_object_id = IntId d, tg_selector = [(''parameter_id'', PStr parameter_id)]\<rparr>"
  have t: "parameter_target KDevice (PInt d) (PStr parameter_id) = Inr ?t"
    using assms(2) by (simp add: parameter_target_def mk_MutationTargetValue_def object_kind_obj_def object_kind.val_enum_member
      val_identity_def val_identifier_def val_integer_def val_mapping_def FrozenDict_init_def del: object_kind_value.simps)
  have ok: "MutationTargetValue_ok ?t" using assms(2) by (simp add: MutationTargetValue_ok_def mapping_ok_def)
  have pl: "well_formed (pod_payload (PInt 0) raw)"
    "val_mapping (if truthy (pod_payload (PInt 0) raw) then pod_payload (PInt 0) raw else PDict []) ''payload'' =
      Inr [(''flags'', PInt 0), (''pod_base64'', PStr (b64encode raw))]"
    by (simp_all add: pod_payload_def val_mapping_def FrozenDict_init_def)
  note create = create_request_still [OF ok assms(4,5) pl assms(6), of s "''MutationOperation''" op w]
  show ?thesis
    using create create_request_fields [OF create ok assms(4) pl(1)] assms(1) t
    by (simp add: parameter_selection_request_def abind_def alift_def)
qed

lemma unless_unavailable_satisfied:
  assumes "MutationRequest_ok rq" "RuntimeSnapshot_ok s" "observed_in rq s" "rq_expected_sequence rq = None"
    and "rq_deadline_at rq = render_utc 1000000"
  shows "\<exists>x w'. unless_unavailable (still_env s) rq s a m go (still_world cs) = Some (Inr x, w') \<and> succeeded x \<and> calls w' = cs"
proof -
  obtain confirmations where "confirmations_from_snapshot s (rq_confirmation_predicates rq) = Inr confirmations"
    "length confirmations = length (rq_confirmation_predicates rq)"
    using satisfied_confirmed [OF assms(1-3)] by blast
  moreover have "\<exists>x w'. execute_confirmed_mutation (still_env s) rq (Some s) (still_world cs) = Some (Inr x, w') \<and>
      calls w' = calls (still_world cs) \<and> succeeded x"
    using satisfied_execute [of "still_env s" rq "still_world cs" s] assms by (auto simp: still_simps)
  ultimately show ?thesis by (auto simp: unless_unavailable_def obind_def alift_def still_simps)
qed

lemma selection_snapshot_simps:
  "snap_generation selection_snapshot = 1" "map_of (devices_by_id selection_snapshot) 5 \<noteq> None"
  "map_of (profiles_by_key selection_snapshot) (5, 1) = Some selection_profile"
  "map_of (routes_by_key selection_snapshot) (5, 2) = Some selection_route"
  "snap_profiles selection_snapshot = [selection_profile]"
  by (simp_all add: selection_snapshot_def sample_snapshot_def Let_def)

lemma profile_predicates_observed:
  "list_all (\<lambda>p. predicate_matches p (snapshot_observation selection_snapshot (cp_target p)) = Inr True)
     (profile_predicates selection_profile)"
  by code_simp

lemma profile_request_obj:
  assumes "ProfileValue_ok profile" "pf_device_id profile \<le> 4294967295" "pf_index profile \<le> 4294967295"
  shows "\<exists>obj. profile_request (ProfileValue_obj profile) =
      Inr (profile, obj, tuple_obj ConfirmationPredicateValue_obj (profile_predicates profile)) \<and>
    construct_spa SpaParamProfile [(''index'', PInt (pf_index profile))] = Inr obj \<and>
    list_all ConfirmationPredicateValue_ok (profile_predicates profile)"
proof -
  let ?ps = "profile_properties profile"
  have n: "0 \<le> pf_device_id profile" "0 \<le> pf_index profile" using assms(1) by (simp_all add: ProfileValue_ok_def)
  note ok = indexed_target_ok [OF n(1), of "''profile_index''" "pf_index profile"]
  have "keyword_fields SPA_PARAM_Profile ?ps = [(''index'', PInt (pf_index profile))]"
    by (simp add: profile_properties_def keyword_fields_def property_name_def profile_spec)
  then obtain obj where obj: "construct_spa SpaParamProfile [(''index'', PInt (pf_index profile))] = Inr obj"
    using construct_spa_keywords [OF profile_class(1-3), of ?ps] by (simp add: profile_properties_def has_spec_def profile_spec)
  have "predicate_tuple
      [equals_predicate (indexed_target ''profile_index'' (pf_device_id profile) (pf_index profile)) [PStr ''active''] (PBool True),
       equals_predicate (indexed_target ''profile_index'' (pf_device_id profile) (pf_index profile)) [PStr ''name''] (PStr (pf_name profile))] =
      Inr (tuple_obj ConfirmationPredicateValue_obj (profile_predicates profile))"
    using equals_predicate_field [OF ok] by (simp add: predicate_tuple_def profile_predicates_def contract_value_def Let_def)
  moreover have "pipewire_identifier (PInt (pf_device_id profile)) m = Inr (pf_device_id profile)"
      "pipewire_identifier (PInt (pf_index profile)) m = Inr (pf_index profile)" for m
    using n assms(2,3) by (simp_all add: pipewire_identifier_def val_identifier_def val_integer_def)
  ultimately have "profile_request (ProfileValue_obj profile) =
      Inr (profile, obj, tuple_obj ConfirmationPredicateValue_obj (profile_predicates profile))"
    using obj as_ProfileValue_obj [OF assms(1)] indexed_target_Inr [OF n(1)] by (simp add: profile_request_def)
  then show ?thesis using obj profile_request_Inr assms(1) by blast
qed

theorem selected_profile_witness:
  "\<exists>x w'. select_device_profile (still_env selection_snapshot) 3 (\<lambda>v. []) (ProfileValue_obj selection_profile) (PInt 1) PNone
       one_second (PStr ''r1'') (still_world []) = Some (Inr x, w') \<and> succeeded x \<and>
     profile_active selection_snapshot selection_profile"
proof -
  obtain obj where r: "profile_request (ProfileValue_obj selection_profile) =
        Inr (selection_profile, obj, tuple_obj ConfirmationPredicateValue_obj (profile_predicates selection_profile))"
      "construct_spa SpaParamProfile [(''index'', PInt (pf_index selection_profile))] = Inr obj"
      "list_all ConfirmationPredicateValue_ok (profile_predicates selection_profile)"
    using profile_request_obj [OF selection_values_ok(1)] by (auto simp: selection_profile_def)
  obtain raw where raw: "parameter_pod_bytes 3 (\<lambda>v. []) obj PNone = Inr raw"
    using profile_pod [OF r(2), of 3 "\<lambda>v. []"] by (auto simp: selection_profile_def)
  let ?w = "still_world [] :: unit world"
  obtain rq where rq: "parameter_selection_request (still_env selection_snapshot) 3 (\<lambda>v. []) SELECT_PROFILE ''Profile''
        (pf_device_id selection_profile) obj (PInt 1) PNone
        (tuple_obj ConfirmationPredicateValue_obj (profile_predicates selection_profile)) one_second (PStr ''r1'') ?w = (Inr rq, ?w)"
      "rq_expected_generation rq = 1" "rq_expected_sequence rq = None" "rq_deadline_at rq = render_utc 1000000"
      "rq_confirmation_predicates rq = profile_predicates selection_profile" "MutationRequest_ok rq"
    using parameter_selection_still [OF raw _ _ r(3), of "pf_device_id selection_profile" "''Profile''" 1 selection_snapshot SELECT_PROFILE ?w]
    by (auto simp: selection_profile_def profile_predicates_def Let_def)
  have obs: "observed_in rq selection_snapshot"
    using profile_predicates_observed rq(2,5) by (simp add: observed_in_def selection_snapshot_simps)
  obtain x w' where x: "unless_unavailable (still_env selection_snapshot) rq selection_snapshot AvailableYes
        ''profile is currently unavailable'' (execute_confirmed_mutation (still_env selection_snapshot) rq (Some selection_snapshot))
        (still_world [Captured (Inr selection_snapshot)]) = Some (Inr x, w')" "succeeded x"
      "calls w' = [Captured (Inr selection_snapshot)]"
    using unless_unavailable_satisfied [OF rq(6) selection_snapshot_ok obs rq(3,4)] by blast
  have run: "select_device_profile (still_env selection_snapshot) 3 (\<lambda>v. []) (ProfileValue_obj selection_profile) (PInt 1) PNone
      one_second (PStr ''r1'') ?w = Some (Inr x, w')"
    using x(1) r(1) rq(1-3)
    by (simp add: select_device_profile_def obind_def alift_def still_simps select_profile_from_def preflight_is_stale_def
      selection_snapshot_simps selection_profile_def)
  have caps: "\<forall>v s. fst (env_capture (still_env selection_snapshot) v) = Inr s \<longrightarrow> RuntimeSnapshot_ok s"
    using selection_snapshot_ok by (simp add: still_simps)
  from selected_profile [OF run selection_values_ok(1) _ _ caps] x run show ?thesis
    by (auto simp: still_simps selection_profile_def split: if_splits)
qed

end
