(* ===== verification/RouteSafety.thy ===== *)
theory RouteSafety
  imports SelectionSafety
begin

text \<open>
  What the selection of a route guarantees: nothing is dispatched unless the device still has the
  route the caller saw, and a confirmed selection was observed with the audio values it was given.
\<close>

section \<open>The decision\<close>

definition route_offered :: "RuntimeSnapshot \<Rightarrow> RouteValue \<Rightarrow> bool" where
  "route_offered s route \<longleftrightarrow>
     map_of (devices_by_id s) (rt_device_id route) \<noteq> None \<and>
     (\<exists>current d. map_of (routes_by_key s) (rt_device_id route, rt_index route) = Some current \<and>
        rt_name current = rt_name route \<and> rt_direction current = rt_direction route \<and>
        route_spa_device route = Inr d \<and> route_spa_device current = Inr d \<and> rt_available current \<noteq> AvailableNo \<and>
        (rt_profile_ids current = [] \<or> active_profile_ids s (rt_device_id route) = [] \<or>
         set (active_profile_ids s (rt_device_id route)) \<inter> set (rt_profile_ids current) \<noteq> {}))"

text \<open>The audio values of a route, as a confirmation reads them.\<close>

definition route_audio :: "RouteValue \<Rightarrow> fields" where
  "route_audio current =
     [(''volume'', opt_obj PFloat (rt_volume current)), (''mute'', opt_obj PBool (rt_mute current)),
      (''channel_volumes'', PTuple (map PFloat (rt_channel_volumes current)))]"

definition route_active :: "RuntimeSnapshot \<Rightarrow> RouteValue \<Rightarrow> fields \<Rightarrow> bool" where
  "route_active s route expected \<longleftrightarrow>
     (\<exists>current. map_of (routes_by_key s) (rt_device_id route, rt_index route) = Some current \<and>
        rt_name current = rt_name route \<and> rt_active current \<and>
        list_all (\<lambda>(n, e). \<exists>v. map_of (route_audio current) n = Some v \<and> py_eq v e) expected)"

lemma rejected_selected:
  "Some (selection_failure env rq c m d w) = Some (Inr x, w') \<Longrightarrow> selected env rq s allowed x w w'"
  by (auto simp: selected_def dest: selection_failure_result)

lemma select_route_selected:
  assumes "select_route_from env rq route d s w = Some (Inr x, w')" "route_spa_device route = Inr d"
  shows "selected env rq s (route_offered s route) x w w'"
proof (cases "preflight_is_stale rq s")
  case True
  then show ?thesis using assms by (simp add: select_route_from_def selected_def)
next
  case fresh: False
  show ?thesis
  proof (cases "map_of (devices_by_id s) (rt_device_id route) = None \<or>
      map_of (routes_by_key s) (rt_device_id route, rt_index route) = None")
    case True
    then show ?thesis
      using assms(1) fresh rejected_selected by (auto simp: select_route_from_def split: if_splits)
  next
    case False
    then obtain current where c: "map_of (routes_by_key s) (rt_device_id route, rt_index route) = Some current"
        "map_of (devices_by_id s) (rt_device_id route) \<noteq> None" by auto
    let ?active = "active_profile_ids s (rt_device_id route)"
    let ?apart = "rt_profile_ids current \<noteq> [] \<and> ?active \<noteq> [] \<and> set ?active \<inter> set (rt_profile_ids current) = {}"
    define otherwise where "otherwise = (if ?apart
        then (\<lambda>w. Some (selection_failure env rq TARGET_UNAVAILABLE ''route is not valid for the active device profile''
               (PDict [(PStr ''active_profile_ids'', PList (map PInt (sort (remdups ?active))))]) w))
        else execute_confirmed_mutation env rq (Some s))"
    obtain same where same: "same_route route d current = Inr same"
      using assms(1) fresh c by (auto simp: select_route_from_def obind_Some_Inr alift_def)
    show ?thesis
    proof (cases same)
      case False
      then show ?thesis
        using assms(1) fresh c same rejected_selected by (simp add: select_route_from_def obind_def alift_def)
    next
      case True
      then have r: "rt_name current = rt_name route" "rt_direction current = rt_direction route" "route_spa_device current = Inr d"
        using same by (auto simp: same_route_def split: if_splits elim!: rbind_InrE)
      have "unless_unavailable env rq s (rt_available current) ''route is currently unavailable'' otherwise w = Some (Inr x, w')"
        using assms(1) fresh c same True by (auto simp: select_route_from_def obind_def alift_def otherwise_def Let_def)
      then show ?thesis
      proof (cases rule: unless_unavailable_cases)
        case proceeds
        show ?thesis
        proof (cases ?apart)
          case True
          then show ?thesis
            using proceeds(1) rejected_selected unfolding otherwise_def by simp
        next
          case False
          then have "route_offered s route"
            using proceeds(2) c r assms(2) unfolding route_offered_def by blast
          moreover have "execute_confirmed_mutation env rq (Some s) w = Some (Inr x, w')"
            using proceeds(1) False unfolding otherwise_def by simp
          ultimately show ?thesis by (simp add: selected_def)
        qed
      qed (auto simp: selected_def)
    qed
  qed
qed

section \<open>What a confirmation expects\<close>

text \<open>The values a confirmation expects are compared as they are.\<close>

definition audio_value :: "pyval \<Rightarrow> bool" where
  "audio_value v \<longleftrightarrow> (\<exists>f. v = PFloat f) \<or> (\<exists>b. v = PBool b) \<or> (\<exists>fs. v = PTuple (map PFloat fs))"

definition audio_expected :: "fields \<Rightarrow> bool" where
  "audio_expected = list_all (\<lambda>(n, v). n \<in> {''volume'', ''mute'', ''channel_volumes''} \<and> audio_value v)"

lemma audio_value_intros [simp]: "audio_value (PFloat f)" "audio_value (PBool b)" "audio_value (PTuple (map PFloat fs))"
  by (auto simp: audio_value_def)

lemma given_audio_expected:
  "given_fields volume_fields volume = Inr (ps, es) \<Longrightarrow> audio_expected es"
  "given_fields mute_fields mute = Inr (ps, es) \<Longrightarrow> audio_expected es"
  "given_fields channel_volume_fields channel_volumes = Inr (ps, es) \<Longrightarrow> audio_expected es"
  by (auto simp: given_fields_def volume_fields_def mute_fields_def channel_volume_fields_def audio_expected_def
    split: option.splits pyval.splits if_splits elim!: rbind_InrE)

lemma audio_fields_expected:
  assumes "audio_fields volume mute channel_volumes = Inr (properties, expected)"
  shows "audio_expected expected"
proof -
  obtain p1 e1 p2 e2 p3 e3 where "given_fields volume_fields volume = Inr (p1, e1)" "given_fields mute_fields mute = Inr (p2, e2)"
      "given_fields channel_volume_fields channel_volumes = Inr (p3, e3)" "expected = e1 @ e2 @ e3"
    using assms by (auto simp: audio_fields_def elim!: rbind_InrE)
  then show ?thesis using given_audio_expected unfolding audio_expected_def by simp
qed

lemma freeze_floats: "traverse freeze_json (map PFloat fs) = Inr ys \<Longrightarrow> ys = map PFloat fs"
  by (induction fs arbitrary: ys) (auto elim!: rbind_InrE split: if_splits)

lemma freeze_audio_value: "audio_value v \<Longrightarrow> freeze_json v = Inr w \<Longrightarrow> w = v"
  by (auto simp: audio_value_def dest!: freeze_floats elim!: rbind_InrE split: if_splits)

lemma contract_audio_value: "audio_value v \<Longrightarrow> contract_value v = freeze_json v"
  by (auto simp: audio_value_def contract_value_def)

lemma comparable_audio_value: "audio_value v \<Longrightarrow> comparable v = freeze_json v"
  by (auto simp: audio_value_def comparable_def)

lemma audio_well_formed: "audio_value v \<Longrightarrow> well_formed v"
  by (auto simp: audio_value_def list_all_iff)

lemma audio_predicate:
  assumes "equals_predicate t [PStr n] v = Inr p" "MutationTargetValue_ok t" "n \<noteq> []" "audio_value v"
  shows "p = field_equals t n v \<and> ConfirmationPredicateValue_ok p"
proof -
  note f = equals_predicate_fields [OF assms(1,2) audio_well_formed [OF assms(4)]]
  then have v: "contract_value v = Inr v"
    using freeze_audio_value [OF assms(4)] contract_audio_value [OF assms(4)] by simp
  show ?thesis using equals_predicate_field [OF assms(2,3) v] assms(1) f by simp
qed

definition route_predicates :: "RouteValue \<Rightarrow> fields \<Rightarrow> ConfirmationPredicateValue list" where
  "route_predicates route expected =
     (let t = indexed_target ''route_index'' (rt_device_id route) (rt_index route)
      in [field_equals t ''active'' (PBool True), field_equals t ''name'' (PStr (rt_name route))] @
         map (\<lambda>(n, v). field_equals t n v) expected)"

lemma audio_predicates:
  assumes "traverse id (map (\<lambda>(n, v). equals_predicate t [PStr n] v) expected) = Inr ps" "MutationTargetValue_ok t"
    and "audio_expected expected"
  shows "ps = map (\<lambda>(n, v). field_equals t n v) expected \<and> list_all ConfirmationPredicateValue_ok ps"
  using assms(1,3)
proof (induction expected arbitrary: ps)
  case (Cons e expected)
  obtain n v where e: "e = (n, v)" by (cases e)
  obtain p qs where p: "equals_predicate t [PStr n] v = Inr p" "ps = p # qs"
      "traverse id (map (\<lambda>(n, v). equals_predicate t [PStr n] v) expected) = Inr qs"
    using Cons.prems(1) e by (auto simp: id_def elim!: rbind_InrE)
  have "n \<noteq> []" "audio_value v" "audio_expected expected" using Cons.prems(2) e by (auto simp: audio_expected_def)
  then show ?case using audio_predicate [OF p(1) assms(2)] Cons.IH [OF p(3)] p(2) e by auto
qed simp

text \<open>A prefix of a traversal.\<close>

lemma traverse_append_Inr:
  "traverse f (xs @ ys) = Inr zs \<Longrightarrow> \<exists>as bs. traverse f xs = Inr as \<and> traverse f ys = Inr bs \<and> zs = as @ bs"
  by (induction xs arbitrary: zs) (fastforce elim!: rbind_InrE)+

lemma route_request_Inr:
  assumes "route_request (RouteValue_obj route) volume mute channel_volumes save = Inr (r, d, value, v)" "RouteValue_ok route"
  obtains saved properties expected where "r = route" "save = PBool saved"
    "audio_fields volume mute channel_volumes = Inr (properties, expected)" "route_spa_device route = Inr d"
    "route_pod_value route d saved properties = Inr value"
    "v = tuple_obj ConfirmationPredicateValue_obj (route_predicates route expected)"
    "list_all ConfirmationPredicateValue_ok (route_predicates route expected)"
proof -
  let ?t = "indexed_target ''route_index'' (rt_device_id route) (rt_index route)"
  have "0 \<le> rt_device_id route" using assms(2) by (simp add: RouteValue_ok_def)
  note ok = indexed_target_ok [OF this, of "''route_index''" "rt_index route"]
  obtain saved properties expected ps where r: "r = route" "save = PBool saved"
      "audio_fields volume mute channel_volumes = Inr (properties, expected)" "route_spa_device route = Inr d"
      "route_pod_value route d saved properties = Inr value"
      "v = tuple_obj ConfirmationPredicateValue_obj ps"
      "traverse id ([equals_predicate ?t [PStr ''active''] (PBool True), equals_predicate ?t [PStr ''name''] (PStr (rt_name route))] @
         map (\<lambda>(n, v). equals_predicate ?t [PStr n] v) expected) = Inr ps"
    using assms(1) as_RouteValue_obj [OF assms(2)]
    by (auto simp: route_request_def predicate_tuple_def dest!: index_target_Inr split: pyval.splits elim!: rbind_InrE)
  obtain as bs where s: "traverse id [equals_predicate ?t [PStr ''active''] (PBool True), equals_predicate ?t [PStr ''name''] (PStr (rt_name route))] = Inr as"
      "traverse id (map (\<lambda>(n, v). equals_predicate ?t [PStr n] v) expected) = Inr bs" "ps = as @ bs"
    using traverse_append_Inr [OF r(7)] by blast
  have "as = [field_equals ?t ''active'' (PBool True), field_equals ?t ''name'' (PStr (rt_name route))]"
    using s(1) equals_predicate_field [OF ok] by (simp add: contract_value_def)
  moreover note bs = audio_predicates [OF s(2) ok audio_fields_expected [OF r(3)]]
  ultimately have "ps = route_predicates route expected" using s(3) by (simp add: route_predicates_def Let_def)
  moreover have "list_all ConfirmationPredicateValue_ok (route_predicates route expected)"
    unfolding route_predicates_def Let_def using conjunct2 [OF bs] ok
    by (simp add: conjunct1 [OF bs, symmetric] contract_ok_def)
  ultimately show thesis using that r by blast
qed

lemma serialize_floats: "traverse serialize (map PFloat fs) = Inr (map PFloat fs)"
  by (induction fs) simp_all

lemma compared_audio_value:
  assumes "audio_value v" "serialize v = Inr s" "comparable s = Inr a"
  shows "a = v"
proof (cases "\<exists>fs. v = PTuple (map PFloat fs)")
  case True
  then show ?thesis using assms(2,3) by (auto simp: serialize_floats comparable_def dest!: freeze_floats elim!: rbind_InrE)
next
  case False
  then have "s = v" using assms(1,2) by (auto simp: audio_value_def)
  then show ?thesis using assms freeze_audio_value comparable_audio_value by simp
qed

text \<open>The fields of a route that a confirmation reads.\<close>

lemma route_fields_audio:
  assumes "map_of (filter (\<lambda>item. \<not> omitted ''route'' item) (RouteValue_fields c)) n = Some v"
    and "n \<in> {''volume'', ''mute'', ''channel_volumes''}"
  shows "map_of (route_audio c) n = Some v \<and> (v = PNone \<or> audio_value v)"
  using assms
  by (cases "rt_volume c"; cases "rt_mute c")
    (auto simp: RouteValue_fields_def route_audio_def tuple_obj_def omitted_def omit_none_def split: if_splits)

lemma route_field_observed:
  assumes "predicate_matches (field_equals t n e) (get_obj RouteValue_obj index key) = Inr True"
    and "n \<in> {''volume'', ''mute'', ''channel_volumes''}" "audio_value e"
  shows "\<exists>c v. map_of index key = Some c \<and> map_of (route_audio c) n = Some v \<and> py_eq v e"
proof -
  have n: "n \<noteq> ''schema_version''" "n \<noteq> ''value_type''" using assms(2) by auto
  obtain c v s a b where c: "map_of index key = Some c"
      "map_of (filter (\<lambda>item. \<not> omitted ''route'' item) (RouteValue_fields c)) n = Some v"
      "serialize v = Inr s" "comparable s = Inr a" "comparable e = Inr b" "py_eq a b"
    using field_observed [OF assms(1) [unfolded RouteValue_obj_def] n] by blast
  have "b = e" using c(5) freeze_audio_value comparable_audio_value assms(3) by simp
  moreover have "a = v"
    using route_fields_audio [OF c(2) assms(2)] compared_audio_value [OF _ c(3,4)] c(3,4) by (auto simp: comparable_def)
  ultimately show ?thesis using c(1,6) route_fields_audio [OF c(2) assms(2)] by blast
qed

lemma route_observed:
  assumes "list_all (\<lambda>p. predicate_matches p (snapshot_observation s (cp_target p)) = Inr True) (route_predicates route expected)"
    and "audio_expected expected"
  shows "route_active s route expected"
proof -
  let ?t = "indexed_target ''route_index'' (rt_device_id route) (rt_index route)"
  let ?obs = "get_obj RouteValue_obj (routes_by_key s) (rt_device_id route, rt_index route)"
  have m: "predicate_matches (field_equals ?t ''active'' (PBool True)) ?obs = Inr True"
    "predicate_matches (field_equals ?t ''name'' (PStr (rt_name route))) ?obs = Inr True"
    "\<forall>(n, e) \<in> set expected. predicate_matches (field_equals ?t n e) ?obs = Inr True"
    using assms(1) by (auto simp: route_predicates_def Let_def observed_route list_all_iff split: prod.splits)
  from field_observed [OF m(1) [unfolded RouteValue_obj_def]] obtain c where
      c: "map_of (routes_by_key s) (rt_device_id route, rt_index route) = Some c" "rt_active c"
    by (auto simp: RouteValue_fields_def omitted_def omit_none_def split: if_splits)
  from field_observed [OF m(2) [unfolded RouteValue_obj_def]] c(1) have "rt_name c = rt_name route"
    by (auto simp: RouteValue_fields_def omitted_def omit_none_def split: if_splits)
  moreover have "\<exists>v. map_of (route_audio c) n = Some v \<and> py_eq v e" if "(n, e) \<in> set expected" for n e
  proof -
    have "n \<in> {''volume'', ''mute'', ''channel_volumes''} \<and> audio_value e"
      using assms(2) that by (auto simp: audio_expected_def list_all_iff)
    then show ?thesis using route_field_observed [of ?t n e] m(3) that c(1) by fastforce
  qed
  ultimately show ?thesis using c by (auto simp: route_active_def list_all_iff)
qed

section \<open>The pod of a route\<close>

lemma route_spec:
  "property_spec_by_key SPA_PARAM_Route SPA_PARAM_ROUTE_index =
     Some (PropertySpec SPA_PARAM_ROUTE_index ''index'' (Some SPA_TYPE_Int) None None)"
  "property_spec_by_key SPA_PARAM_Route SPA_PARAM_ROUTE_device =
     Some (PropertySpec SPA_PARAM_ROUTE_device ''device'' (Some SPA_TYPE_Int) None None)"
  "property_spec_by_key SPA_PARAM_Route SPA_PARAM_ROUTE_save =
     Some (PropertySpec SPA_PARAM_ROUTE_save ''save'' (Some SPA_TYPE_Bool) None None)"
  "property_spec_by_key SPA_PARAM_Route SPA_PARAM_ROUTE_props =
     Some (PropertySpec SPA_PARAM_ROUTE_props ''props'' (Some SPA_TYPE_Object) (Some ''object_props'') None)"
  using specs_for_id_ok [of SPA_PARAM_Route]
  by (simp_all add: property_spec_by_key_def by_key_Some) (simp_all add: specs_for_id_def OBJECT_PROPERTY_SPECS_def ROUTE_SPECS_def)

lemma route_class:
  "map_of OBJECT_CLASSES_BY_ID SPA_PARAM_Route = Some SpaParamRoute" "class_object_id SpaParamRoute = SPA_PARAM_Route"
  "class_object_name SpaParamRoute = object_param_name SPA_PARAM_Route"
  "class_object_type SpaParamRoute = SPA_TYPE_OBJECT_ParamRoute"
  by (simp_all add: OBJECT_CLASSES_BY_ID_def SpaParamRoute_def create_object_class_def object_param_name_def)

lemma becomes_int:
  assumes "property_spec_by_key i key = Some (PropertySpec key name (Some SPA_TYPE_Int) None None)" "in_u32 key" "in_i32 v"
  shows "becomes text_of n i (audio_property key (PInt v) 4) (audio_property key (PInt v) 4)"
proof -
  have "renders text_of n SPA_TYPE_Int (PInt v) (PInt v) 4" using assms(3) by (intro renders.leaf leaf_int) simp_all
  then show ?thesis
    using assms(1,2) by (auto simp: becomes_def in_u32_def prepare_property_value_def is_pod_mapping_def explicit_pod_type_def
      built_as_def shaped_def specialize_property_value_def Let_def)
qed

lemma becomes_bool:
  assumes "property_spec_by_key i key = Some (PropertySpec key name (Some SPA_TYPE_Bool) None None)" "in_u32 key"
  shows "becomes text_of n i (audio_property key (PBool b) 4) (audio_property key (PBool b) 4)"
proof -
  have "renders text_of n SPA_TYPE_Bool (PBool b) (PBool b) 4" using leaf_bool [of "PBool b"] by (auto intro: renders.leaf)
  then show ?thesis
    using assms(1,2) by (auto simp: becomes_def in_u32_def prepare_property_value_def is_pod_mapping_def explicit_pod_type_def
      built_as_def shaped_def specialize_property_value_def Let_def)
qed

lemma becomes_props:
  assumes "renders text_of n SPA_TYPE_Object (props_object ps) (props_object qs) k"
    and "\<And>k. k \<notin> {''volume'', ''mute'', ''channelVolumes''} \<Longrightarrow> dict_get (keyed SPA_PARAM_Props sp_value ps) k = None"
  shows "becomes text_of n SPA_PARAM_Route (audio_property SPA_PARAM_ROUTE_props (props_object ps) k)
    (audio_property SPA_PARAM_ROUTE_props (props_object qs) k)"
proof -
  have "as_mapping (props_object ps) = Some (keyed SPA_PARAM_Props sp_value ps)" by (simp add: props_object_def typed_object_def)
  then have "explicit_pod_type (props_object ps) = None" "is_pod_mapping (props_object ps) SPA_TYPE_Choice = None"
    using assms(2) by (simp_all add: explicit_pod_type_def is_pod_mapping_def)
  then show ?thesis
    using assms(1) route_spec(4)
    by (auto simp: becomes_def in_u32_def prepare_property_value_def built_as_def shaped_def specialize_property_value_def Let_def
      ensure_object_value_def props_object_def typed_object_def)
qed

text \<open>What a receiver sees in the pod of a route: its identity, \<open>save\<close>, and the expected audio values.\<close>

definition audio_seen :: "fields \<Rightarrow> pyval \<Rightarrow> bool" where
  "audio_seen expected seen \<longleftrightarrow>
     (\<exists>ob. seen = spa_object ob \<and> so_class ob = SpaProps \<and>
        so_properties ob = map (\<lambda>(n, v). (PStr (audio_key n), as_list_value v)) expected)"

definition route_seen :: "RouteValue \<Rightarrow> int \<Rightarrow> pyval \<Rightarrow> fields \<Rightarrow> pyval \<Rightarrow> bool" where
  "route_seen route d save expected seen \<longleftrightarrow>
     (\<exists>ob props. seen = spa_object ob \<and> so_class ob = SpaParamRoute \<and>
        so_properties ob =
          [(PStr ''index'', PInt (rt_index route)), (PStr ''device'', PInt d), (PStr ''save'', save)] @ props \<and>
        (if expected = [] then props = [] else \<exists>audio. props = [(PStr ''props'', audio)] \<and> audio_seen expected audio))"

definition route_properties :: "RouteValue \<Rightarrow> int \<Rightarrow> bool \<Rightarrow> seen_property list" where
  "route_properties route d saved =
     [audio_property SPA_PARAM_ROUTE_index (PInt (rt_index route)) 4, audio_property SPA_PARAM_ROUTE_device (PInt d) 4,
      audio_property SPA_PARAM_ROUTE_save (PBool saved) 4]"

lemma route_properties_become:
  assumes "0 \<le> rt_index route" "rt_index route \<le> 2147483647" "0 \<le> d" "d \<le> 2147483647"
  shows "list_all2 (becomes text_of n SPA_PARAM_Route) (route_properties route d saved) (route_properties route d saved)"
  unfolding route_properties_def
  by (simp, intro conjI becomes_int becomes_bool, unfold route_spec) (use assms in \<open>simp_all add: in_u32_def in_i32_def\<close>)

lemma route_typed_bytes:
  assumes "construct_spa SpaParamRoute (keyword_fields SPA_PARAM_Route ps) = Inr value"
    and "distinct (map sp_key ps)" "list_all (\<lambda>p. has_spec SPA_PARAM_Route p \<and> sp_flags p = 0) ps"
    and "list_all2 (becomes text_of n SPA_PARAM_Route) ps qs" "Suc n < limit" "8 + properties_size qs < 4294967296"
    and "''data'' \<notin> fst ` set (keyword_fields SPA_PARAM_Route ps)"
  shows "\<exists>raw. parameter_pod_bytes limit text_of value PNone = Inr raw \<and>
    parse_spa_pod raw 0 = Inr (typed_object SpaParamRoute SPA_TYPE_OBJECT_ParamRoute SPA_PARAM_Route qs)"
proof -
  have v: "value = typed_object SpaParamRoute SPA_TYPE_OBJECT_ParamRoute SPA_PARAM_Route ps"
    using construct_spa_keywords [OF route_class(1-3) assms(2,3)] assms(1) route_class(4) by simp
  show ?thesis
    unfolding v by (rule typed_pod_bytes [OF route_class(1) _ _ assms(2,4,5,6) keyed_keywords_none [OF assms(3,7)]])
      (simp_all add: in_u32_def)
qed

lemma route_pod:
  assumes "route_pod_value route d saved properties = Inr value" "audio_fields volume mute channel_volumes = Inr (properties, expected)"
    and "0 \<le> rt_index route" "rt_index route \<le> 2147483647" "0 \<le> d" "d \<le> 2147483647" "3 < limit"
    and "\<forall>v xs. channel_volumes = Some v \<longrightarrow> as_seq v = Some xs \<longrightarrow> length xs < 1000000000"
  shows "\<exists>raw seen. parameter_pod_bytes limit text_of value PNone = Inr raw \<and> parse_spa_pod raw 0 = Inr seen \<and>
    route_seen route d (PBool saved) expected seen"
proof -
  obtain ps qs where a: "properties = keyword_fields SPA_PARAM_Props ps"
    "construct_spa SpaProps properties = Inr (props_object ps)"
    "list_all2 (becomes text_of (Suc 0) SPA_PARAM_Props) ps qs"
    "renders text_of (Suc (Suc 0)) SPA_TYPE_Object (props_object ps) (props_object qs) (8 + properties_size qs)"
    "keyed SPA_PARAM_Props sp_value qs = map (\<lambda>(n, v). (PStr (audio_key n), as_list_value v)) expected"
    "properties_size qs \<le> 4100000048"
    "\<And>k. k \<notin> {''volume'', ''mute'', ''channelVolumes''} \<Longrightarrow> dict_get (keyed SPA_PARAM_Props sp_value ps) k = None"
    using audio_props_object [OF assms(2,8)] by blast
  let ?base = "route_properties route d saved"
  have base: "list_all2 (becomes text_of (Suc (Suc 0)) SPA_PARAM_Route) ?base ?base"
    by (rule route_properties_become) (use assms(3-6) in auto)
  have len: "length expected = length ps"
    using arg_cong [OF a(5), of length] list_all2_lengthD [OF a(3)] by (simp add: keyed_def)
  then have empty: "expected = [] \<longleftrightarrow> properties = []" using a(1) by (auto simp: keyword_fields_def)
  show ?thesis
  proof (cases "properties = []")
    case True
    have "construct_spa SpaParamRoute (keyword_fields SPA_PARAM_Route ?base) = Inr value"
      using assms(1) True
      by (simp add: route_pod_value_def route_properties_def keyword_fields_def property_name_def route_spec)
    then obtain raw where raw: "parameter_pod_bytes limit text_of value PNone = Inr raw"
        "parse_spa_pod raw 0 = Inr (typed_object SpaParamRoute SPA_TYPE_OBJECT_ParamRoute SPA_PARAM_Route ?base)"
      using route_typed_bytes [OF _ _ _ base, of "value" limit] assms(7)
      by (auto simp: route_properties_def has_spec_def route_spec keyword_fields_def property_name_def align_def)
    obtain ob where ob: "typed_object SpaParamRoute SPA_TYPE_OBJECT_ParamRoute SPA_PARAM_Route ?base = spa_object ob"
        "so_class ob = SpaParamRoute" "so_properties ob = keyed SPA_PARAM_Route sp_value ?base" by (rule typed_object_spa)
    have "keyed SPA_PARAM_Route sp_value ?base =
        [(PStr ''index'', PInt (rt_index route)), (PStr ''device'', PInt d), (PStr ''save'', PBool saved)]"
      by (simp add: route_properties_def property_key_def route_spec)
    then show ?thesis using raw ob True empty by (auto simp: route_seen_def)
  next
    case False
    let ?p = "audio_property SPA_PARAM_ROUTE_props (props_object ps) (8 + properties_size qs)"
    let ?q = "audio_property SPA_PARAM_ROUTE_props (props_object qs) (8 + properties_size qs)"
    have "construct_spa SpaParamRoute (keyword_fields SPA_PARAM_Route (?base @ [?p])) = Inr value"
      using assms(1) False a(2)
      by (simp add: route_pod_value_def route_properties_def keyword_fields_def property_name_def route_spec)
    moreover have "list_all2 (becomes text_of (Suc (Suc 0)) SPA_PARAM_Route) (?base @ [?p]) (?base @ [?q])"
      using base becomes_props [OF a(4,7)] by (simp add: list_all2_appendI)
    moreover have "8 + properties_size (?base @ [?q]) < 4294967296"
      using a(6) align_bounds [of "16 + properties_size qs"] align_bounds [of "8 + (8 + properties_size qs)"]
      by (simp add: route_properties_def properties_size_def align_def)
    moreover have "distinct (map sp_key (?base @ [?p]))" "list_all (\<lambda>p. has_spec SPA_PARAM_Route p \<and> sp_flags p = 0) (?base @ [?p])"
      "''data'' \<notin> fst ` set (keyword_fields SPA_PARAM_Route (?base @ [?p]))"
      by (simp_all add: route_properties_def has_spec_def route_spec keyword_fields_def property_name_def)
    ultimately obtain raw where raw: "parameter_pod_bytes limit text_of value PNone = Inr raw"
        "parse_spa_pod raw 0 = Inr (typed_object SpaParamRoute SPA_TYPE_OBJECT_ParamRoute SPA_PARAM_Route (?base @ [?q]))"
      using route_typed_bytes [of "?base @ [?p]" "value" text_of "Suc (Suc 0)" "?base @ [?q]" limit] assms(7) by auto
    obtain ob where ob: "typed_object SpaParamRoute SPA_TYPE_OBJECT_ParamRoute SPA_PARAM_Route (?base @ [?q]) = spa_object ob"
        "so_class ob = SpaParamRoute" "so_properties ob = keyed SPA_PARAM_Route sp_value (?base @ [?q])" by (rule typed_object_spa)
    obtain po where po: "props_object qs = spa_object po" "so_class po = SpaProps" "so_properties po = keyed SPA_PARAM_Props sp_value qs"
      unfolding props_object_def by (rule typed_object_spa)
    have "audio_seen expected (props_object qs)" using po a(5) by (auto simp: audio_seen_def)
    moreover have "keyed SPA_PARAM_Route sp_value (?base @ [?q]) =
        [(PStr ''index'', PInt (rt_index route)), (PStr ''device'', PInt d), (PStr ''save'', PBool saved)] @
        [(PStr ''props'', props_object qs)]"
      by (simp add: route_properties_def property_key_def route_spec)
    ultimately show ?thesis using raw ob False empty by (auto simp: route_seen_def)
  qed
qed

section \<open>Selecting a route\<close>

text \<open>
  C11. Selecting a route sends at most one request, and only when the preflight snapshot has the
  device and, under the index, the route of this name, direction and SPA device, available and
  valid for an active profile; the request carries a pod that is read as this route with exactly
  the audio values the confirmation expects.  The selection is confirmed only when the last
  snapshot captured shows the route of this name active with these values.\<close>

theorem selected_route:
  assumes "select_device_route env limit text_of (RouteValue_obj route) g seq volume mute channel_volumes save timeout rid w =
      Some (Inr x, w')"
    and "RouteValue_ok route" "rt_index route \<le> 2147483647" "\<forall>d. route_spa_device route = Inr d \<longrightarrow> 0 \<le> d \<and> d \<le> 2147483647"
    and "3 < limit" "\<forall>v xs. channel_volumes = Some v \<longrightarrow> as_seq v = Some xs \<longrightarrow> length xs < 1000000000"
    and "\<forall>v s. fst (env_capture env v) = Inr s \<longrightarrow> RuntimeSnapshot_ok s"
  shows "\<exists>properties expected d s log. audio_fields volume mute channel_volumes = Inr (properties, expected) \<and>
    route_spa_device route = Inr d \<and> calls w' = calls w @ Captured (Inr s) # log \<and> length (dispatches log) \<le> 1 \<and>
    (\<forall>payload \<in> set (dispatches log). route_offered s route \<and>
       (\<exists>rq seen. serialize (MutationRequest_obj (dispatched_request rq s)) = Inr payload \<and> rq_operation rq = SELECT_ROUTE \<and>
          carries_pod rq seen \<and> route_seen route d save expected seen)) \<and>
    (succeeded x \<longrightarrow> (\<exists>s'. last (Captured (Inr s) # log) = Captured (Inr s') \<and> route_active s' route expected))"
proof -
  obtain r d obj v rq w1 s w2 where r: "route_request (RouteValue_obj route) volume mute channel_volumes save = Inr (r, d, obj, v)"
      and rq: "parameter_selection_request env limit text_of SELECT_ROUTE ''Route'' (rt_device_id r) obj g seq v timeout rid w = (Inr rq, w1)"
      and s: "capture_snapshot_call env w1 = (Inr s, w2)"
      and x: "select_route_from env rq r d s w2 = Some (Inr x, w')"
    using assms(1) by (auto simp: select_device_route_def obind_Some_Inr alift_def)
  obtain saved properties expected where pr: "r = route" "save = PBool saved"
      "audio_fields volume mute channel_volumes = Inr (properties, expected)" "route_spa_device route = Inr d"
      "route_pod_value route d saved properties = Inr obj"
      "v = tuple_obj ConfirmationPredicateValue_obj (route_predicates route expected)"
      "list_all ConfirmationPredicateValue_ok (route_predicates route expected)"
    by (rule route_request_Inr [OF r assms(2)])
  have f: "MutationRequest_ok rq" "calls w1 = calls w" "rq_confirmation_predicates rq = route_predicates route expected"
      "rq_operation rq = SELECT_ROUTE"
      "\<exists>raw. parameter_pod_bytes limit text_of obj PNone = Inr raw \<and>
         rq_payload rq = [(''flags'', PInt 0), (''pod_base64'', PStr (b64encode raw))]"
    using parameter_selection_fields [OF rq [unfolded pr(6)] pr(7)] by auto
  note c = captured_ok [OF s assms(7)]
  have "selected env rq s (route_offered s route) x w2 w'" using select_route_selected [OF x [unfolded pr(1)] pr(4)] .
  then obtain log where log: "calls w' = calls w2 @ log" "length (dispatches log) \<le> 1"
      "\<forall>payload \<in> set (dispatches log). route_offered s route \<and> serialize (MutationRequest_obj (dispatched_request rq s)) = Inr payload"
      "succeeded x \<longrightarrow> (\<exists>s'. last (Captured (Inr s) # log) = Captured (Inr s') \<and> observed_in rq s')"
    using selected_result [OF _ f(1) conjunct1 [OF c] assms(7)] by blast
  have "0 \<le> rt_index route" using assms(2) by (simp add: RouteValue_ok_def)
  then obtain raw seen where "parameter_pod_bytes limit text_of obj PNone = Inr raw" "parse_spa_pod raw 0 = Inr seen"
      "route_seen route d (PBool saved) expected seen"
    using route_pod [OF pr(5,3) _ assms(3) _ _ assms(5,6)] assms(4) pr(4) by blast
  then have "carries_pod rq seen" "route_seen route d save expected seen" using f(5) pr(2) by (auto simp: carries_pod_def)
  moreover have "route_active s' route expected" if "observed_in rq s'" for s'
    using that f(3) audio_fields_expected [OF pr(3)] by (intro route_observed) (simp_all add: observed_in_def)
  ultimately show ?thesis
    using log c f(2,4) pr(3,4)
    by (intro exI [of _ properties] exI [of _ expected] exI [of _ d] exI [of _ s] exI [of _ log]) fastforce
qed

section \<open>A route that is active already\<close>

definition selection_expected :: fields where
  "selection_expected = [(''volume'', PFloat half), (''mute'', PBool False)]"

lemma selection_audio:
  "audio_fields (Some (PFloat half)) (Some (PBool False)) None = Inr (selection_expected, selection_expected)"
  by (simp add: audio_fields_def given_fields_def mute_fields_def volume_fields_def half_fields selection_expected_def)

lemma route_predicates_observed:
  "list_all (\<lambda>p. predicate_matches p (snapshot_observation selection_snapshot (cp_target p)) = Inr True)
     (route_predicates selection_route selection_expected)"
  unfolding selection_expected_def half_def by code_simp

lemma route_pod_value_obj:
  assumes "audio_fields volume mute channel_volumes = Inr (properties, expected)"
    and "\<forall>v xs. channel_volumes = Some v \<longrightarrow> as_seq v = Some xs \<longrightarrow> length xs < 1000000000"
  shows "\<exists>obj. route_pod_value route d saved properties = Inr obj"
proof -
  obtain props where p: "construct_spa SpaProps properties = Inr props" by (rule audio_props_object [OF assms]) auto
  let ?ps = "route_properties route d saved @
      (if properties = [] then [] else [audio_property SPA_PARAM_ROUTE_props props 0])"
  have "construct_spa SpaParamRoute (keyword_fields SPA_PARAM_Route ?ps) =
      Inr (typed_object SpaParamRoute (class_object_type SpaParamRoute) SPA_PARAM_Route ?ps)"
    by (rule construct_spa_keywords [OF route_class(1-3)]) (simp_all add: route_properties_def has_spec_def route_spec)
  moreover have "keyword_fields SPA_PARAM_Route ?ps =
      [(''index'', PInt (rt_index route)), (''device'', PInt d), (''save'', PBool saved)] @
      (if properties = [] then [] else [(''props'', props)])"
    by (simp add: route_properties_def keyword_fields_def property_name_def route_spec)
  ultimately show ?thesis using p by (cases "properties = []") (simp_all add: route_pod_value_def)
qed

lemma selection_route_request:
  "\<exists>obj. route_request (RouteValue_obj selection_route) (Some (PFloat half)) (Some (PBool False)) None (PBool False) =
       Inr (selection_route, 0, obj, tuple_obj ConfirmationPredicateValue_obj (route_predicates selection_route selection_expected)) \<and>
     route_pod_value selection_route 0 False selection_expected = Inr obj"
proof -
  obtain obj where obj: "route_pod_value selection_route 0 False selection_expected = Inr obj"
    using route_pod_value_obj [OF selection_audio, of selection_route 0 False] by blast
  have f: "rt_device_id selection_route = 5" "rt_index selection_route = 2" "rt_name selection_route = ''hdmi''"
    "route_spa_device selection_route = Inr 0"
    by (simp_all add: selection_route_def route_spa_device_def pipewire_identifier_def val_identifier_def val_integer_def)
  note ok = indexed_target_ok [of 5 "''route_index''" 2, simplified]
  have "contract_value (PFloat half) = Inr (PFloat half)" by (simp add: contract_value_def half_fields)
  then have "predicate_tuple
      ([equals_predicate (indexed_target ''route_index'' 5 2) [PStr ''active''] (PBool True),
        equals_predicate (indexed_target ''route_index'' 5 2) [PStr ''name''] (PStr ''hdmi'')] @
       map (\<lambda>(name, v). equals_predicate (indexed_target ''route_index'' 5 2) [PStr name] v) selection_expected) =
      Inr (tuple_obj ConfirmationPredicateValue_obj (route_predicates selection_route selection_expected))"
    using equals_predicate_field [OF ok]
    by (simp add: predicate_tuple_def route_predicates_def contract_value_def selection_expected_def f Let_def)
  then show ?thesis
    using obj f as_RouteValue_obj [OF selection_values_ok(2)] selection_audio indexed_target_Inr [of 5]
    by (simp add: route_request_def pipewire_identifier_def val_identifier_def val_integer_def)
qed

theorem selected_route_witness:
  "\<exists>x w'. select_device_route (still_env selection_snapshot) 4 (\<lambda>v. []) (RouteValue_obj selection_route) (PInt 1) PNone
       (Some (PFloat half)) (Some (PBool False)) None (PBool False) one_second (PStr ''r1'') (still_world []) = Some (Inr x, w') \<and>
     succeeded x \<and> route_active selection_snapshot selection_route selection_expected"
proof -
  obtain obj where r: "route_request (RouteValue_obj selection_route) (Some (PFloat half)) (Some (PBool False)) None (PBool False) =
        Inr (selection_route, 0, obj, tuple_obj ConfirmationPredicateValue_obj (route_predicates selection_route selection_expected))"
      "route_pod_value selection_route 0 False selection_expected = Inr obj"
    using selection_route_request by blast
  have ok: "list_all ConfirmationPredicateValue_ok (route_predicates selection_route selection_expected)"
    by (rule route_request_Inr [OF r(1) selection_values_ok(2)]) (use selection_audio in auto)
  have f: "rt_device_id selection_route = 5" "rt_index selection_route = 2" "route_spa_device selection_route = Inr 0"
    "rt_available selection_route = AvailableYes" "rt_profile_ids selection_route = [1]"
    by (simp_all add: selection_route_def route_spa_device_def pipewire_identifier_def val_identifier_def val_integer_def)
  obtain raw where raw: "parameter_pod_bytes 4 (\<lambda>v. []) obj PNone = Inr raw"
    using route_pod [OF r(2) selection_audio, of 4 "\<lambda>v. []"] f by auto
  let ?w = "still_world [] :: unit world"
  obtain rq where rq: "parameter_selection_request (still_env selection_snapshot) 4 (\<lambda>v. []) SELECT_ROUTE ''Route''
        (rt_device_id selection_route) obj (PInt 1) PNone
        (tuple_obj ConfirmationPredicateValue_obj (route_predicates selection_route selection_expected)) one_second (PStr ''r1'') ?w =
        (Inr rq, ?w)"
      "rq_expected_generation rq = 1" "rq_expected_sequence rq = None" "rq_deadline_at rq = render_utc 1000000"
      "rq_confirmation_predicates rq = route_predicates selection_route selection_expected" "MutationRequest_ok rq"
    using parameter_selection_still [OF raw _ _ ok, of "rt_device_id selection_route" "''Route''" 1 selection_snapshot SELECT_ROUTE ?w] f
    by (auto simp: route_predicates_def Let_def)
  have obs: "observed_in rq selection_snapshot"
    using route_predicates_observed rq(2,5) by (simp add: observed_in_def selection_snapshot_simps)
  obtain dev where dev: "map_of (devices_by_id selection_snapshot) 5 = Some dev" using selection_snapshot_simps(2) by blast
  have "active_profile_ids selection_snapshot 5 = [1]"
    by (simp add: active_profile_ids_def selection_snapshot_simps selection_profile_def)
  moreover obtain x w' where x: "unless_unavailable (still_env selection_snapshot) rq selection_snapshot AvailableYes
        ''route is currently unavailable'' (execute_confirmed_mutation (still_env selection_snapshot) rq (Some selection_snapshot))
        (still_world [Captured (Inr selection_snapshot)]) = Some (Inr x, w')" "succeeded x"
      "calls w' = [Captured (Inr selection_snapshot)]"
    using unless_unavailable_satisfied [OF rq(6) selection_snapshot_ok obs rq(3,4)] by blast
  ultimately have run: "select_device_route (still_env selection_snapshot) 4 (\<lambda>v. []) (RouteValue_obj selection_route) (PInt 1) PNone
      (Some (PFloat half)) (Some (PBool False)) None (PBool False) one_second (PStr ''r1'') ?w = Some (Inr x, w')"
    using r(1) rq(1-3) f dev selection_snapshot_simps(1,3-5)
    by (simp add: select_device_route_def obind_def alift_def still_simps select_route_from_def preflight_is_stale_def same_route_def)
  have caps: "\<forall>v s. fst (env_capture (still_env selection_snapshot) v) = Inr s \<longrightarrow> RuntimeSnapshot_ok s"
    using selection_snapshot_ok by (simp add: still_simps)
  from selected_route [OF run selection_values_ok(2) _ _ _ _ caps] x run f selection_audio show ?thesis
    by (auto simp: still_simps split: if_splits)
qed

end
