(* ===== verification/JsonLoads.thy ===== *)
theory JsonLoads
  imports Json
begin

text \<open>
  \<open>json.loads\<close>, as the snapshot uses it on the values of the default metadata.  The scanner works
  on the UTF-8 text: outside ASCII, JSON only allows characters inside strings, which are
  copied.  A number keeps its text.  Two errors are told apart, because the code catches only
  the first: text that is not JSON, and an integer of more than 4300 digits.
\<close>

section \<open>Values and errors\<close>

datatype json =
    JNull
  | JBool bool
  | JNumber string
  | JString string
  | JArray "json list"
  | JObject "(string \<times> json) list"

datatype json_error = JsonDecodeError | TooManyDigits | OutOfFuel

section \<open>Strings\<close>

definition json_space :: "char \<Rightarrow> bool" where
  "json_space c \<longleftrightarrow> c \<in> {CHR 0x20, CHR 0x09, CHR 0x0A, CHR 0x0D}"

definition skip_space :: "string \<Rightarrow> string" where
  "skip_space = dropWhile json_space"

definition hex_value :: "char \<Rightarrow> nat option" where
  "hex_value c =
     (let n = of_char c in
      if 48 \<le> n \<and> n \<le> 57 then Some (n - 48)
      else if 97 \<le> n \<and> n \<le> 102 then Some (n - 87)
      else if 65 \<le> n \<and> n \<le> 70 then Some (n - 55) else None)"

definition hex_digits :: "string \<Rightarrow> (nat \<times> string) option" where
  "hex_digits s =
     (case s of
        a # b # c # d # rest \<Rightarrow>
          (case (hex_value a, hex_value b, hex_value c, hex_value d) of
             (Some w, Some x, Some y, Some z) \<Rightarrow> Some (((w * 16 + x) * 16 + y) * 16 + z, rest)
           | _ \<Rightarrow> None)
      | _ \<Rightarrow> None)"

text \<open>The second half of a surrogate pair, when it follows.\<close>

definition low_surrogate :: "string \<Rightarrow> (nat \<times> string) option" where
  "low_surrogate s =
     (case s of
        b # u # rest \<Rightarrow>
          if b = CHR 0x5C \<and> u = CHR ''u''
          then Option.bind (hex_digits rest) (\<lambda>(m, rest'). if 56320 \<le> m \<and> m < 57344 then Some (m, rest') else None)
          else None
      | _ \<Rightarrow> None)"

text \<open>What follows \<open>\u\<close>: the characters it stands for, and the rest.\<close>

definition unicode_unescape :: "string \<Rightarrow> (string \<times> string) option" where
  "unicode_unescape s =
     (case hex_digits s of
        None \<Rightarrow> None
      | Some (n, rest) \<Rightarrow>
          (case (if 55296 \<le> n \<and> n < 56320 then low_surrogate rest else None) of
             Some (m, rest') \<Rightarrow> Some (utf8_char (65536 + (n - 55296) * 1024 + (m - 56320)), rest')
           | None \<Rightarrow> Some (utf8_char n, rest)))"

definition simple_escapes :: "(char \<times> char) list" where
  "simple_escapes =
     [(CHR 0x22, CHR 0x22), (CHR 0x5C, CHR 0x5C), (CHR 0x2F, CHR 0x2F), (CHR ''b'', CHR 0x08), (CHR ''f'', CHR 0x0C),
      (CHR ''n'', CHR 0x0A), (CHR ''r'', CHR 0x0D), (CHR ''t'', CHR 0x09)]"

definition unescape :: "string \<Rightarrow> (string \<times> string) option" where
  "unescape s =
     (case s of
        [] \<Rightarrow> None
      | e # rest \<Rightarrow>
          (case map_of simple_escapes e of
             Some c \<Rightarrow> Some ([c], rest)
           | None \<Rightarrow> if e = CHR ''u'' then unicode_unescape rest else None))"

lemma hex_digits_shorter: "hex_digits s = Some (n, rest) \<Longrightarrow> length rest < length s"
  by (auto simp: hex_digits_def split: list.splits option.splits prod.splits)

lemma low_surrogate_shorter: "low_surrogate s = Some (n, rest) \<Longrightarrow> length rest < length s"
  by (auto simp: low_surrogate_def split: list.splits if_splits bind_splits dest!: hex_digits_shorter)

lemma unescape_shorter [termination_simp]: "unescape s = Some (t, rest) \<Longrightarrow> length rest < length s"
  by (fastforce simp: unescape_def unicode_unescape_def split: list.splits if_splits option.splits prod.splits
    dest: hex_digits_shorter low_surrogate_shorter)

text \<open>The characters up to the closing quotation mark, and the rest; control characters are rejected.\<close>

function scan_string :: "string \<Rightarrow> (string \<times> string) option" where
  "scan_string [] = None"
| "scan_string (c # cs) =
     (if c = CHR 0x22 then Some ([], cs)
      else if c = CHR 0x5C
      then (case unescape cs of
              None \<Rightarrow> None
            | Some (t, rest) \<Rightarrow> map_option (\<lambda>(s, r). (t @ s, r)) (scan_string rest))
      else if (of_char c :: nat) < 32 then None
      else map_option (\<lambda>(s, r). (c # s, r)) (scan_string cs))"
  by pat_completeness auto
termination
  by (relation "measure length") (auto dest: unescape_shorter)

lemma scan_string_shorter: "scan_string s = Some (t, rest) \<Longrightarrow> length rest < length s"
proof (induction s arbitrary: t rest rule: scan_string.induct)
  case (2 c cs)
  show ?case
  proof (cases "c = CHR 0x5C")
    case True
    then obtain u r t' where u: "unescape cs = Some (u, r)" "scan_string r = Some (t', rest)"
      using 2(3) by (auto split: option.splits)
    have "length rest < length r" using 2(1) [OF _ True u(1)] u(2) True by auto
    then show ?thesis using unescape_shorter [OF u(1)] by simp
  next
    case False
    show ?thesis
    proof (cases "c = CHR 0x22")
      case True
      then show ?thesis using 2(3) by simp
    next
      case q: False
      then obtain t' where r: "scan_string cs = Some (t', rest)" "\<not> (of_char c :: nat) < 32"
        using 2(3) False by (auto split: if_splits)
      show ?thesis using 2(2) [OF q False r(2) r(1)] by simp
    qed
  qed
qed simp

section \<open>Numbers\<close>

definition split_digits :: "string \<Rightarrow> string \<times> string" where
  "split_digits s = (takeWhile is_digit s, dropWhile is_digit s)"

text \<open>The integer part: zero alone, or digits that do not begin with zero.\<close>

definition number_whole :: "string \<Rightarrow> (string \<times> string) option" where
  "number_whole s =
     (case s of
        [] \<Rightarrow> None
      | c # cs \<Rightarrow> if c = CHR ''0'' then Some ([c], cs) else if is_digit c then Some (split_digits s) else None)"

definition number_fraction :: "string \<Rightarrow> string \<times> string" where
  "number_fraction s =
     (case s of
        p # d # ds \<Rightarrow> if p = CHR ''.'' \<and> is_digit d then (p # fst (split_digits (d # ds)), snd (split_digits (d # ds))) else ([], s)
      | _ \<Rightarrow> ([], s))"

definition number_exponent :: "string \<Rightarrow> string \<times> string" where
  "number_exponent s =
     (case s of
        e # cs \<Rightarrow>
          if e = CHR ''e'' \<or> e = CHR ''E''
          then let sign = (case cs of c # _ \<Rightarrow> if c = CHR ''+'' \<or> c = CHR ''-'' then [c] else [] | [] \<Rightarrow> []);
                   (ds, rest) = split_digits (drop (length sign) cs)
               in if ds = [] then ([], s) else (e # sign @ ds, rest)
          else ([], s)
      | [] \<Rightarrow> ([], s))"

definition scan_number :: "string \<Rightarrow> json_error + json \<times> string" where
  "scan_number s =
     (let (sign, s1) = (case s of c # cs \<Rightarrow> if c = CHR ''-'' then ([c], cs) else ([], s) | [] \<Rightarrow> ([], s))
      in case number_whole s1 of
           None \<Rightarrow> Inl JsonDecodeError
         | Some (whole, s2) \<Rightarrow>
             let (fraction, s3) = number_fraction s2; (exponent, s4) = number_exponent s3
             in if fraction = [] \<and> exponent = [] \<and> 4300 < length whole then Inl TooManyDigits
                else Inr (JNumber (sign @ whole @ fraction @ exponent), s4))"

section \<open>Documents\<close>

definition constants :: "(string \<times> json) list" where
  "constants =
     [(''null'', JNull), (''true'', JBool True), (''false'', JBool False), (''NaN'', JNumber ''NaN''),
      (''Infinity'', JNumber ''Infinity''), (''-Infinity'', JNumber ''-Infinity'')]"

definition scan_scalar :: "string \<Rightarrow> json_error + json \<times> string" where
  "scan_scalar s =
     (case find (\<lambda>(name, v). starts_with name s) constants of
        Some (name, v) \<Rightarrow> Inr (v, drop (length name) s)
      | None \<Rightarrow> scan_number s)"

text \<open>
  A value, the elements of an array after its bracket, and the members of an object after its
  brace.  The first argument bounds the number of calls in a row; twice the length of the text is
  enough (\<open>json_loads_fuel\<close>).
\<close>

fun json_value :: "nat \<Rightarrow> string \<Rightarrow> json_error + json \<times> string"
and json_elements :: "nat \<Rightarrow> string \<Rightarrow> json_error + json list \<times> string"
and json_members :: "nat \<Rightarrow> string \<Rightarrow> json_error + (string \<times> json) list \<times> string" where
  "json_value 0 s = Inl OutOfFuel"
| "json_value (Suc n) s =
     (case s of
        [] \<Rightarrow> Inl JsonDecodeError
      | c # cs \<Rightarrow>
          if c = CHR 0x22 then (case scan_string cs of None \<Rightarrow> Inl JsonDecodeError | Some (t, rest) \<Rightarrow> Inr (JString t, rest))
          else if c = CHR 0x7B then
            (case skip_space cs of
               d # rest \<Rightarrow>
                 if d = CHR 0x7D then Inr (JObject [], rest)
                 else rbind (json_members n (skip_space cs)) (\<lambda>(ms, rest). Inr (JObject ms, rest))
             | [] \<Rightarrow> Inl JsonDecodeError)
          else if c = CHR 0x5B then
            (case skip_space cs of
               d # rest \<Rightarrow>
                 if d = CHR 0x5D then Inr (JArray [], rest)
                 else rbind (json_elements n (skip_space cs)) (\<lambda>(vs, rest). Inr (JArray vs, rest))
             | [] \<Rightarrow> Inl JsonDecodeError)
          else scan_scalar s)"
| "json_elements 0 s = Inl OutOfFuel"
| "json_elements (Suc n) s =
     rbind (json_value n s) (\<lambda>(v, rest).
     case skip_space rest of
       [] \<Rightarrow> Inl JsonDecodeError
     | c # cs \<Rightarrow>
         if c = CHR 0x5D then Inr ([v], cs)
         else if c = CHR 0x2C then rbind (json_elements n (skip_space cs)) (\<lambda>(vs, r). Inr (v # vs, r))
         else Inl JsonDecodeError)"
| "json_members 0 s = Inl OutOfFuel"
| "json_members (Suc n) s =
     (case s of
        [] \<Rightarrow> Inl JsonDecodeError
      | q # cs \<Rightarrow>
          if q \<noteq> CHR 0x22 then Inl JsonDecodeError
          else (case scan_string cs of
             None \<Rightarrow> Inl JsonDecodeError
           | Some (k, r1) \<Rightarrow>
               (case skip_space r1 of
                  [] \<Rightarrow> Inl JsonDecodeError
                | c # r2 \<Rightarrow>
                    if c \<noteq> CHR 0x3A then Inl JsonDecodeError
                    else rbind (json_value n (skip_space r2)) (\<lambda>(v, r3).
                         case skip_space r3 of
                           [] \<Rightarrow> Inl JsonDecodeError
                         | d # r4 \<Rightarrow>
                             if d = CHR 0x7D then Inr ([(k, v)], r4)
                             else if d = CHR 0x2C
                             then rbind (json_members n (skip_space r4)) (\<lambda>(ms, r5). Inr ((k, v) # ms, r5))
                             else Inl JsonDecodeError))))"

definition json_loads :: "string \<Rightarrow> json_error + json" where
  "json_loads s =
     rbind (json_value (Suc (2 * length s)) (skip_space s)) (\<lambda>(v, rest).
     if skip_space rest = [] then Inr v else Inl JsonDecodeError)"

declare json_value.simps [simp del] json_elements.simps [simp del] json_members.simps [simp del]

section \<open>The bound on the calls is enough\<close>

lemma split_digits_length: "length (snd (split_digits s)) \<le> length s"
  by (simp add: split_digits_def length_dropWhile_le)

lemma skip_space_length: "length (skip_space s) \<le> length s"
  by (simp add: skip_space_def length_dropWhile_le)

lemma number_whole_shorter: "number_whole s = Some (w, rest) \<Longrightarrow> length rest < length s"
proof (cases s)
  case (Cons c cs)
  assume w: "number_whole s = Some (w, rest)"
  have "length (dropWhile is_digit (c # cs)) \<le> length cs" if "is_digit c" using that by (simp add: length_dropWhile_le)
  then show ?thesis using w Cons by (auto simp: number_whole_def split_digits_def split: if_splits)
qed (simp add: number_whole_def)

lemma number_fraction_length: "length (snd (number_fraction s)) \<le> length s"
  using split_digits_length [of "tl s"] by (auto simp: number_fraction_def split: list.splits)

lemma number_exponent_length: "length (snd (number_exponent s)) \<le> length s"
proof (cases s)
  case (Cons e cs)
  have "length (snd (split_digits (drop k cs))) \<le> length s" for k
    using split_digits_length [of "drop k cs"] Cons by simp
  then show ?thesis using Cons by (auto simp: number_exponent_def Let_def prod.case_eq_if)
qed (simp add: number_exponent_def)

lemma scan_number_shorter: "scan_number s = Inr (v, rest) \<Longrightarrow> length rest < length s"
proof -
  assume n: "scan_number s = Inr (v, rest)"
  define signed where "signed = (case s of c # cs \<Rightarrow> if c = CHR ''-'' then ([c], cs) else ([], s) | [] \<Rightarrow> ([], s))"
  have "length (snd signed) \<le> length s" by (auto simp: signed_def split: list.splits)
  moreover obtain w s2 where w: "number_whole (snd signed) = Some (w, s2)"
      "rest = snd (number_exponent (snd (number_fraction s2)))"
    using n unfolding scan_number_def signed_def [symmetric]
    by (auto simp: Let_def prod.case_eq_if split: option.splits if_splits)
  ultimately show ?thesis
    unfolding w(2)
    using number_whole_shorter [OF w(1)] number_fraction_length [of s2] number_exponent_length [of "snd (number_fraction s2)"]
    by linarith
qed

lemma starts_with_length: "starts_with p s \<Longrightarrow> length p \<le> length s"
  by (induction p s rule: starts_with.induct) auto

lemma scan_scalar_shorter: "scan_scalar s = Inr (v, rest) \<Longrightarrow> length rest < length s"
proof (cases "find (\<lambda>(name, v). starts_with name s) constants")
  case (Some nv)
  assume r: "scan_scalar s = Inr (v, rest)"
  have "nv \<in> set constants" "starts_with (fst nv) s"
    using Some by (auto simp: find_Some_iff dest: nth_mem)
  moreover from this have "0 < length (fst nv)" by (auto simp: constants_def)
  ultimately show ?thesis
    using r Some starts_with_length [of "fst nv" s] by (auto simp: scan_scalar_def split: prod.splits intro!: diff_less)
qed (simp add: scan_scalar_def scan_number_shorter)

lemma scan_scalar_fuel: "scan_scalar s \<noteq> Inl OutOfFuel"
  by (auto simp: scan_scalar_def scan_number_def Let_def prod.case_eq_if split: option.splits)

lemma skipped_shorter: "skip_space s = c # cs \<Longrightarrow> length cs < length s"
  using skip_space_length [of s] by simp

lemma json_shorter:
  "\<forall>s. (\<forall>v rest. json_value n s = Inr (v, rest) \<longrightarrow> length rest < length s) \<and>
    (\<forall>vs rest. json_elements n s = Inr (vs, rest) \<longrightarrow> length rest < length s) \<and>
    (\<forall>ms rest. json_members n s = Inr (ms, rest) \<longrightarrow> length rest < length s)"
proof (induction n)
  case 0
  then show ?case by (simp add: json_value.simps json_elements.simps json_members.simps)
next
  case (Suc n)
  have value_less: "length rest < length s" if "json_value n s = Inr (v, rest)" for s v rest using Suc that by blast
  have elements_less: "length rest < length s" if "json_elements n s = Inr (vs, rest)" for s vs rest using Suc that by blast
  have members_less: "length rest < length s" if "json_members n s = Inr (ms, rest)" for s ms rest using Suc that by blast
  have "length rest < length s" if val: "json_value (Suc n) s = Inr (v, rest)" for s v rest
  proof (cases s)
    case (Cons c cs)
    consider "c = CHR 0x22" | "c \<noteq> CHR 0x22" "c = CHR 0x7B" | "c \<noteq> CHR 0x22" "c = CHR 0x5B"
      | "c \<noteq> CHR 0x22" "c \<noteq> CHR 0x7B" "c \<noteq> CHR 0x5B" by blast
    then show ?thesis
    proof cases
      case 1
      then show ?thesis
        using val Cons by (auto simp: json_value.simps less_SucI split: option.splits dest!: scan_string_shorter)
    next
      case 2
      then obtain d r where d: "skip_space cs = d # r" using val Cons by (auto simp: json_value.simps split: list.splits)
      then have "length rest < length (skip_space cs)"
        using val Cons 2 by (auto simp: json_value.simps split: if_splits dest!: members_less elim!: rbind_InrE)
      then show ?thesis using skip_space_length [of cs] Cons by simp
    next
      case 3
      then obtain d r where d: "skip_space cs = d # r" using val Cons by (auto simp: json_value.simps split: list.splits)
      then have "length rest < length (skip_space cs)"
        using val Cons 3 by (auto simp: json_value.simps split: if_splits dest!: elements_less elim!: rbind_InrE)
      then show ?thesis using skip_space_length [of cs] Cons by simp
    next
      case 4
      then show ?thesis using val Cons scan_scalar_shorter [of "c # cs" v rest] by (simp add: json_value.simps)
    qed
  qed (use val in \<open>simp add: json_value.simps\<close>)
  moreover have "length rest < length s" if e: "json_elements (Suc n) s = Inr (vs, rest)" for s vs rest
  proof -
    obtain v r where v: "json_value n s = Inr (v, r)" using e by (auto simp: json_elements.simps elim!: rbind_InrE)
    obtain c cs where c: "skip_space r = c # cs" using e v by (auto simp: json_elements.simps split: list.splits)
    have "length rest \<le> length cs"
      using e v c skip_space_length [of cs] by (auto simp: json_elements.simps split: if_splits elim!: rbind_InrE dest!: elements_less)
    then show ?thesis using value_less [OF v] skipped_shorter [OF c] by linarith
  qed
  moreover have "length rest < length s" if m: "json_members (Suc n) s = Inr (ms, rest)" for s ms rest
  proof -
    obtain q cs k r1 where q: "s = q # cs" "scan_string cs = Some (k, r1)" "q = CHR 0x22"
      using m by (auto simp: json_members.simps split: list.splits if_splits option.splits)
    obtain c r2 where c: "skip_space r1 = c # r2" using m q by (auto simp: json_members.simps split: list.splits)
    obtain v r3 where v: "json_value n (skip_space r2) = Inr (v, r3)"
      using m q c by (auto simp: json_members.simps split: if_splits elim!: rbind_InrE)
    obtain d r4 where d: "skip_space r3 = d # r4" using m q c v by (auto simp: json_members.simps split: list.splits if_splits)
    have "length rest \<le> length r4"
      using m q c v d skip_space_length [of r4] by (auto simp: json_members.simps split: if_splits elim!: rbind_InrE dest!: members_less)
    then show ?thesis
      using scan_string_shorter [OF q(2)] skipped_shorter [OF c] value_less [OF v] skipped_shorter [OF d] skip_space_length [of r2] q(1)
      by simp
  qed
  ultimately show ?case by blast
qed

lemma json_fuel:
  "\<forall>s. (2 * length s < n \<longrightarrow> json_value n s \<noteq> Inl OutOfFuel) \<and> (2 * length s + 1 < n \<longrightarrow> json_elements n s \<noteq> Inl OutOfFuel) \<and>
    (2 * length s < n \<longrightarrow> json_members n s \<noteq> Inl OutOfFuel)"
proof (induction n)
  case (Suc n)
  have value_ok: "json_value n s \<noteq> Inl OutOfFuel" if "2 * length s < n" for s using Suc that by blast
  have elements_ok: "json_elements n s \<noteq> Inl OutOfFuel" if "2 * length s + 1 < n" for s using Suc that by blast
  have members_ok: "json_members n s \<noteq> Inl OutOfFuel" if "2 * length s < n" for s using Suc that by blast
  have "json_value (Suc n) s \<noteq> Inl OutOfFuel" if "2 * length s < Suc n" for s
  proof (cases s)
    case (Cons c cs)
    have "2 * length (skip_space cs) + 1 < n" using that Cons skip_space_length [of cs] by simp
    then show ?thesis
      using Cons elements_ok [of "skip_space cs"] members_ok [of "skip_space cs"] scan_scalar_fuel [of s]
      by (auto simp: json_value.simps rbind_eq_Inl_iff split: option.splits list.splits prod.splits)
  qed (simp add: json_value.simps)
  moreover have "json_elements (Suc n) s \<noteq> Inl OutOfFuel" if l: "2 * length s + 1 < Suc n" for s
  proof -
    have "json_elements n (skip_space cs) \<noteq> Inl OutOfFuel" if "json_value n s = Inr (v, r)" "skip_space r = c # cs" for v r c cs
    proof -
      have "length r < length s" using json_shorter that(1) by blast
      then show ?thesis using skipped_shorter [OF that(2)] skip_space_length [of cs] l by (intro elements_ok) simp
    qed
    then show ?thesis
      using value_ok [of s] l by (auto simp: json_elements.simps rbind_eq_Inl_iff split: list.splits prod.splits)
  qed
  moreover have "json_members (Suc n) s \<noteq> Inl OutOfFuel" if l: "2 * length s < Suc n" for s
  proof (cases "\<exists>cs k r1 c r2. s = CHR 0x22 # cs \<and> scan_string cs = Some (k, r1) \<and> skip_space r1 = c # r2")
    case True
    then obtain cs k r1 c r2 where s: "s = CHR 0x22 # cs" "scan_string cs = Some (k, r1)" "skip_space r1 = c # r2" by blast
    have r2: "length (skip_space r2) + 2 < length s"
      using scan_string_shorter [OF s(2)] skipped_shorter [OF s(3)] skip_space_length [of r2] s(1) by simp
    have "json_members n (skip_space r4) \<noteq> Inl OutOfFuel" if "json_value n (skip_space r2) = Inr (v, r3)" "skip_space r3 = d # r4" for v r3 d r4
    proof -
      have "length r3 < length (skip_space r2)" using json_shorter that(1) by blast
      then show ?thesis using skipped_shorter [OF that(2)] skip_space_length [of r4] r2 l by (intro members_ok) simp
    qed
    moreover have "json_value n (skip_space r2) \<noteq> Inl OutOfFuel" using r2 l by (intro value_ok) simp
    ultimately show ?thesis
      using s by (auto simp: json_members.simps rbind_eq_Inl_iff split: list.splits prod.splits)
  next
    case False
    then show ?thesis by (auto simp: json_members.simps split: list.splits option.splits)
  qed
  ultimately show ?case by blast
qed simp

text \<open>The parser of a document always has fuel to its end.\<close>

lemma json_loads_fuel: "json_loads s \<noteq> Inl OutOfFuel"
proof -
  have "2 * length (skip_space s) < Suc (2 * length s)" using skip_space_length [of s] by simp
  then have "json_value (Suc (2 * length s)) (skip_space s) \<noteq> Inl OutOfFuel" using json_fuel by blast
  then show ?thesis by (auto simp: json_loads_def rbind_eq_Inl_iff)
qed

section \<open>What is written is read\<close>

lemma hex_value_char: "d < 16 \<Longrightarrow> hex_value (hex_char d) = Some d"
  by (auto simp: hex_value_def hex_char_def)

lemma four_hex_digits:
  assumes "n < 65536"
  shows "((n div 4096 mod 16 * 16 + n div 256 mod 16) * 16 + n div 16 mod 16) * 16 + n mod 16 = (n :: nat)"
proof -
  have *: "m div 16 * 16 + m mod 16 = m" for m :: nat by simp
  have q: "n div 256 = n div 16 div 16" "n div 4096 = n div 16 div 16 div 16" by (simp_all add: div_mult2_eq [symmetric])
  have "n div 4096 mod 16 = n div 4096" using assms by (simp add: less_mult_imp_div_less)
  then show ?thesis unfolding q using * [of "n div 16 div 16"] * [of "n div 16"] * [of n] by simp
qed

definition escape_digits :: "nat \<Rightarrow> string" where
  "escape_digits n = [hex_char (n div 4096 mod 16), hex_char (n div 256 mod 16), hex_char (n div 16 mod 16), hex_char (n mod 16)]"

lemma unicode_escape_parts: "unicode_escape m = CHR 0x5C # CHR ''u'' # escape_digits m"
  by (simp add: unicode_escape_def escape_digits_def)

lemma hex_digits_escape: "m < 65536 \<Longrightarrow> hex_digits (escape_digits m @ s) = Some (m, s)"
  using four_hex_digits [of m] by (simp add: escape_digits_def hex_digits_def hex_value_char)

lemma unescape_escape: "unescape (CHR ''u'' # s) = unicode_unescape s"
  by (simp add: unescape_def simple_escapes_def)

lemma unicode_unescape_escape:
  assumes "n < 65536" "\<not> (55296 \<le> n \<and> n < 56320)"
  shows "unicode_unescape (escape_digits n @ s) = Some (utf8_char n, s)"
  using assms(2) by (auto simp: unicode_unescape_def hex_digits_escape [OF assms(1)])

lemma low_surrogate_escape:
  assumes "56320 \<le> m" "m < 57344"
  shows "low_surrogate (unicode_escape m @ s) = Some (m, s)"
proof -
  have "hex_digits (escape_digits m @ s) = Some (m, s)" using assms by (intro hex_digits_escape) simp
  then show ?thesis using assms by (simp add: unicode_escape_parts low_surrogate_def)
qed

lemma unescape_pair:
  assumes "55296 \<le> h" "h < 56320" "56320 \<le> l" "l < 57344"
  shows "unicode_unescape (escape_digits h @ unicode_escape l @ s) =
    Some (utf8_char (65536 + (h - 55296) * 1024 + (l - 56320)), s)"
proof -
  have "hex_digits (escape_digits h @ unicode_escape l @ s) = Some (h, unicode_escape l @ s)"
    using assms by (intro hex_digits_escape) simp
  then show ?thesis unfolding unicode_unescape_def using assms low_surrogate_escape [OF assms(3,4), of s] by simp
qed

lemma unicode_unescape_pair:
  assumes "65536 \<le> n" "n < 1114112"
  shows "unicode_unescape (escape_digits (55296 + (n - 65536) div 1024) @ unicode_escape (56320 + (n - 65536) mod 1024) @ s) =
    Some (utf8_char n, s)"
proof -
  have "(n - 65536) div 1024 < 1024" using assms by (simp add: less_mult_imp_div_less)
  then have "unicode_unescape (escape_digits (55296 + (n - 65536) div 1024) @ unicode_escape (56320 + (n - 65536) mod 1024) @ s) =
      Some (utf8_char (65536 + (55296 + (n - 65536) div 1024 - 55296) * 1024 + (56320 + (n - 65536) mod 1024 - 56320)), s)"
    by (intro unescape_pair) simp_all
  moreover have "65536 + (55296 + (n - 65536) div 1024 - 55296) * 1024 + (56320 + (n - 65536) mod 1024 - 56320) = n"
    using assms(1) div_mult_mod_eq [of "n - 65536" 1024] by simp
  ultimately show ?thesis by metis
qed

lemma escaped_chars:
  "char_of (34 :: nat) = CHR 0x22" "char_of (92 :: nat) = CHR 0x5C" "char_of (10 :: nat) = CHR 0x0A" "char_of (13 :: nat) = CHR 0x0D"
  "char_of (9 :: nat) = CHR 0x09" "char_of (12 :: nat) = CHR 0x0C" "char_of (8 :: nat) = CHR 0x08"
  by code_simp+

lemma scan_escaped:
  assumes "scalar_value n"
  shows "scan_string (json_escape n @ s) = map_option (\<lambda>(t, r). (utf8_char n @ t, r)) (scan_string s)"
proof -
  have n: "n < 1114112" "\<not> (55296 \<le> n \<and> n < 57344)" using assms by (auto simp: scalar_value_def code_point_def)
  consider (short) "n \<in> {34, 92, 10, 13, 9, 12, 8}" | (plain) "n \<notin> {34, 92, 10, 13, 9, 12, 8}" "32 \<le> n" "n < 127"
    | (bmp) "n \<notin> {34, 92, 10, 13, 9, 12, 8}" "\<not> (32 \<le> n \<and> n < 127)" "n < 65536"
    | (pair) "\<not> (32 \<le> n \<and> n < 127)" "65536 \<le> n" by fastforce
  then show ?thesis
  proof cases
    case short
    then show ?thesis by (auto simp: json_escape_def utf8_char_def unescape_def simple_escapes_def escaped_chars)
  next
    case plain
    then have "(of_char (char_of n :: char) :: nat) = n" by simp
    moreover have "c \<noteq> CHR 0x22" "c \<noteq> CHR 0x5C" if "of_char c = n" for c :: char using that plain(1) by auto
    ultimately show ?thesis using plain by (simp add: json_escape_def utf8_char_def)
  next
    case bmp
    have "json_escape n = CHR 0x5C # CHR ''u'' # escape_digits n" using bmp by (simp add: json_escape_def unicode_escape_parts)
    moreover have "unicode_unescape (escape_digits n @ s) = Some (utf8_char n, s)" using n bmp by (intro unicode_unescape_escape) auto
    ultimately show ?thesis by (simp add: unescape_escape)
  next
    case pair
    have "json_escape n = CHR 0x5C # CHR ''u'' # (escape_digits (55296 + (n - 65536) div 1024) @
        unicode_escape (56320 + (n - 65536) mod 1024))"
      using pair unfolding json_escape_def unicode_escape_parts by auto
    then show ?thesis using unicode_unescape_pair [of n s] pair n by (simp add: unescape_escape)
  qed
qed

lemma scan_json_string:
  assumes "list_all scalar_value ps"
  shows "scan_string (tl (json_string (utf8_encode ps)) @ s) = Some (utf8_encode ps, s)"
proof -
  have "scan_string (concat (map json_escape ps) @ CHR 0x22 # s) = Some (utf8_encode ps, s)"
    using assms by (induction ps) (simp_all add: scan_escaped utf8_encode_def)
  moreover have "list_all code_point ps" using assms by (simp add: list_all_iff scalar_value_def)
  ultimately show ?thesis by (simp add: json_string_def utf8_decode_encode)
qed

end
