(* ===== verification/Normalize.thy ===== *)
theory Normalize
  imports Serialization SpaShapes
begin

text \<open>
  The normalisation of parsed SPA parameters,
  \<open>src/src/wyreplumber/runtime/normalize.py\<close>: the values \<open>parse_spa_pod\<close> returns become the
  audio, format, profile and route values of the runtime contract, and whatever else a
  parameter holds becomes plain JSON.  \<open>text_of\<close> is \<open>str(x)\<close> of an object that is neither text
  nor a number, when such an object is the key of a mapping.
\<close>

section \<open>Text\<close>

text \<open>
  \<open>s.upper()\<close> and \<open>s.lower()\<close>.  The letters beyond ASCII that are listed are those whose upper
  or lower case is in ASCII; the others are left as they are, and no name that the results are
  compared with contains them.
\<close>

definition upper_points :: "nat \<Rightarrow> nat list" where
  "upper_points n =
     (if 97 \<le> n \<and> n \<le> 122 then [n - 32]
      else if n = 305 then [73] else if n = 383 then [83] else if n = 223 then [83, 83]
      else if n = 64256 then [70, 70] else if n = 64257 then [70, 73] else if n = 64258 then [70, 76]
      else if n = 64259 then [70, 70, 73] else if n = 64260 then [70, 70, 76]
      else if n = 64261 \<or> n = 64262 then [83, 84] else [n])"

definition upper_text :: "string \<Rightarrow> string" where
  "upper_text s = utf8_encode (concat (map upper_points (utf8_decode s)))"

definition lower_point :: "nat \<Rightarrow> nat" where
  "lower_point n = (if 65 \<le> n \<and> n \<le> 90 then n + 32 else if n = 8490 then 107 else n)"

definition lower_text :: "string \<Rightarrow> string" where
  "lower_text s = utf8_encode (map lower_point (utf8_decode s))"

section \<open>Properties\<close>

definition object_id_of :: "pyval \<Rightarrow> int option" where
  "object_id_of value =
     (case value of
        PSpaObject c t i n props flags keys \<Rightarrow> Some i
      | _ \<Rightarrow> (case as_mapping value of
                None \<Rightarrow> None
              | Some kvs \<Rightarrow> as_int (get_or kvs ''object_id'' (get_or kvs ''_object_id'' PNone))))"

definition normal_name :: "(pyval \<Rightarrow> string) \<Rightarrow> int option \<Rightarrow> pyval \<Rightarrow> string" where
  "normal_name text_of object_id key =
     (case as_str key of
        Some s \<Rightarrow> s
      | None \<Rightarrow>
          (case (int_like key, object_id) of
             (Some k, Some i) \<Rightarrow>
               (case property_spec_by_key i k of Some spec \<Rightarrow> spec_name spec | None \<Rightarrow> to_str text_of key)
           | _ \<Rightarrow> to_str text_of key))"

text \<open>A dictionary comprehension: an item whose name is there already replaces its value.\<close>

definition named_items :: "(pyval \<Rightarrow> string) \<Rightarrow> int option \<Rightarrow> (pyval \<times> pyval) list \<Rightarrow> fields" where
  "named_items text_of object_id kvs = foldl (\<lambda>items (k, v). alist_set (normal_name text_of object_id k) v items) [] kvs"

definition text_items :: "fields \<Rightarrow> (pyval \<times> pyval) list" where
  "text_items items = map (\<lambda>(k, v). (PStr k, v)) items"

definition reserved_keys :: "string list" where
  "reserved_keys = [''_pod_type'', ''_object_type'', ''_object_id'', ''object_type'', ''object_id'']"

definition spa_properties :: "(pyval \<Rightarrow> string) \<Rightarrow> pyval \<Rightarrow> exn + fields" where
  "spa_properties text_of value =
     (case as_mapping value of
        None \<Rightarrow> Inl (TypeError ''SPA object must be a mapping or SpaPodObject'')
      | Some kvs \<Rightarrow>
          let source = (case Option.bind (dict_get kvs ''properties'') as_mapping of Some nested \<Rightarrow> nested | None \<Rightarrow> kvs)
          in Inr (named_items text_of (object_id_of value)
               (filter (\<lambda>(k, v). case as_str k of Some s \<Rightarrow> s \<notin> set reserved_keys | None \<Rightarrow> True) source)))"

text \<open>\<open>_take\<close>: the value under the first of the names that is there, and the other items.\<close>

fun take_item :: "string list \<Rightarrow> fields \<Rightarrow> pyval option \<times> fields" where
  "take_item [] items = (None, items)"
| "take_item (name # names) items =
     (case map_of items name of
        Some v \<Rightarrow> (Some v, filter (\<lambda>(k, v). k \<noteq> name) items)
      | None \<Rightarrow> take_item names items)"

definition take_required :: "string \<Rightarrow> fields \<Rightarrow> exn + pyval \<times> fields" where
  "take_required name items =
     (case take_item [name] items of
        (Some v, rest) \<Rightarrow> Inr (v, rest)
      | (None, rest) \<Rightarrow> Inl (ValueError ''SPA value is missing required field''))"

section \<open>Plain JSON\<close>

function normalize_json :: "(pyval \<Rightarrow> string) \<Rightarrow> pyval \<Rightarrow> exn + pyval" where
  "normalize_json text_of (PValue t fs) = serialize (PValue t fs)"
| "normalize_json text_of (PIntEnum c n i) =
     Inr (PDict [(PStr ''id'', PInt i), (PStr ''name'', PStr n), (PStr ''namespace'', PStr c)])"
| "normalize_json text_of (PStrEnum c s) = Inr (PStr s)"
| "normalize_json text_of PNone = Inr PNone"
| "normalize_json text_of (PBool b) = Inr (PBool b)"
| "normalize_json text_of (PInt i) = Inr (PInt i)"
| "normalize_json text_of (PFloat f) = Inr (PFloat f)"
| "normalize_json text_of (PStr s) = Inr (PStr s)"
| "normalize_json text_of (PBytes b) =
     Inr (PDict [(PStr ''encoding'', PStr ''base64''), (PStr ''data'', PStr (b64encode b))])"
| "normalize_json text_of (PDict kvs) =
     rbind (traverse (\<lambda>(key, item). rbind (normalize_json text_of item) (\<lambda>j. Inr (key, j))) kvs) (\<lambda>items.
     Inr (PDict (text_items (named_items text_of (object_id_of (PDict kvs)) items))))"
| "normalize_json text_of (PFrozen kvs) =
     rbind (traverse (\<lambda>(key, item). rbind (normalize_json text_of item) (\<lambda>j. Inr (PStr key, j))) kvs) (\<lambda>items.
     Inr (PDict (text_items (named_items text_of (object_id_of (PFrozen kvs)) items))))"
| "normalize_json text_of (PSpaObject c t i n props flags keys) =
     rbind (traverse (\<lambda>(key, item). rbind (normalize_json text_of item) (\<lambda>j. Inr (key, j))) props) (\<lambda>items.
     Inr (PDict (text_items (named_items text_of (Some i) items))))"
| "normalize_json text_of (PTuple xs) = rbind (traverse (normalize_json text_of) xs) (\<lambda>ys. Inr (PList ys))"
| "normalize_json text_of (PList xs) = rbind (traverse (normalize_json text_of) xs) (\<lambda>ys. Inr (PList ys))"
| "normalize_json text_of (PDatetime d) = Inl (TypeError ''SPA value is not normalizable'')"
| "normalize_json text_of (POther t) = Inl (TypeError ''SPA value is not normalizable'')"
  by pat_completeness auto
termination
  by (relation "measure (\<lambda>(text_of, v). size v)") (auto simp: termination_simp)

section \<open>Scalars\<close>

definition number_value :: "pyval \<Rightarrow> string \<Rightarrow> exn + pyval" where
  "number_value value name =
     (if is_number value
      then rbind (py_float value (TypeError (name @ '' must be a number''))) (\<lambda>f. Inr (PFloat f))
      else Inl (TypeError (name @ '' must be a number'')))"

definition int_value :: "pyval \<Rightarrow> string \<Rightarrow> exn + int" where
  "int_value value name =
     (case as_int value of None \<Rightarrow> Inl (TypeError (name @ '' must be an integer'')) | Some i \<Rightarrow> Inr i)"

definition bool_value :: "pyval \<Rightarrow> string \<Rightarrow> exn + pyval" where
  "bool_value value name =
     (case as_bool value of None \<Rightarrow> Inl (TypeError (name @ '' must be a boolean'')) | Some b \<Rightarrow> Inr (PBool b))"

definition str_value :: "pyval \<Rightarrow> string \<Rightarrow> exn + pyval" where
  "str_value value name =
     (case as_str value of None \<Rightarrow> Inl (TypeError (name @ '' must be a string'')) | Some s \<Rightarrow> Inr (PStr s))"

section \<open>Choices and arrays\<close>

definition is_choice :: "pyval \<Rightarrow> bool" where
  "is_choice value =
     (case as_mapping value of
        None \<Rightarrow> False
      | Some kvs \<Rightarrow> dict_get kvs ''choice_type'' \<noteq> None \<or> dict_get kvs ''kind'' \<noteq> None \<or>
          py_eq (get_or kvs ''_pod_type'' PNone) (PInt SPA_TYPE_Choice))"

definition sequence_of :: "pyval \<Rightarrow> exn + pyval list" where
  "sequence_of value =
     (case as_seq value of None \<Rightarrow> Inl (TypeError ''SPA array value must be a sequence'') | Some xs \<Rightarrow> Inr xs)"

text \<open>
  The item of a choice that stands for it, if there is one.  The first character of a text and
  the first of some bytes are no arrays, so they are an error already.
\<close>

definition choice_selected :: "pyval \<Rightarrow> exn + pyval option" where
  "choice_selected value =
     (case as_mapping value of
        None \<Rightarrow> Inr None
      | Some kvs \<Rightarrow>
          (case (dict_get kvs ''default'', dict_get kvs ''value'') of
             (Some v, _) \<Rightarrow> Inr (Some v)
           | (None, Some v) \<Rightarrow> Inr (Some v)
           | (None, None) \<Rightarrow>
               (case dict_get kvs ''values'' of
                  None \<Rightarrow> Inr None
                | Some candidates \<Rightarrow>
                    (case as_seq candidates of
                       Some [] \<Rightarrow> Inr None
                     | Some (x # xs) \<Rightarrow> Inr (Some x)
                     | None \<Rightarrow>
                         (case sequence_items candidates of
                            Some (x # xs) \<Rightarrow> Inl (TypeError ''SPA array value must be a sequence'')
                          | _ \<Rightarrow> Inr None)))))"

lemma dict_get_member: "dict_get kvs k = Some v \<Longrightarrow> \<exists>key. (key, v) \<in> set kvs"
  by (auto simp: dict_get_def find_Some_iff) (metis nth_mem prod.collapse)

lemma mapping_value_size: "as_mapping value = Some kvs \<Longrightarrow> (k, v) \<in> set kvs \<Longrightarrow> size v < size value"
  using pyval_size_items' [of k v kvs size] pyval_size_items by (cases "value") fastforce+

lemma choice_selected_size: "choice_selected value = Inr (Some v) \<Longrightarrow> size v < size value"
proof -
  assume s: "choice_selected value = Inr (Some v)"
  then obtain kvs where kvs: "as_mapping value = Some kvs" by (auto simp: choice_selected_def split: option.splits)
  show ?thesis
  proof (cases "dict_get kvs ''default'' = Some v \<or> dict_get kvs ''value'' = Some v")
    case True
    then show ?thesis using dict_get_member mapping_value_size [OF kvs] by blast
  next
    case False
    then obtain xs where xs: "dict_get kvs ''values'' = Some (PTuple (v # xs)) \<or> dict_get kvs ''values'' = Some (PList (v # xs))"
      using s kvs by (auto simp: choice_selected_def split: option.splits list.splits elim!: as_seq.elims)
    then have "size (PTuple (v # xs)) < size value \<or> size (PList (v # xs)) < size value"
      using dict_get_member mapping_value_size [OF kvs] by blast
    then show ?thesis by auto
  qed
qed

function array_values :: "pyval \<Rightarrow> exn + pyval list" where
  "array_values value =
     (if is_choice value
      then rbind (choice_selected value) (\<lambda>selected. case selected of None \<Rightarrow> Inr [] | Some v \<Rightarrow> array_values v)
      else case as_mapping value of
        Some kvs \<Rightarrow>
          (case dict_get kvs ''values'' of
             None \<Rightarrow> Inl (TypeError ''SPA array mapping must contain values'')
           | Some v \<Rightarrow> sequence_of v)
      | None \<Rightarrow> sequence_of value)"
  by pat_completeness auto
termination
  by (relation "measure size") (auto simp: choice_selected_size)

declare array_values.simps [simp del]

definition enum_name :: "int_enum \<Rightarrow> int \<Rightarrow> string option" where
  "enum_name cls i = map_option fst (find (\<lambda>(name, v). v = i) (snd cls))"

text \<open>\<open>_spa_id\<close>: a member by its name in any case, a number written as text, or a number.\<close>

definition spa_raw_id :: "pyval \<Rightarrow> int_enum \<Rightarrow> exn + int" where
  "spa_raw_id value cls =
     (case as_str value of
        Some s \<Rightarrow>
          (case map_of (snd cls) (upper_text s) of
             Some i \<Rightarrow> Inr i
           | None \<Rightarrow> catching is_value_error (to_int (PStr s)) (\<lambda>e. Inl (ValueError (''invalid '' @ fst cls @ '' value''))))
      | None \<Rightarrow> int_value value (fst cls))"

definition spa_id :: "pyval \<Rightarrow> int_enum \<Rightarrow> exn + SpaIdValue" where
  "spa_id value cls =
     rbind (spa_raw_id value cls) (\<lambda>i. mk_SpaIdValue (PStr (fst cls)) (PInt i) (opt_obj PStr (enum_name cls i)))"

definition spa_id_obj :: "int_enum \<Rightarrow> pyval \<Rightarrow> exn + pyval" where
  "spa_id_obj cls value = rbind (spa_id value cls) (\<lambda>x. Inr (SpaIdValue_obj x))"

definition choice_names :: "(int \<times> string) list" where
  "choice_names = [(0, ''none''), (1, ''range''), (2, ''step''), (3, ''enum''), (4, ''flags'')]"

definition pop_item :: "string \<Rightarrow> pyval \<Rightarrow> (pyval \<times> pyval) list \<Rightarrow> pyval \<times> (pyval \<times> pyval) list" where
  "pop_item k d kvs = (get_or kvs k d, filter (\<lambda>kv. as_str (fst kv) \<noteq> Some k) kvs)"

definition choice_kind_of :: "pyval \<Rightarrow> exn + string" where
  "choice_kind_of raw_kind =
     (case as_str raw_kind of
        Some s \<Rightarrow> Inr (lower_text s)
      | None \<Rightarrow> rbind (int_value raw_kind ''choice type'') (\<lambda>i.
          Inr (case map_of choice_names i of Some name \<Rightarrow> name | None \<Rightarrow> ''unknown:'' @ show_int i)))"

definition item_at :: "pyval list \<Rightarrow> nat \<Rightarrow> bool \<Rightarrow> pyval" where
  "item_at xs n wanted = (if wanted \<and> n < length xs then xs ! n else PNone)"

definition unless_none :: "(pyval \<Rightarrow> exn + pyval) \<Rightarrow> pyval \<Rightarrow> exn + pyval" where
  "unless_none f v = (if v = PNone then Inr PNone else f v)"

definition choice_value :: "(pyval \<Rightarrow> string) \<Rightarrow> (pyval \<Rightarrow> exn + pyval) \<Rightarrow> pyval \<Rightarrow> exn + SpaChoiceValue" where
  "choice_value text_of item_normalizer value =
     (case as_mapping value of
        None \<Rightarrow> Inl (TypeError ''SPA choice must be a mapping'')
      | Some kvs0 \<Rightarrow>
          let (choice_type, kvs1) = pop_item ''choice_type'' (PInt 0) kvs0;
              (raw_kind, kvs2) = pop_item ''kind'' choice_type kvs1
          in rbind (choice_kind_of raw_kind) (\<lambda>kind.
             let (_, kvs3) = pop_item ''_pod_type'' PNone kvs2;
                 (flags, kvs4) = pop_item ''flags'' (PInt 0) kvs3;
                 (_, kvs5) = pop_item ''child_size'' PNone kvs4;
                 (_, kvs6) = pop_item ''child_type'' PNone kvs5;
                 (listed, kvs7) = pop_item ''values'' (PTuple []) kvs6
             in rbind (array_values listed) (\<lambda>items.
                let ranged = kind \<in> {''range'', ''step''};
                    (default_value, kvs8) = pop_item ''default'' (item_at items 0 True) kvs7;
                    (minimum, kvs9) = pop_item ''min'' (item_at items 1 ranged) kvs8;
                    (maximum, kvs10) = pop_item ''max'' (item_at items 2 ranged) kvs9;
                    (step, kvs11) = pop_item ''step'' (item_at items 3 (kind = ''step'')) kvs10;
                    (raw_alternatives, kvs12) =
                      pop_item ''alternatives'' (PTuple (if kind \<in> {''enum'', ''flags''} then drop 1 items else [])) kvs11
                in rbind (unless_none item_normalizer default_value) (\<lambda>default_value.
                   rbind (unless_none item_normalizer minimum) (\<lambda>minimum.
                   rbind (unless_none item_normalizer maximum) (\<lambda>maximum.
                   rbind (unless_none item_normalizer step) (\<lambda>step.
                   rbind (array_values raw_alternatives) (\<lambda>alternatives.
                   rbind (traverse item_normalizer alternatives) (\<lambda>alternatives.
                   rbind (int_value flags ''choice flags'') (\<lambda>flags.
                   rbind (normalize_json text_of (PDict kvs12)) (\<lambda>extra.
                   mk_SpaChoiceValue (PStr kind) default_value minimum maximum step (PTuple alternatives) (PInt flags)
                     extra)))))))))))"

definition choice_or :: "(pyval \<Rightarrow> string) \<Rightarrow> (pyval \<Rightarrow> exn + pyval) \<Rightarrow> pyval \<Rightarrow> exn + pyval" where
  "choice_or text_of item_normalizer value =
     (if is_choice value
      then rbind (choice_value text_of item_normalizer value) (\<lambda>x. Inr (SpaChoiceValue_obj x))
      else item_normalizer value)"

definition choice_or_id :: "(pyval \<Rightarrow> string) \<Rightarrow> int_enum \<Rightarrow> pyval \<Rightarrow> exn + pyval" where
  "choice_or_id text_of cls = choice_or text_of (spa_id_obj cls)"

definition int_obj :: "string \<Rightarrow> pyval \<Rightarrow> exn + pyval" where
  "int_obj name value = rbind (int_value value name) (\<lambda>i. Inr (PInt i))"

definition choice_or_int :: "(pyval \<Rightarrow> string) \<Rightarrow> string \<Rightarrow> pyval \<Rightarrow> exn + pyval" where
  "choice_or_int text_of name = choice_or text_of (int_obj name)"

section \<open>Named values\<close>

text \<open>Text names a value of the contract or is a number; the numbers are those of the SPA enumeration.\<close>

definition named_or_raw :: "string list \<Rightarrow> string \<Rightarrow> pyval \<Rightarrow> exn + string + int" where
  "named_or_raw names what value =
     (case as_str value of
        Some s \<Rightarrow>
          if lower_text s \<in> set names then Inr (Inl (lower_text s))
          else rbind (catching is_value_error (to_int (PStr s)) (\<lambda>e. Inl (ValueError (''invalid '' @ what)))) (\<lambda>i. Inr (Inr i))
      | None \<Rightarrow> rbind (int_value value what) (\<lambda>i. Inr (Inr i)))"

definition availability_of :: "pyval \<Rightarrow> exn + Availability" where
  "availability_of value =
     rbind (named_or_raw [''yes'', ''no'', ''unknown''] ''availability'' value) (\<lambda>r.
     case r of
       Inl name \<Rightarrow> Inr (if name = ''yes'' then AvailableYes else if name = ''no'' then AvailableNo else AvailableUnknown)
     | Inr raw \<Rightarrow> Inr (if raw = 2 then AvailableYes else if raw = 1 then AvailableNo else AvailableUnknown))"

definition direction_of :: "pyval \<Rightarrow> exn + PortDirection" where
  "direction_of value =
     rbind (named_or_raw [''input'', ''output'', ''unknown''] ''direction'' value) (\<lambda>r.
     case r of
       Inl name \<Rightarrow> Inr (if name = ''input'' then INPUT else if name = ''output'' then OUTPUT else DirectionUnknown)
     | Inr raw \<Rightarrow> Inr (if raw = 0 then INPUT else if raw = 1 then OUTPUT else DirectionUnknown))"

definition some_text :: "pyval \<Rightarrow> string option" where
  "some_text v = (case as_str v of Some [] \<Rightarrow> None | t \<Rightarrow> t)"

definition profile_class_name :: "pyval \<Rightarrow> exn + string" where
  "profile_class_name value =
     (case as_str value of
        Some s \<Rightarrow> Inr s
      | None \<Rightarrow>
          (case as_mapping value of
             None \<Rightarrow> Inl (TypeError ''invalid profile class'')
           | Some kvs \<Rightarrow>
               (case List.map_filter (\<lambda>k. some_text (get_or kvs k PNone)) [''name'', ''media.class'', ''media_class'', ''class''] of
                  s # _ \<Rightarrow> Inr s
                | [] \<Rightarrow>
                    (case (if py_eq (get_or kvs ''_pod_type'' PNone) (PInt SPA_TYPE_Struct)
                           then as_seq (get_or kvs ''values'' PNone) else None) of
                       Some (member # _) \<Rightarrow>
                         (case some_text member of Some s \<Rightarrow> Inr s | None \<Rightarrow> Inl (TypeError ''invalid profile class''))
                     | _ \<Rightarrow> Inl (TypeError ''invalid profile class'')))))"

section \<open>Parameters\<close>

text \<open>A property that may be missing, and one that holds several values.\<close>

definition given_or :: "'a \<Rightarrow> (pyval \<Rightarrow> exn + 'a) \<Rightarrow> pyval option \<Rightarrow> exn + 'a" where
  "given_or d f given = (case given of None \<Rightarrow> Inr d | Some v \<Rightarrow> f v)"

definition each_value :: "(pyval \<Rightarrow> exn + pyval) \<Rightarrow> pyval \<Rightarrow> exn + pyval" where
  "each_value f v = rbind (array_values v) (\<lambda>xs. rbind (traverse f xs) (\<lambda>ys. Inr (PTuple ys)))"

definition normalize_audio_properties :: "(pyval \<Rightarrow> string) \<Rightarrow> pyval \<Rightarrow> exn + AudioPropertiesValue" where
  "normalize_audio_properties text_of value =
     rbind (spa_properties text_of value) (\<lambda>p0.
     let (volume, p1) = take_item [''volume''] p0;
         (mute, p2) = take_item [''mute''] p1;
         (channel_volumes, p3) = take_item [''channelVolumes'', ''channel_volumes''] p2;
         (channel_map, p4) = take_item [''channelMap'', ''channel_map''] p3;
         (monitor_mute, p5) = take_item [''monitorMute'', ''monitor_mute''] p4;
         (monitor_volumes, p6) = take_item [''monitorVolumes'', ''monitor_volumes''] p5;
         (soft_mute, p7) = take_item [''softMute'', ''soft_mute''] p6;
         (soft_volumes, p8) = take_item [''softVolumes'', ''soft_volumes''] p7
     in rbind (given_or PNone (\<lambda>v. number_value v ''volume'') volume) (\<lambda>volume.
        rbind (given_or PNone (\<lambda>v. bool_value v ''mute'') mute) (\<lambda>mute.
        rbind (given_or (PTuple []) (each_value (\<lambda>v. number_value v ''channel volume'')) channel_volumes) (\<lambda>channel_volumes.
        rbind (given_or (PTuple []) (each_value (spa_id_obj SpaAudioChannel)) channel_map) (\<lambda>channel_positions.
        rbind (given_or PNone (\<lambda>v. bool_value v ''monitor mute'') monitor_mute) (\<lambda>monitor_mute.
        rbind (given_or (PTuple []) (each_value (\<lambda>v. number_value v ''monitor volume'')) monitor_volumes) (\<lambda>monitor_volumes.
        rbind (given_or PNone (\<lambda>v. bool_value v ''soft mute'') soft_mute) (\<lambda>soft_mute.
        rbind (given_or (PTuple []) (each_value (\<lambda>v. number_value v ''soft volume'')) soft_volumes) (\<lambda>soft_volumes.
        rbind (normalize_json text_of (PDict (text_items p8))) (\<lambda>extra.
        mk_AudioPropertiesValue volume mute channel_volumes channel_positions monitor_mute monitor_volumes soft_mute
          soft_volumes extra))))))))))"

definition normalize_audio_format :: "(pyval \<Rightarrow> string) \<Rightarrow> pyval \<Rightarrow> exn + AudioFormatValue" where
  "normalize_audio_format text_of value =
     rbind (spa_properties text_of value) (\<lambda>p0.
     let (media_type, p1) = take_item [''mediaType'', ''media_type''] p0;
         (media_subtype, p2) = take_item [''mediaSubtype'', ''media_subtype''] p1;
         (sample_format, p3) = take_item [''audio_format'', ''format''] p2;
         (rate, p4) = take_item [''audio_rate'', ''rate''] p3;
         (channels, p5) = take_item [''audio_channels'', ''channels''] p4;
         (positions, p6) = take_item [''audio_position'', ''position'', ''positions''] p5;
         (iec958_codec, p7) = take_item [''audio_iec958Codec'', ''iec958Codec'', ''iec958_codec''] p6
     in rbind (given_or PNone (choice_or_id text_of SpaMediaType) media_type) (\<lambda>media_type.
        rbind (given_or PNone (choice_or_id text_of SpaMediaSubtype) media_subtype) (\<lambda>media_subtype.
        rbind (given_or PNone (choice_or_id text_of SpaAudioFormat) sample_format) (\<lambda>sample_format.
        rbind (given_or PNone (choice_or_int text_of ''rate'') rate) (\<lambda>rate.
        rbind (given_or PNone (choice_or_int text_of ''channels'') channels) (\<lambda>channels.
        rbind (given_or (PTuple []) (each_value (spa_id_obj SpaAudioChannel)) positions) (\<lambda>positions.
        rbind (given_or PNone (choice_or_id text_of SpaAudioIec958Codec) iec958_codec) (\<lambda>iec958_codec.
        rbind (normalize_json text_of (PDict (text_items p7))) (\<lambda>extra.
        mk_AudioFormatValue media_type media_subtype sample_format rate channels positions iec958_codec extra)))))))))"

definition normalize_profile :: "(pyval \<Rightarrow> string) \<Rightarrow> int \<Rightarrow> bool \<Rightarrow> pyval \<Rightarrow> exn + ProfileValue" where
  "normalize_profile text_of device_id active value =
     rbind (spa_properties text_of value) (\<lambda>p0.
     rbind (take_required ''index'' p0) (\<lambda>(index, p1).
     rbind (take_required ''name'' p1) (\<lambda>(name, p2).
     let (description, p3) = take_item [''description''] p2;
         (priority, p4) = take_item [''priority''] p3;
         (available, p5) = take_item [''available''] p4;
         (classes, p6) = take_item [''classes''] p5
     in rbind (int_value index ''profile index'') (\<lambda>index.
        rbind (str_value name ''profile name'') (\<lambda>name.
        rbind (given_or PNone (\<lambda>v. str_value v ''profile description'') description) (\<lambda>description.
        rbind (given_or 0 (\<lambda>v. int_value v ''profile priority'') priority) (\<lambda>priority.
        rbind (given_or AvailableUnknown availability_of available) (\<lambda>available.
        rbind (given_or (PTuple []) (each_value (\<lambda>v. rbind (profile_class_name v) (\<lambda>s. Inr (PStr s)))) classes) (\<lambda>classes.
        rbind (normalize_json text_of (PDict (text_items p6))) (\<lambda>properties.
        mk_ProfileValue (PInt device_id) (PInt index) name description (PInt priority)
          (PStrEnum ''Availability'' (availability_value available)) (PBool active) classes properties))))))))))"

definition normalize_route :: "(pyval \<Rightarrow> string) \<Rightarrow> int \<Rightarrow> bool \<Rightarrow> pyval \<Rightarrow> exn + RouteValue" where
  "normalize_route text_of device_id active value =
     rbind (spa_properties text_of value) (\<lambda>p0.
     rbind (take_required ''index'' p0) (\<lambda>(index, p1).
     rbind (take_required ''direction'' p1) (\<lambda>(direction, p2).
     rbind (take_required ''name'' p2) (\<lambda>(name, p3).
     let (description, p4) = take_item [''description''] p3;
         (priority, p5) = take_item [''priority''] p4;
         (available, p6) = take_item [''available''] p5;
         (profiles, p7) = take_item [''profiles''] p6;
         (route_props, p8) = take_item [''props''] p7;
         (spa_device, p9) = take_item [''device''] p8
     in rbind (case route_props of None \<Rightarrow> init_AudioPropertiesValue [] | Some v \<Rightarrow> normalize_audio_properties text_of v) (\<lambda>audio.
        rbind (case spa_device of
                 None \<Rightarrow> Inr p9
               | Some v \<Rightarrow> rbind (int_value v ''route SPA device index'') (\<lambda>i. Inr (alist_set ''spa_device_index'' (PInt i) p9))) (\<lambda>rest.
        rbind (int_value index ''route index'') (\<lambda>index.
        rbind (direction_of direction) (\<lambda>direction.
        rbind (str_value name ''route name'') (\<lambda>name.
        rbind (given_or PNone (\<lambda>v. str_value v ''route description'') description) (\<lambda>description.
        rbind (given_or 0 (\<lambda>v. int_value v ''route priority'') priority) (\<lambda>priority.
        rbind (given_or AvailableUnknown availability_of available) (\<lambda>available.
        rbind (given_or (PTuple []) (each_value (int_obj ''route profile index'')) profiles) (\<lambda>profile_ids.
        rbind (normalize_json text_of (PDict (text_items rest))) (\<lambda>properties.
        rbind (if audio_extra audio = [] then Inr properties
               else rbind (FrozenDict_to_dict (audio_extra audio)) (\<lambda>extra.
                    Inr (PDict (pydict_set (case as_mapping properties of Some kvs \<Rightarrow> kvs | None \<Rightarrow> []) (PStr ''audio_extra'') extra)))) (\<lambda>properties.
        mk_RouteValue (PInt device_id) (PInt index) (PStrEnum ''PortDirection'' (port_direction_value direction)) name
          description (PInt priority) (PStrEnum ''Availability'' (availability_value available)) (PBool active) profile_ids
          (opt_obj PFloat (audio_volume audio)) (opt_obj PBool (audio_mute audio))
          (tuple_obj PFloat (audio_channel_volumes audio)) (tuple_obj SpaIdValue_obj (audio_channel_positions audio))
          properties)))))))))))))))"

definition parameter_normalizer :: "(pyval \<Rightarrow> string) \<Rightarrow> string \<Rightarrow> int \<Rightarrow> pyval \<Rightarrow> exn + pyval" where
  "parameter_normalizer text_of parameter_id owner_id value =
     (if parameter_id = ''Props''
      then rbind (normalize_audio_properties text_of value) (\<lambda>x. Inr (AudioPropertiesValue_obj x))
      else if parameter_id \<in> {''Format'', ''EnumFormat''}
      then rbind (normalize_audio_format text_of value) (\<lambda>x. Inr (AudioFormatValue_obj x))
      else if parameter_id \<in> {''Profile'', ''EnumProfile''}
      then rbind (normalize_profile text_of owner_id (parameter_id = ''Profile'') value) (\<lambda>x. Inr (ProfileValue_obj x))
      else if parameter_id \<in> {''Route'', ''EnumRoute''}
      then rbind (normalize_route text_of owner_id (parameter_id = ''Route'') value) (\<lambda>x. Inr (RouteValue_obj x))
      else normalize_json text_of value)"

definition normalize_spa_parameter ::
    "(pyval \<Rightarrow> string) \<Rightarrow> string \<Rightarrow> int \<Rightarrow> string \<Rightarrow> string \<Rightarrow> pyval \<Rightarrow> exn + ParameterValue" where
  "normalize_spa_parameter text_of owner_type owner_id parameter_id permissions vals =
     (case as_seq vals of
        None \<Rightarrow> Inl (TypeError ''values must be a sequence'')
      | Some items \<Rightarrow>
          rbind (traverse (parameter_normalizer text_of parameter_id owner_id) items) (\<lambda>normalized.
          mk_ParameterValue (PStr owner_type) (PInt owner_id) (PStr parameter_id) (PStr permissions) (PTuple normalized)
            (PFrozen [])))"

end
