(* ===== verification/SnapshotPayload.thy ===== *)
theory SnapshotPayload
  imports Normalize SpaBuild JsonLoads Snapshots Controls
begin

text \<open>
  The decoding of the payload the native connection captures,
  \<open>src/src/wyreplumber/runtime/snapshot.py\<close>.  Every failed check is a \<open>RuntimePayloadError\<close> with a
  code and the path of the value.  The helpers \<open>_mapping\<close>, \<open>_string\<close> and so on carry the prefix
  \<open>payload_\<close>; a checked mapping is returned as its items.
\<close>

section \<open>Checked values\<close>

definition payload_error :: "string \<Rightarrow> string \<Rightarrow> string \<Rightarrow> exn + 'a" where
  "payload_error code message path = Inl (RuntimePayloadError code message path)"

definition payload_mapping :: "pyval \<Rightarrow> string \<Rightarrow> exn + fields" where
  "payload_mapping value path =
     (case as_mapping value of
        None \<Rightarrow> payload_error ''invalid_mapping'' ''expected a string-keyed mapping'' path
      | Some kvs \<Rightarrow>
          (case those (map (\<lambda>(k, v). map_option (\<lambda>s. (s, v)) (as_str k)) kvs) of
             None \<Rightarrow> payload_error ''invalid_mapping'' ''expected a string-keyed mapping'' path
           | Some items \<Rightarrow> Inr items))"

definition payload_sequence :: "pyval \<Rightarrow> string \<Rightarrow> exn + pyval list" where
  "payload_sequence value path =
     (case as_seq value of
        None \<Rightarrow> payload_error ''invalid_sequence'' ''expected a sequence'' path
      | Some xs \<Rightarrow> Inr xs)"

definition payload_string :: "pyval \<Rightarrow> string \<Rightarrow> bool \<Rightarrow> exn + string" where
  "payload_string value path allow_empty =
     (case as_str value of
        None \<Rightarrow> payload_error ''invalid_string'' ''expected a string'' path
      | Some s \<Rightarrow>
          if \<not> allow_empty \<and> s = [] then payload_error ''invalid_string'' ''string must not be empty'' path else Inr s)"

definition payload_optional_string :: "pyval \<Rightarrow> string \<Rightarrow> exn + string option" where
  "payload_optional_string value path = val_optional (\<lambda>v. payload_string v path True) value"

definition payload_integer :: "pyval \<Rightarrow> string \<Rightarrow> exn + int" where
  "payload_integer value path =
     (case as_int value of
        None \<Rightarrow> payload_error ''invalid_integer'' ''expected an integer'' path
      | Some i \<Rightarrow> Inr i)"

definition payload_identifier :: "pyval \<Rightarrow> string \<Rightarrow> exn + int" where
  "payload_identifier value path =
     rbind (payload_integer value path) (\<lambda>i.
     if i < 0 then payload_error ''invalid_identifier'' ''identifier must be non-negative'' path else Inr i)"

definition payload_number :: "pyval \<Rightarrow> string \<Rightarrow> exn + pyfloat" where
  "payload_number value path =
     (if is_number value then py_float value (RuntimePayloadError ''invalid_number'' ''expected a number'' path)
      else payload_error ''invalid_number'' ''expected a number'' path)"

definition payload_optional_number :: "pyval \<Rightarrow> string \<Rightarrow> exn + pyfloat option" where
  "payload_optional_number value path = val_optional (\<lambda>v. payload_number v path) value"

definition payload_boolean :: "pyval \<Rightarrow> string \<Rightarrow> exn + bool" where
  "payload_boolean value path =
     (case as_bool value of
        None \<Rightarrow> payload_error ''invalid_boolean'' ''expected a boolean'' path
      | Some b \<Rightarrow> Inr b)"

definition item_path :: "string \<Rightarrow> nat \<Rightarrow> string" where
  "item_path path index = path @ ''['' @ show_nat index @ '']''"

text \<open>A loop \<open>for index, item in enumerate(...)\<close> over a checked sequence, with the path of each item.\<close>

definition each_record :: "(string \<Rightarrow> pyval \<Rightarrow> exn + 'a) \<Rightarrow> pyval \<Rightarrow> string \<Rightarrow> exn + 'a list" where
  "each_record f value path =
     rbind (payload_sequence value path) (\<lambda>items.
     traverse (\<lambda>(index, item). f (item_path path index) item) (indexed_items items))"

definition payload_string_sequence :: "pyval \<Rightarrow> string \<Rightarrow> exn + string list" where
  "payload_string_sequence value path = each_record (\<lambda>p item. payload_string item p False) value path"

definition payload_required :: "fields \<Rightarrow> string \<Rightarrow> string \<Rightarrow> exn + pyval" where
  "payload_required record key path =
     (case map_of record key of
        None \<Rightarrow> payload_error ''missing_field'' ''missing required field'' path
      | Some v \<Rightarrow> Inr v)"

definition field_or :: "fields \<Rightarrow> string \<Rightarrow> pyval \<Rightarrow> pyval" where
  "field_or record key d = (case map_of record key of Some v \<Rightarrow> v | None \<Rightarrow> d)"

text \<open>A required field that is checked, with its path.\<close>

definition required_field :: "(pyval \<Rightarrow> string \<Rightarrow> exn + 'a) \<Rightarrow> fields \<Rightarrow> string \<Rightarrow> string \<Rightarrow> exn + 'a" where
  "required_field f record key path = rbind (payload_required record key path) (\<lambda>v. f v (path @ ''.'' @ key))"

definition payload_properties :: "fields \<Rightarrow> string \<Rightarrow> exn + fields" where
  "payload_properties record path = payload_mapping (field_or record ''properties'' (PDict [])) (path @ ''.properties'')"

text \<open>\<open>_property\<close>: the first of the keys that holds text.\<close>

definition text_property :: "fields \<Rightarrow> string list \<Rightarrow> string option" where
  "text_property properties keys =
     (case List.map_filter (\<lambda>key. as_str (field_or properties key PNone)) keys of s # _ \<Rightarrow> Some s | [] \<Rightarrow> None)"

definition property_identifier :: "fields \<Rightarrow> string \<Rightarrow> string \<Rightarrow> exn + int option" where
  "property_identifier properties key path =
     (let value = field_or properties key PNone
      in if value = PNone then Inr None
         else rbind (case as_str value of
                       Some s \<Rightarrow>
                         catching is_value_error (rbind (to_int (PStr s)) (\<lambda>i. Inr (PInt i)))
                           (\<lambda>e. payload_error ''invalid_identifier'' ''expected an integer string'' path)
                     | None \<Rightarrow> Inr value) (\<lambda>value.
              rbind (payload_identifier value path) (\<lambda>i. Inr (Some i))))"

section \<open>Detached payloads\<close>

text \<open>\<open>_validate_detached\<close>: nothing but plain data, so that no native object leaks into a snapshot.\<close>

definition leak :: "string \<Rightarrow> string \<Rightarrow> exn + 'a" where
  "leak message path = payload_error ''native_object_leak'' message path"

function validate_detached :: "string \<Rightarrow> pyval \<Rightarrow> exn + unit" where
  "validate_detached path (PDict kvs) =
     rbind (traverse (\<lambda>(key, item).
        (case as_str key of
           None \<Rightarrow> leak ''payload mappings must use string keys'' path
         | Some k \<Rightarrow> validate_detached (path @ ''.'' @ k) item)) kvs) (\<lambda>_. Inr ())"
| "validate_detached path (PFrozen items) =
     rbind (traverse (\<lambda>(k, item). validate_detached (path @ ''.'' @ k) item) items) (\<lambda>_. Inr ())"
| "validate_detached path (PSpaObject c t i n props flags keys) =
     rbind (traverse (\<lambda>(key, item).
        (case as_str key of
           None \<Rightarrow> leak ''payload mappings must use string keys'' path
         | Some k \<Rightarrow> validate_detached (path @ ''.'' @ k) item)) props) (\<lambda>_. Inr ())"
| "validate_detached path (PList xs) =
     rbind (traverse (\<lambda>(index, item). validate_detached (item_path path index) item) (indexed_items xs)) (\<lambda>_. Inr ())"
| "validate_detached path (PTuple xs) =
     rbind (traverse (\<lambda>(index, item). validate_detached (item_path path index) item) (indexed_items xs)) (\<lambda>_. Inr ())"
| "validate_detached path PNone = Inr ()"
| "validate_detached path (PBool b) = Inr ()"
| "validate_detached path (PInt i) = Inr ()"
| "validate_detached path (PFloat f) = Inr ()"
| "validate_detached path (PStr s) = Inr ()"
| "validate_detached path (PBytes b) = Inr ()"
| "validate_detached path (PStrEnum c s) = Inr ()"
| "validate_detached path (PIntEnum c n i) = Inr ()"
| "validate_detached path (PDatetime d) = leak ''payload contains unsupported object'' path"
| "validate_detached path (PValue t fs) = leak ''payload contains unsupported object'' path"
| "validate_detached path (POther t) = leak ''payload contains unsupported object'' path"
  by pat_completeness auto
termination
  by (relation "measure (\<lambda>(path, v). size v)") (auto simp: termination_simp dest: indexed_items_size)

section \<open>Health and parameters\<close>

text \<open>A mapping as an argument: its items in a dictionary.\<close>

definition dict_of :: "fields \<Rightarrow> pyval" where
  "dict_of items = PDict (text_items items)"

definition payload_health :: "pyval \<Rightarrow> int \<Rightarrow> exn + ConnectionHealthValue" where
  "payload_health value generation =
     rbind (payload_mapping value ''$.health'') (\<lambda>health.
     rbind (required_field (\<lambda>v p. payload_string v p False) health ''state'' ''$.health'') (\<lambda>state_value.
     rbind (case enum_lookup connection_state_value connection_state_members state_value of
              Some s \<Rightarrow> Inr s
            | None \<Rightarrow> payload_error ''invalid_health_state'' ''unknown connection state'' ''$.health.state'') (\<lambda>state.
     rbind (required_field payload_identifier health ''generation'' ''$.health'') (\<lambda>health_generation.
     rbind (check (health_generation = generation)
              (RuntimePayloadError ''mixed_generation'' ''health and payload generations differ'' ''$.health.generation'')) (\<lambda>_.
     let reason = field_or health ''reason'' PNone
     in rbind (val_optional (\<lambda>v. payload_string v ''$.health.reason'' False) reason) (\<lambda>reason.
        rbind (payload_mapping (field_or health ''details'' (PDict [])) ''$.health.details'') (\<lambda>details.
        mk_ConnectionHealthValue (PStrEnum ''ConnectionState'' (connection_state_value state)) (PInt generation)
          (opt_obj PStr reason) (dict_of details))))))))"

definition parameter_record :: "(pyval \<Rightarrow> string) \<Rightarrow> string \<Rightarrow> pyval \<Rightarrow> exn + ParameterValue" where
  "parameter_record text_of path item =
     rbind (payload_mapping item path) (\<lambda>record.
     rbind (payload_required record ''values'' path) (\<lambda>raw_values.
     rbind (each_record (\<lambda>p raw_value.
              case as_mapping raw_value of
                None \<Rightarrow> payload_error ''invalid_parameter_value'' ''raw SPA value must be a mapping'' p
              | Some kvs \<Rightarrow> Inr (parse_spa_pod_dict (PDict kvs))) raw_values (path @ ''.values'')) (\<lambda>parsed_values.
     catching type_or_value_error
       (rbind (required_field (\<lambda>v p. payload_string v p False) record ''owner_type'' path) (\<lambda>owner_type.
        rbind (required_field payload_identifier record ''owner_id'' path) (\<lambda>owner_id.
        rbind (required_field (\<lambda>v p. payload_string v p False) record ''id'' path) (\<lambda>parameter_id.
        rbind (required_field (\<lambda>v p. payload_string v p True) record ''permissions'' path) (\<lambda>permissions.
        rbind (normalize_spa_parameter text_of owner_type owner_id parameter_id permissions (PList parsed_values)) (\<lambda>parameter.
        case as_bool (field_or record ''complete'' (PBool True)) of
          None \<Rightarrow> Inl (TypeError ''complete must be a boolean'')
        | Some complete \<Rightarrow>
            mk_ParameterValue (PStr (param_owner_type parameter)) (PInt (param_owner_id parameter))
              (PStr (param_id parameter)) (PStr (param_permissions parameter)) (PTuple (param_values parameter))
              (PDict [(PStr ''complete'', PBool complete)])))))))
       (\<lambda>e. payload_error ''parameter_normalization_failed'' (exn_message e) path))))"

definition payload_parameters :: "(pyval \<Rightarrow> string) \<Rightarrow> pyval \<Rightarrow> exn + ParameterValue list" where
  "payload_parameters text_of value = each_record (parameter_record text_of) value ''$.parameters''"

text \<open>The state of a mixer, for the nodes that have one.\<close>

definition mixer_extra :: "fields \<Rightarrow> string \<Rightarrow> exn + fields" where
  "mixer_extra mixer mixer_path =
     rbind (payload_optional_number (field_or mixer ''base'' PNone) (mixer_path @ ''.base'')) (\<lambda>base.
     rbind (payload_optional_number (field_or mixer ''step'' PNone) (mixer_path @ ''.step'')) (\<lambda>step.
     Inr ([(''control'', PStr ''wireplumber-mixer'')] @
       (case base of None \<Rightarrow> [] | Some f \<Rightarrow> [(''base'', PFloat f)]) @
       (case step of None \<Rightarrow> [] | Some f \<Rightarrow> [(''step'', PFloat f)]))))"

definition mixer_record :: "string \<Rightarrow> pyval \<Rightarrow> exn + ParameterValue option" where
  "mixer_record path item =
     rbind (payload_mapping item path) (\<lambda>node.
     let mixer_value = field_or node ''mixer'' PNone; mixer_path = path @ ''.mixer''
     in if mixer_value = PNone then Inr None
        else rbind (payload_mapping mixer_value mixer_path) (\<lambda>mixer.
             rbind (mixer_extra mixer mixer_path) (\<lambda>extra.
             catching type_or_value_error
               (rbind (required_field payload_identifier node ''id'' path) (\<lambda>owner_id.
                rbind (required_field payload_number mixer ''volume'' mixer_path) (\<lambda>volume.
                rbind (required_field payload_boolean mixer ''mute'' mixer_path) (\<lambda>mute.
                rbind (mk_AudioPropertiesValue (PFloat volume) (PBool mute) (PTuple []) (PTuple []) PNone (PTuple []) PNone
                         (PTuple []) (dict_of extra)) (\<lambda>audio.
                rbind (mk_ParameterValue (PStr ''node'') (PInt owner_id) (PStr ''Mixer'') (PStr ''rw'')
                         (PTuple [AudioPropertiesValue_obj audio])
                         (dict_of [(''complete'', PBool True), (''control'', PStr ''wireplumber-mixer'')])) (\<lambda>p. Inr (Some p)))))))
               (\<lambda>e. payload_error ''invalid_mixer_state'' (exn_message e) mixer_path))))"

definition mixer_parameters :: "pyval \<Rightarrow> exn + ParameterValue list" where
  "mixer_parameters value =
     rbind (each_record mixer_record value ''$.nodes'') (\<lambda>ps. Inr (List.map_filter id ps))"

section \<open>Profiles and routes\<close>

text \<open>\<open>_merge_active\<close>: the first value under a key stays, unless a later one is active and it is not.\<close>

definition merge_active :: "('v \<Rightarrow> bool) \<Rightarrow> (int \<times> int) \<Rightarrow> 'v \<Rightarrow> ((int \<times> int) \<times> 'v) list \<Rightarrow> ((int \<times> int) \<times> 'v) list" where
  "merge_active active key v values =
     (case map_of values key of
        None \<Rightarrow> alist_set key v values
      | Some previous \<Rightarrow> if active v \<and> \<not> active previous then alist_set key v values else values)"

type_synonym profile_table = "((int \<times> int) \<times> ProfileValue) list"
type_synonym route_table = "((int \<times> int) \<times> RouteValue) list"

definition collect_value :: "pyval \<Rightarrow> profile_table \<times> route_table \<Rightarrow> profile_table \<times> route_table" where
  "collect_value value tables =
     (case as_ProfileValue value of
        Some p \<Rightarrow> (merge_active pf_active (pf_device_id p, pf_index p) p (fst tables), snd tables)
      | None \<Rightarrow>
          (case as_RouteValue value of
             Some r \<Rightarrow> (fst tables, merge_active rt_active (rt_device_id r, rt_index r) r (snd tables))
           | None \<Rightarrow> tables))"

definition collect_tables :: "ParameterValue list \<Rightarrow> profile_table \<times> route_table" where
  "collect_tables parameters =
     foldl (\<lambda>tables parameter. foldl (\<lambda>tables value. collect_value value tables) tables (param_values parameter))
       ([], []) parameters"

section \<open>Ports, devices and nodes\<close>

text \<open>\<open>record.get("parameter_ids", ())\<close>\<close>

definition record_parameter_ids :: "fields \<Rightarrow> string \<Rightarrow> exn + string list" where
  "record_parameter_ids record path =
     payload_string_sequence (field_or record ''parameter_ids'' (PTuple [])) (path @ ''.parameter_ids'')"

definition port_direction_of :: "int \<Rightarrow> PortDirection" where
  "port_direction_of n = (if n = 0 then INPUT else if n = 1 then OUTPUT else DirectionUnknown)"

definition port_record :: "string \<Rightarrow> pyval \<Rightarrow> exn + PortValue" where
  "port_record path item =
     rbind (payload_mapping item path) (\<lambda>record.
     rbind (payload_properties record path) (\<lambda>properties.
     rbind (required_field payload_integer record ''direction'' path) (\<lambda>direction_value.
     rbind (property_identifier properties ''node.id'' (path @ ''.properties.node.id'')) (\<lambda>node_id.
     case node_id of
       None \<Rightarrow> payload_error ''missing_relationship'' ''port has no node.id property'' (path @ ''.properties.node.id'')
     | Some node_id \<Rightarrow>
         rbind (required_field payload_identifier record ''id'' path) (\<lambda>ident.
         rbind (record_parameter_ids record path) (\<lambda>parameter_ids.
         mk_PortValue (PInt ident) (PInt node_id)
           (PStrEnum ''PortDirection'' (port_direction_value (port_direction_of direction_value)))
           (opt_obj PStr (text_property properties [''port.name'', ''port.alias'']))
           (opt_obj PStr (text_property properties [''audio.channel'']))
           (dict_of properties) (tuple_obj PStr parameter_ids)))))))"

definition payload_ports :: "pyval \<Rightarrow> exn + PortValue list" where
  "payload_ports value = each_record port_record value ''$.ports''"

text \<open>
  The ports that a node has, as pairs of node and port; everything that is not an input port
  is an output port.
\<close>

definition input_port_pairs :: "PortValue list \<Rightarrow> (int \<times> int) list" where
  "input_port_pairs ports = map (\<lambda>p. (pt_node_id p, pt_id p)) (filter (\<lambda>p. pt_direction p = INPUT) ports)"

definition output_port_pairs :: "PortValue list \<Rightarrow> (int \<times> int) list" where
  "output_port_pairs ports = map (\<lambda>p. (pt_node_id p, pt_id p)) (filter (\<lambda>p. pt_direction p \<noteq> INPUT) ports)"

text \<open>The second components of the pairs whose first one is the object.\<close>

definition ids_of :: "int \<Rightarrow> (int \<times> int) list \<Rightarrow> int list" where
  "ids_of object_id owned = map snd (filter (\<lambda>(owner, i). owner = object_id) owned)"

definition device_record :: "(int \<times> int) list \<Rightarrow> (int \<times> int) list \<Rightarrow> string \<Rightarrow> pyval \<Rightarrow> exn + DeviceValue" where
  "device_record profile_keys route_keys path item =
     rbind (payload_mapping item path) (\<lambda>record.
     rbind (required_field payload_identifier record ''id'' path) (\<lambda>object_id.
     rbind (payload_properties record path) (\<lambda>properties.
     rbind (record_parameter_ids record path) (\<lambda>parameter_ids.
     mk_DeviceValue (PInt object_id)
       (opt_obj PStr (text_property properties [''device.name'']))
       (opt_obj PStr (text_property properties [''device.description'', ''device.nick'']))
       (opt_obj PStr (text_property properties [''media.class'']))
       (dict_of properties) (tuple_obj PStr parameter_ids)
       (tuple_obj PInt (ids_of object_id profile_keys)) (tuple_obj PInt (ids_of object_id route_keys))))))"

definition payload_devices :: "(int \<times> int) list \<Rightarrow> (int \<times> int) list \<Rightarrow> pyval \<Rightarrow> exn + DeviceValue list" where
  "payload_devices profile_keys route_keys value = each_record (device_record profile_keys route_keys) value ''$.devices''"

definition node_state_of :: "int \<Rightarrow> NodeState" where
  "node_state_of n =
     (if n = -1 then NodeError else if n = 0 then NodeCreating else if n = 1 then NodeSuspended
      else if n = 2 then NodeIdle else if n = 3 then NodeRunning else NodeUnknown)"

definition node_record :: "(int \<times> int) list \<Rightarrow> (int \<times> int) list \<Rightarrow> string \<Rightarrow> pyval \<Rightarrow> exn + NodeValue" where
  "node_record input_ports output_ports path item =
     rbind (payload_mapping item path) (\<lambda>record.
     rbind (required_field payload_identifier record ''id'' path) (\<lambda>object_id.
     rbind (payload_properties record path) (\<lambda>properties.
     rbind (payload_integer (field_or record ''state'' (PInt (-99))) (path @ ''.state'')) (\<lambda>raw_state.
     rbind (property_identifier properties ''device.id'' (path @ ''.properties.device.id'')) (\<lambda>device_id.
     rbind (payload_optional_string (field_or record ''error'' PNone) (path @ ''.error'')) (\<lambda>error.
     rbind (record_parameter_ids record path) (\<lambda>parameter_ids.
     mk_NodeValue (PInt object_id) (opt_obj PInt device_id)
       (opt_obj PStr (text_property properties [''node.name'']))
       (opt_obj PStr (text_property properties [''node.description'', ''node.nick'']))
       (opt_obj PStr (text_property properties [''media.class'']))
       (PStrEnum ''NodeState'' (node_state_value (node_state_of raw_state)))
       (opt_obj PStr error)
       (tuple_obj PInt (sort (ids_of object_id input_ports))) (tuple_obj PInt (sort (ids_of object_id output_ports)))
       (dict_of properties) (tuple_obj PStr parameter_ids))))))))"

definition payload_nodes :: "(int \<times> int) list \<Rightarrow> (int \<times> int) list \<Rightarrow> pyval \<Rightarrow> exn + NodeValue list" where
  "payload_nodes input_ports output_ports value = each_record (node_record input_ports output_ports) value ''$.nodes''"

section \<open>Links and metadata\<close>

definition link_state_of :: "int \<Rightarrow> string" where
  "link_state_of n =
     (if n = -2 then ''error'' else if n = -1 then ''unlinked'' else if n = 0 then ''init''
      else if n = 1 then ''negotiating'' else if n = 2 then ''allocating'' else if n = 3 then ''paused''
      else if n = 4 then ''active'' else ''unknown:'' @ show_int n)"

definition link_record :: "string \<Rightarrow> pyval \<Rightarrow> exn + LinkValue" where
  "link_record path item =
     rbind (payload_mapping item path) (\<lambda>record.
     rbind (payload_properties record path) (\<lambda>properties.
     rbind (payload_integer (field_or record ''state'' (PInt (-99))) (path @ ''.state'')) (\<lambda>raw_state.
     rbind (required_field payload_identifier record ''id'' path) (\<lambda>ident.
     rbind (required_field payload_identifier record ''output_node_id'' path) (\<lambda>output_node_id.
     rbind (required_field payload_identifier record ''output_port_id'' path) (\<lambda>output_port_id.
     rbind (required_field payload_identifier record ''input_node_id'' path) (\<lambda>input_node_id.
     rbind (required_field payload_identifier record ''input_port_id'' path) (\<lambda>input_port_id.
     mk_LinkValue (PInt ident) (PInt output_node_id) (PInt output_port_id) (PInt input_node_id) (PInt input_port_id)
       (PStr (link_state_of raw_state))
       (opt_obj PStr (text_property properties [''open-cinema.owner'']))
       (opt_obj PStr (text_property properties [''open-cinema.desired-id'']))
       (dict_of properties)))))))))"

definition payload_links :: "pyval \<Rightarrow> exn + LinkValue list" where
  "payload_links value = each_record link_record value ''$.links''"

definition metadata_entry :: "string \<Rightarrow> pyval \<Rightarrow> exn + MetadataEntryValue" where
  "metadata_entry entry_path item =
     rbind (payload_mapping item entry_path) (\<lambda>entry.
     rbind (required_field payload_identifier entry ''subject'' entry_path) (\<lambda>subject.
     rbind (required_field (\<lambda>v p. payload_string v p False) entry ''key'' entry_path) (\<lambda>key.
     rbind (payload_optional_string (field_or entry ''type'' PNone) (entry_path @ ''.type'')) (\<lambda>type_name.
     rbind (payload_optional_string (field_or entry ''value'' PNone) (entry_path @ ''.value'')) (\<lambda>entry_text.
     mk_MetadataEntryValue (PInt subject) (PStr key) (opt_obj PStr type_name) (opt_obj PStr entry_text))))))"

definition metadata_record :: "string \<Rightarrow> pyval \<Rightarrow> exn + MetadataValue" where
  "metadata_record path item =
     rbind (payload_mapping item path) (\<lambda>record.
     rbind (each_record metadata_entry (field_or record ''entries'' (PTuple [])) (path @ ''.entries'')) (\<lambda>entries.
     rbind (required_field payload_identifier record ''id'' path) (\<lambda>ident.
     rbind (payload_optional_string (field_or record ''name'' PNone) (path @ ''.name'')) (\<lambda>name.
     rbind (payload_properties record path) (\<lambda>properties.
     mk_MetadataValue (PInt ident) (opt_obj PStr name) (dict_of properties)
       (tuple_obj MetadataEntryValue_obj entries))))))"

definition payload_metadata :: "pyval \<Rightarrow> exn + MetadataValue list" where
  "payload_metadata value = each_record metadata_record value ''$.metadata''"

section \<open>Defaults\<close>

text \<open>The last of the entries whose value names a node; \<open>decoded["name"]\<close> is the last item of that name.\<close>

definition decoded_name :: "string \<Rightarrow> exn + string option" where
  "decoded_name text =
     (case json_loads text of
        Inl JsonDecodeError \<Rightarrow> Inr (Some text)
      | Inl _ \<Rightarrow> Inl (ValueError ''Exceeds the limit (4300 digits) for integer string conversion'')
      | Inr (JString s) \<Rightarrow> Inr (Some s)
      | Inr (JObject items) \<Rightarrow>
          (case map_of (rev items) ''name'' of Some (JString s) \<Rightarrow> Inr (Some s) | _ \<Rightarrow> Inr None)
      | Inr _ \<Rightarrow> Inr None)"

fun first_name :: "fields list \<Rightarrow> exn + string option" where
  "first_name [] = Inr None"
| "first_name (entry # entries) =
     (case as_str (field_or entry ''value'' PNone) of
        None \<Rightarrow> first_name entries
      | Some text \<Rightarrow>
          if text = [] then first_name entries
          else rbind (decoded_name text) (\<lambda>name. case name of Some n \<Rightarrow> Inr (Some n) | None \<Rightarrow> first_name entries))"

definition default_name :: "fields list \<Rightarrow> exn + string option" where
  "default_name entries = first_name (rev entries)"

type_synonym default_table = "(string \<times> fields list) list"

definition default_entry :: "string \<times> pyval \<Rightarrow> default_table \<times> int option \<Rightarrow> exn + default_table \<times> int option" where
  "default_entry located acc =
     rbind (payload_mapping (snd located) (fst located)) (\<lambda>entry.
     rbind (required_field (\<lambda>v p. payload_string v p False) entry ''key'' (fst located)) (\<lambda>key.
     let grouped = alist_set key ((case map_of (fst acc) key of Some es \<Rightarrow> es | None \<Rightarrow> []) @ [entry]) (fst acc);
         owner = field_or entry ''metadata_id'' PNone
     in if snd acc = None \<and> owner \<noteq> PNone
        then rbind (payload_identifier owner (fst located @ ''.metadata_id'')) (\<lambda>i. Inr (grouped, Some i))
        else Inr (grouped, snd acc)))"

fun default_entries :: "(string \<times> pyval) list \<Rightarrow> default_table \<times> int option \<Rightarrow> exn + default_table \<times> int option" where
  "default_entries [] acc = Inr acc"
| "default_entries (located # items) acc = rbind (default_entry located acc) (default_entries items)"

text \<open>\<open>nodes_by_name\<close>: a later node of the same name replaces an earlier one.\<close>

definition node_text_name :: "NodeValue \<Rightarrow> string option" where
  "node_text_name node =
     (case nd_name node of
        Some n \<Rightarrow> if n \<noteq> [] then Some n else text_property (nd_properties node) [''node.name'']
      | None \<Rightarrow> text_property (nd_properties node) [''node.name''])"

definition nodes_by_name :: "NodeValue list \<Rightarrow> string \<Rightarrow> int option" where
  "nodes_by_name nodes name =
     map_of (rev (List.map_filter (\<lambda>node.
       case node_text_name node of Some n \<Rightarrow> if n \<noteq> [] then Some (n, nd_id node) else None | None \<Rightarrow> None) nodes)) name"

definition entries_under :: "default_table \<Rightarrow> string \<Rightarrow> fields list" where
  "entries_under grouped key = (case map_of grouped key of Some es \<Rightarrow> es | None \<Rightarrow> [])"

text \<open>\<open>target\<close>; the key is \<open>default.\<close> and its suffix.\<close>

definition decoded_target :: "default_table \<Rightarrow> (string \<Rightarrow> int option) \<Rightarrow> string \<Rightarrow> string \<Rightarrow> exn + DefaultTargetValue option" where
  "decoded_target grouped resolve media_class suffix =
     rbind (default_name (entries_under grouped (''default.'' @ suffix))) (\<lambda>actual_name.
     rbind (default_name (entries_under grouped (''default.configured.'' @ suffix))) (\<lambda>configured.
     let configured_name =
           (case configured of Some c \<Rightarrow> if c \<noteq> [] then Some c else actual_name | None \<Rightarrow> actual_name)
     in if configured_name = None \<and> actual_name = None then Inr None
        else rbind (mk_DefaultTargetValue (PStr media_class) (opt_obj PStr configured_name)
               (opt_obj PInt (case actual_name of Some n \<Rightarrow> if n \<noteq> [] then resolve n else None | None \<Rightarrow> None)))
             (\<lambda>target. Inr (Some target))))"

definition default_extra :: "(pyval \<Rightarrow> string) \<Rightarrow> default_table \<Rightarrow> exn + fields" where
  "default_extra text_of grouped =
     traverse (\<lambda>(key, entries).
       rbind (traverse (\<lambda>entry. normalize_json text_of (dict_of entry)) entries) (\<lambda>items. Inr (key, PList items))) grouped"

definition payload_defaults :: "(pyval \<Rightarrow> string) \<Rightarrow> pyval \<Rightarrow> NodeValue list \<Rightarrow> exn + DefaultsValue" where
  "payload_defaults text_of value nodes =
     rbind (payload_sequence value ''$.defaults'') (\<lambda>items.
     rbind (default_entries (map (\<lambda>(index, item). (item_path ''$.defaults'' index, item)) (indexed_items items)) ([], None))
       (\<lambda>(grouped, metadata_id).
     rbind (default_extra text_of grouped) (\<lambda>extra.
     rbind (decoded_target grouped (nodes_by_name nodes) ''Audio/Sink'' ''audio.sink'') (\<lambda>audio_sink.
     rbind (decoded_target grouped (nodes_by_name nodes) ''Audio/Source'' ''audio.source'') (\<lambda>audio_source.
     rbind (decoded_target grouped (nodes_by_name nodes) ''Video/Source'' ''video.source'') (\<lambda>video_source.
     mk_DefaultsValue (opt_obj PInt metadata_id) (opt_obj DefaultTargetValue_obj audio_sink)
       (opt_obj DefaultTargetValue_obj audio_source) (opt_obj DefaultTargetValue_obj video_source) (dict_of extra)))))))"

section \<open>The snapshot\<close>

definition payload_fields :: "string list" where
  "payload_fields =
     [''payload_version'', ''generation'', ''sequence'', ''captured_at'', ''health'', ''devices'', ''nodes'',
      ''ports'', ''links'', ''metadata'', ''parameters'', ''profiles'', ''routes'', ''defaults'']"

definition runtime_snapshot_from_payload :: "(pyval \<Rightarrow> string) \<Rightarrow> pyval \<Rightarrow> exn + RuntimeSnapshot" where
  "runtime_snapshot_from_payload text_of payload =
     (case as_mapping payload of
        None \<Rightarrow> payload_error ''invalid_payload'' ''payload must be a mapping'' ''$''
      | Some kvs \<Rightarrow>
          rbind (validate_detached ''$'' payload) (\<lambda>_.
          rbind (exact_keys payload_fields kvs
                   (RuntimePayloadError ''missing_fields'' ''missing payload field(s): '' ''$'')
                   (RuntimePayloadError ''unknown_fields'' ''unknown payload field(s): '' ''$'')) (\<lambda>_.
          rbind (payload_integer (dict_item kvs ''payload_version'') ''$.payload_version'') (\<lambda>version.
          rbind (check (version = 1)
                   (RuntimePayloadError ''unsupported_payload_version'' (''expected 1, received '' @ show_int version)
                      ''$.payload_version'')) (\<lambda>_.
          rbind (payload_identifier (dict_item kvs ''generation'') ''$.generation'') (\<lambda>generation.
          rbind (payload_identifier (dict_item kvs ''sequence'') ''$.sequence'') (\<lambda>sequence.
          rbind (payload_health (dict_item kvs ''health'') generation) (\<lambda>health.
          rbind (payload_parameters text_of (dict_item kvs ''parameters'')) (\<lambda>parameters.
          rbind (mixer_parameters (dict_item kvs ''nodes'')) (\<lambda>mixers.
          let parameter_values = parameters @ mixers; tables = collect_tables parameter_values
          in rbind (payload_ports (dict_item kvs ''ports'')) (\<lambda>port_values.
             rbind (payload_devices (map fst (fst tables)) (map fst (snd tables)) (dict_item kvs ''devices'')) (\<lambda>device_values.
             rbind (payload_nodes (input_port_pairs port_values) (output_port_pairs port_values)
                      (dict_item kvs ''nodes'')) (\<lambda>node_values.
             rbind (payload_links (dict_item kvs ''links'')) (\<lambda>link_values.
             rbind (payload_metadata (dict_item kvs ''metadata'')) (\<lambda>metadata_values.
             rbind (payload_defaults text_of (dict_item kvs ''defaults'') node_values) (\<lambda>defaults.
             catching type_or_value_error
               (rbind (payload_string (dict_item kvs ''captured_at'') ''$.captured_at'' False) (\<lambda>captured_at.
                mk_RuntimeSnapshot (PInt generation) (PInt sequence) (PStr captured_at) (ConnectionHealthValue_obj health)
                  (tuple_obj DeviceValue_obj device_values) (tuple_obj NodeValue_obj node_values)
                  (tuple_obj PortValue_obj port_values) (tuple_obj LinkValue_obj link_values)
                  (tuple_obj MetadataValue_obj metadata_values) (tuple_obj ParameterValue_obj parameter_values)
                  (tuple_obj ProfileValue_obj (map snd (fst tables))) (tuple_obj RouteValue_obj (map snd (snd tables)))
                  (DefaultsValue_obj defaults) (PTuple [])))
               (\<lambda>e. payload_error ''invalid_snapshot'' (exn_message e) ''$'')))))))))))))))))"

text \<open>The method \<open>capture_runtime_payload\<close> of the native connection is a parameter; \<open>None\<close> is a connection without it.\<close>

definition capture_runtime_snapshot ::
    "(pyval \<Rightarrow> string) \<Rightarrow> ('w \<Rightarrow> (exn + pyval) \<times> 'w) option \<Rightarrow> 'w \<Rightarrow> (exn + RuntimeSnapshot) \<times> 'w" where
  "capture_runtime_snapshot text_of capture w =
     (case capture of
        None \<Rightarrow> (Inl (TypeError ''connection must provide capture_runtime_payload()''), w)
      | Some f \<Rightarrow> (case f w of (r, w') \<Rightarrow> (rbind r (runtime_snapshot_from_payload text_of), w')))"

section \<open>Values built a second time\<close>

text \<open>Validating the object of a value returns that value, when it returns.\<close>

named_theorems again

lemma traverse_again:
  "traverse f (map obj xs) = Inr ys \<Longrightarrow> (\<And>x y. f (obj x) = Inr y \<Longrightarrow> y = x) \<Longrightarrow> ys = xs"
  by (induction xs arbitrary: ys) (auto simp: rbind_eq_Inr_iff)

lemma val_items_again:
  "val_items f (tuple_obj obj xs) n = Inr ys \<Longrightarrow> (\<And>x y. f (obj x) = Inr y \<Longrightarrow> y = x) \<Longrightarrow> ys = xs"
  by (auto simp: val_items_def tuple_obj_def dest: traverse_again)

lemma val_runtime_values_again:
  "val_runtime_values inst e (tuple_obj obj xs) n = Inr ys \<Longrightarrow> (\<And>x y. inst (obj x) = Some y \<Longrightarrow> y = x) \<Longrightarrow> ys = xs"
  unfolding val_runtime_values_def by (erule val_items_again) (auto split: option.splits)

lemma validators_again [again]:
  "val_identifier (PInt i) n = Inr j \<Longrightarrow> j = i"
  "val_integer (PInt i) n = Inr j \<Longrightarrow> j = i"
  "val_required_string (PStr s) n e = Inr t \<Longrightarrow> t = s"
  "val_boolean (PBool b) n = Inr c \<Longrightarrow> c = b"
  "val_mapping (PFrozen items) n = Inr items' \<Longrightarrow> items' = items"
  "val_float (PFloat f) n = Inr g \<Longrightarrow> g = f"
  by (auto simp: validator_simps val_mapping_def val_float_def py_float_def split: if_splits)

lemma optional_validators_again [again]:
  "val_optional_string (opt_obj PStr x) n = Inr y \<Longrightarrow> y = x"
  "val_optional_boolean (opt_obj PBool z) n = Inr w \<Longrightarrow> w = z"
  by (simp_all add: val_obj)

lemma optional_numbers_again [again]:
  "val_optional_identifier (opt_obj PInt x) n = Inr y \<Longrightarrow> y = x"
  "val_optional_float (opt_obj PFloat u) n = Inr v \<Longrightarrow> v = u"
  by (cases x; cases y; auto simp: val_optional_identifier_def val_optional_iff dest: again)
    (cases u; cases v; auto simp: val_optional_float_def val_optional_iff dest: again)

lemma sequence_validators_again [again]:
  "val_strings (tuple_obj PStr ss) n = Inr ts \<Longrightarrow> ts = ss"
  "val_identifiers (tuple_obj PInt js) n = Inr ks \<Longrightarrow> ks = js"
  "val_floats (tuple_obj PFloat fs) n = Inr gs \<Longrightarrow> gs = fs"
  unfolding val_strings_def val_identifiers_def val_floats_def
  by (erule val_items_again, erule again)+

lemmas enum_members_again = port_direction_val_enum availability_val_enum node_state_val_enum

lemma DeviceValue_again: "as_DeviceValue (DeviceValue_obj x) = Some y \<Longrightarrow> y = x"
  by (cases x) (auto simp: as_DeviceValue_def DeviceValue_obj_def instance_of_def init_DeviceValue_def mk_DeviceValue_def
    DeviceValue_fields_def kw_simps elim!: rbind_InrE dest!: again split: sum.splits)

lemma NodeValue_again: "as_NodeValue (NodeValue_obj x) = Some y \<Longrightarrow> y = x"
  by (cases x) (auto simp: as_NodeValue_def NodeValue_obj_def instance_of_def init_NodeValue_def mk_NodeValue_def
    NodeValue_fields_def kw_simps enum_members_again elim!: rbind_InrE dest!: again split: sum.splits)

lemma PortValue_again: "as_PortValue (PortValue_obj x) = Some y \<Longrightarrow> y = x"
  by (cases x) (auto simp: as_PortValue_def PortValue_obj_def instance_of_def init_PortValue_def mk_PortValue_def
    PortValue_fields_def kw_simps enum_members_again elim!: rbind_InrE dest!: again split: sum.splits)

lemma ProfileValue_again: "as_ProfileValue (ProfileValue_obj x) = Some y \<Longrightarrow> y = x"
  by (cases x) (auto simp: as_ProfileValue_def ProfileValue_obj_def instance_of_def init_ProfileValue_def mk_ProfileValue_def
    ProfileValue_fields_def kw_simps enum_members_again elim!: rbind_InrE dest!: again split: sum.splits)

lemma SpaIdValue_again: "as_SpaIdValue (SpaIdValue_obj x) = Some y \<Longrightarrow> y = x"
  by (cases x) (auto simp: as_SpaIdValue_def SpaIdValue_obj_def instance_of_def init_SpaIdValue_def mk_SpaIdValue_def
    SpaIdValue_fields_def kw_simps elim!: rbind_InrE dest!: again split: sum.splits)

lemma RouteValue_again: "as_RouteValue (RouteValue_obj x) = Some y \<Longrightarrow> y = x"
  by (cases x) (auto simp: as_RouteValue_def RouteValue_obj_def instance_of_def init_RouteValue_def mk_RouteValue_def
    RouteValue_fields_def kw_simps enum_members_again elim!: rbind_InrE dest!: again
    dest!: val_runtime_values_again [OF _ SpaIdValue_again] split: sum.splits)

section \<open>Decoded collections\<close>

lemma each_record_member:
  "each_record f value path = Inr xs \<Longrightarrow> x \<in> set xs \<Longrightarrow> \<exists>p item. f p item = Inr x"
  by (auto simp: each_record_def elim!: rbind_InrE dest!: traverse_set)

lemma device_record_ids:
  "device_record profile_keys route_keys p item = Inr d \<Longrightarrow>
     dev_profile_ids d = ids_of (dev_id d) profile_keys \<and> dev_route_ids d = ids_of (dev_id d) route_keys"
  by (auto simp: device_record_def mk_DeviceValue_def elim!: rbind_InrE dest!: again)

lemma node_record_ids:
  "node_record inputs outputs p item = Inr n \<Longrightarrow>
     nd_input_port_ids n = sort (ids_of (nd_id n) inputs) \<and> nd_output_port_ids n = sort (ids_of (nd_id n) outputs)"
  by (auto simp: node_record_def mk_NodeValue_def elim!: rbind_InrE dest!: again)

text \<open>The tables hold each profile and each route under its own key.\<close>

definition keyed_tables :: "profile_table \<times> route_table \<Rightarrow> bool" where
  "keyed_tables tables \<longleftrightarrow>
     (\<forall>(k, p) \<in> set (fst tables). k = profile_key p) \<and> (\<forall>(k, r) \<in> set (snd tables). k = route_key r)"

lemma alist_set_subset: "set (alist_set k v xs) \<subseteq> insert (k, v) (set xs)"
  by (induction xs) (auto split: if_splits)

lemma merge_active_subset: "set (merge_active active k v xs) \<subseteq> insert (k, v) (set xs)"
  using alist_set_subset [of k v xs] by (auto simp: merge_active_def split: option.splits if_splits)

lemma merge_active_keyed:
  "\<forall>(k, v) \<in> set xs. k = key v \<Longrightarrow> \<forall>(k, v) \<in> set (merge_active active (key v) v xs). k = key v"
  using merge_active_subset [of active "key v" v xs] by auto

lemma collect_value_keyed:
  assumes "keyed_tables tables"
  shows "keyed_tables (collect_value v tables)"
proof (cases "as_ProfileValue v")
  case (Some p)
  then have "collect_value v tables = (merge_active pf_active (profile_key p) p (fst tables), snd tables)"
    by (simp add: collect_value_def profile_key_def)
  then show ?thesis
    using assms merge_active_keyed [of "fst tables" profile_key pf_active p] by (simp only: keyed_tables_def fst_conv snd_conv) blast
next
  case None
  show ?thesis
  proof (cases "as_RouteValue v")
    case (Some r)
    with None have "collect_value v tables = (fst tables, merge_active rt_active (route_key r) r (snd tables))"
      by (simp add: collect_value_def route_key_def)
    then show ?thesis
      using assms merge_active_keyed [of "snd tables" route_key rt_active r] by (simp only: keyed_tables_def fst_conv snd_conv) blast
  qed (use None assms in \<open>simp add: collect_value_def\<close>)
qed

lemma collect_values_keyed: "keyed_tables tables \<Longrightarrow> keyed_tables (foldl (\<lambda>tables v. collect_value v tables) tables vs)"
  by (induction vs arbitrary: tables) (auto simp: collect_value_keyed)

lemma collect_tables_keyed: "keyed_tables (collect_tables ps)"
proof -
  have *: "keyed_tables tables \<Longrightarrow>
      keyed_tables (foldl (\<lambda>tables p. foldl (\<lambda>tables v. collect_value v tables) tables (param_values p)) tables ps)"
    for tables
  proof (induction ps arbitrary: tables)
    case (Cons p ps)
    then show ?case using Cons.IH [OF collect_values_keyed [OF Cons.prems]] by simp
  qed simp
  show ?thesis unfolding collect_tables_def by (rule *) (simp add: keyed_tables_def)
qed

lemma ids_of_keys:
  "\<forall>(k, v) \<in> set xs. k = (owner v, index v) \<Longrightarrow>
     ids_of i (map fst xs) = map index (filter (\<lambda>v. owner v = i) (map snd xs))"
  by (induction xs) (auto simp: ids_of_def)

lemma ids_of_pairs: "ids_of i (map (\<lambda>v. (owner v, index v)) xs) = map index (filter (\<lambda>v. owner v = i) xs)"
  by (induction xs) (auto simp: ids_of_def)

lemmas snapshot_again =
  val_runtime_values_again [OF _ DeviceValue_again] val_runtime_values_again [OF _ NodeValue_again]
  val_runtime_values_again [OF _ PortValue_again] val_runtime_values_again [OF _ ProfileValue_again]
  val_runtime_values_again [OF _ RouteValue_again]

lemma snapshot_collections:
  assumes "mk_RuntimeSnapshot (PInt g) (PInt q) t h (tuple_obj DeviceValue_obj ds) (tuple_obj NodeValue_obj ns)
      (tuple_obj PortValue_obj ps) ls ms qs (tuple_obj ProfileValue_obj fs) (tuple_obj RouteValue_obj rs) df us = Inr s"
  shows "snap_generation s = g \<and> snap_sequence s = q \<and> snap_devices s = ds \<and> snap_nodes s = ns \<and>
    snap_ports s = ps \<and> snap_profiles s = fs \<and> snap_routes s = rs \<and> indexed s \<and>
    snap_unresolved_relationships s = find_unresolved_relationships s"
proof -
  have "\<exists>s0. s0\<lparr>snap_unresolved_relationships := find_unresolved_relationships s0\<rparr> = s \<and>
      snap_generation s0 = g \<and> snap_sequence s0 = q \<and> snap_devices s0 = ds \<and> snap_nodes s0 = ns \<and>
      snap_ports s0 = ps \<and> snap_profiles s0 = fs \<and> snap_routes s0 = rs \<and> indexed s0"
    using assms unfolding mk_RuntimeSnapshot_def
    apply (elim rbind_InrE)
    apply (simp only: Let_def sum.inject sum.distinct split: if_splits)
    apply (rule exI, rule conjI, assumption)
    apply (auto simp: indexed_def dest: again snapshot_again)
    done
  then show ?thesis by (auto simp: indexed_def)
qed

section \<open>What a decoded snapshot promises\<close>

lemma decoded_parts:
  assumes "runtime_snapshot_from_payload text_of payload = Inr s"
  obtains profiles routes where
    "keyed_tables (profiles, routes)" "snap_profiles s = map snd profiles" "snap_routes s = map snd routes"
    "\<forall>d \<in> set (snap_devices s). \<exists>p item. device_record (map fst profiles) (map fst routes) p item = Inr d"
    "\<forall>n \<in> set (snap_nodes s). \<exists>p item.
       node_record (input_port_pairs (snap_ports s)) (output_port_pairs (snap_ports s)) p item = Inr n"
    "indexed s" "snap_unresolved_relationships s = find_unresolved_relationships s"
    "\<exists>kvs. as_mapping payload = Some kvs \<and> as_int (dict_item kvs ''generation'') = Some (snap_generation s) \<and>
       as_int (dict_item kvs ''sequence'') = Some (snap_sequence s)"
proof -
  obtain kvs where kvs: "as_mapping payload = Some kvs"
    using assms by (auto simp: runtime_snapshot_from_payload_def payload_error_def split: option.splits)
  from assms kvs obtain g q parameters mixers ports devices nodes t h ls ms qs df
    where "payload_identifier (dict_item kvs ''generation'') ''$.generation'' = Inr g"
      "payload_identifier (dict_item kvs ''sequence'') ''$.sequence'' = Inr q"
      and devices: "payload_devices (map fst (fst (collect_tables (parameters @ mixers))))
        (map fst (snd (collect_tables (parameters @ mixers)))) (dict_item kvs ''devices'') = Inr devices"
      and nodes: "payload_nodes (input_port_pairs ports) (output_port_pairs ports) (dict_item kvs ''nodes'') = Inr nodes"
      and mk: "mk_RuntimeSnapshot (PInt g) (PInt q) t h (tuple_obj DeviceValue_obj devices) (tuple_obj NodeValue_obj nodes)
        (tuple_obj PortValue_obj ports) ls ms qs
        (tuple_obj ProfileValue_obj (map snd (fst (collect_tables (parameters @ mixers)))))
        (tuple_obj RouteValue_obj (map snd (snd (collect_tables (parameters @ mixers))))) df (PTuple []) = Inr s"
    unfolding runtime_snapshot_from_payload_def
    by (auto simp: Let_def catching_Inr_iff payload_error_def elim!: rbind_InrE)
  moreover have "as_int v = Some i" if "payload_identifier v p = Inr i" for v p i
    using that by (auto simp: payload_identifier_def payload_integer_def payload_error_def split: option.splits if_splits elim!: rbind_InrE)
  ultimately show thesis
    using that [of "fst (collect_tables (parameters @ mixers))" "snd (collect_tables (parameters @ mixers))"]
      snapshot_collections [OF mk] kvs collect_tables_keyed [of "parameters @ mixers"]
      each_record_member [OF devices [unfolded payload_devices_def]] each_record_member [OF nodes [unfolded payload_nodes_def]]
    by simp
qed

lemma filter_pairs:
  "ids_of i (input_port_pairs ps) = map pt_id (filter (\<lambda>p. pt_node_id p = i \<and> pt_direction p = INPUT) ps)"
  "ids_of i (output_port_pairs ps) = map pt_id (filter (\<lambda>p. pt_node_id p = i \<and> pt_direction p \<noteq> INPUT) ps)"
  by (simp_all add: input_port_pairs_def output_port_pairs_def ids_of_pairs conj_commute)

lemma decoded_lists:
  assumes "runtime_snapshot_from_payload text_of payload = Inr s"
  shows "\<exists>kvs. as_mapping payload = Some kvs \<and> as_int (dict_item kvs ''generation'') = Some (snap_generation s) \<and>
      as_int (dict_item kvs ''sequence'') = Some (snap_sequence s)"
    and "d \<in> set (snap_devices s) \<Longrightarrow>
      dev_profile_ids d = map pf_index (filter (\<lambda>p. pf_device_id p = dev_id d) (snap_profiles s)) \<and>
      dev_route_ids d = map rt_index (filter (\<lambda>r. rt_device_id r = dev_id d) (snap_routes s))"
    and "n \<in> set (snap_nodes s) \<Longrightarrow>
      nd_input_port_ids n =
        sort (map pt_id (filter (\<lambda>p. pt_node_id p = nd_id n \<and> pt_direction p = INPUT) (snap_ports s))) \<and>
      nd_output_port_ids n =
        sort (map pt_id (filter (\<lambda>p. pt_node_id p = nd_id n \<and> pt_direction p \<noteq> INPUT) (snap_ports s)))"
    and "indexed s"
    and "is_coherent s \<longleftrightarrow> relationships_resolve s"
proof -
  from assms obtain profiles routes
    where keyed: "keyed_tables (profiles, routes)" "snap_profiles s = map snd profiles" "snap_routes s = map snd routes"
      and devices: "\<forall>d \<in> set (snap_devices s). \<exists>p item. device_record (map fst profiles) (map fst routes) p item = Inr d"
      and nodes: "\<forall>n \<in> set (snap_nodes s). \<exists>p item.
        node_record (input_port_pairs (snap_ports s)) (output_port_pairs (snap_ports s)) p item = Inr n"
      and head: "\<exists>kvs. as_mapping payload = Some kvs \<and> as_int (dict_item kvs ''generation'') = Some (snap_generation s) \<and>
        as_int (dict_item kvs ''sequence'') = Some (snap_sequence s)"
      and indexed: "indexed s" and find: "snap_unresolved_relationships s = find_unresolved_relationships s"
    by (rule decoded_parts)
  have "ids_of i (map fst profiles) = map pf_index (filter (\<lambda>p. pf_device_id p = i) (map snd profiles))"
    "ids_of i (map fst routes) = map rt_index (filter (\<lambda>r. rt_device_id r = i) (map snd routes))" for i
    using keyed(1) by (auto intro!: ids_of_keys simp: keyed_tables_def profile_key_def route_key_def)
  note keys = this
  show "\<exists>kvs. as_mapping payload = Some kvs \<and> as_int (dict_item kvs ''generation'') = Some (snap_generation s) \<and>
      as_int (dict_item kvs ''sequence'') = Some (snap_sequence s)" by (rule head)
  show "indexed s" by (rule indexed)
  show "is_coherent s \<longleftrightarrow> relationships_resolve s" by (simp add: is_coherent_def find find_unresolved_Nil [OF indexed])
  show "dev_profile_ids d = map pf_index (filter (\<lambda>p. pf_device_id p = dev_id d) (snap_profiles s)) \<and>
      dev_route_ids d = map rt_index (filter (\<lambda>r. rt_device_id r = dev_id d) (snap_routes s))"
    if "d \<in> set (snap_devices s)"
    using that devices by (auto simp: keyed keys dest!: device_record_ids)
  show "nd_input_port_ids n =
        sort (map pt_id (filter (\<lambda>p. pt_node_id p = nd_id n \<and> pt_direction p = INPUT) (snap_ports s))) \<and>
      nd_output_port_ids n =
        sort (map pt_id (filter (\<lambda>p. pt_node_id p = nd_id n \<and> pt_direction p \<noteq> INPUT) (snap_ports s)))"
    if "n \<in> set (snap_nodes s)"
    using that nodes by (auto simp: filter_pairs dest!: node_record_ids)
qed

section \<open>An example\<close>

text \<open>A device with a profile, and a node of it with an input port, an output port and a port of unknown direction.\<close>

definition sample_payload :: pyval where
  "sample_payload =
     (let node_port = (\<lambda>i direction. dict_of [(''id'', PInt i), (''direction'', PInt direction),
            (''properties'', dict_of [(''node.id'', PStr ''50'')])])
      in dict_of
       [(''payload_version'', PInt 1), (''generation'', PInt 3), (''sequence'', PInt 9),
        (''captured_at'', PStr ''1970-01-01T00:00:00+00:00''),
        (''health'', dict_of [(''state'', PStr ''connected''), (''generation'', PInt 3)]),
        (''devices'', PList [dict_of [(''id'', PInt 40)]]),
        (''nodes'', PList [dict_of [(''id'', PInt 50), (''properties'', dict_of [(''device.id'', PStr ''40'')])]]),
        (''ports'', PList [node_port 53 7, node_port 52 1, node_port 51 0]),
        (''links'', PList []), (''metadata'', PList []),
        (''parameters'', PList [dict_of [(''owner_type'', PStr ''device''), (''owner_id'', PInt 40), (''id'', PStr ''Profile''),
           (''permissions'', PStr ''rw''),
           (''values'', PList [dict_of [(''index'', PInt 1), (''name'', PStr ''pro-audio'')]])]]),
        (''profiles'', PList []), (''routes'', PList []), (''defaults'', PList [])])"

definition sample_decoded :: "exn + RuntimeSnapshot" where
  "sample_decoded = runtime_snapshot_from_payload (\<lambda>_. []) sample_payload"

text \<open>What is checked of the decoded example: its identities, directions and the lists of the node.\<close>

lemma sample_decoded_parts:
  "map_sum (\<lambda>e. e) (\<lambda>s. (snap_generation s, snap_sequence s, map dev_id (snap_devices s), map dev_profile_ids (snap_devices s), map nd_id (snap_nodes s),
       map nd_output_port_ids (snap_nodes s),
       map (\<lambda>p. (pt_id p, pt_node_id p, pt_direction p)) (snap_ports s))) sample_decoded =
     Inr (3, 9, [40], [[1]], [50], [[52, 53]], [(53, 50, DirectionUnknown), (52, 50, OUTPUT), (51, 50, INPUT)])"
  by code_simp

lemma sample_decoded_ok:
  obtains s where "runtime_snapshot_from_payload (\<lambda>_. []) sample_payload = Inr s" "snap_generation s = 3"
    "snap_sequence s = 9" "map dev_id (snap_devices s) = [40]"
    "map dev_profile_ids (snap_devices s) = [[1]]" "map nd_id (snap_nodes s) = [50]"
    "map nd_output_port_ids (snap_nodes s) = [[52, 53]]"
    "map (\<lambda>p. (pt_id p, pt_node_id p, pt_direction p)) (snap_ports s) =
       [(53, 50, DirectionUnknown), (52, 50, OUTPUT), (51, 50, INPUT)]"
  using sample_decoded_parts unfolding sample_decoded_def by (cases "runtime_snapshot_from_payload (\<lambda>_. []) sample_payload") auto

text \<open>
  C16. A snapshot that is decoded from a native payload carries the payload's generation and
  sequence; a device lists exactly the profiles and routes the snapshot has for it, in their order,
  and a node lists exactly the ports the snapshot has for it, sorted, the ports that are not
  input ports among the output ports.
\<close>

theorem decoded_snapshot:
  assumes "runtime_snapshot_from_payload text_of payload = Inr s"
  shows "(\<exists>kvs. as_mapping payload = Some kvs \<and> as_int (dict_item kvs ''generation'') = Some (snap_generation s) \<and>
       as_int (dict_item kvs ''sequence'') = Some (snap_sequence s)) \<and>
    (\<forall>d \<in> set (snap_devices s).
       dev_profile_ids d = map pf_index (filter (\<lambda>p. pf_device_id p = dev_id d) (snap_profiles s)) \<and>
       dev_route_ids d = map rt_index (filter (\<lambda>r. rt_device_id r = dev_id d) (snap_routes s))) \<and>
    (\<forall>n \<in> set (snap_nodes s).
       nd_input_port_ids n =
         sort (map pt_id (filter (\<lambda>p. pt_node_id p = nd_id n \<and> pt_direction p = INPUT) (snap_ports s))) \<and>
       nd_output_port_ids n =
         sort (map pt_id (filter (\<lambda>p. pt_node_id p = nd_id n \<and> pt_direction p \<noteq> INPUT) (snap_ports s))))"
  using decoded_lists(1,2,3) [OF assms] by blast

theorem decoded_snapshot_witness:
  "\<exists>s. runtime_snapshot_from_payload (\<lambda>_. []) sample_payload = Inr s \<and>
     (\<forall>d \<in> set (snap_devices s).
        map pf_index (filter (\<lambda>p. pf_device_id p = dev_id d) (snap_profiles s)) = [1]) \<and> snap_devices s \<noteq> []"
proof -
  obtain s where s: "runtime_snapshot_from_payload (\<lambda>_. []) sample_payload = Inr s" "map dev_id (snap_devices s) = [40]"
    "map dev_profile_ids (snap_devices s) = [[1]]"
    by (rule sample_decoded_ok)
  have "\<forall>d \<in> set (snap_devices s). map pf_index (filter (\<lambda>p. pf_device_id p = dev_id d) (snap_profiles s)) = [1]"
    using decoded_snapshot [OF s(1)] s(3) by auto
  with s show ?thesis by auto
qed

text \<open>
  C17. In a decoded snapshot the profiles and routes of a device and the input ports of a node
  always resolve; its output ports resolve exactly when the snapshot has no port of that node
  whose direction is unknown, so a node with such a port makes the snapshot incoherent.
\<close>

theorem decoded_relationships:
  assumes "runtime_snapshot_from_payload text_of payload = Inr s"
  shows "(\<forall>d \<in> set (snap_devices s).
       (\<forall>i \<in> set (dev_profile_ids d). has_profile s (dev_id d) i) \<and> (\<forall>i \<in> set (dev_route_ids d). has_route s (dev_id d) i)) \<and>
    (\<forall>n \<in> set (snap_nodes s).
       (\<forall>i \<in> set (nd_input_port_ids n). owns_port s (nd_id n) i INPUT) \<and>
       ((\<forall>i \<in> set (nd_output_port_ids n). owns_port s (nd_id n) i OUTPUT) \<longleftrightarrow>
          (\<forall>p \<in> set (snap_ports s). pt_node_id p = nd_id n \<longrightarrow> pt_direction p \<noteq> DirectionUnknown))) \<and>
    (is_coherent s \<longrightarrow>
       (\<forall>n \<in> set (snap_nodes s). \<forall>p \<in> set (snap_ports s).
          pt_node_id p = nd_id n \<longrightarrow> pt_direction p \<noteq> DirectionUnknown))"
proof (intro conjI)
  note lists = decoded_lists [OF assms]
  have unique: "p = p'" if "p \<in> set (snap_ports s)" "p' \<in> set (snap_ports s)" "pt_id p = pt_id p'" for p p'
    using that indexed_port(1) [OF lists(4)] by (metis option.inject)
  show "\<forall>d \<in> set (snap_devices s).
      (\<forall>i \<in> set (dev_profile_ids d). has_profile s (dev_id d) i) \<and> (\<forall>i \<in> set (dev_route_ids d). has_route s (dev_id d) i)"
    using lists(2) by (auto simp: has_profile_def has_route_def profile_key_def route_key_def)
  show outputs: "\<forall>n \<in> set (snap_nodes s).
       (\<forall>i \<in> set (nd_input_port_ids n). owns_port s (nd_id n) i INPUT) \<and>
       ((\<forall>i \<in> set (nd_output_port_ids n). owns_port s (nd_id n) i OUTPUT) \<longleftrightarrow>
          (\<forall>p \<in> set (snap_ports s). pt_node_id p = nd_id n \<longrightarrow> pt_direction p \<noteq> DirectionUnknown))"
  proof (intro ballI conjI iffI impI)
    fix n i assume n: "n \<in> set (snap_nodes s)"
    show "owns_port s (nd_id n) i INPUT" if "i \<in> set (nd_input_port_ids n)"
      using that lists(3) [OF n] by (auto simp: owns_port_def)
    show "pt_direction p \<noteq> DirectionUnknown"
      if "\<forall>i \<in> set (nd_output_port_ids n). owns_port s (nd_id n) i OUTPUT" "p \<in> set (snap_ports s)" "pt_node_id p = nd_id n" for p
    proof
      assume unknown: "pt_direction p = DirectionUnknown"
      then have "pt_id p \<in> set (nd_output_port_ids n)" using that lists(3) [OF n] by auto
      with that(1) obtain p' where "p' \<in> set (snap_ports s)" "pt_id p' = pt_id p" "pt_direction p' = OUTPUT"
        by (auto simp: owns_port_def)
      then have "p = p'" using unique [OF that(2)] by simp
      then show False using unknown \<open>pt_direction p' = OUTPUT\<close> by simp
    qed
    show "owns_port s (nd_id n) i OUTPUT"
      if "\<forall>p \<in> set (snap_ports s). pt_node_id p = nd_id n \<longrightarrow> pt_direction p \<noteq> DirectionUnknown"
        "i \<in> set (nd_output_port_ids n)"
      using that lists(3) [OF n] PortDirection.exhaust by (auto simp: owns_port_def)
  qed
  then show "is_coherent s \<longrightarrow>
       (\<forall>n \<in> set (snap_nodes s). \<forall>p \<in> set (snap_ports s).
          pt_node_id p = nd_id n \<longrightarrow> pt_direction p \<noteq> DirectionUnknown)"
    by (simp add: lists(5) relationships_resolve_def)
qed

theorem decoded_relationships_witness:
  "\<exists>s. runtime_snapshot_from_payload (\<lambda>_. []) sample_payload = Inr s \<and> \<not> is_coherent s \<and>
     map nd_output_port_ids (snap_nodes s) = [[52, 53]]"
proof -
  obtain s where s: "runtime_snapshot_from_payload (\<lambda>_. []) sample_payload = Inr s" "map nd_id (snap_nodes s) = [50]"
    "map nd_output_port_ids (snap_nodes s) = [[52, 53]]"
    "map (\<lambda>p. (pt_id p, pt_node_id p, pt_direction p)) (snap_ports s) =
       [(53, 50, DirectionUnknown), (52, 50, OUTPUT), (51, 50, INPUT)]"
    by (rule sample_decoded_ok)
  have "(53, 50, DirectionUnknown) \<in> set (map (\<lambda>p. (pt_id p, pt_node_id p, pt_direction p)) (snap_ports s))"
    unfolding s(4) by simp
  then obtain p where p: "p \<in> set (snap_ports s)" "pt_node_id p = 50" "pt_direction p = DirectionUnknown" by auto
  have "50 \<in> set (map nd_id (snap_nodes s))" unfolding s(2) by simp
  then obtain n where n: "n \<in> set (snap_nodes s)" "nd_id n = 50" by auto
  have "\<not> is_coherent s"
    using decoded_relationships [OF s(1), THEN conjunct2, THEN conjunct2] p n by metis
  show ?thesis by (rule exI [of _ s]) (intro conjI s(1) s(3) \<open>\<not> is_coherent s\<close>)
qed

end
