(* ===== verification/DefaultEcho.thy ===== *)
theory DefaultEcho
  imports SnapshotPayload MetadataControls Conversions
begin

text \<open>
  The default targets a client selects and the default targets a snapshot shows: what
  \<open>set_default_node\<close> writes into the metadata is text that \<open>_default_name\<close> decodes to the same node
  name, so the default it asks for resolves to the node once the metadata holds it.
\<close>

section \<open>Decoding a written name\<close>

lemma json_string_quote: "json_string s = CHR 0x22 # tl (json_string s)"
  by (simp add: json_string_def)

lemma scan_json_text: "utf8_text s \<Longrightarrow> scan_string (tl (json_string s) @ r) = Some (s, r)"
  by (auto simp: utf8_text_def scan_json_string)

lemma utf8_text_name: "utf8_text ''name''"
  unfolding utf8_text_def
  by (rule exI [of _ "[110, 97, 109, 101]"])
    (simp add: scalar_value_def code_point_def utf8_encode_def utf8_char_def char_of_def bit_iff_odd)

lemma json_value_string: "utf8_text s \<Longrightarrow> json_value (Suc n) (json_string s @ r) = Inr (JString s, r)"
  by (subst json_string_quote) (simp add: json_value.simps scan_json_text)

lemma skip_space_char [simp]: "skip_space [] = []" "\<not> json_space c \<Longrightarrow> skip_space (c # s) = c # s"
  by (simp_all add: skip_space_def)

lemma json_space_quote: "\<not> json_space (CHR 0x22)"
  by (simp add: json_space_def)

lemma skip_space_json_string [simp]: "skip_space (json_string s @ r) = json_string s @ r"
  by (subst (1 2) json_string_quote) (simp add: json_space_quote)

lemma json_loads_encoded_name:
  assumes "utf8_text s"
  shows "json_loads (encoded_name s) = Inr (JObject [(''name'', JString s)])"
proof -
  have members: "json_members (Suc (Suc n)) (json_string ''name'' @ CHR 0x3A # json_string s @ ''}'') =
      Inr ([(''name'', JString s)], [])" for n
    using scan_json_text [OF utf8_text_name] json_value_string [OF assms, of n "''}''"]
    by (subst json_string_quote) (simp add: json_members.simps json_space_def)
  obtain q where q: "json_string ''name'' = CHR 0x22 # q" using json_string_quote by blast
  have "json_value (Suc (Suc (Suc n))) (encoded_name s) = Inr (JObject [(''name'', JString s)], [])" for n
    using members [of n] by (subst json_value.simps) (simp add: encoded_name_def q json_space_quote)
  moreover have "skip_space (encoded_name s) = encoded_name s" "\<exists>n. Suc (2 * length (encoded_name s)) = Suc (Suc (Suc n))"
    by (simp_all add: encoded_name_def json_space_def)
  ultimately show ?thesis by (auto simp: json_loads_def)
qed

lemma default_name_encoded:
  assumes "utf8_text s" "field_or e ''value'' PNone = PStr (encoded_name s)"
  shows "default_name (es @ [e]) = Inr (Some s)"
  using assms by (simp add: default_name_def decoded_name_def json_loads_encoded_name) (simp add: encoded_name_def)

section \<open>The node a default resolves to\<close>

lemma exposed_text_name: "exposed_name node = Some name \<longleftrightarrow> node_text_name node = Some name \<and> name \<noteq> []"
  by (auto simp: exposed_name_def node_text_name_def text_property_def property_item_def field_or_def List.map_filter_def
    split: option.splits list.splits)

lemma map_of_rev_unique:
  "(\<forall>v. (k, v) \<in> set xs \<longrightarrow> v = w) \<Longrightarrow> (k, w) \<in> set xs \<Longrightarrow> map_of (rev xs) k = Some w"
  by (metis map_of_SomeD map_of_eq_None_iff not_None_eq set_rev fst_conv image_eqI set_map)

lemma nodes_by_name_exposed:
  assumes "node \<in> set nodes" "exposed_name node = Some name"
    and "\<forall>m \<in> set nodes. exposed_name m = Some name \<longrightarrow> nd_id m = nd_id node"
  shows "nodes_by_name nodes name = Some (nd_id node)"
  unfolding nodes_by_name_def
proof (rule map_of_rev_unique)
  let ?named = "List.map_filter (\<lambda>node. case node_text_name node of
      Some n \<Rightarrow> if n \<noteq> [] then Some (n, nd_id node) else None | None \<Rightarrow> None) nodes"
  have named: "(n, i) \<in> set ?named \<longleftrightarrow> (\<exists>m \<in> set nodes. exposed_name m = Some n \<and> nd_id m = i)" for n i
  proof -
    have "(n, i) \<in> set ?named \<longleftrightarrow> (\<exists>m \<in> set nodes. (case node_text_name m of
        Some n \<Rightarrow> if n \<noteq> [] then Some (n, nd_id m) else None | None \<Rightarrow> None) = Some (n, i))"
      by (force simp: List.map_filter_def)
    also have "\<dots> \<longleftrightarrow> (\<exists>m \<in> set nodes. exposed_name m = Some n \<and> nd_id m = i)"
      by (rule bex_cong [OF refl]) (auto simp: exposed_text_name split: option.split)
    finally show ?thesis .
  qed
  show "\<forall>i. (name, i) \<in> set ?named \<longrightarrow> i = nd_id node" using assms(3) named by auto
  show "(name, nd_id node) \<in> set ?named" using assms(1,2) named by auto
qed

text \<open>
  C15. A default that \<open>set_default_node\<close> asks for is the default a snapshot shows: when the last
  entries under the configured key and under the actual key hold the text it writes for a node's
  name, the decoded target names that node and resolves to it, unless another node has the same name.
\<close>

theorem selected_default_resolves:
  assumes "utf8_text name" "exposed_name node = Some name" "node \<in> set nodes" "0 \<le> nd_id node" "media_class \<noteq> []"
    and "\<forall>m \<in> set nodes. exposed_name m = Some name \<longrightarrow> nd_id m = nd_id node"
    and "entries_under grouped (''default.'' @ suffix) = actual @ [a]"
    and "entries_under grouped (''default.configured.'' @ suffix) = configured @ [c]"
    and "field_or a ''value'' PNone = PStr (encoded_name name)" "field_or c ''value'' PNone = PStr (encoded_name name)"
  shows "decoded_target grouped (nodes_by_name nodes) media_class suffix =
    Inr (Some \<lparr>dt_media_class = media_class, dt_configured_name = Some name, dt_resolved_node_id = Some (nd_id node)\<rparr>)"
proof -
  have "name \<noteq> []" using assms(2) by (simp add: exposed_text_name)
  moreover have "default_name (entries_under grouped (''default.'' @ suffix)) = Inr (Some name)"
    "default_name (entries_under grouped (''default.configured.'' @ suffix)) = Inr (Some name)"
    unfolding assms(7,8) by (rule default_name_encoded assms)+
  moreover have "nodes_by_name nodes name = Some (nd_id node)" by (rule nodes_by_name_exposed assms)+
  ultimately show ?thesis
    using assms(4,5) by (simp add: decoded_target_def mk_DefaultTargetValue_def val_obj val_optional_string_def
      val_optional_identifier_def val_optional_def)
qed

text \<open>The node of the example and the entries that its name is written to.\<close>

definition sample_default_node :: NodeValue where
  "sample_default_node =
     \<lparr>nd_id = 50, nd_device_id = None, nd_name = Some ''name'', nd_description = None, nd_media_class = Some ''Audio/Sink'',
       nd_state = NodeIdle, nd_error = None, nd_input_port_ids = [], nd_output_port_ids = [], nd_properties = [],
       nd_parameter_ids = []\<rparr>"

definition sample_default_entries :: default_table where
  "sample_default_entries =
     (let entry = [(''value'', PStr (encoded_name ''name''))]
      in [(''default.audio.sink'', [entry]), (''default.configured.audio.sink'', [entry])])"

theorem selected_default_resolves_witness:
  "decoded_target sample_default_entries (nodes_by_name [sample_default_node]) ''Audio/Sink'' ''audio.sink'' =
    Inr (Some \<lparr>dt_media_class = ''Audio/Sink'', dt_configured_name = Some ''name'', dt_resolved_node_id = Some 50\<rparr>)"
proof -
  let ?entry = "[(''value'', PStr (encoded_name ''name''))]"
  have node: "exposed_name sample_default_node = Some ''name''" "nd_id sample_default_node = 50"
    by (simp_all add: exposed_name_def sample_default_node_def)
  have entries: "entries_under sample_default_entries (''default.'' @ ''audio.sink'') = [] @ [?entry]"
    "entries_under sample_default_entries (''default.configured.'' @ ''audio.sink'') = [] @ [?entry]"
    "field_or ?entry ''value'' PNone = PStr (encoded_name ''name'')"
    by (simp_all add: entries_under_def sample_default_entries_def field_or_def Let_def)
  show ?thesis
    using selected_default_resolves [OF utf8_text_name node(1) _ _ _ _ entries(1,2) entries(3) entries(3),
      of "[sample_default_node]" "''Audio/Sink''"] node(2)
    by simp
qed

end
