(* ===== verification/PlainJson.thy ===== *)
theory PlainJson
  imports SnapshotPayload
begin

text \<open>
  What \<open>normalize_spa_json\<close> makes of the data a native payload may contain: plain JSON, in which
  every mapping has distinct text keys and every sequence is a list, and which the function
  leaves as it is when it is applied again.
\<close>

fun is_text :: "pyval \<Rightarrow> bool" where
  "is_text (PStr s) = True"
| "is_text _ = False"

lemma is_text_iff: "is_text k \<longleftrightarrow> (\<exists>s. k = PStr s)"
  by (cases k) auto

fun plain_json :: "pyval \<Rightarrow> bool" where
  "plain_json PNone = True"
| "plain_json (PBool b) = True"
| "plain_json (PInt i) = True"
| "plain_json (PFloat f) = True"
| "plain_json (PStr s) = True"
| "plain_json (PList xs) = list_all plain_json xs"
| "plain_json (PDict kvs) =
     (list_all (\<lambda>(k, v). is_text k \<and> plain_json v) kvs \<and> distinct (map fst kvs))"
| "plain_json _ = False"

section \<open>Named items\<close>

lemma foldl_named_items:
  assumes "distinct (map fst items)" "\<forall>(k, v) \<in> set items. P v" "\<forall>(k, v) \<in> set kvs. P v"
  shows "distinct (map fst (foldl (\<lambda>items (k, v). alist_set (name k) v items) items kvs)) \<and>
    (\<forall>(k, v) \<in> set (foldl (\<lambda>items (k, v). alist_set (name k) v items) items kvs). P v)"
  using assms
proof (induction kvs arbitrary: items)
  case (Cons kv kvs)
  obtain k v where kv: "kv = (k, v)" by (cases kv)
  have "\<forall>(k, v) \<in> set (alist_set (name k) v items). P v"
    using Cons.prems alist_set_subset [of "name k" v items] kv by auto
  moreover have "distinct (map fst (alist_set (name k) v items))" using Cons.prems(1) by simp
  ultimately show ?case using Cons.IH [of "alist_set (name k) v items"] Cons.prems(3) kv
    by (simp add: case_prod_unfold)
qed simp

lemma plain_named_items:
  "list_all (\<lambda>(k, v). plain_json v) kvs \<Longrightarrow> plain_json (PDict (text_items (named_items text_of object_id kvs)))"
  using foldl_named_items [of "[]" plain_json kvs "normal_name text_of object_id"]
  by (auto simp: named_items_def text_items_def list_all_iff is_text_iff o_def case_prod_beta distinct_map inj_on_def)

lemma named_items_text:
  assumes "\<forall>(k, v) \<in> set kvs. \<exists>s. k = PStr s" "distinct (map fst kvs)"
  shows "text_items (named_items text_of object_id kvs) = kvs"
proof -
  have "text_items (foldl (\<lambda>items (k, v). alist_set (normal_name text_of object_id k) v items) items kvs) = text_items items @ kvs"
    if "\<forall>(k, v) \<in> set items. PStr k \<notin> fst ` set kvs" for items
    using assms that
  proof (induction kvs arbitrary: items)
    case (Cons kv kvs)
    then obtain s v where kv: "kv = (PStr s, v)" by (cases kv) auto
    then have set: "alist_set s v items = items @ [(s, v)]" using Cons.prems(3) by (intro alist_set_fresh) force
    have rest: "\<forall>(k, v) \<in> set kvs. \<exists>s. k = PStr s" "distinct (map fst kvs)"
      using Cons.prems(1,2) by simp_all
    have new: "\<forall>(k, v) \<in> set (items @ [(s, v)]). PStr k \<notin> fst ` set kvs"
      using Cons.prems(2,3) kv by auto
    show ?case using Cons.IH [OF rest new] set kv by (simp add: normal_name_def text_items_def)
  qed (simp add: text_items_def)
  from this [of "[]"] show ?thesis by (simp add: named_items_def text_items_def)
qed

section \<open>Normalisation\<close>

lemma normalize_plain: "plain_json j \<Longrightarrow> normalize_json text_of j = Inr j"
proof (induction j rule: plain_json.induct)
  case (6 xs)
  then have "traverse (normalize_json text_of) xs = Inr xs" by (intro traverse_id) (auto simp: list_all_iff)
  then show ?case by simp
next
  case (7 kvs)
  then have "traverse (\<lambda>(key, item). rbind (normalize_json text_of item) (\<lambda>j. Inr (key, j))) kvs = Inr kvs"
    by (intro traverse_id) (auto simp: list_all_iff)
  then show ?case using 7(2) by (simp add: named_items_text list_all_iff case_prod_beta is_text_iff)
qed simp_all

lemma traverse_total:
  "\<forall>x \<in> set xs. \<exists>y. f x = Inr y \<and> P y \<Longrightarrow> \<exists>ys. traverse f xs = Inr ys \<and> list_all P ys"
  by (induction xs) auto

lemma traverse_done: "traverse f xs = Inr ys \<Longrightarrow> \<forall>x \<in> set xs. \<exists>y. f x = Inr y"
  by (induction xs arbitrary: ys) (auto simp: rbind_eq_Inr_iff)

text \<open>The items of a detached container are detached.\<close>

lemma detached_members:
  "validate_detached p (PDict kvs) = Inr u \<Longrightarrow> (k, v) \<in> set kvs \<Longrightarrow> \<exists>p. validate_detached p v = Inr ()"
  "validate_detached p (PSpaObject c t i n kvs fl ks) = Inr u \<Longrightarrow> (k, v) \<in> set kvs \<Longrightarrow> \<exists>p. validate_detached p v = Inr ()"
  "validate_detached p (PFrozen items) = Inr u \<Longrightarrow> (s, v) \<in> set items \<Longrightarrow> \<exists>p. validate_detached p v = Inr ()"
  "validate_detached p (PList xs) = Inr u \<Longrightarrow> v \<in> set xs \<Longrightarrow> \<exists>p. validate_detached p v = Inr ()"
  "validate_detached p (PTuple xs) = Inr u \<Longrightarrow> v \<in> set xs \<Longrightarrow> \<exists>p. validate_detached p v = Inr ()"
proof -
  have item: "\<exists>i. (i, v) \<in> set (indexed_items xs)" if "v \<in> set xs"
    using that by (auto simp: indexed_items_def in_set_conv_nth set_zip)
  show "validate_detached p (PDict kvs) = Inr u \<Longrightarrow> (k, v) \<in> set kvs \<Longrightarrow> \<exists>p. validate_detached p v = Inr ()"
    "validate_detached p (PSpaObject c t i n kvs fl ks) = Inr u \<Longrightarrow> (k, v) \<in> set kvs \<Longrightarrow> \<exists>p. validate_detached p v = Inr ()"
    "validate_detached p (PFrozen items) = Inr u \<Longrightarrow> (s, v) \<in> set items \<Longrightarrow> \<exists>p. validate_detached p v = Inr ()"
    by (fastforce simp: rbind_eq_Inr_iff leak_def payload_error_def dest!: traverse_done split: option.splits)+
  show "validate_detached p (PList xs) = Inr u \<Longrightarrow> v \<in> set xs \<Longrightarrow> \<exists>p. validate_detached p v = Inr ()"
    "validate_detached p (PTuple xs) = Inr u \<Longrightarrow> v \<in> set xs \<Longrightarrow> \<exists>p. validate_detached p v = Inr ()"
    using item by (fastforce simp: rbind_eq_Inr_iff dest!: traverse_done)+
qed

lemma normalized_items:
  assumes "\<forall>(k, v) \<in> set kvs. \<exists>j. normalize_json text_of v = Inr j \<and> plain_json j"
  shows "\<exists>items. traverse (\<lambda>(k, v). rbind (normalize_json text_of v) (\<lambda>j. Inr (name k, j))) kvs = Inr items \<and>
    list_all (\<lambda>(k, v). plain_json v) items"
  by (rule traverse_total) (use assms in fastforce)

lemma detached_normalized:
  "validate_detached p v = Inr u \<Longrightarrow> \<exists>j. normalize_json text_of v = Inr j \<and> plain_json j"
proof (induction text_of v arbitrary: p u rule: normalize_json.induct)
  case (10 text_of kvs)
  have "\<forall>(k, v) \<in> set kvs. \<exists>j. normalize_json text_of v = Inr j \<and> plain_json j"
    using 10 detached_members(1) [OF "10.prems"] by fastforce
  from normalized_items [OF this, of "\<lambda>k. k"] show ?case using plain_named_items by fastforce
next
  case (11 text_of items)
  have "\<forall>(k, v) \<in> set items. \<exists>j. normalize_json text_of v = Inr j \<and> plain_json j"
    using 11 detached_members(3) [OF "11.prems"] by fastforce
  from normalized_items [OF this, of PStr] show ?case using plain_named_items by fastforce
next
  case (12 text_of c t i n kvs flags keys)
  have "\<forall>(k, v) \<in> set kvs. \<exists>j. normalize_json text_of v = Inr j \<and> plain_json j"
    using 12 detached_members(2) [OF "12.prems"] by fastforce
  from normalized_items [OF this, of "\<lambda>k. k"] show ?case using plain_named_items by fastforce
next
  case (13 text_of xs)
  have "\<forall>v \<in> set xs. \<exists>j. normalize_json text_of v = Inr j \<and> plain_json j"
    using 13 detached_members(5) [OF "13.prems"] by fastforce
  from traverse_total [OF this] show ?case by auto
next
  case (14 text_of xs)
  have "\<forall>v \<in> set xs. \<exists>j. normalize_json text_of v = Inr j \<and> plain_json j"
    using 14 detached_members(4) [OF "14.prems"] by fastforce
  from traverse_total [OF this] show ?case by auto
qed (auto simp: leak_def payload_error_def)

text \<open>
  C36. Whatever passes the check for native objects is turned into plain JSON, without an error:
  every mapping has distinct text keys and every sequence is a list, and normalising the result
  again changes nothing.
\<close>

theorem detached_is_normalizable:
  assumes "validate_detached path v = Inr ()"
  shows "\<exists>j. normalize_json text_of v = Inr j \<and> plain_json j \<and> normalize_json text_of' j = Inr j"
  using detached_normalized [OF assms, of text_of] normalize_plain by blast

theorem detached_is_normalizable_witness:
  "\<exists>j. normalize_json (\<lambda>_. []) (PTuple [PBytes [1, 2], PDict [(PStr ''a'', PIntEnum ''Kind'' ''MEMBER'' 3)]]) = Inr j \<and> plain_json j"
proof -
  have "validate_detached ''$'' (PTuple [PBytes [1, 2], PDict [(PStr ''a'', PIntEnum ''Kind'' ''MEMBER'' 3)]]) = Inr ()"
    by (simp add: indexed_items_def)
  from detached_is_normalizable [OF this] show ?thesis by blast
qed

end
