(* ===== verification/AudioEcho.thy ===== *)
theory AudioEcho
  imports RouteSafety PlainJson
begin

text \<open>
  The audio properties a client sets and the parameter a snapshot shows: once a node reports the
  pod that \<open>set_node_audio_properties\<close> sent, the snapshot decoder and the confirmation predicates
  agree that the request took effect.
\<close>

section \<open>Values in single precision\<close>

lemma float32_ok:
  assumes "isfinite f" "\<not> float_lt f 0" "float32 f = Inr e" "isfinite e"
  shows "float_ok e"
proof -
  obtain x where x: "pack_f32 f = Inr x" using assms(3) by (auto simp: float32_def elim!: rbind_InrE)
  obtain w where w: "f32_pack f = Inr w" "e = f32_unpack w"
    using pack_f32_value(2) [OF x, of "[]" "[]"] assms(3) x by (auto simp: float32_def)
  have "0 \<le> f64_units e"
  proof (cases "f64_negative f")
    case True
    have z: "f64_signed f = 0" "f64_scale f = 0" using negative_zero [OF assms(1) True] assms(1,2) not_negative_iff by blast+
    have "f32_pack f = Inr (f32_make True 0 0)"
      using True assms(1) z by (simp add: f32_pack_def isnan_def isfinite_def round_fields_def bit_length.simps round_half_even_def)
    moreover have "f64_units (f32_unpack (f32_make True 0 0)) = 0" by code_simp
    ultimately show ?thesis using w by simp
  next
    case False
    then show ?thesis
      using f64_positive_units f32_unpack_positive [OF f32_pack_positive [OF assms(1) False w(1)]] assms(4) w(2) by simp
  qed
  then show ?thesis using assms(4) not_negative_iff by (simp add: float_ok_def)
qed

section \<open>The expected properties\<close>

text \<open>What the confirmations expect, by the values in single precision that are given.\<close>

definition audio_entries :: "pyfloat option \<Rightarrow> bool option \<Rightarrow> pyfloat list \<Rightarrow> fields" where
  "audio_entries volume mute volumes =
     (case volume of None \<Rightarrow> [] | Some f \<Rightarrow> [(''volume'', PFloat f)]) @
     (case mute of None \<Rightarrow> [] | Some b \<Rightarrow> [(''mute'', PBool b)]) @
     (if volumes = [] then [] else [(''channel_volumes'', PTuple (map PFloat volumes))])"

definition audio_set :: "pyfloat option \<Rightarrow> bool option \<Rightarrow> pyfloat list \<Rightarrow> AudioPropertiesValue" where
  "audio_set volume mute volumes =
     \<lparr>audio_volume = volume, audio_mute = mute, audio_channel_volumes = volumes, audio_channel_positions = [],
       audio_monitor_mute = None, audio_monitor_volumes = [], audio_soft_mute = None, audio_soft_volumes = [],
       audio_extra = []\<rparr>"

lemma single_values:
  assumes "traverse (\<lambda>item. non_negative_finite item name) items = Inr fs" "traverse float32 fs = Inr es"
    and "list_all isfinite es"
  shows "list_all float_ok es"
  using assms
proof (induction items arbitrary: fs es)
  case (Cons item items)
  then obtain f e fs' es' where *: "non_negative_finite item name = Inr f" "float32 f = Inr e" "fs = f # fs'" "es = e # es'"
      "traverse (\<lambda>item. non_negative_finite item name) items = Inr fs'" "traverse float32 fs' = Inr es'"
    by (auto elim!: rbind_InrE)
  then have "isfinite f" "\<not> float_lt f 0" by (auto simp: non_negative_finite_def split: if_splits elim!: rbind_InrE)
  then show ?case using * float32_ok Cons.IH [OF *(5,6)] Cons.prems(3) by simp
qed simp

lemma audio_fields_entries:
  assumes "audio_fields volume mute channel_volumes = Inr (properties, expected)"
    and "\<forall>(n, v) \<in> set expected. frozen v"
  obtains f b fs where "expected = audio_entries f b fs" "pred_option float_ok f" "list_all float_ok fs"
proof -
  obtain p1 e1 p2 e2 p3 e3 where g: "given_fields volume_fields volume = Inr (p1, e1)" "given_fields mute_fields mute = Inr (p2, e2)"
      "given_fields channel_volume_fields channel_volumes = Inr (p3, e3)" "expected = e1 @ e2 @ e3"
    using assms(1) by (auto simp: audio_fields_def elim!: rbind_InrE)
  have fr: "\<forall>(n, v) \<in> set e1. frozen v" "\<forall>(n, v) \<in> set e3. frozen v" using assms(2) g(4) by auto
  obtain f where f: "e1 = audio_entries f None []" "pred_option float_ok f"
  proof (cases volume)
    case None
    then show thesis using that [of None] g(1) by (simp add: given_fields_def audio_entries_def)
  next
    case (Some v)
    then obtain x e where "non_negative_finite v ''volume'' = Inr x" "float32 x = Inr e" "e1 = [(''volume'', PFloat e)]"
      using g(1) by (auto simp: given_fields_def volume_fields_def elim!: rbind_InrE)
    moreover from this have "isfinite x" "\<not> float_lt x 0" by (auto simp: non_negative_finite_def split: if_splits elim!: rbind_InrE)
    ultimately show thesis using that [of "Some e"] fr(1) float32_ok [of x e] by (simp add: audio_entries_def)
  qed
  obtain b where b: "e2 = audio_entries None b []"
    using g(2) by (cases mute) (auto simp: given_fields_def mute_fields_def audio_entries_def split: pyval.splits
      intro: that [of None] that [of "Some x" for x])
  obtain fs where fs: "e3 = audio_entries None None fs" "list_all float_ok fs"
  proof (cases channel_volumes)
    case None
    then show thesis using that [of "[]"] g(3) by (simp add: given_fields_def audio_entries_def)
  next
    case (Some v)
    then obtain items xs es where c: "traverse (\<lambda>item. non_negative_finite item ''channel_volumes item'') items = Inr xs" "xs \<noteq> []"
        "traverse float32 xs = Inr es" "e3 = [(''channel_volumes'', PTuple (map PFloat es))]"
      using g(3) by (auto simp: given_fields_def channel_volume_fields_def split: option.splits if_splits elim!: rbind_InrE)
    then have "list_all isfinite es" using fr(2) by (simp add: list_all_iff)
    moreover have "es \<noteq> []" using c(2,3) by (cases xs) (auto elim!: rbind_InrE)
    ultimately show thesis using that [of es] c single_values [OF c(1,3)] by (simp add: audio_entries_def)
  qed
  show thesis by (rule that [of f b fs]) (use g(4) f b fs in \<open>simp_all add: audio_entries_def\<close>)
qed

section \<open>The predicates\<close>

definition values_path :: "string \<Rightarrow> identity list" where
  "values_path n = [StrId ''values'', IntId 0, StrId n]"

definition expects :: "MutationTargetValue \<Rightarrow> string \<times> pyval \<Rightarrow> ConfirmationPredicateValue \<Rightarrow> bool" where
  "expects t e p \<longleftrightarrow>
     ConfirmationPredicateValue_ok p \<and> cp_target p = t \<and> cp_operator p = EQUALS \<and> cp_path p = values_path (fst e) \<and>
     cp_expected p = snd e \<and> frozen (snd e)"

lemma values_predicate:
  assumes "equals_predicate t [PStr ''values'', PInt 0, PStr n] v = Inr p" "MutationTargetValue_ok t" "audio_value v"
  shows "expects t (n, v) p"
proof -
  note f = equals_predicate_fields [OF assms(1,2) audio_well_formed [OF assms(3)]]
  then have v: "freeze_json v = Inr (cp_expected p)" using contract_audio_value [OF assms(3)] by simp
  have "cp_path p = values_path n"
    using f by (auto simp: val_path_def val_identity_def val_identifier_def val_integer_def val_required_string_def values_path_def
      elim!: rbind_InrE split: if_splits)
  then show ?thesis
    using f freeze_audio_value [OF assms(3) v] freeze_json_frozen [OF audio_well_formed [OF assms(3)] v] by (simp add: expects_def)
qed

lemma values_predicates:
  assumes "traverse id (map (\<lambda>(n, v). equals_predicate t [PStr ''values'', PInt 0, PStr n] v) expected) = Inr ps"
    and "MutationTargetValue_ok t" "audio_expected expected"
  shows "list_all2 (expects t) expected ps"
  using assms(1,3)
proof (induction expected arbitrary: ps)
  case (Cons e expected)
  obtain n v where e: "e = (n, v)" by (cases e)
  obtain p qs where p: "equals_predicate t [PStr ''values'', PInt 0, PStr n] v = Inr p" "ps = p # qs"
      "traverse id (map (\<lambda>(n, v). equals_predicate t [PStr ''values'', PInt 0, PStr n] v) expected) = Inr qs"
    using Cons.prems(1) e by (auto simp: id_def elim!: rbind_InrE)
  have "audio_value v" "audio_expected expected" using Cons.prems(2) e by (auto simp: audio_expected_def)
  then show ?case using values_predicate [OF p(1) assms(2)] Cons.IH [OF p(3)] p(2) e by auto
qed simp

lemma expects_frozen: "list_all2 (expects t) expected ps \<Longrightarrow> \<forall>(n, v) \<in> set expected. frozen v"
  by (induction expected ps rule: list_all2_induct) (auto simp: expects_def)

section \<open>The parameter a node reports\<close>

lemma audio_entries_keys:
  "map (\<lambda>(n, v). (PStr (audio_key n), as_list_value v)) (audio_entries f b fs) =
     text_items ((case f of None \<Rightarrow> [] | Some x \<Rightarrow> [(''volume'', PFloat x)]) @
       (case b of None \<Rightarrow> [] | Some x \<Rightarrow> [(''mute'', PBool x)]) @
       (if fs = [] then [] else [(''channelVolumes'', PList (map PFloat fs))]))"
  by (cases f; cases b) (simp_all add: audio_entries_def text_items_def audio_key_def as_list_value_def)

lemma plain_scalars:
  "number_value (PFloat x) name = Inr (PFloat x)" "bool_value (PBool c) name = Inr (PBool c)"
  by (simp_all add: number_value_def bool_value_def is_number_def py_float_def)

lemma number_values: "traverse (\<lambda>v. number_value v name) (map PFloat fs) = Inr (map PFloat fs)"
  by (induction fs) (simp_all add: plain_scalars)

lemma array_values_list: "array_values (PList xs) = Inr xs"
  by (subst array_values.simps) (simp add: is_choice_def sequence_of_def)

lemma audio_set_made:
  assumes "pred_option float_ok f" "list_all float_ok fs"
  shows "mk_AudioPropertiesValue (opt_obj PFloat f) (opt_obj PBool b) (PTuple (map PFloat fs)) (PTuple []) PNone (PTuple [])
    PNone (PTuple []) (PDict []) = Inr (audio_set f b fs)"
proof -
  have "val_floats (PTuple (map PFloat fs)) n = Inr fs" "val_floats (PTuple []) n = Inr []" for n
    using val_floats_obj [OF assms(2), of n] val_floats_obj [of "[]" n] by (simp_all add: tuple_obj_def)
  moreover have "val_optional_boolean (opt_obj PBool b) n = Inr b" "val_optional_boolean PNone n = Inr None" for n
    by (cases b; simp add: val_optional_boolean_def val_optional_def val_boolean_def)+
  moreover have "val_runtime_values as_SpaIdValue c (PTuple []) n = Inr []" for c n
    by (simp add: val_runtime_values_def val_items_def)
  moreover have "val_mapping (PDict []) n = Inr []" for n by (simp add: val_mapping_def FrozenDict_init_def)
  ultimately show ?thesis
    using val_optional_float_obj [OF assms(1)] by (simp add: mk_AudioPropertiesValue_def audio_set_def)
qed

lemma read_audio:
  assumes "so_properties ob = map (\<lambda>(n, v). (PStr (audio_key n), as_list_value v)) (audio_entries f b fs)"
    and "pred_option float_ok f" "list_all float_ok fs"
  shows "normalize_audio_properties text_of (spa_object ob) = Inr (audio_set f b fs)"
proof -
  let ?items = "(case f of None \<Rightarrow> [] | Some x \<Rightarrow> [(''volume'', PFloat x)]) @
    (case b of None \<Rightarrow> [] | Some x \<Rightarrow> [(''mute'', PBool x)]) @
    (if fs = [] then [] else [(''channelVolumes'', PList (map PFloat fs))])"
  have props: "so_properties ob = text_items ?items" using assms(1) by (simp add: audio_entries_keys)
  have named: "named_items text_of i (text_items ?items) = ?items" for i
    by (simp add: named_items_def text_items_def normal_name_def split: option.split)
  have "spa_properties text_of (spa_object ob) = Inr ?items"
  proof -
    have "filter (\<lambda>(k, v). case as_str k of Some s \<Rightarrow> s \<notin> set reserved_keys | None \<Rightarrow> True) (text_items ?items) = text_items ?items"
      "dict_get (text_items ?items) ''properties'' = None"
      by (simp_all add: text_items_def reserved_keys_def dict_get_def split: option.split)
    then show ?thesis using named by (simp add: spa_properties_def spa_object_def props)
  qed
  then show ?thesis
    using audio_set_made [OF assms(2,3), of b]
    by (cases f; cases b; cases "fs = []") (simp_all add: normalize_audio_properties_def given_or_def each_value_def
      array_values_list number_values plain_scalars named_items_def text_items_def)
qed

text \<open>What the native layer reports for a node whose \<open>Props\<close> parameter holds one pod.\<close>

definition raw_pod :: "bytes \<Rightarrow> pyval" where
  "raw_pod raw =
     PDict [(PStr ''type'', PInt SPA_TYPE_Object), (PStr ''size'', PInt (int (length raw) - 8)), (PStr ''data'', PBytes raw)]"

definition reported_props :: "int \<Rightarrow> string \<Rightarrow> bool \<Rightarrow> bytes \<Rightarrow> pyval" where
  "reported_props node_id permissions complete raw =
     PDict [(PStr ''owner_type'', PStr ''node''), (PStr ''owner_id'', PInt node_id), (PStr ''id'', PStr ''Props''),
       (PStr ''permissions'', PStr permissions), (PStr ''complete'', PBool complete), (PStr ''values'', PList [raw_pod raw])]"

definition props_parameter :: "int \<Rightarrow> string \<Rightarrow> bool \<Rightarrow> AudioPropertiesValue \<Rightarrow> ParameterValue" where
  "props_parameter node_id permissions complete audio =
     \<lparr>param_owner_type = ''node'', param_owner_id = node_id, param_id = ''Props'', param_permissions = permissions,
       param_values = [AudioPropertiesValue_obj audio], param_properties = [(''complete'', PBool complete)]\<rparr>"

lemma props_parameter_made:
  assumes "0 \<le> node_id"
  shows "mk_ParameterValue (PStr ''node'') (PInt node_id) (PStr ''Props'') (PStr permissions)
      (PTuple [AudioPropertiesValue_obj audio]) (PDict [(PStr ''complete'', PBool complete)]) =
    Inr (props_parameter node_id permissions complete audio)"
    "mk_ParameterValue (PStr ''node'') (PInt node_id) (PStr ''Props'') (PStr permissions)
      (PTuple [AudioPropertiesValue_obj audio]) (PFrozen []) =
    Inr ((props_parameter node_id permissions complete audio)\<lparr>param_properties := []\<rparr>)"
  using assms
  by (simp_all add: mk_ParameterValue_def props_parameter_def val_required_string_def val_identifier_def val_integer_def
    val_contract_values_def val_items_def contract_value_def AudioPropertiesValue_obj_def val_mapping_def FrozenDict_init_def)

lemma props_parameter_ok: "0 \<le> node_id \<Longrightarrow> ParameterValue_ok (props_parameter node_id permissions complete audio)"
  by (simp add: ParameterValue_ok_def props_parameter_def contract_ok_def AudioPropertiesValue_obj_def mapping_ok_def)

lemma decoded_props:
  assumes "0 \<le> node_id" "parse_spa_pod raw 0 = Inr (spa_object ob)"
    and "normalize_audio_properties text_of (spa_object ob) = Inr audio"
  shows "parameter_record text_of path (reported_props node_id permissions complete raw) =
    Inr (props_parameter node_id permissions complete audio)"
proof -
  have "parse_spa_pod_dict (raw_pod raw) = spa_object ob"
    using assms(2) by (simp add: parse_spa_pod_dict_def raw_pod_def dict_get_def)
  moreover have "\<exists>kvs. raw_pod raw = PDict kvs" by (simp add: raw_pod_def)
  moreover have "normalize_spa_parameter text_of ''node'' node_id ''Props'' permissions (PList [spa_object ob]) =
      Inr ((props_parameter node_id permissions complete audio)\<lparr>param_properties := []\<rparr>)"
    using assms(3) props_parameter_made(2) [OF assms(1)]
    by (simp add: normalize_spa_parameter_def parameter_normalizer_def)
  ultimately show ?thesis
    using props_parameter_made(1) [OF assms(1)] assms(1)
    by (auto simp: parameter_record_def reported_props_def payload_mapping_def payload_required_def each_record_def
      payload_sequence_def indexed_items_def required_field_def payload_string_def payload_identifier_def payload_integer_def
      field_or_def props_parameter_def)
qed

section \<open>The confirmation\<close>

lemma serialize_audio_set:
  "serialize (AudioPropertiesValue_obj (audio_set f b fs)) =
    Inr (PDict [(PStr ''schema_version'', PInt 1), (PStr ''value_type'', PStr ''audio_properties''),
      (PStr ''volume'', opt_obj PFloat f), (PStr ''mute'', opt_obj PBool b), (PStr ''channel_volumes'', PList (map PFloat fs)),
      (PStr ''channel_positions'', PList []), (PStr ''monitor_mute'', PNone), (PStr ''monitor_volumes'', PList []),
      (PStr ''soft_mute'', PNone), (PStr ''soft_volumes'', PList []), (PStr ''extra'', PDict [])])"
  by (cases f; cases b) (simp_all add: AudioPropertiesValue_obj_def AudioPropertiesValue_fields_def audio_set_def omitted_def
    omit_none_def serialize_floats tuple_obj_def FrozenDict_to_dict_def)

lemma audio_entry_cases:
  assumes "(n, e) \<in> set (audio_entries f b fs)"
  obtains x where "f = Some x" "n = ''volume''" "e = PFloat x"
  | y where "b = Some y" "n = ''mute''" "e = PBool y"
  | "fs \<noteq> []" "n = ''channel_volumes''" "e = PTuple (map PFloat fs)"
  using assms by (auto simp: audio_entries_def split: option.splits if_splits)

lemma frozen_items: "list_all frozen xs \<Longrightarrow> traverse freeze_json xs = Inr xs"
  by (rule traverse_id) (simp add: list_all_iff)

lemma props_field_observed:
  assumes "(n, e) \<in> set (audio_entries f b fs)" "frozen e" "expects t (n, e) p"
  shows "predicate_matches p (ParameterValue_obj (props_parameter node_id permissions complete (audio_set f b fs))) = Inr True"
proof -
  let ?q = "props_parameter node_id permissions complete (audio_set f b fs)"
  obtain kvs where kvs: "serialize (AudioPropertiesValue_obj (audio_set f b fs)) = Inr (PDict kvs)"
      "dict_get kvs n = Some (as_list_value e)"
    using assms(1) by (cases rule: audio_entry_cases) (simp_all add: serialize_audio_set dict_get_def as_list_value_def)
  obtain v where "serialize (ParameterValue_obj ?q) = Inr v" "resolve_path v (values_path n) = Some (as_list_value e)"
    using kvs by (auto simp: ParameterValue_obj_def ParameterValue_fields_def props_parameter_def omitted_def omit_none_def
      values_path_def dict_get_def FrozenDict_to_dict_def)
  moreover have "comparable (as_list_value e) = Inr e" "comparable e = Inr e"
    using assms(1,2) by (cases rule: audio_entry_cases; simp add: as_list_value_def comparable_def frozen_items)+
  ultimately show ?thesis
    using assms(3) py_eq_refl [OF assms(2)] by (simp add: predicate_matches_def expects_def ParameterValue_obj_def Let_def del: serialize.simps)
qed

lemma props_target_Inr:
  assumes "parameter_target KNode (PInt node_id) (PStr ''Props'') = Inr t"
  shows "0 \<le> node_id \<and> MutationTargetValue_ok t \<and>
    snapshot_observation s t = get_obj ParameterValue_obj (parameters_by_key s) (''node'', node_id, ''Props'')"
proof -
  have t: "0 \<le> node_id" "t = \<lparr>tg_object_kind = KNode, tg_object_id = IntId node_id, tg_selector = [(''parameter_id'', PStr ''Props'')]\<rparr>"
    using assms
    by (auto simp: parameter_target_def mk_MutationTargetValue_def object_kind_obj_def object_kind.val_enum_member val_identity_def
      val_identifier_def val_integer_def val_mapping_def FrozenDict_init_def
      simp del: object_kind_value.simps split: if_splits elim!: rbind_InrE)
  then show ?thesis
    by (simp add: MutationTargetValue_ok_def mapping_ok_def snapshot_observation_def selector_def both_def int_or_bool_def Let_def)
qed

lemma list_all2_source: "list_all2 P xs ys \<Longrightarrow> y \<in> set ys \<Longrightarrow> \<exists>x \<in> set xs. P x y"
  by (induction xs ys rule: list_all2_induct) auto

text \<open>Every predicate of the request holds of a snapshot with the parameter.\<close>

lemma props_confirmed:
  assumes "list_all2 (expects t) (audio_entries f b fs) ps" "parameter_target KNode (PInt node_id) (PStr ''Props'') = Inr t"
    and "RuntimeSnapshot_ok s" "props_parameter node_id permissions complete (audio_set f b fs) \<in> set (snap_parameters s)"
  shows "\<exists>cs. confirmations_from_snapshot s ps = Inr cs \<and> length cs = length ps"
proof -
  let ?q = "props_parameter node_id permissions complete (audio_set f b fs)"
  have "map_of (parameters_by_key s) (''node'', node_id, ''Props'') = Some ?q"
    using identity_lookup [OF assms(3)] assms(4) by (simp add: props_parameter_def)
  then have obs: "snapshot_observation s t = ParameterValue_obj ?q"
    using props_target_Inr [OF assms(2)] by (simp add: get_obj_def)
  have p: "ConfirmationPredicateValue_ok p \<and> predicate_matches p (snapshot_observation s (cp_target p)) = Inr True" if p: "p \<in> set ps" for p
  proof -
    obtain e where e: "e \<in> set (audio_entries f b fs)" "expects t e p"
      using list_all2_source [OF assms(1) p] by blast
    obtain n v where nv: "e = (n, v)" by (cases e)
    have "frozen v" using e(2) nv by (simp add: expects_def)
    from props_field_observed [OF e(1) [unfolded nv] this e(2) [unfolded nv], of node_id permissions complete]
    show ?thesis using e(2) obs by (simp add: expects_def)
  qed
  then show ?thesis using confirmations_total [OF assms(3), of ps] by (fastforce simp: list_all_iff)
qed

text \<open>
  C10. A request for audio properties is confirmed by its own effect: when the node reports the pod the
  control sent as its \<open>Props\<close> parameter, the snapshot decoder accepts it, and a snapshot with this
  parameter satisfies every predicate of the request, whatever volumes, mute flag and channel
  volumes were asked for.\<close>

theorem audio_echo_confirmed:
  assumes "audio_request (PInt node_id) volume mute channel_volumes = Inr (value, predicates)" "2 < limit"
    and "\<forall>v xs. channel_volumes = Some v \<longrightarrow> as_seq v = Some xs \<longrightarrow> length xs < 1000000000"
  shows "\<exists>raw parameter ps. parameter_pod_bytes limit text_of value PNone = Inr raw \<and>
    parameter_record text_of path (reported_props node_id permissions complete raw) = Inr parameter \<and>
    ParameterValue_ok parameter \<and> predicates = tuple_obj ConfirmationPredicateValue_obj ps \<and>
    (\<forall>s. RuntimeSnapshot_ok s \<longrightarrow> parameter \<in> set (snap_parameters s) \<longrightarrow>
       (\<exists>cs. confirmations_from_snapshot s ps = Inr cs \<and> length cs = length ps))"
proof -
  obtain raw ob expected target properties where r: "parameter_pod_bytes limit text_of value PNone = Inr raw"
      "parse_spa_pod raw 0 = Inr (spa_object ob)" "audio_fields volume mute channel_volumes = Inr (properties, expected)"
      "so_properties ob = map (\<lambda>(n, v). (PStr (audio_key n), as_list_value v)) expected"
      "parameter_target KNode (PInt node_id) (PStr ''Props'') = Inr target"
      "predicate_tuple (map (\<lambda>(n, v). equals_predicate target [PStr ''values'', PInt 0, PStr n] v) expected) = Inr predicates"
    using audio_request_pod [OF assms, of text_of] by blast
  obtain ps where ps: "traverse id (map (\<lambda>(n, v). equals_predicate target [PStr ''values'', PInt 0, PStr n] v) expected) = Inr ps"
      "predicates = tuple_obj ConfirmationPredicateValue_obj ps"
    using r(6) by (auto simp: predicate_tuple_def elim!: rbind_InrE)
  have t: "0 \<le> node_id" "MutationTargetValue_ok target" using props_target_Inr [OF r(5)] by blast+
  have e: "list_all2 (expects target) expected ps"
    by (rule values_predicates [OF ps(1) t(2) audio_fields_expected [OF r(3)]])
  obtain f b fs where a: "expected = audio_entries f b fs" "pred_option float_ok f" "list_all float_ok fs"
    using audio_fields_entries [OF r(3) expects_frozen [OF e]] by blast
  have "parameter_record text_of path (reported_props node_id permissions complete raw) =
      Inr (props_parameter node_id permissions complete (audio_set f b fs))"
    using decoded_props [OF t(1) r(2) read_audio [OF r(4) [unfolded a(1)] a(2,3)]] .
  with props_confirmed [OF e [unfolded a(1)] r(5)] props_parameter_ok [OF t(1)] r(1) ps(2) show ?thesis by blast
qed

text \<open>A snapshot with one parameter of a node.\<close>

definition echo_snapshot :: "ParameterValue \<Rightarrow> RuntimeSnapshot" where
  "echo_snapshot parameter =
     (let s = (sample_snapshot 5 [])\<lparr>snap_parameters := [parameter], parameters_by_key := [(parameter_key parameter, parameter)]\<rparr>
      in s\<lparr>snap_unresolved_relationships := find_unresolved_relationships s\<rparr>)"

lemma echo_snapshot_ok:
  assumes "ParameterValue_ok parameter"
  shows "RuntimeSnapshot_ok (echo_snapshot parameter)" "snap_parameters (echo_snapshot parameter) = [parameter]"
proof -
  have ok: "RuntimeSnapshot_ok (sample_snapshot 5 [])" by simp
  show "RuntimeSnapshot_ok (echo_snapshot parameter)"
    unfolding echo_snapshot_def Let_def
    by (rule RuntimeSnapshot_okI) (use ok assms in \<open>simp_all add: RuntimeSnapshot_ok_def indexed_def unique_index_eq\<close>)
qed (simp add: echo_snapshot_def Let_def)

theorem audio_echo_confirmed_witness:
  "\<exists>v ps raw parameter cs. audio_request (PInt 10) None (Some (PBool False)) half_volumes =
       Inr (v, tuple_obj ConfirmationPredicateValue_obj ps) \<and>
     parameter_pod_bytes 3 (\<lambda>v. []) v PNone = Inr raw \<and>
     parameter_record (\<lambda>v. []) ''$'' (reported_props 10 ''rw'' True raw) = Inr parameter \<and>
     confirmations_from_snapshot (echo_snapshot parameter) ps = Inr cs \<and> length cs = length ps"
proof -
  obtain v predicates where r: "audio_request (PInt 10) None (Some (PBool False)) half_volumes = Inr (v, predicates)"
      and l: "\<forall>v xs. half_volumes = Some v \<longrightarrow> as_seq v = Some xs \<longrightarrow> length xs < 1000000000"
    by (rule half_request)
  obtain raw parameter ps where e: "parameter_pod_bytes 3 (\<lambda>v. []) v PNone = Inr raw"
      "parameter_record (\<lambda>v. []) ''$'' (reported_props 10 ''rw'' True raw) = Inr parameter"
      "ParameterValue_ok parameter" "predicates = tuple_obj ConfirmationPredicateValue_obj ps"
      "\<And>s. RuntimeSnapshot_ok s \<Longrightarrow> parameter \<in> set (snap_parameters s) \<Longrightarrow>
         \<exists>cs. confirmations_from_snapshot s ps = Inr cs \<and> length cs = length ps"
    using audio_echo_confirmed [OF r _ l, of 3 "\<lambda>v. []" "''$''" "''rw''" True] by auto
  obtain cs where "confirmations_from_snapshot (echo_snapshot parameter) ps = Inr cs" "length cs = length ps"
    using echo_snapshot_ok [OF e(3)] e(5) [of "echo_snapshot parameter"] by auto
  with r e(1,2,4) show ?thesis by blast
qed

end
