(* ===== verification/EventPayload.thy ===== *)
theory EventPayload
  imports SnapshotPayload
begin

text \<open>
  The decoding of the events the native connection publishes,
  \<open>runtime_event_from_payload\<close>, \<open>next_runtime_event\<close> and \<open>drain_runtime_events\<close> of
  \<open>src/src/wyreplumber/runtime/events.py\<close>.  The state an event carries is decoded by the
  decoders of a snapshot; a record they refuse is kept as plain JSON.
\<close>

section \<open>The state of an event\<close>

definition is_payload_error :: "exn \<Rightarrow> bool" where
  "is_payload_error e = (case e of RuntimePayloadError code message path \<Rightarrow> True | _ \<Rightarrow> False)"

text \<open>The decoder of a record, by the kind of the event and of its object; \<open>(record,)[0]\<close> of its result.\<close>

definition single :: "('a \<Rightarrow> pyval) \<Rightarrow> (pyval \<Rightarrow> exn + 'a list) \<Rightarrow> pyval \<Rightarrow> exn + pyval" where
  "single obj decode record = rbind (decode (PTuple [record])) (\<lambda>xs. Inr (obj (hd xs)))"

definition state_decoder ::
    "(pyval \<Rightarrow> string) \<Rightarrow> RuntimeEventKind \<Rightarrow> RuntimeObjectKind \<Rightarrow> int \<Rightarrow> (pyval \<Rightarrow> exn + pyval) option" where
  "state_decoder text_of kind object_kind generation =
     (let of_object = kind \<in> {OBJECT_ADDED, OBJECT_REMOVED, OBJECT_CHANGED}
      in if of_object \<and> object_kind = KDevice then Some (single DeviceValue_obj (payload_devices [] []))
         else if of_object \<and> object_kind = KNode then Some (single NodeValue_obj (payload_nodes [] []))
         else if of_object \<and> object_kind = KPort then Some (single PortValue_obj payload_ports)
         else if of_object \<and> object_kind = KLink then Some (single LinkValue_obj payload_links)
         else if of_object \<and> object_kind = KMetadata then Some (single MetadataValue_obj payload_metadata)
         else if object_kind = KParameter then Some (single ParameterValue_obj (payload_parameters text_of))
         else if object_kind = KConnection
         then Some (\<lambda>record. rbind (payload_health record generation) (\<lambda>h. Inr (ConnectionHealthValue_obj h)))
         else None)"

definition event_state ::
    "(pyval \<Rightarrow> string) \<Rightarrow> RuntimeEventKind \<Rightarrow> RuntimeObjectKind \<Rightarrow> int \<Rightarrow> pyval \<Rightarrow> exn + pyval" where
  "event_state text_of kind object_kind generation value =
     (if value = PNone then Inr PNone
      else rbind (payload_mapping value ''$.event_state'') (\<lambda>_.
           case state_decoder text_of kind object_kind generation of
             None \<Rightarrow> normalize_json text_of value
           | Some decode \<Rightarrow> catching is_payload_error (decode value) (\<lambda>e. normalize_json text_of value)))"

section \<open>The event\<close>

definition event_fields :: "string list" where
  "event_fields =
     [''payload_version'', ''generation'', ''sequence'', ''occurred_at'', ''kind'', ''object_kind'', ''object_id'',
      ''current'', ''previous'', ''requires_resnapshot'', ''reason'']"

definition runtime_event_from_payload :: "(pyval \<Rightarrow> string) \<Rightarrow> pyval \<Rightarrow> exn + RuntimeEvent" where
  "runtime_event_from_payload text_of payload =
     (case as_mapping payload of
        None \<Rightarrow> payload_error ''invalid_event_payload'' ''payload must be a mapping'' ''$''
      | Some kvs \<Rightarrow>
          rbind (validate_detached ''$'' payload) (\<lambda>_.
          rbind (exact_keys event_fields kvs
                   (RuntimePayloadError ''missing_fields'' ''missing event payload field(s): '' ''$'')
                   (RuntimePayloadError ''unknown_fields'' ''unknown event payload field(s): '' ''$'')) (\<lambda>_.
          rbind (check (py_eq (dict_item kvs ''payload_version'') (PInt 1) \<and>
                        as_bool (dict_item kvs ''payload_version'') = None)
                   (RuntimePayloadError ''unsupported_event_payload_version'' ''expected 1'' ''$.payload_version'')) (\<lambda>_.
          rbind (catching type_or_value_error
                   (rbind (val_enum event_kind_value event_kind_members (dict_item kvs ''kind'') ''kind'') (\<lambda>kind.
                    rbind (val_enum object_kind_value object_kind_members (dict_item kvs ''object_kind'') ''object_kind'')
                      (\<lambda>object_kind. Inr (kind, object_kind))))
                   (\<lambda>e. payload_error ''invalid_event_kind'' (exn_message e) ''$'')) (\<lambda>(kind, object_kind).
          rbind (val_identifier (dict_item kvs ''generation'') ''generation'') (\<lambda>generation.
          rbind (val_identifier (dict_item kvs ''sequence'') ''sequence'') (\<lambda>sequence.
          let reason = dict_item kvs ''reason''; requires = dict_item kvs ''requires_resnapshot''
          in rbind (check (reason = PNone \<or> as_str reason \<noteq> None)
                      (RuntimePayloadError ''invalid_event_reason'' ''reason must be a string or null'' ''$'')) (\<lambda>_.
             rbind (check (as_bool requires \<noteq> None)
                      (RuntimePayloadError ''invalid_resnapshot_flag'' ''requires_resnapshot must be a boolean'' ''$'')) (\<lambda>_.
             catching type_or_value_error
               (rbind (event_state text_of kind object_kind generation (dict_item kvs ''current'')) (\<lambda>current.
                rbind (event_state text_of kind object_kind generation (dict_item kvs ''previous'')) (\<lambda>previous.
                mk_RuntimeEvent (PInt generation) (PInt sequence) (dict_item kvs ''occurred_at'')
                  (PStrEnum ''RuntimeEventKind'' (event_kind_value kind))
                  (PStrEnum ''RuntimeObjectKind'' (object_kind_value object_kind)) (dict_item kvs ''object_id'')
                  current previous requires reason)))
               (\<lambda>e. payload_error ''invalid_event'' (exn_message e) ''$''))))))))))"

section \<open>Reading from a connection\<close>

text \<open>
  The methods of the native connection are parameters; \<open>None\<close> is a connection without the method.
  The connection keeps its own queue of payloads, the state \<open>'w\<close>.
\<close>

definition next_runtime_event ::
    "(pyval \<Rightarrow> string) \<Rightarrow> (pyval \<Rightarrow> pyval \<Rightarrow> 'w \<Rightarrow> (exn + pyval) \<times> 'w) option \<Rightarrow> pyval \<Rightarrow> pyval \<Rightarrow> 'w \<Rightarrow>
     (exn + RuntimeEvent option) \<times> 'w" where
  "next_runtime_event text_of read block timeout w =
     (case read of
        None \<Rightarrow> (Inl (TypeError ''connection must provide next_runtime_event_payload()''), w)
      | Some f \<Rightarrow>
          (case f block timeout w of
             (r, w') \<Rightarrow>
               (rbind r (\<lambda>payload.
                if payload = PNone then Inr None
                else rbind (runtime_event_from_payload text_of payload) (\<lambda>e. Inr (Some e))), w')))"

definition drain_runtime_events ::
    "(pyval \<Rightarrow> string) \<Rightarrow> (pyval \<Rightarrow> 'w \<Rightarrow> (exn + pyval list) \<times> 'w) option \<Rightarrow> pyval \<Rightarrow> 'w \<Rightarrow>
     (exn + RuntimeEvent list) \<times> 'w" where
  "drain_runtime_events text_of drain max_events w =
     (case drain of
        None \<Rightarrow> (Inl (TypeError ''connection must provide drain_runtime_event_payloads()''), w)
      | Some f \<Rightarrow>
          (case f max_events w of
             (r, w') \<Rightarrow> (rbind r (traverse (runtime_event_from_payload text_of)), w')))"

section \<open>What an event carries\<close>

lemma normalize_mapping:
  "payload_mapping value p = Inr record \<Longrightarrow> normalize_json text_of value = Inr j \<Longrightarrow> \<exists>kvs. j = PDict kvs"
  by (cases "value") (auto simp: payload_mapping_def payload_error_def elim!: rbind_InrE)

lemma single_Inr: "single obj decode record = Inr v \<Longrightarrow> \<exists>xs. decode (PTuple [record]) = Inr xs \<and> v = obj (hd xs)"
  by (auto simp: single_def elim!: rbind_InrE)

lemma each_record_single: "each_record f (PTuple [v]) path = rbind (f (item_path path 0) v) (\<lambda>x. Inr [x])"
  by (simp add: each_record_def payload_sequence_def indexed_items_def)

text \<open>The state of an event is the object of a decoded value, or plain JSON.\<close>

definition relations_of :: "pyval \<Rightarrow> int list" where
  "relations_of v =
     (case as_NodeValue v of
        Some n \<Rightarrow> nd_input_port_ids n @ nd_output_port_ids n
      | None \<Rightarrow> (case as_DeviceValue v of Some d \<Rightarrow> dev_profile_ids d @ dev_route_ids d | None \<Rightarrow> []))"

lemma other_tag:
  "t \<noteq> ''node'' \<Longrightarrow> as_NodeValue (PValue t fs) = None" "t \<noteq> ''device'' \<Longrightarrow> as_DeviceValue (PValue t fs) = None"
  by (simp_all add: as_NodeValue_def as_DeviceValue_def instance_of_def)

lemma relations_of_node: "nd_input_port_ids n = [] \<Longrightarrow> nd_output_port_ids n = [] \<Longrightarrow> relations_of (NodeValue_obj n) = []"
  by (auto simp: relations_of_def NodeValue_obj_def other_tag split: option.split dest: NodeValue_again [unfolded NodeValue_obj_def])

lemma relations_of_device: "dev_profile_ids d = [] \<Longrightarrow> dev_route_ids d = [] \<Longrightarrow> relations_of (DeviceValue_obj d) = []"
  by (auto simp: relations_of_def DeviceValue_obj_def other_tag split: option.split dest: DeviceValue_again [unfolded DeviceValue_obj_def])

lemma relations_of_plain: "(\<And>t fs. v \<noteq> PValue t fs) \<Longrightarrow> relations_of v = []"
  by (cases v) (auto simp: relations_of_def as_NodeValue_def as_DeviceValue_def instance_of_def)

lemma relations_of_others:
  "relations_of (PortValue_obj p) = []" "relations_of (LinkValue_obj l) = []" "relations_of (MetadataValue_obj m) = []"
  "relations_of (ParameterValue_obj q) = []" "relations_of (ConnectionHealthValue_obj h) = []"
  by (simp_all add: relations_of_def PortValue_obj_def LinkValue_obj_def MetadataValue_obj_def ParameterValue_obj_def
    ConnectionHealthValue_obj_def other_tag)

lemma state_decoder_relations:
  assumes "state_decoder text_of kind object_kind generation = Some decode" "decode record = Inr v"
  shows "relations_of v = [] \<and> (\<exists>t fs. v = PValue t fs)"
proof -
  have n: "relations_of v = [] \<and> (\<exists>t fs. v = PValue t fs)" if "single NodeValue_obj (payload_nodes [] []) record = Inr v"
    using that by (auto simp: payload_nodes_def each_record_single ids_of_def NodeValue_obj_def elim!: rbind_InrE dest!: single_Inr
      node_record_ids intro!: relations_of_node [unfolded NodeValue_obj_def])
  have d: "relations_of v = [] \<and> (\<exists>t fs. v = PValue t fs)" if "single DeviceValue_obj (payload_devices [] []) record = Inr v"
    using that by (auto simp: payload_devices_def each_record_single ids_of_def DeviceValue_obj_def elim!: rbind_InrE dest!: single_Inr
      device_record_ids intro!: relations_of_device [unfolded DeviceValue_obj_def])
  have o: "relations_of v = [] \<and> (\<exists>t fs. v = PValue t fs)"
    if "(\<exists>x. v = PortValue_obj x) \<or> (\<exists>x. v = LinkValue_obj x) \<or> (\<exists>x. v = MetadataValue_obj x) \<or>
      (\<exists>x. v = ParameterValue_obj x) \<or> (\<exists>x. v = ConnectionHealthValue_obj x)"
    using that relations_of_others by (auto simp: PortValue_obj_def LinkValue_obj_def MetadataValue_obj_def
      ParameterValue_obj_def ConnectionHealthValue_obj_def)
  show ?thesis
    using assms n d by (auto simp: state_decoder_def Let_def split: if_splits elim!: rbind_InrE dest!: single_Inr intro!: o)
qed

lemma event_state_relations:
  assumes "event_state text_of kind object_kind generation value = Inr v" "contract_value v = Inr w"
  shows "relations_of w = []"
proof (cases "value = PNone")
  case True
  with assms show ?thesis by (auto simp: event_state_def contract_value_def relations_of_plain)
next
  case False
  then obtain items where items: "payload_mapping value ''$.event_state'' = Inr items"
    using assms(1) by (auto simp: event_state_def elim: rbind_InrE)
  have plain: "relations_of w = []" if n: "normalize_json text_of value = Inr v"
  proof -
    obtain kvs where "v = PDict kvs" using normalize_mapping [OF items n] by blast
    then show ?thesis
      using assms(2) freeze_dict_PFrozen [of kvs w] by (auto simp: contract_value_def relations_of_plain simp del: freeze_json.simps)
  qed
  have decoded: "relations_of w = []"
    if "state_decoder text_of kind object_kind generation = Some decode" "decode value = Inr v" for decode
    using state_decoder_relations [OF that] assms(2) by (auto simp: contract_value_def)
  show ?thesis
    using assms(1) False items plain decoded
    by (auto simp: event_state_def catching_Inr_iff split: option.splits)
qed

lemma decoded_event_parts:
  assumes "runtime_event_from_payload text_of payload = Inr e"
  obtains kvs kind object_kind current previous where "as_mapping payload = Some kvs"
    "event_state text_of kind object_kind (ev_generation e) (dict_item kvs ''current'') = Inr current"
    "event_state text_of kind object_kind (ev_generation e) (dict_item kvs ''previous'') = Inr previous"
    "contract_value current = Inr (ev_current e)" "contract_value previous = Inr (ev_previous e)"
    "as_int (dict_item kvs ''generation'') = Some (ev_generation e)" "as_int (dict_item kvs ''sequence'') = Some (ev_sequence e)"
    "as_str (dict_item kvs ''kind'') = Some (event_kind_value (ev_kind e))"
    "as_str (dict_item kvs ''object_kind'') = Some (object_kind_value (ev_object_kind e))"
    "as_bool (dict_item kvs ''requires_resnapshot'') = Some (ev_requires_resnapshot e)"
proof -
  obtain kvs where kvs: "as_mapping payload = Some kvs"
    using assms by (auto simp: runtime_event_from_payload_def payload_error_def split: option.splits)
  from assms kvs obtain kind object_kind g q current previous
    where kinds: "val_enum event_kind_value event_kind_members (dict_item kvs ''kind'') ''kind'' = Inr kind"
        "val_enum object_kind_value object_kind_members (dict_item kvs ''object_kind'') ''object_kind'' = Inr object_kind"
      and ids: "val_identifier (dict_item kvs ''generation'') ''generation'' = Inr g"
        "val_identifier (dict_item kvs ''sequence'') ''sequence'' = Inr q"
      and states: "event_state text_of kind object_kind g (dict_item kvs ''current'') = Inr current"
        "event_state text_of kind object_kind g (dict_item kvs ''previous'') = Inr previous"
      and mk: "mk_RuntimeEvent (PInt g) (PInt q) (dict_item kvs ''occurred_at'')
          (PStrEnum ''RuntimeEventKind'' (event_kind_value kind)) (PStrEnum ''RuntimeObjectKind'' (object_kind_value object_kind))
          (dict_item kvs ''object_id'') current previous (dict_item kvs ''requires_resnapshot'') (dict_item kvs ''reason'') = Inr e"
    unfolding runtime_event_from_payload_def
    by (auto simp: Let_def catching_Inr_iff payload_error_def elim!: rbind_InrE)
  from mk have "ev_generation e = g \<and> ev_sequence e = q \<and> ev_kind e = kind \<and> ev_object_kind e = object_kind \<and>
      contract_value current = Inr (ev_current e) \<and> contract_value previous = Inr (ev_previous e) \<and>
      as_bool (dict_item kvs ''requires_resnapshot'') = Some (ev_requires_resnapshot e)"
    unfolding mk_RuntimeEvent_def
    by (auto simp: event_kind_val_enum object_kind_val_enum validator_simps elim!: rbind_InrE dest!: again)
  then show thesis
    using that [OF kvs] states kinds ids event_kind.val_enum_iff object_kind.val_enum_iff by (auto simp: validator_simps)
qed

section \<open>Errors\<close>

lemma traverse_Inl: "traverse f xs = Inl e \<Longrightarrow> \<exists>x \<in> set xs. f x = Inl e"
proof (induction xs)
  case (Cons x xs)
  then show ?case by (cases "f x"; cases "traverse f xs") auto
qed simp

lemma traverse_item: "traverse f xs = Inr ys \<Longrightarrow> \<forall>x \<in> set xs. \<exists>y. f x = Inr y"
  by (induction xs arbitrary: ys) (auto simp: rbind_eq_Inr_iff)

lemma leak_error: "leak message path = Inl e \<Longrightarrow> is_payload_error e" "payload_error c m p = Inl e \<Longrightarrow> is_payload_error e"
  by (auto simp: leak_def payload_error_def is_payload_error_def)

lemma validate_detached_error: "validate_detached path v = Inl e \<Longrightarrow> is_payload_error e"
  by (induction path v rule: validate_detached.induct)
    (fastforce simp: rbind_eq_Inl_iff dest!: traverse_Inl leak_error split: option.splits)+

lemma detached_keys:
  assumes "as_mapping payload = Some kvs" "validate_detached path payload = Inr u"
  shows "list_all (\<lambda>kv. as_str (fst kv) \<noteq> None) kvs"
  using assms
  by (cases payload) (auto simp: list_all_iff rbind_eq_Inr_iff leak_def payload_error_def dest!: traverse_item dest: bspec
    split: option.splits)

text \<open>What escapes the decoder as something else than a payload error.\<close>

definition identifier_errors :: "exn list" where
  "identifier_errors =
     [TypeError ''generation must be an integer'', ValueError ''generation must be non-negative'',
      TypeError ''sequence must be an integer'', ValueError ''sequence must be non-negative'']"

lemma catching_payload_error:
  "catching type_or_value_error r (\<lambda>e. payload_error c (m e) p) = Inl e \<Longrightarrow> is_payload_error e \<or> \<not> type_or_value_error e"
  by (auto simp: catching_def is_payload_error_def payload_error_def split: sum.splits if_splits)

lemma val_identifier_error:
  "val_identifier v n = Inl e \<Longrightarrow>
     e = TypeError (n @ '' must be an integer'') \<or> e = ValueError (n @ '' must be non-negative'')"
  by (auto simp: val_identifier_def val_integer_def rbind_eq_Inl_iff split: option.splits if_splits)

lemma exact_keys_error:
  "exact_keys required kvs missing_error unknown_error = Inl e \<Longrightarrow> list_all (\<lambda>kv. as_str (fst kv) \<noteq> None) kvs \<Longrightarrow>
     e = missing_error \<or> e = unknown_error"
  by (auto simp: exact_keys_def Let_def list_all_iff split: if_splits)

text \<open>
  C19. A native event payload that cannot be decoded raises a \<open>RuntimePayloadError\<close>, with two
  exceptions: the type and value errors of a bad generation or sequence, which the value
  validators raise unwrapped, and errors that are neither type nor value errors.
\<close>

theorem event_decoding_errors:
  assumes "runtime_event_from_payload text_of payload = Inl e"
  shows "is_payload_error e \<or> e \<in> set identifier_errors \<or> \<not> type_or_value_error e"
proof (cases "as_mapping payload")
  case None
  with assms show ?thesis by (auto simp: runtime_event_from_payload_def dest: leak_error)
next
  case (Some kvs)
  have keys: "exact_keys required kvs (RuntimePayloadError c m p) (RuntimePayloadError c' m' p') = Inl e \<Longrightarrow>
      validate_detached ''$'' payload = Inr u \<Longrightarrow> is_payload_error e" for required c m p c' m' p' u e
    using detached_keys [OF Some] exact_keys_error by (fastforce simp: is_payload_error_def)
  have "check c (RuntimePayloadError a m p) = Inl e \<Longrightarrow> is_payload_error e" for c a m p and e
    by (simp add: is_payload_error_def)
  with assms Some keys show ?thesis
    unfolding runtime_event_from_payload_def
    by (auto simp: rbind_eq_Inl_iff Let_def identifier_errors_def dest: validate_detached_error dest!: catching_payload_error
      val_identifier_error)
qed

section \<open>An example\<close>

definition sample_event_payload :: "pyval \<Rightarrow> pyval" where
  "sample_event_payload generation = dict_of
     [(''payload_version'', PInt 1), (''generation'', generation), (''sequence'', PInt 10),
      (''occurred_at'', PStr ''1970-01-01T00:00:00+00:00''), (''kind'', PStr ''object_changed''), (''object_kind'', PStr ''node''),
      (''object_id'', PInt 50), (''current'', dict_of [(''id'', PInt 50), (''state'', PInt 3)]), (''previous'', PNone),
      (''requires_resnapshot'', PBool False), (''reason'', PNone)]"

lemma sample_event_refused:
  "runtime_event_from_payload (\<lambda>_. []) (sample_event_payload (PStr ''3'')) = Inl (TypeError ''generation must be an integer'')"
  by code_simp

theorem event_decoding_errors_witness:
  "is_payload_error (TypeError ''generation must be an integer'') \<or>
   TypeError ''generation must be an integer'' \<in> set identifier_errors \<or>
   \<not> type_or_value_error (TypeError ''generation must be an integer'')"
  by (rule event_decoding_errors) (rule sample_event_refused)

text \<open>What is checked of the event that is decoded: its position and the ports of the node it carries.\<close>

lemma sample_event_parts:
  "map_sum (\<lambda>e. e) (\<lambda>e. (ev_generation e, ev_sequence e, ev_kind e, ev_object_kind e, ev_object_id e,
       ev_requires_resnapshot e, map_option nd_state (as_NodeValue (ev_current e))))
     (runtime_event_from_payload (\<lambda>_. []) (sample_event_payload (PInt 3))) =
   Inr (3, 10, OBJECT_CHANGED, KNode, IntId 50, False, Some NodeRunning)"
  by code_simp

lemma sample_event_decoded:
  obtains e where "runtime_event_from_payload (\<lambda>_. []) (sample_event_payload (PInt 3)) = Inr e" "ev_generation e = 3"
    "ev_sequence e = 10" "ev_kind e = OBJECT_CHANGED" "ev_object_kind e = KNode" "ev_object_id e = IntId 50"
    "\<not> ev_requires_resnapshot e" "map_option nd_state (as_NodeValue (ev_current e)) = Some NodeRunning"
  using sample_event_parts by (cases "runtime_event_from_payload (\<lambda>_. []) (sample_event_payload (PInt 3))") auto

text \<open>
  C18. An event decoded from a native payload has the generation, sequence, kind, object kind and
  resnapshot flag of the payload, and the state it carries never names a relation: a node in it
  has no ports and a device in it no profiles or routes, whatever the snapshot says of them.
\<close>

theorem decoded_event:
  assumes "runtime_event_from_payload text_of payload = Inr e"
  shows "(\<exists>kvs. as_mapping payload = Some kvs \<and>
      as_int (dict_item kvs ''generation'') = Some (ev_generation e) \<and>
      as_int (dict_item kvs ''sequence'') = Some (ev_sequence e) \<and>
      as_str (dict_item kvs ''kind'') = Some (event_kind_value (ev_kind e)) \<and>
      as_str (dict_item kvs ''object_kind'') = Some (object_kind_value (ev_object_kind e)) \<and>
      as_bool (dict_item kvs ''requires_resnapshot'') = Some (ev_requires_resnapshot e)) \<and>
    relations_of (ev_current e) = [] \<and> relations_of (ev_previous e) = []"
  using decoded_event_parts [OF assms] event_state_relations by metis

theorem decoded_event_witness:
  "\<exists>e n. runtime_event_from_payload (\<lambda>_. []) (sample_event_payload (PInt 3)) = Inr e \<and>
     as_NodeValue (ev_current e) = Some n \<and> nd_state n = NodeRunning \<and>
     nd_input_port_ids n = [] \<and> nd_output_port_ids n = []"
proof -
  obtain e where e: "runtime_event_from_payload (\<lambda>_. []) (sample_event_payload (PInt 3)) = Inr e"
    "map_option nd_state (as_NodeValue (ev_current e)) = Some NodeRunning"
    by (rule sample_event_decoded)
  then obtain n where n: "as_NodeValue (ev_current e) = Some n" "nd_state n = NodeRunning" by auto
  have "relations_of (ev_current e) = []" using decoded_event [OF e(1)] by (rule conjE) (erule conjE)
  then have "nd_input_port_ids n = [] \<and> nd_output_port_ids n = []" by (simp add: relations_of_def n(1))
  then show ?thesis by (intro exI [of _ e] exI [of _ n] conjI e(1) n) simp_all
qed

end
