(* ===== verification/EventProjection.thy ===== *)
theory EventProjection
  imports EventPayload Projection
begin

text \<open>
  The events of a native connection in the reference consumer: what an incremental update does
  to the relations that the snapshot established between the objects of a projection.
\<close>

lemma put_objects_other: "k \<noteq> kind \<Longrightarrow> map_of (put_objects kind ident obj vs objects) (k, i) = map_of objects (k, i)"
  unfolding put_objects_def by (induction vs arbitrary: objects) auto

lemma put_objects_absent: "i \<notin> ident ` set vs \<Longrightarrow>
  map_of (put_objects kind ident obj vs objects) (kind, i) = map_of objects (kind, i)"
  unfolding put_objects_def by (induction vs arbitrary: objects) auto

lemma put_objects_member:
  "distinct (map ident vs) \<Longrightarrow> v \<in> set vs \<Longrightarrow> map_of (put_objects kind ident obj vs objects) (kind, ident v) = Some (obj v)"
proof (induction vs arbitrary: objects)
  case (Cons u vs)
  show ?case
  proof (cases "v = u")
    case True
    then have "ident v \<notin> ident ` set vs" using Cons.prems by auto
    then show ?thesis using put_objects_absent [of "ident v" ident vs kind obj] True by (simp add: put_objects_def)
  next
    case False
    then show ?thesis using Cons by (simp add: put_objects_def)
  qed
qed simp

lemma projected_port:
  assumes "indexed s" "p \<in> set (snap_ports s)"
  shows "objects_map (projection_from_snapshot s) (KPort, IntId (pt_id p)) = Some (PortValue_obj p)"
proof -
  have "distinct (map pt_id (snap_ports s))" using assms(1) by (auto simp: indexed_def unique_index_eq split: if_splits)
  then have "distinct (map (\<lambda>v. IntId (pt_id v)) (snap_ports s))" by (simp add: distinct_map inj_on_def)
  then show ?thesis
    using assms(2) put_objects_member [where ident = "\<lambda>v. IntId (pt_id v)"]
    by (simp add: objects_map_def projection_from_snapshot_def Let_def put_objects_other)
qed

lemma decoded_event_relations:
  assumes "runtime_event_from_payload text_of payload = Inr e"
  shows "relations_of (ev_current e) = []"
  using decoded_event_parts [OF assms] event_state_relations by metis

text \<open>
  C20. A node of a decoded snapshot lists its ports, but a decoded event about that node, applied
  to the projection of the snapshot, replaces it by one without ports while the ports themselves
  stay in the projection: incremental updates lose the relations of the objects they change.
\<close>

theorem projected_node_loses_ports:
  assumes "runtime_snapshot_from_payload text_of payload = Inr s" "n \<in> set (snap_nodes s)" "p \<in> set (snap_ports s)"
    and "pt_node_id p = nd_id n" "runtime_event_from_payload text_of event_payload = Inr e" "ev_kind e = OBJECT_CHANGED"
    and "ev_object_kind e = KNode" "ev_object_id e = IntId (nd_id n)" "ev_current e \<noteq> PNone"
    and "projection_apply e (projection_from_snapshot s) = Inr p'"
  shows "pt_id p \<in> set (nd_input_port_ids n @ nd_output_port_ids n) \<and>
    objects_map p' (KPort, IntId (pt_id p)) = Some (PortValue_obj p) \<and>
    (\<exists>v. objects_map p' (KNode, IntId (nd_id n)) = Some v \<and> relations_of v = [])"
proof (intro conjI)
  note lists = decoded_lists [OF assms(1)]
  show "pt_id p \<in> set (nd_input_port_ids n @ nd_output_port_ids n)"
    using lists(3) [OF assms(2)] assms(3,4) by (cases "pt_direction p = INPUT") auto
  have p': "objects_map p' = (objects_map (projection_from_snapshot s))((KNode, IntId (nd_id n)) \<mapsto> ev_current e)"
    using assms(6-10) by (auto simp: projection_apply_def objects_map_def elim!: rbind_InrE)
  then show "objects_map p' (KPort, IntId (pt_id p)) = Some (PortValue_obj p)"
    using projected_port [OF lists(4) assms(3)] by simp
  show "\<exists>v. objects_map p' (KNode, IntId (nd_id n)) = Some v \<and> relations_of v = []"
    using decoded_event_relations [OF assms(5)] by (simp add: p')
qed

theorem projected_node_loses_ports_witness:
  "\<exists>s e p' v. runtime_snapshot_from_payload (\<lambda>_. []) sample_payload = Inr s \<and>
     runtime_event_from_payload (\<lambda>_. []) (sample_event_payload (PInt 3)) = Inr e \<and>
     projection_apply e (projection_from_snapshot s) = Inr p' \<and>
     objects_map p' (KNode, IntId 50) = Some v \<and> relations_of v = []"
proof -
  obtain s where s: "runtime_snapshot_from_payload (\<lambda>_. []) sample_payload = Inr s" "snap_generation s = 3" "snap_sequence s = 9"
    "map nd_id (snap_nodes s) = [50]" "map (\<lambda>p. (pt_id p, pt_node_id p, pt_direction p)) (snap_ports s) =
       [(53, 50, DirectionUnknown), (52, 50, OUTPUT), (51, 50, INPUT)]"
    by (rule sample_decoded_ok)
  obtain e where e: "runtime_event_from_payload (\<lambda>_. []) (sample_event_payload (PInt 3)) = Inr e" "ev_generation e = 3"
    "ev_sequence e = 10" "ev_kind e = OBJECT_CHANGED" "ev_object_kind e = KNode" "ev_object_id e = IntId 50"
    "\<not> ev_requires_resnapshot e" "map_option nd_state (as_NodeValue (ev_current e)) = Some NodeRunning"
    by (rule sample_event_decoded)
  obtain n where n: "n \<in> set (snap_nodes s)" "nd_id n = 50" using s(4) by auto
  obtain p where p: "p \<in> set (snap_ports s)" "pt_node_id p = nd_id n" using s(5) n(2) by (fastforce simp: map_eq_Cons_conv)
  have some: "ev_current e \<noteq> PNone" using e(8) by (auto simp: as_NodeValue_def instance_of_def)
  obtain p' where p': "projection_apply e (projection_from_snapshot s) = Inr p'"
    using s(2,3) e(2,3,7) by (simp add: projection_apply_def projection_from_snapshot_def Let_def require_event_continuity_def val_obj)
  have "ev_object_id e = IntId (nd_id n)" using e(6) n(2) by simp
  from projected_node_loses_ports [OF s(1) n(1) p e(1,4,5) this some p'] obtain v
    where "objects_map p' (KNode, IntId 50) = Some v" "relations_of v = []" using n(2) by auto
  then show ?thesis by (intro exI [of _ s] exI [of _ e] exI [of _ p'] exI [of _ v] conjI s(1) e(1) p')
qed

end
