(* ===== verification/StreamRefinement.thy ===== *)
theory StreamRefinement
  imports EventQueue
begin

text \<open>
  What the queue promises, without its fields: a stream that either follows the runtime, with
  the events that are still to be delivered, or is interrupted, with at most the announcement of
  the interruption to be delivered.  The operations of \<open>RuntimeEventQueue\<close> refine the steps of
  this stream; the specification leaves open which announcement is made.
\<close>

section \<open>The abstract stream\<close>

datatype phase = Following "RuntimeEvent list" | Interrupted "RuntimeEvent option"

record stream =
  st_open :: bool
  st_position :: "int \<times> int"
  st_phase :: phase

datatype stream_label =
    Published RuntimeEvent bool
  | Delivered RuntimeEvent
  | Drained exn
  | Restarted int int
  | Ended

text \<open>The exceptions a reader meets when nothing is to be delivered.\<close>

fun drained :: "bool \<Rightarrow> int \<times> int \<Rightarrow> phase \<Rightarrow> exn \<Rightarrow> bool" where
  "drained is_open pos (Following es) x = (es = [] \<and> x = (if is_open then RuntimeEventQueueEmpty else RuntimeEventQueueClosed))"
| "drained is_open pos (Interrupted d) x =
     (d = None \<and> (if is_open then \<exists>reason. reason \<noteq> [] \<and> x = RuntimeEventQueueResnapshotRequired (fst pos) (snd pos) reason
                  else x = RuntimeEventQueueClosed))"

inductive stream_step :: "int \<Rightarrow> stream \<Rightarrow> stream_label \<Rightarrow> stream \<Rightarrow> bool" for capacity where
  follow: "st_open s \<Longrightarrow> st_phase s = Following es \<Longrightarrow> follows e (st_position s) \<Longrightarrow> int (length es) < capacity \<Longrightarrow>
    stream_step capacity s (Published e True) (s\<lparr>st_position := position e, st_phase := Following (es @ [e])\<rparr>)"
| interrupt: "st_open s \<Longrightarrow> st_phase s = Following es \<Longrightarrow> \<not> (follows e (st_position s) \<and> int (length es) < capacity) \<Longrightarrow>
    ev_requires_resnapshot d \<Longrightarrow> position d = position e \<Longrightarrow>
    stream_step capacity s (Published e True) (s\<lparr>st_position := position e, st_phase := Interrupted (Some d)\<rparr>)"
| ignore: "\<not> st_open s \<or> st_phase s = Interrupted d \<Longrightarrow> stream_step capacity s (Published e False) s"
| deliver: "st_phase s = Following (e # es) \<Longrightarrow> stream_step capacity s (Delivered e) (s\<lparr>st_phase := Following es\<rparr>)"
| announce: "st_phase s = Interrupted (Some d) \<Longrightarrow> stream_step capacity s (Delivered d) (s\<lparr>st_phase := Interrupted None\<rparr>)"
| drain: "drained (st_open s) (st_position s) (st_phase s) x \<Longrightarrow> stream_step capacity s (Drained x) s"
| restart: "st_open s \<Longrightarrow> 0 \<le> g \<Longrightarrow> 0 \<le> n \<Longrightarrow>
    stream_step capacity s (Restarted g n) (s\<lparr>st_position := (g, n), st_phase := Following []\<rparr>)"
| finish: "stream_step capacity s Ended (s\<lparr>st_open := False\<rparr>)"

section \<open>The queue as a stream\<close>

definition stream_of :: "RuntimeEventQueue \<Rightarrow> stream" where
  "stream_of q =
     \<lparr>st_open = \<not> q_closed q, st_position = queue_position q,
      st_phase =
        (if q_resnapshot_required q
         then Interrupted (case q_events q of [] \<Rightarrow> None | d # _ \<Rightarrow> Some d) else Following (q_events q))\<rparr>"

text \<open>An operation of the queue, with what its caller sees.\<close>

inductive queue_operation :: "RuntimeEventQueue \<Rightarrow> stream_label \<Rightarrow> RuntimeEventQueue \<Rightarrow> bool" where
  publishes: "RuntimeEvent_ok e \<Longrightarrow> clock_ok now \<Longrightarrow> publish_event now e q = (q', Inr b) \<Longrightarrow> queue_operation q (Published e b) q'"
| gets: "get_turn block deadline now q = (q', Got e) \<Longrightarrow> queue_operation q (Delivered e) q'"
| raises: "get_turn block deadline now q = (q', Raised x) \<Longrightarrow> queue_operation q (Drained x) q'"
| resets: "reset (PInt g) (PInt n) q = (q', Inr ()) \<Longrightarrow> queue_operation q (Restarted g n) q'"
| closes: "queue_operation q Ended (close_queue q)"

inductive_cases queue_operationE: "queue_operation q l q'"

lemma get_turn_capacity: "q_capacity (fst (get_turn block deadline now q)) = q_capacity q"
  by (auto simp: get_turn_def Let_def split: list.split option.split)

lemma publish_refines:
  assumes "RuntimeEvent_ok e" "clock_ok now" "publish_event now e q = (q', Inr b)"
  shows "stream_step (q_capacity q) (stream_of q) (Published e b) (stream_of q')"
  using assms(1,2)
proof (cases rule: publish_event_cases [of e now q])
  case rejected
  then show ?thesis using assms(3) by (auto simp: stream_of_def intro!: ignore)
next
  case pending
  then have eq: "stream_of q' = (stream_of q)\<lparr>st_position := position e, st_phase := Following (q_events q @ [e])\<rparr>" "b"
    using assms(3) by (auto simp: stream_of_def appended_def queue_position_def position_def follows_def)
  have "stream_step (q_capacity q) (stream_of q) (Published e True) (stream_of q')"
    unfolding eq by (rule follow) (use pending in \<open>simp_all add: stream_of_def\<close>)
  then show ?thesis using eq(2) by simp
next
  case (lost d q'')
  then have eq: "stream_of q' = (stream_of q)\<lparr>st_position := position e, st_phase := Interrupted (Some d)\<rparr>" "b"
    using assms(3) by (auto simp: stream_of_def lost_def)
  have "stream_step (q_capacity q) (stream_of q) (Published e True) (stream_of q')"
    unfolding eq by (rule interrupt [where es = "q_events q"]) (use lost in \<open>auto simp: stream_of_def lost_def\<close>)
  then show ?thesis using eq(2) by simp
qed

lemma get_refines:
  assumes "queue_ok q" "get_turn block deadline now q = (q', Got e)"
  shows "stream_step (q_capacity q) (stream_of q) (Delivered e) (stream_of q')"
proof -
  obtain es where es: "q_events q = e # es" "q' = q\<lparr>q_events := es\<rparr>"
    using assms(2) by (auto simp: get_turn_def Let_def split: list.splits if_splits option.splits)
  show ?thesis
  proof (cases "q_resnapshot_required q")
    case True
    then have "es = []" using assms(1) es by (auto simp: queue_ok_def)
    then have eq: "stream_of q' = (stream_of q)\<lparr>st_phase := Interrupted None\<rparr>"
      using True es by (simp add: stream_of_def queue_position_def)
    show ?thesis unfolding eq by (rule announce) (use True es in \<open>simp add: stream_of_def\<close>)
  next
    case False
    then have eq: "stream_of q' = (stream_of q)\<lparr>st_phase := Following es\<rparr>"
      using es by (simp add: stream_of_def queue_position_def)
    show ?thesis unfolding eq by (rule deliver) (use False es in \<open>simp add: stream_of_def\<close>)
  qed
qed

lemma raise_refines:
  assumes "queue_ok q" "get_turn block deadline now q = (q', Raised x)"
  shows "stream_step (q_capacity q) (stream_of q) (Drained x) (stream_of q')"
proof -
  have "q' = q" "drained (st_open (stream_of q)) (st_position (stream_of q)) (st_phase (stream_of q)) x"
    using assms by (auto simp: get_turn_def stream_of_def queue_position_def queue_ok_def Let_def
      split: list.splits if_splits option.splits)
  then show ?thesis by (auto intro: drain)
qed

text \<open>
  C22. The queue refines the abstract stream: what an operation of the queue does and shows is a
  step of the stream from the abstraction of the state before it to that of the state after it.
\<close>

theorem queue_refines_stream:
  assumes "queue_ok q" "queue_operation q label q'"
  shows "stream_step (q_capacity q) (stream_of q) label (stream_of q') \<and> queue_ok q' \<and> q_capacity q' = q_capacity q"
  using assms(2)
proof cases
  case (publishes e now b)
  have "queue_ok q'" using publish_event_ok [OF assms(1) publishes(2,3)] publishes(4) by simp
  moreover have "q_capacity q' = q_capacity q"
    using publish_event_cases [OF publishes(2,3), of q] publishes(4) by cases (auto simp: appended_def lost_def)
  ultimately show ?thesis using publish_refines [OF publishes(2-4)] publishes(1) by simp
next
  case (gets block deadline now e)
  have "queue_ok q'" using get_turn_ok [OF assms(1), of block deadline now] gets(2) by simp
  then show ?thesis using get_refines [OF assms(1) gets(2)] get_turn_capacity [of block deadline now q] gets by simp
next
  case (raises block deadline now x)
  have "queue_ok q'" using get_turn_ok [OF assms(1), of block deadline now] raises(2) by simp
  then show ?thesis using raise_refines [OF assms(1) raises(2)] get_turn_capacity [of block deadline now q] raises by simp
next
  case (resets g n)
  have "queue_ok q'" using reset_ok [OF assms(1), of "PInt g" "PInt n"] resets(2) by simp
  moreover have "stream_step (q_capacity q) (stream_of q) (Restarted g n)
      ((stream_of q)\<lparr>st_position := (g, n), st_phase := Following []\<rparr>)"
    using resets(2) by (intro restart) (auto simp: reset_PInt stream_of_def)
  ultimately show ?thesis using resets by (auto simp: reset_PInt stream_of_def queue_position_def)
next
  case closes
  have "stream_of (close_queue q) = (stream_of q)\<lparr>st_open := False\<rparr>"
    by (simp add: stream_of_def close_queue_def queue_position_def)
  then show ?thesis
    using closes close_queue_ok [OF assms(1)] finish [of "q_capacity q" "stream_of q"] by (simp add: close_queue_def)
qed

theorem queue_refines_stream_witness:
  "stream_step 2 (stream_of (sample_queue [sample_event 6])) (Delivered (sample_event 6))
     (stream_of ((sample_queue [sample_event 6])\<lparr>q_events := []\<rparr>))"
proof -
  let ?q = "sample_queue [sample_event 6]"
  have "queue_ok ?q" using reachable_queue_ok [OF sample_published] by (simp add: sample_system_def)
  moreover have "queue_operation ?q (Delivered (sample_event 6)) (?q\<lparr>q_events := []\<rparr>)"
    by (rule gets [of False None 0]) (simp add: get_turn_def sample_queue_def)
  ultimately have "stream_step (q_capacity ?q) (stream_of ?q) (Delivered (sample_event 6)) (stream_of (?q\<lparr>q_events := []\<rparr>))"
    by (rule queue_refines_stream [THEN conjunct1])
  then show ?thesis by (simp add: sample_queue_def)
qed

end
