(* ===== verification/Utils.thy ===== *)
theory Utils
  imports Conversions EventQueue
begin

text \<open>
  \<open>WPUtils\<close> of \<open>src/src/wyreplumber/utils.py\<close>: short operations over the proxies of the native
  extension.  The extension is a parameter: connections, metadata objects and nodes are of
  abstract types \<open>'c\<close>, \<open>'m\<close> and \<open>'n\<close>, and every call of it threads a world \<open>'w\<close> and may
  raise.  Each method of the class opens its own connection.
\<close>

section \<open>The native extension\<close>

type_synonym ('w, 'a) native = "'w \<Rightarrow> (exn + 'a) \<times> 'w"

record ('w, 'c, 'm, 'n) core =
  core_connect :: "('w, 'c) native"
  core_metadata :: "'c \<Rightarrow> ('w, 'm list) native"
  core_nodes :: "'c \<Rightarrow> ('w, 'n list) native"
  core_sync :: "'c \<Rightarrow> ('w, unit) native"
  metadata_properties :: "'m \<Rightarrow> ('w, fields) native"
  metadata_set :: "'m \<Rightarrow> int \<Rightarrow> string \<Rightarrow> string option \<Rightarrow> string option \<Rightarrow> ('w, unit) native"
  metadata_find :: "'m \<Rightarrow> int \<Rightarrow> string \<Rightarrow> ('w, (string \<times> string option) option) native"
  node_properties :: "'n \<Rightarrow> ('w, fields) native"
  node_attribute :: "'n \<Rightarrow> string \<Rightarrow> ('w, pyval) native"
  core_time :: "'w \<Rightarrow> pyfloat \<times> 'w"
  core_sleep :: "'w \<Rightarrow> 'w"

definition nreturn :: "'a \<Rightarrow> ('w, 'a) native" where
  "nreturn a w = (Inr a, w)"

definition nraise :: "exn \<Rightarrow> ('w, 'a) native" where
  "nraise e w = (Inl e, w)"

definition nbind :: "('w, 'a) native \<Rightarrow> ('a \<Rightarrow> ('w, 'b) native) \<Rightarrow> ('w, 'b) native" where
  "nbind m f w = (case m w of (Inl e, w') \<Rightarrow> (Inl e, w') | (Inr a, w') \<Rightarrow> f a w')"

text \<open>A list comprehension with a condition, a loop that returns the first item that satisfies one, and a comprehension.\<close>

fun nfilter :: "('a \<Rightarrow> ('w, bool) native) \<Rightarrow> 'a list \<Rightarrow> ('w, 'a list) native" where
  "nfilter p [] = nreturn []"
| "nfilter p (x # xs) =
     nbind (p x) (\<lambda>b. nbind (nfilter p xs) (\<lambda>ys. nreturn (if b then x # ys else ys)))"

fun nfind :: "('a \<Rightarrow> ('w, bool) native) \<Rightarrow> 'a list \<Rightarrow> ('w, 'a option) native" where
  "nfind p [] = nreturn None"
| "nfind p (x # xs) = nbind (p x) (\<lambda>b. if b then nreturn (Some x) else nfind p xs)"

fun nmap :: "('a \<Rightarrow> ('w, 'b) native) \<Rightarrow> 'a list \<Rightarrow> ('w, 'b list) native" where
  "nmap f [] = nreturn []"
| "nmap f (x # xs) = nbind (f x) (\<lambda>y. nbind (nmap f xs) (\<lambda>ys. nreturn (y # ys)))"

text \<open>\<open>properties.get(key) == text\<close>\<close>

definition property_is :: "('w, fields) native \<Rightarrow> string \<Rightarrow> string \<Rightarrow> ('w, bool) native" where
  "property_is read key text =
     nbind read (\<lambda>properties. nreturn (Option.bind (map_of properties key) as_str = Some text))"

section \<open>\<open>json.dumps\<close>\<close>

fun join_text :: "string \<Rightarrow> string list \<Rightarrow> string" where
  "join_text sep [] = []"
| "join_text sep [s] = s"
| "join_text sep (s # ss) = s @ sep @ join_text sep ss"

definition json_integer :: "int \<Rightarrow> exn + string" where
  "json_integer i =
     (if length (show_nat (nat \<bar>i\<bar>)) > 4300
      then Inl (ValueError ''Exceeds the limit (4300 digits) for integer string conversion'') else Inr (show_int i))"

text \<open>The key of an item; \<open>float_text\<close> is \<open>repr\<close> of a float.\<close>

definition json_key :: "(pyfloat \<Rightarrow> string) \<Rightarrow> pyval \<Rightarrow> exn + string" where
  "json_key float_text key =
     (case as_str key of
        Some s \<Rightarrow> Inr (json_string s)
      | None \<Rightarrow>
          (case key of
             PFloat f \<Rightarrow> Inr (json_string (float_text f))
           | PBool b \<Rightarrow> Inr (json_string (if b then ''true'' else ''false''))
           | PNone \<Rightarrow> Inr (json_string ''null'')
           | _ \<Rightarrow>
               (case as_int key of
                  Some i \<Rightarrow> rbind (json_integer i) (\<lambda>s. Inr (json_string s))
                | None \<Rightarrow> Inl (TypeError ''keys must be str, int, float, bool or None''))))"

function json_dumps :: "(pyfloat \<Rightarrow> string) \<Rightarrow> pyval \<Rightarrow> exn + string" where
  "json_dumps float_text PNone = Inr ''null''"
| "json_dumps float_text (PBool b) = Inr (if b then ''true'' else ''false'')"
| "json_dumps float_text (PInt i) = json_integer i"
| "json_dumps float_text (PIntEnum c n i) = json_integer i"
| "json_dumps float_text (PFloat f) = Inr (float_text f)"
| "json_dumps float_text (PStr s) = Inr (json_string s)"
| "json_dumps float_text (PStrEnum c s) = Inr (json_string s)"
| "json_dumps float_text (PList xs) =
     rbind (traverse (json_dumps float_text) xs) (\<lambda>ss. Inr (''['' @ join_text '', '' ss @ '']''))"
| "json_dumps float_text (PTuple xs) =
     rbind (traverse (json_dumps float_text) xs) (\<lambda>ss. Inr (''['' @ join_text '', '' ss @ '']''))"
| "json_dumps float_text (PDict kvs) =
     rbind (traverse (\<lambda>(key, item).
        rbind (json_key float_text key) (\<lambda>k. rbind (json_dumps float_text item) (\<lambda>s. Inr (k @ '': '' @ s)))) kvs)
       (\<lambda>ss. Inr (''{'' @ join_text '', '' ss @ ''}''))"
| "json_dumps float_text (PFrozen items) = Inl (TypeError ''object is not JSON serializable'')"
| "json_dumps float_text (PSpaObject c t i n props flags keys) = Inl (TypeError ''object is not JSON serializable'')"
| "json_dumps float_text (PBytes b) = Inl (TypeError ''object is not JSON serializable'')"
| "json_dumps float_text (PDatetime d) = Inl (TypeError ''object is not JSON serializable'')"
| "json_dumps float_text (PValue t fs) = Inl (TypeError ''object is not JSON serializable'')"
| "json_dumps float_text (POther t) = Inl (TypeError ''object is not JSON serializable'')"
  by pat_completeness auto
termination
  by (relation "measure (\<lambda>(float_text, v). size v)") (auto simp: termination_simp)

section \<open>Modules\<close>

text \<open>The metadata objects of a name, \<open>[m for m in conn.get_metadata() if ...]\<close>.\<close>

definition metadata_named :: "('w, 'c, 'm, 'n) core \<Rightarrow> 'c \<Rightarrow> string \<Rightarrow> ('w, 'm list) native" where
  "metadata_named core conn name =
     nbind (core_metadata core conn) (nfilter (\<lambda>m. property_is (metadata_properties core m) ''metadata.name'' name))"

definition nlift :: "exn + 'a \<Rightarrow> ('w, 'a) native" where
  "nlift r w = (r, w)"

definition load_module ::
    "(pyfloat \<Rightarrow> string) \<Rightarrow> ('w, 'c, 'm, 'n) core \<Rightarrow> string \<Rightarrow> string \<Rightarrow> pyval \<Rightarrow> ('w, unit) native" where
  "load_module float_text core module_type name args =
     nbind (core_connect core) (\<lambda>conn.
     nbind (metadata_named core conn ''sm-objects'') (\<lambda>metas.
     case metas of
       [] \<Rightarrow> nraise (Exception ''No sm-objects metadata found'')
     | sm_objects # _ \<Rightarrow>
         nbind (nlift (json_dumps float_text
                  (PDict [(PStr ''type'', PStr ''pw-module''), (PStr ''name'', PStr module_type), (PStr ''args'', args)]))) (\<lambda>text.
         nbind (metadata_set core sm_objects 0 name (Some ''Spa:String:JSON'') (Some text)) (\<lambda>_.
         core_sync core conn))))"

definition unload_module :: "('w, 'c, 'm, 'n) core \<Rightarrow> string \<Rightarrow> ('w, unit) native" where
  "unload_module core name =
     nbind (core_connect core) (\<lambda>conn.
     nbind (metadata_named core conn ''sm-objects'') (\<lambda>metas.
     case metas of
       [] \<Rightarrow> nraise (Exception ''No sm-objects metadata found'')
     | sm_objects # _ \<Rightarrow>
         nbind (metadata_set core sm_objects 0 name None None) (\<lambda>_. core_sync core conn)))"

section \<open>Nodes\<close>

definition node_with_name :: "('w, 'c, 'm, 'n) core \<Rightarrow> string \<Rightarrow> 'n list \<Rightarrow> ('w, 'n option) native" where
  "node_with_name core node_name = nfind (\<lambda>node. property_is (node_properties core node) ''node.name'' node_name)"


definition find_nodes_by_media_class :: "('w, 'c, 'm, 'n) core \<Rightarrow> string \<Rightarrow> ('w, 'n list) native" where
  "find_nodes_by_media_class core media_class =
     nbind (core_connect core) (\<lambda>conn.
     nbind (core_nodes core conn) (nfilter (\<lambda>node. property_is (node_properties core node) ''media.class'' media_class)))"

text \<open>\<open>get_default_sink\<close> and \<open>get_default_source\<close> differ in the key: the value found is taken for a node name.\<close>

definition default_node_under :: "('w, 'c, 'm, 'n) core \<Rightarrow> string \<Rightarrow> ('w, 'n option) native" where
  "default_node_under core key =
     nbind (core_connect core) (\<lambda>conn.
     nbind (metadata_named core conn ''default'') (\<lambda>metas.
     case metas of
       [] \<Rightarrow> nreturn None
     | default_metadata # _ \<Rightarrow>
         nbind (metadata_find core default_metadata 0 key) (\<lambda>result.
         case result of
           None \<Rightarrow> nreturn None
         | Some (default_name, _) \<Rightarrow> nbind (core_nodes core conn) (node_with_name core default_name))))"


definition get_default_source :: "('w, 'c, 'm, 'n) core \<Rightarrow> ('w, 'n option) native" where
  "get_default_source core = default_node_under core ''default.audio.source''"

text \<open>\<open>json.dumps({"name": node_name})\<close>, and the two methods that write it.\<close>

definition dumped_name :: "string \<Rightarrow> string" where
  "dumped_name node_name = ''{'' @ json_string ''name'' @ '': '' @ json_string node_name @ ''}''"

definition write_default :: "('w, 'c, 'm, 'n) core \<Rightarrow> string \<Rightarrow> string \<Rightarrow> ('w, unit) native" where
  "write_default core key node_name =
     nbind (core_connect core) (\<lambda>conn.
     nbind (metadata_named core conn ''default'') (\<lambda>metas.
     case metas of
       [] \<Rightarrow> nraise (Exception ''No default metadata found'')
     | default_metadata # _ \<Rightarrow>
         nbind (metadata_set core default_metadata 0 key (Some ''Spa:String:JSON'') (Some (dumped_name node_name)))
           (\<lambda>_. core_sync core conn)))"


definition set_default_source :: "('w, 'c, 'm, 'n) core \<Rightarrow> string \<Rightarrow> ('w, unit) native" where
  "set_default_source core node_name = write_default core ''default.audio.source'' node_name"

section \<open>Listing and waiting\<close>

text \<open>\<open>properties.get(key, default)\<close> of the proxy, which reads the properties again for each key.\<close>

definition property_or :: "('w, fields) native \<Rightarrow> string \<Rightarrow> string \<Rightarrow> ('w, pyval) native" where
  "property_or read key d =
     nbind read (\<lambda>properties. nreturn (case map_of properties key of Some v \<Rightarrow> v | None \<Rightarrow> PStr d))"

definition node_information :: "('w, 'c, 'm, 'n) core \<Rightarrow> 'n \<Rightarrow> ('w, fields) native" where
  "node_information core node =
     nmap (\<lambda>(key, read). nbind read (\<lambda>v. nreturn (key, v)))
       [(''id'', node_attribute core node ''id''),
        (''name'', property_or (node_properties core node) ''node.name'' ''unknown''),
        (''description'', property_or (node_properties core node) ''node.description'' []),
        (''media_class'', property_or (node_properties core node) ''media.class'' []),
        (''state'', node_attribute core node ''state''),
        (''n_input_ports'', node_attribute core node ''n_input_ports''),
        (''n_output_ports'', node_attribute core node ''n_output_ports'')]"

definition list_all_nodes :: "('w, 'c, 'm, 'n) core \<Rightarrow> ('w, fields list) native" where
  "list_all_nodes core =
     nbind (core_connect core) (\<lambda>conn. nbind (core_nodes core conn) (nmap (node_information core)))"

text \<open>One turn of the loop of \<open>wait_for_node\<close>, before the deadline; \<open>None\<close> is another turn after the sleep.\<close>

definition wait_turn :: "('w, 'c, 'm, 'n) core \<Rightarrow> 'c \<Rightarrow> string \<Rightarrow> ('w, 'n option) native" where
  "wait_turn core conn node_name =
     nbind (core_nodes core conn) (\<lambda>nodes.
     nbind (node_with_name core node_name nodes) (\<lambda>found.
     case found of
       Some node \<Rightarrow> nreturn (Some node)
     | None \<Rightarrow> nbind (core_sync core conn) (\<lambda>_. nreturn None)))"

partial_function (option) wait_loop ::
    "('w, 'c, 'm, 'n) core \<Rightarrow> 'c \<Rightarrow> string \<Rightarrow> pyfloat \<Rightarrow> 'w \<Rightarrow> ((exn + 'n option) \<times> 'w) option" where
  "wait_loop core conn node_name deadline w =
     (case core_time core w of
        (now, w1) \<Rightarrow>
          if float_lt now deadline
          then (case wait_turn core conn node_name w1 of
                  (Inl e, w2) \<Rightarrow> Some (Inl e, w2)
                | (Inr (Some node), w2) \<Rightarrow> Some (Inr (Some node), w2)
                | (Inr None, w2) \<Rightarrow> wait_loop core conn node_name deadline (core_sleep core w2))
          else Some (Inr None, w1))"

definition wait_for_node ::
    "('w, 'c, 'm, 'n) core \<Rightarrow> string \<Rightarrow> pyfloat \<Rightarrow> 'w \<Rightarrow> ((exn + 'n option) \<times> 'w) option" where
  "wait_for_node core node_name timeout w =
     (case core_connect core w of
        (Inl e, w1) \<Rightarrow> Some (Inl e, w1)
      | (Inr conn, w1) \<Rightarrow>
          (case core_time core w1 of
             (start, w2) \<Rightarrow> wait_loop core conn node_name (float_add start timeout) w2))"

section \<open>Setting and getting a default\<close>











end
