(* ===== verification/ReleaseFiles.thy ===== *)
theory ReleaseFiles
  imports DefaultEcho "HOL-Library.List_Lexorder"
begin

text \<open>
  The parts of Python's standard library that the release tooling works with: a file system as a
  table of entries, reading and writing of text, \<open>hashlib.sha256\<close>, and the indented text
  \<open>json.dumps\<close> writes.
\<close>

section \<open>Errors\<close>

datatype release_error =
    ReleaseContractError string
  | OSError string
  | PythonError exn

section \<open>Paths and entries\<close>

text \<open>A path is the list of its components; the empty list is the root directory.\<close>

type_synonym path = "string list"

datatype entry = Directory | File bytes

type_synonym files = "(path \<times> entry) list"

definition entry_at :: "files \<Rightarrow> path \<Rightarrow> entry option" where
  "entry_at fs p = (if p = [] then Some Directory else map_of fs p)"

definition is_file :: "files \<Rightarrow> path \<Rightarrow> bool" where
  "is_file fs p = (case entry_at fs p of Some (File b) \<Rightarrow> True | _ \<Rightarrow> False)"

definition is_dir :: "files \<Rightarrow> path \<Rightarrow> bool" where
  "is_dir fs p = (entry_at fs p = Some Directory)"

definition path_name :: "path \<Rightarrow> string" where
  "path_name p = (if p = [] then [] else last p)"

definition with_name :: "path \<Rightarrow> string \<Rightarrow> path" where
  "with_name p name = butlast p @ [name]"

text \<open>\<open>path.suffix\<close>: from the last dot, unless it is the first or the last character.\<close>

definition path_suffix :: "path \<Rightarrow> string" where
  "path_suffix p =
     (let name = path_name p; ext = rev (takeWhile (\<lambda>c. c \<noteq> CHR ''.'') (rev name))
      in if ext \<noteq> [] \<and> length ext + 1 < length name then CHR ''.'' # ext else [])"

definition ends_with :: "string \<Rightarrow> string \<Rightarrow> bool" where
  "ends_with p s = starts_with (rev p) (rev s)"

text \<open>\<open>directory.iterdir()\<close>, \<open>directory.rglob("*")\<close>\<close>

definition children :: "files \<Rightarrow> path \<Rightarrow> path list" where
  "children fs d = filter (\<lambda>p. p \<noteq> [] \<and> butlast p = d) (map fst fs)"

definition below :: "files \<Rightarrow> path \<Rightarrow> path list" where
  "below fs d = filter (\<lambda>p. length d < length p \<and> take (length d) p = d) (map fst fs)"

section \<open>Reading and writing\<close>

definition read_bytes :: "files \<Rightarrow> path \<Rightarrow> release_error + bytes" where
  "read_bytes fs p =
     (case entry_at fs p of
        Some (File b) \<Rightarrow> Inr b
      | Some Directory \<Rightarrow> Inl (OSError ''Is a directory'')
      | None \<Rightarrow> Inl (OSError ''No such file or directory''))"

text \<open>A carriage return, with the line feed after it, is read as one line feed.\<close>

fun newlines :: "bool \<Rightarrow> string \<Rightarrow> string" where
  "newlines returned [] = []"
| "newlines returned (c # cs) =
     (if c = CHR 0x0D then CHR 0x0A # newlines True cs
      else if returned \<and> c = CHR 0x0A then newlines False cs
      else c # newlines False cs)"

definition universal_newlines :: "string \<Rightarrow> string" where
  "universal_newlines = newlines False"

text \<open>Text is UTF-8: what does not decode, or holds a surrogate, is an error.\<close>

definition valid_utf8 :: "nat list \<Rightarrow> bool" where
  "valid_utf8 ns \<longleftrightarrow> decode_replace ns = ns"

definition read_text :: "files \<Rightarrow> path \<Rightarrow> release_error + string" where
  "read_text fs p =
     rbind (read_bytes fs p) (\<lambda>b.
     let ns = map unat b
     in if valid_utf8 ns then Inr (universal_newlines (map char_of ns))
        else Inl (PythonError (ValueError ''invalid start byte'')))"

definition write_entry :: "path \<Rightarrow> bytes \<Rightarrow> files \<Rightarrow> (release_error + unit) \<times> files" where
  "write_entry p b fs =
     (if is_dir fs p then (Inl (OSError ''Is a directory''), fs)
      else if \<not> is_dir fs (butlast p) then (Inl (OSError ''No such file or directory''), fs)
      else (Inr (), alist_set p (File b) fs))"

definition text_bytes :: "string \<Rightarrow> bytes" where
  "text_bytes s = map (\<lambda>c. word_of_nat (of_char c)) s"

text \<open>The file is opened, and so emptied, before the text is encoded.\<close>

definition write_text :: "path \<Rightarrow> string \<Rightarrow> files \<Rightarrow> (release_error + unit) \<times> files" where
  "write_text p s fs =
     (if valid_utf8 (map of_char s) then write_entry p (text_bytes s) fs
      else case write_entry p [] fs of
        (Inr u, fs') \<Rightarrow> (Inl (PythonError (ValueError ''surrogates not allowed'')), fs')
      | (Inl e, fs') \<Rightarrow> (Inl e, fs'))"

text \<open>\<open>destination.mkdir(parents=True, exist_ok=True)\<close>\<close>

fun make_dirs :: "path list \<Rightarrow> files \<Rightarrow> (release_error + unit) \<times> files" where
  "make_dirs [] fs = (Inr (), fs)"
| "make_dirs (p # ps) fs =
     (case entry_at fs p of
        None \<Rightarrow> make_dirs ps (alist_set p Directory fs)
      | Some Directory \<Rightarrow> make_dirs ps fs
      | Some (File b) \<Rightarrow> (Inl (OSError ''File exists''), fs))"

definition mkdir_parents :: "path \<Rightarrow> files \<Rightarrow> (release_error + unit) \<times> files" where
  "mkdir_parents p fs = make_dirs (map (\<lambda>n. take n p) [1..<Suc (length p)]) fs"

text \<open>\<open>shutil.copy2(source, target)\<close>\<close>

definition copy_file :: "path \<Rightarrow> path \<Rightarrow> files \<Rightarrow> (release_error + unit) \<times> files" where
  "copy_file source target fs =
     (let target' = (if is_dir fs target then target @ [path_name source] else target)
      in if source = target' then (Inl (OSError ''are the same file''), fs)
         else case read_bytes fs source of
           Inl e \<Rightarrow> (Inl e, fs)
         | Inr b \<Rightarrow> write_entry target' b fs)"

section \<open>SHA-256\<close>

text \<open>\<open>hashlib.sha256\<close> (FIPS 180-4) on 32-bit words.\<close>

type_synonym word32 = "32 word"

definition sha_constants :: "word32 list" where
  "sha_constants =
     [0x428A2F98, 0x71374491, 0xB5C0FBCF, 0xE9B5DBA5, 0x3956C25B, 0x59F111F1, 0x923F82A4, 0xAB1C5ED5,
      0xD807AA98, 0x12835B01, 0x243185BE, 0x550C7DC3, 0x72BE5D74, 0x80DEB1FE, 0x9BDC06A7, 0xC19BF174,
      0xE49B69C1, 0xEFBE4786, 0x0FC19DC6, 0x240CA1CC, 0x2DE92C6F, 0x4A7484AA, 0x5CB0A9DC, 0x76F988DA,
      0x983E5152, 0xA831C66D, 0xB00327C8, 0xBF597FC7, 0xC6E00BF3, 0xD5A79147, 0x06CA6351, 0x14292967,
      0x27B70A85, 0x2E1B2138, 0x4D2C6DFC, 0x53380D13, 0x650A7354, 0x766A0ABB, 0x81C2C92E, 0x92722C85,
      0xA2BFE8A1, 0xA81A664B, 0xC24B8B70, 0xC76C51A3, 0xD192E819, 0xD6990624, 0xF40E3585, 0x106AA070,
      0x19A4C116, 0x1E376C08, 0x2748774C, 0x34B0BCB5, 0x391C0CB3, 0x4ED8AA4A, 0x5B9CCA4F, 0x682E6FF3,
      0x748F82EE, 0x78A5636F, 0x84C87814, 0x8CC70208, 0x90BEFFFA, 0xA4506CEB, 0xBEF9A3F7, 0xC67178F2]"

definition sha_initial :: "word32 list" where
  "sha_initial =
     [0x6A09E667, 0xBB67AE85, 0x3C6EF372, 0xA54FF53A,
      0x510E527F, 0x9B05688C, 0x1F83D9AB, 0x5BE0CD19]"

definition big_endian :: "nat \<Rightarrow> nat \<Rightarrow> bytes" where
  "big_endian k n = map (\<lambda>i. word_of_nat (n div 256 ^ (k - 1 - i))) [0..<k]"

definition sha_padding :: "nat \<Rightarrow> bytes" where
  "sha_padding n = 0x80 # replicate ((119 - n mod 64) mod 64) 0 @ big_endian 8 (8 * n)"

fun groups :: "nat \<Rightarrow> nat \<Rightarrow> 'a list \<Rightarrow> 'a list list" where
  "groups 0 k xs = []"
| "groups (Suc n) k xs = (if xs = [] then [] else take k xs # groups n k (drop k xs))"

definition word_of_bytes :: "bytes \<Rightarrow> word32" where
  "word_of_bytes b = word_of_nat (foldl (\<lambda>n x. n * 256 + unat x) 0 b)"

definition sha_schedule :: "word32 list \<Rightarrow> word32 list" where
  "sha_schedule block =
     foldl (\<lambda>w t.
         let s0 = w ! (t - 15); s1 = w ! (t - 2)
         in w @ [(word_rotr 17 s1 XOR word_rotr 19 s1 XOR drop_bit 10 s1) + w ! (t - 7) +
                 (word_rotr 7 s0 XOR word_rotr 18 s0 XOR drop_bit 3 s0) + w ! (t - 16)])
       block [16..<64]"

fun sha_round :: "word32 list \<Rightarrow> word32 \<times> word32 \<Rightarrow> word32 list" where
  "sha_round [a, b, c, d, e, f, g, h] (k, w) =
     (let t1 = h + (word_rotr 6 e XOR word_rotr 11 e XOR word_rotr 25 e) + ((e AND f) XOR (NOT e AND g)) + k + w;
          t2 = (word_rotr 2 a XOR word_rotr 13 a XOR word_rotr 22 a) + ((a AND b) XOR (a AND c) XOR (b AND c))
      in [t1 + t2, a, b, c, d + t1, e, f, g])"
| "sha_round state kw = state"

definition sha_block :: "word32 list \<Rightarrow> bytes \<Rightarrow> word32 list" where
  "sha_block state block =
     map2 (+) state (foldl sha_round state (zip sha_constants (sha_schedule (map word_of_bytes (groups 16 4 block)))))"

definition hex_digits_of :: "word32 \<Rightarrow> string" where
  "hex_digits_of w = map (\<lambda>i. hex_char (unat w div 16 ^ (7 - i) mod 16)) [0..<8]"

definition sha256_hex :: "bytes \<Rightarrow> string" where
  "sha256_hex data =
     (let padded = data @ sha_padding (length data)
      in concat (map hex_digits_of (foldl sha_block sha_initial (groups (length padded) 64 padded))))"

section \<open>The text of a record\<close>

definition indentation :: "nat \<Rightarrow> string" where
  "indentation n = CHR 0x0A # replicate (2 * n) (CHR '' '')"

text \<open>\<open>json.dumps(value, indent=2, sort_keys=True)\<close>; a number is written as its text.\<close>

fun separated :: "string \<Rightarrow> string list \<Rightarrow> string" where
  "separated sep [] = []"
| "separated sep [x] = x"
| "separated sep (x # y # ys) = x @ sep @ separated sep (y # ys)"

definition bracketed :: "nat \<Rightarrow> char \<Rightarrow> char \<Rightarrow> string list \<Rightarrow> string" where
  "bracketed n l r items =
     (if items = [] then [l, r]
      else l # indentation (Suc n) @ separated (CHR '','' # indentation (Suc n)) items @ indentation n @ [r])"

function json_indented :: "nat \<Rightarrow> json \<Rightarrow> string" where
  "json_indented n JNull = ''null''"
| "json_indented n (JBool b) = (if b then ''true'' else ''false'')"
| "json_indented n (JNumber s) = s"
| "json_indented n (JString s) = json_string s"
| "json_indented n (JArray vs) = bracketed n (CHR ''['') (CHR '']'') (map (json_indented (Suc n)) vs)"
| "json_indented n (JObject kvs) =
     bracketed n (CHR 0x7B) (CHR 0x7D)
       (map (\<lambda>(k, v). json_string k @ '': '' @ v)
         (sort_key fst (map (\<lambda>(k, v). (k, json_indented (Suc n) v)) kvs)))"
  by pat_completeness auto
termination
  by (relation "measure (\<lambda>(n, v). size v)") (auto simp: termination_simp)

end
