(* ===== verification/ReleaseContract.thy ===== *)
theory ReleaseContract
  imports ReleaseFiles
begin

text \<open>
  The release tooling (\<open>scripts/release_contract.py\<close>): the checks of a version tag, a wheel, a
  source archive and an installation, the record of an artifact, and the collection of the release
  directory.  The decoders of the formats of others (TOML, ZIP, TAR, mail headers) and the running
  interpreter are parameters.
\<close>

section \<open>The environment\<close>

text \<open>What an installation reports about itself, and what \<open>ldd\<close> returns for its native module.\<close>

record installation =
  metadata_version_of :: string
  runtime_version :: string
  build_api_family :: string
  interpreter :: "nat \<times> nat"
  machine :: string
  module_path :: path
  ldd_returncode :: int
  ldd_stdout :: string

record release_env =
  project_root :: path
  toml_loads :: "string \<Rightarrow> release_error + json"
  zip_entries :: "bytes \<Rightarrow> release_error + (string \<times> bytes) list"
  tar_members :: "bytes \<Rightarrow> release_error + (string \<times> bytes option) list"
  header_field :: "bytes \<Rightarrow> string \<Rightarrow> string option"
  installed :: installation

definition PROJECT_NAME :: string where
  "PROJECT_NAME = ''wyreplumber''"

definition BUILD_API_FAMILY :: string where
  "BUILD_API_FAMILY = ''0.5''"

definition SUPPORTED_PYTHON_ABIS :: "string list" where
  "SUPPORTED_PYTHON_ABIS = [''cp312'', ''cp313'', ''cp314'']"

definition SUPPORTED_ARCHITECTURES :: "string list" where
  "SUPPORTED_ARCHITECTURES = [''x86_64'', ''aarch64'']"

definition PROVENANCE_SCHEMA :: string where
  "PROVENANCE_SCHEMA = ''wyreplumber-release-provenance-v1''"

text \<open>\<open>_require\<close>\<close>

definition require :: "bool \<Rightarrow> string \<Rightarrow> release_error + unit" where
  "require condition message = check condition (ReleaseContractError message)"

section \<open>Versions\<close>

text \<open>\<open>re.fullmatch(r"[0-9]+\.[0-9]+\.[0-9]+", version)\<close>\<close>

definition dotted :: "string \<Rightarrow> string option" where
  "dotted s =
     (case split_digits s of
        (d # ds, c # rest) \<Rightarrow> if c = CHR ''.'' then Some rest else None
      | _ \<Rightarrow> None)"

definition three_part :: "string \<Rightarrow> bool" where
  "three_part version =
     (case Option.bind (dotted version) dotted of
        None \<Rightarrow> False
      | Some last_part \<Rightarrow> last_part \<noteq> [] \<and> snd (split_digits last_part) = [])"

text \<open>\<open>data[key]\<close> on a decoded document, in which the last of equal names counts.\<close>

definition json_item :: "json \<Rightarrow> string \<Rightarrow> release_error + json" where
  "json_item v key =
     (case v of
        JObject kvs \<Rightarrow>
          (case map_of (rev kvs) key of None \<Rightarrow> Inl (PythonError (KeyError key)) | Some x \<Rightarrow> Inr x)
      | _ \<Rightarrow> Inl (PythonError (TypeError ''object is not subscriptable'')))"

definition project_version :: "release_env \<Rightarrow> files \<Rightarrow> release_error + string" where
  "project_version env fs =
     rbind (read_text fs (project_root env @ [''pyproject.toml''])) (\<lambda>text.
     rbind (toml_loads env text) (\<lambda>data.
     rbind (json_item data ''project'') (\<lambda>project.
     rbind (json_item project ''version'') (\<lambda>version.
     case version of
       JString s \<Rightarrow>
         rbind (require (three_part s) ''project version is not a three-part release version'') (\<lambda>_. Inr s)
     | _ \<Rightarrow> Inl (ReleaseContractError ''project version is not a three-part release version'')))))"

definition verify_tag :: "string \<Rightarrow> string option \<Rightarrow> release_error + unit" where
  "verify_tag version tag =
     (case tag of
        None \<Rightarrow> Inr ()
      | Some t \<Rightarrow> if t = [] then Inr () else require (t = CHR ''v'' # version) ''tag does not match version'')"

definition metadata_version :: "release_env \<Rightarrow> bytes \<Rightarrow> release_error + string" where
  "metadata_version env raw =
     rbind (case header_field env raw ''Name'' of
              Some name \<Rightarrow> require (str_replace ''_'' ''-'' (lower_text name) = PROJECT_NAME) ''unexpected package name''
            | None \<Rightarrow> Inl (ReleaseContractError ''unexpected package name'')) (\<lambda>_.
     case header_field env raw ''Version'' of
       None \<Rightarrow> Inl (ReleaseContractError ''does not declare a version'')
     | Some version \<Rightarrow> Inr version)"

section \<open>Artifacts\<close>

definition wheel_name :: "string \<Rightarrow> string \<Rightarrow> string \<Rightarrow> string" where
  "wheel_name version python_abi architecture =
     PROJECT_NAME @ ''-'' @ version @ ''-'' @ python_abi @ ''-'' @ python_abi @ ''-linux_'' @ architecture @ ''.whl''"

text \<open>The checks of the contents of a wheel; \<open>archive.read\<close> reads the last entry of a name.\<close>

definition verify_wheel_archive ::
    "release_env \<Rightarrow> string \<Rightarrow> string \<Rightarrow> string \<Rightarrow> (string \<times> bytes) list \<Rightarrow> release_error + unit" where
  "verify_wheel_archive env version python_abi architecture entries =
     (let names = map fst entries; metadata_names = filter (ends_with ''.dist-info/METADATA'') names
      in case metadata_names of
           [metadata_name] \<Rightarrow>
             rbind (metadata_version env (the (map_of (rev entries) metadata_name))) (\<lambda>archive_version.
             rbind (require (archive_version = version) ''wheel metadata version is not the project version'') (\<lambda>_.
             rbind (require (list_all (\<lambda>name. name \<in> set names) [PROJECT_NAME @ ''/py.typed'', PROJECT_NAME @ ''/_core.pyi''])
                      ''wheel is missing required files'') (\<lambda>_.
             case filter (\<lambda>name. starts_with (PROJECT_NAME @ ''/_core.'') name \<and> ends_with ''.so'' name) names of
               [native] \<Rightarrow>
                 rbind (require (str_contains (''cpython-'' @
                            (if starts_with ''cp'' python_abi then drop 2 python_abi else python_abi) @ ''-'' @ architecture @
                            ''-linux-gnu.so'') native)
                          ''native extension does not match ABI/architecture'') (\<lambda>_.
                 require (list_ex (ends_with ''.dist-info/licenses/LICENSE'') names) ''wheel does not contain the MIT license'')
             | _ \<Rightarrow> Inl (ReleaseContractError ''wheel must contain exactly one native _core extension''))))
         | _ \<Rightarrow> Inl (ReleaseContractError ''wheel must contain exactly one METADATA file''))"

definition verify_wheel ::
    "release_env \<Rightarrow> files \<Rightarrow> path \<Rightarrow> string \<Rightarrow> string \<Rightarrow> string option \<Rightarrow> release_error + unit" where
  "verify_wheel env fs p python_abi architecture tag =
     rbind (project_version env fs) (\<lambda>version.
     rbind (verify_tag version tag) (\<lambda>_.
     rbind (require (is_file fs p) ''wheel does not exist'') (\<lambda>_.
     rbind (require (python_abi \<in> set SUPPORTED_PYTHON_ABIS) ''unsupported Python ABI'') (\<lambda>_.
     rbind (require (architecture \<in> set SUPPORTED_ARCHITECTURES) ''unsupported CPU architecture'') (\<lambda>_.
     rbind (require (path_name p = wheel_name version python_abi architecture)
              ''wheel name is not target-qualified as expected'') (\<lambda>_.
     rbind (read_bytes fs p) (\<lambda>raw.
     rbind (zip_entries env raw) (\<lambda>entries.
     verify_wheel_archive env version python_abi architecture entries))))))))"

definition required_sources :: "string list" where
  "required_sources =
     [''LICENSE'', ''MANIFEST.in'', ''README.md'', ''pyproject.toml'', ''setup.py'', ''docs/runtime-contract-v1.md'',
      ''examples/runtime_orchestration.py'', ''native/wyreplumber.c'', ''native/wp_compat.h'',
      ''scripts/release_contract.py'', ''src/wyreplumber/__init__.py'', ''src/wyreplumber/py.typed'']"

definition sdist_name :: "string \<Rightarrow> string" where
  "sdist_name version = PROJECT_NAME @ ''-'' @ version @ ''.tar.gz''"

definition verify_sdist_archive ::
    "release_env \<Rightarrow> string \<Rightarrow> (string \<times> bytes option) list \<Rightarrow> release_error + unit" where
  "verify_sdist_archive env version members =
     (let prefix = PROJECT_NAME @ ''-'' @ version @ ''/''; names = map fst members
      in rbind (require (list_all (\<lambda>name. prefix @ name \<in> set names) required_sources) ''source archive is missing files'') (\<lambda>_.
         case map_of (rev members) (prefix @ ''PKG-INFO'') of
           None \<Rightarrow> Inl (PythonError (KeyError ''PKG-INFO''))
         | Some None \<Rightarrow> Inl (ReleaseContractError ''source archive PKG-INFO cannot be read'')
         | Some (Some raw) \<Rightarrow>
             rbind (metadata_version env raw) (\<lambda>archive_version.
             require (archive_version = version) ''source metadata version is not the project version'')))"

definition verify_sdist :: "release_env \<Rightarrow> files \<Rightarrow> path \<Rightarrow> string option \<Rightarrow> release_error + unit" where
  "verify_sdist env fs p tag =
     rbind (project_version env fs) (\<lambda>version.
     rbind (verify_tag version tag) (\<lambda>_.
     rbind (require (is_file fs p) ''source archive does not exist'') (\<lambda>_.
     rbind (require (path_name p = sdist_name version) ''unexpected source archive name'') (\<lambda>_.
     rbind (read_bytes fs p) (\<lambda>raw.
     rbind (tar_members env raw) (\<lambda>members.
     verify_sdist_archive env version members))))))"

section \<open>Installations\<close>

definition normalize_architecture :: "string \<Rightarrow> string" where
  "normalize_architecture value =
     (let normalized = lower_text value
      in case map_of [(''amd64'', ''x86_64''), (''arm64'', ''aarch64'')] normalized of Some name \<Rightarrow> name | None \<Rightarrow> normalized)"

definition verify_linkage :: "installation \<Rightarrow> release_error + unit" where
  "verify_linkage i =
     rbind (require (ldd_returncode i = 0) ''ldd failed'') (\<lambda>_.
     rbind (require (\<not> str_contains ''not found'' (ldd_stdout i)) ''unresolved native dependency'') (\<lambda>_.
     rbind (require (str_contains ''libwireplumber-0.5.so'' (ldd_stdout i)) ''WirePlumber 0.5 linkage is missing'') (\<lambda>_.
     rbind (require (\<not> str_contains ''libwireplumber-0.4.so'' (ldd_stdout i)) ''WirePlumber 0.4 linkage is forbidden'') (\<lambda>_.
     require (str_contains ''libpipewire-0.3.so'' (ldd_stdout i)) ''PipeWire 0.3 linkage is missing''))))"

definition verify_installed ::
    "release_env \<Rightarrow> files \<Rightarrow> string \<Rightarrow> string \<Rightarrow> string option \<Rightarrow> bool \<Rightarrow> release_error + unit" where
  "verify_installed env fs python_abi architecture tag check_linkage =
     (let i = installed env
      in rbind (project_version env fs) (\<lambda>version.
         rbind (verify_tag version tag) (\<lambda>_.
         rbind (require (metadata_version_of i = version) ''installed metadata and project version differ'') (\<lambda>_.
         rbind (require (runtime_version i = version) ''runtime and project version differ'') (\<lambda>_.
         rbind (require (build_api_family i = BUILD_API_FAMILY) ''installed native module was not built for WirePlumber 0.5'') (\<lambda>_.
         rbind (require (''cp'' @ show_nat (fst (interpreter i)) @ show_nat (snd (interpreter i)) = python_abi) ''interpreter ABI'') (\<lambda>_.
         rbind (require (normalize_architecture (machine i) = architecture) ''runtime architecture'') (\<lambda>_.
         rbind (require (''site-packages'' \<in> set (module_path i)) ''native module was not imported from an installed wheel'') (\<lambda>_.
         if check_linkage then verify_linkage i else Inr ())))))))))"

section \<open>The record of an artifact\<close>

text \<open>The file is read in pieces of one mebibyte, each of which updates the digest.\<close>

definition sha256 :: "files \<Rightarrow> path \<Rightarrow> release_error + string" where
  "sha256 fs p =
     rbind (read_bytes fs p) (\<lambda>b. Inr (sha256_hex (concat (groups (length b) 1048576 b))))"

definition checksum_path :: "path \<Rightarrow> path" where
  "checksum_path artifact = with_name artifact (path_name artifact @ ''.sha256'')"

definition provenance_path :: "path \<Rightarrow> path" where
  "provenance_path artifact = with_name artifact (path_name artifact @ ''.provenance.json'')"

definition checksum_line :: "string \<Rightarrow> path \<Rightarrow> string" where
  "checksum_line digest artifact = digest @ ''  '' @ path_name artifact @ [CHR 0x0A]"

record build_record =
  br_repository :: string
  br_commit :: string
  br_ref :: string
  br_workflow :: string
  br_run_id :: string
  br_run_attempt :: string
  br_server_url :: string
  br_target :: string
  br_python_abi :: string
  br_architecture :: string

definition text_object :: "(string \<times> string) list \<Rightarrow> json" where
  "text_object items = JObject (map (\<lambda>(k, s). (k, JString s)) items)"

definition provenance_of :: "build_record \<Rightarrow> string \<Rightarrow> string \<Rightarrow> json" where
  "provenance_of b filename digest =
     JObject
       [(''schema'', JString PROVENANCE_SCHEMA),
        (''artifact'', text_object [(''filename'', filename), (''sha256'', digest)]),
        (''source'', text_object [(''repository'', br_repository b), (''commit'', br_commit b), (''ref'', br_ref b)]),
        (''build'', text_object
           [(''workflow'', br_workflow b), (''run_id'', br_run_id b), (''run_attempt'', br_run_attempt b),
            (''url'', br_server_url b @ ''/'' @ br_repository b @ ''/actions/runs/'' @ br_run_id b)]),
        (''target'', text_object
           [(''name'', br_target b), (''os'', ''debian-trixie''), (''python_abi'', br_python_abi b),
            (''architecture'', br_architecture b), (''wireplumber_api_family'', BUILD_API_FAMILY)])]"

definition record_artifact :: "path \<Rightarrow> build_record \<Rightarrow> files \<Rightarrow> (release_error + path \<times> path) \<times> files" where
  "record_artifact artifact b fs =
     (case rbind (require (is_file fs artifact) ''artifact does not exist'') (\<lambda>_.
           rbind (require (list_all (\<lambda>s. s \<noteq> [])
                      [br_repository b, br_commit b, br_ref b, br_workflow b, br_run_id b, br_run_attempt b])
                    ''provenance fields must not be empty'') (\<lambda>_.
           sha256 fs artifact)) of
        Inl e \<Rightarrow> (Inl e, fs)
      | Inr digest \<Rightarrow>
          (case write_text (checksum_path artifact) (checksum_line digest artifact) fs of
             (Inl e, fs1) \<Rightarrow> (Inl e, fs1)
           | (Inr _, fs1) \<Rightarrow>
               (case write_text (provenance_path artifact)
                       (json_indented 0 (provenance_of b (path_name artifact) digest) @ [CHR 0x0A]) fs1 of
                  (Inl e, fs2) \<Rightarrow> (Inl e, fs2)
                | (Inr _, fs2) \<Rightarrow> (Inr (checksum_path artifact, provenance_path artifact), fs2))))"

text \<open>\<open>json.loads\<close> of a text; the errors of the parser are value errors.\<close>

definition loads :: "string \<Rightarrow> release_error + json" where
  "loads text =
     (case json_loads text of Inl e \<Rightarrow> Inl (PythonError (ValueError ''JSON'')) | Inr v \<Rightarrow> Inr v)"

text \<open>\<open>value.get(key, default)\<close>: the last member of a name counts.\<close>

definition json_get :: "json \<Rightarrow> string \<Rightarrow> json \<Rightarrow> release_error + json" where
  "json_get v key otherwise_value =
     (case v of
        JObject kvs \<Rightarrow> Inr (case map_of (rev kvs) key of None \<Rightarrow> otherwise_value | Some x \<Rightarrow> x)
      | _ \<Rightarrow> Inl (PythonError (AttributeError ''object has no attribute'')))"

text \<open>\<open>value == {...}\<close> for a dictionary of texts.\<close>

definition is_text_object :: "(string \<times> string) list \<Rightarrow> json \<Rightarrow> bool" where
  "is_text_object items v =
     (case v of
        JObject kvs \<Rightarrow>
          list_all (\<lambda>(k, s). map_of (rev kvs) k = Some (JString s)) items \<and> list_all (\<lambda>(k, x). k \<in> fst ` set items) kvs
      | _ \<Rightarrow> False)"

text \<open>\<open>bool(value)\<close>; a number is false when it is read as zero.\<close>

fun json_truthy :: "json \<Rightarrow> bool" where
  "json_truthy JNull = False"
| "json_truthy (JBool b) = b"
| "json_truthy (JNumber s) = (case float_of_text (letters s) of Inr f \<Rightarrow> \<not> float_eq f 0 | Inl e \<Rightarrow> True)"
| "json_truthy (JString s) = (s \<noteq> [])"
| "json_truthy (JArray vs) = (vs \<noteq> [])"
| "json_truthy (JObject kvs) = (kvs \<noteq> [])"

fun all_given :: "json \<Rightarrow> string list \<Rightarrow> release_error + bool" where
  "all_given v [] = Inr True"
| "all_given v (name # names) =
     rbind (json_get v name JNull) (\<lambda>x. if json_truthy x then all_given v names else Inr False)"

text \<open>What the provenance is checked for, given the digest of the artifact.\<close>

definition verify_provenance :: "json \<Rightarrow> path \<Rightarrow> string \<Rightarrow> release_error + json" where
  "verify_provenance provenance artifact digest =
     rbind (json_get provenance ''schema'' JNull) (\<lambda>schema.
     rbind (require (schema = JString PROVENANCE_SCHEMA) ''unknown provenance schema'') (\<lambda>_.
     rbind (json_get provenance ''artifact'' JNull) (\<lambda>identity.
     rbind (require (is_text_object [(''filename'', path_name artifact), (''sha256'', digest)] identity)
              ''provenance artifact identity does not match'') (\<lambda>_.
     rbind (json_get provenance ''target'' (JObject [])) (\<lambda>target.
     rbind (json_get target ''os'' JNull) (\<lambda>os.
     rbind (require (os = JString ''debian-trixie'') ''provenance target OS is not Trixie'') (\<lambda>_.
     rbind (json_get target ''wireplumber_api_family'' JNull) (\<lambda>family.
     rbind (require (family = JString BUILD_API_FAMILY) ''provenance API family is not WirePlumber 0.5'') (\<lambda>_.
     rbind (json_get provenance ''source'' (JObject [])) (\<lambda>source.
     rbind (json_get provenance ''build'' (JObject [])) (\<lambda>build.
     rbind (all_given source [''repository'', ''commit'', ''ref'']) (\<lambda>given.
     rbind (require given ''provenance source identity is incomplete'') (\<lambda>_.
     rbind (all_given build [''workflow'', ''run_id'', ''run_attempt'', ''url'']) (\<lambda>given.
     rbind (require given ''provenance build identity is incomplete'') (\<lambda>_.
     Inr provenance)))))))))))))))"

definition verify_record :: "files \<Rightarrow> path \<Rightarrow> release_error + json" where
  "verify_record fs artifact =
     rbind (require (is_file fs artifact) ''artifact does not exist'') (\<lambda>_.
     rbind (require (is_file fs (checksum_path artifact)) ''checksum is missing'') (\<lambda>_.
     rbind (require (is_file fs (provenance_path artifact)) ''provenance is missing'') (\<lambda>_.
     rbind (sha256 fs artifact) (\<lambda>digest.
     rbind (read_text fs (checksum_path artifact)) (\<lambda>line.
     rbind (require (line = checksum_line digest artifact) ''checksum does not match'') (\<lambda>_.
     rbind (read_text fs (provenance_path artifact)) (\<lambda>text.
     rbind (loads text) (\<lambda>provenance. verify_provenance provenance artifact digest))))))))"

section \<open>The release directory\<close>

text \<open>
  \<open>re.search(r"-(cp[0-9]+)-\1-linux_(x86_64|aarch64)\.whl$", name)\<close>: the leftmost match.  The
  \<open>$\<close> also matches before a final newline.
\<close>

definition target_at :: "string \<Rightarrow> (string \<times> string) option" where
  "target_at s =
     (if \<not> starts_with ''-cp'' s then None
      else let (digits, rest) = split_digits (drop 3 s); abi = ''cp'' @ digits
           in if digits = [] \<or> \<not> starts_with (''-'' @ abi @ ''-linux_'') rest then None
              else let tail = drop (length abi + 8) rest
                   in map_option (Pair abi)
                        (find (\<lambda>arch. tail = arch @ ''.whl'' \<or> tail = arch @ ''.whl'' @ [CHR 0x0A]) [''x86_64'', ''aarch64'']))"

fun wheel_target :: "string \<Rightarrow> (string \<times> string) option" where
  "wheel_target [] = None"
| "wheel_target (c # cs) = (case target_at (c # cs) of Some t \<Rightarrow> Some t | None \<Rightarrow> wheel_target cs)"

definition observed_targets ::
    "release_env \<Rightarrow> files \<Rightarrow> string option \<Rightarrow> path list \<Rightarrow> release_error + (string \<times> string) list" where
  "observed_targets env fs tag wheels =
     traverse (\<lambda>wheel.
       case wheel_target (path_name wheel) of
         None \<Rightarrow> Inl (ReleaseContractError ''wheel target cannot be parsed'')
       | Some (python_abi, architecture) \<Rightarrow>
           rbind (verify_wheel env fs wheel python_abi architecture tag) (\<lambda>_. Inr (python_abi, architecture))) wheels"

definition is_wheel :: "path \<Rightarrow> bool" where
  "is_wheel p \<longleftrightarrow> path_suffix p = ''.whl''"

definition is_sdist :: "path \<Rightarrow> bool" where
  "is_sdist p \<longleftrightarrow> ends_with ''.tar.gz'' (path_name p)"

definition downloaded_artifacts :: "files \<Rightarrow> path \<Rightarrow> path list" where
  "downloaded_artifacts fs source = sort (filter (\<lambda>p. is_file fs p \<and> (is_wheel p \<or> is_sdist p)) (below fs source))"

definition expected_targets :: "(string \<times> string) list" where
  "expected_targets = concat (map (\<lambda>abi. map (Pair abi) SUPPORTED_ARCHITECTURES) SUPPORTED_PYTHON_ABIS)"

definition verify_matrix :: "release_env \<Rightarrow> files \<Rightarrow> string option \<Rightarrow> path list \<Rightarrow> release_error + unit" where
  "verify_matrix env fs tag artifacts =
     rbind (require (length artifacts = 7) ''expected six wheels and one source archive'') (\<lambda>_.
     rbind (require (distinct (map path_name artifacts)) ''downloaded artifacts have duplicate filenames'') (\<lambda>_.
     let wheels = filter is_wheel artifacts; sdists = filter is_sdist artifacts
     in rbind (require (length wheels = 6 \<and> length sdists = 1) ''release artifact matrix is incomplete'') (\<lambda>_.
        rbind (observed_targets env fs tag wheels) (\<lambda>observed.
        rbind (require (set observed = set expected_targets) ''wheel matrix has missing or repeated targets'') (\<lambda>_.
        verify_sdist env fs (hd sdists) tag)))))"

fun copy_into :: "path \<Rightarrow> path list \<Rightarrow> files \<Rightarrow> (release_error + unit) \<times> files" where
  "copy_into destination [] fs = (Inr (), fs)"
| "copy_into destination (p # ps) fs =
     (case copy_file p (destination @ [path_name p]) fs of
        (Inl e, fs') \<Rightarrow> (Inl e, fs')
      | (Inr _, fs') \<Rightarrow> copy_into destination ps fs')"

definition release_source :: "string \<Rightarrow> string \<Rightarrow> string \<Rightarrow> (string \<times> string) list" where
  "release_source repository commit tag =
     [(''repository'', repository), (''commit'', commit), (''ref'', ''refs/tags/'' @ tag)]"

definition verify_source :: "files \<Rightarrow> (string \<times> string) list \<Rightarrow> path \<Rightarrow> release_error + unit" where
  "verify_source fs source artifact =
     rbind (verify_record fs artifact) (\<lambda>provenance.
     rbind (json_item provenance ''source'') (\<lambda>v.
     require (is_text_object source v) ''provenance source does not match the release tag''))"

fun copy_artifacts ::
    "path \<Rightarrow> (string \<times> string) list \<Rightarrow> path list \<Rightarrow> files \<Rightarrow> (release_error + unit) \<times> files" where
  "copy_artifacts destination source [] fs = (Inr (), fs)"
| "copy_artifacts destination source (artifact # artifacts) fs =
     (case verify_source fs source artifact of
        Inl e \<Rightarrow> (Inl e, fs)
      | Inr _ \<Rightarrow>
          (case copy_into destination [artifact, checksum_path artifact, provenance_path artifact] fs of
             (Inl e, fs') \<Rightarrow> (Inl e, fs')
           | (Inr _, fs') \<Rightarrow> copy_artifacts destination source artifacts fs'))"

definition collect_artifacts ::
    "release_env \<Rightarrow> path \<Rightarrow> path \<Rightarrow> string \<Rightarrow> string \<Rightarrow> string \<Rightarrow> files \<Rightarrow> (release_error + unit) \<times> files" where
  "collect_artifacts env source destination tag commit repository fs =
     (if \<not> is_dir fs source then (Inl (ReleaseContractError ''artifact download directory does not exist''), fs)
      else case mkdir_parents destination fs of
        (Inl e, fs1) \<Rightarrow> (Inl e, fs1)
      | (Inr _, fs1) \<Rightarrow>
          if children fs1 destination \<noteq> [] then (Inl (ReleaseContractError ''release directory is not empty''), fs1)
          else let artifacts = downloaded_artifacts fs1 source
               in case verify_matrix env fs1 (Some tag) artifacts of
                    Inl e \<Rightarrow> (Inl e, fs1)
                  | Inr _ \<Rightarrow> copy_artifacts destination (release_source repository commit tag) artifacts fs1)"

section \<open>The commands\<close>

text \<open>The commands of \<open>_parser\<close>, with their arguments.\<close>

datatype command =
    VersionCommand "string option"
  | WheelCommand path string string "string option"
  | SdistCommand path "string option"
  | InstalledCommand string string "string option" bool
  | RecordCommand path build_record
  | VerifyRecordCommand path
  | CollectCommand path path string string string

definition read_only :: "(files \<Rightarrow> release_error + 'a) \<Rightarrow> files \<Rightarrow> (release_error + unit) \<times> files" where
  "read_only f fs = (rbind (f fs) (\<lambda>_. Inr ()), fs)"

fun run_command :: "release_env \<Rightarrow> command \<Rightarrow> files \<Rightarrow> (release_error + unit) \<times> files" where
  "run_command env (VersionCommand tag) fs =
     read_only (\<lambda>fs. rbind (project_version env fs) (\<lambda>version. verify_tag version tag)) fs"
| "run_command env (WheelCommand p python_abi architecture tag) fs =
     read_only (\<lambda>fs. verify_wheel env fs p python_abi architecture tag) fs"
| "run_command env (SdistCommand p tag) fs = read_only (\<lambda>fs. verify_sdist env fs p tag) fs"
| "run_command env (InstalledCommand python_abi architecture tag check_linkage) fs =
     read_only (\<lambda>fs. verify_installed env fs python_abi architecture tag check_linkage) fs"
| "run_command env (RecordCommand p b) fs =
     (case record_artifact p b fs of (r, fs') \<Rightarrow> (rbind r (\<lambda>_. Inr ()), fs'))"
| "run_command env (VerifyRecordCommand p) fs = read_only (\<lambda>fs. verify_record fs p) fs"
| "run_command env (CollectCommand source destination tag commit repository) fs =
     collect_artifacts env source destination tag commit repository fs"

fun is_reported :: "release_error \<Rightarrow> bool" where
  "is_reported (ReleaseContractError m) = True"
| "is_reported (OSError m) = True"
| "is_reported (PythonError (KeyError m)) = True"
| "is_reported (PythonError e) = is_value_error e"

text \<open>\<open>main\<close>: the exit code, or the error that escapes.\<close>

definition main :: "release_env \<Rightarrow> command \<Rightarrow> files \<Rightarrow> (release_error + int) \<times> files" where
  "main env command fs =
     (case run_command env command fs of
        (Inr _, fs') \<Rightarrow> (Inr 0, fs')
      | (Inl e, fs') \<Rightarrow> if is_reported e then (Inr 1, fs') else (Inl e, fs'))"

end
