(* ===== verification/ReleaseRecord.thy ===== *)
theory ReleaseRecord
  imports ReleaseContract
begin

text \<open>
  The record of an artifact: the provenance and the checksum that \<open>record_artifact\<close> writes are read
  back as what they say, so the artifact verifies.
\<close>

section \<open>Indented JSON is read back\<close>

text \<open>A text that the parser reads as a value, whatever follows, with the given fuel.\<close>

definition reads_as :: "nat \<Rightarrow> string \<Rightarrow> json \<Rightarrow> bool" where
  "reads_as f t v \<longleftrightarrow>
     (\<forall>m r. f \<le> m \<longrightarrow> json_value m (t @ r) = Inr (v, r)) \<and> (\<forall>r. skip_space (t @ r) = t @ r)"

lemma reads_as_more: "reads_as f t v \<Longrightarrow> f \<le> g \<Longrightarrow> reads_as g t v"
  by (auto simp: reads_as_def)

lemma reads_string: "utf8_text s \<Longrightarrow> reads_as 1 (json_string s) (JString s)"
  unfolding reads_as_def
proof (intro conjI allI impI)
  fix m r
  assume s: "utf8_text s" and m: "1 \<le> (m :: nat)"
  obtain n where "m = Suc n" using m by (cases m) auto
  then show "json_value m (json_string s @ r) = Inr (JString s, r)" using json_value_string [OF s] by simp
qed simp

lemma skip_indentation: "skip_space (indentation n @ s) = skip_space s"
proof -
  have "dropWhile json_space (replicate k (CHR '' '') @ s) = dropWhile json_space s" for k
    by (induction k) (simp_all add: json_space_def)
  then show ?thesis by (simp add: indentation_def skip_space_def json_space_def)
qed

definition member_text :: "string \<times> string \<Rightarrow> string" where
  "member_text kt = json_string (fst kt) @ '': '' @ snd kt"

lemma member_text_nonempty: "member_text kt = CHR 0x22 # tl (member_text kt)"
proof -
  obtain q where "json_string (fst kt) = CHR 0x22 # q" using json_string_quote by blast
  then show ?thesis by (simp add: member_text_def)
qed

lemma skip_member [simp]: "skip_space (member_text kt @ r) = member_text kt @ r"
  by (simp add: member_text_def)

lemma read_member:
  assumes "utf8_text k" "reads_as f t v" "f \<le> m"
  shows "json_members (Suc m) (member_text (k, t) @ r) =
    (case skip_space r of
       [] \<Rightarrow> Inl JsonDecodeError
     | d # r4 \<Rightarrow>
         if d = CHR 0x7D then Inr ([(k, v)], r4)
         else if d = CHR 0x2C then rbind (json_members m (skip_space r4)) (\<lambda>(ms, r5). Inr ((k, v) # ms, r5))
         else Inl JsonDecodeError)"
proof -
  have t: "json_value m (t @ r) = Inr (v, r)" "skip_space (t @ r) = t @ r" using assms(2,3) by (auto simp: reads_as_def)
  have scan: "scan_string (tl (json_string k) @ '': '' @ t @ r) = Some (k, '': '' @ t @ r)"
    by (rule scan_json_text [OF assms(1)])
  have space: "skip_space ('' '' @ t @ r) = t @ r" using t(2) by (simp add: skip_space_def json_space_def)
  obtain q where q: "json_string k = CHR 0x22 # q" using json_string_quote by blast
  show ?thesis
    using scan t(1) space by (simp add: json_members.simps member_text_def q json_space_def)
qed

lemma read_members:
  assumes "list_all (\<lambda>(k, t, v). utf8_text k \<and> reads_as f t v) items" "items \<noteq> []" "f + length items \<le> m"
  shows "json_members m (separated (CHR '','' # indentation i) (map (\<lambda>(k, t, v). member_text (k, t)) items) @
      indentation n @ CHR 0x7D # r) = Inr (map (\<lambda>(k, t, v). (k, v)) items, r)"
  using assms
proof (induction items arbitrary: m)
  case (Cons item items)
  obtain k t v where item: "item = (k, t, v)" by (cases item)
  obtain m' where m: "m = Suc m'" "f \<le> m'" using Cons.prems(3) by (cases m) auto
  have k: "utf8_text k" "reads_as f t v" using Cons.prems(1) item by simp_all
  show ?case
  proof (cases items)
    case Nil
    then show ?thesis using read_member [OF k m(2)] m(1) item by (simp add: skip_indentation json_space_def)
  next
    case (Cons item' items')
    obtain k' t' v' where item': "item' = (k', t', v')" by (cases item')
    let ?rest = "separated (CHR '','' # indentation i) (map (\<lambda>(k, t, v). member_text (k, t)) items) @ indentation n @ CHR 0x7D # r"
    have "\<exists>x. ?rest = member_text (k', t') @ x" using Cons item' by (cases items') simp_all
    then have "skip_space ?rest = ?rest" by auto
    moreover have "json_members m' ?rest = Inr (map (\<lambda>(k, t, v). (k, v)) items, r)"
      by (rule Cons.IH) (use Cons.prems m Cons in simp_all)
    ultimately show ?thesis
      using read_member [OF k m(2), of "CHR '','' # indentation i @ ?rest"] m(1) item Cons item'
      by (simp add: skip_indentation json_space_def)
  qed
qed simp

lemma reads_object:
  assumes "list_all (\<lambda>(k, t, v). utf8_text k \<and> reads_as f t v) items" "items \<noteq> []"
  shows "reads_as (Suc (f + length items)) (bracketed n (CHR 0x7B) (CHR 0x7D) (map (\<lambda>(k, t, v). member_text (k, t)) items))
    (JObject (map (\<lambda>(k, t, v). (k, v)) items))"
  unfolding reads_as_def
proof (intro conjI allI impI)
  fix m r
  assume m: "Suc (f + length items) \<le> m"
  then obtain m' where m': "m = Suc m'" "f + length items \<le> m'" by (cases m) auto
  let ?body = "separated (CHR '','' # indentation (Suc n)) (map (\<lambda>(k, t, v). member_text (k, t)) items) @ indentation n @ CHR 0x7D # r"
  obtain k t v items' where items: "items = (k, t, v) # items'" using assms(2) by (cases items) auto
  have "\<exists>x. ?body = member_text (k, t) @ x" using items by (cases items') auto
  then obtain x where x: "?body = member_text (k, t) @ x" by blast
  then have skip: "skip_space (indentation (Suc n) @ ?body) = ?body" by (simp only: skip_indentation skip_member)
  obtain y where y: "?body = CHR 0x22 # y" using x member_text_nonempty by (metis append_Cons)
  show "json_value m (bracketed n (CHR 0x7B) (CHR 0x7D) (map (\<lambda>(k, t, v). member_text (k, t)) items) @ r) =
      Inr (JObject (map (\<lambda>(k, t, v). (k, v)) items), r)"
    using read_members [OF assms m'(2), of "Suc n" n r] skip assms(2) y
    by (simp add: m'(1) json_value.simps bracketed_def)
next
  fix r
  show "skip_space (bracketed n (CHR 0x7B) (CHR 0x7D) (map (\<lambda>(k, t, v). member_text (k, t)) items) @ r) =
      bracketed n (CHR 0x7B) (CHR 0x7D) (map (\<lambda>(k, t, v). member_text (k, t)) items) @ r"
    by (simp add: bracketed_def json_space_def)
qed

lemma insort_pairs:
  "insort_key fst (fst kv, f (snd kv)) (map (\<lambda>p. (fst p, f (snd p))) ys) = map (\<lambda>p. (fst p, f (snd p))) (insort_key fst kv ys)"
  by (induction ys) auto

lemma sort_key_pairs: "sort_key fst (map (\<lambda>p. (fst p, f (snd p))) kvs) = map (\<lambda>p. (fst p, f (snd p))) (sort_key fst kvs)"
  by (induction kvs) (simp_all add: insort_pairs)

lemma reads_indented_object:
  assumes "\<forall>(k, v) \<in> set kvs. utf8_text k \<and> reads_as f (json_indented (Suc n) v) (g v)" "kvs \<noteq> []"
  shows "reads_as (Suc (f + length kvs)) (json_indented n (JObject kvs)) (JObject (map (\<lambda>(k, v). (k, g v)) (sort_key fst kvs)))"
proof -
  let ?items = "map (\<lambda>(k, v). (k, json_indented (Suc n) v, g v)) (sort_key fst kvs)"
  have "list_all (\<lambda>(k, t, v). utf8_text k \<and> reads_as f t v) ?items" "?items \<noteq> []"
    using assms by (auto simp: list_all_iff) (metis assms(2) length_0_conv length_sort)
  from reads_object [OF this, of n] show ?thesis
    by (simp add: sort_key_pairs o_def case_prod_unfold member_text_def)
qed

lemma utf8_text_ascii: "list_all (\<lambda>c. of_char c < (128 :: nat)) s \<Longrightarrow> utf8_text s"
proof -
  assume a: "list_all (\<lambda>c. of_char c < (128 :: nat)) s"
  have "s = utf8_encode (map of_char s)" using a by (induction s) (simp_all add: utf8_encode_def utf8_char_def)
  moreover have "list_all scalar_value (map of_char s)" using a by (auto simp: list_all_iff scalar_value_def code_point_def)
  ultimately show ?thesis unfolding utf8_text_def by blast
qed

lemma reads_text_object:
  assumes "\<forall>(k, s) \<in> set items. utf8_text k \<and> utf8_text s" "items \<noteq> []"
  shows "reads_as (2 + length items) (json_indented n (text_object items)) (text_object (sort_key fst items))"
proof -
  have "reads_as (Suc (1 + length (map (\<lambda>(k, s). (k, JString s)) items))) (json_indented n (JObject (map (\<lambda>(k, s). (k, JString s)) items)))
      (JObject (map (\<lambda>(k, v). (k, id v)) (sort_key fst (map (\<lambda>(k, s). (k, JString s)) items))))"
    by (rule reads_indented_object) (use assms reads_string in \<open>auto\<close>)
  then show ?thesis by (simp add: text_object_def sort_key_pairs o_def case_prod_unfold)
qed

section \<open>The provenance\<close>

definition build_texts :: "build_record \<Rightarrow> string list" where
  "build_texts b =
     [br_repository b, br_commit b, br_ref b, br_workflow b, br_run_id b, br_run_attempt b, br_server_url b, br_target b,
      br_python_abi b, br_architecture b]"

definition build_url :: "build_record \<Rightarrow> string" where
  "build_url b = br_server_url b @ ''/'' @ br_repository b @ ''/actions/runs/'' @ br_run_id b"

text \<open>The provenance as it is read back, with the members in the order of their names.\<close>

definition sorted_provenance :: "build_record \<Rightarrow> string \<Rightarrow> string \<Rightarrow> json" where
  "sorted_provenance b filename digest =
     JObject
       [(''artifact'', text_object [(''filename'', filename), (''sha256'', digest)]),
        (''build'', text_object
           [(''run_attempt'', br_run_attempt b), (''run_id'', br_run_id b), (''url'', build_url b), (''workflow'', br_workflow b)]),
        (''schema'', JString PROVENANCE_SCHEMA),
        (''source'', text_object [(''commit'', br_commit b), (''ref'', br_ref b), (''repository'', br_repository b)]),
        (''target'', text_object
           [(''architecture'', br_architecture b), (''name'', br_target b), (''os'', ''debian-trixie''),
            (''python_abi'', br_python_abi b), (''wireplumber_api_family'', BUILD_API_FAMILY)])]"

lemma utf8_encode_append: "utf8_encode (ps @ qs) = utf8_encode ps @ utf8_encode qs"
  by (simp add: utf8_encode_def)

lemma utf8_text_append: "utf8_text s \<Longrightarrow> utf8_text t \<Longrightarrow> utf8_text (s @ t)"
  unfolding utf8_text_def by (metis list_all_append utf8_encode_append)

lemma sorted_members:
  "sort_key fst [(''filename'', x1 :: string), (''sha256'', x2)] = [(''filename'', x1), (''sha256'', x2)]"
  "sort_key fst [(''repository'', y1 :: string), (''commit'', y2), (''ref'', y3)] = [(''commit'', y2), (''ref'', y3), (''repository'', y1)]"
  "sort_key fst [(''workflow'', z1 :: string), (''run_id'', z2), (''run_attempt'', z3), (''url'', z4)] =
     [(''run_attempt'', z3), (''run_id'', z2), (''url'', z4), (''workflow'', z1)]"
  "sort_key fst [(''name'', u1 :: string), (''os'', u2), (''python_abi'', u3), (''architecture'', u4), (''wireplumber_api_family'', u5)] =
     [(''architecture'', u4), (''name'', u1), (''os'', u2), (''python_abi'', u3), (''wireplumber_api_family'', u5)]"
  "sort_key fst [(''schema'', v1 :: json), (''artifact'', v2), (''source'', v3), (''build'', v4), (''target'', v5)] =
     [(''artifact'', v2), (''build'', v4), (''schema'', v1), (''source'', v3), (''target'', v5)]"
  by (simp_all add: less_eq_char_def less_char_def)

definition sorted_object :: "json \<Rightarrow> json" where
  "sorted_object v = (case v of JObject kvs \<Rightarrow> JObject (sort_key fst kvs) | _ \<Rightarrow> v)"

lemma sorted_object_simps [simp]:
  "sorted_object (JString s) = JString s" "sorted_object (text_object items) = text_object (sort_key fst items)"
  by (simp_all add: sorted_object_def text_object_def sort_key_pairs case_prod_unfold)

lemma utf8_ascii_names:
  "utf8_text ''schema''" "utf8_text ''artifact''" "utf8_text ''source''" "utf8_text ''build''" "utf8_text ''target''"
  "utf8_text ''filename''" "utf8_text ''sha256''" "utf8_text ''repository''" "utf8_text ''commit''" "utf8_text ''ref''"
  "utf8_text ''workflow''" "utf8_text ''run_id''" "utf8_text ''run_attempt''" "utf8_text ''url''" "utf8_text ''name''"
  "utf8_text ''os''" "utf8_text ''debian-trixie''" "utf8_text ''python_abi''" "utf8_text ''architecture''"
  "utf8_text ''wireplumber_api_family''" "utf8_text BUILD_API_FAMILY" "utf8_text PROVENANCE_SCHEMA" "utf8_text ''/''"
  "utf8_text ''/actions/runs/''"
  by (rule utf8_text_ascii, simp add: BUILD_API_FAMILY_def PROVENANCE_SCHEMA_def)+

lemma reads_provenance:
  assumes "list_all utf8_text (build_texts b)" "utf8_text filename" "utf8_text digest"
  shows "reads_as 13 (json_indented 0 (provenance_of b filename digest)) (sorted_provenance b filename digest)"
proof -
  have url: "utf8_text (build_url b)"
    using assms(1) unfolding build_url_def by (intro utf8_text_append) (simp_all add: build_texts_def utf8_ascii_names)
  let ?r = "\<lambda>v. reads_as 7 (json_indented 1 v) (sorted_object v)"
  have obj: "?r (text_object items)" if "\<forall>(k, s) \<in> set items. utf8_text k \<and> utf8_text s" "items \<noteq> []" "length items \<le> 5" for items
    using reads_as_more [OF reads_text_object [OF that(1,2), of 1], of 7] that(3) by simp
  have "?r (JString PROVENANCE_SCHEMA)"
    using reads_as_more [OF reads_string [OF utf8_ascii_names(22)], of 7] by simp
  moreover have "?r (text_object [(''filename'', filename), (''sha256'', digest)])"
    by (rule obj) (use assms in \<open>simp_all add: utf8_ascii_names\<close>)
  moreover have "?r (text_object [(''repository'', br_repository b), (''commit'', br_commit b), (''ref'', br_ref b)])"
    by (rule obj) (use assms in \<open>simp_all add: utf8_ascii_names build_texts_def\<close>)
  moreover have "?r (text_object [(''workflow'', br_workflow b), (''run_id'', br_run_id b), (''run_attempt'', br_run_attempt b),
      (''url'', build_url b)])"
    by (rule obj) (use assms url in \<open>simp_all add: utf8_ascii_names build_texts_def\<close>)
  moreover have "?r (text_object [(''name'', br_target b), (''os'', ''debian-trixie''), (''python_abi'', br_python_abi b),
      (''architecture'', br_architecture b), (''wireplumber_api_family'', BUILD_API_FAMILY)])"
    by (rule obj) (use assms in \<open>simp_all add: utf8_ascii_names build_texts_def\<close>)
  moreover obtain kvs where kvs: "provenance_of b filename digest = JObject kvs" "length kvs = 5"
      "kvs = [(''schema'', JString PROVENANCE_SCHEMA),
        (''artifact'', text_object [(''filename'', filename), (''sha256'', digest)]),
        (''source'', text_object [(''repository'', br_repository b), (''commit'', br_commit b), (''ref'', br_ref b)]),
        (''build'', text_object
           [(''workflow'', br_workflow b), (''run_id'', br_run_id b), (''run_attempt'', br_run_attempt b), (''url'', build_url b)]),
        (''target'', text_object
           [(''name'', br_target b), (''os'', ''debian-trixie''), (''python_abi'', br_python_abi b),
            (''architecture'', br_architecture b), (''wireplumber_api_family'', BUILD_API_FAMILY)])]"
    by (simp add: provenance_of_def build_url_def)
  ultimately have "\<forall>(k, v) \<in> set kvs. utf8_text k \<and> reads_as 7 (json_indented (Suc 0) v) (sorted_object v)"
    by (simp add: utf8_ascii_names)
  from reads_indented_object [OF this] have "reads_as 13 (json_indented 0 (provenance_of b filename digest))
      (JObject (map (\<lambda>(k, v). (k, sorted_object v)) (sort_key fst kvs)))"
    using kvs(1,2) by fastforce
  moreover have "JObject (map (\<lambda>(k, v). (k, sorted_object v)) (sort_key fst kvs)) = sorted_provenance b filename digest"
    unfolding kvs(3) sorted_members(5) by (simp add: sorted_members sorted_provenance_def del: sort_key_simps)
  ultimately show ?thesis by simp
qed

lemma provenance_length: "6 \<le> length (json_indented 0 (provenance_of b filename digest))"
proof -
  have "6 \<le> length (bracketed 0 l r (x # xs))" for l r :: char and x and xs
    by (simp add: bracketed_def indentation_def)
  moreover have "\<exists>x xs. map (\<lambda>(k, v). json_string k @ '': '' @ v) (sort_key fst (map (\<lambda>(k, v). (k, json_indented (Suc 0) v)) kvs)) = x # xs"
    if "kvs \<noteq> []" for kvs
  proof -
    have "length (map (\<lambda>(k, v). json_string k @ '': '' @ v) (sort_key fst (map (\<lambda>(k, v). (k, json_indented (Suc 0) v)) kvs))) \<noteq> 0"
      using that by simp
    then show ?thesis by (metis length_0_conv list.exhaust)
  qed
  ultimately show ?thesis unfolding provenance_of_def json_indented.simps by (metis list.distinct(1))
qed

lemma loads_provenance:
  assumes "list_all utf8_text (build_texts b)" "utf8_text filename" "utf8_text digest"
  shows "loads (json_indented 0 (provenance_of b filename digest) @ [CHR 0x0A]) = Inr (sorted_provenance b filename digest)"
proof -
  let ?t = "json_indented 0 (provenance_of b filename digest)"
  note r = reads_provenance [OF assms]
  have "13 \<le> Suc (2 * length (?t @ [CHR 0x0A]))" using provenance_length [of b filename digest] by simp
  then have "json_value (Suc (2 * length (?t @ [CHR 0x0A]))) (?t @ [CHR 0x0A]) = Inr (sorted_provenance b filename digest, [CHR 0x0A])"
    "skip_space (?t @ [CHR 0x0A]) = ?t @ [CHR 0x0A]"
    using r unfolding reads_as_def by blast+
  moreover have "skip_space [CHR 0x0A] = []" by (simp add: skip_space_def json_space_def)
  ultimately show ?thesis by (simp add: loads_def json_loads_def)
qed

section \<open>Written text is read back\<close>

lemma text_of_bytes: "map char_of (map unat (text_bytes s)) = s" "map unat (text_bytes s) = map of_char s"
proof -
  have "unat (word_of_nat (of_char c) :: 8 word) = of_char c" for c
    using nat_of_char_less_256 [of c] by (simp add: unsigned_of_nat take_bit_nat_eq_self_iff del: nat_of_char_less_256)
  then show "map unat (text_bytes s) = map of_char s" by (simp add: text_bytes_def)
  then show "map char_of (map unat (text_bytes s)) = s" by (simp add: map_idI)
qed

lemma newlines_id: "CHR 0x0D \<notin> set s \<Longrightarrow> newlines False s = s"
  by (induction s) auto

lemma write_entry_done:
  assumes "write_entry p b fs = (Inr u, fs')" "p \<noteq> []"
  shows "entry_at fs' q = (if q = p then Some (File b) else entry_at fs q)" "\<not> is_dir fs p" "is_dir fs (butlast p)"
    "set (map fst fs') = insert p (set (map fst fs))"
  using assms keys_alist_set [of p "File b" fs] by (auto simp: write_entry_def entry_at_def split: if_splits)

lemma write_text_done:
  assumes "write_text p s fs = (Inr u, fs')" "p \<noteq> []"
  shows "entry_at fs' q = (if q = p then Some (File (text_bytes s)) else entry_at fs q)" "valid_utf8 (map of_char s)"
proof -
  have v: "valid_utf8 (map of_char s)" "write_entry p (text_bytes s) fs = (Inr u, fs')"
    using assms(1) by (auto simp: write_text_def split: if_splits prod.splits sum.splits)
  then show "entry_at fs' q = (if q = p then Some (File (text_bytes s)) else entry_at fs q)" "valid_utf8 (map of_char s)"
    using write_entry_done(1) [OF v(2) assms(2)] by simp_all
qed

lemma read_text_bytes:
  assumes "entry_at fs p = Some (File (text_bytes s))" "valid_utf8 (map of_char s)" "CHR 0x0D \<notin> set s"
  shows "read_text fs p = Inr s"
proof -
  have "map char_of (map of_char s :: nat list) = s" by (simp add: map_idI)
  then show ?thesis
    using assms newlines_id [OF assms(3)]
    by (simp add: read_text_def read_bytes_def text_of_bytes(2) universal_newlines_def Let_def del: list.map_comp map_map)
qed

section \<open>Plain text\<close>

text \<open>ASCII without carriage returns, which is written and read back as it is.\<close>

definition plain_char :: "char \<Rightarrow> bool" where
  "plain_char c \<longleftrightarrow> c \<noteq> CHR 0x0D \<and> (of_char c :: nat) < 128"

lemma plain_char_of: "32 \<le> n \<Longrightarrow> n < 128 \<Longrightarrow> plain_char (char_of (n :: nat))"
  by (auto simp: plain_char_def dest: arg_cong [where f = "of_char :: char \<Rightarrow> nat"])

lemma json_escape_plain: "c \<in> set (json_escape n) \<Longrightarrow> plain_char c"
proof -
  have "plain_char (hex_char d)" if "d < 16" for d using that plain_char_of by (simp add: hex_char_def)
  then have "c \<in> set (unicode_escape m) \<Longrightarrow> plain_char c" for m by (auto simp: unicode_escape_def plain_char_def)
  then show "c \<in> set (json_escape n) \<Longrightarrow> plain_char c"
    by (auto simp: json_escape_def plain_char_of split: if_splits) (simp_all add: plain_char_def)
qed

lemma json_string_plain: "list_all plain_char (json_string s)"
  using json_escape_plain by (auto simp: json_string_def list_all_iff) (simp_all add: plain_char_def)

lemma separated_plain:
  "list_all plain_char sep \<Longrightarrow> \<forall>x \<in> set xs. list_all plain_char x \<Longrightarrow> list_all plain_char (separated sep xs)"
  by (induction sep xs rule: separated.induct) simp_all

lemma indentation_plain: "list_all plain_char (indentation m)"
  by (simp add: indentation_def list_all_iff plain_char_def)

lemma bracketed_plain:
  assumes "\<forall>x \<in> set items. list_all plain_char x" "plain_char l" "plain_char r"
  shows "list_all plain_char (bracketed n l r items)"
proof -
  have "list_all plain_char (separated (CHR '','' # indentation (Suc n)) items)"
    by (rule separated_plain) (use assms(1) indentation_plain in \<open>simp_all add: plain_char_def\<close>)
  then show ?thesis using assms(2,3) indentation_plain by (simp add: bracketed_def)
qed

lemma json_indented_plain:
  assumes "\<forall>(k, v) \<in> set kvs. list_all plain_char (json_indented (Suc n) v)"
  shows "list_all plain_char (json_indented n (JObject kvs))"
  unfolding json_indented.simps
proof (rule bracketed_plain)
  show "\<forall>x \<in> set (map (\<lambda>(k, v). json_string k @ '': '' @ v) (sort_key fst (map (\<lambda>(k, v). (k, json_indented (Suc n) v)) kvs))).
      list_all plain_char x"
    using assms json_string_plain by (auto simp: plain_char_def)
qed (simp_all add: plain_char_def)

lemma provenance_plain: "list_all plain_char (json_indented 0 (provenance_of b filename digest))"
proof -
  have "list_all plain_char (json_indented n (text_object items))" for n items
    unfolding text_object_def by (rule json_indented_plain) (auto simp: json_string_plain)
  then show ?thesis unfolding provenance_of_def by (intro json_indented_plain) (simp add: json_string_plain)
qed

lemma plain_valid: "list_all plain_char s \<Longrightarrow> valid_utf8 (map of_char s)"
  unfolding valid_utf8_def by (rule decode_replace_ascii) (simp add: list_all_iff plain_char_def)

lemma plain_no_return: "list_all plain_char s \<Longrightarrow> CHR 0x0D \<notin> set s"
  by (auto simp: list_all_iff plain_char_def)

section \<open>The digest\<close>

lemma concat_groups: "length xs \<le> n * k \<Longrightarrow> concat (groups n k xs) = xs"
proof (induction n arbitrary: xs)
  case (Suc n)
  show ?case
  proof (cases "xs = []")
    case False
    have "length (drop k xs) \<le> n * k" using Suc.prems by simp
    then show ?thesis using Suc.IH [of "drop k xs"] False by simp
  qed simp
qed simp

text \<open>Reading in pieces does not change the digest.\<close>

lemma sha256_file: "sha256 fs p = rbind (read_bytes fs p) (\<lambda>b. Inr (sha256_hex b))"
proof -
  have "concat (groups (length b) 1048576 b) = b" for b :: bytes by (rule concat_groups) simp
  then show ?thesis by (simp add: sha256_def)
qed

lemma sha256_hex_plain: "list_all plain_char (sha256_hex data)"
proof -
  have "plain_char (hex_char d)" if "d < 16" for d using that plain_char_of by (simp add: hex_char_def)
  then show ?thesis by (auto simp: sha256_hex_def hex_digits_of_def Let_def list_all_iff)
qed

section \<open>A recorded artifact verifies\<close>

lemma require_Inr [simp]: "require True m = Inr ()" "require c m = Inr u \<longleftrightarrow> c"
  by (simp_all add: require_def)

lemma build_url_nonempty: "build_url b \<noteq> []"
  by (simp add: build_url_def)

lemma verify_sorted_provenance:
  assumes "list_all (\<lambda>s. s \<noteq> []) [br_repository b, br_commit b, br_ref b, br_workflow b, br_run_id b, br_run_attempt b]"
  shows "verify_provenance (sorted_provenance b (path_name artifact) digest) artifact digest =
    Inr (sorted_provenance b (path_name artifact) digest)"
  using assms build_url_nonempty [of b]
  by (simp add: verify_provenance_def sorted_provenance_def text_object_def json_get_def is_text_object_def)

lemma record_artifact_done:
  assumes "record_artifact artifact b fs = (Inr r, fs')"
  obtains data fs1 where "artifact \<noteq> []" "entry_at fs artifact = Some (File data)"
    "list_all (\<lambda>s. s \<noteq> []) [br_repository b, br_commit b, br_ref b, br_workflow b, br_run_id b, br_run_attempt b]"
    "write_text (checksum_path artifact) (checksum_line (sha256_hex data) artifact) fs = (Inr (), fs1)"
    "write_text (provenance_path artifact) (json_indented 0 (provenance_of b (path_name artifact) (sha256_hex data)) @ [CHR 0x0A]) fs1 =
      (Inr (), fs')"
proof -
  obtain digest where d: "is_file fs artifact" "sha256 fs artifact = Inr digest"
      "list_all (\<lambda>s. s \<noteq> []) [br_repository b, br_commit b, br_ref b, br_workflow b, br_run_id b, br_run_attempt b]"
    using assms by (auto simp: record_artifact_def split: sum.splits elim!: rbind_InrE)
  obtain data where f: "entry_at fs artifact = Some (File data)"
    using d(1) by (auto simp: is_file_def split: option.splits entry.splits)
  then have "digest = sha256_hex data" using d(2) by (simp add: sha256_file read_bytes_def)
  moreover have "artifact \<noteq> []" using f by (auto simp: entry_at_def)
  ultimately show thesis
    using that [OF _ f d(3)] assms d by (auto simp: record_artifact_def split: sum.splits prod.splits)
qed

lemma sidecar_paths:
  assumes "artifact \<noteq> []"
  shows "checksum_path artifact \<noteq> []" "provenance_path artifact \<noteq> []" "checksum_path artifact \<noteq> artifact"
    "provenance_path artifact \<noteq> artifact" "checksum_path artifact \<noteq> provenance_path artifact"
proof -
  obtain d n where a: "artifact = d @ [n]" using assms by (cases artifact rule: rev_cases) auto
  show "checksum_path artifact \<noteq> []" "provenance_path artifact \<noteq> []" "checksum_path artifact \<noteq> artifact"
    "provenance_path artifact \<noteq> artifact" "checksum_path artifact \<noteq> provenance_path artifact"
    by (simp_all add: a checksum_path_def provenance_path_def with_name_def path_name_def)
qed

lemma checksum_line_no_return:
  "CHR 0x0D \<notin> set (path_name artifact) \<Longrightarrow> CHR 0x0D \<notin> set (checksum_line (sha256_hex data) artifact)"
  using plain_no_return [OF sha256_hex_plain, of data] by (auto simp: checksum_line_def)

lemma digest_text: "utf8_text (sha256_hex data)"
  by (rule utf8_text_ascii) (use sha256_hex_plain [of data] in \<open>simp add: list_all_iff plain_char_def\<close>)

text \<open>The text of the provenance file.\<close>

definition provenance_text :: "build_record \<Rightarrow> path \<Rightarrow> bytes \<Rightarrow> string" where
  "provenance_text b artifact data =
     json_indented 0 (provenance_of b (path_name artifact) (sha256_hex data)) @ [CHR 0x0A]"

lemma provenance_text_plain: "list_all plain_char (provenance_text b artifact data)"
  using provenance_plain by (simp add: provenance_text_def plain_char_def)

lemma read_checksum:
  assumes "entry_at fs (checksum_path artifact) = Some (File (text_bytes (checksum_line (sha256_hex data) artifact)))"
    and "valid_utf8 (map of_char (checksum_line (sha256_hex data) artifact))" "CHR 0x0D \<notin> set (path_name artifact)"
  shows "read_text fs (checksum_path artifact) = Inr (checksum_line (sha256_hex data) artifact)"
  by (rule read_text_bytes [OF assms(1,2) checksum_line_no_return [OF assms(3)]])

lemma recorded_entries_verify:
  assumes "entry_at fs artifact = Some (File data)"
    and "entry_at fs (checksum_path artifact) = Some (File (text_bytes (checksum_line (sha256_hex data) artifact)))"
    and "entry_at fs (provenance_path artifact) = Some (File (text_bytes (provenance_text b artifact data)))"
    and "valid_utf8 (map of_char (checksum_line (sha256_hex data) artifact))" "CHR 0x0D \<notin> set (path_name artifact)"
    and "list_all (\<lambda>s. s \<noteq> []) [br_repository b, br_commit b, br_ref b, br_workflow b, br_run_id b, br_run_attempt b]"
    and "list_all utf8_text (build_texts b)" "utf8_text (path_name artifact)"
  shows "verify_record fs artifact = Inr (sorted_provenance b (path_name artifact) (sha256_hex data))"
proof -
  have "read_text fs (provenance_path artifact) = Inr (provenance_text b artifact data)"
    by (rule read_text_bytes [OF assms(3) plain_valid [OF provenance_text_plain] plain_no_return [OF provenance_text_plain]])
  moreover have "loads (provenance_text b artifact data) = Inr (sorted_provenance b (path_name artifact) (sha256_hex data))"
    unfolding provenance_text_def by (rule loads_provenance [OF assms(7,8) digest_text])
  ultimately show ?thesis
    using assms(1-3) read_checksum [OF assms(2,4,5)] verify_sorted_provenance [OF assms(6)]
    by (simp add: verify_record_def is_file_def sha256_file read_bytes_def)
qed

text \<open>
  C38. An artifact that was recorded verifies: the checksum and the provenance are read back as
  what was written, the artifact itself is untouched, and once its bytes have another digest the
  verification fails at the checksum.\<close>

theorem recorded_artifact_verifies:
  assumes "record_artifact artifact b fs = (Inr r, fs')" "list_all utf8_text (build_texts b)"
    and "utf8_text (path_name artifact)" "CHR 0x0D \<notin> set (path_name artifact)"
  shows "\<exists>data. entry_at fs artifact = Some (File data) \<and> entry_at fs' artifact = Some (File data) \<and>
    verify_record fs' artifact = Inr (sorted_provenance b (path_name artifact) (sha256_hex data)) \<and>
    (\<forall>other. sha256_hex other \<noteq> sha256_hex data \<longrightarrow>
       verify_record (alist_set artifact (File other) fs') artifact = Inl (ReleaseContractError ''checksum does not match''))"
proof -
  obtain data fs1 where d: "artifact \<noteq> []" "entry_at fs artifact = Some (File data)"
      "list_all (\<lambda>s. s \<noteq> []) [br_repository b, br_commit b, br_ref b, br_workflow b, br_run_id b, br_run_attempt b]"
      "write_text (checksum_path artifact) (checksum_line (sha256_hex data) artifact) fs = (Inr (), fs1)"
      "write_text (provenance_path artifact) (json_indented 0 (provenance_of b (path_name artifact) (sha256_hex data)) @ [CHR 0x0A]) fs1 =
        (Inr (), fs')"
    using assms(1) by (rule record_artifact_done)
  note p = sidecar_paths [OF d(1)]
  let ?line = "checksum_line (sha256_hex data) artifact"
  note w1 = write_text_done [OF d(4) p(1)] and w2 = write_text_done [OF d(5) p(2)]
  have at: "entry_at fs' artifact = Some (File data)" "entry_at fs' (checksum_path artifact) = Some (File (text_bytes ?line))"
    "entry_at fs' (provenance_path artifact) = Some (File (text_bytes (provenance_text b artifact data)))"
    using w1(1) w2(1) p d(2) by (simp_all add: provenance_text_def)
  have "verify_record fs' artifact = Inr (sorted_provenance b (path_name artifact) (sha256_hex data))"
    by (rule recorded_entries_verify [OF at w1(2) assms(4) d(3) assms(2,3)])
  moreover have "verify_record (alist_set artifact (File other) fs') artifact = Inl (ReleaseContractError ''checksum does not match'')"
    if "sha256_hex other \<noteq> sha256_hex data" for other
  proof -
    let ?g = "alist_set artifact (File other) fs'"
    have g: "entry_at ?g q = (if q = artifact then Some (File other) else entry_at fs' q)" for q
      using d(1) by (simp add: entry_at_def)
    have "?line \<noteq> checksum_line (sha256_hex other) artifact" using that by (simp add: checksum_line_def)
    then show ?thesis
      using g at p read_checksum [of ?g artifact data] w1(2) assms(4) by (simp add: verify_record_def is_file_def sha256_file read_bytes_def require_def)
  qed
  ultimately show ?thesis using d(2) at(1) by blast
qed

text \<open>A wheel in the directory \<open>dist\<close>.\<close>

definition sample_build :: build_record where
  "sample_build =
     \<lparr>br_repository = ''k3rnL/wyreplumber'', br_commit = ''0123'', br_ref = ''refs/tags/v0.1.0'', br_workflow = ''CI'',
       br_run_id = ''123'', br_run_attempt = ''1'', br_server_url = ''https://github.com'', br_target = ''cp312-x86_64'',
       br_python_abi = ''cp312'', br_architecture = ''x86_64''\<rparr>"

definition sample_files :: files where
  "sample_files = [([''dist''], Directory), ([''dist'', ''a.whl''], File [1, 2, 3])]"

lemma sample_record:
  obtains r fs' where "record_artifact [''dist'', ''a.whl''] sample_build sample_files = (Inr r, fs')"
proof -
  let ?p = "[''dist'', ''a.whl'']" and ?d = "sha256_hex [1, 2, 3]"
  have names: "checksum_path ?p = [''dist'', ''a.whl.sha256'']" "provenance_path ?p = [''dist'', ''a.whl.provenance.json'']"
    by (simp_all add: checksum_path_def provenance_path_def with_name_def path_name_def)
  have "list_all plain_char (checksum_line ?d ?p)"
    using sha256_hex_plain [of "[1, 2, 3]"] by (simp add: checksum_line_def path_name_def plain_char_def)
  then have v: "valid_utf8 (map of_char (checksum_line ?d ?p))" by (rule plain_valid)
  have "list_all plain_char (json_indented 0 (provenance_of sample_build (path_name ?p) ?d) @ [CHR 0x0A])"
    using provenance_plain by (simp add: plain_char_def)
  then have "valid_utf8 (map of_char (json_indented 0 (provenance_of sample_build (path_name ?p) ?d) @ [CHR 0x0A]))"
    by (rule plain_valid)
  moreover have "write_text (checksum_path ?p) (checksum_line ?d ?p) sample_files =
      (Inr (), alist_set (checksum_path ?p) (File (text_bytes (checksum_line ?d ?p))) sample_files)"
    using v by (simp add: write_text_def write_entry_def names is_dir_def entry_at_def sample_files_def)
  moreover have "is_file sample_files ?p" "sha256 sample_files ?p = Inr ?d"
    by (simp_all add: is_file_def entry_at_def sample_files_def sha256_file read_bytes_def)
  moreover have "is_dir (alist_set (checksum_path ?p) x sample_files) [''dist'']"
    "\<not> is_dir (alist_set (checksum_path ?p) x sample_files) (provenance_path ?p)" for x
    by (simp_all add: names is_dir_def entry_at_def sample_files_def)
  ultimately show thesis
    using that by (simp add: record_artifact_def write_text_def write_entry_def names sample_build_def del: append.simps)
qed

theorem recorded_artifact_verifies_witness:
  "\<exists>r fs'. record_artifact [''dist'', ''a.whl''] sample_build sample_files = (Inr r, fs') \<and>
     verify_record fs' [''dist'', ''a.whl''] = Inr (sorted_provenance sample_build ''a.whl'' (sha256_hex [1, 2, 3]))"
proof -
  obtain r fs' where r: "record_artifact [''dist'', ''a.whl''] sample_build sample_files = (Inr r, fs')"
    by (rule sample_record)
  have t: "list_all utf8_text (build_texts sample_build)"
    by (simp add: build_texts_def sample_build_def utf8_text_ascii)
  have "utf8_text (path_name [''dist'', ''a.whl''])" "CHR 0x0D \<notin> set (path_name [''dist'', ''a.whl''])"
    by (simp_all add: path_name_def utf8_text_ascii)
  from recorded_artifact_verifies [OF r t this] obtain data where
      d: "entry_at sample_files [''dist'', ''a.whl''] = Some (File data)"
      "verify_record fs' [''dist'', ''a.whl''] = Inr (sorted_provenance sample_build ''a.whl'' (sha256_hex data))"
    by (auto simp: path_name_def)
  then have "data = [1, 2, 3]" by (simp add: entry_at_def sample_files_def)
  with r d(2) show ?thesis by blast
qed

end
