(* ===== verification/ReleaseCollect.thy ===== *)
theory ReleaseCollect
  imports ReleaseRecord
begin

text \<open>
  The collection of a release: what \<open>collect_artifacts\<close> guarantees of the directory it fills.
\<close>

section \<open>What a check reads\<close>

lemma same_entry:
  assumes "entry_at fs' q = entry_at fs p"
  shows "is_file fs' q = is_file fs p" "read_bytes fs' q = read_bytes fs p" "read_text fs' q = read_text fs p"
    "sha256 fs' q = sha256 fs p"
  using assms by (simp_all add: is_file_def read_bytes_def read_text_def sha256_def)

definition artifact_files :: "path \<Rightarrow> path list" where
  "artifact_files a = [a, checksum_path a, provenance_path a]"

lemma sidecar_names:
  "path_name (checksum_path a) = path_name a @ ''.sha256''" "path_name (provenance_path a) = path_name a @ ''.provenance.json''"
  "checksum_path (d @ [path_name a]) = d @ [path_name (checksum_path a)]"
  "provenance_path (d @ [path_name a]) = d @ [path_name (provenance_path a)]" "path_name (d @ [n]) = n"
  by (simp_all add: checksum_path_def provenance_path_def with_name_def path_name_def)

lemma copied_source:
  assumes "\<forall>p \<in> set (artifact_files a). entry_at fs' (d @ [path_name p]) = entry_at fs p"
  shows "verify_source fs' source (d @ [path_name a]) = verify_source fs source a"
proof -
  note same = same_entry [of fs' "d @ [path_name p]" fs p for p]
  have e: "entry_at fs' (d @ [path_name a]) = entry_at fs a"
    "entry_at fs' (d @ [path_name (checksum_path a)]) = entry_at fs (checksum_path a)"
    "entry_at fs' (d @ [path_name (provenance_path a)]) = entry_at fs (provenance_path a)"
    using assms by (simp_all add: artifact_files_def)
  have "verify_record fs' (d @ [path_name a]) = verify_record fs a"
    unfolding verify_record_def verify_provenance_def checksum_line_def sidecar_names(3,4) same(1,2,4) [OF e(1)] same(1,3) [OF e(2)]
      same(1,3) [OF e(3)] sidecar_names(5) ..
  then show ?thesis by (simp add: verify_source_def)
qed

lemma copied_wheel:
  assumes "entry_at fs' q = entry_at fs p" "path_name q = path_name p" "project_version env fs' = project_version env fs"
  shows "verify_wheel env fs' q abi arch tag = verify_wheel env fs p abi arch tag"
    "verify_sdist env fs' q tag = verify_sdist env fs p tag"
  using same_entry [OF assms(1)] assms(2,3) by (simp_all add: verify_wheel_def verify_sdist_def)

section \<open>Copying\<close>

lemma map_in_set: "x \<in> set xs \<Longrightarrow> f x \<in> set (map f xs)"
  by simp

lemma disjoint_neq: "A \<inter> B = {} \<Longrightarrow> x \<in> A \<Longrightarrow> y \<in> B \<Longrightarrow> x \<noteq> y"
  by blast

definition outside :: "path \<Rightarrow> path \<Rightarrow> bool" where
  "outside d p \<longleftrightarrow> p \<noteq> [] \<and> butlast p \<noteq> d"

lemma outside_member: "outside d p \<Longrightarrow> p \<noteq> d @ [n]"
  by (auto simp: outside_def)

lemma outside_sidecars: "outside d a \<Longrightarrow> p \<in> set (artifact_files a) \<Longrightarrow> outside d p"
  by (auto simp: outside_def artifact_files_def checksum_path_def provenance_path_def with_name_def)

lemma copy_file_done:
  assumes "copy_file p (d @ [n]) fs = (Inr u, fs')" "\<not> is_dir fs (d @ [n])"
  shows "\<exists>b. entry_at fs p = Some (File b) \<and> (\<forall>q. entry_at fs' q = (if q = d @ [n] then Some (File b) else entry_at fs q))"
proof -
  obtain b where b: "read_bytes fs p = Inr b" "write_entry (d @ [n]) b fs = (Inr u, fs')"
    using assms by (auto simp: copy_file_def Let_def split: if_splits sum.splits)
  have "entry_at fs p = Some (File b)" using b(1) by (auto simp: read_bytes_def split: option.splits entry.splits)
  then show ?thesis using write_entry_done(1) [OF b(2)] by auto
qed

lemma copy_into_done:
  assumes "copy_into d ps fs = (Inr u, fs')" "\<forall>n. \<not> is_dir fs (d @ [n])" "\<forall>p \<in> set ps. outside d p" "distinct (map path_name ps)"
  shows "(\<forall>p \<in> set ps. entry_at fs' (d @ [path_name p]) = entry_at fs p) \<and>
    (\<forall>q. (\<forall>p \<in> set ps. q \<noteq> d @ [path_name p]) \<longrightarrow> entry_at fs' q = entry_at fs q) \<and> (\<forall>n. \<not> is_dir fs' (d @ [n]))"
  using assms
proof (induction ps arbitrary: fs)
  case (Cons p ps)
  obtain fs1 where c: "copy_file p (d @ [path_name p]) fs = (Inr (), fs1)" "copy_into d ps fs1 = (Inr u, fs')"
    using Cons.prems(1) by (auto split: prod.splits sum.splits)
  obtain b where b: "entry_at fs p = Some (File b)"
      "\<And>q. entry_at fs1 q = (if q = d @ [path_name p] then Some (File b) else entry_at fs q)"
    using copy_file_done [OF c(1)] Cons.prems(2) by blast
  have nd: "\<forall>n. \<not> is_dir fs1 (d @ [n])" using Cons.prems(2) b(2) by (simp add: is_dir_def)
  have ih: "\<forall>p \<in> set ps. entry_at fs' (d @ [path_name p]) = entry_at fs1 p"
    "\<forall>q. (\<forall>p \<in> set ps. q \<noteq> d @ [path_name p]) \<longrightarrow> entry_at fs' q = entry_at fs1 q" "\<forall>n. \<not> is_dir fs' (d @ [n])"
    using Cons.IH [OF c(2) nd] Cons.prems(3,4) by simp_all
  have out: "entry_at fs1 q = entry_at fs q" if "outside d q" for q using that b(2) outside_member by auto
  have new: "path_name q \<noteq> path_name p" if "q \<in> set ps" for q using Cons.prems(4) that by (metis distinct.simps(2) image_eqI list.set_map list.simps(9))
  have "entry_at fs' (d @ [path_name p]) = entry_at fs p"
  proof -
    have "\<forall>q \<in> set ps. d @ [path_name p] \<noteq> d @ [path_name q]" using new by fastforce
    then have "entry_at fs' (d @ [path_name p]) = entry_at fs1 (d @ [path_name p])" using ih(2) by blast
    then show ?thesis using b by simp
  qed
  moreover have "\<forall>q \<in> set ps. entry_at fs' (d @ [path_name q]) = entry_at fs q" using ih(1) out Cons.prems(3) by simp
  moreover have "entry_at fs' q = entry_at fs q" if "\<forall>p \<in> set (p # ps). q \<noteq> d @ [path_name p]" for q
    using that ih(2) b(2) by simp
  ultimately show ?case using ih(3) by simp
qed simp

lemma copy_artifacts_done:
  assumes "copy_artifacts d source as fs = (Inr u, fs')" "\<forall>n. \<not> is_dir fs (d @ [n])" "\<forall>a \<in> set as. outside d a"
    and "distinct (map path_name (concat (map artifact_files as)))"
  shows "(\<forall>a \<in> set as. verify_source fs' source (d @ [path_name a]) = Inr () \<and> entry_at fs' (d @ [path_name a]) = entry_at fs a) \<and>
    (\<forall>q. outside d q \<longrightarrow> entry_at fs' q = entry_at fs q) \<and>
    (\<forall>q. (\<forall>p \<in> set (concat (map artifact_files as)). q \<noteq> d @ [path_name p]) \<longrightarrow> entry_at fs' q = entry_at fs q)"
  using assms
proof (induction as arbitrary: fs)
  case (Cons a as)
  obtain fs1 where c: "verify_source fs source a = Inr ()" "copy_into d (artifact_files a) fs = (Inr (), fs1)"
      "copy_artifacts d source as fs1 = (Inr u, fs')"
    using Cons.prems(1) by (auto simp: artifact_files_def simp del: copy_into.simps split: prod.splits sum.splits)
  have files: "\<forall>p \<in> set (artifact_files a). outside d p" using outside_sidecars [of d a] Cons.prems(3) by auto
  have copied: "\<forall>p \<in> set (artifact_files a). entry_at fs1 (d @ [path_name p]) = entry_at fs p"
    "\<forall>q. (\<forall>p \<in> set (artifact_files a). q \<noteq> d @ [path_name p]) \<longrightarrow> entry_at fs1 q = entry_at fs q" "\<forall>n. \<not> is_dir fs1 (d @ [n])"
    using copy_into_done [OF c(2) Cons.prems(2) files] Cons.prems(4) by simp_all
  have out: "entry_at fs1 q = entry_at fs q" if "outside d q" for q using copied(2) outside_member [OF that] by blast
  have ih: "\<forall>b \<in> set as. verify_source fs' source (d @ [path_name b]) = Inr () \<and> entry_at fs' (d @ [path_name b]) = entry_at fs1 b"
    "\<forall>q. outside d q \<longrightarrow> entry_at fs' q = entry_at fs1 q"
    "\<forall>q. (\<forall>p \<in> set (concat (map artifact_files as)). q \<noteq> d @ [path_name p]) \<longrightarrow> entry_at fs' q = entry_at fs1 q"
    using Cons.IH [OF c(3) copied(3)] Cons.prems(3,4) by simp_all
  have kept: "entry_at fs' (d @ [path_name p]) = entry_at fs p" if p: "p \<in> set (artifact_files a)" for p
  proof -
    have disjoint: "set (map path_name (artifact_files a)) \<inter> set (map path_name (concat (map artifact_files as))) = {}"
      using Cons.prems(4) by (simp only: list.map concat.simps map_append distinct_append)
    have "path_name p \<noteq> path_name q" if "q \<in> set (concat (map artifact_files as))" for q
      by (rule disjoint_neq [OF disjoint map_in_set [OF p] map_in_set [OF that]])
    then have "\<forall>q \<in> set (concat (map artifact_files as)). d @ [path_name p] \<noteq> d @ [path_name q]" by simp
    then have "entry_at fs' (d @ [path_name p]) = entry_at fs1 (d @ [path_name p])" using ih(3) by blast
    then show ?thesis using copied(1) p by simp
  qed
  have "verify_source fs' source (d @ [path_name a]) = Inr ()" using copied_source [of a fs' d fs source] kept c(1) by simp
  moreover have "entry_at fs' (d @ [path_name a]) = entry_at fs a" using kept by (simp add: artifact_files_def)
  moreover have "entry_at fs' q = entry_at fs q" if "\<forall>p \<in> set (concat (map artifact_files (a # as))). q \<noteq> d @ [path_name p]" for q
  proof -
    have "\<forall>p \<in> set (concat (map artifact_files as)). q \<noteq> d @ [path_name p]" "\<forall>p \<in> set (artifact_files a). q \<noteq> d @ [path_name p]"
      using that by simp_all
    then show ?thesis using ih(3) copied(2) by metis
  qed
  ultimately show ?case using ih(1,2) out Cons.prems(3) by simp
qed simp

section \<open>The names of the artifacts\<close>

lemma suffix_last:
  assumes "path_suffix p = CHR ''.'' # s" "s \<noteq> []"
  shows "path_name p \<noteq> [] \<and> last (path_name p) = last s"
proof -
  obtain x xs where x: "rev s = x # xs" using assms(2) by (cases s rule: rev_cases) auto
  have "takeWhile (\<lambda>c. c \<noteq> CHR ''.'') (rev (path_name p)) = x # xs"
  proof -
    have "rev (takeWhile (\<lambda>c. c \<noteq> CHR ''.'') (rev (path_name p))) = s"
      using assms(1) by (simp add: path_suffix_def Let_def split: if_splits)
    then show ?thesis using x by (metis rev_rev_ident)
  qed
  then have "rev (path_name p) \<noteq> []" "hd (rev (path_name p)) = x" by (cases "rev (path_name p)"; auto split: if_splits)+
  moreover have "last s = x" using x by (metis hd_rev list.sel(1))
  ultimately show ?thesis by (simp add: hd_rev)
qed

lemma starts_with_hd: "starts_with (c # cs) s \<Longrightarrow> s \<noteq> [] \<and> hd s = c"
  by (cases s) auto

lemma artifact_last:
  "is_wheel p \<Longrightarrow> path_name p \<noteq> [] \<and> last (path_name p) = CHR ''l''"
  "is_sdist p \<Longrightarrow> path_name p \<noteq> [] \<and> last (path_name p) = CHR ''z''"
proof -
  show "is_wheel p \<Longrightarrow> path_name p \<noteq> [] \<and> last (path_name p) = CHR ''l''"
    using suffix_last [of p "''whl''"] by (simp add: is_wheel_def)
  show "is_sdist p \<Longrightarrow> path_name p \<noteq> [] \<and> last (path_name p) = CHR ''z''"
    using starts_with_hd [of "CHR ''z''" "''g.rat.''" "rev (path_name p)"] by (auto simp: is_sdist_def ends_with_def hd_rev)
qed

text \<open>No artifact has the name of a sidecar of another one.\<close>

lemma artifact_files_distinct:
  assumes "distinct (map path_name as)" "\<forall>a \<in> set as. is_wheel a \<or> is_sdist a"
  shows "distinct (map path_name (concat (map artifact_files as)))"
  using assms
proof (induction as)
  case (Cons a as)
  define ending where "ending n = (last n = CHR ''l'' \<or> last n = CHR ''z'')" for n :: string
  have e: "path_name p \<noteq> [] \<and> ending (path_name p)" if "p \<in> set (a # as)" for p
    using Cons.prems(2) artifact_last [of p] that by (auto simp: ending_def)
  have names: "map path_name (artifact_files p) = [path_name p, path_name p @ ''.sha256'', path_name p @ ''.provenance.json'']" for p
    by (simp add: artifact_files_def sidecar_names)
  have "set (map path_name (artifact_files a)) \<inter> set (map path_name (artifact_files p)) = {}" if p: "p \<in> set as" for p
  proof -
    have "path_name a \<noteq> path_name p" using Cons.prems(1) p by auto
    moreover have "\<not> ending (n @ ''.sha256'')" "\<not> ending (n @ ''.provenance.json'')" for n by (simp_all add: ending_def)
    moreover have "n @ ''.sha256'' \<noteq> m @ ''.provenance.json''" for n m :: string
      by (rule notI, drule arg_cong [where f = last]) simp
    ultimately show ?thesis using e [of a] e [of p] p unfolding names by auto metis+
  qed
  moreover have "distinct (map path_name (artifact_files a))" by (simp add: names)
  moreover have "distinct (map path_name (concat (map artifact_files as)))" using Cons by simp
  ultimately show ?case by (auto simp: disjoint_iff image_iff)
qed simp

section \<open>The directory that is filled\<close>

lemma make_dirs_done:
  "make_dirs ps fs = (Inr u, fs') \<Longrightarrow> entry_at fs q \<noteq> None \<Longrightarrow> entry_at fs' q = entry_at fs q"
proof (induction ps arbitrary: fs)
  case (Cons p ps)
  show ?case
  proof (cases "entry_at fs p")
    case None
    then have "entry_at (alist_set p Directory fs) q = entry_at fs q" using Cons.prems(2) by (auto simp: entry_at_def)
    then show ?thesis using Cons None by simp
  qed (use Cons in \<open>simp split: entry.splits\<close>)
qed simp

lemma children_none: "children fs d = [] \<Longrightarrow> entry_at fs (d @ [n]) = None"
proof (rule ccontr)
  assume c: "children fs d = []" and "entry_at fs (d @ [n]) \<noteq> None"
  then obtain e where "map_of fs (d @ [n]) = Some e" by (auto simp: entry_at_def)
  then have "d @ [n] \<in> set (map fst fs)" by (metis image_eqI list.set_map map_of_SomeD fst_conv)
  then have "d @ [n] \<in> set (children fs d)" by (simp add: children_def)
  then show False using c by simp
qed

lemma observed_member:
  assumes "observed_targets env fs tag wheels = Inr observed" "(abi, arch) \<in> set observed"
  shows "\<exists>w \<in> set wheels. verify_wheel env fs w abi arch tag = Inr ()"
  using assms unfolding observed_targets_def
proof (induction wheels arbitrary: observed)
  case (Cons w wheels)
  obtain a r t rest where h: "wheel_target (path_name w) = Some (a, r)" "verify_wheel env fs w a r tag = Inr t"
      "observed_targets env fs tag wheels = Inr rest" "observed = (a, r) # rest"
    using Cons.prems(1) by (auto simp: observed_targets_def elim!: rbind_InrE split: option.splits)
  then show ?case using Cons.IH [of rest] Cons.prems(2) by (auto simp: observed_targets_def)
qed simp

lemma verify_wheel_name:
  "verify_wheel env fs p abi arch tag = Inr u \<Longrightarrow> \<exists>version. project_version env fs = Inr version \<and>
     verify_tag version tag = Inr () \<and> path_name p = wheel_name version abi arch"
  "verify_sdist env fs p tag = Inr u \<Longrightarrow> \<exists>version. project_version env fs = Inr version \<and>
     verify_tag version tag = Inr () \<and> path_name p = sdist_name version"
  by (auto simp: verify_wheel_def verify_sdist_def elim!: rbind_InrE)

text \<open>What holds of an artifact that was released.\<close>

definition released_wheel :: "release_env \<Rightarrow> files \<Rightarrow> string \<Rightarrow> (string \<times> string) list \<Rightarrow> path \<Rightarrow> string \<Rightarrow> string \<Rightarrow> bool" where
  "released_wheel env fs tag source p abi arch \<longleftrightarrow>
     verify_wheel env fs p abi arch (Some tag) = Inr () \<and> verify_source fs source p = Inr ()"

definition released_sdist :: "release_env \<Rightarrow> files \<Rightarrow> string \<Rightarrow> (string \<times> string) list \<Rightarrow> path \<Rightarrow> bool" where
  "released_sdist env fs tag source p \<longleftrightarrow>
     verify_sdist env fs p (Some tag) = Inr () \<and> verify_source fs source p = Inr ()"

lemma verify_matrix_done:
  assumes "verify_matrix env fs tag artifacts = Inr u"
  obtains sdist where "distinct (map path_name artifacts)" "sdist \<in> set artifacts" "verify_sdist env fs sdist tag = Inr ()"
    "\<And>abi arch. abi \<in> set SUPPORTED_PYTHON_ABIS \<Longrightarrow> arch \<in> set SUPPORTED_ARCHITECTURES \<Longrightarrow>
       \<exists>w \<in> set artifacts. verify_wheel env fs w abi arch tag = Inr ()"
proof -
  obtain observed where o: "distinct (map path_name artifacts)" "length (filter is_sdist artifacts) = 1"
      "observed_targets env fs tag (filter is_wheel artifacts) = Inr observed" "set observed = set expected_targets"
      "verify_sdist env fs (hd (filter is_sdist artifacts)) tag = Inr ()"
    using assms by (auto simp: verify_matrix_def Let_def elim!: rbind_InrE)
  have "hd (filter is_sdist artifacts) \<in> set artifacts"
    using o(2) by (metis filter_is_subset hd_in_set length_0_conv subsetD zero_neq_one)
  moreover have "\<exists>w \<in> set artifacts. verify_wheel env fs w abi arch tag = Inr ()"
    if "abi \<in> set SUPPORTED_PYTHON_ABIS" "arch \<in> set SUPPORTED_ARCHITECTURES" for abi arch
  proof -
    have "(abi, arch) \<in> set observed" using that by (auto simp: o(4) expected_targets_def)
    then show ?thesis using observed_member [OF o(3)] by fastforce
  qed
  ultimately show thesis using that o(1,5) by blast
qed

lemma unchanged_version:
  assumes "project_version env fs = Inr version" "entry_at fs' (project_root env @ [''pyproject.toml'']) =
    entry_at fs (project_root env @ [''pyproject.toml''])"
  shows "project_version env fs' = Inr version"
  using assms same_entry(3) [OF assms(2)] by (simp add: project_version_def)

lemma version_file: "project_version env fs = Inr version \<Longrightarrow> entry_at fs (project_root env @ [''pyproject.toml'']) \<noteq> None"
  by (auto simp: project_version_def read_text_def read_bytes_def split: option.splits elim!: rbind_InrE)

text \<open>The steps of a collection that succeeds.\<close>

lemma collect_artifacts_steps:
  assumes "collect_artifacts env source destination tag commit repository fs = (Inr u, fs')"
  obtains fs1 where "mkdir_parents destination fs = (Inr (), fs1)" "\<forall>n. entry_at fs1 (destination @ [n]) = None"
    "verify_matrix env fs1 (Some tag) (downloaded_artifacts fs1 source) = Inr ()"
    "copy_artifacts destination (release_source repository commit tag) (downloaded_artifacts fs1 source) fs1 = (Inr u, fs')"
proof -
  obtain fs1 where f: "mkdir_parents destination fs = (Inr (), fs1)" "children fs1 destination = []"
      "verify_matrix env fs1 (Some tag) (downloaded_artifacts fs1 source) = Inr ()"
      "copy_artifacts destination (release_source repository commit tag) (downloaded_artifacts fs1 source) fs1 = (Inr u, fs')"
    using assms by (auto simp: collect_artifacts_def Let_def split: if_splits prod.splits sum.splits)
  show thesis using that [OF f(1) _ f(3,4)] children_none [OF f(2)] by blast
qed

lemma downloaded_outside:
  assumes "\<forall>n. entry_at fs (destination @ [n]) = None" "a \<in> set (downloaded_artifacts fs source)"
  shows "outside destination a" "is_wheel a \<or> is_sdist a"
proof -
  have f: "is_file fs a" "is_wheel a \<or> is_sdist a" using assms(2) by (auto simp: downloaded_artifacts_def)
  then have "a \<noteq> []" by (auto simp: is_file_def entry_at_def)
  moreover have "a \<noteq> destination @ [n]" for n using f(1) assms(1) by (auto simp: is_file_def)
  ultimately show "outside destination a" unfolding outside_def by (metis append_butlast_last_id)
qed (use assms(2) in \<open>auto simp: downloaded_artifacts_def\<close>)

text \<open>
  C39. When the collection of a release succeeds, the release directory holds, for every supported
  interpreter and architecture, the wheel of the project's version, and its source archive.  Each of
  them verifies where it lies: contents and version, checksum, and a provenance that names the
  repository, the commit and the tag.  Nothing that existed before was changed.\<close>

theorem collected_release_complete:
  assumes "collect_artifacts env source destination tag commit repository fs = (Inr u, fs')"
  shows "\<exists>version. project_version env fs' = Inr version \<and> verify_tag version (Some tag) = Inr () \<and>
    (\<forall>abi \<in> set SUPPORTED_PYTHON_ABIS. \<forall>arch \<in> set SUPPORTED_ARCHITECTURES.
       released_wheel env fs' tag (release_source repository commit tag) (destination @ [wheel_name version abi arch]) abi arch) \<and>
    released_sdist env fs' tag (release_source repository commit tag) (destination @ [sdist_name version]) \<and>
    (\<forall>q. entry_at fs q \<noteq> None \<longrightarrow> entry_at fs' q = entry_at fs q)"
proof -
  let ?src = "release_source repository commit tag"
  obtain fs1 where fs1: "mkdir_parents destination fs = (Inr (), fs1)" "\<forall>n. entry_at fs1 (destination @ [n]) = None"
      "verify_matrix env fs1 (Some tag) (downloaded_artifacts fs1 source) = Inr ()"
      "copy_artifacts destination ?src (downloaded_artifacts fs1 source) fs1 = (Inr u, fs')"
    by (rule collect_artifacts_steps [OF assms])
  let ?as = "downloaded_artifacts fs1 source"
  obtain sdist where m: "distinct (map path_name ?as)" "sdist \<in> set ?as" "verify_sdist env fs1 sdist (Some tag) = Inr ()"
      "\<And>abi arch. abi \<in> set SUPPORTED_PYTHON_ABIS \<Longrightarrow> arch \<in> set SUPPORTED_ARCHITECTURES \<Longrightarrow>
         \<exists>w \<in> set ?as. verify_wheel env fs1 w abi arch (Some tag) = Inr ()"
    using verify_matrix_done [OF fs1(3)] by blast
  have no_dir: "\<forall>n. \<not> is_dir fs1 (destination @ [n])" using fs1(2) by (simp add: is_dir_def)
  have out: "\<forall>a \<in> set ?as. outside destination a" and kind: "\<forall>a \<in> set ?as. is_wheel a \<or> is_sdist a"
    using downloaded_outside [OF fs1(2)] by blast+
  have copied: "\<forall>a \<in> set ?as. verify_source fs' ?src (destination @ [path_name a]) = Inr () \<and>
      entry_at fs' (destination @ [path_name a]) = entry_at fs1 a"
    "\<forall>q. (\<forall>p \<in> set (concat (map artifact_files ?as)). q \<noteq> destination @ [path_name p]) \<longrightarrow> entry_at fs' q = entry_at fs1 q"
    using copy_artifacts_done [OF fs1(4) no_dir out artifact_files_distinct [OF m(1) kind]] by blast+
  have kept: "entry_at fs' q = entry_at fs1 q" if "entry_at fs1 q \<noteq> None" for q
  proof -
    have "\<forall>p \<in> set (concat (map artifact_files ?as)). q \<noteq> destination @ [path_name p]" using that fs1(2) by metis
    then show ?thesis using copied(2) by blast
  qed
  obtain version where v: "project_version env fs1 = Inr version" "verify_tag version (Some tag) = Inr ()"
      "path_name sdist = sdist_name version"
    using verify_wheel_name(2) [OF m(3)] by blast
  have v': "project_version env fs' = Inr version" by (rule unchanged_version [OF v(1) kept [OF version_file [OF v(1)]]])
  have wheel: "released_wheel env fs' tag ?src (destination @ [wheel_name version abi arch]) abi arch"
    if "abi \<in> set SUPPORTED_PYTHON_ABIS" "arch \<in> set SUPPORTED_ARCHITECTURES" for abi arch
  proof -
    obtain w where w: "w \<in> set ?as" "verify_wheel env fs1 w abi arch (Some tag) = Inr ()" using m(4) \<open>abi \<in> _\<close> \<open>arch \<in> _\<close> by blast
    have n: "path_name w = wheel_name version abi arch" using verify_wheel_name(1) [OF w(2)] v(1) by simp
    have "verify_wheel env fs' (destination @ [path_name w]) abi arch (Some tag) = Inr ()"
      using copied_wheel(1) [of fs' "destination @ [path_name w]" fs1 w env] copied(1) w v(1) v' sidecar_names(5) by simp
    moreover have "verify_source fs' ?src (destination @ [path_name w]) = Inr ()" using copied(1) w(1) by blast
    ultimately show ?thesis using n by (simp add: released_wheel_def)
  qed
  have "verify_sdist env fs' (destination @ [path_name sdist]) (Some tag) = Inr ()"
    using copied_wheel(2) [of fs' "destination @ [path_name sdist]" fs1 sdist env] copied(1) m(2,3) v(1) v' sidecar_names(5) by simp
  moreover have "verify_source fs' ?src (destination @ [path_name sdist]) = Inr ()" using copied(1) m(2) by blast
  ultimately have "released_sdist env fs' tag ?src (destination @ [sdist_name version])"
    using v(3) by (simp add: released_sdist_def)
  moreover have "entry_at fs' q = entry_at fs q" if "entry_at fs q \<noteq> None" for q
    using make_dirs_done [OF fs1(1) [unfolded mkdir_parents_def] that] kept [of q] that by simp
  ultimately show ?thesis using v' v(2) wheel by blast
qed

section \<open>A release\<close>

text \<open>Artifacts that verify are copied without an error.\<close>

lemma copy_file_succeeds:
  assumes "is_file fs p" "is_dir fs d" "\<not> is_dir fs (d @ [n])" "p \<noteq> d @ [n]"
  shows "\<exists>fs'. copy_file p (d @ [n]) fs = (Inr (), fs')"
proof -
  obtain b where "read_bytes fs p = Inr b" using assms(1) by (auto simp: is_file_def read_bytes_def split: option.splits entry.splits)
  then show ?thesis using assms(2-4) by (simp add: copy_file_def write_entry_def)
qed

lemma copy_into_succeeds:
  assumes "\<forall>p \<in> set ps. is_file fs p \<and> outside d p" "is_dir fs d" "\<forall>n. \<not> is_dir fs (d @ [n])"
  shows "\<exists>fs'. copy_into d ps fs = (Inr (), fs')"
  using assms
proof (induction ps arbitrary: fs)
  case (Cons p ps)
  have p: "is_file fs p" "p \<noteq> d @ [path_name p]" using Cons.prems(1) outside_member by auto
  obtain fs1 where c: "copy_file p (d @ [path_name p]) fs = (Inr (), fs1)"
    using copy_file_succeeds [OF p(1) Cons.prems(2) _ p(2)] Cons.prems(3) by blast
  obtain b where b: "\<And>q. entry_at fs1 q = (if q = d @ [path_name p] then Some (File b) else entry_at fs q)"
    using copy_file_done [OF c] Cons.prems(3) by blast
  have "is_file fs1 q \<and> outside d q" if "q \<in> set ps" for q
    using Cons.prems(1) that b [of q] outside_member [of d q] by (auto simp: is_file_def)
  moreover have "is_dir fs1 d" "\<forall>n. \<not> is_dir fs1 (d @ [n])" using Cons.prems(2,3) b by (simp_all add: is_dir_def)
  ultimately show ?case using Cons.IH [of fs1] c by simp
qed simp

lemma verify_source_files:
  assumes "verify_source fs source a = Inr u" "p \<in> set (artifact_files a)"
  shows "is_file fs p"
  using assms by (auto simp: verify_source_def verify_record_def artifact_files_def elim!: rbind_InrE)

lemma unchanged_source:
  assumes "\<forall>p \<in> set (artifact_files a). entry_at fs' p = entry_at fs p" "a \<noteq> []"
  shows "verify_source fs' source a = verify_source fs source a"
proof -
  obtain d n where a: "a = d @ [n]" using assms(2) by (cases a rule: rev_cases) auto
  have "\<forall>p \<in> set (artifact_files a). d @ [path_name p] = p"
    by (simp add: artifact_files_def a checksum_path_def provenance_path_def with_name_def path_name_def)
  then show ?thesis using copied_source [of a fs' d fs source] assms(1) a by (simp add: path_name_def)
qed

lemma copy_artifacts_succeeds:
  assumes "\<forall>a \<in> set as. verify_source fs source a = Inr () \<and> outside d a" "is_dir fs d" "\<forall>n. \<not> is_dir fs (d @ [n])"
    and "distinct (map path_name (concat (map artifact_files as)))"
  shows "\<exists>fs'. copy_artifacts d source as fs = (Inr (), fs')"
  using assms
proof (induction as arbitrary: fs)
  case (Cons a as)
  have a: "verify_source fs source a = Inr ()" "outside d a" using Cons.prems(1) by simp_all
  have files: "\<forall>p \<in> set (artifact_files a). is_file fs p \<and> outside d p"
    using verify_source_files [OF a(1)] outside_sidecars [OF a(2)] by blast
  obtain fs1 where c: "copy_into d (artifact_files a) fs = (Inr (), fs1)"
    using copy_into_succeeds [OF files Cons.prems(2,3)] by blast
  have kept: "\<forall>q. (\<forall>p \<in> set (artifact_files a). q \<noteq> d @ [path_name p]) \<longrightarrow> entry_at fs1 q = entry_at fs q" "\<forall>n. \<not> is_dir fs1 (d @ [n])"
    using copy_into_done [OF c Cons.prems(3)] files Cons.prems(4) by simp_all
  have out: "entry_at fs1 q = entry_at fs q" if "outside d q" for q using kept(1) outside_member [OF that] by blast
  have "verify_source fs1 source b = Inr () \<and> outside d b" if "b \<in> set as" for b
  proof -
    have b: "outside d b" "verify_source fs source b = Inr ()" using Cons.prems(1) that by simp_all
    then have "\<forall>p \<in> set (artifact_files b). entry_at fs1 p = entry_at fs p" using outside_sidecars out by blast
    then show ?thesis using unchanged_source [of b fs1 fs source] b by (simp add: outside_def)
  qed
  moreover have "d \<noteq> d @ [n]" for n by simp
  then have "entry_at fs1 d = entry_at fs d" using kept(1) by blast
  then have "is_dir fs1 d" using Cons.prems(2) by (simp add: is_dir_def)
  ultimately obtain fs' where "copy_artifacts d source as fs1 = (Inr (), fs')"
    using Cons.IH [of fs1] kept(2) Cons.prems(4) by auto
  then show ?case using a(1) c by (simp add: artifact_files_def del: copy_into.simps)
qed simp

text \<open>A download directory with the six wheels and the source archive of version 0.1.0.\<close>

definition sample_matrix :: "(string \<times> string \<times> string) list" where
  "sample_matrix =
     [(''0'', ''cp312'', ''x86_64''), (''1'', ''cp312'', ''aarch64''), (''2'', ''cp313'', ''x86_64''),
      (''3'', ''cp313'', ''aarch64''), (''4'', ''cp314'', ''x86_64''), (''5'', ''cp314'', ''aarch64'')]"

definition sample_wheel :: "string \<times> string \<times> string \<Rightarrow> path" where
  "sample_wheel t = [''in'', fst t, wheel_name ''0.1.0'' (fst (snd t)) (snd (snd t))]"

definition sample_artifacts :: "(path \<times> bytes) list" where
  "sample_artifacts =
     map (\<lambda>t. (sample_wheel t, text_bytes (fst t))) sample_matrix @ [([''in'', ''6'', sdist_name ''0.1.0''], text_bytes ''6'')]"

definition sample_wheel_entries :: "string \<times> string \<times> string \<Rightarrow> (string \<times> bytes) list" where
  "sample_wheel_entries t =
     [(''wyreplumber-0.1.0.dist-info/METADATA'', []), (''wyreplumber/py.typed'', []), (''wyreplumber/_core.pyi'', []),
      (''wyreplumber/_core.cpython-'' @ drop 2 (fst (snd t)) @ ''-'' @ snd (snd t) @ ''-linux-gnu.so'', []),
      (''wyreplumber-0.1.0.dist-info/licenses/LICENSE'', [])]"

definition sample_sdist_members :: "(string \<times> bytes option) list" where
  "sample_sdist_members =
     (''wyreplumber-0.1.0/PKG-INFO'', Some []) # map (\<lambda>n. (''wyreplumber-0.1.0/'' @ n, Some [])) required_sources"

definition sample_release_env :: release_env where
  "sample_release_env =
     \<lparr>project_root = [],
       toml_loads = (\<lambda>text. Inr (JObject [(''project'', JObject [(''version'', JString ''0.1.0'')])])),
       zip_entries = (\<lambda>raw. case find (\<lambda>t. text_bytes (fst t) = raw) sample_matrix of
           Some t \<Rightarrow> Inr (sample_wheel_entries t) | None \<Rightarrow> Inl (OSError [])),
       tar_members = (\<lambda>raw. Inr sample_sdist_members),
       header_field = (\<lambda>raw field. if field = ''Name'' then Some ''wyreplumber'' else Some ''0.1.0''),
       installed = \<lparr>metadata_version_of = [], runtime_version = [], build_api_family = [], interpreter = (3, 12), machine = [],
         module_path = [], ldd_returncode = 0, ldd_stdout = []\<rparr>\<rparr>"

definition recorded_files :: "path \<times> bytes \<Rightarrow> files" where
  "recorded_files pd =
     [(fst pd, File (snd pd)),
      (checksum_path (fst pd), File (text_bytes (checksum_line (sha256_hex (snd pd)) (fst pd)))),
      (provenance_path (fst pd), File (text_bytes (provenance_text sample_build (fst pd) (snd pd))))]"

definition sample_download :: files where
  "sample_download =
     [([''in''], Directory), ([''pyproject.toml''], File [])] @ concat (map recorded_files sample_artifacts)"

definition sample_ready :: files where
  "sample_ready = sample_download @ [([''out''], Directory)]"

lemma recorded_paths: "map fst (concat (map recorded_files pds)) = concat (map artifact_files (map fst pds))"
  by (induction pds) (simp_all add: recorded_files_def artifact_files_def)

lemma ready_paths:
  "map fst sample_ready = [[''in''], [''pyproject.toml'']] @ concat (map artifact_files (map fst sample_artifacts)) @ [[''out'']]"
  by (simp add: sample_ready_def sample_download_def recorded_paths del: map_map)

lemma ready_distinct: "distinct (map fst sample_ready)"
  unfolding ready_paths by code_simp

lemma ready_entry: "(q, e) \<in> set sample_ready \<Longrightarrow> q \<noteq> [] \<Longrightarrow> entry_at sample_ready q = Some e"
  using ready_distinct by (simp add: entry_at_def)

lemma ready_artifacts:
  "filter (\<lambda>p. is_wheel p \<or> is_sdist p) (below sample_ready [''in'']) = map fst sample_artifacts"
  "children sample_ready [''out''] = []"
  unfolding below_def children_def ready_paths by code_simp+

lemma sample_sorted: "sorted (map fst sample_artifacts)"
  by code_simp

lemma lower_text_id:
  assumes "list_all (\<lambda>c. of_char c < (128 :: nat) \<and> \<not> (65 \<le> (of_char c :: nat) \<and> (of_char c :: nat) \<le> 90)) s"
  shows "lower_text s = s"
proof -
  have e: "utf8_encode (map of_char s) = s" using assms by (induction s) (simp_all add: utf8_encode_def utf8_char_def)
  have "list_all code_point (map of_char s)" using assms by (auto simp: list_all_iff code_point_def)
  then have "utf8_decode s = map of_char s" using utf8_decode_encode [of "map of_char s"] e by simp
  moreover have "map lower_point (map of_char s) = map of_char s"
    by (rule map_idI) (use assms in \<open>auto simp: list_all_iff lower_point_def\<close>)
  ultimately show ?thesis using e by (simp add: lower_text_def del: map_map)
qed

lemma sample_metadata: "metadata_version sample_release_env raw = Inr ''0.1.0''"
proof -
  have "str_replace ''_'' ''-'' (lower_text ''wyreplumber'') = PROJECT_NAME"
    by (simp add: lower_text_id str_replace_absent PROJECT_NAME_def)
  then show ?thesis by (simp add: metadata_version_def sample_release_env_def)
qed

lemma sample_targets:
  "list_all (\<lambda>t. wheel_target (path_name (sample_wheel t)) = Some (snd t) \<and> fst (snd t) \<in> set SUPPORTED_PYTHON_ABIS \<and>
     snd (snd t) \<in> set SUPPORTED_ARCHITECTURES) sample_matrix"
  by code_simp

lemma sample_sdist_ok: "verify_sdist_archive sample_release_env ''0.1.0'' sample_sdist_members = Inr ()"
proof -
  have "list_all (\<lambda>name. (PROJECT_NAME @ ''-'' @ ''0.1.0'' @ ''/'') @ name \<in> set (map fst sample_sdist_members)) required_sources"
    "map_of (rev sample_sdist_members) ((PROJECT_NAME @ ''-'' @ ''0.1.0'' @ ''/'') @ ''PKG-INFO'') = Some (Some [])"
    by code_simp+
  then show ?thesis using sample_metadata by (simp add: verify_sdist_archive_def Let_def)
qed

lemma sample_wheel_parts:
  assumes "t \<in> set sample_matrix"
  shows "verify_wheel_archive sample_release_env ''0.1.0'' (fst (snd t)) (snd (snd t)) (sample_wheel_entries t) = Inr ()"
    "zip_entries sample_release_env (text_bytes (fst t)) = Inr (sample_wheel_entries t)"
proof -
  have "list_all (\<lambda>t. let names = map fst (sample_wheel_entries t); abi = fst (snd t) in
      filter (ends_with ''.dist-info/METADATA'') names = [''wyreplumber-0.1.0.dist-info/METADATA''] \<and>
      list_all (\<lambda>name. name \<in> set names) [PROJECT_NAME @ ''/py.typed'', PROJECT_NAME @ ''/_core.pyi''] \<and>
      filter (\<lambda>name. starts_with (PROJECT_NAME @ ''/_core.'') name \<and> ends_with ''.so'' name) names = [names ! 3] \<and>
      str_contains (''cpython-'' @ (if starts_with ''cp'' abi then drop 2 abi else abi) @ ''-'' @ snd (snd t) @ ''-linux-gnu.so'') (names ! 3) \<and>
      list_ex (ends_with ''.dist-info/licenses/LICENSE'') names) sample_matrix"
    by code_simp
  then show "verify_wheel_archive sample_release_env ''0.1.0'' (fst (snd t)) (snd (snd t)) (sample_wheel_entries t) = Inr ()"
    using assms sample_metadata by (simp add: list_all_iff verify_wheel_archive_def Let_def)
  have "list_all (\<lambda>t. find (\<lambda>t'. text_bytes (fst t') = text_bytes (fst t)) sample_matrix = Some t) sample_matrix" by code_simp
  then show "zip_entries sample_release_env (text_bytes (fst t)) = Inr (sample_wheel_entries t)"
    using assms by (simp add: sample_release_env_def list_all_iff)
qed

lemma ready_recorded:
  assumes "(p, data) \<in> set sample_artifacts" "(q, e) \<in> set (recorded_files (p, data))"
  shows "entry_at sample_ready q = Some e"
proof -
  have "(q, e) \<in> set sample_ready" using assms by (force simp: sample_ready_def sample_download_def)
  moreover have "q \<noteq> []" using assms by (auto simp: recorded_files_def sample_artifacts_def sample_wheel_def checksum_path_def
    provenance_path_def with_name_def)
  ultimately show ?thesis by (rule ready_entry)
qed

lemma ready_version: "project_version sample_release_env sample_ready = Inr ''0.1.0''"
proof -
  have "entry_at sample_ready [''pyproject.toml''] = Some (File [])" by (simp add: entry_at_def sample_ready_def sample_download_def)
  then have "read_text sample_ready [''pyproject.toml''] = Inr []"
    by (simp add: read_text_def read_bytes_def valid_utf8_def universal_newlines_def Let_def)
  moreover have "three_part ''0.1.0''" by code_simp
  ultimately show ?thesis by (simp add: project_version_def sample_release_env_def json_item_def)
qed

lemma ready_tag: "verify_tag ''0.1.0'' (Some ''v0.1.0'') = Inr ()"
  by (simp add: verify_tag_def)

lemma ready_wheel:
  assumes "t \<in> set sample_matrix"
  shows "verify_wheel sample_release_env sample_ready (sample_wheel t) (fst (snd t)) (snd (snd t)) (Some ''v0.1.0'') = Inr ()"
proof -
  have "(sample_wheel t, text_bytes (fst t)) \<in> set sample_artifacts" using assms by (simp add: sample_artifacts_def)
  from ready_recorded [OF this, of "sample_wheel t" "File (text_bytes (fst t))"]
  have "entry_at sample_ready (sample_wheel t) = Some (File (text_bytes (fst t)))" by (simp add: recorded_files_def)
  moreover have "path_name (sample_wheel t) = wheel_name ''0.1.0'' (fst (snd t)) (snd (snd t))"
    by (simp add: sample_wheel_def path_name_def)
  ultimately show ?thesis
    using assms sample_targets sample_wheel_parts [OF assms] ready_version ready_tag
    by (simp add: verify_wheel_def list_all_iff is_file_def read_bytes_def)
qed

lemma ready_sdist: "verify_sdist sample_release_env sample_ready [''in'', ''6'', sdist_name ''0.1.0''] (Some ''v0.1.0'') = Inr ()"
proof -
  let ?p = "[''in'', ''6'', sdist_name ''0.1.0'']"
  have "(?p, text_bytes ''6'') \<in> set sample_artifacts" by (simp add: sample_artifacts_def)
  from ready_recorded [OF this, of ?p "File (text_bytes ''6'')"]
  have "entry_at sample_ready ?p = Some (File (text_bytes ''6''))" by (simp add: recorded_files_def)
  then show ?thesis
    using sample_sdist_ok ready_version ready_tag
    by (simp add: verify_sdist_def is_file_def read_bytes_def path_name_def sample_release_env_def)
qed

lemma ready_downloaded: "downloaded_artifacts sample_ready [''in''] = map fst sample_artifacts"
proof -
  have "is_file sample_ready p" if p: "p \<in> set (map fst sample_artifacts)" for p
  proof -
    obtain data where "(p, data) \<in> set sample_artifacts" using p by auto
    then have "entry_at sample_ready p = Some (File data)" by (rule ready_recorded) (simp add: recorded_files_def)
    then show ?thesis by (simp add: is_file_def)
  qed
  then have "filter (is_file sample_ready) (map fst sample_artifacts) = map fst sample_artifacts" by (simp add: filter_id_conv)
  moreover have "filter (\<lambda>p. is_file sample_ready p \<and> (is_wheel p \<or> is_sdist p)) (below sample_ready [''in'']) =
      filter (is_file sample_ready) (filter (\<lambda>p. is_wheel p \<or> is_sdist p) (below sample_ready [''in'']))"
    by (simp add: conj_commute)
  ultimately show ?thesis
    using sorted_sort_id [OF sample_sorted] by (simp add: downloaded_artifacts_def ready_artifacts(1))
qed

lemma sample_kinds:
  "filter is_wheel (map fst sample_artifacts) = map sample_wheel sample_matrix"
  "filter is_sdist (map fst sample_artifacts) = [[''in'', ''6'', sdist_name ''0.1.0'']]"
  "length (map fst sample_artifacts) = 7" "distinct (map path_name (map fst sample_artifacts))"
  by code_simp+

lemma ready_matrix:
  "verify_matrix sample_release_env sample_ready (Some ''v0.1.0'') (map fst sample_artifacts) = Inr ()"
proof -
  let ?observe = "\<lambda>wheel. case wheel_target (path_name wheel) of
      None \<Rightarrow> Inl (ReleaseContractError ''wheel target cannot be parsed'')
    | Some (python_abi, architecture) \<Rightarrow>
        rbind (verify_wheel sample_release_env sample_ready wheel python_abi architecture (Some ''v0.1.0''))
          (\<lambda>_. Inr (python_abi, architecture))"
  have "?observe (sample_wheel t) = Inr (snd t)" if "t \<in> set sample_matrix" for t
    using ready_wheel [OF that] sample_targets that by (cases t) (simp add: list_all_iff)
  then have "traverse ?observe (map sample_wheel sample_matrix) = Inr (map snd sample_matrix)"
    by (rule traverse_map_Inr)
  moreover have "set (map snd sample_matrix) = set expected_targets" "length sample_matrix = 6" by code_simp+
  ultimately show ?thesis
    using sample_kinds ready_sdist unfolding verify_matrix_def observed_targets_def Let_def by simp
qed

lemma ready_source:
  assumes "p \<in> set (map fst sample_artifacts)"
  shows "verify_source sample_ready (release_source ''k3rnL/wyreplumber'' ''0123'' ''v0.1.0'') p = Inr () \<and> outside [''out''] p"
proof -
  obtain data where d: "(p, data) \<in> set sample_artifacts" using assms by auto
  note e = ready_recorded [OF d]
  have name: "list_all plain_char (path_name p)"
  proof -
    have "list_all (\<lambda>p. list_all (\<lambda>c. c \<noteq> CHR 0x0D \<and> (of_char c :: nat) < 128) (path_name p)) (map fst sample_artifacts)"
      by code_simp
    then show ?thesis using assms by (auto simp: list_all_iff plain_char_def)
  qed
  then have line: "valid_utf8 (map of_char (checksum_line (sha256_hex data) p))"
    using sha256_hex_plain [of data] by (intro plain_valid) (simp add: checksum_line_def plain_char_def)
  have "utf8_text (path_name p)" using name by (intro utf8_text_ascii) (simp add: list_all_iff plain_char_def)
  then have "verify_record sample_ready p = Inr (sorted_provenance sample_build (path_name p) (sha256_hex data))"
    by (intro recorded_entries_verify e line plain_no_return [OF name])
      (simp_all add: recorded_files_def build_texts_def sample_build_def utf8_text_ascii)
  then have "verify_source sample_ready (release_source ''k3rnL/wyreplumber'' ''0123'' ''v0.1.0'') p = Inr ()"
    by (simp add: verify_source_def sorted_provenance_def json_item_def text_object_def is_text_object_def release_source_def
      sample_build_def)
  moreover have "outside [''out''] p" using assms by (auto simp: outside_def sample_artifacts_def sample_wheel_def)
  ultimately show ?thesis by blast
qed

theorem collected_release_complete_witness:
  "\<exists>fs'. collect_artifacts sample_release_env [''in''] [''out''] ''v0.1.0'' ''0123'' ''k3rnL/wyreplumber'' sample_download = (Inr (), fs') \<and>
     verify_wheel sample_release_env fs' [''out'', wheel_name ''0.1.0'' ''cp314'' ''aarch64''] ''cp314'' ''aarch64'' (Some ''v0.1.0'') = Inr ()"
proof -
  let ?src = "release_source ''k3rnL/wyreplumber'' ''0123'' ''v0.1.0''"
  have "[''out''] \<notin> set (map fst sample_download)" using ready_distinct by (simp add: sample_ready_def)
  then have out: "entry_at sample_download [''out''] = None" "[''out''] \<notin> fst ` set sample_download"
    by (simp_all add: entry_at_def map_of_eq_None_iff)
  then have m: "mkdir_parents [''out''] sample_download = (Inr (), sample_ready)"
    by (simp add: mkdir_parents_def sample_ready_def alist_set_fresh)
  have "is_dir sample_ready [''out'']" using ready_entry [of "[''out'']" Directory] by (simp add: is_dir_def sample_ready_def)
  moreover have "\<forall>n. \<not> is_dir sample_ready ([''out''] @ [n])"
    using children_none [OF ready_artifacts(2)] by (simp add: is_dir_def)
  moreover have "\<forall>a \<in> set (map fst sample_artifacts). is_wheel a \<or> is_sdist a"
    using arg_cong [OF ready_artifacts(1), of set] by auto
  ultimately obtain fs' where c: "copy_artifacts [''out''] ?src (map fst sample_artifacts) sample_ready = (Inr (), fs')"
    using copy_artifacts_succeeds [of "map fst sample_artifacts" sample_ready ?src "[''out'']"] ready_source
      artifact_files_distinct [OF sample_kinds(4)] by blast
  have "is_dir sample_download [''in'']" by (simp add: is_dir_def entry_at_def sample_download_def)
  then have r: "collect_artifacts sample_release_env [''in''] [''out''] ''v0.1.0'' ''0123'' ''k3rnL/wyreplumber'' sample_download =
      (Inr (), fs')"
    using m c ready_matrix ready_downloaded ready_artifacts(2) by (simp add: collect_artifacts_def del: copy_artifacts.simps)
  obtain version where v: "verify_tag version (Some ''v0.1.0'') = Inr ()"
      "\<forall>abi \<in> set SUPPORTED_PYTHON_ABIS. \<forall>arch \<in> set SUPPORTED_ARCHITECTURES.
         released_wheel sample_release_env fs' ''v0.1.0'' ?src ([''out''] @ [wheel_name version abi arch]) abi arch"
    using collected_release_complete [OF r] by blast
  have "version = ''0.1.0''" using v(1) by (simp add: verify_tag_def)
  moreover have "''cp314'' \<in> set SUPPORTED_PYTHON_ABIS" "''aarch64'' \<in> set SUPPORTED_ARCHITECTURES"
    by (simp_all add: SUPPORTED_PYTHON_ABIS_def SUPPORTED_ARCHITECTURES_def)
  ultimately have "released_wheel sample_release_env fs' ''v0.1.0'' ?src ([''out''] @ [wheel_name ''0.1.0'' ''cp314'' ''aarch64''])
      ''cp314'' ''aarch64''"
    using v(2) by blast
  with r show ?thesis unfolding released_wheel_def append.simps by blast
qed

end
