(* ===== verification/Client.thy ===== *)
theory Client
  imports Projection ParameterControls
begin

text \<open>
  The other methods of \<open>RuntimeClient\<close> in \<open>src/examples/runtime_orchestration.py\<close>: its
  constructor, which checks the contract and takes the first snapshot, and \<open>set_volume\<close>, which
  issues a control at the position of the projection and takes a new snapshot.  After each of
  them the client's projection is accounted for by what was drained.
\<close>

definition RuntimeClient_init :: "'w client_runtime \<Rightarrow> 'w \<Rightarrow> ((exn + client) \<times> 'w) option" where
  "RuntimeClient_init env w =
     (case require_orchestration_contract (PInt 1) (PInt 1) of
        Inl e \<Rightarrow> Some (Inl e, w)
      | Inr contract \<Rightarrow>
          (case resnapshot env w of
             None \<Rightarrow> None
           | Some (Inl e, w1) \<Rightarrow> Some (Inl e, w1)
           | Some (Inr (s, p), w1) \<Rightarrow> Some (Inr \<lparr>client_snapshot = s, client_projection = p\<rparr>, w1)))"

text \<open>The default of \<open>timeout\<close>, the float 5.0.\<close>

definition default_timeout :: pyval where
  "default_timeout = PFloat 0x4014000000000000"

definition set_volume ::
    "'w client_runtime \<Rightarrow> client \<Rightarrow> pyval \<Rightarrow> pyval \<Rightarrow> 'w \<Rightarrow> ((exn + MutationOutcome) \<times> client \<times> 'w) option" where
  "set_volume env c node_id volume w =
     (case set_node_volume (runtime.truncate env) node_id volume (PInt (pj_generation (client_projection c)))
             (PInt (pj_sequence (client_projection c))) default_timeout PNone \<lparr>env_state = w, calls = []\<rparr> of
        None \<Rightarrow> None
      | Some (Inl e, w1) \<Rightarrow> Some (Inl e, c, env_state w1)
      | Some (Inr outcome, w1) \<Rightarrow>
          (case resnapshot env (env_state w1) of
             None \<Rightarrow> None
           | Some (Inl e, w2) \<Rightarrow> Some (Inl e, c, w2)
           | Some (Inr (s, p), w2) \<Rightarrow> Some (Inr outcome, \<lparr>client_snapshot = s, client_projection = p\<rparr>, w2)))"

text \<open>The events drained in the last turn of a new snapshot, which reached the world \<open>w\<close>.\<close>

definition resnapshot_from :: "'w client_runtime \<Rightarrow> 'w \<Rightarrow> client \<Rightarrow> 'w \<Rightarrow> bool" where
  "resnapshot_from env before c w \<longleftrightarrow>
     (\<exists>start captured events. (continuity_lost env)\<^sup>*\<^sup>* before start \<and>
        env_capture env start = (Inr (client_snapshot c), captured) \<and> env_drain env captured = (Inr events, w) \<and>
        projects (client_snapshot c) (fresh (snapshot_position (client_snapshot c)) events) (client_projection c))"

lemma resnapshot_client:
  assumes "resnapshot env before = Some (Inr (s, p), w)"
    and "\<forall>w s. fst (env_capture env w) = Inr s \<longrightarrow> RuntimeSnapshot_ok s"
  shows "resnapshot_from env before \<lparr>client_snapshot = s, client_projection = p\<rparr> w"
  using resnapshot_projects [OF assms] by (simp add: resnapshot_from_def)

text \<open>A new client, and a client after a control, hold the snapshot they took last; the control is the
  one at the position of the projection.\<close>

lemma init_client:
  assumes "RuntimeClient_init env w = Some (Inr c, w')"
    and "\<forall>w s. fst (env_capture env w) = Inr s \<longrightarrow> RuntimeSnapshot_ok s"
  shows "resnapshot_from env w c w'"
  using assms(1) resnapshot_client [OF _ assms(2)]
  by (auto simp: RuntimeClient_init_def split: sum.splits option.splits)

lemma set_volume_client:
  assumes "set_volume env c node_id volume w = Some (r, c', w')"
    and "\<forall>w s. fst (env_capture env w) = Inr s \<longrightarrow> RuntimeSnapshot_ok s"
  shows "case r of
      Inl e \<Rightarrow> c' = c
    | Inr outcome \<Rightarrow>
        \<exists>w1. set_node_volume (runtime.truncate env) node_id volume (PInt (pj_generation (client_projection c)))
               (PInt (pj_sequence (client_projection c))) default_timeout PNone \<lparr>env_state = w, calls = []\<rparr> = Some (Inr outcome, w1) \<and>
             resnapshot_from env (env_state w1) c' w'"
  using assms(1) resnapshot_client [OF _ assms(2)]
  by (fastforce simp: set_volume_def split: sum.splits option.splits prod.splits)

end
