(* ===== verification/Spec2Isabelle.thy ===== *)
theory Spec2Isabelle
  imports Registry MetadataControls ManagedLinks Projection Contract RouteSafety JsonLoads Normalize SnapshotPayload DefaultEcho PlainJson AudioEcho EventPayload EventProjection StreamRefinement Utils ReleaseCollect Client
begin

text \<open>
  Verification of the runtime layer of wyreplumber, the part that turns what PipeWire reports
  into validated values, delivers changes of them in order, and carries out mutations whose
  effect is confirmed by observation.  The native extension (\<open>native/\<close>), the clock, the
  generator of request identifiers and \<open>time.sleep\<close> are parameters: a record of functions that
  thread an arbitrary world.

  The theories, in the order the code uses them:

    \<^item> \<open>Prelude\<close>: exceptions as a datatype, results as sums, and shared string and list facts.
    \<^item> \<open>Floats\<close>: Python floats as 64-bit words in binary64, with exact comparison, rounding and
      the conversions to and from binary32.
    \<^item> \<open>Timestamps\<close>: the calendar, ISO timestamps and their rendering in UTC (microseconds).
    \<^item> \<open>Immutable\<close> (\<open>runtime/_immutable.py\<close>): the Python values that occur, \<open>freeze_json\<close>,
      \<open>thaw_json\<close>, \<open>FrozenDict\<close>.
    \<^item> \<open>Validation\<close>, \<open>Models\<close>, \<open>Snapshots\<close>, \<open>Serialization\<close>, \<open>Registry\<close>
      (\<open>runtime/models.py\<close>): the validation helpers; one record per dataclass \<open>X\<close>, with
      \<open>mk_X\<close> its \<open>__post_init__\<close>, \<open>init_X\<close> its keyword constructor, \<open>X_fields\<close> the attributes
      \<open>to_dict\<close> reads and \<open>X_ok\<close> the invariant of its instances; the snapshot, its indexes and
      its unresolved relationships; \<open>to_dict\<close> and \<open>from_dict\<close>; the table of value classes.
    \<^item> \<open>Events\<close>, \<open>EventQueue\<close> (\<open>runtime/events.py\<close>, \<open>runtime/queue.py\<close>): events and the
      continuity check; the queue, whose operations are atomic under its condition lock, and the
      step relation that interleaves producers and consumers.
    \<^item> \<open>Mutations\<close>, \<open>Controls\<close>, \<open>Execution\<close> (\<open>runtime/controls.py\<close>): the values of the mutation
      contract, the operations up to \<open>_execute_confirmed_mutation\<close>, and what holds of them.
    \<^item> \<open>Json\<close>: \<open>str.encode\<close> and \<open>json.dumps\<close> of a string, as the metadata controls use them.
    \<^item> \<open>Requests\<close>, \<open>MetadataControls\<close>, \<open>ManagedLinks\<close> (\<open>runtime/controls.py\<close>): the controls a
      client calls.  \<open>Requests\<close> holds the pieces they share (predicates, identifiers, the
      submission of a request), \<open>MetadataControls\<close> the default node, the target of a stream and
      the plain metadata entries, \<open>ManagedLinks\<close> the creation and removal of links with an
      ownership token.
    \<^item> \<open>Conversions\<close>: the conversions of Python's built-in types (\<open>int\<close>, \<open>float\<close>, \<open>bytes\<close>, \<open>list\<close>,
      \<open>str\<close>), dictionaries with any keys, and UTF-8 decoding with replacement.
    \<^item> \<open>SpaTables\<close>, \<open>SpaObjects\<close> (\<open>_spa_pod_types.py\<close>): the constants, enumerations, property tables
      and classes of SPA objects; \<open>SpaPodObject\<close> and its methods.
    \<^item> \<open>SpaBytes\<close>, \<open>SpaShapes\<close>, \<open>SpaParse\<close>, \<open>SpaBuild\<close> (\<open>spa_pod.py\<close>): little-endian fields and
      the frame of a pod; the shapes of properties; \<open>parse_spa_pod\<close>, which terminates on all data
      because a child declares fewer bytes than its container; \<open>build_spa_pod\<close>, whose recursion is
      bounded by \<open>limit\<close>.
    \<^item> \<open>SpaFramed\<close>, \<open>SpaRoundtrip\<close>, \<open>SpaTyped\<close>, \<open>SpaAccess\<close>: building and parsing are inverse, first
      for the pods without children, then for containers and for objects with a class; and what
      the mapping methods of an object guarantee.
    \<^item> \<open>ParameterControls\<close> (\<open>runtime/controls.py\<close>): \<open>set_runtime_parameter\<close>, the audio properties and
      the mixer of a node, the selection of a device profile and of a device route.
      \<open>SpaConstruct\<close>: the pods these controls build with keyword arguments, and what they are read
      as; \<open>SelectionSafety\<close>, \<open>RouteSafety\<close>: when a selection is dispatched and confirmed.
    \<^item> \<open>Normalize\<close> (\<open>runtime/normalize.py\<close>): parsed parameters as audio, format, profile and route
      values, and everything else as plain JSON.
    \<^item> \<open>JsonLoads\<close>, \<open>SnapshotPayload\<close> (\<open>runtime/snapshot.py\<close>): \<open>json.loads\<close>, and the decoding of the
      payload the native connection captures, record by record, into a snapshot; \<open>EventPayload\<close>
      (\<open>runtime/events.py\<close>): the decoding of the events it publishes, with the same record decoders.
      \<open>DefaultEcho\<close> and \<open>AudioEcho\<close> relate the defaults and the audio properties a client writes to
      those a snapshot shows, \<open>PlainJson\<close> says what is made of arbitrary detached data, and
      \<open>EventProjection\<close> what decoded events do to a projection.
    \<^item> \<open>StreamRefinement\<close>: the abstract stream that the event queue refines.
    \<^item> \<open>Utils\<close> (\<open>utils.py\<close>): \<open>WPUtils\<close> over the native proxies, which are abstract types.
    \<^item> \<open>ReleaseFiles\<close>, \<open>ReleaseContract\<close>, \<open>ReleaseRecord\<close>, \<open>ReleaseCollect\<close>
      (\<open>scripts/release_contract.py\<close>): files as a table of paths, with SHA-256 and indented JSON; the
      operations of the script; what is recorded of an artifact, and what a collected release holds.
    \<^item> \<open>Contract\<close> (\<open>runtime/contract.py\<close>): the version check.
    \<^item> \<open>Projection\<close>, \<open>Client\<close> (\<open>examples/runtime_orchestration.py\<close>): the reference consumer, and its
      constructor and control.
    \<^item> this theory: the properties that span components.

  What the lemmas show.  Constructors establish and preserve well-formedness (\<open>X_ok\<close>), and
  every value class round-trips through its dictionary form.  A snapshot is coherent exactly
  when its relationships resolve.  The queue refines a gapless stream of events: no change is
  lost silently, through to the projection a consumer keeps.  A mutation is dispatched at most
  once, only from a fresh preflight snapshot, it is confirmed only by an observed snapshot,
  and every execution returns, with an outcome or with an exception its last native call explains.
  A consumer that resnapshots loses none of the events it drains.  What the controls request is what their callers
  asked for: a confirmed default node is the one the metadata names, a confirmed managed link
  is the only one its token claims, and only a link with the caller's token is removed.
  A value written as an SPA pod is read back as what it stands for, wherever the pod stands in
  the data, and an object of a class is restored with its properties, flags and keys.  The pods
  the controls write say what their confirmations wait for, in single precision, and a profile
  or a route is only selected while the device offers the one the caller saw; a node that reports
  such a pod confirms the request.  A decoded snapshot
  relates its devices and nodes to exactly the profiles, routes and ports it contains, whereas
  a decoded event carries none of these relations.  A recorded artifact verifies until its digest
  changes, and a collected release is complete, each of its artifacts with the recorded provenance.

  Bounds and fuel.  Nothing is truncated: integers are unbounded as in Python, floats keep
  their bits.  The polling loop of an execution is a partial function; it is proved to return
  when the clock reads valid times and the sleep moves the clock (\<open>reads_clock\<close>).  The pod
  builder recurses at most \<open>limit\<close> deep, which stands for the interpreter's recursion limit: a
  value nested less deep than that is built (\<open>spa_roundtrip\<close>).  \<open>json_loads\<close> starts its mutual
  recursion with twice the length of the text, which is proved to be enough (\<open>json_loads_fuel\<close>).  \<open>text_of\<close> is \<open>str(x)\<close> of the
  objects whose text the model does not spell out.

  Not modelled: the text of exception messages beyond their fixed parts, object identity and
  hashing, the limit of the interpreter on the nesting of JSON texts, predicates on other
  attributes of the defaults than the fields of their dictionary, predicates given as an iterable
  that is no sequence, sequences of classes other than \<open>list\<close> and \<open>tuple\<close>, the native extension,
  the package files that only import and re-export names, and the scripts that build the
  extension and start the container of the tests.  The release script reads TOML, ZIP, TAR and mail
  headers and asks the installation through parameters (\<open>release_env\<close>); links, permissions and times
  of its files are left out.
\<close>

section \<open>From the queue to the projection\<close>

text \<open>
  C1. A consumer that starts from a snapshot and applies what the queue gives it never misses a
  change silently.  Whatever the interleaving of producer and consumers, the delivered events
  apply one after the other, and the projection is the snapshot with those events; the only
  event that can be refused is a last one that demands a new snapshot, and it is refused with
  a continuity error.
\<close>

theorem stream_to_projection:
  assumes "queue_reachable q" "RuntimeSnapshot_ok s" "base q = (snap_generation s, snap_sequence s)"
  shows "\<exists>run tail p. delivered q = run @ tail \<and> fold_events run (projection_from_snapshot s) = Inr p \<and>
    projection_position p = (snap_generation s, snap_sequence s + int (length run)) \<and>
    objects_map p = fold event_effect run (objects_map (projection_from_snapshot s)) \<and>
    (tail = [] \<or> (\<exists>d reason. tail = [d] \<and> ev_requires_resnapshot d \<and>
       projection_apply d p = Inl (RuntimeContinuityError reason (pj_generation p) (pj_sequence p + 1))))"
proof -
  let ?p = "projection_from_snapshot s"
  have p: "projection_ok ?p" "projection_position ?p = base q"
    using projection_from_snapshot_ok [OF assms(2)] assms(3) by simp_all
  have accepted: "fold_events run ?p = Inr p' \<and> projection_ok p' \<and>
      projection_position p' = (snap_generation s, snap_sequence s + int (length run)) \<and>
      objects_map p' = fold event_effect run (objects_map ?p)"
    if "projection_stream.accept_all ?p run = Some p'" for run p'
    using fold_events_accepted [OF p(1) that] accept_all_effect [OF p(1) that] projection_stream.accept_all_position [OF that]
      p(2) assms(3) by simp
  from delivered_applied [OF assms(1) p] show ?thesis
  proof cases
    case (1 p')
    with accepted [OF 1] show ?thesis by (intro exI [of _ "delivered q"] exI [of _ "[]"] exI [of _ p']) simp
  next
    case (2 run d p')
    have "\<not> follows d (projection_position p')" using 2(3) by (simp add: follows_def)
    then show ?thesis
      using accepted [OF 2(2)] 2 projection_apply_refused [of p' d]
      by (intro exI [of _ run] exI [of _ "[d]"] exI [of _ p']) simp
  qed
qed

theorem stream_to_projection_witness:
  "\<exists>run tail p. [sample_event 6] = run @ tail \<and>
     fold_events run (projection_from_snapshot (sample_snapshot 5 [])) = Inr p \<and>
     projection_position p = (1, 5 + int (length run))"
proof -
  let ?q = "sample_system [sample_event 6] ((sample_queue [sample_event 6])\<lparr>q_events := []\<rparr>)"
  have base: "base ?q = (snap_generation (sample_snapshot 5 []), snap_sequence (sample_snapshot 5 []))"
    by (simp add: sample_system_def)
  have ok: "RuntimeSnapshot_ok (sample_snapshot 5 [])" by simp
  obtain run tail p where "delivered ?q = run @ tail" "fold_events run (projection_from_snapshot (sample_snapshot 5 [])) = Inr p"
      "projection_position p = (snap_generation (sample_snapshot 5 []), snap_sequence (sample_snapshot 5 []) + int (length run))"
    using stream_to_projection [OF sample_delivered ok base] by blast
  then show ?thesis by (intro exI [of _ run] exI [of _ tail] exI [of _ p]) (simp add: sample_system_def)
qed

section \<open>What the native dispatcher receives\<close>

text \<open>
  The attributes of a request that its classes do not constrain: mappings that do not spell
  an envelope, and expected values that are themselves restored from their encoding.
\<close>

definition plain_target :: "MutationTargetValue \<Rightarrow> bool" where
  "plain_target t \<longleftrightarrow> envelope_free (PFrozen (tg_selector t))"

definition plain_predicate :: "ConfirmationPredicateValue \<Rightarrow> bool" where
  "plain_predicate p \<longleftrightarrow> plain_target (cp_target p) \<and> genuine value_types (cp_expected p)"

definition plain_request :: "MutationRequest \<Rightarrow> bool" where
  "plain_request rq \<longleftrightarrow>
     plain_target (rq_target rq) \<and> envelope_free (PFrozen (rq_payload rq)) \<and>
     list_all plain_predicate (rq_confirmation_predicates rq)"

lemma genuine_identity [simp]: "genuine reg (identity_obj i)" "plain (identity_obj i) = identity_obj i"
  by (cases i; simp)+

lemma genuine_target:
  assumes "MutationTargetValue_ok t" "plain_target t"
  shows "genuine value_types (MutationTargetValue_obj t)"
proof -
  have "map_of value_types ''mutation_target'' = Some MutationTargetValue_class" by (simp add: value_types_def)
  then show ?thesis
    using assms init_MutationTargetValue_obj [OF assms(1)]
    by (simp add: MutationTargetValue_obj_def MutationTargetValue_class_def constructor_def MutationTargetValue_fields_def
      MutationTargetValue_ok_def plain_target_def mapping_ok_def)
qed

lemma genuine_predicate:
  assumes "ConfirmationPredicateValue_ok p" "plain_predicate p"
  shows "genuine value_types (ConfirmationPredicateValue_obj p)"
proof -
  have "map_of value_types ''confirmation_predicate'' = Some ConfirmationPredicateValue_class" by (simp add: value_types_def)
  moreover have "genuine value_types (opt_obj PFloat (cp_tolerance p))"
    using assms(1) by (cases "cp_tolerance p") (auto simp: ConfirmationPredicateValue_ok_def tolerance_ok_def float_ok_def split: if_splits)
  ultimately show ?thesis
    using assms init_ConfirmationPredicateValue_obj [OF assms(1)] genuine_target [of "cp_target p"]
    by (simp add: ConfirmationPredicateValue_obj_def ConfirmationPredicateValue_class_def constructor_def
      ConfirmationPredicateValue_fields_def ConfirmationPredicateValue_ok_def plain_predicate_def tuple_obj_def list_all_iff)
qed

lemma genuine_request:
  assumes "MutationRequest_ok rq" "plain_request rq"
  shows "genuine value_types (MutationRequest_obj rq)"
proof -
  have "map_of value_types ''mutation_request'' = Some MutationRequest_class" by (simp add: value_types_def)
  moreover have "genuine value_types (opt_obj PInt (rq_expected_sequence rq))" by (cases "rq_expected_sequence rq") simp_all
  moreover have "list_all (\<lambda>x. plain x = x \<and> genuine value_types x)
      (map ConfirmationPredicateValue_obj (rq_confirmation_predicates rq))"
    using assms genuine_predicate
    by (simp add: list_all_iff MutationRequest_ok_def plain_request_def) (simp add: ConfirmationPredicateValue_obj_def)
  ultimately show ?thesis
    using assms init_MutationRequest_obj [OF assms(1)] genuine_target [of "rq_target rq"]
    by (simp add: MutationRequest_obj_def MutationRequest_class_def constructor_def MutationRequest_fields_def
      MutationRequest_ok_def plain_request_def tuple_obj_def mapping_ok_def)
qed

text \<open>
  C5. The payload an execution dispatches says exactly what was asked: decoded by the contract it
  is the caller's request, except that the expected sequence is the one of the preflight
  snapshot the dispatch was allowed from.
\<close>

theorem dispatched_payload:
  assumes "execute_confirmed_mutation env rq preflight w = Some (r, w')" "MutationRequest_ok rq" "plain_request rq"
    and "\<forall>s. preflight = Some s \<longrightarrow> RuntimeSnapshot_ok s"
    and "\<forall>v s. fst (env_capture env v) = Inr s \<longrightarrow> RuntimeSnapshot_ok s"
    and "calls w' = calls w @ log" "payload \<in> set (dispatches log)"
  shows "\<exists>s. dispatchable rq s \<and>
    runtime_value_from_dict value_types payload = Inr (MutationRequest_obj (dispatched_request rq s)) \<and>
    rq_expected_sequence (dispatched_request rq s) = map_option (\<lambda>_. snap_sequence s) (rq_expected_sequence rq)"
proof -
  obtain s p where s: "dispatchable rq s" "0 \<le> snap_sequence s"
      "serialize (MutationRequest_obj (dispatched_request rq s)) = Inr payload"
    using dispatched_from [OF assms(1,2,4,5,6,7)] by blast
  have "MutationRequest_ok (dispatched_request rq s)" using dispatched_request_ok [OF assms(2) s(2)] .
  moreover have "plain_request (dispatched_request rq s)"
    using assms(3) by (simp add: plain_request_def dispatched_request_def split: option.split)
  ultimately have "genuine value_types (MutationRequest_obj (dispatched_request rq s))" by (rule genuine_request)
  then have "runtime_value_from_dict value_types payload = Inr (MutationRequest_obj (dispatched_request rq s))"
    using registry.roundtrip [of "''mutation_request''" "MutationRequest_fields (dispatched_request rq s)"] s(3)
    by (auto simp: MutationRequest_obj_def simp del: genuine.simps)
  then show ?thesis using s(1) by (intro exI [of _ s]) (simp add: dispatched_request_def split: option.split)
qed

text \<open>The example request is dispatched, because its link is not there yet.\<close>

lemma sample_dispatched:
  "\<exists>r w' log payload. execute_confirmed_mutation sample_env (sample_request PRESENT) None sample_world = Some (r, w') \<and>
     calls w' = calls sample_world @ log \<and> payload \<in> set (dispatches log)"
proof -
  let ?rq = "sample_request PRESENT" and ?s = "sample_snapshot 6 []"
  let ?rq' = "dispatched_request ?rq ?s"
  have ok: "MutationRequest_ok ?rq'" by (rule dispatched_request_ok) simp_all
  have now: "env_clock sample_env (0, b) = (Datetime 0 (Some 0), (0, b))" for b
    by (simp add: sample_env_def max_us_def us_per_day_def)
  have ck: "clock_ok (Datetime 0 (Some 0))" using clock_ok_sample by (simp add: sample_now_def)
  have alive: "is_expired sample_env ?rq PNone w = (Inr False, w)" if "env_state w = (0, b)" for w b
  proof -
    have "w\<lparr>env_state := (0, b)\<rparr> = w" using that by (cases w) simp
    then show ?thesis
      using is_expired_clock [of sample_env w ?rq] that now ck by (simp add: env_time_def utc_instant_def)
  qed
  define w1 where "w1 = sample_world\<lparr>calls := [Captured (Inr ?s)]\<rparr>"
  have capture: "capture_snapshot_call sample_env sample_world = (Inr ?s, w1)"
    by (simp add: capture_snapshot_call_def sample_env_def sample_world_def w1_def)
  have none: "confirmations_from_snapshot ?s [sample_predicate PRESENT] = Inr []"
    using sample_observation [of 6 "[]"] sample_managed [of 6 "[]"] by (simp add: sample_matches)
  have "execute_confirmed_mutation sample_env ?rq None sample_world = dispatch_and_confirm sample_env ?rq' w1"
    using alive [of sample_world False] alive [of w1 False] capture none with_sequence_eq [of ?rq 6]
    by (simp add: execute_confirmed_mutation_def check_preflight_def sample_world_def w1_def dispatched_request_def)
  moreover obtain payload where payload: "serialize (MutationRequest_obj ?rq') = Inr payload"
    using sample_serialized serialize_dispatched by blast
  obtain tk where tk: "mutation_dispatch_ticket_from_payload sample_ticket = Inr tk" "tk_disposition tk = TicketReady"
    using sample_ticket_ready by blast
  define w2 where "w2 = w1\<lparr>env_state := (0, True), calls := calls w1 @ [Dispatched payload (Inr sample_ticket)]\<rparr>"
  have "dispatch_runtime_mutation sample_env ?rq' w1 = (Inr tk, w2)"
    using payload tk by (simp add: dispatch_runtime_mutation_def abind_def alift_def dispatch_call_def sample_env_def
      sample_world_def w1_def w2_def)
  then have "dispatch_and_confirm sample_env ?rq' w1 = confirmation_loop sample_env ?rq' [] w2"
    using tk by (simp add: dispatch_and_confirm_def)
  moreover obtain r w' where run: "confirmation_loop sample_env ?rq' [] w2 = Some (r, w')"
    using confirmation_loop_returns [OF _ ok] sample_clock [of PRESENT] by (metis dispatched_request_deadline)
  moreover obtain log where "calls w' = calls w2 @ log"
    using confirmation_loop_sound [OF run ok] by blast
  ultimately show ?thesis
    by (intro exI [of _ r] exI [of _ w'] exI [of _ "[Captured (Inr ?s), Dispatched payload (Inr sample_ticket)] @ log"]
      exI [of _ payload]) (simp add: w1_def w2_def sample_world_def)
qed

theorem dispatched_payload_witness:
  "\<exists>payload s. runtime_value_from_dict value_types payload =
       Inr (MutationRequest_obj (dispatched_request (sample_request PRESENT) s)) \<and>
     dispatchable (sample_request PRESENT) s"
proof -
  obtain r w' log payload where ex: "execute_confirmed_mutation sample_env (sample_request PRESENT) None sample_world = Some (r, w')"
      "calls w' = calls sample_world @ log" "payload \<in> set (dispatches log)"
    using sample_dispatched by blast
  have ok: "MutationRequest_ok (sample_request PRESENT)" by simp
  have plain: "plain_request (sample_request PRESENT)"
    by (simp add: plain_request_def plain_predicate_def plain_target_def sample_request_def sample_predicate_def sample_target_def)
  have caps: "\<forall>v s. fst (env_capture sample_env v) = Inr s \<longrightarrow> RuntimeSnapshot_ok s"
    using sample_captures by (simp add: valid_captures_def)
  show ?thesis using dispatched_payload [OF ex(1) ok plain _ caps ex(2,3)] by auto
qed

end
